(* ===== verification/Chaos_Prelude.thy ===== *)
theory Chaos_Prelude
  imports Complex_Main "HOL-Library.Char_ord" "HOL-Library.List_Lexorder" "HOL-Library.Sublist"
begin

text \<open>
  What the other theories share: Python's exceptions as values, the strings, dictionaries and
  dynamically typed values the program handles, and the lemmas about them that the component
  proofs use.

  \<^item> A call that may raise returns \<open>pyexn + 'a\<close>. \<open>Exn\<close> is an instance of a subclass of
    \<open>Exception\<close> (class name and message); \<open>BaseExn\<close> is one that \<open>except Exception\<close> does not
    catch (\<open>CancelledError\<close>, \<open>KeyboardInterrupt\<close>).
  \<^item> A \<open>dict\<close> is an association list in insertion order with distinct keys; assigning to an
    existing key keeps its position, as CPython does.
  \<^item> Strings are lists of characters and the code's strings are taken to be ASCII, so that
    \<open>lower\<close> touches the letters A to Z only.
  \<^item> A Python \<open>float\<close> is a real number: comparisons are exact, rounding of arithmetic and the
    special values are not modelled. Printing a float in full (\<open>repr\<close>) is an argument of the
    definitions that need it; \<open>.2f\<close> printing is defined here.
\<close>

named_theorems py_simps \<open>equations of the Python string, dictionary and number helpers\<close>
named_theorems res_simps \<open>equations of results and their sequencing\<close>

section \<open>Exceptions and results\<close>

datatype pyexn = Exn string string | BaseExn string

type_synonym 'a res = "pyexn + 'a"

primrec is_exception :: "pyexn \<Rightarrow> bool" where
  "is_exception (Exn c m) = True"
| "is_exception (BaseExn c) = False"

definition res_bind :: "'a res \<Rightarrow> ('a \<Rightarrow> 'b res) \<Rightarrow> 'b res" where
  "res_bind r f = (case r of Inl e \<Rightarrow> Inl e | Inr a \<Rightarrow> f a)"

lemma res_bind_simps [simp, res_simps]:
  "res_bind (Inl e) f = Inl e"
  "res_bind (Inr a) f = f a"
  by (simp_all add: res_bind_def)

lemma res_bind_Inr_iff: "res_bind r f = Inr b \<longleftrightarrow> (\<exists>a. r = Inr a \<and> f a = Inr b)"
  by (cases r) simp_all

fun res_map :: "('a \<Rightarrow> 'b res) \<Rightarrow> 'a list \<Rightarrow> 'b list res" where
  "res_map f [] = Inr []"
| "res_map f (x # xs) = res_bind (f x) (\<lambda>y. res_bind (res_map f xs) (\<lambda>ys. Inr (y # ys)))"

lemma res_map_length: "res_map f xs = Inr ys \<Longrightarrow> length ys = length xs"
  by (induction xs arbitrary: ys) (auto simp: res_bind_Inr_iff)

section \<open>Strings\<close>

definition lower_char :: "char \<Rightarrow> char" where
  "lower_char c =
     (if CHR ''A'' \<le> c \<and> c \<le> CHR ''Z'' then char_of (of_char c + 32 :: nat) else c)"

definition lower :: "string \<Rightarrow> string" where
  "lower s = map lower_char s"

lemma length_lower [simp]: "length (lower s) = length s"
  by (simp add: lower_def)

lemma lower_Nil [simp]: "lower [] = []"
  by (simp add: lower_def)

text \<open>\<open>pat in s\<close> on strings.\<close>

fun str_in :: "string \<Rightarrow> string \<Rightarrow> bool" where
  "str_in pat [] = (pat = [])"
| "str_in pat (c # cs) = (prefix pat (c # cs) \<or> str_in pat cs)"

lemma str_in_Nil [simp]: "str_in [] s"
  by (cases s) simp_all

lemma str_in_iff: "str_in pat s \<longleftrightarrow> (\<exists>us vs. s = us @ pat @ vs)"
proof (induction s)
  case Nil
  then show ?case by auto
next
  case (Cons c cs)
  show ?case
  proof
    assume "str_in pat (c # cs)"
    then consider "prefix pat (c # cs)" | "str_in pat cs" by auto
    then show "\<exists>us vs. c # cs = us @ pat @ vs"
    proof cases
      case 1
      then obtain vs where "c # cs = pat @ vs" by (auto simp: prefix_def)
      then have "c # cs = [] @ pat @ vs" by simp
      then show ?thesis by blast
    next
      case 2
      then obtain us vs where "cs = us @ pat @ vs" using Cons.IH by blast
      then have "c # cs = (c # us) @ pat @ vs" by simp
      then show ?thesis by blast
    qed
  next
    assume "\<exists>us vs. c # cs = us @ pat @ vs"
    then obtain us vs where eq: "c # cs = us @ pat @ vs" by blast
    show "str_in pat (c # cs)"
    proof (cases us)
      case Nil
      with eq have "prefix pat (c # cs)" by (simp only: prefix_def) auto
      then show ?thesis by simp
    next
      case (Cons u us')
      with eq have "cs = us' @ pat @ vs" by simp
      then have "str_in pat cs" using Cons.IH by blast
      then show ?thesis by simp
    qed
  qed
qed

lemma str_in_infix [intro]: "str_in pat (us @ pat @ vs)"
  by (auto simp: str_in_iff)

fun join :: "string \<Rightarrow> string list \<Rightarrow> string" where
  "join sep [] = []"
| "join sep [x] = x"
| "join sep (x # y # zs) = x @ sep @ join sep (y # zs)"

text \<open>\<open>s.replace(a, b)\<close> for a single character \<open>a\<close>.\<close>

definition replace_char :: "char \<Rightarrow> string \<Rightarrow> string \<Rightarrow> string" where
  "replace_char a b s = concat (map (\<lambda>c. if c = a then b else [c]) s)"

lemma replace_char_Nil [simp]: "replace_char a b [] = []"
  by (simp add: replace_char_def)

lemma replace_char_removes: "a \<notin> set b \<Longrightarrow> a \<notin> set (replace_char a b s)"
  by (auto simp: replace_char_def)

text \<open>\<open>s.split(c)\<close> for a single character, and \<open>s.split()\<close> on white space.\<close>

fun split_char :: "char \<Rightarrow> string \<Rightarrow> string list" where
  "split_char a [] = [[]]"
| "split_char a (c # cs) =
     (if c = a then [] # split_char a cs
      else (case split_char a cs of [] \<Rightarrow> [[c]] | w # ws \<Rightarrow> (c # w) # ws))"

lemma split_char_nonempty [simp]: "split_char a s \<noteq> []"
  by (induction s) (auto split: list.splits)

definition is_space :: "char \<Rightarrow> bool" where
  "is_space c \<longleftrightarrow> (let n = of_char c :: nat in n = 32 \<or> (9 \<le> n \<and> n \<le> 13) \<or> (28 \<le> n \<and> n \<le> 31))"

definition strip :: "string \<Rightarrow> string" where
  "strip s = rev (dropWhile is_space (rev (dropWhile is_space s)))"

fun split_ws_aux :: "string \<Rightarrow> string \<Rightarrow> string list" where
  "split_ws_aux w [] = (if w = [] then [] else [rev w])"
| "split_ws_aux w (c # cs) =
     (if is_space c then (if w = [] then split_ws_aux [] cs else rev w # split_ws_aux [] cs)
      else split_ws_aux (c # w) cs)"

definition split_ws :: "string \<Rightarrow> string list" where
  "split_ws s = split_ws_aux [] s"

definition newline :: char where "newline = CHR 0x0A"

definition is_line_break :: "char \<Rightarrow> bool" where
  "is_line_break c \<longleftrightarrow> (let n = of_char c :: nat in (10 \<le> n \<and> n \<le> 13) \<or> (28 \<le> n \<and> n \<le> 30))"

text \<open>\<open>text.splitlines()\<close>.\<close>

fun splitlines_aux :: "string \<Rightarrow> string \<Rightarrow> string list" where
  "splitlines_aux w [] = (if w = [] then [] else [w])"
| "splitlines_aux w (c # cs) =
     (if is_line_break c
      then w # splitlines_aux [] (if c = CHR 0x0D \<and> cs \<noteq> [] \<and> hd cs = newline then tl cs else cs)
      else splitlines_aux (w @ [c]) cs)"

definition splitlines :: "string \<Rightarrow> string list" where
  "splitlines s = splitlines_aux [] s"

section \<open>Numbers in strings\<close>

definition digit_char :: "nat \<Rightarrow> char" where
  "digit_char d = char_of (48 + d)"

fun nat_str :: "nat \<Rightarrow> string" where
  "nat_str n = (if n < 10 then [digit_char n] else nat_str (n div 10) @ [digit_char (n mod 10)])"

declare nat_str.simps [simp del]

lemma nat_str_nonempty [simp]: "nat_str n \<noteq> []"
  by (subst nat_str.simps) simp

definition int_str :: "int \<Rightarrow> string" where
  "int_str i = (if i < 0 then ''-'' @ nat_str (nat (- i)) else nat_str (nat i))"

text \<open>Round half to even, the rule of Python's fixed-point float formatting.\<close>

definition round_even :: "real \<Rightarrow> int" where
  "round_even x =
     (let f = \<lfloor>x\<rfloor>; d = x - of_int f
      in if d < 1 / 2 then f else if d > 1 / 2 then f + 1 else if even f then f else f + 1)"

definition fmt2 :: "real \<Rightarrow> string" where
  "fmt2 x =
     (let n = round_even (\<bar>x\<bar> * 100); q = n div 100; r = n mod 100
      in (if x < 0 then ''-'' else []) @ int_str q @ ''.'' @
         (if r < 10 then ''0'' else []) @ int_str r)"

text \<open>\<open>{x:.1f}\<close>.\<close>

definition fmt1 :: "real \<Rightarrow> string" where
  "fmt1 x =
     (let n = round_even (\<bar>x\<bar> * 10)
      in (if x < 0 then ''-'' else []) @ int_str (n div 10) @ ''.'' @ int_str (n mod 10))"

section \<open>Dictionaries\<close>

type_synonym ('k, 'v) dict = "('k \<times> 'v) list"

fun dict_set :: "'k \<Rightarrow> 'v \<Rightarrow> ('k, 'v) dict \<Rightarrow> ('k, 'v) dict" where
  "dict_set k v [] = [(k, v)]"
| "dict_set k v ((k', v') # d) = (if k' = k then (k, v) # d else (k', v') # dict_set k v d)"

definition dict_get :: "('k, 'v) dict \<Rightarrow> 'k \<Rightarrow> 'v option" where
  "dict_get d k = map_of d k"

definition dict_pop :: "'k \<Rightarrow> ('k, 'v) dict \<Rightarrow> ('k, 'v) dict" where
  "dict_pop k d = filter (\<lambda>(k', v). k' \<noteq> k) d"

definition dict_has :: "('k, 'v) dict \<Rightarrow> 'k \<Rightarrow> bool" where
  "dict_has d k \<longleftrightarrow> k \<in> set (map fst d)"

definition dict_update :: "('k, 'v) dict \<Rightarrow> ('k, 'v) dict \<Rightarrow> ('k, 'v) dict" where
  "dict_update d e = foldl (\<lambda>acc (k, v). dict_set k v acc) d e"

definition dict_wf :: "('k, 'v) dict \<Rightarrow> bool" where
  "dict_wf d \<longleftrightarrow> distinct (map fst d)"

lemma dict_get_Nil [simp]: "dict_get [] k = None"
  by (simp add: dict_get_def)

lemma dict_get_Cons: "dict_get ((k, v) # d) k' = (if k' = k then Some v else dict_get d k')"
  by (simp add: dict_get_def)

lemma dict_get_set: "dict_get (dict_set k v d) k' = (if k' = k then Some v else dict_get d k')"
  by (induction k v d rule: dict_set.induct) (auto simp: dict_get_def)

lemma dict_get_set_same [simp]: "dict_get (dict_set k v d) k = Some v"
  by (simp add: dict_get_set)

lemma dict_get_set_other [simp]: "k' \<noteq> k \<Longrightarrow> dict_get (dict_set k v d) k' = dict_get d k'"
  by (simp add: dict_get_set)

lemma keys_dict_set: "set (map fst (dict_set k v d)) = insert k (set (map fst d))"
  by (induction k v d rule: dict_set.induct) auto

lemma dict_wf_set [intro]: "dict_wf d \<Longrightarrow> dict_wf (dict_set k v d)"
  by (induction k v d rule: dict_set.induct) (auto simp: dict_wf_def keys_dict_set[simplified])

lemma dict_wf_pop [intro]: "dict_wf d \<Longrightarrow> dict_wf (dict_pop k d)"
  by (induction d) (auto simp: dict_wf_def dict_pop_def)

lemma dict_wf_Nil [simp]: "dict_wf []"
  by (simp add: dict_wf_def)

lemma dict_get_pop: "dict_get (dict_pop k d) k' = (if k' = k then None else dict_get d k')"
  by (induction d) (auto simp: dict_get_def dict_pop_def)

lemma dict_has_iff: "dict_has d k \<longleftrightarrow> dict_get d k \<noteq> None"
  by (induction d) (auto simp: dict_has_def dict_get_def)

lemma dict_set_append_new: "k \<notin> set (map fst d) \<Longrightarrow> dict_set k v d = d @ [(k, v)]"
  by (induction k v d rule: dict_set.induct) auto

lemma dict_update_extend:
  "distinct (map fst (d @ e)) \<Longrightarrow> dict_update d e = d @ e"
proof (induction e arbitrary: d)
  case (Cons p e)
  obtain k v where p: "p = (k, v)" by (cases p)
  have "dict_update d (p # e) = dict_update (d @ [(k, v)]) e"
    using Cons.prems p by (simp add: dict_update_def dict_set_append_new)
  also have "\<dots> = (d @ [(k, v)]) @ e" by (rule Cons.IH) (use Cons.prems p in simp)
  finally show ?case using p by simp
qed (simp add: dict_update_def)

lemma dict_update_Nil: "dict_wf e \<Longrightarrow> dict_update [] e = e"
  using dict_update_extend [of "[]" e] by (simp add: dict_wf_def)

lemma mem_dict_get: "dict_wf d \<Longrightarrow> (k, v) \<in> set d \<longleftrightarrow> dict_get d k = Some v"
  by (auto simp: dict_get_def dict_wf_def)

lemma dict_get_None_iff: "dict_get d k = None \<longleftrightarrow> k \<notin> set (map fst d)"
  by (simp add: dict_get_def map_of_eq_None_iff image_image)

section \<open>Dynamically typed values (\<open>Any\<close>)\<close>

datatype pyval =
    PNone
  | PBool bool
  | PInt int
  | PFloat real
  | PStr string
  | PList "pyval list"
  | PDict "(string \<times> pyval) list"

fun truthy :: "pyval \<Rightarrow> bool" where
  "truthy PNone = False"
| "truthy (PBool b) = b"
| "truthy (PInt i) = (i \<noteq> 0)"
| "truthy (PFloat x) = (x \<noteq> 0)"
| "truthy (PStr s) = (s \<noteq> [])"
| "truthy (PList xs) = (xs \<noteq> [])"
| "truthy (PDict d) = (d \<noteq> [])"

text \<open>\<open>type(v).__name__\<close>.\<close>

fun type_name :: "pyval \<Rightarrow> string" where
  "type_name PNone = ''NoneType''"
| "type_name (PBool b) = ''bool''"
| "type_name (PInt i) = ''int''"
| "type_name (PFloat x) = ''float''"
| "type_name (PStr s) = ''str''"
| "type_name (PList xs) = ''list''"
| "type_name (PDict d) = ''dict''"

text \<open>\<open>repr\<close> of a string: single quotes unless the string holds one and no double quote.\<close>

definition hex_char :: "nat \<Rightarrow> char" where
  "hex_char d = (if d < 10 then char_of (48 + d) else char_of (87 + d))"

definition repr_char :: "char \<Rightarrow> char \<Rightarrow> string" where
  "repr_char q c =
     (let n = of_char c :: nat in
      if c = q \<or> n = 92 then [char_of (92 :: nat), c]
      else if n = 10 then [char_of (92 :: nat), CHR ''n'']
      else if n = 13 then [char_of (92 :: nat), CHR ''r'']
      else if n = 9 then [char_of (92 :: nat), CHR ''t'']
      else if n < 32 \<or> n = 127
      then [char_of (92 :: nat), CHR ''x'', hex_char (n div 16), hex_char (n mod 16)]
      else [c])"

definition squote :: char where "squote = CHR 0x27"

definition dquote :: char where "dquote = CHR 0x22"

definition repr_str :: "string \<Rightarrow> string" where
  "repr_str s =
     (let q = (if squote \<in> set s \<and> dquote \<notin> set s then dquote else squote)
      in [q] @ concat (map (repr_char q) s) @ [q])"

text \<open>\<open>repr\<close> and \<open>str\<close> of a value; \<open>fr\<close> prints a float.\<close>

fun py_repr :: "(real \<Rightarrow> string) \<Rightarrow> pyval \<Rightarrow> string" where
  "py_repr fr PNone = ''None''"
| "py_repr fr (PBool b) = (if b then ''True'' else ''False'')"
| "py_repr fr (PInt i) = int_str i"
| "py_repr fr (PFloat x) = fr x"
| "py_repr fr (PStr s) = repr_str s"
| "py_repr fr (PList xs) = ''['' @ join '', '' (map (py_repr fr) xs) @ '']''"
| "py_repr fr (PDict d) =
     ''{'' @ join '', '' (map (\<lambda>kv. repr_str (fst kv) @ '': '' @ py_repr fr (snd kv)) d) @ ''}''"

fun py_str :: "(real \<Rightarrow> string) \<Rightarrow> pyval \<Rightarrow> string" where
  "py_str fr (PStr s) = s"
| "py_str fr v = py_repr fr v"

text \<open>The list \<open>repr\<close> of strings, as the messages print it.\<close>

definition repr_strs :: "string list \<Rightarrow> string" where
  "repr_strs xs = ''['' @ join '', '' (map repr_str xs) @ '']''"

text \<open>\<open>int(v)\<close>: truncation of floats, decimal strings with optional sign and surrounding blanks.\<close>

definition is_digit :: "char \<Rightarrow> bool" where
  "is_digit c \<longleftrightarrow> CHR ''0'' \<le> c \<and> c \<le> CHR ''9''"

definition digits_val :: "string \<Rightarrow> int" where
  "digits_val s = foldl (\<lambda>acc c. acc * 10 + (of_char c - 48)) 0 s"

fun parse_int :: "string \<Rightarrow> int option" where
  "parse_int [] = None"
| "parse_int (c # cs) =
     (if c = CHR ''-'' then (if cs \<noteq> [] \<and> list_all is_digit cs then Some (- digits_val cs) else None)
      else if c = CHR ''+'' then (if cs \<noteq> [] \<and> list_all is_digit cs then Some (digits_val cs) else None)
      else if list_all is_digit (c # cs) then Some (digits_val (c # cs)) else None)"

fun py_int :: "pyval \<Rightarrow> int res" where
  "py_int (PInt i) = Inr i"
| "py_int (PBool b) = Inr (if b then 1 else 0)"
| "py_int (PFloat x) = Inr (if x < 0 then - \<lfloor>- x\<rfloor> else \<lfloor>x\<rfloor>)"
| "py_int (PStr s) =
     (case parse_int (strip s) of
        Some i \<Rightarrow> Inr i
      | None \<Rightarrow> Inl (Exn ''ValueError'' (''invalid literal for int() with base 10: '' @ repr_str s)))"
| "py_int v = Inl (Exn ''TypeError'' ''int() argument must be a string, a bytes-like object or a real number'')"

text \<open>\<open>d.get(k, default)\<close> on a parameter dictionary.\<close>

definition param :: "(string, pyval) dict \<Rightarrow> string \<Rightarrow> pyval \<Rightarrow> pyval" where
  "param d k dflt = (case dict_get d k of Some v \<Rightarrow> v | None \<Rightarrow> dflt)"

text \<open>\<open>[.. for x in v]\<close>.\<close>

fun py_iter :: "pyval \<Rightarrow> pyval list res" where
  "py_iter (PList xs) = Inr xs"
| "py_iter (PStr s) = Inr (map (\<lambda>c. PStr [c]) s)"
| "py_iter (PDict d) = Inr (map (\<lambda>kv. PStr (fst kv)) d)"
| "py_iter v = Inl (Exn ''TypeError'' ''object is not iterable'')"

text \<open>\<open>v.get(k, default)\<close> on a value that should be a mapping, and iterating over it.\<close>

definition attribute_error :: "pyexn" where
  "attribute_error = Exn ''AttributeError'' ''object has no attribute get''"

definition get_item :: "pyval \<Rightarrow> string \<Rightarrow> pyval \<Rightarrow> pyval res" where
  "get_item v k dflt = (case v of PDict d \<Rightarrow> Inr (param d k dflt) | _ \<Rightarrow> Inl attribute_error)"

definition get_items :: "pyval \<Rightarrow> string \<Rightarrow> pyval list res" where
  "get_items v k = res_bind (get_item v k (PList [])) py_iter"

definition int_param :: "(string, pyval) dict \<Rightarrow> string \<Rightarrow> int \<Rightarrow> int res" where
  "int_param d k dflt = py_int (param d k (PInt dflt))"

lemma int_param_default [simp]: "dict_get d k = None \<Longrightarrow> int_param d k n = Inr n"
  by (simp add: int_param_def param_def)

text \<open>\<open>repr\<close> of an exception with one message argument.\<close>

fun exn_repr :: "pyexn \<Rightarrow> string" where
  "exn_repr (Exn c m) = c @ ''('' @ repr_str m @ '')''"
| "exn_repr (BaseExn c) = c @ ''()''"

fun exn_str :: "pyexn \<Rightarrow> string" where
  "exn_str (Exn c m) = m"
| "exn_str (BaseExn c) = []"

section \<open>Sets of strings in sorted order, first matches, ranking\<close>

definition sorted_set :: "string list \<Rightarrow> string list" where
  "sorted_set xs = sort (remdups xs)"

lemma set_sorted_set [simp]: "set (sorted_set xs) = set xs"
  by (simp add: sorted_set_def)

lemma distinct_sorted_set [simp]: "distinct (sorted_set xs)"
  by (simp add: sorted_set_def)

lemma sorted_sorted_set [simp]: "sorted (sorted_set xs)"
  by (simp add: sorted_set_def)

lemma sorted_set_eq_iff: "sorted_set xs = sorted_set ys \<longleftrightarrow> set xs = set ys"
proof
  assume "sorted_set xs = sorted_set ys"
  then have "set (sorted_set xs) = set (sorted_set ys)" by simp
  then show "set xs = set ys" by simp
next
  assume "set xs = set ys"
  then show "sorted_set xs = sorted_set ys"
    by (intro sorted_distinct_set_unique) simp_all
qed

text \<open>\<open>xs.sort(key=k, reverse=True)\<close>: stable, the greater key first.\<close>

definition rank_desc :: "('a \<Rightarrow> real) \<Rightarrow> 'a list \<Rightarrow> 'a list" where
  "rank_desc k xs = sort_key (\<lambda>x. - k x) xs"

lemma set_rank_desc [simp]: "set (rank_desc k xs) = set xs"
  by (simp add: rank_desc_def)

lemma length_rank_desc [simp]: "length (rank_desc k xs) = length xs"
  by (simp add: rank_desc_def)

lemma rank_desc_Nil [simp]: "rank_desc k [] = []"
  by (simp add: rank_desc_def)

lemma rank_desc_eq_Nil [simp]: "rank_desc k xs = [] \<longleftrightarrow> xs = []"
  by (metis length_0_conv length_rank_desc)

lemma sorted_rank_desc: "sorted_wrt (\<lambda>x y. k x \<ge> k y) (rank_desc k xs)"
proof -
  have "sorted (map (\<lambda>x. - k x) (rank_desc k xs))"
    by (simp add: rank_desc_def)
  then show ?thesis
    by (simp add: sorted_map)
qed

lemma rank_desc_hd: "xs \<noteq> [] \<Longrightarrow> x \<in> set xs \<Longrightarrow> k x \<le> k (hd (rank_desc k xs))"
proof -
  assume ne: "xs \<noteq> []" and x: "x \<in> set xs"
  obtain y ys where r: "rank_desc k xs = y # ys"
    using ne by (cases "rank_desc k xs") auto
  have "x \<in> set (y # ys)" using x r by (metis set_rank_desc)
  moreover have "\<forall>z \<in> set ys. k z \<le> k y"
    using sorted_rank_desc [of k xs] r by simp
  ultimately show ?thesis using r by auto
qed

text \<open>Two checks in sequence: the first that fails decides.\<close>

fun or_else :: "'a option \<Rightarrow> 'a option \<Rightarrow> 'a option" where
  "or_else (Some x) y = Some x"
| "or_else None y = y"

lemma or_else_None_iff [simp]: "or_else x y = None \<longleftrightarrow> x = None \<and> y = None"
  by (cases x) simp_all

lemma or_else_Some_cases:
  assumes "or_else x y = Some z"
  obtains "x = Some z" | "x = None" "y = Some z"
  using assms by (cases x) auto

end
