(* ===== verification/Contracts.thy ===== *)
theory Contracts
  imports Chaos_Prelude
begin

text \<open>
  The contracts of \<open>shared/contracts.py\<close> that the discovery loop uses: one record per Pydantic
  model (fields in the model's order), one datatype per string enumeration with the string of
  each member, and one \<open>validate\<close> function per model with constraints, which is the condition
  under which Pydantic constructs it. A time stamp is an \<open>int\<close> (microseconds); a field of type
  \<open>Any\<close> is a \<open>pyval\<close>. Pydantic runs a field validator on a value the caller supplied and not on
  a default; where this matters (\<open>TokenBudget\<close>) the constructor takes the supplied arguments
  as options.
\<close>

section \<open>Identifiers\<close>

definition is_hex :: "char \<Rightarrow> bool" where
  "is_hex c \<longleftrightarrow> is_digit c \<or> (CHR ''a'' \<le> c \<and> c \<le> CHR ''f'')"

definition id12 :: "string \<Rightarrow> string \<Rightarrow> bool" where
  "id12 pre s \<longleftrightarrow>
     take (length pre + 1) s = pre @ ''-'' \<and>
     length s = length pre + 13 \<and> list_all is_hex (drop (length pre + 1) s)"

definition experiment_id_ok :: "string \<Rightarrow> bool" where
  "experiment_id_ok s = id12 ''exp'' s"

definition run_id_ok :: "string \<Rightarrow> bool" where
  "run_id_ok s = id12 ''run'' s"

definition slug_char :: "char \<Rightarrow> bool" where
  "slug_char c \<longleftrightarrow> is_digit c \<or> (CHR ''a'' \<le> c \<and> c \<le> CHR ''z'') \<or> c = CHR ''-''"

definition hypothesis_id_ok :: "string \<Rightarrow> bool" where
  "hypothesis_id_ok s \<longleftrightarrow>
     take 2 s = ''h-'' \<and> 1 \<le> length (drop 2 s) \<and> length (drop 2 s) \<le> 64 \<and>
     list_all slug_char (drop 2 s)"

definition finding_id_ok :: "string \<Rightarrow> bool" where
  "finding_id_ok s \<longleftrightarrow>
     take 2 s = ''f-'' \<and> 1 \<le> length (drop 2 s) \<and> length (drop 2 s) \<le> 64 \<and>
     list_all slug_char (drop 2 s)"

text \<open>\<open>_new_id\<close>: the prefix and the first twelve hex digits of a fresh UUID.\<close>

definition new_id :: "string \<Rightarrow> string \<Rightarrow> string" where
  "new_id pre uuid_hex = pre @ ''-'' @ take 12 uuid_hex"

section \<open>Safety and budget\<close>

record safety_constraints =
  sc_cluster_context :: string
  sc_namespace :: string
  sc_max_pods_affected :: int
  sc_max_duration_seconds :: int
  sc_allow_multi_fault :: bool
  sc_require_namespace_annotation :: bool
  sc_forbidden_cluster_substrings :: "string list"

definition default_forbidden :: "string list" where
  "default_forbidden = [''prod'', ''production'', ''live'', ''main'']"

definition safety_constraints_ok :: "safety_constraints \<Rightarrow> bool" where
  "safety_constraints_ok c \<longleftrightarrow>
     1 \<le> sc_max_pods_affected c \<and> sc_max_pods_affected c \<le> 100 \<and>
     1 \<le> sc_max_duration_seconds c \<and> sc_max_duration_seconds c \<le> 3600"

record token_budget =
  tb_soft_cap_usd :: real
  tb_hard_cap_usd :: real
  tb_wall_clock_seconds :: int

definition validation_error :: "string \<Rightarrow> pyexn" where
  "validation_error m = Exn ''ValidationError'' m"

text \<open>
  \<open>TokenBudget(soft_cap_usd=.., hard_cap_usd=.., wall_clock_seconds=..)\<close>: an absent argument
  takes its default, and the defaults are not validated.
\<close>

definition token_budget_new :: "real option \<Rightarrow> real option \<Rightarrow> int option \<Rightarrow> token_budget res" where
  "token_budget_new soft hard wall =
     (let s = case_option 2 id soft; h = case_option 10 id hard; w = case_option 1800 id wall in
      if (soft \<noteq> None \<and> s \<le> 0) \<or> (hard \<noteq> None \<and> h \<le> 0) \<or> (wall \<noteq> None \<and> w \<le> 0)
      then Inl (validation_error ''greater_than'')
      else if hard \<noteq> None \<and> h < s
      then Inl (validation_error ''hard_cap_usd must be >= soft_cap_usd'')
      else Inr \<lparr>tb_soft_cap_usd = s, tb_hard_cap_usd = h, tb_wall_clock_seconds = w\<rparr>)"

datatype abort_reason =
    BASELINE_UNHEALTHY | SLO_BREACH | BUDGET_EXCEEDED | USER_KILL | BLAST_RADIUS_VIOLATION
  | CLUSTER_DENIED | APPROVAL_REJECTED | AGENT_FAILURE

fun abort_reason_value :: "abort_reason \<Rightarrow> string" where
  "abort_reason_value BASELINE_UNHEALTHY = ''baseline_unhealthy''"
| "abort_reason_value SLO_BREACH = ''slo_breach''"
| "abort_reason_value BUDGET_EXCEEDED = ''budget_exceeded''"
| "abort_reason_value USER_KILL = ''user_kill''"
| "abort_reason_value BLAST_RADIUS_VIOLATION = ''blast_radius_violation''"
| "abort_reason_value CLUSTER_DENIED = ''cluster_denied''"
| "abort_reason_value APPROVAL_REJECTED = ''approval_rejected''"
| "abort_reason_value AGENT_FAILURE = ''agent_failure''"

section \<open>Faults and plans\<close>

datatype fault_category =
    FC_POD | FC_NETWORK | FC_IO | FC_STRESS | FC_DNS | FC_HTTP | FC_TIME | FC_KERNEL
  | FC_CERT | FC_TLS | FC_AUTH | FC_SECRET | FC_IMAGE | FC_IAM | FC_NETPOL | FC_EGRESS
  | FC_RUNTIME | FC_RF | FC_POWER | FC_SENSOR

fun fault_category_value :: "fault_category \<Rightarrow> string" where
  "fault_category_value FC_POD = ''pod''"
| "fault_category_value FC_NETWORK = ''network''"
| "fault_category_value FC_IO = ''io''"
| "fault_category_value FC_STRESS = ''stress''"
| "fault_category_value FC_DNS = ''dns''"
| "fault_category_value FC_HTTP = ''http''"
| "fault_category_value FC_TIME = ''time''"
| "fault_category_value FC_KERNEL = ''kernel''"
| "fault_category_value FC_CERT = ''cert''"
| "fault_category_value FC_TLS = ''tls''"
| "fault_category_value FC_AUTH = ''auth''"
| "fault_category_value FC_SECRET = ''secret''"
| "fault_category_value FC_IMAGE = ''image''"
| "fault_category_value FC_IAM = ''iam''"
| "fault_category_value FC_NETPOL = ''netpol''"
| "fault_category_value FC_EGRESS = ''egress''"
| "fault_category_value FC_RUNTIME = ''runtime''"
| "fault_category_value FC_RF = ''rf''"
| "fault_category_value FC_POWER = ''power''"
| "fault_category_value FC_SENSOR = ''sensor''"

record fault_spec =
  fs_category :: fault_category
  fs_name :: string
  fs_target_selector :: "(string, string) dict"
  fs_parameters :: "(string, pyval) dict"
  fs_duration_seconds :: int
  fs_requires_approval :: bool
  fs_rationale :: string
  fs_hypothesis_id :: "string option"

definition fault_spec_ok :: "fault_spec \<Rightarrow> bool" where
  "fault_spec_ok f \<longleftrightarrow>
     1 \<le> length (fs_name f) \<and> length (fs_name f) \<le> 128 \<and>
     1 \<le> fs_duration_seconds f \<and> fs_duration_seconds f \<le> 3600 \<and>
     fs_rationale f \<noteq> [] \<and>
     (case fs_hypothesis_id f of None \<Rightarrow> True | Some h \<Rightarrow> hypothesis_id_ok h)"

text \<open>A point in time, in seconds; a \<open>datetime\<close> without a time zone is naive.\<close>

datatype timestamp = Aware int | Naive int

record suppression_rule =
  sr_hypothesis_id :: "string option"
  sr_fix_class :: "string option"
  sr_path_glob :: "string option"
  sr_summary_contains :: "string option"
  sr_reason :: string
  sr_expires_at :: "timestamp option"

definition str_set :: "string option \<Rightarrow> bool" where
  "str_set x = (case x of None \<Rightarrow> False | Some s \<Rightarrow> s \<noteq> [])"

definition suppression_rule_ok :: "suppression_rule \<Rightarrow> bool" where
  "suppression_rule_ok r \<longleftrightarrow>
     str_set (sr_hypothesis_id r) \<or> str_set (sr_fix_class r) \<or> str_set (sr_path_glob r) \<or>
     str_set (sr_summary_contains r)"

record experiment_plan =
  ep_experiment_id :: string
  ep_title :: string
  ep_target_app :: string
  ep_target_repo :: "string option"
  ep_faults :: "fault_spec list"
  ep_safety :: safety_constraints
  ep_budget :: token_budget
  ep_quiet_window_pre_seconds :: int
  ep_quiet_window_post_seconds :: int
  ep_created_at :: int
  ep_suppress :: "suppression_rule list"
  ep_plugin :: "string option"
  ep_plugin_config :: "(string, pyval) dict"

definition experiment_plan_ok :: "experiment_plan \<Rightarrow> bool" where
  "experiment_plan_ok p \<longleftrightarrow>
     experiment_id_ok (ep_experiment_id p) \<and>
     ep_faults p \<noteq> [] \<and> list_all fault_spec_ok (ep_faults p) \<and>
     safety_constraints_ok (ep_safety p) \<and>
     0 \<le> ep_quiet_window_pre_seconds p \<and> 0 \<le> ep_quiet_window_post_seconds p \<and>
     list_all suppression_rule_ok (ep_suppress p)"

section \<open>Statistical samples\<close>

record statistical_sample =
  ss_metric :: string
  ss_samples :: "real list"
  ss_mean :: real
  ss_p50 :: real
  ss_p95 :: real
  ss_p99 :: real
  ss_stdev :: real

text \<open>\<open>_percentile\<close>: linear interpolation between the two neighbours of the rank.\<close>

definition percentile :: "real list \<Rightarrow> real \<Rightarrow> real" where
  "percentile vs pct =
     (let n = length vs in
      if n = 1 then vs ! 0
      else let rank = pct * real (n - 1);
               lo = nat \<lfloor>rank\<rfloor>;
               hi = min (lo + 1) (n - 1);
               frac = rank - real lo
           in vs ! lo * (1 - frac) + vs ! hi * frac)"

definition from_samples :: "string \<Rightarrow> real list \<Rightarrow> statistical_sample res" where
  "from_samples metric samples =
     (if samples = [] then Inl (Exn ''ValueError'' ''need at least one sample'')
      else let s = sort samples;
               n = real (length s);
               mean = sum_list s / n;
               var = sum_list (map (\<lambda>x. (x - mean) ^ 2) s) / n
           in Inr \<lparr>ss_metric = metric, ss_samples = samples, ss_mean = mean,
                ss_p50 = percentile s (50 / 100), ss_p95 = percentile s (95 / 100),
                ss_p99 = percentile s (99 / 100), ss_stdev = sqrt var\<rparr>)"

section \<open>Tester and security contracts\<close>

record hypothesis =
  hy_id :: string
  hy_statement :: string
  hy_rationale :: string
  hy_proposed_fault :: string
  hy_success_criteria :: "string list"
  hy_confidence :: real
  hy_code_references :: "string list"

definition hypothesis_ok :: "hypothesis \<Rightarrow> bool" where
  "hypothesis_ok h \<longleftrightarrow> hypothesis_id_ok (hy_id h) \<and> 0 \<le> hy_confidence h \<and> hy_confidence h \<le> 1"

datatype request_kind = RK_baseline | RK_verify | RK_hypothesize

record tester_request =
  tq_kind :: request_kind
  tq_experiment_id :: string
  tq_target_app :: string
  tq_target_repo :: "string option"
  tq_baseline_run_count :: int
  tq_probes :: "string list"
  tq_baseline_samples :: "statistical_sample list"

definition tester_request_ok :: "tester_request \<Rightarrow> bool" where
  "tester_request_ok q \<longleftrightarrow>
     experiment_id_ok (tq_experiment_id q) \<and>
     1 \<le> tq_baseline_run_count q \<and> tq_baseline_run_count q \<le> 50"

record tester_report =
  tr_request_kind :: request_kind
  tr_experiment_id :: string
  tr_run_id :: string
  tr_steady_state :: bool
  tr_samples :: "statistical_sample list"
  tr_failed_probes :: "string list"
  tr_anomalies :: "string list"
  tr_generated_hypotheses :: "hypothesis list"
  tr_started_at :: int
  tr_finished_at :: "int option"
  tr_notes :: string

datatype finding_severity = SEV_INFO | SEV_LOW | SEV_MEDIUM | SEV_HIGH | SEV_CRITICAL

fun severity_value :: "finding_severity \<Rightarrow> string" where
  "severity_value SEV_INFO = ''info''"
| "severity_value SEV_LOW = ''low''"
| "severity_value SEV_MEDIUM = ''medium''"
| "severity_value SEV_HIGH = ''high''"
| "severity_value SEV_CRITICAL = ''critical''"

text \<open>The declaration order of the severities, least first.\<close>

fun severity_level :: "finding_severity \<Rightarrow> nat" where
  "severity_level SEV_INFO = 0"
| "severity_level SEV_LOW = 1"
| "severity_level SEV_MEDIUM = 2"
| "severity_level SEV_HIGH = 3"
| "severity_level SEV_CRITICAL = 4"

lemma severity_level_inject: "severity_level a = severity_level b \<Longrightarrow> a = b"
  by (cases a; cases b) simp_all

instantiation finding_severity :: linorder
begin

definition less_eq_finding_severity :: "finding_severity \<Rightarrow> finding_severity \<Rightarrow> bool" where
  "less_eq_finding_severity a b \<longleftrightarrow> severity_level a \<le> severity_level b"

definition less_finding_severity :: "finding_severity \<Rightarrow> finding_severity \<Rightarrow> bool" where
  "less_finding_severity a b \<longleftrightarrow> severity_level a < severity_level b"

instance
  by standard
    (auto simp: less_eq_finding_severity_def less_finding_severity_def intro: severity_level_inject)

end

record security_finding =
  sf_id :: string
  sf_severity :: finding_severity
  sf_title :: string
  sf_description :: string
  sf_scanner :: string
  sf_cve :: "string option"
  sf_evidence :: "(string, pyval) dict"
  sf_location :: "string option"

record security_hypothesis =
  sh_id :: string
  sh_statement :: string
  sh_rationale :: string
  sh_proposed_fault :: string
  sh_success_criteria :: "string list"
  sh_confidence :: real
  sh_references :: "string list"

datatype security_kind = SK_baseline | SK_verify | SK_drift | SK_hypothesize

record security_request =
  sq_kind :: security_kind
  sq_experiment_id :: string
  sq_target_app :: string
  sq_target_repo :: "string option"
  sq_target_images :: "string list"
  sq_target_endpoints :: "string list"
  sq_enable_active_dast :: bool

record security_report =
  sp_request_kind :: security_kind
  sp_experiment_id :: string
  sp_run_id :: string
  sp_findings :: "security_finding list"
  sp_generated_hypotheses :: "security_hypothesis list"
  sp_sbom_digest :: "string option"
  sp_sbom_drift_from_baseline :: bool
  sp_started_at :: int
  sp_finished_at :: "int option"

definition has_critical_or_high :: "security_report \<Rightarrow> bool" where
  "has_critical_or_high r =
     list_ex (\<lambda>f. sf_severity f \<in> {SEV_HIGH, SEV_CRITICAL}) (sp_findings r)"

section \<open>Chaos timeline\<close>

datatype timeline_kind =
  TE_scheduled | TE_started | TE_verified_active | TE_stopped | TE_cleaned_up | TE_error

fun timeline_kind_value :: "timeline_kind \<Rightarrow> string" where
  "timeline_kind_value TE_scheduled = ''scheduled''"
| "timeline_kind_value TE_started = ''started''"
| "timeline_kind_value TE_verified_active = ''verified-active''"
| "timeline_kind_value TE_stopped = ''stopped''"
| "timeline_kind_value TE_cleaned_up = ''cleaned-up''"
| "timeline_kind_value TE_error = ''error''"

record timeline_event =
  te_timestamp :: int
  te_fault_name :: string
  te_event :: timeline_kind
  te_detail :: string

record chaos_timeline =
  ct_experiment_id :: string
  ct_events :: "timeline_event list"
  ct_success :: bool
  ct_error :: "string option"

section \<open>Diagnosis and fix\<close>

record diagnosis_request =
  dq_experiment_id :: string
  dq_failed_tester_report :: "tester_report option"
  dq_failed_security_report :: "security_report option"
  dq_chaos_timeline :: chaos_timeline
  dq_target_repo :: "string option"

definition diagnosis_request_ok :: "diagnosis_request \<Rightarrow> bool" where
  "diagnosis_request_ok q \<longleftrightarrow>
     \<not> (dq_failed_tester_report q = None \<and> dq_failed_security_report q = None)"

record root_cause_hypothesis =
  rc_summary :: string
  rc_confidence :: real
  rc_evidence :: "string list"
  rc_suggested_fix_class :: string
  rc_affected_paths :: "string list"

definition valid_fix_classes :: "string list" where
  "valid_fix_classes =
     [''code-patch'', ''config-change'', ''missing-retry'', ''missing-timeout'',
      ''missing-circuit-breaker'', ''missing-fallback'', ''auth-control-gap'',
      ''secret-handling'', ''image-policy'', ''test-gap'', ''working-as-intended'']"

definition root_cause_hypothesis_ok :: "root_cause_hypothesis \<Rightarrow> bool" where
  "root_cause_hypothesis_ok h \<longleftrightarrow>
     0 \<le> rc_confidence h \<and> rc_confidence h \<le> 1 \<and> rc_suggested_fix_class h \<in> set valid_fix_classes"

text \<open>
  \<open>RootCauseHypothesis.id\<close>: the first twelve hex digits of a SHA-1 digest. The digest
  (\<open>hashlib\<close>) is the argument \<open>sha1_hex\<close>; what is hashed is the code's canonical text.
\<close>

definition canonical_text :: "root_cause_hypothesis \<Rightarrow> string" where
  "canonical_text h =
     join ''|'' [rc_suggested_fix_class h, join '','' (sort (rc_affected_paths h)), rc_summary h]"

definition hypothesis_fp :: "(string \<Rightarrow> string) \<Rightarrow> root_cause_hypothesis \<Rightarrow> string" where
  "hypothesis_fp sha1_hex h = take 12 (sha1_hex (canonical_text h))"

record diagnosis_report =
  dr_experiment_id :: string
  dr_run_id :: string
  dr_hypotheses :: "root_cause_hypothesis list"
  dr_notes :: string
  dr_started_at :: int
  dr_finished_at :: "int option"
  dr_suppressed_fingerprints :: "string list"
  dr_suppression_notes :: "(string, string) dict"

definition diagnosis_report_ok :: "diagnosis_report \<Rightarrow> bool" where
  "diagnosis_report_ok d \<longleftrightarrow>
     dr_hypotheses d \<noteq> [] \<and> list_all root_cause_hypothesis_ok (dr_hypotheses d)"

datatype fix_action = FA_CODE_PATCH | FA_CONFIG_CHANGE | FA_DOC_ONLY | FA_NONE

fun fix_action_value :: "fix_action \<Rightarrow> string" where
  "fix_action_value FA_CODE_PATCH = ''code-patch''"
| "fix_action_value FA_CONFIG_CHANGE = ''config-change''"
| "fix_action_value FA_DOC_ONLY = ''doc-only''"
| "fix_action_value FA_NONE = ''none''"

record fix_proposal =
  fp_experiment_id :: string
  fp_run_id :: string
  fp_action :: fix_action
  fp_pr_url :: "string option"
  fp_confidence :: real
  fp_reasoning :: string
  fp_files_touched :: "string list"
  fp_regression_test_added :: bool
  fp_is_draft :: bool
  fp_started_at :: int
  fp_finished_at :: "int option"

definition fix_proposal_ok :: "fix_proposal \<Rightarrow> bool" where
  "fix_proposal_ok p \<longleftrightarrow> 0 \<le> fp_confidence p \<and> fp_confidence p \<le> 1 \<and> fp_is_draft p"

section \<open>Plugin lifecycle\<close>

datatype lifecycle_stage =
    ST_VALIDATE | ST_PROVISION_ENV | ST_AWAIT_READY | ST_SEED | ST_SETUP_TEST
  | ST_CAPTURE_BASELINE | ST_RUN_TEST | ST_VERIFY | ST_COLLECT_DIAGNOSTICS
  | ST_TEARDOWN_TEST | ST_TEARDOWN_ENV

datatype stage_status = SS_OK | SS_FAILED | SS_SKIPPED

record stage_result =
  sg_stage :: lifecycle_stage
  sg_status :: stage_status
  sg_detail :: string
  sg_error :: "string option"
  sg_duration_ms :: "real option"
  sg_started_at :: int
  sg_finished_at :: "int option"

record verify_failure =
  vf_assertion :: string
  vf_expected :: string
  vf_actual :: string
  vf_severity :: finding_severity
  vf_evidence :: "(string, pyval) dict"

record verify_result =
  vr_passed :: bool
  vr_summary :: string
  vr_failures :: "verify_failure list"
  vr_evidence :: "(string, pyval) dict"
  vr_metrics :: "statistical_sample list"

definition verify_result_ok :: "verify_result \<Rightarrow> bool" where
  "verify_result_ok v \<longleftrightarrow> \<not> (vr_passed v \<and> vr_failures v \<noteq> [])"

section \<open>Experiment record\<close>

datatype experiment_state =
    INITIALIZING | BASELINE | BASELINE_OK | BASELINE_FAIL | INJECT | INJECTED | INJECT_FAILED
  | VERIFY | STEADY | REGRESSED | DIAGNOSE | DIAGNOSED | PROPOSE_FIX | FIX_PROPOSED
  | FIX_DECLINED | PAUSED | ABORTED | RECORDED

record tool_call_summary =
  tc_name :: string
  tc_arguments :: string
  tc_result_preview :: string
  tc_is_error :: bool

record agent_invocation =
  ai_agent :: string
  ai_method :: string
  ai_started_at_ms :: int
  ai_finished_at_ms :: "int option"
  ai_duration_ms :: "real option"
  ai_ok :: bool
  ai_error :: "string option"
  ai_input_summary :: string
  ai_output_summary :: string
  ai_spend_usd :: "real option"
  ai_prompt_tokens :: "int option"
  ai_completion_tokens :: "int option"
  ai_tool_calls :: "tool_call_summary list"

record experiment_record =
  er_experiment_id :: string
  er_plan :: experiment_plan
  er_state :: experiment_state
  er_tester_baseline :: "tester_report option"
  er_security_baseline :: "security_report option"
  er_chaos_timeline :: "chaos_timeline option"
  er_tester_verify :: "tester_report option"
  er_security_verify :: "security_report option"
  er_diagnosis :: "diagnosis_report option"
  er_fix_proposal :: "fix_proposal option"
  er_abort_reason :: "abort_reason option"
  er_abort_detail :: string
  er_started_at :: int
  er_finished_at :: "int option"
  er_spend_usd :: real
  er_agent_invocations :: "agent_invocation list"
  er_plugin_name :: "string option"
  er_plugin_stage_results :: "stage_result list"
  er_verify_result :: "verify_result option"
  er_plugin_diagnostics :: "(string, pyval) dict"

text \<open>\<open>ExperimentRecord(experiment_id=.., plan=.., state=INITIALIZING)\<close> at time \<open>now\<close>.\<close>

definition new_record :: "experiment_plan \<Rightarrow> int \<Rightarrow> experiment_record" where
  "new_record p now =
     \<lparr>er_experiment_id = ep_experiment_id p, er_plan = p, er_state = INITIALIZING,
      er_tester_baseline = None, er_security_baseline = None, er_chaos_timeline = None,
      er_tester_verify = None, er_security_verify = None, er_diagnosis = None,
      er_fix_proposal = None, er_abort_reason = None, er_abort_detail = [],
      er_started_at = now, er_finished_at = None, er_spend_usd = 0,
      er_agent_invocations = [], er_plugin_name = None, er_plugin_stage_results = [],
      er_verify_result = None, er_plugin_diagnostics = []\<rparr>"

section \<open>Facts about the contracts\<close>

lemma has_critical_or_high_iff:
  "has_critical_or_high r \<longleftrightarrow> (\<exists>f \<in> set (sp_findings r). SEV_HIGH \<le> sf_severity f)"
proof -
  have "sv \<in> {SEV_HIGH, SEV_CRITICAL} \<longleftrightarrow> SEV_HIGH \<le> sv" for sv
    by (cases sv) (simp_all add: less_eq_finding_severity_def)
  then show ?thesis
    by (simp add: has_critical_or_high_def list_ex_iff)
qed

lemma new_record_simps [simp]:
  "er_state (new_record p t) = INITIALIZING"
  "er_experiment_id (new_record p t) = ep_experiment_id p"
  "er_plan (new_record p t) = p"
  "er_diagnosis (new_record p t) = None"
  "er_fix_proposal (new_record p t) = None"
  "er_chaos_timeline (new_record p t) = None"
  "er_abort_reason (new_record p t) = None"
  by (simp_all add: new_record_def)

lemma token_budget_explicit_hard:
  assumes "token_budget_new soft (Some h) wall = Inr b"
  shows "tb_soft_cap_usd b \<le> tb_hard_cap_usd b \<and> 0 < tb_hard_cap_usd b"
  using assms by (auto simp: token_budget_new_def Let_def split: if_splits)

lemma from_samples_ok_iff: "(\<exists>s. from_samples m xs = Inr s) \<longleftrightarrow> xs \<noteq> []"
  by (simp add: from_samples_def Let_def)

lemma rank_bounds:
  assumes "0 \<le> p" "p \<le> 1" "2 \<le> n"
  shows "nat \<lfloor>p * real (n - 1)\<rfloor> \<le> n - 1"
    and "0 \<le> p * real (n - 1) - real (nat \<lfloor>p * real (n - 1)\<rfloor>)"
    and "p * real (n - 1) - real (nat \<lfloor>p * real (n - 1)\<rfloor>) < 1"
proof -
  let ?r = "p * real (n - 1)"
  have r0: "0 \<le> ?r" using assms by simp
  have r1: "?r \<le> real (n - 1)" using assms by (simp add: mult_left_le_one_le)
  have eq: "real (nat \<lfloor>?r\<rfloor>) = of_int \<lfloor>?r\<rfloor>" using r0 by simp
  have "\<lfloor>?r\<rfloor> \<le> \<lfloor>real (n - 1)\<rfloor>" using r1 by (rule floor_mono)
  then show "nat \<lfloor>?r\<rfloor> \<le> n - 1" by simp
  show "0 \<le> ?r - real (nat \<lfloor>?r\<rfloor>)" using eq by linarith
  show "?r - real (nat \<lfloor>?r\<rfloor>) < 1" using eq by linarith
qed

lemma convex_bounds:
  fixes a b t :: real
  assumes "a \<le> b" "0 \<le> t" "t \<le> 1"
  shows "a \<le> a * (1 - t) + b * t" "a * (1 - t) + b * t \<le> b"
proof -
  have e: "a * (1 - t) + b * t = a + (b - a) * t" by (simp add: algebra_simps)
  show "a \<le> a * (1 - t) + b * t" using e assms by simp
  have "(b - a) * t \<le> (b - a) * 1" using assms by (intro mult_left_mono) auto
  then have "a + (b - a) * t \<le> a + (b - a) * 1" by (rule add_left_mono)
  then show "a * (1 - t) + b * t \<le> b" unfolding e by simp
qed

text \<open>A percentile of a sorted sample lies between the sample's least and greatest element.\<close>

lemma percentile_bounds:
  assumes "sorted vs" "vs \<noteq> []" "0 \<le> p" "p \<le> 1"
  shows "hd vs \<le> percentile vs p \<and> percentile vs p \<le> last vs"
proof (cases "length vs = 1")
  case True
  then obtain v where "vs = [v]" by (cases vs) auto
  then show ?thesis by (simp add: percentile_def Let_def)
next
  case False
  with assms(2) have n: "2 \<le> length vs" by (cases vs) (auto simp: Suc_le_eq neq_Nil_conv)
  define lo where "lo = nat \<lfloor>p * real (length vs - 1)\<rfloor>"
  define hi where "hi = min (lo + 1) (length vs - 1)"
  define t where "t = p * real (length vs - 1) - real lo"
  have lo: "lo \<le> length vs - 1" and t: "0 \<le> t" "t \<le> 1"
    using rank_bounds [OF assms(3,4) n] by (simp_all add: lo_def t_def)
  have hi: "hi \<le> length vs - 1" "lo \<le> hi" using lo by (simp_all add: hi_def)
  have eq: "percentile vs p = vs ! lo * (1 - t) + vs ! hi * t"
    using False by (simp add: percentile_def Let_def lo_def hi_def t_def)
  have nth: "vs ! i \<le> vs ! j" if "i \<le> j" "j \<le> length vs - 1" for i j
    using assms(1) n that by (intro sorted_nth_mono) auto
  have "vs ! lo \<le> percentile vs p" "percentile vs p \<le> vs ! hi"
    using convex_bounds [OF nth [OF hi(2) hi(1)] t] eq by simp_all
  moreover have "hd vs \<le> vs ! lo" using nth [of 0 lo] lo assms(2) by (simp add: hd_conv_nth)
  moreover have "vs ! hi \<le> last vs"
    using nth [of hi "length vs - 1"] hi assms(2) by (simp add: last_conv_nth)
  ultimately show ?thesis by linarith
qed

lemma percentile_mono:
  assumes "sorted vs" "vs \<noteq> []" "0 \<le> p" "p \<le> q" "q \<le> 1"
  shows "percentile vs p \<le> percentile vs q"
proof (cases "length vs = 1")
  case True
  then show ?thesis by (simp add: percentile_def Let_def)
next
  case False
  with assms(2) have n: "2 \<le> length vs" by (cases vs) (auto simp: Suc_le_eq neq_Nil_conv)
  define m where "m = length vs - 1"
  define lo where "lo = (\<lambda>x. nat \<lfloor>x * real m\<rfloor>)"
  define hi where "hi = (\<lambda>x. min (lo x + 1) m)"
  define t where "t = (\<lambda>x. x * real m - real (lo x))"
  have eq: "percentile vs x = vs ! lo x * (1 - t x) + vs ! hi x * t x" for x
    using False by (simp add: percentile_def Let_def lo_def hi_def t_def m_def)
  have b: "lo x \<le> m" "0 \<le> t x" "t x \<le> 1" if "0 \<le> x" "x \<le> 1" for x
    using rank_bounds [OF that n] by (simp_all add: lo_def t_def m_def)
  have nth: "vs ! i \<le> vs ! j" if "i \<le> j" "j \<le> m" for i j
    using assms(1) n that by (intro sorted_nth_mono) (auto simp: m_def)
  have p: "lo p \<le> m" "0 \<le> t p" "t p \<le> 1" and q: "lo q \<le> m" "0 \<le> t q" "t q \<le> 1"
    using b [of p] b [of q] assms by simp_all
  have hi: "lo x \<le> hi x" "hi x \<le> m" if "lo x \<le> m" for x using that by (simp_all add: hi_def)
  have lom: "lo p \<le> lo q"
    unfolding lo_def using assms by (intro nat_mono floor_mono mult_right_mono) auto
  show ?thesis
  proof (cases "lo p = lo q")
    case True
    then have h: "hi p = hi q" and tt: "t p \<le> t q"
      using assms by (auto simp: hi_def t_def intro: mult_right_mono)
    have d: "0 \<le> vs ! hi q - vs ! lo q" using nth [OF hi(1) hi(2)] q(1) by simp
    have e: "vs ! lo q * (1 - x) + vs ! hi q * x = vs ! lo q + (vs ! hi q - vs ! lo q) * x" for x
      by (simp add: algebra_simps)
    show ?thesis unfolding eq True h e using d tt by (simp add: mult_left_mono)
  next
    case False
    then have "hi p \<le> lo q" using lom by (auto simp: hi_def)
    then have "vs ! hi p \<le> vs ! lo q" using nth q(1) by blast
    moreover have "percentile vs p \<le> vs ! hi p"
      unfolding eq using convex_bounds(2) [OF nth [OF hi(1) hi(2)] p(2,3)] p(1) by simp
    moreover have "vs ! lo q \<le> percentile vs q"
      unfolding eq using convex_bounds(1) [OF nth [OF hi(1) hi(2)] q(2,3)] q(1) by simp
    ultimately show ?thesis by linarith
  qed
qed

text \<open>Percentiles are ordered. The summary the tester computes for a metric exists for every
  non-empty sample, and its percentiles lie in order between the least and the greatest sample:
  \<open>min \<le> p50 \<le> p95 \<le> p99 \<le> max\<close>.\<close>

theorem percentiles_ordered:
  assumes "from_samples metric xs = Inr s"
  shows "Min (set xs) \<le> ss_p50 s \<and> ss_p50 s \<le> ss_p95 s \<and> ss_p95 s \<le> ss_p99 s \<and>
    ss_p99 s \<le> Max (set xs) \<and> 0 \<le> ss_stdev s"
proof -
  have ne: "xs \<noteq> []" using assms by (auto simp: from_samples_def)
  let ?v = "sort xs"
  have v: "sorted ?v" "?v \<noteq> []" using ne by (simp, metis set_empty set_sort)
  have s: "ss_p50 s = percentile ?v (50/100)" "ss_p95 s = percentile ?v (95/100)"
      "ss_p99 s = percentile ?v (99/100)" "0 \<le> ss_stdev s"
    using assms ne by (auto simp: from_samples_def Let_def intro!: divide_nonneg_nonneg sum_list_nonneg)
  have le: "hd ?v \<le> y \<and> y \<le> last ?v" if y: "y \<in> set xs" for y
  proof -
    obtain i where "i < length ?v" "y = ?v ! i" using y by (metis in_set_conv_nth set_sort)
    then have "?v ! 0 \<le> y" "y \<le> ?v ! (length ?v - 1)"
      using sorted_nth_mono [OF v(1), of 0 i] sorted_nth_mono [OF v(1), of i "length ?v - 1"] by simp_all
    then show ?thesis by (simp add: hd_conv_nth [OF v(2)] last_conv_nth [OF v(2)] del: length_sort)
  qed
  have "hd ?v \<in> set xs" "last ?v \<in> set xs" using hd_in_set [OF v(2)] last_in_set [OF v(2)] by simp_all
  then have "Min (set xs) = hd ?v" "Max (set xs) = last ?v"
    using le by (simp_all add: Min_eqI Max_eqI)
  then show ?thesis
    using percentile_bounds [OF v, of "50/100"] percentile_bounds [OF v, of "99/100"]
      percentile_mono [OF v, of "50/100" "95/100"] percentile_mono [OF v, of "95/100" "99/100"] s
    by simp
qed

lemma percentiles_ordered_witness:
  "\<exists>s. from_samples ''p99'' [3, 1, 2] = Inr s \<and> 1 \<le> ss_p50 s \<and> ss_p99 s \<le> 3"
proof -
  obtain s where s: "from_samples ''p99'' [3, 1, 2] = Inr s" using from_samples_ok_iff by blast
  show ?thesis using percentiles_ordered [OF s] s by (intro exI [of _ s]) simp
qed

text \<open>The hard cap is only checked against the soft cap when it is given. An explicit hard cap is
  never below the soft cap of a budget that validates, but a soft cap of 20 dollars with the hard cap
  left at its default of 10 validates: the run is stopped at half of what its soft cap announces.\<close>

theorem default_hard_cap_unchecked:
  "(\<nexists>soft h wall b. token_budget_new soft (Some h) wall = Inr b \<and> tb_hard_cap_usd b < tb_soft_cap_usd b) \<and>
   (\<exists>b. token_budget_new (Some 20) None None = Inr b \<and> tb_hard_cap_usd b < tb_soft_cap_usd b)"
  using token_budget_explicit_hard by (auto simp: token_budget_new_def not_less)

end
