(* ===== verification/Safety.thy ===== *)
theory Safety
  imports Contracts
begin

text \<open>
  The deterministic gates of \<open>orchestrator/safety.py\<close> and the budget tracker of
  \<open>orchestrator/budget.py\<close>. A gate returns \<open>None\<close> (passed) or a \<open>gate_failure\<close>. The locale
  \<open>gate\<close> is the contract callers rely on: a gate refuses exactly the inputs its policy does not
  allow, and only with the abort reasons it announces; \<open>gate_seq\<close> composes two gates the way the
  callers do, the first failure wins. Every gate of the file interprets \<open>gate\<close>.
\<close>

record gate_failure =
  gf_reason :: abort_reason
  gf_detail :: string

definition gate_fail :: "abort_reason \<Rightarrow> string \<Rightarrow> gate_failure option" where
  "gate_fail r d = Some \<lparr>gf_reason = r, gf_detail = d\<rparr>"

lemma gate_fail_simps [simp]:
  "gate_fail r d \<noteq> None"
  "gate_fail r d = Some f \<longleftrightarrow> f = \<lparr>gf_reason = r, gf_detail = d\<rparr>"
  by (auto simp: gate_fail_def)

section \<open>The gates\<close>

fun check_forbidden :: "safety_constraints \<Rightarrow> string \<Rightarrow> string list \<Rightarrow> gate_failure option" where
  "check_forbidden c ctx [] = None"
| "check_forbidden c ctx (forbidden # rest) =
     (if str_in forbidden ctx
      then gate_fail CLUSTER_DENIED
        (''cluster context '' @ repr_str (sc_cluster_context c) @ '' matches forbidden '' @
         ''substring '' @ repr_str forbidden)
      else check_forbidden c ctx rest)"

definition check_cluster_allowed :: "safety_constraints \<Rightarrow> gate_failure option" where
  "check_cluster_allowed c =
     check_forbidden c (lower (sc_cluster_context c)) (sc_forbidden_cluster_substrings c)"

definition annotation_key :: string where
  "annotation_key = ''chaos.kosta.dev/allowed''"

definition check_namespace_annotation ::
  "safety_constraints \<Rightarrow> (string, string) dict option \<Rightarrow> gate_failure option" where
  "check_namespace_annotation c annotations =
     (if \<not> sc_require_namespace_annotation c then None
      else case annotations of
        None \<Rightarrow>
          gate_fail CLUSTER_DENIED
            (''cannot verify annotation on namespace '' @ repr_str (sc_namespace c) @
             '': annotations not available (cluster unreachable?). Set '' @
             ''require_namespace_annotation=false in the plan if intentional.'')
      | Some ann \<Rightarrow>
          (if dict_get ann annotation_key \<noteq> Some ''true''
           then gate_fail CLUSTER_DENIED
             (''namespace '' @ repr_str (sc_namespace c) @ '' missing annotation '' @
              ''chaos.kosta.dev/allowed=true'')
           else None))"

fun check_durations :: "safety_constraints \<Rightarrow> fault_spec list \<Rightarrow> gate_failure option" where
  "check_durations c [] = None"
| "check_durations c (f # fs) =
     (if fs_duration_seconds f > sc_max_duration_seconds c
      then gate_fail BLAST_RADIUS_VIOLATION
        (''fault '' @ repr_str (fs_name f) @ '' duration '' @ int_str (fs_duration_seconds f) @
         ''s exceeds max_duration_seconds '' @ int_str (sc_max_duration_seconds c) @ ''s'')
      else check_durations c fs)"

definition check_blast_radius :: "experiment_plan \<Rightarrow> gate_failure option" where
  "check_blast_radius p =
     (let c = ep_safety p in
      if length (ep_faults p) > 1 \<and> \<not> sc_allow_multi_fault c
      then gate_fail BLAST_RADIUS_VIOLATION
        (''plan has '' @ nat_str (length (ep_faults p)) @
         '' faults but allow_multi_fault is False'')
      else check_durations c (ep_faults p))"

definition check_baseline_healthy ::
  "tester_report option \<Rightarrow> security_report option \<Rightarrow> gate_failure option" where
  "check_baseline_healthy tester security =
     or_else
       (case tester of
          Some t \<Rightarrow>
            (if \<not> tr_steady_state t
             then gate_fail BASELINE_UNHEALTHY
               (''tester baseline not steady: '' @
                repr_strs (if tr_failed_probes t \<noteq> [] then tr_failed_probes t else tr_anomalies t))
             else None)
        | None \<Rightarrow> None)
       (case security of
          Some s \<Rightarrow>
            (if has_critical_or_high s
             then gate_fail BASELINE_UNHEALTHY
               (''security baseline has critical/high findings: '' @
                repr_strs (map sf_title
                  (filter (\<lambda>f. sf_severity f \<in> {SEV_HIGH, SEV_CRITICAL}) (sp_findings s))))
             else None)
        | None \<Rightarrow> None)"

definition check_budget :: "real \<Rightarrow> real \<Rightarrow> gate_failure option" where
  "check_budget spent_usd hard_cap_usd =
     (if spent_usd \<ge> hard_cap_usd
      then gate_fail BUDGET_EXCEEDED
        (''spent $'' @ fmt2 spent_usd @ '' >= hard cap $'' @ fmt2 hard_cap_usd)
      else None)"

section \<open>The budget tracker\<close>

record budget_tracker =
  bt_budget :: token_budget
  bt_spent_usd :: real
  bt_started_at :: real
  bt_soft_warned :: bool

definition new_tracker :: "token_budget \<Rightarrow> real \<Rightarrow> budget_tracker" where
  "new_tracker b now =
     \<lparr>bt_budget = b, bt_spent_usd = 0, bt_started_at = now, bt_soft_warned = False\<rparr>"

definition record_spend :: "real \<Rightarrow> budget_tracker \<Rightarrow> budget_tracker" where
  "record_spend usd t = t\<lparr>bt_spent_usd := bt_spent_usd t + usd\<rparr>"

definition elapsed_seconds :: "real \<Rightarrow> budget_tracker \<Rightarrow> real" where
  "elapsed_seconds now t = now - bt_started_at t"

definition soft_warn_due :: "budget_tracker \<Rightarrow> bool \<times> budget_tracker" where
  "soft_warn_due t =
     (if bt_soft_warned t then (False, t)
      else if bt_spent_usd t \<ge> tb_soft_cap_usd (bt_budget t)
      then (True, t\<lparr>bt_soft_warned := True\<rparr>)
      else (False, t))"

definition hard_exceeded :: "real \<Rightarrow> budget_tracker \<Rightarrow> bool" where
  "hard_exceeded now t \<longleftrightarrow>
     bt_spent_usd t \<ge> tb_hard_cap_usd (bt_budget t) \<or>
     elapsed_seconds now t \<ge> of_int (tb_wall_clock_seconds (bt_budget t))"

section \<open>What each gate allows\<close>

definition cluster_allowed :: "safety_constraints \<Rightarrow> bool" where
  "cluster_allowed c \<longleftrightarrow>
     (\<forall>f \<in> set (sc_forbidden_cluster_substrings c). \<not> str_in f (lower (sc_cluster_context c)))"

definition annotation_allowed ::
  "safety_constraints \<times> (string, string) dict option \<Rightarrow> bool" where
  "annotation_allowed x \<longleftrightarrow>
     (case x of (c, a) \<Rightarrow>
       sc_require_namespace_annotation c \<longrightarrow>
         (\<exists>ann. a = Some ann \<and> dict_get ann annotation_key = Some ''true''))"

definition blast_radius_allowed :: "experiment_plan \<Rightarrow> bool" where
  "blast_radius_allowed p \<longleftrightarrow>
     (length (ep_faults p) \<le> 1 \<or> sc_allow_multi_fault (ep_safety p)) \<and>
     (\<forall>f \<in> set (ep_faults p). fs_duration_seconds f \<le> sc_max_duration_seconds (ep_safety p))"

definition baseline_allowed :: "tester_report option \<times> security_report option \<Rightarrow> bool" where
  "baseline_allowed x \<longleftrightarrow>
     (\<forall>t. fst x = Some t \<longrightarrow> tr_steady_state t) \<and>
     (\<forall>s. snd x = Some s \<longrightarrow> \<not> has_critical_or_high s)"

lemma check_forbidden_None_iff:
  "check_forbidden c ctx fs = None \<longleftrightarrow> (\<forall>f \<in> set fs. \<not> str_in f ctx)"
  by (induction fs) auto

lemma check_forbidden_reason:
  "check_forbidden c ctx fs = Some g \<Longrightarrow> gf_reason g = CLUSTER_DENIED"
  by (induction fs) (auto split: if_splits)

lemma check_durations_None_iff:
  "check_durations c fs = None \<longleftrightarrow>
     (\<forall>f \<in> set fs. fs_duration_seconds f \<le> sc_max_duration_seconds c)"
  by (induction fs) auto

lemma check_durations_reason:
  "check_durations c fs = Some g \<Longrightarrow> gf_reason g = BLAST_RADIUS_VIOLATION"
  by (induction fs) (auto split: if_splits)

section \<open>The gate contract\<close>

locale gate =
  fixes check :: "'a \<Rightarrow> gate_failure option"
    and allowed :: "'a \<Rightarrow> bool"
    and reasons :: "abort_reason set"
  assumes passes_iff: "check x = None \<longleftrightarrow> allowed x"
    and reason_in: "check x = Some f \<Longrightarrow> gf_reason f \<in> reasons"
begin

lemma refuses: "\<not> allowed x \<Longrightarrow> \<exists>f. check x = Some f \<and> gf_reason f \<in> reasons"
proof -
  assume "\<not> allowed x"
  then obtain f where "check x = Some f" using passes_iff by auto
  then show ?thesis using reason_in by blast
qed

lemma refusal_sound: "check x = Some f \<Longrightarrow> \<not> allowed x"
  using passes_iff by (metis option.distinct(1))

end

locale gate_seq = first: gate check1 allowed1 reasons1 + second: gate check2 allowed2 reasons2
  for check1 :: "'a \<Rightarrow> gate_failure option" and allowed1 reasons1
  and check2 :: "'a \<Rightarrow> gate_failure option" and allowed2 reasons2
begin

lemma seq_first: "\<not> allowed1 x \<Longrightarrow> or_else (check1 x) (check2 x) = check1 x"
  using first.refuses [of x] by auto

end

sublocale gate_seq \<subseteq> gate "\<lambda>x. or_else (check1 x) (check2 x)" "\<lambda>x. allowed1 x \<and> allowed2 x"
    "reasons1 \<union> reasons2"
  by unfold_locales
    (auto simp: first.passes_iff second.passes_iff
      elim!: or_else_Some_cases dest: first.reason_in second.reason_in)

interpretation cluster_gate: gate check_cluster_allowed cluster_allowed "{CLUSTER_DENIED}"
  by unfold_locales
    (auto simp: check_cluster_allowed_def cluster_allowed_def check_forbidden_None_iff
      dest: check_forbidden_reason)

interpretation annotation_gate:
  gate "\<lambda>(c, a). check_namespace_annotation c a" annotation_allowed "{CLUSTER_DENIED}"
  by unfold_locales
    (auto simp: check_namespace_annotation_def annotation_allowed_def split: option.splits if_splits)

interpretation blast_gate: gate check_blast_radius blast_radius_allowed "{BLAST_RADIUS_VIOLATION}"
  by unfold_locales
    (auto simp: check_blast_radius_def blast_radius_allowed_def Let_def check_durations_None_iff
      dest: check_durations_reason split: if_splits)

interpretation baseline_gate:
  gate "\<lambda>(t, s). check_baseline_healthy t s" baseline_allowed "{BASELINE_UNHEALTHY}"
  by unfold_locales
    (auto simp: check_baseline_healthy_def baseline_allowed_def elim!: or_else_Some_cases
      split: option.splits if_splits)

interpretation budget_gate:
  gate "\<lambda>(s, h). check_budget s h" "\<lambda>(s, h). s < h" "{BUDGET_EXCEEDED}"
  by unfold_locales (auto simp: check_budget_def not_le split: if_splits)

text \<open>The two gates the orchestrator runs before it provisions anything, in its order.\<close>

definition preflight_gates :: "experiment_plan \<Rightarrow> gate_failure option" where
  "preflight_gates p = or_else (check_cluster_allowed (ep_safety p)) (check_blast_radius p)"

interpretation plan_cluster_gate:
  gate "\<lambda>p. check_cluster_allowed (ep_safety p)" "\<lambda>p. cluster_allowed (ep_safety p)"
    "{CLUSTER_DENIED}"
  by unfold_locales (auto simp: cluster_gate.passes_iff dest: cluster_gate.reason_in)

interpretation preflight:
  gate_seq "\<lambda>p. check_cluster_allowed (ep_safety p)" "\<lambda>p. cluster_allowed (ep_safety p)"
    "{CLUSTER_DENIED}" check_blast_radius blast_radius_allowed "{BLAST_RADIUS_VIOLATION}"
  ..

section \<open>Lemmas on the gates and the tracker\<close>

lemma lower_char_lower [simp]: "lower_char (lower_char c) = lower_char c"
proof (cases "CHR ''A'' \<le> c \<and> c \<le> CHR ''Z''")
  case True
  then have "65 \<le> (of_char c :: nat)" "(of_char c :: nat) \<le> 90"
    by (simp_all add: less_eq_char_def)
  then have "\<not> (char_of (of_char c + 32 :: nat) \<le> CHR ''Z'')"
    by (simp add: less_eq_char_def)
  with True show ?thesis by (simp add: lower_char_def)
qed (auto simp: lower_char_def)

lemma lower_idem [simp]: "lower (lower s) = lower s"
  by (simp add: lower_def)

lemma str_in_chars: "str_in p s \<Longrightarrow> set p \<subseteq> set s"
  by (auto simp: str_in_iff)

lemma lower_chars: "c \<in> set (lower s) \<Longrightarrow> lower_char c = c"
  by (auto simp: lower_def)

lemma upper_entry_never_matches:
  assumes "c \<in> set f" "lower_char c \<noteq> c"
  shows "\<not> str_in f (lower s)"
  using assms str_in_chars lower_chars by blast

lemma soft_warn_once:
  "soft_warn_due t = (True, t') \<Longrightarrow> fst (soft_warn_due t') = False"
  by (auto simp: soft_warn_due_def split: if_splits)

lemma soft_warn_keeps [simp]:
  "bt_budget (snd (soft_warn_due t)) = bt_budget t"
  "bt_spent_usd (snd (soft_warn_due t)) = bt_spent_usd t"
  "bt_started_at (snd (soft_warn_due t)) = bt_started_at t"
  by (simp_all add: soft_warn_due_def)

lemma record_spend_total:
  "bt_spent_usd (foldl (\<lambda>t u. record_spend u t) t us) = bt_spent_usd t + sum_list us"
  by (induction us arbitrary: t) (simp_all add: record_spend_def)

text \<open>The cluster denylist compares a lower-cased context with the entries as written: an entry
  with any upper-case letter never matches, whatever the context is, so adding it to a plan's
  denylist changes the gate for no cluster.\<close>

theorem uppercase_denylist_entry_ignored:
  assumes "c \<in> set entry" "lower_char c \<noteq> c"
  shows "check_cluster_allowed (sc\<lparr>sc_forbidden_cluster_substrings := xs @ entry # ys\<rparr>) =
    check_cluster_allowed (sc\<lparr>sc_forbidden_cluster_substrings := xs @ ys\<rparr>)"
proof -
  have "\<not> str_in entry (lower (sc_cluster_context sc))" using assms by (rule upper_entry_never_matches)
  then have "check_forbidden sc' (lower (sc_cluster_context sc)) (xs @ entry # ys) =
      check_forbidden sc' (lower (sc_cluster_context sc)) (xs @ ys)" for sc'
    by (induction xs) auto
  moreover have "check_forbidden (sc\<lparr>sc_forbidden_cluster_substrings := zs\<rparr>) ctx fs = check_forbidden sc ctx fs"
    for zs ctx fs
    by (induction fs) auto
  ultimately show ?thesis by (simp add: check_cluster_allowed_def del: check_forbidden.simps)
qed

definition staging_constraints :: safety_constraints where
  "staging_constraints =
     \<lparr>sc_cluster_context = ''kind-PROD'', sc_namespace = ''shop'', sc_max_pods_affected = 1,
      sc_max_duration_seconds = 60, sc_allow_multi_fault = False,
      sc_require_namespace_annotation = True, sc_forbidden_cluster_substrings = default_forbidden\<rparr>"

lemma uppercase_denylist_entry_ignored_witness:
  "check_cluster_allowed (staging_constraints\<lparr>sc_forbidden_cluster_substrings := [''live'', ''PROD'', ''main'']\<rparr>) =
     check_cluster_allowed (staging_constraints\<lparr>sc_forbidden_cluster_substrings := [''live'', ''main'']\<rparr>)"
proof -
  have "lower_char (CHR ''P'') \<noteq> CHR ''P''" by code_simp
  from uppercase_denylist_entry_ignored [OF _ this, where entry = "''PROD''" and sc = staging_constraints
      and xs = "[''live'']" and ys = "[''main'']"]
  show ?thesis by simp
qed

end
