(* ===== verification/Suppression.thy ===== *)
theory Suppression
  imports Contracts
begin

text \<open>
  Hypothesis suppression, \<open>orchestrator/suppression.py\<close>: which rules match a hypothesis, how a
  diagnosis is tagged, and which hypotheses stay active. Shell patterns (\<open>fnmatch\<close> of the
  standard library) are compiled to tokens and matched; the SHA-1 digest behind a fingerprint is
  the argument \<open>sha1_hex\<close>, and the YAML parser with Pydantic's validation is an argument of
  \<open>load_repo_suppress_list\<close>.
\<close>

section \<open>\<open>fnmatch\<close>\<close>

datatype glob_token = G_star | G_any | G_lit char | G_class bool "(char \<times> char) list"

text \<open>The body of a bracket expression: ranges \<open>a-b\<close> (dropped when empty) and single characters.\<close>

fun class_items :: "string \<Rightarrow> (char \<times> char) list" where
  "class_items (a # m # b # rest) =
     (if m = CHR ''-'' then (if a \<le> b then (a, b) # class_items rest else class_items rest)
      else (a, a) # class_items (m # b # rest))"
| "class_items (a # rest) = (a, a) # class_items rest"
| "class_items [] = []"

text \<open>
  What follows a \<open>[\<close>: negation, body and rest, or \<open>None\<close> when no \<open>]\<close> closes it. A \<open>]\<close> right
  after the opening (or after the \<open>!\<close>) belongs to the body.
\<close>

definition class_negated :: "string \<Rightarrow> bool" where
  "class_negated s \<longleftrightarrow> s \<noteq> [] \<and> hd s = CHR ''!''"

definition class_start :: "string \<Rightarrow> string" where
  "class_start s = (if class_negated s then tl s else s)"

definition class_lead :: "string \<Rightarrow> string" where
  "class_lead s = (if s \<noteq> [] \<and> hd s = CHR '']'' then [hd s] else [])"

definition class_tail :: "string \<Rightarrow> string" where
  "class_tail s = drop (length (class_lead (class_start s))) (class_start s)"

definition class_split :: "string \<Rightarrow> (bool \<times> string \<times> string) option" where
  "class_split s =
     (let rest = dropWhile (\<lambda>c. c \<noteq> CHR '']'') (class_tail s)
      in if rest = [] then None
         else Some (class_negated s,
                    class_lead (class_start s) @ takeWhile (\<lambda>c. c \<noteq> CHR '']'') (class_tail s),
                    tl rest))"

lemma class_split_length:
  assumes "class_split s = Some (neg, body, rest)"
  shows "length rest < Suc (length s)"
proof -
  have "rest = tl (dropWhile (\<lambda>c. c \<noteq> CHR '']'') (class_tail s))"
    using assms by (simp add: class_split_def Let_def split: if_splits)
  then have "length rest \<le> length (dropWhile (\<lambda>c. c \<noteq> CHR '']'') (class_tail s))" by simp
  also have "\<dots> \<le> length (class_tail s)" by (rule length_dropWhile_le)
  also have "\<dots> \<le> length s" by (simp add: class_tail_def class_start_def)
  finally show ?thesis by simp
qed

function glob_tokens :: "string \<Rightarrow> glob_token list" where
  "glob_tokens [] = []"
| "glob_tokens (c # cs) =
     (if c = CHR ''*'' then G_star # glob_tokens cs
      else if c = CHR ''?'' then G_any # glob_tokens cs
      else if c = CHR ''['' then
        (case class_split cs of
           None \<Rightarrow> G_lit c # glob_tokens cs
         | Some (neg, body, rest) \<Rightarrow> G_class neg (class_items body) # glob_tokens rest)
      else G_lit c # glob_tokens cs)"
  by pat_completeness auto
termination
  by (relation "measure length") (auto dest: class_split_length)

definition in_class :: "(char \<times> char) list \<Rightarrow> char \<Rightarrow> bool" where
  "in_class items c = list_ex (\<lambda>(a, b). a \<le> c \<and> c \<le> b) items"

fun glob_one :: "glob_token \<Rightarrow> char \<Rightarrow> bool" where
  "glob_one G_star c = False"
| "glob_one G_any c = True"
| "glob_one (G_lit d) c = (c = d)"
| "glob_one (G_class neg items) c = (in_class items c \<noteq> neg)"

fun glob_match :: "glob_token list \<Rightarrow> string \<Rightarrow> bool" where
  "glob_match [] s = (s = [])"
| "glob_match (G_star # ts) [] = glob_match ts []"
| "glob_match (G_star # ts) (c # cs) = (glob_match ts (c # cs) \<or> glob_match (G_star # ts) cs)"
| "glob_match (t # ts) [] = False"
| "glob_match (t # ts) (c # cs) = (glob_one t c \<and> glob_match ts cs)"

definition fnmatch :: "string \<Rightarrow> string \<Rightarrow> bool" where
  "fnmatch name pat = glob_match (glob_tokens pat) name"

definition any_path_matches :: "string \<Rightarrow> string list \<Rightarrow> bool" where
  "any_path_matches glob paths = list_ex (\<lambda>p. fnmatch p glob) paths"

section \<open>Rules\<close>

definition merge_rules :: "suppression_rule list \<Rightarrow> suppression_rule list \<Rightarrow> suppression_rule list" where
  "merge_rules xs ys = xs @ ys"

definition hypothesis_fingerprint :: "(string \<Rightarrow> string) \<Rightarrow> root_cause_hypothesis \<Rightarrow> string" where
  "hypothesis_fingerprint sha1_hex h = hypothesis_fp sha1_hex h"

text \<open>The fields that are set, all of them.\<close>

definition fields_match :: "(string \<Rightarrow> string) \<Rightarrow> suppression_rule \<Rightarrow> root_cause_hypothesis \<Rightarrow> bool" where
  "fields_match sha1_hex rule h =
     (if (case sr_hypothesis_id rule of None \<Rightarrow> False
          | Some i \<Rightarrow> i \<noteq> hypothesis_fingerprint sha1_hex h) then False
      else if (case sr_fix_class rule of None \<Rightarrow> False
               | Some f \<Rightarrow> f \<noteq> rc_suggested_fix_class h) then False
      else if (case sr_path_glob rule of None \<Rightarrow> False
               | Some g \<Rightarrow> \<not> any_path_matches g (rc_affected_paths h)) then False
      else \<not> (case sr_summary_contains rule of None \<Rightarrow> False
               | Some t \<Rightarrow> \<not> str_in (lower t) (lower (rc_summary h))))"

definition naive_comparison :: pyexn where
  "naive_comparison = Exn ''TypeError'' ''can't compare offset-naive and offset-aware datetimes''"

text \<open>\<open>now\<close> has a time zone: comparing it with a naive expiry raises.\<close>

definition rule_matches ::
  "(string \<Rightarrow> string) \<Rightarrow> suppression_rule \<Rightarrow> root_cause_hypothesis \<Rightarrow> int \<Rightarrow> bool res" where
  "rule_matches sha1_hex rule h now =
     (case sr_expires_at rule of
        Some (Naive e) \<Rightarrow> Inl naive_comparison
      | Some (Aware e) \<Rightarrow> if now > e then Inr False else Inr (fields_match sha1_hex rule h)
      | None \<Rightarrow> Inr (fields_match sha1_hex rule h))"

fun describe_labels :: "(string \<times> string option) list \<Rightarrow> string" where
  "describe_labels [] = ''matched''"
| "describe_labels ((label, val) # rest) =
     (case val of
        Some v \<Rightarrow> (if v \<noteq> [] then ''matched '' @ label @ ''='' @ repr_str v else describe_labels rest)
      | None \<Rightarrow> describe_labels rest)"

definition describe_rule :: "suppression_rule \<Rightarrow> string" where
  "describe_rule rule =
     (if sr_reason rule \<noteq> [] then sr_reason rule
      else describe_labels
        [(''hypothesis_id'', sr_hypothesis_id rule), (''fix_class'', sr_fix_class rule),
         (''path_glob'', sr_path_glob rule), (''summary_contains'', sr_summary_contains rule)])"

text \<open>
  \<open>content\<close> is the text of \<open>.chaos/suppress.yaml\<close> if the file exists; \<open>parse\<close> stands for the
  YAML loader and \<open>SuppressList.model_validate\<close>, which raise on a broken file.
\<close>

definition load_repo_suppress_list ::
  "(string \<Rightarrow> suppression_rule list res) \<Rightarrow> string option \<Rightarrow> suppression_rule list res" where
  "load_repo_suppress_list parse content =
     (case content of None \<Rightarrow> Inr [] | Some t \<Rightarrow> parse t)"

definition build_active_list ::
  "suppression_rule list res \<Rightarrow> experiment_plan \<Rightarrow> suppression_rule list res" where
  "build_active_list repo_rules p =
     res_bind repo_rules (\<lambda>rs. Inr (merge_rules rs (ep_suppress p)))"

fun first_match ::
  "(string \<Rightarrow> string) \<Rightarrow> suppression_rule list \<Rightarrow> root_cause_hypothesis \<Rightarrow> int \<Rightarrow> suppression_rule option res"
where
  "first_match sha1_hex [] h now = Inr None"
| "first_match sha1_hex (r # rs) h now =
     (case rule_matches sha1_hex r h now of
        Inl x \<Rightarrow> Inl x
      | Inr m \<Rightarrow> if m then Inr (Some r) else first_match sha1_hex rs h now)"

section \<open>Tagging a diagnosis\<close>

definition tag_with :: "string \<Rightarrow> suppression_rule \<Rightarrow> diagnosis_report \<Rightarrow> diagnosis_report" where
  "tag_with fp rule d =
     (if fp \<notin> set (dr_suppressed_fingerprints d)
      then d\<lparr>dr_suppressed_fingerprints := dr_suppressed_fingerprints d @ [fp],
             dr_suppression_notes := dict_set fp (describe_rule rule) (dr_suppression_notes d)\<rparr>
      else d)"

definition tag_hypothesis ::
  "(string \<Rightarrow> string) \<Rightarrow> suppression_rule list \<Rightarrow> int \<Rightarrow> root_cause_hypothesis \<Rightarrow>
    diagnosis_report \<Rightarrow> unit res \<times> diagnosis_report" where
  "tag_hypothesis sha1_hex rules now h d =
     (case first_match sha1_hex rules h now of
        Inl x \<Rightarrow> (Inl x, d)
      | Inr None \<Rightarrow> (Inr (), d)
      | Inr (Some rule) \<Rightarrow> (Inr (), tag_with (hypothesis_fingerprint sha1_hex h) rule d))"

fun tag_all ::
  "(string \<Rightarrow> string) \<Rightarrow> suppression_rule list \<Rightarrow> int \<Rightarrow> root_cause_hypothesis list \<Rightarrow>
    diagnosis_report \<Rightarrow> unit res \<times> diagnosis_report" where
  "tag_all sha1_hex rules now [] d = (Inr (), d)"
| "tag_all sha1_hex rules now (h # hs) d =
     (case tag_hypothesis sha1_hex rules now h d of
        (Inl x, d') \<Rightarrow> (Inl x, d')
      | (Inr u, d') \<Rightarrow> tag_all sha1_hex rules now hs d')"

text \<open>The diagnosis is changed in place: what was tagged before a rule raises stays.\<close>

definition apply_to_diagnosis ::
  "(string \<Rightarrow> string) \<Rightarrow> suppression_rule list \<Rightarrow> int \<Rightarrow> diagnosis_report \<Rightarrow> unit res \<times> diagnosis_report" where
  "apply_to_diagnosis sha1_hex rules now d = tag_all sha1_hex rules now (dr_hypotheses d) d"

definition active_hypotheses ::
  "(string \<Rightarrow> string) \<Rightarrow> diagnosis_report \<Rightarrow> root_cause_hypothesis list" where
  "active_hypotheses sha1_hex d =
     filter (\<lambda>h. hypothesis_fingerprint sha1_hex h \<notin> set (dr_suppressed_fingerprints d))
       (dr_hypotheses d)"

section \<open>Lemmas: patterns\<close>

lemma glob_match_star_iff:
  "glob_match (G_star # ts) s \<longleftrightarrow> (\<exists>us vs. s = us @ vs \<and> glob_match ts vs)"
proof (induction s)
  case Nil
  then show ?case by simp
next
  case (Cons c cs)
  show ?case
  proof
    assume "glob_match (G_star # ts) (c # cs)"
    then consider "glob_match ts (c # cs)" | "glob_match (G_star # ts) cs" by auto
    then show "\<exists>us vs. c # cs = us @ vs \<and> glob_match ts vs"
    proof cases
      case 1
      then show ?thesis by (metis append_Nil)
    next
      case 2
      then show ?thesis using Cons.IH by (metis append_Cons)
    qed
  next
    assume "\<exists>us vs. c # cs = us @ vs \<and> glob_match ts vs"
    then obtain us vs where "c # cs = us @ vs" "glob_match ts vs" by blast
    then show "glob_match (G_star # ts) (c # cs)"
      using Cons.IH by (cases us) auto
  qed
qed

lemma fnmatch_literal:
  assumes "set pat \<inter> {CHR ''*'', CHR ''?'', CHR ''[''} = {}"
  shows "fnmatch name pat \<longleftrightarrow> name = pat"
proof -
  have "glob_tokens pat = map G_lit pat" using assms by (induction pat) auto
  moreover have "glob_match (map G_lit p) n \<longleftrightarrow> n = p" for p n
    by (induction p arbitrary: n) (case_tac n; auto)+
  ultimately show ?thesis by (simp add: fnmatch_def)
qed

lemma fnmatch_star_suffix:
  assumes "set pat \<inter> {CHR ''*'', CHR ''?'', CHR ''[''} = {}"
  shows "fnmatch name (CHR ''*'' # pat) \<longleftrightarrow> suffix pat name"
proof -
  have "fnmatch name (CHR ''*'' # pat) \<longleftrightarrow> (\<exists>us vs. name = us @ vs \<and> fnmatch vs pat)"
    by (simp add: fnmatch_def glob_match_star_iff del: glob_match.simps)
  then show ?thesis by (auto simp: fnmatch_literal [OF assms] suffix_def)
qed

section \<open>Lemmas: tagging\<close>

definition rule_fires :: "(string \<Rightarrow> string) \<Rightarrow> suppression_rule \<Rightarrow> root_cause_hypothesis \<Rightarrow> int \<Rightarrow> bool" where
  "rule_fires f r h now \<longleftrightarrow> rule_matches f r h now = Inr True"

lemma first_match_fires:
  "first_match f rs h now = Inr m \<Longrightarrow> (m = None \<longleftrightarrow> \<not> (\<exists>r \<in> set rs. rule_fires f r h now))"
  by (induction rs) (auto simp: rule_fires_def split: sum.splits if_splits)

lemma rule_expired: "sr_expires_at r = Some (Aware e) \<Longrightarrow> e < now \<Longrightarrow> \<not> rule_fires f r h now"
  by (simp add: rule_fires_def rule_matches_def)

lemma rule_expiry_monotone:
  "rule_fires f r h now \<Longrightarrow> t \<le> now \<Longrightarrow> rule_fires f r h t"
  by (auto simp: rule_fires_def rule_matches_def split: option.splits timestamp.splits if_splits)

lemma tag_with_keeps [simp]:
  "dr_hypotheses (tag_with fp r d) = dr_hypotheses d"
  "dr_notes (tag_with fp r d) = dr_notes d"
  "dr_experiment_id (tag_with fp r d) = dr_experiment_id d"
  by (simp_all add: tag_with_def)

lemma tag_keeps:
  "tag_hypothesis f rs now h d = (x, d') \<Longrightarrow>
     dr_hypotheses d' = dr_hypotheses d \<and> dr_notes d' = dr_notes d \<and> dr_experiment_id d' = dr_experiment_id d"
  by (auto simp: tag_hypothesis_def split: sum.splits option.splits)

lemma tag_all_keeps:
  "tag_all f rs now hs d = (x, d') \<Longrightarrow>
     dr_hypotheses d' = dr_hypotheses d \<and> dr_notes d' = dr_notes d \<and> dr_experiment_id d' = dr_experiment_id d"
proof (induction hs arbitrary: d)
  case (Cons h hs)
  obtain y d1 where t: "tag_hypothesis f rs now h d = (y, d1)" by fastforce
  show ?case using Cons.prems Cons.IH [of d1] tag_keeps [OF t] t by (auto split: sum.splits)
qed simp

lemma tag_fingerprints:
  assumes "tag_hypothesis f rs now h d = (Inr u, d')"
  shows "set (dr_suppressed_fingerprints d') =
     (if \<exists>r \<in> set rs. rule_fires f r h now
      then insert (hypothesis_fingerprint f h) (set (dr_suppressed_fingerprints d))
      else set (dr_suppressed_fingerprints d))"
proof -
  obtain m where m: "first_match f rs h now = Inr m"
    using assms by (auto simp: tag_hypothesis_def split: sum.splits)
  show ?thesis
    using assms m first_match_fires [OF m] by (auto simp: tag_hypothesis_def tag_with_def split: option.splits if_splits)
qed

lemma tag_all_fingerprints:
  "tag_all f rs now hs d = (Inr u, d') \<Longrightarrow>
     set (dr_suppressed_fingerprints d') = set (dr_suppressed_fingerprints d) \<union>
     {hypothesis_fingerprint f h | h. h \<in> set hs \<and> (\<exists>r \<in> set rs. rule_fires f r h now)}"
proof (induction hs arbitrary: d)
  case (Cons h hs)
  obtain y d1 where t: "tag_hypothesis f rs now h d = (y, d1)" by fastforce
  then obtain v where y: "y = Inr v" "tag_all f rs now hs d1 = (Inr u, d')"
    using Cons.prems by (auto split: sum.splits)
  show ?case using Cons.IH [OF y(2)] tag_fingerprints [OF t [unfolded y(1)]] by auto
qed simp

lemma apply_keeps:
  "apply_to_diagnosis f rs now d = (x, d') \<Longrightarrow>
     dr_hypotheses d' = dr_hypotheses d \<and> dr_notes d' = dr_notes d \<and> dr_experiment_id d' = dr_experiment_id d"
  unfolding apply_to_diagnosis_def by (rule tag_all_keeps)

lemma apply_fingerprints:
  "apply_to_diagnosis f rs now d = (Inr u, d') \<Longrightarrow>
     set (dr_suppressed_fingerprints d') = set (dr_suppressed_fingerprints d) \<union>
     {hypothesis_fingerprint f h | h. h \<in> set (dr_hypotheses d) \<and> (\<exists>r \<in> set rs. rule_fires f r h now)}"
  unfolding apply_to_diagnosis_def by (rule tag_all_fingerprints)

text \<open>The invariant of the two suppression fields: fingerprints once each, each with its note.\<close>

definition suppression_wf :: "diagnosis_report \<Rightarrow> bool" where
  "suppression_wf d \<longleftrightarrow>
     distinct (dr_suppressed_fingerprints d) \<and>
     set (map fst (dr_suppression_notes d)) = set (dr_suppressed_fingerprints d) \<and>
     dict_wf (dr_suppression_notes d)"

lemma tag_with_wf: "suppression_wf d \<Longrightarrow> suppression_wf (tag_with fp r d)"
  by (auto simp: suppression_wf_def tag_with_def keys_dict_set [simplified] dict_wf_set)

lemma tag_all_wf: "suppression_wf d \<Longrightarrow> suppression_wf (snd (tag_all f rs now hs d))"
proof (induction hs arbitrary: d)
  case (Cons h hs)
  obtain y d1 where t: "tag_hypothesis f rs now h d = (y, d1)" by fastforce
  have "suppression_wf d1"
    using t Cons.prems by (auto simp: tag_hypothesis_def tag_with_wf split: sum.splits option.splits)
  then show ?case using Cons.IH by (simp add: t split: sum.split)
qed simp

lemma apply_wf: "suppression_wf d \<Longrightarrow> suppression_wf (snd (apply_to_diagnosis f rs now d))"
  by (simp add: apply_to_diagnosis_def tag_all_wf)

text \<open>Rules that raised for no hypothesis, and found what they match tagged, change nothing.\<close>

lemma tag_all_again:
  assumes "\<And>h. h \<in> set hs \<Longrightarrow> \<exists>m. first_match f rs h now = Inr m"
    and "\<And>h r. h \<in> set hs \<Longrightarrow> r \<in> set rs \<Longrightarrow> rule_fires f r h now \<Longrightarrow>
      hypothesis_fingerprint f h \<in> set (dr_suppressed_fingerprints d)"
  shows "tag_all f rs now hs d = (Inr (), d)"
  using assms
proof (induction hs)
  case (Cons h hs)
  obtain m where m: "first_match f rs h now = Inr m" using Cons.prems(1) by auto
  have "tag_hypothesis f rs now h d = (Inr (), d)"
    using first_match_fires [OF m] Cons.prems(2) [of h]
    by (auto simp: tag_hypothesis_def m tag_with_def split: option.split)
  then show ?case using Cons.IH Cons.prems by simp
qed simp

lemma tag_all_matched:
  "tag_all f rs now hs d = (Inr u, d') \<Longrightarrow> h \<in> set hs \<Longrightarrow> \<exists>m. first_match f rs h now = Inr m"
proof (induction hs arbitrary: d)
  case (Cons g hs)
  obtain y d1 where t: "tag_hypothesis f rs now g d = (y, d1)" by fastforce
  then obtain v where y: "y = Inr v" "tag_all f rs now hs d1 = (Inr u, d')"
    using Cons.prems(1) by (auto split: sum.splits)
  have "\<exists>m. first_match f rs g now = Inr m"
    using t y(1) by (auto simp: tag_hypothesis_def split: sum.splits)
  then show ?case using Cons.IH [OF y(2)] Cons.prems(2) by auto
qed simp

lemma apply_idem:
  assumes "apply_to_diagnosis f rs now d = (Inr u, d')"
  shows "apply_to_diagnosis f rs now d' = (Inr (), d')"
  unfolding apply_to_diagnosis_def
proof (rule tag_all_again, goal_cases)
  case (1 h)
  then show ?case
    using tag_all_matched [OF assms [unfolded apply_to_diagnosis_def], of h] apply_keeps [OF assms] by simp
next
  case (2 h r)
  then show ?case using apply_fingerprints [OF assms] apply_keeps [OF assms] by auto
qed

lemma apply_no_rules [simp]: "apply_to_diagnosis f [] now d = (Inr (), d)"
  unfolding apply_to_diagnosis_def by (rule tag_all_again) simp_all

text \<open>Rules whose expiry has a time zone never raise.\<close>

definition zoned :: "suppression_rule \<Rightarrow> bool" where
  "zoned r \<longleftrightarrow> (case sr_expires_at r of Some (Naive e) \<Rightarrow> False | _ \<Rightarrow> True)"

lemma zoned_first_match: "list_all zoned rs \<Longrightarrow> \<exists>m. first_match f rs h now = Inr m"
  by (induction rs) (auto simp: zoned_def rule_matches_def split: option.splits timestamp.splits)

lemma zoned_applies: "list_all zoned rs \<Longrightarrow> \<exists>d'. apply_to_diagnosis f rs now d = (Inr (), d')"
proof -
  assume z: "list_all zoned rs"
  have "\<exists>d'. tag_all f rs now hs e = (Inr (), d')" for hs e
  proof (induction hs arbitrary: e)
    case (Cons h hs)
    obtain m where "first_match f rs h now = Inr m" using zoned_first_match [OF z] by blast
    then obtain e1 where "tag_hypothesis f rs now h e = (Inr (), e1)"
      by (cases m) (auto simp: tag_hypothesis_def)
    then show ?case using Cons.IH by simp
  qed simp
  then show ?thesis by (simp add: apply_to_diagnosis_def)
qed

lemma active_subset: "set (active_hypotheses f d) \<subseteq> set (dr_hypotheses d)"
  by (auto simp: active_hypotheses_def)

text \<open>What a rule promises, apart from the way it is evaluated: it is in force up to and including its expiry, and
  every field it sets names the hypothesis.\<close>

definition silences :: "(string \<Rightarrow> string) \<Rightarrow> suppression_rule \<Rightarrow> root_cause_hypothesis \<Rightarrow> int \<Rightarrow> bool" where
  "silences f r h now \<longleftrightarrow>
     (sr_expires_at r = None \<or> (\<exists>e. sr_expires_at r = Some (Aware e) \<and> now \<le> e)) \<and>
     (\<forall>i. sr_hypothesis_id r = Some i \<longrightarrow> i = hypothesis_fingerprint f h) \<and>
     (\<forall>c. sr_fix_class r = Some c \<longrightarrow> c = rc_suggested_fix_class h) \<and>
     (\<forall>g. sr_path_glob r = Some g \<longrightarrow> (\<exists>p \<in> set (rc_affected_paths h). fnmatch p g)) \<and>
     (\<forall>t. sr_summary_contains r = Some t \<longrightarrow> (\<exists>us vs. lower (rc_summary h) = us @ lower t @ vs))"

lemma fields_match_iff:
  "fields_match f r h \<longleftrightarrow>
     (\<forall>i. sr_hypothesis_id r = Some i \<longrightarrow> i = hypothesis_fingerprint f h) \<and>
     (\<forall>c. sr_fix_class r = Some c \<longrightarrow> c = rc_suggested_fix_class h) \<and>
     (\<forall>g. sr_path_glob r = Some g \<longrightarrow> (\<exists>p \<in> set (rc_affected_paths h). fnmatch p g)) \<and>
     (\<forall>t. sr_summary_contains r = Some t \<longrightarrow> (\<exists>us vs. lower (rc_summary h) = us @ lower t @ vs))"
  by (simp add: fields_match_def any_path_matches_def list_ex_iff str_in_iff split: option.split)

lemma rule_fires_silences: "rule_fires f r h now \<longleftrightarrow> silences f r h now"
  by (cases "sr_expires_at r")
    (auto simp: rule_fires_def rule_matches_def silences_def fields_match_iff [symmetric] split: timestamp.splits)

lemma rule_raises:
  "rule_matches f r h now = Inl x \<Longrightarrow> x = naive_comparison \<and> (\<exists>e. sr_expires_at r = Some (Naive e))"
  by (auto simp: rule_matches_def split: option.splits timestamp.splits if_splits)

lemma first_match_raises:
  "first_match f rs h now = Inl x \<Longrightarrow> x = naive_comparison \<and> (\<exists>r \<in> set rs. \<exists>e. sr_expires_at r = Some (Naive e))"
  by (induction rs) (auto dest: rule_raises split: sum.splits if_splits)

lemma apply_raises:
  assumes "apply_to_diagnosis f rs now d = (Inl x, d')"
  shows "x = naive_comparison \<and> (\<exists>r \<in> set rs. \<exists>e. sr_expires_at r = Some (Naive e))"
proof -
  have "tag_all f rs now hs e = (Inl x, d') \<Longrightarrow>
      x = naive_comparison \<and> (\<exists>r \<in> set rs. \<exists>e. sr_expires_at r = Some (Naive e))" for hs e
    by (induction hs arbitrary: e) (auto simp: tag_hypothesis_def dest: first_match_raises
        split: sum.splits option.splits prod.splits)
  then show ?thesis using assms unfolding apply_to_diagnosis_def by blast
qed

text \<open>C23: Suppression is exact and stable. Once the rules have been applied to a diagnosis, a hypothesis
  is still active exactly when its fingerprint was not suppressed before and no hypothesis of the diagnosis
  with the same fingerprint is silenced by a rule: one that has no expiry or whose expiry is not yet past, and of
  which every field that is set names the hypothesis (its fingerprint, its fix class, a pattern one of its
  affected paths matches, a text its summary contains, upper and lower case
  ignored). No hypothesis, note or identifier of the
  report is lost, and applying the same rules again changes nothing. Applying raises only when some rule's expiry
  has no time zone, and no hypothesis is lost then either.\<close>

theorem suppression_exact:
  "case apply_to_diagnosis f rs now d of
      (Inl x, d') \<Rightarrow>
        x = naive_comparison \<and> (\<exists>r \<in> set rs. \<exists>e. sr_expires_at r = Some (Naive e)) \<and>
        dr_hypotheses d' = dr_hypotheses d
    | (Inr u, d') \<Rightarrow>
        set (active_hypotheses f d') =
          {h \<in> set (dr_hypotheses d). hypothesis_fingerprint f h \<notin> set (dr_suppressed_fingerprints d) \<and>
             \<not> (\<exists>h' r. h' \<in> set (dr_hypotheses d) \<and> hypothesis_fingerprint f h' = hypothesis_fingerprint f h \<and>
                  r \<in> set rs \<and> silences f r h' now)} \<and>
        dr_hypotheses d' = dr_hypotheses d \<and> dr_notes d' = dr_notes d \<and>
        dr_experiment_id d' = dr_experiment_id d \<and>
        apply_to_diagnosis f rs now d' = (Inr (), d')"
proof -
  obtain x d' where a: "apply_to_diagnosis f rs now d = (x, d')" by fastforce
  show ?thesis
  proof (cases x)
    case (Inl y)
    then show ?thesis using apply_keeps [OF a] apply_raises [of f rs now d y d'] by (simp add: a)
  next
    case (Inr u)
    note b = a [unfolded Inr]
    have "set (active_hypotheses f d') =
        {h \<in> set (dr_hypotheses d). hypothesis_fingerprint f h \<notin> set (dr_suppressed_fingerprints d) \<and>
           \<not> (\<exists>h' r. h' \<in> set (dr_hypotheses d) \<and> hypothesis_fingerprint f h' = hypothesis_fingerprint f h \<and>
                r \<in> set rs \<and> silences f r h' now)}"
      using apply_keeps [OF b]
      by (auto simp: active_hypotheses_def apply_fingerprints [OF b] rule_fires_silences)
    then show ?thesis using apply_keeps [OF b] apply_idem [OF b] by (simp add: b)
  qed
qed

end
