(* ===== verification/Contracts_Regression.thy ===== *)
theory Contracts_Regression
  imports Contracts
begin

text \<open>
  The contracts of \<open>shared/contracts.py\<close> for resilience regression: thresholds, goldens,
  scenarios, suites, verdicts, the coverage matrix and the drift report, with the properties the
  models compute (\<open>computed_field\<close>). \<open>None\<close> of a computed ratio is the code's \<open>None\<close>.
\<close>

section \<open>Metrics and thresholds\<close>

datatype metric_direction = HIGHER_WORSE | LOWER_WORSE

fun metric_direction_value :: "metric_direction \<Rightarrow> string" where
  "metric_direction_value HIGHER_WORSE = ''higher_worse''"
| "metric_direction_value LOWER_WORSE = ''lower_worse''"

datatype percentile_field = PF_mean | PF_p50 | PF_p95 | PF_p99

fun percentile_field_value :: "percentile_field \<Rightarrow> string" where
  "percentile_field_value PF_mean = ''mean''"
| "percentile_field_value PF_p50 = ''p50''"
| "percentile_field_value PF_p95 = ''p95''"
| "percentile_field_value PF_p99 = ''p99''"

record metric_threshold =
  mt_metric :: string
  mt_query :: string
  mt_percentile :: percentile_field
  mt_max_ratio :: real
  mt_direction :: metric_direction
  mt_abs_floor :: real

definition metric_threshold_ok :: "metric_threshold \<Rightarrow> bool" where
  "metric_threshold_ok t \<longleftrightarrow> 1 < mt_max_ratio t \<and> 0 \<le> mt_abs_floor t"

section \<open>Suites\<close>

datatype oracle_kind = OK_PLAYWRIGHT | OK_COMMAND | OK_METRIC | OK_NEGATIVE

fun oracle_kind_value :: "oracle_kind \<Rightarrow> string" where
  "oracle_kind_value OK_PLAYWRIGHT = ''playwright''"
| "oracle_kind_value OK_COMMAND = ''command''"
| "oracle_kind_value OK_METRIC = ''metric''"
| "oracle_kind_value OK_NEGATIVE = ''negative''"

datatype regression_outcome = RO_PASS | RO_REGRESSED | RO_BASELINE_FAIL | RO_ERROR

datatype coverage_state = CS_COVERED | CS_GAP | CS_NA | CS_UNKNOWN

record golden =
  go_target_ref :: string
  go_metrics :: "statistical_sample list"
  go_passing_journeys :: "string list"
  go_captured_at :: int

record regression_scenario =
  sn_scenario_id :: string
  sn_title :: string
  sn_fault :: fault_spec
  sn_oracle :: oracle_kind
  sn_oracle_config :: "(string, pyval) dict"
  sn_journeys :: "string list"
  sn_target_ref :: "string option"
  sn_origin :: string
  sn_source_ref :: "string option"
  sn_golden :: "golden option"

record regression_suite =
  su_suite_id :: string
  su_name :: string
  su_target_app :: string
  su_target_repo :: "string option"
  su_safety :: safety_constraints
  su_budget :: token_budget
  su_scenarios :: "regression_scenario list"
  su_all_journeys :: "string list"

record regression_verdict =
  rv_scenario_id :: string
  rv_title :: string
  rv_fault :: string
  rv_experiment_id :: string
  rv_outcome :: regression_outcome
  rv_newly_failing :: "string list"
  rv_verify_result :: "verify_result option"
  rv_detail :: string

section \<open>Coverage\<close>

record coverage_cell =
  cc_fault :: string
  cc_journey :: string
  cc_state :: coverage_state
  cc_scenario_id :: "string option"
  cc_evidence :: "(string, pyval) dict"

record coverage_matrix =
  cm_suite_id :: string
  cm_faults :: "string list"
  cm_journeys :: "string list"
  cm_cells :: "coverage_cell list"

definition cm_covered :: "coverage_matrix \<Rightarrow> nat" where
  "cm_covered m = length (filter (\<lambda>c. cc_state c = CS_COVERED) (cm_cells m))"

definition cm_gaps :: "coverage_matrix \<Rightarrow> nat" where
  "cm_gaps m = length (filter (\<lambda>c. cc_state c \<in> {CS_GAP, CS_UNKNOWN}) (cm_cells m))"

definition cm_na :: "coverage_matrix \<Rightarrow> nat" where
  "cm_na m = length (filter (\<lambda>c. cc_state c = CS_NA) (cm_cells m))"

definition cm_comprehensiveness :: "coverage_matrix \<Rightarrow> real option" where
  "cm_comprehensiveness m =
     (let denom = cm_covered m + cm_gaps m
      in if denom \<noteq> 0 then Some (real (cm_covered m) / real denom) else None)"

record suite_run_record =
  srr_suite_run_id :: string
  srr_suite_id :: string
  srr_verdicts :: "regression_verdict list"
  srr_coverage :: "coverage_matrix option"
  srr_started_at :: int
  srr_finished_at :: "int option"

section \<open>Drift\<close>

record metric_drift =
  md_metric :: string
  md_percentile :: percentile_field
  md_direction :: metric_direction
  md_golden_value :: real
  md_current_value :: real
  md_max_ratio :: real
  md_regressed :: bool
  md_missing :: bool

definition md_ratio :: "metric_drift \<Rightarrow> real option" where
  "md_ratio d =
     (if md_missing d \<or> md_golden_value d = 0 then None
      else Some (md_current_value d / md_golden_value d))"

record scenario_drift =
  sd_scenario_id :: string
  sd_title :: string
  sd_regressed :: "string list"
  sd_recovered :: "string list"
  sd_metric_drifts :: "metric_drift list"
  sd_missing_golden :: bool
  sd_unassessed :: bool

definition sd_metric_regressions :: "scenario_drift \<Rightarrow> string list" where
  "sd_metric_regressions s = map md_metric (filter md_regressed (sd_metric_drifts s))"

definition sd_drifted :: "scenario_drift \<Rightarrow> bool" where
  "sd_drifted s =
     (if sd_unassessed s then False
      else sd_regressed s \<noteq> [] \<or> list_ex md_regressed (sd_metric_drifts s))"

record drift_report_t =
  dp_suite_id :: string
  dp_against_ref :: string
  dp_scenarios :: "scenario_drift list"

definition dp_regressed_scenarios :: "drift_report_t \<Rightarrow> nat" where
  "dp_regressed_scenarios r = length (filter sd_drifted (dp_scenarios r))"

section \<open>Facts\<close>

text \<open>The three counters partition the cells.\<close>

lemma coverage_partition: "cm_covered m + cm_gaps m + cm_na m = length (cm_cells m)"
proof -
  have "length (filter (\<lambda>c. cc_state c = CS_COVERED) cs) +
      length (filter (\<lambda>c. cc_state c \<in> {CS_GAP, CS_UNKNOWN}) cs) +
      length (filter (\<lambda>c. cc_state c = CS_NA) cs) = length cs" for cs :: "coverage_cell list"
  proof (induction cs)
    case (Cons c cs)
    then show ?case by (cases "cc_state c") simp_all
  qed simp
  then show ?thesis by (simp add: cm_covered_def cm_gaps_def cm_na_def)
qed

lemma comprehensiveness_bounds:
  "cm_comprehensiveness m = Some r \<Longrightarrow> 0 \<le> r \<and> r \<le> 1"
  by (auto simp: cm_comprehensiveness_def Let_def field_simps split: if_splits)

lemma comprehensiveness_full:
  "cm_comprehensiveness m = Some 1 \<longleftrightarrow> cm_gaps m = 0 \<and> cm_covered m > 0"
  by (auto simp: cm_comprehensiveness_def Let_def field_simps split: if_splits)

lemma metric_regressions_drifted:
  "\<not> sd_unassessed s \<Longrightarrow> sd_metric_regressions s \<noteq> [] \<Longrightarrow> sd_drifted s"
  by (auto simp: sd_metric_regressions_def sd_drifted_def list_ex_iff filter_empty_conv)

end
