(* ===== verification/Store.thy ===== *)
theory Store
  imports Contracts_Regression
begin

text \<open>
  The SQLite store of \<open>orchestrator/store.py\<close>. A table is a dictionary from its primary key to a
  row with the table's columns; the control flags are columns of their own, outside the JSON blob.
  The JSON text of a record (\<open>model_dump_json\<close>) and its validation (\<open>json.loads\<close> and
  \<open>model_validate\<close>) are the arguments \<open>dump\<close> and \<open>validate\<close>. The locale \<open>record_store\<close> is what
  the orchestrator relies on: a load returns what was saved last, a save keeps the operator's
  signals, clearing them touches nothing else.
\<close>

record exp_row =
  rw_state :: experiment_state
  rw_started_at :: int
  rw_finished_at :: "int option"
  rw_abort_reason :: "abort_reason option"
  rw_spend_usd :: real
  rw_blob :: string
  rw_pause_requested :: bool
  rw_abort_requested :: bool
  rw_abort_reason_requested :: "abort_reason option"

record suite_row =
  sw_suite_id :: string
  sw_started_at :: int
  sw_finished_at :: "int option"
  sw_blob :: string

record golden_row =
  gw_captured_at :: int
  gw_blob :: string

record database =
  db_experiments :: "(string, exp_row) dict"
  db_suite_runs :: "(string, suite_row) dict"
  db_goldens :: "(string \<times> string \<times> string, golden_row) dict"

definition empty_db :: database where
  "empty_db = \<lparr>db_experiments = [], db_suite_runs = [], db_goldens = []\<rparr>"

record control_signals =
  cs_pause_requested :: bool
  cs_abort_requested :: bool
  cs_abort_reason :: "abort_reason option"

definition no_signals :: control_signals where
  "no_signals = \<lparr>cs_pause_requested = False, cs_abort_requested = False, cs_abort_reason = None\<rparr>"

section \<open>Schema migration\<close>

definition migration_columns :: "string list" where
  "migration_columns = [''pause_requested'', ''abort_requested'', ''abort_reason_requested'']"

text \<open>\<open>_migrate\<close>: add each column that the table does not have.\<close>

definition migrate :: "string list \<Rightarrow> string list" where
  "migrate existing = foldl (\<lambda>cols c. if c \<in> set existing then cols else cols @ [c]) existing migration_columns"

section \<open>Experiment records\<close>

definition fresh_row :: "(experiment_record \<Rightarrow> string) \<Rightarrow> experiment_record \<Rightarrow> exp_row" where
  "fresh_row dump r =
     \<lparr>rw_state = er_state r, rw_started_at = er_started_at r, rw_finished_at = er_finished_at r,
      rw_abort_reason = er_abort_reason r, rw_spend_usd = er_spend_usd r, rw_blob = dump r,
      rw_pause_requested = False, rw_abort_requested = False, rw_abort_reason_requested = None\<rparr>"

definition store_save ::
  "(experiment_record \<Rightarrow> string) \<Rightarrow> experiment_record \<Rightarrow> database \<Rightarrow> database" where
  "store_save dump r db =
     (let k = er_experiment_id r;
          row = (case dict_get (db_experiments db) k of
                   None \<Rightarrow> fresh_row dump r
                 | Some old \<Rightarrow>
                     old\<lparr>rw_state := er_state r, rw_started_at := er_started_at r,
                         rw_finished_at := er_finished_at r, rw_abort_reason := er_abort_reason r,
                         rw_spend_usd := er_spend_usd r, rw_blob := dump r\<rparr>)
      in db\<lparr>db_experiments := dict_set k row (db_experiments db)\<rparr>)"

definition stored_blob :: "database \<Rightarrow> string \<Rightarrow> string option" where
  "stored_blob db k = map_option rw_blob (dict_get (db_experiments db) k)"

definition store_load ::
  "(string \<Rightarrow> experiment_record res) \<Rightarrow> string \<Rightarrow> database \<Rightarrow> experiment_record option res" where
  "store_load validate k db =
     (case stored_blob db k of
        None \<Rightarrow> Inr None
      | Some blob \<Rightarrow> res_bind (validate blob) (\<lambda>r. Inr (Some r)))"

text \<open>\<open>ORDER BY started_at DESC LIMIT n\<close>; SQLite takes a negative limit as none.\<close>

definition newest_first :: "('a \<Rightarrow> int) \<Rightarrow> 'a list \<Rightarrow> 'a list" where
  "newest_first key xs = sort_key (\<lambda>x. - key x) xs"

definition sql_limit :: "int \<Rightarrow> 'a list \<Rightarrow> 'a list" where
  "sql_limit n xs = (if n < 0 then xs else take (nat n) xs)"

definition store_recent ::
  "(string \<Rightarrow> experiment_record res) \<Rightarrow> int \<Rightarrow> database \<Rightarrow> experiment_record list res" where
  "store_recent validate n db =
     res_map (\<lambda>row. validate (rw_blob row))
       (sql_limit n (newest_first rw_started_at (map snd (db_experiments db))))"

definition find_live ::
  "(string \<Rightarrow> experiment_record res) \<Rightarrow> experiment_state list \<Rightarrow> database \<Rightarrow>
    experiment_record list res" where
  "find_live validate live db =
     (if live = [] then Inr []
      else res_map (\<lambda>row. validate (rw_blob row))
        (newest_first rw_started_at
          (filter (\<lambda>row. rw_state row \<in> set live) (map snd (db_experiments db)))))"

section \<open>Suite runs and goldens\<close>

definition save_suite_run ::
  "(suite_run_record \<Rightarrow> string) \<Rightarrow> suite_run_record \<Rightarrow> database \<Rightarrow> database" where
  "save_suite_run dump r db =
     db\<lparr>db_suite_runs :=
       dict_set (srr_suite_run_id r)
         \<lparr>sw_suite_id = srr_suite_id r, sw_started_at = srr_started_at r,
          sw_finished_at = srr_finished_at r, sw_blob = dump r\<rparr>
         (db_suite_runs db)\<rparr>"

definition load_suite_run ::
  "(string \<Rightarrow> suite_run_record res) \<Rightarrow> string \<Rightarrow> database \<Rightarrow> suite_run_record option res" where
  "load_suite_run validate k db =
     (case dict_get (db_suite_runs db) k of
        None \<Rightarrow> Inr None
      | Some row \<Rightarrow> res_bind (validate (sw_blob row)) (\<lambda>r. Inr (Some r)))"

definition recent_suite_runs ::
  "(string \<Rightarrow> suite_run_record res) \<Rightarrow> int \<Rightarrow> database \<Rightarrow> suite_run_record list res" where
  "recent_suite_runs validate n db =
     res_map (\<lambda>row. validate (sw_blob row))
       (sql_limit n (newest_first sw_started_at (map snd (db_suite_runs db))))"

definition save_goldens ::
  "(golden \<Rightarrow> string) \<Rightarrow> string \<Rightarrow> string \<Rightarrow> (string, golden) dict \<Rightarrow> database \<Rightarrow> database" where
  "save_goldens dump suite_id target_ref goldens db =
     foldl (\<lambda>d (sid, g). d\<lparr>db_goldens :=
         dict_set (suite_id, target_ref, sid)
           \<lparr>gw_captured_at = go_captured_at g, gw_blob = dump g\<rparr> (db_goldens d)\<rparr>)
       db goldens"

definition golden_entry ::
  "(string \<Rightarrow> golden res) \<Rightarrow> (string \<times> string \<times> string) \<times> golden_row \<Rightarrow> (string \<times> golden) res" where
  "golden_entry validate x =
     res_bind (validate (gw_blob (snd x))) (\<lambda>g. Inr (snd (snd (fst x)), g))"

definition load_goldens ::
  "(string \<Rightarrow> golden res) \<Rightarrow> string \<Rightarrow> string \<Rightarrow> database \<Rightarrow> (string, golden) dict res" where
  "load_goldens validate suite_id target_ref db =
     res_map (golden_entry validate)
       (filter (\<lambda>x. fst (fst x) = suite_id \<and> fst (snd (fst x)) = target_ref) (db_goldens db))"

definition golden_refs :: "string \<Rightarrow> database \<Rightarrow> (string \<times> nat \<times> int) list" where
  "golden_refs suite_id db =
     (let rows = filter (\<lambda>((s, t, sid), row). s = suite_id) (db_goldens db);
          refs = remdups (map (\<lambda>((s, t, sid), row). t) rows);
          times = (\<lambda>r. map (\<lambda>(k, row). gw_captured_at row)
                     (filter (\<lambda>((s, t, sid), row). t = r) rows))
      in newest_first (\<lambda>(r, n, m). m)
           (map (\<lambda>r. (r, length (times r), foldr max (tl (times r)) (hd (times r)))) refs))"

section \<open>Control plane\<close>

definition load_control :: "string \<Rightarrow> database \<Rightarrow> control_signals" where
  "load_control k db =
     (case dict_get (db_experiments db) k of
        None \<Rightarrow> no_signals
      | Some row \<Rightarrow>
          \<lparr>cs_pause_requested = rw_pause_requested row, cs_abort_requested = rw_abort_requested row,
           cs_abort_reason = rw_abort_reason_requested row\<rparr>)"

definition update_row :: "string \<Rightarrow> (exp_row \<Rightarrow> exp_row) \<Rightarrow> database \<Rightarrow> bool \<times> database" where
  "update_row k f db =
     (case dict_get (db_experiments db) k of
        None \<Rightarrow> (False, db)
      | Some row \<Rightarrow> (True, db\<lparr>db_experiments := dict_set k (f row) (db_experiments db)\<rparr>))"

definition set_pause :: "string \<Rightarrow> bool \<Rightarrow> database \<Rightarrow> bool \<times> database" where
  "set_pause k paused db = update_row k (\<lambda>row. row\<lparr>rw_pause_requested := paused\<rparr>) db"

definition request_abort :: "string \<Rightarrow> abort_reason \<Rightarrow> database \<Rightarrow> bool \<times> database" where
  "request_abort k reason db =
     update_row k (\<lambda>row. row\<lparr>rw_abort_requested := True, rw_abort_reason_requested := Some reason\<rparr>) db"

definition clear_control :: "string \<Rightarrow> database \<Rightarrow> database" where
  "clear_control k db =
     snd (update_row k (\<lambda>row. row\<lparr>rw_pause_requested := False, rw_abort_requested := False,
       rw_abort_reason_requested := None\<rparr>) db)"

section \<open>The contract of the store\<close>

locale record_store =
  fixes save :: "'r \<Rightarrow> 'db \<Rightarrow> 'db"
    and encode :: "'r \<Rightarrow> 'b"
    and key :: "'r \<Rightarrow> 'k"
    and blob :: "'db \<Rightarrow> 'k \<Rightarrow> 'b option"
    and control :: "'k \<Rightarrow> 'db \<Rightarrow> 'c"
    and quiet :: 'c
    and clear :: "'k \<Rightarrow> 'db \<Rightarrow> 'db"
  assumes blob_save: "blob (save r db) k = (if k = key r then Some (encode r) else blob db k)"
    and control_save: "control k (save r db) = control k db"
    and blob_clear: "blob (clear k' db) k = blob db k"
    and control_clear: "control k (clear k' db) = (if k = k' then quiet else control k db)"
begin

lemma last_save_wins: "key r2 = key r1 \<Longrightarrow> blob (save r2 (save r1 db)) (key r1) = Some (encode r2)"
  by (simp add: blob_save)

lemma save_then_clear:
  "blob (clear (key r) (save r db)) (key r) = Some (encode r) \<and>
   control (key r) (clear (key r) (save r db)) = quiet"
  by (simp add: blob_save blob_clear control_clear)

lemma save_after_clear:
  "control (key r) (save r (clear (key r) db)) = quiet"
  by (simp add: control_save control_clear)

lemma frame: "k \<noteq> key r \<Longrightarrow> blob (clear (key r) (save r db)) k = blob db k \<and>
    control k (clear (key r) (save r db)) = control k db"
  by (simp add: blob_save blob_clear control_save control_clear)

end

lemma control_store_save: "load_control k (store_save dump r db) = load_control k db"
  by (auto simp: load_control_def store_save_def Let_def dict_get_set fresh_row_def no_signals_def
      split: option.splits)

lemma blob_store_save:
  "stored_blob (store_save dump r db) k =
     (if k = er_experiment_id r then Some (dump r) else stored_blob db k)"
  by (auto simp: stored_blob_def store_save_def Let_def dict_get_set fresh_row_def
      split: option.splits)

lemma update_row_get:
  "dict_get (db_experiments (snd (update_row k f db))) k' =
     (if k' = k then map_option f (dict_get (db_experiments db) k)
      else dict_get (db_experiments db) k')"
  by (auto simp: update_row_def dict_get_set split: option.splits)

lemma blob_clear_control: "stored_blob (clear_control k' db) k = stored_blob db k"
  by (auto simp: stored_blob_def clear_control_def update_row_get option.map_comp comp_def)

lemma control_clear_control:
  "load_control k (clear_control k' db) = (if k = k' then no_signals else load_control k db)"
  by (auto simp: load_control_def clear_control_def update_row_get no_signals_def
      split: option.splits)

interpretation db: record_store "store_save dump" dump er_experiment_id stored_blob load_control
    no_signals clear_control
  for dump
  by unfold_locales
    (simp_all add: blob_store_save control_store_save blob_clear_control control_clear_control)

section \<open>Lemmas\<close>

lemma state_store_save:
  "map_option rw_state (dict_get (db_experiments (store_save dump r db)) k) =
     (if k = er_experiment_id r then Some (er_state r)
      else map_option rw_state (dict_get (db_experiments db) k))"
  by (auto simp: store_save_def Let_def dict_get_set fresh_row_def split: option.splits)

lemma state_clear_control:
  "map_option rw_state (dict_get (db_experiments (clear_control k' db)) k) =
     map_option rw_state (dict_get (db_experiments db) k)"
  by (auto simp: clear_control_def update_row_get option.map_comp comp_def)

lemma set_pause_visible:
  assumes "set_pause k p db = (True, db')"
  shows "cs_pause_requested (load_control k db') = p \<and> stored_blob db' j = stored_blob db j"
  using assms
  by (auto simp: set_pause_def update_row_def load_control_def stored_blob_def dict_get_set
      split: option.splits)

lemma request_abort_visible:
  assumes "request_abort k r db = (True, db')"
  shows "cs_abort_requested (load_control k db') \<and> cs_abort_reason (load_control k db') = Some r"
  using assms
  by (auto simp: request_abort_def update_row_def load_control_def dict_get_set
      split: option.splits)

lemma update_row_missing: "fst (update_row k f db) \<longleftrightarrow> dict_has (db_experiments db) k"
  by (auto simp: update_row_def dict_has_iff split: option.splits)

definition db_wf :: "database \<Rightarrow> bool" where
  "db_wf db \<longleftrightarrow> dict_wf (db_experiments db) \<and> dict_wf (db_suite_runs db) \<and> dict_wf (db_goldens db)"

lemma store_save_wf: "db_wf db \<Longrightarrow> db_wf (store_save dump r db)"
  by (auto simp: db_wf_def store_save_def Let_def)

lemma update_row_wf: "db_wf db \<Longrightarrow> db_wf (snd (update_row k f db))"
  by (auto simp: db_wf_def update_row_def split: option.splits)

lemma save_suite_run_wf: "db_wf db \<Longrightarrow> db_wf (save_suite_run dump r db)"
  by (auto simp: db_wf_def save_suite_run_def)

lemma save_goldens_Cons:
  "save_goldens dump s t ((sid, g) # gs) db =
     save_goldens dump s t gs
       (db\<lparr>db_goldens := dict_set (s, t, sid) \<lparr>gw_captured_at = go_captured_at g, gw_blob = dump g\<rparr>
         (db_goldens db)\<rparr>)"
  by (simp add: save_goldens_def)

lemma save_goldens_Nil [simp]: "save_goldens dump s t [] db = db"
  by (simp add: save_goldens_def)

lemma save_goldens_wf: "db_wf db \<Longrightarrow> db_wf (save_goldens dump s t gs db)"
proof (induction gs arbitrary: db)
  case (Cons p gs)
  obtain k g where p: "p = (k, g)" by (cases p)
  show ?case
    unfolding p save_goldens_Cons by (rule Cons.IH) (use Cons.prems in \<open>simp add: db_wf_def dict_wf_set\<close>)
qed simp

lemma save_goldens_get:
  assumes "distinct (map fst gs)"
  shows "map_option gw_blob (dict_get (db_goldens (save_goldens dump s t gs db)) (s', t', sid)) =
     (if s' = s \<and> t' = t \<and> sid \<in> set (map fst gs) then map_option dump (dict_get gs sid)
      else map_option gw_blob (dict_get (db_goldens db) (s', t', sid)))"
  using assms
proof (induction gs arbitrary: db)
  case (Cons p gs)
  obtain k g where p: "p = (k, g)" by (cases p)
  have "distinct (map fst gs)" "k \<notin> set (map fst gs)" using Cons.prems by (simp_all add: p)
  then show ?case
    unfolding p save_goldens_Cons Cons.IH [OF \<open>distinct (map fst gs)\<close>]
    by (auto simp: dict_get_set dict_get_Cons)
qed simp

lemma res_map_Inr_iff:
  "res_map f xs = Inr ys \<longleftrightarrow> list_all2 (\<lambda>x y. f x = Inr y) xs ys"
  by (induction xs arbitrary: ys) (auto simp: res_bind_Inr_iff list_all2_Cons1)

lemma list_all2_mem_iff:
  "list_all2 (\<lambda>x y. f x = Inr y) xs ys \<Longrightarrow> y \<in> set ys \<longleftrightarrow> (\<exists>x \<in> set xs. f x = Inr y)"
  by (induction rule: list_all2_induct) auto

lemma load_goldens_mem:
  assumes "load_goldens validate s t db = Inr gs" "db_wf db"
  shows "(sid, g) \<in> set gs \<longleftrightarrow>
    (\<exists>row. dict_get (db_goldens db) (s, t, sid) = Some row \<and> validate (gw_blob row) = Inr g)"
proof -
  have "(sid, g) \<in> set gs \<longleftrightarrow> (\<exists>x \<in> set (filter (\<lambda>x. fst (fst x) = s \<and> fst (snd (fst x)) = t)
      (db_goldens db)). golden_entry validate x = Inr (sid, g))"
    using assms(1) by (intro list_all2_mem_iff) (simp add: load_goldens_def res_map_Inr_iff)
  also have "\<dots> \<longleftrightarrow>
      (\<exists>row. ((s, t, sid), row) \<in> set (db_goldens db) \<and> validate (gw_blob row) = Inr g)"
    by (force simp: golden_entry_def res_bind_Inr_iff)
  finally show ?thesis
    using assms(2) by (simp add: mem_dict_get db_wf_def)
qed

lemma migrate_idem: "migrate (migrate cols) = migrate cols"
  by (simp add: migrate_def migration_columns_def)

lemma migrate_complete: "set (migrate cols) = set cols \<union> set migration_columns"
  by (auto simp: migrate_def migration_columns_def)

text \<open>Goldens round-trip through the store. Saving a set of goldens (distinct scenario ids)
  for a suite and target and loading that suite and target gives exactly the goldens saved, plus the
  stored ones of scenarios that were not saved again; the goldens of every other suite or target and
  the experiment and suite-run tables are untouched, and no primary key is duplicated.\<close>

theorem goldens_round_trip:
  assumes "db_wf db" "distinct (map fst gs)" "list_all (\<lambda>(k, g). validate (dump g) = Inr g) gs"
    and "load_goldens validate s t (save_goldens dump s t gs db) = Inr loaded"
  shows "((sid, g) \<in> set loaded \<longleftrightarrow>
      (if sid \<in> set (map fst gs) then dict_get gs sid = Some g
       else \<exists>row. dict_get (db_goldens db) (s, t, sid) = Some row \<and> validate (gw_blob row) = Inr g)) \<and>
    ((s', t') \<noteq> (s, t) \<longrightarrow>
      map_option gw_blob (dict_get (db_goldens (save_goldens dump s t gs db)) (s', t', sid)) =
      map_option gw_blob (dict_get (db_goldens db) (s', t', sid))) \<and>
    db_experiments (save_goldens dump s t gs db) = db_experiments db \<and>
    db_suite_runs (save_goldens dump s t gs db) = db_suite_runs db \<and>
    db_wf (save_goldens dump s t gs db)"
proof (intro conjI impI)
  let ?db = "save_goldens dump s t gs db"
  show wf: "db_wf ?db" using assms(1) by (rule save_goldens_wf)
  have ok: "dict_get gs sid = Some g' \<Longrightarrow> validate (dump g') = Inr g'" for g'
    using assms(3) by (auto simp: list_all_iff dict_get_def dest: map_of_SomeD)
  have mem: "(sid, g) \<in> set loaded \<longleftrightarrow>
      (\<exists>b. map_option gw_blob (dict_get (db_goldens ?db) (s, t, sid)) = Some b \<and> validate b = Inr g)"
    using load_goldens_mem [OF assms(4) wf, of sid g] by auto
  show "(sid, g) \<in> set loaded \<longleftrightarrow>
      (if sid \<in> set (map fst gs) then dict_get gs sid = Some g
       else \<exists>row. dict_get (db_goldens db) (s, t, sid) = Some row \<and> validate (gw_blob row) = Inr g)"
    unfolding mem save_goldens_get [OF assms(2)] using ok by (auto split: option.splits) 
  show "map_option gw_blob (dict_get (db_goldens ?db) (s', t', sid)) =
      map_option gw_blob (dict_get (db_goldens db) (s', t', sid))" if "(s', t') \<noteq> (s, t)"
    using save_goldens_get [OF assms(2), of dump s t db s' t' sid] that by auto
  have keeps: "db_experiments (save_goldens dump s t xs d) = db_experiments d \<and>
      db_suite_runs (save_goldens dump s t xs d) = db_suite_runs d" for xs d
    by (induction xs arbitrary: d) (auto simp: save_goldens_Cons)
  show "db_experiments ?db = db_experiments db" "db_suite_runs ?db = db_suite_runs db"
    using keeps by blast+
qed

text \<open>A serialisation that keeps only the target reference, and a database that holds a golden of
  another scenario.\<close>

definition small_golden :: "string \<Rightarrow> golden" where
  "small_golden ref = \<lparr>go_target_ref = ref, go_metrics = [], go_passing_journeys = [''login''],
     go_captured_at = 7\<rparr>"

definition stored_goldens :: database where
  "stored_goldens = save_goldens go_target_ref ''smoke'' ''main'' [(''login'', small_golden ''v1'')] empty_db"

lemma goldens_round_trip_witness:
  "(''login'', small_golden ''v1'') \<in> set [(''login'', small_golden ''v1''), (''checkout'', small_golden ''v2'')] \<longleftrightarrow>
   (\<exists>row. dict_get (db_goldens stored_goldens) (''smoke'', ''main'', ''login'') = Some row \<and>
      Inr (small_golden (gw_blob row)) = (Inr (small_golden ''v1'') :: golden res))"
proof -
  have wf: "db_wf stored_goldens"
    unfolding stored_goldens_def by (rule save_goldens_wf) (simp add: db_wf_def empty_db_def dict_wf_def)
  have "load_goldens (\<lambda>b. Inr (small_golden b)) ''smoke'' ''main''
      (save_goldens go_target_ref ''smoke'' ''main'' [(''checkout'', small_golden ''v2'')] stored_goldens) =
      Inr [(''login'', small_golden ''v1''), (''checkout'', small_golden ''v2'')]"
    by (simp add: stored_goldens_def load_goldens_def save_goldens_def golden_entry_def empty_db_def
        small_golden_def)
  from goldens_round_trip [OF wf _ _ this, of "''login''" "small_golden ''v1''"] show ?thesis
    by (simp add: small_golden_def)
qed

end
