(* ===== verification/Plugin_Host.thy ===== *)
theory Plugin_Host
  imports Contracts
begin

text \<open>
  The plugin lifecycle host, \<open>plugins/host.py\<close> and \<open>plugins/base.py\<close>. A plugin is customer code:
  the record \<open>plugin\<close> holds what the host calls, each call a function of an environment \<open>'e\<close>
  (everything the plugin and the outside world keep) that returns its result, the compensations it
  registered through \<open>ctx.defer\<close>, and the new environment. A compensation is a zero-argument
  callable and registers none itself.

  The session keeps the two unwind stacks (last registered first), the scope new compensations go
  to, and the audit records. Running two tasks and a guard concurrently is modelled by the batches
  of completions that \<open>asyncio.wait\<close> reports: \<open>pg_race\<close> gives them in order, each batch listing the
  tasks found done in the order the host looks at them; running out of batches is a run that never
  returns. \<open>now\<close> reads the clock in microseconds. Compensations that the workload driver (\<open>run_test\<close>) or the guard
  registers through \<open>ctx.defer\<close> while the run is driven are not modelled: a session's stacks hold those of the other
  hooks only.
\<close>

section \<open>Hooks, plugins and sessions\<close>

datatype hook =
    H_validate | H_provision_env | H_await_ready | H_seed | H_setup_test | H_capture_baseline
  | H_run_test | H_verify | H_collect_diagnostics | H_teardown_test | H_teardown_env

fun stage_for :: "hook \<Rightarrow> lifecycle_stage" where
  "stage_for H_validate = ST_VALIDATE"
| "stage_for H_provision_env = ST_PROVISION_ENV"
| "stage_for H_await_ready = ST_AWAIT_READY"
| "stage_for H_seed = ST_SEED"
| "stage_for H_setup_test = ST_SETUP_TEST"
| "stage_for H_capture_baseline = ST_CAPTURE_BASELINE"
| "stage_for H_run_test = ST_RUN_TEST"
| "stage_for H_verify = ST_VERIFY"
| "stage_for H_collect_diagnostics = ST_COLLECT_DIAGNOSTICS"
| "stage_for H_teardown_test = ST_TEARDOWN_TEST"
| "stage_for H_teardown_env = ST_TEARDOWN_ENV"

text \<open>What a hook returns: nothing, baseline samples, a verdict, or diagnostics.\<close>

datatype hook_value =
    HV_none | HV_samples "statistical_sample list" | HV_verdict verify_result
  | HV_dict "(string, pyval) dict"

datatype completion = C_inject "chaos_timeline res" | C_run_test "unit res" | C_guard pyexn

record 'e plugin =
  pg_name :: string
  pg_overrides :: "hook \<Rightarrow> bool"
  pg_hook :: "hook \<Rightarrow> 'e \<Rightarrow> hook_value res \<times> string list \<times> 'e"
  pg_compensation :: "string \<Rightarrow> 'e \<Rightarrow> unit res \<times> 'e"
  pg_guard :: "'e \<Rightarrow> string option"
  pg_set_baseline :: "statistical_sample list \<Rightarrow> 'e \<Rightarrow> 'e"
  pg_race :: "'e \<Rightarrow> completion list list \<times> 'e"

datatype scope = Env_scope | Test_scope

datatype callback = CB_teardown_test | CB_teardown_env | CB_compensation lifecycle_stage string

record session =
  ps_records :: "stage_result list"
  ps_verify_result :: "verify_result option"
  ps_diagnostics :: "(string, pyval) dict"
  ps_env_stack :: "callback list"
  ps_test_stack :: "callback list"
  ps_current :: scope
  ps_torn_down :: bool

definition new_session :: session where
  "new_session =
     \<lparr>ps_records = [], ps_verify_result = None, ps_diagnostics = [], ps_env_stack = [],
      ps_test_stack = [], ps_current = Env_scope, ps_torn_down = False\<rparr>"

definition guard_tripped_class :: string where
  "guard_tripped_class = ''GuardTripped''"

text \<open>\<open>GuardTripped(guard_name, detail)\<close>.\<close>

definition guard_tripped :: "string \<Rightarrow> string \<Rightarrow> pyexn" where
  "guard_tripped name detail =
     Exn guard_tripped_class (''steady-state guard '' @ repr_str name @ '' tripped: '' @ detail)"

section \<open>Records and registration\<close>

definition add_record :: "stage_result \<Rightarrow> session \<Rightarrow> session" where
  "add_record r s = s\<lparr>ps_records := ps_records s @ [r]\<rparr>"

text \<open>\<open>_skip\<close>: a hook the plugin does not override.\<close>

definition skip_hook :: "int \<Rightarrow> hook \<Rightarrow> session \<Rightarrow> session" where
  "skip_hook t h s =
     add_record \<lparr>sg_stage = stage_for h, sg_status = SS_SKIPPED, sg_detail = [], sg_error = None,
       sg_duration_ms = None, sg_started_at = t, sg_finished_at = None\<rparr> s"

definition timed_record ::
  "lifecycle_stage \<Rightarrow> stage_status \<Rightarrow> string \<Rightarrow> string option \<Rightarrow> int \<Rightarrow> int \<Rightarrow> stage_result" where
  "timed_record stage status detail err t0 t1 =
     \<lparr>sg_stage = stage, sg_status = status, sg_detail = detail, sg_error = err,
      sg_duration_ms = Some (of_int (t1 - t0) / 1000), sg_started_at = t0, sg_finished_at = Some t1\<rparr>"

text \<open>
  The record \<open>_invoke\<close> leaves: OK with detail \<open>ok\<close>, FAILED with the exception, or, for an
  exception that \<open>except Exception\<close> does not catch, the initial OK with no detail.
\<close>

definition invoke_record :: "hook \<Rightarrow> 'v res \<Rightarrow> int \<Rightarrow> int \<Rightarrow> stage_result" where
  "invoke_record h r t0 t1 =
     (case r of
        Inr v \<Rightarrow> timed_record (stage_for h) SS_OK ''ok'' None t0 t1
      | Inl x \<Rightarrow>
          (if is_exception x then timed_record (stage_for h) SS_FAILED [] (Some (exn_repr x)) t0 t1
           else timed_record (stage_for h) SS_OK [] None t0 t1))"

fun stack_of :: "scope \<Rightarrow> session \<Rightarrow> callback list" where
  "stack_of Env_scope s = ps_env_stack s"
| "stack_of Test_scope s = ps_test_stack s"

fun set_stack :: "scope \<Rightarrow> callback list \<Rightarrow> session \<Rightarrow> session" where
  "set_stack Env_scope cs s = s\<lparr>ps_env_stack := cs\<rparr>"
| "set_stack Test_scope cs s = s\<lparr>ps_test_stack := cs\<rparr>"

definition push_callback :: "callback \<Rightarrow> session \<Rightarrow> session" where
  "push_callback cb s = set_stack (ps_current s) (cb # stack_of (ps_current s) s) s"

text \<open>\<open>_register\<close>: the compensation is labelled by the scope it was registered in.\<close>

definition register_compensation :: "string \<Rightarrow> session \<Rightarrow> session" where
  "register_compensation name s =
     push_callback
       (CB_compensation (if ps_current s = Test_scope then ST_TEARDOWN_TEST else ST_TEARDOWN_ENV) name) s"

definition register_all :: "string list \<Rightarrow> session \<Rightarrow> session" where
  "register_all names s = foldl (\<lambda>acc n. register_compensation n acc) s names"

definition invoke ::
  "('e \<Rightarrow> int) \<Rightarrow> 'e plugin \<Rightarrow> hook \<Rightarrow> session \<Rightarrow> 'e \<Rightarrow> hook_value res \<times> session \<times> 'e" where
  "invoke now pl h s e =
     (if \<not> pg_overrides pl h then (Inr HV_none, skip_hook (now e) h s, e)
      else (case pg_hook pl h e of
        (r, defers, e') \<Rightarrow> (r, add_record (invoke_record h r (now e) (now e')) (register_all defers s), e')))"

fun invoke_all ::
  "('e \<Rightarrow> int) \<Rightarrow> 'e plugin \<Rightarrow> hook list \<Rightarrow> session \<Rightarrow> 'e \<Rightarrow> unit res \<times> session \<times> 'e" where
  "invoke_all now pl [] s e = (Inr (), s, e)"
| "invoke_all now pl (h # hs) s e =
     (case invoke now pl h s e of
        (Inl x, s', e') \<Rightarrow> (Inl x, s', e')
      | (Inr v, s', e') \<Rightarrow> invoke_all now pl hs s' e')"

section \<open>Teardown\<close>

fun callback_name :: "callback \<Rightarrow> string" where
  "callback_name CB_teardown_test = ''teardown_test''"
| "callback_name CB_teardown_env = ''teardown_env''"
| "callback_name (CB_compensation stage n) = n"

fun callback_stage :: "callback \<Rightarrow> lifecycle_stage" where
  "callback_stage CB_teardown_test = ST_TEARDOWN_TEST"
| "callback_stage CB_teardown_env = ST_TEARDOWN_ENV"
| "callback_stage (CB_compensation stage n) = stage"

fun call_callback :: "'e plugin \<Rightarrow> callback \<Rightarrow> 'e \<Rightarrow> unit res \<times> string list \<times> 'e" where
  "call_callback pl CB_teardown_test e =
     (case pg_hook pl H_teardown_test e of (r, ds, e') \<Rightarrow> (res_bind r (\<lambda>_. Inr ()), ds, e'))"
| "call_callback pl CB_teardown_env e =
     (case pg_hook pl H_teardown_env e of (r, ds, e') \<Rightarrow> (res_bind r (\<lambda>_. Inr ()), ds, e'))"
| "call_callback pl (CB_compensation stage n) e =
     (case pg_compensation pl n e of (r, e') \<Rightarrow> (r, [], e'))"

text \<open>
  \<open>_run_teardown\<close>: one callback, best effort. Its result is the exception that escapes, which is
  never an \<open>Exception\<close>.
\<close>

definition teardown_record :: "callback \<Rightarrow> unit res \<Rightarrow> int \<Rightarrow> int \<Rightarrow> stage_result" where
  "teardown_record cb r t0 t1 =
     (case r of
        Inr u \<Rightarrow> timed_record (callback_stage cb) SS_OK (callback_name cb) None t0 t1
      | Inl x \<Rightarrow>
          (if is_exception x
           then timed_record (callback_stage cb) SS_FAILED (callback_name cb) (Some (exn_repr x)) t0 t1
           else timed_record (callback_stage cb) SS_OK (callback_name cb) None t0 t1))"

definition run_teardown ::
  "('e \<Rightarrow> int) \<Rightarrow> 'e plugin \<Rightarrow> callback \<Rightarrow> session \<Rightarrow> 'e \<Rightarrow> pyexn option \<times> session \<times> 'e" where
  "run_teardown now pl cb s e =
     (case call_callback pl cb e of
        (r, ds, e') \<Rightarrow>
          ((case r of Inl x \<Rightarrow> (if is_exception x then None else Some x) | Inr u \<Rightarrow> None),
           add_record (teardown_record cb r (now e) (now e')) (register_all ds s), e'))"

lemma stack_set_stack [simp]:
  "stack_of sc (set_stack sc cs s) = cs"
  "sc \<noteq> sc' \<Longrightarrow> stack_of sc (set_stack sc' cs s) = stack_of sc s"
  by (cases sc; simp) (cases sc; cases sc'; simp)

lemma set_stack_keeps [simp]:
  "ps_current (set_stack sc cs s) = ps_current s"
  "ps_torn_down (set_stack sc cs s) = ps_torn_down s"
  "ps_records (set_stack sc cs s) = ps_records s"
  "ps_verify_result (set_stack sc cs s) = ps_verify_result s"
  "ps_diagnostics (set_stack sc cs s) = ps_diagnostics s"
  by (cases sc; simp)+

lemma stack_add_record [simp]:
  "stack_of sc (add_record r s) = stack_of sc s"
  "ps_current (add_record r s) = ps_current s"
  "ps_torn_down (add_record r s) = ps_torn_down s"
  "ps_records (add_record r s) = ps_records s @ [r]"
  "ps_env_stack (add_record r s) = ps_env_stack s"
  "ps_test_stack (add_record r s) = ps_test_stack s"
  "ps_verify_result (add_record r s) = ps_verify_result s"
  "ps_diagnostics (add_record r s) = ps_diagnostics s"
  by (cases sc; simp add: add_record_def)+

lemma register_all_keeps [simp]:
  "ps_current (register_all ns s) = ps_current s"
  "ps_torn_down (register_all ns s) = ps_torn_down s"
  "ps_records (register_all ns s) = ps_records s"
  "ps_verify_result (register_all ns s) = ps_verify_result s"
  "ps_diagnostics (register_all ns s) = ps_diagnostics s"
  by (induction ns arbitrary: s)
    (simp_all add: register_all_def register_compensation_def push_callback_def)

text \<open>Registration pushes compensations on the current stack only.\<close>

definition compensations_of :: "scope \<Rightarrow> string list \<Rightarrow> callback list" where
  "compensations_of sc ns =
     map (CB_compensation (if sc = Test_scope then ST_TEARDOWN_TEST else ST_TEARDOWN_ENV)) (rev ns)"

lemma stack_register_all:
  "stack_of sc (register_all ns s) =
     (if ps_current s = sc then compensations_of sc ns @ stack_of sc s else stack_of sc s)"
proof (induction ns arbitrary: s)
  case Nil
  then show ?case by (simp add: register_all_def compensations_of_def)
next
  case (Cons n ns)
  have "register_all (n # ns) s = register_all ns (register_compensation n s)"
    by (simp add: register_all_def)
  then show ?case
    by (simp add: Cons.IH) (auto simp: register_compensation_def push_callback_def compensations_of_def)
qed

lemma register_all_Nil [simp]: "register_all [] s = s"
  by (simp add: register_all_def)

fun is_hook_callback :: "callback \<Rightarrow> bool" where
  "is_hook_callback (CB_compensation stage n) = False"
| "is_hook_callback cb = True"

definition hooks_left :: "callback list \<Rightarrow> nat" where
  "hooks_left cs = length (filter is_hook_callback cs)"

lemma hooks_left_compensations [simp]: "hooks_left (compensations_of sc ns @ cs) = hooks_left cs"
  by (simp add: hooks_left_def compensations_of_def)

lemma run_teardown_stack:
  "run_teardown now pl cb s e = (x, s', e') \<Longrightarrow>
     \<exists>ns. stack_of sc s' = compensations_of sc ns @ stack_of sc s \<and>
       (is_hook_callback cb \<or> ns = [])"
proof -
  assume run: "run_teardown now pl cb s e = (x, s', e')"
  obtain r ds e2 where c: "call_callback pl cb e = (r, ds, e2)" by (metis prod_cases3)
  have ds: "is_hook_callback cb \<or> ds = []" using c by (cases cb) (auto split: prod.splits)
  have st: "stack_of sc s' = stack_of sc (register_all ds s)"
    using run c by (auto simp: run_teardown_def)
  show ?thesis
  proof (cases "ps_current s = sc")
    case True
    with st ds show ?thesis by (auto simp: stack_register_all)
  next
    case False
    with st have "stack_of sc s' = compensations_of sc [] @ stack_of sc s"
      by (simp add: stack_register_all compensations_of_def)
    then show ?thesis by blast
  qed
qed

text \<open>
  \<open>AsyncExitStack.aclose\<close>: pop and run until the stack is empty; an exception is kept and raised
  once every callback has run.
\<close>

function close_stack ::
  "scope \<Rightarrow> ('e \<Rightarrow> int) \<Rightarrow> 'e plugin \<Rightarrow> pyexn option \<Rightarrow> session \<Rightarrow> 'e \<Rightarrow> pyexn option \<times> session \<times> 'e" where
  "close_stack sc now pl pending s e =
     (case stack_of sc s of
        [] \<Rightarrow> (pending, s, e)
      | cb # rest \<Rightarrow>
          (case run_teardown now pl cb (set_stack sc rest s) e of
             (x, s', e') \<Rightarrow> close_stack sc now pl (or_else x pending) s' e'))"
  by pat_completeness auto
termination
proof (relation "measures [\<lambda>(sc, now, pl, p, s, e). hooks_left (stack_of sc s),
                           \<lambda>(sc, now, pl, p, s, e). length (stack_of sc s)]", goal_cases)
  case 1
  then show ?case by simp
next
  case (2 sc now pl pending s e cb rest x q s' e')
  then have "run_teardown now pl cb (set_stack sc rest s) e = (x, s', e')" by simp
  from run_teardown_stack [OF this, of sc] obtain ns where
      "stack_of sc s' = compensations_of sc ns @ stack_of sc (set_stack sc rest s)"
      "is_hook_callback cb \<or> ns = []"
    by (elim exE conjE)
  then have st: "stack_of sc s' = compensations_of sc ns @ rest" and ns: "is_hook_callback cb \<or> ns = []"
    by simp_all
  have "hooks_left (stack_of sc s') < hooks_left (cb # rest) \<or>
      hooks_left (stack_of sc s') = hooks_left (cb # rest) \<and> length (stack_of sc s') < length (cb # rest)"
    using ns unfolding st by (cases "is_hook_callback cb") (simp_all add: hooks_left_def compensations_of_def)
  then show ?case unfolding 2(1) [symmetric] by simp
qed

declare close_stack.simps [simp del]

text \<open>
  \<open>_teardown\<close>: once only, the test scope first. An \<open>Exception\<close> from a stack is logged and
  dropped; anything else leaves the loop at once.
\<close>

definition teardown ::
  "('e \<Rightarrow> int) \<Rightarrow> 'e plugin \<Rightarrow> session \<Rightarrow> 'e \<Rightarrow> pyexn option \<times> session \<times> 'e" where
  "teardown now pl s e =
     (if ps_torn_down s then (None, s, e)
      else (case close_stack Test_scope now pl None (s\<lparr>ps_torn_down := True\<rparr>) e of
        (x, s1, e1) \<Rightarrow>
          (case x of
             Some y \<Rightarrow>
               (if is_exception y then close_stack Env_scope now pl None s1 e1 else (Some y, s1, e1))
           | None \<Rightarrow> close_stack Env_scope now pl None s1 e1)))"

section \<open>Entering, leaving and the calls in between\<close>

definition open_env_scope :: "'e plugin \<Rightarrow> session \<Rightarrow> session" where
  "open_env_scope pl s =
     (let s1 = s\<lparr>ps_current := Env_scope\<rparr>
      in if pg_overrides pl H_teardown_env then push_callback CB_teardown_env s1 else s1)"

definition open_test_scope :: "'e plugin \<Rightarrow> session \<Rightarrow> session" where
  "open_test_scope pl s =
     (let s1 = s\<lparr>ps_current := Test_scope\<rparr>
      in if pg_overrides pl H_teardown_test then push_callback CB_teardown_test s1 else s1)"

definition enter_body ::
  "('e \<Rightarrow> int) \<Rightarrow> 'e plugin \<Rightarrow> session \<Rightarrow> 'e \<Rightarrow> unit res \<times> session \<times> 'e" where
  "enter_body now pl s e =
     (case invoke now pl H_validate s e of
        (Inl x, s1, e1) \<Rightarrow> (Inl x, s1, e1)
      | (Inr v, s1, e1) \<Rightarrow>
          (case invoke_all now pl [H_provision_env, H_await_ready, H_seed] (open_env_scope pl s1) e1 of
             (Inl x, s2, e2) \<Rightarrow> (Inl x, s2, e2)
           | (Inr u, s2, e2) \<Rightarrow> invoke_all now pl [H_setup_test] (open_test_scope pl s2) e2))"

text \<open>\<open>__aenter__\<close>: a failed enter unwinds what it registered and raises again.\<close>

definition aenter ::
  "('e \<Rightarrow> int) \<Rightarrow> 'e plugin \<Rightarrow> session \<Rightarrow> 'e \<Rightarrow> unit res \<times> session \<times> 'e" where
  "aenter now pl s e =
     (case enter_body now pl s e of
        (Inr u, s1, e1) \<Rightarrow> (Inr u, s1, e1)
      | (Inl x, s1, e1) \<Rightarrow>
          (case teardown now pl s1 e1 of
             (None, s2, e2) \<Rightarrow> (Inl x, s2, e2)
           | (Some y, s2, e2) \<Rightarrow> (Inl y, s2, e2)))"

text \<open>\<open>__aexit__\<close>: its result is the exception that replaces the body's, if any.\<close>

definition aexit ::
  "('e \<Rightarrow> int) \<Rightarrow> 'e plugin \<Rightarrow> session \<Rightarrow> 'e \<Rightarrow> pyexn option \<times> session \<times> 'e" where
  "aexit now pl s e = teardown now pl s e"

definition capture_baseline ::
  "('e \<Rightarrow> int) \<Rightarrow> 'e plugin \<Rightarrow> session \<Rightarrow> 'e \<Rightarrow> statistical_sample list res \<times> session \<times> 'e" where
  "capture_baseline now pl s e =
     (if \<not> pg_overrides pl H_capture_baseline
      then (Inr [], skip_hook (now e) H_capture_baseline s, e)
      else (case invoke now pl H_capture_baseline s e of
        (Inl x, s', e') \<Rightarrow> (Inl x, s', e')
      | (Inr v, s', e') \<Rightarrow>
          (let result = (case v of HV_samples xs \<Rightarrow> xs | _ \<Rightarrow> [])
           in (Inr result, s', pg_set_baseline pl result e'))))"

definition session_verify ::
  "('e \<Rightarrow> int) \<Rightarrow> 'e plugin \<Rightarrow> session \<Rightarrow> 'e \<Rightarrow> verify_result option res \<times> session \<times> 'e" where
  "session_verify now pl s e =
     (if \<not> pg_overrides pl H_verify then (Inr None, skip_hook (now e) H_verify s, e)
      else (case invoke now pl H_verify s e of
        (Inl x, s', e') \<Rightarrow> (Inl x, s', e')
      | (Inr v, s', e') \<Rightarrow>
          (let result = (case v of HV_verdict r \<Rightarrow> Some r | _ \<Rightarrow> None)
           in (Inr result, s'\<lparr>ps_verify_result := result\<rparr>, e'))))"

definition collect_diagnostics ::
  "('e \<Rightarrow> int) \<Rightarrow> 'e plugin \<Rightarrow> session \<Rightarrow> 'e \<Rightarrow> (string, pyval) dict res \<times> session \<times> 'e" where
  "collect_diagnostics now pl s e =
     (if \<not> pg_overrides pl H_collect_diagnostics
      then (Inr [], skip_hook (now e) H_collect_diagnostics s, e)
      else (case invoke now pl H_collect_diagnostics s e of
        (Inl x, s', e') \<Rightarrow> (Inl x, s', e')
      | (Inr v, s', e') \<Rightarrow>
          (let diag = (case v of HV_dict d \<Rightarrow> d | _ \<Rightarrow> [])
           in (Inr diag, s'\<lparr>ps_diagnostics := diag\<rparr>, e'))))"

section \<open>Driving the run\<close>

fun completion_failure :: "completion \<Rightarrow> pyexn option" where
  "completion_failure (C_inject (Inl x)) = Some x"
| "completion_failure (C_run_test (Inl x)) = Some x"
| "completion_failure (C_guard x) = Some x"
| "completion_failure (C_inject (Inr t)) = None"
| "completion_failure (C_run_test (Inr u)) = None"

fun batch_failure :: "completion list \<Rightarrow> pyexn option" where
  "batch_failure [] = None"
| "batch_failure (c # cs) = or_else (completion_failure c) (batch_failure cs)"

fun batch_inject :: "completion list \<Rightarrow> chaos_timeline res option" where
  "batch_inject [] = None"
| "batch_inject (C_inject r # cs) = Some r"
| "batch_inject (c # cs) = batch_inject cs"

fun batch_run_test :: "completion list \<Rightarrow> unit res option" where
  "batch_run_test [] = None"
| "batch_run_test (C_run_test r # cs) = Some r"
| "batch_run_test (c # cs) = batch_run_test cs"

text \<open>How a driven run ended: the result, whether the injection was still running and got
  cancelled, and the workload driver's result if it finished.\<close>

record drive_result =
  dv_result :: "chaos_timeline res"
  dv_inject_cancelled :: bool
  dv_run_test :: "unit res option"

fun drive_loop ::
  "chaos_timeline res option \<Rightarrow> unit res option \<Rightarrow> bool \<Rightarrow> completion list list \<Rightarrow> drive_result option"
where
  "drive_loop ij rt drives [] =
     (case ij of
        Some r \<Rightarrow>
          (if drives \<and> rt = None then None
           else Some \<lparr>dv_result = r, dv_inject_cancelled = False, dv_run_test = rt\<rparr>)
      | None \<Rightarrow> None)"
| "drive_loop ij rt drives (b # bs) =
     (if ij \<noteq> None \<and> \<not> (drives \<and> rt = None)
      then Some \<lparr>dv_result = the ij, dv_inject_cancelled = False, dv_run_test = rt\<rparr>
      else (let ij' = or_else (batch_inject b) ij; rt' = or_else (batch_run_test b) rt in
        (case batch_failure b of
           Some x \<Rightarrow> Some \<lparr>dv_result = Inl x, dv_inject_cancelled = (ij' = None), dv_run_test = rt'\<rparr>
         | None \<Rightarrow> drive_loop ij' rt' drives bs)))"

text \<open>
  \<open>drive_run\<close>: with neither guard nor workload the injection is awaited alone. \<open>None\<close> is a run that
  never returns. A cancelled workload driver leaves the record of an exception that
  \<open>except Exception\<close> does not catch.
\<close>

definition drive_run ::
  "('e \<Rightarrow> int) \<Rightarrow> 'e plugin \<Rightarrow> ('e \<Rightarrow> chaos_timeline res \<times> 'e) \<Rightarrow> session \<Rightarrow> 'e \<Rightarrow>
    (chaos_timeline res \<times> bool \<times> session \<times> 'e) option" where
  "drive_run now pl inject s e =
     (let drives = pg_overrides pl H_run_test in
      if pg_guard pl e = None \<and> \<not> drives
      then (case inject e of (r, e') \<Rightarrow> Some (r, False, s, e'))
      else (case pg_race pl e of
        (bs, e') \<Rightarrow>
          (case drive_loop None None drives bs of
             None \<Rightarrow> None
           | Some d \<Rightarrow>
               Some (dv_result d, dv_inject_cancelled d,
                 (if drives
                  then add_record (invoke_record H_run_test
                    (case dv_run_test d of Some r \<Rightarrow> r | None \<Rightarrow> Inl (BaseExn ''CancelledError''))
                    (now e) (now e')) s
                  else s), e'))))"

section \<open>The session interface of the orchestrator\<close>

text \<open>
  \<open>open_session\<close> returns a \<open>NullSession\<close> without a plugin: every call is a no-op there and the
  injection is awaited as it is.
\<close>

fun s_enter where
  "s_enter now None s e = (Inr (), s, e)"
| "s_enter now (Some pl) s e = aenter now pl s e"

fun s_exit where
  "s_exit now None s e = (None, s, e)"
| "s_exit now (Some pl) s e = aexit now pl s e"

fun s_capture where
  "s_capture now None s e = (Inr [], s, e)"
| "s_capture now (Some pl) s e = capture_baseline now pl s e"

fun s_drive where
  "s_drive now None inject s e = (case inject e of (r, e') \<Rightarrow> Some (r, False, s, e'))"
| "s_drive now (Some pl) inject s e = drive_run now pl inject s e"

fun s_verify where
  "s_verify now None s e = (Inr None, s, e)"
| "s_verify now (Some pl) s e = session_verify now pl s e"

fun s_collect where
  "s_collect now None s e = (Inr [], s, e)"
| "s_collect now (Some pl) s e = collect_diagnostics now pl s e"

definition s_name :: "'e plugin option \<Rightarrow> string option" where
  "s_name p = map_option pg_name p"

end
