(* ===== verification/Plugin_Host_Props.thy ===== *)
theory Plugin_Host_Props
  imports Plugin_Host
begin

text \<open>
  What the plugin host promises: the teardown guarantee (every callback registered runs, the last
  registered first, whatever ended the run), the append-only audit trail, and the outcome of a
  driven run. The locale \<open>audit_trail\<close> is the contract of a component whose steps only append to a
  log; the host interprets it on its session calls.
\<close>

section \<open>Append-only trails\<close>

locale audit_trail =
  fixes trail :: "'s \<Rightarrow> 'r list"
    and step :: "'s \<Rightarrow> 's \<Rightarrow> bool"
  assumes step_extends: "step s t \<Longrightarrow> prefix (trail s) (trail t)"
begin

lemma run_extends: "step\<^sup>*\<^sup>* s t \<Longrightarrow> prefix (trail s) (trail t)"
  by (induction rule: rtranclp_induct) (auto dest: step_extends intro: prefix_order.trans)

lemma entry_stays: "step\<^sup>*\<^sup>* s t \<Longrightarrow> r \<in> set (trail s) \<Longrightarrow> r \<in> set (trail t)"
  using run_extends by (metis set_mono_prefix subsetD)

end

section \<open>Closing a stack\<close>

definition callback_label :: "callback \<Rightarrow> lifecycle_stage \<times> string" where
  "callback_label cb = (callback_stage cb, callback_name cb)"

definition record_label :: "stage_result \<Rightarrow> lifecycle_stage \<times> string" where
  "record_label r = (sg_stage r, sg_detail r)"

lemma timed_record_label [simp]:
  "record_label (timed_record st ss d x t0 t1) = (st, d)"
  by (simp add: record_label_def timed_record_def)

lemma teardown_record_label [simp]: "record_label (teardown_record cb r t0 t1) = callback_label cb"
  by (simp add: teardown_record_def callback_label_def split: sum.splits)

lemma run_teardown_effect:
  assumes "run_teardown now pl cb s e = (x, s', e')"
  obtains rec where "ps_records s' = ps_records s @ [rec]" "record_label rec = callback_label cb"
    and "ps_torn_down s' = ps_torn_down s" "ps_current s' = ps_current s"
    and "case x of None \<Rightarrow> True | Some y \<Rightarrow> \<not> is_exception y"
  using assms by (auto simp: run_teardown_def split: prod.splits sum.splits if_splits)

text \<open>
  Closing empties the stack, runs every callback that was on it in stack order, and raises
  nothing but exceptions outside \<open>Exception\<close>.
\<close>

lemma subseq_label_step:
  "subseq (map callback_label (compensations_of sc ns @ rest)) (map record_label rs) \<Longrightarrow>
   record_label rec = callback_label cb \<Longrightarrow>
   subseq (map callback_label (cb # rest)) (map record_label (rec # rs))"
  by (simp add: subseq_append_iff) (metis list_emb_append2 subseq_append subseq_append' subseq_drop_many)

lemma close_stack_spec:
  assumes "close_stack sc now pl pending s e = (x, s', e')"
    and "case pending of None \<Rightarrow> True | Some y \<Rightarrow> \<not> is_exception y"
  shows "stack_of sc s' = [] \<and> ps_torn_down s' = ps_torn_down s \<and>
    (case x of None \<Rightarrow> True | Some y \<Rightarrow> \<not> is_exception y) \<and>
    (\<exists>rs. ps_records s' = ps_records s @ rs \<and>
      subseq (map callback_label (stack_of sc s)) (map record_label rs)) \<and>
    (\<forall>sc'. sc' \<noteq> sc \<longrightarrow> suffix (stack_of sc' s) (stack_of sc' s'))"
  using assms
proof (induction sc now pl pending s e arbitrary: x s' e' rule: close_stack.induct)
  case (1 sc now pl pending s e)
  show ?case
  proof (cases "stack_of sc s")
    case Nil
    with "1.prems" show ?thesis by (simp add: close_stack.simps [of sc now pl pending s e])
  next
    case (Cons cb rest)
    let ?s = "set_stack sc rest s"
    obtain y s1 e1 where run: "run_teardown now pl cb ?s e = (y, s1, e1)" by (metis prod_cases3)
    obtain rec where rec: "ps_records s1 = ps_records ?s @ [rec]" "record_label rec = callback_label cb"
      and td: "ps_torn_down s1 = ps_torn_down ?s" and y: "case y of None \<Rightarrow> True | Some y \<Rightarrow> \<not> is_exception y"
      using run_teardown_effect [OF run] by metis
    obtain ns where st: "stack_of sc s1 = compensations_of sc ns @ rest"
      using run_teardown_stack [OF run, of sc] by auto
    have p: "case or_else y pending of None \<Rightarrow> True | Some y \<Rightarrow> \<not> is_exception y"
      using y "1.prems"(2) by (cases y) simp_all
    have next_eq: "close_stack sc now pl (or_else y pending) s1 e1 = (x, s', e')"
      using "1.prems"(1) Cons run by (simp add: close_stack.simps [of sc now pl pending s e])
    note IH = "1.IH" [OF Cons run [symmetric] refl next_eq p]
    have other: "suffix (stack_of sc' s) (stack_of sc' s1)" if "sc' \<noteq> sc" for sc'
      using run_teardown_stack [OF run, of sc'] that by (auto simp: suffix_def)
    obtain rs where rs: "ps_records s' = ps_records s1 @ rs"
        "subseq (map callback_label (stack_of sc s1)) (map record_label rs)"
      using IH by blast
    have "ps_records s' = ps_records s @ (rec # rs)" using rec rs by simp
    moreover have "subseq (map callback_label (stack_of sc s)) (map record_label (rec # rs))"
      using subseq_label_step [OF rs(2) [unfolded st] rec(2)] Cons by simp
    moreover have "ps_torn_down s' = ps_torn_down s" using IH td by simp
    moreover have "suffix (stack_of sc' s) (stack_of sc' s')" if "sc' \<noteq> sc" for sc'
      using other [OF that] IH that by (blast intro: suffix_order.trans)
    ultimately show ?thesis using IH by blast
  qed
qed

lemmas close_stack_fresh = close_stack_spec [where pending = None, simplified]

section \<open>The teardown guarantee\<close>

lemma teardown_once:
  "ps_torn_down s \<Longrightarrow> teardown now pl s e = (None, s, e)"
  by (simp add: teardown_def)

lemma teardown_marks: "teardown now pl s e = (x, s', e') \<Longrightarrow> ps_torn_down s'"
  by (auto simp: teardown_def split: prod.splits option.splits if_splits dest!: close_stack_fresh)

lemma teardown_raises_base: "teardown now pl s e = (Some y, s', e') \<Longrightarrow> \<not> is_exception y"
  by (auto simp: teardown_def split: prod.splits option.splits if_splits dest!: close_stack_fresh)

lemma teardown_spec:
  assumes "teardown now pl s e = (None, s', e')" "\<not> ps_torn_down s"
  shows "ps_env_stack s' = [] \<and> (\<exists>rs. ps_records s' = ps_records s @ rs \<and>
    subseq (map callback_label (ps_test_stack s @ ps_env_stack s)) (map record_label rs))"
proof -
  obtain x s1 e1 where c1: "close_stack Test_scope now pl None (s\<lparr>ps_torn_down := True\<rparr>) e = (x, s1, e1)"
    by (metis prod_cases3)
  note t = close_stack_fresh [OF c1]
  have x: "x = None" and c2: "close_stack Env_scope now pl None s1 e1 = (None, s', e')"
    using assms c1 t by (auto simp: teardown_def split: option.splits if_splits)
  note v = close_stack_fresh [OF c2]
  obtain rs1 where r1: "ps_records s1 = ps_records s @ rs1"
      "subseq (map callback_label (ps_test_stack s)) (map record_label rs1)"
    using t by auto
  obtain rs2 where r2: "ps_records s' = ps_records s1 @ rs2"
      "subseq (map callback_label (ps_env_stack s1)) (map record_label rs2)"
    using v by auto
  have "suffix (ps_env_stack s) (ps_env_stack s1)"
    using t [THEN conjunct2, THEN conjunct2, THEN conjunct2, THEN conjunct2] by force
  then have "subseq (map callback_label (ps_env_stack s)) (map callback_label (ps_env_stack s1))"
    by (auto simp: suffix_def)
  then have "subseq (map callback_label (ps_env_stack s)) (map record_label rs2)"
    using r2(2) subseq_order.trans by blast
  with r1 r2 v show ?thesis
    by (auto intro!: exI [of _ "rs1 @ rs2"] list_emb_append_mono)
qed

section \<open>A session from enter to exit\<close>

text \<open>The calls the orchestrator makes on an open session.\<close>

inductive host_call :: "('e \<Rightarrow> int) \<Rightarrow> 'e plugin \<Rightarrow> session \<times> 'e \<Rightarrow> session \<times> 'e \<Rightarrow> bool"
  for now pl where
  call_capture: "capture_baseline now pl s e = (r, s', e') \<Longrightarrow> host_call now pl (s, e) (s', e')"
| call_drive: "drive_run now pl inject s e = Some (r, c, s', e') \<Longrightarrow> host_call now pl (s, e) (s', e')"
| call_verify: "session_verify now pl s e = (v, s', e') \<Longrightarrow> host_call now pl (s, e) (s', e')"
| call_collect: "collect_diagnostics now pl s e = (d, s', e') \<Longrightarrow> host_call now pl (s, e) (s', e')"
| call_world: "host_call now pl (s, e) (s, e')"

lemma invoke_effect:
  assumes "invoke now pl h s e = (r, s', e')"
  shows "prefix (ps_records s) (ps_records s') \<and> ps_torn_down s' = ps_torn_down s \<and>
    ps_current s' = ps_current s \<and> suffix (stack_of sc s) (stack_of sc s')"
  using assms
  by (auto simp: invoke_def skip_hook_def stack_register_all suffix_def split: if_splits prod.splits)

lemma invoke_all_effect:
  "invoke_all now pl hs s e = (r, s', e') \<Longrightarrow>
     prefix (ps_records s) (ps_records s') \<and> ps_torn_down s' = ps_torn_down s \<and>
     ps_current s' = ps_current s \<and> suffix (stack_of sc s) (stack_of sc s')"
proof (induction now pl hs s e rule: invoke_all.induct)
  case (2 now pl h hs s e)
  obtain q s1 e1 where i: "invoke now pl h s e = (q, s1, e1)" by (metis prod_cases3)
  note eff = invoke_effect [OF i, of sc]
  show ?case
  proof (cases q)
    case (Inl x)
    with 2(2) i eff show ?thesis by simp
  next
    case (Inr v)
    then have "invoke_all now pl hs s1 e1 = (r, s', e')" using 2(2) i by simp
    from 2(1) [OF i [symmetric] Inr refl this] eff show ?thesis
      by (metis prefix_order.trans suffix_order.trans)
  qed
qed simp

lemma host_call_effect:
  assumes "host_call now pl p q"
  shows "prefix (ps_records (fst p)) (ps_records (fst q)) \<and>
    ps_torn_down (fst q) = ps_torn_down (fst p) \<and>
    suffix (stack_of sc (fst p)) (stack_of sc (fst q))"
  using assms
proof cases
  case (call_capture s e r s' e')
  then show ?thesis
    by (auto simp: capture_baseline_def Let_def skip_hook_def split: if_splits prod.splits sum.splits
        dest: invoke_effect [where sc = sc])
next
  case (call_drive inject s e r c s' e')
  then show ?thesis
    by (auto simp: drive_run_def Let_def split: if_splits prod.splits option.splits)
next
  case (call_verify s e v s' e')
  then show ?thesis
    by (cases sc) (auto simp: session_verify_def Let_def skip_hook_def split: if_splits prod.splits sum.splits
        dest: invoke_effect [where sc = sc])
next
  case (call_collect s e d s' e')
  then show ?thesis
    by (cases sc) (auto simp: collect_diagnostics_def Let_def skip_hook_def split: if_splits prod.splits sum.splits
        dest: invoke_effect [where sc = sc])
next
  case (call_world s e e')
  then show ?thesis by simp
qed

interpretation session_audit: audit_trail "\<lambda>p. ps_records (fst p)" "host_call now pl" for now pl
  by unfold_locales (use host_call_effect in blast)

lemma host_calls_effect:
  "(host_call now pl)\<^sup>*\<^sup>* p q \<Longrightarrow>
     ps_torn_down (fst q) = ps_torn_down (fst p) \<and> suffix (stack_of sc (fst p)) (stack_of sc (fst q))"
proof (induction rule: rtranclp_induct)
  case (step q r)
  with host_call_effect [OF step.hyps(2), of sc] show ?case
    by (auto intro: suffix_order.trans)
qed simp

text \<open>What a successful enter leaves registered.\<close>

lemma aenter_registers:
  assumes "aenter now pl new_session e = (Inr (), s, e')"
  shows "\<not> ps_torn_down s \<and>
    (pg_overrides pl H_teardown_env \<longrightarrow> CB_teardown_env \<in> set (ps_env_stack s)) \<and>
    (pg_overrides pl H_teardown_test \<longrightarrow> CB_teardown_test \<in> set (ps_test_stack s))"
proof -
  have "enter_body now pl new_session e = (Inr (), s, e')"
    using assms by (auto simp: aenter_def split: prod.splits sum.splits option.splits)
  then obtain v s1 e1 s2 e2 where i1: "invoke now pl H_validate new_session e = (Inr v, s1, e1)"
      and i2: "invoke_all now pl [H_provision_env, H_await_ready, H_seed] (open_env_scope pl s1) e1 = (Inr (), s2, e2)"
      and i3: "invoke_all now pl [H_setup_test] (open_test_scope pl s2) e2 = (Inr (), s, e')"
    by (auto simp: enter_body_def split: prod.splits sum.splits)
  note a = invoke_effect [OF i1] and b = invoke_all_effect [OF i2] and c = invoke_all_effect [OF i3]
  have td: "\<not> ps_torn_down s"
    using a b c by (auto simp: open_env_scope_def open_test_scope_def push_callback_def new_session_def Let_def)
  have "suffix (stack_of Env_scope (open_env_scope pl s1)) (stack_of Env_scope s)"
    using b [of Env_scope] c [of Env_scope]
    by (auto simp: open_test_scope_def push_callback_def Let_def split: if_splits intro: suffix_order.trans)
  moreover have "pg_overrides pl H_teardown_env \<longrightarrow>
      CB_teardown_env \<in> set (stack_of Env_scope (open_env_scope pl s1))"
    by (simp add: open_env_scope_def push_callback_def Let_def)
  moreover have "pg_overrides pl H_teardown_test \<longrightarrow>
      CB_teardown_test \<in> set (stack_of Test_scope (open_test_scope pl s2))"
    by (simp add: open_test_scope_def push_callback_def Let_def)
  ultimately show ?thesis
    using td set_mono_suffix [OF c [of Test_scope, THEN conjunct2, THEN conjunct2, THEN conjunct2]]
      set_mono_suffix by (metis (no_types, lifting) stack_of.simps subsetD)
qed

text \<open>A failed enter has torn down what it registered, unless the teardown itself was cancelled.\<close>

lemma aenter_failure:
  assumes "aenter now pl s e = (Inl x, s', e')" "is_exception x" "\<not> ps_torn_down s"
  shows "\<exists>s1 e1. enter_body now pl s e = (Inl x, s1, e1) \<and>
    ps_env_stack s' = [] \<and> ps_torn_down s' \<and>
    (\<exists>rs. ps_records s' = ps_records s1 @ rs \<and>
      subseq (map callback_label (ps_test_stack s1 @ ps_env_stack s1)) (map record_label rs))"
proof -
  obtain q s1 e1 where b: "enter_body now pl s e = (q, s1, e1)" by (metis prod_cases3)
  obtain y where q: "q = Inl y" using assms(1) b by (cases q) (auto simp: aenter_def)
  obtain z s2 e2 where t: "teardown now pl s1 e1 = (z, s2, e2)" by (metis prod_cases3)
  have z: "z = None"
    using assms(1,2) b q t by (auto simp: aenter_def dest: teardown_raises_base split: option.splits)
  have "y = x" "s' = s2" using assms(1) b q t z by (auto simp: aenter_def)
  moreover have "\<not> ps_torn_down s1"
  proof -
    have "ps_torn_down s1 = ps_torn_down s"
      using b by (auto simp: enter_body_def open_env_scope_def open_test_scope_def push_callback_def
          Let_def split: prod.splits sum.splits if_splits
          dest!: invoke_effect [where sc = Env_scope] invoke_all_effect [where sc = Env_scope])
    with assms(3) show ?thesis by simp
  qed
  ultimately show ?thesis
    using teardown_spec [OF t [unfolded z]] teardown_marks [OF t] b q by blast
qed

section \<open>Driving the run\<close>

lemma drive_finished_timeline:
  assumes "drive_loop ij rt drives bs = Some d" "dv_result d = Inr t"
  shows "\<not> dv_inject_cancelled d \<and> (drives \<longrightarrow> dv_run_test d \<noteq> None)"
  using assms
  by (induction ij rt drives bs rule: drive_loop.induct)
    (auto simp: Let_def split: option.splits if_splits)

lemma batch_failure_guard: "C_guard x \<in> set b \<Longrightarrow> batch_failure b \<noteq> None"
  by (induction b) auto

lemma drive_cancelled_failure:
  assumes "drive_loop ij rt drives bs = Some d" "dv_inject_cancelled d"
  shows "\<exists>x. dv_result d = Inl x \<and> (\<exists>b \<in> set bs. batch_failure b = Some x)"
  using assms
  by (induction ij rt drives bs rule: drive_loop.induct)
    (auto simp: Let_def split: option.splits if_splits)

text \<open>
  The loop returns as soon as every task of the work set has been reported done or one has failed:
  if the scheduler reports the injection and (when driven) the workload in the batches, it returns.
\<close>

lemma drive_loop_returns:
  assumes "ij \<noteq> None \<or> (\<exists>b \<in> set bs. batch_inject b \<noteq> None)"
    and "drives \<Longrightarrow> rt \<noteq> None \<or> (\<exists>b \<in> set bs. batch_run_test b \<noteq> None)"
  shows "\<exists>d. drive_loop ij rt drives bs = Some d"
  using assms
proof (induction ij rt drives bs rule: drive_loop.induct)
  case (2 ij rt drives b bs)
  show ?case
  proof (cases "(ij \<noteq> None \<and> \<not> (drives \<and> rt = None)) \<or> batch_failure b \<noteq> None")
    case True
    then show ?thesis by (auto simp: Let_def)
  next
    case False
    have "\<exists>d. drive_loop (or_else (batch_inject b) ij) (or_else (batch_run_test b) rt) drives bs = Some d"
      by (rule "2.IH" [OF _ refl refl]) (use False "2.prems" in auto)
    with False show ?thesis by (auto simp: Let_def)
  qed
qed (auto split: option.splits)

end
