(* ===== verification/Loop.thy ===== *)
theory Loop
  imports Safety Suppression Store Plugin_Host_Props
begin

text \<open>
  The orchestrator's state machine, \<open>orchestrator/loop.py\<close>: \<open>ExperimentRunner.run\<close>, its body
  phase by phase, and every helper. What the runner calls (agents, plugin, clock, harness, the
  repository's suppression file) is the record \<open>runtime\<close>, each a function of an environment \<open>'e\<close>;
  the store is the model of \<open>Store\<close>. The operator's pause and abort commands arrive in batches,
  one before each poll of the control flags; they act on the store only, and nothing else reads the
  flags, so this is every interleaving that can be observed. A paused run whose operator never
  writes again is \<open>Hang\<close>.

  The run state carries a log \<open>rs_trace\<close> of what the run did (saves, agent calls, clears), which no
  step of the run reads.
\<close>

section \<open>The runner's surroundings\<close>

record 'e runtime =
  rt_tester_baseline :: "tester_request \<Rightarrow> 'e \<Rightarrow> tester_report res \<times> 'e"
  rt_tester_verify :: "tester_request \<Rightarrow> 'e \<Rightarrow> tester_report res \<times> 'e"
  rt_security_baseline :: "security_request \<Rightarrow> 'e \<Rightarrow> security_report res \<times> 'e"
  rt_security_verify :: "security_request \<Rightarrow> 'e \<Rightarrow> security_report res \<times> 'e"
  rt_chaos_execute :: "experiment_plan \<Rightarrow> 'e \<Rightarrow> chaos_timeline res \<times> 'e"
  rt_chaos_cleanup :: "(experiment_plan \<Rightarrow> 'e \<Rightarrow> unit res \<times> 'e) option"
  rt_namespace_annotations ::
    "(string \<Rightarrow> 'e \<Rightarrow> (string, string) dict option res \<times> 'e) option"
  rt_diagnose :: "diagnosis_request \<Rightarrow> 'e \<Rightarrow> diagnosis_report res \<times> 'e"
  rt_propose_fix :: "diagnosis_report \<Rightarrow> 'e \<Rightarrow> fix_proposal res \<times> 'e"
  rt_plugin :: "'e plugin option"
  rt_invocations :: "('e \<Rightarrow> agent_invocation list) option"
  rt_now :: "'e \<Rightarrow> int"
  rt_monotonic :: "'e \<Rightarrow> real"
  rt_sleep :: "'e \<Rightarrow> 'e"
  rt_dump :: "experiment_record \<Rightarrow> string"
  rt_sha1 :: "string \<Rightarrow> string"
  rt_repo_rules :: "'e \<Rightarrow> suppression_rule list res"

datatype op_signal = OS_pause bool | OS_abort abort_reason

datatype agent_call =
    Tester_baseline | Security_baseline | Chaos_execute | Chaos_cleanup | Tester_verify
  | Security_verify | Diagnose | Propose_fix

datatype event =
    Ev_save experiment_state
  | Ev_call agent_call
  | Ev_annotations "(string, string) dict option"
  | Ev_enter
  | Ev_exit
  | Ev_inject_cancelled
  | Ev_clear

record 'e rs =
  rs_env :: 'e
  rs_db :: database
  rs_record :: experiment_record
  rs_session :: session
  rs_session_active :: bool
  rs_budget :: budget_tracker
  rs_operator :: "op_signal list list"
  rs_trace :: "event list"

text \<open>A step of the body goes on, returns the record, raises, or never ends.\<close>

datatype 'e flow = Next "'e rs" | Ret "'e rs" | Raise pyexn "'e rs" | Hang

fun and_then :: "'e flow \<Rightarrow> ('e rs \<Rightarrow> 'e flow) \<Rightarrow> 'e flow" where
  "and_then (Next s) g = g s"
| "and_then (Ret s) g = Ret s"
| "and_then (Raise x s) g = Raise x s"
| "and_then Hang g = Hang"

definition emit :: "event \<Rightarrow> 'e rs \<Rightarrow> 'e rs" where
  "emit ev s = s\<lparr>rs_trace := rs_trace s @ [ev]\<rparr>"

definition upd_record :: "(experiment_record \<Rightarrow> experiment_record) \<Rightarrow> 'e rs \<Rightarrow> 'e rs" where
  "upd_record f s = s\<lparr>rs_record := f (rs_record s)\<rparr>"

definition set_state :: "experiment_state \<Rightarrow> 'e rs \<Rightarrow> 'e rs" where
  "set_state st s = upd_record (\<lambda>r. r\<lparr>er_state := st\<rparr>) s"

definition save_record :: "'e runtime \<Rightarrow> 'e rs \<Rightarrow> 'e rs" where
  "save_record rt s =
     emit (Ev_save (er_state (rs_record s)))
       (s\<lparr>rs_db := store_save (rt_dump rt) (rs_record s) (rs_db s)\<rparr>)"

section \<open>Helpers\<close>

definition attach_invocations :: "'e runtime \<Rightarrow> 'e rs \<Rightarrow> 'e rs" where
  "attach_invocations rt s =
     (case rt_invocations rt of
        None \<Rightarrow> s
      | Some invs \<Rightarrow> upd_record (\<lambda>r. r\<lparr>er_agent_invocations := invs (rs_env s)\<rparr>) s)"

definition invocation_spend :: "agent_invocation list \<Rightarrow> real" where
  "invocation_spend invs = sum_list (map (\<lambda>i. case ai_spend_usd i of None \<Rightarrow> 0 | Some u \<Rightarrow> u) invs)"

definition sync_spend :: "'e runtime \<Rightarrow> 'e rs \<Rightarrow> 'e rs" where
  "sync_spend rt s =
     (case rt_invocations rt of
        None \<Rightarrow> s
      | Some invs \<Rightarrow> upd_record (\<lambda>r. r\<lparr>er_spend_usd := invocation_spend (invs (rs_env s))\<rparr>) s)"

definition sync_plugin_record ::
  "string option \<Rightarrow> session \<Rightarrow> experiment_record \<Rightarrow> experiment_record" where
  "sync_plugin_record name ss r =
     (let r1 = r\<lparr>er_plugin_name := name, er_plugin_stage_results := ps_records ss\<rparr>;
          r2 = (if ps_verify_result ss \<noteq> None then r1\<lparr>er_verify_result := ps_verify_result ss\<rparr> else r1)
      in if ps_diagnostics ss \<noteq> [] then r2\<lparr>er_plugin_diagnostics := ps_diagnostics ss\<rparr> else r2)"

definition sync_plugin :: "'e runtime \<Rightarrow> 'e rs \<Rightarrow> 'e rs" where
  "sync_plugin rt s =
     (if \<not> rs_session_active s then s
      else upd_record (sync_plugin_record (s_name (rt_plugin rt)) (rs_session s)) s)"

definition clear_signals :: "'e rs \<Rightarrow> 'e rs" where
  "clear_signals s =
     emit Ev_clear (s\<lparr>rs_db := clear_control (er_experiment_id (rs_record s)) (rs_db s)\<rparr>)"

text \<open>What \<open>_abort\<close> and \<open>_finish\<close> do after they set the terminal state.\<close>

definition close_record :: "'e runtime \<Rightarrow> 'e rs \<Rightarrow> 'e rs" where
  "close_record rt s =
     clear_signals (save_record rt (sync_plugin rt (sync_spend rt (attach_invocations rt
       (upd_record (\<lambda>r. r\<lparr>er_finished_at := Some (rt_now rt (rs_env s))\<rparr>) s)))))"

definition abort :: "'e runtime \<Rightarrow> abort_reason \<Rightarrow> string \<Rightarrow> 'e rs \<Rightarrow> 'e rs" where
  "abort rt reason detail s =
     close_record rt (upd_record (\<lambda>r. r\<lparr>er_abort_reason := Some reason, er_abort_detail := detail\<rparr>)
       (set_state ABORTED s))"

definition finish :: "'e runtime \<Rightarrow> 'e rs \<Rightarrow> 'e rs" where
  "finish rt s = close_record rt (set_state RECORDED s)"

text \<open>The pattern \<open>if fail := gate: return self._abort(..)\<close>.\<close>

definition gate_or_abort :: "'e runtime \<Rightarrow> gate_failure option \<Rightarrow> 'e rs \<Rightarrow> 'e flow" where
  "gate_or_abort rt g s =
     (case g of None \<Rightarrow> Next s | Some f \<Rightarrow> Ret (abort rt (gf_reason f) (gf_detail f) s))"

fun apply_signal :: "string \<Rightarrow> op_signal \<Rightarrow> database \<Rightarrow> database" where
  "apply_signal k (OS_pause p) db = snd (set_pause k p db)"
| "apply_signal k (OS_abort reason) db = snd (request_abort k reason db)"

definition apply_signals :: "string \<Rightarrow> op_signal list \<Rightarrow> database \<Rightarrow> database" where
  "apply_signals k sigs db = foldl (\<lambda>d g. apply_signal k g d) db sigs"

definition operator_kill :: "control_signals \<Rightarrow> gate_failure" where
  "operator_kill c =
     \<lparr>gf_reason = (case cs_abort_reason c of None \<Rightarrow> USER_KILL | Some r \<Rightarrow> r),
      gf_detail = ''abort requested by operator''\<rparr>"

definition mark_paused :: "'e runtime \<Rightarrow> 'e rs \<Rightarrow> 'e rs" where
  "mark_paused rt s = save_record rt (sync_spend rt (set_state PAUSED s))"

text \<open>
  \<open>_check_control\<close>: \<open>first\<close> is \<open>first_check\<close>; the batches are the operator's commands before each
  poll, none after the last one.
\<close>

fun control_loop ::
  "'e runtime \<Rightarrow> bool \<Rightarrow> op_signal list list \<Rightarrow> 'e rs \<Rightarrow> (gate_failure option \<times> 'e rs) option" where
  "control_loop rt first bs s =
     (let k = er_experiment_id (rs_record s);
          s1 = s\<lparr>rs_db := apply_signals k (case bs of [] \<Rightarrow> [] | b # r \<Rightarrow> b) (rs_db s),
                 rs_operator := tl bs\<rparr>;
          c = load_control k (rs_db s1)
      in if cs_abort_requested c then Some (Some (operator_kill c), s1)
         else if \<not> cs_pause_requested c then Some (None, s1)
         else (case bs of
             [] \<Rightarrow> None
           | b # rest \<Rightarrow>
               (let s2 = (if first then mark_paused rt s1 else s1)
                in control_loop rt False rest (s2\<lparr>rs_env := rt_sleep rt (rs_env s2)\<rparr>))))"

declare control_loop.simps [simp del]

definition check_control :: "'e runtime \<Rightarrow> 'e rs \<Rightarrow> (gate_failure option \<times> 'e rs) option" where
  "check_control rt s = control_loop rt True (rs_operator s) s"

definition control_gate :: "'e runtime \<Rightarrow> 'e rs \<Rightarrow> 'e flow" where
  "control_gate rt s =
     (case check_control rt s of None \<Rightarrow> Hang | Some (g, s') \<Rightarrow> gate_or_abort rt g s')"

definition check_budget_step :: "'e runtime \<Rightarrow> 'e rs \<Rightarrow> gate_failure option \<times> 'e rs" where
  "check_budget_step rt s =
     (let b0 = rs_budget s;
          b1 = (case rt_invocations rt of
                  None \<Rightarrow> b0
                | Some invs \<Rightarrow> b0\<lparr>bt_spent_usd := invocation_spend (invs (rs_env s))\<rparr>);
          b2 = snd (soft_warn_due b1);
          s1 = upd_record (\<lambda>r. r\<lparr>er_spend_usd := bt_spent_usd b1\<rparr>) (s\<lparr>rs_budget := b2\<rparr>);
          now = rt_monotonic rt (rs_env s)
      in (if hard_exceeded now b2
          then gate_fail BUDGET_EXCEEDED
            (''hard cap: spent=$'' @ fmt2 (bt_spent_usd b2) @ '' cap=$'' @
             fmt2 (tb_hard_cap_usd (bt_budget b2)) @ '' elapsed='' @
             int_str (round_even (elapsed_seconds now b2)) @ ''s wall_clock='' @
             int_str (tb_wall_clock_seconds (bt_budget b2)) @ ''s'')
          else None, s1))"

definition budget_gate_step :: "'e runtime \<Rightarrow> 'e rs \<Rightarrow> 'e flow" where
  "budget_gate_step rt s = (case check_budget_step rt s of (g, s') \<Rightarrow> gate_or_abort rt g s')"

text \<open>\<open>_fetch_namespace_annotations\<close>: an \<open>Exception\<close> and a missing method both give \<open>None\<close>.\<close>

definition fetch_annotations ::
  "'e runtime \<Rightarrow> string \<Rightarrow> 'e rs \<Rightarrow> (string, string) dict option res \<times> 'e rs" where
  "fetch_annotations rt ns s =
     (case rt_namespace_annotations rt of
        None \<Rightarrow> (Inr None, s)
      | Some getter \<Rightarrow>
          (case getter ns (rs_env s) of
             (Inr a, e) \<Rightarrow> (Inr a, s\<lparr>rs_env := e\<rparr>)
           | (Inl x, e) \<Rightarrow>
               (if is_exception x then (Inr None, s\<lparr>rs_env := e\<rparr>) else (Inl x, s\<lparr>rs_env := e\<rparr>))))"

definition best_effort_cleanup :: "'e runtime \<Rightarrow> experiment_plan \<Rightarrow> 'e rs \<Rightarrow> 'e flow" where
  "best_effort_cleanup rt p s =
     (case rt_chaos_cleanup rt of
        None \<Rightarrow> Next s
      | Some cleanup \<Rightarrow>
          (case cleanup p (rs_env s) of
             (Inr u, e) \<Rightarrow> Next (emit (Ev_call Chaos_cleanup) (s\<lparr>rs_env := e\<rparr>))
           | (Inl x, e) \<Rightarrow>
               (if is_exception x then Next (emit (Ev_call Chaos_cleanup) (s\<lparr>rs_env := e\<rparr>))
                else Raise x (emit (Ev_call Chaos_cleanup) (s\<lparr>rs_env := e\<rparr>)))))"

text \<open>An awaited agent call whose result lands on the record.\<close>

definition call_agent ::
  "agent_call \<Rightarrow> ('e \<Rightarrow> 'v res \<times> 'e) \<Rightarrow> ('v \<Rightarrow> experiment_record \<Rightarrow> experiment_record) \<Rightarrow>
    'e rs \<Rightarrow> 'e flow" where
  "call_agent c f put s =
     (case f (rs_env s) of
        (Inl x, e) \<Rightarrow> Raise x (emit (Ev_call c) (s\<lparr>rs_env := e\<rparr>))
      | (Inr v, e) \<Rightarrow> Next (upd_record (put v) (emit (Ev_call c) (s\<lparr>rs_env := e\<rparr>))))"

text \<open>A session call; its result lands on the record when there is something to store.\<close>

definition call_session ::
  "(session \<Rightarrow> 'e \<Rightarrow> 'v res \<times> session \<times> 'e) \<Rightarrow>
    ('v \<Rightarrow> experiment_record \<Rightarrow> experiment_record) \<Rightarrow> 'e rs \<Rightarrow> 'e flow" where
  "call_session f put s =
     (case f (rs_session s) (rs_env s) of
        (Inl x, ss, e) \<Rightarrow> Raise x (s\<lparr>rs_session := ss, rs_env := e\<rparr>)
      | (Inr v, ss, e) \<Rightarrow> Next (upd_record (put v) (s\<lparr>rs_session := ss, rs_env := e\<rparr>)))"

definition collect_evidence :: "'e runtime \<Rightarrow> 'e rs \<Rightarrow> 'e flow" where
  "collect_evidence rt s =
     call_session (s_collect (rt_now rt) (rt_plugin rt)) (\<lambda>d r. r\<lparr>er_plugin_diagnostics := d\<rparr>) s"

section \<open>The body, phase by phase\<close>

definition tester_request_for ::
  "request_kind \<Rightarrow> experiment_plan \<Rightarrow> statistical_sample list \<Rightarrow> tester_request" where
  "tester_request_for kind p samples =
     \<lparr>tq_kind = kind, tq_experiment_id = ep_experiment_id p, tq_target_app = ep_target_app p,
      tq_target_repo = ep_target_repo p, tq_baseline_run_count = 5, tq_probes = [],
      tq_baseline_samples = samples\<rparr>"

definition security_request_for :: "security_kind \<Rightarrow> experiment_plan \<Rightarrow> security_request" where
  "security_request_for kind p =
     \<lparr>sq_kind = kind, sq_experiment_id = ep_experiment_id p, sq_target_app = ep_target_app p,
      sq_target_repo = ep_target_repo p, sq_target_images = [], sq_target_endpoints = [],
      sq_enable_active_dast = False\<rparr>"

definition setup_phase :: "'e runtime \<Rightarrow> experiment_plan \<Rightarrow> 'e rs \<Rightarrow> 'e flow" where
  "setup_phase rt p s =
     Next (save_record rt (sync_plugin rt
       (s\<lparr>rs_budget := new_tracker (ep_budget p) (rt_monotonic rt (rs_env s))\<rparr>)))"

definition annotation_phase :: "'e runtime \<Rightarrow> experiment_plan \<Rightarrow> 'e rs \<Rightarrow> 'e flow" where
  "annotation_phase rt p s =
     (if \<not> sc_require_namespace_annotation (ep_safety p) then Next s
      else (case fetch_annotations rt (sc_namespace (ep_safety p)) s of
        (Inl x, s1) \<Rightarrow> Raise x s1
      | (Inr a, s1) \<Rightarrow>
          gate_or_abort rt (check_namespace_annotation (ep_safety p) a) (emit (Ev_annotations a) s1)))"

definition baseline_verdict :: "'e runtime \<Rightarrow> 'e rs \<Rightarrow> 'e flow" where
  "baseline_verdict rt s =
     (case check_baseline_healthy (er_tester_baseline (rs_record s)) (er_security_baseline (rs_record s)) of
        Some f \<Rightarrow> Ret (abort rt (gf_reason f) (gf_detail f) (set_state BASELINE_FAIL s))
      | None \<Rightarrow> Next (save_record rt (sync_plugin rt (set_state BASELINE_OK s))))"

definition baseline_phase :: "'e runtime \<Rightarrow> experiment_plan \<Rightarrow> 'e rs \<Rightarrow> 'e flow" where
  "baseline_phase rt p s =
     and_then (Next (save_record rt (set_state BASELINE s))) (\<lambda>s1.
     and_then (call_agent Tester_baseline (rt_tester_baseline rt (tester_request_for RK_baseline p []))
       (\<lambda>t r. r\<lparr>er_tester_baseline := Some t\<rparr>) s1) (\<lambda>s2.
     and_then (call_agent Security_baseline (rt_security_baseline rt (security_request_for SK_baseline p))
       (\<lambda>v r. r\<lparr>er_security_baseline := Some v\<rparr>) s2) (\<lambda>s3.
     and_then (call_session (s_capture (rt_now rt) (rt_plugin rt)) (\<lambda>v r. r) s3)
       (baseline_verdict rt))))"

definition caught_guard :: "pyexn \<Rightarrow> bool" where
  "caught_guard x = (case x of Exn c m \<Rightarrow> c = guard_tripped_class | BaseExn c \<Rightarrow> False)"

text \<open>What the two \<open>except\<close> clauses and the success check do with the driven run's result.\<close>

definition inject_outcome ::
  "'e runtime \<Rightarrow> experiment_plan \<Rightarrow> chaos_timeline res \<Rightarrow> 'e rs \<Rightarrow> 'e flow" where
  "inject_outcome rt p r s =
     (case r of
        Inl x \<Rightarrow>
          (if caught_guard x
           then and_then (best_effort_cleanup rt p (set_state INJECT_FAILED s)) (\<lambda>s1.
                and_then (collect_evidence rt s1) (\<lambda>s2.
                  Ret (abort rt SLO_BREACH (exn_str x) (sync_plugin rt s2))))
           else if is_exception x
           then Ret (abort rt AGENT_FAILURE (''chaos.execute raised: '' @ exn_repr x)
                  (set_state INJECT_FAILED s))
           else Raise x s)
      | Inr t \<Rightarrow>
          (let s1 = upd_record (\<lambda>rc. rc\<lparr>er_chaos_timeline := Some t\<rparr>) s
           in if \<not> ct_success t
              then Ret (abort rt AGENT_FAILURE
                     (case ct_error t of None \<Rightarrow> ''unknown''
                      | Some m \<Rightarrow> (if m = [] then ''unknown'' else m))
                     (set_state INJECT_FAILED s1))
              else Next (save_record rt (set_state INJECTED s1))))"

definition inject_phase :: "'e runtime \<Rightarrow> experiment_plan \<Rightarrow> 'e rs \<Rightarrow> 'e flow" where
  "inject_phase rt p s =
     (let s1 = emit (Ev_call Chaos_execute) (save_record rt (set_state INJECT s)) in
      case s_drive (rt_now rt) (rt_plugin rt) (rt_chaos_execute rt p) (rs_session s1) (rs_env s1) of
        None \<Rightarrow> Hang
      | Some (r, cancelled, ss, e) \<Rightarrow>
          (let s2 = s1\<lparr>rs_session := ss, rs_env := e\<rparr>
           in inject_outcome rt p r (if cancelled then emit Ev_inject_cancelled s2 else s2)))"

definition builtin_regressed :: "experiment_record \<Rightarrow> bool" where
  "builtin_regressed r =
     (case (er_tester_verify r, er_security_verify r) of
        (Some t, Some v) \<Rightarrow>
          \<not> tr_steady_state t \<or> has_critical_or_high v \<or> sp_sbom_drift_from_baseline v
      | _ \<Rightarrow> False)"

definition plugin_regressed :: "verify_result option \<Rightarrow> bool" where
  "plugin_regressed v = (case v of None \<Rightarrow> False | Some r \<Rightarrow> \<not> vr_passed r)"

text \<open>The plugin's own verdict is \<open>record.verify_result\<close> from here on.\<close>

definition verify_verdict :: "'e runtime \<Rightarrow> 'e rs \<Rightarrow> 'e flow" where
  "verify_verdict rt s =
     (if \<not> (builtin_regressed (rs_record s) \<or> plugin_regressed (er_verify_result (rs_record s)))
      then Ret (finish rt (sync_plugin rt (set_state STEADY s)))
      else collect_evidence rt s)"

definition verify_phase :: "'e runtime \<Rightarrow> experiment_plan \<Rightarrow> 'e rs \<Rightarrow> 'e flow" where
  "verify_phase rt p s =
     and_then (Next (save_record rt (set_state VERIFY s))) (\<lambda>s1.
     and_then (call_agent Tester_verify (rt_tester_verify rt (tester_request_for RK_verify p
         (case er_tester_baseline (rs_record s1) of None \<Rightarrow> [] | Some t \<Rightarrow> tr_samples t)))
       (\<lambda>t r. r\<lparr>er_tester_verify := Some t\<rparr>) s1) (\<lambda>s2.
     and_then (call_agent Security_verify (rt_security_verify rt (security_request_for SK_verify p))
       (\<lambda>v r. r\<lparr>er_security_verify := Some v\<rparr>) s2) (\<lambda>s3.
     and_then (call_session (s_verify (rt_now rt) (rt_plugin rt)) (\<lambda>v r. r\<lparr>er_verify_result := v\<rparr>) s3)
       (verify_verdict rt))))"

definition regressed_phase :: "'e runtime \<Rightarrow> 'e rs \<Rightarrow> 'e flow" where
  "regressed_phase rt s =
     (let s1 = save_record rt (sync_plugin rt (set_state REGRESSED s))
      in if \<not> builtin_regressed (rs_record s1) then Ret (finish rt s1) else Next s1)"

text \<open>The request carries the reports that failed; at least one did when the phase is reached.\<close>

definition diagnosis_request_for ::
  "experiment_plan \<Rightarrow> experiment_record \<Rightarrow> chaos_timeline \<Rightarrow> diagnosis_request" where
  "diagnosis_request_for p r t =
     \<lparr>dq_experiment_id = ep_experiment_id p,
      dq_failed_tester_report =
        (case er_tester_verify r of
           Some v \<Rightarrow> (if \<not> tr_steady_state v then Some v else None) | None \<Rightarrow> None),
      dq_failed_security_report =
        (case er_security_verify r of
           Some v \<Rightarrow> (if has_critical_or_high v \<or> sp_sbom_drift_from_baseline v then Some v else None)
         | None \<Rightarrow> None),
      dq_chaos_timeline = t,
      dq_target_repo = ep_target_repo p\<rparr>"

definition diagnosis_call :: "'e runtime \<Rightarrow> experiment_plan \<Rightarrow> 'e rs \<Rightarrow> 'e flow" where
  "diagnosis_call rt p s =
     (case er_chaos_timeline (rs_record s) of
        None \<Rightarrow> Raise (validation_error ''chaos_timeline'') s
      | Some t \<Rightarrow>
          (let q = diagnosis_request_for p (rs_record s) t
           in if \<not> diagnosis_request_ok q then Raise (validation_error ''at least one failed report'') s
              else call_agent Diagnose (rt_diagnose rt q) (\<lambda>d r. r\<lparr>er_diagnosis := Some d\<rparr>) s))"

definition suppress_diagnosis :: "'e runtime \<Rightarrow> experiment_plan \<Rightarrow> 'e rs \<Rightarrow> 'e flow" where
  "suppress_diagnosis rt p s =
     (let s1 = set_state DIAGNOSED s in
      case build_active_list (rt_repo_rules rt (rs_env s1)) p of
        Inl x \<Rightarrow> Raise x s1
      | Inr rules \<Rightarrow>
          (case er_diagnosis (rs_record s1) of
             None \<Rightarrow> Raise (validation_error ''diagnosis'') s1
           | Some d \<Rightarrow>
               (case apply_to_diagnosis (rt_sha1 rt) rules (rt_now rt (rs_env s1)) d of
                  (Inl x, d') \<Rightarrow> Raise x (upd_record (\<lambda>r. r\<lparr>er_diagnosis := Some d'\<rparr>) s1)
                | (Inr u, d') \<Rightarrow> Next (save_record rt (upd_record (\<lambda>r. r\<lparr>er_diagnosis := Some d'\<rparr>) s1)))))"

definition diagnose_phase :: "'e runtime \<Rightarrow> experiment_plan \<Rightarrow> 'e rs \<Rightarrow> 'e flow" where
  "diagnose_phase rt p s =
     and_then (Next (save_record rt (set_state DIAGNOSE s))) (\<lambda>s1.
     and_then (diagnosis_call rt p s1) (suppress_diagnosis rt p))"

definition all_suppressed_note :: "diagnosis_report \<Rightarrow> diagnosis_report" where
  "all_suppressed_note d =
     d\<lparr>dr_notes := (if dr_notes d \<noteq> [] then dr_notes d @ [CHR 0x0A] else []) @
        ''all hypotheses suppressed by .chaos/suppress.yaml or plan.suppress''\<rparr>"

definition fix_phase :: "'e runtime \<Rightarrow> 'e rs \<Rightarrow> 'e flow" where
  "fix_phase rt s =
     (case er_diagnosis (rs_record s) of
        None \<Rightarrow> Raise (validation_error ''diagnosis'') s
      | Some d \<Rightarrow>
          (if active_hypotheses (rt_sha1 rt) d = []
           then Ret (finish rt (set_state FIX_DECLINED
             (upd_record (\<lambda>r. r\<lparr>er_diagnosis := Some (all_suppressed_note d)\<rparr>) s)))
           else and_then (call_agent Propose_fix (rt_propose_fix rt d)
                  (\<lambda>f r. r\<lparr>er_fix_proposal := Some f\<rparr>) (save_record rt (set_state PROPOSE_FIX s)))
                  (\<lambda>s1. Ret (finish rt (set_state FIX_PROPOSED s1)))))"

definition run_body :: "'e runtime \<Rightarrow> experiment_plan \<Rightarrow> 'e rs \<Rightarrow> 'e flow" where
  "run_body rt p s =
     and_then (setup_phase rt p s) (\<lambda>s.
     and_then (annotation_phase rt p s) (\<lambda>s.
     and_then (control_gate rt s) (\<lambda>s.
     and_then (baseline_phase rt p s) (\<lambda>s.
     and_then (budget_gate_step rt s) (\<lambda>s.
     and_then (control_gate rt s) (\<lambda>s.
     and_then (inject_phase rt p s) (\<lambda>s.
     and_then (control_gate rt s) (\<lambda>s.
     and_then (verify_phase rt p s) (\<lambda>s.
     and_then (budget_gate_step rt s) (\<lambda>s.
     and_then (control_gate rt s) (\<lambda>s.
     and_then (regressed_phase rt s) (\<lambda>s.
     and_then (diagnose_phase rt p s) (\<lambda>s.
     and_then (budget_gate_step rt s) (\<lambda>s.
     and_then (control_gate rt s) (fix_phase rt)))))))))))))))"

section \<open>A run\<close>

definition start_record :: "'e runtime \<Rightarrow> experiment_plan \<Rightarrow> database \<Rightarrow> op_signal list list \<Rightarrow> 'e \<Rightarrow> 'e rs" where
  "start_record rt p db ops e =
     save_record rt (attach_invocations rt
       \<lparr>rs_env = e, rs_db = db, rs_record = new_record p (rt_now rt e), rs_session = new_session,
        rs_session_active = False, rs_budget = new_tracker (ep_budget p) 0, rs_operator = ops,
        rs_trace = []\<rparr>)"

text \<open>\<open>async with session\<close>: a failed enter skips the body; an exit that raises replaces its result.\<close>

definition exit_session :: "'e runtime \<Rightarrow> 'e rs \<Rightarrow> pyexn option \<times> 'e rs" where
  "exit_session rt s =
     (case s_exit (rt_now rt) (rt_plugin rt) (rs_session s) (rs_env s) of
        (x, ss, e) \<Rightarrow> (x, emit Ev_exit (s\<lparr>rs_session := ss, rs_env := e\<rparr>)))"

fun leave_session :: "'e runtime \<Rightarrow> 'e flow \<Rightarrow> 'e flow" where
  "leave_session rt (Next s) =
     (case exit_session rt s of (None, s') \<Rightarrow> Next s' | (Some y, s') \<Rightarrow> Raise y s')"
| "leave_session rt (Ret s) =
     (case exit_session rt s of (None, s') \<Rightarrow> Ret s' | (Some y, s') \<Rightarrow> Raise y s')"
| "leave_session rt (Raise x s) =
     (case exit_session rt s of (None, s') \<Rightarrow> Raise x s' | (Some y, s') \<Rightarrow> Raise y s')"
| "leave_session rt Hang = Hang"

definition with_session :: "'e runtime \<Rightarrow> experiment_plan \<Rightarrow> 'e rs \<Rightarrow> 'e flow" where
  "with_session rt p s =
     (let s1 = emit Ev_enter (s\<lparr>rs_session_active := True\<rparr>) in
      case s_enter (rt_now rt) (rt_plugin rt) (rs_session s1) (rs_env s1) of
        (Inl x, ss, e) \<Rightarrow> Raise x (s1\<lparr>rs_session := ss, rs_env := e\<rparr>)
      | (Inr u, ss, e) \<Rightarrow> leave_session rt (run_body rt p (s1\<lparr>rs_session := ss, rs_env := e\<rparr>)))"

text \<open>\<open>except Exception\<close> of \<open>run\<close>.\<close>

fun recover :: "'e runtime \<Rightarrow> 'e flow \<Rightarrow> 'e flow" where
  "recover rt (Raise x s) =
     (if is_exception x then Ret (abort rt AGENT_FAILURE (''lifecycle failed: '' @ exn_repr x) s)
      else Raise x s)"
| "recover rt fl = fl"

definition final_sync :: "'e runtime \<Rightarrow> 'e rs \<Rightarrow> 'e rs" where
  "final_sync rt s = (save_record rt (sync_plugin rt s))\<lparr>rs_session_active := False\<rparr>"

datatype 'e run_result = Returned "'e rs" | Raised pyexn "'e rs" | Hangs

fun finally_sync :: "'e runtime \<Rightarrow> 'e flow \<Rightarrow> 'e run_result" where
  "finally_sync rt (Next s) = Returned (final_sync rt s)"
| "finally_sync rt (Ret s) = Returned (final_sync rt s)"
| "finally_sync rt (Raise x s) = Raised x (final_sync rt s)"
| "finally_sync rt Hang = Hangs"

definition run ::
  "'e runtime \<Rightarrow> experiment_plan \<Rightarrow> database \<Rightarrow> op_signal list list \<Rightarrow> 'e \<Rightarrow> 'e run_result" where
  "run rt p db ops e =
     (let s = start_record rt p db ops e in
      case check_cluster_allowed (ep_safety p) of
        Some f \<Rightarrow> Returned (abort rt (gf_reason f) (gf_detail f) s)
      | None \<Rightarrow>
          (case check_blast_radius p of
             Some f \<Rightarrow> Returned (abort rt (gf_reason f) (gf_detail f) s)
           | None \<Rightarrow> finally_sync rt (recover rt (with_session rt p s))))"

end
