(* ===== verification/Loop_Props.thy ===== *)
theory Loop_Props
  imports Loop
begin

text \<open>
  The orchestrator's protocol and the proof that every run follows it. \<open>exp_step\<close> is the state
  machine of an experiment as the store sees it (the states saved, pauses apart), \<open>protocol\<close> adds
  pauses, agent calls, session brackets and the clearing of the operator's signals. \<open>run_inv\<close> is the
  invariant the phases keep: the log so far follows the protocol up to the record's state, and each
  agent call so far had its gate passed. The theorems about complete runs are read off it.
\<close>

section \<open>The protocol\<close>

inductive exp_step :: "experiment_state \<Rightarrow> experiment_state \<Rightarrow> bool" where
  resave: "exp_step s s"
| to_baseline: "exp_step INITIALIZING BASELINE"
| baseline_ok: "exp_step BASELINE BASELINE_OK"
| to_inject: "exp_step BASELINE_OK INJECT"
| injected: "exp_step INJECT INJECTED"
| inject_failed: "exp_step INJECT INJECT_FAILED"
| to_verify: "exp_step INJECTED VERIFY"
| steady: "exp_step VERIFY RECORDED"
| regressed: "exp_step VERIFY REGRESSED"
| plugin_only: "exp_step REGRESSED RECORDED"
| to_diagnose: "exp_step REGRESSED DIAGNOSE"
| diagnosed: "exp_step DIAGNOSE DIAGNOSED"
| declined: "exp_step DIAGNOSED RECORDED"
| to_fix: "exp_step DIAGNOSED PROPOSE_FIX"
| fixed: "exp_step PROPOSE_FIX RECORDED"
| aborted: "s \<noteq> RECORDED \<Longrightarrow> exp_step s ABORTED"

inductive_simps exp_step_simps: "exp_step s t"
inductive_cases exp_step_from_aborted: "exp_step ABORTED t"
inductive_cases exp_step_from_recorded: "exp_step RECORDED t"

fun pausable :: "experiment_state \<Rightarrow> bool" where
  "pausable INITIALIZING = True"
| "pausable BASELINE_OK = True"
| "pausable INJECTED = True"
| "pausable VERIFY = True"
| "pausable DIAGNOSED = True"
| "pausable st = False"

fun terminal :: "experiment_state \<Rightarrow> bool" where
  "terminal ABORTED = True"
| "terminal RECORDED = True"
| "terminal st = False"

text \<open>The saved state in which each agent may be called.\<close>

fun call_state :: "agent_call \<Rightarrow> experiment_state" where
  "call_state Tester_baseline = BASELINE"
| "call_state Security_baseline = BASELINE"
| "call_state Chaos_execute = INJECT"
| "call_state Chaos_cleanup = INJECT"
| "call_state Tester_verify = VERIFY"
| "call_state Security_verify = VERIFY"
| "call_state Diagnose = DIAGNOSE"
| "call_state Propose_fix = PROPOSE_FIX"

text \<open>A protocol state: the last state saved other than PAUSED, and whether a pause was saved after it.\<close>

inductive protocol_step ::
  "experiment_state \<times> bool \<Rightarrow> event \<Rightarrow> experiment_state \<times> bool \<Rightarrow> bool" where
  ps_save: "exp_step st st' \<Longrightarrow> st' \<noteq> PAUSED \<Longrightarrow> protocol_step (st, p) (Ev_save st') (st', False)"
| ps_pause: "pausable st \<Longrightarrow> protocol_step (st, False) (Ev_save PAUSED) (st, True)"
| ps_call: "call_state c = st \<Longrightarrow> protocol_step (st, False) (Ev_call c) (st, False)"
| ps_annotations: "protocol_step (INITIALIZING, False) (Ev_annotations a) (INITIALIZING, False)"
| ps_enter: "protocol_step (INITIALIZING, False) Ev_enter (INITIALIZING, False)"
| ps_exit: "protocol_step (st, False) Ev_exit (st, False)"
| ps_cancel: "protocol_step (INJECT, False) Ev_inject_cancelled (INJECT, False)"
| ps_clear: "terminal st \<Longrightarrow> protocol_step (st, False) Ev_clear (st, False)"

inductive protocol ::
  "experiment_state \<times> bool \<Rightarrow> event list \<Rightarrow> experiment_state \<times> bool \<Rightarrow> bool" where
  protocol_Nil: "protocol p [] p"
| protocol_snoc: "protocol p evs q \<Longrightarrow> protocol_step q ev r \<Longrightarrow> protocol p (evs @ [ev]) r"

inductive_cases protocol_call: "protocol_step p (Ev_call c) q"
inductive_cases protocol_save: "protocol_step p (Ev_save st) q"

text \<open>The logs of a run that has saved its first record.\<close>

definition follows :: "event list \<Rightarrow> experiment_state \<times> bool \<Rightarrow> bool" where
  "follows evs q \<longleftrightarrow>
     (\<exists>rest. evs = Ev_save INITIALIZING # rest \<and> protocol (INITIALIZING, False) rest q)"

lemma follows_snoc: "follows evs q \<Longrightarrow> protocol_step q ev r \<Longrightarrow> follows (evs @ [ev]) r"
  by (auto simp: follows_def intro: protocol_snoc)

lemma protocol_prefix: "protocol p (evs @ fs) r \<Longrightarrow> \<exists>q. protocol p evs q"
proof (induction fs arbitrary: r rule: rev_induct)
  case (snoc f fs)
  then have "protocol p ((evs @ fs) @ [f]) r" by simp
  then obtain q where "protocol p (evs @ fs) q" by cases auto
  then show ?case by (rule snoc.IH)
qed auto

section \<open>Triples over the body's control flow\<close>

text \<open>\<open>H\<close>: may the step hang; \<open>N\<close>, \<open>R\<close>, \<open>X\<close>: what holds when it goes on, returns, raises.\<close>

fun flow_sat ::
  "bool \<Rightarrow> ('e rs \<Rightarrow> bool) \<Rightarrow> ('e rs \<Rightarrow> bool) \<Rightarrow> (pyexn \<Rightarrow> 'e rs \<Rightarrow> bool) \<Rightarrow> 'e flow \<Rightarrow> bool" where
  "flow_sat H N R X (Next s) = N s"
| "flow_sat H N R X (Ret s) = R s"
| "flow_sat H N R X (Raise x s) = X x s"
| "flow_sat H N R X Hang = H"

lemma flow_seq:
  "flow_sat H M R X fl \<Longrightarrow> (\<And>s. M s \<Longrightarrow> flow_sat H N R X (g s)) \<Longrightarrow> flow_sat H N R X (and_then fl g)"
  by (cases fl) simp_all

section \<open>What the primitives keep\<close>

lemma emit_simps [simp]:
  "rs_trace (emit ev s) = rs_trace s @ [ev]"
  "rs_record (emit ev s) = rs_record s" "rs_db (emit ev s) = rs_db s"
  "rs_env (emit ev s) = rs_env s" "rs_session (emit ev s) = rs_session s"
  "rs_session_active (emit ev s) = rs_session_active s"
  "rs_operator (emit ev s) = rs_operator s" "rs_budget (emit ev s) = rs_budget s"
  by (simp_all add: emit_def)

lemma upd_record_simps [simp]:
  "rs_trace (upd_record f s) = rs_trace s"
  "rs_record (upd_record f s) = f (rs_record s)" "rs_db (upd_record f s) = rs_db s"
  "rs_env (upd_record f s) = rs_env s" "rs_session (upd_record f s) = rs_session s"
  "rs_session_active (upd_record f s) = rs_session_active s"
  "rs_operator (upd_record f s) = rs_operator s" "rs_budget (upd_record f s) = rs_budget s"
  by (simp_all add: upd_record_def)

lemma set_state_simps [simp]:
  "rs_trace (set_state st s) = rs_trace s"
  "rs_record (set_state st s) = (rs_record s)\<lparr>er_state := st\<rparr>" "rs_db (set_state st s) = rs_db s"
  "rs_env (set_state st s) = rs_env s" "rs_session (set_state st s) = rs_session s"
  "rs_session_active (set_state st s) = rs_session_active s"
  "rs_operator (set_state st s) = rs_operator s" "rs_budget (set_state st s) = rs_budget s"
  by (simp_all add: set_state_def)

lemma save_record_simps [simp]:
  "rs_trace (save_record rt s) = rs_trace s @ [Ev_save (er_state (rs_record s))]"
  "rs_record (save_record rt s) = rs_record s"
  "rs_db (save_record rt s) = store_save (rt_dump rt) (rs_record s) (rs_db s)"
  "rs_env (save_record rt s) = rs_env s" "rs_session (save_record rt s) = rs_session s"
  "rs_session_active (save_record rt s) = rs_session_active s"
  "rs_operator (save_record rt s) = rs_operator s" "rs_budget (save_record rt s) = rs_budget s"
  by (simp_all add: save_record_def)

lemma sync_plugin_record_simps [simp]:
  "er_state (sync_plugin_record n ss r) = er_state r"
  "er_experiment_id (sync_plugin_record n ss r) = er_experiment_id r"
  "er_plan (sync_plugin_record n ss r) = er_plan r"
  "er_tester_baseline (sync_plugin_record n ss r) = er_tester_baseline r"
  "er_security_baseline (sync_plugin_record n ss r) = er_security_baseline r"
  "er_chaos_timeline (sync_plugin_record n ss r) = er_chaos_timeline r"
  "er_tester_verify (sync_plugin_record n ss r) = er_tester_verify r"
  "er_security_verify (sync_plugin_record n ss r) = er_security_verify r"
  "er_diagnosis (sync_plugin_record n ss r) = er_diagnosis r"
  "er_fix_proposal (sync_plugin_record n ss r) = er_fix_proposal r"
  "er_abort_reason (sync_plugin_record n ss r) = er_abort_reason r"
  "er_abort_detail (sync_plugin_record n ss r) = er_abort_detail r"
  by (simp_all add: sync_plugin_record_def Let_def)

text \<open>The bookkeeping steps change only bookkeeping fields of the record.\<close>

lemma sync_plugin_simps [simp]:
  "rs_trace (sync_plugin rt s) = rs_trace s"
  "rs_db (sync_plugin rt s) = rs_db s"
  "rs_env (sync_plugin rt s) = rs_env s"
  "rs_session (sync_plugin rt s) = rs_session s"
  "rs_session_active (sync_plugin rt s) = rs_session_active s"
  "rs_operator (sync_plugin rt s) = rs_operator s"
  "er_state (rs_record (sync_plugin rt s)) = er_state (rs_record s)"
  "er_experiment_id (rs_record (sync_plugin rt s)) = er_experiment_id (rs_record s)"
  "er_plan (rs_record (sync_plugin rt s)) = er_plan (rs_record s)"
  "er_tester_baseline (rs_record (sync_plugin rt s)) = er_tester_baseline (rs_record s)"
  "er_security_baseline (rs_record (sync_plugin rt s)) = er_security_baseline (rs_record s)"
  "er_chaos_timeline (rs_record (sync_plugin rt s)) = er_chaos_timeline (rs_record s)"
  "er_tester_verify (rs_record (sync_plugin rt s)) = er_tester_verify (rs_record s)"
  "er_security_verify (rs_record (sync_plugin rt s)) = er_security_verify (rs_record s)"
  "er_diagnosis (rs_record (sync_plugin rt s)) = er_diagnosis (rs_record s)"
  "er_fix_proposal (rs_record (sync_plugin rt s)) = er_fix_proposal (rs_record s)"
  "er_abort_reason (rs_record (sync_plugin rt s)) = er_abort_reason (rs_record s)"
  "er_abort_detail (rs_record (sync_plugin rt s)) = er_abort_detail (rs_record s)"
  by (simp_all add: sync_plugin_def split: option.splits)

lemma sync_spend_simps [simp]:
  "rs_trace (sync_spend rt s) = rs_trace s"
  "rs_db (sync_spend rt s) = rs_db s"
  "rs_env (sync_spend rt s) = rs_env s"
  "rs_session (sync_spend rt s) = rs_session s"
  "rs_session_active (sync_spend rt s) = rs_session_active s"
  "rs_operator (sync_spend rt s) = rs_operator s"
  "er_state (rs_record (sync_spend rt s)) = er_state (rs_record s)"
  "er_experiment_id (rs_record (sync_spend rt s)) = er_experiment_id (rs_record s)"
  "er_plan (rs_record (sync_spend rt s)) = er_plan (rs_record s)"
  "er_tester_baseline (rs_record (sync_spend rt s)) = er_tester_baseline (rs_record s)"
  "er_security_baseline (rs_record (sync_spend rt s)) = er_security_baseline (rs_record s)"
  "er_chaos_timeline (rs_record (sync_spend rt s)) = er_chaos_timeline (rs_record s)"
  "er_tester_verify (rs_record (sync_spend rt s)) = er_tester_verify (rs_record s)"
  "er_security_verify (rs_record (sync_spend rt s)) = er_security_verify (rs_record s)"
  "er_diagnosis (rs_record (sync_spend rt s)) = er_diagnosis (rs_record s)"
  "er_fix_proposal (rs_record (sync_spend rt s)) = er_fix_proposal (rs_record s)"
  "er_abort_reason (rs_record (sync_spend rt s)) = er_abort_reason (rs_record s)"
  "er_abort_detail (rs_record (sync_spend rt s)) = er_abort_detail (rs_record s)"
  by (simp_all add: sync_spend_def split: option.splits)

lemma attach_invocations_simps [simp]:
  "rs_trace (attach_invocations rt s) = rs_trace s"
  "rs_db (attach_invocations rt s) = rs_db s"
  "rs_env (attach_invocations rt s) = rs_env s"
  "rs_session (attach_invocations rt s) = rs_session s"
  "rs_session_active (attach_invocations rt s) = rs_session_active s"
  "rs_operator (attach_invocations rt s) = rs_operator s"
  "er_state (rs_record (attach_invocations rt s)) = er_state (rs_record s)"
  "er_experiment_id (rs_record (attach_invocations rt s)) = er_experiment_id (rs_record s)"
  "er_plan (rs_record (attach_invocations rt s)) = er_plan (rs_record s)"
  "er_tester_baseline (rs_record (attach_invocations rt s)) = er_tester_baseline (rs_record s)"
  "er_security_baseline (rs_record (attach_invocations rt s)) = er_security_baseline (rs_record s)"
  "er_chaos_timeline (rs_record (attach_invocations rt s)) = er_chaos_timeline (rs_record s)"
  "er_tester_verify (rs_record (attach_invocations rt s)) = er_tester_verify (rs_record s)"
  "er_security_verify (rs_record (attach_invocations rt s)) = er_security_verify (rs_record s)"
  "er_diagnosis (rs_record (attach_invocations rt s)) = er_diagnosis (rs_record s)"
  "er_fix_proposal (rs_record (attach_invocations rt s)) = er_fix_proposal (rs_record s)"
  "er_abort_reason (rs_record (attach_invocations rt s)) = er_abort_reason (rs_record s)"
  "er_abort_detail (rs_record (attach_invocations rt s)) = er_abort_detail (rs_record s)"
  by (simp_all add: attach_invocations_def split: option.splits)

lemma sync_budget [simp]:
  "rs_budget (sync_plugin rt s) = rs_budget s" "rs_budget (sync_spend rt s) = rs_budget s"
  "rs_budget (attach_invocations rt s) = rs_budget s"
  by (simp_all add: sync_plugin_def sync_spend_def attach_invocations_def split: option.splits)

lemma sync_spend_verify [simp]: "er_verify_result (rs_record (sync_spend rt s)) = er_verify_result (rs_record s)"
  by (simp add: sync_spend_def split: option.splits)

lemma builtin_regressed_cong:
  "er_tester_verify r = er_tester_verify r' \<Longrightarrow> er_security_verify r = er_security_verify r' \<Longrightarrow>
     builtin_regressed r = builtin_regressed r'"
  by (simp add: builtin_regressed_def)

lemma clear_signals_simps [simp]:
  "rs_trace (clear_signals s) = rs_trace s @ [Ev_clear]"
  "rs_record (clear_signals s) = rs_record s"
  "rs_db (clear_signals s) = clear_control (er_experiment_id (rs_record s)) (rs_db s)"
  "rs_session (clear_signals s) = rs_session s"
  "rs_session_active (clear_signals s) = rs_session_active s"
  by (simp_all add: clear_signals_def)

section \<open>The invariant\<close>

definition baselines_ok :: "experiment_record \<Rightarrow> bool" where
  "baselines_ok r \<longleftrightarrow>
     (\<exists>t v. er_tester_baseline r = Some t \<and> tr_steady_state t \<and>
            er_security_baseline r = Some v \<and> \<not> has_critical_or_high v)"

definition annotated :: "experiment_plan \<Rightarrow> event list \<Rightarrow> bool" where
  "annotated p evs \<longleftrightarrow>
     (sc_require_namespace_annotation (ep_safety p) \<longrightarrow>
       (\<exists>a. Ev_annotations (Some a) \<in> set evs \<and> dict_get a annotation_key = Some ''true''))"

definition fix_wanted :: "'e runtime \<Rightarrow> experiment_record \<Rightarrow> bool" where
  "fix_wanted rt r \<longleftrightarrow> (\<exists>d. er_diagnosis r = Some d \<and> active_hypotheses (rt_sha1 rt) d \<noteq> [])"

text \<open>Each guarded agent call in the log had its guard.\<close>

definition calls_guarded :: "'e runtime \<Rightarrow> experiment_plan \<Rightarrow> 'e rs \<Rightarrow> bool" where
  "calls_guarded rt p s \<longleftrightarrow>
     (Ev_call Chaos_execute \<in> set (rs_trace s) \<longrightarrow>
        baselines_ok (rs_record s) \<and> annotated p (rs_trace s)) \<and>
     (Ev_call Diagnose \<in> set (rs_trace s) \<longrightarrow> builtin_regressed (rs_record s)) \<and>
     (Ev_call Propose_fix \<in> set (rs_trace s) \<longrightarrow> fix_wanted rt (rs_record s))"

definition run_inv :: "'e runtime \<Rightarrow> experiment_plan \<Rightarrow> experiment_state \<times> bool \<Rightarrow> 'e rs \<Rightarrow> bool" where
  "run_inv rt p q s \<longleftrightarrow>
     follows (rs_trace s) q \<and> er_experiment_id (rs_record s) = ep_experiment_id p \<and>
     er_plan (rs_record s) = p \<and> calls_guarded rt p s"

text \<open>What is known at the end of the first \<open>n\<close> gates of the body.\<close>

definition knows :: "experiment_plan \<Rightarrow> nat \<Rightarrow> 'e rs \<Rightarrow> bool" where
  "knows p n s \<longleftrightarrow>
     (1 \<le> n \<longrightarrow> annotated p (rs_trace s)) \<and>
     (2 \<le> n \<longrightarrow> baselines_ok (rs_record s)) \<and>
     (4 \<le> n \<longrightarrow> builtin_regressed (rs_record s)) \<and>
     (5 \<le> n \<longrightarrow> er_diagnosis (rs_record s) \<noteq> None) \<and>
     (n \<le> 2 \<longrightarrow> Ev_call Chaos_execute \<notin> set (rs_trace s)) \<and>
     (n \<le> 4 \<longrightarrow> Ev_call Diagnose \<notin> set (rs_trace s)) \<and>
     Ev_call Propose_fix \<notin> set (rs_trace s)"

definition calm :: "string \<Rightarrow> database \<Rightarrow> op_signal list list \<Rightarrow> bool" where
  "calm k db ops \<longleftrightarrow>
     \<not> cs_pause_requested (load_control k db) \<and> (\<forall>b \<in> set ops. OS_pause True \<notin> set b)"

definition going :: "'e runtime \<Rightarrow> experiment_plan \<Rightarrow> bool \<Rightarrow> nat \<Rightarrow> experiment_state \<Rightarrow> bool \<Rightarrow> 'e rs \<Rightarrow> bool" where
  "going rt p c n st pz s \<longleftrightarrow>
     run_inv rt p (st, pz) s \<and> knows p n s \<and>
     (c \<longrightarrow> calm (ep_experiment_id p) (rs_db s) (rs_operator s))"

definition standing :: "'e runtime \<Rightarrow> experiment_plan \<Rightarrow> bool \<Rightarrow> nat \<Rightarrow> experiment_state \<Rightarrow> 'e rs \<Rightarrow> bool" where
  "standing rt p c n st s \<longleftrightarrow> (\<exists>pz. going rt p c n st pz s)"

definition ended :: "'e runtime \<Rightarrow> experiment_plan \<Rightarrow> 'e rs \<Rightarrow> bool" where
  "ended rt p s \<longleftrightarrow>
     (\<exists>st. terminal st \<and> run_inv rt p (st, False) s \<and> er_state (rs_record s) = st) \<and>
     load_control (ep_experiment_id p) (rs_db s) = no_signals"

definition broken :: "'e runtime \<Rightarrow> experiment_plan \<Rightarrow> pyexn \<Rightarrow> 'e rs \<Rightarrow> bool" where
  "broken rt p x s \<longleftrightarrow>
     (\<exists>st. run_inv rt p (st, False) s \<and> \<not> terminal st \<and> exp_step st (er_state (rs_record s)) \<and>
       er_state (rs_record s) \<noteq> PAUSED)"

lemma close_record_inv:
  assumes "run_inv rt p (st, pz) s" "exp_step st (er_state (rs_record s))"
    "terminal (er_state (rs_record s))"
  shows "ended rt p (close_record rt s)"
proof -
  let ?t = "er_state (rs_record s)"
  have "follows (rs_trace s @ [Ev_save ?t]) (?t, False)"
    using assms by (intro follows_snoc [OF _ ps_save]) (auto simp: run_inv_def)
  then have "follows ((rs_trace s @ [Ev_save ?t]) @ [Ev_clear]) (?t, False)"
    using assms(3) by (intro follows_snoc [OF _ ps_clear])
  then have "run_inv rt p (?t, False) (close_record rt s)"
    using assms(1)
    by (auto simp: run_inv_def close_record_def calls_guarded_def baselines_ok_def annotated_def
        fix_wanted_def builtin_regressed_def)
  then show ?thesis
    using assms by (auto simp: ended_def close_record_def run_inv_def control_clear_control)
qed

lemma run_inv_cong:
  assumes "run_inv rt p q s" "rs_trace s' = rs_trace s"
    "er_experiment_id (rs_record s') = er_experiment_id (rs_record s)"
    "er_plan (rs_record s') = er_plan (rs_record s)"
    "er_tester_baseline (rs_record s') = er_tester_baseline (rs_record s)"
    "er_security_baseline (rs_record s') = er_security_baseline (rs_record s)"
    "er_tester_verify (rs_record s') = er_tester_verify (rs_record s)"
    "er_security_verify (rs_record s') = er_security_verify (rs_record s)"
    "er_diagnosis (rs_record s') = er_diagnosis (rs_record s)"
  shows "run_inv rt p q s'"
  using assms
  by (auto simp: run_inv_def calls_guarded_def baselines_ok_def fix_wanted_def builtin_regressed_def)

lemma abort_ended:
  assumes "run_inv rt p (st, pz) s" "st \<noteq> RECORDED"
  shows "ended rt p (abort rt r d s)"
  unfolding abort_def
proof (rule close_record_inv)
  show "run_inv rt p (st, pz) (upd_record (\<lambda>rc. rc\<lparr>er_abort_reason := Some r, er_abort_detail := d\<rparr>)
      (set_state ABORTED s))"
    using assms(1) by (rule run_inv_cong) simp_all
qed (use assms(2) in \<open>auto intro: exp_step.aborted\<close>)

lemma finish_ended:
  assumes "run_inv rt p (st, pz) s" "exp_step st RECORDED"
  shows "ended rt p (finish rt s)"
  unfolding finish_def
proof (rule close_record_inv)
  show "run_inv rt p (st, pz) (set_state RECORDED s)"
    using assms(1) by (rule run_inv_cong) simp_all
qed (use assms(2) in auto)

lemma standing_abort: "standing rt p c n st s \<Longrightarrow> st \<noteq> RECORDED \<Longrightarrow> ended rt p (abort rt r d s)"
  by (auto simp: standing_def going_def intro: abort_ended)

text \<open>Saving moves the log on; the facts about the record are those of the record saved.\<close>

lemma going_save:
  assumes "going rt p c n st pz s" "exp_step st (er_state (rs_record s))"
    "er_state (rs_record s) \<noteq> PAUSED"
  shows "going rt p c n (er_state (rs_record s)) False (save_record rt s)"
proof -
  have "follows (rs_trace s @ [Ev_save (er_state (rs_record s))]) (er_state (rs_record s), False)"
    using assms by (intro follows_snoc [OF _ ps_save]) (auto simp: going_def run_inv_def)
  then show ?thesis
    using assms(1)
    by (simp add: going_def run_inv_def knows_def calls_guarded_def annotated_def calm_def
        control_store_save)
qed

lemma going_cong:
  assumes "going rt p c n st pz s" "rs_trace s' = rs_trace s" "rs_db s' = rs_db s"
    "rs_operator s' = rs_operator s"
    "er_experiment_id (rs_record s') = er_experiment_id (rs_record s)"
    "er_plan (rs_record s') = er_plan (rs_record s)"
    "er_tester_baseline (rs_record s') = er_tester_baseline (rs_record s)"
    "er_security_baseline (rs_record s') = er_security_baseline (rs_record s)"
    "er_tester_verify (rs_record s') = er_tester_verify (rs_record s)"
    "er_security_verify (rs_record s') = er_security_verify (rs_record s)"
    "er_diagnosis (rs_record s') = er_diagnosis (rs_record s)"
  shows "going rt p c n st pz s'"
proof -
  have "run_inv rt p (st, pz) s'"
    by (rule run_inv_cong [where s = s]) (use assms in \<open>simp_all add: going_def\<close>)
  then show ?thesis
    using assms by (simp add: going_def knows_def baselines_ok_def builtin_regressed_def)
qed

lemma going_enter_state:
  assumes "standing rt p c n st s" "exp_step st st'" "st' \<noteq> PAUSED"
  shows "going rt p c n st' False (save_record rt (set_state st' s))"
proof -
  obtain pz where "going rt p c n st pz s" using assms(1) by (auto simp: standing_def)
  then have "going rt p c n st pz (set_state st' s)" by (rule going_cong) simp_all
  from going_save [OF this] assms(2,3) show ?thesis by simp
qed

lemma going_enter_synced:
  assumes "standing rt p c n st s" "exp_step st st'" "st' \<noteq> PAUSED"
  shows "going rt p c n st' False (save_record rt (sync_plugin rt (set_state st' s)))"
proof -
  obtain pz where "going rt p c n st pz s" using assms(1) by (auto simp: standing_def)
  then have "going rt p c n st pz (sync_plugin rt (set_state st' s))" by (rule going_cong) simp_all
  from going_save [OF this] assms(2,3) show ?thesis by simp
qed

lemma gate_or_abort_sat:
  assumes "standing rt p c n st s" "st \<noteq> RECORDED" "g = None \<Longrightarrow> N s"
  shows "flow_sat H N (ended rt p) X (gate_or_abort rt g s)"
  using assms by (cases g) (auto simp: gate_or_abort_def standing_abort)

section \<open>The control and budget gates\<close>

lemma load_control_signals:
  "rs_db s' = rs_db s \<Longrightarrow> load_control k (rs_db s') = load_control k (rs_db s)"
  by simp

lemma apply_signals_calm:
  assumes "\<not> cs_pause_requested (load_control k db)" "OS_pause True \<notin> set b"
  shows "\<not> cs_pause_requested (load_control k (apply_signals k b db))"
  using assms
proof (induction b arbitrary: db)
  case (Cons g b)
  have "\<not> cs_pause_requested (load_control k (apply_signal k g db))"
    using Cons.prems
    by (cases g) (auto simp: load_control_def set_pause_def request_abort_def update_row_get
        split: option.splits)
  with Cons.IH [of "apply_signal k g db"] Cons.prems(2) show ?case by (simp add: apply_signals_def)
qed (simp add: apply_signals_def)

lemma mark_paused_going:
  assumes "going rt p c n st False s" "pausable st"
  shows "going rt p c n st True (mark_paused rt s)"
proof -
  have "follows (rs_trace s @ [Ev_save PAUSED]) (st, True)"
    using assms by (intro follows_snoc [OF _ ps_pause]) (auto simp: going_def run_inv_def)
  then show ?thesis
    using assms(1)
    by (simp add: mark_paused_def going_def run_inv_def knows_def calls_guarded_def annotated_def
        calm_def control_store_save baselines_ok_def builtin_regressed_def fix_wanted_def)
qed

text \<open>The state \<open>control_loop\<close> polls in.\<close>

definition polled :: "op_signal list list \<Rightarrow> 'e rs \<Rightarrow> 'e rs" where
  "polled bs s =
     s\<lparr>rs_db := apply_signals (er_experiment_id (rs_record s)) (case bs of [] \<Rightarrow> [] | b # r \<Rightarrow> b) (rs_db s),
       rs_operator := tl bs\<rparr>"

lemma polled_simps [simp]:
  "rs_record (polled bs s) = rs_record s" "rs_trace (polled bs s) = rs_trace s"
  "rs_operator (polled bs s) = tl bs" "rs_env (polled bs s) = rs_env s"
  "rs_session (polled bs s) = rs_session s"
  by (simp_all add: polled_def)

lemma control_loop_polled:
  "control_loop rt first bs s =
     (let c = load_control (er_experiment_id (rs_record s)) (rs_db (polled bs s)) in
      if cs_abort_requested c then Some (Some (operator_kill c), polled bs s)
      else if \<not> cs_pause_requested c then Some (None, polled bs s)
      else (case bs of
          [] \<Rightarrow> None
        | b # rest \<Rightarrow>
            (let s2 = (if first then mark_paused rt (polled bs s) else polled bs s)
             in control_loop rt False rest (s2\<lparr>rs_env := rt_sleep rt (rs_env s2)\<rparr>))))"
  unfolding polled_def control_loop.simps [of rt first bs s] Let_def by (rule refl)

lemma going_polled:
  assumes "going rt p c n st pz s" "c \<longrightarrow> bs = rs_operator s"
  shows "going rt p c n st pz (polled bs s)"
proof -
  have "calm (ep_experiment_id p) (rs_db (polled bs s)) (tl bs)" if c
  proof -
    have "calm (ep_experiment_id p) (rs_db s) bs" "er_experiment_id (rs_record s) = ep_experiment_id p"
      using assms that by (auto simp: going_def run_inv_def)
    then show ?thesis
      using apply_signals_calm [of "ep_experiment_id p" "rs_db s" "hd bs"]
      by (cases bs) (simp_all add: calm_def polled_def apply_signals_def [of _ "[]"])
  qed
  moreover have "run_inv rt p (st, pz) (polled bs s)"
    by (rule run_inv_cong [where s = s]) (use assms(1) in \<open>simp_all add: going_def\<close>)
  ultimately show ?thesis using assms(1) by (simp add: going_def knows_def)
qed

lemma going_env: "going rt p c n st pz s \<Longrightarrow> going rt p c n st pz (s\<lparr>rs_env := e\<rparr>)"
  by (erule going_cong) simp_all

lemma mark_paused_operator [simp]:
  "rs_operator (mark_paused rt s) = rs_operator s" "rs_session (mark_paused rt s) = rs_session s"
  by (simp_all add: mark_paused_def)

lemma control_loop_going:
  assumes "going rt p c n st pz s" "first \<longrightarrow> \<not> pz" "pausable st" "c \<longrightarrow> bs = rs_operator s"
  shows "(case control_loop rt first bs s of None \<Rightarrow> \<not> c | Some (g, s') \<Rightarrow> standing rt p c n st s')"
  using assms
proof (induction bs arbitrary: first pz s)
  case Nil
  have g: "going rt p c n st pz (polled [] s)" by (rule going_polled) (use Nil in auto)
  then have "c \<Longrightarrow> \<not> cs_pause_requested (load_control (er_experiment_id (rs_record s)) (rs_db (polled [] s)))"
    by (auto simp: going_def calm_def run_inv_def)
  with g show ?case
    by (subst control_loop_polled) (auto simp: Let_def standing_def)
next
  case (Cons b rest)
  let ?s1 = "polled (b # rest) s"
  let ?s2 = "if first then mark_paused rt ?s1 else ?s1"
  let ?s3 = "?s2\<lparr>rs_env := rt_sleep rt (rs_env ?s2)\<rparr>"
  have g: "going rt p c n st pz ?s1" by (rule going_polled) (use Cons.prems in auto)
  have calm: "c \<Longrightarrow> \<not> cs_pause_requested (load_control (er_experiment_id (rs_record s)) (rs_db ?s1))"
    using g by (auto simp: going_def calm_def run_inv_def)
  have g3: "going rt p c n st (first \<or> pz) ?s3"
    using g Cons.prems(2,3) mark_paused_going by (intro going_env) (cases first; cases pz; simp)
  have "case control_loop rt False rest ?s3 of None \<Rightarrow> \<not> c | Some (g, s') \<Rightarrow> standing rt p c n st s'"
    proof (rule Cons.IH [OF g3])
    show "c \<longrightarrow> rest = rs_operator ?s3"
      by (cases first) simp_all
  qed (use Cons.prems in auto)
  with g calm show ?case
    by (subst control_loop_polled) (auto simp: Let_def standing_def)
qed

lemma control_gate_sat:
  assumes "going rt p c n st False s" "pausable st"
  shows "flow_sat (\<not> c) (standing rt p c n st) (ended rt p) X (control_gate rt s)"
proof -
  have "case check_control rt s of None \<Rightarrow> \<not> c | Some (g, s') \<Rightarrow> standing rt p c n st s'"
    unfolding check_control_def by (rule control_loop_going [OF assms(1) _ assms(2)]) simp_all
  moreover have "st \<noteq> RECORDED" using assms(2) by auto
  ultimately show ?thesis
    by (cases "check_control rt s") (auto simp: control_gate_def intro!: gate_or_abort_sat)
qed

lemma check_budget_keeps:
  assumes "check_budget_step rt s = (g, s')" "going rt p c n st pz s"
  shows "going rt p c n st pz s'"
  by (rule going_cong [OF assms(2)]) (use assms(1) in \<open>auto simp: check_budget_step_def Let_def\<close>)

lemma budget_gate_sat:
  assumes "going rt p c n st False s" "st \<noteq> RECORDED"
  shows "flow_sat H (going rt p c n st False) (ended rt p) X (budget_gate_step rt s)"
proof -
  obtain g s' where b: "check_budget_step rt s = (g, s')" by (cases "check_budget_step rt s")
  have "going rt p c n st False s'" using b assms(1) by (rule check_budget_keeps)
  then show ?thesis
    using assms(2) by (auto simp: budget_gate_step_def b standing_def intro!: gate_or_abort_sat)
qed

section \<open>Calls and phases\<close>

text \<open>Inside a phase: the state on the record is the state saved last.\<close>

definition inside :: "'e runtime \<Rightarrow> experiment_plan \<Rightarrow> bool \<Rightarrow> nat \<Rightarrow> experiment_state \<Rightarrow> 'e rs \<Rightarrow> bool" where
  "inside rt p c n st s \<longleftrightarrow>
     going rt p c n st False s \<and> er_state (rs_record s) = st \<and> \<not> terminal st \<and> st \<noteq> PAUSED"

lemma inside_standing: "inside rt p c n st s \<Longrightarrow> standing rt p c n st s"
  by (auto simp: inside_def standing_def)

lemma inside_going: "inside rt p c n st s \<Longrightarrow> going rt p c n st False s"
  by (simp add: inside_def)

lemma inside_broken: "inside rt p c n st s \<Longrightarrow> broken rt p x s"
  by (auto simp: inside_def broken_def going_def intro: resave)

lemma inside_env: "inside rt p c n st s \<Longrightarrow> inside rt p c n st (s\<lparr>rs_env := e\<rparr>)"
  by (auto simp: inside_def going_env)

lemma inside_session:
  "inside rt p c n st s \<Longrightarrow> inside rt p c n st (s\<lparr>rs_session := ss, rs_env := e\<rparr>)"
proof -
  assume i: "inside rt p c n st s"
  have "going rt p c n st False (s\<lparr>rs_session := ss, rs_env := e\<rparr>)"
    by (rule going_cong [OF inside_going [OF i]]) simp_all
  with i show ?thesis by (simp add: inside_def)
qed

text \<open>What an update of the record may touch once \<open>n\<close> gates are passed.\<close>

definition touches :: "nat \<Rightarrow> (experiment_record \<Rightarrow> experiment_record) \<Rightarrow> bool" where
  "touches n f \<longleftrightarrow>
     (\<forall>r. er_state (f r) = er_state r \<and> er_experiment_id (f r) = er_experiment_id r \<and>
       er_plan (f r) = er_plan r \<and>
       (2 \<le> n \<longrightarrow> er_tester_baseline (f r) = er_tester_baseline r \<and>
         er_security_baseline (f r) = er_security_baseline r) \<and>
       (4 \<le> n \<longrightarrow> er_tester_verify (f r) = er_tester_verify r \<and>
         er_security_verify (f r) = er_security_verify r) \<and>
       (5 \<le> n \<longrightarrow> er_diagnosis (f r) = er_diagnosis r))"

lemma touches_baselines: "touches n f \<Longrightarrow> 2 \<le> n \<Longrightarrow> baselines_ok (f r) = baselines_ok r"
  by (simp add: touches_def baselines_ok_def)

lemma touches_regressed: "touches n f \<Longrightarrow> 4 \<le> n \<Longrightarrow> builtin_regressed (f r) = builtin_regressed r"
  by (simp add: touches_def builtin_regressed_def)

lemma touches_keep:
  "touches n f \<Longrightarrow> er_state (f r) = er_state r \<and> er_experiment_id (f r) = er_experiment_id r \<and>
     er_plan (f r) = er_plan r \<and> (5 \<le> n \<longrightarrow> er_diagnosis (f r) = er_diagnosis r)"
  by (simp add: touches_def)

lemma knows_guards: "knows p n s \<Longrightarrow> calls_guarded rt p s"
  by (cases "n \<le> 2"; cases "n \<le> 4") (auto simp: knows_def calls_guarded_def)

lemma inside_update:
  assumes "inside rt p c n st s" "touches n f"
  shows "inside rt p c n st (upd_record f s)"
proof -
  note g = assms(1) [unfolded inside_def going_def run_inv_def]
  have "knows p n (upd_record f s)"
    using g touches_baselines [OF assms(2)] touches_regressed [OF assms(2)] touches_keep [OF assms(2)]
    by (simp add: knows_def)
  with g touches_keep [OF assms(2)] show ?thesis
    by (auto simp: inside_def going_def run_inv_def intro: knows_guards)
qed

lemma going_abort: "going rt p c n st pz s \<Longrightarrow> st \<noteq> RECORDED \<Longrightarrow> ended rt p (abort rt r d s)"
  by (auto simp: going_def intro: abort_ended)

lemma inside_abort:
  assumes "inside rt p c n st s"
  shows "ended rt p (abort rt r d (set_state st' s))"
proof (rule going_abort)
  show "going rt p c n st False (set_state st' s)"
    by (rule going_cong [OF inside_going [OF assms]]) simp_all
  show "st \<noteq> RECORDED" using assms by (auto simp: inside_def)
qed

definition early_call :: "agent_call \<Rightarrow> bool" where
  "early_call call \<longleftrightarrow> call \<notin> {Chaos_execute, Diagnose, Propose_fix}"

lemma inside_call:
  assumes "inside rt p c n st s" "call_state call = st" "early_call call"
  shows "inside rt p c n st (emit (Ev_call call) (s\<lparr>rs_env := e\<rparr>))"
proof -
  note g = assms(1) [unfolded inside_def going_def run_inv_def]
  have "follows (rs_trace s @ [Ev_call call]) (st, False)"
    using g assms(2) by (intro follows_snoc [OF _ ps_call]) auto
  moreover have "knows p n (emit (Ev_call call) (s\<lparr>rs_env := e\<rparr>))"
    using g assms(3) by (auto simp: knows_def early_call_def annotated_def)
  ultimately show ?thesis
    using g by (auto simp: inside_def going_def run_inv_def intro: knows_guards)
qed

lemma call_agent_sat:
  assumes "inside rt p c n st s" "call_state call = st" "early_call call" "\<And>v. touches n (put v)"
  shows "flow_sat H (\<lambda>s'. inside rt p c n st s' \<and> (\<exists>v. rs_record s' = put v (rs_record s)))
    R (broken rt p) (call_agent call f put s)"
proof -
  obtain r e where fe: "f (rs_env s) = (r, e)" by (cases "f (rs_env s)")
  note i = inside_call [OF assms(1,2,3), of e]
  show ?thesis
    using inside_broken [OF i] inside_update [OF i assms(4)]
    by (cases r) (auto simp: call_agent_def fe)
qed

lemma call_session_sat:
  assumes "inside rt p c n st s" "\<And>v. touches n (put v)"
  shows "flow_sat H (\<lambda>s'. inside rt p c n st s' \<and> (\<exists>v. rs_record s' = put v (rs_record s)))
    R (broken rt p) (call_session f put s)"
proof -
  obtain r ss e where fe: "f (rs_session s) (rs_env s) = (r, ss, e)" by (metis prod_cases3)
  note i = inside_session [OF assms(1), where ss = ss and e = e]
  show ?thesis
    using inside_broken [OF i] inside_update [OF i assms(2)]
    by (cases r) (auto simp: call_session_def fe)
qed

lemma inside_enter:
  assumes "standing rt p c n st s" "exp_step st st'" "st' \<noteq> PAUSED" "\<not> terminal st'"
  shows "inside rt p c n st' (save_record rt (set_state st' s))"
    and "inside rt p c n st' (save_record rt (sync_plugin rt (set_state st' s)))"
  using going_enter_state [OF assms(1,2,3)] going_enter_synced [OF assms(1,2,3)] assms(3,4)
  by (simp_all add: inside_def)

lemma setup_phase_sat:
  assumes "inside rt p c 0 INITIALIZING s"
  shows "flow_sat H (inside rt p c 0 INITIALIZING) R X (setup_phase rt p s)"
proof -
  let ?s = "s\<lparr>rs_budget := new_tracker (ep_budget p) (rt_monotonic rt (rs_env s))\<rparr>"
  have "going rt p c 0 INITIALIZING False (sync_plugin rt ?s)"
    by (rule going_cong [OF inside_going [OF assms]]) simp_all
  from going_save [OF this] assms show ?thesis
    by (simp add: setup_phase_def inside_def resave)
qed

lemma annotation_phase_sat:
  assumes "inside rt p c 0 INITIALIZING s"
  shows "flow_sat H (inside rt p c 1 INITIALIZING) (ended rt p) (broken rt p) (annotation_phase rt p s)"
proof (cases "sc_require_namespace_annotation (ep_safety p)")
  case False
  with assms show ?thesis
    by (auto simp: annotation_phase_def inside_def going_def knows_def annotated_def)
next
  case True
  obtain r s1 where fa: "fetch_annotations rt (sc_namespace (ep_safety p)) s = (r, s1)"
    by (cases "fetch_annotations rt (sc_namespace (ep_safety p)) s")
  have i1: "inside rt p c 0 INITIALIZING s1"
    using fa assms inside_env [OF assms]
    by (auto simp: fetch_annotations_def split: option.splits prod.splits sum.splits if_splits)
  show ?thesis
  proof (cases r)
    case (Inl x)
    with True fa inside_broken [OF i1] show ?thesis by (simp add: annotation_phase_def)
  next
    case (Inr a)
    let ?s = "emit (Ev_annotations a) s1"
    have f: "follows (rs_trace s1 @ [Ev_annotations a]) (INITIALIZING, False)"
      using i1 by (intro follows_snoc [OF _ ps_annotations]) (auto simp: inside_def going_def run_inv_def)
    have k: "knows p 0 ?s" using i1 by (simp add: inside_def going_def knows_def)
    have i2: "inside rt p c 0 INITIALIZING ?s"
      using i1 f k knows_guards [OF k] by (simp add: inside_def going_def run_inv_def)
    have "inside rt p c 1 INITIALIZING ?s"
      if "check_namespace_annotation (ep_safety p) a = None"
    proof -
      have "annotated p (rs_trace ?s)"
        using that annotation_gate.passes_iff [of "(ep_safety p, a)"]
        by (auto simp: annotated_def annotation_allowed_def)
      with i2 show ?thesis by (simp add: inside_def going_def knows_def)
    qed
    then show ?thesis
      using True fa Inr gate_or_abort_sat [OF inside_standing [OF i2]]
      by (simp add: annotation_phase_def)
  qed
qed

lemma baseline_verdict_sat:
  assumes "inside rt p c 1 BASELINE s"
    and "er_tester_baseline (rs_record s) \<noteq> None" "er_security_baseline (rs_record s) \<noteq> None"
  shows "flow_sat H (inside rt p c 2 BASELINE_OK) (ended rt p) (broken rt p) (baseline_verdict rt s)"
proof (cases "check_baseline_healthy (er_tester_baseline (rs_record s)) (er_security_baseline (rs_record s))")
  case None
  with baseline_gate.passes_iff
    [of "(er_tester_baseline (rs_record s), er_security_baseline (rs_record s))"] assms(2,3)
  have b: "baselines_ok (rs_record s)" by (auto simp: baseline_allowed_def baselines_ok_def)
  have "inside rt p c 1 BASELINE_OK (save_record rt (sync_plugin rt (set_state BASELINE_OK s)))"
    by (rule inside_enter [OF inside_standing [OF assms(1)]]) (simp_all add: exp_step.baseline_ok)
  with b None show ?thesis
    by (auto simp: baseline_verdict_def inside_def going_def knows_def baselines_ok_def)
next
  case (Some g)
  with inside_abort [OF assms(1)] show ?thesis by (simp add: baseline_verdict_def)
qed

lemma baseline_phase_sat:
  assumes "standing rt p c 1 INITIALIZING s"
  shows "flow_sat H (inside rt p c 2 BASELINE_OK) (ended rt p) (broken rt p) (baseline_phase rt p s)"
proof -
  have i: "inside rt p c 1 BASELINE (save_record rt (set_state BASELINE s))"
    by (rule inside_enter [OF assms]) (simp_all add: to_baseline)
  show ?thesis
    unfolding baseline_phase_def and_then.simps
    apply (rule flow_seq, rule call_agent_sat [OF i])
       apply (simp_all add: early_call_def touches_def)
    apply (elim conjE exE, rule flow_seq, rule call_agent_sat, assumption)
       apply (simp_all add: early_call_def touches_def)
    apply (elim conjE exE, rule flow_seq, rule call_session_sat, assumption)
     apply (simp add: touches_def)
    apply (elim conjE exE, rule baseline_verdict_sat)
    apply simp_all
    done
qed

subsection \<open>The inject phase\<close>

definition drive_returns :: "'e runtime \<Rightarrow> experiment_plan \<Rightarrow> bool" where
  "drive_returns rt p \<longleftrightarrow>
     (\<forall>ss e. s_drive (rt_now rt) (rt_plugin rt) (rt_chaos_execute rt p) ss e \<noteq> None)"

lemma no_plugin_returns: "rt_plugin rt = None \<Longrightarrow> drive_returns rt p"
  by (auto simp: drive_returns_def split: prod.splits)

text \<open>After a failed injection: INJECT is the state saved, INJECT_FAILED the one on the record.\<close>

definition failing :: "'e runtime \<Rightarrow> experiment_plan \<Rightarrow> bool \<Rightarrow> 'e rs \<Rightarrow> bool" where
  "failing rt p c s \<longleftrightarrow> going rt p c 3 INJECT False s \<and> er_state (rs_record s) = INJECT_FAILED"

lemma failing_broken: "failing rt p c s \<Longrightarrow> broken rt p x s"
  by (auto simp: failing_def broken_def going_def intro!: exI [of _ INJECT] exp_step.inject_failed)

lemma failing_session: "failing rt p c s \<Longrightarrow> failing rt p c (s\<lparr>rs_session := ss, rs_env := e\<rparr>)"
  unfolding failing_def by (elim conjE, rule conjI, rule going_cong) simp_all

lemma failing_diagnostics:
  "failing rt p c s \<Longrightarrow> failing rt p c (upd_record (\<lambda>r. r\<lparr>er_plugin_diagnostics := d\<rparr>) s)"
  unfolding failing_def by (elim conjE, rule conjI, rule going_cong) simp_all

lemma failing_cleanup:
  assumes "failing rt p c s"
  shows "failing rt p c (emit (Ev_call Chaos_cleanup) (s\<lparr>rs_env := e\<rparr>))"
proof -
  note g = assms [unfolded failing_def going_def run_inv_def]
  have "follows (rs_trace s @ [Ev_call Chaos_cleanup]) (INJECT, False)"
    using g by (intro follows_snoc [OF _ ps_call]) auto
  moreover have k: "knows p 3 (emit (Ev_call Chaos_cleanup) (s\<lparr>rs_env := e\<rparr>))"
    using g by (simp add: knows_def annotated_def)
  ultimately show ?thesis
    using g knows_guards [OF k, of rt] by (simp add: failing_def going_def run_inv_def)
qed

lemma cleanup_sat:
  assumes "failing rt p c s"
  shows "flow_sat H (failing rt p c) R (broken rt p) (best_effort_cleanup rt p s)"
  using assms failing_cleanup [OF assms] failing_broken [OF failing_cleanup [OF assms]]
  by (auto simp: best_effort_cleanup_def split: option.splits prod.splits sum.splits)

lemma failing_evidence_sat:
  assumes "failing rt p c s"
  shows "flow_sat H (failing rt p c) R (broken rt p) (collect_evidence rt s)"
proof -
  obtain r ss e where fe: "s_collect (rt_now rt) (rt_plugin rt) (rs_session s) (rs_env s) = (r, ss, e)"
    by (metis prod_cases3)
  note i = failing_session [OF assms, where ss = ss and e = e]
  show ?thesis
    using failing_broken [OF i] failing_diagnostics [OF i]
    by (cases r) (simp_all add: collect_evidence_def call_session_def fe)
qed

lemma failing_abort: "failing rt p c s \<Longrightarrow> ended rt p (abort rt r d (sync_plugin rt s))"
  unfolding failing_def
  by (elim conjE, rule going_abort [where st = INJECT and n = 3 and pz = False], rule going_cong) simp_all

lemma inject_outcome_sat:
  assumes "inside rt p c 3 INJECT s"
  shows "flow_sat H (inside rt p c 3 INJECTED) (ended rt p) (broken rt p) (inject_outcome rt p r s)"
proof (cases r)
  case (Inl x)
  have f: "failing rt p c (set_state INJECT_FAILED s)"
    using going_cong [OF inside_going [OF assms]] by (auto simp: failing_def)
  have "flow_sat H (inside rt p c 3 INJECTED) (ended rt p) (broken rt p)
      (and_then (best_effort_cleanup rt p (set_state INJECT_FAILED s)) (\<lambda>s1.
       and_then (collect_evidence rt s1) (\<lambda>s2.
         Ret (abort rt SLO_BREACH (exn_str x) (sync_plugin rt s2)))))"
    by (rule flow_seq [OF cleanup_sat [OF f]], rule flow_seq [OF failing_evidence_sat], assumption)
      (simp add: failing_abort)
  with Inl inside_abort [OF assms] inside_broken [OF assms] show ?thesis
    by (simp add: inject_outcome_def)
next
  case (Inr t)
  have i: "inside rt p c 3 INJECT (upd_record (\<lambda>rc. rc\<lparr>er_chaos_timeline := Some t\<rparr>) s)"
    by (rule inside_update [OF assms]) (simp add: touches_def)
  have "inside rt p c 3 INJECTED (save_record rt (set_state INJECTED
      (upd_record (\<lambda>rc. rc\<lparr>er_chaos_timeline := Some t\<rparr>) s)))"
    by (rule inside_enter [OF inside_standing [OF i]]) (simp_all add: exp_step.injected)
  with Inr inside_abort [OF i] show ?thesis by (simp add: inject_outcome_def Let_def)
qed

lemma inside_chaos:
  assumes "inside rt p c 2 INJECT s"
  shows "inside rt p c 3 INJECT (emit (Ev_call Chaos_execute) s)"
proof -
  note g = assms [unfolded inside_def going_def run_inv_def]
  have "follows (rs_trace s @ [Ev_call Chaos_execute]) (INJECT, False)"
    using g by (intro follows_snoc [OF _ ps_call]) auto
  moreover have k: "knows p 3 (emit (Ev_call Chaos_execute) s)"
    using g by (simp add: knows_def annotated_def)
  ultimately show ?thesis
    using g knows_guards [OF k, of rt] by (simp add: inside_def going_def run_inv_def)
qed

lemma inside_cancel:
  assumes "inside rt p c 3 INJECT s"
  shows "inside rt p c 3 INJECT (emit Ev_inject_cancelled s)"
proof -
  note g = assms [unfolded inside_def going_def run_inv_def]
  have "follows (rs_trace s @ [Ev_inject_cancelled]) (INJECT, False)"
    using g by (intro follows_snoc [OF _ ps_cancel]) auto
  moreover have k: "knows p 3 (emit Ev_inject_cancelled s)"
    using g by (simp add: knows_def annotated_def)
  ultimately show ?thesis
    using g knows_guards [OF k, of rt] by (simp add: inside_def going_def run_inv_def)
qed

lemma inject_phase_sat:
  assumes "standing rt p c 2 BASELINE_OK s" "c \<longrightarrow> drive_returns rt p"
  shows "flow_sat (\<not> c) (inside rt p c 3 INJECTED) (ended rt p) (broken rt p) (inject_phase rt p s)"
proof -
  have "inside rt p c 2 INJECT (save_record rt (set_state INJECT s))"
    by (rule inside_enter [OF assms(1)]) (simp_all add: to_inject)
  then have i: "inside rt p c 3 INJECT (emit (Ev_call Chaos_execute) (save_record rt (set_state INJECT s)))"
    by (rule inside_chaos)
  let ?s = "emit (Ev_call Chaos_execute) (save_record rt (set_state INJECT s))"
  show ?thesis
  proof (cases "s_drive (rt_now rt) (rt_plugin rt) (rt_chaos_execute rt p) (rs_session ?s) (rs_env ?s)")
    case None
    then have "\<not> drive_returns rt p" unfolding drive_returns_def by blast
    with None assms(2) show ?thesis by (simp add: inject_phase_def)
  next
    case (Some a)
    obtain r x ss e where a: "a = (r, x, ss, e)" by (cases a)
    note i2 = inside_session [OF i, where ss = ss and e = e]
    show ?thesis
      using Some a inject_outcome_sat [OF i2] inject_outcome_sat [OF inside_cancel [OF i2]]
      by (simp add: inject_phase_def Let_def)
  qed
qed

subsection \<open>Verify, diagnose, fix\<close>

lemma verify_verdict_sat:
  assumes "inside rt p c 3 VERIFY s"
  shows "flow_sat H (inside rt p c 3 VERIFY) (ended rt p) (broken rt p) (verify_verdict rt s)"
proof -
  have "going rt p c 3 VERIFY False (sync_plugin rt (set_state STEADY s))"
    by (rule going_cong [OF inside_going [OF assms]]) simp_all
  then have "ended rt p (finish rt (sync_plugin rt (set_state STEADY s)))"
    by (auto simp: going_def intro: finish_ended exp_step.steady)
  moreover have "flow_sat H (inside rt p c 3 VERIFY) (ended rt p) (broken rt p) (collect_evidence rt s)"
  proof -
    obtain r ss e where fe: "s_collect (rt_now rt) (rt_plugin rt) (rs_session s) (rs_env s) = (r, ss, e)"
      by (metis prod_cases3)
    note i = inside_session [OF assms, where ss = ss and e = e]
    show ?thesis
      using inside_broken [OF i] inside_update [OF i]
      by (cases r) (simp_all add: collect_evidence_def call_session_def fe touches_def)
  qed
  ultimately show ?thesis by (simp add: verify_verdict_def)
qed

lemma verify_phase_sat:
  assumes "standing rt p c 3 INJECTED s"
  shows "flow_sat H (inside rt p c 3 VERIFY) (ended rt p) (broken rt p) (verify_phase rt p s)"
proof -
  have i: "inside rt p c 3 VERIFY (save_record rt (set_state VERIFY s))"
    by (rule inside_enter [OF assms]) (simp_all add: to_verify)
  show ?thesis
    unfolding verify_phase_def and_then.simps
    apply (rule flow_seq, rule call_agent_sat [OF i])
       apply (simp_all add: early_call_def touches_def)
    apply (elim conjE exE, rule flow_seq, rule call_agent_sat, assumption)
       apply (simp_all add: early_call_def touches_def)
    apply (elim conjE exE, rule flow_seq, rule call_session_sat, assumption)
     apply (simp add: touches_def)
    apply (elim conjE exE, rule verify_verdict_sat)
    apply assumption
    done
qed

lemma regressed_phase_sat:
  assumes "standing rt p c 3 VERIFY s"
  shows "flow_sat H (inside rt p c 4 REGRESSED) (ended rt p) (broken rt p) (regressed_phase rt s)"
proof -
  let ?s = "save_record rt (sync_plugin rt (set_state REGRESSED s))"
  have i: "inside rt p c 3 REGRESSED ?s"
    by (rule inside_enter [OF assms]) (simp_all add: exp_step.regressed)
  then have "ended rt p (finish rt ?s)"
    by (auto simp: inside_def going_def intro: finish_ended exp_step.plugin_only)
  moreover have "inside rt p c 4 REGRESSED ?s" if "builtin_regressed (rs_record ?s)"
    using i that by (simp add: inside_def going_def knows_def)
  ultimately show ?thesis by (simp add: regressed_phase_def Let_def)
qed

lemma diagnosis_call_sat:
  assumes "inside rt p c 4 DIAGNOSE s"
  shows "flow_sat H (inside rt p c 5 DIAGNOSE) R (broken rt p) (diagnosis_call rt p s)"
proof (cases "er_chaos_timeline (rs_record s)")
  case None
  then show ?thesis by (simp add: diagnosis_call_def inside_broken [OF assms])
next
  case (Some t)
  let ?q = "diagnosis_request_for p (rs_record s) t"
  obtain r e where fe: "rt_diagnose rt ?q (rs_env s) = (r, e)" by (cases "rt_diagnose rt ?q (rs_env s)")
  let ?s = "emit (Ev_call Diagnose) (s\<lparr>rs_env := e\<rparr>)"
  note g = assms [unfolded inside_def going_def run_inv_def]
  have f: "follows (rs_trace ?s) (DIAGNOSE, False)"
    using g by (auto intro: follows_snoc [OF _ ps_call])
  have b: "broken rt p x ?s" for x
    using g f by (auto simp: broken_def run_inv_def knows_def calls_guarded_def annotated_def
        intro!: exI [of _ DIAGNOSE] resave)
  have i: "inside rt p c 5 DIAGNOSE (upd_record (\<lambda>r. r\<lparr>er_diagnosis := Some d\<rparr>) ?s)" for d
  proof -
    have k: "knows p 5 (upd_record (\<lambda>r. r\<lparr>er_diagnosis := Some d\<rparr>) ?s)"
      using g by (auto simp: knows_def annotated_def baselines_ok_def builtin_regressed_def)
    with g f knows_guards [OF k, of rt] show ?thesis
      by (simp add: inside_def going_def run_inv_def)
  qed
  show ?thesis
    using Some fe b i inside_broken [OF assms]
    by (cases r) (simp_all add: diagnosis_call_def call_agent_def Let_def)
qed

lemma suppress_diagnosis_sat:
  assumes "inside rt p c 5 DIAGNOSE s"
  shows "flow_sat H (inside rt p c 5 DIAGNOSED) R (broken rt p) (suppress_diagnosis rt p s)"
proof -
  note g = assms [unfolded inside_def going_def run_inv_def]
  let ?s1 = "set_state DIAGNOSED s"
  have "run_inv rt p (DIAGNOSE, False) ?s1"
    by (rule run_inv_cong [where s = s]) (use assms in \<open>simp_all add: inside_def going_def\<close>)
  then have b: "broken rt p x ?s1" for x
    by (auto simp: broken_def intro!: exI [of _ DIAGNOSE] exp_step.diagnosed)
  then have d: "broken rt p x (upd_record (\<lambda>r. r\<lparr>er_diagnosis := v\<rparr>) ?s1)" for x v
    using g by (fastforce simp: broken_def run_inv_def calls_guarded_def baselines_ok_def builtin_regressed_def knows_def)
  have "inside rt p c 5 DIAGNOSED (save_record rt (upd_record (\<lambda>r. r\<lparr>er_diagnosis := Some v\<rparr>) ?s1))"
    (is "inside rt p c 5 DIAGNOSED (save_record rt ?s2)") for v
  proof -
    have k: "knows p 5 ?s2"
      using g by (auto simp: knows_def baselines_ok_def builtin_regressed_def)
    then have "going rt p c 5 DIAGNOSE False ?s2"
      using g knows_guards [OF k, of rt] by (simp add: going_def run_inv_def)
    from going_save [OF this] show ?thesis by (simp add: inside_def exp_step.diagnosed)
  qed
  with b d show ?thesis
    by (auto simp: suppress_diagnosis_def Let_def split: sum.splits option.splits prod.splits)
qed

lemma diagnose_phase_sat:
  assumes "inside rt p c 4 REGRESSED s"
  shows "flow_sat H (inside rt p c 5 DIAGNOSED) R (broken rt p) (diagnose_phase rt p s)"
proof -
  have "inside rt p c 4 DIAGNOSE (save_record rt (set_state DIAGNOSE s))"
    by (rule inside_enter [OF inside_standing [OF assms]]) (simp_all add: to_diagnose)
  then show ?thesis
    unfolding diagnose_phase_def and_then.simps
    by (intro flow_seq [OF diagnosis_call_sat] suppress_diagnosis_sat)
qed

lemma propose_sat:
  assumes "inside rt p c 5 PROPOSE_FIX s" "fix_wanted rt (rs_record s)"
  shows "flow_sat H N (ended rt p) (broken rt p)
    (and_then (call_agent Propose_fix f (\<lambda>v r. r\<lparr>er_fix_proposal := Some v\<rparr>) s)
      (\<lambda>s1. Ret (finish rt (set_state FIX_PROPOSED s1))))"
proof -
  obtain r e where fe: "f (rs_env s) = (r, e)" by (cases "f (rs_env s)")
  let ?s = "emit (Ev_call Propose_fix) (s\<lparr>rs_env := e\<rparr>)"
  note g = assms(1) [unfolded inside_def going_def run_inv_def]
  have "follows (rs_trace ?s) (PROPOSE_FIX, False)"
    using g by (auto intro: follows_snoc [OF _ ps_call])
  then have i: "run_inv rt p (PROPOSE_FIX, False) ?s"
    using g assms(2) by (auto simp: run_inv_def knows_def calls_guarded_def annotated_def)
  then have b: "broken rt p x ?s" for x
    using g by (auto simp: broken_def intro!: exI [of _ PROPOSE_FIX] resave)
  have "run_inv rt p (PROPOSE_FIX, False)
      (set_state FIX_PROPOSED (upd_record (\<lambda>r. r\<lparr>er_fix_proposal := Some v\<rparr>) ?s))" for v
    by (rule run_inv_cong [OF i]) simp_all
  then have "ended rt p (finish rt
      (set_state FIX_PROPOSED (upd_record (\<lambda>r. r\<lparr>er_fix_proposal := Some v\<rparr>) ?s)))" for v
    by (rule finish_ended) (rule exp_step.fixed)
  with b show ?thesis by (cases r) (simp_all add: call_agent_def fe)
qed

lemma fix_phase_sat:
  assumes "standing rt p c 5 DIAGNOSED s"
  shows "flow_sat H N (ended rt p) (broken rt p) (fix_phase rt s)"
proof -
  obtain pz where gs: "going rt p c 5 DIAGNOSED pz s" using assms by (auto simp: standing_def)
  then obtain d where d: "er_diagnosis (rs_record s) = Some d"
    by (auto simp: going_def knows_def)
  show ?thesis
  proof (cases "active_hypotheses (rt_sha1 rt) d = []")
    case True
    let ?s = "set_state FIX_DECLINED
      (upd_record (\<lambda>r. r\<lparr>er_diagnosis := Some (all_suppressed_note d)\<rparr>) s)"
    have "run_inv rt p (DIAGNOSED, pz) ?s"
      using gs by (auto simp: going_def run_inv_def knows_def calls_guarded_def baselines_ok_def
          builtin_regressed_def)
    then have "ended rt p (finish rt ?s)" by (rule finish_ended) (rule exp_step.declined)
    with True d show ?thesis by (simp add: fix_phase_def)
  next
    case False
    have i: "inside rt p c 5 PROPOSE_FIX (save_record rt (set_state PROPOSE_FIX s))"
      by (rule inside_enter [OF assms]) (simp_all add: to_fix)
    have "fix_wanted rt (rs_record (save_record rt (set_state PROPOSE_FIX s)))"
      using False d by (simp add: fix_wanted_def)
    from propose_sat [OF i this] False d show ?thesis by (simp add: fix_phase_def)
  qed
qed

section \<open>The whole run\<close>

lemma run_body_sat:
  assumes "inside rt p c 0 INITIALIZING s" "c \<longrightarrow> drive_returns rt p"
  shows "flow_sat (\<not> c) (\<lambda>s. False) (ended rt p) (broken rt p) (run_body rt p s)"
  unfolding run_body_def
  apply (rule flow_seq, rule setup_phase_sat [OF assms(1)])
  apply (rule flow_seq, erule annotation_phase_sat)
  apply (rule flow_seq, erule control_gate_sat [OF inside_going], simp)
  apply (rule flow_seq, erule baseline_phase_sat)
  apply (rule flow_seq, erule budget_gate_sat [OF inside_going], simp)
  apply (rule flow_seq, erule control_gate_sat, simp)
  apply (rule flow_seq, erule inject_phase_sat, rule assms(2))
  apply (rule flow_seq, erule control_gate_sat [OF inside_going], simp)
  apply (rule flow_seq, erule verify_phase_sat)
  apply (rule flow_seq, erule budget_gate_sat [OF inside_going], simp)
  apply (rule flow_seq, erule control_gate_sat, simp)
  apply (rule flow_seq, erule regressed_phase_sat)
  apply (rule flow_seq, erule diagnose_phase_sat)
  apply (rule flow_seq, erule budget_gate_sat [OF inside_going], simp)
  apply (rule flow_seq, erule control_gate_sat, simp)
  apply (erule fix_phase_sat)
  done

text \<open>The body's outcomes survive the end of the session: an exit raises only what is not an \<open>Exception\<close>.\<close>

definition stopped :: "'e runtime \<Rightarrow> experiment_plan \<Rightarrow> pyexn \<Rightarrow> 'e rs \<Rightarrow> bool" where
  "stopped rt p x s \<longleftrightarrow> broken rt p x s \<or> \<not> is_exception x \<and> ended rt p s"

lemma exit_raises_base: "exit_session rt s = (Some y, s') \<Longrightarrow> \<not> is_exception y"
  by (cases "rt_plugin rt")
    (auto simp: exit_session_def aexit_def split: prod.splits dest: teardown_raises_base)

lemma exit_session_effect:
  "exit_session rt s = (x, s') \<Longrightarrow>
     rs_trace s' = rs_trace s @ [Ev_exit] \<and> rs_record s' = rs_record s \<and> rs_db s' = rs_db s"
  by (auto simp: exit_session_def split: prod.splits)

lemma run_inv_exit:
  assumes "exit_session rt s = (x, s')" "run_inv rt p (st, False) s"
  shows "run_inv rt p (st, False) s'"
  using exit_session_effect [OF assms(1)] assms(2) follows_snoc [OF _ ps_exit, of "rs_trace s" st]
  by (simp add: run_inv_def calls_guarded_def annotated_def)

lemma ended_exit: "exit_session rt s = (x, s') \<Longrightarrow> ended rt p s \<Longrightarrow> ended rt p s'"
  using exit_session_effect run_inv_exit unfolding ended_def by metis

lemma broken_exit: "exit_session rt s = (x, s') \<Longrightarrow> broken rt p y s \<Longrightarrow> broken rt p z s'"
  using exit_session_effect run_inv_exit unfolding broken_def by metis

lemma leave_session_sat:
  assumes "flow_sat H (\<lambda>s. False) (ended rt p) (broken rt p) fl"
  shows "flow_sat H (\<lambda>s. False) (ended rt p) (stopped rt p) (leave_session rt fl)"
proof (cases fl)
  case (Ret s)
  obtain x s' where e: "exit_session rt s = (x, s')" by (cases "exit_session rt s")
  with assms Ret ended_exit [OF e] exit_raises_base [of rt s] show ?thesis
    by (cases x) (auto simp: stopped_def)
next
  case (Raise y s)
  obtain x s' where e: "exit_session rt s = (x, s')" by (cases "exit_session rt s")
  with assms Raise broken_exit [OF e] show ?thesis by (cases x) (auto simp: stopped_def)
qed (use assms in auto)

lemma inside_enter_event:
  assumes "inside rt p c 0 INITIALIZING s"
  shows "inside rt p c 0 INITIALIZING (emit Ev_enter (s\<lparr>rs_session_active := True\<rparr>))"
proof -
  note g = assms [unfolded inside_def going_def run_inv_def]
  have "follows (rs_trace s @ [Ev_enter]) (INITIALIZING, False)"
    using g by (auto intro: follows_snoc [OF _ ps_enter])
  moreover have k: "knows p 0 (emit Ev_enter (s\<lparr>rs_session_active := True\<rparr>))"
    using g by (simp add: knows_def)
  ultimately show ?thesis
    using g knows_guards [OF k, of rt] by (simp add: inside_def going_def run_inv_def)
qed

lemma with_session_sat:
  assumes "inside rt p c 0 INITIALIZING s" "c \<longrightarrow> drive_returns rt p"
  shows "flow_sat (\<not> c) (\<lambda>s. False) (ended rt p) (stopped rt p) (with_session rt p s)"
proof -
  let ?s1 = "emit Ev_enter (s\<lparr>rs_session_active := True\<rparr>)"
  obtain r ss e where en: "s_enter (rt_now rt) (rt_plugin rt) (rs_session ?s1) (rs_env ?s1) = (r, ss, e)"
    by (metis prod_cases3)
  note i = inside_session [OF inside_enter_event [OF assms(1)], where ss = ss and e = e]
  show ?thesis
    using en inside_broken [OF i] leave_session_sat [OF run_body_sat [OF i assms(2)]]
    by (cases r) (simp_all add: with_session_def Let_def stopped_def)
qed

lemma recover_sat:
  assumes "flow_sat H (\<lambda>s. False) (ended rt p) (stopped rt p) fl"
  shows "flow_sat H (\<lambda>s. False) (ended rt p) (\<lambda>x s. \<not> is_exception x \<and> stopped rt p x s) (recover rt fl)"
proof (cases fl)
  case (Raise x s)
  have "ended rt p (abort rt r d s)" if "broken rt p x s" for r d
    using that by (auto simp: broken_def intro: abort_ended)
  with assms Raise show ?thesis by (auto simp: stopped_def)
qed (use assms in auto)

text \<open>What a complete run leaves behind.\<close>

definition persisted :: "'e runtime \<Rightarrow> experiment_plan \<Rightarrow> 'e rs \<Rightarrow> bool" where
  "persisted rt p s \<longleftrightarrow>
     stored_blob (rs_db s) (ep_experiment_id p) = Some (rt_dump rt (rs_record s)) \<and>
     run_inv rt p (er_state (rs_record s), False) s"

definition completed :: "'e runtime \<Rightarrow> experiment_plan \<Rightarrow> 'e rs \<Rightarrow> bool" where
  "completed rt p s \<longleftrightarrow>
     persisted rt p s \<and> terminal (er_state (rs_record s)) \<and>
     load_control (ep_experiment_id p) (rs_db s) = no_signals"

lemma final_sync_persisted:
  assumes "run_inv rt p (st, False) s" "exp_step st (er_state (rs_record s))"
    "er_state (rs_record s) \<noteq> PAUSED"
  shows "persisted rt p (final_sync rt s)"
proof -
  have "follows (rs_trace s @ [Ev_save (er_state (rs_record s))]) (er_state (rs_record s), False)"
    using assms by (auto simp: run_inv_def intro: follows_snoc [OF _ ps_save])
  with assms(1) show ?thesis
    by (auto simp: persisted_def final_sync_def run_inv_def blob_store_save calls_guarded_def
        annotated_def baselines_ok_def fix_wanted_def builtin_regressed_def)
qed

lemma final_sync_ended:
  assumes "ended rt p s"
  shows "completed rt p (final_sync rt s)"
proof -
  obtain st where st: "terminal st" "run_inv rt p (st, False) s" "er_state (rs_record s) = st"
      "load_control (ep_experiment_id p) (rs_db s) = no_signals"
    using assms by (auto simp: ended_def)
  have "persisted rt p (final_sync rt s)"
    by (rule final_sync_persisted [OF st(2)]) (use st in \<open>auto intro: resave\<close>)
  with st show ?thesis by (simp add: completed_def final_sync_def control_store_save)
qed

lemma start_record_inside:
  assumes "c \<longrightarrow> calm (ep_experiment_id p) db ops"
  shows "inside rt p c 0 INITIALIZING (start_record rt p db ops e)"
proof -
  have "follows [Ev_save INITIALIZING] (INITIALIZING, False)"
    by (simp add: follows_def protocol_Nil)
  with assms show ?thesis
    by (auto simp: inside_def going_def run_inv_def start_record_def knows_def calls_guarded_def
        calm_def control_store_save)
qed

lemma start_record_db [simp]:
  "rs_db (start_record rt p db ops e) =
     store_save (rt_dump rt) (rs_record (start_record rt p db ops e)) db"
  by (simp add: start_record_def)

lemma abort_persisted:
  assumes "ended rt p (abort rt r d s)"
  shows "completed rt p (abort rt r d s)"
proof -
  have "stored_blob (rs_db (abort rt r d s)) (er_experiment_id (rs_record s)) =
      Some (rt_dump rt (rs_record (abort rt r d s)))"
    by (simp add: abort_def close_record_def blob_store_save blob_clear_control)
  moreover have "er_experiment_id (rs_record (abort rt r d s)) = er_experiment_id (rs_record s)"
    by (simp add: abort_def close_record_def)
  ultimately show ?thesis using assms by (auto simp: completed_def persisted_def ended_def run_inv_def)
qed

lemma run_complete:
  assumes "c \<longrightarrow> calm (ep_experiment_id p) db ops \<and> drive_returns rt p"
  shows "case run rt p db ops e of
      Returned s \<Rightarrow> completed rt p s
    | Raised x s \<Rightarrow> \<not> is_exception x \<and> persisted rt p s
    | Hangs \<Rightarrow> \<not> c"
proof -
  let ?s = "start_record rt p db ops e"
  have i: "inside rt p c 0 INITIALIZING ?s" by (rule start_record_inside) (use assms in blast)
  have ab: "completed rt p (abort rt r d ?s)" for r d
    by (rule abort_persisted, rule going_abort [OF inside_going [OF i]]) simp
  let ?fl = "recover rt (with_session rt p ?s)"
  have fl: "flow_sat (\<not> c) (\<lambda>s. False) (ended rt p) (\<lambda>x s. \<not> is_exception x \<and> stopped rt p x s) ?fl"
    by (rule recover_sat, rule with_session_sat [OF i]) (use assms in blast)
  have st: "persisted rt p (final_sync rt s)" if "stopped rt p x s" for x s
    using that final_sync_persisted [of rt p _ s] final_sync_ended [of rt p s]
    by (auto simp: stopped_def broken_def completed_def)
  have "case finally_sync rt ?fl of
      Returned s \<Rightarrow> completed rt p s
    | Raised x s \<Rightarrow> \<not> is_exception x \<and> persisted rt p s
    | Hangs \<Rightarrow> \<not> c"
    using fl st by (cases ?fl) (auto intro: final_sync_ended)
  with ab show ?thesis by (simp add: run_def Let_def split: option.splits)
qed

section \<open>Reading the log\<close>

fun last_save :: "event list \<Rightarrow> experiment_state option" where
  "last_save [] = None"
| "last_save (ev # evs) =
     (case last_save evs of
        Some st \<Rightarrow> Some st
      | None \<Rightarrow> (case ev of Ev_save st \<Rightarrow> Some st | _ \<Rightarrow> None))"

lemma last_save_snoc:
  "last_save (evs @ [ev]) = (case ev of Ev_save st \<Rightarrow> Some st | _ \<Rightarrow> last_save evs)"
  by (induction evs) (auto split: event.splits option.splits)

lemma protocol_last_save:
  "protocol q evs r \<Longrightarrow> last_save evs = None \<and> r = q \<or>
     last_save evs = Some (if snd r then PAUSED else fst r) \<and> (fst r = PAUSED \<longrightarrow> False) \<or> fst q = PAUSED"
proof (induction rule: protocol.induct)
  case (protocol_snoc p evs q ev r)
  from protocol_snoc.hyps(2) protocol_snoc.IH show ?case
    by cases (auto simp: last_save_snoc)
qed auto

lemma follows_call_saved:
  assumes "follows (evs @ Ev_call call # rest) q"
  shows "last_save evs = Some (call_state call)"
proof -
  obtain es where es: "evs @ Ev_call call # rest = Ev_save INITIALIZING # es"
      "protocol (INITIALIZING, False) es q"
    using assms by (auto simp: follows_def)
  then obtain es1 where e1: "evs = Ev_save INITIALIZING # es1" "es = (es1 @ [Ev_call call]) @ rest"
    by (cases evs) auto
  then obtain r where "protocol (INITIALIZING, False) (es1 @ [Ev_call call]) r"
    using es(2) protocol_prefix by blast
  then obtain m where m: "protocol (INITIALIZING, False) es1 m" "protocol_step m (Ev_call call) r"
    by cases auto
  from m(2) have "m = (call_state call, False)" by (auto elim: protocol_call)
  with protocol_last_save [OF m(1)] show ?thesis by (auto simp: e1)
qed

section \<open>Correctness of a run\<close>

fun run_log :: "'e run_result \<Rightarrow> event list" where
  "run_log (Returned s) = rs_trace s"
| "run_log (Raised x s) = rs_trace s"
| "run_log Hangs = []"

lemma run_log_follows:
  "run rt p db ops e \<noteq> Hangs \<Longrightarrow> \<exists>st. follows (run_log (run rt p db ops e)) (st, False)"
  using run_complete [of False p db ops rt e]
  by (auto simp: completed_def persisted_def run_inv_def split: run_result.splits)

lemma start_record_trace: "rs_trace (start_record rt p db ops e) = [Ev_save INITIALIZING]"
  by (simp add: start_record_def)

lemma abort_trace: "rs_trace (abort rt r d s) = rs_trace s @ [Ev_save ABORTED, Ev_clear]"
  by (simp add: abort_def close_record_def)

lemma abort_record [simp]:
  "er_state (rs_record (abort rt r d s)) = ABORTED"
  "er_abort_reason (rs_record (abort rt r d s)) = Some r"
  "er_abort_detail (rs_record (abort rt r d s)) = d"
  by (simp_all add: abort_def close_record_def)

end
