(* ===== verification/Loop_Correct.thy ===== *)
theory Loop_Correct
  imports Loop_Props
begin

text \<open>
  The correctness theorems of a complete run of the orchestrator, read off the invariant of
  \<open>Loop_Props\<close>, and a concrete runtime on which the witnesses evaluate \<open>run\<close>: healthy baselines, a
  successful injection, a regression found by the tester, one hypothesis, one fix proposal.
\<close>

section \<open>A concrete run\<close>

definition demo_fault :: fault_spec where
  "demo_fault =
     \<lparr>fs_category = FC_POD, fs_name = ''pod-kill'', fs_target_selector = [], fs_parameters = [],
      fs_duration_seconds = 30, fs_requires_approval = False, fs_rationale = ''r'',
      fs_hypothesis_id = None\<rparr>"

definition demo_plan :: experiment_plan where
  "demo_plan =
     \<lparr>ep_experiment_id = ''exp-0123456789ab'', ep_title = ''t'', ep_target_app = ''shop'',
      ep_target_repo = None, ep_faults = [demo_fault],
      ep_safety = \<lparr>sc_cluster_context = ''kind-dev'', sc_namespace = ''shop'',
        sc_max_pods_affected = 1, sc_max_duration_seconds = 60, sc_allow_multi_fault = False,
        sc_require_namespace_annotation = True, sc_forbidden_cluster_substrings = [''prod'']\<rparr>,
      ep_budget = \<lparr>tb_soft_cap_usd = 2, tb_hard_cap_usd = 10, tb_wall_clock_seconds = 1800\<rparr>,
      ep_quiet_window_pre_seconds = 0, ep_quiet_window_post_seconds = 0, ep_created_at = 0,
      ep_suppress = [], ep_plugin = None, ep_plugin_config = []\<rparr>"

definition demo_report :: "request_kind \<Rightarrow> bool \<Rightarrow> tester_report" where
  "demo_report k steady =
     \<lparr>tr_request_kind = k, tr_experiment_id = ''exp-0123456789ab'', tr_run_id = ''run-0123456789ab'',
      tr_steady_state = steady, tr_samples = [], tr_failed_probes = [], tr_anomalies = [],
      tr_generated_hypotheses = [], tr_started_at = 0, tr_finished_at = None, tr_notes = []\<rparr>"

definition demo_security :: "security_kind \<Rightarrow> security_report" where
  "demo_security k =
     \<lparr>sp_request_kind = k, sp_experiment_id = ''exp-0123456789ab'', sp_run_id = ''run-0123456789ab'',
      sp_findings = [], sp_generated_hypotheses = [], sp_sbom_digest = None,
      sp_sbom_drift_from_baseline = False, sp_started_at = 0, sp_finished_at = None\<rparr>"

definition demo_hypothesis :: root_cause_hypothesis where
  "demo_hypothesis =
     \<lparr>rc_summary = ''no retry'', rc_confidence = 1 / 2, rc_evidence = [],
      rc_suggested_fix_class = ''missing-retry'', rc_affected_paths = [''a.py'']\<rparr>"

definition demo_diagnosis :: diagnosis_report where
  "demo_diagnosis =
     \<lparr>dr_experiment_id = ''exp-0123456789ab'', dr_run_id = ''run-0123456789ab'',
      dr_hypotheses = [demo_hypothesis], dr_notes = [], dr_started_at = 0, dr_finished_at = None,
      dr_suppressed_fingerprints = [], dr_suppression_notes = []\<rparr>"

definition demo_fix :: fix_proposal where
  "demo_fix =
     \<lparr>fp_experiment_id = ''exp-0123456789ab'', fp_run_id = ''run-0123456789ab'',
      fp_action = FA_CODE_PATCH, fp_pr_url = None, fp_confidence = 1 / 2, fp_reasoning = [],
      fp_files_touched = [], fp_regression_test_added = False, fp_is_draft = True,
      fp_started_at = 0, fp_finished_at = None\<rparr>"

definition demo_timeline :: chaos_timeline where
  "demo_timeline =
     \<lparr>ct_experiment_id = ''exp-0123456789ab'', ct_events = [], ct_success = True, ct_error = None\<rparr>"

definition demo_runtime :: "unit runtime" where
  "demo_runtime =
     \<lparr>rt_tester_baseline = (\<lambda>q e. (Inr (demo_report RK_baseline True), e)),
      rt_tester_verify = (\<lambda>q e. (Inr (demo_report RK_verify False), e)),
      rt_security_baseline = (\<lambda>q e. (Inr (demo_security SK_baseline), e)),
      rt_security_verify = (\<lambda>q e. (Inr (demo_security SK_verify), e)),
      rt_chaos_execute = (\<lambda>p e. (Inr demo_timeline, e)),
      rt_chaos_cleanup = None,
      rt_namespace_annotations = Some (\<lambda>ns e. (Inr (Some [(annotation_key, ''true'')]), e)),
      rt_diagnose = (\<lambda>q e. (Inr demo_diagnosis, e)),
      rt_propose_fix = (\<lambda>d e. (Inr demo_fix, e)),
      rt_plugin = None, rt_invocations = None, rt_now = (\<lambda>e. 0), rt_monotonic = (\<lambda>e. 0),
      rt_sleep = (\<lambda>e. e), rt_dump = (\<lambda>r. er_experiment_id r), rt_sha1 = (\<lambda>s. s),
      rt_repo_rules = (\<lambda>e. Inr [])\<rparr>"

lemma demo_runtime_fields:
  "rt_tester_baseline demo_runtime q e = (Inr (demo_report RK_baseline True), e)"
  "rt_tester_verify demo_runtime q e = (Inr (demo_report RK_verify False), e)"
  "rt_security_baseline demo_runtime v e = (Inr (demo_security SK_baseline), e)"
  "rt_security_verify demo_runtime v e = (Inr (demo_security SK_verify), e)"
  "rt_chaos_execute demo_runtime p e = (Inr demo_timeline, e)"
  "rt_namespace_annotations demo_runtime = Some (\<lambda>ns e. (Inr (Some [(annotation_key, ''true'')]), e))"
  "rt_diagnose demo_runtime dq e = (Inr demo_diagnosis, e)"
  "rt_propose_fix demo_runtime d e = (Inr demo_fix, e)"
  "rt_plugin demo_runtime = None" "rt_invocations demo_runtime = None"
  "rt_now demo_runtime e = 0" "rt_monotonic demo_runtime e = 0"
  "rt_sleep demo_runtime e = e" "rt_dump demo_runtime r = er_experiment_id r"
  "rt_sha1 demo_runtime x = x" "rt_repo_rules demo_runtime e = Inr []"
  by (simp_all add: demo_runtime_def)

lemma demo_data_fields:
  "tr_steady_state (demo_report k b) = b" "tr_samples (demo_report k b) = []"
  "sp_findings (demo_security sk) = []" "sp_sbom_drift_from_baseline (demo_security sk) = False"
  "ct_success demo_timeline = True" "ct_error demo_timeline = None"
  "dr_hypotheses demo_diagnosis = [demo_hypothesis]" "dr_suppressed_fingerprints demo_diagnosis = []"
  "sc_require_namespace_annotation (ep_safety demo_plan)" "ep_suppress demo_plan = []"
  "ep_budget demo_plan = \<lparr>tb_soft_cap_usd = 2, tb_hard_cap_usd = 10, tb_wall_clock_seconds = 1800\<rparr>"
  by (simp_all add: demo_report_def demo_security_def demo_timeline_def demo_diagnosis_def demo_plan_def)

lemmas demo_fields = demo_runtime_fields demo_data_fields

definition demo_log :: "event list" where
  "demo_log =
     [Ev_save INITIALIZING, Ev_enter, Ev_save INITIALIZING,
      Ev_annotations (Some [(annotation_key, ''true'')]),
      Ev_save BASELINE, Ev_call Tester_baseline, Ev_call Security_baseline, Ev_save BASELINE_OK,
      Ev_save INJECT, Ev_call Chaos_execute, Ev_save INJECTED,
      Ev_save VERIFY, Ev_call Tester_verify, Ev_call Security_verify,
      Ev_save REGRESSED, Ev_save DIAGNOSE, Ev_call Diagnose, Ev_save DIAGNOSED,
      Ev_save PROPOSE_FIX, Ev_call Propose_fix, Ev_save RECORDED, Ev_clear, Ev_exit,
      Ev_save RECORDED]"

lemma quiet_control:
  assumes "load_control (er_experiment_id (rs_record s)) (rs_db s) = no_signals" "rs_operator s = []"
  shows "control_gate rt s = Next s"
proof -
  have "s\<lparr>rs_db := rs_db s, rs_operator := []\<rparr> = s" using assms(2) by simp
  then have "polled [] s = s" by (simp add: polled_def apply_signals_def)
  then have "check_control rt s = Some (None, s)"
    using assms by (simp add: check_control_def control_loop_polled no_signals_def)
  then show ?thesis by (simp add: control_gate_def gate_or_abort_def)
qed

lemmas run_defs = run_def Let_def with_session_def start_record_def run_body_def setup_phase_def
  annotation_phase_def fetch_annotations_def gate_or_abort_def check_namespace_annotation_def
  baseline_phase_def call_agent_def call_session_def baseline_verdict_def check_baseline_healthy_def
  budget_gate_step_def check_budget_step_def soft_warn_due_def hard_exceeded_def
  inject_phase_def inject_outcome_def verify_phase_def verify_verdict_def builtin_regressed_def
  plugin_regressed_def collect_evidence_def regressed_phase_def diagnose_phase_def
  diagnosis_call_def diagnosis_request_for_def diagnosis_request_ok_def suppress_diagnosis_def
  build_active_list_def merge_rules_def fix_phase_def finish_def close_record_def
  exit_session_def final_sync_def new_tracker_def elapsed_seconds_def has_critical_or_high_def
  active_hypotheses_def

lemma demo_control:
  assumes "er_experiment_id (rs_record s) = k" "load_control k (rs_db s) = no_signals" "rs_operator s = []"
  shows "control_gate rt s = Next s"
  using assms quiet_control by blast

lemma demo_run:
  "\<exists>s. run demo_runtime demo_plan empty_db [] () = Returned s \<and>
     rs_trace s = demo_log \<and> er_state (rs_record s) = RECORDED \<and>
     er_fix_proposal (rs_record s) = Some demo_fix"
proof -
  have c: "check_cluster_allowed (ep_safety demo_plan) = None"
    by (simp add: check_cluster_allowed_def demo_plan_def lower_def lower_char_def less_eq_char_def)
  have b: "check_blast_radius demo_plan = None"
    by (simp add: check_blast_radius_def demo_plan_def demo_fault_def)
  have [simp]: "load_control k empty_db = no_signals" for k
    by (simp add: load_control_def empty_db_def)
  show ?thesis
    by (simp add: run_defs demo_fields c b quiet_control
        control_store_save dict_get_Cons demo_log_def)
qed

section \<open>Correctness of a run\<close>

text \<open>C2: whatever the agents, the plugin and the operator do, a run that returns has reached
  ABORTED or RECORDED, the row in the store holds exactly the record returned, and the operator's
  signals are cleared. A run that raises raises something that is not an \<open>Exception\<close> (a cancellation),
  and the record is persisted even then.\<close>

theorem run_persists_outcome:
  "case run rt p db ops e of
     Returned s \<Rightarrow>
       terminal (er_state (rs_record s)) \<and>
       stored_blob (rs_db s) (ep_experiment_id p) = Some (rt_dump rt (rs_record s)) \<and>
       load_control (ep_experiment_id p) (rs_db s) = no_signals
   | Raised x s \<Rightarrow>
       \<not> is_exception x \<and>
       stored_blob (rs_db s) (ep_experiment_id p) = Some (rt_dump rt (rs_record s))
   | Hangs \<Rightarrow> True"
  using run_complete [of False p db ops rt e]
  by (auto simp: completed_def persisted_def split: run_result.splits)

text \<open>C1: every run is a path of the protocol \<open>protocol_step\<close>: the states it saves, its pauses, its
  agent calls, the session brackets and the clearing of signals come in an order the state machine
  allows, and the path ends in the state of the final record, not in a pause.\<close>

theorem run_follows_protocol:
  "case run rt p db ops e of
     Returned s \<Rightarrow> follows (rs_trace s) (er_state (rs_record s), False)
   | Raised x s \<Rightarrow> follows (rs_trace s) (er_state (rs_record s), False)
   | Hangs \<Rightarrow> True"
  using run_complete [of False p db ops rt e]
  by (auto simp: completed_def persisted_def run_inv_def split: run_result.splits)

text \<open>C3: state is persisted before every agent call: when an agent is called, the last state saved
  is the one that agent belongs to (in particular no agent is called while a pause is the last
  thing persisted).\<close>

theorem agent_called_in_saved_state:
  assumes "run_log (run rt p db ops e) = evs @ Ev_call call # rest"
  shows "last_save evs = Some (call_state call)"
proof -
  have "run rt p db ops e \<noteq> Hangs" using assms by auto
  then obtain st where "follows (run_log (run rt p db ops e)) (st, False)"
    by (rule run_log_follows [THEN exE])
  then show ?thesis unfolding assms by (rule follows_call_saved)
qed

lemma demo_run_log: "run_log (run demo_runtime demo_plan empty_db [] ()) = demo_log"
  using demo_run by auto

theorem agent_called_in_saved_state_witness:
  "last_save (take 9 demo_log) = Some INJECT"
proof -
  have "run_log (run demo_runtime demo_plan empty_db [] ()) =
      take 9 demo_log @ Ev_call Chaos_execute # drop 10 demo_log"
    by (simp add: demo_run_log) (simp add: demo_log_def)
  from agent_called_in_saved_state [OF this] show ?thesis by simp
qed

text \<open>C4: the injection is attempted only on a plan that passed every gate: cluster allowed, blast
  radius within bounds, namespace annotated (when the plan requires it), tester baseline steady and
  security baseline without critical or high findings.\<close>

theorem chaos_only_behind_gates:
  assumes "run rt p db ops e = Returned s" "Ev_call Chaos_execute \<in> set (rs_trace s)"
  shows "cluster_allowed (ep_safety p) \<and> blast_radius_allowed p \<and> annotated p (rs_trace s) \<and>
    baselines_ok (rs_record s)"
proof -
  have "calls_guarded rt p s"
    using run_complete [of False p db ops rt e] assms(1)
    by (simp add: completed_def persisted_def run_inv_def)
  moreover have "check_cluster_allowed (ep_safety p) = None \<and> check_blast_radius p = None"
    using assms by (auto simp: run_def Let_def abort_trace start_record_trace split: option.splits)
  ultimately show ?thesis
    using assms(2) cluster_gate.passes_iff blast_gate.passes_iff by (auto simp: calls_guarded_def)
qed

theorem chaos_only_behind_gates_witness:
  "\<exists>s. run demo_runtime demo_plan empty_db [] () = Returned s \<and> cluster_allowed (ep_safety demo_plan) \<and>
     blast_radius_allowed demo_plan \<and> baselines_ok (rs_record s)"
proof -
  obtain s where s: "run demo_runtime demo_plan empty_db [] () = Returned s" "rs_trace s = demo_log"
    using demo_run by auto
  then have "Ev_call Chaos_execute \<in> set (rs_trace s)" by (simp add: demo_log_def)
  from chaos_only_behind_gates [OF s(1) this] s(1) show ?thesis by blast
qed

text \<open>C5: the diagnostician is called only when the tester or the security verification failed, and
  the fixer only when the diagnosis has a hypothesis that is not suppressed.\<close>

theorem agents_called_on_evidence:
  "case run rt p db ops e of
     Returned s \<Rightarrow>
       (Ev_call Diagnose \<in> set (rs_trace s) \<longrightarrow> builtin_regressed (rs_record s)) \<and>
       (Ev_call Propose_fix \<in> set (rs_trace s) \<longrightarrow>
          (\<exists>d. er_diagnosis (rs_record s) = Some d \<and> active_hypotheses (rt_sha1 rt) d \<noteq> []))
   | _ \<Rightarrow> True"
  using run_complete [of False p db ops rt e]
  by (auto simp: completed_def persisted_def run_inv_def calls_guarded_def fix_wanted_def
      split: run_result.splits)

theorem agents_called_on_evidence_witness:
  "\<exists>s. run demo_runtime demo_plan empty_db [] () = Returned s \<and> builtin_regressed (rs_record s) \<and>
     (\<exists>d. er_diagnosis (rs_record s) = Some d \<and> active_hypotheses (rt_sha1 demo_runtime) d \<noteq> [])"
proof -
  obtain s where s: "run demo_runtime demo_plan empty_db [] () = Returned s" "rs_trace s = demo_log"
    using demo_run by auto
  with agents_called_on_evidence [of demo_runtime demo_plan empty_db "[]" "()"] show ?thesis
    by (simp add: demo_log_def)
qed

text \<open>C6: a run ends. If the operator never pauses the experiment and the driven injection ends
  (always so without a plugin), \<open>run\<close> does not hang.\<close>

theorem run_ends:
  assumes "calm (ep_experiment_id p) db ops" "drive_returns rt p"
  shows "run rt p db ops e \<noteq> Hangs"
  using run_complete [of True p db ops rt e] assms by auto

theorem run_ends_witness: "run demo_runtime demo_plan empty_db [[OS_abort SLO_BREACH]] () \<noteq> Hangs"
  by (rule run_ends)
    (simp_all add: calm_def load_control_def empty_db_def no_signals_def no_plugin_returns
      demo_runtime_fields)

text \<open>A plan the plan-only gates refuse is aborted with the gate's reason before anything is
  provisioned: the log of the run is two saves and the clearing of the signals, no session is
  entered and no agent called.\<close>

theorem preflight_refusal:
  assumes "\<not> (cluster_allowed (ep_safety p) \<and> blast_radius_allowed p)"
  shows "\<exists>s. run rt p db ops e = Returned s \<and>
    rs_trace s = [Ev_save INITIALIZING, Ev_save ABORTED, Ev_clear] \<and>
    er_abort_reason (rs_record s) =
      Some (if cluster_allowed (ep_safety p) then BLAST_RADIUS_VIOLATION else CLUSTER_DENIED)"
proof (cases "check_cluster_allowed (ep_safety p)")
  case (Some f)
  then have "\<not> cluster_allowed (ep_safety p)" "gf_reason f = CLUSTER_DENIED"
    using cluster_gate.refusal_sound cluster_gate.reason_in by fastforce+
  with Some show ?thesis by (simp add: run_def Let_def abort_trace start_record_trace)
next
  case None
  then have c: "cluster_allowed (ep_safety p)" using cluster_gate.passes_iff by simp
  with assms obtain f where f: "check_blast_radius p = Some f" "gf_reason f = BLAST_RADIUS_VIOLATION"
    using blast_gate.refuses by blast
  with None c show ?thesis by (simp add: run_def Let_def abort_trace start_record_trace)
qed

definition refused_plan :: experiment_plan where
  "refused_plan = demo_plan\<lparr>ep_faults := [demo_fault, demo_fault]\<rparr>"

theorem preflight_refusal_witness:
  "\<exists>s. run demo_runtime refused_plan empty_db [] () = Returned s \<and>
     rs_trace s = [Ev_save INITIALIZING, Ev_save ABORTED, Ev_clear]"
proof -
  have "\<not> blast_radius_allowed refused_plan"
    by (simp add: refused_plan_def blast_radius_allowed_def demo_plan_def)
  with preflight_refusal [of refused_plan demo_runtime empty_db "[]" "()"] show ?thesis by auto
qed

section \<open>The injection's failure paths\<close>

text \<open>The events a step adds to the log.\<close>

fun flow_log :: "'e flow \<Rightarrow> event list" where
  "flow_log (Next s) = rs_trace s"
| "flow_log (Ret s) = rs_trace s"
| "flow_log (Raise x s) = rs_trace s"
| "flow_log Hang = []"

lemma abort_env: "rs_env (abort rt reason detail s) = rs_env s"
  by (simp add: abort_def close_record_def clear_signals_def sync_spend_def attach_invocations_def split: option.split)

text \<open>C31: A tripped steady-state guard always calls the cleanup. When the plugin's guard ends the driven injection and
  the chaos agent has a cleanup, the phase calls it exactly once, right after the injection, on what the injection
  left. An ordinary exception of the cleanup is dropped; then the plugin's evidence is collected, on what the cleanup
  left, and the experiment is aborted as an SLO breach with the guard's message. The phase raises instead only when
  the cleanup raises something that is not an \<open>Exception\<close> (a cancellation) or collecting the evidence raises.\<close>

theorem guard_trip_cleans_up:
  assumes "s_drive (rt_now rt) (rt_plugin rt) (rt_chaos_execute rt p) (rs_session s) (rs_env s) =
      Some (Inl x, cancelled, ss, e)"
    and "caught_guard x" "rt_chaos_cleanup rt = Some f" "f p e = (q, e1)"
    and "s_collect (rt_now rt) (rt_plugin rt) ss e1 = (d, ss2, e2)"
  shows "\<exists>rest. flow_log (inject_phase rt p s) =
      rs_trace s @ [Ev_save INJECT, Ev_call Chaos_execute] @ (if cancelled then [Ev_inject_cancelled] else []) @
      [Ev_call Chaos_cleanup] @ rest \<and> Ev_call Chaos_cleanup \<notin> set rest \<and>
    (case inject_phase rt p s of
       Ret s' \<Rightarrow> (q = Inr () \<or> (\<exists>y. q = Inl y \<and> is_exception y)) \<and> rs_env s' = e2 \<and>
         er_state (rs_record s') = ABORTED \<and> er_abort_reason (rs_record s') = Some SLO_BREACH \<and>
         er_abort_detail (rs_record s') = exn_str x
     | Raise y s' \<Rightarrow> q = Inl y \<and> \<not> is_exception y \<or> d = Inl y
     | _ \<Rightarrow> False)"
proof -
  let ?s1 = "emit (Ev_call Chaos_execute) (save_record rt (set_state INJECT s))"
  let ?s2 = "?s1\<lparr>rs_session := ss, rs_env := e\<rparr>"
  let ?s3 = "if cancelled then emit Ev_inject_cancelled ?s2 else ?s2"
  let ?s4 = "emit (Ev_call Chaos_cleanup) ((set_state INJECT_FAILED ?s3)\<lparr>rs_env := e1\<rparr>)"
  have ph: "inject_phase rt p s = inject_outcome rt p (Inl x) ?s3"
    using assms(1) by (simp add: inject_phase_def Let_def)
  have tr: "rs_trace ?s4 = rs_trace s @ [Ev_save INJECT, Ev_call Chaos_execute] @
      (if cancelled then [Ev_inject_cancelled] else []) @ [Ev_call Chaos_cleanup]"
    by simp
  have e3: "rs_env ?s3 = e" "rs_session ?s3 = ss" "rs_session ?s4 = ss" "rs_env ?s4 = e1" by simp_all
  show ?thesis
  proof (cases "\<exists>y. q = Inl y \<and> \<not> is_exception y")
    case True
    then obtain y where y: "q = Inl y" "\<not> is_exception y" by blast
    then have "inject_phase rt p s = Raise y ?s4"
      using assms(2-4) e3(1) unfolding ph by (simp add: inject_outcome_def best_effort_cleanup_def)
    with y tr show ?thesis by (intro exI [of _ "[]"]) simp
  next
    case False
    then have q: "q = Inr () \<or> (\<exists>y. q = Inl y \<and> is_exception y)" by (cases q) auto
    then have b: "best_effort_cleanup rt p (set_state INJECT_FAILED ?s3) = Next ?s4"
      using assms(3,4) e3(1) by (auto simp: best_effort_cleanup_def)
    show ?thesis
    proof (cases d)
      case (Inl y)
      then have "inject_phase rt p s = Raise y (?s4\<lparr>rs_session := ss2, rs_env := e2\<rparr>)"
        using assms(2,5) b e3 unfolding ph by (simp add: inject_outcome_def collect_evidence_def call_session_def)
      with Inl tr show ?thesis by (intro exI [of _ "[]"]) simp
    next
      case (Inr v)
      then obtain s5 where "inject_phase rt p s = Ret (abort rt SLO_BREACH (exn_str x) (sync_plugin rt s5))"
          "rs_trace s5 = rs_trace ?s4" "rs_env s5 = e2"
        using assms(2,5) b e3 unfolding ph by (simp add: inject_outcome_def collect_evidence_def call_session_def)
      with q tr show ?thesis by (intro exI [of _ "[Ev_save ABORTED, Ev_clear]"]) (simp add: abort_trace abort_env)
    qed
  qed
qed

definition guarded_plugin :: "unit plugin" where
  "guarded_plugin =
     \<lparr>pg_name = ''slo'', pg_overrides = (\<lambda>h. False), pg_hook = (\<lambda>h e. (Inr HV_none, [], e)),
      pg_compensation = (\<lambda>n e. (Inr (), e)), pg_guard = (\<lambda>e. Some ''latency''), pg_set_baseline = (\<lambda>xs e. e),
      pg_race = (\<lambda>e. ([[C_guard (guard_tripped ''latency'' ''p95'')]], e))\<rparr>"

definition guarded_runtime :: "unit runtime" where
  "guarded_runtime =
     demo_runtime\<lparr>rt_plugin := Some guarded_plugin, rt_chaos_cleanup := Some (\<lambda>p e. (Inl (Exn ''OSError'' ''down''), e))\<rparr>"

theorem guard_trip_cleans_up_witness:
  "\<exists>s'. inject_phase guarded_runtime demo_plan (start_record guarded_runtime demo_plan empty_db [] ()) = Ret s' \<and>
     er_abort_reason (rs_record s') = Some SLO_BREACH"
proof -
  let ?s = "start_record guarded_runtime demo_plan empty_db [] ()"
  have d: "s_drive (rt_now guarded_runtime) (rt_plugin guarded_runtime) (rt_chaos_execute guarded_runtime demo_plan)
      (rs_session ?s) (rs_env ?s) = Some (Inl (guard_tripped ''latency'' ''p95''), True, rs_session ?s, ())"
    by (simp add: guarded_runtime_def drive_run_def guarded_plugin_def Let_def)
  obtain c ss2 where c: "s_collect (rt_now guarded_runtime) (rt_plugin guarded_runtime) (rs_session ?s) () = (Inr c, ss2, ())"
    by (simp add: guarded_runtime_def guarded_plugin_def collect_diagnostics_def)
  have g: "caught_guard (guard_tripped ''latency'' ''p95'')" by (simp add: caught_guard_def guard_tripped_def)
  have f: "rt_chaos_cleanup guarded_runtime = Some (\<lambda>p e. (Inl (Exn ''OSError'' ''down''), e))"
    by (simp add: guarded_runtime_def)
  from guard_trip_cleans_up [OF d g f refl c] show ?thesis
    by (auto split: flow.splits)
qed

text \<open>Any other exception of the driven run, the workload driver's included, aborts as an agent
  failure with no cleanup of the fault: the log gets the terminal save and the clearing, no call of
  the chaos agent, even when the injection was cancelled in mid-flight.\<close>

theorem driver_failure_skips_cleanup:
  assumes "is_exception x" "\<not> caught_guard x"
  shows "\<exists>s'. inject_outcome rt p (Inl x) s = Ret s' \<and>
    rs_trace s' = rs_trace s @ [Ev_save ABORTED, Ev_clear] \<and>
    er_abort_reason (rs_record s') = Some AGENT_FAILURE"
  using assms by (simp add: inject_outcome_def abort_trace)

text \<open>A plugin whose workload driver fails while the injection is still running.\<close>

definition crashing_plugin :: "unit plugin" where
  "crashing_plugin =
     \<lparr>pg_name = ''load'', pg_overrides = (\<lambda>h. h = H_run_test),
      pg_hook = (\<lambda>h e. (Inr HV_none, [], e)), pg_compensation = (\<lambda>n e. (Inr (), e)),
      pg_guard = (\<lambda>e. None), pg_set_baseline = (\<lambda>xs e. e),
      pg_race = (\<lambda>e. ([[C_run_test (Inl (Exn ''RuntimeError'' ''k6 died''))]], e))\<rparr>"

theorem driver_failure_skips_cleanup_witness:
  "\<exists>s s'. inject_phase (demo_runtime\<lparr>rt_plugin := Some crashing_plugin\<rparr>) demo_plan
       (start_record demo_runtime demo_plan empty_db [] ()) = Ret s' \<and>
     rs_trace s' = s @ [Ev_call Chaos_execute, Ev_inject_cancelled, Ev_save ABORTED, Ev_clear]"
proof -
  let ?rt = "demo_runtime\<lparr>rt_plugin := Some crashing_plugin\<rparr>"
  let ?x = "Exn ''RuntimeError'' ''k6 died''"
  let ?s = "start_record demo_runtime demo_plan empty_db [] ()"
  obtain s1 where s1: "inject_phase ?rt demo_plan ?s = inject_outcome ?rt demo_plan (Inl ?x) s1"
      "\<exists>t. rs_trace s1 = t @ [Ev_call Chaos_execute, Ev_inject_cancelled]"
    by (simp add: inject_phase_def drive_run_def crashing_plugin_def Let_def)
  have "\<exists>s'. inject_outcome ?rt demo_plan (Inl ?x) s1 = Ret s' \<and>
      rs_trace s' = rs_trace s1 @ [Ev_save ABORTED, Ev_clear] \<and>
      er_abort_reason (rs_record s') = Some AGENT_FAILURE"
    by (rule driver_failure_skips_cleanup) (simp_all add: caught_guard_def guard_tripped_class_def)
  with s1 show ?thesis by auto
qed

section \<open>Pause and abort\<close>

fun signal_effect :: "op_signal \<Rightarrow> control_signals \<Rightarrow> control_signals" where
  "signal_effect (OS_pause b) c = c\<lparr>cs_pause_requested := b\<rparr>"
| "signal_effect (OS_abort r) c = c\<lparr>cs_abort_requested := True, cs_abort_reason := Some r\<rparr>"

text \<open>The signals each poll of a paused run sees, first poll first.\<close>

fun polls :: "control_signals \<Rightarrow> op_signal list list \<Rightarrow> control_signals list" where
  "polls c [] = [c]"
| "polls c (b # bs) = (let c1 = fold signal_effect b c in c1 # polls c1 bs)"

definition decides :: "control_signals \<Rightarrow> bool" where
  "decides c \<longleftrightarrow> cs_abort_requested c \<or> \<not> cs_pause_requested c"

definition control_spec :: "control_signals list \<Rightarrow> gate_failure option option" where
  "control_spec cs =
     map_option (\<lambda>c. if cs_abort_requested c then Some (operator_kill c) else None) (find decides cs)"

lemma apply_signals_effect:
  assumes "dict_has (db_experiments db) k"
  shows "load_control k (apply_signals k b db) = fold signal_effect b (load_control k db) \<and>
    dict_has (db_experiments (apply_signals k b db)) k"
  using assms
proof (induction b arbitrary: db)
  case (Cons g b)
  have "load_control k (apply_signal k g db) = signal_effect g (load_control k db) \<and>
      dict_has (db_experiments (apply_signal k g db)) k"
    using Cons.prems
    by (cases g) (auto simp: load_control_def set_pause_def request_abort_def update_row_get
        dict_has_iff split: option.splits)
  with Cons.IH [of "apply_signal k g db"] show ?case by (simp add: apply_signals_def)
qed (simp add: apply_signals_def)

lemma control_loop_spec:
  assumes "dict_has (db_experiments (rs_db s)) (er_experiment_id (rs_record s))"
  shows "map_option fst (control_loop rt first bs s) =
    control_spec (polls (load_control (er_experiment_id (rs_record s)) (rs_db s)) bs)"
  using assms
proof (induction bs arbitrary: first s)
  case Nil
  then show ?case
    by (simp add: control_loop_polled polled_def apply_signals_def control_spec_def decides_def Let_def)
next
  case (Cons b rest)
  let ?k = "er_experiment_id (rs_record s)"
  let ?s1 = "polled (b # rest) s"
  let ?s2 = "if first then mark_paused rt ?s1 else ?s1"
  let ?s3 = "?s2\<lparr>rs_env := rt_sleep rt (rs_env ?s2)\<rparr>"
  have c1: "load_control ?k (rs_db ?s1) = fold signal_effect b (load_control ?k (rs_db s))"
      "dict_has (db_experiments (rs_db ?s1)) ?k"
    using apply_signals_effect [OF Cons.prems, of b] by (simp_all add: polled_def)
  have k3: "er_experiment_id (rs_record ?s3) = ?k" by (simp add: mark_paused_def)
  have c3: "load_control ?k (rs_db ?s3) = load_control ?k (rs_db ?s1)"
    by (simp add: mark_paused_def control_store_save)
  have d3: "dict_has (db_experiments (rs_db ?s3)) (er_experiment_id (rs_record ?s3))"
    using c1(2) k3 by (auto simp: mark_paused_def store_save_def Let_def dict_has_iff dict_get_set)
  show ?case
    using Cons.IH [OF d3, of False] c1(1) c3 k3
    by (simp add: control_loop_polled [of rt first "b # rest"] Let_def control_spec_def decides_def)
qed

text \<open>C33: the operator's signals are obeyed as specified: the first poll that sees an abort or no
  pause decides; an abort gives the operator's reason (USER\_KILL without one), otherwise the run
  resumes; if no poll decides, the run stays paused for ever.\<close>

theorem control_obeyed:
  assumes "dict_has (db_experiments (rs_db s)) (er_experiment_id (rs_record s))"
  shows "map_option fst (check_control rt s) =
    control_spec (polls (load_control (er_experiment_id (rs_record s)) (rs_db s)) (rs_operator s))"
  unfolding check_control_def by (rule control_loop_spec [OF assms])

theorem control_obeyed_witness:
  "map_option fst (check_control demo_runtime (start_record demo_runtime demo_plan empty_db
      [[OS_pause True], [], [OS_pause False, OS_abort SLO_BREACH], [OS_pause True]] ())) =
   Some (Some \<lparr>gf_reason = SLO_BREACH, gf_detail = ''abort requested by operator''\<rparr>)"
proof -
  let ?s = "start_record demo_runtime demo_plan empty_db
      [[OS_pause True], [], [OS_pause False, OS_abort SLO_BREACH], [OS_pause True]] ()"
  have id: "er_experiment_id (rs_record ?s) = ep_experiment_id demo_plan" by (simp add: start_record_def)
  have d: "dict_has (db_experiments (rs_db ?s)) (er_experiment_id (rs_record ?s))"
    by (simp add: store_save_def Let_def dict_has_iff dict_get_set)
  have c: "load_control (er_experiment_id (rs_record ?s)) (rs_db ?s) = no_signals"
    by (simp add: control_store_save) (simp add: load_control_def empty_db_def)
  have o: "rs_operator ?s = [[OS_pause True], [], [OS_pause False, OS_abort SLO_BREACH], [OS_pause True]]"
    by (simp add: start_record_def)
  show ?thesis
    unfolding control_obeyed [OF d] c o
    by (simp add: control_spec_def decides_def no_signals_def operator_kill_def Let_def)
qed

end
