(* ===== verification/Host_Guarantee.thy ===== *)
theory Host_Guarantee
  imports Plugin_Host_Props
begin

text \<open>
  The promises of the plugin host to the orchestrator and to plugin authors
  (\<open>plugins/host.py\<close>), stated over whole sessions: what was registered is unwound whatever calls
  happened in between, a failed enter leaves nothing behind, a driven run only reports success when
  everything it drove succeeded, and the two places where a cancellation escapes the guarantee. A
  small plugin instantiates each of them.
\<close>

section \<open>A small plugin\<close>

text \<open>
  It provisions a database and registers a compensation for it, overrides both teardown hooks and
  drives a workload that finishes before the injection. \<open>teardown_raises\<close> is what its
  \<open>teardown_test\<close> ends with.
\<close>

definition small_timeline :: chaos_timeline where
  "small_timeline = \<lparr>ct_experiment_id = ''exp'', ct_events = [], ct_success = True, ct_error = None\<rparr>"

definition small_plugin :: "unit res \<Rightarrow> unit res \<Rightarrow> completion list list \<Rightarrow> unit plugin" where
  "small_plugin seed_raises teardown_raises race =
     \<lparr>pg_name = ''small'',
      pg_overrides = (\<lambda>h. h \<in> {H_provision_env, H_seed, H_run_test, H_teardown_test, H_teardown_env}),
      pg_hook = (\<lambda>h e.
        (res_bind (if h = H_seed then seed_raises
                   else if h = H_teardown_test then teardown_raises else Inr ()) (\<lambda>_. Inr HV_none),
         if h = H_provision_env then [''drop database''] else [], e)),
      pg_compensation = (\<lambda>n e. (Inr (), e)),
      pg_guard = (\<lambda>e. None),
      pg_set_baseline = (\<lambda>xs e. e),
      pg_race = (\<lambda>e. (race, e))\<rparr>"

abbreviation calm_plugin :: "unit plugin" where
  "calm_plugin \<equiv> small_plugin (Inr ()) (Inr ())
     [[C_run_test (Inr ())], [C_inject (Inr small_timeline)]]"

lemmas small_simps = small_plugin_def aenter_def enter_body_def invoke_def skip_hook_def
  open_env_scope_def open_test_scope_def push_callback_def register_all_def register_compensation_def
  new_session_def add_record_def Let_def

lemmas teardown_simps = teardown_def close_stack.simps run_teardown_def small_simps

section \<open>The teardown guarantee\<close>


definition calm_session :: session where
  "calm_session = fst (snd (aenter (\<lambda>_. 0) calm_plugin new_session ()))"

lemma calm_enter: "aenter (\<lambda>_. 0) calm_plugin new_session () = (Inr (), calm_session, ())"
  by (simp add: calm_session_def small_simps)

lemma calm_stacks:
  "ps_env_stack calm_session = [CB_compensation ST_TEARDOWN_ENV ''drop database'', CB_teardown_env]"
  "ps_test_stack calm_session = [CB_teardown_test]"
  by (simp_all add: calm_session_def small_simps)

lemma calm_verify:
  "session_verify (\<lambda>_. 0) calm_plugin calm_session () =
     (Inr None, skip_hook 0 H_verify calm_session, ())"
  by (simp add: session_verify_def small_plugin_def)

lemma calm_exit:
  "aexit (\<lambda>_. 0) calm_plugin (skip_hook 0 H_verify calm_session) () =
     (None, fst (snd (aexit (\<lambda>_. 0) calm_plugin (skip_hook 0 H_verify calm_session) ())), ())"
  by (simp add: aexit_def calm_session_def teardown_simps)


section \<open>A failed enter\<close>

text \<open>A session whose enter fails leaves nothing registered: when an \<open>Exception\<close> leaves
  \<open>__aenter__\<close>, it is the one the failing hook raised (the unwinding cannot replace it), every
  callback registered up to the failure has run, the test scope's before the environment scope's,
  and the session is closed.\<close>

theorem failed_enter_unwinds:
  assumes "aenter now pl s e = (Inl x, s', e')" "is_exception x" "\<not> ps_torn_down s"
  shows "\<exists>s1 e1 rs. enter_body now pl s e = (Inl x, s1, e1) \<and>
    ps_records s' = ps_records s1 @ rs \<and>
    subseq (map callback_label (ps_test_stack s1 @ ps_env_stack s1)) (map record_label rs) \<and>
    ps_env_stack s' = [] \<and> ps_torn_down s' \<and> aexit now pl s' e' = (None, s', e')"
proof -
  obtain s1 e1 rs where f: "enter_body now pl s e = (Inl x, s1, e1)" "ps_env_stack s' = []"
      "ps_torn_down s'" "ps_records s' = ps_records s1 @ rs"
      "subseq (map callback_label (ps_test_stack s1 @ ps_env_stack s1)) (map record_label rs)"
    using aenter_failure [OF assms] by (elim exE conjE)
  then show ?thesis
    using teardown_once [of s' now pl e'] by (intro exI [of _ s1] exI [of _ e1] exI [of _ rs]) (simp add: aexit_def)
qed

abbreviation seedless_plugin :: "unit plugin" where
  "seedless_plugin \<equiv> small_plugin (Inl (Exn ''RuntimeError'' ''no fixtures'')) (Inr ()) []"

lemma seedless_enter:
  "aenter (\<lambda>_. 0) seedless_plugin new_session () =
     (Inl (Exn ''RuntimeError'' ''no fixtures''), fst (snd (aenter (\<lambda>_. 0) seedless_plugin new_session ())), ())"
  by (simp add: teardown_simps)

lemma failed_enter_unwinds_witness:
  "ps_env_stack (fst (snd (aenter (\<lambda>_. 0) seedless_plugin new_session ()))) = [] \<and>
   ps_torn_down (fst (snd (aenter (\<lambda>_. 0) seedless_plugin new_session ())))"
  using failed_enter_unwinds [OF seedless_enter] by (auto simp: new_session_def)

section \<open>A driven run\<close>

lemma drive_loop_success:
  assumes "drive_loop ij rt drives bs = Some d" "dv_result d = Inr t"
  shows "ij = Some (Inr t) \<or> (\<exists>b \<in> set bs. batch_inject b = Some (Inr t))"
  using assms
proof (induction ij rt drives bs rule: drive_loop.induct)
  case (1 ij rt drives)
  then show ?case by (auto split: option.splits if_splits)
next
  case (2 ij rt drives b bs)
  show ?case
  proof (cases "(ij \<noteq> None \<and> \<not> (drives \<and> rt = None)) \<or> batch_failure b \<noteq> None")
    case True
    then show ?thesis using 2(2,3) by (auto simp: Let_def split: if_splits)
  next
    case False
    then have "or_else (batch_inject b) ij = Some (Inr t) \<or> (\<exists>b \<in> set bs. batch_inject b = Some (Inr t))"
      by (intro "2.IH" [OF _ refl refl]) (use 2(2,3) in \<open>auto simp: Let_def\<close>)
    then show ?thesis by (cases "batch_inject b") auto
  qed
qed

lemma batch_run_failure: "batch_run_test b = Some (Inl x) \<Longrightarrow> batch_failure b \<noteq> None"
  by (induction b rule: batch_run_test.induct) auto

lemma drive_loop_driver:
  assumes "drive_loop ij rt drives bs = Some d" "dv_result d = Inr t" "\<nexists>x. rt = Some (Inl x)"
  shows "\<nexists>x. dv_run_test d = Some (Inl x)"
  using assms
proof (induction ij rt drives bs rule: drive_loop.induct)
  case (1 ij rt drives)
  then show ?case by (auto split: option.splits if_splits)
next
  case (2 ij rt drives b bs)
  show ?case
  proof (cases "(ij \<noteq> None \<and> \<not> (drives \<and> rt = None)) \<or> batch_failure b \<noteq> None")
    case True
    then show ?thesis using 2(2-4) by (auto simp: Let_def split: if_splits)
  next
    case False
    have "\<nexists>x. or_else (batch_run_test b) rt = Some (Inl x)"
      using 2(4) False batch_run_failure [of b] by (cases "batch_run_test b") auto
    with 2 False show ?thesis by (auto simp: Let_def split: if_splits)
  qed
qed

text \<open>A driven run reports a chaos timeline only if the injection itself returned it: when
  \<open>drive_run\<close> returns a timeline, the injection was not cancelled, it is the result the injection
  finished with, and if the plugin drives a workload, the workload finished without an exception and
  is recorded as a passed run-test stage at the end of the audit trail.\<close>

theorem drive_reports_injection:
  assumes "drive_run now pl inject s e = Some (Inr t, c, s', e')"
  shows "\<not> c \<and>
    (fst (inject e) = Inr t \<or> (\<exists>b \<in> set (fst (pg_race pl e)). batch_inject b = Some (Inr t))) \<and>
    (if pg_overrides pl H_run_test
     then ps_records s' = ps_records s @ [timed_record ST_RUN_TEST SS_OK ''ok'' None (now e) (now e')]
     else s' = s)"
proof (cases "pg_guard pl e = None \<and> \<not> pg_overrides pl H_run_test")
  case True
  with assms show ?thesis by (auto simp: drive_run_def Let_def split: prod.splits)
next
  case False
  obtain bs e1 where race: "pg_race pl e = (bs, e1)" by (cases "pg_race pl e")
  obtain d where d: "drive_loop None None (pg_overrides pl H_run_test) bs = Some d"
    using assms False race by (auto simp: drive_run_def Let_def split: option.splits if_splits)
  have res: "dv_result d = Inr t" "dv_inject_cancelled d = c" "e' = e1"
    using assms False race d by (auto simp: drive_run_def Let_def split: if_splits)
  note ok = drive_loop_success [OF d res(1)] drive_finished_timeline [OF d res(1)]
    and drv = drive_loop_driver [OF d res(1), simplified]
  have recs: "s' = (if pg_overrides pl H_run_test
      then add_record (invoke_record H_run_test
        (case dv_run_test d of Some r \<Rightarrow> r | None \<Rightarrow> Inl (BaseExn ''CancelledError'')) (now e) (now e1)) s
      else s)"
    using assms False race d by (auto simp: drive_run_def Let_def split: if_splits)
  show ?thesis
    using ok drv recs res race
    by (cases "dv_run_test d") (auto simp: invoke_record_def split: sum.splits)
qed

lemma drive_reports_injection_witness:
  "batch_inject [C_inject (Inr small_timeline)] = Some (Inr small_timeline) \<and>
   (\<exists>b \<in> set (fst (pg_race calm_plugin ())). batch_inject b = Some (Inr small_timeline))"
proof -
  have "drive_run (\<lambda>_. 0) calm_plugin (\<lambda>e. (Inl (Exn ''Unused'' []), e)) new_session () =
      Some (Inr small_timeline, False,
        add_record (invoke_record H_run_test (Inr ()) 0 0) new_session, ())"
    by (simp add: drive_run_def small_plugin_def Let_def)
  from drive_reports_injection [OF this] show ?thesis by simp
qed

text \<open>A guard that trips while the workload is still running leaves a passed run-test stage in
  the audit trail. The workload driver is cancelled, \<open>CancelledError\<close> is no \<open>Exception\<close>, so the
  record keeps its initial OK status and has no error; only its empty detail tells it from a
  workload that passed.\<close>

theorem cancelled_workload_recorded_ok:
  assumes "pg_overrides pl H_run_test"
    and "pg_race pl e = (bs, e')" "drive_loop None None True bs = Some d" "dv_run_test d = None"
  shows "drive_run now pl inject s e = Some (dv_result d, dv_inject_cancelled d,
    add_record (timed_record ST_RUN_TEST SS_OK [] None (now e) (now e')) s, e')"
  using assms by (simp add: drive_run_def Let_def invoke_record_def)

lemma cancelled_workload_recorded_ok_witness:
  "drive_run (\<lambda>_. 0) (small_plugin (Inr ()) (Inr ()) [[C_guard (guard_tripped ''slo'' ''p99'')]])
      (\<lambda>e. (Inr small_timeline, e)) new_session () =
    Some (Inl (guard_tripped ''slo'' ''p99''), True,
      add_record (timed_record ST_RUN_TEST SS_OK [] None 0 0) new_session, ())"
  by (subst cancelled_workload_recorded_ok
      [where bs = "[[C_guard (guard_tripped ''slo'' ''p99'')]]" and e' = "()"
        and d = "\<lparr>dv_result = Inl (guard_tripped ''slo'' ''p99''), dv_inject_cancelled = True, dv_run_test = None\<rparr>"])
    (simp_all add: small_plugin_def)

section \<open>Cancelled teardown\<close>

text \<open>The teardown guarantee does not survive a cancellation. If an exception outside
  \<open>Exception\<close> (a \<open>CancelledError\<close>) leaves the test scope, the exit raises it at once: the
  environment scope is not unwound, the callbacks registered there stay on the stack, and since the
  session is marked torn down a second exit does not run them either.\<close>

theorem cancelled_teardown_leaks_environment:
  assumes "close_stack Test_scope now pl None (s\<lparr>ps_torn_down := True\<rparr>) e = (Some y, s', e')"
    and "\<not> ps_torn_down s"
  shows "aexit now pl s e = (Some y, s', e') \<and> suffix (ps_env_stack s) (ps_env_stack s') \<and>
    aexit now pl s' e'' = (None, s', e'')"
proof -
  note f = close_stack_fresh [OF assms(1)]
  have y: "\<not> is_exception y" using f by simp
  have env: "suffix (ps_env_stack s) (ps_env_stack s')"
    using f [THEN conjunct2, THEN conjunct2, THEN conjunct2, THEN conjunct2, rule_format, of Env_scope] by simp
  have "ps_torn_down s'" using f by simp
  then have "aexit now pl s' e'' = (None, s', e'')" using teardown_once by (simp add: aexit_def)
  with y env assms show ?thesis by (simp add: aexit_def teardown_def)
qed

abbreviation cancelled_plugin :: "unit plugin" where
  "cancelled_plugin \<equiv> small_plugin (Inr ()) (Inl (BaseExn ''CancelledError'')) []"

lemma cancelled_session:
  "fst (snd (aenter (\<lambda>_. 0) cancelled_plugin new_session ())) =
     fst (snd (aenter (\<lambda>_. 0) calm_plugin new_session ()))"
  by (simp add: small_simps)

lemma cancelled_close:
  "close_stack Test_scope (\<lambda>_. 0) cancelled_plugin None (calm_session\<lparr>ps_torn_down := True\<rparr>) () =
     (Some (BaseExn ''CancelledError''),
      fst (snd (close_stack Test_scope (\<lambda>_. 0) cancelled_plugin None (calm_session\<lparr>ps_torn_down := True\<rparr>) ())), ())"
  by (simp add: calm_session_def teardown_simps)

lemma cancelled_teardown_leaks_environment_witness:
  "aexit (\<lambda>_. 0) cancelled_plugin calm_session () =
     (Some (BaseExn ''CancelledError''),
      fst (snd (close_stack Test_scope (\<lambda>_. 0) cancelled_plugin None (calm_session\<lparr>ps_torn_down := True\<rparr>) ())), ())"
proof -
  have "\<not> ps_torn_down calm_session" by (simp add: calm_session_def small_simps)
  from cancelled_teardown_leaks_environment [OF cancelled_close this] show ?thesis by simp
qed

end
