(* ===== verification/Catalogue.thy ===== *)
theory Catalogue
  imports Contracts
begin

text \<open>
  The fault catalogue of \<open>agents/chaos/faults/_meta.py\<close>: every fault name the system may
  inject, with its category, prose, approval flag and Chaos Mesh kind (\<open>None\<close> for a fault
  that is no Chaos Mesh resource). The dictionary is written in the source's three blocks;
  characters beyond ASCII in the prose are their UTF-8 bytes.
\<close>

record fault_definition =
  fd_name :: string
  fd_category :: fault_category
  fd_description :: string
  fd_requires_approval :: bool
  fd_chaos_mesh_kind :: "string option"

definition fault_def ::
  "string \<Rightarrow> fault_category \<Rightarrow> string \<Rightarrow> bool \<Rightarrow> string option \<Rightarrow> fault_definition" where
  "fault_def n c d a k =
     \<lparr>fd_name = n, fd_category = c, fd_description = d, fd_requires_approval = a,
      fd_chaos_mesh_kind = k\<rparr>"

definition catalogue_hardware :: "(string, fault_definition) dict" where
  "catalogue_hardware =
    [(''wifi.deauth'', fault_def ''wifi.deauth'' FC_RF
       (''Broadcast 802.11 deauthentication frames at the device-under-test's BSSID, '' @
        ''simulating a low-cost WiFi jammer. Used to verify NeoOwl's detection latency and '' @
        ''mesh-failover behavior.'')
       False None),
     (''wifi.jam'', fault_def ''wifi.jam'' FC_RF
       (''Sweep a noise carrier across the 2.4 GHz ISM band. Indiscriminate (blocks all WiFi '' @
        (''traffic, not just the DUT's link) '' @ [CHR 0xE2, CHR 0x80, CHR 0x94] @ '' verifies the device degrades cleanly to '') @
        ''LoRa/cellular fallback rather than hanging on a dead WiFi association.'')
       True None),
     (''ble.advertising_flood'', fault_def ''ble.advertising_flood'' FC_RF
       (''Emit BLE advertising packets at ~10k/sec from N spoofed MAC addresses. Used to '' @
        ''verify the BLE scanner's queue + dedup logic and that CPU headroom holds under '' @
        ''adversarial discovery noise.'')
       False None),
     (''lora.jam'', fault_def ''lora.jam'' FC_RF
       (''Continuous unmodulated carrier on the DUT's LoRa channel. Used to verify '' @
        ''gateway-side packet-loss reporting and that the NVR's store-and-forward buffer '' @
        ''absorbs the resulting uplink stall without dropping security events.'')
       True None),
     (''power.brownout'', fault_def ''power.brownout'' FC_POWER
       (''Drop the DUT's supply rail to a configurable millivolt floor for '' @
        ''`duration_seconds`. Used to verify the brownout detector fires, NVS writes are '' @
        ''journaled, and the device recovers without bricking. Repeated brownouts surface '' @
        ''latent boot loops.'')
       True None),
     (''power.ramp'', fault_def ''power.ramp'' FC_POWER
       (''Slow ramp the supply rail from a configurable start to floor voltage over '' @
        (''`duration_seconds`. Tests the brownout detector's hysteresis behavior '' @ [CHR 0xE2, CHR 0x80, CHR 0x94] @ '' should fire '') @
        ''well before the rail reaches the firmware's minimum operating voltage.'')
       True None),
     (''power.cut'', fault_def ''power.cut'' FC_POWER
       (''Hard supply cut for `duration_seconds`, then restore. Validates the '' @
        ''capacitor-backed event buffer: any security event captured in the second before the '' @
        ''cut must survive the power-cycle and arrive at the gateway on next boot.'')
       True None),
     (''sensor.dropout'', fault_def ''sensor.dropout'' FC_SENSOR
       ((''Disconnect a sensor's I'' @ [CHR 0xC2, CHR 0xB2] @ ''C/SPI bus for `duration_seconds` so the firmware sees a '') @
        ''missing peripheral. Used to verify mesh consensus degrades gracefully (the device '' @
        ''must signal degradation rather than silently dropping the sensor).'')
       False None),
     (''sensor.stuck'', fault_def ''sensor.stuck'' FC_SENSOR
       (''Intercept a sensor's bus and replay the last observed reading for '' @
        ''`duration_seconds`. The reading looks plausible to a single-sensor check; the '' @
        ''anomaly detector should catch the flatline against neighbor sensors.'')
       False None),
     (''time.ntp.cut'', fault_def ''time.ntp.cut'' FC_TIME
       (''Firewall NTP traffic at the gateway for `duration_seconds`. Verifies the gateway's '' @
        ''clock-source fallback (PPS / cellular modem time) and that cert-renewal scheduling '' @
        ''tolerates the drift without deferring critical renewals.'')
       False None),
     (''time.clock.drift'', fault_def ''time.clock.drift'' FC_TIME
       (''Inject a fake NTP server with a configurable skew in seconds. Validates that cert '' @
        ''validation refuses to accept now-future or now-past certificates regardless of what '' @
        ''the system clock claims.'')
       True None)]"

definition catalogue_classical :: "(string, fault_definition) dict" where
  "catalogue_classical =
    [(''pod.kill'', fault_def ''pod.kill'' FC_POD
       ''Kill one or more pods matching a selector.''
       False (Some ''PodChaos'')),
     (''pod.failure'', fault_def ''pod.failure'' FC_POD
       ''Continuously crash a pod for the duration.''
       False (Some ''PodChaos'')),
     (''network.loss'', fault_def ''network.loss'' FC_NETWORK
       ''Packet loss between source pods and a target.''
       False (Some ''NetworkChaos'')),
     (''network.delay'', fault_def ''network.delay'' FC_NETWORK
       ''Inject latency on egress from source pods to a target.''
       False (Some ''NetworkChaos'')),
     (''network.partition'', fault_def ''network.partition'' FC_NETWORK
       ''Drop all traffic between two sets of pods (split-brain).''
       True (Some ''NetworkChaos'')),
     (''io.latency'', fault_def ''io.latency'' FC_IO
       ''Delay file system I/O on a mount.''
       False (Some ''IOChaos'')),
     (''stress.cpu'', fault_def ''stress.cpu'' FC_STRESS
       ''Saturate CPU on target pods.''
       False (Some ''StressChaos'')),
     (''stress.memory'', fault_def ''stress.memory'' FC_STRESS
       ''Consume memory on target pods (may trigger OOM).''
       True (Some ''StressChaos'')),
     (''dns.error'', fault_def ''dns.error'' FC_DNS
       ''DNS resolution failures for a domain pattern.''
       False (Some ''DNSChaos'')),
     (''http.abort'', fault_def ''http.abort'' FC_HTTP
       ''Abort matching HTTP requests at the proxy.''
       False (Some ''HTTPChaos'')),
     (''time.skew'', fault_def ''time.skew'' FC_TIME
       ''Shift the clock inside target pods.''
       False (Some ''TimeChaos''))]"

definition catalogue_security :: "(string, fault_definition) dict" where
  "catalogue_security =
    [(''cert.revoke'', fault_def ''cert.revoke'' FC_CERT
       ''Block OCSP/CRL endpoints + simulate cert revocation.''
       False (Some ''NetworkChaos'')),
     (''cert.expire'', fault_def ''cert.expire'' FC_CERT
       ''Time-skew target pods past cert NotAfter.''
       False (Some ''TimeChaos'')),
     (''tls.downgrade'', fault_def ''tls.downgrade'' FC_TLS
       ''Force TLS 1.0 / plaintext via proxy rewrites; expect refusal.''
       True (Some ''HTTPChaos'')),
     (''auth.outage'', fault_def ''auth.outage'' FC_AUTH
       ''Block egress to the IdP; expect fail-closed behavior.''
       True (Some ''NetworkChaos'')),
     (''auth.latency'', fault_def ''auth.latency'' FC_AUTH
       ''Inject latency on the IdP path; expect no side-channels.''
       False (Some ''NetworkChaos'')),
     (''secret.rotate'', fault_def ''secret.rotate'' FC_SECRET
       ''Patch a Secret mid-flight; expect graceful reload, no leak.''
       False None),
     (''image.swap_vuln'', fault_def ''image.swap_vuln'' FC_IMAGE
       ''Deploy a known-vulnerable image; expect admission rejection.''
       True None),
     (''image.swap_unsigned'', fault_def ''image.swap_unsigned'' FC_IMAGE
       ''Deploy an unsigned image; expect admission rejection (cosign).''
       True None),
     (''iam.degrade'', fault_def ''iam.degrade'' FC_IAM
       ''Partial loss on STS / cloud IAM endpoints.''
       True (Some ''NetworkChaos'')),
     (''netpol.regress'', fault_def ''netpol.regress'' FC_NETPOL
       ''Remove a NetworkPolicy; expect app-layer enforcement to hold.''
       True None),
     (''egress.exfil_sim'', fault_def ''egress.exfil_sim'' FC_EGRESS
       ''Curl to controlled sink resembling exfil; expect runtime alert.''
       True None),
     (''runtime.tamper'', fault_def ''runtime.tamper'' FC_RUNTIME
       ''Write to rootfs in a running container; expect runtime alert.''
       True None)]"

definition CATALOGUE :: "(string, fault_definition) dict" where
  "CATALOGUE = catalogue_hardware @ catalogue_classical @ catalogue_security"

definition in_catalogue :: "string \<Rightarrow> bool" where
  "in_catalogue n = dict_has CATALOGUE n"

definition fault_names :: "string list" where
  "fault_names = sort (map fst CATALOGUE)"

definition by_category :: "fault_category \<Rightarrow> fault_definition list" where
  "by_category cat = filter (\<lambda>d. fd_category d = cat) (map snd CATALOGUE)"

definition catalogue_category :: "string \<Rightarrow> fault_category option" where
  "catalogue_category n = map_option fd_category (dict_get CATALOGUE n)"

section \<open>Facts\<close>

text \<open>The keys and categories, evaluated once; nothing after this theory unfolds the table.\<close>

lemma fault_def_simps [simp]:
  "fd_name (fault_def n c d a k) = n"
  "fd_category (fault_def n c d a k) = c"
  "fd_requires_approval (fault_def n c d a k) = a"
  "fd_chaos_mesh_kind (fault_def n c d a k) = k"
  by (simp_all add: fault_def_def)

lemma catalogue_keys:
  "map fst CATALOGUE =
     [''wifi.deauth'', ''wifi.jam'', ''ble.advertising_flood'', ''lora.jam'',
      ''power.brownout'', ''power.ramp'', ''power.cut'', ''sensor.dropout'',
      ''sensor.stuck'', ''time.ntp.cut'', ''time.clock.drift'', ''pod.kill'',
      ''pod.failure'', ''network.loss'', ''network.delay'', ''network.partition'',
      ''io.latency'', ''stress.cpu'', ''stress.memory'', ''dns.error'', ''http.abort'',
      ''time.skew'', ''cert.revoke'', ''cert.expire'', ''tls.downgrade'',
      ''auth.outage'', ''auth.latency'', ''secret.rotate'', ''image.swap_vuln'',
      ''image.swap_unsigned'', ''iam.degrade'', ''netpol.regress'',
      ''egress.exfil_sim'', ''runtime.tamper'']"
  by (simp add: CATALOGUE_def catalogue_hardware_def catalogue_classical_def catalogue_security_def)

lemma catalogue_cats:
  "map (\<lambda>(n, d). (n, fd_category d)) CATALOGUE =
     [(''wifi.deauth'', FC_RF), (''wifi.jam'', FC_RF),
      (''ble.advertising_flood'', FC_RF), (''lora.jam'', FC_RF),
      (''power.brownout'', FC_POWER), (''power.ramp'', FC_POWER),
      (''power.cut'', FC_POWER), (''sensor.dropout'', FC_SENSOR),
      (''sensor.stuck'', FC_SENSOR), (''time.ntp.cut'', FC_TIME),
      (''time.clock.drift'', FC_TIME), (''pod.kill'', FC_POD),
      (''pod.failure'', FC_POD), (''network.loss'', FC_NETWORK),
      (''network.delay'', FC_NETWORK), (''network.partition'', FC_NETWORK),
      (''io.latency'', FC_IO), (''stress.cpu'', FC_STRESS),
      (''stress.memory'', FC_STRESS), (''dns.error'', FC_DNS),
      (''http.abort'', FC_HTTP), (''time.skew'', FC_TIME), (''cert.revoke'', FC_CERT),
      (''cert.expire'', FC_CERT), (''tls.downgrade'', FC_TLS),
      (''auth.outage'', FC_AUTH), (''auth.latency'', FC_AUTH),
      (''secret.rotate'', FC_SECRET), (''image.swap_vuln'', FC_IMAGE),
      (''image.swap_unsigned'', FC_IMAGE), (''iam.degrade'', FC_IAM),
      (''netpol.regress'', FC_NETPOL), (''egress.exfil_sim'', FC_EGRESS),
      (''runtime.tamper'', FC_RUNTIME)]"
  by (simp add: CATALOGUE_def catalogue_hardware_def catalogue_classical_def catalogue_security_def)

lemma map_of_map_snd: "map_option f (map_of xs k) = map_of (map (\<lambda>(n, d). (n, f d)) xs) k"
  by (induction xs) auto

lemma catalogue_category_eval:
  "catalogue_category n = map_of (map (\<lambda>(n, d). (n, fd_category d)) CATALOGUE) n"
  by (simp add: catalogue_category_def dict_get_def map_of_map_snd)

lemmas catalogue_category_simps = catalogue_category_eval catalogue_cats

lemma in_catalogue_iff: "in_catalogue n \<longleftrightarrow> n \<in> set (map fst CATALOGUE)"
  by (simp add: in_catalogue_def dict_has_def)

lemmas in_catalogue_eval = in_catalogue_iff [unfolded catalogue_keys]

lemma in_catalogue_category: "in_catalogue n \<longleftrightarrow> catalogue_category n \<noteq> None"
  by (simp add: in_catalogue_def dict_has_iff catalogue_category_def)

lemma catalogue_wf: "dict_wf CATALOGUE"
  unfolding dict_wf_def catalogue_keys by simp

text \<open>Every entry is stored under its own name.\<close>

lemma catalogue_names_agree: "list_all (\<lambda>(n, d). fd_name d = n) CATALOGUE"
  by (simp add: CATALOGUE_def catalogue_hardware_def catalogue_classical_def catalogue_security_def)

lemma catalogue_get_name: "dict_get CATALOGUE n = Some d \<Longrightarrow> fd_name d = n"
  using catalogue_names_agree mem_dict_get [OF catalogue_wf, of n d]
  by (auto simp: list_all_iff)

lemma by_category_iff: "d \<in> set (by_category c) \<longleftrightarrow> (\<exists>n. dict_get CATALOGUE n = Some d \<and> fd_category d = c)"
  using mem_dict_get [OF catalogue_wf] by (force simp: by_category_def)

end
