(* ===== verification/Cluster.thy ===== *)
theory Cluster
  imports Catalogue
begin

text \<open>
  Cluster access of the chaos agent, \<open>agents/chaos/cluster.py\<close>: the \<open>ClusterIO\<close> protocol as a record
  of operations over an environment, the in-memory \<open>FakeClusterIO\<close> and the Kubernetes-backed
  implementation over the client's calls, which are arguments. A custom resource is a record with
  the fields every body has; its \<open>spec\<close> is a dictionary of dynamic values. The locale
  \<open>cluster_contract\<close> is what the agent relies on (apply stores, delete removes, list finds by
  label, a failed call changes nothing but the resource it was about), proved for \<open>FakeClusterIO\<close>.
\<close>

section \<open>Resources\<close>

record crd =
  cr_api_version :: string
  cr_kind :: string
  cr_name :: string
  cr_namespace :: string
  cr_labels :: "(string, string) dict"
  cr_annotations :: "(string, string) dict"
  cr_resource_version :: "string option"
  cr_spec :: "(string, pyval) dict"
  cr_status :: "pyval option"

text \<open>The key tuple: API version, kind, namespace, name.\<close>

datatype crd_key =
  Crd_key (ck_api_version: string) (ck_kind: string) (ck_namespace: string) (ck_name: string)

definition crd_key_of :: "crd \<Rightarrow> crd_key" where
  "crd_key_of r = Crd_key (cr_api_version r) (cr_kind r) (cr_namespace r) (cr_name r)"

definition has_labels :: "(string, string) dict \<Rightarrow> crd \<Rightarrow> bool" where
  "has_labels labels r = list_all (\<lambda>(k, v). dict_get (cr_labels r) k = Some v) labels"

record 'e cluster_io =
  ci_apply :: "crd \<Rightarrow> 'e \<Rightarrow> crd res \<times> 'e"
  ci_get :: "crd_key \<Rightarrow> 'e \<Rightarrow> crd option res \<times> 'e"
  ci_delete :: "crd_key \<Rightarrow> 'e \<Rightarrow> bool res \<times> 'e"
  ci_list :: "string \<Rightarrow> string \<Rightarrow> string \<Rightarrow> (string, string) dict \<Rightarrow> 'e \<Rightarrow> crd list res \<times> 'e"
  ci_annotations :: "string \<Rightarrow> 'e \<Rightarrow> (string, string) dict option res \<times> 'e"

section \<open>The contract\<close>

text \<open>\<open>view e\<close> is the cluster's resources in the environment \<open>e\<close>.\<close>

locale cluster_contract =
  fixes io :: "'e cluster_io"
    and view :: "'e \<Rightarrow> crd_key \<Rightarrow> crd option"
    and inv :: "'e \<Rightarrow> bool"
  assumes apply_ok: "inv e \<Longrightarrow> ci_apply io body e = (Inr r, e') \<Longrightarrow>
      inv e' \<and> crd_key_of r = crd_key_of body \<and> cr_labels r = cr_labels body \<and>
      view e' = (view e)(crd_key_of body := Some r)"
    and apply_failed: "inv e \<Longrightarrow> ci_apply io body e = (Inl x, e') \<Longrightarrow> inv e' \<and> view e' = view e"
    and delete_ok: "inv e \<Longrightarrow> ci_delete io k e = (Inr b, e') \<Longrightarrow>
      inv e' \<and> b = (view e k \<noteq> None) \<and> view e' = (view e)(k := None)"
    and delete_failed: "inv e \<Longrightarrow> ci_delete io k e = (Inl x, e') \<Longrightarrow> inv e' \<and> view e' = view e"
    and list_keeps: "inv e \<Longrightarrow> ci_list io av kd ns ls e = (q, e') \<Longrightarrow> inv e' \<and> view e' = view e"
    and list_ok: "inv e \<Longrightarrow> ci_list io av kd ns ls e = (Inr rs, e') \<Longrightarrow>
      r \<in> set rs \<longleftrightarrow>
        view e (crd_key_of r) = Some r \<and> cr_api_version r = av \<and> cr_kind r = kd \<and>
        cr_namespace r = ns \<and> has_labels ls r"
    and keyed: "inv e \<Longrightarrow> view e k = Some r \<Longrightarrow> crd_key_of r = k"
begin

lemma delete_view:
  assumes "inv e" "ci_delete io k e = (q, e')"
  shows "inv e' \<and> (view e' = view e \<or> view e' = (view e)(k := None))"
  using assms delete_ok [of e k _ e'] delete_failed [of e k _ e'] by (cases q) auto

lemma apply_then_delete:
  assumes "inv e" "ci_apply io body e = (Inr r, e1)" "ci_delete io (crd_key_of body) e1 = (Inr b, e2)"
  shows "b \<and> inv e2 \<and> view e2 = (view e)(crd_key_of body := None)"
  using apply_ok [OF assms(1,2)] delete_ok [OF _ assms(3)] by auto

end

section \<open>The in-memory cluster\<close>

record fake_cluster =
  fk_resources :: "(crd_key, crd) dict"
  fk_applied :: "crd list"
  fk_deleted :: "crd_key list"
  fk_namespace_annotations :: "(string, (string, string) dict option) dict"
  fk_apply_hook :: "(crd \<Rightarrow> unit res) option"

definition default_status :: pyval where
  "default_status =
     PDict [(''phase'', PStr ''Running''),
            (''conditions'', PList [PDict [(''type'', PStr ''AllInjected'')]])]"

text \<open>The hook is a function of the body it is given: an asynchronous hook that answers differently from call to call
  is not modelled.\<close>

definition fake_apply :: "crd \<Rightarrow> fake_cluster \<Rightarrow> crd res \<times> fake_cluster" where
  "fake_apply body c =
     (case (case fk_apply_hook c of None \<Rightarrow> Inr () | Some h \<Rightarrow> h body) of
        Inl x \<Rightarrow> (Inl x, c)
      | Inr u \<Rightarrow>
          (let b = (if cr_status body = None then body\<lparr>cr_status := Some default_status\<rparr> else body)
           in (Inr b, c\<lparr>fk_resources := dict_set (crd_key_of b) b (fk_resources c),
                        fk_applied := fk_applied c @ [b]\<rparr>)))"

definition fake_get :: "crd_key \<Rightarrow> fake_cluster \<Rightarrow> crd option res \<times> fake_cluster" where
  "fake_get k c = (Inr (dict_get (fk_resources c) k), c)"

definition fake_delete :: "crd_key \<Rightarrow> fake_cluster \<Rightarrow> bool res \<times> fake_cluster" where
  "fake_delete k c =
     (Inr (dict_has (fk_resources c) k),
      c\<lparr>fk_resources := dict_pop k (fk_resources c), fk_deleted := fk_deleted c @ [k]\<rparr>)"

definition key_matches :: "string \<Rightarrow> string \<Rightarrow> string \<Rightarrow> crd_key \<Rightarrow> bool" where
  "key_matches av kd ns k \<longleftrightarrow> ck_api_version k = av \<and> ck_kind k = kd \<and> ck_namespace k = ns"

definition fake_list ::
  "string \<Rightarrow> string \<Rightarrow> string \<Rightarrow> (string, string) dict \<Rightarrow> fake_cluster \<Rightarrow> crd list res \<times> fake_cluster" where
  "fake_list av kd ns labels c =
     (Inr (map snd (filter (\<lambda>(k, r). key_matches av kd ns k \<and> has_labels labels r) (fk_resources c))), c)"

definition fake_annotations ::
  "string \<Rightarrow> fake_cluster \<Rightarrow> (string, string) dict option res \<times> fake_cluster" where
  "fake_annotations ns c =
     (Inr (case dict_get (fk_namespace_annotations c) ns of
             Some a \<Rightarrow> a
           | None \<Rightarrow> Some [(''chaos.kosta.dev/allowed'', ''true'')]), c)"

definition fake_io :: "fake_cluster cluster_io" where
  "fake_io =
     \<lparr>ci_apply = fake_apply, ci_get = fake_get, ci_delete = fake_delete, ci_list = fake_list,
      ci_annotations = fake_annotations\<rparr>"

text \<open>Every resource is stored under its own key.\<close>

definition fake_inv :: "fake_cluster \<Rightarrow> bool" where
  "fake_inv c \<longleftrightarrow> dict_wf (fk_resources c) \<and> (\<forall>(k, r) \<in> set (fk_resources c). crd_key_of r = k)"

lemma key_with_status [simp]: "crd_key_of (r\<lparr>cr_status := st\<rparr>) = crd_key_of r"
  by (simp add: crd_key_of_def)

lemma fake_stored: "fake_inv c \<Longrightarrow> dict_get (fk_resources c) k = Some r \<Longrightarrow> crd_key_of r = k"
  using mem_dict_get [of "fk_resources c" k r] by (auto simp: fake_inv_def)

lemma fake_inv_set:
  assumes "fake_inv c"
  shows "fake_inv (c\<lparr>fk_resources := dict_set (crd_key_of b) b (fk_resources c), fk_applied := xs\<rparr>)"
proof -
  let ?d = "dict_set (crd_key_of b) b (fk_resources c)"
  have wf: "dict_wf ?d" using assms by (auto simp: fake_inv_def)
  have "crd_key_of r = k" if "(k, r) \<in> set ?d" for k r
    using mem_dict_get [OF wf, of k r] that fake_stored [OF assms, of k r]
    by (auto simp: dict_get_set split: if_splits)
  with wf show ?thesis by (auto simp: fake_inv_def)
qed

lemma fake_inv_pop:
  assumes "fake_inv c"
  shows "fake_inv (c\<lparr>fk_resources := dict_pop k (fk_resources c), fk_deleted := ks\<rparr>)"
  using assms by (auto simp: fake_inv_def dict_pop_def dict_wf_def distinct_map_filter)

lemma fake_list_mem:
  assumes "fake_inv c"
  shows "r \<in> set (map snd (filter (\<lambda>(k, r). key_matches av kd ns k \<and> has_labels ls r) (fk_resources c))) \<longleftrightarrow>
    dict_get (fk_resources c) (crd_key_of r) = Some r \<and> cr_api_version r = av \<and> cr_kind r = kd \<and>
    cr_namespace r = ns \<and> has_labels ls r"
    (is "?l \<longleftrightarrow> ?r")
proof
  assume ?l
  then obtain k where k: "(k, r) \<in> set (fk_resources c)" "key_matches av kd ns k" "has_labels ls r"
    by auto
  then have "crd_key_of r = k" using assms by (auto simp: fake_inv_def)
  with k show ?r
    using mem_dict_get [of "fk_resources c" k r] assms
    by (auto simp: fake_inv_def key_matches_def crd_key_of_def)
next
  assume r: ?r
  then have "(crd_key_of r, r) \<in> set (fk_resources c)"
    using mem_dict_get [of "fk_resources c" "crd_key_of r" r] assms by (simp add: fake_inv_def)
  moreover have "key_matches av kd ns (crd_key_of r)" using r by (simp add: key_matches_def crd_key_of_def)
  ultimately show ?l using r by force
qed

interpretation fake: cluster_contract fake_io "\<lambda>c k. dict_get (fk_resources c) k" fake_inv
proof
  show "fake_inv e' \<and> crd_key_of r = crd_key_of body \<and> cr_labels r = cr_labels body \<and>
      (\<lambda>k. dict_get (fk_resources e') k) =
        (\<lambda>k. dict_get (fk_resources e) k)(crd_key_of body := Some r)"
    if "fake_inv e" "ci_apply fake_io body e = (Inr r, e')" for e body r e'
    using that fake_inv_set [OF that(1), where b = body]
      fake_inv_set [OF that(1), where b = "body\<lparr>cr_status := Some default_status\<rparr>", simplified]
    by (auto simp: fake_io_def fake_apply_def Let_def dict_get_set split: sum.splits if_splits)
  show "fake_inv e' \<and> (\<lambda>k. dict_get (fk_resources e') k) = (\<lambda>k. dict_get (fk_resources e) k)"
    if "fake_inv e" "ci_apply fake_io body e = (Inl x, e')" for e body x e'
    using that by (auto simp: fake_io_def fake_apply_def Let_def split: sum.splits)
  show "fake_inv e' \<and> b = (dict_get (fk_resources e) k \<noteq> None) \<and>
      (\<lambda>k. dict_get (fk_resources e') k) = (\<lambda>k. dict_get (fk_resources e) k)(k := None)"
    if "fake_inv e" "ci_delete fake_io k e = (Inr b, e')" for e k b e'
    using that fake_inv_pop [OF that(1)]
    by (auto simp: fake_io_def fake_delete_def dict_has_iff dict_get_pop)
  show "fake_inv e' \<and> (\<lambda>k. dict_get (fk_resources e') k) = (\<lambda>k. dict_get (fk_resources e) k)"
    if "fake_inv e" "ci_delete fake_io k e = (Inl x, e')" for e k x e'
    using that by (auto simp: fake_io_def fake_delete_def)
  show "fake_inv e' \<and> (\<lambda>k. dict_get (fk_resources e') k) = (\<lambda>k. dict_get (fk_resources e) k)"
    if "fake_inv e" "ci_list fake_io av kd ns ls e = (q, e')" for e av kd ns ls q e'
    using that by (auto simp: fake_io_def fake_list_def)
  show "r \<in> set rs \<longleftrightarrow>
      dict_get (fk_resources e) (crd_key_of r) = Some r \<and> cr_api_version r = av \<and> cr_kind r = kd \<and>
      cr_namespace r = ns \<and> has_labels ls r"
    if "fake_inv e" "ci_list fake_io av kd ns ls e = (Inr rs, e')" for e av kd ns ls rs e' r
  proof -
    have "rs = map snd (filter (\<lambda>(k, r). key_matches av kd ns k \<and> has_labels ls r) (fk_resources e))"
      using that(2) by (auto simp: fake_io_def fake_list_def)
    then show ?thesis using fake_list_mem [OF that(1), of r av kd ns ls] by (simp only:)
  qed
  show "crd_key_of r = k" if "fake_inv e" "dict_get (fk_resources e) k = Some r" for e k r
    using fake_stored that .
qed

section \<open>The Kubernetes-backed cluster\<close>

text \<open>
  The client's calls are arguments. \<open>KE_api\<close> is \<open>ApiException\<close> with its HTTP status, \<open>KE_other\<close> any
  other exception. Loading the client configuration happens once before any call and is not part
  of the calls.
\<close>

datatype kube_error = KE_api int string | KE_other pyexn

fun kube_exn :: "kube_error \<Rightarrow> pyexn" where
  "kube_exn (KE_api status m) = Exn ''ApiException'' m"
| "kube_exn (KE_other x) = x"

record 'e kube_client =
  kc_create :: "string \<Rightarrow> string \<Rightarrow> string \<Rightarrow> string \<Rightarrow> crd \<Rightarrow> 'e \<Rightarrow> (kube_error + crd) \<times> 'e"
  kc_get :: "string \<Rightarrow> string \<Rightarrow> string \<Rightarrow> string \<Rightarrow> string \<Rightarrow> 'e \<Rightarrow> (kube_error + crd) \<times> 'e"
  kc_replace ::
    "string \<Rightarrow> string \<Rightarrow> string \<Rightarrow> string \<Rightarrow> string \<Rightarrow> crd \<Rightarrow> 'e \<Rightarrow> (kube_error + crd) \<times> 'e"
  kc_delete :: "string \<Rightarrow> string \<Rightarrow> string \<Rightarrow> string \<Rightarrow> string \<Rightarrow> 'e \<Rightarrow> (kube_error + unit) \<times> 'e"
  kc_list ::
    "string \<Rightarrow> string \<Rightarrow> string \<Rightarrow> string \<Rightarrow> string \<Rightarrow> 'e \<Rightarrow> (kube_error + crd list) \<times> 'e"
  kc_read_namespace ::
    "string \<Rightarrow> 'e \<Rightarrow> (kube_error + (string, string) dict option) \<times> 'e"

definition split_api_version :: "string \<Rightarrow> (string \<times> string) res" where
  "split_api_version v =
     (if CHR 0x2F \<notin> set v
      then Inl (Exn ''ValueError''
        (''apiVersion '' @ repr_str v @ '' has no group; core resources unsupported''))
      else Inr (takeWhile (\<lambda>c. c \<noteq> CHR 0x2F) v, tl (dropWhile (\<lambda>c. c \<noteq> CHR 0x2F) v)))"

definition plural_of :: "string \<Rightarrow> string" where
  "plural_of kind = lower kind"

definition kube_replace_existing ::
  "'e kube_client \<Rightarrow> string \<Rightarrow> string \<Rightarrow> crd \<Rightarrow> 'e \<Rightarrow> crd res \<times> 'e" where
  "kube_replace_existing kc g v body e =
     (case kc_get kc g v (cr_namespace body) (plural_of (cr_kind body)) (cr_name body) e of
        (Inl x, e1) \<Rightarrow> (Inl (kube_exn x), e1)
      | (Inr old, e1) \<Rightarrow>
          (case kc_replace kc g v (cr_namespace body) (plural_of (cr_kind body)) (cr_name body)
                  (body\<lparr>cr_resource_version := cr_resource_version old\<rparr>) e1 of
             (Inl x, e2) \<Rightarrow> (Inl (kube_exn x), e2)
           | (Inr r, e2) \<Rightarrow> (Inr r, e2)))"

definition kube_apply :: "'e kube_client \<Rightarrow> crd \<Rightarrow> 'e \<Rightarrow> crd res \<times> 'e" where
  "kube_apply kc body e =
     (case split_api_version (cr_api_version body) of
        Inl x \<Rightarrow> (Inl x, e)
      | Inr (g, v) \<Rightarrow>
          (case kc_create kc g v (cr_namespace body) (plural_of (cr_kind body)) body e of
             (Inr r, e1) \<Rightarrow> (Inr r, e1)
           | (Inl (KE_api status m), e1) \<Rightarrow>
               (if status \<noteq> 409 then (Inl (kube_exn (KE_api status m)), e1)
                else kube_replace_existing kc g v body e1)
           | (Inl (KE_other x), e1) \<Rightarrow> (Inl x, e1)))"

definition kube_get :: "'e kube_client \<Rightarrow> crd_key \<Rightarrow> 'e \<Rightarrow> crd option res \<times> 'e" where
  "kube_get kc k e =
     (case split_api_version (ck_api_version k) of
        Inl x \<Rightarrow> (Inl x, e)
      | Inr (g, v) \<Rightarrow>
          (case kc_get kc g v (ck_namespace k) (plural_of (ck_kind k)) (ck_name k) e of
             (Inr r, e1) \<Rightarrow> (Inr (Some r), e1)
           | (Inl (KE_api status m), e1) \<Rightarrow>
               (if status = 404 then (Inr None, e1) else (Inl (kube_exn (KE_api status m)), e1))
           | (Inl (KE_other x), e1) \<Rightarrow> (Inl x, e1)))"

definition kube_delete :: "'e kube_client \<Rightarrow> crd_key \<Rightarrow> 'e \<Rightarrow> bool res \<times> 'e" where
  "kube_delete kc k e =
     (case split_api_version (ck_api_version k) of
        Inl x \<Rightarrow> (Inl x, e)
      | Inr (g, v) \<Rightarrow>
          (case kc_delete kc g v (ck_namespace k) (plural_of (ck_kind k)) (ck_name k) e of
             (Inr u, e1) \<Rightarrow> (Inr True, e1)
           | (Inl (KE_api status m), e1) \<Rightarrow>
               (if status = 404 then (Inr False, e1) else (Inl (kube_exn (KE_api status m)), e1))
           | (Inl (KE_other x), e1) \<Rightarrow> (Inl x, e1)))"

text \<open>The selector \<open>k=v,..\<close> in the order of the sorted pairs.\<close>

definition label_selector :: "(string, string) dict \<Rightarrow> string" where
  "label_selector labels = join '','' (map (\<lambda>k. k @ ''='' @ the (dict_get labels k)) (sort (map fst labels)))"

definition kube_list ::
  "'e kube_client \<Rightarrow> string \<Rightarrow> string \<Rightarrow> string \<Rightarrow> (string, string) dict \<Rightarrow> 'e \<Rightarrow> crd list res \<times> 'e" where
  "kube_list kc av kd ns labels e =
     (case split_api_version av of
        Inl x \<Rightarrow> (Inl x, e)
      | Inr (g, v) \<Rightarrow>
          (case kc_list kc g v ns (plural_of kd) (label_selector labels) e of
             (Inr rs, e1) \<Rightarrow> (Inr rs, e1)
           | (Inl (KE_api status m), e1) \<Rightarrow>
               (if status = 404 then (Inr [], e1) else (Inl (kube_exn (KE_api status m)), e1))
           | (Inl (KE_other x), e1) \<Rightarrow> (Inl x, e1)))"

definition kube_annotations ::
  "'e kube_client \<Rightarrow> string \<Rightarrow> 'e \<Rightarrow> (string, string) dict option res \<times> 'e" where
  "kube_annotations kc ns e =
     (case kc_read_namespace kc ns e of
        (Inr a, e1) \<Rightarrow> (Inr (Some (case a of None \<Rightarrow> [] | Some d \<Rightarrow> d)), e1)
      | (Inl x, e1) \<Rightarrow>
          (if is_exception (kube_exn x) then (Inr None, e1) else (Inl (kube_exn x), e1)))"

definition kube_io :: "'e kube_client \<Rightarrow> 'e cluster_io" where
  "kube_io kc =
     \<lparr>ci_apply = kube_apply kc, ci_get = kube_get kc, ci_delete = kube_delete kc,
      ci_list = kube_list kc, ci_annotations = kube_annotations kc\<rparr>"

text \<open>A missing resource is no error, and an unreachable cluster gives no annotations.\<close>

lemma kube_delete_missing:
  assumes "kc_delete kc g v ns (plural_of kd) nm e = (Inl (KE_api 404 m), e1)"
    "split_api_version av = Inr (g, v)"
  shows "kube_delete kc (Crd_key av kd ns nm) e = (Inr False, e1)"
  using assms by (simp add: kube_delete_def)

lemma kube_annotations_never_raise:
  "kube_annotations kc ns e = (Inl x, e') \<Longrightarrow> \<not> is_exception x"
  by (auto simp: kube_annotations_def split: prod.splits sum.splits if_splits)

lemma kube_apply_conflict:
  assumes "split_api_version (cr_api_version body) = Inr (g, v)"
    "kc_create kc g v (cr_namespace body) (plural_of (cr_kind body)) body e = (Inl (KE_api 409 m), e1)"
    "kc_get kc g v (cr_namespace body) (plural_of (cr_kind body)) (cr_name body) e1 = (Inr old, e2)"
  shows "kube_apply kc body e =
    (case kc_replace kc g v (cr_namespace body) (plural_of (cr_kind body)) (cr_name body)
       (body\<lparr>cr_resource_version := cr_resource_version old\<rparr>) e2 of
       (Inl x, e3) \<Rightarrow> (Inl (kube_exn x), e3) | (Inr r, e3) \<Rightarrow> (Inr r, e3))"
  using assms by (simp add: kube_apply_def kube_replace_existing_def)

lemma split_api_version_join:
  "split_api_version v = Inr (g, u) \<Longrightarrow> v = g @ [CHR 0x2F] @ u \<and> CHR 0x2F \<notin> set g"
proof -
  assume a: "split_api_version v = Inr (g, u)"
  then have m: "CHR 0x2F \<in> set v" and g: "g = takeWhile (\<lambda>c. c \<noteq> CHR 0x2F) v"
      and u: "u = tl (dropWhile (\<lambda>c. c \<noteq> CHR 0x2F) v)"
    by (auto simp: split_api_version_def split: if_splits)
  have d: "dropWhile (\<lambda>c. c \<noteq> CHR 0x2F) v \<noteq> []" using m by (auto simp: dropWhile_eq_Nil_conv)
  then have "hd (dropWhile (\<lambda>c. c \<noteq> CHR 0x2F) v) = CHR 0x2F" using hd_dropWhile by blast
  with d have "dropWhile (\<lambda>c. c \<noteq> CHR 0x2F) v = CHR 0x2F # u" using u by (metis list.collapse)
  with g show ?thesis by (metis append_Cons append_Nil set_takeWhileD takeWhile_dropWhile_id)
qed

end
