(* ===== verification/Renderers.thy ===== *)
theory Renderers
  imports Cluster
begin

text \<open>
  The Chaos Mesh renderers, \<open>agents/chaos/faults/_render.py\<close>, \<open>pod.py\<close>, \<open>network.py\<close>, \<open>stress.py\<close>
  and \<open>registry.py\<close>: pure functions from a fault to a resource body, failing only where a parameter
  does not convert to an integer or a mapping. \<open>fr\<close> prints a float parameter.
\<close>

record render_context =
  rx_namespace :: string
  rx_experiment_id :: string

type_synonym renderer = "(real \<Rightarrow> string) \<Rightarrow> fault_spec \<Rightarrow> render_context \<Rightarrow> crd res"

definition last_chars :: "nat \<Rightarrow> string \<Rightarrow> string" where
  "last_chars n s = drop (length s - n) s"

definition resource_name :: "fault_spec \<Rightarrow> render_context \<Rightarrow> string" where
  "resource_name f x =
     lower (replace_char CHR ''_'' ''-'' (replace_char CHR ''.'' ''-'' (fs_name f))) @ ''-'' @
       last_chars 8 (rx_experiment_id x)"

definition common_labels :: "fault_spec \<Rightarrow> render_context \<Rightarrow> (string, string) dict" where
  "common_labels f x =
     [(''chaos.kosta.dev/experiment-id'', rx_experiment_id x),
      (''chaos.kosta.dev/fault-name'', fs_name f),
      (''chaos.kosta.dev/fault-category'', fault_category_value (fs_category f))]"

definition chaos_mesh_api :: string where
  "chaos_mesh_api = ''chaos-mesh.org/v1alpha1''"

text \<open>The body around a \<open>spec\<close>: \<open>_metadata\<close> and the two fixed fields.\<close>

definition body_with :: "string \<Rightarrow> fault_spec \<Rightarrow> render_context \<Rightarrow> (string, pyval) dict \<Rightarrow> crd" where
  "body_with kind f x spec =
     \<lparr>cr_api_version = chaos_mesh_api, cr_kind = kind, cr_name = resource_name f x,
      cr_namespace = rx_namespace x, cr_labels = common_labels f x,
      cr_annotations = [(''chaos.kosta.dev/rationale'', fs_rationale f)],
      cr_resource_version = None, cr_spec = spec, cr_status = None\<rparr>"

definition duration_str :: "fault_spec \<Rightarrow> pyval" where
  "duration_str f = PStr (int_str (fs_duration_seconds f) @ ''s'')"

definition str_dict :: "(string, string) dict \<Rightarrow> pyval" where
  "str_dict d = PDict (map (\<lambda>(k, v). (k, PStr v)) d)"

definition selector :: "fault_spec \<Rightarrow> render_context \<Rightarrow> pyval" where
  "selector f x =
     PDict [(''namespaces'', PList [PStr (rx_namespace x)]),
            (''labelSelectors'', str_dict (fs_target_selector f))]"

section \<open>Pod\<close>

definition render_pod_kill :: renderer where
  "render_pod_kill fr f x =
     res_bind (int_param (fs_parameters f) ''grace_period_seconds'' 0) (\<lambda>g.
       Inr (body_with ''PodChaos'' f x
         [(''action'', PStr ''pod-kill''),
          (''mode'', param (fs_parameters f) ''mode'' (PStr ''one'')),
          (''selector'', selector f x),
          (''gracePeriod'', PInt g)]))"

definition render_pod_failure :: renderer where
  "render_pod_failure fr f x =
     Inr (body_with ''PodChaos'' f x
       [(''action'', PStr ''pod-failure''),
        (''mode'', param (fs_parameters f) ''mode'' (PStr ''one'')),
        (''selector'', selector f x),
        (''duration'', duration_str f)])"

section \<open>Network\<close>

definition direction :: "(real \<Rightarrow> string) \<Rightarrow> fault_spec \<Rightarrow> pyval" where
  "direction fr f = PStr (py_str fr (param (fs_parameters f) ''direction'' (PStr ''to'')))"

definition correlation :: "(real \<Rightarrow> string) \<Rightarrow> fault_spec \<Rightarrow> pyval" where
  "correlation fr f = PStr (py_str fr (param (fs_parameters f) ''correlation'' (PStr ''0'')))"

definition render_network_loss :: renderer where
  "render_network_loss fr f x =
     (let pct = param (fs_parameters f) ''loss_percent'' (PInt 100) in
      Inr (body_with ''NetworkChaos'' f x
        [(''action'', PStr ''loss''),
         (''mode'', param (fs_parameters f) ''mode'' (PStr ''all'')),
         (''selector'', selector f x),
         (''direction'', direction fr f),
         (''loss'', PDict [(''loss'', PStr (py_str fr pct)), (''correlation'', correlation fr f)]),
         (''duration'', duration_str f)]))"

definition render_network_delay :: renderer where
  "render_network_delay fr f x =
     (let latency = param (fs_parameters f) ''latency_ms'' (PInt 100);
          jitter = param (fs_parameters f) ''jitter_ms'' (PInt 0) in
      Inr (body_with ''NetworkChaos'' f x
        [(''action'', PStr ''delay''),
         (''mode'', param (fs_parameters f) ''mode'' (PStr ''all'')),
         (''selector'', selector f x),
         (''direction'', direction fr f),
         (''delay'', PDict
           [(''latency'', PStr (py_str fr latency @ ''ms'')),
            (''jitter'', PStr (py_str fr jitter @ ''ms'')),
            (''correlation'', correlation fr f)]),
         (''duration'', duration_str f)]))"

text \<open>\<open>dict(other)\<close> for \<open>other = p or {}\<close>: a mapping, or a list of pairs with string keys.\<close>

fun pair_of :: "pyval \<Rightarrow> (string \<times> pyval) res" where
  "pair_of (PList [PStr k, v]) = Inr (k, v)"
| "pair_of v = Inl (Exn ''TypeError'' ''cannot convert dictionary update sequence element to a sequence'')"

fun to_dict :: "pyval \<Rightarrow> (string, pyval) dict res" where
  "to_dict (PDict d) = Inr d"
| "to_dict (PList xs) =
     res_bind (res_map pair_of xs) (\<lambda>kvs. Inr (foldl (\<lambda>d (k, v). dict_set k v d) [] kvs))"
| "to_dict v =
     (if truthy v then Inl (Exn ''TypeError'' ''object is not iterable'') else Inr [])"

definition render_network_partition :: renderer where
  "render_network_partition fr f x =
     res_bind (to_dict (param (fs_parameters f) ''target_selector_other'' (PDict []))) (\<lambda>other.
       Inr (body_with ''NetworkChaos'' f x
         [(''action'', PStr ''partition''),
          (''mode'', param (fs_parameters f) ''mode'' (PStr ''all'')),
          (''selector'', selector f x),
          (''direction'', PStr ''both''),
          (''target'', PDict
            [(''mode'', PStr ''all''),
             (''selector'', PDict
               [(''namespaces'', PList [PStr (rx_namespace x)]), (''labelSelectors'', PDict other)])]),
          (''duration'', duration_str f)]))"

section \<open>Stress\<close>

definition stress_body :: "fault_spec \<Rightarrow> render_context \<Rightarrow> string \<Rightarrow> (string, pyval) dict \<Rightarrow> crd" where
  "stress_body f x what stressor =
     body_with ''StressChaos'' f x
       [(''mode'', param (fs_parameters f) ''mode'' (PStr ''one'')),
        (''selector'', selector f x),
        (''stressors'', PDict [(what, PDict stressor)]),
        (''duration'', duration_str f)]"

definition render_stress_cpu :: renderer where
  "render_stress_cpu fr f x =
     res_bind (int_param (fs_parameters f) ''workers'' 1) (\<lambda>w.
     res_bind (int_param (fs_parameters f) ''load_percent'' 100) (\<lambda>l.
       Inr (stress_body f x ''cpu'' [(''workers'', PInt w), (''load'', PInt l)])))"

definition render_stress_memory :: renderer where
  "render_stress_memory fr f x =
     (let size = param (fs_parameters f) ''size'' (PStr ''256MB'') in
      res_bind (int_param (fs_parameters f) ''workers'' 1) (\<lambda>w.
        Inr (stress_body f x ''memory'' [(''workers'', PInt w), (''size'', PStr (py_str fr size))])))"

section \<open>Registry\<close>

definition RENDERERS :: "(string, renderer) dict" where
  "RENDERERS =
     [(''pod.kill'', render_pod_kill), (''pod.failure'', render_pod_failure),
      (''network.loss'', render_network_loss), (''network.delay'', render_network_delay),
      (''network.partition'', render_network_partition),
      (''stress.cpu'', render_stress_cpu), (''stress.memory'', render_stress_memory)]"

definition has_renderer :: "string \<Rightarrow> bool" where
  "has_renderer n = dict_has RENDERERS n"

definition render :: renderer where
  "render fr f x =
     (if \<not> in_catalogue (fs_name f)
      then Inl (Exn ''KeyError'' (''fault '' @ repr_str (fs_name f) @ '' not in catalogue''))
      else (case dict_get RENDERERS (fs_name f) of
        None \<Rightarrow>
          Inl (Exn ''KeyError''
            (''fault '' @ repr_str (fs_name f) @ '' is in catalogue but has no renderer '' @
             ''(milestone-3 covers '' @ repr_strs (sort (map fst RENDERERS)) @ '')''))
      | Some r \<Rightarrow> r fr f x))"

definition unrendered_faults :: "string list" where
  "unrendered_faults = sorted_set (filter (\<lambda>n. n \<notin> set (map fst RENDERERS)) (map fst CATALOGUE))"

section \<open>What every rendered body satisfies\<close>

text \<open>The kinds the cleanup sweeps.\<close>

definition chaos_mesh_kinds :: "string list" where
  "chaos_mesh_kinds =
     [''PodChaos'', ''NetworkChaos'', ''IOChaos'', ''StressChaos'', ''DNSChaos'', ''HTTPChaos'',
      ''TimeChaos'', ''KernelChaos'']"

definition well_labelled :: "fault_spec \<Rightarrow> render_context \<Rightarrow> crd \<Rightarrow> bool" where
  "well_labelled f x r \<longleftrightarrow>
     cr_api_version r = chaos_mesh_api \<and> cr_kind r \<in> set chaos_mesh_kinds \<and>
     cr_namespace r = rx_namespace x \<and> cr_name r = resource_name f x \<and>
     cr_labels r = common_labels f x"

lemma body_well_labelled:
  "kind \<in> set chaos_mesh_kinds \<Longrightarrow> well_labelled f x (body_with kind f x spec)"
  by (simp add: well_labelled_def body_with_def)

lemmas renderer_defs = render_pod_kill_def render_pod_failure_def render_network_loss_def
  render_network_delay_def render_network_partition_def render_stress_cpu_def
  render_stress_memory_def stress_body_def Let_def

lemma renderer_well_labelled:
  assumes "(n, r) \<in> set RENDERERS" "r fr f x = Inr body"
  shows "well_labelled f x body"
  using assms
  by (auto simp: RENDERERS_def renderer_defs res_bind_Inr_iff
      intro!: body_well_labelled) (simp_all add: chaos_mesh_kinds_def)

lemma render_well_labelled:
  assumes "render fr f x = Inr body"
  shows "well_labelled f x body"
proof -
  obtain r where r: "dict_get RENDERERS (fs_name f) = Some r" "r fr f x = Inr body"
    using assms by (auto simp: render_def split: option.splits if_splits)
  have "dict_wf RENDERERS" by (simp add: RENDERERS_def dict_wf_def)
  from mem_dict_get [OF this, of "fs_name f" r] r renderer_well_labelled show ?thesis by simp
qed

text \<open>The body's kind is the one the catalogue promises for the fault.\<close>

lemma rendered_are_catalogued: "has_renderer n \<Longrightarrow> in_catalogue n"
  by (auto simp: has_renderer_def RENDERERS_def dict_has_iff dict_get_Cons in_catalogue_eval
      split: if_splits)

lemma length_replace_char [simp]: "length (replace_char c [d] s) = length s"
  by (induction s) (simp_all add: replace_char_def)

lemma resource_name_length:
  "8 \<le> length (rx_experiment_id x) \<Longrightarrow>
     length (resource_name f x) = length (fs_name f) + 9"
  by (simp add: resource_name_def last_chars_def)

end
