(* ===== verification/Chaos_Agent.thy ===== *)
theory Chaos_Agent
  imports Renderers
begin

text \<open>
  The Kubernetes chaos agent, \<open>agents/chaos/agent.py\<close>: \<open>execute\<close> (preflight, then for each fault
  render, apply, wait, delete; on an exception clean up and report), \<open>cleanup\<close> and the annotation
  lookup, over any \<open>cluster_io\<close>. Its guarantee is proved once for a cluster that keeps
  \<open>cluster_contract\<close> and obtained for the in-memory cluster by interpretation: a run that succeeds
  leaves the cluster without the faults' resources, and after a sweep in which no call failed no
  resource of the experiment is left.
\<close>

record 'e chaos_agent =
  ca_cluster :: "'e cluster_io option"
  ca_sleep :: "int \<Rightarrow> 'e \<Rightarrow> unit res \<times> 'e"
  ca_now :: "'e \<Rightarrow> int"
  ca_float_repr :: "real \<Rightarrow> string"

definition chaos_event :: "int \<Rightarrow> string \<Rightarrow> timeline_kind \<Rightarrow> string \<Rightarrow> timeline_event" where
  "chaos_event t name ev detail =
     \<lparr>te_timestamp = t, te_fault_name = name, te_event = ev, te_detail = detail\<rparr>"

definition chaos_fail :: "int \<Rightarrow> experiment_plan \<Rightarrow> string \<Rightarrow> chaos_timeline" where
  "chaos_fail t p msg =
     \<lparr>ct_experiment_id = ep_experiment_id p, ct_events = [chaos_event t ''(preflight)'' TE_error msg],
      ct_success = False, ct_error = Some msg\<rparr>"

section \<open>Preflight\<close>

fun preflight_faults :: "fault_spec list \<Rightarrow> string option" where
  "preflight_faults [] = None"
| "preflight_faults (f # fs) =
     (if \<not> in_catalogue (fs_name f)
      then Some (''unknown fault '' @ repr_str (fs_name f) @ ''; not in catalogue'')
      else if \<not> has_renderer (fs_name f)
      then Some (''fault '' @ repr_str (fs_name f) @ '' has no renderer yet'')
      else preflight_faults fs)"

definition preflight_plan :: "experiment_plan \<Rightarrow> string option" where
  "preflight_plan p =
     (case preflight_faults (ep_faults p) of
        Some m \<Rightarrow> Some m
      | None \<Rightarrow>
          (if length (ep_faults p) > 1 \<and> \<not> sc_allow_multi_fault (ep_safety p)
           then Some ''plan has multiple faults but allow_multi_fault is False'' else None))"

section \<open>The fault sequence\<close>

text \<open>One fault: the events so far are returned on every path.\<close>

definition run_fault ::
  "'e chaos_agent \<Rightarrow> 'e cluster_io \<Rightarrow> render_context \<Rightarrow> fault_spec \<Rightarrow> timeline_event list \<Rightarrow> 'e \<Rightarrow>
    unit res \<times> timeline_event list \<times> 'e" where
  "run_fault ag io x f evs e =
     (let evs1 = evs @ [chaos_event (ca_now ag e) (fs_name f) TE_scheduled []] in
      case render (ca_float_repr ag) f x of
        Inl ex \<Rightarrow> (Inl ex, evs1, e)
      | Inr body \<Rightarrow>
          (case ci_apply io body e of
             (Inl ex, e1) \<Rightarrow> (Inl ex, evs1, e1)
           | (Inr applied, e1) \<Rightarrow>
               (let evs2 = evs1 @ [chaos_event (ca_now ag e1) (fs_name f) TE_started
                      (cr_kind applied @ ''/'' @ cr_name applied)] in
                case ca_sleep ag (fs_duration_seconds f) e1 of
                  (Inl ex, e2) \<Rightarrow> (Inl ex, evs2, e2)
                | (Inr u, e2) \<Rightarrow>
                    (case ci_delete io (crd_key_of body) e2 of
                       (Inl ex, e3) \<Rightarrow> (Inl ex, evs2, e3)
                     | (Inr deleted, e3) \<Rightarrow>
                         (Inr (), evs2 @ [chaos_event (ca_now ag e3) (fs_name f) TE_cleaned_up
                            (if deleted then ''deleted'' else ''already gone'')], e3)))))"

fun run_faults ::
  "'e chaos_agent \<Rightarrow> 'e cluster_io \<Rightarrow> render_context \<Rightarrow> fault_spec list \<Rightarrow> timeline_event list \<Rightarrow> 'e \<Rightarrow>
    unit res \<times> timeline_event list \<times> 'e" where
  "run_faults ag io x [] evs e = (Inr (), evs, e)"
| "run_faults ag io x (f # fs) evs e =
     (case run_fault ag io x f evs e of
        (Inl ex, evs1, e1) \<Rightarrow> (Inl ex, evs1, e1)
      | (Inr u, evs1, e1) \<Rightarrow> run_faults ag io x fs evs1 e1)"

definition quiet_window :: "'e chaos_agent \<Rightarrow> int \<Rightarrow> 'e \<Rightarrow> unit res \<times> 'e" where
  "quiet_window ag n e = (if n > 0 then ca_sleep ag n e else (Inr (), e))"

definition fault_sequence ::
  "'e chaos_agent \<Rightarrow> 'e cluster_io \<Rightarrow> experiment_plan \<Rightarrow> 'e \<Rightarrow> unit res \<times> timeline_event list \<times> 'e" where
  "fault_sequence ag io p e =
     (let x = \<lparr>rx_namespace = sc_namespace (ep_safety p), rx_experiment_id = ep_experiment_id p\<rparr> in
      case quiet_window ag (ep_quiet_window_pre_seconds p) e of
        (Inl ex, e1) \<Rightarrow> (Inl ex, [], e1)
      | (Inr u, e1) \<Rightarrow>
          (case run_faults ag io x (ep_faults p) [] e1 of
             (Inl ex, evs, e2) \<Rightarrow> (Inl ex, evs, e2)
           | (Inr u, evs, e2) \<Rightarrow>
               (case quiet_window ag (ep_quiet_window_post_seconds p) e2 of (r, e3) \<Rightarrow> (r, evs, e3))))"

section \<open>Cleanup\<close>

definition experiment_labels :: "experiment_plan \<Rightarrow> (string, string) dict" where
  "experiment_labels p = [(''chaos.kosta.dev/experiment-id'', ep_experiment_id p)]"

text \<open>
  An \<open>Exception\<close> of one deletion or listing is dropped. The result is the exception that is not
  dropped, and whether every call succeeded (the log tells; the code does not use it).
\<close>

fun delete_all :: "'e cluster_io \<Rightarrow> crd list \<Rightarrow> bool \<Rightarrow> 'e \<Rightarrow> pyexn option \<times> bool \<times> 'e" where
  "delete_all io [] ok e = (None, ok, e)"
| "delete_all io (r # rs) ok e =
     (case ci_delete io (crd_key_of r) e of
        (Inr b, e1) \<Rightarrow> delete_all io rs ok e1
      | (Inl x, e1) \<Rightarrow> (if is_exception x then delete_all io rs False e1 else (Some x, False, e1)))"

fun sweep_kinds ::
  "'e cluster_io \<Rightarrow> experiment_plan \<Rightarrow> string list \<Rightarrow> bool \<Rightarrow> 'e \<Rightarrow> pyexn option \<times> bool \<times> 'e" where
  "sweep_kinds io p [] ok e = (None, ok, e)"
| "sweep_kinds io p (kd # kds) ok e =
     (case ci_list io chaos_mesh_api kd (sc_namespace (ep_safety p)) (experiment_labels p) e of
        (Inl x, e1) \<Rightarrow> (if is_exception x then sweep_kinds io p kds False e1 else (Some x, False, e1))
      | (Inr rs, e1) \<Rightarrow>
          (case delete_all io rs ok e1 of
             (Some x, ok1, e2) \<Rightarrow> (Some x, ok1, e2)
           | (None, ok1, e2) \<Rightarrow> sweep_kinds io p kds ok1 e2))"

definition sweep :: "'e cluster_io \<Rightarrow> experiment_plan \<Rightarrow> 'e \<Rightarrow> pyexn option \<times> bool \<times> 'e" where
  "sweep io p e = sweep_kinds io p chaos_mesh_kinds True e"

definition chaos_cleanup :: "'e chaos_agent \<Rightarrow> experiment_plan \<Rightarrow> 'e \<Rightarrow> unit res \<times> 'e" where
  "chaos_cleanup ag p e =
     (case ca_cluster ag of
        None \<Rightarrow> (Inr (), e)
      | Some io \<Rightarrow>
          (case sweep io p e of (None, ok, e1) \<Rightarrow> (Inr (), e1) | (Some x, ok, e1) \<Rightarrow> (Inl x, e1)))"

section \<open>Execution\<close>

text \<open>The \<open>except Exception\<close> branch of \<open>execute\<close>; a cleanup that raises an \<open>Exception\<close> is logged.\<close>

definition report_failure ::
  "'e chaos_agent \<Rightarrow> experiment_plan \<Rightarrow> pyexn \<Rightarrow> timeline_event list \<Rightarrow> 'e \<Rightarrow> chaos_timeline res \<times> 'e" where
  "report_failure ag p ex evs e =
     (let tl = \<lparr>ct_experiment_id = ep_experiment_id p,
                ct_events = evs @ [chaos_event (ca_now ag e) ''(orchestration)'' TE_error (exn_repr ex)],
                ct_success = False, ct_error = Some (exn_repr ex)\<rparr>
      in case chaos_cleanup ag p e of
           (Inr u, e1) \<Rightarrow> (Inr tl, e1)
         | (Inl y, e1) \<Rightarrow> (if is_exception y then (Inr tl, e1) else (Inl y, e1)))"

definition chaos_execute :: "'e chaos_agent \<Rightarrow> experiment_plan \<Rightarrow> 'e \<Rightarrow> chaos_timeline res \<times> 'e" where
  "chaos_execute ag p e =
     (case ca_cluster ag of
        None \<Rightarrow>
          (Inr \<lparr>ct_experiment_id = ep_experiment_id p, ct_events = [], ct_success = False,
                ct_error = Some ''no cluster backend configured''\<rparr>, e)
      | Some io \<Rightarrow>
          (case preflight_plan p of
             Some m \<Rightarrow> (Inr (chaos_fail (ca_now ag e) p m), e)
           | None \<Rightarrow>
               (case fault_sequence ag io p e of
                  (Inr u, evs, e1) \<Rightarrow>
                    (Inr \<lparr>ct_experiment_id = ep_experiment_id p, ct_events = evs, ct_success = True,
                          ct_error = None\<rparr>, e1)
                | (Inl ex, evs, e1) \<Rightarrow>
                    (if is_exception ex then report_failure ag p ex evs e1 else (Inl ex, e1)))))"

definition chaos_annotations ::
  "'e chaos_agent \<Rightarrow> string \<Rightarrow> 'e \<Rightarrow> (string, string) dict option res \<times> 'e" where
  "chaos_annotations ag ns e =
     (case ca_cluster ag of None \<Rightarrow> (Inr None, e) | Some io \<Rightarrow> ci_annotations io ns e)"

section \<open>Preflight and timelines\<close>

lemma preflight_faults_None_iff:
  "preflight_faults fs = None \<longleftrightarrow> (\<forall>f \<in> set fs. has_renderer (fs_name f))"
  using rendered_are_catalogued by (induction fs) auto

text \<open>The events of one complete fault.\<close>

definition fault_events :: "timeline_event list \<Rightarrow> string \<Rightarrow> bool" where
  "fault_events evs n \<longleftrightarrow>
     map te_event evs = [TE_scheduled, TE_started, TE_cleaned_up] \<and> (\<forall>ev \<in> set evs. te_fault_name ev = n)"

lemma run_fault_success:
  assumes "run_fault ag io x f evs e = (Inr u, evs', e')"
  obtains body applied e1 e2 d v where "render (ca_float_repr ag) f x = Inr body"
    "ci_apply io body e = (Inr applied, e1)" "ca_sleep ag (fs_duration_seconds f) e1 = (Inr v, e2)"
    "ci_delete io (crd_key_of body) e2 = (Inr d, e')"
    "evs' = evs @ [chaos_event (ca_now ag e) (fs_name f) TE_scheduled [],
       chaos_event (ca_now ag e1) (fs_name f) TE_started (cr_kind applied @ ''/'' @ cr_name applied),
       chaos_event (ca_now ag e') (fs_name f) TE_cleaned_up (if d then ''deleted'' else ''already gone'')]"
proof -
  obtain body where r: "render (ca_float_repr ag) f x = Inr body"
    using assms by (cases "render (ca_float_repr ag) f x") (simp_all add: run_fault_def Let_def)
  obtain q1 e1 where a: "ci_apply io body e = (q1, e1)" by (cases "ci_apply io body e")
  obtain applied where q1: "q1 = Inr applied" using assms r a by (cases q1) (simp_all add: run_fault_def Let_def)
  obtain q2 e2 where sl: "ca_sleep ag (fs_duration_seconds f) e1 = (q2, e2)"
    by (cases "ca_sleep ag (fs_duration_seconds f) e1")
  obtain v where q2: "q2 = Inr v" using assms r a q1 sl by (cases q2) (simp_all add: run_fault_def Let_def)
  obtain q3 e3 where dl: "ci_delete io (crd_key_of body) e2 = (q3, e3)"
    by (cases "ci_delete io (crd_key_of body) e2")
  obtain d where q3: "q3 = Inr d" using assms r a q1 sl q2 dl by (cases q3) (simp_all add: run_fault_def Let_def)
  show ?thesis
    by (rule that [of body applied e1 v e2 d])
      (use assms r a q1 sl q2 dl q3 in \<open>auto simp: run_fault_def Let_def\<close>)
qed

lemma run_fault_events:
  assumes "run_fault ag io x f evs e = (Inr u, evs', e')"
  shows "\<exists>es. evs' = evs @ es \<and> fault_events es (fs_name f)"
proof -
  have ev: "fault_events [chaos_event t0 n TE_scheduled [], chaos_event t1 n TE_started m,
      chaos_event t2 n TE_cleaned_up d] n" for t0 t1 t2 n m d
    by (simp add: fault_events_def chaos_event_def)
  show ?thesis
    by (rule run_fault_success [OF assms], rule exI, rule conjI, assumption, rule ev)
qed

lemma run_faults_events:
  "run_faults ag io x fs evs e = (Inr u, evs', e') \<Longrightarrow>
     \<exists>ess. evs' = evs @ concat ess \<and> list_all2 (\<lambda>es f. fault_events es (fs_name f)) ess fs"
proof (induction ag io x fs evs e rule: run_faults.induct)
  case (1 ag io x evs e)
  then show ?case by (intro exI [of _ "[]"]) simp
next
  case (2 ag io x f fs evs e)
  obtain r evs1 e1 where f: "run_fault ag io x f evs e = (r, evs1, e1)" by (metis prod_cases3)
  then obtain v where r: "r = Inr v" using 2(2) by (cases r) auto
  then have rest: "run_faults ag io x fs evs1 e1 = (Inr u, evs', e')" using 2(2) f by simp
  obtain es where es: "evs1 = evs @ es" "fault_events es (fs_name f)"
    using run_fault_events [OF f [unfolded r]] by (elim exE conjE)
  obtain ess where "evs' = evs1 @ concat ess" "list_all2 (\<lambda>es f. fault_events es (fs_name f)) ess fs"
    using 2(1) [OF f [symmetric] r refl rest] by (elim exE conjE)
  then show ?case using es by (intro exI [of _ "es # ess"]) simp
qed

section \<open>What the agent leaves in the cluster\<close>

text \<open>A resource a sweep of the plan's experiment finds in the kinds \<open>kds\<close>.\<close>

definition swept :: "experiment_plan \<Rightarrow> string list \<Rightarrow> crd \<Rightarrow> bool" where
  "swept p kds r \<longleftrightarrow>
     cr_api_version r = chaos_mesh_api \<and> cr_kind r \<in> set kds \<and>
     cr_namespace r = sc_namespace (ep_safety p) \<and> has_labels (experiment_labels p) r"

text \<open>The keys of the bodies a fault list renders to.\<close>

definition body_keys ::
  "(real \<Rightarrow> string) \<Rightarrow> render_context \<Rightarrow> fault_spec list \<Rightarrow> crd_key set" where
  "body_keys fr x fs = {crd_key_of body | body f. f \<in> set fs \<and> render fr f x = Inr body}"

definition plan_context :: "experiment_plan \<Rightarrow> render_context" where
  "plan_context p =
     \<lparr>rx_namespace = sc_namespace (ep_safety p), rx_experiment_id = ep_experiment_id p\<rparr>"

locale chaos_world = cluster_contract io view inv
  for io :: "'e cluster_io" and view inv +
  fixes ag :: "'e chaos_agent"
  assumes cluster: "ca_cluster ag = Some io"
    and sleep_keeps: "inv e \<Longrightarrow> ca_sleep ag n e = (r, e') \<Longrightarrow> inv e' \<and> view e' = view e"
begin

lemma delete_all_view:
  "delete_all io rs ok e = (x, ok', e') \<Longrightarrow> inv e \<Longrightarrow>
     inv e' \<and> (ok' \<longrightarrow> ok) \<and>
     (\<forall>k. view e' k = view e k \<or> view e' k = None \<and> k \<in> crd_key_of ` set rs) \<and>
     (ok' \<longrightarrow> x = None \<and> (\<forall>r \<in> set rs. view e' (crd_key_of r) = None))"
proof (induction rs arbitrary: ok e)
  case (Cons r rs)
  obtain q e1 where d: "ci_delete io (crd_key_of r) e = (q, e1)" by (cases "ci_delete io (crd_key_of r) e")
  show ?case
  proof (cases q)
    case (Inr b)
    then have v1: "inv e1" "view e1 = (view e)(crd_key_of r := None)"
      using delete_ok [OF Cons.prems(2) d [unfolded Inr]] by simp_all
    have "delete_all io rs ok e1 = (x, ok', e')" using Cons.prems(1) d Inr by simp
    from Cons.IH [OF this v1(1)] v1(2) show ?thesis by (auto simp: fun_upd_apply split: if_splits)
  next
    case (Inl y)
    then have v1: "inv e1" "view e1 = view e" using delete_failed [OF Cons.prems(2) d [unfolded Inl]] by simp_all
    show ?thesis
    proof (cases "is_exception y")
      case True
      then have "delete_all io rs False e1 = (x, ok', e')" using Cons.prems(1) d Inl by simp
      from Cons.IH [OF this v1(1)] v1(2) show ?thesis by auto
    next
      case False
      with Cons.prems(1) d Inl v1 show ?thesis by auto
    qed
  qed
qed auto

lemma sweep_kinds_view:
  "sweep_kinds io p kds ok e = (x, ok', e') \<Longrightarrow> inv e \<Longrightarrow>
     inv e' \<and> (ok' \<longrightarrow> ok) \<and>
     (\<forall>k. view e' k = view e k \<or> view e' k = None \<and> (\<exists>r. view e k = Some r \<and> swept p kds r)) \<and>
     (ok' \<longrightarrow> x = None \<and> (\<forall>k r. view e' k = Some r \<longrightarrow> \<not> swept p kds r))"
proof (induction kds arbitrary: ok e)
  case Nil
  then show ?case by (auto simp: swept_def)
next
  case (Cons kd kds)
  let ?ls = "ci_list io chaos_mesh_api kd (sc_namespace (ep_safety p)) (experiment_labels p) e"
  obtain q e1 where l: "?ls = (q, e1)" by (cases ?ls)
  have v1: "inv e1" "view e1 = view e" using list_keeps [OF Cons.prems(2) l] by simp_all
  show ?case
  proof (cases q)
    case (Inl y)
    show ?thesis
    proof (cases "is_exception y")
      case True
      then have "sweep_kinds io p kds False e1 = (x, ok', e')" using Cons.prems(1) l Inl by simp
      from Cons.IH [OF this v1(1)] v1(2) show ?thesis by (auto simp: swept_def)
    next
      case False
      with Cons.prems(1) l Inl v1 show ?thesis by auto
    qed
  next
    case (Inr rs)
    obtain z ok1 e2 where d: "delete_all io rs ok e1 = (z, ok1, e2)" by (metis prod_cases3)
    note dv = delete_all_view [OF d v1(1)]
    have mem: "r \<in> set rs \<longleftrightarrow> view e (crd_key_of r) = Some r \<and> swept p [kd] r" for r
      using list_ok [OF Cons.prems(2) l [unfolded Inr], of r] by (auto simp: swept_def)
    have gone: "view e2 k = view e k \<or>
        view e2 k = None \<and> (\<exists>r. view e k = Some r \<and> swept p (kd # kds) r)" for k
      using dv v1(2) mem by (fastforce simp: swept_def)
    show ?thesis
    proof (cases z)
      case (Some y)
      with Cons.prems(1) l Inr d have "x = Some y" "ok' = ok1" "e' = e2" by simp_all
      with dv gone Some show ?thesis by auto
    next
      case None
      then have "sweep_kinds io p kds ok1 e2 = (x, ok', e')" using Cons.prems(1) l Inr d by simp
      note ih = Cons.IH [OF this dv [THEN conjunct1]]
      have step: "view e' k = view e k \<or>
          view e' k = None \<and> (\<exists>r. view e k = Some r \<and> swept p (kd # kds) r)" for k
      proof -
        have "view e' k = view e2 k \<or> view e' k = None \<and> (\<exists>r. view e2 k = Some r \<and> swept p kds r)"
          using ih by blast
        moreover have "swept p kds r \<Longrightarrow> swept p (kd # kds) r" for r by (auto simp: swept_def)
        ultimately show ?thesis using gone [of k] by (elim disjE conjE exE) auto
      qed
      have "\<not> swept p (kd # kds) r" if "ok'" "view e' k = Some r" for k r
      proof
        assume sw: "swept p (kd # kds) r"
        have "\<not> swept p kds r" using ih that by blast
        then have k: "swept p [kd] r" using sw by (auto simp: swept_def)
        have e: "view e k = Some r" using step [of k] that(2) by auto
        then have "crd_key_of r = k" using keyed Cons.prems(2) by blast
        with e k mem have "r \<in> set rs" by simp
        then have "view e2 k = None" using dv ih that(1) \<open>crd_key_of r = k\<close> by auto
        then show False using ih that(2) by (metis option.distinct(1))
      qed
      with ih dv step show ?thesis by blast
    qed
  qed
qed

lemma sweep_view:
  assumes "sweep io p e = (x, ok, e')" "inv e"
  shows "inv e' \<and>
    (\<forall>k. view e' k = view e k \<or>
       view e' k = None \<and> (\<exists>r. view e k = Some r \<and> swept p chaos_mesh_kinds r)) \<and>
    (ok \<longrightarrow> x = None \<and> (\<forall>k r. view e' k = Some r \<longrightarrow> \<not> swept p chaos_mesh_kinds r))"
  using sweep_kinds_view [OF assms(1) [unfolded sweep_def] assms(2)] by blast

lemma run_fault_view:
  assumes "run_fault ag io x f evs e = (Inr u, evs', e')" "inv e"
  shows "inv e' \<and> (\<exists>body. render (ca_float_repr ag) f x = Inr body \<and>
    view e' = (view e)(crd_key_of body := None))"
  using assms(1)
proof (rule run_fault_success)
  fix body applied e1 e2 d v
  assume a: "render (ca_float_repr ag) f x = Inr body" "ci_apply io body e = (Inr applied, e1)"
    "ca_sleep ag (fs_duration_seconds f) e1 = (Inr v, e2)"
    "ci_delete io (crd_key_of body) e2 = (Inr d, e')"
  have "inv e2 \<and> view e2 = view e1"
    using apply_ok [OF assms(2) a(2)] sleep_keeps a(3) by blast
  with apply_ok [OF assms(2) a(2)] delete_ok [of e2, OF _ a(4)] a(1) show ?thesis by auto
qed

lemma run_faults_view:
  "run_faults ag io x fs evs e = (Inr u, evs', e') \<Longrightarrow> inv e \<Longrightarrow>
     inv e' \<and> (\<forall>k. view e' k = (if k \<in> body_keys (ca_float_repr ag) x fs then None else view e k))"
proof (induction fs arbitrary: evs e)
  case (Cons f fs)
  obtain r evs1 e1 where f: "run_fault ag io x f evs e = (r, evs1, e1)" by (metis prod_cases3)
  then obtain v where r: "r = Inr v" using Cons.prems(1) by (cases r) auto
  then have rest: "run_faults ag io x fs evs1 e1 = (Inr u, evs', e')" using Cons.prems(1) f by simp
  obtain body where b: "inv e1" "render (ca_float_repr ag) f x = Inr body"
      "view e1 = (view e)(crd_key_of body := None)"
    using run_fault_view [OF f [unfolded r] Cons.prems(2)] by blast
  have "body_keys (ca_float_repr ag) x (f # fs) = insert (crd_key_of body) (body_keys (ca_float_repr ag) x fs)"
    using b(2) by (auto simp: body_keys_def)
  with Cons.IH [OF rest b(1)] b(3) show ?case by auto
qed (simp add: body_keys_def)

lemma quiet_view: "quiet_window ag n e = (r, e') \<Longrightarrow> inv e \<Longrightarrow> inv e' \<and> view e' = view e"
  using sleep_keeps by (auto simp: quiet_window_def split: if_splits)

lemma run_fault_inv:
  assumes "run_fault ag io x f evs e = (r, evs', e')" "inv e"
  shows "inv e'"
proof (cases "render (ca_float_repr ag) f x")
  case (Inl y)
  with assms show ?thesis by (simp add: run_fault_def Let_def)
next
  case (Inr body)
  obtain q1 e1 where a: "ci_apply io body e = (q1, e1)" by (cases "ci_apply io body e")
  have i1: "inv e1" using apply_ok [of e body _ e1] apply_failed [of e body _ e1] a assms(2) by (cases q1) auto
  obtain q2 e2 where sl: "ca_sleep ag (fs_duration_seconds f) e1 = (q2, e2)"
    by (cases "ca_sleep ag (fs_duration_seconds f) e1")
  have i2: "inv e2" using sleep_keeps [OF i1 sl] by simp
  obtain q3 e3 where dl: "ci_delete io (crd_key_of body) e2 = (q3, e3)"
    by (cases "ci_delete io (crd_key_of body) e2")
  have i3: "inv e3" using delete_view [OF i2 dl] by simp
  show ?thesis
    using assms(1) Inr a sl dl i1 i2 i3
    by (cases q1; cases q2; cases q3) (auto simp: run_fault_def Let_def)
qed

lemma run_faults_inv: "run_faults ag io x fs evs e = (r, evs', e') \<Longrightarrow> inv e \<Longrightarrow> inv e'"
proof (induction fs arbitrary: evs e)
  case (Cons f fs)
  obtain q evs1 e1 where f: "run_fault ag io x f evs e = (q, evs1, e1)" by (metis prod_cases3)
  note i = run_fault_inv [OF f Cons.prems(2)]
  show ?case using Cons.prems(1) f i Cons.IH [of evs1 e1] by (cases q) auto
qed simp

lemma fault_sequence_inv:
  assumes "fault_sequence ag io p e = (r, evs, e')" "inv e"
  shows "inv e'"
proof -
  let ?x = "\<lparr>rx_namespace = sc_namespace (ep_safety p), rx_experiment_id = ep_experiment_id p\<rparr>"
  obtain q1 e1 where w1: "quiet_window ag (ep_quiet_window_pre_seconds p) e = (q1, e1)"
    by (cases "quiet_window ag (ep_quiet_window_pre_seconds p) e")
  note i1 = quiet_view [OF w1 assms(2), THEN conjunct1]
  obtain q2 evs2 e2 where rf: "run_faults ag io ?x (ep_faults p) [] e1 = (q2, evs2, e2)"
    by (metis prod_cases3)
  note i2 = run_faults_inv [OF rf i1]
  obtain q3 e3 where w2: "quiet_window ag (ep_quiet_window_post_seconds p) e2 = (q3, e3)"
    by (cases "quiet_window ag (ep_quiet_window_post_seconds p) e2")
  note i3 = quiet_view [OF w2 i2, THEN conjunct1]
  show ?thesis
    using assms(1) w1 rf w2 i1 i2 i3
    by (cases q1; cases q2) (auto simp: fault_sequence_def Let_def)
qed

lemma execute_success_view:
  assumes "chaos_execute ag p e = (Inr t, e')" "ct_success t" "inv e"
  shows "inv e' \<and> (\<forall>k. view e' k =
    (if k \<in> body_keys (ca_float_repr ag) \<lparr>rx_namespace = sc_namespace (ep_safety p), rx_experiment_id = ep_experiment_id p\<rparr>
          (ep_faults p)
     then None else view e k))"
proof -
  let ?x = "\<lparr>rx_namespace = sc_namespace (ep_safety p), rx_experiment_id = ep_experiment_id p\<rparr>"
  obtain r evs e0 where fs: "fault_sequence ag io p e = (r, evs, e0)" by (metis prod_cases3)
  have "preflight_plan p = None"
    using assms(1,2) cluster by (cases "preflight_plan p") (auto simp: chaos_execute_def chaos_fail_def)
  then have r: "r = Inr ()" "e' = e0"
    using assms(1,2) cluster fs
    by (cases r; auto simp: chaos_execute_def report_failure_def Let_def split: if_splits prod.splits sum.splits)+
  obtain q1 e1 where w1: "quiet_window ag (ep_quiet_window_pre_seconds p) e = (q1, e1)"
    by (cases "quiet_window ag (ep_quiet_window_pre_seconds p) e")
  have q1: "q1 = Inr ()" using fs r w1 by (cases q1) (auto simp: fault_sequence_def Let_def)
  obtain q2 evs2 e2 where rf: "run_faults ag io ?x (ep_faults p) [] e1 = (q2, evs2, e2)"
    by (metis prod_cases3)
  have q2: "q2 = Inr ()" using fs r w1 q1 rf by (cases q2) (auto simp: fault_sequence_def Let_def)
  obtain q3 e3 where w2: "quiet_window ag (ep_quiet_window_post_seconds p) e2 = (q3, e3)"
    by (cases "quiet_window ag (ep_quiet_window_post_seconds p) e2")
  have "e3 = e0" using fs r w1 q1 rf q2 w2 by (auto simp: fault_sequence_def Let_def)
  moreover note v1 = quiet_view [OF w1 assms(3)]
  moreover note v2 = run_faults_view [OF rf [unfolded q2] v1 [THEN conjunct1]]
  moreover note v3 = quiet_view [OF w2 v2 [THEN conjunct1]]
  ultimately show ?thesis using r by simp
qed

end

section \<open>The agent on the in-memory cluster\<close>

text \<open>Sleeping does not touch the cluster; \<open>sl n\<close> is how a sleep of \<open>n\<close> seconds ends.\<close>

definition fake_agent :: "(int \<Rightarrow> unit res) \<Rightarrow> (real \<Rightarrow> string) \<Rightarrow> fake_cluster chaos_agent" where
  "fake_agent sl fr =
     \<lparr>ca_cluster = Some fake_io, ca_sleep = (\<lambda>n e. (sl n, e)), ca_now = (\<lambda>e. 0), ca_float_repr = fr\<rparr>"

interpretation fw: chaos_world fake_io "\<lambda>c k. dict_get (fk_resources c) k" fake_inv "fake_agent sl fr"
  for sl fr
  by unfold_locales (simp_all add: fake_agent_def)

text \<open>C11: A chaos run that reports success leaves the cluster as it found it. For every backend that keeps the
  contract \<open>cluster_contract\<close> (a call that succeeds changes exactly the resource it names, a call that fails changes
  nothing, a listing is complete and changes nothing, a resource is stored under its own key, and nobody else changes
  the cluster meanwhile) and an agent whose sleep does not touch the cluster, as the in-memory backend and its agent
  do, started in a state that satisfies the backend's invariant: after a successful run every resource is what it was before, except that no
  resource has a key one of the plan's faults renders to. So every injected fault is gone, and a resource that had
  such a key before the run is gone too.\<close>

theorem execute_restores_cluster:
  assumes "chaos_world io view sound ag"
    and "chaos_execute ag p e = (Inr t, e')" "ct_success t" "sound e"
  shows "view e' k = (if k \<in> body_keys (ca_float_repr ag) (plan_context p) (ep_faults p) then None else view e k)"
  using chaos_world.execute_success_view [OF assms] by (simp add: plan_context_def)

text \<open>After a cleanup in which no call failed, no resource of the experiment is left in its
  namespace in any of the kinds swept, and no other resource has changed.\<close>

theorem cleanup_sweeps_experiment:
  assumes "sweep fake_io p c = (x, True, c')" "fake_inv c"
  shows "x = None \<and>
    (\<forall>k r. dict_get (fk_resources c') k = Some r \<longrightarrow> \<not> swept p chaos_mesh_kinds r) \<and>
    (\<forall>k r. dict_get (fk_resources c) k = Some r \<longrightarrow> \<not> swept p chaos_mesh_kinds r \<longrightarrow>
       dict_get (fk_resources c') k = Some r)"
proof -
  note v = fw.sweep_view [OF assms, simplified]
  have "dict_get (fk_resources c') k = Some r"
    if "dict_get (fk_resources c) k = Some r" "\<not> swept p chaos_mesh_kinds r" for k r
    using v that by (metis option.inject)
  with v show ?thesis by blast
qed

lemma fake_delete_ok: "ci_delete fake_io k c = (q, c') \<Longrightarrow> \<exists>b. q = Inr b"
  by (auto simp: fake_io_def fake_delete_def)

lemma fake_list_ok: "ci_list fake_io av kd ns ls c = (q, c') \<Longrightarrow> \<exists>rs. q = Inr rs"
  by (auto simp: fake_io_def fake_list_def)

lemma fake_delete_all: "delete_all fake_io rs ok c = (x, ok', c') \<Longrightarrow> x = None \<and> ok' = ok"
proof (induction rs arbitrary: c)
  case (Cons r rs)
  obtain q c1 where d: "ci_delete fake_io (crd_key_of r) c = (q, c1)"
    by (cases "ci_delete fake_io (crd_key_of r) c")
  obtain b where "q = Inr b" using fake_delete_ok [OF d] by blast
  then have "delete_all fake_io rs ok c1 = (x, ok', c')" using Cons.prems d by simp
  then show ?case by (rule Cons.IH)
qed simp

lemma fake_sweep_kinds: "sweep_kinds fake_io p kds ok c = (x, ok', c') \<Longrightarrow> x = None \<and> ok' = ok"
proof (induction kds arbitrary: c)
  case (Cons kd kds)
  obtain q c1 where l: "ci_list fake_io chaos_mesh_api kd (sc_namespace (ep_safety p))
      (experiment_labels p) c = (q, c1)"
    by (cases "ci_list fake_io chaos_mesh_api kd (sc_namespace (ep_safety p)) (experiment_labels p) c")
  obtain rs where q: "q = Inr rs" using fake_list_ok [OF l] by blast
  obtain y ok1 c2 where d: "delete_all fake_io rs ok c1 = (y, ok1, c2)" by (metis prod_cases3)
  have "sweep_kinds fake_io p kds ok c2 = (x, ok', c')"
    using Cons.prems l q d fake_delete_all [OF d] by simp
  then show ?case by (rule Cons.IH)
qed simp

lemma fake_cleanup:
  assumes "chaos_cleanup (fake_agent sl fr) p c = (q, c')" "fake_inv c"
  shows "q = Inr () \<and> (\<forall>k r. dict_get (fk_resources c') k = Some r \<longrightarrow> \<not> swept p chaos_mesh_kinds r)"
proof -
  obtain x ok c1 where sw: "sweep fake_io p c = (x, ok, c1)" by (metis prod_cases3)
  have "x = None \<and> ok = True" using fake_sweep_kinds [OF sw [unfolded sweep_def]] .
  with sw fw.sweep_view [OF sw assms(2)] assms(1) show ?thesis
    by (auto simp: chaos_cleanup_def fake_agent_def)
qed


section \<open>A concrete plan\<close>

definition kill_fault :: fault_spec where
  "kill_fault =
     \<lparr>fs_category = FC_POD, fs_name = ''pod.kill'', fs_target_selector = [], fs_parameters = [],
      fs_duration_seconds = 30, fs_requires_approval = False, fs_rationale = ''r'',
      fs_hypothesis_id = None\<rparr>"

definition kill_plan :: experiment_plan where
  "kill_plan =
     \<lparr>ep_experiment_id = ''exp-0123456789ab'', ep_title = ''t'', ep_target_app = ''shop'',
      ep_target_repo = None, ep_faults = [kill_fault],
      ep_safety = \<lparr>sc_cluster_context = ''kind-dev'', sc_namespace = ''shop'',
        sc_max_pods_affected = 1, sc_max_duration_seconds = 60, sc_allow_multi_fault = False,
        sc_require_namespace_annotation = True, sc_forbidden_cluster_substrings = [''prod'']\<rparr>,
      ep_budget = \<lparr>tb_soft_cap_usd = 2, tb_hard_cap_usd = 10, tb_wall_clock_seconds = 1800\<rparr>,
      ep_quiet_window_pre_seconds = 0, ep_quiet_window_post_seconds = 0, ep_created_at = 0,
      ep_suppress = [], ep_plugin = None, ep_plugin_config = []\<rparr>"

definition empty_cluster :: fake_cluster where
  "empty_cluster =
     \<lparr>fk_resources = [], fk_applied = [], fk_deleted = [], fk_namespace_annotations = [],
      fk_apply_hook = None\<rparr>"

definition kill_body :: crd where
  "kill_body = body_with ''PodChaos'' kill_fault (plan_context kill_plan)
     [(''action'', PStr ''pod-kill''), (''mode'', PStr ''one''),
      (''selector'', selector kill_fault (plan_context kill_plan)), (''gracePeriod'', PInt 0)]"

lemma empty_cluster_inv: "fake_inv empty_cluster"
  by (simp add: fake_inv_def empty_cluster_def)

lemma kill_render: "render fr kill_fault (plan_context kill_plan) = Inr kill_body"
proof -
  have "dict_get RENDERERS ''pod.kill'' = Some render_pod_kill"
    by (simp add: RENDERERS_def dict_get_Cons)
  moreover have "in_catalogue ''pod.kill''" by (simp add: in_catalogue_eval)
  moreover have "fs_name kill_fault = ''pod.kill''" "fs_parameters kill_fault = []"
    by (simp_all add: kill_fault_def)
  ultimately show ?thesis
    by (simp add: render_def render_pod_kill_def kill_body_def int_param_def param_def)
qed

lemma kill_preflight: "preflight_plan kill_plan = None"
proof -
  have "preflight_faults [kill_fault] = None"
    by (simp add: preflight_faults_None_iff kill_fault_def has_renderer_def RENDERERS_def
        dict_has_iff dict_get_Cons del: preflight_faults.simps)
  then show ?thesis by (simp add: preflight_plan_def kill_plan_def del: preflight_faults.simps)
qed

lemma kill_context:
  "\<lparr>rx_namespace = sc_namespace (ep_safety kill_plan), rx_experiment_id = ep_experiment_id kill_plan\<rparr> =
     plan_context kill_plan"
  by (simp add: plan_context_def)

lemma kill_faults: "ep_faults kill_plan = [kill_fault]"
  "ep_quiet_window_pre_seconds kill_plan = 0" "ep_quiet_window_post_seconds kill_plan = 0"
  by (simp_all add: kill_plan_def)

lemma fake_agent_fields:
  "ca_cluster (fake_agent sl fr) = Some fake_io" "ca_sleep (fake_agent sl fr) n c = (sl n, c)"
  "ca_now (fake_agent sl fr) c = 0" "ca_float_repr (fake_agent sl fr) = fr"
  by (simp_all add: fake_agent_def)

lemma fake_io_fields:
  "ci_apply fake_io = fake_apply" "ci_delete fake_io = fake_delete" "ci_list fake_io = fake_list"
  by (simp_all add: fake_io_def)

lemmas kill_run_defs = chaos_execute_def kill_preflight fault_sequence_def kill_context kill_faults
  fake_agent_fields quiet_window_def run_fault_def kill_render fake_io_fields Let_def

lemma kill_succeeds:
  "\<exists>t c'. chaos_execute (fake_agent (\<lambda>n. Inr ()) fr) kill_plan empty_cluster = (Inr t, c') \<and> ct_success t"
  by (simp add: kill_run_defs fake_apply_def fake_delete_def empty_cluster_def)

theorem execute_restores_cluster_witness:
  "\<exists>t c'. chaos_execute (fake_agent (\<lambda>n. Inr ()) (\<lambda>y. [])) kill_plan empty_cluster = (Inr t, c') \<and>
     dict_get (fk_resources c') (crd_key_of kill_body) = None"
proof -
  obtain t c' where r: "chaos_execute (fake_agent (\<lambda>n. Inr ()) (\<lambda>y. [])) kill_plan empty_cluster = (Inr t, c')"
      "ct_success t"
    using kill_succeeds by blast
  have "crd_key_of kill_body \<in> body_keys (\<lambda>y. []) (plan_context kill_plan) (ep_faults kill_plan)"
    by (auto simp: body_keys_def kill_faults kill_render)
  with execute_restores_cluster [OF fw.chaos_world_axioms r empty_cluster_inv] r(1) show ?thesis
    by (auto simp: fake_agent_fields)
qed

text \<open>A run cancelled while a fault is active raises the cancellation and leaves the fault's
  resource in the cluster: \<open>except Exception\<close> does not catch it, and no cleanup is called.\<close>

theorem cancelled_fault_stays:
  assumes "preflight_plan p = None" "ep_quiet_window_pre_seconds p = 0" "ep_faults p = f # fs"
    and "render fr f (plan_context p) = Inr body" "fk_apply_hook c = None"
    and "sl (fs_duration_seconds f) = Inl (BaseExn cls)"
  shows "\<exists>c'. chaos_execute (fake_agent sl fr) p c = (Inl (BaseExn cls), c') \<and>
    dict_get (fk_resources c') (crd_key_of body) \<noteq> None \<and> fk_deleted c' = fk_deleted c"
  using assms
  by (simp add: chaos_execute_def fault_sequence_def quiet_window_def run_fault_def Let_def
      fake_agent_fields fake_io_fields plan_context_def fake_apply_def)

theorem cancelled_fault_stays_witness:
  "\<exists>c'. chaos_execute (fake_agent (\<lambda>n. Inl (BaseExn ''CancelledError'')) (\<lambda>y. [])) kill_plan empty_cluster =
       (Inl (BaseExn ''CancelledError''), c') \<and> dict_get (fk_resources c') (crd_key_of kill_body) \<noteq> None"
  using cancelled_fault_stays [OF kill_preflight kill_faults(2,1) kill_render,
      of empty_cluster "\<lambda>n. Inl (BaseExn ''CancelledError'')" "''CancelledError''" "\<lambda>y. []"]
  by (auto simp: empty_cluster_def)


theorem cleanup_sweeps_experiment_witness:
  "\<exists>c'. sweep fake_io kill_plan (snd (fake_apply kill_body empty_cluster)) = (None, True, c') \<and>
     dict_get (fk_resources c') (crd_key_of kill_body) = None"
proof -
  let ?c = "snd (fake_apply kill_body empty_cluster)"
  have st: "cr_status kill_body = None" by (simp add: kill_body_def body_with_def)
  have ap: "ci_apply fake_io kill_body empty_cluster = (Inr (kill_body\<lparr>cr_status := Some default_status\<rparr>), ?c)"
    using st by (simp add: fake_io_fields fake_apply_def empty_cluster_def Let_def)
  note av = fake.apply_ok [OF empty_cluster_inv ap]
  then have inv: "fake_inv ?c" by blast
  obtain x ok c' where sw: "sweep fake_io kill_plan ?c = (x, ok, c')" by (metis prod_cases3)
  have x: "x = None" "ok = True" using fake_sweep_kinds [OF sw [unfolded sweep_def]] by simp_all
  note cs = cleanup_sweeps_experiment [OF sw [unfolded x(2)] inv]
  have "r = kill_body\<lparr>cr_status := Some default_status\<rparr>"
    if "dict_get (fk_resources ?c) (crd_key_of kill_body) = Some r" for r
    using that av by (auto dest: fun_cong [of _ _ "crd_key_of kill_body"])
  moreover have "swept kill_plan chaos_mesh_kinds (kill_body\<lparr>cr_status := Some default_status\<rparr>)"
    by (simp add: swept_def kill_body_def body_with_def chaos_mesh_kinds_def has_labels_def
        experiment_labels_def common_labels_def plan_context_def dict_get_Cons)
  ultimately have "dict_get (fk_resources c') (crd_key_of kill_body) = None"
    using cs fw.sweep_view [OF sw inv] by (metis option.exhaust option.inject)
  with sw x show ?thesis by blast
qed

end
