(* ===== verification/Hardware_IO.thy ===== *)
theory Hardware_IO
  imports Contracts
begin

text \<open>
  The bench interface of \<open>agents/chaos/hardware_io.py\<close>: the \<open>HardwareIO\<close> protocol as a record of
  operations over an environment, the in-memory \<open>SimulatedHardwareIO\<close> and the serial and HTTP bench
  \<open>HilHardwareIO\<close> over its transports (\<open>hil_transport.py\<close>), which are arguments, as is the JSON
  library. The locale \<open>bench_guard\<close> is what the hardware agent relies on: an operation may end faults, only an
  injection starts one, and a cleanup that is confirmed has ended its own. \<open>bench_contract\<close> is the exact contract of a
  bench whose faults end by cleanup only, proved for the simulator.
\<close>

record device_info =
  di_serial :: string
  di_firmware_version :: string
  di_hardware_revision :: string
  di_mode :: string

record telemetry_sample =
  ts_metric :: string
  ts_value :: real
  ts_labels :: "(string, string) dict"

record hardware_fault =
  hf_name :: string
  hf_parameters :: "(string, pyval) dict"
  hf_duration_seconds :: int

text \<open>An \<open>InjectionHandle\<close> is its identifier.\<close>

type_synonym handle = string

record 'e hardware_io =
  hi_device_info :: "'e \<Rightarrow> device_info res \<times> 'e"
  hi_read_telemetry :: "string \<Rightarrow> 'e \<Rightarrow> telemetry_sample res \<times> 'e"
  hi_inject_fault :: "hardware_fault \<Rightarrow> 'e \<Rightarrow> handle res \<times> 'e"
  hi_cleanup :: "handle \<Rightarrow> 'e \<Rightarrow> unit res \<times> 'e"
  hi_reset :: "'e \<Rightarrow> unit res \<times> 'e"

section \<open>The contract\<close>

text \<open>\<open>active e\<close> is the set of faults in force in the environment \<open>e\<close>.\<close>

text \<open>\<open>tracked a0 hs a\<close>: what is in force in \<open>a\<close> was in force in \<open>a0\<close>, except for the handles \<open>hs\<close>.\<close>

definition tracked :: "(handle \<Rightarrow> 'f option) \<Rightarrow> handle list \<Rightarrow> (handle \<Rightarrow> 'f option) \<Rightarrow> bool" where
  "tracked a0 hs a \<longleftrightarrow> (\<forall>h. h \<notin> set hs \<longrightarrow> a h = a0 h \<or> a h = None)"

lemma tracked_refl [simp, intro]: "tracked a hs a"
  by (simp add: tracked_def)

lemma tracked_trans: "tracked a hs b \<Longrightarrow> tracked b hs' c \<Longrightarrow> tracked a (hs @ hs') c"
  unfolding tracked_def by (metis UnI1 UnI2 set_append)

lemma tracked_shrink: "tracked a hs b \<Longrightarrow> tracked b [] c \<Longrightarrow> tracked a hs c"
  using tracked_trans [of a hs b "[]" c] by simp

lemma tracked_drop: "tracked a hs b \<Longrightarrow> b h = None \<Longrightarrow> tracked a (remove1 h hs) b"
  unfolding tracked_def by (metis in_set_remove1)

text \<open>\<open>inv n e\<close> is an invariant of the environment under which \<open>n\<close> more injections are possible, \<open>issued\<close> the
  handles the bench gives out.\<close>

locale bench_guard =
  fixes io :: "'e hardware_io"
    and active :: "'e \<Rightarrow> handle \<Rightarrow> 'f option"
    and inv :: "nat \<Rightarrow> 'e \<Rightarrow> bool"
    and issued :: "handle \<Rightarrow> bool"
  assumes spare: "inv (Suc n) e \<Longrightarrow> inv n e"
    and info_guarded: "inv n e \<Longrightarrow> hi_device_info io e = (i, e') \<Longrightarrow> inv n e' \<and> tracked (active e) [] (active e')"
    and read_guarded: "inv n e \<Longrightarrow> hi_read_telemetry io m e = (s, e') \<Longrightarrow> inv n e' \<and> tracked (active e) [] (active e')"
    and inject_guarded: "inv (Suc n) e \<Longrightarrow> hi_inject_fault io f e = (Inr h, e') \<Longrightarrow>
      inv n e' \<and> issued h \<and> tracked (active e) [h] (active e')"
    and refused_guarded: "inv n e \<Longrightarrow> hi_inject_fault io f e = (Inl x, e') \<Longrightarrow>
      inv n e' \<and> tracked (active e) [] (active e')"
    and cleanup_guarded: "inv n e \<Longrightarrow> issued h \<Longrightarrow> hi_cleanup io h e = (c, e') \<Longrightarrow>
      inv n e' \<and> tracked (active e) [] (active e') \<and> (\<forall>u. c = Inr u \<longrightarrow> active e' h = None)"

locale bench_contract =
  fixes io :: "'e hardware_io"
    and active :: "'e \<Rightarrow> handle \<Rightarrow> hardware_fault option"
  assumes info_keeps: "hi_device_info io e = (r, e') \<Longrightarrow> active e' = active e"
    and read_keeps: "hi_read_telemetry io m e = (s, e') \<Longrightarrow> active e' = active e"
    and inject_ok: "hi_inject_fault io f e = (Inr h, e') \<Longrightarrow> active e' = (active e)(h := Some f)"
    and inject_failed: "hi_inject_fault io f e = (Inl x, e') \<Longrightarrow> active e' = active e"
    and cleanup_ok: "hi_cleanup io h e = (Inr u, e') \<Longrightarrow> active e' = (active e)(h := None)"
    and cleanup_failed: "hi_cleanup io h e = (Inl x, e') \<Longrightarrow> active e' = active e"
    and reset_ok: "hi_reset io e = (Inr u, e') \<Longrightarrow> active e' = (\<lambda>h. None)"
begin

lemma inject_then_cleanup:
  assumes "hi_inject_fault io f e = (Inr h, e1)" "hi_cleanup io h e1 = (Inr u, e2)"
  shows "active e2 = (active e)(h := None)"
  using inject_ok [OF assms(1)] cleanup_ok [OF assms(2)] by simp

lemma cleanup_twice:
  assumes "hi_cleanup io h e = (Inr u, e1)" "hi_cleanup io h e1 = (Inr v, e2)"
  shows "active e2 = active e1"
  using cleanup_ok [OF assms(1)] cleanup_ok [OF assms(2)] by simp

end

sublocale bench_contract \<subseteq> guard: bench_guard io active "\<lambda>n e. True" "\<lambda>h. True"
proof unfold_locales
  fix e e' and h and c :: "unit res"
  assume "hi_cleanup io h e = (c, e')"
  then show "True \<and> tracked (active e) [] (active e') \<and> (\<forall>u. c = Inr u \<longrightarrow> active e' h = None)"
    using cleanup_ok cleanup_failed by (cases c) (auto simp: tracked_def)
qed (auto simp: tracked_def dest: info_keeps read_keeps inject_ok inject_failed)

section \<open>The simulator\<close>

record simulator =
  sm_device :: device_info
  sm_baseline_latency_ms :: real
  sm_degraded_latency_ms :: real
  sm_active_faults :: "(handle, hardware_fault) dict"
  sm_next_handle :: nat
  sm_reset_count :: nat
  sm_power_brownout_events :: nat
  sm_nvs_write_failures :: nat
  sm_event_buffer_persisted :: nat
  sm_geofence_tag :: string
  sm_metric_overrides :: "(string, real) dict"
  sm_inject_hook :: "(hardware_fault \<Rightarrow> unit res) option"

definition new_simulator :: simulator where
  "new_simulator =
     \<lparr>sm_device = \<lparr>di_serial = ''sim-DUT-001'', di_firmware_version = ''0.1.0-sim'',
        di_hardware_revision = ''rev-A'', di_mode = ''BENCH''\<rparr>,
      sm_baseline_latency_ms = 200, sm_degraded_latency_ms = 1400, sm_active_faults = [],
      sm_next_handle = 0, sm_reset_count = 0, sm_power_brownout_events = 0,
      sm_nvs_write_failures = 0, sm_event_buffer_persisted = 0,
      sm_geofence_tag = ''lab-bench-default'', sm_metric_overrides = [], sm_inject_hook = None\<rparr>"

definition sim_device_info :: "simulator \<Rightarrow> device_info res \<times> simulator" where
  "sim_device_info s = (Inr (sm_device s), s)"

definition has_active_fault :: "simulator \<Rightarrow> string \<Rightarrow> bool" where
  "has_active_fault s n = list_ex (\<lambda>(h, f). hf_name f = n) (sm_active_faults s)"

definition current_latency_ms :: "simulator \<Rightarrow> real" where
  "current_latency_ms s =
     (if has_active_fault s ''wifi.deauth'' \<or> has_active_fault s ''wifi.jam''
      then sm_degraded_latency_ms s else sm_baseline_latency_ms s)"

definition mesh_consensus_degraded_count :: "simulator \<Rightarrow> nat" where
  "mesh_consensus_degraded_count s = (if has_active_fault s ''sensor.dropout'' then 1 else 0)"

definition anomaly_detector_fired :: "simulator \<Rightarrow> nat" where
  "anomaly_detector_fired s = (if has_active_fault s ''sensor.stuck'' then 1 else 0)"

definition cert_renewal_deferred_count :: "simulator \<Rightarrow> nat" where
  "cert_renewal_deferred_count s = (if has_active_fault s ''time.ntp.cut'' then 1 else 0)"

definition cert_validation_failures :: "simulator \<Rightarrow> nat" where
  "cert_validation_failures s = (if has_active_fault s ''time.clock.drift'' then 1 else 0)"

definition gateway_uplink_rtt_ms :: "simulator \<Rightarrow> real" where
  "gateway_uplink_rtt_ms s =
     (if has_active_fault s ''wifi.deauth'' \<or> has_active_fault s ''wifi.jam'' \<or>
         has_active_fault s ''lora.jam'' then 1200 else 80)"

definition cert_validity_remaining_h :: "simulator \<Rightarrow> real" where
  "cert_validity_remaining_h s = (if has_active_fault s ''time.clock.drift'' then 0 else 7 * 24)"

definition metric_value :: "simulator \<Rightarrow> string \<Rightarrow> real" where
  "metric_value s m =
     (if m = ''detector_latency_p95_ms'' then current_latency_ms s
      else if m = ''boot_count'' then real (sm_reset_count s)
      else if m = ''die_temperature_c'' then 35
      else if m = ''battery_soc'' then 90 / 100
      else if m = ''geofence_tag'' then 1
      else if m = ''boot_count_delta'' then real (sm_power_brownout_events s)
      else if m = ''nvs_write_failures'' then real (sm_nvs_write_failures s)
      else if m = ''event_buffer_persisted_count'' then real (sm_event_buffer_persisted s)
      else if m = ''mesh_consensus_degraded_count'' then real (mesh_consensus_degraded_count s)
      else if m = ''anomaly_detector_fired'' then real (anomaly_detector_fired s)
      else if m = ''cert_renewal_deferred_count'' then real (cert_renewal_deferred_count s)
      else if m = ''cert_validation_failures'' then real (cert_validation_failures s)
      else if m = ''gateway_uplink_rtt_ms'' then gateway_uplink_rtt_ms s
      else if m = ''cert_validity_remaining_h'' then cert_validity_remaining_h s
      else if m = ''detector_false_positive_rate''
      then (if has_active_fault s ''sensor.stuck'' then 2 / 100 else 1 / 1000)
      else 0)"

definition sim_read_telemetry :: "string \<Rightarrow> simulator \<Rightarrow> telemetry_sample res \<times> simulator" where
  "sim_read_telemetry m s =
     (let base = [(''device'', di_serial (sm_device s))] in
      case dict_get (sm_metric_overrides s) m of
        Some v \<Rightarrow> (Inr \<lparr>ts_metric = m, ts_value = v, ts_labels = base\<rparr>, s)
      | None \<Rightarrow>
          (Inr \<lparr>ts_metric = m, ts_value = metric_value s m,
                ts_labels = (if m = ''geofence_tag'' then base @ [(''tag'', sm_geofence_tag s)] else base)\<rparr>, s))"

text \<open>\<open>{n:04d}\<close>.\<close>

definition pad4 :: "nat \<Rightarrow> string" where
  "pad4 n = replicate (4 - length (nat_str n)) CHR ''0'' @ nat_str n"

definition power_counters :: "string \<Rightarrow> simulator \<Rightarrow> simulator" where
  "power_counters n s =
     (if n = ''power.brownout''
      then s\<lparr>sm_power_brownout_events := sm_power_brownout_events s + 1,
             sm_nvs_write_failures := sm_nvs_write_failures s + 1\<rparr>
      else if n = ''power.cut''
      then s\<lparr>sm_power_brownout_events := sm_power_brownout_events s + 1,
             sm_event_buffer_persisted := sm_event_buffer_persisted s + 1\<rparr>
      else if n = ''power.ramp''
      then s\<lparr>sm_power_brownout_events := sm_power_brownout_events s + 1\<rparr>
      else s)"

text \<open>The injection hook is a function of the fault: an asynchronous hook that answers differently from call to call is
  not modelled.\<close>

definition sim_inject_fault :: "hardware_fault \<Rightarrow> simulator \<Rightarrow> handle res \<times> simulator" where
  "sim_inject_fault f s =
     (case (case sm_inject_hook s of None \<Rightarrow> Inr () | Some hook \<Rightarrow> hook f) of
        Inl x \<Rightarrow> (Inl x, s)
      | Inr u \<Rightarrow>
          (let n = sm_next_handle s + 1; h = ''sim-inject-'' @ pad4 n
           in (Inr h, power_counters (hf_name f)
                 (s\<lparr>sm_next_handle := n, sm_active_faults := dict_set h f (sm_active_faults s)\<rparr>))))"

definition sim_cleanup :: "handle \<Rightarrow> simulator \<Rightarrow> unit res \<times> simulator" where
  "sim_cleanup h s = (Inr (), s\<lparr>sm_active_faults := dict_pop h (sm_active_faults s)\<rparr>)"

definition sim_reset :: "simulator \<Rightarrow> unit res \<times> simulator" where
  "sim_reset s = (Inr (), s\<lparr>sm_active_faults := [], sm_reset_count := sm_reset_count s + 1\<rparr>)"

definition simulated_io :: "simulator hardware_io" where
  "simulated_io =
     \<lparr>hi_device_info = sim_device_info, hi_read_telemetry = sim_read_telemetry,
      hi_inject_fault = sim_inject_fault, hi_cleanup = sim_cleanup, hi_reset = sim_reset\<rparr>"

lemma simulated_io_fields [simp]:
  "hi_device_info simulated_io = sim_device_info" "hi_read_telemetry simulated_io = sim_read_telemetry"
  "hi_inject_fault simulated_io = sim_inject_fault" "hi_cleanup simulated_io = sim_cleanup"
  "hi_reset simulated_io = sim_reset"
  by (simp_all add: simulated_io_def)

lemma power_counters_active [simp]: "sm_active_faults (power_counters n s) = sm_active_faults s"
  by (simp add: power_counters_def)

interpretation sim: bench_contract simulated_io "\<lambda>s h. dict_get (sm_active_faults s) h"
  by unfold_locales
    (auto simp: sim_device_info_def sim_read_telemetry_def sim_inject_fault_def sim_cleanup_def
      sim_reset_def Let_def dict_get_set dict_get_pop split: sum.splits option.splits)

section \<open>The hardware-in-the-loop bench\<close>

text \<open>
  The attacker's serial line and the device's telemetry endpoint, and the JSON library. A reply is a
  value; \<open>.get\<close> on a value that is no object raises.
\<close>

record 'e bench_transport =
  bt_send_line :: "string \<Rightarrow> 'e \<Rightarrow> unit res \<times> 'e"
  bt_recv_line :: "real \<Rightarrow> 'e \<Rightarrow> string res \<times> 'e"
  bt_get_json :: "string \<Rightarrow> 'e \<Rightarrow> pyval res \<times> 'e"
  bt_encode :: "pyval \<Rightarrow> string"
  bt_loads :: "string \<Rightarrow> pyval res"
  bt_float_repr :: "real \<Rightarrow> string"
  bt_to_float :: "pyval \<Rightarrow> real res"
  bt_telemetry_base_url :: string

definition decode_line :: "(string \<Rightarrow> pyval res) \<Rightarrow> string \<Rightarrow> pyval res" where
  "decode_line loads line =
     (let l = strip line in
      if l = [] then Inl (Exn ''ValueError'' ''empty line from transport'') else loads l)"

fun reply_get :: "pyval \<Rightarrow> string \<Rightarrow> pyval \<Rightarrow> pyval res" where
  "reply_get (PDict d) k dflt = Inr (param d k dflt)"
| "reply_get v k dflt = Inl (Exn ''AttributeError'' (''object has no attribute '' @ repr_str ''get''))"

definition hil_error :: "string \<Rightarrow> pyexn" where
  "hil_error m = Exn ''HilTransportError'' m"

text \<open>Send one command and read one reply, within the time given.\<close>

definition hil_request :: "'e bench_transport \<Rightarrow> real \<Rightarrow> (string, pyval) dict \<Rightarrow> 'e \<Rightarrow> pyval res \<times> 'e" where
  "hil_request t timeout msg e =
     (case bt_send_line t (bt_encode t (PDict msg)) e of
        (Inl x, e1) \<Rightarrow> (Inl x, e1)
      | (Inr u, e1) \<Rightarrow>
          (case bt_recv_line t timeout e1 of
             (Inl x, e2) \<Rightarrow> (Inl x, e2)
           | (Inr line, e2) \<Rightarrow> (decode_line (bt_loads t) line, e2)))"

text \<open>\<open>if not reply.get("ok"): raise HilTransportError(reply.get("error", refused))\<close>.\<close>

definition hil_accept :: "'e bench_transport \<Rightarrow> string \<Rightarrow> pyval \<Rightarrow> unit res" where
  "hil_accept t refused reply =
     res_bind (reply_get reply ''ok'' PNone) (\<lambda>ok.
       if truthy ok then Inr ()
       else res_bind (reply_get reply ''error'' (PStr refused)) (\<lambda>m.
         Inl (hil_error (py_str (bt_float_repr t) m))))"

definition reply_str :: "'e bench_transport \<Rightarrow> pyval \<Rightarrow> string \<Rightarrow> string \<Rightarrow> string res" where
  "reply_str t reply k dflt =
     res_bind (reply_get reply k (PStr dflt)) (\<lambda>v. Inr (py_str (bt_float_repr t) v))"

definition hil_device_info :: "'e bench_transport \<Rightarrow> 'e \<Rightarrow> device_info res \<times> 'e" where
  "hil_device_info t e =
     (case hil_request t 5 [(''cmd'', PStr ''info'')] e of
        (r, e1) \<Rightarrow>
          (res_bind r (\<lambda>reply. res_bind (hil_accept t ''info refused'' reply) (\<lambda>u.
             res_bind (reply_str t reply ''serial'' ''unknown'') (\<lambda>sn.
             res_bind (reply_str t reply ''firmware'' ''unknown'') (\<lambda>fw.
             res_bind (reply_str t reply ''hardware'' ''unknown'') (\<lambda>hw.
             res_bind (reply_str t reply ''mode'' ''UNKNOWN'') (\<lambda>md.
               Inr \<lparr>di_serial = sn, di_firmware_version = fw, di_hardware_revision = hw,
                    di_mode = md\<rparr>)))))), e1))"

text \<open>\<open>dict(payload.get("labels", {}))\<close>, for labels that are strings.\<close>

fun label_dict :: "pyval \<Rightarrow> (string, string) dict res" where
  "label_dict (PDict d) =
     res_map (\<lambda>(k, v). case v of PStr s \<Rightarrow> Inr (k, s) | _ \<Rightarrow> Inl (Exn ''TypeError'' ''label'')) d"
| "label_dict v = Inl (Exn ''TypeError'' ''object is not iterable'')"

definition hil_read_telemetry :: "'e bench_transport \<Rightarrow> string \<Rightarrow> 'e \<Rightarrow> telemetry_sample res \<times> 'e" where
  "hil_read_telemetry t m e =
     (case bt_get_json t (bt_telemetry_base_url t @ ''/'' @ m) e of
        (r, e1) \<Rightarrow>
          (res_bind r (\<lambda>payload.
             res_bind (reply_str t payload ''metric'' m) (\<lambda>name.
             res_bind (reply_get payload ''value'' (PFloat 0)) (\<lambda>v.
             res_bind (bt_to_float t v) (\<lambda>x.
             res_bind (reply_get payload ''labels'' (PDict [])) (\<lambda>ls.
             res_bind (label_dict ls) (\<lambda>labels.
               Inr \<lparr>ts_metric = name, ts_value = x, ts_labels = labels\<rparr>)))))), e1))"

definition hil_inject_fault :: "'e bench_transport \<Rightarrow> hardware_fault \<Rightarrow> 'e \<Rightarrow> handle res \<times> 'e" where
  "hil_inject_fault t f e =
     (case hil_request t 10
         [(''cmd'', PStr ''inject''), (''fault'', PStr (hf_name f)),
          (''params'', PDict (hf_parameters f)), (''duration_seconds'', PInt (hf_duration_seconds f))] e of
        (r, e1) \<Rightarrow>
          (res_bind r (\<lambda>reply. res_bind (hil_accept t ''inject refused'' reply) (\<lambda>u.
             (case reply of
                PDict d \<Rightarrow>
                  (case dict_get d ''handle'' of
                     Some v \<Rightarrow> Inr (py_str (bt_float_repr t) v)
                   | None \<Rightarrow> Inl (Exn ''KeyError'' ''handle''))
              | _ \<Rightarrow> Inl (Exn ''TypeError'' ''object is not subscriptable'')))), e1))"

text \<open>A refusal that mentions \<open>already\<close> counts as success.\<close>

definition cleanup_accept :: "'e bench_transport \<Rightarrow> pyval \<Rightarrow> unit res" where
  "cleanup_accept t reply =
     res_bind (reply_get reply ''ok'' PNone) (\<lambda>ok.
       if truthy ok then Inr ()
       else res_bind (reply_str t reply ''error'' []) (\<lambda>err.
         if str_in ''already'' (lower err) then Inr ()
         else Inl (hil_error (if err = [] then ''cleanup refused'' else err))))"

definition hil_cleanup :: "'e bench_transport \<Rightarrow> handle \<Rightarrow> 'e \<Rightarrow> unit res \<times> 'e" where
  "hil_cleanup t h e =
     (case hil_request t 5 [(''cmd'', PStr ''cleanup''), (''handle'', PStr h)] e of
        (r, e1) \<Rightarrow> (res_bind r (cleanup_accept t), e1))"

definition hil_reset :: "'e bench_transport \<Rightarrow> 'e \<Rightarrow> unit res \<times> 'e" where
  "hil_reset t e =
     (case hil_request t 5 [(''cmd'', PStr ''reset'')] e of
        (r, e1) \<Rightarrow> (res_bind r (hil_accept t ''reset refused''), e1))"

definition hil_io :: "'e bench_transport \<Rightarrow> 'e hardware_io" where
  "hil_io t =
     \<lparr>hi_device_info = hil_device_info t, hi_read_telemetry = hil_read_telemetry t,
      hi_inject_fault = hil_inject_fault t, hi_cleanup = hil_cleanup t, hi_reset = hil_reset t\<rparr>"

text \<open>A device that does not report a mode is not in bench mode.\<close>

lemma hil_mode_reported:
  assumes "hil_device_info t e = (Inr i, e')" "di_mode i = ''BENCH''"
  shows "\<exists>d v. hil_request t 5 [(''cmd'', PStr ''info'')] e = (Inr (PDict d), e') \<and>
    dict_get d ''mode'' = Some v \<and> py_str (bt_float_repr t) v = ''BENCH''"
proof -
  obtain r e1 where q: "hil_request t 5 [(''cmd'', PStr ''info'')] e = (r, e1)"
    by (cases "hil_request t 5 [(''cmd'', PStr ''info'')] e")
  then obtain reply where r: "r = Inr reply" "e1 = e'"
      and m: "reply_str t reply ''mode'' ''UNKNOWN'' = Inr (di_mode i)"
    using assms(1) by (auto simp: hil_device_info_def res_bind_Inr_iff)
  obtain d where d: "reply = PDict d" using m by (cases reply) (auto simp: reply_str_def)
  have "py_str (bt_float_repr t) (param d ''mode'' (PStr ''UNKNOWN'')) = ''BENCH''"
    using m assms(2) d by (simp add: reply_str_def)
  then obtain v where "dict_get d ''mode'' = Some v" "py_str (bt_float_repr t) v = ''BENCH''"
    by (cases "dict_get d ''mode''") (auto simp: param_def)
  with q r d show ?thesis by blast
qed

lemma hil_already_gone:
  assumes "hil_request t 5 [(''cmd'', PStr ''cleanup''), (''handle'', PStr h)] e =
      (Inr (PDict [(''ok'', PBool False), (''error'', PStr m)]), e')" "str_in ''already'' (lower m)"
  shows "hil_cleanup t h e = (Inr (), e')"
  using assms by (simp add: hil_cleanup_def cleanup_accept_def reply_str_def param_def dict_get_Cons)

end
