(* ===== verification/Hardware_Renderers.thy ===== *)
theory Hardware_Renderers
  imports Hardware_IO Renderers
begin

text \<open>
  The bench renderers, \<open>agents/chaos/faults/rf.py\<close>, \<open>power.py\<close>, \<open>sensor.py\<close> and
  \<open>time_hardware.py\<close>, with their four registries and the agent's dispatch over them. \<open>fr\<close> prints a
  float, \<open>fl\<close> is \<open>float(..)\<close> of a parameter.
\<close>

type_synonym hw_renderer =
  "(real \<Rightarrow> string) \<Rightarrow> (pyval \<Rightarrow> real res) \<Rightarrow> fault_spec \<Rightarrow> hardware_fault res"

definition hw_fault :: "fault_spec \<Rightarrow> (string, pyval) dict \<Rightarrow> hardware_fault" where
  "hw_fault f params =
     \<lparr>hf_name = fs_name f, hf_parameters = params, hf_duration_seconds = fs_duration_seconds f\<rparr>"

definition str_field :: "(real \<Rightarrow> string) \<Rightarrow> fault_spec \<Rightarrow> string \<Rightarrow> string \<Rightarrow> string \<times> pyval" where
  "str_field fr f k dflt = (k, PStr (py_str fr (param (fs_parameters f) k (PStr dflt))))"

text \<open>A literal of \<open>int(..)\<close> fields, evaluated in order.\<close>

fun int_fields :: "fault_spec \<Rightarrow> (string \<times> int) list \<Rightarrow> (string, pyval) dict res" where
  "int_fields f [] = Inr []"
| "int_fields f ((k, dflt) # rest) =
     res_bind (int_param (fs_parameters f) k dflt) (\<lambda>i.
       res_bind (int_fields f rest) (\<lambda>d. Inr ((k, PInt i) # d)))"

definition hw_ints :: "(string \<times> int) list \<Rightarrow> hw_renderer" where
  "hw_ints fds fr fl f = res_bind (int_fields f fds) (\<lambda>d. Inr (hw_fault f d))"

section \<open>Radio\<close>

definition render_wifi_deauth :: hw_renderer where
  "render_wifi_deauth fr fl f =
     res_bind (int_param (fs_parameters f) ''channel'' 0) (\<lambda>ch.
       Inr (hw_fault f
         [str_field fr f ''target_bssid'' ''auto'', (''channel'', PInt ch),
          str_field fr f ''intensity'' ''medium'']))"

definition render_wifi_jam :: hw_renderer where
  "render_wifi_jam = hw_ints [(''channel'', 0), (''power_dbm'', 0), (''sweep_period_ms'', 100)]"

definition render_ble_advertising_flood :: hw_renderer where
  "render_ble_advertising_flood =
     hw_ints [(''rate_per_second'', 10000), (''spoofed_macs'', 256), (''adv_data_size'', 28)]"

definition render_lora_jam :: hw_renderer where
  "render_lora_jam =
     hw_ints [(''frequency_hz'', 915000000), (''bandwidth_hz'', 125000), (''spreading_factor'', 7),
              (''power_dbm'', 14)]"

definition RF_RENDERERS :: "(string, hw_renderer) dict" where
  "RF_RENDERERS =
     [(''wifi.deauth'', render_wifi_deauth), (''wifi.jam'', render_wifi_jam),
      (''ble.advertising_flood'', render_ble_advertising_flood), (''lora.jam'', render_lora_jam)]"

section \<open>Power\<close>

definition render_power_brownout :: hw_renderer where
  "render_power_brownout = hw_ints [(''floor_mv'', 2400), (''rise_time_ms'', 0)]"

definition render_power_ramp :: hw_renderer where
  "render_power_ramp = hw_ints [(''start_mv'', 5000), (''floor_mv'', 2500), (''steps'', 30)]"

definition render_power_cut :: hw_renderer where
  "render_power_cut fr fl f = Inr (hw_fault f [])"

definition POWER_RENDERERS :: "(string, hw_renderer) dict" where
  "POWER_RENDERERS =
     [(''power.brownout'', render_power_brownout), (''power.ramp'', render_power_ramp),
      (''power.cut'', render_power_cut)]"

section \<open>Sensors\<close>

definition render_sensor_dropout :: hw_renderer where
  "render_sensor_dropout fr fl f =
     Inr (hw_fault f [str_field fr f ''sensor_id'' ''primary'', str_field fr f ''bus'' ''i2c''])"

definition render_sensor_stuck :: hw_renderer where
  "render_sensor_stuck fr fl f =
     (let base = [str_field fr f ''sensor_id'' ''primary''] in
      case dict_get (fs_parameters f) ''replay_value'' of
        None \<Rightarrow> Inr (hw_fault f base)
      | Some v \<Rightarrow> res_bind (fl v) (\<lambda>x. Inr (hw_fault f (base @ [(''replay_value'', PFloat x)]))))"

definition SENSOR_RENDERERS :: "(string, hw_renderer) dict" where
  "SENSOR_RENDERERS =
     [(''sensor.dropout'', render_sensor_dropout), (''sensor.stuck'', render_sensor_stuck)]"

section \<open>Time\<close>

definition render_time_ntp_cut :: hw_renderer where
  "render_time_ntp_cut fr fl f =
     (case param (fs_parameters f) ''ports'' (PList [PInt 123]) of
        PList ports \<Rightarrow>
          res_bind (res_map py_int ports) (\<lambda>ps.
            Inr (hw_fault f [(''ports'', PList (map PInt ps)), str_field fr f ''scope'' ''gateway'']))
      | _ \<Rightarrow> Inl (Exn ''ValueError'' ''time.ntp.cut: `ports` must be a list''))"

definition render_time_clock_drift :: hw_renderer where
  "render_time_clock_drift fr fl f =
     res_bind (int_param (fs_parameters f) ''skew_seconds'' 86400) (\<lambda>s.
       res_bind (fl (param (fs_parameters f) ''ramp_rate'' (PFloat 0))) (\<lambda>r.
         Inr (hw_fault f [(''skew_seconds'', PInt s), (''ramp_rate'', PFloat r)])))"

definition TIME_RENDERERS :: "(string, hw_renderer) dict" where
  "TIME_RENDERERS =
     [(''time.ntp.cut'', render_time_ntp_cut), (''time.clock.drift'', render_time_clock_drift)]"

section \<open>Dispatch\<close>

definition render_from :: "string \<Rightarrow> (string, hw_renderer) dict \<Rightarrow> hw_renderer" where
  "render_from what reg fr fl f =
     (case dict_get reg (fs_name f) of
        None \<Rightarrow> Inl (Exn ''KeyError'' (''no '' @ what @ '' renderer for '' @ repr_str (fs_name f)))
      | Some r \<Rightarrow> r fr fl f)"

definition has_hardware_renderer :: "string \<Rightarrow> bool" where
  "has_hardware_renderer n \<longleftrightarrow>
     dict_has RF_RENDERERS n \<or> dict_has POWER_RENDERERS n \<or> dict_has SENSOR_RENDERERS n \<or>
     dict_has TIME_RENDERERS n"

definition render_hardware_fault :: hw_renderer where
  "render_hardware_fault fr fl f =
     (if dict_has RF_RENDERERS (fs_name f) then render_from ''RF'' RF_RENDERERS fr fl f
      else if dict_has POWER_RENDERERS (fs_name f) then render_from ''power'' POWER_RENDERERS fr fl f
      else if dict_has SENSOR_RENDERERS (fs_name f) then render_from ''sensor'' SENSOR_RENDERERS fr fl f
      else if dict_has TIME_RENDERERS (fs_name f) then render_from ''hardware time'' TIME_RENDERERS fr fl f
      else Inl (Exn ''KeyError'' (''no hardware renderer for '' @ repr_str (fs_name f))))"

section \<open>Lemmas\<close>

lemmas hw_registries = RF_RENDERERS_def POWER_RENDERERS_def SENSOR_RENDERERS_def TIME_RENDERERS_def

lemmas hw_renderers = render_wifi_deauth_def render_wifi_jam_def render_ble_advertising_flood_def
  render_lora_jam_def render_power_brownout_def render_power_ramp_def render_power_cut_def
  render_sensor_dropout_def render_sensor_stuck_def render_time_ntp_cut_def
  render_time_clock_drift_def hw_ints_def

definition hardware_names :: "string list" where
  "hardware_names = map fst RF_RENDERERS @ map fst POWER_RENDERERS @ map fst SENSOR_RENDERERS @
     map fst TIME_RENDERERS"

lemma has_hardware_renderer_iff: "has_hardware_renderer n \<longleftrightarrow> n \<in> set hardware_names"
  by (auto simp: has_hardware_renderer_def hardware_names_def dict_has_def)

lemma hardware_names_eval:
  "hardware_names =
     [''wifi.deauth'', ''wifi.jam'', ''ble.advertising_flood'', ''lora.jam'', ''power.brownout'',
      ''power.ramp'', ''power.cut'', ''sensor.dropout'', ''sensor.stuck'', ''time.ntp.cut'',
      ''time.clock.drift'']"
  by (simp add: hardware_names_def hw_registries)

text \<open>The registries do not overlap, so the dispatch order is irrelevant.\<close>

lemma hardware_names_distinct: "distinct hardware_names"
  unfolding hardware_names_eval by simp

lemma hardware_names_catalogued: "has_hardware_renderer n \<Longrightarrow> in_catalogue n"
  unfolding has_hardware_renderer_iff hardware_names_eval in_catalogue_eval by auto

text \<open>Every renderer keeps the fault's name and duration.\<close>

lemma hw_fault_fields [simp]:
  "hf_name (hw_fault f d) = fs_name f" "hf_duration_seconds (hw_fault f d) = fs_duration_seconds f"
  "hf_parameters (hw_fault f d) = d"
  by (simp_all add: hw_fault_def)

lemma registry_keeps:
  assumes "reg \<in> {RF_RENDERERS, POWER_RENDERERS, SENSOR_RENDERERS, TIME_RENDERERS}"
    "(n, r) \<in> set reg" "r fr fl f = Inr h"
  shows "hf_name h = fs_name f \<and> hf_duration_seconds h = fs_duration_seconds f"
  using assms
  by (auto simp: hw_registries hw_renderers res_bind_Inr_iff Let_def split: pyval.splits option.splits)

lemma render_from_keeps:
  assumes "reg \<in> {RF_RENDERERS, POWER_RENDERERS, SENSOR_RENDERERS, TIME_RENDERERS}"
    "render_from what reg fr fl f = Inr h"
  shows "hf_name h = fs_name f \<and> hf_duration_seconds h = fs_duration_seconds f"
proof -
  obtain r where r: "dict_get reg (fs_name f) = Some r" "r fr fl f = Inr h"
    using assms(2) by (auto simp: render_from_def split: option.splits)
  have m: "(fs_name f, r) \<in> set reg" using r(1) by (simp add: dict_get_def map_of_SomeD)
  show ?thesis using registry_keeps [OF assms(1) m r(2)] .
qed

lemma render_hardware_keeps:
  assumes "render_hardware_fault fr fl f = Inr h"
  shows "hf_name h = fs_name f \<and> hf_duration_seconds h = fs_duration_seconds f"
  using assms render_from_keeps [of _ _ fr fl f h]
  by (auto simp: render_hardware_fault_def split: if_splits)

text \<open>The two renderer registries split the catalogue. No fault has both a Chaos Mesh and a
  hardware renderer, every fault with a renderer is in the catalogue, and the faults that neither
  agent can run are exactly the sixteen listed.\<close>

theorem renderers_split_catalogue:
  "\<not> (has_renderer n \<and> has_hardware_renderer n) \<and>
   (in_catalogue n \<longleftrightarrow> has_renderer n \<or> has_hardware_renderer n \<or>
      n \<in> {''io.latency'', ''dns.error'', ''http.abort'',
      ''time.skew'', ''cert.revoke'', ''cert.expire'', ''tls.downgrade'',
      ''auth.outage'', ''auth.latency'', ''secret.rotate'', ''image.swap_vuln'',
      ''image.swap_unsigned'', ''iam.degrade'', ''netpol.regress'',
      ''egress.exfil_sim'', ''runtime.tamper''})"
proof -
  have r: "has_renderer n \<longleftrightarrow> n \<in> {''pod.kill'', ''pod.failure'', ''network.loss'', ''network.delay'',
      ''network.partition'', ''stress.cpu'', ''stress.memory''}"
    by (simp add: has_renderer_def RENDERERS_def dict_has_def)
  show ?thesis
    unfolding r has_hardware_renderer_iff hardware_names_eval in_catalogue_eval by auto
qed

end
