(* ===== verification/Hardware_Agent.thy ===== *)
theory Hardware_Agent
  imports Hardware_Renderers Safety
begin

text \<open>
  The hardware safety gates (\<open>agents/chaos/hardware_safety.py\<close>) and the hardware chaos agent
  (\<open>agents/chaos/hardware_agent.py\<close>). Each gate is split into the reading and the verdict on what was
  read; the verdicts interpret the locale \<open>gate\<close>. The agent's guarantee is proved over
  \<open>bench_guard\<close> and obtained for the simulator by interpretation.
\<close>

section \<open>Gates\<close>

record hw_safety_config =
  hg_expected_serial :: "string option"
  hg_expected_geofence_tag :: "string option"
  hg_licensed_bands :: "(int \<times> int) list"

definition default_hw_config :: hw_safety_config where
  "default_hw_config =
     \<lparr>hg_expected_serial = None, hg_expected_geofence_tag = None, hg_licensed_bands = [(1, 14)]\<rparr>"

definition thermal_max_c :: real where "thermal_max_c = 70"

definition battery_min_soc :: real where "battery_min_soc = 30 / 100"

definition bench_verdict :: "hw_safety_config \<times> device_info \<Rightarrow> gate_failure option" where
  "bench_verdict x =
     (case x of (cfg, info) \<Rightarrow>
       if di_mode info \<noteq> ''BENCH''
       then gate_fail CLUSTER_DENIED
         (''DUT '' @ repr_str (di_serial info) @ '' reports mode='' @ repr_str (di_mode info) @
          ''; chaos requires BENCH mode'')
       else (case hg_expected_serial cfg of
         None \<Rightarrow> None
       | Some s \<Rightarrow>
           (if di_serial info \<noteq> s
            then gate_fail CLUSTER_DENIED
              (''DUT serial '' @ repr_str (di_serial info) @ '' does not match expected '' @
               repr_str s @ ''; wrong device on the bench?'')
            else None)))"

definition reported_tag :: "telemetry_sample \<Rightarrow> string option" where
  "reported_tag s =
     (case dict_get (ts_labels s) ''tag'' of
        Some t \<Rightarrow> (if t \<noteq> [] then Some t else dict_get (ts_labels s) ''value'')
      | None \<Rightarrow> dict_get (ts_labels s) ''value'')"

definition geofence_verdict :: "string \<times> telemetry_sample \<Rightarrow> gate_failure option" where
  "geofence_verdict x =
     (case x of (expected, s) \<Rightarrow>
       case reported_tag s of
         None \<Rightarrow>
           gate_fail CLUSTER_DENIED
             (''DUT did not report a geofence_tag; refusing emission test outside a known location'')
       | Some actual \<Rightarrow>
           (if actual \<noteq> expected
            then gate_fail CLUSTER_DENIED
              (''DUT geofence_tag '' @ repr_str actual @ '' does not match expected '' @
               repr_str expected @ ''; device left the lab?'')
            else None))"

definition thermal_verdict :: "telemetry_sample \<Rightarrow> gate_failure option" where
  "thermal_verdict s =
     (if ts_value s > thermal_max_c
      then gate_fail BLAST_RADIUS_VIOLATION
        (''DUT die temp is '' @ fmt1 (ts_value s) @ [CHR 0xC2, CHR 0xB0] @ ''C (max 70.0'' @
         [CHR 0xC2, CHR 0xB0] @ ''C); let it cool before running chaos'')
      else None)"

definition battery_verdict :: "telemetry_sample \<Rightarrow> gate_failure option" where
  "battery_verdict s =
     (if ts_value s < battery_min_soc
      then gate_fail BLAST_RADIUS_VIOLATION
        (''DUT battery SoC is '' @ fmt2 (ts_value s) @ '' (min 0.3); '' @
         ''charge the DUT before running chaos'')
      else None)"

definition channel_in_bands :: "int \<Rightarrow> (int \<times> int) list \<Rightarrow> bool" where
  "channel_in_bands ch bands = list_ex (\<lambda>(lo, hi). lo \<le> ch \<and> ch \<le> hi) bands"

definition covers_ism :: "(int \<times> int) list \<Rightarrow> bool" where
  "covers_ism bands = list_ex (\<lambda>(lo, hi). lo \<le> 1 \<and> hi \<ge> 14) bands"

definition band_repr :: "int \<times> int \<Rightarrow> string" where
  "band_repr b = ''('' @ int_str (fst b) @ '', '' @ int_str (snd b) @ '')''"

definition bands_repr :: "(int \<times> int) list \<Rightarrow> string" where
  "bands_repr bands =
     ''('' @ join '', '' (map band_repr bands) @ (if length bands = 1 then '','' else []) @ '')''"

definition emission_verdict :: "(int \<times> int) list \<Rightarrow> string \<Rightarrow> int \<Rightarrow> gate_failure option" where
  "emission_verdict bands name ch =
     (if ch = 0
      then (if \<not> covers_ism bands
            then gate_fail CLUSTER_DENIED
              (''fault '' @ repr_str name @ '' requests channel sweep but the bench is '' @
               ''licensed only for '' @ bands_repr bands @ ''; can't sweep without ISM coverage'')
            else None)
      else if \<not> channel_in_bands ch bands
      then gate_fail CLUSTER_DENIED
        (''fault '' @ repr_str name @ '' on channel '' @ int_str ch @ '' is outside the licensed '' @
         ''bands '' @ bands_repr bands @ ''; refuse to emit'')
      else None)"

fun emission_faults :: "(int \<times> int) list \<Rightarrow> fault_spec list \<Rightarrow> gate_failure option res" where
  "emission_faults bands [] = Inr None"
| "emission_faults bands (f # fs) =
     res_bind (int_param (fs_parameters f) ''channel'' 0) (\<lambda>ch.
       case emission_verdict bands (fs_name f) ch of
         Some g \<Rightarrow> Inr (Some g)
       | None \<Rightarrow> emission_faults bands fs)"

definition check_emission_compliance ::
  "experiment_plan \<Rightarrow> hw_safety_config \<Rightarrow> gate_failure option res" where
  "check_emission_compliance p cfg =
     emission_faults (hg_licensed_bands cfg) (filter (\<lambda>f. fs_category f = FC_RF) (ep_faults p))"

text \<open>A gate that reads and then judges.\<close>

definition read_gate :: "('e \<Rightarrow> 'v res \<times> 'e) \<Rightarrow> ('v \<Rightarrow> gate_failure option) \<Rightarrow> 'e \<Rightarrow>
    gate_failure option res \<times> 'e" where
  "read_gate reading verdict e = (case reading e of (r, e1) \<Rightarrow> (res_bind r (\<lambda>v. Inr (verdict v)), e1))"

definition check_bench_mode ::
  "'e hardware_io \<Rightarrow> hw_safety_config \<Rightarrow> 'e \<Rightarrow> gate_failure option res \<times> 'e" where
  "check_bench_mode io cfg = read_gate (hi_device_info io) (\<lambda>i. bench_verdict (cfg, i))"

definition check_geofence ::
  "'e hardware_io \<Rightarrow> hw_safety_config \<Rightarrow> 'e \<Rightarrow> gate_failure option res \<times> 'e" where
  "check_geofence io cfg e =
     (case hg_expected_geofence_tag cfg of
        None \<Rightarrow> (Inr None, e)
      | Some tag \<Rightarrow> read_gate (hi_read_telemetry io ''geofence_tag'') (\<lambda>s. geofence_verdict (tag, s)) e)"

definition check_thermal_headroom :: "'e hardware_io \<Rightarrow> 'e \<Rightarrow> gate_failure option res \<times> 'e" where
  "check_thermal_headroom io = read_gate (hi_read_telemetry io ''die_temperature_c'') thermal_verdict"

definition check_battery_headroom :: "'e hardware_io \<Rightarrow> 'e \<Rightarrow> gate_failure option res \<times> 'e" where
  "check_battery_headroom io = read_gate (hi_read_telemetry io ''battery_soc'') battery_verdict"

text \<open>\<open>if fail := await gate: return fail\<close>, gate after gate.\<close>

fun first_failure :: "('e \<Rightarrow> gate_failure option res \<times> 'e) list \<Rightarrow> 'e \<Rightarrow> gate_failure option res \<times> 'e" where
  "first_failure [] e = (Inr None, e)"
| "first_failure (g # gs) e =
     (case g e of
        (Inl x, e1) \<Rightarrow> (Inl x, e1)
      | (Inr (Some f), e1) \<Rightarrow> (Inr (Some f), e1)
      | (Inr None, e1) \<Rightarrow> first_failure gs e1)"

definition run_all_gates ::
  "experiment_plan \<Rightarrow> 'e hardware_io \<Rightarrow> hw_safety_config \<Rightarrow> 'e \<Rightarrow> gate_failure option res \<times> 'e" where
  "run_all_gates p io cfg e =
     first_failure
       [\<lambda>e. (check_emission_compliance p cfg, e), check_bench_mode io cfg, check_geofence io cfg,
        check_thermal_headroom io, check_battery_headroom io] e"

interpretation bench_gate: gate bench_verdict
    "\<lambda>(cfg, i). di_mode i = ''BENCH'' \<and> (\<forall>s. hg_expected_serial cfg = Some s \<longrightarrow> di_serial i = s)"
    "{CLUSTER_DENIED}"
  by unfold_locales (auto simp: bench_verdict_def split: option.splits if_splits)

interpretation geofence_gate: gate geofence_verdict "\<lambda>(tag, s). reported_tag s = Some tag" "{CLUSTER_DENIED}"
  by unfold_locales (auto simp: geofence_verdict_def split: option.splits if_splits)

interpretation thermal_gate: gate thermal_verdict "\<lambda>s. ts_value s \<le> thermal_max_c" "{BLAST_RADIUS_VIOLATION}"
  by unfold_locales (auto simp: thermal_verdict_def split: if_splits)

interpretation battery_gate: gate battery_verdict "\<lambda>s. battery_min_soc \<le> ts_value s" "{BLAST_RADIUS_VIOLATION}"
  by unfold_locales (auto simp: battery_verdict_def split: if_splits)

interpretation emission_gate: gate "\<lambda>(bands, name, ch). emission_verdict bands name ch"
    "\<lambda>(bands, name, ch). if ch = 0 then covers_ism bands else channel_in_bands ch bands"
    "{CLUSTER_DENIED}"
  by unfold_locales (auto simp: emission_verdict_def split: if_splits)

lemma first_failure_passed:
  "first_failure gs e = (Inr None, e') \<Longrightarrow> g \<in> set gs \<Longrightarrow> \<exists>e1 e2. g e1 = (Inr None, e2)"
  by (induction gs arbitrary: e) (auto split: prod.splits sum.splits option.splits)

lemma emission_faults_passed:
  "emission_faults bands fs = Inr None \<longleftrightarrow>
     (\<forall>f \<in> set fs. \<exists>ch. int_param (fs_parameters f) ''channel'' 0 = Inr ch \<and>
        (if ch = 0 then covers_ism bands else channel_in_bands ch bands))"
proof (induction fs)
  case (Cons f fs)
  show ?case
  proof (cases "int_param (fs_parameters f) ''channel'' 0")
    case (Inr ch)
    have v: "emission_verdict bands (fs_name f) ch = None \<longleftrightarrow>
        (if ch = 0 then covers_ism bands else channel_in_bands ch bands)"
      using emission_gate.passes_iff [of "(bands, fs_name f, ch)"] by simp
    show ?thesis
      using Cons.IH Inr v by (cases "emission_verdict bands (fs_name f) ch") auto
  qed simp
qed simp

section \<open>The agent\<close>

record 'e hw_agent =
  ha_hardware :: "'e hardware_io option"
  ha_sleep :: "int \<Rightarrow> 'e \<Rightarrow> unit res \<times> 'e"
  ha_config :: hw_safety_config
  ha_now :: "'e \<Rightarrow> int"
  ha_float_repr :: "real \<Rightarrow> string"
  ha_to_float :: "pyval \<Rightarrow> real res"

definition hw_event :: "int \<Rightarrow> string \<Rightarrow> timeline_kind \<Rightarrow> string \<Rightarrow> timeline_event" where
  "hw_event t name ev detail =
     \<lparr>te_timestamp = t, te_fault_name = name, te_event = ev, te_detail = detail\<rparr>"

definition hw_fail :: "experiment_plan \<Rightarrow> string \<Rightarrow> chaos_timeline" where
  "hw_fail p msg =
     \<lparr>ct_experiment_id = ep_experiment_id p, ct_events = [], ct_success = False, ct_error = Some msg\<rparr>"

fun hw_preflight_faults :: "fault_spec list \<Rightarrow> string option" where
  "hw_preflight_faults [] = None"
| "hw_preflight_faults (f # fs) =
     (if \<not> in_catalogue (fs_name f)
      then Some (''unknown fault '' @ repr_str (fs_name f) @ ''; not in catalogue'')
      else if \<not> has_hardware_renderer (fs_name f)
      then Some (''fault '' @ repr_str (fs_name f) @ '' has no hardware renderer '' @
        ''(not in rf/power/sensor/time hardware registries)'')
      else hw_preflight_faults fs)"

definition hw_preflight :: "experiment_plan \<Rightarrow> string option" where
  "hw_preflight p =
     (case hw_preflight_faults (ep_faults p) of
        Some m \<Rightarrow> Some m
      | None \<Rightarrow>
          (if length (ep_faults p) > 1 \<and> \<not> sc_allow_multi_fault (ep_safety p)
           then Some ''plan has multiple faults but allow_multi_fault is False'' else None))"

text \<open>What the body of \<open>execute\<close> keeps: events and open handles.\<close>

record hw_progress =
  hp_events :: "timeline_event list"
  hp_handles :: "handle list"

definition add_event :: "timeline_event \<Rightarrow> hw_progress \<Rightarrow> hw_progress" where
  "add_event ev s = s\<lparr>hp_events := hp_events s @ [ev]\<rparr>"

definition run_hw_fault ::
  "'e hw_agent \<Rightarrow> 'e hardware_io \<Rightarrow> fault_spec \<Rightarrow> hw_progress \<Rightarrow> 'e \<Rightarrow> unit res \<times> hw_progress \<times> 'e" where
  "run_hw_fault ag io f s e =
     (let s1 = add_event (hw_event (ha_now ag e) (fs_name f) TE_scheduled []) s in
      case render_hardware_fault (ha_float_repr ag) (ha_to_float ag) f of
        Inl x \<Rightarrow> (Inl x, s1, e)
      | Inr rendered \<Rightarrow>
          (case hi_inject_fault io rendered e of
             (Inl x, e1) \<Rightarrow> (Inl x, s1, e1)
           | (Inr h, e1) \<Rightarrow>
               (let s2 = add_event (hw_event (ha_now ag e1) (fs_name f) TE_started (''hardware/'' @ h))
                           (s1\<lparr>hp_handles := hp_handles s1 @ [h]\<rparr>) in
                case ha_sleep ag (fs_duration_seconds f) e1 of
                  (Inl x, e2) \<Rightarrow> (Inl x, s2, e2)
                | (Inr u, e2) \<Rightarrow>
                    (case hi_cleanup io h e2 of
                       (Inl x, e3) \<Rightarrow> (Inl x, s2, e3)
                     | (Inr u, e3) \<Rightarrow>
                         (Inr (), add_event (hw_event (ha_now ag e3) (fs_name f) TE_cleaned_up ''ok'')
                            (s2\<lparr>hp_handles := remove1 h (hp_handles s2)\<rparr>), e3)))))"

fun run_hw_faults ::
  "'e hw_agent \<Rightarrow> 'e hardware_io \<Rightarrow> fault_spec list \<Rightarrow> hw_progress \<Rightarrow> 'e \<Rightarrow> unit res \<times> hw_progress \<times> 'e" where
  "run_hw_faults ag io [] s e = (Inr (), s, e)"
| "run_hw_faults ag io (f # fs) s e =
     (case run_hw_fault ag io f s e of
        (Inl x, s1, e1) \<Rightarrow> (Inl x, s1, e1)
      | (Inr u, s1, e1) \<Rightarrow> run_hw_faults ag io fs s1 e1)"

definition hw_quiet :: "'e hw_agent \<Rightarrow> int \<Rightarrow> 'e \<Rightarrow> unit res \<times> 'e" where
  "hw_quiet ag n e = (if n > 0 then ha_sleep ag n e else (Inr (), e))"

definition hw_sequence ::
  "'e hw_agent \<Rightarrow> 'e hardware_io \<Rightarrow> experiment_plan \<Rightarrow> 'e \<Rightarrow> unit res \<times> hw_progress \<times> 'e" where
  "hw_sequence ag io p e =
     (let s0 = \<lparr>hp_events = [], hp_handles = []\<rparr> in
      case hw_quiet ag (ep_quiet_window_pre_seconds p) e of
        (Inl x, e1) \<Rightarrow> (Inl x, s0, e1)
      | (Inr u, e1) \<Rightarrow>
          (case run_hw_faults ag io (ep_faults p) s0 e1 of
             (Inl x, s, e2) \<Rightarrow> (Inl x, s, e2)
           | (Inr u, s, e2) \<Rightarrow>
               (case hw_quiet ag (ep_quiet_window_post_seconds p) e2 of (r, e3) \<Rightarrow> (r, s, e3))))"

text \<open>The cleanup loop of the \<open>except Exception\<close> branch; its result is an exception it lets escape.\<close>

fun force_cleanup ::
  "'e hw_agent \<Rightarrow> 'e hardware_io \<Rightarrow> handle list \<Rightarrow> timeline_event list \<Rightarrow> 'e \<Rightarrow>
    pyexn option \<times> timeline_event list \<times> 'e" where
  "force_cleanup ag io [] evs e = (None, evs, e)"
| "force_cleanup ag io (h # hs) evs e =
     (case hi_cleanup io h e of
        (Inr u, e1) \<Rightarrow>
          force_cleanup ag io hs
            (evs @ [hw_event (ha_now ag e1) ''cleanup'' TE_cleaned_up (''forced cleanup of '' @ h)]) e1
      | (Inl x, e1) \<Rightarrow>
          (if is_exception x then force_cleanup ag io hs evs e1 else (Some x, evs, e1)))"

definition hw_execute :: "'e hw_agent \<Rightarrow> experiment_plan \<Rightarrow> 'e \<Rightarrow> chaos_timeline res \<times> 'e" where
  "hw_execute ag p e =
     (case ha_hardware ag of
        None \<Rightarrow> (Inr (hw_fail p ''no hardware backend configured''), e)
      | Some io \<Rightarrow>
          (case hw_preflight p of
             Some m \<Rightarrow> (Inr (hw_fail p m), e)
           | None \<Rightarrow>
               (case run_all_gates p io (ha_config ag) e of
                  (Inl x, e1) \<Rightarrow> (Inl x, e1)
                | (Inr (Some g), e1) \<Rightarrow>
                    (Inr (hw_fail p (''hardware safety gate: '' @ abort_reason_value (gf_reason g) @ '' '' @
                       [CHR 0xE2, CHR 0x80, CHR 0x94] @ '' '' @ gf_detail g)), e1)
                | (Inr None, e1) \<Rightarrow>
                    (case hw_sequence ag io p e1 of
                       (Inr u, s, e2) \<Rightarrow>
                         (Inr \<lparr>ct_experiment_id = ep_experiment_id p, ct_events = hp_events s,
                               ct_success = True, ct_error = None\<rparr>, e2)
                     | (Inl x, s, e2) \<Rightarrow>
                         (if \<not> is_exception x then (Inl x, e2)
                          else (case force_cleanup ag io (hp_handles s) (hp_events s) e2 of
                            (Some y, evs, e3) \<Rightarrow> (Inl y, e3)
                          | (None, evs, e3) \<Rightarrow>
                              (Inr \<lparr>ct_experiment_id = ep_experiment_id p, ct_events = evs,
                                    ct_success = False, ct_error = Some (exn_repr x)\<rparr>, e3)))))))"

definition hw_cleanup :: "'e hw_agent \<Rightarrow> experiment_plan \<Rightarrow> 'e \<Rightarrow> unit res \<times> 'e" where
  "hw_cleanup ag p e =
     (case ha_hardware ag of
        None \<Rightarrow> (Inr (), e)
      | Some io \<Rightarrow>
          (case hi_reset io e of
             (Inr u, e1) \<Rightarrow> (Inr (), e1)
           | (Inl x, e1) \<Rightarrow> (if is_exception x then (Inr (), e1) else (Inl x, e1))))"

definition hw_annotations :: "'e hw_agent \<Rightarrow> string \<Rightarrow> 'e \<Rightarrow> (string, string) dict option res \<times> 'e" where
  "hw_annotations ag ns e = (Inr (Some []), e)"

section \<open>What the agent leaves on the bench\<close>

locale bench_world = bench_guard io active inv issued
  for io :: "'e hardware_io" and active :: "'e \<Rightarrow> handle \<Rightarrow> 'f option" and inv issued +
  fixes ag :: "'e hw_agent"
  assumes hardware: "ha_hardware ag = Some io"
    and sleep_guarded: "inv n e \<Longrightarrow> ha_sleep ag k e = (r, e') \<Longrightarrow> inv n e' \<and> tracked (active e) [] (active e')"
begin

text \<open>The faults in force are among those in force before, except for the handles still tracked.\<close>

definition holds :: "(handle \<Rightarrow> 'f option) \<Rightarrow> nat \<Rightarrow> handle list \<Rightarrow> 'e \<Rightarrow> bool" where
  "holds a0 n hs e \<longleftrightarrow> inv n e \<and> list_all issued hs \<and> tracked a0 hs (active e)"

lemma holds_spare: "holds a0 (Suc n) hs e \<Longrightarrow> holds a0 n hs e"
  using spare by (auto simp: holds_def)

lemma holds_quiet:
  "holds a0 n hs e \<Longrightarrow> inv n e' \<Longrightarrow> tracked (active e) [] (active e') \<Longrightarrow> holds a0 n hs e'"
  by (auto simp: holds_def intro: tracked_shrink)

lemma holds_sleep: "holds a0 n hs e \<Longrightarrow> ha_sleep ag k e = (r, e') \<Longrightarrow> holds a0 n hs e'"
  using holds_quiet sleep_guarded by (meson holds_def)

lemma holds_inject:
  assumes "holds a0 (Suc n) hs e" "hi_inject_fault io f e = (Inr h, e')"
  shows "holds a0 n (hs @ [h]) e'"
  using assms inject_guarded [of n e f h e'] by (auto simp: holds_def intro: tracked_trans)

lemma holds_refused:
  assumes "holds a0 n hs e" "hi_inject_fault io f e = (Inl x, e')"
  shows "holds a0 n hs e'"
  using assms refused_guarded [of n e f x e'] by (auto simp: holds_def intro: tracked_shrink)

lemma holds_cleanup:
  assumes "holds a0 n hs e" "h \<in> set hs" "hi_cleanup io h e = (c, e')"
  shows "holds a0 n hs e'" and "c = Inr u \<Longrightarrow> holds a0 n (remove1 h hs) e'"
proof -
  have "issued h" using assms(1,2) by (simp add: holds_def list_all_iff)
  then have g: "inv n e'" "tracked (active e) [] (active e')" "c = Inr u \<Longrightarrow> active e' h = None" for u
    using cleanup_guarded [of n e h c e'] assms(1,3) by (auto simp: holds_def)
  show k: "holds a0 n hs e'" using holds_quiet [OF assms(1)] g by blast
  show "holds a0 n (remove1 h hs) e'" if "c = Inr u"
    using k g(3) [OF that] by (auto simp: holds_def list_all_iff intro: tracked_drop dest: set_remove1_subset [THEN subsetD])
qed

lemma run_hw_fault_tracked:
  assumes "run_hw_fault ag io f s e = (r, s', e')" "holds a0 (Suc n) (hp_handles s) e"
  shows "holds a0 n (hp_handles s') e' \<and> (\<forall>u. r = Inr u \<longrightarrow> set (hp_handles s') \<subseteq> set (hp_handles s))"
proof (cases "render_hardware_fault (ha_float_repr ag) (ha_to_float ag) f")
  case (Inl x)
  with assms holds_spare show ?thesis by (auto simp: run_hw_fault_def add_event_def)
next
  case (Inr rendered)
  obtain q1 e1 where a: "hi_inject_fault io rendered e = (q1, e1)" by (cases "hi_inject_fault io rendered e")
  show ?thesis
  proof (cases q1)
    case (Inl x)
    with assms Inr a holds_refused [OF holds_spare [OF assms(2)] a [unfolded Inl]] show ?thesis
      by (auto simp: run_hw_fault_def add_event_def Let_def)
  next
    case i1: (Inr h)
    obtain q2 e2 where sl: "ha_sleep ag (fs_duration_seconds f) e1 = (q2, e2)"
      by (cases "ha_sleep ag (fs_duration_seconds f) e1")
    obtain q3 e3 where cu: "hi_cleanup io h e2 = (q3, e3)" by (cases "hi_cleanup io h e2")
    have t2: "holds a0 n (hp_handles s @ [h]) e2"
      using holds_sleep [OF holds_inject [OF assms(2) a [unfolded i1]] sl] .
    note t3 = holds_cleanup [OF t2 _ cu]
    have "set (remove1 h (hp_handles s @ [h])) \<subseteq> set (hp_handles s)"
      by (auto simp: remove1_append dest: notin_set_remove1 set_remove1_subset [THEN subsetD])
    with assms(1) Inr a i1 sl cu t2 t3 show ?thesis
      by (cases q2; cases q3) (auto simp: run_hw_fault_def add_event_def Let_def)
  qed
qed

lemma run_hw_faults_tracked:
  "run_hw_faults ag io fs s e = (r, s', e') \<Longrightarrow> holds a0 (length fs + n) (hp_handles s) e \<Longrightarrow>
     holds a0 n (hp_handles s') e' \<and> (\<forall>u. r = Inr u \<longrightarrow> set (hp_handles s') \<subseteq> set (hp_handles s))"
proof (induction fs arbitrary: s e)
  case (Cons f fs)
  obtain q s1 e1 where f: "run_hw_fault ag io f s e = (q, s1, e1)" by (metis prod_cases3)
  have t: "holds a0 (length fs + n) (hp_handles s1) e1 \<and> (\<forall>u. q = Inr u \<longrightarrow> set (hp_handles s1) \<subseteq> set (hp_handles s))"
    using run_hw_fault_tracked [OF f] Cons.prems(2) by simp
  have less: "holds a0 (k + n) hs d \<Longrightarrow> holds a0 n hs d" for k hs d
    by (induction k) (auto dest: holds_spare)
  show ?case
  proof (cases q)
    case (Inl x)
    with Cons.prems(1) f t less show ?thesis by auto
  next
    case (Inr u)
    then have "run_hw_faults ag io fs s1 e1 = (r, s', e')" using Cons.prems(1) f by simp
    from Cons.IH [OF this t [THEN conjunct1]] t Inr show ?thesis by auto
  qed
qed auto

lemma hw_quiet_holds: "hw_quiet ag k e = (r, e') \<Longrightarrow> holds a0 n hs e \<Longrightarrow> holds a0 n hs e'"
  by (auto simp: hw_quiet_def split: if_splits intro: holds_sleep)

lemma hw_sequence_tracked:
  assumes "hw_sequence ag io p e = (r, s, e')" "holds a0 (length (ep_faults p) + n) [] e"
  shows "holds a0 n (hp_handles s) e' \<and> (\<forall>u. r = Inr u \<longrightarrow> hp_handles s = [])"
proof -
  let ?s0 = "\<lparr>hp_events = [], hp_handles = []\<rparr>"
  obtain q1 e1 where w1: "hw_quiet ag (ep_quiet_window_pre_seconds p) e = (q1, e1)"
    by (cases "hw_quiet ag (ep_quiet_window_pre_seconds p) e")
  have h1: "holds a0 (length (ep_faults p) + n) [] e1" by (rule hw_quiet_holds [OF w1 assms(2)])
  have less: "holds a0 (k + n) hs d \<Longrightarrow> holds a0 n hs d" for k hs d
    by (induction k) (auto dest: holds_spare)
  obtain q2 s2 e2 where rf: "run_hw_faults ag io (ep_faults p) ?s0 e1 = (q2, s2, e2)" by (metis prod_cases3)
  have t: "holds a0 n (hp_handles s2) e2 \<and> (\<forall>u. q2 = Inr u \<longrightarrow> hp_handles s2 = [])"
    using run_hw_faults_tracked [OF rf, of a0 n] h1 by simp
  obtain q3 e3 where w2: "hw_quiet ag (ep_quiet_window_post_seconds p) e2 = (q3, e3)"
    by (cases "hw_quiet ag (ep_quiet_window_post_seconds p) e2")
  show ?thesis
    using assms(1) w1 rf w2 t less [OF h1] hw_quiet_holds [OF w2, of a0 n "hp_handles s2"]
    by (cases q1; cases q2) (auto simp: hw_sequence_def Let_def)
qed

text \<open>Forced cleanup drops every handle whose cleanup does not raise.\<close>

lemma force_cleanup_tracked:
  assumes "\<And>h n e x e'. inv n e \<Longrightarrow> issued h \<Longrightarrow> hi_cleanup io h e = (Inl x, e') \<Longrightarrow> False"
  shows "force_cleanup ag io hs evs e = (y, evs', e') \<Longrightarrow> holds a0 n hs e \<Longrightarrow> y = None \<and> holds a0 n [] e'"
proof (induction hs arbitrary: evs e)
  case (Cons h hs)
  obtain q e1 where cu: "hi_cleanup io h e = (q, e1)" by (cases "hi_cleanup io h e")
  have "inv n e" "issued h" using Cons.prems(2) by (simp_all add: holds_def)
  then obtain u where q: "q = Inr u" using assms [of n e h _ e1] cu by (cases q) blast+
  have "holds a0 n hs e1"
    using holds_cleanup(2) [OF Cons.prems(2) _ cu q] by simp
  with Cons.IH Cons.prems(1) cu q show ?case by auto
qed simp

lemma first_failure_holds:
  "first_failure gs d = (q, d') \<Longrightarrow> (\<And>g a b c. g \<in> set gs \<Longrightarrow> g a = (b, c) \<Longrightarrow> holds a0 n hs a \<Longrightarrow> holds a0 n hs c) \<Longrightarrow>
     holds a0 n hs d \<Longrightarrow> holds a0 n hs d'"
proof (induction gs arbitrary: d)
  case (Cons g gs)
  obtain b c where g: "g d = (b, c)" by (cases "g d")
  have c: "holds a0 n hs c" by (rule Cons.prems(2) [of g d b c]) (use g Cons.prems(3) in simp_all)
  show ?case
  proof (cases "b = Inr None")
    case True
    then have "first_failure gs c = (q, d')" using Cons.prems(1) g by simp
    from Cons.IH [OF this] Cons.prems(2) c show ?thesis by (metis list.set_intros(2))
  next
    case False
    with Cons.prems(1) g c show ?thesis by (auto split: sum.splits option.splits)
  qed
qed simp

lemma gates_hold:
  assumes "run_all_gates p io cfg e = (r, e')" "holds a0 n hs e"
  shows "holds a0 n hs e'"
proof (rule first_failure_holds [OF assms(1) [unfolded run_all_gates_def] _ assms(2)])
  fix g a b c
  assume g: "g \<in> set [\<lambda>e. (check_emission_compliance p cfg, e), check_bench_mode io cfg,
      check_geofence io cfg, check_thermal_headroom io, check_battery_headroom io]" "g a = (b, c)"
    and h: "holds a0 n hs a"
  have "hi_device_info io a = (i, c) \<Longrightarrow> holds a0 n hs c" for i
    using info_guarded [of n a i c] holds_quiet [OF h] h by (simp add: holds_def)
  moreover have "hi_read_telemetry io m a = (i, c) \<Longrightarrow> holds a0 n hs c" for m i
    using read_guarded [of n a m i c] holds_quiet [OF h] h by (simp add: holds_def)
  ultimately show "holds a0 n hs c"
    using g h by (auto simp: check_bench_mode_def check_geofence_def check_thermal_headroom_def
        check_battery_headroom_def read_gate_def split: prod.splits option.splits)
qed

text \<open>Whenever a timeline is returned, what is in force was in force before the execution.\<close>

lemma execute_tracked:
  assumes "\<And>h n e x e'. inv n e \<Longrightarrow> issued h \<Longrightarrow> hi_cleanup io h e = (Inl x, e') \<Longrightarrow> False"
    and "inv (length (ep_faults p)) e" "hw_execute ag p e = (Inr t, e')"
  shows "tracked (active e) [] (active e')"
proof (cases "hw_preflight p")
  case (Some msg)
  with assms(3) hardware show ?thesis by (auto simp: hw_execute_def)
next
  case None
  let ?m = "length (ep_faults p)"
  obtain g e1 where ga: "run_all_gates p io (ha_config ag) e = (g, e1)"
    by (cases "run_all_gates p io (ha_config ag) e")
  have h1: "holds (active e) (?m + 0) [] e1"
    using gates_hold [OF ga, of "active e" ?m "[]"] assms(2) by (simp add: holds_def)
  obtain r s e2 where sq: "hw_sequence ag io p e1 = (r, s, e2)" by (metis prod_cases3)
  note tr = hw_sequence_tracked [OF sq h1]
  obtain y evs e3 where fc: "force_cleanup ag io (hp_handles s) (hp_events s) e2 = (y, evs, e3)"
    by (metis prod_cases3)
  note fc3 = force_cleanup_tracked [OF assms(1) fc tr [THEN conjunct1]]
  have "tracked (active e) [] (active e1)" "tracked (active e) [] (active e3)"
    using h1 fc3 by (simp_all add: holds_def)
  moreover have "tracked (active e) [] (active e2)" if "r = Inr u" for u
  proof -
    have "hp_handles s = []" using tr that by simp
    with tr show ?thesis by (simp add: holds_def)
  qed
  ultimately show ?thesis
    using assms(3) None hardware ga sq fc
    by (auto simp: hw_execute_def split: sum.splits option.splits if_splits)
qed

end

section \<open>The agent on the simulator\<close>

definition sim_agent ::
  "(int \<Rightarrow> unit res) \<Rightarrow> hw_safety_config \<Rightarrow> (real \<Rightarrow> string) \<Rightarrow> (pyval \<Rightarrow> real res) \<Rightarrow> simulator hw_agent" where
  "sim_agent sl cfg fr fl =
     \<lparr>ha_hardware = Some simulated_io, ha_sleep = (\<lambda>n e. (sl n, e)), ha_config = cfg,
      ha_now = (\<lambda>e. 0), ha_float_repr = fr, ha_to_float = fl\<rparr>"

interpretation sw: bench_world simulated_io "\<lambda>s h. dict_get (sm_active_faults s) h" "\<lambda>n e. True" "\<lambda>h. True"
    "sim_agent sl cfg fr fl"
  for sl cfg fr fl
  by unfold_locales (simp_all add: sim_agent_def)

lemma sim_agent_fields [simp]:
  "ha_hardware (sim_agent sl cfg fr fl) = Some simulated_io" "ha_config (sim_agent sl cfg fr fl) = cfg"
  "ha_sleep (sim_agent sl cfg fr fl) n e = (sl n, e)" "ha_now (sim_agent sl cfg fr fl) e = 0"
  "ha_float_repr (sim_agent sl cfg fr fl) = fr" "ha_to_float (sim_agent sl cfg fr fl) = fl"
  by (simp_all add: sim_agent_def)

text \<open>C13: whenever the hardware agent returns a timeline on the simulator (refused, completed, or failed
  in a rendering, an injection or a wait), no fault is in force that was not in force before.\<close>

theorem hw_no_fault_left_active:
  assumes "hw_execute (sim_agent sl cfg fr fl) p m = (Inr t, m')"
  shows "dict_get (sm_active_faults m') h = dict_get (sm_active_faults m) h \<or>
    dict_get (sm_active_faults m') h = None"
  using sw.execute_tracked [OF _ _ assms] by (simp add: tracked_def sim_cleanup_def)

definition sim_sample :: "simulator \<Rightarrow> string \<Rightarrow> telemetry_sample" where
  "sim_sample m metric =
     (case sim_read_telemetry metric m of
        (Inr s, m') \<Rightarrow> s
      | (Inl x, m') \<Rightarrow> \<lparr>ts_metric = metric, ts_value = 0, ts_labels = []\<rparr>)"

lemma sim_read: "sim_read_telemetry metric m = (Inr (sim_sample m metric), m)"
  by (simp add: sim_sample_def sim_read_telemetry_def Let_def split: option.splits)

text \<open>C14: On the simulator the agent reports success only on a device in bench mode (and with the expected serial
  number, when one is configured), that reports the expected geofence tag (when one is configured), cool and charged
  enough, and only for a plan in which every fault declared in the category RF names a channel inside the licensed
  bands, or no channel while the ISM bands are licensed as a whole. (The category is what the plan declares: a radio
  fault filed under another category is not checked, see \<open>emission_gate_trusts_category\<close>.)\<close>

theorem hw_success_behind_gates:
  assumes "hw_execute (sim_agent sl cfg fr fl) p m = (Inr t, m')" "ct_success t"
  shows "di_mode (sm_device m) = ''BENCH'' \<and>
    (\<forall>s. hg_expected_serial cfg = Some s \<longrightarrow> di_serial (sm_device m) = s) \<and>
    (\<forall>tag. hg_expected_geofence_tag cfg = Some tag \<longrightarrow>
       reported_tag (sim_sample m ''geofence_tag'') = Some tag) \<and>
    ts_value (sim_sample m ''die_temperature_c'') \<le> thermal_max_c \<and>
    battery_min_soc \<le> ts_value (sim_sample m ''battery_soc'') \<and>
    (\<forall>f \<in> set (ep_faults p). fs_category f = FC_RF \<longrightarrow>
       (\<exists>ch. int_param (fs_parameters f) ''channel'' 0 = Inr ch \<and>
          (if ch = 0 then covers_ism (hg_licensed_bands cfg)
           else channel_in_bands ch (hg_licensed_bands cfg))))"
proof -
  obtain m1 where ga: "run_all_gates p simulated_io cfg m = (Inr None, m1)"
    using assms by (auto simp: hw_execute_def hw_fail_def split: option.splits prod.splits sum.splits)
  have em: "check_emission_compliance p cfg = Inr None"
    using ga by (auto simp: run_all_gates_def split: sum.splits option.splits)
  have bm: "bench_verdict (cfg, sm_device m) = None"
    using ga em
    by (auto simp: run_all_gates_def check_bench_mode_def read_gate_def sim_device_info_def
        split: option.splits)
  have "check_bench_mode simulated_io cfg m = (Inr None, m)"
    using bm by (simp add: check_bench_mode_def read_gate_def sim_device_info_def)
  then have rest: "first_failure [check_geofence simulated_io cfg, check_thermal_headroom simulated_io,
      check_battery_headroom simulated_io] m = (Inr None, m1)"
    using ga em by (simp add: run_all_gates_def)
  have gf: "check_geofence simulated_io cfg m = (Inr None, m)"
    using rest by (auto simp: check_geofence_def read_gate_def sim_read split: option.splits)
  have rest2: "first_failure [check_thermal_headroom simulated_io, check_battery_headroom simulated_io] m =
      (Inr None, m1)"
    using rest gf by simp
  have th: "thermal_verdict (sim_sample m ''die_temperature_c'') = None"
    using rest2 by (auto simp: check_thermal_headroom_def read_gate_def sim_read split: option.splits)
  have ba: "battery_verdict (sim_sample m ''battery_soc'') = None"
    using rest2 th by (auto simp: check_thermal_headroom_def check_battery_headroom_def read_gate_def
        sim_read split: option.splits)
  have "reported_tag (sim_sample m ''geofence_tag'') = Some tag"
    if "hg_expected_geofence_tag cfg = Some tag" for tag
    using gf that geofence_gate.passes_iff [of "(tag, sim_sample m ''geofence_tag'')"]
    by (auto simp: check_geofence_def read_gate_def sim_read)
  with bench_gate.passes_iff [of "(cfg, sm_device m)"] bm em th ba
    thermal_gate.passes_iff [of "sim_sample m ''die_temperature_c''"]
    battery_gate.passes_iff [of "sim_sample m ''battery_soc''"]
  show ?thesis by (auto simp: check_emission_compliance_def emission_faults_passed)
qed

section \<open>Concrete plans\<close>

definition deauth_fault :: "fault_category \<Rightarrow> fault_spec" where
  "deauth_fault c =
     \<lparr>fs_category = c, fs_name = ''wifi.deauth'', fs_target_selector = [],
      fs_parameters = [(''channel'', PInt 36)], fs_duration_seconds = 30,
      fs_requires_approval = False, fs_rationale = ''r'', fs_hypothesis_id = None\<rparr>"

definition deauth_plan :: "fault_category \<Rightarrow> experiment_plan" where
  "deauth_plan c =
     \<lparr>ep_experiment_id = ''exp-0123456789ab'', ep_title = ''t'', ep_target_app = ''owl'',
      ep_target_repo = None, ep_faults = [deauth_fault c],
      ep_safety = \<lparr>sc_cluster_context = ''bench'', sc_namespace = ''owl'',
        sc_max_pods_affected = 1, sc_max_duration_seconds = 60, sc_allow_multi_fault = False,
        sc_require_namespace_annotation = True, sc_forbidden_cluster_substrings = [''prod'']\<rparr>,
      ep_budget = \<lparr>tb_soft_cap_usd = 2, tb_hard_cap_usd = 10, tb_wall_clock_seconds = 1800\<rparr>,
      ep_quiet_window_pre_seconds = 0, ep_quiet_window_post_seconds = 0, ep_created_at = 0,
      ep_suppress = [], ep_plugin = None, ep_plugin_config = []\<rparr>"

lemma deauth_plan_fields [simp]:
  "ep_faults (deauth_plan c) = [deauth_fault c]" "ep_quiet_window_pre_seconds (deauth_plan c) = 0"
  "ep_quiet_window_post_seconds (deauth_plan c) = 0" "fs_category (deauth_fault c) = c"
  "fs_name (deauth_fault c) = ''wifi.deauth''" "fs_parameters (deauth_fault c) = [(''channel'', PInt 36)]"
  "fs_duration_seconds (deauth_fault c) = 30"
  by (simp_all add: deauth_plan_def deauth_fault_def)

lemma deauth_preflight: "hw_preflight (deauth_plan c) = None"
proof -
  have "has_hardware_renderer ''wifi.deauth''" "in_catalogue ''wifi.deauth''"
    by (simp_all add: has_hardware_renderer_iff hardware_names_eval in_catalogue_eval)
  then show ?thesis by (simp add: hw_preflight_def)
qed

lemma deauth_render:
  "render_hardware_fault fr fl (deauth_fault c) = Inr (hw_fault (deauth_fault c)
     [(''target_bssid'', PStr ''auto''), (''channel'', PInt 36), (''intensity'', PStr ''medium'')])"
proof -
  have "dict_get RF_RENDERERS ''wifi.deauth'' = Some render_wifi_deauth"
    by (simp add: RF_RENDERERS_def dict_get_Cons)
  then show ?thesis
    by (simp add: render_hardware_fault_def dict_has_iff render_from_def render_wifi_deauth_def
        int_param_def param_def dict_get_Cons str_field_def)
qed

lemma new_simulator_samples:
  "ts_value (sim_sample new_simulator ''die_temperature_c'') = 35"
  "ts_value (sim_sample new_simulator ''battery_soc'') = 90 / 100"
  by (simp_all add: sim_sample_def sim_read_telemetry_def new_simulator_def metric_value_def)

lemma deauth_gates:
  assumes "check_emission_compliance (deauth_plan c) cfg = Inr None"
    "hg_expected_serial cfg = None" "hg_expected_geofence_tag cfg = None"
  shows "run_all_gates (deauth_plan c) simulated_io cfg new_simulator = (Inr None, new_simulator)"
proof -
  have "sm_device new_simulator = \<lparr>di_serial = ''sim-DUT-001'', di_firmware_version = ''0.1.0-sim'',
        di_hardware_revision = ''rev-A'', di_mode = ''BENCH''\<rparr>"
    by (simp add: new_simulator_def)
  with assms show ?thesis
    by (simp add: run_all_gates_def check_bench_mode_def check_geofence_def check_thermal_headroom_def
        check_battery_headroom_def read_gate_def sim_device_info_def bench_verdict_def sim_read
        thermal_verdict_def battery_verdict_def new_simulator_samples thermal_max_c_def battery_min_soc_def)
qed

lemma deauth_success:
  assumes "check_emission_compliance (deauth_plan c) cfg = Inr None"
    "hg_expected_serial cfg = None" "hg_expected_geofence_tag cfg = None"
  shows "\<exists>t m'. hw_execute (sim_agent (\<lambda>n. Inr ()) cfg fr fl) (deauth_plan c) new_simulator = (Inr t, m') \<and>
    ct_success t"
  using deauth_gates [OF assms]
  by (simp add: hw_execute_def deauth_preflight hw_sequence_def hw_quiet_def run_hw_fault_def
      deauth_render sim_inject_fault_def new_simulator_def sim_cleanup_def Let_def)

definition wide_config :: hw_safety_config where
  "wide_config = default_hw_config\<lparr>hg_licensed_bands := [(1, 14), (36, 165)]\<rparr>"

lemma wide_emission: "check_emission_compliance (deauth_plan c) wide_config = Inr None"
  by (simp add: check_emission_compliance_def wide_config_def emission_verdict_def channel_in_bands_def
      int_param_def param_def dict_get_Cons)

lemma wide_fields [simp]:
  "hg_expected_serial wide_config = None" "hg_expected_geofence_tag wide_config = None"
  by (simp_all add: wide_config_def default_hw_config_def)

theorem hw_success_behind_gates_witness:
  "\<exists>t m'. hw_execute (sim_agent (\<lambda>n. Inr ()) wide_config (\<lambda>y. []) (\<lambda>v. Inr 0)) (deauth_plan FC_RF) new_simulator =
       (Inr t, m') \<and> di_mode (sm_device new_simulator) = ''BENCH''"
proof -
  obtain t m' where r: "hw_execute (sim_agent (\<lambda>n. Inr ()) wide_config (\<lambda>y. []) (\<lambda>v. Inr 0))
      (deauth_plan FC_RF) new_simulator = (Inr t, m')" "ct_success t"
    using deauth_success [OF wide_emission wide_fields] by blast
  from hw_success_behind_gates [OF r] r(1) show ?thesis by blast
qed

theorem hw_no_fault_left_active_witness:
  "\<exists>t m'. hw_execute (sim_agent (\<lambda>n. Inr ()) wide_config (\<lambda>y. []) (\<lambda>v. Inr 0)) (deauth_plan FC_RF) new_simulator =
       (Inr t, m') \<and> dict_get (sm_active_faults m') ''sim-inject-0001'' = None"
proof -
  obtain t m' where r: "hw_execute (sim_agent (\<lambda>n. Inr ()) wide_config (\<lambda>y. []) (\<lambda>v. Inr 0))
      (deauth_plan FC_RF) new_simulator = (Inr t, m')" "ct_success t"
    using deauth_success [OF wide_emission wide_fields] by blast
  have "dict_get (sm_active_faults new_simulator) ''sim-inject-0001'' = None" by (simp add: new_simulator_def)
  with hw_no_fault_left_active [OF r(1), of "''sim-inject-0001''"] r(1) show ?thesis by auto
qed

text \<open>The emission gate believes the plan's category, not the catalogue's: a radio fault declared
  under any other category is not checked against the licensed bands, so a deauthentication on a
  channel outside the default licence is injected.\<close>

theorem emission_gate_trusts_category:
  assumes "\<forall>f \<in> set (ep_faults p). fs_category f \<noteq> FC_RF"
  shows "check_emission_compliance p cfg = Inr None"
proof -
  have "filter (\<lambda>f. fs_category f = FC_RF) (ep_faults p) = []" using assms by (simp add: filter_empty_conv)
  then show ?thesis by (simp add: check_emission_compliance_def)
qed

theorem emission_gate_trusts_category_witness:
  "check_emission_compliance (deauth_plan FC_RF) default_hw_config \<noteq> Inr None \<and>
   (\<exists>t m'. hw_execute (sim_agent (\<lambda>n. Inr ()) default_hw_config (\<lambda>y. []) (\<lambda>v. Inr 0)) (deauth_plan FC_POD)
       new_simulator = (Inr t, m') \<and> ct_success t)"
proof -
  have "check_emission_compliance (deauth_plan FC_RF) default_hw_config \<noteq> Inr None"
    by (simp add: check_emission_compliance_def default_hw_config_def emission_faults_passed
        channel_in_bands_def int_param_def param_def dict_get_Cons del: emission_faults.simps)
  moreover have "check_emission_compliance (deauth_plan FC_POD) default_hw_config = Inr None"
    by (rule emission_gate_trusts_category) simp
  moreover have "hg_expected_serial default_hw_config = None" "hg_expected_geofence_tag default_hw_config = None"
    by (simp_all add: default_hw_config_def)
  ultimately show ?thesis using deauth_success by blast
qed

text \<open>The empty annotations the hardware agent returns do not opt out of the namespace gate: the
  orchestrator's gate refuses them whenever the plan requires the annotation.\<close>

theorem hardware_annotations_refused:
  "\<exists>a. fst (hw_annotations ag ns e) = Inr a \<and>
     (check_namespace_annotation c a = None \<longleftrightarrow> \<not> sc_require_namespace_annotation c)"
  using annotation_gate.passes_iff [of "(c, Some [])"]
  by (auto simp: hw_annotations_def annotation_allowed_def)

end
