(* ===== verification/Coverage.thy ===== *)
theory Coverage
  imports Contracts_Regression Catalogue
begin

text \<open>
  The coverage matrix of a regression suite: \<open>regression/relevance.py\<close> (footprints, fault targets)
  and \<open>regression/coverage.py\<close> (\<open>CoverageReporter\<close>). A Python \<open>set[str]\<close> is a finite HOL set of
  strings, \<open>sorted\<close> of one is \<open>sorted_list_of_set\<close>. The YAML loader that produces a raw footprints
  map and the tracing backend are arguments.
\<close>

section \<open>Relevance\<close>

definition footprint_error :: "string \<Rightarrow> pyexn" where
  "footprint_error m = Exn ''FootprintError'' m"

text \<open>\<open>{str(s) for s in xs}\<close>.\<close>

definition str_image :: "(real \<Rightarrow> string) \<Rightarrow> pyval list \<Rightarrow> string set" where
  "str_image fr xs = py_str fr ` set xs"

definition footprint_entry :: "(real \<Rightarrow> string) \<Rightarrow> string \<times> pyval \<Rightarrow> (string \<times> string set) res" where
  "footprint_entry fr kv =
     (case snd kv of
        PList xs \<Rightarrow> Inr (fst kv, str_image fr xs)
      | v \<Rightarrow> Inl (footprint_error
          (''footprints['' @ repr_str (fst kv) @ ''] must be a list of service names, got '' @
           type_name v @ '' ('' @ py_repr fr v @ '')'')))"

fun parse_footprints :: "(real \<Rightarrow> string) \<Rightarrow> pyval \<Rightarrow> (string, string set) dict res" where
  "parse_footprints fr (PDict d) =
     res_bind (res_map (footprint_entry fr) d) (\<lambda>kvs. Inr (dict_update [] kvs))"
| "parse_footprints fr v =
     Inl (footprint_error
       (''footprints must be a YAML mapping of journey -> [services], got '' @ type_name v))"

definition fault_target_services :: "fault_spec \<Rightarrow> string set" where
  "fault_target_services f = {v \<in> set (map snd (fs_target_selector f)). v \<noteq> []}"

text \<open>\<open>targets.setdefault(name, set()).update(..)\<close>.\<close>

definition add_targets :: "regression_scenario \<Rightarrow> (string, string set) dict \<Rightarrow> (string, string set) dict" where
  "add_targets s d =
     (let k = fs_name (sn_fault s);
          old = (case dict_get d k of None \<Rightarrow> {} | Some A \<Rightarrow> A)
      in dict_set k (old \<union> fault_target_services (sn_fault s)) d)"

definition suite_fault_targets :: "regression_suite \<Rightarrow> (string, string set) dict" where
  "suite_fault_targets su = foldl (\<lambda>d s. add_targets s d) [] (su_scenarios su)"

definition sorted_names :: "string set \<Rightarrow> string list" where
  "sorted_names A = sorted_list_of_set A"

definition check_footprints ::
  "(string, string set) dict \<Rightarrow> regression_suite \<Rightarrow> string list res" where
  "check_footprints fps su =
     (let unknown = sorted_set (filter (\<lambda>j. j \<notin> set (su_all_journeys su)) (map fst fps));
          services = \<Union> (set (map snd fps));
          targets = \<Union> (set (map snd (suite_fault_targets su)))
      in if unknown \<noteq> []
         then Inl (footprint_error
           (''footprints reference journeys not in the suite's all_journeys '' @
            ''(typo, or missing from the suite?): '' @ repr_strs unknown))
         else if services \<noteq> {} \<and> targets \<noteq> {} \<and> services \<inter> targets = {}
         then Inr [''no footprint service name matches any fault target_selector value (targets: '' @
            repr_strs (sorted_names targets) @ ''; footprint services: '' @
            repr_strs (sorted_names services) @ ''). Names must match '' @
            ''- traces often use different service names than k8s '' @
            ''selectors - otherwise every cell is falsely n-a.'']
         else Inr [])"

text \<open>\<open>DeclarativeRelevanceSource\<close>: its constructor and its query.\<close>

definition declared_entry :: "(real \<Rightarrow> string) \<Rightarrow> string \<times> pyval \<Rightarrow> (string \<times> string set) res" where
  "declared_entry fr kv =
     (case snd kv of
        PStr s \<Rightarrow> Inl (Exn ''TypeError''
          (''footprint for '' @ repr_str (fst kv) @ '' must be a list of services, not a string''))
      | PList xs \<Rightarrow> Inr (fst kv, str_image fr xs)
      | PDict d \<Rightarrow> Inr (fst kv, set (map fst d))
      | v \<Rightarrow> Inl (Exn ''TypeError'' (repr_str (type_name v) @ '' object is not iterable'')))"

definition declared_source ::
  "(real \<Rightarrow> string) \<Rightarrow> (string, pyval) dict \<Rightarrow> (string, string set) dict res" where
  "declared_source fr m = res_bind (res_map (declared_entry fr) m) (\<lambda>kvs. Inr (dict_update [] kvs))"

definition declared_footprints ::
  "(string, string set) dict \<Rightarrow> string list \<Rightarrow> (string, string set) dict" where
  "declared_footprints src js =
     foldl (\<lambda>out j. case dict_get src j of None \<Rightarrow> out | Some A \<Rightarrow> dict_set j A out) [] js"

text \<open>\<open>TraceRelevanceSource\<close>: a failed or empty trace leaves the journey unknown.\<close>

fun trace_footprints ::
  "(string \<Rightarrow> 'e \<Rightarrow> string list res \<times> 'e) \<Rightarrow> string list \<Rightarrow> (string, string set) dict \<Rightarrow> 'e \<Rightarrow>
    (string, string set) dict res \<times> 'e" where
  "trace_footprints client [] out e = (Inr out, e)"
| "trace_footprints client (j # js) out e =
     (case client j e of
        (Inl x, e1) \<Rightarrow>
          (if is_exception x then trace_footprints client js out e1 else (Inl x, e1))
      | (Inr services, e1) \<Rightarrow>
          trace_footprints client js (if services \<noteq> [] then dict_set j (set services) out else out) e1)"

section \<open>The coverage reporter\<close>

datatype cell_key = CellKey string string

definition covered_by :: "regression_suite \<Rightarrow> (cell_key, string) dict" where
  "covered_by su =
     foldl (\<lambda>d s. foldl (\<lambda>d j. dict_set (CellKey (fs_name (sn_fault s)) j) (sn_scenario_id s) d)
         d (sn_journeys s))
       [] (su_scenarios su)"

definition fault_axis :: "regression_suite \<Rightarrow> string list \<Rightarrow> string list" where
  "fault_axis su faults =
     (if faults \<noteq> [] then sort faults
      else sort (map fst (filter
        (\<lambda>(n, d). fd_category d \<in> set (map (\<lambda>s. fs_category (sn_fault s)) (su_scenarios su)))
        CATALOGUE)))"

definition plain_cell :: "string \<Rightarrow> string \<Rightarrow> coverage_state \<Rightarrow> coverage_cell" where
  "plain_cell f j st =
     \<lparr>cc_fault = f, cc_journey = j, cc_state = st, cc_scenario_id = None, cc_evidence = []\<rparr>"

definition coverage_cell_for ::
  "string \<Rightarrow> string \<Rightarrow> (cell_key, string) dict \<Rightarrow> (string, string set) dict \<Rightarrow>
    (string, string set) dict \<Rightarrow> coverage_cell" where
  "coverage_cell_for f j covered fault_targets footprints =
     (case dict_get covered (CellKey f j) of
        Some sid \<Rightarrow> (plain_cell f j CS_COVERED)\<lparr>cc_scenario_id := Some sid\<rparr>
      | None \<Rightarrow>
          (let targets = (case dict_get fault_targets f of None \<Rightarrow> {} | Some A \<Rightarrow> A) in
           case dict_get footprints j of
             None \<Rightarrow> plain_cell f j CS_UNKNOWN
           | Some services \<Rightarrow>
               (if targets \<noteq> {} \<and> targets \<inter> services = {}
                then (plain_cell f j CS_NA)\<lparr>cc_evidence :=
                  [(''reason'', PStr ''fault targets only services this journey never traverses''),
                   (''fault_targets'', PList (map PStr (sorted_names targets))),
                   (''journey_services'', PList (map PStr (sorted_names services)))]\<rparr>
                else plain_cell f j CS_UNKNOWN)))"

definition render_coverage ::
  "regression_suite \<Rightarrow> string list \<Rightarrow> (string, string set) dict \<Rightarrow> coverage_matrix" where
  "render_coverage su faults footprints =
     (let axis = fault_axis su faults; journeys = su_all_journeys su;
          covered = covered_by su; targets = suite_fault_targets su
      in \<lparr>cm_suite_id = su_suite_id su, cm_faults = axis, cm_journeys = journeys,
          cm_cells = concat (map (\<lambda>f. map (\<lambda>j. coverage_cell_for f j covered targets footprints) journeys)
            axis)\<rparr>)"

section \<open>What the tables hold\<close>

lemma dict_get_foldl_set:
  "dict_get (foldl (\<lambda>d x. dict_set (k x) (v x) d) d xs) key =
     (case find (\<lambda>x. k x = key) (rev xs) of Some x \<Rightarrow> Some (v x) | None \<Rightarrow> dict_get d key)"
  by (induction xs rule: rev_induct) (simp_all add: dict_get_set)

lemma suite_fault_targets_get:
  "dict_get (foldl (\<lambda>d s. add_targets s d) d ss) f =
     (if \<exists>s \<in> set ss. fs_name (sn_fault s) = f
      then Some ((case dict_get d f of None \<Rightarrow> {} | Some A \<Rightarrow> A) \<union>
        {x. \<exists>s \<in> set ss. fs_name (sn_fault s) = f \<and> x \<in> fault_target_services (sn_fault s)})
      else dict_get d f)"
proof (induction ss arbitrary: d)
  case (Cons s ss)
  show ?case
    by (simp only: foldl_Cons Cons.IH) (auto simp: add_targets_def Let_def dict_get_set split: option.splits)
qed simp

text \<open>The services a suite aims a fault at.\<close>

definition targeted :: "regression_suite \<Rightarrow> string \<Rightarrow> string set" where
  "targeted su f =
     {x. \<exists>s \<in> set (su_scenarios su). fs_name (sn_fault s) = f \<and> x \<in> fault_target_services (sn_fault s)}"

lemma suite_targets_targeted:
  "(case dict_get (suite_fault_targets su) f of None \<Rightarrow> {} | Some A \<Rightarrow> A) = targeted su f"
  by (auto simp: suite_fault_targets_def suite_fault_targets_get targeted_def)

definition pairs :: "regression_suite \<Rightarrow> string \<Rightarrow> string \<Rightarrow> string \<Rightarrow> bool" where
  "pairs su f j sid \<longleftrightarrow>
     (\<exists>s \<in> set (su_scenarios su). fs_name (sn_fault s) = f \<and> j \<in> set (sn_journeys s) \<and> sn_scenario_id s = sid)"

lemma covered_inner:
  "dict_get (foldl (\<lambda>d j. dict_set (CellKey n j) sid d) d js) (CellKey f j) =
     (if n = f \<and> j \<in> set js then Some sid else dict_get d (CellKey f j))"
  by (induction js arbitrary: d) (auto simp: dict_get_set)

lemma covered_outer:
  "dict_get (foldl (\<lambda>d s. foldl (\<lambda>d j. dict_set (CellKey (fs_name (sn_fault s)) j) (sn_scenario_id s) d)
       d (sn_journeys s)) d ss) (CellKey f j) = r \<Longrightarrow>
   (\<forall>sid. r = Some sid \<longrightarrow> (\<exists>s \<in> set ss. fs_name (sn_fault s) = f \<and> j \<in> set (sn_journeys s) \<and>
       sn_scenario_id s = sid) \<or> dict_get d (CellKey f j) = Some sid) \<and>
   (r = None \<longrightarrow> dict_get d (CellKey f j) = None \<and>
      (\<forall>s \<in> set ss. \<not> (fs_name (sn_fault s) = f \<and> j \<in> set (sn_journeys s))))"
proof (induction ss arbitrary: d)
  case (Cons s ss)
  from Cons.IH [OF Cons.prems [unfolded foldl_Cons]] show ?case
    by (auto simp: covered_inner split: if_splits)
qed auto

lemma covered_by_Some: "dict_get (covered_by su) (CellKey f j) = Some sid \<Longrightarrow> pairs su f j sid"
  using covered_outer [of "[]" "su_scenarios su" f j] by (fastforce simp: covered_by_def pairs_def)

lemma covered_by_None_iff: "dict_get (covered_by su) (CellKey f j) = None \<longleftrightarrow> \<not> (\<exists>sid. pairs su f j sid)"
proof
  assume "dict_get (covered_by su) (CellKey f j) = None"
  then show "\<not> (\<exists>sid. pairs su f j sid)"
    using covered_outer [of "[]" "su_scenarios su" f j] by (auto simp: covered_by_def pairs_def)
next
  assume "\<not> (\<exists>sid. pairs su f j sid)"
  then show "dict_get (covered_by su) (CellKey f j) = None"
    using covered_by_Some [of su f j] by (cases "dict_get (covered_by su) (CellKey f j)") auto
qed

lemma cells_mem:
  "c \<in> set (cm_cells (render_coverage su faults fps)) \<longleftrightarrow>
     (\<exists>f \<in> set (fault_axis su faults). \<exists>j \<in> set (su_all_journeys su).
        c = coverage_cell_for f j (covered_by su) (suite_fault_targets su) fps)"
  by (auto simp: render_coverage_def Let_def)

lemma cell_coords [simp]:
  "cc_fault (coverage_cell_for f j cov ts fps) = f"
  "cc_journey (coverage_cell_for f j cov ts fps) = j"
  by (auto simp: coverage_cell_for_def plain_cell_def Let_def split: option.splits)

text \<open>A journey the fault cannot reach, as far as suite and footprints tell.\<close>

definition unreachable :: "regression_suite \<Rightarrow> (string, string set) dict \<Rightarrow> string \<Rightarrow> string \<Rightarrow> bool" where
  "unreachable su fps f j \<longleftrightarrow>
     (\<exists>services. dict_get fps j = Some services \<and> targeted su f \<noteq> {} \<and> targeted su f \<inter> services = {})"

lemma cell_state:
  "cc_state (coverage_cell_for f j (covered_by su) (suite_fault_targets su) fps) =
     (if \<exists>sid. pairs su f j sid then CS_COVERED
      else if unreachable su fps f j then CS_NA else CS_UNKNOWN)"
proof (cases "dict_get (covered_by su) (CellKey f j)")
  case None
  then have "\<not> (\<exists>sid. pairs su f j sid)" by (simp add: covered_by_None_iff)
  then show ?thesis
    unfolding coverage_cell_for_def None suite_targets_targeted
    by (auto simp: Let_def plain_cell_def unreachable_def split: option.splits)
next
  case (Some sid)
  then have "\<exists>sid. pairs su f j sid" using covered_by_Some by blast
  then show ?thesis using Some by (simp add: coverage_cell_for_def plain_cell_def)
qed

lemma cell_scenario:
  "cc_scenario_id (coverage_cell_for f j (covered_by su) ts fps) = Some sid \<Longrightarrow> pairs su f j sid"
  by (auto simp: coverage_cell_for_def plain_cell_def Let_def split: option.splits if_splits
      dest: covered_by_Some)


text \<open>What a suite's comprehensiveness of 100 percent means: at least one scenario covers a
  cell of the matrix, and there is no fault of the axis and journey of the suite that no scenario
  pairs, except where the footprints show that the services the suite aims the fault at are not on
  the journey's path.\<close>

theorem full_comprehensiveness:
  "cm_comprehensiveness (render_coverage su faults fps) = Some 1 \<longleftrightarrow>
     (\<exists>f j sid. f \<in> set (fault_axis su faults) \<and> j \<in> set (su_all_journeys su) \<and> pairs su f j sid) \<and>
     \<not> (\<exists>f j. f \<in> set (fault_axis su faults) \<and> j \<in> set (su_all_journeys su) \<and>
          (\<nexists>sid. pairs su f j sid) \<and> \<not> unreachable su fps f j)"
proof -
  let ?m = "render_coverage su faults fps"
  let ?cell = "\<lambda>f j. coverage_cell_for f j (covered_by su) (suite_fault_targets su) fps"
  have gaps: "cm_gaps ?m = 0 \<longleftrightarrow> (\<forall>c \<in> set (cm_cells ?m). cc_state c \<notin> {CS_GAP, CS_UNKNOWN})"
    by (auto simp: cm_gaps_def filter_empty_conv)
  have cov: "cm_covered ?m > 0 \<longleftrightarrow> (\<exists>c \<in> set (cm_cells ?m). cc_state c = CS_COVERED)"
    by (auto simp: cm_covered_def filter_empty_conv)
  have cells: "set (cm_cells ?m) = (\<Union>f \<in> set (fault_axis su faults). ?cell f ` set (su_all_journeys su))"
    by (simp add: render_coverage_def Let_def)
  have all: "(\<forall>c \<in> set (cm_cells ?m). P c) \<longleftrightarrow>
      (\<forall>f \<in> set (fault_axis su faults). \<forall>j \<in> set (su_all_journeys su). P (?cell f j))" for P
    unfolding cells by simp
  have ex: "(\<exists>c \<in> set (cm_cells ?m). P c) \<longleftrightarrow>
      (\<exists>f \<in> set (fault_axis su faults). \<exists>j \<in> set (su_all_journeys su). P (?cell f j))" for P
    unfolding cells by simp
  have g: "cm_gaps ?m = 0 \<longleftrightarrow> (\<forall>f \<in> set (fault_axis su faults). \<forall>j \<in> set (su_all_journeys su).
      (\<exists>sid. pairs su f j sid) \<or> unreachable su fps f j)"
    unfolding gaps all cell_state by auto
  have v: "cm_covered ?m > 0 \<longleftrightarrow> (\<exists>f \<in> set (fault_axis su faults). \<exists>j \<in> set (su_all_journeys su).
      \<exists>sid. pairs su f j sid)"
    unfolding cov ex cell_state by simp
  show ?thesis unfolding comprehensiveness_full g v by blast
qed

section \<open>A small suite\<close>

definition cart_outage :: fault_spec where
  "cart_outage =
     \<lparr>fs_category = FC_POD, fs_name = ''pod.kill'', fs_target_selector = [(''app'', ''cart'')],
      fs_parameters = [], fs_duration_seconds = 30, fs_requires_approval = False,
      fs_rationale = ''cart restarts'', fs_hypothesis_id = None\<rparr>"

definition cart_scenario :: regression_scenario where
  "cart_scenario =
     \<lparr>sn_scenario_id = ''scn-1'', sn_title = ''cart restarts'', sn_fault = cart_outage,
      sn_oracle = OK_COMMAND, sn_oracle_config = [], sn_journeys = [''checkout''],
      sn_target_ref = None, sn_origin = ''manual'', sn_source_ref = None, sn_golden = None\<rparr>"

definition shop_suite :: "regression_scenario list \<Rightarrow> regression_suite" where
  "shop_suite scns =
     \<lparr>su_suite_id = ''suite-1'', su_name = ''shop'', su_target_app = ''shop'', su_target_repo = None,
      su_safety =
        \<lparr>sc_cluster_context = ''kind'', sc_namespace = ''shop'', sc_max_pods_affected = 1,
         sc_max_duration_seconds = 60, sc_allow_multi_fault = False,
         sc_require_namespace_annotation = True, sc_forbidden_cluster_substrings = default_forbidden\<rparr>,
      su_budget = \<lparr>tb_soft_cap_usd = 2, tb_hard_cap_usd = 10, tb_wall_clock_seconds = 1800\<rparr>,
      su_scenarios = scns, su_all_journeys = [''checkout'', ''browse'']\<rparr>"


end
