(* ===== verification/Drift.thy ===== *)
theory Drift
  imports Contracts_Regression
begin

text \<open>
  Chronic drift, \<open>regression/drift.py\<close>: a golden frozen from a suite run, and the comparison of a
  later run's baseline against it. The evidence of a verdict is dynamically typed; validating an
  entry as a \<open>StatisticalSample\<close> or a \<open>MetricThreshold\<close> (\<open>model_validate\<close>) is an argument, and
  so are the instant at which a golden is captured and the printing of floats (\<open>fr\<close>).
\<close>

section \<open>Reading a verdict's evidence\<close>

definition evidence_items :: "verify_result option \<Rightarrow> string \<Rightarrow> pyval list res" where
  "evidence_items vr k =
     (case vr of None \<Rightarrow> Inr [] | Some v \<Rightarrow> py_iter (param (vr_evidence v) k (PList [])))"

definition evidence_strings :: "(real \<Rightarrow> string) \<Rightarrow> verify_result option \<Rightarrow> string \<Rightarrow> string list res" where
  "evidence_strings fr vr k = res_bind (evidence_items vr k) (\<lambda>xs. Inr (map (py_str fr) xs))"

definition baseline_trustworthy :: "regression_verdict \<Rightarrow> bool" where
  "baseline_trustworthy v \<longleftrightarrow> rv_outcome v \<in> {RO_PASS, RO_REGRESSED}"

definition baseline_passing :: "(real \<Rightarrow> string) \<Rightarrow> regression_verdict \<Rightarrow> string list res" where
  "baseline_passing fr v = evidence_strings fr (rv_verify_result v) ''baseline_passing''"

definition baseline_metrics ::
  "(pyval \<Rightarrow> statistical_sample res) \<Rightarrow> regression_verdict \<Rightarrow> statistical_sample list res" where
  "baseline_metrics vs v = res_bind (evidence_items (rv_verify_result v) ''baseline_metrics'') (res_map vs)"

definition metric_thresholds ::
  "(pyval \<Rightarrow> metric_threshold res) \<Rightarrow> regression_verdict \<Rightarrow> metric_threshold list res" where
  "metric_thresholds vt v = res_bind (evidence_items (rv_verify_result v) ''metric_thresholds'') (res_map vt)"

definition golden_of ::
  "(real \<Rightarrow> string) \<Rightarrow> (pyval \<Rightarrow> statistical_sample res) \<Rightarrow> string \<Rightarrow> int \<Rightarrow> regression_verdict \<Rightarrow> golden res" where
  "golden_of fr vs ref t v =
     res_bind (baseline_passing fr v) (\<lambda>js.
     res_bind (baseline_metrics vs v) (\<lambda>ms.
       Inr \<lparr>go_target_ref = ref, go_metrics = ms, go_passing_journeys = js, go_captured_at = t\<rparr>))"

definition goldens_from_run ::
  "(real \<Rightarrow> string) \<Rightarrow> (pyval \<Rightarrow> statistical_sample res) \<Rightarrow> int \<Rightarrow> suite_run_record \<Rightarrow> string \<Rightarrow>
    (string, golden) dict res" where
  "goldens_from_run fr vs t r ref =
     res_bind (res_map (\<lambda>v. res_bind (golden_of fr vs ref t v) (\<lambda>g. Inr (rv_scenario_id v, g)))
         (filter baseline_trustworthy (srr_verdicts r)))
       (\<lambda>kvs. Inr (dict_update [] kvs))"

section \<open>Metric drift\<close>

fun sample_value :: "statistical_sample \<Rightarrow> percentile_field \<Rightarrow> real" where
  "sample_value s PF_mean = ss_mean s"
| "sample_value s PF_p50 = ss_p50 s"
| "sample_value s PF_p95 = ss_p95 s"
| "sample_value s PF_p99 = ss_p99 s"

definition past_budget :: "metric_threshold \<Rightarrow> real \<Rightarrow> real \<Rightarrow> bool" where
  "past_budget t gv cv =
     (if gv \<le> mt_abs_floor t then False
      else case mt_direction t of
        HIGHER_WORSE \<Rightarrow> cv > gv * mt_max_ratio t
      | LOWER_WORSE \<Rightarrow> cv < gv / mt_max_ratio t)"

definition compare_metric ::
  "statistical_sample \<Rightarrow> statistical_sample \<Rightarrow> metric_threshold \<Rightarrow> metric_drift" where
  "compare_metric g c t =
     (let gv = sample_value g (mt_percentile t); cv = sample_value c (mt_percentile t)
      in \<lparr>md_metric = mt_metric t, md_percentile = mt_percentile t, md_direction = mt_direction t,
          md_golden_value = gv, md_current_value = cv, md_max_ratio = mt_max_ratio t,
          md_regressed = past_budget t gv cv, md_missing = False\<rparr>)"

definition by_metric :: "statistical_sample list \<Rightarrow> (string, statistical_sample) dict" where
  "by_metric xs = foldl (\<lambda>d s. dict_set (ss_metric s) s d) [] xs"

definition side_value :: "statistical_sample option \<Rightarrow> percentile_field \<Rightarrow> real" where
  "side_value s p = (case s of None \<Rightarrow> 0 | Some x \<Rightarrow> sample_value x p)"

definition compare_one ::
  "statistical_sample option \<Rightarrow> statistical_sample option \<Rightarrow> metric_threshold \<Rightarrow> metric_drift" where
  "compare_one g c t =
     (case (g, c) of
        (Some a, Some b) \<Rightarrow> compare_metric a b t
      | _ \<Rightarrow>
          \<lparr>md_metric = mt_metric t, md_percentile = mt_percentile t, md_direction = mt_direction t,
           md_golden_value = side_value g (mt_percentile t),
           md_current_value = side_value c (mt_percentile t), md_max_ratio = mt_max_ratio t,
           md_regressed = False, md_missing = True\<rparr>)"

definition compare_metrics ::
  "statistical_sample list \<Rightarrow> statistical_sample list \<Rightarrow> metric_threshold list \<Rightarrow> metric_drift list" where
  "compare_metrics gs cs ts =
     (let golden_by = by_metric gs; current_by = by_metric cs
      in map (\<lambda>t. compare_one (dict_get golden_by (mt_metric t)) (dict_get current_by (mt_metric t)) t) ts)"

section \<open>Scenario drift and the report\<close>

definition set_minus :: "string list \<Rightarrow> string list \<Rightarrow> string list" where
  "set_minus xs ys = sorted_set (filter (\<lambda>x. x \<notin> set ys) xs)"

definition compute_scenario_drift ::
  "golden option \<Rightarrow> string list \<Rightarrow> string \<Rightarrow> string \<Rightarrow> statistical_sample list \<Rightarrow> metric_threshold list \<Rightarrow>
    scenario_drift" where
  "compute_scenario_drift golden current sid title metrics thresholds =
     (case golden of
        None \<Rightarrow>
          \<lparr>sd_scenario_id = sid, sd_title = title, sd_regressed = [], sd_recovered = [],
           sd_metric_drifts = [], sd_missing_golden = True, sd_unassessed = False\<rparr>
      | Some g \<Rightarrow>
          \<lparr>sd_scenario_id = sid, sd_title = title,
           sd_regressed = set_minus (go_passing_journeys g) current,
           sd_recovered = set_minus current (go_passing_journeys g),
           sd_metric_drifts = compare_metrics (go_metrics g) metrics thresholds,
           sd_missing_golden = False, sd_unassessed = False\<rparr>)"

definition verdict_drift ::
  "(real \<Rightarrow> string) \<Rightarrow> (pyval \<Rightarrow> statistical_sample res) \<Rightarrow> (pyval \<Rightarrow> metric_threshold res) \<Rightarrow>
    (string, golden) dict \<Rightarrow> regression_verdict \<Rightarrow> scenario_drift res" where
  "verdict_drift fr vs vt goldens v =
     (if \<not> baseline_trustworthy v
      then Inr \<lparr>sd_scenario_id = rv_scenario_id v, sd_title = rv_title v, sd_regressed = [],
             sd_recovered = [], sd_metric_drifts = [], sd_missing_golden = False, sd_unassessed = True\<rparr>
      else res_bind (baseline_passing fr v) (\<lambda>js.
           res_bind (baseline_metrics vs v) (\<lambda>ms.
           res_bind (metric_thresholds vt v) (\<lambda>ts.
             Inr (compute_scenario_drift (dict_get goldens (rv_scenario_id v)) js
               (rv_scenario_id v) (rv_title v) ms ts)))))"

definition drift_report ::
  "(real \<Rightarrow> string) \<Rightarrow> (pyval \<Rightarrow> statistical_sample res) \<Rightarrow> (pyval \<Rightarrow> metric_threshold res) \<Rightarrow>
    suite_run_record \<Rightarrow> (string, golden) dict \<Rightarrow> string \<Rightarrow> drift_report_t res" where
  "drift_report fr vs vt r goldens ref =
     res_bind (res_map (verdict_drift fr vs vt goldens) (srr_verdicts r)) (\<lambda>ss.
       Inr \<lparr>dp_suite_id = srr_suite_id r, dp_against_ref = ref, dp_scenarios = ss\<rparr>)"

section \<open>Lemmas\<close>

lemma set_minus_self [simp]: "set_minus xs xs = []"
proof -
  have "filter (\<lambda>x. x \<notin> set xs) xs = []" by (simp add: filter_empty_conv)
  then show ?thesis by (simp add: set_minus_def sorted_set_def)
qed

lemma set_set_minus [simp]: "set (set_minus xs ys) = set xs - set ys"
  by (auto simp: set_minus_def)

lemma set_minus_Nil_iff: "set_minus xs ys = [] \<longleftrightarrow> set xs \<subseteq> set ys"
  by (metis Diff_eq_empty_iff set_empty2 set_set_minus)

lemma past_budget_refl:
  assumes "metric_threshold_ok t"
  shows "\<not> past_budget t v v"
proof
  assume p: "past_budget t v v"
  have ok: "1 < mt_max_ratio t" "0 \<le> mt_abs_floor t" using assms by (simp_all add: metric_threshold_ok_def)
  have v: "0 < v" using p ok by (auto simp: past_budget_def split: if_splits)
  then have "v < v * mt_max_ratio t" "v / mt_max_ratio t < v" using ok by (simp_all add: divide_less_eq)
  with p show False by (auto simp: past_budget_def split: if_splits metric_direction.splits)
qed

lemma compare_metrics_refl:
  assumes "list_all metric_threshold_ok ts"
  shows "list_all (\<lambda>d. \<not> md_regressed d) (compare_metrics ms ms ts)"
  using assms past_budget_refl
  by (auto simp: compare_metrics_def list_all_iff compare_one_def compare_metric_def Let_def split: option.splits)

lemma dict_get_update:
  "distinct (map fst kvs) \<Longrightarrow> (k, v) \<in> set kvs \<Longrightarrow> dict_get (dict_update d kvs) k = Some v"
proof (induction kvs arbitrary: d)
  case (Cons p kvs)
  obtain k' v' where p: "p = (k', v')" by (cases p)
  have keep: "dict_get (dict_update d' kvs) k' = dict_get d' k'" if "k' \<notin> set (map fst kvs)" for d' k'
    using that by (induction kvs arbitrary: d') (auto simp: dict_update_def dict_get_set)
  show ?case
  proof (cases "(k, v) = (k', v')")
    case True
    with Cons.prems(1) p show ?thesis by (simp add: dict_update_def keep [unfolded dict_update_def])
  next
    case False
    with Cons.prems p have "(k, v) \<in> set kvs" by auto
    with Cons.IH Cons.prems(1) p show ?thesis by (simp add: dict_update_def)
  qed
qed simp

lemma res_map_mem:
  "res_map f xs = Inr ys \<Longrightarrow> x \<in> set xs \<Longrightarrow> \<exists>y \<in> set ys. f x = Inr y"
  by (induction xs arbitrary: ys) (auto simp: res_bind_Inr_iff)

lemma res_map_source:
  "res_map f xs = Inr ys \<Longrightarrow> y \<in> set ys \<Longrightarrow> \<exists>x \<in> set xs. f x = Inr y"
  by (induction xs arbitrary: ys) (auto simp: res_bind_Inr_iff)

lemma res_map_all2: "res_map f xs = Inr ys \<Longrightarrow> list_all2 (\<lambda>x y. f x = Inr y) xs ys"
  by (induction xs arbitrary: ys) (auto simp: res_bind_Inr_iff)

lemma goldens_of_run_get:
  assumes "goldens_from_run fr vs t r ref = Inr gs" "distinct (map rv_scenario_id (srr_verdicts r))"
    and "v \<in> set (srr_verdicts r)" "baseline_trustworthy v"
  obtains g where "golden_of fr vs ref t v = Inr g" "dict_get gs (rv_scenario_id v) = Some g"
proof -
  let ?vs = "filter baseline_trustworthy (srr_verdicts r)"
  let ?f = "\<lambda>v. res_bind (golden_of fr vs ref t v) (\<lambda>g. Inr (rv_scenario_id v, g))"
  obtain kvs where kvs: "res_map ?f ?vs = Inr kvs" "gs = dict_update [] kvs"
    using assms(1) by (auto simp: goldens_from_run_def res_bind_Inr_iff)
  have "list_all2 (\<lambda>v kv. ?f v = Inr kv) ?vs kvs" using kvs(1) by (rule res_map_all2)
  then have "map fst kvs = map rv_scenario_id ?vs"
    by (induction rule: list_all2_induct) (auto simp: res_bind_Inr_iff)
  then have d: "distinct (map fst kvs)" using assms(2) by (simp add: distinct_map_filter)
  obtain kv where "kv \<in> set kvs" "?f v = Inr kv"
    using res_map_mem [OF kvs(1), of v] assms(3,4) by auto
  then obtain g where g: "golden_of fr vs ref t v = Inr g" "(rv_scenario_id v, g) \<in> set kvs"
    by (auto simp: res_bind_Inr_iff)
  show ?thesis by (rule that [OF g(1)]) (simp add: kvs(2) dict_get_update [OF d g(2)])
qed

text \<open>A golden taken from a run reports no drift against that run. When the scenario ids of the
  run are distinct and its metric thresholds are valid, freezing the goldens and comparing the same
  run with them gives a report without a drifted or golden-less scenario; exactly the scenarios
  whose baseline was not measured cleanly are reported as not assessed.\<close>

theorem fresh_goldens_no_drift:
  assumes "goldens_from_run fr vs t r ref = Inr gs" "distinct (map rv_scenario_id (srr_verdicts r))"
    and "\<And>x th. vt x = Inr th \<Longrightarrow> metric_threshold_ok th"
    and "drift_report fr vs vt r gs ref = Inr rep"
  shows "dp_regressed_scenarios rep = 0 \<and>
    list_all2 (\<lambda>v s. sd_scenario_id s = rv_scenario_id v \<and> \<not> sd_missing_golden s \<and>
        sd_regressed s = [] \<and> sd_recovered s = [] \<and>
        (sd_unassessed s \<longleftrightarrow> \<not> baseline_trustworthy v))
      (srr_verdicts r) (dp_scenarios rep)"
proof -
  let ?P = "\<lambda>v s. sd_scenario_id s = rv_scenario_id v \<and> \<not> sd_missing_golden s \<and>
      sd_regressed s = [] \<and> sd_recovered s = [] \<and> (sd_unassessed s \<longleftrightarrow> \<not> baseline_trustworthy v) \<and>
      \<not> sd_drifted s"
  have all: "list_all2 (\<lambda>v s. verdict_drift fr vs vt gs v = Inr s) (srr_verdicts r) (dp_scenarios rep)"
    using assms(4) by (auto simp: drift_report_def res_bind_Inr_iff dest: res_map_all2)
  have one: "?P v s" if v: "v \<in> set (srr_verdicts r)" and s: "verdict_drift fr vs vt gs v = Inr s" for v s
  proof (cases "baseline_trustworthy v")
    case False
    with s show ?thesis by (auto simp: verdict_drift_def sd_drifted_def)
  next
    case True
    obtain g where g: "golden_of fr vs ref t v = Inr g" "dict_get gs (rv_scenario_id v) = Some g"
      using goldens_of_run_get [OF assms(1,2) v True] .
    obtain js ms ts where d: "baseline_passing fr v = Inr js" "baseline_metrics vs v = Inr ms"
        "metric_thresholds vt v = Inr ts"
        "s = compute_scenario_drift (Some g) js (rv_scenario_id v) (rv_title v) ms ts"
      using s True g(2) by (auto simp: verdict_drift_def res_bind_Inr_iff)
    have gj: "go_passing_journeys g = js" "go_metrics g = ms"
      using g(1) d by (auto simp: golden_of_def)
    have ts: "list_all metric_threshold_ok ts"
      using d(3) assms(3) by (auto simp: metric_thresholds_def res_bind_Inr_iff list_all_iff dest!: res_map_source)
    have "\<not> list_ex md_regressed (compare_metrics ms ms ts)"
      using compare_metrics_refl [OF ts, of ms] by (auto simp: list_all_iff list_ex_iff)
    then show ?thesis using d(4) gj True by (simp add: compute_scenario_drift_def sd_drifted_def)
  qed
  have P: "list_all2 ?P (srr_verdicts r) (dp_scenarios rep)"
    by (rule list.rel_mono_strong [OF all]) (rule one)
  have "\<not> sd_drifted s" if "s \<in> set (dp_scenarios rep)" for s
    using P that by (auto simp: list_all2_conv_all_nth in_set_conv_nth)
  then have none: "dp_regressed_scenarios rep = 0" by (simp add: dp_regressed_scenarios_def filter_empty_conv)
  show ?thesis by (rule conjI [OF none list.rel_mono_strong [OF P]]) blast
qed

section \<open>A small run\<close>

definition flat_sample :: "string \<Rightarrow> real \<Rightarrow> statistical_sample" where
  "flat_sample m x =
     \<lparr>ss_metric = m, ss_samples = [x], ss_mean = x, ss_p50 = x, ss_p95 = x, ss_p99 = x, ss_stdev = 0\<rparr>"

definition latency_budget :: metric_threshold where
  "latency_budget =
     \<lparr>mt_metric = ''latency'', mt_query = ''q'', mt_percentile = PF_p95, mt_max_ratio = 2,
      mt_direction = HIGHER_WORSE, mt_abs_floor = 0\<rparr>"

definition small_verdict :: "string \<Rightarrow> regression_outcome \<Rightarrow> regression_verdict" where
  "small_verdict sid oc =
     \<lparr>rv_scenario_id = sid, rv_title = sid, rv_fault = ''pod.kill'', rv_experiment_id = ''exp'',
      rv_outcome = oc, rv_newly_failing = [],
      rv_verify_result = Some \<lparr>vr_passed = True, vr_summary = [], vr_failures = [],
        vr_evidence = [(''baseline_passing'', PList [PStr ''checkout'']),
          (''baseline_metrics'', PList [PDict []]), (''metric_thresholds'', PList [PDict []])],
        vr_metrics = []\<rparr>,
      rv_detail = []\<rparr>"

definition small_run :: suite_run_record where
  "small_run =
     \<lparr>srr_suite_run_id = ''run'', srr_suite_id = ''suite'',
      srr_verdicts = [small_verdict ''a'' RO_PASS, small_verdict ''b'' RO_ERROR],
      srr_coverage = None, srr_started_at = 0, srr_finished_at = None\<rparr>"

abbreviation small_validate :: "pyval \<Rightarrow> statistical_sample res" where
  "small_validate \<equiv> \<lambda>_. Inr (flat_sample ''latency'' 5)"

lemma small_goldens:
  "goldens_from_run (\<lambda>_. []) small_validate 0 small_run ''v1'' =
     Inr [(''a'', \<lparr>go_target_ref = ''v1'', go_metrics = [flat_sample ''latency'' 5],
       go_passing_journeys = [''checkout''], go_captured_at = 0\<rparr>)]"
  by (simp add: goldens_from_run_def small_run_def small_verdict_def baseline_trustworthy_def
      golden_of_def baseline_passing_def baseline_metrics_def evidence_strings_def evidence_items_def
      param_def dict_get_Cons dict_update_def)

lemma fresh_goldens_no_drift_witness:
  "\<exists>rep. drift_report (\<lambda>_. []) small_validate (\<lambda>_. Inr latency_budget) small_run
      [(''a'', \<lparr>go_target_ref = ''v1'', go_metrics = [flat_sample ''latency'' 5],
        go_passing_journeys = [''checkout''], go_captured_at = 0\<rparr>)] ''v1'' = Inr rep \<and>
    dp_regressed_scenarios rep = 0"
proof -
  obtain rep where rep: "drift_report (\<lambda>_. []) small_validate (\<lambda>_. Inr latency_budget) small_run
      [(''a'', \<lparr>go_target_ref = ''v1'', go_metrics = [flat_sample ''latency'' 5],
        go_passing_journeys = [''checkout''], go_captured_at = 0\<rparr>)] ''v1'' = Inr rep"
    by (simp add: drift_report_def small_run_def small_verdict_def verdict_drift_def
        baseline_trustworthy_def baseline_passing_def baseline_metrics_def metric_thresholds_def
        evidence_strings_def evidence_items_def param_def dict_get_Cons)
  have "distinct (map rv_scenario_id (srr_verdicts small_run))"
    by (simp add: small_run_def small_verdict_def)
  from fresh_goldens_no_drift [OF small_goldens this _ rep] rep show ?thesis
    by (auto simp: latency_budget_def metric_threshold_ok_def)
qed

text \<open>What the comparison promises, written without its helpers: the sample that counts for a metric is the last one
  listed under its name, the figure read off it is the one the threshold names, and a golden figure above the
  threshold's floor is left in the worse direction when the current one is beyond the ratio.\<close>

definition latest_sample :: "statistical_sample list \<Rightarrow> string \<Rightarrow> statistical_sample \<Rightarrow> bool" where
  "latest_sample xs m a \<longleftrightarrow> (\<exists>us vs. xs = us @ a # vs \<and> ss_metric a = m \<and> m \<notin> ss_metric ` set vs)"

definition figure :: "statistical_sample \<Rightarrow> percentile_field \<Rightarrow> real \<Rightarrow> bool" where
  "figure a p x \<longleftrightarrow>
     (p = PF_mean \<and> x = ss_mean a) \<or> (p = PF_p50 \<and> x = ss_p50 a) \<or> (p = PF_p95 \<and> x = ss_p95 a) \<or>
     (p = PF_p99 \<and> x = ss_p99 a)"

lemma by_metric_snoc: "by_metric (xs @ [a]) = dict_set (ss_metric a) a (by_metric xs)"
  by (simp add: by_metric_def)

lemma by_metric_None: "dict_get (by_metric xs) m = None \<longleftrightarrow> m \<notin> ss_metric ` set xs"
  by (induction xs rule: rev_induct) (auto simp: by_metric_snoc dict_get_set, simp add: by_metric_def)

lemma latest_snoc:
  "latest_sample (xs @ [b]) m a \<longleftrightarrow> (if ss_metric b = m then a = b else latest_sample xs m a)"
proof -
  have l: "latest_sample (xs @ [b]) m a \<Longrightarrow> (if ss_metric b = m then a = b else latest_sample xs m a)"
    unfolding latest_sample_def
  proof (elim exE conjE)
    fix us vs
    assume e: "xs @ [b] = us @ a # vs" and m: "ss_metric a = m" "m \<notin> ss_metric ` set vs"
    show "if ss_metric b = m then a = b else \<exists>us vs. xs = us @ a # vs \<and> ss_metric a = m \<and> m \<notin> ss_metric ` set vs"
    proof (cases vs rule: rev_cases)
      case Nil
      with e m show ?thesis by auto
    next
      case (snoc ws w)
      then have "b = w" "xs = us @ a # ws" using e by simp_all
      with snoc m show ?thesis by auto
    qed
  qed
  have "latest_sample (xs @ [b]) m a" if ne: "ss_metric b \<noteq> m" and la: "latest_sample xs m a"
  proof -
    obtain us vs where "xs = us @ a # vs" "ss_metric a = m" "m \<notin> ss_metric ` set vs"
      using la by (auto simp: latest_sample_def)
    then have "xs @ [b] = us @ a # (vs @ [b])" "m \<notin> ss_metric ` set (vs @ [b])" using ne by auto
    with \<open>ss_metric a = m\<close> show ?thesis unfolding latest_sample_def by blast
  qed
  moreover have "latest_sample (xs @ [a]) (ss_metric a) a" by (force simp: latest_sample_def)
  ultimately show ?thesis using l by auto
qed

lemma by_metric_latest: "dict_get (by_metric xs) m = Some a \<longleftrightarrow> latest_sample xs m a"
proof (induction xs rule: rev_induct)
  case Nil
  show ?case by (simp add: by_metric_def latest_sample_def dict_get_def)
next
  case (snoc b xs)
  then show ?case by (auto simp: by_metric_snoc latest_snoc dict_get_set)
qed

lemma figure_value: "figure a p x \<longleftrightarrow> x = sample_value a p"
  by (cases p) (auto simp: figure_def)

lemma past_budget_worse:
  "past_budget t gv cv \<longleftrightarrow> mt_abs_floor t < gv \<and>
     (mt_direction t = HIGHER_WORSE \<and> gv * mt_max_ratio t < cv \<or>
      mt_direction t = LOWER_WORSE \<and> cv < gv / mt_max_ratio t)"
  by (cases "mt_direction t") (auto simp: past_budget_def)

text \<open>C38: Drift is exactly a worsening. A scenario that was compared with a golden is reported as drifted exactly
  when a journey that passed at the golden's baseline does not pass any more, or for some threshold the metric was
  sampled on both sides (the last sample of that name counts), the golden's figure lies above the threshold's
  absolute floor, and the current figure is beyond it by more than the ratio in the worse direction: above golden
  times ratio where higher is worse, below golden divided by ratio where lower is worse. A golden at or below the
  floor never drifts, and a metric missing on either side is reported as missing and never as drift.\<close>

theorem drift_exact:
  assumes "s = compute_scenario_drift (Some g) js sid title ms ts"
  shows "(sd_drifted s \<longleftrightarrow>
      (\<exists>j. j \<in> set (go_passing_journeys g) \<and> j \<notin> set js) \<or>
      (\<exists>t a b gv cv. t \<in> set ts \<and> latest_sample (go_metrics g) (mt_metric t) a \<and> latest_sample ms (mt_metric t) b \<and>
        figure a (mt_percentile t) gv \<and> figure b (mt_percentile t) cv \<and> mt_abs_floor t < gv \<and>
        (mt_direction t = HIGHER_WORSE \<and> gv * mt_max_ratio t < cv \<or>
         mt_direction t = LOWER_WORSE \<and> cv < gv / mt_max_ratio t))) \<and>
    map md_missing (sd_metric_drifts s) =
      map (\<lambda>t. mt_metric t \<notin> ss_metric ` set (go_metrics g) \<or> mt_metric t \<notin> ss_metric ` set ms) ts"
proof -
  have miss: "md_missing (compare_one a b t) \<longleftrightarrow> a = None \<or> b = None" for a b t
    by (auto simp: compare_one_def compare_metric_def Let_def split: option.splits)
  have reg: "md_regressed (compare_one a b t) \<longleftrightarrow>
      (\<exists>x y. a = Some x \<and> b = Some y \<and>
        past_budget t (sample_value x (mt_percentile t)) (sample_value y (mt_percentile t)))" for a b t
    by (auto simp: compare_one_def compare_metric_def Let_def split: option.splits)
  have ex: "list_ex md_regressed (compare_metrics (go_metrics g) ms ts) \<longleftrightarrow>
      (\<exists>t a b. t \<in> set ts \<and> latest_sample (go_metrics g) (mt_metric t) a \<and> latest_sample ms (mt_metric t) b \<and>
        past_budget t (sample_value a (mt_percentile t)) (sample_value b (mt_percentile t)))"
    by (auto simp: compare_metrics_def Let_def list_ex_iff reg by_metric_latest)
  have mm: "map md_missing (compare_metrics (go_metrics g) ms ts) =
      map (\<lambda>t. mt_metric t \<notin> ss_metric ` set (go_metrics g) \<or> mt_metric t \<notin> ss_metric ` set ms) ts"
    by (simp add: compare_metrics_def Let_def miss by_metric_None)
  show ?thesis
    using assms ex mm
    by (auto simp: compute_scenario_drift_def sd_drifted_def set_minus_Nil_iff figure_value past_budget_worse)
qed

lemma drift_exact_witness:
  "sd_drifted (compute_scenario_drift
      (Some \<lparr>go_target_ref = ''v1'', go_metrics = [flat_sample ''latency'' 5],
        go_passing_journeys = [''checkout''], go_captured_at = 0\<rparr>)
      [''checkout''] ''a'' ''a'' [flat_sample ''latency'' 11] [latency_budget])"
  by (subst drift_exact [OF refl, THEN conjunct1])
    (simp add: figure_value latency_budget_def by_metric_latest [symmetric] by_metric_def flat_sample_def dict_get_Cons)

end
