(* ===== verification/Suite_Loading.thy ===== *)
theory Suite_Loading
  imports Coverage Renderers Drift
begin

text \<open>
  Regression suites on disk, \<open>regression/scenario.py\<close>: stable identities, the expansion applied to
  the raw mapping before validation, and the consistency checks. The digest (\<open>sha256\<close>, in hex), the
  YAML parser and \<open>RegressionSuite.model_validate\<close> are arguments.
\<close>

section \<open>Identities\<close>

definition stable_suite_id :: "(string \<Rightarrow> string) \<Rightarrow> string \<Rightarrow> string" where
  "stable_suite_id sha256 name = ''suite-'' @ take 12 (sha256 name)"

definition stable_scenario_id :: "(string \<Rightarrow> string) \<Rightarrow> string \<Rightarrow> string \<Rightarrow> string" where
  "stable_scenario_id sha256 suite_name title =
     ''scn-'' @ take 12 (sha256 (suite_name @ [CHR 0x00] @ title))"

section \<open>Consistency\<close>

definition scenario_problems :: "string list \<Rightarrow> string list \<Rightarrow> regression_scenario \<Rightarrow> string list" where
  "scenario_problems all_journeys seen s =
     (let place = ''scenario '' @ repr_str (sn_title s);
          missing = filter (\<lambda>j. j \<notin> set all_journeys) (sn_journeys s)
      in (if sn_title s \<in> set seen
          then [place @ '': duplicate title - titles must be unique (they key the '' @
                ''scenario's stable id and its golden drift baseline).''] else []) @
         (if \<not> in_catalogue (fs_name (sn_fault s))
          then [place @ '': fault '' @ repr_str (fs_name (sn_fault s)) @ '' is not in the catalogue '' @
                ''(see `chaos list-faults`); it would contribute no coverage.''] else []) @
         (if sn_journeys s = [] then [place @ '': no journeys listed - it asserts nothing.''] else []) @
         (if all_journeys \<noteq> [] \<and> missing \<noteq> []
          then [place @ '': journeys '' @ repr_strs missing @ '' are not in the suite's '' @
                ''all_journeys - likely a typo or a missing entry.''] else []))"

fun problems_from :: "string list \<Rightarrow> string list \<Rightarrow> regression_scenario list \<Rightarrow> string list" where
  "problems_from all_journeys seen [] = []"
| "problems_from all_journeys seen (s # ss) =
     scenario_problems all_journeys seen s @ problems_from all_journeys (sn_title s # seen) ss"

definition validate_suite :: "regression_suite \<Rightarrow> string list" where
  "validate_suite su = problems_from (su_all_journeys su) [] (su_scenarios su)"

section \<open>Expansion\<close>

text \<open>\<open>dict(v)\<close>, and \<open>v or {}\<close> under \<open>**\<close>.\<close>

fun dict_of :: "pyval \<Rightarrow> (string, pyval) dict res" where
  "dict_of (PDict d) = Inr d"
| "dict_of (PList xs) = to_dict (PList xs)"
| "dict_of (PStr s) =
     (if s = [] then Inr [] else Inl (Exn ''ValueError'' ''dictionary update sequence element #0 has length 1; 2 is required''))"
| "dict_of v = Inl (Exn ''TypeError'' ''object is not iterable'')"

definition mapping_or_empty :: "pyval \<Rightarrow> (string, pyval) dict res" where
  "mapping_or_empty v =
     (if \<not> truthy v then Inr []
      else case v of PDict d \<Rightarrow> Inr d | _ \<Rightarrow> Inl (Exn ''TypeError'' ''argument after ** must be a mapping''))"

definition set_if_missing :: "string \<Rightarrow> pyval option \<Rightarrow> (string, pyval) dict \<Rightarrow> (string, pyval) dict" where
  "set_if_missing k v d =
     (case v of None \<Rightarrow> d | Some x \<Rightarrow> (if dict_has d k then d else dict_set k x d))"

text \<open>\<open>if default_oracle is not None and "oracle" not in merged\<close>.\<close>

definition given :: "pyval option \<Rightarrow> pyval option" where
  "given v = (case v of Some PNone \<Rightarrow> None | _ \<Rightarrow> v)"

definition scenario_id_default ::
  "(string \<Rightarrow> string) \<Rightarrow> pyval option \<Rightarrow> (string, pyval) dict \<Rightarrow> pyval option" where
  "scenario_id_default sha256 suite_name m =
     (case (suite_name, dict_get m ''title'') of
        (Some (PStr n), Some (PStr t)) \<Rightarrow> Some (PStr (stable_scenario_id sha256 n t))
      | _ \<Rightarrow> None)"

definition expand_scenario ::
  "(string \<Rightarrow> string) \<Rightarrow> pyval option \<Rightarrow> pyval option \<Rightarrow> pyval \<Rightarrow> pyval \<Rightarrow> (string, pyval) dict res" where
  "expand_scenario sha256 suite_name default_oracle defaults scn =
     res_bind (dict_of scn) (\<lambda>m.
     (let merged = set_if_missing ''oracle'' (given default_oracle) m in
      res_bind (mapping_or_empty defaults) (\<lambda>base.
      res_bind (mapping_or_empty (param merged ''oracle_config'' PNone)) (\<lambda>own.
      (let cfg = dict_update base own;
           configured = (if cfg \<noteq> [] then dict_set ''oracle_config'' (PDict cfg) merged else merged)
       in Inr (set_if_missing ''scenario_id'' (scenario_id_default sha256 suite_name configured) configured))))))"

definition suite_id_default :: "(string \<Rightarrow> string) \<Rightarrow> (string, pyval) dict \<Rightarrow> pyval option" where
  "suite_id_default sha256 d =
     (case dict_get d ''name'' of Some (PStr n) \<Rightarrow> Some (PStr (stable_suite_id sha256 n)) | _ \<Rightarrow> None)"

definition scenario_items :: "pyval \<Rightarrow> pyval list res" where
  "scenario_items v = (if \<not> truthy v then Inr [] else py_iter v)"

definition expand ::
  "(string \<Rightarrow> string) \<Rightarrow> (string, pyval) dict \<Rightarrow> (string, pyval) dict res" where
  "expand sha256 raw =
     (let identified = set_if_missing ''suite_id'' (suite_id_default sha256 raw) raw;
          default_oracle = dict_get identified ''oracle'';
          defaults = param identified ''oracle_defaults'' PNone;
          data = dict_pop ''oracle_defaults'' (dict_pop ''oracle'' identified)
      in res_bind (scenario_items (param data ''scenarios'' PNone)) (\<lambda>scns.
         res_bind (res_map (expand_scenario sha256 (dict_get data ''name'') default_oracle defaults) scns)
           (\<lambda>ms. Inr (dict_set ''scenarios'' (PList (map PDict ms)) data))))"

definition suite_validation_error :: "string \<Rightarrow> string list \<Rightarrow> pyexn" where
  "suite_validation_error file problems =
     Exn ''SuiteValidationError''
       (file @ '' has '' @ nat_str (length problems) @ '' problem(s):'' @ [CHR 0x0A] @ ''  - '' @
        join ([CHR 0x0A] @ ''  - '') problems)"

definition load_suite ::
  "(string \<Rightarrow> string) \<Rightarrow> ((string, pyval) dict \<Rightarrow> regression_suite res) \<Rightarrow> string \<Rightarrow> pyval res \<Rightarrow> bool \<Rightarrow>
    regression_suite res" where
  "load_suite sha256 model_validate file parsed validate =
     res_bind parsed (\<lambda>raw.
       case raw of
         PDict d \<Rightarrow>
           res_bind (expand sha256 d) (\<lambda>full.
           res_bind (model_validate full) (\<lambda>su.
             (let problems = (if validate then validate_suite su else [])
              in if problems \<noteq> [] then Inl (suite_validation_error file problems) else Inr su)))
       | _ \<Rightarrow> Inl (Exn ''ValueError''
           (''suite file '' @ file @ '' must be a YAML mapping, got '' @ type_name raw)))"

section \<open>What a sound suite is\<close>

definition scenario_sound :: "string list \<Rightarrow> regression_scenario \<Rightarrow> bool" where
  "scenario_sound all_journeys s \<longleftrightarrow>
     in_catalogue (fs_name (sn_fault s)) \<and> sn_journeys s \<noteq> [] \<and>
     (all_journeys \<noteq> [] \<longrightarrow> set (sn_journeys s) \<subseteq> set all_journeys)"

lemma scenario_problems_Nil_iff:
  "scenario_problems js seen s = [] \<longleftrightarrow> sn_title s \<notin> set seen \<and> scenario_sound js s"
  by (auto simp: scenario_problems_def scenario_sound_def Let_def filter_empty_conv)

lemma problems_from_Nil_iff:
  "problems_from js seen ss = [] \<longleftrightarrow>
     distinct (map sn_title ss) \<and> set (map sn_title ss) \<inter> set seen = {} \<and> list_all (scenario_sound js) ss"
  by (induction ss arbitrary: seen) (auto simp: scenario_problems_Nil_iff)

lemma validate_suite_Nil_iff:
  "validate_suite su = [] \<longleftrightarrow>
     distinct (map sn_title (su_scenarios su)) \<and>
     list_all (scenario_sound (su_all_journeys su)) (su_scenarios su)"
  by (simp add: validate_suite_def problems_from_Nil_iff)

text \<open>A suite that loads is sound, and every scenario of it is measured. Loading with validation
  returns a suite only if its scenario titles are pairwise different, every fault is in the
  catalogue, and every scenario asserts journeys of the suite; then every scenario whose declared
  category is the catalogue's category of its fault covers each of its journeys in the suite's
  default coverage matrix.\<close>

theorem loaded_suite_contributes:
  assumes "load_suite sha256 model_validate file parsed True = Inr su"
    and "s \<in> set (su_scenarios su)" "j \<in> set (sn_journeys s)" "su_all_journeys su \<noteq> []"
    and "catalogue_category (fs_name (sn_fault s)) = Some (fs_category (sn_fault s))"
  shows "distinct (map sn_title (su_scenarios su)) \<and>
    list_all (scenario_sound (su_all_journeys su)) (su_scenarios su) \<and>
    (\<exists>c. c \<in> set (cm_cells (render_coverage su [] fps)) \<and> cc_fault c = fs_name (sn_fault s) \<and>
      cc_journey c = j \<and> cc_state c = CS_COVERED)"
proof -
  obtain raw where "parsed = Inr raw" using assms(1) by (cases parsed) (simp_all add: load_suite_def)
  then have v: "validate_suite su = []"
    using assms(1) by (cases raw) (auto simp: load_suite_def res_bind_Inr_iff Let_def split: if_splits)
  then have sound: "distinct (map sn_title (su_scenarios su))"
      "list_all (scenario_sound (su_all_journeys su)) (su_scenarios su)"
    by (simp_all add: validate_suite_Nil_iff)
  have j: "j \<in> set (su_all_journeys su)"
    using sound(2) assms(2-4) by (auto simp: list_all_iff scenario_sound_def)
  obtain d where d: "dict_get CATALOGUE (fs_name (sn_fault s)) = Some d" "fd_category d = fs_category (sn_fault s)"
    using assms(5) by (auto simp: catalogue_category_def)
  have "(fs_name (sn_fault s), d) \<in> set CATALOGUE" using mem_dict_get [OF catalogue_wf] d(1) by blast
  then have f: "fs_name (sn_fault s) \<in> set (fault_axis su [])"
    using d(2) assms(2) by (force simp: fault_axis_def)
  let ?c = "coverage_cell_for (fs_name (sn_fault s)) j (covered_by su) (suite_fault_targets su) fps"
  have "pairs su (fs_name (sn_fault s)) j (sn_scenario_id s)"
    using assms(2,3) by (auto simp: pairs_def)
  then have "cc_state ?c = CS_COVERED" using cell_state by auto
  moreover have "?c \<in> set (cm_cells (render_coverage su [] fps))" using f j cells_mem by blast
  ultimately show ?thesis using sound cell_coords by blast
qed

lemma shop_suite_sound: "validate_suite (shop_suite [cart_scenario]) = []"
  by (simp add: validate_suite_Nil_iff shop_suite_def cart_scenario_def cart_outage_def
      scenario_sound_def in_catalogue_eval)

lemma loaded_suite_contributes_witness:
  "\<exists>c. c \<in> set (cm_cells (render_coverage (shop_suite [cart_scenario]) [] [])) \<and>
     cc_fault c = ''pod.kill'' \<and> cc_journey c = ''checkout'' \<and> cc_state c = CS_COVERED"
proof -
  have l: "load_suite (\<lambda>_. []) (\<lambda>_. Inr (shop_suite [cart_scenario])) ''s.yaml'' (Inr (PDict [])) True =
      Inr (shop_suite [cart_scenario])"
    by (simp add: load_suite_def expand_def set_if_missing_def suite_id_default_def param_def
        scenario_items_def dict_pop_def shop_suite_sound)
  have m: "cart_scenario \<in> set (su_scenarios (shop_suite [cart_scenario]))"
      "''checkout'' \<in> set (sn_journeys cart_scenario)" "su_all_journeys (shop_suite [cart_scenario]) \<noteq> []"
      "catalogue_category (fs_name (sn_fault cart_scenario)) = Some (fs_category (sn_fault cart_scenario))"
    by (simp_all add: shop_suite_def cart_scenario_def cart_outage_def catalogue_category_simps)
  show ?thesis
    using loaded_suite_contributes [OF l m] by (simp add: cart_scenario_def cart_outage_def)
qed

text \<open>The category of a scenario's fault is not checked. A suite whose only scenario declares a
  known fault under another category passes validation, and yet the scenario covers nothing: the
  default fault axis is chosen by the declared categories and does not hold the fault, so the matrix
  has no covered cell although the validation promises to catch faults that contribute no coverage.\<close>

theorem miscategorised_scenario_uncovered:
  assumes "su_scenarios su = [s]"
    and "catalogue_category (fs_name (sn_fault s)) \<noteq> Some (fs_category (sn_fault s))"
  shows "cm_covered (render_coverage su [] fps) = 0 \<and>
    (validate_suite su = [] \<longleftrightarrow> scenario_sound (su_all_journeys su) s)"
proof -
  have "\<not> (\<exists>sid. pairs su f j sid)" if fa: "f \<in> set (fault_axis su [])" for f j
  proof
    assume "\<exists>sid. pairs su f j sid"
    then have f: "f = fs_name (sn_fault s)" by (auto simp: pairs_def assms(1))
    obtain d where "(f, d) \<in> set CATALOGUE" "fd_category d = fs_category (sn_fault s)"
      using fa by (auto simp: fault_axis_def assms(1))
    then have "catalogue_category f = Some (fs_category (sn_fault s))"
      using mem_dict_get [OF catalogue_wf] by (auto simp: catalogue_category_def)
    with assms(2) f show False by simp
  qed
  then have "cc_state c \<noteq> CS_COVERED" if "c \<in> set (cm_cells (render_coverage su [] fps))" for c
    using that by (auto simp: cells_mem cell_state split: if_splits)
  then have "cm_covered (render_coverage su [] fps) = 0" by (auto simp: cm_covered_def filter_empty_conv)
  then show ?thesis by (simp add: validate_suite_Nil_iff assms(1))
qed

definition misfiled_scenario :: regression_scenario where
  "misfiled_scenario = cart_scenario\<lparr>sn_fault := cart_outage\<lparr>fs_category := FC_RF\<rparr>\<rparr>"

lemma miscategorised_scenario_uncovered_witness:
  "cm_covered (render_coverage (shop_suite [misfiled_scenario]) [] []) = 0 \<and>
   validate_suite (shop_suite [misfiled_scenario]) = []"
proof -
  have m: "su_scenarios (shop_suite [misfiled_scenario]) = [misfiled_scenario]"
      "catalogue_category (fs_name (sn_fault misfiled_scenario)) \<noteq> Some (fs_category (sn_fault misfiled_scenario))"
    by (simp_all add: shop_suite_def misfiled_scenario_def cart_outage_def catalogue_category_simps)
  show ?thesis
    using miscategorised_scenario_uncovered [OF m]
    by (simp add: scenario_sound_def shop_suite_def misfiled_scenario_def cart_scenario_def cart_outage_def
        in_catalogue_eval)
qed

section \<open>Expansion is stable\<close>

text \<open>Dictionaries with distinct keys at every level, what a YAML mapping loads to.\<close>

fun pv_wf :: "pyval \<Rightarrow> bool" where
  "pv_wf (PList xs) = list_all pv_wf xs"
| "pv_wf (PDict d) = (distinct (map fst d) \<and> list_all (\<lambda>kv. pv_wf (snd kv)) d)"
| "pv_wf v = True"

lemma dict_set_same: "dict_get d k = Some v \<Longrightarrow> dict_set k v d = d"
  by (induction k v d rule: dict_set.induct) (auto simp: dict_get_Cons split: if_splits)

lemma dict_set_nonempty [simp]: "dict_set k v d \<noteq> []"
  by (induction k v d rule: dict_set.induct) auto

lemma dict_update_nonempty: "d \<noteq> [] \<Longrightarrow> dict_update d e \<noteq> []"
proof (induction e arbitrary: d)
  case (Cons p e)
  have "dict_update (dict_set (fst p) (snd p) d) e \<noteq> []" by (rule Cons.IH) simp
  then show ?case by (simp add: dict_update_def split_beta)
qed (simp add: dict_update_def)

lemma dict_update_eq_Nil [simp]: "dict_update d e = [] \<longleftrightarrow> d = [] \<and> e = []"
proof (cases e)
  case (Cons p ps)
  then have "dict_update d e = dict_update (dict_set (fst p) (snd p) d) ps"
    by (simp add: dict_update_def split_beta)
  with Cons show ?thesis by (simp add: dict_update_nonempty)
qed (simp add: dict_update_def)

lemma dict_wf_update: "dict_wf d \<Longrightarrow> dict_wf (dict_update d e)"
  by (induction e arbitrary: d) (auto simp: dict_update_def)

lemma set_if_missing_has: "x \<noteq> None \<Longrightarrow> dict_has (set_if_missing k x d) k"
  by (auto simp: set_if_missing_def dict_has_iff)

lemma set_if_missing_idem:
  "(x = None \<longrightarrow> y = None) \<Longrightarrow> set_if_missing k y (set_if_missing k x d) = set_if_missing k x d"
  by (auto simp: set_if_missing_def dict_has_iff split: option.splits)

lemma set_if_missing_get: "k' \<noteq> k \<Longrightarrow> dict_get (set_if_missing k x d) k' = dict_get d k'"
  by (auto simp: set_if_missing_def split: option.splits)

lemma set_if_missing_wf: "dict_wf d \<Longrightarrow> dict_wf (set_if_missing k x d)"
  by (auto simp: set_if_missing_def split: option.splits)

lemma param_None: "dict_get d k = None \<Longrightarrow> param d k x = x"
  by (simp add: param_def)

lemma mapping_or_empty_simps [simp]:
  "mapping_or_empty PNone = Inr []"
  "mapping_or_empty (PDict d) = Inr d"
  by (simp_all add: mapping_or_empty_def)

lemma mapping_or_empty_PDict: "mapping_or_empty v = Inr d \<Longrightarrow> d = [] \<or> v = PDict d"
  by (cases v) (auto simp: mapping_or_empty_def split: if_splits)

text \<open>An expanded scenario expands to itself when no suite-wide defaults are left.\<close>

lemma expand_scenario_again:
  assumes "expand_scenario sha256 name orc defs scn = Inr m"
    and "\<And>base. mapping_or_empty defs = Inr base \<Longrightarrow> dict_wf base"
  shows "expand_scenario sha256 name None PNone (PDict m) = Inr m"
proof -
  obtain m0 base own where m0: "dict_of scn = Inr m0"
    and base: "mapping_or_empty defs = Inr base"
    and own: "mapping_or_empty (param (set_if_missing ''oracle'' (given orc) m0) ''oracle_config'' PNone) = Inr own"
    using assms(1) by (auto simp: expand_scenario_def res_bind_Inr_iff Let_def)
  define merged where "merged = set_if_missing ''oracle'' (given orc) m0"
  define cfg where "cfg = dict_update base own"
  define conf where "conf = (if cfg \<noteq> [] then dict_set ''oracle_config'' (PDict cfg) merged else merged)"
  have m: "m = set_if_missing ''scenario_id'' (scenario_id_default sha256 name conf) conf"
    using assms(1) m0 base own
    by (auto simp: expand_scenario_def Let_def merged_def cfg_def conf_def split: if_splits)
  have wf: "dict_wf cfg" using dict_wf_update [OF assms(2) [OF base]] by (simp add: cfg_def)
  have cfgm: "dict_get m ''oracle_config'' = dict_get conf ''oracle_config''"
    unfolding m by (simp add: set_if_missing_get)
  have again: "mapping_or_empty (param m ''oracle_config'' PNone) = Inr cfg"
  proof (cases "cfg = []")
    case False
    then have "dict_get conf ''oracle_config'' = Some (PDict cfg)" by (simp add: conf_def)
    then show ?thesis using cfgm by (simp add: param_def)
  next
    case True
    then have "own = []" by (simp add: cfg_def)
    with True own cfgm show ?thesis by (simp add: conf_def merged_def param_def)
  qed
  have setm: "(if cfg \<noteq> [] then dict_set ''oracle_config'' (PDict cfg) m else m) = m"
  proof (cases "cfg = []")
    case False
    then have "dict_get conf ''oracle_config'' = Some (PDict cfg)" by (simp add: conf_def)
    with cfgm show ?thesis by (simp add: dict_set_same)
  qed simp
  have title: "dict_get m ''title'' = dict_get conf ''title''"
    unfolding m by (simp add: set_if_missing_get)
  then have sid: "scenario_id_default sha256 name m = scenario_id_default sha256 name conf"
    by (simp add: scenario_id_default_def)
  have idem: "set_if_missing ''scenario_id'' (scenario_id_default sha256 name m) m = m"
    unfolding sid unfolding m by (rule set_if_missing_idem) simp
  show ?thesis
    using again setm idem dict_update_Nil [OF wf]
    by (cases "cfg = []") (simp_all add: expand_scenario_def given_def set_if_missing_def [of "''oracle''"] Let_def)
qed

lemma res_map_again:
  assumes "res_map f xs = Inr ys" "\<And>x y. x \<in> set xs \<Longrightarrow> f x = Inr y \<Longrightarrow> g (h y) = Inr y"
  shows "res_map g (map h ys) = Inr ys"
  using assms
proof (induction xs arbitrary: ys)
  case (Cons x xs)
  obtain y zs where y: "f x = Inr y" "res_map f xs = Inr zs" "ys = y # zs"
    using Cons.prems(1) by (auto simp: res_bind_Inr_iff)
  have "g (h y) = Inr y" by (rule Cons.prems(2) [OF _ y(1)]) simp
  moreover have "res_map g (map h zs) = Inr zs" by (rule Cons.IH [OF y(2)]) (rule Cons.prems(2), simp_all)
  ultimately show ?case by (simp add: y(3))
qed simp

text \<open>Expansion is idempotent. What \<open>_expand\<close> makes of a loaded mapping expands to itself, so a
  suite that is dumped and loaded again keeps its identity, its scenario identities and its oracle
  settings: the defaults are merged once, into the scenarios, and removed.\<close>

theorem expand_idempotent:
  assumes "expand sha256 raw = Inr full" "pv_wf (PDict raw)"
  shows "expand sha256 full = Inr full \<and> \<not> dict_has full ''oracle'' \<and> \<not> dict_has full ''oracle_defaults'' \<and>
    dict_has full ''scenarios''"
proof -
  define ided where "ided = set_if_missing ''suite_id'' (suite_id_default sha256 raw) raw"
  define data where "data = dict_pop ''oracle_defaults'' (dict_pop ''oracle'' ided)"
  define defs where "defs = param ided ''oracle_defaults'' PNone"
  obtain scns ms where scns: "scenario_items (param data ''scenarios'' PNone) = Inr scns"
    and ms: "res_map (expand_scenario sha256 (dict_get data ''name'') (dict_get ided ''oracle'') defs) scns = Inr ms"
    and full: "full = dict_set ''scenarios'' (PList (map PDict ms)) data"
    using assms(1) by (auto simp: expand_def res_bind_Inr_iff Let_def ided_def data_def defs_def)
  have gone: "dict_get full ''oracle'' = None" "dict_get full ''oracle_defaults'' = None"
    by (simp_all add: full data_def dict_get_pop)
  have pops: "dict_pop k d = d" if "dict_get d k = None" for k and d :: "(string, pyval) dict"
    using that by (force simp: dict_pop_def dict_get_None_iff filter_id_conv)
  have name: "dict_get full ''name'' = dict_get raw ''name''" "dict_get data ''name'' = dict_get raw ''name''"
    by (simp_all add: full data_def dict_get_pop ided_def set_if_missing_get)
  have sid: "set_if_missing ''suite_id'' (suite_id_default sha256 full) full = full"
  proof (cases "suite_id_default sha256 raw")
    case None
    then have "suite_id_default sha256 full = None" by (simp add: suite_id_default_def name)
    then show ?thesis by (simp add: set_if_missing_def)
  next
    case (Some v)
    then have "dict_has ided ''suite_id''" unfolding ided_def by (intro set_if_missing_has) simp
    then have "dict_has full ''suite_id''" by (simp add: full data_def dict_has_iff dict_get_pop)
    then show ?thesis by (simp add: set_if_missing_def split: option.splits)
  qed
  have defs_wf: "dict_wf base" if "mapping_or_empty defs = Inr base" for base
  proof (cases "dict_get raw ''oracle_defaults''")
    case None
    then have "defs = PNone" by (simp add: defs_def ided_def param_def set_if_missing_get)
    with that show ?thesis by simp
  next
    case (Some v)
    then have v: "defs = v" "(''oracle_defaults'', v) \<in> set raw"
      by (simp_all add: defs_def ided_def param_def set_if_missing_get) (simp add: dict_get_def map_of_SomeD)
    then have "pv_wf v" using assms(2) by (auto simp: list_all_iff)
    with v that show ?thesis by (cases v) (auto simp: dict_wf_def dest: mapping_or_empty_PDict)
  qed
  have items: "scenario_items (param full ''scenarios'' PNone) = Inr (map PDict ms)"
    by (simp add: full param_def scenario_items_def)
  have again: "res_map (expand_scenario sha256 (dict_get full ''name'') None PNone) (map PDict ms) = Inr ms"
    by (rule res_map_again [OF ms]) (use expand_scenario_again defs_wf in \<open>auto simp: name\<close>)
  have same: "dict_set ''scenarios'' (PList (map PDict ms)) full = full"
    by (rule dict_set_same) (simp add: full)
  have "expand sha256 full = Inr full"
    using sid gone pops [OF gone(1)] pops [OF gone(2)] items again same
    by (simp add: expand_def Let_def param_def)
  moreover have "dict_has full ''scenarios''" by (simp add: full dict_has_iff)
  ultimately show ?thesis using gone by (simp add: dict_has_iff)
qed

definition raw_suite :: "(string, pyval) dict" where
  "raw_suite =
     [(''name'', PStr ''shop''), (''oracle'', PStr ''command''),
      (''oracle_defaults'', PDict [(''command'', PStr ''make test'')]),
      (''scenarios'', PList [PDict [(''title'', PStr ''cart restarts'')]])]"

definition full_suite :: "(string, pyval) dict" where
  "full_suite =
     [(''name'', PStr ''shop''),
      (''scenarios'', PList [PDict [(''title'', PStr ''cart restarts''), (''oracle'', PStr ''command''),
        (''oracle_config'', PDict [(''command'', PStr ''make test'')]),
        (''scenario_id'', PStr ''scn-abc'')]]),
      (''suite_id'', PStr ''suite-abc'')]"

lemma expand_idempotent_witness:
  "expand (\<lambda>_. ''abc'') raw_suite = Inr full_suite \<and> expand (\<lambda>_. ''abc'') full_suite = Inr full_suite"
proof -
  have e: "expand (\<lambda>_. ''abc'') raw_suite = Inr full_suite"
    by (simp add: expand_def raw_suite_def full_suite_def set_if_missing_def suite_id_default_def
        stable_suite_id_def param_def dict_get_Cons dict_has_def dict_pop_def scenario_items_def
        expand_scenario_def given_def scenario_id_default_def stable_scenario_id_def dict_update_def)
  show ?thesis using expand_idempotent [OF e] e by (simp add: raw_suite_def)
qed

end
