(* ===== verification/Suite_Runner.thy ===== *)
theory Suite_Runner
  imports Suite_Loading Store
begin

text \<open>
  Replaying a regression suite, \<open>regression/suite_runner.py\<close>. What the runner is given, the
  experiment runner of each oracle, the progress callback, fresh identifiers, the clock and the
  store, are the fields of \<open>suite_env\<close> over an environment \<open>'e\<close>; a run that never returns is
  \<open>None\<close>.
\<close>

record 'e suite_env =
  sx_run :: "oracle_kind \<Rightarrow> experiment_plan \<Rightarrow> 'e \<Rightarrow> (experiment_record res \<times> 'e) option"
  sx_progress :: "(nat \<Rightarrow> nat \<Rightarrow> regression_verdict \<Rightarrow> 'e \<Rightarrow> unit res \<times> 'e) option"
  sx_experiment_id :: "'e \<Rightarrow> string"
  sx_suite_run_id :: "'e \<Rightarrow> string"
  sx_now :: "'e \<Rightarrow> int"
  sx_save :: "suite_run_record \<Rightarrow> 'e \<Rightarrow> 'e"
  sx_float_repr :: "real \<Rightarrow> string"

section \<open>From a record to a verdict\<close>

definition oracle_plugin_name :: "oracle_kind \<Rightarrow> string option" where
  "oracle_plugin_name k =
     (case k of OK_PLAYWRIGHT \<Rightarrow> Some ''regression-playwright'' | OK_COMMAND \<Rightarrow> Some ''regression-command''
      | OK_METRIC \<Rightarrow> Some ''regression-metric'' | OK_NEGATIVE \<Rightarrow> None)"

definition oracle_for :: "regression_scenario \<Rightarrow> string res" where
  "oracle_for s =
     (case oracle_plugin_name (sn_oracle s) of
        Some n \<Rightarrow> Inr n
      | None \<Rightarrow> Inl (Exn ''ValueError''
          (''oracle '' @ repr_str (oracle_kind_value (sn_oracle s)) @ '' is not implemented in v1 '' @
           ''(available: '' @ repr_strs [''command'', ''metric'', ''playwright''] @ '')'')))"

definition is_regressed :: "experiment_record \<Rightarrow> bool" where
  "is_regressed r =
     (case er_verify_result r of
        Some v \<Rightarrow> \<not> vr_passed v
      | None \<Rightarrow>
          (if (case er_tester_verify r of Some t \<Rightarrow> \<not> tr_steady_state t | None \<Rightarrow> False) then True
           else (case er_security_verify r of
             Some v \<Rightarrow> has_critical_or_high v \<or> sp_sbom_drift_from_baseline v | None \<Rightarrow> False)))"

definition unassessable :: "experiment_record \<Rightarrow> bool" where
  "unassessable r =
     (case er_verify_result r of
        None \<Rightarrow> False | Some v \<Rightarrow> truthy (param (vr_evidence v) ''baseline_unassessable'' PNone))"

definition classify :: "experiment_record \<Rightarrow> regression_outcome" where
  "classify r =
     (if er_state r = ABORTED
      then (if er_abort_reason r = Some BASELINE_UNHEALTHY then RO_BASELINE_FAIL else RO_ERROR)
      else if unassessable r then RO_BASELINE_FAIL
      else if is_regressed r then RO_REGRESSED else RO_PASS)"

definition newly_failing :: "(real \<Rightarrow> string) \<Rightarrow> experiment_record \<Rightarrow> string list res" where
  "newly_failing fr r = evidence_strings fr (er_verify_result r) ''newly_failing''"

definition verdict_of ::
  "(real \<Rightarrow> string) \<Rightarrow> regression_scenario \<Rightarrow> experiment_record \<Rightarrow> regression_verdict res" where
  "verdict_of fr s r =
     res_bind (newly_failing fr r) (\<lambda>newly.
       Inr \<lparr>rv_scenario_id = sn_scenario_id s, rv_title = sn_title s, rv_fault = fs_name (sn_fault s),
            rv_experiment_id = er_experiment_id r, rv_outcome = classify r, rv_newly_failing = newly,
            rv_verify_result = er_verify_result r, rv_detail = er_abort_detail r\<rparr>)"

section \<open>The plan of a scenario\<close>

definition scenario_config ::
  "regression_scenario \<Rightarrow> (string, pyval) dict \<Rightarrow> (string, pyval) dict" where
  "scenario_config s overrides =
     dict_update (dict_set ''journeys'' (PList (map PStr (sn_journeys s))) (sn_oracle_config s)) overrides"

definition plan_for ::
  "string \<Rightarrow> int \<Rightarrow> regression_suite \<Rightarrow> regression_scenario \<Rightarrow> string \<Rightarrow> (string, pyval) dict \<Rightarrow>
    experiment_plan res" where
  "plan_for eid now su s plugin overrides =
     (let p = \<lparr>ep_experiment_id = eid, ep_title = sn_title s, ep_target_app = su_target_app su,
               ep_target_repo = su_target_repo su, ep_faults = [sn_fault s], ep_safety = su_safety su,
               ep_budget = su_budget su, ep_quiet_window_pre_seconds = 60,
               ep_quiet_window_post_seconds = 60, ep_created_at = now, ep_suppress = [],
               ep_plugin = Some plugin, ep_plugin_config = scenario_config s overrides\<rparr>
      in if experiment_plan_ok p then Inr p else Inl (validation_error ''ExperimentPlan''))"

section \<open>Running the suite\<close>

definition report_progress ::
  "'e suite_env \<Rightarrow> nat \<Rightarrow> nat \<Rightarrow> regression_verdict \<Rightarrow> 'e \<Rightarrow> unit res \<times> 'e" where
  "report_progress x i n v e = (case sx_progress x of None \<Rightarrow> (Inr (), e) | Some f \<Rightarrow> f i n v e)"

text \<open>One scenario: its plugin, its plan, the run and its verdict.\<close>

definition run_scenario ::
  "'e suite_env \<Rightarrow> regression_suite \<Rightarrow> (string, pyval) dict \<Rightarrow> regression_scenario \<Rightarrow> 'e \<Rightarrow>
    (regression_verdict res \<times> 'e) option" where
  "run_scenario x su overrides s e =
     (case oracle_for s of
        Inl ex \<Rightarrow> Some (Inl ex, e)
      | Inr name \<Rightarrow>
          (case plan_for (sx_experiment_id x e) (sx_now x e) su s name overrides of
             Inl ex \<Rightarrow> Some (Inl ex, e)
           | Inr p \<Rightarrow>
               (case sx_run x (sn_oracle s) p e of
                  None \<Rightarrow> None
                | Some (Inl ex, e1) \<Rightarrow> Some (Inl ex, e1)
                | Some (Inr r, e1) \<Rightarrow> Some (verdict_of (sx_float_repr x) s r, e1))))"

fun run_scenarios ::
  "'e suite_env \<Rightarrow> regression_suite \<Rightarrow> (string, pyval) dict \<Rightarrow> nat \<Rightarrow> regression_scenario list \<Rightarrow>
    regression_verdict list \<Rightarrow> 'e \<Rightarrow> (regression_verdict list res \<times> 'e) option" where
  "run_scenarios x su overrides i [] vs e = Some (Inr vs, e)"
| "run_scenarios x su overrides i (s # ss) vs e =
     (case run_scenario x su overrides s e of
        None \<Rightarrow> None
      | Some (Inl ex, e1) \<Rightarrow> Some (Inl ex, e1)
      | Some (Inr v, e1) \<Rightarrow>
          (case report_progress x (Suc i) (length (su_scenarios su)) v e1 of
             (Inl ex, e2) \<Rightarrow> Some (Inl ex, e2)
           | (Inr u, e2) \<Rightarrow> run_scenarios x su overrides (Suc i) ss (vs @ [v]) e2))"

definition run_suite ::
  "'e suite_env \<Rightarrow> regression_suite \<Rightarrow> (string, pyval) dict \<Rightarrow> 'e \<Rightarrow> (suite_run_record res \<times> 'e) option" where
  "run_suite x su overrides e =
     (case run_scenarios x su overrides 0 (su_scenarios su) [] e of
        None \<Rightarrow> None
      | Some (Inl ex, e1) \<Rightarrow> Some (Inl ex, e1)
      | Some (Inr vs, e1) \<Rightarrow>
          (let r = \<lparr>srr_suite_run_id = sx_suite_run_id x e, srr_suite_id = su_suite_id su,
                    srr_verdicts = vs, srr_coverage = Some (render_coverage su [] []),
                    srr_started_at = sx_now x e, srr_finished_at = Some (sx_now x e1)\<rparr>
           in Some (Inr r, sx_save x r e1)))"

section \<open>What a suite run reports\<close>

text \<open>The verdict a scenario may get: from a run of its plan.\<close>

definition replayed ::
  "'e suite_env \<Rightarrow> regression_suite \<Rightarrow> (string, pyval) dict \<Rightarrow> regression_scenario \<Rightarrow> regression_verdict \<Rightarrow> bool"
where
  "replayed x su overrides s v \<longleftrightarrow>
     (\<exists>e e1 p r n. oracle_plugin_name (sn_oracle s) = Some n \<and>
        plan_for (sx_experiment_id x e) (sx_now x e) su s n overrides = Inr p \<and>
        sx_run x (sn_oracle s) p e = Some (Inr r, e1) \<and> verdict_of (sx_float_repr x) s r = Inr v)"

lemma run_scenario_replayed:
  "run_scenario x su overrides s e = Some (Inr v, e1) \<Longrightarrow> replayed x su overrides s v"
  by (auto simp: run_scenario_def oracle_for_def replayed_def split: option.splits sum.splits) blast

lemma run_scenarios_replayed:
  "run_scenarios x su overrides i ss vs e = Some (Inr ws, e1) \<Longrightarrow>
     \<exists>us. ws = vs @ us \<and> list_all2 (replayed x su overrides) ss us"
proof (induction ss arbitrary: i vs e)
  case (Cons s ss)
  obtain v e2 where v: "run_scenario x su overrides s e = Some (Inr v, e2)"
    using Cons.prems by (auto split: option.splits sum.splits)
  obtain u e3 where p: "report_progress x (Suc i) (length (su_scenarios su)) v e2 = (Inr u, e3)"
    using Cons.prems v by (auto split: prod.splits sum.splits)
  have "run_scenarios x su overrides (Suc i) ss (vs @ [v]) e3 = Some (Inr ws, e1)"
    using Cons.prems v p by simp
  from Cons.IH [OF this] obtain us where "ws = (vs @ [v]) @ us" "list_all2 (replayed x su overrides) ss us"
    by blast
  then show ?case using run_scenario_replayed [OF v] by (intro exI [of _ "v # us"]) simp
qed simp

text \<open>A suite run that returns has replayed every scenario, in order. There is one verdict per
  scenario, each from a run of a plan that injects just that scenario's fault under the suite's
  safety constraints and budget, asserts its journeys and uses its oracle; the coverage is that of
  the suite; and the record returned is the one saved last. A scenario with an oracle that is not
  implemented makes the whole run fail: no record is returned and none is saved.\<close>

theorem suite_run_replays_all:
  assumes "run_suite x su overrides e = Some (Inr r, e')"
  shows "list_all2 (replayed x su overrides) (su_scenarios su) (srr_verdicts r) \<and>
    srr_suite_id r = su_suite_id su \<and> srr_coverage r = Some (render_coverage su [] []) \<and>
    (\<exists>e1. e' = sx_save x r e1) \<and>
    \<not> (\<exists>s. s \<in> set (su_scenarios su) \<and> sn_oracle s = OK_NEGATIVE)"
proof -
  obtain vs e1 where vs: "run_scenarios x su overrides 0 (su_scenarios su) [] e = Some (Inr vs, e1)"
    and r: "r = \<lparr>srr_suite_run_id = sx_suite_run_id x e, srr_suite_id = su_suite_id su,
        srr_verdicts = vs, srr_coverage = Some (render_coverage su [] []),
        srr_started_at = sx_now x e, srr_finished_at = Some (sx_now x e1)\<rparr>" "e' = sx_save x r e1"
    using assms by (auto simp: run_suite_def Let_def split: option.splits sum.splits)
  have all: "list_all2 (replayed x su overrides) (su_scenarios su) vs"
    using run_scenarios_replayed [OF vs] by simp
  have "sn_oracle s \<noteq> OK_NEGATIVE" if m: "s \<in> set (su_scenarios su)" for s
  proof -
    obtain v where "replayed x su overrides s v"
      using all m by (auto simp: list_all2_conv_all_nth in_set_conv_nth)
    then show ?thesis by (auto simp: replayed_def oracle_plugin_name_def)
  qed
  then show ?thesis using all r by auto
qed

text \<open>The outcome of a scenario is exactly the oracle's verdict on a run that was not aborted.
  A scenario passes only if its run was not aborted, and its oracle, if it gave a verdict, passed on
  a baseline it could assess; it is regressed only if the run was not aborted and the oracle's
  verdict failed on such a baseline, or, without a verdict, the built-in checks failed; an aborted
  run is never a pass: it is a broken baseline when the loop found the baseline unhealthy and an
  error otherwise.\<close>

theorem verdict_outcome_exact:
  assumes "verdict_of fr s r = Inr v"
  shows "(rv_outcome v = RO_PASS \<longleftrightarrow> er_state r \<noteq> ABORTED \<and> \<not> unassessable r \<and>
      (case er_verify_result r of
         Some w \<Rightarrow> vr_passed w
       | None \<Rightarrow> \<not> (\<exists>t. er_tester_verify r = Some t \<and> \<not> tr_steady_state t) \<and>
           \<not> (\<exists>w. er_security_verify r = Some w \<and>
               (has_critical_or_high w \<or> sp_sbom_drift_from_baseline w)))) \<and>
    (rv_outcome v = RO_REGRESSED \<longleftrightarrow> er_state r \<noteq> ABORTED \<and> \<not> unassessable r \<and> is_regressed r) \<and>
    (rv_outcome v = RO_BASELINE_FAIL \<longleftrightarrow>
      (if er_state r = ABORTED then er_abort_reason r = Some BASELINE_UNHEALTHY else unassessable r)) \<and>
    (rv_outcome v = RO_ERROR \<longleftrightarrow> er_state r = ABORTED \<and> er_abort_reason r \<noteq> Some BASELINE_UNHEALTHY)"
proof -
  have o: "rv_outcome v = classify r" using assms by (auto simp: verdict_of_def res_bind_Inr_iff)
  show ?thesis unfolding o classify_def is_regressed_def by (auto split: option.splits)
qed

section \<open>A small run\<close>

definition cart_plan :: experiment_plan where
  "cart_plan =
     \<lparr>ep_experiment_id = ''exp-0123456789ab'', ep_title = ''cart restarts'', ep_target_app = ''shop'',
      ep_target_repo = None, ep_faults = [cart_outage], ep_safety = su_safety (shop_suite []),
      ep_budget = su_budget (shop_suite []), ep_quiet_window_pre_seconds = 60,
      ep_quiet_window_post_seconds = 60, ep_created_at = 0, ep_suppress = [],
      ep_plugin = Some ''regression-command'',
      ep_plugin_config = [(''journeys'', PList [PStr ''checkout''])]\<rparr>"

definition steady_record :: "experiment_plan \<Rightarrow> experiment_record" where
  "steady_record p = (new_record p 0)\<lparr>er_state := RECORDED\<rparr>"

definition small_env :: "suite_run_record list suite_env" where
  "small_env =
     \<lparr>sx_run = (\<lambda>k p e. Some (Inr (steady_record p), e)), sx_progress = None,
      sx_experiment_id = (\<lambda>e. ''exp-0123456789ab''), sx_suite_run_id = (\<lambda>e. ''srun-1''), sx_now = (\<lambda>e. 0),
      sx_save = (\<lambda>r e. e @ [r]), sx_float_repr = (\<lambda>x. [])\<rparr>"

lemma cart_plan_for:
  "plan_for ''exp-0123456789ab'' 0 (shop_suite [cart_scenario]) cart_scenario ''regression-command'' [] =
     Inr cart_plan"
proof -
  have "experiment_plan_ok cart_plan"
    by (simp add: experiment_plan_ok_def cart_plan_def cart_outage_def shop_suite_def
        safety_constraints_ok_def fault_spec_ok_def experiment_id_ok_def id12_def is_hex_def is_digit_def less_eq_char_def)
  then show ?thesis
    by (simp add: plan_for_def Let_def cart_plan_def scenario_config_def dict_update_def cart_scenario_def
        shop_suite_def)
qed

definition cart_verdict :: regression_verdict where
  "cart_verdict =
     \<lparr>rv_scenario_id = ''scn-1'', rv_title = ''cart restarts'', rv_fault = ''pod.kill'',
      rv_experiment_id = ''exp-0123456789ab'', rv_outcome = RO_PASS, rv_newly_failing = [],
      rv_verify_result = None, rv_detail = []\<rparr>"

lemma cart_verdict_of: "verdict_of fr cart_scenario (steady_record cart_plan) = Inr cart_verdict"
  by (simp add: verdict_of_def newly_failing_def evidence_strings_def evidence_items_def steady_record_def
      new_record_def cart_verdict_def classify_def unassessable_def is_regressed_def cart_plan_def
      cart_scenario_def cart_outage_def)

lemma cart_run:
  "\<exists>r. run_suite small_env (shop_suite [cart_scenario]) [] [] = Some (Inr r, [r]) \<and>
     srr_verdicts r = [cart_verdict]"
proof -
  have o: "oracle_for cart_scenario = Inr ''regression-command''"
    by (simp add: oracle_for_def oracle_plugin_name_def cart_scenario_def)
  have "run_scenario small_env (shop_suite [cart_scenario]) [] cart_scenario [] = Some (Inr cart_verdict, [])"
    using cart_plan_for cart_verdict_of by (simp add: run_scenario_def o small_env_def)
  then show ?thesis
    by (simp add: run_suite_def shop_suite_def report_progress_def small_env_def Let_def)
qed

lemma suite_run_replays_all_witness:
  "list_all2 (replayed small_env (shop_suite [cart_scenario]) []) [cart_scenario] [cart_verdict]"
proof -
  obtain r where r: "run_suite small_env (shop_suite [cart_scenario]) [] [] = Some (Inr r, [r])"
    "srr_verdicts r = [cart_verdict]" using cart_run by blast
  from suite_run_replays_all [OF r(1)] r(2) show ?thesis by (simp add: shop_suite_def)
qed

lemma verdict_outcome_exact_witness:
  "rv_outcome cart_verdict = RO_PASS \<longleftrightarrow> er_state (steady_record cart_plan) \<noteq> ABORTED"
  using verdict_outcome_exact [OF cart_verdict_of]
  by (simp add: steady_record_def unassessable_def new_record_def)

end
