(* ===== verification/Oracles.thy ===== *)
theory Oracles
  imports Drift Plugin_Host
begin

text \<open>
  The oracles of a regression suite as experiment plugins: \<open>regression/oracles/command.py\<close> and
  \<open>metric.py\<close> (\<open>playwright.py\<close> is in its own theory). An oracle keeps its baseline in the plugin
  context's scratch; the environment \<open>oracle_env\<close> holds the scratch and the outside world \<open>'w\<close>.
  The processes and the metrics backend that an oracle talks to are arguments. The locale
  \<open>oracle_contract\<close> is what the suite runner relies on: a verdict fails exactly when it names
  something that was green at the oracle's own baseline and is red now.
\<close>

section \<open>The environment of an oracle\<close>

record ('s, 'w) oracle_env =
  oe_scratch :: 's
  oe_baseline :: "statistical_sample list"
  oe_world :: 'w

text \<open>A plugin that overrides \<open>capture_baseline\<close> and \<open>verify\<close> only.\<close>

definition oracle_plugin ::
  "string \<Rightarrow> (('s, 'w) oracle_env \<Rightarrow> statistical_sample list res \<times> ('s, 'w) oracle_env) \<Rightarrow>
    (('s, 'w) oracle_env \<Rightarrow> verify_result res \<times> ('s, 'w) oracle_env) \<Rightarrow> ('s, 'w) oracle_env plugin" where
  "oracle_plugin name capture verify =
     \<lparr>pg_name = name, pg_overrides = (\<lambda>h. h \<in> {H_capture_baseline, H_verify}),
      pg_hook = (\<lambda>h e.
        if h = H_capture_baseline
        then (case capture e of (r, e') \<Rightarrow> (res_bind r (\<lambda>xs. Inr (HV_samples xs)), [], e'))
        else if h = H_verify
        then (case verify e of (r, e') \<Rightarrow> (res_bind r (\<lambda>v. Inr (HV_verdict v)), [], e'))
        else (Inr HV_none, [], e)),
      pg_compensation = (\<lambda>n e. (Inr (), e)), pg_guard = (\<lambda>e. None),
      pg_set_baseline = (\<lambda>xs e. e\<lparr>oe_baseline := xs\<rparr>), pg_race = (\<lambda>e. ([], e))\<rparr>"

lemma oracle_capture:
  "capture_baseline now (oracle_plugin name capture verify) s e = (Inr xs, s', e') \<longleftrightarrow>
     (\<exists>e1. capture e = (Inr xs, e1) \<and> e' = e1\<lparr>oe_baseline := xs\<rparr> \<and>
        s' = add_record (invoke_record H_capture_baseline (Inr (HV_samples xs)) (now e) (now e1)) s)"
  by (cases "capture e")
    (auto simp: capture_baseline_def invoke_def oracle_plugin_def Let_def res_bind_def split: sum.splits)

lemma oracle_verify:
  "session_verify now (oracle_plugin name capture verify) s e = (Inr vo, s', e') \<longleftrightarrow>
     (\<exists>v. verify e = (Inr v, e') \<and> vo = Some v \<and>
        s' = (add_record (invoke_record H_verify (Inr (HV_verdict v)) (now e) (now e')) s)
          \<lparr>ps_verify_result := Some v\<rparr>)"
  by (cases "verify e")
    (auto simp: session_verify_def invoke_def oracle_plugin_def Let_def res_bind_def split: sum.splits)

section \<open>The contract\<close>

definition verdict_names :: "verify_result \<Rightarrow> string list res" where
  "verdict_names v = evidence_strings (\<lambda>_. []) (Some v) ''newly_failing''"

definition flagged :: "verify_result \<Rightarrow> bool" where
  "flagged v = truthy (param (vr_evidence v) ''baseline_unassessable'' PNone)"

locale oracle_contract =
  fixes verify :: "'e \<Rightarrow> verify_result res \<times> 'e"
    and green :: "'e \<Rightarrow> string set"
  assumes names_green: "verify e = (Inr v, e') \<Longrightarrow> \<exists>ns. verdict_names v = Inr ns \<and> set ns \<subseteq> green e \<and>
      (vr_passed v \<longleftrightarrow> ns = []) \<and> map vf_assertion (vr_failures v) = ns"
    and unassessed_silent: "verify e = (Inr v, e') \<Longrightarrow> flagged v \<Longrightarrow> vr_passed v"
begin

lemma failed_was_green:
  "verify e = (Inr v, e') \<Longrightarrow> \<not> vr_passed v \<Longrightarrow> \<exists>n \<in> green e. n \<in> vf_assertion ` set (vr_failures v)"
  using names_green [of e v e'] by (cases "vr_failures v") auto

lemma nothing_green_nothing_fails: "verify e = (Inr v, e') \<Longrightarrow> green e = {} \<Longrightarrow> vr_passed v"
  using names_green [of e v e'] by auto

lemma verdict_well_formed: "verify e = (Inr v, e') \<Longrightarrow> verify_result_ok v"
  using names_green [of e v e'] by (auto simp: verify_result_ok_def)

end

section \<open>The command oracle\<close>

record command_scratch =
  cs_baseline_ok :: "bool option"
  cs_baseline_code :: "int option"

datatype command_line = Shell string | Argv "string list"

text \<open>The process call: command, working directory, extra environment, time limit; its exit status.\<close>

type_synonym 'w process =
  "command_line \<Rightarrow> string \<Rightarrow> (string, string) dict \<Rightarrow> real \<Rightarrow> 'w \<Rightarrow> int option res \<times> 'w"

fun env_items :: "(real \<Rightarrow> string) \<Rightarrow> pyval \<Rightarrow> (string, string) dict res" where
  "env_items fr (PDict d) = Inr (map (\<lambda>kv. (fst kv, py_str fr (snd kv))) d)"
| "env_items fr v =
     (if truthy v then Inl (Exn ''AttributeError'' ''object has no attribute items'') else Inr [])"

definition command_line_of :: "(real \<Rightarrow> string) \<Rightarrow> pyval \<Rightarrow> command_line res" where
  "command_line_of fr v =
     (case v of
        PStr s \<Rightarrow> Inr (Shell s)
      | _ \<Rightarrow> res_bind (py_iter v) (\<lambda>xs. Inr (Argv (map (py_str fr) xs))))"

definition exec_command ::
  "(real \<Rightarrow> string) \<Rightarrow> (pyval \<Rightarrow> real res) \<Rightarrow> 'w process \<Rightarrow> (string, pyval) dict \<Rightarrow> 'w \<Rightarrow> int res \<times> 'w" where
  "exec_command fr fl sh cfg w =
     (let command = param cfg ''command'' PNone in
      if \<not> truthy command
      then (Inl (Exn ''ValueError'' ''command oracle requires oracle_config['command']''), w)
      else case res_bind (fl (param cfg ''timeout_s'' (PFloat 600))) (\<lambda>t.
             res_bind (env_items fr (param cfg ''env'' PNone)) (\<lambda>env.
             res_bind (command_line_of fr command) (\<lambda>c. Inr (c, env, t)))) of
        Inl x \<Rightarrow> (Inl x, w)
      | Inr (c, env, t) \<Rightarrow>
          (case sh c (py_str fr (param cfg ''cwd'' (PStr ''.''))) env t w of
             (r, w') \<Rightarrow> (res_bind r (\<lambda>code. Inr (case code of None \<Rightarrow> -1 | Some n \<Rightarrow> n)), w')))"

definition command_journey :: "(real \<Rightarrow> string) \<Rightarrow> (string, pyval) dict \<Rightarrow> string" where
  "command_journey fr cfg = py_str fr (param cfg ''name'' (PStr ''command''))"

definition command_capture ::
  "(real \<Rightarrow> string) \<Rightarrow> (pyval \<Rightarrow> real res) \<Rightarrow> 'w process \<Rightarrow> (string, pyval) dict \<Rightarrow>
    (command_scratch, 'w) oracle_env \<Rightarrow> statistical_sample list res \<times> (command_scratch, 'w) oracle_env" where
  "command_capture fr fl sh cfg e =
     (case exec_command fr fl sh cfg (oe_world e) of
        (Inl x, w) \<Rightarrow> (Inl x, e\<lparr>oe_world := w\<rparr>)
      | (Inr code, w) \<Rightarrow>
          (Inr [], e\<lparr>oe_world := w,
             oe_scratch := \<lparr>cs_baseline_ok = Some (code = 0), cs_baseline_code = Some code\<rparr>\<rparr>))"

definition code_str :: "int option \<Rightarrow> string" where
  "code_str c = (case c of None \<Rightarrow> ''None'' | Some n \<Rightarrow> int_str n)"

definition command_verdict ::
  "string \<Rightarrow> bool \<Rightarrow> int option \<Rightarrow> int \<Rightarrow> verify_result" where
  "command_verdict journey baseline_ok baseline_code code =
     (let passing = PList (if baseline_ok then [PStr journey] else []) in
      if baseline_ok \<and> code \<noteq> 0
      then \<lparr>vr_passed = False, vr_summary = journey @ '' regressed under fault (exit '' @ int_str code @ '')'',
            vr_failures = [\<lparr>vf_assertion = journey, vf_expected = ''exit 0 under fault'',
              vf_actual = ''exit '' @ int_str code, vf_severity = SEV_HIGH, vf_evidence = []\<rparr>],
            vr_evidence = [(''newly_failing'', PList [PStr journey]), (''baseline_passing'', passing)],
            vr_metrics = []\<rparr>
      else if \<not> baseline_ok
      then \<lparr>vr_passed = True,
            vr_summary = journey @ '' already failing at baseline (exit '' @ code_str baseline_code @
              ''); cannot assess resilience'',
            vr_failures = [],
            vr_evidence = [(''newly_failing'', PList []), (''baseline_unassessable'', PBool True),
              (''baseline_passing'', passing)],
            vr_metrics = []\<rparr>
      else \<lparr>vr_passed = True, vr_summary = journey @ '' exit='' @ int_str code @ '' under fault'',
            vr_failures = [],
            vr_evidence = [(''newly_failing'', PList []), (''baseline_passing'', passing)],
            vr_metrics = []\<rparr>)"

definition baseline_was_ok :: "(command_scratch, 'w) oracle_env \<Rightarrow> bool" where
  "baseline_was_ok e = (cs_baseline_ok (oe_scratch e) = Some True)"

definition command_verify ::
  "(real \<Rightarrow> string) \<Rightarrow> (pyval \<Rightarrow> real res) \<Rightarrow> 'w process \<Rightarrow> (string, pyval) dict \<Rightarrow>
    (command_scratch, 'w) oracle_env \<Rightarrow> verify_result res \<times> (command_scratch, 'w) oracle_env" where
  "command_verify fr fl sh cfg e =
     (case exec_command fr fl sh cfg (oe_world e) of
        (Inl x, w) \<Rightarrow> (Inl x, e\<lparr>oe_world := w\<rparr>)
      | (Inr code, w) \<Rightarrow>
          (Inr (command_verdict (command_journey fr cfg) (baseline_was_ok e)
             (cs_baseline_code (oe_scratch e)) code), e\<lparr>oe_world := w\<rparr>))"

definition command_oracle where
  "command_oracle fr fl sh cfg =
     oracle_plugin ''regression-command'' (command_capture fr fl sh cfg) (command_verify fr fl sh cfg)"

definition command_green :: "(real \<Rightarrow> string) \<Rightarrow> (string, pyval) dict \<Rightarrow> (command_scratch, 'w) oracle_env \<Rightarrow> string set" where
  "command_green fr cfg e = (if baseline_was_ok e then {command_journey fr cfg} else {})"

lemmas verdict_evidence_simps = verdict_names_def evidence_strings_def evidence_items_def flagged_def
  param_def dict_get_Cons

lemma command_verdict_fields:
  "verdict_names (command_verdict j ok bc c) = Inr (if ok \<and> c \<noteq> 0 then [j] else [])"
  "vr_passed (command_verdict j ok bc c) \<longleftrightarrow> \<not> (ok \<and> c \<noteq> 0)"
  "flagged (command_verdict j ok bc c) \<longleftrightarrow> \<not> ok"
  "map vf_assertion (vr_failures (command_verdict j ok bc c)) = (if ok \<and> c \<noteq> 0 then [j] else [])"
  by (simp_all add: command_verdict_def verdict_evidence_simps Let_def)

lemma command_verify_Inr:
  "command_verify fr fl sh cfg e = (Inr v, e') \<Longrightarrow>
     \<exists>c. v = command_verdict (command_journey fr cfg) (baseline_was_ok e) (cs_baseline_code (oe_scratch e)) c"
  by (auto simp: command_verify_def split: prod.splits sum.splits)

interpretation command: oracle_contract "command_verify fr fl sh cfg" "command_green fr cfg" for fr fl sh cfg
proof
  fix e v e'
  assume "command_verify fr fl sh cfg e = (Inr v, e')"
  then obtain c where v: "v = command_verdict (command_journey fr cfg) (baseline_was_ok e)
      (cs_baseline_code (oe_scratch e)) c"
    using command_verify_Inr by blast
  show "\<exists>ns. verdict_names v = Inr ns \<and> set ns \<subseteq> command_green fr cfg e \<and> (vr_passed v \<longleftrightarrow> ns = []) \<and>
      map vf_assertion (vr_failures v) = ns"
    unfolding v command_verdict_fields by (auto simp: command_green_def)
  show "flagged v \<Longrightarrow> vr_passed v" unfolding v command_verdict_fields by simp
qed

section \<open>The metric oracle\<close>

text \<open>A sampled point is a number or a NaN (\<open>None\<close>). The backend: query, then the series.\<close>

type_synonym 'w backend = "(string, pyval) dict \<Rightarrow> string \<Rightarrow> real \<Rightarrow> real \<Rightarrow> 'w \<Rightarrow> real option list list res \<times> 'w"

definition config_thresholds ::
  "(pyval \<Rightarrow> metric_threshold res) \<Rightarrow> (string, pyval) dict \<Rightarrow> metric_threshold list res" where
  "config_thresholds vt cfg =
     (case param cfg ''metrics'' (PList []) of
        PList xs \<Rightarrow>
          res_bind (res_map vt xs) (\<lambda>ts.
            (let missing = map mt_metric (filter (\<lambda>t. mt_query t = []) ts)
             in if missing \<noteq> []
                then Inl (Exn ''ValueError''
                  (''metric oracle: metrics missing a PromQL 'query': '' @ repr_strs missing))
                else Inr ts))
      | _ \<Rightarrow> Inl (Exn ''ValueError'' ''metric oracle: oracle_config['metrics'] must be a list''))"

definition query_metric ::
  "(pyval \<Rightarrow> real res) \<Rightarrow> 'w backend \<Rightarrow> (string, pyval) dict \<Rightarrow> string \<Rightarrow> 'w \<Rightarrow> real list res \<times> 'w" where
  "query_metric fl be cfg q w =
     (if truthy (param cfg ''_dry_run'' PNone) then (Inr [100, 100, 100], w)
      else case res_bind (fl (param cfg ''window_seconds'' (PFloat 300))) (\<lambda>win.
             res_bind (fl (param cfg ''step_seconds'' (PFloat 15))) (\<lambda>step. Inr (win, step))) of
        Inl x \<Rightarrow> (Inl x, w)
      | Inr (win, step) \<Rightarrow>
          (case be cfg q win step w of
             (r, w') \<Rightarrow> (res_bind r (\<lambda>series. Inr (List.map_filter (\<lambda>v. v) (concat series))), w')))"

fun sample_metrics ::
  "(pyval \<Rightarrow> real res) \<Rightarrow> 'w backend \<Rightarrow> (string, pyval) dict \<Rightarrow> metric_threshold list \<Rightarrow>
    statistical_sample list \<Rightarrow> 'w \<Rightarrow> statistical_sample list res \<times> 'w" where
  "sample_metrics fl be cfg [] out w = (Inr out, w)"
| "sample_metrics fl be cfg (t # ts) out w =
     (case query_metric fl be cfg (mt_query t) w of
        (Inl x, w1) \<Rightarrow> (Inl x, w1)
      | (Inr values, w1) \<Rightarrow>
          (if values = [] then sample_metrics fl be cfg ts out w1
           else case from_samples (mt_metric t) values of
             Inl x \<Rightarrow> (Inl x, w1)
           | Inr s \<Rightarrow> sample_metrics fl be cfg ts (out @ [s]) w1))"

definition sample_all ::
  "(pyval \<Rightarrow> metric_threshold res) \<Rightarrow> (pyval \<Rightarrow> real res) \<Rightarrow> 'w backend \<Rightarrow> (string, pyval) dict \<Rightarrow> 'w \<Rightarrow>
    statistical_sample list res \<times> 'w" where
  "sample_all vt fl be cfg w =
     (case config_thresholds vt cfg of Inl x \<Rightarrow> (Inl x, w) | Inr ts \<Rightarrow> sample_metrics fl be cfg ts [] w)"

definition metric_capture ::
  "(pyval \<Rightarrow> metric_threshold res) \<Rightarrow> (pyval \<Rightarrow> real res) \<Rightarrow> 'w backend \<Rightarrow> (string, pyval) dict \<Rightarrow>
    (statistical_sample list option, 'w) oracle_env \<Rightarrow>
    statistical_sample list res \<times> (statistical_sample list option, 'w) oracle_env" where
  "metric_capture vt fl be cfg e =
     (case sample_all vt fl be cfg (oe_world e) of
        (Inl x, w) \<Rightarrow> (Inl x, e\<lparr>oe_world := w\<rparr>)
      | (Inr ss, w) \<Rightarrow> (Inr ss, e\<lparr>oe_world := w, oe_scratch := Some ss\<rparr>))"

text \<open>How the verdict prints numbers and dumps its contracts into the evidence.\<close>

record metric_printer =
  mp_3g :: "real \<Rightarrow> string"
  mp_sample :: "statistical_sample \<Rightarrow> pyval"
  mp_threshold :: "metric_threshold \<Rightarrow> pyval"

definition metric_failure ::
  "metric_printer \<Rightarrow> metric_threshold \<Rightarrow> metric_drift \<Rightarrow> verify_failure" where
  "metric_failure mp t d =
     \<lparr>vf_assertion = mt_metric t,
      vf_expected = percentile_field_value (mt_percentile t) @ '' within '' @ fmt2 (mt_max_ratio t) @
        ''x of baseline '' @ mp_3g mp (md_golden_value d),
      vf_actual = percentile_field_value (mt_percentile t) @ ''='' @ mp_3g mp (md_current_value d) @ '' under fault'',
      vf_severity = SEV_HIGH,
      vf_evidence = [(''ratio'', case md_ratio d of None \<Rightarrow> PNone | Some x \<Rightarrow> PFloat x),
        (''direction'', PStr (metric_direction_value (mt_direction t)))]\<rparr>"

definition metric_check ::
  "metric_printer \<Rightarrow> (string, statistical_sample) dict \<Rightarrow> (string, statistical_sample) dict \<Rightarrow>
    metric_threshold \<Rightarrow> verify_failure option" where
  "metric_check mp baseline current t =
     (case (dict_get baseline (mt_metric t), dict_get current (mt_metric t)) of
        (Some g, Some c) \<Rightarrow>
          (let d = compare_metric g c t in if md_regressed d then Some (metric_failure mp t d) else None)
      | _ \<Rightarrow> None)"

definition metric_regressions ::
  "metric_printer \<Rightarrow> statistical_sample list \<Rightarrow> statistical_sample list \<Rightarrow> metric_threshold list \<Rightarrow>
    verify_failure list" where
  "metric_regressions mp baseline current ts =
     List.map_filter (metric_check mp (by_metric baseline) (by_metric current)) ts"

definition metric_evidence ::
  "metric_printer \<Rightarrow> statistical_sample list \<Rightarrow> metric_threshold list \<Rightarrow> (string, pyval) dict" where
  "metric_evidence mp baseline ts =
     [(''baseline_metrics'', PList (map (mp_sample mp) baseline)),
      (''metric_thresholds'', PList (map (mp_threshold mp) ts))]"

definition metric_verdict ::
  "metric_printer \<Rightarrow> statistical_sample list \<Rightarrow> metric_threshold list \<Rightarrow> statistical_sample list \<Rightarrow> verify_result"
where
  "metric_verdict mp baseline ts current =
     (let failures = metric_regressions mp baseline current ts;
          newly = map vf_assertion failures;
          ev = metric_evidence mp baseline ts
      in if failures = []
         then \<lparr>vr_passed = True, vr_summary = ''all metric distributions held within budget under fault'',
               vr_failures = [], vr_evidence = ev @ [(''newly_failing'', PList [])], vr_metrics = []\<rparr>
         else \<lparr>vr_passed = False, vr_summary = nat_str (length failures) @ '' metric(s) regressed under fault'',
               vr_failures = failures, vr_evidence = ev @ [(''newly_failing'', PList (map PStr newly))],
               vr_metrics = []\<rparr>)"

definition metric_verify ::
  "metric_printer \<Rightarrow> (pyval \<Rightarrow> metric_threshold res) \<Rightarrow> (pyval \<Rightarrow> real res) \<Rightarrow> 'w backend \<Rightarrow>
    (string, pyval) dict \<Rightarrow> (statistical_sample list option, 'w) oracle_env \<Rightarrow>
    verify_result res \<times> (statistical_sample list option, 'w) oracle_env" where
  "metric_verify mp vt fl be cfg e =
     (case config_thresholds vt cfg of
        Inl x \<Rightarrow> (Inl x, e)
      | Inr ts \<Rightarrow>
          (let baseline = (case oe_scratch e of None \<Rightarrow> [] | Some ss \<Rightarrow> ss) in
           if baseline = []
           then (Inr \<lparr>vr_passed = True,
                  vr_summary = ''no baseline metric samples (source empty); cannot assess'',
                  vr_failures = [],
                  vr_evidence = metric_evidence mp baseline ts @
                    [(''baseline_unassessable'', PBool True), (''newly_failing'', PList [])],
                  vr_metrics = []\<rparr>, e)
           else case sample_all vt fl be cfg (oe_world e) of
             (Inl x, w) \<Rightarrow> (Inl x, e\<lparr>oe_world := w\<rparr>)
           | (Inr current, w) \<Rightarrow> (Inr (metric_verdict mp baseline ts current), e\<lparr>oe_world := w\<rparr>)))"

definition metric_oracle where
  "metric_oracle mp vt fl be cfg =
     oracle_plugin ''regression-metric'' (metric_capture vt fl be cfg) (metric_verify mp vt fl be cfg)"

definition metric_green :: "(statistical_sample list option, 'w) oracle_env \<Rightarrow> string set" where
  "metric_green e = ss_metric ` set (case oe_scratch e of None \<Rightarrow> [] | Some ss \<Rightarrow> ss)"

lemma by_metric_get: "dict_get (by_metric xs) m = Some s \<Longrightarrow> s \<in> set xs \<and> ss_metric s = m"
  by (induction xs rule: rev_induct) (auto simp: by_metric_def dict_get_set split: if_splits)

lemma metric_check_Some:
  "metric_check mp bl cur t = Some f \<Longrightarrow> vf_assertion f = mt_metric t \<and>
     (\<exists>g c. dict_get bl (mt_metric t) = Some g \<and> dict_get cur (mt_metric t) = Some c \<and>
       past_budget t (sample_value g (mt_percentile t)) (sample_value c (mt_percentile t)))"
  by (auto simp: metric_check_def metric_failure_def compare_metric_def Let_def split: option.splits if_splits)

lemma mem_map_filter: "y \<in> set (List.map_filter f xs) \<longleftrightarrow> (\<exists>x \<in> set xs. f x = Some y)"
  by (force simp: List.map_filter_def)

lemma regressions_green:
  "f \<in> set (metric_regressions mp baseline current ts) \<Longrightarrow> vf_assertion f \<in> ss_metric ` set baseline"
  by (auto simp: metric_regressions_def mem_map_filter dest!: metric_check_Some by_metric_get) (metis image_eqI)

lemma metric_verdict_fields:
  "verdict_names (metric_verdict mp bl ts cur) = Inr (map vf_assertion (metric_regressions mp bl cur ts))"
  "vr_passed (metric_verdict mp bl ts cur) \<longleftrightarrow> metric_regressions mp bl cur ts = []"
  "vr_failures (metric_verdict mp bl ts cur) = metric_regressions mp bl cur ts"
  "\<not> flagged (metric_verdict mp bl ts cur)"
  by (simp_all add: metric_verdict_def metric_evidence_def verdict_evidence_simps Let_def comp_def)

lemma metric_verify_Inr:
  assumes "metric_verify mp vt fl be cfg e = (Inr v, e')"
  obtains (empty) "vr_passed v" "vr_failures v = []" "verdict_names v = Inr []"
  | (compared) ts bl cur where "oe_scratch e = Some bl" "v = metric_verdict mp bl ts cur"
  using assms
  by (auto simp: metric_verify_def Let_def metric_evidence_def verdict_evidence_simps
      split: sum.splits prod.splits if_splits option.splits)

interpretation metric: oracle_contract "metric_verify mp vt fl be cfg" metric_green for mp vt fl be cfg
proof
  fix e v e'
  assume v: "metric_verify mp vt fl be cfg e = (Inr v, e')"
  then show "\<exists>ns. verdict_names v = Inr ns \<and> set ns \<subseteq> metric_green e \<and> (vr_passed v \<longleftrightarrow> ns = []) \<and>
      map vf_assertion (vr_failures v) = ns"
  proof (cases rule: metric_verify_Inr)
    case (compared ts bl cur)
    then show ?thesis using regressions_green by (auto simp: metric_verdict_fields metric_green_def)
  qed simp
  show "vr_passed v" if "flagged v"
    using v
  proof (cases rule: metric_verify_Inr)
    case (compared ts bl cur)
    with that show ?thesis by (simp add: metric_verdict_fields)
  qed simp
qed

end
