(* ===== verification/Playwright.thy ===== *)
theory Playwright
  imports Oracles "HOL-Library.Multiset"
begin

text \<open>
  The Playwright oracle, \<open>regression/oracles/playwright.py\<close>: the parser of the reporter's JSON, the
  command line it builds, and the double baseline. The reporter's output is a dynamically typed
  value; the process call and \<open>json.loads\<close> are arguments. An item that is no mapping where the code
  calls \<open>.get\<close> raises \<open>AttributeError\<close>.
\<close>

section \<open>Walking the report\<close>

text \<open>\<open>dict(spec)\<close> with \<open>setdefault("file", file)\<close>.\<close>

definition with_file :: "pyval \<Rightarrow> pyval \<Rightarrow> pyval res" where
  "with_file file spec =
     (case spec of
        PDict d \<Rightarrow> Inr (PDict (if dict_has d ''file'' then d else dict_set ''file'' file d))
      | _ \<Rightarrow> Inl (Exn ''TypeError'' ''object is not a mapping''))"

text \<open>Nested suites: anything but a list holds no mapping to descend into.\<close>

definition nested_suites :: "(string, pyval) dict \<Rightarrow> pyval list res" where
  "nested_suites d =
     (case param d ''suites'' (PList []) of
        PList xs \<Rightarrow> Inr xs
      | PStr s \<Rightarrow> (if s = [] then Inr [] else Inl attribute_error)
      | PDict kvs \<Rightarrow> (if kvs = [] then Inr [] else Inl attribute_error)
      | _ \<Rightarrow> Inl (Exn ''TypeError'' ''object is not iterable''))"

lemma res_map_cong [fundef_cong]:
  "xs = ys \<Longrightarrow> (\<And>x. x \<in> set ys \<Longrightarrow> f x = g x) \<Longrightarrow> res_map f xs = res_map g ys"
  by (induction ys arbitrary: xs) auto

lemma res_bind_cong [fundef_cong]:
  "r = r' \<Longrightarrow> (\<And>a. r' = Inr a \<Longrightarrow> f a = g a) \<Longrightarrow> res_bind r f = res_bind r' g"
  by (cases r') auto

lemma size_dict_get: "dict_get d k = Some v \<Longrightarrow> size v < size (PDict d)"
  by (induction d) (auto simp: dict_get_Cons split: if_splits)

lemma nested_suites_size: "nested_suites d = Inr xs \<Longrightarrow> x \<in> set xs \<Longrightarrow> size x < size (PDict d)"
proof -
  assume n: "nested_suites d = Inr xs" and x: "x \<in> set xs"
  then have g: "dict_get d ''suites'' = Some (PList xs)"
    by (auto simp: nested_suites_def param_def split: option.splits pyval.splits if_splits)
  have "size x < size (PList xs)" using x by (induction xs) auto
  with size_dict_get [OF g] show ?thesis by simp
qed

function walk_specs :: "pyval \<Rightarrow> pyval list res" where
  "walk_specs (PDict d) =
     res_bind (get_items (PDict d) ''specs'') (\<lambda>specs.
     res_bind (res_map (with_file (param d ''file'' (PStr []))) specs) (\<lambda>own.
     res_bind (nested_suites d) (\<lambda>nested.
     res_bind (res_map walk_specs nested) (\<lambda>inner. Inr (own @ concat inner)))))"
| "walk_specs PNone = Inl attribute_error"
| "walk_specs (PBool b) = Inl attribute_error"
| "walk_specs (PInt i) = Inl attribute_error"
| "walk_specs (PFloat x) = Inl attribute_error"
| "walk_specs (PStr s) = Inl attribute_error"
| "walk_specs (PList xs) = Inl attribute_error"
  by pat_completeness auto
termination
  by (relation "measure size") (use nested_suites_size in auto)

definition report_specs :: "(string, pyval) dict \<Rightarrow> pyval list res" where
  "report_specs data =
     res_bind (get_items (PDict data) ''suites'') (\<lambda>suites.
     res_bind (res_map walk_specs suites) (\<lambda>ss. Inr (concat ss)))"

definition spec_id :: "(real \<Rightarrow> string) \<Rightarrow> pyval \<Rightarrow> string res" where
  "spec_id fr spec =
     res_bind (get_item spec ''file'' (PStr [])) (\<lambda>f.
     res_bind (get_item spec ''title'' (PStr [])) (\<lambda>t. Inr (py_str fr f @ '':'' @ py_str fr t)))"

definition test_results :: "pyval \<Rightarrow> pyval list res" where
  "test_results spec =
     res_bind (get_items spec ''tests'') (\<lambda>tests.
     res_bind (res_map (\<lambda>t. get_items t ''results'') tests) (\<lambda>rs. Inr (concat rs)))"

definition spec_statuses :: "pyval \<Rightarrow> pyval list res" where
  "spec_statuses spec =
     res_bind (test_results spec) (res_map (\<lambda>r. get_item r ''status'' PNone))"

fun first_screenshot_of :: "(real \<Rightarrow> string) \<Rightarrow> pyval list \<Rightarrow> string option res" where
  "first_screenshot_of fr [] = Inr None"
| "first_screenshot_of fr (att # atts) =
     res_bind (get_item att ''name'' PNone) (\<lambda>n.
     res_bind (if n = PStr ''screenshot'' then get_item att ''path'' PNone else Inr PNone) (\<lambda>p.
       if truthy p then Inr (Some (py_str fr p)) else first_screenshot_of fr atts))"

fun first_screenshot_in :: "(real \<Rightarrow> string) \<Rightarrow> pyval list \<Rightarrow> string option res" where
  "first_screenshot_in fr [] = Inr None"
| "first_screenshot_in fr (r # rs) =
     res_bind (get_items r ''attachments'') (\<lambda>atts.
     res_bind (first_screenshot_of fr atts) (\<lambda>p.
       case p of Some s \<Rightarrow> Inr (Some s) | None \<Rightarrow> first_screenshot_in fr rs))"

definition first_screenshot :: "(real \<Rightarrow> string) \<Rightarrow> pyval \<Rightarrow> string res" where
  "first_screenshot fr spec =
     res_bind (test_results spec) (\<lambda>rs.
     res_bind (first_screenshot_in fr rs) (\<lambda>p. Inr (case p of None \<Rightarrow> [] | Some s \<Rightarrow> s)))"

section \<open>Classifying the specs\<close>

definition fail_statuses :: "string list" where
  "fail_statuses = [''failed'', ''timedOut'', ''interrupted'']"

text \<open>\<open>any(s in _FAIL_STATUSES for s in statuses)\<close>: an unhashable status raises.\<close>

fun any_failed :: "pyval list \<Rightarrow> bool res" where
  "any_failed [] = Inr False"
| "any_failed (s # ss) =
     (case s of
        PStr t \<Rightarrow> (if t \<in> set fail_statuses then Inr True else any_failed ss)
      | PList xs \<Rightarrow> Inl (Exn ''TypeError'' ''unhashable type: list'')
      | PDict d \<Rightarrow> Inl (Exn ''TypeError'' ''unhashable type: dict'')
      | _ \<Rightarrow> any_failed ss)"

record suite_result =
  sr_passed :: "string list"
  sr_failed :: "string list"
  sr_all :: "string list"
  sr_screenshots :: "(string, string) dict"

definition empty_result :: suite_result where
  "empty_result = \<lparr>sr_passed = [], sr_failed = [], sr_all = [], sr_screenshots = []\<rparr>"

definition spec_failed :: "pyval \<Rightarrow> pyval list \<Rightarrow> bool res" where
  "spec_failed spec statuses =
     res_bind (get_item spec ''ok'' PNone) (\<lambda>ok. if ok = PBool False then Inr True else any_failed statuses)"

definition add_spec :: "(real \<Rightarrow> string) \<Rightarrow> pyval \<Rightarrow> suite_result \<Rightarrow> suite_result res" where
  "add_spec fr spec r =
     res_bind (spec_id fr spec) (\<lambda>sid.
     res_bind (spec_statuses spec) (\<lambda>statuses.
       if statuses \<noteq> [] \<and> list_all (\<lambda>s. s = PStr ''skipped'') statuses then Inr r
       else res_bind (spec_failed spec statuses) (\<lambda>failed.
         let r1 = r\<lparr>sr_all := sr_all r @ [sid]\<rparr> in
         if failed
         then res_bind (first_screenshot fr spec) (\<lambda>shot.
           Inr (r1\<lparr>sr_failed := sr_failed r1 @ [sid],
                  sr_screenshots := (if shot \<noteq> [] then dict_set sid shot (sr_screenshots r1) else sr_screenshots r1)\<rparr>))
         else Inr (r1\<lparr>sr_passed := sr_passed r1 @ [sid]\<rparr>))))"

fun add_specs :: "(real \<Rightarrow> string) \<Rightarrow> pyval list \<Rightarrow> suite_result \<Rightarrow> suite_result res" where
  "add_specs fr [] r = Inr r"
| "add_specs fr (s # ss) r = res_bind (add_spec fr s r) (add_specs fr ss)"

definition parse_report :: "(real \<Rightarrow> string) \<Rightarrow> (string, pyval) dict \<Rightarrow> suite_result res" where
  "parse_report fr data = res_bind (report_specs data) (\<lambda>specs. add_specs fr specs empty_result)"

definition list_journeys :: "(real \<Rightarrow> string) \<Rightarrow> (string, pyval) dict \<Rightarrow> string list res" where
  "list_journeys fr data =
     res_bind (report_specs data) (\<lambda>specs. res_bind (res_map (spec_id fr) specs) (\<lambda>ids. Inr (sorted_set ids)))"

section \<open>The command line\<close>

text \<open>\<open>re.escape\<close>.\<close>

definition regex_special :: "string" where
  "regex_special = ''()[]{}?*+-|^$.&~# '' @ map char_of [92, 9, 10, 13, 11, 12 :: nat]"

definition re_escape :: "string \<Rightarrow> string" where
  "re_escape s = concat (map (\<lambda>c. if c \<in> set regex_special then [char_of (92 :: nat), c] else [c]) s)"

text \<open>\<open>j.split(":", 1)[1]\<close> of the journeys that hold a colon.\<close>

definition journey_title :: "string \<Rightarrow> string option" where
  "journey_title j =
     (if CHR '':'' \<in> set j then Some (tl (dropWhile (\<lambda>c. c \<noteq> CHR '':'') j)) else None)"

definition derive_grep :: "string list \<Rightarrow> string option" where
  "derive_grep js =
     (let titles = List.map_filter journey_title js
      in if titles = [] then None else Some (join ''|'' (map re_escape titles)))"

definition config_journeys :: "(real \<Rightarrow> string) \<Rightarrow> (string, pyval) dict \<Rightarrow> string list res" where
  "config_journeys fr cfg =
     res_bind (py_iter (param cfg ''journeys'' (PList []))) (\<lambda>xs. Inr (map (py_str fr) xs))"

definition playwright_argv :: "(real \<Rightarrow> string) \<Rightarrow> (string, pyval) dict \<Rightarrow> int \<Rightarrow> string list res" where
  "playwright_argv fr cfg retries =
     res_bind (let g = param cfg ''grep'' PNone in
         if truthy g then Inr (Some (py_str fr g))
         else res_bind (config_journeys fr cfg) (\<lambda>js. Inr (derive_grep js))) (\<lambda>grep.
       Inr ([''npx'', ''playwright'', ''test'', ''--reporter=json'', ''--retries='' @ int_str retries] @
            (case grep of None \<Rightarrow> [] | Some g \<Rightarrow> [''--grep'', g])))"

text \<open>What the process boundary gives: is the path a directory, the working directory, and the
  process itself with its output text, error text and exit status.\<close>

record 'w playwright_io =
  pw_isdir :: "string \<Rightarrow> 'w \<Rightarrow> bool"
  pw_cwd :: "'w \<Rightarrow> string"
  pw_process :: "string list \<Rightarrow> string \<Rightarrow> string option \<Rightarrow> real \<Rightarrow> 'w \<Rightarrow> (string \<times> string \<times> int option) res \<times> 'w"
  pw_json :: "string \<Rightarrow> (string, pyval) dict res"
  pw_float :: "pyval \<Rightarrow> real res"
  pw_repr :: "real \<Rightarrow> string"

definition report_of ::
  "'w playwright_io \<Rightarrow> string \<times> string \<times> int option \<Rightarrow> (string, pyval) dict res" where
  "report_of io out =
     (case out of (text, err, code) \<Rightarrow>
       (if strip text = []
        then Inl (Exn ''RuntimeError''
          (''playwright produced no JSON (exit='' @ code_str code @ ''): '' @ take 500 err))
        else pw_json io (strip text)))"

definition exec_playwright ::
  "'w playwright_io \<Rightarrow> (string, pyval) dict \<Rightarrow> 'w \<Rightarrow> (string, pyval) dict res \<times> 'w" where
  "exec_playwright io cfg w =
     (let path = py_str (pw_repr io) (param cfg ''suite_path'' (PStr ''.'')) in
      if \<not> pw_isdir io path w
      then (Inl (Exn ''RuntimeError''
        (''playwright suite_path '' @ repr_str path @ '' does not exist (cwd='' @ repr_str (pw_cwd io w) @
         ''). Set oracle_config.suite_path to your Playwright project directory.'')), w)
      else case res_bind (int_param cfg ''retries'' 2) (\<lambda>n.
             res_bind (pw_float io (param cfg ''timeout_s'' (PFloat 600))) (\<lambda>t.
             res_bind (playwright_argv (pw_repr io) cfg n) (\<lambda>argv. Inr (argv, t)))) of
        Inl x \<Rightarrow> (Inl x, w)
      | Inr (argv, t) \<Rightarrow>
          (let base = param cfg ''base_url'' PNone in
           case pw_process io argv path (if truthy base then Some (py_str (pw_repr io) base) else None) t w of
             (r, w') \<Rightarrow> (res_bind r (report_of io), w')))"

definition without :: "string set \<Rightarrow> suite_result \<Rightarrow> suite_result" where
  "without q r =
     r\<lparr>sr_passed := filter (\<lambda>s. s \<notin> q) (sr_passed r), sr_failed := filter (\<lambda>s. s \<notin> q) (sr_failed r),
       sr_all := filter (\<lambda>s. s \<notin> q) (sr_all r)\<rparr>"

definition run_playwright ::
  "'w playwright_io \<Rightarrow> (string, pyval) dict \<Rightarrow> 'w \<Rightarrow> suite_result res \<times> 'w" where
  "run_playwright io cfg w =
     (if truthy (param cfg ''_dry_run'' PNone)
      then (res_bind (config_journeys (pw_repr io) cfg) (\<lambda>js. Inr (empty_result\<lparr>sr_passed := js, sr_all := js\<rparr>)), w)
      else case exec_playwright io cfg w of
        (r, w') \<Rightarrow>
          (res_bind r (\<lambda>data.
           res_bind (parse_report (pw_repr io) data) (\<lambda>res.
           res_bind (py_iter (param cfg ''quarantine'' (PList []))) (\<lambda>qs.
             Inr (without (set (map (py_str (pw_repr io)) qs)) res)))), w'))"

section \<open>The double baseline\<close>

text \<open>The scratch: the journeys green, red and seen at the clean baseline.\<close>

record playwright_scratch =
  pz_pass :: "string list"
  pz_failed :: "string list"
  pz_all :: "string list"

definition playwright_capture ::
  "'w playwright_io \<Rightarrow> (string, pyval) dict \<Rightarrow> (playwright_scratch, 'w) oracle_env \<Rightarrow>
    statistical_sample list res \<times> (playwright_scratch, 'w) oracle_env" where
  "playwright_capture io cfg e =
     (case run_playwright io cfg (oe_world e) of
        (Inl x, w) \<Rightarrow> (Inl x, e\<lparr>oe_world := w\<rparr>)
      | (Inr r, w) \<Rightarrow>
          (Inr [], e\<lparr>oe_world := w,
             oe_scratch := \<lparr>pz_pass = sr_passed r, pz_failed = sr_failed r, pz_all = sr_all r\<rparr>\<rparr>))"

definition playwright_verdict :: "string list \<Rightarrow> suite_result \<Rightarrow> verify_result" where
  "playwright_verdict green r =
     (let newly = sorted_set (filter (\<lambda>s. s \<in> set (sr_failed r)) green);
          passing = PList (map PStr (sorted_set green))
      in if newly = []
         then \<lparr>vr_passed = True, vr_summary = ''all baseline-green journeys survived the fault'',
               vr_failures = [],
               vr_evidence = [(''newly_failing'', PList []), (''baseline_passing'', passing)], vr_metrics = []\<rparr>
         else \<lparr>vr_passed = False, vr_summary = nat_str (length newly) @ '' journey(s) regressed under fault'',
               vr_failures = map (\<lambda>sid. \<lparr>vf_assertion = sid, vf_expected = ''pass under fault'',
                 vf_actual = ''fail'', vf_severity = SEV_HIGH,
                 vf_evidence = [(''screenshot'', PStr (case dict_get (sr_screenshots r) sid of
                   None \<Rightarrow> [] | Some p \<Rightarrow> p))]\<rparr>) newly,
               vr_evidence = [(''newly_failing'', PList (map PStr newly)), (''baseline_passing'', passing)],
               vr_metrics = []\<rparr>)"

definition broken_suite_verdict :: "string list \<Rightarrow> string list \<Rightarrow> verify_result" where
  "broken_suite_verdict red green =
     \<lparr>vr_passed = True,
      vr_summary = ''baseline already failing for all asserted journeys '' @
        ''(broken suite, not a resilience regression)'',
      vr_failures = [],
      vr_evidence = [(''baseline_unassessable'', PBool True),
        (''baseline_failed'', PList (map PStr (sorted_set red))),
        (''baseline_passing'', PList (map PStr (sorted_set green))), (''newly_failing'', PList [])],
      vr_metrics = []\<rparr>"

definition playwright_verify ::
  "'w playwright_io \<Rightarrow> (string, pyval) dict \<Rightarrow> (playwright_scratch, 'w) oracle_env \<Rightarrow>
    verify_result res \<times> (playwright_scratch, 'w) oracle_env" where
  "playwright_verify io cfg e =
     (case config_journeys (pw_repr io) cfg of
        Inl x \<Rightarrow> (Inl x, e)
      | Inr asserted \<Rightarrow>
          (let green = pz_pass (oe_scratch e);
               red = filter (\<lambda>j. j \<in> set (pz_failed (oe_scratch e))) asserted
           in if asserted \<noteq> [] \<and> set asserted \<inter> set green = {} \<and> red \<noteq> []
              then (Inr (broken_suite_verdict red green), e)
              else case run_playwright io cfg (oe_world e) of
                (Inl x, w) \<Rightarrow> (Inl x, e\<lparr>oe_world := w\<rparr>)
              | (Inr r, w) \<Rightarrow> (Inr (playwright_verdict green r), e\<lparr>oe_world := w\<rparr>)))"

definition playwright_oracle where
  "playwright_oracle io cfg =
     oracle_plugin ''regression-playwright'' (playwright_capture io cfg) (playwright_verify io cfg)"

section \<open>The contract holds\<close>

lemma map_str_PStr [simp]: "map (py_str fr \<circ> PStr) xs = xs"
  by (induction xs) simp_all

lemma sorted_set_eq_Nil [simp]: "sorted_set xs = [] \<longleftrightarrow> xs = []"
  by (metis set_empty set_sorted_set)

lemma sorted_set_Nil [simp]: "sorted_set [] = []"
  by simp

lemma playwright_verdict_fields:
  "verdict_names (playwright_verdict g r) = Inr (sorted_set (filter (\<lambda>s. s \<in> set (sr_failed r)) g))"
  "vr_passed (playwright_verdict g r) \<longleftrightarrow> sorted_set (filter (\<lambda>s. s \<in> set (sr_failed r)) g) = []"
  "map vf_assertion (vr_failures (playwright_verdict g r)) = sorted_set (filter (\<lambda>s. s \<in> set (sr_failed r)) g)"
  "\<not> flagged (playwright_verdict g r)"
  by (simp_all add: playwright_verdict_def verdict_evidence_simps Let_def comp_def)

lemma broken_suite_fields:
  "verdict_names (broken_suite_verdict red g) = Inr []"
  "vr_passed (broken_suite_verdict red g)"
  "vr_failures (broken_suite_verdict red g) = []"
  "flagged (broken_suite_verdict red g)"
  by (simp_all add: broken_suite_verdict_def verdict_evidence_simps)

lemma playwright_verify_Inr:
  assumes "playwright_verify io cfg e = (Inr v, e')"
  obtains (broken) red where "v = broken_suite_verdict red (pz_pass (oe_scratch e))"
  | (compared) r w where "run_playwright io cfg (oe_world e) = (Inr r, w)"
      "v = playwright_verdict (pz_pass (oe_scratch e)) r"
  using assms by (auto simp: playwright_verify_def Let_def split: sum.splits prod.splits if_splits)

interpretation playwright: oracle_contract "playwright_verify io cfg" "\<lambda>e. set (pz_pass (oe_scratch e))"
  for io cfg
proof
  fix e v e'
  assume v: "playwright_verify io cfg e = (Inr v, e')"
  then show "\<exists>ns. verdict_names v = Inr ns \<and> set ns \<subseteq> set (pz_pass (oe_scratch e)) \<and>
      (vr_passed v \<longleftrightarrow> ns = []) \<and> map vf_assertion (vr_failures v) = ns"
  proof (cases rule: playwright_verify_Inr)
    case (broken red)
    then show ?thesis by (simp add: broken_suite_fields)
  next
    case (compared r w)
    then show ?thesis by (auto simp: playwright_verdict_fields)
  qed
  show "vr_passed v" if "flagged v"
    using v
  proof (cases rule: playwright_verify_Inr)
    case (broken red)
    then show ?thesis by (simp add: broken_suite_fields)
  next
    case (compared r w)
    with that show ?thesis by (simp add: playwright_verdict_fields)
  qed
qed

text \<open>The parser sorts every spec that is not merely skipped into exactly one of the two sets.\<close>

lemma add_spec_partition:
  "add_spec fr s r = Inr r' \<Longrightarrow> mset (sr_all r) = mset (sr_passed r) + mset (sr_failed r) \<Longrightarrow>
     mset (sr_all r') = mset (sr_passed r') + mset (sr_failed r')"
  by (auto simp: add_spec_def res_bind_Inr_iff Let_def split: if_splits)

lemma add_specs_partition:
  "add_specs fr ss r = Inr r' \<Longrightarrow> mset (sr_all r) = mset (sr_passed r) + mset (sr_failed r) \<Longrightarrow>
     mset (sr_all r') = mset (sr_passed r') + mset (sr_failed r')"
  by (induction ss arbitrary: r) (auto simp: res_bind_Inr_iff dest: add_spec_partition)

section \<open>Whole sessions\<close>

text \<open>C40: The Playwright oracle is a double baseline. If a session captures the baseline and later,
  whatever happened to the world in between, asks for the verdict, then either every journey the
  scenario asserts was red or unknown at the clean baseline and one was red (the verdict passes and is
  marked as not assessable), or the journeys reported as newly failing are exactly those that passed
  in the clean run and failed in the run under fault, and the verdict fails exactly when there is one.\<close>

theorem playwright_double_baseline:
  assumes "capture_baseline now (playwright_oracle io cfg) s0 e0 = (Inr b, s1, e1)"
    and "oe_scratch e2 = oe_scratch e1"
    and "session_verify now (playwright_oracle io cfg) s2 e2 = (Inr vo, s3, e3)"
  shows "\<exists>r0 w0 v js. run_playwright io cfg (oe_world e0) = (Inr r0, w0) \<and> vo = Some v \<and>
    config_journeys (pw_repr io) cfg = Inr js \<and>
    (if js \<noteq> [] \<and> set js \<inter> set (sr_passed r0) = {} \<and> set js \<inter> set (sr_failed r0) \<noteq> {}
     then flagged v \<and> vr_passed v \<and> verdict_names v = Inr []
     else \<exists>r w. run_playwright io cfg (oe_world e2) = (Inr r, w) \<and> \<not> flagged v \<and>
       verdict_names v = Inr (sorted_set (filter (\<lambda>j. j \<in> set (sr_failed r)) (sr_passed r0))) \<and>
       (vr_passed v \<longleftrightarrow> set (sr_passed r0) \<inter> set (sr_failed r) = {}))"
proof -
  obtain e0' where cap: "playwright_capture io cfg e0 = (Inr b, e0')" "e1 = e0'\<lparr>oe_baseline := b\<rparr>"
    using assms(1) unfolding playwright_oracle_def oracle_capture by blast
  obtain r0 w0 where r0: "run_playwright io cfg (oe_world e0) = (Inr r0, w0)"
      "oe_scratch e0' = \<lparr>pz_pass = sr_passed r0, pz_failed = sr_failed r0, pz_all = sr_all r0\<rparr>"
    using cap(1) by (auto simp: playwright_capture_def split: prod.splits sum.splits)
  have sc: "oe_scratch e2 = \<lparr>pz_pass = sr_passed r0, pz_failed = sr_failed r0, pz_all = sr_all r0\<rparr>"
    using assms(2) cap(2) r0(2) by simp
  obtain v where v: "playwright_verify io cfg e2 = (Inr v, e3)" "vo = Some v"
    using assms(3) unfolding playwright_oracle_def oracle_verify by blast
  obtain js where js: "config_journeys (pw_repr io) cfg = Inr js"
    using v(1) by (auto simp: playwright_verify_def split: sum.splits)
  define red where "red = filter (\<lambda>j. j \<in> set (sr_failed r0)) js"
  have red: "red \<noteq> [] \<longleftrightarrow> set js \<inter> set (sr_failed r0) \<noteq> {}" by (auto simp: red_def filter_empty_conv)
  have names: "filter (\<lambda>j. j \<in> set (sr_failed r)) g = [] \<longleftrightarrow> set g \<inter> set (sr_failed r) = {}" for r g
    by (auto simp: filter_empty_conv)
  show ?thesis
  proof (cases "js \<noteq> [] \<and> set js \<inter> set (sr_passed r0) = {} \<and> set js \<inter> set (sr_failed r0) \<noteq> {}")
    case True
    then have "v = broken_suite_verdict red (sr_passed r0)"
      using v(1) js red by (auto simp: playwright_verify_def sc red_def Let_def split: if_splits)
    with True r0(1) v(2) js show ?thesis by (simp add: broken_suite_fields)
  next
    case False
    obtain r w where r: "run_playwright io cfg (oe_world e2) = (Inr r, w)" "v = playwright_verdict (sr_passed r0) r"
      using v(1) js red False
      by (auto simp: playwright_verify_def sc red_def Let_def split: if_splits sum.splits prod.splits)
    with False r0(1) v(2) js show ?thesis by (simp add: playwright_verdict_fields names)
  qed
qed

text \<open>A world that holds the report of the next run.\<close>

definition report_io :: "(string, pyval) dict playwright_io" where
  "report_io =
     \<lparr>pw_isdir = (\<lambda>p w. True), pw_cwd = (\<lambda>w. ''/''),
      pw_process = (\<lambda>argv p base t w. (Inr (''{}'', [], Some 0), w)), pw_json = (\<lambda>t. Inr []),
      pw_float = (\<lambda>v. Inr 600), pw_repr = (\<lambda>x. [])\<rparr>"

definition dry_config :: "(string, pyval) dict" where
  "dry_config = [(''_dry_run'', PBool True), (''journeys'', PList [PStr ''a.spec:login''])]"

definition fresh_env :: "(playwright_scratch, (string, pyval) dict) oracle_env" where
  "fresh_env = \<lparr>oe_scratch = \<lparr>pz_pass = [], pz_failed = [], pz_all = []\<rparr>, oe_baseline = [], oe_world = []\<rparr>"

lemma dry_run:
  "run_playwright report_io dry_config w =
     (Inr (empty_result\<lparr>sr_passed := [''a.spec:login''], sr_all := [''a.spec:login'']\<rparr>), w)"
  by (simp add: run_playwright_def dry_config_def param_def dict_get_Cons config_journeys_def)

definition dry_result :: suite_result where
  "dry_result = empty_result\<lparr>sr_passed := [''a.spec:login''], sr_all := [''a.spec:login'']\<rparr>"

definition dry_env :: "(playwright_scratch, (string, pyval) dict) oracle_env" where
  "dry_env =
     \<lparr>oe_scratch = \<lparr>pz_pass = [''a.spec:login''], pz_failed = [], pz_all = [''a.spec:login'']\<rparr>,
      oe_baseline = [], oe_world = []\<rparr>"

lemma dry_capture:
  "capture_baseline (\<lambda>_. 0) (playwright_oracle report_io dry_config) new_session fresh_env =
     (Inr [], add_record (invoke_record H_capture_baseline (Inr (HV_samples [])) 0 0) new_session, dry_env)"
  unfolding playwright_oracle_def oracle_capture
  by (simp add: playwright_capture_def dry_run fresh_env_def empty_result_def dry_env_def)

lemma dry_journeys: "config_journeys (pw_repr report_io) dry_config = Inr [''a.spec:login'']"
  by (simp add: config_journeys_def dry_config_def param_def dict_get_Cons)

lemma dry_verify:
  "session_verify (\<lambda>_. 0) (playwright_oracle report_io dry_config) new_session dry_env =
     (Inr (Some (playwright_verdict [''a.spec:login''] dry_result)),
      (add_record (invoke_record H_verify (Inr (HV_verdict (playwright_verdict [''a.spec:login''] dry_result))) 0 0)
        new_session)\<lparr>ps_verify_result := Some (playwright_verdict [''a.spec:login''] dry_result)\<rparr>, dry_env)"
  unfolding playwright_oracle_def oracle_verify
  by (simp add: playwright_verify_def dry_journeys dry_run dry_env_def dry_result_def)

lemma playwright_double_baseline_witness:
  "vr_passed (playwright_verdict [''a.spec:login''] dry_result)"
  using playwright_double_baseline [OF dry_capture refl dry_verify]
  by (auto simp: dry_run dry_journeys empty_result_def dry_env_def fresh_env_def)

text \<open>A journey that the report holds twice with different results is a false regression. The
  oracle identifies a journey by file and title only; if one run reports such a journey both as
  passed and as failed, then even a run under fault with exactly the same results as the clean run
  fails the verdict and names that journey, although it was red at the baseline already.\<close>

theorem duplicate_journey_false_regression:
  assumes "j \<in> set (sr_passed r)" "j \<in> set (sr_failed r)"
  shows "\<not> vr_passed (playwright_verdict (sr_passed r) r) \<and>
    (\<exists>ns. verdict_names (playwright_verdict (sr_passed r) r) = Inr ns \<and> j \<in> set ns)"
proof -
  have "j \<in> set (sorted_set (filter (\<lambda>s. s \<in> set (sr_failed r)) (sr_passed r)))" using assms by simp
  then show ?thesis unfolding playwright_verdict_fields by (metis empty_iff empty_set)
qed

definition twice_reported :: "(string, pyval) dict" where
  "twice_reported =
     [(''suites'', PList [PDict [(''file'', PStr ''a.spec''),
        (''specs'', PList [PDict [(''title'', PStr ''login''), (''ok'', PBool True)],
                           PDict [(''title'', PStr ''login''), (''ok'', PBool False)]])]])]"

lemma twice_parsed:
  "parse_report (\<lambda>_. []) twice_reported =
     Inr \<lparr>sr_passed = [''a.spec:login''], sr_failed = [''a.spec:login''],
          sr_all = [''a.spec:login'', ''a.spec:login''], sr_screenshots = []\<rparr>"
  by (simp add: parse_report_def report_specs_def twice_reported_def get_items_def get_item_def param_def
      dict_get_Cons nested_suites_def with_file_def dict_has_def add_spec_def spec_id_def
      spec_statuses_def test_results_def spec_failed_def first_screenshot_def empty_result_def Let_def)

lemma duplicate_journey_false_regression_witness:
  "case parse_report (\<lambda>_. []) twice_reported of
     Inr r \<Rightarrow> \<not> vr_passed (playwright_verdict (sr_passed r) r) | Inl x \<Rightarrow> False"
  using duplicate_journey_false_regression [where j = "''a.spec:login''" and
      r = "\<lparr>sr_passed = [''a.spec:login''], sr_failed = [''a.spec:login''],
          sr_all = [''a.spec:login'', ''a.spec:login''], sr_screenshots = []\<rparr>"]
  by (simp add: twice_parsed)

end
