(* ===== verification/Fixer_Policy.thy ===== *)
theory Fixer_Policy
  imports Contracts
begin

text \<open>
  The fixer's deterministic policy, \<open>agents/fixer/policy.py\<close>: which action a diagnosis calls for,
  which paths a proposal may not touch, and who owns a path.

  A glob is translated by the code to a regular expression (\<open>**\<close> to \<open>.*\<close>, \<open>*\<close> to \<open>[^/]*\<close>,
  \<open>?\<close> to \<open>.\<close>) and matched in full; the model keeps the translation as a list of tokens. A dot of
  Python's \<open>re\<close> does not match a newline, a negated class does.
\<close>

section \<open>Decision tree\<close>

definition default_min_confidence :: real where "default_min_confidence = 1 / 2"

definition decide_action :: "string \<Rightarrow> real \<Rightarrow> real \<Rightarrow> fix_action" where
  "decide_action fix_class confidence min_confidence =
     (if confidence < min_confidence then FA_NONE
      else if fix_class = ''working-as-intended'' then FA_DOC_ONLY
      else if fix_class \<in> {''config-change'', ''image-policy''} then FA_CONFIG_CHANGE
      else if fix_class \<in> {''code-patch'', ''missing-retry'', ''missing-timeout'', ''missing-circuit-breaker'',
                ''missing-fallback'', ''auth-control-gap'', ''secret-handling'', ''test-gap''}
      then FA_CODE_PATCH
      else FA_NONE)"

section \<open>Globs\<close>

datatype path_token = P_lit char | P_all | P_seg | P_one

definition slash :: char where "slash = CHR ''/''"

fun path_tokens :: "string \<Rightarrow> path_token list" where
  "path_tokens [] = []"
| "path_tokens [c] = [if c = CHR ''*'' then P_seg else if c = CHR ''?'' then P_one else P_lit c]"
| "path_tokens (c # d # cs) =
     (if c = CHR ''*'' \<and> d = CHR ''*'' then P_all # path_tokens cs
      else if c = CHR ''*'' then P_seg # path_tokens (d # cs)
      else if c = CHR ''?'' then P_one # path_tokens (d # cs)
      else P_lit c # path_tokens (d # cs))"

fun path_match :: "path_token list \<Rightarrow> string \<Rightarrow> bool" where
  "path_match [] s = (s = [])"
| "path_match (P_all # ts) [] = path_match ts []"
| "path_match (P_all # ts) (c # cs) =
     (path_match ts (c # cs) \<or> (c \<noteq> newline \<and> path_match (P_all # ts) cs))"
| "path_match (P_seg # ts) [] = path_match ts []"
| "path_match (P_seg # ts) (c # cs) =
     (path_match ts (c # cs) \<or> (c \<noteq> slash \<and> path_match (P_seg # ts) cs))"
| "path_match (P_one # ts) [] = False"
| "path_match (P_one # ts) (c # cs) = (c \<noteq> newline \<and> path_match ts cs)"
| "path_match (P_lit d # ts) [] = False"
| "path_match (P_lit d # ts) (c # cs) = (c = d \<and> path_match ts cs)"

definition path_glob_match :: "string \<Rightarrow> string \<Rightarrow> bool" where
  "path_glob_match pat path = path_match (path_tokens pat) path"

definition normalize_path :: "string \<Rightarrow> string" where
  "normalize_path path =
     (let norm = replace_char (CHR 0x5C) [slash] path
      in if prefix ''./'' norm then drop 2 norm else norm)"

section \<open>Path denylist\<close>

definition default_denylist :: "string list" where
  "default_denylist =
     [''.github/**'', ''.gitlab-ci.yml'', ''.gitlab/**'', ''infra/**'', ''secrets/**'', ''**/secrets.yaml'',
      ''**/secrets.yml'', ''**/credentials.json'', ''**/*.pem'', ''**/*.key'', ''Makefile.deploy'']"

definition is_denied :: "string list \<Rightarrow> string \<Rightarrow> bool" where
  "is_denied patterns path = list_ex (\<lambda>pat. path_glob_match pat (normalize_path path)) patterns"

definition denial_reason :: "string list \<Rightarrow> string \<Rightarrow> string option" where
  "denial_reason patterns p =
     map_option (\<lambda>pat. p @ '' matches '' @ pat)
       (find (\<lambda>pat. path_glob_match pat (normalize_path p)) patterns)"

definition denial_reasons :: "string list \<Rightarrow> string list \<Rightarrow> string list" where
  "denial_reasons patterns paths = List.map_filter (denial_reason patterns) paths"

section \<open>CODEOWNERS\<close>

record codeowners_rule =
  cw_pattern :: string
  cw_owners :: "string list"

definition parse_rule :: "string \<Rightarrow> codeowners_rule option" where
  "parse_rule raw =
     (let parts = split_ws (strip (takeWhile (\<lambda>c. c \<noteq> CHR ''#'') raw))
      in case parts of
        pat # owner # owners \<Rightarrow> Some \<lparr>cw_pattern = pat, cw_owners = owner # owners\<rparr>
      | _ \<Rightarrow> None)"

definition parse_codeowners :: "string \<Rightarrow> codeowners_rule list" where
  "parse_codeowners t = List.map_filter parse_rule (splitlines t)"

text \<open>\<open>read\<close> gives the text of a file of the repository, if it is one.\<close>

fun first_file :: "(string \<Rightarrow> string option) \<Rightarrow> string list \<Rightarrow> codeowners_rule list" where
  "first_file read [] = []"
| "first_file read (f # fs) =
     (case read f of Some t \<Rightarrow> parse_codeowners t | None \<Rightarrow> first_file read fs)"

definition codeowners_from_repo :: "(string \<Rightarrow> string option) \<Rightarrow> codeowners_rule list" where
  "codeowners_from_repo read = first_file read [''.github/CODEOWNERS'', ''CODEOWNERS'', ''docs/CODEOWNERS'']"

definition codeowners_glob :: "string \<Rightarrow> string" where
  "codeowners_glob pattern =
     (let p1 = (if prefix [slash] pattern then tl pattern else pattern);
          p2 = (if suffix [slash] p1 then p1 @ ''**'' else p1)
      in if slash \<in> set p2 then p2 else ''**/'' @ p2)"

definition rule_owns :: "string \<Rightarrow> codeowners_rule \<Rightarrow> bool" where
  "rule_owns path r =
     (path_glob_match (codeowners_glob (cw_pattern r)) path \<or>
      path_glob_match (codeowners_glob (cw_pattern r)) (slash # path))"

definition owners_for :: "codeowners_rule list \<Rightarrow> string \<Rightarrow> string list" where
  "owners_for rules path =
     foldl (\<lambda>matched r. if rule_owns (normalize_path path) r then cw_owners r else matched) [] rules"

definition is_owned_by :: "codeowners_rule list \<Rightarrow> string \<Rightarrow> string \<Rightarrow> bool" where
  "is_owned_by rules path owner \<longleftrightarrow> owner \<in> set (owners_for rules path)"

section \<open>What globs match\<close>

fun lits :: "string \<Rightarrow> path_token list" where
  "lits [] = []"
| "lits (c # cs) = P_lit c # lits cs"

lemma match_lits: "path_match (lits p @ ts) s \<longleftrightarrow> (\<exists>rest. s = p @ rest \<and> path_match ts rest)"
proof (induction p arbitrary: s)
  case (Cons c cs)
  then show ?case by (cases s) auto
qed auto

lemma match_lits_end: "path_match (lits p) s \<longleftrightarrow> s = p"
  using match_lits [of p "[]" s] by simp

lemma match_all: "path_match (P_all # ts) s \<longleftrightarrow> (\<exists>u v. s = u @ v \<and> newline \<notin> set u \<and> path_match ts v)"
proof (induction s)
  case (Cons c cs)
  show ?case
  proof
    assume "path_match (P_all # ts) (c # cs)"
    then consider "path_match ts (c # cs)" | "c \<noteq> newline" "path_match (P_all # ts) cs" by auto
    then show "\<exists>u v. c # cs = u @ v \<and> newline \<notin> set u \<and> path_match ts v"
    proof cases
      case 1
      then show ?thesis by (intro exI [of _ "[]"] exI [of _ "c # cs"]) simp
    next
      case 2
      then obtain u v where "cs = u @ v" "newline \<notin> set u" "path_match ts v" using Cons.IH by blast
      with 2(1) show ?thesis by (metis append_Cons set_ConsD)
    qed
  next
    assume "\<exists>u v. c # cs = u @ v \<and> newline \<notin> set u \<and> path_match ts v"
    then obtain u v where uv: "c # cs = u @ v" "newline \<notin> set u" "path_match ts v" by blast
    then show "path_match (P_all # ts) (c # cs)" using Cons.IH by (cases u) auto
  qed
qed auto

lemma match_seg: "path_match (P_seg # ts) s \<longleftrightarrow> (\<exists>u v. s = u @ v \<and> slash \<notin> set u \<and> path_match ts v)"
proof (induction s)
  case (Cons c cs)
  show ?case
  proof
    assume "path_match (P_seg # ts) (c # cs)"
    then consider "path_match ts (c # cs)" | "c \<noteq> slash" "path_match (P_seg # ts) cs" by auto
    then show "\<exists>u v. c # cs = u @ v \<and> slash \<notin> set u \<and> path_match ts v"
    proof cases
      case 1
      then show ?thesis by (intro exI [of _ "[]"] exI [of _ "c # cs"]) simp
    next
      case 2
      then obtain u v where "cs = u @ v" "slash \<notin> set u" "path_match ts v" using Cons.IH by blast
      with 2(1) show ?thesis by (metis append_Cons set_ConsD)
    qed
  next
    assume "\<exists>u v. c # cs = u @ v \<and> slash \<notin> set u \<and> path_match ts v"
    then obtain u v where uv: "c # cs = u @ v" "slash \<notin> set u" "path_match ts v" by blast
    then show "path_match (P_seg # ts) (c # cs)" using Cons.IH by (cases u) auto
  qed
qed auto

lemma path_tokens_plain:
  "CHR ''*'' \<notin> set p \<Longrightarrow> CHR ''?'' \<notin> set p \<Longrightarrow> path_tokens (p @ q) = lits p @ path_tokens q"
proof (induction p)
  case (Cons c cs)
  then show ?case by (cases "cs @ q") auto
qed simp

lemma plain_glob: "CHR ''*'' \<notin> set p \<Longrightarrow> CHR ''?'' \<notin> set p \<Longrightarrow> path_glob_match p s \<longleftrightarrow> s = p"
  using path_tokens_plain [of p "[]"] by (simp add: path_glob_match_def match_lits_end)

lemma under_glob:
  assumes "CHR ''*'' \<notin> set d" "CHR ''?'' \<notin> set d"
  shows "path_glob_match (d @ ''/**'') s \<longleftrightarrow> (\<exists>rest. s = d @ ''/'' @ rest \<and> newline \<notin> set rest)"
proof -
  have "path_tokens (d @ ''/**'') = lits (d @ ''/'') @ [P_all]"
    using path_tokens_plain [of "d @ ''/''" "''**''"] assms by simp
  then show ?thesis by (simp add: path_glob_match_def match_lits match_all)
qed

lemma anywhere_glob:
  assumes "CHR ''*'' \<notin> set f" "CHR ''?'' \<notin> set f"
  shows "path_glob_match (''**/'' @ f) s \<longleftrightarrow> (\<exists>dir. s = dir @ ''/'' @ f \<and> newline \<notin> set dir)"
proof -
  have "path_tokens (''**/'' @ f) = P_all # lits (''/'' @ f)"
    using path_tokens_plain [of "''/'' @ f" "[]"] assms by simp
  then show ?thesis by (auto simp: path_glob_match_def match_all match_lits_end simp del: lits.simps)
qed

lemma anywhere_suffix_glob:
  assumes "CHR ''*'' \<notin> set e" "CHR ''?'' \<notin> set e" "e \<noteq> []"
  shows "path_glob_match (''**/*'' @ e) s \<longleftrightarrow>
    (\<exists>dir base. s = dir @ ''/'' @ base @ e \<and> newline \<notin> set dir \<and> slash \<notin> set base)"
proof -
  have star: "path_tokens (CHR ''*'' # e) = P_seg # lits e"
    using assms path_tokens_plain [of e "[]"] by (cases e) auto
  have "path_tokens (''**/*'' @ e) = P_all # lits ''/'' @ P_seg # lits e"
    using star by simp
  then show ?thesis
    by (simp add: path_glob_match_def match_all match_lits match_seg match_lits_end del: lits.simps) blast
qed

section \<open>The default denylist, spelled out\<close>

definition denied_directory :: "string \<Rightarrow> bool" where
  "denied_directory n \<longleftrightarrow>
     (\<exists>d \<in> {''.github'', ''.gitlab'', ''infra'', ''secrets''}. \<exists>rest. n = d @ ''/'' @ rest \<and> newline \<notin> set rest)"

definition denied_name :: "string \<Rightarrow> bool" where
  "denied_name n \<longleftrightarrow>
     (\<exists>f \<in> {''secrets.yaml'', ''secrets.yml'', ''credentials.json''}. \<exists>dir. n = dir @ ''/'' @ f \<and> newline \<notin> set dir)"

definition denied_extension :: "string \<Rightarrow> bool" where
  "denied_extension n \<longleftrightarrow>
     (\<exists>e \<in> {''.pem'', ''.key''}. \<exists>dir base. n = dir @ ''/'' @ base @ e \<and> newline \<notin> set dir \<and> slash \<notin> set base)"

lemma denied_list:
  "list_ex (\<lambda>pat. path_glob_match pat n) default_denylist \<longleftrightarrow>
    n \<in> {''.gitlab-ci.yml'', ''Makefile.deploy''} \<or> denied_directory n \<or> denied_name n \<or> denied_extension n"
  using under_glob [of "''.github''" n] under_glob [of "''.gitlab''" n] under_glob [of "''infra''" n]
    under_glob [of "''secrets''" n] anywhere_glob [of "''secrets.yaml''" n] anywhere_glob [of "''secrets.yml''" n]
    anywhere_glob [of "''credentials.json''" n] anywhere_suffix_glob [of "''.pem''" n]
    anywhere_suffix_glob [of "''.key''" n] plain_glob [of "''.gitlab-ci.yml''" n] plain_glob [of "''Makefile.deploy''" n]
  by (simp add: default_denylist_def denied_directory_def denied_name_def denied_extension_def) blast

text \<open>C36: The default denylist refuses, after normalising the path, exactly these: the two named files at the root,
  everything below the four protected directories at the root, the three secret files and the files with the two key
  extensions anywhere below a directory. (What a \<open>**\<close> stands for does not contain a line break; a secret file at the
  root is not refused, see \<open>root_secrets_pass_denylist\<close>.)\<close>

theorem default_denylist_exact:
  "is_denied default_denylist p \<longleftrightarrow>
    normalize_path p \<in> {''.gitlab-ci.yml'', ''Makefile.deploy''} \<or> denied_directory (normalize_path p) \<or>
    denied_name (normalize_path p) \<or> denied_extension (normalize_path p)"
  by (simp only: is_denied_def denied_list)

lemma slash_free_parts:
  assumes "slash \<notin> set n"
  shows "\<not> denied_directory n \<and> \<not> denied_name n \<and> \<not> denied_extension n"
  using assms by (auto simp: denied_directory_def denied_name_def denied_extension_def slash_def)

lemma normalize_plain: "slash \<notin> set p \<Longrightarrow> CHR 0x5C \<notin> set p \<Longrightarrow> normalize_path p = p"
proof -
  assume a: "slash \<notin> set p" "CHR 0x5C \<notin> set p"
  then have "replace_char (CHR 0x5C) [slash] p = p"
    by (induction p) (auto simp: replace_char_def)
  moreover have "\<not> prefix ''./'' p" using a(1) by (auto simp: prefix_def slash_def)
  ultimately show ?thesis by (simp add: normalize_path_def)
qed

text \<open>The patterns meant for secret files anywhere in the tree demand a slash, so at the repository
  root none of them applies: a root-level \<open>secrets.yaml\<close>, \<open>credentials.json\<close> or private key passes the
  denylist, which refuses only the two files it names at the root.\<close>

theorem root_secrets_pass_denylist:
  assumes "slash \<notin> set p" "CHR 0x5C \<notin> set p"
  shows "is_denied default_denylist p \<longleftrightarrow> p \<in> {''.gitlab-ci.yml'', ''Makefile.deploy''}"
  using slash_free_parts [OF assms(1)] by (simp only: is_denied_def denied_list normalize_plain [OF assms]) simp

lemma root_secrets_pass_denylist_witness:
  "\<not> is_denied default_denylist ''secrets.yaml'' \<and> \<not> is_denied default_denylist ''server.pem''"
  using root_secrets_pass_denylist [of "''secrets.yaml''"] root_secrets_pass_denylist [of "''server.pem''"]
  by (simp add: slash_def)

section \<open>Denial reasons and owners\<close>

lemma find_None_list_ex: "find P xs = None \<longleftrightarrow> \<not> list_ex P xs"
  by (induction xs) auto

lemma denial_reasons_Nil_iff: "denial_reasons pats paths = [] \<longleftrightarrow> list_all (\<lambda>p. \<not> is_denied pats p) paths"
proof -
  have d: "denial_reason pats p = None \<longleftrightarrow> \<not> is_denied pats p" for p
    by (simp add: denial_reason_def is_denied_def find_None_list_ex)
  show ?thesis
    unfolding denial_reasons_def
    by (induction paths) (auto simp: List.map_filter_simps d [symmetric] split: option.splits)
qed

lemma owners_foldl:
  "foldl (\<lambda>m r. if P r then cw_owners r else m) z rules =
    (case find P (rev rules) of Some r \<Rightarrow> cw_owners r | None \<Rightarrow> z)"
  by (induction rules rule: rev_induct) auto

lemma parsed_rules_owned: "r \<in> set (parse_codeowners t) \<Longrightarrow> cw_owners r \<noteq> []"
  by (auto simp: parse_codeowners_def map_filter_def parse_rule_def Let_def split: list.splits)

text \<open>The owners of a path are those of the last rule of the CODEOWNERS file that matches it, as
  GitHub does, and a path no rule matches has none; a rule read from a file always names an owner, so a
  matched path is never left unowned.\<close>

theorem last_owner_wins:
  "owners_for (parse_codeowners t) p =
    (case find (rule_owns (normalize_path p)) (rev (parse_codeowners t)) of Some r \<Rightarrow> cw_owners r | None \<Rightarrow> []) \<and>
   (owners_for (parse_codeowners t) p = [] \<longleftrightarrow>
     \<not> list_ex (rule_owns (normalize_path p)) (parse_codeowners t))"
proof -
  let ?rs = "parse_codeowners t" and ?P = "rule_owns (normalize_path p)"
  have f: "owners_for ?rs p = (case find ?P (rev ?rs) of Some r \<Rightarrow> cw_owners r | None \<Rightarrow> [])"
    by (simp add: owners_for_def owners_foldl)
  have "list_ex ?P ?rs \<longleftrightarrow> find ?P (rev ?rs) \<noteq> None"
    by (simp add: find_None_list_ex)
  moreover have "find ?P (rev ?rs) = Some r \<Longrightarrow> cw_owners r \<noteq> []" for r
    using parsed_rules_owned [of r t] by (metis find_Some_iff nth_mem set_rev)
  ultimately show ?thesis using f by (auto split: option.splits)
qed

end
