(* ===== verification/Code_Reader.thy ===== *)
theory Code_Reader
  imports Chaos_Prelude
begin

text \<open>
  The sandboxed reader of the target repository, \<open>agents/diagnostician/tools/code_reader.py\<close>.

  A path is the list of its segments. The file system is a record of arguments: \<open>rp_resolve\<close> is
  \<open>Path.resolve()\<close> (symbolic links and \<open>..\<close> followed), \<open>rp_glob\<close> is \<open>root.glob(pattern)\<close> as the
  segments below the root, \<open>rp_text\<close> is what reading a file gives (line ends translated to
  newlines; \<open>None\<close> an \<open>OSError\<close>) and \<open>rp_search\<close> is a compiled regular expression, or the message of \<open>re.error\<close>.
\<close>

section \<open>The file system\<close>

type_synonym path = "string list"

record repo =
  rp_root :: path
  rp_resolve :: "path \<Rightarrow> path"
  rp_exists :: "path \<Rightarrow> bool"
  rp_is_dir :: "path \<Rightarrow> bool"
  rp_is_file :: "path \<Rightarrow> bool"
  rp_size :: "path \<Rightarrow> nat"
  rp_text :: "path \<Rightarrow> string option"
  rp_glob :: "string \<Rightarrow> path list"
  rp_search :: "string \<Rightarrow> string + (string \<Rightarrow> bool)"

definition path_slash :: char where "path_slash = CHR ''/''"

definition backslash :: char where "backslash = CHR 0x5C"

definition segments :: "string \<Rightarrow> path" where
  "segments s = split_char path_slash s"

text \<open>The segments pathlib keeps of a relative path.\<close>

definition pure_segments :: "string \<Rightarrow> path" where
  "pure_segments s = filter (\<lambda>x. x \<noteq> [] \<and> x \<noteq> ''.'') (segments s)"

definition path_str :: "path \<Rightarrow> string" where
  "path_str p = join [path_slash] p"

definition code_read_error :: "string \<Rightarrow> pyexn" where
  "code_read_error m = Exn ''CodeReadError'' m"

section \<open>The reader\<close>

definition default_ignore_segments :: "string list" where
  "default_ignore_segments =
     [''.git'', ''.venv'', ''venv'', ''env'', ''__pycache__'', ''node_modules'', ''.cache'', ''.pytest_cache'',
      ''.ruff_cache'', ''.mypy_cache'', ''.tox'', ''dist'', ''build'', ''site-packages'', ''.idea'', ''.vscode'',
      ''.next'', ''.nuxt'', ''target'', ''tests'', ''test'', ''__tests__'', ''spec'']"

record code_reader =
  cd_repo :: repo
  cd_ignore :: "string list"

definition target_code_reader :: "repo \<Rightarrow> path \<Rightarrow> string list option \<Rightarrow> code_reader res" where
  "target_code_reader fs dir ignore =
     (if \<not> rp_exists fs dir
      then Inl (code_read_error (''target root does not exist: '' @ path_str dir))
      else if \<not> rp_is_dir fs dir
      then Inl (code_read_error (''target root is not a directory: '' @ path_str dir))
      else Inr \<lparr>cd_repo = fs\<lparr>rp_root := rp_resolve fs dir\<rparr>,
                cd_ignore = (case ignore of None \<Rightarrow> default_ignore_segments | Some xs \<Rightarrow> xs)\<rparr>)"

definition is_ignored :: "code_reader \<Rightarrow> string \<Rightarrow> bool" where
  "is_ignored rd relative =
     list_ex (\<lambda>seg. seg \<in> set (cd_ignore rd)) (segments (replace_char backslash [path_slash] relative))"

definition resolve_within_root :: "code_reader \<Rightarrow> string \<Rightarrow> path res" where
  "resolve_within_root rd relative =
     (if prefix [path_slash] relative \<or> prefix [backslash] relative
      then Inl (code_read_error (''absolute path not allowed: '' @ relative))
      else let candidate = rp_resolve (cd_repo rd) (rp_root (cd_repo rd) @ pure_segments relative) in
        if prefix (rp_root (cd_repo rd)) candidate then Inr candidate
        else Inl (code_read_error (''path escapes target root: '' @ relative @ '' -> '' @ path_str candidate)))"

definition max_bytes :: nat where "max_bytes = 1000000"

text \<open>The lines of a text with their line ends, as iterating over a file gives them.\<close>

fun file_lines_aux :: "string \<Rightarrow> string \<Rightarrow> string list" where
  "file_lines_aux w [] = (if w = [] then [] else [w])"
| "file_lines_aux w (c # cs) =
     (if c = CHR 0x0A then (w @ [c]) # file_lines_aux [] cs else file_lines_aux (w @ [c]) cs)"

definition file_lines :: "string \<Rightarrow> string list" where
  "file_lines t = file_lines_aux [] t"

text \<open>The loop over the numbered lines, with the characters collected so far.\<close>

fun collect_lines :: "int \<Rightarrow> int \<Rightarrow> int \<Rightarrow> nat \<Rightarrow> string list \<Rightarrow> string list res" where
  "collect_lines ls le i n [] = Inr []"
| "collect_lines ls le i n (line # rest) =
     (if i < ls then collect_lines ls le (i + 1) n rest
      else if i > le then Inr []
      else if n + length line > max_bytes
      then Inl (code_read_error (''line range yielded > '' @ nat_str max_bytes @ '' chars; narrow the range''))
      else res_bind (collect_lines ls le (i + 1) (n + length line) rest) (\<lambda>out. Inr (line # out)))"

definition or_int :: "int option \<Rightarrow> int \<Rightarrow> int" where
  "or_int x dflt = (case x of None \<Rightarrow> dflt | Some i \<Rightarrow> if i = 0 then dflt else i)"

definition read_text :: "repo \<Rightarrow> path \<Rightarrow> string res" where
  "read_text fs p = (case rp_text fs p of Some t \<Rightarrow> Inr t | None \<Rightarrow> Inl (Exn ''OSError'' (path_str p)))"

definition read_file :: "code_reader \<Rightarrow> string \<Rightarrow> int option \<Rightarrow> int option \<Rightarrow> string res" where
  "read_file rd relative line_start line_end =
     (if is_ignored rd relative
      then Inl (code_read_error (''file is in an ignored path: '' @ relative))
      else res_bind (resolve_within_root rd relative) (\<lambda>p.
        if \<not> rp_exists (cd_repo rd) p then Inl (code_read_error (''file not found: '' @ relative))
        else if \<not> rp_is_file (cd_repo rd) p then Inl (code_read_error (''not a file: '' @ relative))
        else if line_start = None \<and> line_end = None
        then (if rp_size (cd_repo rd) p > max_bytes
              then Inl (code_read_error
                (''file too large ('' @ nat_str (rp_size (cd_repo rd) p) @ '' bytes); request a line range''))
              else read_text (cd_repo rd) p)
        else let ls = max 1 (or_int line_start 1); le = or_int line_end 1000000000 in
          if le < ls
          then Inl (code_read_error (''line_end ('' @ int_str le @ '') < line_start ('' @ int_str ls @ '')''))
          else res_bind (read_text (cd_repo rd) p) (\<lambda>t.
            res_bind (collect_lines ls le 1 0 (file_lines t)) (\<lambda>lines. Inr (concat lines)))))"

definition visible :: "code_reader \<Rightarrow> path \<Rightarrow> bool" where
  "visible rd p \<longleftrightarrow>
     rp_is_file (cd_repo rd) (rp_root (cd_repo rd) @ p) \<and> \<not> is_ignored rd (path_str p)"

definition list_files :: "code_reader \<Rightarrow> string \<Rightarrow> string list" where
  "list_files rd glob = sort (map path_str (filter (visible rd) (rp_glob (cd_repo rd) glob)))"

definition grep_file :: "(string \<Rightarrow> bool) \<Rightarrow> code_reader \<Rightarrow> path \<Rightarrow> (string \<times> nat \<times> string) list" where
  "grep_file matches rd p =
     (case rp_text (cd_repo rd) (rp_root (cd_repo rd) @ p) of
        None \<Rightarrow> []
      | Some t \<Rightarrow>
          map (\<lambda>(i, line). (path_str p, i, line))
            (filter (\<lambda>(i, line). matches line) (enumerate 1 (splitlines t))))"

definition grep :: "code_reader \<Rightarrow> string \<Rightarrow> string \<Rightarrow> (string \<times> nat \<times> string) list res" where
  "grep rd pattern glob =
     (case rp_search (cd_repo rd) pattern of
        Inl e \<Rightarrow> Inl (code_read_error (''invalid regex: '' @ repr_str pattern @ '': '' @ e))
      | Inr matches \<Rightarrow>
          Inr (concat (map (grep_file matches rd) (filter (visible rd) (rp_glob (cd_repo rd) glob)))))"

section \<open>What reading a file can reach\<close>

lemma collect_lines_skip:
  "i < ls \<Longrightarrow> collect_lines ls le i n lines = collect_lines ls le ls n (drop (nat (ls - i)) lines)"
proof (induction lines arbitrary: i)
  case (Cons l rest)
  have e: "nat (ls - i) = Suc (nat (ls - (i + 1)))" using Cons.prems by linarith
  show ?case
  proof (cases "i + 1 < ls")
    case True
    then show ?thesis using Cons.IH [OF True] Cons.prems e by simp
  next
    case False
    then have "i + 1 = ls" using Cons.prems by linarith
    then show ?thesis using e Cons.prems by simp
  qed
qed simp

lemma collect_lines_take:
  "ls \<le> i \<Longrightarrow> collect_lines ls le i n lines = Inr out \<Longrightarrow>
    out = take (nat (le - i + 1)) lines \<and> (out \<noteq> [] \<longrightarrow> n + length (concat out) \<le> max_bytes)"
proof (induction lines arbitrary: i n out)
  case (Cons l rest)
  show ?case
  proof (cases "i > le")
    case True
    then show ?thesis using Cons.prems by simp
  next
    case False
    then obtain out' where o: "collect_lines ls le (i + 1) (n + length l) rest = Inr out'" "out = l # out'"
      "n + length l \<le> max_bytes"
      using Cons.prems by (auto simp: res_bind_Inr_iff split: if_splits)
    have e: "nat (le - i + 1) = Suc (nat (le - (i + 1) + 1))" using False by linarith
    show ?thesis using Cons.IH [OF _ o(1)] Cons.prems(1) o(2,3) by (cases "out' = []") (auto simp: e)
  qed
qed simp

lemma read_file_Inr:
  assumes "read_file rd relative a b = Inr t"
  obtains p where "\<not> is_ignored rd relative" "resolve_within_root rd relative = Inr p"
    "prefix (rp_root (cd_repo rd)) p" "rp_is_file (cd_repo rd) p"
    "p = rp_resolve (cd_repo rd) (rp_root (cd_repo rd) @ pure_segments relative)"
proof -
  obtain p where p: "\<not> is_ignored rd relative" "resolve_within_root rd relative = Inr p" "rp_is_file (cd_repo rd) p"
    using assms by (auto simp: read_file_def res_bind_Inr_iff split: if_splits)
  then have "prefix (rp_root (cd_repo rd)) p \<and>
      p = rp_resolve (cd_repo rd) (rp_root (cd_repo rd) @ pure_segments relative)"
    by (auto simp: resolve_within_root_def Let_def split: if_splits)
  with p show ?thesis using that by blast
qed

text \<open>C22: whatever a model asks for, a file is read only inside the target root after symbolic links and
  \<open>..\<close> are followed, only when no segment of the requested path is ignored, and what comes back is the
  file's text when no line range is given and its size is at most a megabyte, or exactly the requested
  lines, at most a million characters of them.\<close>

theorem read_file_sandboxed:
  assumes "read_file rd relative a b = Inr t"
  shows "\<exists>p content. prefix (rp_root (cd_repo rd)) p \<and>
    p = rp_resolve (cd_repo rd) (rp_root (cd_repo rd) @ pure_segments relative) \<and>
    rp_is_file (cd_repo rd) p \<and> rp_text (cd_repo rd) p = Some content \<and> \<not> is_ignored rd relative \<and>
    (if a = None \<and> b = None then t = content \<and> rp_size (cd_repo rd) p \<le> max_bytes
     else let ls = max 1 (or_int a 1); le = or_int b 1000000000 in
       t = concat (take (nat (le - ls + 1)) (drop (nat (ls - 1)) (file_lines content))) \<and> length t \<le> max_bytes)"
proof -
  obtain p where p: "\<not> is_ignored rd relative" "resolve_within_root rd relative = Inr p"
    "prefix (rp_root (cd_repo rd)) p" "rp_is_file (cd_repo rd) p"
    "p = rp_resolve (cd_repo rd) (rp_root (cd_repo rd) @ pure_segments relative)"
    using assms by (rule read_file_Inr)
  show ?thesis
  proof (cases "a = None \<and> b = None")
    case True
    then have "rp_text (cd_repo rd) p = Some t \<and> rp_size (cd_repo rd) p \<le> max_bytes"
      using assms p(1,2) by (auto simp: read_file_def read_text_def split: if_splits option.splits)
    then show ?thesis using p True by auto
  next
    case False
    define ls where "ls = max 1 (or_int a 1)"
    define le where "le = or_int b 1000000000"
    obtain content out where r: "rp_text (cd_repo rd) p = Some content"
      "collect_lines ls le 1 0 (file_lines content) = Inr out" "t = concat out"
      using assms p(1,2) False unfolding ls_def le_def
      by (auto simp: read_file_def read_text_def res_bind_Inr_iff Let_def split: if_splits option.splits)
    have "collect_lines ls le ls 0 (drop (nat (ls - 1)) (file_lines content)) = Inr out"
      using r(2) collect_lines_skip [of 1 ls le 0 "file_lines content"] by (cases "1 < ls") (auto simp: ls_def)
    then have "out = take (nat (le - ls + 1)) (drop (nat (ls - 1)) (file_lines content)) \<and>
        (out \<noteq> [] \<longrightarrow> length (concat out) \<le> max_bytes)"
      using collect_lines_take [of ls ls le 0 _ out] by simp
    then have "t = concat (take (nat (le - ls + 1)) (drop (nat (ls - 1)) (file_lines content)))" "length t \<le> max_bytes"
      using r(3) by (cases "out = []"; force)+
    then have "if a = None \<and> b = None then t = content \<and> rp_size (cd_repo rd) p \<le> max_bytes
     else let ls = max 1 (or_int a 1); le = or_int b 1000000000 in
       t = concat (take (nat (le - ls + 1)) (drop (nat (ls - 1)) (file_lines content))) \<and> length t \<le> max_bytes"
      unfolding Let_def if_not_P [OF False] ls_def le_def by blast
    with p r(1) show ?thesis by blast
  qed
qed

text \<open>Searching has no such check: a file the glob reaches through a symbolic link (or through \<open>..\<close>)
  outside the target root, which reading refuses, is searched and its matching lines are returned.\<close>

theorem grep_leaves_root:
  assumes "p \<in> set (rp_glob (cd_repo rd) glob)" "visible rd p"
    and "rp_text (cd_repo rd) (rp_root (cd_repo rd) @ p) = Some t"
    and "rp_search (cd_repo rd) pattern = Inr matches" "line \<in> set (splitlines t)" "matches line"
    and "\<not> prefix (rp_root (cd_repo rd)) (rp_resolve (cd_repo rd) (rp_root (cd_repo rd) @ pure_segments (path_str p)))"
  shows "(\<exists>hits i. grep rd pattern glob = Inr hits \<and> (path_str p, i, line) \<in> set hits) \<and>
    (\<exists>m. read_file rd (path_str p) None None = Inl (code_read_error m))"
proof
  obtain k where k: "k < length (splitlines t)" "splitlines t ! k = line"
    using assms(5) by (auto simp: in_set_conv_nth)
  then have "(1 + k, line) \<in> set (enumerate 1 (splitlines t))"
    by (auto simp: in_set_enumerate_eq)
  then have "(path_str p, 1 + k, line) \<in> set (grep_file matches rd p)"
    using assms(3,6) by (auto simp: grep_file_def)
  then show "\<exists>hits i. grep rd pattern glob = Inr hits \<and> (path_str p, i, line) \<in> set hits"
    using assms(1,2,4) by (auto simp: grep_def)
  have "\<exists>m. resolve_within_root rd (path_str p) = Inl (code_read_error m)"
    using assms(7) by (simp add: resolve_within_root_def Let_def) metis
  then show "\<exists>m. read_file rd (path_str p) None None = Inl (code_read_error m)"
    using assms(2) by (auto simp: read_file_def visible_def)
qed

text \<open>A repository whose file \<open>notes\<close> is a link to \<open>/etc/passwd\<close>.\<close>

definition linked_repo :: repo where
  "linked_repo =
     \<lparr>rp_root = [''srv'', ''app''],
      rp_resolve = (\<lambda>p. if p = [''srv'', ''app'', ''notes''] then [''etc'', ''passwd''] else p),
      rp_exists = (\<lambda>p. True), rp_is_dir = (\<lambda>p. p = [''srv'', ''app'']), rp_is_file = (\<lambda>p. p \<noteq> [''srv'', ''app'']),
      rp_size = (\<lambda>p. 4), rp_text = (\<lambda>p. Some ''root''), rp_glob = (\<lambda>g. [[''notes''], [''main.py'']]),
      rp_search = (\<lambda>pat. Inr (\<lambda>line. str_in pat line))\<rparr>"

definition linked_reader :: code_reader where
  "linked_reader = \<lparr>cd_repo = linked_repo, cd_ignore = default_ignore_segments\<rparr>"

lemma grep_leaves_root_witness:
  "\<exists>hits i. grep linked_reader ''root'' ''*'' = Inr hits \<and> (''notes'', i, ''root'') \<in> set hits"
proof -
  have p: "path_str [''notes''] = ''notes''" "pure_segments ''notes'' = [''notes'']"
    by (simp_all add: path_str_def pure_segments_def segments_def path_slash_def)
  have v: "visible linked_reader [''notes'']"
    by (simp add: visible_def linked_reader_def linked_repo_def is_ignored_def p segments_def path_slash_def
        replace_char_def backslash_def default_ignore_segments_def)
  show ?thesis
    using grep_leaves_root [of "[''notes'']" linked_reader "''*''" "''root''" "''root''" "\<lambda>line. str_in ''root'' line" "''root''"] v
    by (simp add: p linked_reader_def linked_repo_def splitlines_def is_line_break_def)
qed

lemma read_file_sandboxed_witness:
  "\<exists>p. prefix [''srv'', ''app''] p \<and> rp_text linked_repo p = Some ''root''"
proof -
  have "read_file linked_reader ''main.py'' None None = Inr ''root''"
    by (simp add: read_file_def linked_reader_def linked_repo_def is_ignored_def segments_def path_slash_def
        replace_char_def backslash_def default_ignore_segments_def resolve_within_root_def pure_segments_def
        max_bytes_def read_text_def)
  from read_file_sandboxed [OF this] show ?thesis by (auto simp: linked_reader_def linked_repo_def)
qed

end
