(* ===== verification/Harness.thy ===== *)
theory Harness
  imports Contracts
begin

text \<open>
  The meta harness, \<open>agents/_harness.py\<close>: every coroutine call to a wrapped agent is timed, its
  outcome recorded, and what the language-model layer spends while it runs is charged to it.

  \<open>hx_current\<close> is the context variable \<open>_current_invocation\<close> (the object it points at is mutated in
  place, so the model keeps the object itself) and \<open>hx_log\<close> is \<open>Harness.invocations\<close>. The wrapped
  agent is a function on this state. An object's attributes, read with \<open>getattr(o, name, None)\<close>, are
  a dictionary.
\<close>

record 'w harness_state =
  hx_current :: "agent_invocation option"
  hx_log :: "agent_invocation list"
  hx_world :: 'w

section \<open>Charging the current invocation\<close>

definition on_current :: "(agent_invocation \<Rightarrow> agent_invocation) \<Rightarrow> 'w harness_state \<Rightarrow> 'w harness_state" where
  "on_current f h = h\<lparr>hx_current := map_option f (hx_current h)\<rparr>"

definition charge :: "real \<Rightarrow> agent_invocation \<Rightarrow> agent_invocation" where
  "charge usd i = i\<lparr>ai_spend_usd := Some ((case ai_spend_usd i of None \<Rightarrow> 0 | Some u \<Rightarrow> u) + usd)\<rparr>"

definition record_llm_spend :: "real \<Rightarrow> 'w harness_state \<Rightarrow> 'w harness_state" where
  "record_llm_spend usd h = (if usd \<le> 0 then h else on_current (charge usd) h)"

definition add_count :: "int option \<Rightarrow> int option \<Rightarrow> int option" where
  "add_count sofar n =
     (case n of None \<Rightarrow> sofar | Some k \<Rightarrow> Some ((case sofar of None \<Rightarrow> 0 | Some t \<Rightarrow> t) + k))"

definition charge_tokens :: "int option \<Rightarrow> int option \<Rightarrow> agent_invocation \<Rightarrow> agent_invocation" where
  "charge_tokens prompt completion i =
     i\<lparr>ai_prompt_tokens := add_count (ai_prompt_tokens i) prompt,
       ai_completion_tokens := add_count (ai_completion_tokens i) completion\<rparr>"

definition record_llm_tokens :: "int option \<Rightarrow> int option \<Rightarrow> 'w harness_state \<Rightarrow> 'w harness_state" where
  "record_llm_tokens prompt completion h = on_current (charge_tokens prompt completion) h"

definition add_calls :: "tool_call_summary list \<Rightarrow> agent_invocation \<Rightarrow> agent_invocation" where
  "add_calls calls i = i\<lparr>ai_tool_calls := ai_tool_calls i @ calls\<rparr>"

definition record_llm_tool_calls :: "tool_call_summary list \<Rightarrow> 'w harness_state \<Rightarrow> 'w harness_state" where
  "record_llm_tool_calls calls h = (if calls = [] then h else on_current (add_calls calls) h)"

section \<open>Summaries\<close>

type_synonym attrs = "(string, pyval) dict"

fun is_str :: "pyval \<Rightarrow> bool" where
  "is_str (PStr s) = True"
| "is_str v = False"

definition attr :: "attrs \<Rightarrow> string \<Rightarrow> pyval" where
  "attr a k = param a k PNone"

definition py_or :: "pyval \<Rightarrow> pyval \<Rightarrow> pyval" where
  "py_or x y = (if truthy x then x else y)"

fun labelled :: "string \<Rightarrow> pyval \<Rightarrow> string list" where
  "labelled label (PStr s) = [label @ ''='' @ s]"
| "labelled label v = []"

definition input_parts :: "attrs \<Rightarrow> string list" where
  "input_parts a =
     labelled ''experiment_id'' (attr a ''experiment_id'') @
     labelled ''kind'' (py_or (attr a ''kind'') (attr a ''request_kind''))"

definition summarize_inputs :: "attrs list \<Rightarrow> (string \<times> attrs) list \<Rightarrow> string" where
  "summarize_inputs args kwargs =
     join '' '' (concat (map input_parts args) @
       concat (map (\<lambda>(k, v). labelled (k @ ''.experiment_id'') (attr v ''experiment_id'')) kwargs))"

fun py_len :: "pyval \<Rightarrow> nat res" where
  "py_len (PStr s) = Inr (length s)"
| "py_len (PList xs) = Inr (length xs)"
| "py_len (PDict d) = Inr (length d)"
| "py_len v = Inl (Exn ''TypeError'' (''object of type '' @ repr_str (type_name v) @ '' has no len()''))"

definition value_part :: "(real \<Rightarrow> string) \<Rightarrow> attrs \<Rightarrow> string \<Rightarrow> string list" where
  "value_part fr a k = (if attr a k = PNone then [] else [k @ ''='' @ py_str fr (attr a k)])"

definition count_part :: "attrs \<Rightarrow> string \<Rightarrow> string list res" where
  "count_part a k =
     (if attr a k = PNone then Inr []
      else res_bind (py_len (attr a k)) (\<lambda>n. Inr [k @ ''_count='' @ nat_str n]))"

definition summarize_output :: "(real \<Rightarrow> string) \<Rightarrow> attrs \<Rightarrow> string res" where
  "summarize_output fr a =
     res_bind (res_map (count_part a) [''findings'', ''hypotheses'', ''events'']) (\<lambda>counts.
       Inr (join '' '' (concat (map (value_part fr a) [''steady_state'', ''success'', ''action'', ''state'']) @
         concat counts)))"

section \<open>The wrapper\<close>

text \<open>\<open>clock\<close> is \<open>time.time()\<close>, in seconds; \<open>view\<close> gives the attributes of a result.\<close>

record ('w, 'r) harness_env =
  he_clock :: "'w \<Rightarrow> real \<times> 'w"
  he_repr_float :: "real \<Rightarrow> string"
  he_view :: "'r \<Rightarrow> attrs"

definition new_invocation :: "string \<Rightarrow> string \<Rightarrow> real \<Rightarrow> string \<Rightarrow> agent_invocation" where
  "new_invocation agent meth start_ms inputs =
     \<lparr>ai_agent = agent, ai_method = meth, ai_started_at_ms = \<lfloor>start_ms\<rfloor>, ai_finished_at_ms = None,
      ai_duration_ms = None, ai_ok = False, ai_error = None, ai_input_summary = inputs,
      ai_output_summary = [], ai_spend_usd = None, ai_prompt_tokens = None,
      ai_completion_tokens = None, ai_tool_calls = []\<rparr>"

definition tick :: "('w, 'r) harness_env \<Rightarrow> 'w harness_state \<Rightarrow> real \<times> 'w harness_state" where
  "tick he h = (case he_clock he (hx_world h) of (t, w) \<Rightarrow> (t * 1000, h\<lparr>hx_world := w\<rparr>))"

text \<open>The \<open>try\<close> body and the \<open>except Exception\<close> clause: what the call returns, and the record of it.\<close>

definition settle ::
  "('w, 'r) harness_env \<Rightarrow> 'r res \<Rightarrow> agent_invocation \<Rightarrow> 'r res \<times> agent_invocation" where
  "settle he r i =
     (case r of
        Inr v \<Rightarrow>
          (case summarize_output (he_repr_float he) (he_view he v) of
             Inr s \<Rightarrow> (Inr v, i\<lparr>ai_ok := True, ai_output_summary := s\<rparr>)
           | Inl x \<Rightarrow> (Inl x, i\<lparr>ai_ok := True, ai_error := (if is_exception x then Some (exn_repr x) else None)\<rparr>))
      | Inl x \<Rightarrow> (Inl x, if is_exception x then i\<lparr>ai_error := Some (exn_repr x)\<rparr> else i))"

definition wrap_call ::
  "('w, 'r) harness_env \<Rightarrow> string \<Rightarrow> string \<Rightarrow> string \<Rightarrow> ('w harness_state \<Rightarrow> 'r res \<times> 'w harness_state) \<Rightarrow>
    'w harness_state \<Rightarrow> 'r res \<times> 'w harness_state" where
  "wrap_call he agent meth inputs target h =
     (case tick he h of
        (start_ms, h1) \<Rightarrow>
          (let inv = new_invocation agent meth start_ms inputs in
           case target (h1\<lparr>hx_current := Some inv\<rparr>) of
             (r, h2) \<Rightarrow>
               (case settle he r (case hx_current h2 of Some i \<Rightarrow> i | None \<Rightarrow> inv) of
                  (r', inv2) \<Rightarrow>
                    (case tick he h2 of
                       (end_ms, h3) \<Rightarrow>
                         (r', h3\<lparr>hx_current := hx_current h,
                                 hx_log := hx_log h3 @
                                   [inv2\<lparr>ai_finished_at_ms := Some \<lfloor>end_ms\<rfloor>,
                                         ai_duration_ms := Some (end_ms - start_ms)\<rparr>]\<rparr>)))))"

section \<open>What the wrapper keeps\<close>

lemma tick_keeps: "tick he h = (t, h') \<Longrightarrow> hx_current h' = hx_current h \<and> hx_log h' = hx_log h"
  by (auto simp: tick_def split: prod.splits)

lemma settle_result: "settle he r i = (r', i') \<Longrightarrow> r' = r \<or> (\<exists>v x. r = Inr v \<and> r' = Inl x)"
  by (auto simp: settle_def split: sum.splits)

lemma settle_fields:
  "settle he r i = (r', i') \<Longrightarrow>
    ai_agent i' = ai_agent i \<and> ai_method i' = ai_method i \<and> ai_spend_usd i' = ai_spend_usd i \<and>
    ai_tool_calls i' = ai_tool_calls i \<and> ai_prompt_tokens i' = ai_prompt_tokens i \<and>
    ai_completion_tokens i' = ai_completion_tokens i"
  by (auto simp: settle_def split: sum.splits)

lemma add_calls_Nil [simp]: "add_calls [] = id"
  by (rule ext) (simp add: add_calls_def)

lemma recorder_current [simp]:
  "hx_current (record_llm_spend usd h) = (if usd \<le> 0 then hx_current h else map_option (charge usd) (hx_current h))"
  "hx_current (record_llm_tokens p c h) = map_option (charge_tokens p c) (hx_current h)"
  "hx_current (record_llm_tool_calls cs h) = map_option (add_calls cs) (hx_current h)"
  by (auto simp: record_llm_spend_def record_llm_tokens_def record_llm_tool_calls_def on_current_def option.map_id0)

lemma recorder_log [simp]:
  "hx_log (record_llm_spend usd h) = hx_log h"
  "hx_log (record_llm_tokens p c h) = hx_log h"
  "hx_log (record_llm_tool_calls cs h) = hx_log h"
  by (simp_all add: record_llm_spend_def record_llm_tokens_def record_llm_tool_calls_def on_current_def)

lemma wrap_call_log:
  assumes "wrap_call he agent meth inputs target h = (r', h')"
  shows "\<exists>inv r h2. target (\<lparr>hx_current = Some inv, hx_log = hx_log h, hx_world = snd (he_clock he (hx_world h))\<rparr>) = (r, h2) \<and>
    inv = new_invocation agent meth (fst (he_clock he (hx_world h)) * 1000) inputs \<and>
    hx_current h' = hx_current h \<and>
    (\<exists>i. hx_log h' = hx_log h2 @ [i] \<and>
      ai_spend_usd i = ai_spend_usd (case hx_current h2 of Some j \<Rightarrow> j | None \<Rightarrow> inv) \<and>
      ai_tool_calls i = ai_tool_calls (case hx_current h2 of Some j \<Rightarrow> j | None \<Rightarrow> inv))"
proof -
  obtain t w where c: "he_clock he (hx_world h) = (t, w)" by fastforce
  define inv where "inv = new_invocation agent meth (t * 1000) inputs"
  obtain r h2 where tg: "target \<lparr>hx_current = Some inv, hx_log = hx_log h, hx_world = w\<rparr> = (r, h2)" by fastforce
  obtain r2 inv2 where st: "settle he r (case hx_current h2 of Some i \<Rightarrow> i | None \<Rightarrow> inv) = (r2, inv2)" by fastforce
  obtain e h3 where tk: "tick he h2 = (e, h3)" by fastforce
  have st1: "tick he h = (t * 1000, h\<lparr>hx_world := w\<rparr>)" by (simp add: tick_def c)
  have tg': "target (h\<lparr>hx_world := w, hx_current := Some (new_invocation agent meth (t * 1000) inputs)\<rparr>) = (r, h2)"
    using tg by (cases h) (simp add: inv_def)
  have "h' = h3\<lparr>hx_current := hx_current h,
      hx_log := hx_log h3 @ [inv2\<lparr>ai_finished_at_ms := Some \<lfloor>e\<rfloor>, ai_duration_ms := Some (e - t * 1000)\<rparr>]\<rparr>"
    using assms by (simp add: wrap_call_def st1 Let_def tg' st [unfolded inv_def] tk)
  then show ?thesis
    using tg settle_fields [OF st] tick_keeps [OF tk] unfolding inv_def by (auto simp: c)
qed

end
