(* ===== verification/Tool_Loop.thy ===== *)
theory Tool_Loop
  imports Harness
begin

text \<open>
  The multi-turn tool-calling loop every language-model strategy runs, \<open>agents/_llm.py\<close>.

  The provider (\<open>litellm.acompletion\<close>) is \<open>lm_complete\<close>: the conversation so far, and a state, to a
  response. A response is what the loop reads of it: the choices, the hidden parameters and the
  usage counts. \<open>lm_loads\<close> is \<open>json.loads\<close> (\<open>Inl\<close> the decode error's text), \<open>lm_dumps\<close> is
  \<open>json.dumps\<close>, \<open>lm_float\<close> is \<open>float(v)\<close>. The request's fixed keyword arguments (model, tool
  specifications, temperature) do not change between turns and are recorded in \<open>lm_model\<close> and the
  tool list. The ellipsis of the truncation mark is printed \<open>...\<close>.
\<close>

section \<open>Data\<close>

record tool_call =
  tl_id :: string
  tl_name :: string
  tl_arguments :: pyval

record llm_message =
  lg_content :: "string option"
  lg_tool_calls :: "tool_call list"

record llm_response =
  lr_choices :: "llm_message list"
  lr_hidden :: "(string, pyval) dict option"
  lr_usage :: "(pyval \<times> pyval) option"

datatype chat_message =
    System_msg string
  | User_msg string
  | Assistant_msg string "tool_call list"
  | Tool_msg string string

record 'h llm_tool =
  lt_name :: string
  lt_description :: string
  lt_parameters :: pyval
  lt_handler :: "(string, pyval) dict \<Rightarrow> 'h \<Rightarrow> string res \<times> 'h"

record tool_trace =
  tr_name :: string
  tr_arguments_raw :: pyval
  tr_arguments_parsed :: "(string, pyval) dict option"
  tr_result :: string
  tr_is_error :: bool

record token_usage =
  tu_prompt :: "int option"
  tu_completion :: "int option"

definition total_tokens :: "token_usage \<Rightarrow> int option" where
  "total_tokens u =
     (if tu_prompt u = None \<and> tu_completion u = None then None
      else Some ((case tu_prompt u of None \<Rightarrow> 0 | Some n \<Rightarrow> n) + (case tu_completion u of None \<Rightarrow> 0 | Some n \<Rightarrow> n)))"

record completion_result =
  cr_final_text :: string
  cr_turns :: nat
  cr_tool_calls :: "tool_trace list"
  cr_spend_usd :: "real option"
  cr_usage :: token_usage
  cr_stopped_reason :: string

record 'h llm_env =
  lm_complete :: "chat_message list \<Rightarrow> 'h \<Rightarrow> llm_response res \<times> 'h"
  lm_loads :: "string \<Rightarrow> string + pyval"
  lm_dumps :: "pyval \<Rightarrow> string"
  lm_float :: "pyval \<Rightarrow> real res"

section \<open>Reading a response\<close>

definition starts_with_any :: "string list \<Rightarrow> string \<Rightarrow> bool" where
  "starts_with_any ps s \<longleftrightarrow> list_ex (\<lambda>p. prefix p s) ps"

definition resolve_model :: "string \<Rightarrow> string" where
  "resolve_model m =
     (if str_in ''/'' m then m
      else if starts_with_any [''claude-'', ''anthropic-''] m then ''anthropic/'' @ m
      else if starts_with_any [''gpt-'', ''o1-'', ''o3-''] m then ''openai/'' @ m
      else if starts_with_any [''qwen'', ''llama'', ''mistral'', ''deepseek'', ''phi''] m then ''ollama/'' @ m
      else m)"

definition to_openai_spec :: "'h llm_tool \<Rightarrow> pyval" where
  "to_openai_spec t =
     PDict [(''type'', PStr ''function''),
       (''function'', PDict [(''name'', PStr (lt_name t)), (''description'', PStr (lt_description t)),
         (''parameters'', lt_parameters t)])]"

fun number_error :: "pyexn \<Rightarrow> bool" where
  "number_error (Exn c m) = (c = ''TypeError'' \<or> c = ''ValueError'')"
| "number_error (BaseExn c) = False"

text \<open>A conversion whose \<open>TypeError\<close> or \<open>ValueError\<close> counts as no data.\<close>

definition quietly :: "'a res \<Rightarrow> 'a option res" where
  "quietly r =
     (case r of Inr v \<Rightarrow> Inr (Some v) | Inl x \<Rightarrow> if number_error x then Inr None else Inl x)"

definition extract_cost :: "(pyval \<Rightarrow> real res) \<Rightarrow> llm_response \<Rightarrow> real option res" where
  "extract_cost fl resp =
     (case lr_hidden resp of
        None \<Rightarrow> Inr None
      | Some hidden \<Rightarrow>
          (if hidden = [] then Inr None
           else let val = param hidden ''response_cost'' PNone in
             if val = PNone then Inr None else quietly (fl val)))"

definition safe_int :: "pyval \<Rightarrow> int option res" where
  "safe_int v = (if v = PNone then Inr None else quietly (py_int v))"

definition extract_tokens :: "llm_response \<Rightarrow> (int option \<times> int option) res" where
  "extract_tokens resp =
     (case lr_usage resp of
        None \<Rightarrow> Inr (None, None)
      | Some (p, c) \<Rightarrow> res_bind (safe_int p) (\<lambda>pn. res_bind (safe_int c) (\<lambda>cn. Inr (pn, cn))))"

section \<open>One tool call\<close>

text \<open>\<open>{t.name: t for t in tools}\<close>: the last tool of a name is the one called.\<close>

definition tool_named :: "'h llm_tool list \<Rightarrow> string \<Rightarrow> 'h llm_tool option" where
  "tool_named tools n = find (\<lambda>t. lt_name t = n) (rev tools)"

definition tool_error :: "tool_call \<Rightarrow> (string, pyval) dict option \<Rightarrow> string \<Rightarrow> tool_trace" where
  "tool_error tc args msg =
     \<lparr>tr_name = tl_name tc, tr_arguments_raw = tl_arguments tc, tr_arguments_parsed = args,
      tr_result = ''error: '' @ msg, tr_is_error = True\<rparr>"

definition tool_args :: "'h llm_env \<Rightarrow> tool_call \<Rightarrow> string + pyval" where
  "tool_args lm tc = (case tl_arguments tc of PStr raw \<Rightarrow> lm_loads lm raw | v \<Rightarrow> Inr v)"

definition execute_one_tool ::
  "'h llm_env \<Rightarrow> 'h llm_tool list \<Rightarrow> tool_call \<Rightarrow> 'h \<Rightarrow> tool_trace res \<times> 'h" where
  "execute_one_tool lm tools tc h =
     (case tool_named tools (tl_name tc) of
        None \<Rightarrow> (Inr (tool_error tc None (''unknown tool '' @ repr_str (tl_name tc))), h)
      | Some tool \<Rightarrow>
          (case tool_args lm tc of
             Inl e \<Rightarrow> (Inr (tool_error tc None (''tool args were not JSON: '' @ e)), h)
           | Inr (PDict args) \<Rightarrow>
               (case lt_handler tool args h of
                  (Inr out, h') \<Rightarrow>
                    (Inr \<lparr>tr_name = tl_name tc, tr_arguments_raw = tl_arguments tc,
                          tr_arguments_parsed = Some args, tr_result = out, tr_is_error = False\<rparr>, h')
                | (Inl (Exn c m), h') \<Rightarrow> (Inr (tool_error tc (Some args) (c @ '': '' @ m)), h')
                | (Inl (BaseExn c), h') \<Rightarrow> (Inl (BaseExn c), h'))
           | Inr v \<Rightarrow> (Inr (tool_error tc None (''tool args must be an object, got '' @ type_name v)), h)))"

definition tool_result_preview_max :: nat where "tool_result_preview_max = 500"

definition tool_record_from_trace :: "'h llm_env \<Rightarrow> tool_trace \<Rightarrow> tool_call_summary" where
  "tool_record_from_trace lm t =
     \<lparr>tc_name = tr_name t,
      tc_arguments = (case tr_arguments_raw t of PStr s \<Rightarrow> s | v \<Rightarrow> lm_dumps lm v),
      tc_result_preview =
        (if length (tr_result t) > tool_result_preview_max
         then take tool_result_preview_max (tr_result t) @ ''...(truncated)'' else tr_result t),
      tc_is_error = tr_is_error t\<rparr>"

definition assistant_message_with_tools :: "llm_message \<Rightarrow> chat_message" where
  "assistant_message_with_tools msg =
     Assistant_msg (case lg_content msg of None \<Rightarrow> [] | Some s \<Rightarrow> s) (lg_tool_calls msg)"

section \<open>The loop\<close>

record tool_session =
  ts_messages :: "chat_message list"
  ts_trace :: "tool_trace list"
  ts_final :: string
  ts_spend :: "real option"
  ts_usage :: token_usage
  ts_last_call :: "(string \<times> pyval) option"
  ts_repeats :: int

definition open_session :: "string \<Rightarrow> string \<Rightarrow> tool_session" where
  "open_session system user =
     \<lparr>ts_messages = [System_msg system, User_msg user], ts_trace = [], ts_final = [], ts_spend = None,
      ts_usage = \<lparr>tu_prompt = None, tu_completion = None\<rparr>, ts_last_call = None, ts_repeats = 0\<rparr>"

fun run_tool_calls ::
  "'w harness_state llm_env \<Rightarrow> 'w harness_state llm_tool list \<Rightarrow> tool_call list \<Rightarrow> tool_call_summary list \<Rightarrow>
    tool_session \<Rightarrow> 'w harness_state \<Rightarrow> (tool_session \<times> tool_call_summary list) res \<times> 'w harness_state" where
  "run_tool_calls lm tools [] recs s h = (Inr (s, recs), h)"
| "run_tool_calls lm tools (tc # tcs) recs s h =
     (case execute_one_tool lm tools tc h of
        (Inl x, h') \<Rightarrow> (Inl x, h')
      | (Inr entry, h') \<Rightarrow>
          run_tool_calls lm tools tcs (recs @ [tool_record_from_trace lm entry])
            (s\<lparr>ts_trace := ts_trace s @ [entry],
               ts_messages := ts_messages s @ [Tool_msg (tl_id tc) (tr_result entry)]\<rparr>) h')"

text \<open>Cost and token accounting of one response.\<close>

definition account_cost :: "real option \<Rightarrow> tool_session \<Rightarrow> tool_session" where
  "account_cost cost s =
     (case cost of None \<Rightarrow> s
      | Some c \<Rightarrow> s\<lparr>ts_spend := Some ((case ts_spend s of None \<Rightarrow> 0 | Some x \<Rightarrow> x) + c)\<rparr>)"

definition account_tokens :: "int option \<times> int option \<Rightarrow> tool_session \<Rightarrow> tool_session" where
  "account_tokens pc s =
     s\<lparr>ts_usage := \<lparr>tu_prompt = add_count (tu_prompt (ts_usage s)) (fst pc),
                    tu_completion = add_count (tu_completion (ts_usage s)) (snd pc)\<rparr>\<rparr>"

definition read_response ::
  "'w harness_state llm_env \<Rightarrow> llm_response \<Rightarrow> tool_session \<Rightarrow> 'w harness_state \<Rightarrow>
    (llm_message \<times> tool_session) res \<times> 'w harness_state" where
  "read_response lm resp s h =
     (case extract_cost (lm_float lm) resp of
        Inl x \<Rightarrow> (Inl x, h)
      | Inr cost \<Rightarrow>
          (let s1 = account_cost cost s;
               h1 = (case cost of None \<Rightarrow> h | Some c \<Rightarrow> record_llm_spend c h)
           in case extract_tokens resp of
             Inl x \<Rightarrow> (Inl x, h1)
           | Inr pc \<Rightarrow>
               (let s2 = account_tokens pc s1;
                    h2 = (if fst pc = None \<and> snd pc = None then h1 else record_llm_tokens (fst pc) (snd pc) h1)
                in case lr_choices resp of
                  [] \<Rightarrow> (Inl (Exn ''IndexError'' ''list index out of range''), h2)
                | msg # _ \<Rightarrow>
                    (Inr (msg, case lg_content msg of
                        Some c \<Rightarrow> (if c \<noteq> [] then s2\<lparr>ts_final := c\<rparr> else s2) | None \<Rightarrow> s2), h2))))"

text \<open>The repeated-call counter; \<open>True\<close> says to stop.\<close>

definition watch_repeats :: "int \<Rightarrow> tool_call list \<Rightarrow> tool_session \<Rightarrow> tool_session \<times> bool" where
  "watch_repeats limit calls s =
     (if limit > 0 \<and> length calls = 1
      then let sig = (tl_name (hd calls), tl_arguments (hd calls)) in
        if ts_last_call s = Some sig
        then (s\<lparr>ts_repeats := ts_repeats s + 1\<rparr>, ts_repeats s + 1 \<ge> limit)
        else (s\<lparr>ts_repeats := 0, ts_last_call := Some sig\<rparr>, False)
      else (s\<lparr>ts_repeats := 0, ts_last_call := None\<rparr>, False))"

definition over_budget :: "real option \<Rightarrow> tool_session \<Rightarrow> bool" where
  "over_budget budget s =
     (case (budget, ts_spend s) of (Some b, Some x) \<Rightarrow> x \<ge> b | _ \<Rightarrow> False)"

text \<open>One iteration: the session after it and, when the loop breaks, the reason.\<close>

definition tool_turn ::
  "'w harness_state llm_env \<Rightarrow> 'w harness_state llm_tool list \<Rightarrow> real option \<Rightarrow> int \<Rightarrow> tool_session \<Rightarrow>
    'w harness_state \<Rightarrow> (tool_session \<times> string option) res \<times> 'w harness_state" where
  "tool_turn lm tools budget limit s h =
     (case lm_complete lm (ts_messages s) h of
        (Inl x, h1) \<Rightarrow> (Inl x, h1)
      | (Inr resp, h1) \<Rightarrow>
          (case read_response lm resp s h1 of
             (Inl x, h2) \<Rightarrow> (Inl x, h2)
           | (Inr (msg, s2), h2) \<Rightarrow>
               (if lg_tool_calls msg = [] then (Inr (s2, Some ''no_tool_calls''), h2)
                else case run_tool_calls lm tools (lg_tool_calls msg) []
                       (s2\<lparr>ts_messages := ts_messages s2 @ [assistant_message_with_tools msg]\<rparr>) h2 of
                  (Inl x, h3) \<Rightarrow> (Inl x, h3)
                | (Inr (s3, recs), h3) \<Rightarrow>
                    (let h4 = record_llm_tool_calls recs h3 in
                     case watch_repeats limit (lg_tool_calls msg) s3 of
                       (s4, True) \<Rightarrow> (Inr (s4, Some ''repeated_tool_call''), h4)
                     | (s4, False) \<Rightarrow>
                         (if over_budget budget s4 then (Inr (s4, Some ''budget_exceeded''), h4)
                          else (Inr (s4, None), h4))))))"

definition completion :: "nat \<Rightarrow> string \<Rightarrow> tool_session \<Rightarrow> completion_result" where
  "completion turns reason s =
     \<lparr>cr_final_text = ts_final s, cr_turns = turns, cr_tool_calls = ts_trace s,
      cr_spend_usd = ts_spend s, cr_usage = ts_usage s, cr_stopped_reason = reason\<rparr>"

text \<open>\<open>for turn in range(max_turns): ... else: ...\<close>, with the turns done and the turns left.\<close>

fun tool_turns ::
  "'w harness_state llm_env \<Rightarrow> 'w harness_state llm_tool list \<Rightarrow> real option \<Rightarrow> int \<Rightarrow> nat \<Rightarrow> nat \<Rightarrow> tool_session \<Rightarrow>
    'w harness_state \<Rightarrow> completion_result res \<times> 'w harness_state" where
  "tool_turns lm tools budget limit k 0 s h = (Inr (completion k ''max_turns_reached'' s), h)"
| "tool_turns lm tools budget limit k (Suc left) s h =
     (case tool_turn lm tools budget limit s h of
        (Inl x, h') \<Rightarrow> (Inl x, h')
      | (Inr (s', Some reason), h') \<Rightarrow> (Inr (completion (Suc k) reason s'), h')
      | (Inr (s', None), h') \<Rightarrow> tool_turns lm tools budget limit (Suc k) left s' h')"

definition complete_with_tools ::
  "'w harness_state llm_env \<Rightarrow> 'w harness_state llm_tool list \<Rightarrow> string \<Rightarrow> string \<Rightarrow> int \<Rightarrow> real option \<Rightarrow> int \<Rightarrow>
    'w harness_state \<Rightarrow> completion_result res \<times> 'w harness_state" where
  "complete_with_tools lm tools system user max_turns budget limit h =
     tool_turns lm tools budget limit 0 (nat max_turns) (open_session system user) h"

section \<open>One turn, taken apart\<close>

lemma tool_turn_Inr:
  assumes "tool_turn lm tools budget limit s h = (Inr (s', stop), h')"
  obtains (final) resp h1 msg where
      "lm_complete lm (ts_messages s) h = (Inr resp, h1)" "read_response lm resp s h1 = (Inr (msg, s'), h')"
      "lg_tool_calls msg = []" "stop = Some ''no_tool_calls''"
  | (calls) resp h1 msg s2 h2 s3 recs h3 again where
      "lm_complete lm (ts_messages s) h = (Inr resp, h1)" "read_response lm resp s h1 = (Inr (msg, s2), h2)"
      "lg_tool_calls msg \<noteq> []"
      "run_tool_calls lm tools (lg_tool_calls msg) []
         (s2\<lparr>ts_messages := ts_messages s2 @ [assistant_message_with_tools msg]\<rparr>) h2 = (Inr (s3, recs), h3)"
      "watch_repeats limit (lg_tool_calls msg) s3 = (s', again)" "h' = record_llm_tool_calls recs h3"
      "stop = (if again then Some ''repeated_tool_call''
               else if over_budget budget s' then Some ''budget_exceeded'' else None)"
  using assms
  by (auto simp: tool_turn_def Let_def split: prod.splits sum.splits if_splits bool.splits)

lemma read_response_Inr:
  assumes "read_response lm resp s h = (Inr (msg, s'), h')"
  obtains cost pc where "extract_cost (lm_float lm) resp = Inr cost" "extract_tokens resp = Inr pc"
    "ts_messages s' = ts_messages s" "ts_trace s' = ts_trace s" "ts_repeats s' = ts_repeats s"
    "ts_last_call s' = ts_last_call s" "ts_spend s' = ts_spend (account_cost cost s)"
    "ts_usage s' = ts_usage (account_tokens pc (account_cost cost s))"
    "h' = (let h1 = (case cost of None \<Rightarrow> h | Some c \<Rightarrow> record_llm_spend c h)
           in if fst pc = None \<and> snd pc = None then h1 else record_llm_tokens (fst pc) (snd pc) h1)"
    "hd (lr_choices resp) = msg" "lr_choices resp \<noteq> []"
proof -
  obtain cost where c: "extract_cost (lm_float lm) resp = Inr cost"
    using assms by (cases "extract_cost (lm_float lm) resp") (auto simp: read_response_def)
  obtain pc where t: "extract_tokens resp = Inr pc"
    using assms c by (cases "extract_tokens resp") (auto simp: read_response_def Let_def)
  obtain m ms where ch: "lr_choices resp = m # ms"
    using assms c t by (cases "lr_choices resp") (auto simp: read_response_def Let_def)
  have keep: "ts_messages (account_cost cost s) = ts_messages s" "ts_trace (account_cost cost s) = ts_trace s"
    "ts_repeats (account_cost cost s) = ts_repeats s" "ts_last_call (account_cost cost s) = ts_last_call s"
    by (simp_all add: account_cost_def split: option.splits)
  have r: "m = msg" "s' = (case lg_content m of Some c \<Rightarrow> (if c \<noteq> [] then (account_tokens pc (account_cost cost s))\<lparr>ts_final := c\<rparr>
      else account_tokens pc (account_cost cost s)) | None \<Rightarrow> account_tokens pc (account_cost cost s))"
    "h' = (let h1 = (case cost of None \<Rightarrow> h | Some c \<Rightarrow> record_llm_spend c h)
           in if fst pc = None \<and> snd pc = None then h1 else record_llm_tokens (fst pc) (snd pc) h1)"
    using assms by (auto simp: read_response_def c t ch Let_def)
  show ?thesis
    by (rule that [OF c t]) (use r ch keep in \<open>auto simp: account_tokens_def split: option.splits\<close>)
qed

lemma watch_repeats_keeps:
  "watch_repeats limit calls s = (s', again) \<Longrightarrow>
    ts_messages s' = ts_messages s \<and> ts_trace s' = ts_trace s \<and> ts_spend s' = ts_spend s \<and>
    ts_usage s' = ts_usage s \<and> ts_final s' = ts_final s"
  by (auto simp: watch_repeats_def Let_def split: if_splits)

definition answers :: "tool_call list \<Rightarrow> chat_message list \<Rightarrow> bool" where
  "answers calls ms \<longleftrightarrow> list_all2 (\<lambda>c m. case m of Tool_msg i r \<Rightarrow> i = tl_id c | _ \<Rightarrow> False) calls ms"

lemma run_tool_calls_Inr:
  "run_tool_calls lm tools calls recs s h = (Inr (s', recs'), h') \<Longrightarrow>
    \<exists>ms es. ts_messages s' = ts_messages s @ ms \<and> answers calls ms \<and>
      ts_trace s' = ts_trace s @ es \<and> recs' = recs @ map (tool_record_from_trace lm) es \<and>
      length es = length calls \<and>
      ts_spend s' = ts_spend s \<and> ts_usage s' = ts_usage s \<and> ts_repeats s' = ts_repeats s \<and>
      ts_last_call s' = ts_last_call s"
proof (induction lm tools calls recs s h arbitrary: s' recs' h' rule: run_tool_calls.induct)
  case (1 lm tools recs s h)
  then show ?case by (auto simp: answers_def)
next
  case (2 lm tools tc tcs recs s h)
  then obtain entry h1 where e: "execute_one_tool lm tools tc h = (Inr entry, h1)"
    by (auto split: prod.splits sum.splits)
  from 2(1) [OF e [symmetric] refl] 2(2) e obtain ms es where
    "ts_messages s' = (ts_messages s @ [Tool_msg (tl_id tc) (tr_result entry)]) @ ms" "answers tcs ms"
    "ts_trace s' = (ts_trace s @ [entry]) @ es"
    "recs' = (recs @ [tool_record_from_trace lm entry]) @ map (tool_record_from_trace lm) es"
    "length es = length tcs" "ts_spend s' = ts_spend s" "ts_usage s' = ts_usage s"
    "ts_repeats s' = ts_repeats s" "ts_last_call s' = ts_last_call s"
    by fastforce
  then show ?case
    by (intro exI [of _ "Tool_msg (tl_id tc) (tr_result entry) # ms"] exI [of _ "entry # es"])
       (simp add: answers_def)
qed

text \<open>An invariant of the turns holds when the last one starts, or when the turns run out.\<close>

lemma tool_turns_end:
  assumes "tool_turns lm tools budget limit k left s h = (Inr r, h')" "P k s h"
    and step: "\<And>k s h s' h'. P k s h \<Longrightarrow> tool_turn lm tools budget limit s h = (Inr (s', None), h') \<Longrightarrow> P (Suc k) s' h'"
  shows "(\<exists>s'. r = completion (k + left) ''max_turns_reached'' s' \<and> P (k + left) s' h') \<or>
    (\<exists>j s0 h0 s' reason. k \<le> j \<and> j < k + left \<and> P j s0 h0 \<and>
       tool_turn lm tools budget limit s0 h0 = (Inr (s', Some reason), h') \<and> r = completion (Suc j) reason s')"
  using assms(1,2)
proof (induction left arbitrary: k s h)
  case 0
  then show ?case by auto
next
  case (Suc left)
  obtain t h1 where t: "tool_turn lm tools budget limit s h = (t, h1)" by fastforce
  with Suc.prems(1) obtain s1 stop where ts: "t = Inr (s1, stop)" by (cases t) auto
  show ?case
  proof (cases stop)
    case None
    have "tool_turns lm tools budget limit (Suc k) left s1 h1 = (Inr r, h')"
      using Suc.prems(1) t ts None by simp
    moreover have "P (Suc k) s1 h1" using step Suc.prems(2) t ts None by blast
    ultimately have "(\<exists>s'. r = completion (Suc k + left) ''max_turns_reached'' s' \<and> P (Suc k + left) s' h') \<or>
      (\<exists>j s0 h0 s' reason. Suc k \<le> j \<and> j < Suc k + left \<and> P j s0 h0 \<and>
       tool_turn lm tools budget limit s0 h0 = (Inr (s', Some reason), h') \<and> r = completion (Suc j) reason s')"
      by (rule Suc.IH)
    then show ?thesis by (metis Suc_leD add_Suc add_Suc_right)
  next
    case (Some reason)
    then have "r = completion (Suc k) reason s1 \<and> h' = h1" using Suc.prems(1) t ts by simp
    then show ?thesis using Suc.prems(2) t ts Some by (intro disjI2) force
  qed
qed

section \<open>The conversation stays well formed\<close>

text \<open>
  What a chat API accepts: the system and user message, then assistant turns that call tools, each
  followed by exactly the answers to its calls, in order. \<open>checked\<close> is a provider that refuses
  anything else.
\<close>

inductive chat_ok :: "chat_message list \<Rightarrow> bool" where
  chat_start: "chat_ok [System_msg s, User_msg u]"
| chat_turn: "chat_ok ms \<Longrightarrow> calls \<noteq> [] \<Longrightarrow> answers calls as \<Longrightarrow> chat_ok (ms @ Assistant_msg t calls # as)"

definition checked :: "'h llm_env \<Rightarrow> 'h llm_env" where
  "checked lm = lm\<lparr>lm_complete := (\<lambda>ms h.
     if chat_ok ms then lm_complete lm ms h else (Inl (Exn ''BadRequestError'' []), h))\<rparr>"

lemma tool_turn_chat:
  assumes "tool_turn lm tools budget limit s h = (Inr (s', None), h')" "chat_ok (ts_messages s)"
  shows "chat_ok (ts_messages s')"
  using assms(1)
proof (cases rule: tool_turn_Inr)
  case (calls resp h1 msg s2 h2 s3 recs h3 again)
  obtain ms es where m: "ts_messages s3 = (ts_messages s2 @ [assistant_message_with_tools msg]) @ ms"
    "answers (lg_tool_calls msg) ms"
    using run_tool_calls_Inr [OF calls(4)] by fastforce
  have "ts_messages s2 = ts_messages s" using calls(2) by (rule read_response_Inr)
  moreover have "ts_messages s' = ts_messages s3" using watch_repeats_keeps [OF calls(5)] by blast
  ultimately show ?thesis
    using m chat_turn [OF assms(2) calls(3) m(2)] by (simp add: assistant_message_with_tools_def)
qed simp

lemma checked_fields [simp]:
  "lm_loads (checked lm) = lm_loads lm" "lm_dumps (checked lm) = lm_dumps lm" "lm_float (checked lm) = lm_float lm"
  "lm_complete (checked lm) ms h = (if chat_ok ms then lm_complete lm ms h else (Inl (Exn ''BadRequestError'' []), h))"
  by (simp_all add: checked_def)

lemma helpers_checked:
  "tool_args (checked lm) = tool_args lm" "tool_record_from_trace (checked lm) = tool_record_from_trace lm"
  by (simp_all add: fun_eq_iff tool_args_def tool_record_from_trace_def split: pyval.split)

lemma read_checked: "read_response (checked lm) = read_response lm"
  by (simp add: fun_eq_iff read_response_def)

lemma execute_checked [simp]: "execute_one_tool (checked lm) tools tc h = execute_one_tool lm tools tc h"
  unfolding execute_one_tool_def helpers_checked ..

lemma run_calls_checked [simp]: "run_tool_calls (checked lm) tools cs recs s h = run_tool_calls lm tools cs recs s h"
  by (induction lm tools cs recs s h rule: run_tool_calls.induct)
     (auto simp: helpers_checked split: prod.splits sum.splits)

lemma tool_turn_checked:
  "chat_ok (ts_messages s) \<Longrightarrow> tool_turn (checked lm) tools budget limit s h = tool_turn lm tools budget limit s h"
  unfolding tool_turn_def read_checked run_calls_checked by simp

lemma tool_turns_checked:
  "chat_ok (ts_messages s) \<Longrightarrow>
    tool_turns (checked lm) tools budget limit k left s h = tool_turns lm tools budget limit k left s h"
proof (induction left arbitrary: k s h)
  case (Suc left)
  obtain r h1 where t: "tool_turn lm tools budget limit s h = (r, h1)" by fastforce
  have "chat_ok (ts_messages s')" if "r = Inr (s', None)" for s'
    using tool_turn_chat t that Suc.prems by blast
  then show ?case
    using Suc.IH by (auto simp: tool_turn_checked [OF Suc.prems] t split: sum.split option.split)
qed simp

text \<open>C19: the loop only ever sends the provider a well-formed conversation: every assistant turn with
  tool calls is followed by one answer per call, in order, with the call's id, whatever the tools do
  (unknown tool, arguments that are not JSON, a handler that raises). A provider that refuses every
  other conversation cannot be told apart from the given one.\<close>

theorem conversation_well_formed:
  "complete_with_tools (checked lm) tools system user max_turns budget limit h =
   complete_with_tools lm tools system user max_turns budget limit h"
  unfolding complete_with_tools_def
  by (rule tool_turns_checked) (simp add: open_session_def chat_start)

section \<open>The loop ends within its turns and its budget\<close>

definition cost_at_most :: "real \<Rightarrow> 'h llm_env \<Rightarrow> bool" where
  "cost_at_most c lm \<longleftrightarrow>
     (\<forall>ms h resp h' k. lm_complete lm ms h = (Inr resp, h') \<longrightarrow>
        extract_cost (lm_float lm) resp = Inr (Some k) \<longrightarrow> k \<le> c)"

definition under :: "real option \<Rightarrow> tool_session \<Rightarrow> bool" where
  "under budget s = (case (budget, ts_spend s) of (Some b, Some x) \<Rightarrow> x < b | _ \<Rightarrow> True)"

lemma under_iff: "under budget s \<longleftrightarrow> \<not> over_budget budget s"
  by (auto simp: under_def over_budget_def split: option.splits)

lemma tool_turn_spend:
  assumes "tool_turn lm tools budget limit s h = (Inr (s', stop), h')"
  obtains resp h1 cost where "lm_complete lm (ts_messages s) h = (Inr resp, h1)"
    "extract_cost (lm_float lm) resp = Inr cost" "ts_spend s' = ts_spend (account_cost cost s)"
    "stop = None \<Longrightarrow> under budget s'"
    "stop \<in> {None, Some ''no_tool_calls'', Some ''repeated_tool_call'', Some ''budget_exceeded''}"
  using assms
proof (cases rule: tool_turn_Inr)
  case (final resp h1 msg)
  from final(2) show ?thesis
    by (rule read_response_Inr) (use final that [OF final(1)] in auto)
next
  case (calls resp h1 msg s2 h2 s3 recs h3 again)
  have "ts_spend s3 = ts_spend s2" using run_tool_calls_Inr [OF calls(4)] by auto
  then have "ts_spend s' = ts_spend s2" using watch_repeats_keeps [OF calls(5)] by simp
  with calls(2) show ?thesis
    by (elim read_response_Inr) (use calls(7) that [OF calls(1)] in \<open>auto simp: under_iff split: if_splits\<close>)
qed

lemma spend_step:
  assumes "under (Some b) s" "ts_spend (account_cost cost s) = Some x" "\<forall>k. cost = Some k \<longrightarrow> k \<le> c" "0 \<le> c"
  shows "x \<le> max b 0 + c"
  using assms by (auto simp: account_cost_def under_def split: option.splits)

text \<open>C18: the tool loop always stops: within the configured number of turns, for one of the four reasons
  the code reports (it reports the turn limit only when every turn was used), and having overspent the budget by at most the cost of one response.\<close>

theorem tool_loop_bounded:
  assumes "complete_with_tools lm tools system user max_turns budget limit h = (Inr r, h')"
    and "cost_at_most c lm" "0 \<le> c"
  shows "cr_turns r \<le> nat max_turns \<and>
    cr_stopped_reason r \<in> {''no_tool_calls'', ''repeated_tool_call'', ''budget_exceeded'', ''max_turns_reached''} \<and>
    (cr_stopped_reason r = ''max_turns_reached'' \<longrightarrow> cr_turns r = nat max_turns) \<and>
    (\<forall>b x. budget = Some b \<longrightarrow> cr_spend_usd r = Some x \<longrightarrow> x \<le> max b 0 + c)"
proof -
  let ?s0 = "open_session system user"
  have u0: "under budget ?s0" by (simp add: under_def open_session_def split: option.splits)
  have step: "under budget s'" if "tool_turn lm tools budget limit s h = (Inr (s', None), h')" for s h s' h'
    using that by (rule tool_turn_spend) simp
  from tool_turns_end [OF assms(1) [unfolded complete_with_tools_def], of "\<lambda>k s h. under budget s"] u0 step
  consider (limit) s' where "r = completion (nat max_turns) ''max_turns_reached'' s'" "under budget s'"
    | (stop) j s0 h0 s' reason where "j < nat max_turns" "under budget s0"
        "tool_turn lm tools budget limit s0 h0 = (Inr (s', Some reason), h')" "r = completion (Suc j) reason s'"
    by fastforce
  then show ?thesis
  proof cases
    case limit
    then show ?thesis using assms(3) by (auto simp: completion_def under_def)
  next
    case stop
    obtain resp h1 cost where t: "lm_complete lm (ts_messages s0) h0 = (Inr resp, h1)"
      "extract_cost (lm_float lm) resp = Inr cost" "ts_spend s' = ts_spend (account_cost cost s0)"
      "Some reason \<in> {None, Some ''no_tool_calls'', Some ''repeated_tool_call'', Some ''budget_exceeded''}"
      using stop(3) by (rule tool_turn_spend) blast
    have c: "\<forall>k. cost = Some k \<longrightarrow> k \<le> c" using assms(2) t(1,2) unfolding cost_at_most_def by blast
    have "x \<le> max b 0 + c" if "budget = Some b" "ts_spend s' = Some x" for b x
      using spend_step [OF _ _ c assms(3)] stop(2) that t(3) by simp
    then show ?thesis using stop(1,4) t(4) by (auto simp: completion_def)
  qed
qed

section \<open>Repeated calls\<close>

text \<open>A provider that keeps asking for one and the same tool call, and tools that answer it.\<close>

definition stubborn :: "tool_call \<Rightarrow> llm_response" where
  "stubborn tc =
     \<lparr>lr_choices = [\<lparr>lg_content = None, lg_tool_calls = [tc]\<rparr>], lr_hidden = None, lr_usage = None\<rparr>"

definition stuck_on :: "'h llm_env \<Rightarrow> 'h llm_tool list \<Rightarrow> tool_call \<Rightarrow> 'h set \<Rightarrow> bool" where
  "stuck_on lm tools tc H \<longleftrightarrow>
     (\<forall>ms. \<forall>h \<in> H. \<exists>h'. lm_complete lm ms h = (Inr (stubborn tc), h') \<and> h' \<in> H) \<and>
     (\<forall>h \<in> H. \<exists>e h'. execute_one_tool lm tools tc h = (Inr e, h') \<and> h' \<in> H)"

lemma stuck_turn:
  assumes "stuck_on lm tools tc H" "h \<in> H" "\<forall>cs x. x \<in> H \<longrightarrow> record_llm_tool_calls cs x \<in> H" "1 \<le> limit"
    and "ts_spend s = None" "ts_repeats s = int k" "ts_last_call s = Some (tl_name tc, tl_arguments tc)"
  shows "\<exists>s' h'. tool_turn lm tools budget limit s h =
      (Inr (s', if int (Suc k) \<ge> limit then Some ''repeated_tool_call'' else None), h') \<and> h' \<in> H \<and>
      ts_spend s' = None \<and> ts_repeats s' = int (Suc k) \<and> ts_last_call s' = Some (tl_name tc, tl_arguments tc)"
proof -
  obtain h1 where h1: "lm_complete lm (ts_messages s) h = (Inr (stubborn tc), h1)" "h1 \<in> H"
    using assms(1,2) by (meson stuck_on_def)
  obtain e h2 where h2: "execute_one_tool lm tools tc h1 = (Inr e, h2)" "h2 \<in> H"
    using assms(1) h1(2) by (meson stuck_on_def)
  show ?thesis
    using assms(3-) h2(2)
    by (simp add: tool_turn_def h1(1) h2(1) read_response_def stubborn_def extract_cost_def extract_tokens_def
        account_cost_def account_tokens_def watch_repeats_def over_budget_def split: option.splits)
qed

lemma stuck_first:
  assumes "stuck_on lm tools tc H" "h \<in> H" "\<forall>cs x. x \<in> H \<longrightarrow> record_llm_tool_calls cs x \<in> H" "1 \<le> limit"
    and "ts_spend s = None" "ts_last_call s = None"
  shows "\<exists>s' h'. tool_turn lm tools budget limit s h = (Inr (s', None), h') \<and> h' \<in> H \<and>
      ts_spend s' = None \<and> ts_repeats s' = 0 \<and> ts_last_call s' = Some (tl_name tc, tl_arguments tc)"
proof -
  obtain h1 where h1: "lm_complete lm (ts_messages s) h = (Inr (stubborn tc), h1)" "h1 \<in> H"
    using assms(1,2) by (meson stuck_on_def)
  obtain e h2 where h2: "execute_one_tool lm tools tc h1 = (Inr e, h2)" "h2 \<in> H"
    using assms(1) h1(2) by (meson stuck_on_def)
  show ?thesis
    using assms(3-) h2(2)
    by (simp add: tool_turn_def h1(1) h2(1) read_response_def stubborn_def extract_cost_def extract_tokens_def
        account_cost_def account_tokens_def watch_repeats_def over_budget_def split: option.splits)
qed

lemma stuck_turns:
  assumes "stuck_on lm tools tc H" "h \<in> H" "\<forall>cs x. x \<in> H \<longrightarrow> record_llm_tool_calls cs x \<in> H" "1 \<le> limit"
    and "ts_spend s = None" "ts_repeats s = int k" "ts_last_call s = Some (tl_name tc, tl_arguments tc)"
    and "int k < limit" "limit \<le> int k + int left"
  shows "\<exists>r h'. tool_turns lm tools budget limit j left s h = (Inr r, h') \<and>
    cr_turns r = j + nat limit - k \<and> cr_stopped_reason r = ''repeated_tool_call''"
  using assms(2,5-)
proof (induction left arbitrary: j k s h)
  case (Suc left)
  obtain s1 h1 where t: "tool_turn lm tools budget limit s h =
      (Inr (s1, if int (Suc k) \<ge> limit then Some ''repeated_tool_call'' else None), h1)" "h1 \<in> H"
      "ts_spend s1 = None" "ts_repeats s1 = int (Suc k)" "ts_last_call s1 = Some (tl_name tc, tl_arguments tc)"
    using stuck_turn [OF assms(1) Suc.prems(1) assms(3,4) Suc.prems(2-4), of budget] by blast
  show ?case
  proof (cases "int (Suc k) \<ge> limit")
    case True
    then have "nat limit = Suc k" using Suc.prems(5) by linarith
    then show ?thesis using True by (simp add: t(1) completion_def)
  next
    case False
    then have "\<exists>r h'. tool_turns lm tools budget limit (Suc j) left s1 h1 = (Inr r, h') \<and>
      cr_turns r = Suc j + nat limit - Suc k \<and> cr_stopped_reason r = ''repeated_tool_call''"
      using Suc.prems(6) by (intro Suc.IH t) auto
    then show ?thesis using False by (simp add: t(1))
  qed
qed simp

text \<open>The docstring says the loop stops after \<open>N\<close> consecutive identical tool calls; it stops after
  \<open>N + 1\<close>, since the first call only sets the signature: a provider stuck on one call runs one turn
  (and one tool call) more than documented.\<close>

theorem repeated_call_stops_late:
  assumes "stuck_on lm tools tc H" "h \<in> H" "\<forall>cs x. x \<in> H \<longrightarrow> record_llm_tool_calls cs x \<in> H"
    and "1 \<le> limit" "limit < max_turns"
  shows "\<exists>r h'. complete_with_tools lm tools system user max_turns budget limit h = (Inr r, h') \<and>
    cr_turns r = Suc (nat limit) \<and> cr_stopped_reason r = ''repeated_tool_call''"
proof -
  obtain n where n: "nat max_turns = Suc n" "limit \<le> int n" using assms(4,5) by (cases "nat max_turns") auto
  let ?s = "open_session system user"
  obtain s1 h3 where t: "tool_turn lm tools budget limit ?s h = (Inr (s1, None), h3)" "h3 \<in> H"
    "ts_spend s1 = None" "ts_repeats s1 = int 0" "ts_last_call s1 = Some (tl_name tc, tl_arguments tc)"
    using stuck_first [OF assms(1-4), of ?s budget] by (auto simp: open_session_def)
  have "\<exists>r h'. tool_turns lm tools budget limit (Suc 0) n s1 h3 = (Inr r, h') \<and>
    cr_turns r = Suc 0 + nat limit - 0 \<and> cr_stopped_reason r = ''repeated_tool_call''"
    using assms(4) n(2) by (intro stuck_turns [OF assms(1) t(2) assms(3,4) t(3-5)]) auto
  then show ?thesis by (simp add: complete_with_tools_def n(1) t(1))
qed

section \<open>What a call costs is charged to it\<close>

text \<open>The provider and the tools leave the harness alone, and every reported cost is positive.\<close>

definition keeps_harness :: "('w harness_state \<Rightarrow> 'a \<times> 'w harness_state) \<Rightarrow> bool" where
  "keeps_harness f \<longleftrightarrow> (\<forall>h. hx_current (snd (f h)) = hx_current h \<and> hx_log (snd (f h)) = hx_log h)"

definition untouched :: "'w harness_state llm_env \<Rightarrow> 'w harness_state llm_tool list \<Rightarrow> bool" where
  "untouched lm tools \<longleftrightarrow>
     (\<forall>ms. keeps_harness (lm_complete lm ms)) \<and> (\<forall>t \<in> set tools. \<forall>args. keeps_harness (lt_handler t args))"

definition costs_positive :: "'h llm_env \<Rightarrow> bool" where
  "costs_positive lm \<longleftrightarrow>
     (\<forall>ms h resp h' k. lm_complete lm ms h = (Inr resp, h') \<longrightarrow>
        extract_cost (lm_float lm) resp = Inr (Some k) \<longrightarrow> 0 < k)"

definition charged :: "'h llm_env \<Rightarrow> tool_session \<Rightarrow> agent_invocation \<Rightarrow> bool" where
  "charged lm s i \<longleftrightarrow>
     ai_spend_usd i = ts_spend s \<and> ai_prompt_tokens i = tu_prompt (ts_usage s) \<and>
     ai_completion_tokens i = tu_completion (ts_usage s) \<and>
     ai_tool_calls i = map (tool_record_from_trace lm) (ts_trace s)"

definition carries :: "'w harness_state llm_env \<Rightarrow> agent_invocation list \<Rightarrow> tool_session \<Rightarrow> 'w harness_state \<Rightarrow> bool" where
  "carries lm L s h \<longleftrightarrow> hx_log h = L \<and> (\<exists>i. hx_current h = Some i \<and> charged lm s i)"

lemma keeps_harnessD: "keeps_harness f \<Longrightarrow> f h = (r, h') \<Longrightarrow> hx_current h' = hx_current h \<and> hx_log h' = hx_log h"
  unfolding keeps_harness_def by (metis snd_conv)

lemma execute_keeps:
  assumes "untouched lm tools" "execute_one_tool lm tools tc h = (r, h')"
  shows "hx_current h' = hx_current h \<and> hx_log h' = hx_log h"
proof (cases "tool_named tools (tl_name tc)")
  case None
  then show ?thesis using assms(2) by (simp add: execute_one_tool_def)
next
  case (Some t)
  then have "t \<in> set tools" unfolding tool_named_def find_Some_iff by (metis nth_mem set_rev)
  then have k: "keeps_harness (lt_handler t args)" for args using assms(1) by (simp add: untouched_def)
  show ?thesis
    using assms(2) Some keeps_harnessD [OF k]
    by (auto simp: execute_one_tool_def split: sum.splits pyval.splits prod.splits pyexn.splits)
qed

lemma run_calls_keeps:
  assumes "untouched lm tools"
  shows "run_tool_calls lm tools cs recs s h = (r, h') \<Longrightarrow> hx_current h' = hx_current h \<and> hx_log h' = hx_log h"
proof (induction cs arbitrary: recs s h r h')
  case (Cons tc tcs)
  obtain e h1 where e: "execute_one_tool lm tools tc h = (e, h1)" by fastforce
  show ?case
    using Cons.prems Cons.IH execute_keeps [OF assms e] by (cases e) (fastforce simp: e)+
qed simp

lemma read_keeps:
  assumes "read_response lm resp s h = (Inr (msg, s'), h')"
    and "\<forall>k. extract_cost (lm_float lm) resp = Inr (Some k) \<longrightarrow> 0 < k" "carries lm L s h"
  shows "carries lm L s' h'"
  using assms(1)
proof (rule read_response_Inr)
  fix cost pc
  assume cost: "extract_cost (lm_float lm) resp = Inr cost"
    and keep: "ts_trace s' = ts_trace s" "ts_spend s' = ts_spend (account_cost cost s)"
      "ts_usage s' = ts_usage (account_tokens pc (account_cost cost s))"
    and h': "h' = (let h1 = (case cost of None \<Rightarrow> h | Some c \<Rightarrow> record_llm_spend c h)
           in if fst pc = None \<and> snd pc = None then h1 else record_llm_tokens (fst pc) (snd pc) h1)"
  have pos: "\<forall>c. cost = Some c \<longrightarrow> 0 < c" using assms(2) cost by auto
  let ?h1 = "case cost of None \<Rightarrow> h | Some c \<Rightarrow> record_llm_spend c h"
  obtain j where j: "hx_log h = L" "hx_current h = Some j" "charged lm s j"
    using assms(3) by (auto simp: carries_def)
  have h1: "hx_log ?h1 = L \<and> (\<exists>i. hx_current ?h1 = Some i \<and> charged lm (account_cost cost s) i)"
  proof (cases cost)
    case None
    then show ?thesis using j by (simp add: account_cost_def)
  next
    case (Some c)
    then have "charged lm (account_cost cost s) (charge c j)"
      using j(3) by (simp add: charged_def charge_def account_cost_def)
    then show ?thesis using Some j(1,2) pos by (auto simp: not_le)
  qed
  then obtain i where i: "hx_current ?h1 = Some i" "charged lm (account_cost cost s) i" by blast
  have tok: "charged lm s' (charge_tokens (fst pc) (snd pc) i)"
    using i(2) keep by (simp add: charged_def charge_tokens_def account_tokens_def account_cost_def split: option.splits)
  have none: "fst pc = None \<Longrightarrow> snd pc = None \<Longrightarrow> charge_tokens (fst pc) (snd pc) i = i"
    by (simp add: charge_tokens_def add_count_def)
  show ?thesis
    using h1 i tok none by (auto simp: carries_def h' Let_def)
qed

lemma turn_carries:
  assumes "untouched lm tools" "costs_positive lm" "carries lm L s h"
    and "tool_turn lm tools budget limit s h = (Inr (s', stop), h')"
  shows "carries lm L s' h'"
  using assms(4)
proof (cases rule: tool_turn_Inr)
  case (final resp h1 msg)
  have "carries lm L s h1"
    using keeps_harnessD [of "lm_complete lm (ts_messages s)", OF _ final(1)] assms(1,3)
    by (auto simp: untouched_def carries_def)
  moreover have "\<forall>k. extract_cost (lm_float lm) resp = Inr (Some k) \<longrightarrow> 0 < k"
    using assms(2) final(1) unfolding costs_positive_def by blast
  ultimately show ?thesis using read_keeps [OF final(2)] by blast
next
  case (calls resp h1 msg s2 h2 s3 recs h3 again)
  have "carries lm L s h1"
    using keeps_harnessD [of "lm_complete lm (ts_messages s)", OF _ calls(1)] assms(1,3)
    by (auto simp: untouched_def carries_def)
  moreover have "\<forall>k. extract_cost (lm_float lm) resp = Inr (Some k) \<longrightarrow> 0 < k"
    using assms(2) calls(1) unfolding costs_positive_def by blast
  ultimately have c2: "carries lm L s2 h2" using read_keeps [OF calls(2)] by blast
  obtain es where e: "ts_trace s3 = ts_trace s2 @ es" "recs = map (tool_record_from_trace lm) es"
    "ts_spend s3 = ts_spend s2" "ts_usage s3 = ts_usage s2"
    using run_tool_calls_Inr [OF calls(4)] by auto
  have "hx_current h3 = hx_current h2" "hx_log h3 = hx_log h2" using run_calls_keeps [OF assms(1) calls(4)] by auto
  then show ?thesis
    using c2 e watch_repeats_keeps [OF calls(5)] by (auto simp: carries_def calls(6) charged_def add_calls_def)
qed

text \<open>Everything an agent call spends in the tool loop lands on its own entry of the audit log: when
  a harness-wrapped agent runs the loop, the entry the harness appends carries exactly the cost, the token
  counts and the tool calls the loop reports, the caller's context is restored and no other entry changes.\<close>

theorem llm_spend_charged:
  assumes "untouched lm tools" "costs_positive lm"
    and "complete_with_tools lm tools system user max_turns budget limit
        \<lparr>hx_current = Some (new_invocation agent meth (fst (he_clock he (hx_world h)) * 1000) inputs),
         hx_log = hx_log h, hx_world = snd (he_clock he (hx_world h))\<rparr> = (Inr r, h2)"
    and "wrap_call he agent meth inputs
        (\<lambda>x. case complete_with_tools lm tools system user max_turns budget limit x of (c, x') \<Rightarrow> (res_bind c post, x'))
        h = (v, h')"
  shows "hx_current h' = hx_current h \<and>
    (\<exists>i. hx_log h' = hx_log h @ [i] \<and> ai_spend_usd i = cr_spend_usd r \<and>
       ai_tool_calls i = map (tool_record_from_trace lm) (cr_tool_calls r))"
proof -
  let ?inv = "new_invocation agent meth (fst (he_clock he (hx_world h)) * 1000) inputs"
  let ?h0 = "\<lparr>hx_current = Some ?inv, hx_log = hx_log h, hx_world = snd (he_clock he (hx_world h))\<rparr>"
  have start: "carries lm (hx_log h) (open_session system user) ?h0"
    by (simp add: carries_def charged_def open_session_def new_invocation_def)
  have "\<exists>s' k reason. r = completion k reason s' \<and> carries lm (hx_log h) s' h2"
    using tool_turns_end [OF assms(3) [unfolded complete_with_tools_def], of "\<lambda>k. carries lm (hx_log h)"]
      start turn_carries [OF assms(1,2)] by blast
  then obtain s' k reason i where r: "r = completion k reason s'" "hx_log h2 = hx_log h"
    "hx_current h2 = Some i" "charged lm s' i"
    by (auto simp: carries_def)
  show ?thesis
    using wrap_call_log [OF assms(4)] r by (auto simp: assms(3) completion_def charged_def)
qed

section \<open>Concrete runs\<close>

fun plain_float :: "pyval \<Rightarrow> real res" where
  "plain_float (PFloat x) = Inr x"
| "plain_float (PInt i) = Inr (of_int i)"
| "plain_float v = Inl (Exn ''TypeError'' [])"

definition fixed_provider :: "llm_response \<Rightarrow> 'h llm_env" where
  "fixed_provider resp =
     \<lparr>lm_complete = (\<lambda>ms h. (Inr resp, h)), lm_loads = (\<lambda>s. Inl []), lm_dumps = (\<lambda>v. []), lm_float = plain_float\<rparr>"

definition paid_answer :: llm_response where
  "paid_answer =
     \<lparr>lr_choices = [\<lparr>lg_content = Some ''done'', lg_tool_calls = []\<rparr>],
      lr_hidden = Some [(''response_cost'', PFloat (1 / 4))], lr_usage = Some (PInt 10, PInt 2)\<rparr>"

definition idle :: "unit harness_state" where
  "idle = \<lparr>hx_current = None, hx_log = [], hx_world = ()\<rparr>"

definition paid_result :: completion_result where
  "paid_result =
     \<lparr>cr_final_text = ''done'', cr_turns = 1, cr_tool_calls = [], cr_spend_usd = Some (1 / 4),
      cr_usage = \<lparr>tu_prompt = Some 10, tu_completion = Some 2\<rparr>, cr_stopped_reason = ''no_tool_calls''\<rparr>"

lemmas run_defs = complete_with_tools_def tool_turn_def read_response_def extract_cost_def extract_tokens_def
  quietly_def safe_int_def account_cost_def account_tokens_def add_count_def completion_def open_session_def
  param_def dict_get_def

lemma paid_cost: "extract_cost plain_float paid_answer = Inr (Some (1 / 4))"
  by (simp add: extract_cost_def paid_answer_def quietly_def param_def dict_get_def)

lemma paid_run:
  "\<exists>h'. complete_with_tools (fixed_provider paid_answer) [] [] [] 5 (Some 1) 3 h = (Inr paid_result, h')"
  by (simp add: run_defs fixed_provider_def paid_answer_def paid_result_def eval_nat_numeral)

lemma tool_loop_bounded_witness:
  "cr_turns paid_result \<le> 5 \<and> cr_spend_usd paid_result = Some (1 / 4) \<and> (1 / 4 :: real) \<le> max 1 0 + 1 / 4"
proof -
  obtain h' where r: "complete_with_tools (fixed_provider paid_answer) [] [] [] 5 (Some 1) 3 idle = (Inr paid_result, h')"
    using paid_run by blast
  have "cost_at_most (1 / 4) (fixed_provider paid_answer :: unit harness_state llm_env)"
    by (simp add: cost_at_most_def fixed_provider_def paid_cost)
  from tool_loop_bounded [OF r this] show ?thesis by (simp add: paid_result_def)
qed

definition stuck_call :: tool_call where
  "stuck_call = \<lparr>tl_id = ''c1'', tl_name = ''grep'', tl_arguments = PStr ''{}''\<rparr>"

lemma repeated_call_stops_late_witness:
  "\<exists>r h'. complete_with_tools (fixed_provider (stubborn stuck_call)) [] [] [] 10 None 3 idle = (Inr r, h') \<and>
     cr_turns r = 4 \<and> cr_stopped_reason r = ''repeated_tool_call''"
proof -
  have "stuck_on (fixed_provider (stubborn stuck_call)) [] stuck_call (UNIV :: unit harness_state set)"
    by (simp add: stuck_on_def fixed_provider_def execute_one_tool_def tool_named_def)
  from repeated_call_stops_late [OF this, of idle 3 10 "[]" "[]" None] show ?thesis by simp
qed

definition still_clock :: "(unit, unit) harness_env" where
  "still_clock = \<lparr>he_clock = (\<lambda>w. (7, w)), he_repr_float = (\<lambda>x. []), he_view = (\<lambda>r. [])\<rparr>"

definition paid_state :: "unit harness_state" where
  "paid_state =
     \<lparr>hx_current = Some ((new_invocation ''tester'' ''hypothesize'' 7000 [])
        \<lparr>ai_spend_usd := Some (1 / 4), ai_prompt_tokens := Some 10, ai_completion_tokens := Some 2\<rparr>),
      hx_log = [], hx_world = ()\<rparr>"

lemma paid_run_charged:
  "complete_with_tools (fixed_provider paid_answer) [] [] [] 5 (Some 1) 3
     \<lparr>hx_current = Some (new_invocation ''tester'' ''hypothesize'' 7000 []), hx_log = [], hx_world = ()\<rparr> =
   (Inr paid_result, paid_state)"
  by (simp add: run_defs fixed_provider_def paid_answer_def paid_result_def paid_state_def eval_nat_numeral
      record_llm_spend_def record_llm_tokens_def on_current_def charge_def charge_tokens_def new_invocation_def)

lemma llm_spend_charged_witness:
  "\<exists>i. hx_log (snd (wrap_call still_clock ''tester'' ''hypothesize'' []
      (\<lambda>x. case complete_with_tools (fixed_provider paid_answer) [] [] [] 5 (Some 1) 3 x of
          (c, x') \<Rightarrow> (res_bind c (\<lambda>r. Inr ()), x')) idle)) = [i] \<and> ai_spend_usd i = Some (1 / 4)"
proof -
  let ?run = "wrap_call still_clock ''tester'' ''hypothesize'' []
      (\<lambda>x. case complete_with_tools (fixed_provider paid_answer) [] [] [] 5 (Some 1) 3 x of
          (c, x') \<Rightarrow> (res_bind c (\<lambda>r. Inr ()), x')) idle"
  obtain v h' where w: "?run = (v, h')" by fastforce
  have u: "untouched (fixed_provider paid_answer :: unit harness_state llm_env) []"
    by (simp add: untouched_def keeps_harness_def fixed_provider_def)
  have c: "costs_positive (fixed_provider paid_answer :: unit harness_state llm_env)"
    by (simp add: costs_positive_def fixed_provider_def paid_cost)
  have "complete_with_tools (fixed_provider paid_answer) [] [] [] 5 (Some 1) 3
      \<lparr>hx_current = Some (new_invocation ''tester'' ''hypothesize'' (fst (he_clock still_clock (hx_world idle)) * 1000) []),
       hx_log = hx_log idle, hx_world = snd (he_clock still_clock (hx_world idle))\<rparr> = (Inr paid_result, paid_state)"
    using paid_run_charged by (simp add: still_clock_def idle_def)
  from llm_spend_charged [OF u c this w] w show ?thesis by (auto simp: idle_def paid_result_def)
qed

end
