(* ===== verification/Llm_Text.thy ===== *)
theory Llm_Text
  imports Chaos_Prelude
begin

text \<open>
  Two helpers every language-model strategy shares: pulling a JSON value out of a model's final
  text (\<open>agents/_json.py\<close>) and retrying a call with exponential backoff (\<open>agents/_retry.py\<close>).

  The fence pattern of \<open>_json.py\<close> (three backticks, an optional \<open>json\<close> tag, white space, a
  non-greedy body, white space, three backticks) is written out as the search Python's engine
  performs: the leftmost opening fence that can match, the tag and then the longest run of white space first,
  the shortest body. The JSON decoder is the argument \<open>loads\<close>; its failure is \<open>JSONDecodeError\<close>.
\<close>

section \<open>The fence\<close>

definition fence :: string where "fence = replicate 3 (CHR 0x60)"

text \<open>The text continues with optional white space and a closing fence.\<close>

definition closes :: "string \<Rightarrow> bool" where
  "closes s \<longleftrightarrow> prefix fence (dropWhile is_space s)"

text \<open>The shortest non-empty prefix after which the fence closes.\<close>

fun lazy_body :: "string \<Rightarrow> string \<Rightarrow> string option" where
  "lazy_body acc [] = None"
| "lazy_body acc (c # cs) = (if closes cs then Some (acc @ [c]) else lazy_body (acc @ [c]) cs)"

text \<open>Where the body may start: after the longest run of white space, then after shorter ones.\<close>

definition body_starts :: "string \<Rightarrow> string list" where
  "body_starts s = map (\<lambda>n. drop n s) (rev [0..<Suc (length (takeWhile is_space s))])"

fun first_some :: "'a option list \<Rightarrow> 'a option" where
  "first_some [] = None"
| "first_some (x # xs) = (case x of Some v \<Rightarrow> Some v | None \<Rightarrow> first_some xs)"

definition fence_body :: "string \<Rightarrow> string option" where
  "fence_body s =
     first_some (map (lazy_body [])
       ((if prefix ''json'' s then body_starts (drop 4 s) else []) @ body_starts s))"

text \<open>\<open>_FENCE.search(text)\<close> and its group.\<close>

fun fence_search :: "string \<Rightarrow> string option" where
  "fence_search [] = None"
| "fence_search (c # cs) =
     (case (if prefix fence (c # cs) then fence_body (drop 3 (c # cs)) else None) of
        Some g \<Rightarrow> Some g
      | None \<Rightarrow> fence_search cs)"

section \<open>Extraction\<close>

definition is_bracket :: "char \<Rightarrow> bool" where
  "is_bracket c \<longleftrightarrow> c = CHR ''['' \<or> c = CHR ''{''"

definition extract_json_blob :: "string \<Rightarrow> string option" where
  "extract_json_blob t =
     (if t = [] \<or> strip t = [] then None
      else case fence_search t of
        Some g \<Rightarrow> Some (strip g)
      | None \<Rightarrow>
          (let rest = dropWhile (\<lambda>c. \<not> is_bracket c) t in if rest = [] then None else Some (strip rest)))"

definition is_dict :: "pyval \<Rightarrow> bool" where
  "is_dict v = (case v of PDict d \<Rightarrow> True | _ \<Rightarrow> False)"

fun dict_items :: "pyval list \<Rightarrow> (string, pyval) dict list" where
  "dict_items [] = []"
| "dict_items (PDict d # vs) = d # dict_items vs"
| "dict_items (v # vs) = dict_items vs"

definition parse_json_list :: "(string \<Rightarrow> pyval option) \<Rightarrow> string \<Rightarrow> (string, pyval) dict list" where
  "parse_json_list loads t =
     (case extract_json_blob t of
        None \<Rightarrow> []
      | Some blob \<Rightarrow>
          (case loads blob of
             None \<Rightarrow> []
           | Some (PDict d) \<Rightarrow> [d]
           | Some (PList vs) \<Rightarrow> dict_items vs
           | Some v \<Rightarrow> []))"

definition parse_json_object :: "(string \<Rightarrow> pyval option) \<Rightarrow> string \<Rightarrow> (string, pyval) dict option" where
  "parse_json_object loads t =
     (case extract_json_blob t of
        None \<Rightarrow> None
      | Some blob \<Rightarrow> (case loads blob of Some (PDict d) \<Rightarrow> Some d | _ \<Rightarrow> None))"

section \<open>Retrying\<close>

text \<open>
  \<open>retry_on\<close> is the test of the \<open>except\<close> clause, \<open>draw\<close> is \<open>random.uniform(0, jitter)\<close> and
  \<open>sleep\<close> may raise (a cancelled task). \<open>attempt\<close> counts from 0 and \<open>left\<close> is what remains of
  \<open>range(max_attempts)\<close>.
\<close>

definition backoff_delay :: "real \<Rightarrow> real \<Rightarrow> nat \<Rightarrow> real" where
  "backoff_delay base cap attempt = min cap (base * 2 ^ attempt)"

record 'w retry_env =
  re_retry_on :: "pyexn \<Rightarrow> bool"
  re_draw :: "real \<Rightarrow> 'w \<Rightarrow> real \<times> 'w"
  re_sleep :: "real \<Rightarrow> 'w \<Rightarrow> unit res \<times> 'w"

fun retry_loop ::
  "'w retry_env \<Rightarrow> ('w \<Rightarrow> 'a res \<times> 'w) \<Rightarrow> real \<Rightarrow> real \<Rightarrow> real \<Rightarrow> nat \<Rightarrow> nat \<Rightarrow> 'w \<Rightarrow> 'a res \<times> 'w"
where
  "retry_loop re f base cap jitter attempt 0 w = (Inl (Exn ''AssertionError'' []), w)"
| "retry_loop re f base cap jitter attempt (Suc left) w =
     (case f w of
        (Inr v, w1) \<Rightarrow> (Inr v, w1)
      | (Inl x, w1) \<Rightarrow>
          (if \<not> re_retry_on re x then (Inl x, w1)
           else if left = 0 then (Inl x, w1)
           else case (if jitter > 0 then re_draw re jitter w1 else (0, w1)) of
             (extra, w2) \<Rightarrow>
               (case re_sleep re (backoff_delay base cap attempt + extra) w2 of
                  (Inl y, w3) \<Rightarrow> (Inl y, w3)
                | (Inr u, w3) \<Rightarrow> retry_loop re f base cap jitter (Suc attempt) left w3)))"

definition async_retry ::
  "'w retry_env \<Rightarrow> ('w \<Rightarrow> 'a res \<times> 'w) \<Rightarrow> int \<Rightarrow> real \<Rightarrow> real \<Rightarrow> real \<Rightarrow> 'w \<Rightarrow> 'a res \<times> 'w" where
  "async_retry re f max_attempts base cap jitter w =
     (if max_attempts < 1
      then (Inl (Exn ''ValueError'' (''max_attempts must be >= 1, got '' @ int_str max_attempts)), w)
      else retry_loop re f base cap jitter 0 (nat max_attempts) w)"

section \<open>What extraction finds\<close>

lemma strip_infix: "\<exists>us vs. s = us @ strip s @ vs"
proof -
  let ?t = "dropWhile is_space s"
  have a: "s = takeWhile is_space s @ ?t" by simp
  have b: "?t = rev (dropWhile is_space (rev ?t)) @ rev (takeWhile is_space (rev ?t))"
    by (metis rev_append rev_rev_ident takeWhile_dropWhile_id)
  have "s = takeWhile is_space s @ strip s @ rev (takeWhile is_space (rev ?t))"
    unfolding strip_def using a b by metis
  then show ?thesis by blast
qed

lemma lazy_body_prefix: "lazy_body acc s = Some g \<Longrightarrow> \<exists>rest. acc @ s = g @ rest \<and> closes rest"
  by (induction acc s rule: lazy_body.induct) (auto split: if_splits)

lemma first_some_mem: "first_some xs = Some v \<Longrightarrow> Some v \<in> set xs"
  by (induction xs) (auto split: option.splits)

lemma body_starts_suffix: "t \<in> set (body_starts s) \<Longrightarrow> \<exists>us. s = us @ t"
  unfolding body_starts_def by (metis (no_types, lifting) append_take_drop_id imageE set_map)

lemma fence_body_infix:
  assumes "fence_body s = Some g"
  shows "\<exists>us vs. s = us @ g @ vs"
proof -
  obtain t where t: "lazy_body [] t = Some g"
    "t \<in> set ((if prefix ''json'' s then body_starts (drop 4 s) else []) @ body_starts s)"
    using first_some_mem [OF assms [unfolded fence_body_def]] by auto
  have "\<exists>us. s = us @ t"
    using t(2) body_starts_suffix [of t "drop 4 s"] body_starts_suffix [of t s]
    by (auto split: if_splits) (metis append.assoc append_take_drop_id)
  with lazy_body_prefix [OF t(1)] show ?thesis by auto
qed

lemma fence_search_infix: "fence_search s = Some g \<Longrightarrow> \<exists>us vs. s = us @ g @ vs"
proof (induction s rule: fence_search.induct)
  case (2 c cs)
  show ?case
  proof (cases "prefix fence (c # cs) \<and> fence_body (drop 3 (c # cs)) \<noteq> None")
    case True
    then have "fence_body (drop 3 (c # cs)) = Some g" using 2(2) by auto
    then obtain us vs where "drop 3 (c # cs) = us @ g @ vs" using fence_body_infix by blast
    then have "c # cs = (take 3 (c # cs) @ us) @ g @ vs" by (metis append.assoc append_take_drop_id)
    then show ?thesis by blast
  next
    case False
    then have n: "(if prefix fence (c # cs) then fence_body (drop 3 (c # cs)) else None) = None" by auto
    from 2(1) [OF n] 2(2) n obtain us vs where "cs = us @ g @ vs" by auto
    then have "c # cs = (c # us) @ g @ vs" by simp
    then show ?thesis by blast
  qed
qed simp

lemma extracted_infix:
  assumes "extract_json_blob t = Some b"
  shows "str_in b t"
proof -
  have step: "str_in (strip g) t" if "t = us @ g @ vs" for us g vs
  proof -
    obtain xs ys where "g = xs @ strip g @ ys" using strip_infix by blast
    with that have "t = (us @ xs) @ strip g @ (ys @ vs)" by (metis append.assoc)
    then show ?thesis by (metis str_in_infix)
  qed
  show ?thesis
  proof (cases "fence_search t")
    case (Some g)
    then have "b = strip g" using assms by (simp add: extract_json_blob_def split: if_splits)
    with fence_search_infix [OF Some] step show ?thesis by blast
  next
    case None
    then have "b = strip (dropWhile (\<lambda>c. \<not> is_bracket c) t)"
      using assms by (simp add: extract_json_blob_def Let_def split: if_splits)
    moreover have "t = takeWhile (\<lambda>c. \<not> is_bracket c) t @ dropWhile (\<lambda>c. \<not> is_bracket c) t @ []" by simp
    ultimately show ?thesis using step by metis
  qed
qed

section \<open>Fenced values\<close>

definition backtick :: char where "backtick = CHR 0x60"

definition trimmed :: "string \<Rightarrow> bool" where
  "trimmed b \<longleftrightarrow> b \<noteq> [] \<and> \<not> is_space (hd b) \<and> \<not> is_space (last b)"

abbreviation blank :: "string \<Rightarrow> bool" where
  "blank w \<equiv> list_all is_space w"

lemma fence_alt: "fence = [backtick, backtick, backtick]"
  by (simp add: fence_def backtick_def numeral_3_eq_3)

lemma backtick_not_space [simp]: "\<not> is_space backtick"
  by (simp add: backtick_def is_space_def)

lemma dropWhile_blank: "blank w \<Longrightarrow> dropWhile is_space (w @ t) = dropWhile is_space t"
  by (induction w) auto

lemma dropWhile_hd: "t \<noteq> [] \<Longrightarrow> \<not> is_space (hd t) \<Longrightarrow> dropWhile is_space t = t"
  by (cases t) auto

lemma closes_fence: "blank w \<Longrightarrow> closes (w @ fence @ t)"
  by (simp add: closes_def dropWhile_blank fence_alt)

lemma dropWhile_first:
  "\<exists>x \<in> set b. \<not> is_space x \<Longrightarrow> \<exists>c cs. dropWhile is_space (b @ t) = c # cs \<and> c \<in> set b"
  by (induction b) auto

lemma not_closes:
  assumes "backtick \<notin> set b" "b \<noteq> []" "\<not> is_space (last b)"
  shows "\<not> closes (b @ t)"
proof -
  have "\<exists>x \<in> set b. \<not> is_space x" using assms(2,3) last_in_set by blast
  then obtain c cs where d: "dropWhile is_space (b @ t) = c # cs" "c \<in> set b"
    using dropWhile_first [of b t] by blast
  then show ?thesis using assms(1) by (auto simp: closes_def fence_alt)
qed

lemma lazy_body_finds:
  assumes "backtick \<notin> set b" "b \<noteq> []" "\<not> is_space (last b)" "blank w"
  shows "lazy_body acc (b @ w @ fence @ t) = Some (acc @ b)"
  using assms(1-3)
proof (induction b arbitrary: acc)
  case (Cons c cs)
  show ?case
  proof (cases "cs = []")
    case True
    with closes_fence [OF assms(4)] show ?thesis by simp
  next
    case False
    then have "\<not> closes (cs @ w @ fence @ t)" using Cons.prems by (intro not_closes) auto
    with Cons False show ?thesis by simp
  qed
qed simp

lemma takeWhile_blank: "blank w \<Longrightarrow> t \<noteq> [] \<Longrightarrow> \<not> is_space (hd t) \<Longrightarrow> takeWhile is_space (w @ t) = w"
  by (induction w) (auto simp: takeWhile_eq_Nil_iff)

lemma fence_body_tagged:
  assumes "backtick \<notin> set b" "trimmed b" "blank w1" "blank w2"
  shows "fence_body (''json'' @ w1 @ b @ w2 @ fence @ t) = Some b"
proof -
  let ?s = "w1 @ b @ w2 @ fence @ t"
  have tw: "takeWhile is_space ?s = w1"
    using assms(2,3) by (intro takeWhile_blank) (auto simp: trimmed_def)
  have "body_starts ?s = (b @ w2 @ fence @ t) # map (\<lambda>n. drop n ?s) (rev [0..<length w1])"
    by (simp add: body_starts_def tw)
  moreover have "lazy_body [] (b @ w2 @ fence @ t) = Some b"
    using lazy_body_finds [of b w2 "[]" t] assms by (simp add: trimmed_def)
  ultimately show ?thesis by (simp add: fence_body_def)
qed

lemma fence_search_skip:
  "backtick \<notin> set pre \<Longrightarrow> fence_search (pre @ s) = fence_search s"
  by (induction pre) (auto simp: fence_alt)

lemma fence_search_open: "fence_body s = Some b \<Longrightarrow> fence_search (fence @ s) = Some b"
  by (simp add: fence_alt)

lemma fence_search_tagged:
  assumes "backtick \<notin> set pre" "backtick \<notin> set b" "trimmed b" "blank w1" "blank w2"
  shows "fence_search (pre @ fence @ ''json'' @ w1 @ b @ w2 @ fence @ t) = Some b"
  by (simp only: fence_search_skip [OF assms(1)] fence_search_open [OF fence_body_tagged [OF assms(2-5)]])

lemma strip_trimmed: "trimmed b \<Longrightarrow> strip b = b"
  by (simp add: trimmed_def strip_def dropWhile_hd hd_rev)

lemma strip_nonempty:
  assumes "c \<in> set s" "\<not> is_space c"
  shows "strip s \<noteq> []"
proof -
  have ne: "dropWhile is_space s \<noteq> []" using assms by (auto simp: dropWhile_eq_Nil_conv)
  then have "\<not> is_space (hd (dropWhile is_space s))" by (rule hd_dropWhile)
  then have "\<exists>x \<in> set (rev (dropWhile is_space s)). \<not> is_space x"
    using hd_in_set [OF ne] unfolding set_rev by (rule bexI)
  then have "dropWhile is_space (rev (dropWhile is_space s)) \<noteq> []" by (simp only: dropWhile_eq_Nil_conv) blast
  then show ?thesis by (simp add: strip_def)
qed

lemma extract_found: "fence_search t = Some g \<Longrightarrow> backtick \<in> set t \<Longrightarrow> extract_json_blob t = Some (strip g)"
  using strip_nonempty [of backtick t] by (auto simp: extract_json_blob_def)

lemma extract_tagged:
  assumes "backtick \<notin> set pre" "backtick \<notin> set b" "trimmed b" "blank w1" "blank w2"
  shows "extract_json_blob (pre @ fence @ ''json'' @ w1 @ b @ w2 @ fence @ t) = Some b"
  using extract_found [OF fence_search_tagged [OF assms, of t]] strip_trimmed [OF assms(3)]
  by (simp add: fence_alt)

text \<open>A JSON value that a model wraps in a tagged fence, with prose before and after it, is read
  back exactly: the list parser returns the decoded object or the objects of the decoded array and
  the object parser the decoded object, for every value whose text holds no backtick.\<close>

theorem fenced_json_round_trip:
  assumes "backtick \<notin> set pre" "backtick \<notin> set b" "trimmed b" "blank w1" "blank w2"
    and "loads b = Some v"
  shows "parse_json_object loads (pre @ fence @ ''json'' @ w1 @ b @ w2 @ fence @ post) =
      (case v of PDict d \<Rightarrow> Some d | _ \<Rightarrow> None) \<and>
    parse_json_list loads (pre @ fence @ ''json'' @ w1 @ b @ w2 @ fence @ post) =
      (case v of PDict d \<Rightarrow> [d] | PList vs \<Rightarrow> dict_items vs | _ \<Rightarrow> [])"
  using extract_tagged [OF assms(1-5), of post] assms(6)
  by (cases v) (simp_all add: parse_json_object_def parse_json_list_def)

definition one_key_loads :: "string \<Rightarrow> pyval option" where
  "one_key_loads s = (if s = ''{a}'' then Some (PDict [(''a'', PNone)]) else None)"

lemma fenced_json_round_trip_witness:
  "parse_json_object one_key_loads
     (''Sure: '' @ fence @ ''json'' @ [CHR 0x0A] @ ''{a}'' @ [CHR 0x0A] @ fence @ '' done'') =
     Some [(''a'', PNone)]"
proof -
  have l: "one_key_loads ''{a}'' = Some (PDict [(''a'', PNone)])" by (simp add: one_key_loads_def)
  show ?thesis
    using fenced_json_round_trip [of "''Sure: ''" "''{a}''" "[CHR 0x0A]" "[CHR 0x0A]" one_key_loads
        "PDict [(''a'', PNone)]" "'' done''"] l
    by (simp add: backtick_def trimmed_def is_space_def)
qed

text \<open>A fenced reply whose JSON text itself contains a fence (a code sample inside a string) is
  cut at that inner fence: unless the cut text happens to decode, the whole reply is dropped, although
  the value the model wrote decodes.\<close>

theorem inner_fence_drops_reply:
  assumes "backtick \<notin> set pre" "backtick \<notin> set a" "trimmed a" "blank w"
    and "loads a = None" "loads (a @ fence @ c) = Some v"
  shows "parse_json_object loads (pre @ fence @ ''json'' @ w @ (a @ fence @ c) @ fence @ post) = None \<and>
    parse_json_list loads (pre @ fence @ ''json'' @ w @ (a @ fence @ c) @ fence @ post) = []"
  using extract_tagged [OF assms(1-4), of "[]" "c @ fence @ post"] assms(5)
  by (simp add: parse_json_object_def parse_json_list_def)

definition sample_loads :: "string \<Rightarrow> pyval option" where
  "sample_loads s = (if s = ''{run'' @ fence @ ''x}'' then Some (PDict [(''r'', PStr [])]) else None)"

lemma inner_fence_drops_reply_witness:
  "sample_loads (''{run'' @ fence @ ''x}'') \<noteq> None \<and>
   parse_json_object sample_loads
     ([] @ fence @ ''json'' @ [CHR 0x0A] @ (''{run'' @ fence @ ''x}'') @ fence @ []) = None"
proof -
  have l: "sample_loads ''{run'' = None" "sample_loads (''{run'' @ fence @ ''x}'') = Some (PDict [(''r'', PStr [])])"
    by (simp_all add: sample_loads_def fence_alt)
  show ?thesis
    using inner_fence_drops_reply [OF _ _ _ _ l, of "[]" "[CHR 0x0A]" "[]"] l
    by (simp add: backtick_def trimmed_def is_space_def)
qed

section \<open>Retrying, exactly\<close>

text \<open>
  A scripted call: the answers it will give in order, the random extra delay before sleep number
  \<open>k\<close>, and the log of the sleeps. \<open>retryable\<close> is the test of the \<open>except\<close> clause on an answer.
\<close>

record 'a script =
  rs_answers :: "'a res list"
  rs_sleeps :: "real list"

definition scripted :: "'a script \<Rightarrow> 'a res \<times> 'a script" where
  "scripted w =
     (case rs_answers w of
        [] \<Rightarrow> (Inl (BaseExn ''StopAsyncIteration''), w)
      | a # rest \<Rightarrow> (a, w\<lparr>rs_answers := rest\<rparr>))"

definition script_env :: "(pyexn \<Rightarrow> bool) \<Rightarrow> (nat \<Rightarrow> real) \<Rightarrow> 'a script retry_env" where
  "script_env ok u =
     \<lparr>re_retry_on = ok,
      re_draw = (\<lambda>j w. (u (length (rs_sleeps w)), w)),
      re_sleep = (\<lambda>d w. (Inr (), w\<lparr>rs_sleeps := rs_sleeps w @ [d]\<rparr>))\<rparr>"

fun retryable :: "(pyexn \<Rightarrow> bool) \<Rightarrow> 'a res \<Rightarrow> bool" where
  "retryable ok (Inl x) = ok x"
| "retryable ok (Inr v) = False"

definition failures :: "(pyexn \<Rightarrow> bool) \<Rightarrow> nat \<Rightarrow> 'a res list \<Rightarrow> nat" where
  "failures ok n xs = length (takeWhile (retryable ok) (take n xs))"

definition delay :: "real \<Rightarrow> real \<Rightarrow> real \<Rightarrow> (nat \<Rightarrow> real) \<Rightarrow> nat \<Rightarrow> real" where
  "delay base cap jitter u k = backoff_delay base cap k + (if jitter > 0 then u k else 0)"

lemma retry_loop_script:
  assumes "length xs > n"
  shows "retry_loop (script_env ok u) scripted base cap jitter (length sl) (Suc n)
      \<lparr>rs_answers = xs, rs_sleeps = sl\<rparr> =
    (let i = failures ok n xs
     in (xs ! i, \<lparr>rs_answers = drop (Suc i) xs,
                  rs_sleeps = sl @ map (delay base cap jitter u) [length sl..<length sl + i]\<rparr>))"
  using assms
proof (induction n arbitrary: xs sl)
  case 0
  then obtain x rest where "xs = x # rest" by (cases xs) auto
  then show ?case by (cases x) (simp_all add: scripted_def script_env_def failures_def)
next
  case (Suc n)
  then obtain x rest where xs: "xs = x # rest" by (cases xs) auto
  have len: "n < length rest" using Suc.prems xs by simp
  show ?case
  proof (cases "retryable ok x")
    case True
    then obtain e where e: "x = Inl e" "ok e" by (cases x) auto
    define sl' where "sl' = sl @ [delay base cap jitter u (length sl)]"
    have l: "length sl' = Suc (length sl)" by (simp add: sl'_def)
    have f: "failures ok (Suc n) xs = Suc (failures ok n rest)" by (simp add: failures_def xs e)
    have "retry_loop (script_env ok u) scripted base cap jitter (length sl) (Suc (Suc n))
        \<lparr>rs_answers = xs, rs_sleeps = sl\<rparr> =
      retry_loop (script_env ok u) scripted base cap jitter (length sl') (Suc n)
        \<lparr>rs_answers = rest, rs_sleeps = sl'\<rparr>"
      by (subst retry_loop.simps) (simp add: xs e scripted_def script_env_def delay_def sl'_def del: retry_loop.simps)
    moreover have "sl' @ map (delay base cap jitter u) [length sl'..<length sl' + failures ok n rest] =
        sl @ map (delay base cap jitter u) [length sl..<length sl + Suc (failures ok n rest)]"
      by (simp add: sl'_def upt_conv_Cons del: upt_Suc)
    ultimately show ?thesis
      unfolding Suc.IH [OF len] f Let_def by (simp add: xs del: upt_Suc)
  next
    case False
    then show ?thesis by (cases x) (simp_all add: xs scripted_def script_env_def failures_def)
  qed
qed

lemma failures_le: "failures ok n xs \<le> n"
  unfolding failures_def using length_takeWhile_le [of "retryable ok" "take n xs"] by simp

lemma backoff_bounds: "0 \<le> base \<Longrightarrow> 0 \<le> cap \<Longrightarrow> 0 \<le> backoff_delay base cap k \<and> backoff_delay base cap k \<le> cap"
  by (simp add: backoff_delay_def)

text \<open>A retried call is made until the first answer that is a result or an exception outside the
  retry list, and at most the configured number of times; that answer (or the last exception) is the
  outcome, the sleeps between the calls are the exponential backoff plus the random jitter, and none
  is longer than the cap plus the jitter.\<close>

theorem async_retry_exact:
  assumes "1 \<le> m" "nat m \<le> length xs" "0 \<le> base" "0 \<le> cap" "\<forall>k. 0 \<le> u k \<and> u k \<le> jitter"
  shows "\<exists>i < nat m. i = failures ok (nat m - 1) xs \<and>
    async_retry (script_env ok u) scripted m base cap jitter \<lparr>rs_answers = xs, rs_sleeps = []\<rparr> =
      (xs ! i, \<lparr>rs_answers = drop (Suc i) xs, rs_sleeps = map (delay base cap jitter u) [0..<i]\<rparr>) \<and>
    list_all (\<lambda>d. 0 \<le> d \<and> d \<le> cap + jitter) (map (delay base cap jitter u) [0..<i])"
proof -
  obtain n where n: "nat m = Suc n" using assms(1) by (cases "nat m") auto
  let ?i = "failures ok n xs"
  have "async_retry (script_env ok u) scripted m base cap jitter \<lparr>rs_answers = xs, rs_sleeps = []\<rparr> =
      (xs ! ?i, \<lparr>rs_answers = drop (Suc ?i) xs, rs_sleeps = map (delay base cap jitter u) [0..<?i]\<rparr>)"
    using retry_loop_script [of n xs ok u base cap jitter "[]"] assms(1,2) n
    by (simp add: async_retry_def Let_def del: retry_loop.simps)
  moreover have "list_all (\<lambda>d. 0 \<le> d \<and> d \<le> cap + jitter) (map (delay base cap jitter u) [0..<?i])"
  proof -
    have "0 \<le> delay base cap jitter u k \<and> delay base cap jitter u k \<le> cap + jitter" for k
      using backoff_bounds [OF assms(3,4), of k] assms(5) [rule_format, of k] by (simp add: delay_def)
    then show ?thesis by (simp add: list_all_iff)
  qed
  ultimately show ?thesis using failures_le [of ok n xs] n by auto
qed

lemma async_retry_exact_witness:
  "async_retry (script_env is_exception (\<lambda>k. 0)) scripted 3 1 5 (1 / 10)
     \<lparr>rs_answers = [Inl (Exn ''TransportError'' []), Inr True, Inr False], rs_sleeps = []\<rparr> =
   (Inr True, \<lparr>rs_answers = [Inr False], rs_sleeps = [1]\<rparr>)"
proof -
  let ?xs = "[Inl (Exn ''TransportError'' []), Inr True, Inr False] :: bool res list"
  have "failures is_exception (nat 3 - 1) ?xs = 1" by (simp add: failures_def numeral_2_eq_2)
  moreover have "delay 1 5 (1 / 10) (\<lambda>k. 0) 0 = 1" by (simp add: delay_def backoff_delay_def)
  ultimately show ?thesis
    using async_retry_exact [of 3 ?xs 1 5 "\<lambda>k. 0" "1 / 10" is_exception] by simp
qed

end
