(* ===== verification/Fixer.thy ===== *)
theory Fixer
  imports Fixer_Policy Code_Reader Tool_Loop Llm_Text Suppression
begin

text \<open>
  The fixer: its strategies (\<open>agents/fixer/strategy.py\<close>), the agent that wraps them in policy
  (\<open>agents/fixer/agent.py\<close>) and the pull-request text (\<open>agents/fixer/pr_template.py\<close>).

  A strategy is a function on the harness state. Its \<open>reasoning\<close> is a dynamically typed value,
  since the model's JSON is passed through unchecked. Arguments: the language-model environment of
  \<open>Tool_Loop\<close>, the contract dumps (\<open>model_dump\<close>), and the file writes.
\<close>

section \<open>Strategies\<close>

definition nl :: string where "nl = [newline]"

record fixer_output =
  fo_reasoning :: pyval
  fo_files_touched :: "string list"
  fo_regression_test_added :: bool
  fo_pr_url :: "string option"

type_synonym 'w strategy =
  "diagnosis_report \<Rightarrow> fix_action \<Rightarrow> 'w harness_state \<Rightarrow> fixer_output res \<times> 'w harness_state"

definition fixture_propose :: "fixer_output + 'w strategy \<Rightarrow> 'w strategy" where
  "fixture_propose src d a h = (case src of Inl out \<Rightarrow> (Inr out, h) | Inr f \<Rightarrow> f d a h)"

record fix_template =
  ft_summary :: string
  ft_detail :: string
  ft_tests :: bool

definition fix_templates :: "(string, fix_template) dict" where
  "fix_templates =
   [
    (''missing-retry'', \<lparr>ft_summary = ''Add retry/backoff around the dependency call'',
      ft_detail =
       ''Wrap the offending call in a retry decorator with a small number of attempts and '' @
       ''exponential backoff. Recommended primitives:'' @
       nl @
       ''  - tenacity (`@retry(stop=stop_after_attempt(3), wait=wait_exponential(min=0.1, '' @
       ''max=2))`)'' @
       nl @
       ''  - or hand-rolled `for attempt in range(3): try: ... except <TransientError>: '' @
       ''...`'' @
       nl @
       ''Cap the total time so the hot path can't be tied up by a slow dep.'',
      ft_tests = True\<rparr>),
    (''missing-timeout'', \<lparr>ft_summary = ''Add an explicit timeout to the call'',
      ft_detail =
       ''Add `timeout=<seconds>` to the call. For HTTP, 5-10s is typical for user-facing '' @
       ''paths, 30s for batch. For subprocess, set a hard cap and `wait_for(timeout=...)` '' @
       ''if async. Match the timeout to the downstream SLA, not the network.'',
      ft_tests = True\<rparr>),
    (''missing-circuit-breaker'', \<lparr>ft_summary = ''Add a circuit breaker around the failing dependency'',
      ft_detail =
       ''Wrap the call in a circuit breaker (e.g., circuitbreaker, pybreaker, or custom). '' @
       ''Open the circuit after N consecutive failures, fail fast for the cooldown '' @
       ''window, then probe.'',
      ft_tests = True\<rparr>),
    (''missing-fallback'', \<lparr>ft_summary = ''Add a graceful-degradation fallback when the dependency is unavailable'',
      ft_detail =
       ''Catch the dependency error and return a degraded but valid response (empty cart, '' @
       ''cached value, default config). The user-visible failure mode should be 'no '' @
       ''enrichment' rather than '5xx'. If no degraded response is acceptable, document '' @
       ''the dependency as critical and ensure the on-call runbook covers it.'',
      ft_tests = True\<rparr>),
    (''auth-control-gap'', \<lparr>ft_summary = ''Tighten the auth control to fail closed when the IdP is unavailable'',
      ft_detail =
       ''Audit the auth path's behavior when the IdP returns 5xx, times out, or '' @
       ''rate-limits. The default must be DENY (5xx, not 200). Remove or guard any 'dev '' @
       ''fallback' branches; verify with an integration test that exercises the auth-down '' @
       ''path.'',
      ft_tests = True\<rparr>),
    (''secret-handling'', \<lparr>ft_summary = ''Make secret handling tolerate rotation / revocation'',
      ft_detail =
       ''Reload secret material on a fixed interval or on first 401/403 from the '' @
       ''dependency. Don't cache for the lifetime of the process. For certs, refresh from '' @
       ''the truststore periodically; for API keys, read from the secret store on each '' @
       ''call (or cache with a short TTL).'',
      ft_tests = True\<rparr>),
    (''image-policy'', \<lparr>ft_summary = ''Tighten admission policy to reject the offending image class'',
      ft_detail =
       ''Add (or correct) a Kyverno / Gatekeeper / OPA policy that rejects deployments '' @
       ''with vulnerable or unsigned images. Verify with a policy unit test (conftest / '' @
       ''kyverno test) that the offending image is denied at admission.'',
      ft_tests = False\<rparr>),
    (''config-change'', \<lparr>ft_summary = ''Adjust configuration to match the observed failure mode'',
      ft_detail =
       ''Determine the right config knob (resource limit, replica count, network policy, '' @
       ''timeout budget) and apply it to the relevant manifest. No application code '' @
       ''change needed.'',
      ft_tests = False\<rparr>),
    (''test-gap'', \<lparr>ft_summary = ''Add the test that should have caught this'',
      ft_detail =
       ''The bug exists because the test suite didn't cover this scenario. Write the '' @
       ''regression test FIRST (it should fail against current code), then either (a) the '' @
       ''code change is obvious from the test, or (b) hand off to humans with a clear '' @
       ''failing test.'',
      ft_tests = True\<rparr>),
    (''code-patch'', \<lparr>ft_summary = ''Apply a code patch (specifics depend on the diagnosis)'',
      ft_detail =
       ''Generic code-patch class - see the diagnosis evidence for what needs to change. '' @
       ''Static templates can't infer the exact change; this proposal is a placeholder '' @
       ''for human or LLM follow-up.'',
      ft_tests = True\<rparr>)]"

definition template_for :: "string \<Rightarrow> fix_template" where
  "template_for fix_class =
     (case dict_get fix_templates fix_class of
        Some t \<Rightarrow> t
      | None \<Rightarrow> (case dict_get fix_templates ''code-patch'' of
          Some t \<Rightarrow> t | None \<Rightarrow> \<lparr>ft_summary = [], ft_detail = [], ft_tests = False\<rparr>))"

text \<open>\<open>Path(name).stem\<close> of a name without separators.\<close>

definition path_stem :: "string \<Rightarrow> string" where
  "path_stem f =
     (if f = ''.'' then []
      else if CHR ''.'' \<notin> set f then f
      else let i = length f - length (takeWhile (\<lambda>c. c \<noteq> CHR ''.'') (rev f)) - 1
        in if 0 < i \<and> i < length f - 1 then take i f else f)"

definition suggested_test_path :: "string \<Rightarrow> string" where
  "suggested_test_path source =
     (let parts = split_char slash (replace_char (CHR 0x5C) [slash] source);
          test_name = ''test_'' @ path_stem (last parts) @ ''_regression.py''
      in if length parts = 1 then ''tests/'' @ test_name
         else join [slash] (butlast parts @ [''tests'', test_name]))"

definition static_files :: "fix_template \<Rightarrow> string list \<Rightarrow> string list" where
  "static_files tmpl paths =
     (if ft_tests tmpl \<and> paths \<noteq> [] \<and> suggested_test_path (hd paths) \<notin> set paths
      then paths @ [suggested_test_path (hd paths)] else paths)"

definition static_reasoning :: "fix_template \<Rightarrow> root_cause_hypothesis \<Rightarrow> string" where
  "static_reasoning tmpl lead =
     ft_summary tmpl @ nl @ nl @ ft_detail tmpl @ nl @ nl @
     ''Diagnosis context:'' @ nl @
     ''  hypothesis: '' @ rc_summary lead @ nl @
     ''  fix class:  '' @ rc_suggested_fix_class lead @ nl @
     ''  confidence: '' @ fmt2 (rc_confidence lead) @ nl @
     ''  evidence:'' @ nl @
     (if rc_evidence lead = [] then ''  - (none)''
      else join nl (map (\<lambda>e. ''  - '' @ e) (rc_evidence lead))) @ nl"

definition index_error :: pyexn where "index_error = Exn ''IndexError'' ''list index out of range''"

definition static_propose :: "'w strategy" where
  "static_propose d a h =
     (case dr_hypotheses d of
        [] \<Rightarrow> (Inl index_error, h)
      | lead # _ \<Rightarrow>
          (let tmpl = template_for (rc_suggested_fix_class lead) in
           (Inr \<lparr>fo_reasoning = PStr (static_reasoning tmpl lead),
                 fo_files_touched = static_files tmpl (rc_affected_paths lead),
                 fo_regression_test_added = (ft_tests tmpl \<and> rc_affected_paths lead \<noteq> []),
                 fo_pr_url = None\<rparr>, h)))"

definition min_reasoning_len :: nat where "min_reasoning_len = 50"

text \<open>\<open>(reasoning or "").strip()\<close>.\<close>

definition stripped_reasoning :: "pyval \<Rightarrow> string res" where
  "stripped_reasoning v =
     (if \<not> truthy v then Inr []
      else case v of PStr s \<Rightarrow> Inr (strip s)
        | _ \<Rightarrow> Inl (Exn ''AttributeError'' (repr_str (type_name v) @ '' object has no attribute '' @ repr_str ''strip'')))"

definition hybrid_propose :: "'w strategy \<Rightarrow> 'w strategy option \<Rightarrow> 'w strategy" where
  "hybrid_propose static llm d a h =
     (case llm of
        None \<Rightarrow> static d a h
      | Some propose \<Rightarrow>
          (case propose d a h of
             (Inl x, h') \<Rightarrow> (if is_exception x then static d a h' else (Inl x, h'))
           | (Inr out, h') \<Rightarrow>
               (case stripped_reasoning (fo_reasoning out) of
                  Inl x \<Rightarrow> (Inl x, h')
                | Inr reasoning \<Rightarrow>
                    (if fo_files_touched out \<noteq> [] \<or> length reasoning \<ge> min_reasoning_len
                     then (Inr out, h') else static d a h'))))"

section \<open>The model-backed strategy\<close>

text \<open>\<open>wr_write\<close> creates the directory and writes the file; an \<open>OSError\<close> is its only caught failure.\<close>

record 'w claude_fixer =
  cf_lm :: "'w harness_state llm_env"
  cf_code :: "code_reader option"
  cf_max_turns :: int
  cf_max_budget :: "real option"
  cf_system_prompt :: string
  cf_dump_hypothesis :: "root_cause_hypothesis \<Rightarrow> pyval"
  cf_dumps_indent :: "pyval \<Rightarrow> string"
  cf_repr_float :: "real \<Rightarrow> string"
  cf_write :: "string \<Rightarrow> string \<Rightarrow> 'w harness_state \<Rightarrow> string res \<times> 'w harness_state"

definition key_error :: "string \<Rightarrow> pyexn" where
  "key_error k = Exn ''KeyError'' (repr_str k)"

definition str_arg :: "(string, pyval) dict \<Rightarrow> string \<Rightarrow> string res" where
  "str_arg args k =
     (case dict_get args k of
        None \<Rightarrow> Inl (key_error k)
      | Some (PStr s) \<Rightarrow> Inr s
      | Some v \<Rightarrow> Inl (Exn ''TypeError'' (''expected str, got '' @ type_name v)))"

text \<open>A handler turns the reader's own errors into text and lets every other exception out.\<close>

definition tool_text :: "string \<Rightarrow> string res \<Rightarrow> string res" where
  "tool_text name r =
     (case r of
        Inl (Exn c m) \<Rightarrow> (if c = ''CodeReadError'' then Inr (''error: '' @ name @ '': '' @ m) else Inl (Exn c m))
      | _ \<Rightarrow> r)"

definition read_file_tool :: "code_reader \<Rightarrow> (string, pyval) dict \<Rightarrow> string res" where
  "read_file_tool rd args =
     tool_text ''read_file'' (res_bind (str_arg args ''path'') (\<lambda>p. read_file rd p None None))"

definition list_files_tool :: "code_reader \<Rightarrow> (string, pyval) dict \<Rightarrow> string res" where
  "list_files_tool rd args =
     tool_text ''list_files'' (res_bind (str_arg args ''glob'') (\<lambda>g. Inr (join nl (list_files rd g))))"

definition grep_tool :: "code_reader \<Rightarrow> (string, pyval) dict \<Rightarrow> string res" where
  "grep_tool rd args =
     tool_text ''grep'' (res_bind (str_arg args ''pattern'') (\<lambda>pat. res_bind (str_arg args ''glob'') (\<lambda>g.
       res_bind (grep rd pat g) (\<lambda>hits.
         Inr (if hits = [] then ''(no matches)''
              else join nl (map (\<lambda>(p, ln, txt). p @ '':'' @ nat_str ln @ '':'' @ txt) hits))))))"

definition string_schema :: "string list \<Rightarrow> pyval" where
  "string_schema ks =
     PDict [(''type'', PStr ''object''),
       (''properties'', PDict (map (\<lambda>k. (k, PDict [(''type'', PStr ''string'')])) ks)),
       (''required'', PList (map PStr ks))]"

definition code_tools :: "code_reader \<Rightarrow> 'h llm_tool list" where
  "code_tools rd =
     [\<lparr>lt_name = ''read_file'', lt_description = ''Read a file from the target repo.'',
       lt_parameters = string_schema [''path''], lt_handler = (\<lambda>args h. (read_file_tool rd args, h))\<rparr>,
      \<lparr>lt_name = ''list_files'', lt_description = ''List files matching a glob in the target repo.'',
       lt_parameters = string_schema [''glob''], lt_handler = (\<lambda>args h. (list_files_tool rd args, h))\<rparr>,
      \<lparr>lt_name = ''grep'',
       lt_description = ''Regex search across files matching glob. Returns 'path:line:text' rows.'',
       lt_parameters = string_schema [''pattern'', ''glob''], lt_handler = (\<lambda>args h. (grep_tool rd args, h))\<rparr>]"

definition fix_user_prompt :: "'w claude_fixer \<Rightarrow> diagnosis_report \<Rightarrow> fix_action \<Rightarrow> string res" where
  "fix_user_prompt cf d a =
     (case dr_hypotheses d of
        [] \<Rightarrow> Inl index_error
      | lead # _ \<Rightarrow>
          Inr (''Propose a fix for the diagnosis below. Use your tools to read the target's '' @
            ''code; do not invent files that don't exist. Return ONLY a JSON object with '' @
            ''these fields: {\"reasoning\": str, \"files_touched\": [str], '' @
            ''\"regression_test_added\": bool, \"edits\": [{\"path\": str, \"intent\": str}]}.'' @ nl @ nl @
            fence @ ''json'' @ nl @
            cf_dumps_indent cf (PDict [(''experiment_id'', PStr (dr_experiment_id d)),
              (''intended_action'', PStr (fix_action_value a)),
              (''top_hypothesis'', cf_dump_hypothesis cf lead),
              (''all_hypotheses'', PList (map (cf_dump_hypothesis cf) (dr_hypotheses d)))]) @ nl @ fence))"

fun all_strs :: "pyval list \<Rightarrow> string list option" where
  "all_strs [] = Some []"
| "all_strs (PStr s # vs) = map_option (\<lambda>ss. s # ss) (all_strs vs)"
| "all_strs (v # vs) = None"

record fix_payload =
  fy_payload :: "(string, pyval) dict"
  fy_reasoning :: pyval
  fy_files :: "string list"

definition parse_fix_proposal :: "(string \<Rightarrow> pyval option) \<Rightarrow> string \<Rightarrow> fix_payload option" where
  "parse_fix_proposal loads t =
     (case parse_json_object loads t of
        None \<Rightarrow> None
      | Some payload \<Rightarrow>
          (case (dict_get payload ''reasoning'', dict_get payload ''files_touched'') of
             (Some r, Some (PList vs)) \<Rightarrow>
               map_option (\<lambda>ss. \<lparr>fy_payload = payload, fy_reasoning = r, fy_files = ss\<rparr>) (all_strs vs)
           | _ \<Rightarrow> None))"

definition os_errors :: "string list" where
  "os_errors =
     [''OSError'', ''IOError'', ''PermissionError'', ''FileNotFoundError'', ''FileExistsError'', ''NotADirectoryError'',
      ''IsADirectoryError'', ''InterruptedError'', ''BlockingIOError'', ''TimeoutError'', ''ConnectionError'']"

definition write_artifact ::
  "'w claude_fixer \<Rightarrow> string \<Rightarrow> (string, pyval) dict \<Rightarrow> 'w harness_state \<Rightarrow> string option res \<times> 'w harness_state" where
  "write_artifact cf eid payload h =
     (case cf_write cf (eid @ ''/proposed/edits.json'') (cf_dumps_indent cf (PDict payload)) h of
        (Inr path, h') \<Rightarrow> (Inr (Some path), h')
      | (Inl (Exn c m), h') \<Rightarrow> (if c \<in> set os_errors then (Inr None, h') else (Inl (Exn c m), h'))
      | (Inl (BaseExn c), h') \<Rightarrow> (Inl (BaseExn c), h'))"

definition empty_output :: "string \<Rightarrow> fixer_output" where
  "empty_output reasoning =
     \<lparr>fo_reasoning = PStr reasoning, fo_files_touched = [], fo_regression_test_added = False, fo_pr_url = None\<rparr>"

definition loads_of :: "'h llm_env \<Rightarrow> string \<Rightarrow> pyval option" where
  "loads_of lm s = (case lm_loads lm s of Inr v \<Rightarrow> Some v | Inl e \<Rightarrow> None)"

definition claude_output :: "'w claude_fixer \<Rightarrow> fix_payload \<Rightarrow> string option \<Rightarrow> fixer_output" where
  "claude_output cf y artifact =
     \<lparr>fo_reasoning =
        (case artifact of
           Some p \<Rightarrow> PStr (py_str (cf_repr_float cf) (fy_reasoning y) @ nl @ nl @ ''(Proposal artifact: '' @ p @ '')'')
         | None \<Rightarrow> fy_reasoning y),
      fo_files_touched = fy_files y,
      fo_regression_test_added = truthy (param (fy_payload y) ''regression_test_added'' (PBool False)),
      fo_pr_url = None\<rparr>"

definition claude_propose :: "'w claude_fixer \<Rightarrow> 'w strategy" where
  "claude_propose cf d a h =
     (case cf_code cf of
        None \<Rightarrow> (Inr (empty_output (''ClaudeFixerStrategy: no TargetCodeReader configured. '' @
            ''Pass code=... when constructing the strategy.'')), h)
      | Some rd \<Rightarrow>
          (case fix_user_prompt cf d a of
             Inl x \<Rightarrow> (Inl x, h)
           | Inr user \<Rightarrow>
               (case complete_with_tools (cf_lm cf) (code_tools rd) (cf_system_prompt cf) user
                       (cf_max_turns cf) (cf_max_budget cf) 3 h of
                  (Inl x, h1) \<Rightarrow> (Inl x, h1)
                | (Inr r, h1) \<Rightarrow>
                    (case parse_fix_proposal (loads_of (cf_lm cf)) (cr_final_text r) of
                       None \<Rightarrow> (Inr (empty_output
                           (''ClaudeFixerStrategy: model output did not parse as a fix proposal. '' @
                            ''Raw text length: '' @ nat_str (length (cr_final_text r)) @ '' chars.'')), h1)
                     | Some y \<Rightarrow>
                         (case write_artifact cf (dr_experiment_id d) (fy_payload y) h1 of
                            (Inl x, h2) \<Rightarrow> (Inl x, h2)
                          | (Inr artifact, h2) \<Rightarrow> (Inr (claude_output cf y artifact), h2))))))"

end
