(* ===== verification/Query_Backends.thy ===== *)
theory Query_Backends
  imports Llm_Text
begin

text \<open>
  The query backends the agents read evidence from: Loki (\<open>agents/diagnostician/tools/loki.py\<close>) and
  Prometheus (\<open>agents/tester/tools/prometheus.py\<close>), each with its HTTP client, its fixture and its
  response parser. The HTTP client is the argument \<open>send\<close>; a transport failure is an exception the
  retry environment accepts. A point's value is a number or a NaN (\<open>None\<close>); \<open>num\<close> is
  \<open>float(v)\<close>, giving \<open>None\<close> for NaN, and \<open>fr\<close> prints a float.
\<close>

section \<open>HTTP\<close>

record http_response =
  hr_status :: int
  hr_text :: string
  hr_json :: "pyval res"

type_synonym params = "(string, string) dict"

type_synonym 'w http = "string \<Rightarrow> params \<Rightarrow> 'w \<Rightarrow> http_response res \<times> 'w"

definition rstrip_slash :: "string \<Rightarrow> string" where
  "rstrip_slash u = rev (dropWhile (\<lambda>c. c = CHR ''/'') (rev u))"

text \<open>\<open>resp.json()\<close>, the status field and the data of a response, or the backend's error.\<close>

definition response_data :: "(real \<Rightarrow> string) \<Rightarrow> string \<Rightarrow> string \<Rightarrow> http_response \<Rightarrow> pyval res" where
  "response_data fr cls name resp =
     (if hr_status resp \<noteq> 200
      then Inl (Exn cls (name @ '' HTTP '' @ int_str (hr_status resp) @ '': '' @ take 200 (hr_text resp)))
      else res_bind (hr_json resp) (\<lambda>payload.
        res_bind (get_item payload ''status'' PNone) (\<lambda>status.
          if status \<noteq> PStr ''success''
          then res_bind (get_item payload ''error'' payload) (\<lambda>e.
            Inl (Exn cls (name @ '' query failed: '' @ py_str fr e)))
          else get_item payload ''data'' (PDict []))))"

definition http_query ::
  "(real \<Rightarrow> string) \<Rightarrow> 'w retry_env \<Rightarrow> 'w http \<Rightarrow> string \<Rightarrow> string \<Rightarrow> string \<Rightarrow> string \<Rightarrow> params \<Rightarrow> 'w \<Rightarrow>
    pyval res \<times> 'w" where
  "http_query fr re send cls name base path ps w =
     (case async_retry re (send (base @ path) ps) 3 (1 / 5) 5 (1 / 10) w of
        (r, w') \<Rightarrow> (res_bind r (response_data fr cls name), w'))"

text \<open>\<open>os.environ.get(var) or default\<close>, and the complaint when there is none.\<close>

definition url_from_env :: "string \<Rightarrow> string \<Rightarrow> (string \<Rightarrow> string option) \<Rightarrow> string \<Rightarrow> string option \<Rightarrow> string res" where
  "url_from_env cls name env var dflt =
     (let from_env = (case env var of Some u \<Rightarrow> u | None \<Rightarrow> []);
          url = (if from_env \<noteq> [] then from_env else (case dflt of Some u \<Rightarrow> u | None \<Rightarrow> []))
      in if url = []
         then Inl (Exn cls (''No '' @ name @ '' URL configured. Set $'' @ var @ '' or pass explicitly.''))
         else Inr (rstrip_slash url))"

definition as_dict :: "pyval \<Rightarrow> (string, pyval) dict res" where
  "as_dict v = (case v of PDict d \<Rightarrow> Inr d | _ \<Rightarrow> Inl (Exn ''TypeError'' ''object is not a mapping''))"

definition py_item :: "pyval \<Rightarrow> nat \<Rightarrow> pyval res" where
  "py_item v i =
     (case v of
        PList xs \<Rightarrow> (if i < length xs then Inr (xs ! i) else Inl (Exn ''IndexError'' ''list index out of range''))
      | PStr s \<Rightarrow> (if i < length s then Inr (PStr [s ! i]) else Inl (Exn ''IndexError'' ''string index out of range''))
      | _ \<Rightarrow> Inl (Exn ''TypeError'' ''object is not subscriptable''))"

section \<open>Loki\<close>

record log_line =
  ll_timestamp_ns :: int
  ll_line :: string
  ll_labels :: "(string, pyval) dict"

text \<open>\<open>int(t * 1_000_000_000)\<close>.\<close>

definition nanos :: "real \<Rightarrow> int" where
  "nanos t = (let x = t * 1000000000 in if x < 0 then - \<lfloor>- x\<rfloor> else \<lfloor>x\<rfloor>)"

definition loki_entry :: "(real \<Rightarrow> string) \<Rightarrow> pyval \<Rightarrow> pyval \<Rightarrow> log_line res" where
  "loki_entry fr labels entry =
     res_bind (py_item entry 0) (\<lambda>ts.
     res_bind (py_item entry 1) (\<lambda>line.
     res_bind (py_int ts) (\<lambda>n.
     res_bind (as_dict labels) (\<lambda>ls.
       Inr \<lparr>ll_timestamp_ns = n, ll_line = py_str fr line, ll_labels = ls\<rparr>))))"

definition loki_stream :: "(real \<Rightarrow> string) \<Rightarrow> pyval \<Rightarrow> log_line list res" where
  "loki_stream fr stream =
     res_bind (get_item stream ''stream'' (PDict [])) (\<lambda>labels.
     res_bind (get_items stream ''values'') (\<lambda>entries.
       res_map (loki_entry fr labels) entries))"

definition parse_streams :: "(real \<Rightarrow> string) \<Rightarrow> pyval \<Rightarrow> log_line list res" where
  "parse_streams fr data =
     res_bind (get_items data ''result'') (\<lambda>streams.
     res_bind (res_map (loki_stream fr) streams) (\<lambda>xss. Inr (concat xss)))"

definition loki_get ::
  "(real \<Rightarrow> string) \<Rightarrow> 'w retry_env \<Rightarrow> 'w http \<Rightarrow> string \<Rightarrow> string \<Rightarrow> params \<Rightarrow> 'w \<Rightarrow> pyval res \<times> 'w" where
  "loki_get fr re send = http_query fr re send ''LokiQueryError'' ''Loki''"

definition loki_from_env :: "(string \<Rightarrow> string option) \<Rightarrow> string \<Rightarrow> string option \<Rightarrow> string res" where
  "loki_from_env = url_from_env ''LokiQueryError'' ''Loki''"

definition loki_query_range ::
  "(real \<Rightarrow> string) \<Rightarrow> 'w retry_env \<Rightarrow> 'w http \<Rightarrow> string \<Rightarrow> string \<Rightarrow> real \<Rightarrow> real \<Rightarrow> int \<Rightarrow> 'w \<Rightarrow>
    log_line list res \<times> 'w" where
  "loki_query_range fr re send base logql start end_time limit w =
     (case loki_get fr re send base ''/loki/api/v1/query_range''
         [(''query'', logql), (''start'', int_str (nanos start)), (''end'', int_str (nanos end_time)),
          (''limit'', int_str limit), (''direction'', ''forward'')] w of
        (r, w') \<Rightarrow> (res_bind r (parse_streams fr), w'))"

record loki_fixture_stream =
  lf_labels :: "(string, pyval) dict"
  lf_lines :: "(int \<times> string) list"

definition fixture_loki_set ::
  "string \<Rightarrow> loki_fixture_stream list \<Rightarrow> (string, loki_fixture_stream list) dict \<Rightarrow> (string, loki_fixture_stream list) dict"
where "fixture_loki_set logql streams fixtures = dict_set logql streams fixtures"

fun fixture_lines ::
  "int \<Rightarrow> int \<Rightarrow> int \<Rightarrow> (string, pyval) dict \<Rightarrow> (int \<times> string) list \<Rightarrow> log_line list \<Rightarrow> log_line list \<times> bool" where
  "fixture_lines lo hi limit labels [] out = (out, False)"
| "fixture_lines lo hi limit labels ((ts, line) # rest) out =
     (if lo \<le> ts \<and> ts \<le> hi
      then let out' = out @ [\<lparr>ll_timestamp_ns = ts, ll_line = line, ll_labels = labels\<rparr>] in
        if int (length out') \<ge> limit then (out', True) else fixture_lines lo hi limit labels rest out'
      else fixture_lines lo hi limit labels rest out)"

fun fixture_streams :: "int \<Rightarrow> int \<Rightarrow> int \<Rightarrow> loki_fixture_stream list \<Rightarrow> log_line list \<Rightarrow> log_line list" where
  "fixture_streams lo hi limit [] out = out"
| "fixture_streams lo hi limit (s # ss) out =
     (case fixture_lines lo hi limit (lf_labels s) (lf_lines s) out of
        (out', True) \<Rightarrow> out'
      | (out', False) \<Rightarrow> fixture_streams lo hi limit ss out')"

definition fixture_loki_query ::
  "(string, loki_fixture_stream list) dict \<Rightarrow> string \<Rightarrow> real \<Rightarrow> real \<Rightarrow> int \<Rightarrow> log_line list res" where
  "fixture_loki_query fixtures logql start end_time limit =
     (case dict_get fixtures logql of
        None \<Rightarrow> Inl (Exn ''LokiQueryError'' (''No fixture for LogQL: '' @ repr_str logql))
      | Some streams \<Rightarrow> Inr (fixture_streams (nanos start) (nanos end_time) limit streams []))"

section \<open>Prometheus\<close>

record instant_sample =
  is_timestamp :: "real option"
  is_value :: "real option"
  is_labels :: "(string, pyval) dict"

fun value_error :: "pyexn \<Rightarrow> bool" where
  "value_error (Exn c m) = (c = ''TypeError'' \<or> c = ''ValueError'')"
| "value_error (BaseExn c) = False"

definition pt_to_sample :: "(pyval \<Rightarrow> real option res) \<Rightarrow> pyval \<Rightarrow> pyval \<Rightarrow> instant_sample res" where
  "pt_to_sample num point labels =
     res_bind (py_item point 0) (\<lambda>p0.
     res_bind (num p0) (\<lambda>ts.
     res_bind (py_item point 1) (\<lambda>raw.
     res_bind (case num raw of Inl x \<Rightarrow> (if value_error x then Inr None else Inl x) | Inr v \<Rightarrow> Inr v) (\<lambda>v.
     res_bind (as_dict labels) (\<lambda>ls.
       Inr \<lparr>is_timestamp = ts, is_value = v, is_labels = ls\<rparr>)))))"

definition instant_item :: "(pyval \<Rightarrow> real option res) \<Rightarrow> pyval \<Rightarrow> instant_sample res" where
  "instant_item num v =
     res_bind (get_item v ''value'' (PList [PInt 0, PStr ''0''])) (\<lambda>pt.
     res_bind (get_item v ''metric'' (PDict [])) (\<lambda>ls. pt_to_sample num pt ls))"

definition parse_instant :: "(pyval \<Rightarrow> real option res) \<Rightarrow> pyval \<Rightarrow> instant_sample list res" where
  "parse_instant num data = res_bind (get_items data ''result'') (res_map (instant_item num))"

definition range_item :: "(pyval \<Rightarrow> real option res) \<Rightarrow> pyval \<Rightarrow> instant_sample list res" where
  "range_item num v =
     res_bind (get_item v ''metric'' (PDict [])) (\<lambda>ls.
     res_bind (get_items v ''values'') (\<lambda>pts. res_map (\<lambda>pt. pt_to_sample num pt ls) pts))"

definition parse_range :: "(pyval \<Rightarrow> real option res) \<Rightarrow> pyval \<Rightarrow> instant_sample list list res" where
  "parse_range num data = res_bind (get_items data ''result'') (res_map (range_item num))"

definition prom_get ::
  "(real \<Rightarrow> string) \<Rightarrow> 'w retry_env \<Rightarrow> 'w http \<Rightarrow> string \<Rightarrow> string \<Rightarrow> params \<Rightarrow> 'w \<Rightarrow> pyval res \<times> 'w" where
  "prom_get fr re send = http_query fr re send ''PromQueryError'' ''Prometheus''"

definition prom_from_env :: "(string \<Rightarrow> string option) \<Rightarrow> string \<Rightarrow> string option \<Rightarrow> string res" where
  "prom_from_env = url_from_env ''PromQueryError'' ''Prometheus''"

definition prom_query_instant ::
  "(real \<Rightarrow> string) \<Rightarrow> (pyval \<Rightarrow> real option res) \<Rightarrow> 'w retry_env \<Rightarrow> 'w http \<Rightarrow> string \<Rightarrow> string \<Rightarrow> real option \<Rightarrow> 'w \<Rightarrow>
    instant_sample list res \<times> 'w" where
  "prom_query_instant fr num re send base query ts w =
     (case prom_get fr re send base ''/api/v1/query''
         ((''query'', query) # (case ts of None \<Rightarrow> [] | Some t \<Rightarrow> [(''time'', fr t)])) w of
        (r, w') \<Rightarrow> (res_bind r (parse_instant num), w'))"

definition prom_query_range ::
  "(real \<Rightarrow> string) \<Rightarrow> (pyval \<Rightarrow> real option res) \<Rightarrow> 'w retry_env \<Rightarrow> 'w http \<Rightarrow> string \<Rightarrow> string \<Rightarrow>
    real \<Rightarrow> real \<Rightarrow> real \<Rightarrow> 'w \<Rightarrow> instant_sample list list res \<times> 'w" where
  "prom_query_range fr num re send base query start end_time step w =
     (case prom_get fr re send base ''/api/v1/query_range''
         [(''query'', query), (''start'', fr start), (''end'', fr end_time), (''step'', fr step)] w of
        (r, w') \<Rightarrow> (res_bind r (parse_range num), w'))"

text \<open>A fixture entry: Prometheus-shaped when \<open>value\<close> is a list, otherwise a flat sample.\<close>

definition dict_to_sample :: "(pyval \<Rightarrow> real option res) \<Rightarrow> (string, pyval) dict \<Rightarrow> instant_sample res" where
  "dict_to_sample num d =
     (case dict_get d ''value'' of
        Some (PList pt) \<Rightarrow> pt_to_sample num (PList pt) (param d ''labels'' (PDict []))
      | _ \<Rightarrow>
          (case (dict_get d ''timestamp'', dict_get d ''value'') of
             (Some t, Some v) \<Rightarrow>
               res_bind (num t) (\<lambda>ts. res_bind (num v) (\<lambda>x.
                 res_bind (as_dict (param d ''labels'' (PDict []))) (\<lambda>ls.
                   Inr \<lparr>is_timestamp = ts, is_value = x, is_labels = ls\<rparr>)))
           | (None, _) \<Rightarrow> Inl (Exn ''KeyError'' (repr_str ''timestamp''))
           | (_, None) \<Rightarrow> Inl (Exn ''KeyError'' (repr_str ''value''))))"

record prom_fixture =
  pf_instant :: "(string, (string, pyval) dict list) dict"
  pf_range :: "(string, (string, pyval) dict list list) dict"
  pf_default_instant :: "(string, pyval) dict list option"

datatype fixture_payload = Instant_payload "(string, pyval) dict list" | Range_payload "(string, pyval) dict list list"

fun fixture_prom_set :: "string \<Rightarrow> fixture_payload \<Rightarrow> prom_fixture \<Rightarrow> prom_fixture" where
  "fixture_prom_set q (Instant_payload ps) pf = pf\<lparr>pf_instant := dict_set q ps (pf_instant pf)\<rparr>"
| "fixture_prom_set q (Range_payload ss) pf = pf\<lparr>pf_range := dict_set q ss (pf_range pf)\<rparr>"

definition fixture_query_instant ::
  "(pyval \<Rightarrow> real option res) \<Rightarrow> prom_fixture \<Rightarrow> string \<Rightarrow> instant_sample list res" where
  "fixture_query_instant num pf q =
     (case dict_get (pf_instant pf) q of
        Some ps \<Rightarrow> res_map (dict_to_sample num) ps
      | None \<Rightarrow>
          (case pf_default_instant pf of
             Some ps \<Rightarrow> res_map (dict_to_sample num) ps
           | None \<Rightarrow> Inl (Exn ''PromQueryError'' (''No fixture for instant query: '' @ repr_str q))))"

definition fixture_query_range ::
  "(pyval \<Rightarrow> real option res) \<Rightarrow> prom_fixture \<Rightarrow> string \<Rightarrow> instant_sample list list res" where
  "fixture_query_range num pf q =
     (case dict_get (pf_range pf) q of
        Some series \<Rightarrow> res_map (res_map (dict_to_sample num)) series
      | None \<Rightarrow> Inl (Exn ''PromQueryError'' (''No fixture for range query: '' @ repr_str q)))"

section \<open>Facts\<close>

lemma fixture_lines_window:
  "fixture_lines lo hi limit labels lines out = (out', stop) \<Longrightarrow> int (length out) < max 1 limit \<Longrightarrow>
    (\<forall>l \<in> set out. lo \<le> ll_timestamp_ns l \<and> ll_timestamp_ns l \<le> hi) \<Longrightarrow>
    (\<forall>l \<in> set out'. lo \<le> ll_timestamp_ns l \<and> ll_timestamp_ns l \<le> hi) \<and> int (length out') \<le> max 1 limit \<and>
    (\<not> stop \<longrightarrow> int (length out') < max 1 limit)"
  by (induction lo hi limit labels lines out rule: fixture_lines.induct)
     (auto simp: Let_def split: if_splits)

lemma fixture_streams_window:
  "int (length out) < max 1 limit \<Longrightarrow>
    (\<forall>l \<in> set out. lo \<le> ll_timestamp_ns l \<and> ll_timestamp_ns l \<le> hi) \<Longrightarrow>
    (\<forall>l \<in> set (fixture_streams lo hi limit ss out). lo \<le> ll_timestamp_ns l \<and> ll_timestamp_ns l \<le> hi) \<and>
    int (length (fixture_streams lo hi limit ss out)) \<le> max 1 limit"
proof (induction ss arbitrary: out)
  case (Cons s ss)
  obtain out' stop where f: "fixture_lines lo hi limit (lf_labels s) (lf_lines s) out = (out', stop)" by fastforce
  show ?case using fixture_lines_window [OF f Cons.prems] Cons.IH [of out'] f by (cases stop) auto
qed simp

text \<open>A Loki response of one stream, as the API documents it, is read back line by line.\<close>

definition loki_payload :: "(string, pyval) dict \<Rightarrow> (int \<times> string) list \<Rightarrow> pyval" where
  "loki_payload labels lines =
     PDict [(''result'', PList [PDict [(''stream'', PDict labels),
       (''values'', PList (map (\<lambda>(ts, l). PList [PInt ts, PStr l]) lines))]])]"

lemma loki_payload_round_trip:
  "parse_streams fr (loki_payload labels lines) =
    Inr (map (\<lambda>(ts, l). \<lparr>ll_timestamp_ns = ts, ll_line = l, ll_labels = labels\<rparr>) lines)"
proof -
  have "res_map (loki_entry fr (PDict labels)) (map (\<lambda>(ts, l). PList [PInt ts, PStr l]) lines) =
    Inr (map (\<lambda>(ts, l). \<lparr>ll_timestamp_ns = ts, ll_line = l, ll_labels = labels\<rparr>) lines)"
    by (induction lines) (auto simp: loki_entry_def py_item_def as_dict_def)
  then show ?thesis
    by (simp add: parse_streams_def loki_payload_def loki_stream_def get_items_def get_item_def param_def dict_get_def)
qed

end
