(* ===== verification/Diagnoser.thy ===== *)
theory Diagnoser
  imports Fixer Query_Backends Catalogue
begin

text \<open>
  The diagnostician: its strategies (\<open>agents/diagnostician/diagnoser.py\<close>) and the agent that ranks
  their hypotheses (\<open>agents/diagnostician/agent.py\<close>).

  A diagnoser is a function of the request on the harness state. Arguments: the printing of a
  timestamp (\<open>isoformat\<close>), the pydantic constructor of a hypothesis from a model's JSON, the contract dumps and the
  language-model environment of \<open>Tool_Loop\<close>; the backends of \<open>Query_Backends\<close> are optional, as in the code.
\<close>

section \<open>Static rules\<close>

record fix_rule =
  fr_class :: string
  fr_confidence :: real
  fr_before :: string
  fr_after :: string

definition rule :: "string \<Rightarrow> real \<Rightarrow> string \<Rightarrow> string \<Rightarrow> fix_rule" where
  "rule c x before after = \<lparr>fr_class = c, fr_confidence = x, fr_before = before, fr_after = after\<rparr>"

text \<open>\<open>_FAULT_TO_FIX_RULES.get(category, [])\<close>; a summary template is its text before and after \<open>{selector}\<close>.\<close>

fun fault_to_fix_rules :: "fault_category \<Rightarrow> fix_rule list" where
  "fault_to_fix_rules FC_NETWORK =
     [rule ''missing-retry'' (11 / 20) ''Network fault on '' '': dependency call likely lacks retry/backoff'',
      rule ''missing-timeout'' (9 / 20) ''Network fault on '' '': call may block beyond a sensible bound'',
      rule ''missing-fallback'' (7 / 20) ''Network fault on '' '': no graceful-degradation path observed'']"
| "fault_to_fix_rules FC_POD =
     [rule ''missing-fallback'' (9 / 20) ''Pod fault on '' '': caller has no failover path while pod restarts'',
      rule ''working-as-intended'' (3 / 10) ''Pod fault on '' '': may be expected if Deployment is single-replica by design'']"
| "fault_to_fix_rules FC_STRESS =
     [rule ''missing-timeout'' (9 / 20) ''Resource pressure on '' '': hot-path call may have unbounded wait'',
      rule ''config-change'' (3 / 10) ''Resource limits on '' '' may need adjustment'']"
| "fault_to_fix_rules FC_CERT =
     [rule ''secret-handling'' (3 / 5) ''Cert fault on '' '': cert lifecycle / OCSP handling appears fragile'']"
| "fault_to_fix_rules FC_TLS =
     [rule ''auth-control-gap'' (11 / 20) ''TLS fault on '' '': protocol downgrade may be silently accepted'']"
| "fault_to_fix_rules FC_AUTH =
     [rule ''auth-control-gap'' (13 / 20) ''Auth fault on '' '': control may fail open instead of closed'']"
| "fault_to_fix_rules FC_SECRET =
     [rule ''secret-handling'' (13 / 20) ''Secret rotation on '' '': runtime did not pick up the new value'']"
| "fault_to_fix_rules FC_IMAGE =
     [rule ''image-policy'' (7 / 10) ''Image swap on '' '': admission policy may be missing or permissive'']"
| "fault_to_fix_rules FC_IAM =
     [rule ''auth-control-gap'' (11 / 20) ''IAM degradation on '' '': surfaced a policy gap'']"
| "fault_to_fix_rules FC_NETPOL =
     [rule ''config-change'' (11 / 20) ''NetworkPolicy regression on '' '': app-layer enforcement absent'']"
| "fault_to_fix_rules FC_DNS =
     [rule ''missing-retry'' (9 / 20) ''DNS error from '' '': resolver lacks fallback / retry'',
      rule ''missing-timeout'' (2 / 5) ''DNS error from '' '': resolver call may be unbounded'']"
| "fault_to_fix_rules FC_IO =
     [rule ''missing-timeout'' (9 / 20) ''I/O latency on '' '': filesystem call may be unbounded'']"
| "fault_to_fix_rules FC_HTTP =
     [rule ''missing-retry'' (9 / 20) ''HTTP fault on '' '': no retry on transient 5xx'',
      rule ''missing-fallback'' (3 / 10) ''HTTP fault on '' '': no degraded path'']"
| "fault_to_fix_rules FC_TIME =
     [rule ''config-change'' (7 / 20) ''Time skew on '' '': clock-dependent logic flagged'']"
| "fault_to_fix_rules FC_KERNEL =
     [rule ''config-change'' (3 / 10) ''Kernel fault on '' '': usually requires infra-side fix'']"
| "fault_to_fix_rules FC_EGRESS =
     [rule ''auth-control-gap'' (9 / 20) ''Unexpected egress from '' '': runtime sensor / netpol gap'']"
| "fault_to_fix_rules FC_RUNTIME =
     [rule ''config-change'' (2 / 5) ''Runtime tamper on '' '': missing read-only/seccomp guard'']"
| "fault_to_fix_rules FC_RF = []"
| "fault_to_fix_rules FC_POWER = []"
| "fault_to_fix_rules FC_SENSOR = []"

definition symptom_boosts :: "(string, (string \<times> real) list) dict" where
  "symptom_boosts =
     [
      (''missing-timeout'', [(''latency'', 3 / 20), (''p95'', 1 / 10), (''hung'', 1 / 5), (''timeout'', 1 / 10)]),
      (''missing-retry'', [(''transient'', 3 / 20), (''connection refused'', 3 / 20), (''5xx'', 1 / 10), (''retry'', 1 / 20)]),
      (''missing-fallback'', [(''503'', 1 / 10), (''unavailable'', 1 / 10), (''cascade'', 1 / 5)]),
      (''auth-control-gap'', [(''401'', 1 / 10), (''403'', 1 / 10), (''unauthenticated'', 3 / 20), (''bypass'', 1 / 5)]),
      (''secret-handling'', [(''expired'', 1 / 5), (''invalid signature'', 3 / 20), (''rotation'', 3 / 20)]),
      (''image-policy'', [(''admitted'', 1 / 5), (''vulnerable'', 1 / 10), (''CVE-'', 1 / 10)])]"

text \<open>\<open>xs[:m]\<close>.\<close>

definition slice_to :: "int \<Rightarrow> 'a list \<Rightarrow> 'a list" where
  "slice_to m xs = (if m \<ge> 0 then take (nat m) xs else take (length xs - nat (- m)) xs)"

definition gather_symptom_text :: "diagnosis_request \<Rightarrow> string" where
  "gather_symptom_text q =
     lower (join '' ''
       ((case dq_failed_tester_report q of None \<Rightarrow> [] | Some t \<Rightarrow> tr_failed_probes t @ tr_anomalies t @ [tr_notes t]) @
        (case dq_failed_security_report q of None \<Rightarrow> []
         | Some s \<Rightarrow> concat (map (\<lambda>f. [sf_title f, sf_description f]) (sp_findings s)))))"

definition symptom_bonus :: "string \<Rightarrow> (string \<times> real) list \<Rightarrow> real" where
  "symptom_bonus symptoms boosts =
     foldl (\<lambda>bonus (phrase, weight). if str_in (lower phrase) symptoms then bonus + weight else bonus) 0 boosts"

definition adjust_confidence :: "real \<Rightarrow> string \<Rightarrow> string \<Rightarrow> real" where
  "adjust_confidence base fix_class symptoms =
     max 0 (min 1 (base + symptom_bonus symptoms
       (case dict_get symptom_boosts fix_class of Some bs \<Rightarrow> bs | None \<Rightarrow> [])))"

definition build_evidence :: "(int \<Rightarrow> string) \<Rightarrow> diagnosis_request \<Rightarrow> timeline_event \<Rightarrow> string list" where
  "build_evidence isof q ev =
     [''chaos timeline: '' @ timeline_kind_value (te_event ev) @ '' '' @ te_fault_name ev @ '' at '' @ isof (te_timestamp ev)] @
     (case dq_failed_tester_report q of
        None \<Rightarrow> []
      | Some t \<Rightarrow>
          (if tr_anomalies t = [] then [] else [''tester anomaly: '' @ hd (tr_anomalies t)]) @
          (if tr_failed_probes t = [] then []
           else [''tester failed_probes: '' @ join '', '' (take 3 (tr_failed_probes t))])) @
     (case dq_failed_security_report q of
        None \<Rightarrow> []
      | Some s \<Rightarrow>
          (case sp_findings s of
             [] \<Rightarrow> []
           | f # _ \<Rightarrow> [''security finding ('' @ severity_value (sf_severity f) @ ''): '' @ sf_title f]))"

definition extract_paths :: "diagnosis_request \<Rightarrow> string list" where
  "extract_paths q = []"

text \<open>The most descriptive event of each catalogued fault, in order of first appearance.\<close>

definition note_event :: "(string, timeline_event) dict \<Rightarrow> timeline_event \<Rightarrow> (string, timeline_event) dict" where
  "note_event best ev =
     (if \<not> in_catalogue (te_fault_name ev) then best
      else case dict_get best (te_fault_name ev) of
        None \<Rightarrow> dict_set (te_fault_name ev) ev best
      | Some prev \<Rightarrow> (if te_detail prev = [] \<and> te_detail ev \<noteq> [] then dict_set (te_fault_name ev) ev best else best))"

definition best_events :: "timeline_event list \<Rightarrow> (string, timeline_event) dict" where
  "best_events evs = foldl note_event [] evs"

definition rule_hypothesis ::
  "(int \<Rightarrow> string) \<Rightarrow> diagnosis_request \<Rightarrow> string \<Rightarrow> timeline_event \<Rightarrow> fix_rule \<Rightarrow> root_cause_hypothesis" where
  "rule_hypothesis isof q fault ev r =
     (let selector = (if te_detail ev \<noteq> [] then te_detail ev else fault) in
      \<lparr>rc_summary = fr_before r @ selector @ fr_after r,
       rc_confidence = adjust_confidence (fr_confidence r) (fr_class r) (gather_symptom_text q),
       rc_evidence = build_evidence isof q ev, rc_suggested_fix_class = fr_class r,
       rc_affected_paths = extract_paths q\<rparr>)"

definition fault_hypotheses ::
  "(int \<Rightarrow> string) \<Rightarrow> diagnosis_request \<Rightarrow> string \<times> timeline_event \<Rightarrow> root_cause_hypothesis list" where
  "fault_hypotheses isof q fe =
     (case catalogue_category (fst fe) of
        None \<Rightarrow> []
      | Some c \<Rightarrow> map (rule_hypothesis isof q (fst fe) (snd fe)) (fault_to_fix_rules c))"

definition no_rule_hypothesis :: "diagnosis_request \<Rightarrow> root_cause_hypothesis" where
  "no_rule_hypothesis q =
     \<lparr>rc_summary = ''static rules found no chaos-category match for the timeline; this may be '' @
        ''working-as-intended or need LLM-driven analysis'',
      rc_confidence = 1 / 10, rc_evidence = [''static diagnoser had no rule for the observed fault category''],
      rc_suggested_fix_class = ''working-as-intended'', rc_affected_paths = extract_paths q\<rparr>"

definition static_candidates :: "(int \<Rightarrow> string) \<Rightarrow> diagnosis_request \<Rightarrow> root_cause_hypothesis list" where
  "static_candidates isof q =
     (let found = concat (map (fault_hypotheses isof q) (best_events (ct_events (dq_chaos_timeline q))))
      in if found = [] then [no_rule_hypothesis q] else found)"

type_synonym 'w diagnoser =
  "diagnosis_request \<Rightarrow> 'w harness_state \<Rightarrow> root_cause_hypothesis list res \<times> 'w harness_state"

definition static_diagnose :: "(int \<Rightarrow> string) \<Rightarrow> int \<Rightarrow> 'w diagnoser" where
  "static_diagnose isof m q h = (Inr (slice_to m (rank_desc rc_confidence (static_candidates isof q))), h)"

definition fixture_diagnose :: "root_cause_hypothesis list + 'w diagnoser \<Rightarrow> 'w diagnoser" where
  "fixture_diagnose src q h = (case src of Inl hs \<Rightarrow> (Inr hs, h) | Inr f \<Rightarrow> f q h)"

section \<open>Hybrid\<close>

definition path_set :: "root_cause_hypothesis \<Rightarrow> string set" where
  "path_set x = replace_char (CHR 0x5C) [slash] ` set (rc_affected_paths x)"

definition root_cause_duplicates :: "root_cause_hypothesis \<Rightarrow> root_cause_hypothesis \<Rightarrow> bool" where
  "root_cause_duplicates x y \<longleftrightarrow>
     rc_suggested_fix_class x = rc_suggested_fix_class y \<and>
     (path_set x = {} \<and> path_set y = {} \<or> path_set x \<inter> path_set y \<noteq> {})"

text \<open>One candidate against the merged list: the first duplicate decides.\<close>

fun merge_one :: "root_cause_hypothesis \<Rightarrow> root_cause_hypothesis list \<Rightarrow> root_cause_hypothesis list" where
  "merge_one cand [] = [cand]"
| "merge_one cand (x # xs) =
     (if root_cause_duplicates x cand
      then (if rc_confidence cand > rc_confidence x then cand # xs else x # xs)
      else x # merge_one cand xs)"

definition merge_root_causes ::
  "root_cause_hypothesis list \<Rightarrow> root_cause_hypothesis list \<Rightarrow> root_cause_hypothesis list" where
  "merge_root_causes a b = rank_desc rc_confidence (foldl (\<lambda>merged cand. merge_one cand merged) [] (a @ b))"

definition hybrid_diagnose :: "'w diagnoser \<Rightarrow> 'w diagnoser option \<Rightarrow> int \<Rightarrow> 'w diagnoser" where
  "hybrid_diagnose static llm m q h =
     (case static q h of
        (Inl x, h1) \<Rightarrow> (Inl x, h1)
      | (Inr hs, h1) \<Rightarrow>
          (case llm of
             None \<Rightarrow> (Inr (slice_to m hs), h1)
           | Some diagnose \<Rightarrow>
               (case diagnose q h1 of
                  (Inl x, h2) \<Rightarrow> (if is_exception x then (Inr (slice_to m hs), h2) else (Inl x, h2))
                | (Inr ls, h2) \<Rightarrow> (Inr (slice_to m (merge_root_causes hs ls)), h2))))"

section \<open>The agent\<close>

definition notes_for :: "diagnosis_request \<Rightarrow> string" where
  "notes_for q =
     join ''; ''
       ((case dq_failed_tester_report q of None \<Rightarrow> []
         | Some t \<Rightarrow> [''tester: '' @ nat_str (length (tr_failed_probes t)) @ '' failed probe(s), '' @
             nat_str (length (tr_anomalies t)) @ '' anomaly(s)'']) @
        (case dq_failed_security_report q of None \<Rightarrow> []
         | Some s \<Rightarrow> [''security: '' @ nat_str (length (sp_findings s)) @ '' finding(s)'']) @
        [''chaos: '' @ nat_str (length (ct_events (dq_chaos_timeline q))) @ '' timeline event(s)''])"

definition unknown_hypothesis :: root_cause_hypothesis where
  "unknown_hypothesis =
     \<lparr>rc_summary = ''diagnoser produced no hypotheses'', rc_confidence = 0, rc_evidence = [],
      rc_suggested_fix_class = ''working-as-intended'', rc_affected_paths = []\<rparr>"

text \<open>\<open>rid\<close> and \<open>now\<close> are the contract's default run identifier and start time.\<close>

definition agent_diagnose ::
  "'w diagnoser \<Rightarrow> string \<Rightarrow> int \<Rightarrow> diagnosis_request \<Rightarrow> 'w harness_state \<Rightarrow> diagnosis_report res \<times> 'w harness_state" where
  "agent_diagnose diagnose rid now q h =
     (case diagnose q h of
        (Inl x, h') \<Rightarrow> (Inl x, h')
      | (Inr hs, h') \<Rightarrow>
          (let hs' = (if hs = [] then [unknown_hypothesis] else hs) in
           (Inr \<lparr>dr_experiment_id = dq_experiment_id q, dr_run_id = rid, dr_hypotheses = rank_desc rc_confidence hs',
                 dr_notes = notes_for q, dr_started_at = now, dr_finished_at = None,
                 dr_suppressed_fingerprints = [], dr_suppression_notes = []\<rparr>, h')))"

section \<open>The model-backed diagnoser\<close>

record 'w evidence =
  eb_loki :: "(string \<Rightarrow> real \<Rightarrow> real \<Rightarrow> int \<Rightarrow> 'w harness_state \<Rightarrow> log_line list res \<times> 'w harness_state) option"
  eb_prom :: "(string \<Rightarrow> real option \<Rightarrow> 'w harness_state \<Rightarrow> instant_sample list res \<times> 'w harness_state) option"
  eb_code :: "code_reader option"

record 'w claude_diagnoser =
  cg_lm :: "'w harness_state llm_env"
  cg_max_turns :: int
  cg_max_budget :: "real option"
  cg_system_prompt :: string
  cg_stamp :: "int \<Rightarrow> real"
  cg_now :: real
  cg_repr_float :: "real \<Rightarrow> string"
  cg_dumps_indent :: "pyval \<Rightarrow> string"
  cg_dump_tester :: "tester_report \<Rightarrow> pyval"
  cg_dump_security :: "security_report \<Rightarrow> pyval"
  cg_dump_timeline :: "chaos_timeline \<Rightarrow> pyval"
  cg_validate :: "(string, pyval) dict \<Rightarrow> root_cause_hypothesis res"

definition chaos_window :: "'w claude_diagnoser \<Rightarrow> diagnosis_request \<Rightarrow> real \<times> real" where
  "chaos_window cg q =
     (case ct_events (dq_chaos_timeline q) of
        [] \<Rightarrow> (cg_now cg - 30, cg_now cg + 60)
      | e # es \<Rightarrow> (cg_stamp cg (te_timestamp e) - 30, cg_stamp cg (te_timestamp (last (e # es))) + 60))"

definition or_text :: "string \<Rightarrow> string list \<Rightarrow> string" where
  "or_text none lines = (if join nl lines = [] then none else join nl lines)"

text \<open>A handler of a backend: its own query error becomes text, every other exception gets out.\<close>

definition query_text :: "string \<Rightarrow> string \<Rightarrow> string res \<Rightarrow> string res" where
  "query_text cls name r =
     (case r of
        Inl (Exn c m) \<Rightarrow> (if c = cls then Inr (''error: '' @ name @ '': '' @ m) else Inl (Exn c m))
      | _ \<Rightarrow> r)"

definition with_code ::
  "string \<Rightarrow> (code_reader \<Rightarrow> (string, pyval) dict \<Rightarrow> string res) \<Rightarrow> code_reader option \<Rightarrow> (string, pyval) dict \<Rightarrow> string res"
where
  "with_code missing f code args = (case code of None \<Rightarrow> Inr missing | Some rd \<Rightarrow> f rd args)"

definition query_loki_tool ::
  "'w evidence \<Rightarrow> real \<times> real \<Rightarrow> (string, pyval) dict \<Rightarrow> 'w harness_state \<Rightarrow> string res \<times> 'w harness_state" where
  "query_loki_tool eb window args h =
     (case eb_loki eb of
        None \<Rightarrow> (Inr ''error: no LokiBackend configured'', h)
      | Some loki \<Rightarrow>
          (case res_bind (str_arg args ''logql'') (\<lambda>ql. res_bind (int_param args ''limit'' 200) (\<lambda>n. Inr (ql, n))) of
             Inl x \<Rightarrow> (Inl x, h)
           | Inr (ql, n) \<Rightarrow>
               (case loki ql (fst window) (snd window) n h of
                  (r, h') \<Rightarrow> (query_text ''LokiQueryError'' ''query_loki''
                    (res_bind r (\<lambda>lines. Inr (or_text ''(no lines)''
                      (map (\<lambda>l. int_str (ll_timestamp_ns l) @ '': '' @ ll_line l) lines)))), h'))))"

definition sample_text :: "(real \<Rightarrow> string) \<Rightarrow> instant_sample \<Rightarrow> string" where
  "sample_text fr s =
     (case is_value s of None \<Rightarrow> ''nan'' | Some v \<Rightarrow> fr v) @ '' '' @ py_repr fr (PDict (is_labels s))"

definition query_prom_tool ::
  "(real \<Rightarrow> string) \<Rightarrow> 'w evidence \<Rightarrow> real \<times> real \<Rightarrow> (string, pyval) dict \<Rightarrow> 'w harness_state \<Rightarrow>
    string res \<times> 'w harness_state" where
  "query_prom_tool fr eb window args h =
     (case eb_prom eb of
        None \<Rightarrow> (Inr ''error: no PromBackend configured'', h)
      | Some prom \<Rightarrow>
          (case str_arg args ''promql'' of
             Inl x \<Rightarrow> (Inl x, h)
           | Inr q \<Rightarrow>
               (case prom q (Some (snd window)) h of
                  (r, h') \<Rightarrow> (query_text ''PromQueryError'' ''query_prometheus''
                    (res_bind r (\<lambda>ss. Inr (or_text ''(no samples)'' (map (sample_text fr) ss)))), h'))))"

definition loki_schema :: pyval where
  "loki_schema =
     PDict [(''type'', PStr ''object''),
       (''properties'', PDict [(''logql'', PDict [(''type'', PStr ''string'')]), (''limit'', PDict [(''type'', PStr ''integer'')])]),
       (''required'', PList [PStr ''logql''])]"

definition diagnosis_tools ::
  "'w claude_diagnoser \<Rightarrow> 'w evidence \<Rightarrow> real \<times> real \<Rightarrow> 'w harness_state llm_tool list" where
  "diagnosis_tools cg eb window =
     [\<lparr>lt_name = ''read_file'', lt_description = ''Read a file from the target repo.'',
       lt_parameters = string_schema [''path''],
       lt_handler = (\<lambda>args h. (with_code ''error: no TargetCodeReader configured for this diagnosis''
         read_file_tool (eb_code eb) args, h))\<rparr>,
      \<lparr>lt_name = ''list_files'', lt_description = ''List files matching a glob in the target repo.'',
       lt_parameters = string_schema [''glob''],
       lt_handler = (\<lambda>args h. (with_code ''error: no TargetCodeReader configured'' list_files_tool (eb_code eb) args, h))\<rparr>,
      \<lparr>lt_name = ''grep'',
       lt_description = ''Regex search across files matching glob. Returns 'path:line:text' rows.'',
       lt_parameters = string_schema [''pattern'', ''glob''],
       lt_handler = (\<lambda>args h. (with_code ''error: no TargetCodeReader configured'' grep_tool (eb_code eb) args, h))\<rparr>,
      \<lparr>lt_name = ''query_loki'',
       lt_description = ''LogQL query within the experiment's chaos window. '' @
         ''Returns lines newline-separated. Limit defaults to 200.'',
       lt_parameters = loki_schema, lt_handler = query_loki_tool eb window\<rparr>,
      \<lparr>lt_name = ''query_prometheus'', lt_description = ''PromQL instant query at the end of the chaos window.'',
       lt_parameters = string_schema [''promql''], lt_handler = query_prom_tool (cg_repr_float cg) eb window\<rparr>]"

definition or_none :: "('a \<Rightarrow> pyval) \<Rightarrow> 'a option \<Rightarrow> pyval" where
  "or_none f x = (case x of None \<Rightarrow> PNone | Some v \<Rightarrow> f v)"

definition diagnosis_user_prompt :: "'w claude_diagnoser \<Rightarrow> diagnosis_request \<Rightarrow> real \<times> real \<Rightarrow> string" where
  "diagnosis_user_prompt cg q window =
     ''Diagnose the regression described below. Use your tools to gather evidence '' @
     ''(logs in the chaos window, metrics, target source). Return ONLY a JSON array of '' @
     ''RootCauseHypothesis objects matching the schema in your system prompt, ranked '' @
     ''by confidence descending. Cite specific log lines, trace IDs, or file:line in '' @
     ''the `evidence` field.'' @ nl @ nl @ fence @ ''json'' @ nl @
     cg_dumps_indent cg (PDict
       [(''experiment_id'', PStr (dq_experiment_id q)),
        (''chaos_window_unix_seconds'', PDict [(''start'', PFloat (fst window)), (''end'', PFloat (snd window))]),
        (''failed_tester_report'', or_none (cg_dump_tester cg) (dq_failed_tester_report q)),
        (''failed_security_report'', or_none (cg_dump_security cg) (dq_failed_security_report q)),
        (''chaos_timeline'', cg_dump_timeline cg (dq_chaos_timeline q)),
        (''target_repo'', or_none PStr (dq_target_repo q))]) @ nl @ fence"

text \<open>\<open>item.get(...) not in _VALID_FIX_CLASSES\<close>: a list or mapping cannot be looked up in a set.\<close>

fun known_class :: "pyval \<Rightarrow> bool res" where
  "known_class (PStr s) = Inr (s \<in> set valid_fix_classes)"
| "known_class (PList xs) = Inl (Exn ''TypeError'' (''unhashable type: '' @ repr_str ''list''))"
| "known_class (PDict d) = Inl (Exn ''TypeError'' (''unhashable type: '' @ repr_str ''dict''))"
| "known_class v = Inr False"

fun keep_hypotheses ::
  "((string, pyval) dict \<Rightarrow> root_cause_hypothesis res) \<Rightarrow> (string, pyval) dict list \<Rightarrow> root_cause_hypothesis list res"
where
  "keep_hypotheses vd [] = Inr []"
| "keep_hypotheses vd (d # ds) =
     res_bind (known_class (param d ''suggested_fix_class'' PNone)) (\<lambda>known.
       if \<not> known then keep_hypotheses vd ds
       else case vd d of
         Inr x \<Rightarrow> res_bind (keep_hypotheses vd ds) (\<lambda>xs. Inr (x # xs))
       | Inl e \<Rightarrow> (if is_exception e then keep_hypotheses vd ds else Inl e))"

definition parse_hypotheses ::
  "(string \<Rightarrow> pyval option) \<Rightarrow> ((string, pyval) dict \<Rightarrow> root_cause_hypothesis res) \<Rightarrow> string \<Rightarrow>
    root_cause_hypothesis list res" where
  "parse_hypotheses loads vd t = keep_hypotheses vd (parse_json_list loads t)"

definition claude_diagnose :: "'w claude_diagnoser \<Rightarrow> 'w evidence \<Rightarrow> 'w diagnoser" where
  "claude_diagnose cg eb q h =
     (let window = chaos_window cg q in
      case complete_with_tools (cg_lm cg) (diagnosis_tools cg eb window) (cg_system_prompt cg)
             (diagnosis_user_prompt cg q window) (cg_max_turns cg) (cg_max_budget cg) 3 h of
        (Inl x, h') \<Rightarrow> (Inl x, h')
      | (Inr r, h') \<Rightarrow> (parse_hypotheses (loads_of (cg_lm cg)) (cg_validate cg) (cr_final_text r), h'))"

end
