(* ===== verification/Fixer_Agent.thy ===== *)
theory Fixer_Agent
  imports Fixer
begin

text \<open>
  The fixer agent (\<open>agents/fixer/agent.py\<close>) and the pull-request text (\<open>agents/fixer/pr_template.py\<close>).

  A run identifier and the start time are drawn by the contract's defaults: they are the arguments
  \<open>rid\<close> and \<open>now\<close>. \<open>fx_write_doc\<close> creates the directory of the fragility note, writes it and returns its path.
\<close>

record 'w fixer_agent =
  fx_strategy :: "'w strategy option"
  fx_denylist :: "string list"
  fx_min_confidence :: real
  fx_write_doc :: "string \<Rightarrow> string \<Rightarrow> 'w harness_state \<Rightarrow> string res \<times> 'w harness_state"

definition invalid_field :: "string \<Rightarrow> pyexn" where
  "invalid_field m = Exn ''ValidationError'' m"

text \<open>The \<open>FixProposal\<close> constructor: it refuses a reasoning that is not a string and a bad confidence.\<close>

definition make_proposal ::
  "string \<Rightarrow> int \<Rightarrow> diagnosis_report \<Rightarrow> fix_action \<Rightarrow> string option \<Rightarrow> real \<Rightarrow> pyval \<Rightarrow> string list \<Rightarrow> bool \<Rightarrow>
    fix_proposal res" where
  "make_proposal rid now d a url confidence reasoning files tested =
     (case reasoning of
        PStr s \<Rightarrow>
          (let p = \<lparr>fp_experiment_id = dr_experiment_id d, fp_run_id = rid, fp_action = a, fp_pr_url = url,
                    fp_confidence = confidence, fp_reasoning = s, fp_files_touched = files,
                    fp_regression_test_added = tested, fp_is_draft = True, fp_started_at = now,
                    fp_finished_at = None\<rparr>
           in if fix_proposal_ok p then Inr p else Inl (invalid_field ''confidence''))
      | _ \<Rightarrow> Inl (invalid_field ''reasoning: Input should be a valid string''))"

definition none_proposal ::
  "string \<Rightarrow> int \<Rightarrow> diagnosis_report \<Rightarrow> real \<Rightarrow> string \<Rightarrow> fix_proposal res" where
  "none_proposal rid now d confidence reasoning =
     make_proposal rid now d FA_NONE None confidence (PStr reasoning) [] False"

definition bullet_lines :: "(string \<Rightarrow> string) \<Rightarrow> string list \<Rightarrow> string" where
  "bullet_lines f xs = (if xs = [] then ''_(none)_'' else join nl (map (\<lambda>x. ''- '' @ f x) xs))"

definition fragility_doc :: "diagnosis_report \<Rightarrow> string \<Rightarrow> string list \<Rightarrow> string list \<Rightarrow> string" where
  "fragility_doc d summary evidence paths =
     ''# Chaos finding: working-as-intended'' @ nl @ nl @
     ''**Experiment:** `'' @ dr_experiment_id d @ ''`'' @ nl @
     ''**Diagnosis:** '' @ summary @ nl @ nl @
     ''This regression is consistent with the system's documented design, not a bug.'' @ nl @
     ''No fix is appropriate; this note records the fragility for future reviewers.'' @ nl @ nl @
     ''## Evidence'' @ nl @ nl @ bullet_lines (\<lambda>e. e) evidence @ nl @ nl @
     ''## Affected paths (for reference)'' @ nl @ nl @ bullet_lines (\<lambda>p. ''`'' @ p @ ''`'') paths @ nl @ nl @
     ''## Reviewer note'' @ nl @ nl @
     ''If you believe this finding *is* a bug, update the diagnostician's prompts or'' @ nl @
     ''catalogue so future runs classify it correctly, then re-run the experiment.'' @ nl"

definition write_fragility_doc ::
  "'w fixer_agent \<Rightarrow> diagnosis_report \<Rightarrow> root_cause_hypothesis \<Rightarrow> 'w harness_state \<Rightarrow> string res \<times> 'w harness_state"
where
  "write_fragility_doc fx d lead h =
     fx_write_doc fx (dr_experiment_id d @ ''/proposed/working-as-intended.md'')
       (fragility_doc d (rc_summary lead) (rc_evidence lead) (rc_affected_paths lead)) h"

definition propose_with_strategy ::
  "'w fixer_agent \<Rightarrow> string \<Rightarrow> int \<Rightarrow> diagnosis_report \<Rightarrow> root_cause_hypothesis \<Rightarrow> fix_action \<Rightarrow> 'w harness_state \<Rightarrow>
    fix_proposal res \<times> 'w harness_state" where
  "propose_with_strategy fx rid now d lead a h =
     (case fx_strategy fx of
        None \<Rightarrow> (none_proposal rid now d (rc_confidence lead)
            (''no FixerStrategy configured; can't propose '' @ fix_action_value a @
             ''. Pass strategy=... when constructing ClaudeFixerAgent.''), h)
      | Some propose \<Rightarrow>
          (case propose d a h of
             (Inl x, h') \<Rightarrow> (Inl x, h')
           | (Inr out, h') \<Rightarrow>
               (let denied = denial_reasons (fx_denylist fx) (fo_files_touched out) in
                if denied \<noteq> []
                then (none_proposal rid now d (rc_confidence lead)
                    (''strategy proposed denylisted paths: '' @ join ''; '' denied), h')
                else (make_proposal rid now d a (fo_pr_url out) (rc_confidence lead) (fo_reasoning out)
                    (fo_files_touched out) (fo_regression_test_added out), h'))))"

definition propose_fix ::
  "'w fixer_agent \<Rightarrow> string \<Rightarrow> int \<Rightarrow> diagnosis_report \<Rightarrow> 'w harness_state \<Rightarrow> fix_proposal res \<times> 'w harness_state" where
  "propose_fix fx rid now d h =
     (case dr_hypotheses d of
        [] \<Rightarrow> (Inl index_error, h)
      | lead # _ \<Rightarrow>
          (case decide_action (rc_suggested_fix_class lead) (rc_confidence lead) (fx_min_confidence fx) of
             FA_NONE \<Rightarrow> (none_proposal rid now d (rc_confidence lead)
                 (''top hypothesis confidence '' @ fmt2 (rc_confidence lead) @ '' < min '' @
                  fmt2 (fx_min_confidence fx) @ ''; deferring to humans''), h)
           | FA_DOC_ONLY \<Rightarrow>
               (case write_fragility_doc fx d lead h of
                  (Inl x, h') \<Rightarrow> (Inl x, h')
                | (Inr path, h') \<Rightarrow>
                    (make_proposal rid now d FA_DOC_ONLY None (rc_confidence lead)
                       (PStr (''diagnosed as working-as-intended: '' @ rc_summary lead @
                         ''. Fragility note written to '' @ path @ ''.'')) [path] False, h'))
           | a \<Rightarrow> propose_with_strategy fx rid now d lead a h))"

section \<open>The pull-request text\<close>

definition confidence_bucket :: "real \<Rightarrow> string" where
  "confidence_bucket c =
     (if 8 / 10 \<le> c \<and> c < 101 / 100 then ''high''
      else if 5 / 10 \<le> c \<and> c < 8 / 10 then ''med''
      else if 0 \<le> c \<and> c < 5 / 10 then ''low''
      else ''low'')"

definition render_pr_body :: "diagnosis_report \<Rightarrow> fix_proposal \<Rightarrow> string res" where
  "render_pr_body d f =
     (case dr_hypotheses d of
        [] \<Rightarrow> Inl index_error
      | lead # _ \<Rightarrow> Inr (
          ''## Auto-proposal from chaos experiment '' @ fp_experiment_id f @ nl @ nl @
          ''**Confidence:** '' @ fmt2 (fp_confidence f) @ '' ('' @ confidence_bucket (fp_confidence f) @ '')'' @ nl @
          ''**Fix class:** `'' @ rc_suggested_fix_class lead @ ''`'' @ nl @
          ''**Action:** `'' @ fix_action_value (fp_action f) @ ''`'' @ nl @
          ''**Diagnosis:** '' @ rc_summary lead @ nl @ nl @
          ''### What this PR changes'' @ nl @
          (if fp_files_touched f = [] then ''_(no files touched)_''
           else join nl (map (\<lambda>p. ''- `'' @ p @ ''`'') (fp_files_touched f))) @ nl @ nl @
          ''### Why'' @ nl @
          (if rc_evidence lead = [] then ''_(no evidence cited)_''
           else join nl (map (\<lambda>e. ''- '' @ e) (rc_evidence lead))) @ nl @ nl @
          ''### Reasoning'' @ nl @ fp_reasoning f @ nl @ nl @
          ''### Regression test'' @ nl @
          (if fp_regression_test_added f
           then ''`<see PR diff>` - fails without this PR, passes with it.''
           else ''_No regression test added. See reviewer checklist._'') @ nl @ nl @
          ''### Reviewer checklist'' @ nl @
          ''- [ ] Is the fix correct, or is the diagnosis wrong?'' @ nl @
          ''- [ ] Is the regression test the right shape (fails without the patch)?'' @ nl @
          ''- [ ] Should we also update docs / runbooks?'' @ nl @
          ''- [ ] Are there other places in the codebase with the same pattern?'' @ nl @ nl @
          ''### Experiment record'' @ nl @
          ''- Experiment ID: `'' @ fp_experiment_id f @ ''`'' @ nl @
          ''- Diagnosis run ID: `'' @ dr_run_id d @ ''`'' @ nl @
          ''- Fix proposal run ID: `'' @ fp_run_id f @ ''`'' @ nl @ nl @
          ''---'' @ nl @ ''Generated by `chaos`. **Draft - do not merge without review.**'' @ nl))"

section \<open>The interface between agent and strategy\<close>

text \<open>
  What the agent needs of a fallback strategy: on a valid diagnosis it answers, with a written
  reasoning, and leaves the rest of the program alone.
\<close>

locale dependable_strategy =
  fixes propose :: "diagnosis_report \<Rightarrow> fix_action \<Rightarrow> 'w harness_state \<Rightarrow> fixer_output res \<times> 'w harness_state"
  assumes answers: "dr_hypotheses d \<noteq> [] \<Longrightarrow> \<exists>out s. propose d a h = (Inr out, h) \<and> fo_reasoning out = PStr s \<and> s \<noteq> []"
begin

lemma hybrid_answers:
  assumes "dr_hypotheses d \<noteq> []"
    and "\<And>p x h'. llm = Some p \<Longrightarrow> p d a h = (Inl x, h') \<Longrightarrow> is_exception x"
    and "\<And>p out h'. llm = Some p \<Longrightarrow> p d a h = (Inr out, h') \<Longrightarrow> \<exists>s. fo_reasoning out = PStr s"
  shows "\<exists>out s h'. hybrid_propose propose llm d a h = (Inr out, h') \<and> fo_reasoning out = PStr s \<and>
    (fo_files_touched out \<noteq> [] \<or> s \<noteq> [])"
proof (cases llm)
  case None
  then show ?thesis using answers [OF assms(1), of a h] by (auto simp: hybrid_propose_def)
next
  case (Some p)
  obtain r h' where r: "p d a h = (r, h')" by fastforce
  show ?thesis
  proof (cases r)
    case (Inl x)
    then have "is_exception x" using assms(2) [OF Some] r by simp
    then show ?thesis using answers [OF assms(1), of a h'] Some r Inl by (auto simp: hybrid_propose_def)
  next
    case (Inr out)
    then obtain s where s: "fo_reasoning out = PStr s" using assms(3) [OF Some] r by blast
    have e: "stripped_reasoning (PStr s) = Inr (strip s)"
      by (simp add: stripped_reasoning_def strip_def)
    show ?thesis
    proof (cases "fo_files_touched out \<noteq> [] \<or> length (strip s) \<ge> min_reasoning_len")
      case True
      then have "fo_files_touched out \<noteq> [] \<or> s \<noteq> []" by (auto simp: strip_def min_reasoning_len_def)
      then show ?thesis using Some r Inr s e True by (simp add: hybrid_propose_def)
    next
      case False
      then show ?thesis
        using answers [OF assms(1), of a h'] Some r Inr s e by (auto simp: hybrid_propose_def)
    qed
  qed
qed

end

interpretation static: dependable_strategy static_propose
proof
  fix d :: diagnosis_report and a :: fix_action and h :: "'b harness_state"
  assume "dr_hypotheses d \<noteq> []"
  then show "\<exists>out s. static_propose d a h = (Inr out, h) \<and> fo_reasoning out = PStr s \<and> s \<noteq> []"
    by (cases "dr_hypotheses d") (auto simp: static_propose_def Let_def static_reasoning_def nl_def)
qed

section \<open>Policy\<close>

lemma make_proposal_Inr:
  "make_proposal rid now d a url c reasoning files tested = Inr p \<Longrightarrow>
    fp_experiment_id p = dr_experiment_id d \<and> fp_action p = a \<and> fp_pr_url p = url \<and> fp_confidence p = c \<and>
    fp_files_touched p = files \<and> fp_regression_test_added p = tested \<and> fix_proposal_ok p \<and>
    reasoning = PStr (fp_reasoning p)"
  by (auto simp: make_proposal_def Let_def split: pyval.splits if_splits)

lemma with_strategy_Inr:
  assumes "propose_with_strategy fx rid now d lead a h = (Inr p, h')"
  shows "fix_proposal_ok p \<and> fp_experiment_id p = dr_experiment_id d \<and> fp_confidence p = rc_confidence lead \<and>
    (fp_action p = FA_NONE \<and> fp_files_touched p = [] \<and> fp_pr_url p = None \<or>
     fp_action p = a \<and> list_all (\<lambda>q. \<not> is_denied (fx_denylist fx) q) (fp_files_touched p) \<and>
     (\<exists>propose out. fx_strategy fx = Some propose \<and> propose d a h = (Inr out, h') \<and>
        fp_files_touched p = fo_files_touched out \<and> fo_reasoning out = PStr (fp_reasoning p)))"
proof (cases "fx_strategy fx")
  case None
  then show ?thesis
    using assms make_proposal_Inr by (fastforce simp: propose_with_strategy_def none_proposal_def)
next
  case (Some propose)
  obtain out where o: "propose d a h = (Inr out, h')"
    using assms Some by (auto simp: propose_with_strategy_def Let_def split: prod.splits sum.splits if_splits)
  show ?thesis
  proof (cases "denial_reasons (fx_denylist fx) (fo_files_touched out) = []")
    case True
    then have "make_proposal rid now d a (fo_pr_url out) (rc_confidence lead) (fo_reasoning out)
        (fo_files_touched out) (fo_regression_test_added out) = Inr p"
      using assms Some o by (simp add: propose_with_strategy_def)
    from make_proposal_Inr [OF this] True show ?thesis using Some o by (auto simp: denial_reasons_Nil_iff)
  next
    case False
    then have "none_proposal rid now d (rc_confidence lead)
        (''strategy proposed denylisted paths: '' @ join ''; '' (denial_reasons (fx_denylist fx) (fo_files_touched out))) = Inr p"
      using assms Some o by (simp add: propose_with_strategy_def)
    from make_proposal_Inr [OF this [unfolded none_proposal_def]] show ?thesis by blast
  qed
qed

lemma decided_action:
  "decide_action c x m \<in> {FA_CODE_PATCH, FA_CONFIG_CHANGE} \<Longrightarrow> m \<le> x"
  by (auto simp: decide_action_def split: if_splits)

lemma propose_fix_cases:
  assumes "propose_fix fx rid now d h = (Inr p, h')"
  obtains lead rest where "dr_hypotheses d = lead # rest"
    "fix_proposal_ok p \<and> fp_experiment_id p = dr_experiment_id d \<and> fp_confidence p = rc_confidence lead"
    "fp_action p = FA_NONE \<and> fp_files_touched p = [] \<and> fp_pr_url p = None \<or>
     fp_action p = FA_DOC_ONLY \<and> fp_action p = decide_action (rc_suggested_fix_class lead) (rc_confidence lead) (fx_min_confidence fx) \<and>
       fp_pr_url p = None \<or>
     fp_action p \<in> {FA_CODE_PATCH, FA_CONFIG_CHANGE} \<and>
       fp_action p = decide_action (rc_suggested_fix_class lead) (rc_confidence lead) (fx_min_confidence fx) \<and>
       list_all (\<lambda>q. \<not> is_denied (fx_denylist fx) q) (fp_files_touched p)"
proof -
  obtain lead rest where l: "dr_hypotheses d = lead # rest"
    using assms by (cases "dr_hypotheses d") (auto simp: propose_fix_def)
  let ?a = "decide_action (rc_suggested_fix_class lead) (rc_confidence lead) (fx_min_confidence fx)"
  have strat: "propose_with_strategy fx rid now d lead ?a h = (Inr p, h')" if "?a \<in> {FA_CODE_PATCH, FA_CONFIG_CHANGE}"
    using assms that l by (auto simp: propose_fix_def)
  show ?thesis
  proof (cases ?a)
    case FA_NONE
    then have "none_proposal rid now d (rc_confidence lead)
        (''top hypothesis confidence '' @ fmt2 (rc_confidence lead) @ '' < min '' @
         fmt2 (fx_min_confidence fx) @ ''; deferring to humans'') = Inr p"
      using assms l by (simp add: propose_fix_def)
    from make_proposal_Inr [OF this [unfolded none_proposal_def]] show ?thesis using that [OF l] by blast
  next
    case FA_DOC_ONLY
    then obtain path where "make_proposal rid now d FA_DOC_ONLY None (rc_confidence lead)
        (PStr (''diagnosed as working-as-intended: '' @ rc_summary lead @ ''. Fragility note written to '' @ path @ ''.''))
        [path] False = Inr p"
      using assms l by (auto simp: propose_fix_def split: prod.splits sum.splits)
    from make_proposal_Inr [OF this] show ?thesis using that [OF l] FA_DOC_ONLY by metis
  next
    case FA_CODE_PATCH
    then show ?thesis using with_strategy_Inr [OF strat] that [OF l] by auto
  next
    case FA_CONFIG_CHANGE
    then show ?thesis using with_strategy_Inr [OF strat] that [OF l] by auto
  qed
qed

text \<open>C20: whatever the strategy answers, a proposal of the agent is a draft for the diagnosed experiment
  with the leading hypothesis's confidence, its action is the one the decision tree chose (or none), and a code
  or configuration change is proposed only at or above the minimum confidence and touches no denied path.\<close>

theorem proposal_within_policy:
  assumes "propose_fix fx rid now d h = (Inr p, h')"
  shows "\<exists>lead rest. dr_hypotheses d = lead # rest \<and> fp_is_draft p \<and> fp_experiment_id p = dr_experiment_id d \<and>
    fp_confidence p = rc_confidence lead \<and>
    fp_action p \<in> {FA_NONE, decide_action (rc_suggested_fix_class lead) (rc_confidence lead) (fx_min_confidence fx)} \<and>
    (fp_action p = FA_NONE \<longrightarrow> fp_files_touched p = []) \<and>
    (fp_action p \<notin> {FA_CODE_PATCH, FA_CONFIG_CHANGE} \<longrightarrow> fp_pr_url p = None) \<and>
    (fp_action p \<in> {FA_CODE_PATCH, FA_CONFIG_CHANGE} \<longrightarrow> fx_min_confidence fx \<le> rc_confidence lead \<and>
       (\<forall>q \<in> set (fp_files_touched p). \<not> is_denied (fx_denylist fx) q))"
  using assms
proof (rule propose_fix_cases)
  fix lead rest
  assume "dr_hypotheses d = lead # rest"
    "fix_proposal_ok p \<and> fp_experiment_id p = dr_experiment_id d \<and> fp_confidence p = rc_confidence lead"
    "fp_action p = FA_NONE \<and> fp_files_touched p = [] \<and> fp_pr_url p = None \<or>
     fp_action p = FA_DOC_ONLY \<and> fp_action p = decide_action (rc_suggested_fix_class lead) (rc_confidence lead) (fx_min_confidence fx) \<and>
       fp_pr_url p = None \<or>
     fp_action p \<in> {FA_CODE_PATCH, FA_CONFIG_CHANGE} \<and>
       fp_action p = decide_action (rc_suggested_fix_class lead) (rc_confidence lead) (fx_min_confidence fx) \<and>
       list_all (\<lambda>q. \<not> is_denied (fx_denylist fx) q) (fp_files_touched p)"
  then show ?thesis
    using decided_action [of "rc_suggested_fix_class lead" "rc_confidence lead" "fx_min_confidence fx"]
    by (intro exI [of _ lead] exI [of _ rest]) (auto simp: fix_proposal_ok_def list_all_iff)
qed

definition retry_hypothesis :: root_cause_hypothesis where
  "retry_hypothesis =
     \<lparr>rc_summary = ''no retry on cart'', rc_confidence = 3 / 4, rc_evidence = [],
      rc_suggested_fix_class = ''missing-retry'', rc_affected_paths = [''cart/client.py'']\<rparr>"

definition small_diagnosis :: "root_cause_hypothesis list \<Rightarrow> diagnosis_report" where
  "small_diagnosis hs =
     \<lparr>dr_experiment_id = ''exp-0123456789ab'', dr_run_id = ''run-0123456789ab'', dr_hypotheses = hs, dr_notes = [],
      dr_started_at = 0, dr_finished_at = None, dr_suppressed_fingerprints = [], dr_suppression_notes = []\<rparr>"

definition static_agent :: "'w fixer_agent" where
  "static_agent =
     \<lparr>fx_strategy = Some static_propose, fx_denylist = default_denylist, fx_min_confidence = default_min_confidence,
      fx_write_doc = (\<lambda>path body h. (Inr path, h))\<rparr>"

definition idle_harness :: "unit harness_state" where
  "idle_harness = \<lparr>hx_current = None, hx_log = [], hx_world = ()\<rparr>"

lemma retry_files:
  "static_files (template_for ''missing-retry'') [''cart/client.py''] =
    [''cart/client.py'', ''cart/tests/test_client_regression.py'']"
  by (simp add: template_for_def fix_templates_def dict_get_def static_files_def suggested_test_path_def slash_def
      replace_char_def path_stem_def Let_def)

lemma retry_allowed:
  "denial_reasons default_denylist [''cart/client.py'', ''cart/tests/test_client_regression.py''] = []"
  by (simp add: denial_reasons_Nil_iff is_denied_def normalize_path_def replace_char_def slash_def default_denylist_def
      path_glob_match_def Let_def newline_def)

lemma static_proposal:
  assumes "dr_hypotheses d = lead # rest" "fx_strategy fx = Some static_propose"
    and "decide_action (rc_suggested_fix_class lead) (rc_confidence lead) (fx_min_confidence fx) = a"
    and "a \<in> {FA_CODE_PATCH, FA_CONFIG_CHANGE}" "0 \<le> rc_confidence lead" "rc_confidence lead \<le> 1"
    and "denial_reasons (fx_denylist fx)
        (static_files (template_for (rc_suggested_fix_class lead)) (rc_affected_paths lead)) = []"
  shows "\<exists>p. propose_fix fx rid now d h = (Inr p, h) \<and> fp_action p = a \<and>
    fp_files_touched p = static_files (template_for (rc_suggested_fix_class lead)) (rc_affected_paths lead) \<and>
    fp_reasoning p = static_reasoning (template_for (rc_suggested_fix_class lead)) lead \<and>
    fp_regression_test_added p = (ft_tests (template_for (rc_suggested_fix_class lead)) \<and> rc_affected_paths lead \<noteq> [])"
proof -
  have "propose_fix fx rid now d h = propose_with_strategy fx rid now d lead a h"
    using assms(1,3,4) by (auto simp: propose_fix_def)
  then show ?thesis
    using assms(1,2,5-7)
    by (auto simp: propose_with_strategy_def static_propose_def Let_def make_proposal_def fix_proposal_ok_def)
qed

lemma retry_decided: "decide_action ''missing-retry'' (3 / 4) default_min_confidence = FA_CODE_PATCH"
  by (simp add: decide_action_def default_min_confidence_def)

lemma proposal_within_policy_witness:
  "\<exists>p. propose_fix static_agent ''run-0123456789ab'' 0 (small_diagnosis [retry_hypothesis]) idle_harness = (Inr p, idle_harness) \<and>
     fp_is_draft p \<and> \<not> is_denied default_denylist ''cart/client.py''"
proof -
  obtain p where p: "propose_fix static_agent ''run-0123456789ab'' 0 (small_diagnosis [retry_hypothesis]) idle_harness =
      (Inr p, idle_harness)" "fp_action p = FA_CODE_PATCH"
    "fp_files_touched p = [''cart/client.py'', ''cart/tests/test_client_regression.py'']"
    using static_proposal [of "small_diagnosis [retry_hypothesis]" retry_hypothesis "[]" static_agent FA_CODE_PATCH
        "''run-0123456789ab''" 0 idle_harness] retry_files retry_allowed retry_decided
    by (auto simp: small_diagnosis_def retry_hypothesis_def static_agent_def)
  have "fx_denylist (static_agent :: unit fixer_agent) = default_denylist" by (simp add: static_agent_def)
  with proposal_within_policy [OF p(1)] p(2,3) have "fp_is_draft p \<and> \<not> is_denied default_denylist ''cart/client.py''"
    by auto
  with p(1) show ?thesis by blast
qed

text \<open>Suppression does not reach the fixer: when the leading hypothesis is suppressed but another one is
  active, the loop still calls the fixer, and the fixer patches for the suppressed hypothesis, at its paths,
  as if it had not been suppressed.\<close>

theorem suppressed_hypothesis_still_fixed:
  assumes "dr_hypotheses d = lead # rest"
    and "hypothesis_fingerprint sha1_hex lead \<in> set (dr_suppressed_fingerprints d)" "active_hypotheses sha1_hex d \<noteq> []"
    and "fx_strategy fx = Some static_propose"
    and "decide_action (rc_suggested_fix_class lead) (rc_confidence lead) (fx_min_confidence fx) = FA_CODE_PATCH"
    and "0 \<le> rc_confidence lead" "rc_confidence lead \<le> 1"
    and "denial_reasons (fx_denylist fx)
        (static_files (template_for (rc_suggested_fix_class lead)) (rc_affected_paths lead)) = []"
  shows "lead \<notin> set (active_hypotheses sha1_hex d) \<and>
    (\<exists>p. propose_fix fx rid now d h = (Inr p, h) \<and> fp_action p = FA_CODE_PATCH \<and>
       set (rc_affected_paths lead) \<subseteq> set (fp_files_touched p) \<and>
       fp_reasoning p = static_reasoning (template_for (rc_suggested_fix_class lead)) lead)"
proof -
  have "lead \<notin> set (active_hypotheses sha1_hex d)" using assms(2) by (simp add: active_hypotheses_def)
  moreover have "set (rc_affected_paths lead) \<subseteq> set (static_files t (rc_affected_paths lead))" for t
    by (auto simp: static_files_def)
  ultimately show ?thesis
    using static_proposal [OF assms(1,4,5) _ assms(6-8), of rid now h] by auto
qed

definition noted_hypothesis :: root_cause_hypothesis where
  "noted_hypothesis = retry_hypothesis\<lparr>rc_summary := ''slow disk'', rc_confidence := 1 / 2\<rparr>"

definition muted_diagnosis :: diagnosis_report where
  "muted_diagnosis =
     (small_diagnosis [retry_hypothesis, noted_hypothesis])
       \<lparr>dr_suppressed_fingerprints := [hypothesis_fingerprint rev retry_hypothesis]\<rparr>"

lemma suppressed_hypothesis_still_fixed_witness:
  "retry_hypothesis \<notin> set (active_hypotheses rev muted_diagnosis) \<and>
   (\<exists>p. propose_fix static_agent ''run-0123456789ab'' 0 muted_diagnosis idle_harness = (Inr p, idle_harness) \<and>
     fp_action p = FA_CODE_PATCH \<and> ''cart/client.py'' \<in> set (fp_files_touched p))"
proof -
  have d: "dr_hypotheses muted_diagnosis = retry_hypothesis # [noted_hypothesis]"
    "hypothesis_fingerprint rev retry_hypothesis \<in> set (dr_suppressed_fingerprints muted_diagnosis)"
    by (simp_all add: muted_diagnosis_def small_diagnosis_def)
  have "hypothesis_fingerprint rev noted_hypothesis \<noteq> hypothesis_fingerprint rev retry_hypothesis"
    by (simp add: hypothesis_fingerprint_def hypothesis_fp_def canonical_text_def noted_hypothesis_def retry_hypothesis_def)
  then have a: "active_hypotheses rev muted_diagnosis \<noteq> []"
    by (simp add: active_hypotheses_def muted_diagnosis_def small_diagnosis_def)
  have r: "rc_suggested_fix_class retry_hypothesis = ''missing-retry''" "rc_confidence retry_hypothesis = 3 / 4"
    "rc_affected_paths retry_hypothesis = [''cart/client.py'']"
    by (simp_all add: retry_hypothesis_def)
  have f: "fx_strategy static_agent = Some static_propose" "fx_denylist static_agent = default_denylist"
    "fx_min_confidence static_agent = default_min_confidence"
    by (simp_all add: static_agent_def)
  show ?thesis
    using suppressed_hypothesis_still_fixed [OF d a f(1), of "''run-0123456789ab''" 0 idle_harness]
      retry_files retry_allowed retry_decided
    by (auto simp: r f)
qed

text \<open>
  Two smaller gaps. A configuration change is proposed without a regression test, which the agent's README
  rules out; and when the artifact of a model-backed proposal cannot be written, a reasoning that is not a
  string reaches the hybrid strategy, which fails on it instead of falling back.
\<close>

lemma config_change_untested:
  "ft_tests (template_for ''config-change'') = False \<and> decide_action ''config-change'' c m \<in> {FA_NONE, FA_CONFIG_CHANGE}"
  by (simp add: template_for_def fix_templates_def dict_get_def decide_action_def)

lemma odd_reasoning_fails_hybrid:
  assumes "claude_propose cf d a h = (Inr (claude_output cf y None), h')"
    and "fy_reasoning y = PInt 1"
  shows "\<exists>m. hybrid_propose static_propose (Some (claude_propose cf)) d a h = (Inl (Exn ''AttributeError'' m), h')"
  using assms by (simp add: hybrid_propose_def claude_output_def stripped_reasoning_def)

end
