(* ===== verification/Ranked_Merge.thy ===== *)
theory Ranked_Merge
  imports Chaos_Prelude
begin

text \<open>
  The contract the two hybrid agents share: candidates are inserted one by one into a list, a candidate meets its
  first duplicate and the more confident of the two stays, and the result is ranked by confidence. The diagnoser's
  and the hypothesizer's merges are both instances.
\<close>

locale ranked_merge =
  fixes dup :: "'a \<Rightarrow> 'a \<Rightarrow> bool"
    and conf :: "'a \<Rightarrow> real"
    and insert_one :: "'a \<Rightarrow> 'a list \<Rightarrow> 'a list"
    and key :: "'a \<Rightarrow> 'k"
  assumes insert_Nil: "insert_one c [] = [c]"
    and insert_Cons: "insert_one c (x # xs) =
      (if dup x c then (if conf c > conf x then c # xs else x # xs) else x # insert_one c xs)"
    and dup_key: "dup x y \<Longrightarrow> key x = key y"
begin

definition covered :: "'a \<Rightarrow> 'a list \<Rightarrow> bool" where
  "covered x ys \<longleftrightarrow> (\<exists>y \<in> set ys. key y = key x \<and> conf x \<le> conf y)"

definition merged :: "'a list \<Rightarrow> 'a list \<Rightarrow> 'a list" where
  "merged a b = rank_desc conf (foldl (\<lambda>m c. insert_one c m) [] (a @ b))"

lemma insert_set: "set (insert_one c xs) \<subseteq> insert c (set xs)"
  by (induction xs) (auto simp: insert_Nil insert_Cons)

lemma insert_covers: "covered c (insert_one c xs) \<and> (\<forall>x. covered x xs \<longrightarrow> covered x (insert_one c xs))"
proof (induction xs)
  case Nil
  then show ?case by (auto simp: covered_def insert_Nil)
next
  case (Cons x xs)
  show ?case
  proof (cases "dup x c")
    case True
    then show ?thesis using dup_key [OF True] by (force simp: covered_def insert_Cons)
  next
    case False
    then show ?thesis using Cons by (auto simp: covered_def insert_Cons)
  qed
qed

lemma fold_merge:
  "set (foldl (\<lambda>m c. insert_one c m) acc cs) \<subseteq> set acc \<union> set cs \<and>
   (\<forall>x. covered x acc \<or> x \<in> set cs \<longrightarrow> covered x (foldl (\<lambda>m c. insert_one c m) acc cs))"
proof (induction cs arbitrary: acc)
  case (Cons c cs)
  then show ?case
    using insert_set [of c acc] insert_covers [of c acc] by (fastforce simp: subset_iff)
qed simp

lemma covered_rank [simp]: "covered x (rank_desc conf ys) = covered x ys"
  by (simp add: covered_def)

lemma merged_inputs: "set (merged a b) \<subseteq> set a \<union> set b"
  using fold_merge [of "[]" "a @ b"] by (simp add: merged_def)

lemma merged_covers: "x \<in> set a \<union> set b \<Longrightarrow> covered x (merged a b)"
  using fold_merge [of "[]" "a @ b"] by (auto simp: merged_def)

lemma merged_ranked: "sorted_wrt (\<lambda>x y. conf x \<ge> conf y) (merged a b)"
  by (simp add: merged_def sorted_rank_desc)

text \<open>Where being a duplicate is an equivalence on the inputs, no duplicate survives, and every input meets a
  duplicate of its own that is at least as confident.\<close>

definition equivalence_on :: "'a set \<Rightarrow> bool" where
  "equivalence_on S \<longleftrightarrow>
     (\<forall>x \<in> S. dup x x) \<and> (\<forall>x \<in> S. \<forall>y \<in> S. dup x y \<longrightarrow> dup y x) \<and>
     (\<forall>x \<in> S. \<forall>y \<in> S. \<forall>z \<in> S. dup x y \<longrightarrow> dup y z \<longrightarrow> dup x z)"

definition no_dups :: "'a list \<Rightarrow> bool" where
  "no_dups xs \<longleftrightarrow> sorted_wrt (\<lambda>x y. \<not> dup x y \<and> \<not> dup y x) xs"

definition represented :: "'a \<Rightarrow> 'a list \<Rightarrow> bool" where
  "represented x ys \<longleftrightarrow> (\<exists>y \<in> set ys. dup y x \<and> conf x \<le> conf y)"

lemma insert_equivalence:
  assumes "equivalence_on S" "insert c (set xs) \<subseteq> S" "no_dups xs"
  shows "no_dups (insert_one c xs) \<and> represented c (insert_one c xs) \<and>
    (\<forall>x \<in> S. represented x xs \<longrightarrow> represented x (insert_one c xs))"
  using assms
proof (induction xs)
  case Nil
  then have "dup c c" unfolding equivalence_on_def by blast
  then show ?case by (simp add: insert_Nil no_dups_def represented_def)
next
  case (Cons x xs)
  have S: "x \<in> S" "c \<in> S" "set xs \<subseteq> S" using Cons.prems by auto
  have sym: "dup u v \<longleftrightarrow> dup v u" if "u \<in> S" "v \<in> S" for u v
    using Cons.prems(1) that unfolding equivalence_on_def by blast
  have trans: "dup u w" if "dup u v" "dup v w" "u \<in> S" "v \<in> S" "w \<in> S" for u v w
    using Cons.prems(1) that unfolding equivalence_on_def by blast
  have refl: "dup u u" if "u \<in> S" for u using Cons.prems(1) that unfolding equivalence_on_def by blast
  have nd: "no_dups xs" "\<forall>y \<in> set xs. \<not> dup x y" using Cons.prems(3) by (auto simp: no_dups_def)
  have IH: "no_dups (insert_one c xs)" "represented c (insert_one c xs)"
    "\<forall>x \<in> S. represented x xs \<longrightarrow> represented x (insert_one c xs)"
    using Cons nd by auto
  show ?case
  proof (cases "dup x c")
    case True
    have away: "\<not> dup c y \<and> \<not> dup y c" if "y \<in> set xs" for y
    proof -
      have y: "y \<in> S" "\<not> dup x y" using that nd(2) S(3) by auto
      then have "\<not> dup c y" using trans [OF True _ S(1,2) y(1)] by blast
      then show ?thesis using sym [OF S(2) y(1)] by blast
    qed
    show ?thesis
    proof (cases "conf c > conf x")
      case True
      have "represented y (c # xs)" if y: "y \<in> S" "represented y (x # xs)" for y
      proof -
        from y(2) consider "dup x y" "conf y \<le> conf x" | "represented y xs" by (auto simp: represented_def)
        then show ?thesis
        proof cases
          case 1
          then have "dup c y" using trans [of c x y] sym [of c x] \<open>dup x c\<close> S y(1) by blast
          then show ?thesis using 1 True by (auto simp: represented_def)
        qed (auto simp: represented_def)
      qed
      then show ?thesis
        using True \<open>dup x c\<close> nd(1) away refl S(2) by (auto simp: insert_Cons no_dups_def represented_def)
    next
      case False
      then show ?thesis
        using \<open>dup x c\<close> Cons.prems(3) by (auto simp: insert_Cons represented_def)
    qed
  next
    case False
    have "\<not> dup x y \<and> \<not> dup y x" if "y \<in> set (insert_one c xs)" for y
    proof -
      have "y = c \<or> y \<in> set xs" using that insert_set [of c xs] by blast
      then have "y \<in> S" "\<not> dup x y" using False nd(2) S by auto
      then show ?thesis using sym [OF S(1)] by blast
    qed
    then show ?thesis
      using False IH by (auto simp: insert_Cons no_dups_def represented_def)
  qed
qed

lemma fold_equivalence:
  assumes "equivalence_on S" "set acc \<union> set cs \<subseteq> S" "no_dups acc"
  shows "no_dups (foldl (\<lambda>m c. insert_one c m) acc cs) \<and>
    (\<forall>x \<in> S. represented x acc \<or> x \<in> set cs \<longrightarrow> represented x (foldl (\<lambda>m c. insert_one c m) acc cs))"
  using assms(2,3)
proof (induction cs arbitrary: acc)
  case (Cons c cs)
  have i: "no_dups (insert_one c acc)" "represented c (insert_one c acc)"
    "\<forall>x \<in> S. represented x acc \<longrightarrow> represented x (insert_one c acc)"
    using insert_equivalence [OF assms(1), of c acc] Cons.prems by auto
  have "set (insert_one c acc) \<union> set cs \<subseteq> S" using insert_set [of c acc] Cons.prems(1) by auto
  from Cons.IH [OF this i(1)] i(2,3) show ?case by auto
qed simp

lemma merged_equivalence:
  assumes "equivalence_on (set a \<union> set b)"
  shows "(\<forall>x \<in> set (merged a b). \<forall>y \<in> set (merged a b). dup x y \<longrightarrow> x = y) \<and>
    (\<forall>x \<in> set a \<union> set b. represented x (merged a b))"
proof -
  let ?m = "foldl (\<lambda>m c. insert_one c m) [] (a @ b)"
  have f: "no_dups ?m" "\<forall>x \<in> set a \<union> set b. represented x ?m"
    using fold_equivalence [OF assms, of "[]" "a @ b"] by (auto simp: no_dups_def)
  have "x = y" if "x \<in> set ?m" "y \<in> set ?m" "dup x y" for x y
    using f(1) that unfolding no_dups_def sorted_wrt_iff_nth_less in_set_conv_nth by (metis linorder_neqE_nat)
  then show ?thesis using f(2) by (simp add: merged_def represented_def)
qed

end

end
