(* ===== verification/Diagnoser_Props.thy ===== *)
theory Diagnoser_Props
  imports Diagnoser Fixer_Agent Ranked_Merge
begin

text \<open>
  What the diagnostician promises: whatever the language model does, the agent returns a valid report,
  ranked by confidence; merging two answers loses no finding; and what merging does not promise.
\<close>

section \<open>Merging\<close>

interpretation root_cause: ranked_merge root_cause_duplicates rc_confidence merge_one rc_suggested_fix_class
  by unfold_locales (auto simp: root_cause_duplicates_def)

lemma merge_root_causes_merged: "merge_root_causes a b = root_cause.merged a b"
  by (simp add: merge_root_causes_def root_cause.merged_def)

definition dominated :: "root_cause_hypothesis \<Rightarrow> root_cause_hypothesis list \<Rightarrow> bool" where
  "dominated x ys \<longleftrightarrow>
     (\<exists>y \<in> set ys. rc_suggested_fix_class y = rc_suggested_fix_class x \<and> rc_confidence x \<le> rc_confidence y)"

lemma merge_inputs: "set (merge_root_causes a b) \<subseteq> set a \<union> set b"
  using root_cause.merged_inputs by (simp add: merge_root_causes_merged)

lemma set_slice_to: "set (slice_to m xs) \<subseteq> set xs"
  by (auto simp: slice_to_def dest: in_set_takeD)

section \<open>The interface between agent and diagnoser\<close>

text \<open>A second diagnoser whose answers are valid hypotheses and whose failures are exceptions.\<close>

definition tolerable :: "'w diagnoser option \<Rightarrow> bool" where
  "tolerable llm \<longleftrightarrow>
     (\<forall>p. llm = Some p \<longrightarrow> (\<forall>q h. case fst (p q h) of Inr hs \<Rightarrow> list_all root_cause_hypothesis_ok hs | Inl x \<Rightarrow> is_exception x))"

lemma tolerableD:
  "tolerable llm \<Longrightarrow> llm = Some p \<Longrightarrow>
    (case fst (p q h) of Inr hs \<Rightarrow> list_all root_cause_hypothesis_ok hs | Inl x \<Rightarrow> is_exception x)"
  by (simp add: tolerable_def)

locale diagnoser_contract =
  fixes diagnose :: "diagnosis_request \<Rightarrow> 'w harness_state \<Rightarrow> root_cause_hypothesis list res \<times> 'w harness_state"
  assumes valid: "diagnose q h = (Inr hs, h') \<Longrightarrow> list_all root_cause_hypothesis_ok hs"
    and answers: "\<exists>hs h'. diagnose q h = (Inr hs, h')"
begin

lemma agent_reports:
  "\<exists>d h'. agent_diagnose diagnose rid now q h = (Inr d, h') \<and> diagnosis_report_ok d \<and>
    dr_experiment_id d = dq_experiment_id q \<and>
    (\<forall>x \<in> set (dr_hypotheses d). rc_confidence x \<le> rc_confidence (hd (dr_hypotheses d)))"
proof -
  obtain hs h' where r: "diagnose q h = (Inr hs, h')" using answers by blast
  define hs' where "hs' = (if hs = [] then [unknown_hypothesis] else hs)"
  have ne: "hs' \<noteq> []" by (simp add: hs'_def)
  have ok: "list_all root_cause_hypothesis_ok hs'"
    using valid [OF r] by (simp add: hs'_def unknown_hypothesis_def root_cause_hypothesis_ok_def valid_fix_classes_def)
  have "\<forall>x \<in> set (rank_desc rc_confidence hs'). rc_confidence x \<le> rc_confidence (hd (rank_desc rc_confidence hs'))"
    using rank_desc_hd [OF ne] by simp
  then show ?thesis
    using ok ne by (simp add: agent_diagnose_def r hs'_def [symmetric] diagnosis_report_ok_def list_all_iff)
qed

text \<open>Adding a second diagnoser keeps the contract, as long as its answers are valid and its failures exceptions.\<close>

lemma hybrid_valid:
  assumes "tolerable llm"
  shows "(hybrid_diagnose diagnose llm m q h = (Inr hs, h') \<longrightarrow> list_all root_cause_hypothesis_ok hs) \<and>
    (\<exists>hs h'. hybrid_diagnose diagnose llm m q h = (Inr hs, h'))"
proof -
  obtain hs0 h1 where s: "diagnose q h = (Inr hs0, h1)" using answers by blast
  have ok0: "list_all root_cause_hypothesis_ok hs0" using valid [OF s] .
  show ?thesis
  proof (cases llm)
    case None
    then show ?thesis using ok0 set_slice_to [of m hs0] by (auto simp: hybrid_diagnose_def s list_all_iff)
  next
    case (Some p)
    obtain r h2 where r: "p q h1 = (r, h2)" by fastforce
    show ?thesis
    proof (cases r)
      case (Inl x)
      then have "is_exception x" using tolerableD [OF assms Some, of q h1] r by simp
      then show ?thesis
        using ok0 set_slice_to [of m hs0] by (auto simp: hybrid_diagnose_def s Some r Inl list_all_iff)
    next
      case (Inr ls)
      then have "list_all root_cause_hypothesis_ok ls" using tolerableD [OF assms Some, of q h1] r by simp
      then show ?thesis
        using ok0 set_slice_to [of m "merge_root_causes hs0 ls"] merge_inputs [of hs0 ls]
        by (auto simp: hybrid_diagnose_def s Some r Inr list_all_iff)
    qed
  qed
qed

end

section \<open>Static rules\<close>

lemma rules_ok: "r \<in> set (fault_to_fix_rules c) \<Longrightarrow> fr_class r \<in> set valid_fix_classes"
  by (cases c) (auto simp: rule_def valid_fix_classes_def)

lemma adjust_bounds: "0 \<le> adjust_confidence b c s \<and> adjust_confidence b c s \<le> 1"
  by (simp add: adjust_confidence_def)

lemma candidates_ok: "x \<in> set (static_candidates isof q) \<Longrightarrow> root_cause_hypothesis_ok x"
  using rules_ok adjust_bounds
  by (fastforce simp: static_candidates_def fault_hypotheses_def rule_hypothesis_def root_cause_hypothesis_ok_def
      no_rule_hypothesis_def valid_fix_classes_def Let_def split: if_splits option.splits)

lemma candidates_nonempty: "static_candidates isof q \<noteq> []"
  by (simp add: static_candidates_def Let_def)

lemma static_ok: "static_diagnose isof m q h = (Inr hs, h') \<Longrightarrow> list_all root_cause_hypothesis_ok hs"
  using set_slice_to [of m "rank_desc rc_confidence (static_candidates isof q)"] candidates_ok
  by (fastforce simp: static_diagnose_def list_all_iff)

interpretation rules: diagnoser_contract "static_diagnose isof m" for isof m
  by unfold_locales (use static_ok in \<open>auto simp: static_diagnose_def\<close>)

text \<open>Merging the rules' hypotheses with the model's invents nothing and loses nothing: every merged
  hypothesis is one of the inputs, and for every input the result holds one of the same fix class with at least its
  confidence; the result is ranked.\<close>

theorem merge_dominates_inputs:
  "set (merge_root_causes a b) \<subseteq> set a \<union> set b \<and>
   list_all (\<lambda>x. dominated x (merge_root_causes a b)) (a @ b) \<and>
   sorted_wrt (\<lambda>x y. rc_confidence x \<ge> rc_confidence y) (merge_root_causes a b)"
  using root_cause.merged_inputs [of a b] root_cause.merged_covers [of _ a b] root_cause.merged_ranked [of a b]
  by (auto simp: merge_root_causes_merged list_all_iff dominated_def root_cause.covered_def)

lemma hybrid_contract:
  assumes "tolerable llm"
  shows "diagnoser_contract (hybrid_diagnose (static_diagnose isof m) llm n)"
proof
  fix q h hs h'
  assume "hybrid_diagnose (static_diagnose isof m) llm n q h = (Inr hs, h')"
  then show "list_all root_cause_hypothesis_ok hs"
    using rules.hybrid_valid [OF assms, of isof m n q h hs h'] by blast
next
  fix q h
  show "\<exists>hs h'. hybrid_diagnose (static_diagnose isof m) llm n q h = (Inr hs, h')"
    using rules.hybrid_valid [OF assms, of isof m n q h] by blast
qed

text \<open>A diagnosis always succeeds and is well formed: with the static rules and any language model whose
  answers are valid hypotheses and whose failures are exceptions, the agent returns a report for the requested
  experiment with at least one valid hypothesis, and the hypothesis the fixer will read is the most confident one.\<close>

theorem diagnosis_always_ranked:
  assumes "tolerable llm"
  shows "\<exists>d h'. agent_diagnose (hybrid_diagnose (static_diagnose isof m) llm n) rid now q h = (Inr d, h') \<and>
    diagnosis_report_ok d \<and> dr_experiment_id d = dq_experiment_id q \<and>
    (\<forall>x \<in> set (dr_hypotheses d). rc_confidence x \<le> rc_confidence (hd (dr_hypotheses d)))"
  by (rule diagnoser_contract.agent_reports [OF hybrid_contract [OF assms]])

definition failing_model :: "'w diagnoser" where
  "failing_model q h = (Inl (Exn ''RateLimitError'' []), h)"

definition quiet_request :: diagnosis_request where
  "quiet_request =
     \<lparr>dq_experiment_id = ''exp-0123456789ab'', dq_failed_tester_report = None, dq_failed_security_report = None,
      dq_chaos_timeline = \<lparr>ct_experiment_id = ''exp-0123456789ab'', ct_events = [], ct_success = True, ct_error = None\<rparr>,
      dq_target_repo = None\<rparr>"

lemma diagnosis_always_ranked_witness:
  "\<exists>d h'. agent_diagnose (hybrid_diagnose (static_diagnose (\<lambda>t. []) 5) (Some failing_model) 5)
      ''run-0123456789ab'' 0 quiet_request idle_harness = (Inr d, h') \<and> diagnosis_report_ok d"
  using diagnosis_always_ranked [of "Some failing_model" "\<lambda>t. []" 5 5 "''run-0123456789ab''" 0 quiet_request idle_harness]
  by (auto simp: failing_model_def tolerable_def)

section \<open>What merging does not promise\<close>

text \<open>The merged list can still hold duplicates: a model hypothesis about two files that outranks the rules'
  hypothesis about the first one takes its place without being compared with the hypothesis about the second,
  which it duplicates by the code's own test.\<close>

theorem merge_leaves_duplicates:
  assumes "rc_suggested_fix_class x = c" "rc_suggested_fix_class y = c" "rc_suggested_fix_class z = c"
    and "path_set x \<inter> path_set y = {}" "path_set z = path_set x \<union> path_set y" "path_set x \<noteq> {}" "path_set y \<noteq> {}"
    and "rc_confidence x < rc_confidence z"
  shows "set (merge_root_causes [x, y] [z]) = {z, y} \<and> root_cause_duplicates y z"
proof -
  have "\<not> root_cause_duplicates x y" using assms(4,6) by (auto simp: root_cause_duplicates_def)
  moreover have "root_cause_duplicates x z" "root_cause_duplicates y z"
    using assms by (auto simp: root_cause_duplicates_def)
  ultimately show ?thesis using assms(8) by (simp add: merge_root_causes_def)
qed

definition about :: "string list \<Rightarrow> real \<Rightarrow> root_cause_hypothesis" where
  "about paths c =
     \<lparr>rc_summary = ''no retry'', rc_confidence = c, rc_evidence = [], rc_suggested_fix_class = ''missing-retry'',
      rc_affected_paths = paths\<rparr>"

lemma merge_leaves_duplicates_witness:
  "set (merge_root_causes [about [''a.py''] (1 / 2), about [''b.py''] (1 / 2)] [about [''a.py'', ''b.py''] (3 / 4)]) =
     {about [''a.py'', ''b.py''] (3 / 4), about [''b.py''] (1 / 2)}"
proof -
  have p: "path_set (about ps c) = set ps" if "\<forall>q \<in> set ps. CHR 0x5C \<notin> set q" for ps c
  proof -
    have "replace_char (CHR 0x5C) [slash] q = q" if "CHR 0x5C \<notin> set q" for q
      using that by (induction q) (auto simp: replace_char_def)
    then show ?thesis using that by (force simp: path_set_def about_def)
  qed
  have s: "path_set (about [''a.py''] (1 / 2)) = {''a.py''}" "path_set (about [''b.py''] (1 / 2)) = {''b.py''}"
    "path_set (about [''a.py'', ''b.py''] (3 / 4)) = {''a.py'', ''b.py''}"
    using p [of "[''a.py'']" "1 / 2"] p [of "[''b.py'']" "1 / 2"] p [of "[''a.py'', ''b.py'']" "3 / 4"] by simp_all
  have c: "rc_suggested_fix_class (about ps c) = ''missing-retry''" "rc_confidence (about ps c) = c" for ps c
    by (simp_all add: about_def)
  have u: "{''a.py'', ''b.py''} = {''a.py''} \<union> {''b.py''}" by blast
  show ?thesis
    using merge_leaves_duplicates [OF c(1) c(1) c(1), of "[''a.py'']" "1 / 2" "[''b.py'']" "1 / 2" "[''a.py'', ''b.py'']" "3 / 4",
        unfolded s c(2), OF _ u] by simp
qed

text \<open>
  A fix class that is a list or a mapping cannot be looked up in the set of known classes: the lookup raises
  before the tolerant part of the loop, and the whole answer is lost.
\<close>

lemma unhashable_class_raises:
  "dict_get d ''suggested_fix_class'' = Some (PList xs) \<Longrightarrow>
    \<exists>m. keep_hypotheses vd (d # ds) = Inl (Exn ''TypeError'' m)"
  by (simp add: param_def)

end
