(* ===== verification/Regex.thy ===== *)
theory Regex
  imports Chaos_Prelude
begin

text \<open>
  Python's regular expressions as far as the sources use them (\<open>re.match\<close>, \<open>re.search\<close>, \<open>re.finditer\<close>): a
  backtracking matcher over positions of a text. A position is what lies before it (reversed), what lies after it,
  and the groups captured so far; \<open>ends r p\<close> are the positions a match of \<open>r\<close> from \<open>p\<close> can end at, in the order
  the backtracking engine tries them, so the first one is the match. A repetition is greedy and goes on only while
  it consumes characters. \<open>\w\<close> is the ASCII class.
\<close>

section \<open>Expressions and the matcher\<close>

datatype rx =
    Empty_rx
  | Sym "char \<Rightarrow> bool"
  | Seq rx rx
  | Alt rx rx
  | Many rx
  | Group nat rx
  | Word_edge
  | Line_start
  | Line_end

record position =
  po_before :: string
  po_after :: string
  po_groups :: "(nat, string) dict"

definition word_char :: "char \<Rightarrow> bool" where
  "word_char c \<longleftrightarrow> (let n = of_char c :: nat in
     (48 \<le> n \<and> n \<le> 57) \<or> (65 \<le> n \<and> n \<le> 90) \<or> (97 \<le> n \<and> n \<le> 122) \<or> n = 95)"

fun at_word :: "string \<Rightarrow> bool" where
  "at_word [] = False"
| "at_word (c # cs) = word_char c"

fun at_newline :: "string \<Rightarrow> bool" where
  "at_newline [] = True"
| "at_newline (c # cs) = (c = newline)"

fun repeat_ends :: "(position \<Rightarrow> position list) \<Rightarrow> nat \<Rightarrow> position \<Rightarrow> position list" where
  "repeat_ends f 0 p = [p]"
| "repeat_ends f (Suc n) p =
     concat (map (\<lambda>q. if length (po_after q) < length (po_after p) then repeat_ends f n q else []) (f p)) @ [p]"

definition capture :: "nat \<Rightarrow> position \<Rightarrow> position \<Rightarrow> position" where
  "capture n p q =
     q\<lparr>po_groups := dict_set n (take (length (po_after p) - length (po_after q)) (po_after p)) (po_groups q)\<rparr>"

definition step_over :: "(char \<Rightarrow> bool) \<Rightarrow> position \<Rightarrow> position list" where
  "step_over ok p =
     (case po_after p of
        [] \<Rightarrow> []
      | c # cs \<Rightarrow> (if ok c then [p\<lparr>po_before := c # po_before p, po_after := cs\<rparr>] else []))"

primrec ends :: "rx \<Rightarrow> position \<Rightarrow> position list" where
  "ends Empty_rx = (\<lambda>p. [p])"
| "ends (Sym ok) = step_over ok"
| "ends (Seq r s) = (\<lambda>p. concat (map (ends s) (ends r p)))"
| "ends (Alt r s) = (\<lambda>p. ends r p @ ends s p)"
| "ends (Many r) = (\<lambda>p. repeat_ends (ends r) (length (po_after p)) p)"
| "ends (Group n r) = (\<lambda>p. map (capture n p) (ends r p))"
| "ends Word_edge = (\<lambda>p. if at_word (po_before p) \<noteq> at_word (po_after p) then [p] else [])"
| "ends Line_start = (\<lambda>p. if at_newline (po_before p) then [p] else [])"
| "ends Line_end = (\<lambda>p. if at_newline (po_after p) then [p] else [])"

definition start_at :: "string \<Rightarrow> string \<Rightarrow> position" where
  "start_at b s = \<lparr>po_before = b, po_after = s, po_groups = []\<rparr>"

record match_object =
  mo_start :: nat
  mo_text :: string
  mo_groups :: "(nat, string) dict"

definition match_of :: "position \<Rightarrow> position \<Rightarrow> match_object" where
  "match_of p q =
     \<lparr>mo_start = length (po_before p),
      mo_text = take (length (po_after p) - length (po_after q)) (po_after p), mo_groups = po_groups q\<rparr>"

text \<open>\<open>re.match\<close>: at the start of the text.\<close>

definition rx_match :: "rx \<Rightarrow> string \<Rightarrow> match_object option" where
  "rx_match r s =
     (case ends r (start_at [] s) of [] \<Rightarrow> None | q # _ \<Rightarrow> Some (match_of (start_at [] s) q))"

text \<open>\<open>re.search\<close>: the leftmost start at which the expression matches.\<close>

fun search_from :: "rx \<Rightarrow> string \<Rightarrow> string \<Rightarrow> (position \<times> position) option" where
  "search_from r b s =
     (case ends r (start_at b s) of
        q # _ \<Rightarrow> Some (start_at b s, q)
      | [] \<Rightarrow> (case s of [] \<Rightarrow> None | c # cs \<Rightarrow> search_from r (c # b) cs))"

declare search_from.simps [simp del]

definition rx_search :: "rx \<Rightarrow> string \<Rightarrow> match_object option" where
  "rx_search r s = map_option (\<lambda>(p, q). match_of p q) (search_from r [] s)"

text \<open>\<open>re.finditer\<close> of an expression that consumes characters: search again from the end of each match.\<close>

fun find_from :: "rx \<Rightarrow> nat \<Rightarrow> string \<Rightarrow> string \<Rightarrow> match_object list" where
  "find_from r 0 b s = []"
| "find_from r (Suc n) b s =
     (case search_from r b s of
        None \<Rightarrow> []
      | Some (p, q) \<Rightarrow> match_of p q # find_from r n (po_before q) (po_after q))"

definition rx_finditer :: "rx \<Rightarrow> string \<Rightarrow> match_object list" where
  "rx_finditer r s = find_from r (Suc (length s)) [] s"

section \<open>Building expressions\<close>

primrec text_rx :: "string \<Rightarrow> rx" where
  "text_rx [] = Empty_rx"
| "text_rx (c # cs) = Seq (Sym (\<lambda>x. x = c)) (text_rx cs)"

fun one_of :: "string list \<Rightarrow> rx" where
  "one_of [] = Sym (\<lambda>c. False)"
| "one_of [w] = text_rx w"
| "one_of (w # ws) = Alt (text_rx w) (one_of ws)"

fun seq_of :: "rx list \<Rightarrow> rx" where
  "seq_of [] = Empty_rx"
| "seq_of [r] = r"
| "seq_of (r # rs) = Seq r (seq_of rs)"

definition maybe :: "rx \<Rightarrow> rx" where "maybe r = Alt r Empty_rx"

definition many1 :: "rx \<Rightarrow> rx" where "many1 r = Seq r (Many r)"

definition spaces :: rx where "spaces = Many (Sym is_space)"

definition at_least :: "nat \<Rightarrow> rx \<Rightarrow> rx" where
  "at_least n r = foldr Seq (replicate n r) (Many r)"

section \<open>What the matcher accepts\<close>

text \<open>The match relation, without the order of the attempts.\<close>

inductive matches :: "rx \<Rightarrow> position \<Rightarrow> position \<Rightarrow> bool" where
  m_empty: "matches Empty_rx p p"
| m_sym: "ok c \<Longrightarrow> matches (Sym ok) \<lparr>po_before = b, po_after = c # s, po_groups = g\<rparr>
    \<lparr>po_before = c # b, po_after = s, po_groups = g\<rparr>"
| m_seq: "matches r p q \<Longrightarrow> matches s q t \<Longrightarrow> matches (Seq r s) p t"
| m_left: "matches r p q \<Longrightarrow> matches (Alt r s) p q"
| m_right: "matches s p q \<Longrightarrow> matches (Alt r s) p q"
| m_stop: "matches (Many r) p p"
| m_again: "matches r p q \<Longrightarrow> length (po_after q) < length (po_after p) \<Longrightarrow> matches (Many r) q t \<Longrightarrow>
    matches (Many r) p t"
| m_group: "matches r p q \<Longrightarrow> matches (Group n r) p (capture n p q)"
| m_edge: "at_word (po_before p) \<noteq> at_word (po_after p) \<Longrightarrow> matches Word_edge p p"
| m_line_start: "at_newline (po_before p) \<Longrightarrow> matches Line_start p p"
| m_line_end: "at_newline (po_after p) \<Longrightarrow> matches Line_end p p"

inductive_cases matches_emptyE [elim!]: "matches Empty_rx p q"
inductive_cases matches_symE [elim!]: "matches (Sym ok) p q"
inductive_cases matches_seqE [elim!]: "matches (Seq r s) p q"
inductive_cases matches_altE [elim!]: "matches (Alt r s) p q"
inductive_cases matches_manyE: "matches (Many r) p q"
inductive_cases matches_groupE [elim!]: "matches (Group n r) p q"
inductive_cases matches_edgeE [elim!]: "matches Word_edge p q"
inductive_cases matches_startE [elim!]: "matches Line_start p q"
inductive_cases matches_endE [elim!]: "matches Line_end p q"

lemma step_over_iff: "q \<in> set (step_over ok p) \<longleftrightarrow> matches (Sym ok) p q"
proof (cases p)
  case (fields b s g)
  then show ?thesis by (cases s) (auto simp: step_over_def intro: matches.m_sym)
qed

lemma repeat_ends_sound:
  assumes "\<And>p q. q \<in> set (f p) \<longleftrightarrow> matches r p q"
  shows "q \<in> set (repeat_ends f n p) \<Longrightarrow> matches (Many r) p q"
  using assms by (induction f n p rule: repeat_ends.induct) (auto intro: matches.intros split: if_splits)

lemma repeat_ends_complete:
  assumes f: "\<And>p q. q \<in> set (f p) \<longleftrightarrow> matches r p q"
  shows "matches (Many r) p q \<Longrightarrow> length (po_after p) \<le> n \<Longrightarrow> q \<in> set (repeat_ends f n p)"
proof (induction "Many r" p q arbitrary: n rule: matches.induct)
  case (m_stop p)
  then show ?case by (cases n) auto
next
  case (m_again p q t)
  then obtain k where n: "n = Suc k" by (cases n) auto
  have "t \<in> set (repeat_ends f k q)" using m_again n by simp
  then show ?case using m_again.hyps f n by auto
qed

text \<open>The backtracking matcher finds exactly the matches of the relation.\<close>

theorem ends_iff_matches: "q \<in> set (ends r p) \<longleftrightarrow> matches r p q"
proof (induction r arbitrary: p q)
  case (Many r)
  then show ?case
    using repeat_ends_sound [of "ends r" r] repeat_ends_complete [of "ends r" r p q "length (po_after p)"] by auto
qed (auto simp: step_over_iff intro: matches.intros split: if_splits)

lemma search_from_Nil: "search_from r b [] = (case ends r (start_at b []) of q # _ \<Rightarrow> Some (start_at b [], q) | [] \<Rightarrow> None)"
  by (subst search_from.simps) (simp split: list.split)

lemma search_from_Cons:
  "search_from r b (c # cs) =
    (case ends r (start_at b (c # cs)) of q # _ \<Rightarrow> Some (start_at b (c # cs), q) | [] \<Rightarrow> search_from r (c # b) cs)"
  by (subst search_from.simps) (simp split: list.split)

lemma search_from_None_iff:
  "search_from r b s = None \<longleftrightarrow> (\<forall>u v. s = u @ v \<longrightarrow> ends r (start_at (rev u @ b) v) = [])"
proof (induction s arbitrary: b)
  case Nil
  then show ?case by (auto simp: search_from_Nil split: list.splits)
next
  case (Cons c cs)
  have "(\<forall>u v. c # cs = u @ v \<longrightarrow> ends r (start_at (rev u @ b) v) = []) \<longleftrightarrow>
    ends r (start_at b (c # cs)) = [] \<and> (\<forall>u v. cs = u @ v \<longrightarrow> ends r (start_at (rev u @ c # b) v) = [])"
    (is "?l \<longleftrightarrow> ?a \<and> ?r")
  proof
    assume l: ?l
    have ?a using l [rule_format, of "[]"] by simp
    moreover have ?r using l [rule_format, of "c # u" for u] by simp
    ultimately show "?a \<and> ?r" ..
  qed (auto simp: Cons_eq_append_conv)
  then show ?case by (auto simp: search_from_Cons Cons.IH split: list.splits)
qed

text \<open>A search finds something exactly when the expression matches somewhere in the text.\<close>

lemma rx_search_iff: "rx_search r s \<noteq> None \<longleftrightarrow> (\<exists>u v q. s = u @ v \<and> matches r (start_at (rev u) v) q)"
proof -
  have "ends r p \<noteq> [] \<longleftrightarrow> (\<exists>q. matches r p q)" for p
    by (metis ends_iff_matches last_in_set list.set(1) empty_iff)
  then show ?thesis by (auto simp: rx_search_def search_from_None_iff)
qed

text \<open>Matches move forward: what they consume is a prefix of what lay ahead.\<close>

lemma matches_consumes:
  "matches r p q \<Longrightarrow> \<exists>w. po_after p = w @ po_after q \<and> po_before q = rev w @ po_before p"
proof (induction rule: matches.induct)
  case (m_seq r p q s t)
  then show ?case by (metis append.assoc rev_append)
next
  case (m_again r p q t)
  then show ?case by (metis append.assoc rev_append)
qed (auto simp: capture_def)

lemma search_from_match:
  "search_from r b s = Some (p, q) \<Longrightarrow> \<exists>u v. s = u @ v \<and> p = start_at (rev u @ b) v \<and> matches r p q"
proof (induction s arbitrary: b)
  case Nil
  then show ?case
    using ends_iff_matches by (force simp: search_from_Nil split: list.splits)
next
  case (Cons c cs)
  show ?case
  proof (cases "ends r (start_at b (c # cs))")
    case Nil
    then have "search_from r (c # b) cs = Some (p, q)" using Cons.prems by (simp add: search_from_Cons)
    from Cons.IH [OF this] show ?thesis by (metis append_Cons append.assoc rev.simps(2) append_Nil)
  next
    case (Cons e es)
    then have "p = start_at b (c # cs)" "q = e" using Cons.prems Cons
      by (simp_all add: search_from_Cons)
    moreover have "matches r (start_at b (c # cs)) e" using ends_iff_matches Cons by (metis list.set_intros(1))
    ultimately show ?thesis by (metis append_Nil rev.simps(1))
  qed
qed

lemma rx_search_text:
  assumes "rx_search r s = Some m"
  shows "\<exists>u v. s = u @ mo_text m @ v \<and> mo_start m = length u"
proof -
  obtain p q where f: "search_from r [] s = Some (p, q)" and m: "m = match_of p q"
    using assms by (auto simp: rx_search_def)
  obtain u v where u: "s = u @ v" "p = start_at (rev u) v" "matches r p q" using search_from_match [OF f] by auto
  obtain w where "v = w @ po_after q" using matches_consumes [OF u(3)] u(2) by (auto simp: start_at_def)
  then show ?thesis using u m by (auto simp: match_of_def start_at_def)
qed

end
