(* ===== verification/Detectors.thy ===== *)
theory Detectors
  imports Regex Code_Reader Fixer_Policy Llm_Text
begin

text \<open>
  The static detectors, \<open>agents/tester/detectors/\<close>: each scans the files a code reader lists with Python regular
  expressions and reports the places that match a fragility pattern. A file that cannot be read is skipped.
  \<open>sha256\<close> is the hexadecimal digest of a text.
\<close>

section \<open>Issues\<close>

record issue =
  iu_file :: string
  iu_line :: nat
  iu_snippet :: string
  iu_detail :: string

record detector =
  dt_name :: string
  dt_find :: "code_reader \<Rightarrow> issue list"

definition slug :: "(string \<Rightarrow> string) \<Rightarrow> string \<Rightarrow> nat \<Rightarrow> string" where
  "slug sha256 t n = take n (sha256 t)"

definition hypothesis_id :: "(string \<Rightarrow> string) \<Rightarrow> string \<Rightarrow> issue \<Rightarrow> string" where
  "hypothesis_id sha256 detector i =
     ''h-'' @ lower (replace_char (CHR ''_'') ''-'' detector) @ ''-'' @
     slug sha256 (iu_file i @ '':'' @ nat_str (iu_line i)) 8"

definition word_rx :: rx where "word_rx = Sym word_char"

definition lstrip :: "string \<Rightarrow> string" where "lstrip s = dropWhile is_space s"

definition rstrip :: "string \<Rightarrow> string" where "rstrip s = rev (dropWhile is_space (rev s))"

text \<open>\<open>\b(?:redis|httpx|...)\.\w+\s*\(\<close>.\<close>

definition external_dep_call :: rx where
  "external_dep_call =
     seq_of [Word_edge,
       one_of [''redis'', ''httpx'', ''requests'', ''aiohttp'', ''psycopg2'', ''psycopg'', ''asyncpg'', ''kafka'',
         ''boto3'', ''gcloud'', ''grpc''],
       text_rx ''.'', many1 word_rx, spaces, text_rx ''('']"

section \<open>Scanning\<close>

definition scan_files :: "string list \<Rightarrow> (string \<Rightarrow> string \<Rightarrow> issue list) \<Rightarrow> code_reader \<Rightarrow> issue list" where
  "scan_files paths f rd =
     concat (map (\<lambda>path. case read_file rd path None None of Inl x \<Rightarrow> [] | Inr t \<Rightarrow> f path t) paths)"

definition python_files :: "code_reader \<Rightarrow> string list" where
  "python_files rd = list_files rd ''**/*.py''"

definition yaml_files :: "code_reader \<Rightarrow> string list" where
  "yaml_files rd = sorted_set (list_files rd ''**/*.yaml'' @ list_files rd ''**/*.yml'')"

definition numbered_lines :: "string \<Rightarrow> (nat \<times> string) list" where
  "numbered_lines t = enumerate 1 (splitlines t)"

definition issue_at :: "string \<Rightarrow> nat \<times> string \<Rightarrow> string \<Rightarrow> issue" where
  "issue_at path nl detail = \<lparr>iu_file = path, iu_line = fst nl, iu_snippet = strip (snd nl), iu_detail = detail\<rparr>"

text \<open>Every line that matches, or only the first: \<open>test\<close> gives the detail of a line to report.\<close>

definition report_each :: "(string \<Rightarrow> string option) \<Rightarrow> string \<Rightarrow> string \<Rightarrow> issue list" where
  "report_each test path t =
     concat (map (\<lambda>nl. case test (snd nl) of None \<Rightarrow> [] | Some d \<Rightarrow> [issue_at path nl d]) (numbered_lines t))"

definition report_first :: "(string \<Rightarrow> string option) \<Rightarrow> string \<Rightarrow> string \<Rightarrow> issue list" where
  "report_first test path t = take 1 (report_each test path t)"

section \<open>Network\<close>

definition not_close :: rx where "not_close = Many (Sym (\<lambda>c. c \<noteq> CHR '')''))"

definition timeout_call_patterns :: "rx list" where
  "timeout_call_patterns =
     [seq_of [Word_edge, one_of [''requests'', ''httpx''], text_rx ''.'',
        one_of [''get'', ''post'', ''put'', ''delete'', ''patch'', ''request''], spaces, text_rx ''('',
        Group 1 not_close, text_rx '')''],
      seq_of [Word_edge, text_rx ''aiohttp.ClientSession('', not_close, text_rx '').'', one_of [''get'', ''post''],
        spaces, text_rx ''('', Group 1 not_close, text_rx '')''],
      seq_of [Word_edge, text_rx ''subprocess.'', one_of [''run'', ''Popen'', ''call'', ''check_output''], spaces,
        text_rx ''('', Group 1 not_close, text_rx '')'']]"

definition untimed_call :: "string \<Rightarrow> string option" where
  "untimed_call line =
     first_some (map (\<lambda>pat. case rx_search pat line of
         None \<Rightarrow> None
       | Some m \<Rightarrow> if str_in ''timeout='' (mo_text m) then None else Some (mo_text m)) timeout_call_patterns)"

definition missing_timeout :: detector where
  "missing_timeout =
     \<lparr>dt_name = ''missing-timeout'', dt_find = (\<lambda>rd. scan_files (python_files rd) (report_each untimed_call) rd)\<rparr>"

definition retry_hints :: rx where
  "retry_hints =
     Seq Word_edge
       (Alt (one_of [''retry'', ''@retry'', ''tenacity'', ''backoff'', ''RetryError'', ''ConnectionPoolError'', ''max_attempts''])
         (seq_of [text_rx ''attempt'', spaces, Sym (\<lambda>c. c \<in> set ''<>='')]))"

definition starts_any :: "string list \<Rightarrow> string \<Rightarrow> bool" where
  "starts_any ps s = list_ex (\<lambda>p. take (length p) s = p) ps"

text \<open>A call of an external dependency, on a line that does not start like \<open>skip\<close>.\<close>

definition dep_call :: "string list \<Rightarrow> string \<Rightarrow> string option" where
  "dep_call skip line =
     (case rx_search external_dep_call line of
        None \<Rightarrow> None
      | Some m \<Rightarrow> if starts_any skip (lstrip line) then None else Some (mo_text m))"

definition missing_retry :: detector where
  "missing_retry =
     \<lparr>dt_name = ''missing-retry'',
      dt_find = (\<lambda>rd. scan_files (python_files rd)
        (\<lambda>path t. if rx_search retry_hints t \<noteq> None then []
                  else report_first (dep_call [''import '', ''from '']) path t) rd)\<rparr>"

section \<open>Resilience\<close>

definition breaker_hints :: rx where
  "breaker_hints =
     seq_of [Word_edge,
       one_of [''pybreaker'', ''circuitbreaker'', ''CircuitBreaker'', ''aiobreaker'', ''hyx.circuit'', ''@circuit'', ''@breaker'',
         ''circuit_breaker'', ''breaker.call'', ''polly'', ''resilience4j''], Word_edge]"

definition missing_circuit_breaker :: detector where
  "missing_circuit_breaker =
     \<lparr>dt_name = ''missing-circuit-breaker'',
      dt_find = (\<lambda>rd. scan_files (python_files rd)
        (\<lambda>path t. if rx_search breaker_hints t \<noteq> None then []
                  else report_first (dep_call [''import '', ''from '', ''#'']) path t) rd)\<rparr>"

definition cache_libs :: "string list" where
  "cache_libs = [''redis'', ''valkey'', ''memcache'', ''aiocache'']"

definition cache_import :: rx where
  "cache_import =
     Seq Word_edge
       (Alt (seq_of [text_rx ''import'', many1 (Sym is_space), one_of cache_libs])
         (seq_of [text_rx ''from'', many1 (Sym is_space), one_of cache_libs, Word_edge]))"

definition ident_start :: "char \<Rightarrow> bool" where
  "ident_start c \<longleftrightarrow> word_char c \<and> \<not> is_digit c"

definition cache_client_assign :: rx where
  "cache_client_assign =
     seq_of [Line_start, spaces, Group 1 (Seq (Sym ident_start) (Many word_rx)), spaces, text_rx ''='', spaces,
       Alt (one_of [''redis.Redis'', ''valkey.Valkey'', ''memcache.Client''])
         (Seq (text_rx ''aiocache.'') (many1 word_rx)), spaces, text_rx ''('']"

definition get_ops :: "string list" where
  "get_ops = [''get'', ''hget'', ''hgetall'', ''mget'', ''exists'', ''fetch'']"

definition direct_cache_call :: rx where
  "direct_cache_call =
     seq_of [Word_edge, one_of [''redis'', ''valkey'', ''memcache'', ''memcached'', ''aiocache''], Word_edge,
       Many (Sym (\<lambda>c. word_char c \<or> c = CHR ''.'')), text_rx ''.'', one_of get_ops, spaces, text_rx ''('']"

definition has_try :: rx where
  "has_try = seq_of [Line_start, spaces, text_rx ''try'', spaces, text_rx '':'']"

definition client_vars :: "string \<Rightarrow> string list" where
  "client_vars t =
     remdups (map (\<lambda>m. case dict_get (mo_groups m) 1 of Some v \<Rightarrow> v | None \<Rightarrow> []) (rx_finditer cache_client_assign t))"

definition var_call :: "string list \<Rightarrow> rx" where
  "var_call vars = seq_of [Word_edge, Group 1 (one_of vars), text_rx ''.'', one_of get_ops, spaces, text_rx ''('']"

definition cache_read :: "string list \<Rightarrow> string \<Rightarrow> string option" where
  "cache_read vars line =
     (if starts_any [''import '', ''from '', ''#''] (lstrip line) then None
      else map_option mo_text (or_else (rx_search direct_cache_call line)
        (if vars = [] then None else rx_search (var_call vars) line)))"

definition cache_scan :: "string \<Rightarrow> string \<Rightarrow> issue list" where
  "cache_scan path t =
     (let vars = client_vars t in
      if vars = [] \<and> rx_search cache_import t = None then []
      else if rx_search has_try t \<noteq> None then []
      else report_first (cache_read vars) path t)"

definition no_fallback_for_cache :: detector where
  "no_fallback_for_cache =
     \<lparr>dt_name = ''no-fallback-for-cache'', dt_find = (\<lambda>rd. scan_files (python_files rd) cache_scan rd)\<rparr>"

section \<open>Blocking calls in coroutines\<close>

definition async_def :: rx where
  "async_def =
     seq_of [Line_start, Group 1 spaces, text_rx ''async'', many1 (Sym is_space), text_rx ''def'', many1 (Sym is_space),
       many1 word_rx, spaces, text_rx ''('']"

definition def_boundary :: rx where
  "def_boundary =
     seq_of [Line_start, Group 1 spaces, maybe (Seq (text_rx ''async'') (many1 (Sym is_space))),
       one_of [''def'', ''class''], many1 (Sym is_space), many1 word_rx]"

definition decorator :: rx where
  "decorator =
     seq_of [Line_start, Group 1 spaces, text_rx ''@'', word_rx, Many (Sym (\<lambda>c. word_char c \<or> c = CHR ''.''))]"

definition sync_calls :: rx where
  "sync_calls =
     seq_of [Word_edge,
       Group 1
         (Alt (text_rx ''time.sleep'')
         (Alt (Seq (text_rx ''requests.'') (one_of [''get'', ''post'', ''put'', ''delete'', ''patch'', ''head'', ''request'']))
         (Alt (text_rx ''urllib.request.'')
         (Alt (text_rx ''urllib2.'')
         (Alt (Seq (text_rx ''socket.'') (one_of [''recv'', ''send'', ''connect'']))
         (Alt (Seq (text_rx ''subprocess.'') (one_of [''run'', ''call'', ''check_output'', ''check_call'']))
           (text_rx ''os.system''))))))),
       spaces, text_rx ''('']"

definition offload_hints :: rx where
  "offload_hints =
     seq_of [Word_edge, one_of [''to_thread'', ''run_in_executor'', ''asyncio.to_thread'', ''loop.run_in_executor''], Word_edge]"

definition leading_ws :: "string \<Rightarrow> nat" where
  "leading_ws line = length line - length (lstrip line)"

definition await_precedes :: "string \<Rightarrow> nat \<Rightarrow> bool" where
  "await_precedes line i = suffix ''await'' (rstrip (take i line))"

text \<open>One line: the indent of the enclosing coroutine before and after it, and the call to report.\<close>

definition sync_call_on :: "string \<Rightarrow> string option" where
  "sync_call_on line =
     (if take 1 (lstrip line) = ''#'' then None
      else if rx_search offload_hints line \<noteq> None then None
      else case rx_search sync_calls line of
        None \<Rightarrow> None
      | Some m \<Rightarrow>
          (if await_precedes line (mo_start m) then None
           else Some (case dict_get (mo_groups m) 1 of Some g \<Rightarrow> g | None \<Rightarrow> [])))"

definition close_scope :: "nat option \<Rightarrow> string \<Rightarrow> nat option" where
  "close_scope scope line =
     (case scope of
        None \<Rightarrow> None
      | Some k \<Rightarrow> (if leading_ws line \<le> k \<and> rx_match def_boundary line \<noteq> None then None else Some k))"

definition async_line :: "nat option \<Rightarrow> string \<Rightarrow> nat option \<times> string option" where
  "async_line scope line =
     (if strip line = [] then (scope, None)
      else if rx_match decorator line \<noteq> None then (scope, None)
      else case rx_match async_def line of
        Some m \<Rightarrow> (Some (length (case dict_get (mo_groups m) 1 of Some g \<Rightarrow> g | None \<Rightarrow> [])), None)
      | None \<Rightarrow>
          (case close_scope scope line of
             None \<Rightarrow> (None, None)
           | Some k \<Rightarrow> (Some k, sync_call_on line)))"

fun async_scan :: "string \<Rightarrow> nat option \<Rightarrow> (nat \<times> string) list \<Rightarrow> issue list" where
  "async_scan path scope [] = []"
| "async_scan path scope (nl # rest) =
     (case async_line scope (snd nl) of
        (scope', None) \<Rightarrow> async_scan path scope' rest
      | (scope', Some d) \<Rightarrow> issue_at path nl d # async_scan path scope' rest)"

definition sync_call_in_async :: detector where
  "sync_call_in_async =
     \<lparr>dt_name = ''sync-call-in-async'',
      dt_find = (\<lambda>rd. scan_files (python_files rd) (\<lambda>path t. async_scan path None (numbered_lines t)) rd)\<rparr>"

section \<open>Kubernetes manifests\<close>

definition deployment_kind :: rx where
  "deployment_kind = seq_of [Line_start, text_rx ''kind:'', spaces, text_rx ''Deployment'', spaces, Line_end]"

definition replicas_one :: rx where
  "replicas_one =
     seq_of [Line_start, spaces, text_rx ''replicas:'', spaces, text_rx ''1'', spaces,
       maybe (Seq (text_rx ''#'') (Many (Sym (\<lambda>c. c \<noteq> newline)))), Line_end]"

definition required_affinity :: rx where
  "required_affinity =
     seq_of [Line_start, spaces, text_rx ''requiredDuringSchedulingIgnoredDuringExecution'', spaces,
       maybe (text_rx '':''), spaces, Line_end]"

definition line_matches :: "rx \<Rightarrow> string \<Rightarrow> string \<Rightarrow> string option" where
  "line_matches r detail line = (if rx_match r line = None then None else Some detail)"

definition single_replica :: detector where
  "single_replica =
     \<lparr>dt_name = ''single-replica'',
      dt_find = (\<lambda>rd. scan_files (yaml_files rd)
        (\<lambda>path t. if rx_search deployment_kind t = None then []
                  else report_first (line_matches replicas_one ''Deployment with replicas: 1'') path t) rd)\<rparr>"

definition hard_pod_affinity :: detector where
  "hard_pod_affinity =
     \<lparr>dt_name = ''hard-pod-affinity'',
      dt_find = (\<lambda>rd. scan_files (yaml_files rd)
        (report_first (line_matches required_affinity ''hard affinity / anti-affinity rule'')) rd)\<rparr>"

section \<open>Secrets\<close>

definition upper_char :: "char \<Rightarrow> bool" where
  "upper_char c \<longleftrightarrow> (let n = of_char c :: nat in 65 \<le> n \<and> n \<le> 90)"

definition alpha_char :: "char \<Rightarrow> bool" where
  "alpha_char c \<longleftrightarrow> word_char c \<and> c \<noteq> CHR ''_'' \<and> \<not> is_digit c"

definition secret_char :: "char \<Rightarrow> bool" where
  "secret_char c \<longleftrightarrow> word_char c \<or> c \<in> set ''+/=-''"

definition secret_name :: rx where
  "secret_name =
     Alt (Seq (Many (Sym (\<lambda>c. upper_char c \<or> c = CHR ''_'')))
           (one_of [''KEY'', ''SECRET'', ''TOKEN'', ''PASSWORD'', ''PASSWD'', ''PASS'']))
         (one_of [''password'', ''secret'', ''token''])"

definition quote_rx :: rx where "quote_rx = Sym (\<lambda>c. c = squote \<or> c = dquote)"

definition hardcoded_secret_rx :: rx where
  "hardcoded_secret_rx =
     seq_of [Word_edge, secret_name, spaces, Sym (\<lambda>c. c \<in> set ''=:''), spaces, quote_rx,
       Group 1 (at_least 12 (Sym secret_char)), quote_rx]"

definition loaded_from_env :: rx where
  "loaded_from_env =
     one_of [''os.environ'', ''getenv'', ''config.'', ''settings.'', ''Field('', ''os.getenv'', ''env.'', ''secrets.'', ''keyring.'',
       ''vault.'', ''kms.'', ''getpass'']"

definition hex_digit :: "char \<Rightarrow> bool" where
  "hex_digit c \<longleftrightarrow> c \<in> set ''0123456789abcdefABCDEF''"

definition describe_pattern :: "string \<Rightarrow> string" where
  "describe_pattern s =
     (if lower (take 8 s) \<in> set [''sk_live_'', ''sk_test_'', ''pk_live_'', ''pk_test_'']
      then lower (take 8 s) @ ''* prefix (likely Stripe-style API key)''
      else if list_all hex_digit s then ''hex'' @ nat_str (length s) @ '' (likely token/digest)''
      else if list_all (\<lambda>c. is_digit c \<or> alpha_char c \<or> c \<in> set ''+/=_-'') s then ''base64/url-safe string''
      else ''high-entropy string'')"

definition secret_on :: "string \<Rightarrow> string option" where
  "secret_on line =
     (if take 1 (lstrip line) = ''#'' then None
      else case rx_search hardcoded_secret_rx line of
        None \<Rightarrow> None
      | Some m \<Rightarrow>
          (if rx_search loaded_from_env line \<noteq> None then None
           else let literal = (case dict_get (mo_groups m) 1 of Some g \<Rightarrow> g | None \<Rightarrow> []) in
             Some (''matched '' @ describe_pattern literal @ '' ('' @ nat_str (length literal) @ '' chars)'')))"

definition hardcoded_secret :: detector where
  "hardcoded_secret =
     \<lparr>dt_name = ''hardcoded-secret'', dt_find = (\<lambda>rd. scan_files (python_files rd) (report_each secret_on) rd)\<rparr>"

section \<open>The detector set\<close>

definition default_detectors :: "detector list" where
  "default_detectors =
     [missing_timeout, missing_retry, missing_circuit_breaker, no_fallback_for_cache, sync_call_in_async,
      single_replica, hard_pod_affinity, hardcoded_secret]"

end
