(* ===== verification/Probes.thy ===== *)
theory Probes
  imports Query_Backends Hardware_IO
begin

text \<open>
  The tester's probes, \<open>agents/tester/probes/\<close>: one query with an expectation about its result, the loader of a
  target's probe set, and the backend that answers probes from a hardware bench
  (\<open>agents/tester/tools/hardware_telemetry.py\<close>). A reading is a number or a NaN (\<open>None\<close>), and a NaN meets no
  bound. \<open>fr\<close> prints a float. The directory of probe sets is an argument: the parsed file of every name that
  exists, and the stems of the files there.
\<close>

section \<open>Probes\<close>

datatype expectation_kind = Value_below | Value_above | Value_between | Result_not_empty

record probe_expectation =
  pe_kind :: expectation_kind
  pe_threshold :: "real option"
  pe_minimum :: "real option"
  pe_maximum :: "real option"

record probe =
  pb_name :: string
  pb_description :: string
  pb_query :: string
  pb_expect :: probe_expectation
  pb_metric_name :: string

definition probe_ok :: "probe \<Rightarrow> bool" where
  "probe_ok p \<longleftrightarrow> pb_name p \<noteq> [] \<and> length (pb_name p) \<le> 128 \<and> pb_query p \<noteq> []"

record probe_result =
  pr_probe :: probe
  pr_samples :: "real option list"
  pr_passed :: bool
  pr_reason :: string

text \<open>\<open>sum(s.value for s in samples)\<close>: one NaN makes the sum a NaN.\<close>

fun nan_sum :: "real option list \<Rightarrow> real option" where
  "nan_sum [] = Some 0"
| "nan_sum (None # vs) = None"
| "nan_sum (Some v # vs) = map_option (\<lambda>t. v + t) (nan_sum vs)"

definition aggregate_samples :: "instant_sample list \<Rightarrow> real option option" where
  "aggregate_samples ss = (if ss = [] then None else Some (nan_sum (map is_value ss)))"

text \<open>A comparison with a NaN is false.\<close>

fun nan_less :: "real option \<Rightarrow> real option \<Rightarrow> bool" where
  "nan_less (Some x) (Some y) = (x < y)"
| "nan_less _ _ = False"

fun nan_between :: "real \<Rightarrow> real option \<Rightarrow> real \<Rightarrow> bool" where
  "nan_between lo (Some v) hi = (lo \<le> v \<and> v \<le> hi)"
| "nan_between lo None hi = False"

definition reading_str :: "(real \<Rightarrow> string) \<Rightarrow> real option \<Rightarrow> string" where
  "reading_str fr v = (case v of None \<Rightarrow> ''nan'' | Some x \<Rightarrow> fr x)"

definition check_expectation :: "(real \<Rightarrow> string) \<Rightarrow> probe_expectation \<Rightarrow> real option \<Rightarrow> bool \<times> string" where
  "check_expectation fr ex v =
     (case pe_kind ex of
        Value_below \<Rightarrow>
          (case pe_threshold ex of
             None \<Rightarrow> (False, ''value_below requires threshold'')
           | Some t \<Rightarrow> (nan_less v (Some t), ''value '' @ reading_str fr v @ '' >= threshold '' @ fr t))
      | Value_above \<Rightarrow>
          (case pe_threshold ex of
             None \<Rightarrow> (False, ''value_above requires threshold'')
           | Some t \<Rightarrow> (nan_less (Some t) v, ''value '' @ reading_str fr v @ '' <= threshold '' @ fr t))
      | Value_between \<Rightarrow>
          (case (pe_minimum ex, pe_maximum ex) of
             (Some lo, Some hi) \<Rightarrow>
               (nan_between lo v hi, ''value '' @ reading_str fr v @ '' outside ['' @ fr lo @ '', '' @ fr hi @ '']'')
           | _ \<Rightarrow> (False, ''value_between requires minimum and maximum''))
      | Result_not_empty \<Rightarrow> (True, []))"

type_synonym 'w prom_backend = "string \<Rightarrow> 'w \<Rightarrow> instant_sample list res \<times> 'w"

text \<open>The backend's own error fails the probe; every other exception gets out.\<close>

definition judge_probe :: "(real \<Rightarrow> string) \<Rightarrow> probe \<Rightarrow> instant_sample list \<Rightarrow> probe_result" where
  "judge_probe fr p ss =
     (case aggregate_samples ss of
        None \<Rightarrow> \<lparr>pr_probe = p, pr_samples = [], pr_passed = False,
          pr_reason = (if pe_kind (pb_expect p) = Result_not_empty then ''empty result'' else ''no samples returned'')\<rparr>
      | Some v \<Rightarrow>
          (if pe_kind (pb_expect p) = Result_not_empty
           then \<lparr>pr_probe = p, pr_samples = [v], pr_passed = True, pr_reason = []\<rparr>
           else case check_expectation fr (pb_expect p) v of
             (passed, reason) \<Rightarrow>
               \<lparr>pr_probe = p, pr_samples = [v], pr_passed = passed, pr_reason = (if passed then [] else reason)\<rparr>))"

definition evaluate_probe :: "(real \<Rightarrow> string) \<Rightarrow> probe \<Rightarrow> 'w prom_backend \<Rightarrow> 'w \<Rightarrow> probe_result res \<times> 'w" where
  "evaluate_probe fr p backend w =
     (case backend (pb_query p) w of
        (Inr ss, w') \<Rightarrow> (Inr (judge_probe fr p ss), w')
      | (Inl (Exn c m), w') \<Rightarrow>
          (if c = ''PromQueryError''
           then (Inr \<lparr>pr_probe = p, pr_samples = [], pr_passed = False, pr_reason = ''query error: '' @ m\<rparr>, w')
           else (Inl (Exn c m), w'))
      | (Inl (BaseExn c), w') \<Rightarrow> (Inl (BaseExn c), w'))"

section \<open>Probe sets\<close>

record probe_dir =
  pd_file :: "string \<Rightarrow> pyval res option"
  pd_path :: "string \<Rightarrow> string"
  pd_stems :: "string list"
  pd_validate :: "pyval \<Rightarrow> probe res"

definition load_probe_set :: "(pyval \<Rightarrow> probe res) \<Rightarrow> pyval res \<Rightarrow> probe list res" where
  "load_probe_set vd raw = res_bind raw (\<lambda>v. res_bind (get_items v ''probes'') (res_map vd))"

definition probes_for_target :: "probe_dir \<Rightarrow> string \<Rightarrow> probe list res" where
  "probes_for_target pd target =
     (case pd_file pd (target @ ''.yaml'') of
        None \<Rightarrow> Inl (Exn ''FileNotFoundError''
          (''No probe set for target '' @ repr_str target @ '' at '' @ pd_path pd (target @ ''.yaml'') @ ''. Available: '' @
           repr_strs (pd_stems pd)))
      | Some raw \<Rightarrow> load_probe_set (pd_validate pd) raw)"

section \<open>Probes answered by the bench\<close>

text \<open>The sample's timestamp is the time of the reading, \<open>now\<close>; the query is the metric's name.\<close>

definition hw_query_instant :: "'e hardware_io \<Rightarrow> real \<Rightarrow> 'e prom_backend" where
  "hw_query_instant io now query e =
     (case hi_read_telemetry io query e of
        (Inl x, e') \<Rightarrow> (Inl x, e')
      | (Inr s, e') \<Rightarrow>
          (Inr [\<lparr>is_timestamp = Some now, is_value = Some (ts_value s),
                 is_labels = map (\<lambda>(k, v). (k, PStr v)) (ts_labels s)\<rparr>], e'))"

definition hw_query_range :: "'e hardware_io \<Rightarrow> string \<Rightarrow> real \<Rightarrow> real \<Rightarrow> real \<Rightarrow> 'e \<Rightarrow> instant_sample list list res \<times> 'e" where
  "hw_query_range io query start end_time step e =
     (Inl (Exn ''PromQueryError''
       (''HardwareTelemetryBackend does not support range queries '' @ ''-'' @
        '' use instant queries against firmware-computed metrics, or '' @
        ''scrape the bench into a real Prometheus instance for time-series.'')), e)"

section \<open>What a probe promises\<close>

text \<open>The reading a probe calls healthy, stated without the code's branches.\<close>

fun healthy_reading :: "probe_expectation \<Rightarrow> real option \<Rightarrow> bool" where
  "healthy_reading ex None = (pe_kind ex = Result_not_empty)"
| "healthy_reading ex (Some v) =
     (case pe_kind ex of
        Value_below \<Rightarrow> (\<exists>t. pe_threshold ex = Some t \<and> v < t)
      | Value_above \<Rightarrow> (\<exists>t. pe_threshold ex = Some t \<and> t < v)
      | Value_between \<Rightarrow> (\<exists>lo hi. pe_minimum ex = Some lo \<and> pe_maximum ex = Some hi \<and> lo \<le> v \<and> v \<le> hi)
      | Result_not_empty \<Rightarrow> True)"

lemma judge_probe_probe [simp]: "pr_probe (judge_probe fr p ss) = p"
  by (simp add: judge_probe_def split: option.splits prod.splits)

lemma nan_less_None [simp]: "nan_less v None = False" "nan_less None v = False"
  by (cases v; simp)+

lemma judge_probe_passed:
  "pr_passed (judge_probe fr p ss) \<longleftrightarrow> ss \<noteq> [] \<and> healthy_reading (pb_expect p) (nan_sum (map is_value ss))"
  by (cases "nan_sum (map is_value ss)"; cases "pe_kind (pb_expect p)")
     (auto simp: judge_probe_def aggregate_samples_def check_expectation_def split: option.splits)

lemma judge_probe_samples:
  "pr_samples (judge_probe fr p ss) = (if ss = [] then [] else [nan_sum (map is_value ss)])"
  by (simp add: judge_probe_def aggregate_samples_def split: prod.splits)

lemma nan_sum_None_iff: "nan_sum vs = None \<longleftrightarrow> None \<in> set vs"
  by (induction vs rule: nan_sum.induct) auto

lemma nan_sum_Some: "None \<notin> set vs \<Longrightarrow> nan_sum vs = Some (sum_list (map the vs))"
  by (induction vs rule: nan_sum.induct) auto

end
