(* ===== verification/Tester.thy ===== *)
theory Tester
  imports Probes Catalogue Code_Reader
begin

text \<open>
  The tester agent, \<open>agents/tester/agent.py\<close>: baseline and verification run the target's probe set and decide
  whether the system is steady; hypothesising delegates to a hypothesizer and keeps what the fault catalogue knows.
  The statistics of a list that holds a NaN are the argument \<open>ta_nan_stats\<close>, and \<open>ta_is_nan\<close> tells a sample whose
  mean or deviation is a NaN: a comparison with it is false. \<open>rid\<close> and \<open>now\<close> are the report's default run
  identifier and start time.
\<close>

type_synonym 'w hypothesizer =
  "string \<Rightarrow> string option \<Rightarrow> code_reader option \<Rightarrow> 'w \<Rightarrow> hypothesis list res \<times> 'w"

record 'w tester_agent =
  ta_prom :: "'w prom_backend option"
  ta_from_env :: "'w prom_backend res"
  ta_probe_dir :: probe_dir
  ta_hypothesizer :: "'w hypothesizer"
  ta_code :: "code_reader option"
  ta_repr_float :: "real \<Rightarrow> string"
  ta_fmt3g :: "real \<Rightarrow> string"
  ta_nan_stats :: "string \<Rightarrow> real option list \<Rightarrow> statistical_sample"
  ta_is_nan :: "statistical_sample \<Rightarrow> bool"

definition z_threshold :: real where "z_threshold = 3"

section \<open>Comparison with the baseline\<close>

definition by_metric_name :: "statistical_sample list \<Rightarrow> (string, statistical_sample) dict" where
  "by_metric_name bs = foldl (\<lambda>d b. dict_set (ss_metric b) b d) [] bs"

definition z_score :: "statistical_sample \<Rightarrow> statistical_sample \<Rightarrow> real" where
  "z_score b s = \<bar>ss_mean s - ss_mean b\<bar> / ss_stdev b"

definition shift_of :: "'w tester_agent \<Rightarrow> (string, statistical_sample) dict \<Rightarrow> statistical_sample \<Rightarrow> string list" where
  "shift_of ta d s =
     (case dict_get d (ss_metric s) of
        None \<Rightarrow> []
      | Some b \<Rightarrow>
          (if ss_stdev b = 0 then []
           else if \<not> ta_is_nan ta s \<and> \<not> ta_is_nan ta b \<and> z_score b s > z_threshold
           then [ss_metric s @ '': mean shifted '' @ fmt1 (z_score b s) @ '' sigma from baseline '' @
                 ''(baseline mean='' @ ta_fmt3g ta (ss_mean b) @ '', now='' @ ta_fmt3g ta (ss_mean s) @ '')'']
           else []))"

definition compare_to_baseline ::
  "'w tester_agent \<Rightarrow> statistical_sample list \<Rightarrow> statistical_sample list \<Rightarrow> string list" where
  "compare_to_baseline ta new_samples base =
     (if base = [] then [] else concat (map (shift_of ta (by_metric_name base)) new_samples))"

section \<open>Running the probes\<close>

definition resolve_backend :: "'w tester_agent \<Rightarrow> 'w prom_backend res \<times> 'w tester_agent" where
  "resolve_backend ta =
     (case ta_prom ta of
        Some b \<Rightarrow> (Inr b, ta)
      | None \<Rightarrow>
          (case ta_from_env ta of
             Inl x \<Rightarrow> (Inl x, ta)
           | Inr b \<Rightarrow> (Inr b, ta\<lparr>ta_prom := Some b\<rparr>)))"

fun run_repeatedly :: "(real \<Rightarrow> string) \<Rightarrow> 'w prom_backend \<Rightarrow> probe \<Rightarrow> nat \<Rightarrow> 'w \<Rightarrow> probe_result list res \<times> 'w" where
  "run_repeatedly fr backend p 0 w = (Inr [], w)"
| "run_repeatedly fr backend p (Suc n) w =
     (case evaluate_probe fr p backend w of
        (Inl x, w1) \<Rightarrow> (Inl x, w1)
      | (Inr r, w1) \<Rightarrow>
          (case run_repeatedly fr backend p n w1 of
             (Inl x, w2) \<Rightarrow> (Inl x, w2)
           | (Inr rs, w2) \<Rightarrow> (Inr (r # rs), w2)))"

fun run_probe_set ::
  "(real \<Rightarrow> string) \<Rightarrow> 'w prom_backend \<Rightarrow> nat \<Rightarrow> probe list \<Rightarrow> 'w \<Rightarrow> (probe \<times> probe_result list) list res \<times> 'w" where
  "run_probe_set fr backend n [] w = (Inr [], w)"
| "run_probe_set fr backend n (p # ps) w =
     (case run_repeatedly fr backend p n w of
        (Inl x, w1) \<Rightarrow> (Inl x, w1)
      | (Inr rs, w1) \<Rightarrow>
          (case run_probe_set fr backend n ps w1 of
             (Inl x, w2) \<Rightarrow> (Inl x, w2)
           | (Inr rest, w2) \<Rightarrow> (Inr ((p, rs) # rest), w2)))"

definition stats_of :: "'w tester_agent \<Rightarrow> string \<Rightarrow> real option list \<Rightarrow> statistical_sample list" where
  "stats_of ta metric vs =
     (if vs = [] then []
      else if None \<in> set vs then [ta_nan_stats ta metric vs]
      else case from_samples metric (map the vs) of Inr s \<Rightarrow> [s] | Inl x \<Rightarrow> [])"

definition sample_of :: "'w tester_agent \<Rightarrow> probe \<times> probe_result list \<Rightarrow> statistical_sample list" where
  "sample_of ta pr = stats_of ta (pb_metric_name (fst pr)) (concat (map pr_samples (snd pr)))"

definition any_failed :: "probe_result list \<Rightarrow> bool" where
  "any_failed rs = list_ex (\<lambda>r. \<not> pr_passed r) rs"

definition first_reason :: "probe_result list \<Rightarrow> string" where
  "first_reason rs =
     (case filter (\<lambda>r. \<not> pr_passed r \<and> pr_reason r \<noteq> []) rs of [] \<Rightarrow> ''probe failed'' | r # _ \<Rightarrow> pr_reason r)"

definition probe_report ::
  "'w tester_agent \<Rightarrow> request_kind \<Rightarrow> string \<Rightarrow> int \<Rightarrow> tester_request \<Rightarrow> nat \<Rightarrow> (probe \<times> probe_result list) list \<Rightarrow> tester_report"
where
  "probe_report ta kind rid now q n results =
     (let samples = concat (map (sample_of ta) results);
          bad = filter (\<lambda>(p, rs). any_failed rs) results;
          shifted = compare_to_baseline ta samples (tq_baseline_samples q)
      in \<lparr>tr_request_kind = kind, tr_experiment_id = tq_experiment_id q, tr_run_id = rid,
          tr_steady_state = (bad = [] \<and> shifted = []), tr_samples = samples,
          tr_failed_probes = map (\<lambda>(p, rs). pb_name p) bad,
          tr_anomalies = map (\<lambda>(p, rs). pb_name p @ '': '' @ first_reason rs) bad @ shifted,
          tr_generated_hypotheses = [], tr_started_at = now, tr_finished_at = None,
          tr_notes = ''ran '' @ nat_str (length results) @ '' probe(s) x '' @ nat_str n @ '' run(s)''\<rparr>)"

definition missing_report ::
  "request_kind \<Rightarrow> string \<Rightarrow> int \<Rightarrow> tester_request \<Rightarrow> string \<Rightarrow> tester_report" where
  "missing_report kind rid now q m =
     \<lparr>tr_request_kind = kind, tr_experiment_id = tq_experiment_id q, tr_run_id = rid, tr_steady_state = False,
      tr_samples = [], tr_failed_probes = [],
      tr_anomalies = [''no probe set for target '' @ repr_str (tq_target_app q) @ '': '' @ m],
      tr_generated_hypotheses = [], tr_started_at = now, tr_finished_at = None, tr_notes = ''probe set missing''\<rparr>"

definition runs_for :: "request_kind \<Rightarrow> tester_request \<Rightarrow> nat" where
  "runs_for kind q = nat (max 1 (if kind = RK_baseline then tq_baseline_run_count q else 1))"

definition run_probes ::
  "'w tester_agent \<Rightarrow> request_kind \<Rightarrow> string \<Rightarrow> int \<Rightarrow> tester_request \<Rightarrow> 'w \<Rightarrow>
    tester_report res \<times> 'w tester_agent \<times> 'w" where
  "run_probes ta kind rid now q w =
     (case probes_for_target (ta_probe_dir ta) (tq_target_app q) of
        Inl (Exn c m) \<Rightarrow>
          (if c = ''FileNotFoundError'' then (Inr (missing_report kind rid now q m), ta, w) else (Inl (Exn c m), ta, w))
      | Inl (BaseExn c) \<Rightarrow> (Inl (BaseExn c), ta, w)
      | Inr ps \<Rightarrow>
          (case resolve_backend ta of
             (Inl x, ta1) \<Rightarrow> (Inl x, ta1, w)
           | (Inr b, ta1) \<Rightarrow>
               (case run_probe_set (ta_repr_float ta) b (runs_for kind q) ps w of
                  (Inl x, w1) \<Rightarrow> (Inl x, ta1, w1)
                | (Inr rs, w1) \<Rightarrow> (Inr (probe_report ta kind rid now q (runs_for kind q) rs), ta1, w1))))"

definition tester_baseline where "tester_baseline ta = run_probes ta RK_baseline"

definition tester_verify where "tester_verify ta = run_probes ta RK_verify"

section \<open>Hypothesising\<close>

definition rejection :: "hypothesis \<Rightarrow> string" where
  "rejection h = hy_id h @ '': proposed_fault '' @ repr_str (hy_proposed_fault h) @ '' not in catalogue''"

definition hypothesize_report ::
  "string \<Rightarrow> int \<Rightarrow> tester_request \<Rightarrow> hypothesis list \<Rightarrow> tester_report" where
  "hypothesize_report rid now q raw =
     (let valid = filter (\<lambda>h. in_catalogue (hy_proposed_fault h)) raw;
          rejected = map rejection (filter (\<lambda>h. \<not> in_catalogue (hy_proposed_fault h)) raw);
          notes = [''generated '' @ nat_str (length raw) @ '' hypotheses, '' @ nat_str (length valid) @ '' accepted''] @
            (if rejected = [] then [] else [''rejected: '' @ join ''; '' (take 5 rejected)])
      in \<lparr>tr_request_kind = RK_hypothesize, tr_experiment_id = tq_experiment_id q, tr_run_id = rid,
          tr_steady_state = True, tr_samples = [], tr_failed_probes = [], tr_anomalies = rejected,
          tr_generated_hypotheses = valid, tr_started_at = now, tr_finished_at = None, tr_notes = join ''; '' notes\<rparr>)"

definition failed_hypothesize_report :: "string \<Rightarrow> int \<Rightarrow> tester_request \<Rightarrow> pyexn \<Rightarrow> tester_report" where
  "failed_hypothesize_report rid now q x =
     \<lparr>tr_request_kind = RK_hypothesize, tr_experiment_id = tq_experiment_id q, tr_run_id = rid,
      tr_steady_state = False, tr_samples = [], tr_failed_probes = [],
      tr_anomalies = [''hypothesizer error: '' @ exn_repr x], tr_generated_hypotheses = [],
      tr_started_at = now, tr_finished_at = None, tr_notes = ''no hypotheses generated''\<rparr>"

definition tester_hypothesize ::
  "'w tester_agent \<Rightarrow> string \<Rightarrow> int \<Rightarrow> tester_request \<Rightarrow> 'w \<Rightarrow> tester_report res \<times> 'w" where
  "tester_hypothesize ta rid now q w =
     (case ta_hypothesizer ta (tq_target_app q) (tq_target_repo q) (ta_code ta) w of
        (Inl x, w') \<Rightarrow>
          (if is_exception x then (Inr (failed_hypothesize_report rid now q x), w') else (Inl x, w'))
      | (Inr raw, w') \<Rightarrow> (Inr (hypothesize_report rid now q raw), w'))"

end
