(* ===== verification/Hypothesizer.thy ===== *)
theory Hypothesizer
  imports Detectors Fixer Catalogue Tester
begin

text \<open>
  The hypothesizers, \<open>agents/tester/hypothesizer.py\<close>: the fixture, the static one that turns every issue of a
  detector into a hypothesis, the model-backed one, and the hybrid that merges the two. A template is its list of
  pieces. An em dash is written \<open>-\<close>. Pydantic validation of a model's hypothesis is the argument \<open>ch_validate\<close>.
\<close>

section \<open>Fixture\<close>

definition fixture_generate :: "hypothesis list + 'w hypothesizer \<Rightarrow> 'w hypothesizer" where
  "fixture_generate src app target code w =
     (case src of Inl hs \<Rightarrow> (Inr hs, w) | Inr f \<Rightarrow> f app target code w)"

section \<open>Static\<close>

datatype template_piece = T_lit string | T_file | T_line | T_snippet | T_detail

record detector_template =
  dc_fault :: string
  dc_confidence :: real
  dc_statement :: "template_piece list"
  dc_rationale :: "template_piece list"
  dc_success_criteria :: "string list"

definition detector_config :: "(string, detector_template) dict" where
  "detector_config =
    [(''missing-timeout'', \<lparr>dc_fault = ''network.delay'', dc_confidence = 7 / 10,
      dc_statement =
       [T_file, T_lit '':'', T_line, T_lit '' calls '', T_detail,
        T_lit '' with no timeout - under network latency it will block indefinitely.''],
      dc_rationale =
       [T_lit ''Detected by static scan: '', T_file, T_lit '':'', T_line,
        T_lit '' matches an http or subprocess call without a `timeout=` kwarg. Under chaos that delays '',
        T_lit ''this dependency, the caller's hot path will hang.''],
      dc_success_criteria =
       [''Under network.delay, the call returns within a bounded time (rejected as timeout) rather '' @
          ''than blocking'',
        ''Caller's request latency does not exceed (call_timeout + chaos_delay)'']\<rparr>),
     (''missing-retry'', \<lparr>dc_fault = ''network.loss'', dc_confidence = 3 / 5,
      dc_statement =
       [T_file, T_lit '':'', T_line, T_lit '' calls '', T_detail,
        T_lit '' but the file has no retry / backoff primitive in scope.''],
      dc_rationale =
       [T_lit ''Detected by static scan: '', T_file, T_lit '':'', T_line,
        T_lit '' matches an external-dep call (Redis / HTTP / DB / queue / cloud SDK) and no retry, '',
        T_lit ''tenacity, backoff, or attempt-loop is referenced anywhere in the same file. Under transient '',
        T_lit ''packet loss, the call will fail fast on first attempt.''],
      dc_success_criteria =
       [''Under network.loss, the operation either succeeds (after internal retry) or fails with a '' @
          ''clear error within bounded time'',
        ''Caller does not propagate a single transient failure as a user-visible 5xx'']\<rparr>),
     (''single-replica'', \<lparr>dc_fault = ''pod.kill'', dc_confidence = 17 / 20,
      dc_statement =
       [T_file, T_lit '':'', T_line,
        T_lit '' declares a Deployment with replicas: 1 - killing the single pod creates downtime.''],
      dc_rationale =
       [T_lit ''Detected by static scan: '', T_file, T_lit '' contains kind: Deployment and '', T_file,
        T_lit '':'', T_line,
        T_lit '' sets replicas: 1. A single-replica Deployment cannot survive a pod kill without downtime.''],
      dc_success_criteria =
       [''After pod.kill, service is restored within the Deployment's configured restart window'',
        ''No request returns 5xx during the gap (or the fragility is documented as expected)'']\<rparr>),
     (''hard-pod-affinity'', \<lparr>dc_fault = ''pod.kill'', dc_confidence = 1 / 2,
      dc_statement =
       [T_file, T_lit '':'', T_line,
        T_lit '' uses requiredDuringSchedulingIgnoredDuringExecution - the pod can be pinned to a single '',
        T_lit ''node.''],
      dc_rationale =
       [T_lit ''Detected by static scan: '', T_file, T_lit '':'', T_line,
        T_lit '' declares a hard (required) affinity / anti-affinity rule. If only one node matches, '',
        T_lit ''killing the pod prevents reschedule until that node is healthy again.''],
      dc_success_criteria =
       [''After pod.kill, the pod is rescheduled within the expected window'']\<rparr>),
     (''missing-circuit-breaker'', \<lparr>dc_fault = ''network.partition'', dc_confidence = 13 / 20,
      dc_statement =
       [T_file, T_lit '':'', T_line, T_lit '' calls '', T_detail,
        T_lit '' but the file has no circuit-breaker primitive - sustained dep failure will cascade.''],
      dc_rationale =
       [T_lit ''Detected by static scan: '', T_file, T_lit '':'', T_line,
        T_lit '' matches an external-dep call and the file references no circuit-breaker library (pybreaker '',
        T_lit ''/ circuitbreaker / aiobreaker / hyx) and no @circuit decorator. Under sustained outage '',
        T_lit ''(network.partition), every call will time out against the gone dep until the caller's '',
        T_lit ''thread / connection pool exhausts.''],
      dc_success_criteria =
       [''Under network.partition, the caller's request latency stays bounded (breaker opens, calls '' @
          ''fail fast) rather than queueing'',
        ''Caller does not exhaust its thread / connection pool during the fault window'']\<rparr>),
     (''no-fallback-for-cache'', \<lparr>dc_fault = ''pod.kill'', dc_confidence = 11 / 20,
      dc_statement =
       [T_file, T_lit '':'', T_line, T_lit '' reads from cache ('', T_detail,
        T_lit '') but the file has no try/except - a cache outage will raise to the caller instead of '',
        T_lit ''falling through to source-of-truth.''],
      dc_rationale =
       [T_lit ''Detected by static scan: '', T_file, T_lit '':'', T_line,
        T_lit '' matches a cache GET-shaped call (redis / valkey / memcached / aiocache / generic .cache) '',
        T_lit ''and the file contains no try/except block. Under pod.kill of the cache pod, the caller will '',
        T_lit ''propagate the connection error rather than degrade gracefully to the underlying datastore.''],
      dc_success_criteria =
       [''Under pod.kill of the cache, the caller falls through to source-of-truth and the '' @
          ''user-visible request still succeeds (possibly slower)'',
        ''No 5xx is returned solely because the cache is unavailable'']\<rparr>),
     (''sync-call-in-async'', \<lparr>dc_fault = ''network.delay'', dc_confidence = 7 / 10,
      dc_statement =
       [T_file, T_lit '':'', T_line, T_lit '' calls sync '', T_detail,
        T_lit '' inside an async function - the event loop will block for the entire call duration.''],
      dc_rationale =
       [T_lit ''Detected by static scan: '', T_file, T_lit '':'', T_line,
        T_lit '' sits inside an `async def` body and matches a known-sync blocking call (time.sleep / '',
        T_lit ''requests.* / sync subprocess / socket recv) with no await, to_thread, or run_in_executor '',
        T_lit ''offload. Under network.delay against the dep, every other coroutine on the loop stalls for '',
        T_lit ''the delay duration.''],
      dc_success_criteria =
       [''Under network.delay, unrelated coroutines on the same event loop are not stalled by the '' @
          ''delayed call'',
        ''p95 latency of unrelated endpoints stays within baseline + 10% during the chaos window'']\<rparr>),
     (''hardcoded-secret'', \<lparr>dc_fault = ''secret.rotate'', dc_confidence = 2 / 5,
      dc_statement =
       [T_file, T_lit '':'', T_line, T_lit '' appears to assign a hardcoded secret literal.''],
      dc_rationale =
       [T_lit ''Detected by static scan: '', T_file, T_lit '':'', T_line,
        T_lit '' matches a secret-suggestive name (KEY/SECRET/TOKEN/PASSWORD) assigned to a string literal, '',
        T_lit ''with no env-loading helper on the same line. Heuristic; review for false positives. Match: '',
        T_detail, T_lit ''.''],
      dc_success_criteria =
       [''Secret material is loaded from env / vault / config, not hardcoded in source'',
        ''Secret rotation does not require a code change + redeploy'']\<rparr>)]"

definition slashes :: "string \<Rightarrow> string" where
  "slashes s = replace_char (CHR 0x5C) [slash] s"

fun fill_piece :: "issue \<Rightarrow> template_piece \<Rightarrow> string" where
  "fill_piece i (T_lit s) = s"
| "fill_piece i T_file = slashes (iu_file i)"
| "fill_piece i T_line = nat_str (iu_line i)"
| "fill_piece i T_snippet = iu_snippet i"
| "fill_piece i T_detail = iu_detail i"

definition fill :: "template_piece list \<Rightarrow> issue \<Rightarrow> string" where
  "fill ps i = concat (map (fill_piece i) ps)"

definition issue_to_hypothesis :: "(string \<Rightarrow> string) \<Rightarrow> string \<Rightarrow> issue \<Rightarrow> detector_template \<Rightarrow> hypothesis" where
  "issue_to_hypothesis sha256 detector i cfg =
     \<lparr>hy_id = hypothesis_id sha256 detector i, hy_statement = fill (dc_statement cfg) i,
      hy_rationale = fill (dc_rationale cfg) i, hy_proposed_fault = dc_fault cfg,
      hy_success_criteria = dc_success_criteria cfg, hy_confidence = dc_confidence cfg,
      hy_code_references = [slashes (iu_file i) @ '':'' @ nat_str (iu_line i)]\<rparr>"

definition detector_hypotheses :: "(string \<Rightarrow> string) \<Rightarrow> code_reader \<Rightarrow> detector \<Rightarrow> hypothesis list" where
  "detector_hypotheses sha256 rd d =
     (case dict_get detector_config (dt_name d) of
        None \<Rightarrow> []
      | Some cfg \<Rightarrow> map (\<lambda>i. issue_to_hypothesis sha256 (dt_name d) i cfg) (dt_find d rd))"

definition static_generate :: "(string \<Rightarrow> string) \<Rightarrow> detector list \<Rightarrow> 'w hypothesizer" where
  "static_generate sha256 ds app target code w =
     (case code of
        None \<Rightarrow> (Inr [], w)
      | Some rd \<Rightarrow> (Inr (concat (map (detector_hypotheses sha256 rd) ds)), w))"

section \<open>Hybrid\<close>

definition normalize_ref :: "string \<Rightarrow> string" where
  "normalize_ref ref =
     (let r = slashes ref in
      if CHR '':'' \<notin> set r then r
      else let path = takeWhile (\<lambda>c. c \<noteq> CHR '':'') r;
               rest = drop (Suc (length path)) r
           in path @ '':'' @ takeWhile (\<lambda>c. c \<noteq> CHR ''-'') rest)"

definition ref_set :: "hypothesis \<Rightarrow> string set" where
  "ref_set h = normalize_ref ` set (hy_code_references h)"

definition hypothesis_duplicates :: "hypothesis \<Rightarrow> hypothesis \<Rightarrow> bool" where
  "hypothesis_duplicates x y \<longleftrightarrow>
     hy_proposed_fault x = hy_proposed_fault y \<and> ref_set x \<inter> ref_set y \<noteq> {}"

fun merge_hypothesis :: "hypothesis \<Rightarrow> hypothesis list \<Rightarrow> hypothesis list" where
  "merge_hypothesis cand [] = [cand]"
| "merge_hypothesis cand (x # xs) =
     (if hypothesis_duplicates x cand
      then (if hy_confidence cand > hy_confidence x then cand # xs else x # xs)
      else x # merge_hypothesis cand xs)"

definition merge_hypotheses :: "hypothesis list \<Rightarrow> hypothesis list \<Rightarrow> hypothesis list" where
  "merge_hypotheses a b = rank_desc hy_confidence (foldl (\<lambda>merged cand. merge_hypothesis cand merged) [] (a @ b))"

definition hybrid_generate :: "'w hypothesizer \<Rightarrow> 'w hypothesizer option \<Rightarrow> 'w hypothesizer" where
  "hybrid_generate static llm app target code w =
     (case static app target code w of
        (Inl x, w1) \<Rightarrow> (Inl x, w1)
      | (Inr hs, w1) \<Rightarrow>
          (case llm of
             None \<Rightarrow> (Inr hs, w1)
           | Some generate \<Rightarrow>
               (case generate app target code w1 of
                  (Inl x, w2) \<Rightarrow> (if is_exception x then (Inr hs, w2) else (Inl x, w2))
                | (Inr ls, w2) \<Rightarrow> (Inr (merge_hypotheses hs ls), w2))))"

section \<open>Model-backed\<close>

record 'w claude_hypothesizer =
  ch_lm :: "'w harness_state llm_env"
  ch_max_turns :: int
  ch_max_budget :: "real option"
  ch_prompt_base :: string
  ch_validate :: "(string, pyval) dict \<Rightarrow> hypothesis res"

definition catalogue_line :: "string \<Rightarrow> string" where
  "catalogue_line name =
     (case dict_get CATALOGUE name of
        None \<Rightarrow> []
      | Some f \<Rightarrow> ''- `'' @ name @ ''`'' @ (if fd_requires_approval f then '' (requires approval)'' else []) @
          '' - '' @ fd_description f)"

definition hypothesize_system_prompt :: "string \<Rightarrow> string" where
  "hypothesize_system_prompt base =
     base @ nl @ join nl
       ([[], ''## Catalogue of valid `proposed_fault` values'', []] @ map catalogue_line fault_names @
        [[], ''**Any `proposed_fault` not in this list will be silently dropped from the report.**''])"

definition hypothesize_user_prompt :: "string \<Rightarrow> string option \<Rightarrow> string" where
  "hypothesize_user_prompt app target =
     ''target_app: '' @ app @ nl @ ''target_repo: '' @
     (case target of Some t \<Rightarrow> (if t = [] then ''(not specified)'' else t) | None \<Rightarrow> ''(not specified)'') @ nl @ nl @
     ''Use your tools to read the actual code, then produce a JSON array '' @
     ''of Hypothesis objects matching the schema in your system prompt. '' @
     ''Return ONLY the JSON array, no surrounding prose.''"

text \<open>The handlers do not catch the reader's errors: the tool loop turns them into error results.\<close>

definition plain_read :: "code_reader \<Rightarrow> (string, pyval) dict \<Rightarrow> string res" where
  "plain_read rd args = res_bind (str_arg args ''path'') (\<lambda>p. read_file rd p None None)"

definition plain_list :: "code_reader \<Rightarrow> (string, pyval) dict \<Rightarrow> string res" where
  "plain_list rd args = res_bind (str_arg args ''glob'') (\<lambda>g. Inr (join nl (list_files rd g)))"

definition plain_grep :: "code_reader \<Rightarrow> (string, pyval) dict \<Rightarrow> string res" where
  "plain_grep rd args =
     res_bind (str_arg args ''pattern'') (\<lambda>pat. res_bind (str_arg args ''glob'') (\<lambda>g.
       res_bind (grep rd pat g) (\<lambda>hits.
         Inr (if hits = [] then ''(no matches)''
              else join nl (map (\<lambda>(p, ln, txt). p @ '':'' @ nat_str ln @ '':'' @ txt) hits)))))"

definition hypothesize_tools :: "code_reader \<Rightarrow> 'h llm_tool list" where
  "hypothesize_tools rd =
     [\<lparr>lt_name = ''read_file'', lt_description = ''Read a file from the target repo.'',
       lt_parameters = string_schema [''path''], lt_handler = (\<lambda>args h. (plain_read rd args, h))\<rparr>,
      \<lparr>lt_name = ''list_files'', lt_description = ''List files matching a glob in the target repo.'',
       lt_parameters = string_schema [''glob''], lt_handler = (\<lambda>args h. (plain_list rd args, h))\<rparr>,
      \<lparr>lt_name = ''grep'',
       lt_description = ''Regex search across files matching glob. Returns 'path:line:text' rows.'',
       lt_parameters = string_schema [''pattern'', ''glob''], lt_handler = (\<lambda>args h. (plain_grep rd args, h))\<rparr>]"

fun keep_valid :: "((string, pyval) dict \<Rightarrow> hypothesis res) \<Rightarrow> (string, pyval) dict list \<Rightarrow> hypothesis list res" where
  "keep_valid vd [] = Inr []"
| "keep_valid vd (d # ds) =
     (case vd d of
        Inr x \<Rightarrow> res_bind (keep_valid vd ds) (\<lambda>xs. Inr (x # xs))
      | Inl e \<Rightarrow> (if is_exception e then keep_valid vd ds else Inl e))"

definition parse_generated ::
  "(string \<Rightarrow> pyval option) \<Rightarrow> ((string, pyval) dict \<Rightarrow> hypothesis res) \<Rightarrow> string \<Rightarrow> hypothesis list res" where
  "parse_generated loads vd t = keep_valid vd (parse_json_list loads t)"

definition claude_generate :: "'w claude_hypothesizer \<Rightarrow> 'w harness_state hypothesizer" where
  "claude_generate ch app target code h =
     (case code of
        None \<Rightarrow> (Inr [], h)
      | Some rd \<Rightarrow>
          (case complete_with_tools (ch_lm ch) (hypothesize_tools rd) (hypothesize_system_prompt (ch_prompt_base ch))
                 (hypothesize_user_prompt app target) (ch_max_turns ch) (ch_max_budget ch) 3 h of
             (Inl x, h') \<Rightarrow> (Inl x, h')
           | (Inr r, h') \<Rightarrow> (parse_generated (loads_of (ch_lm ch)) (ch_validate ch) (cr_final_text r), h')))"

end
