(* ===== verification/Detectors_Props.thy ===== *)
theory Detectors_Props
  imports Detectors
begin

text \<open>
  What the detectors promise: every issue quotes a line of a listed file that can be read inside the sandbox; what
  the reported detail of a secret can contain; and the two places where a detector reports more than its
  documentation says.
\<close>

section \<open>Every issue quotes the code\<close>

definition at_line :: "string \<Rightarrow> (nat \<times> string) list \<Rightarrow> issue \<Rightarrow> bool" where
  "at_line path ls i \<longleftrightarrow> (\<exists>n line d. (n, line) \<in> set ls \<and> i = issue_at path (n, line) d)"

lemma at_lineI [intro]: "(n, line) \<in> set ls \<Longrightarrow> at_line path ls (issue_at path (n, line) d)"
  by (auto simp: at_line_def)

lemma at_line_mono: "at_line path ls i \<Longrightarrow> set ls \<subseteq> set ls' \<Longrightarrow> at_line path ls' i"
  by (auto simp: at_line_def)

lemma at_line_Cons: "at_line path ls i \<Longrightarrow> at_line path (x # ls) i"
  by (auto simp: at_line_def)

locale line_scan =
  fixes scan :: "string \<Rightarrow> string \<Rightarrow> issue list"
  assumes quotes: "i \<in> set (scan path t) \<Longrightarrow> at_line path (numbered_lines t) i"
begin

lemma scan_files_quote:
  assumes "i \<in> set (scan_files paths scan rd)"
  shows "iu_file i \<in> set paths \<and> (\<exists>t. read_file rd (iu_file i) None None = Inr t \<and>
    1 \<le> iu_line i \<and> iu_line i \<le> length (splitlines t) \<and> iu_snippet i = strip (splitlines t ! (iu_line i - 1)))"
proof -
  obtain path t where p: "path \<in> set paths" "read_file rd path None None = Inr t" "i \<in> set (scan path t)"
    using assms unfolding scan_files_def by (force split: sum.splits)
  obtain n line d where nl: "(n, line) \<in> set (enumerate 1 (splitlines t))" "i = issue_at path (n, line) d"
    using quotes [OF p(3)] by (auto simp: at_line_def numbered_lines_def)
  have "1 \<le> n \<and> n < 1 + length (splitlines t) \<and> line = splitlines t ! (n - 1)"
    using nl(1) by (simp add: in_set_enumerate_eq)
  then show ?thesis using p nl(2) by (auto simp: issue_at_def)
qed

text \<open>A detector that filters what the scan reports, or stops at its first report, quotes as well.\<close>

lemma guarded: "line_scan (\<lambda>path t. if g t then [] else scan path t)"
  by unfold_locales (auto dest: quotes split: if_splits)

end

interpretation each: line_scan "report_each test" for test
  by unfold_locales (auto simp: report_each_def split: option.splits)

interpretation first: line_scan "report_first test" for test
  by unfold_locales (auto simp: report_first_def dest!: in_set_takeD each.quotes)

interpretation cache: line_scan cache_scan
  by unfold_locales (auto simp: cache_scan_def Let_def dest: first.quotes split: if_splits)

lemma async_scan_quotes: "i \<in> set (async_scan path scope ls) \<Longrightarrow> at_line path ls i"
proof (induction path scope ls rule: async_scan.induct)
  case (2 path scope nl rest)
  obtain scope' o1 where a: "async_line scope (snd nl) = (scope', o1)" by fastforce
  show ?case
    using 2 a by (cases o1; cases nl) (auto intro: at_line_Cons)
qed simp

interpretation coroutine: line_scan "\<lambda>path t. async_scan path None (numbered_lines t)"
  by unfold_locales (rule async_scan_quotes)

definition listed_file :: "code_reader \<Rightarrow> string \<Rightarrow> bool" where
  "listed_file rd path \<longleftrightarrow> (\<exists>g \<in> {''**/*.py'', ''**/*.yaml'', ''**/*.yml''}. path \<in> set (list_files rd g))"

lemma python_listed: "path \<in> set (python_files rd) \<Longrightarrow> listed_file rd path"
  by (auto simp: python_files_def listed_file_def)

lemma yaml_listed: "path \<in> set (yaml_files rd) \<Longrightarrow> listed_file rd path"
  by (auto simp: yaml_files_def listed_file_def)

definition quotes_code :: "code_reader \<Rightarrow> issue \<Rightarrow> bool" where
  "quotes_code rd i \<longleftrightarrow>
     listed_file rd (iu_file i) \<and>
     (\<exists>t. read_file rd (iu_file i) None None = Inr t \<and> 1 \<le> iu_line i \<and> iu_line i \<le> length (splitlines t) \<and>
       iu_snippet i = strip (splitlines t ! (iu_line i - 1)))"

lemma quotes_python: "line_scan scan \<Longrightarrow> i \<in> set (scan_files (python_files rd) scan rd) \<Longrightarrow> quotes_code rd i"
  using line_scan.scan_files_quote [of scan i "python_files rd" rd] python_listed by (auto simp: quotes_code_def)

lemma quotes_yaml: "line_scan scan \<Longrightarrow> i \<in> set (scan_files (yaml_files rd) scan rd) \<Longrightarrow> quotes_code rd i"
  using line_scan.scan_files_quote [of scan i "yaml_files rd" rd] yaml_listed by (auto simp: quotes_code_def)

lemma issues_quote_code_lemma:
  assumes "d \<in> set default_detectors" "i \<in> set (dt_find d rd)"
  shows "quotes_code rd i"
proof -
  have "i \<in> set (dt_find d rd) \<Longrightarrow> quotes_code rd i" if "d = missing_timeout \<or> d = hardcoded_secret"
    using that quotes_python [OF each.line_scan_axioms] by (auto simp: missing_timeout_def hardcoded_secret_def)
  moreover have "i \<in> set (dt_find d rd) \<Longrightarrow> quotes_code rd i" if "d = missing_retry \<or> d = missing_circuit_breaker"
    using that quotes_python [OF first.guarded] by (auto simp: missing_retry_def missing_circuit_breaker_def)
  moreover have "i \<in> set (dt_find d rd) \<Longrightarrow> quotes_code rd i" if "d = no_fallback_for_cache \<or> d = sync_call_in_async"
    using that quotes_python [OF cache.line_scan_axioms] quotes_python [OF coroutine.line_scan_axioms]
    by (auto simp: no_fallback_for_cache_def sync_call_in_async_def)
  moreover have "i \<in> set (dt_find d rd) \<Longrightarrow> quotes_code rd i" if "d = single_replica \<or> d = hard_pod_affinity"
    using that quotes_yaml [OF first.guarded] quotes_yaml [OF first.line_scan_axioms]
    by (auto simp: single_replica_def hard_pod_affinity_def)
  ultimately show ?thesis using assms by (auto simp: default_detectors_def)
qed

text \<open>Every issue of every default detector is grounded in the target: it names a file the reader lists and lets
  read (so inside the root and outside every ignored directory), a line that file has, and quotes that line.\<close>

theorem issues_quote_code:
  assumes "d \<in> set default_detectors" "i \<in> set (dt_find d rd)"
  shows "quotes_code rd i"
  by (rule issues_quote_code_lemma [OF assms])

section \<open>What a secret's report discloses\<close>

definition consumed :: "(char \<Rightarrow> bool) \<Rightarrow> nat \<Rightarrow> position \<Rightarrow> position \<Rightarrow> bool" where
  "consumed ok n p q \<longleftrightarrow>
     (\<exists>w. po_after p = w @ po_after q \<and> n \<le> length w \<and> list_all ok w) \<and> po_groups q = po_groups p"

lemma consumed_refl: "consumed ok 0 p p"
  by (simp add: consumed_def)

lemma consumed_sym: "matches (Sym ok) p q \<Longrightarrow> consumed ok 1 p q"
  by (auto simp: consumed_def intro: exI [of _ "[_]"])

lemma consumed_trans: "consumed ok m p q \<Longrightarrow> consumed ok n q t \<Longrightarrow> consumed ok (m + n) p t"
  by (force simp: consumed_def intro: exI [of _ "_ @ _"])

lemma consumed_many: "matches (Many (Sym ok)) p q \<Longrightarrow> consumed ok 0 p q"
proof (induction "Many (Sym ok)" p q rule: matches.induct)
  case (m_again p q t)
  then show ?case using consumed_trans [OF consumed_sym [of ok p q], of 0 t] by (auto simp: consumed_def)
qed (simp add: consumed_refl)

lemma consumed_at_least: "matches (at_least n (Sym ok)) p q \<Longrightarrow> consumed ok n p q"
proof (induction n arbitrary: p)
  case 0
  then show ?case by (simp add: at_least_def consumed_many)
next
  case (Suc n)
  then have "matches (Seq (Sym ok) (at_least n (Sym ok))) p q" by (simp add: at_least_def)
  then obtain p1 where "matches (Sym ok) p p1" "matches (at_least n (Sym ok)) p1 q" by (rule matches_seqE)
  then show ?case using consumed_trans [OF consumed_sym Suc.IH, of p p1] by simp
qed

lemma secret_literal:
  assumes "rx_search hardcoded_secret_rx line = Some m"
  shows "\<exists>l. dict_get (mo_groups m) 1 = Some l \<and> 12 \<le> length l \<and> list_all secret_char l"
proof -
  obtain p q where f: "search_from hardcoded_secret_rx [] line = Some (p, q)" and m: "m = match_of p q"
    using assms by (auto simp: rx_search_def)
  have "matches hardcoded_secret_rx p q" using search_from_match [OF f] by blast
  then obtain a b c where 1: "matches (at_least 12 (Sym secret_char)) a b" "matches quote_rx (capture 1 a b) c" "q = c"
    unfolding hardcoded_secret_rx_def by auto
  have "consumed (\<lambda>c. c = squote \<or> c = dquote) 1 (capture 1 a b) c"
    using 1(2) unfolding quote_rx_def by (rule consumed_sym)
  then have "po_groups c = po_groups (capture 1 a b)" by (simp add: consumed_def)
  moreover obtain w where "po_after a = w @ po_after b" "12 \<le> length w" "list_all secret_char w"
    using consumed_at_least [OF 1(1)] by (auto simp: consumed_def)
  ultimately show ?thesis using m 1(3) by (simp add: match_of_def capture_def)
qed

lemma secret_chars_known: "secret_char c \<Longrightarrow> is_digit c \<or> alpha_char c \<or> c \<in> set ''+/=_-''"
  by (auto simp: secret_char_def alpha_char_def)

text \<open>The details a report can carry for a literal of \<open>n\<close> characters.\<close>

definition secret_details :: "nat \<Rightarrow> string set" where
  "secret_details n =
     (\<lambda>shape. ''matched '' @ shape @ '' ('' @ nat_str n @ '' chars)'') `
       (set (map (\<lambda>k. k @ ''* prefix (likely Stripe-style API key)'') [''sk_live_'', ''sk_test_'', ''pk_live_'', ''pk_test_'']) \<union>
        {''hex'' @ nat_str n @ '' (likely token/digest)'', ''base64/url-safe string''})"

text \<open>C37: a hardcoded secret's report never discloses the secret: whatever the line holds, the detail that travels
  into hypotheses, the database and the logs is one of six texts that depend only on the length of the literal
  (at least twelve characters). The code's fourth description, a high-entropy string, is never given.\<close>

theorem secret_detail_discloses_shape:
  assumes "secret_on line = Some d"
  shows "\<exists>n \<ge> 12. d \<in> secret_details n"
proof -
  obtain m where m: "rx_search hardcoded_secret_rx line = Some m"
    using assms by (auto simp: secret_on_def split: if_splits option.splits)
  obtain l where l: "dict_get (mo_groups m) 1 = Some l" "12 \<le> length l" "list_all secret_char l"
    using secret_literal [OF m] by blast
  have "list_all (\<lambda>c. is_digit c \<or> alpha_char c \<or> c \<in> set ''+/=_-'') l"
    using l(3) secret_chars_known by (auto simp: list_all_iff)
  moreover have "d = ''matched '' @ describe_pattern l @ '' ('' @ nat_str (length l) @ '' chars)''"
    using assms m l(1) by (auto simp: secret_on_def Let_def split: if_splits)
  ultimately have "d \<in> secret_details (length l)"
    by (auto simp: secret_details_def describe_pattern_def)
  then show ?thesis using l(2) by blast
qed

definition leaky_line :: string where
  "leaky_line = ''API_KEY = '' @ [dquote] @ ''deadbeefdeadbeef'' @ [dquote]"

lemma secret_detail_discloses_shape_witness:
  "\<exists>n \<ge> 12. ''matched hex16 (likely token/digest) (16 chars)'' \<in> secret_details n"
proof -
  have "secret_on leaky_line = Some ''matched hex16 (likely token/digest) (16 chars)''" by code_simp
  then show ?thesis by (rule secret_detail_discloses_shape)
qed

section \<open>Reports the documentation excludes\<close>

text \<open>The scope of a coroutine does not end where its body ends: once a file has declared an \<open>async def\<close>, a
  blocking call on any later line is reported as inside it, at module level as well, until the next \<open>def\<close> or
  \<open>class\<close>; the documentation bounds the scope by the indent.\<close>

theorem async_scope_outlives_body:
  assumes "rx_match async_def l1 = Some m" "strip l1 \<noteq> []" "rx_match decorator l1 = None"
    and "strip l2 \<noteq> []" "rx_match decorator l2 = None" "rx_match async_def l2 = None" "rx_match def_boundary l2 = None"
    and "sync_call_on l2 = Some call"
  shows "issue_at path (2, l2) call \<in> set (async_scan path None [(1, l1), (2, l2)])"
  using assms by (simp add: async_line_def close_scope_def split: option.splits)

lemma async_scope_outlives_body_witness:
  "issue_at ''app.py'' (2, ''time.sleep(1)'') ''time.sleep''
    \<in> set (async_scan ''app.py'' None [(1, ''async def f(): pass''), (2, ''time.sleep(1)'')])"
proof -
  have a: "rx_match async_def ''async def f(): pass'' \<noteq> None" "strip ''async def f(): pass'' \<noteq> []"
    "rx_match decorator ''async def f(): pass'' = None" "strip ''time.sleep(1)'' \<noteq> []"
    "rx_match decorator ''time.sleep(1)'' = None" "rx_match async_def ''time.sleep(1)'' = None"
    "rx_match def_boundary ''time.sleep(1)'' = None" "sync_call_on ''time.sleep(1)'' = Some ''time.sleep''"
    by code_simp+
  then obtain m where "rx_match async_def ''async def f(): pass'' = Some m" by blast
  then show ?thesis by (rule async_scope_outlives_body) (use a in simp_all)
qed

text \<open>
  A call whose argument is itself a call is cut at the first closing parenthesis, so its timeout is not seen although
  the documentation rules false positives out; and the pattern of \<open>urllib\<close> calls asks for a parenthesis right
  after the module's dot, so it never reports one.
\<close>

lemma nested_call_reported:
  "untimed_call ''requests.get(build(a), timeout=5)'' = Some ''requests.get(build(a)''"
  by code_simp

lemma urllib_call_missed: "rx_search sync_calls ''urllib.request.urlopen(u)'' = None"
  by code_simp

section \<open>A small target\<close>

definition one_file_repo :: "string \<Rightarrow> string \<Rightarrow> repo" where
  "one_file_repo name content =
     \<lparr>rp_root = [''srv''], rp_resolve = (\<lambda>p. p), rp_exists = (\<lambda>p. True), rp_is_dir = (\<lambda>p. p = [''srv'']),
      rp_is_file = (\<lambda>p. p = [''srv'', name]), rp_size = (\<lambda>p. length content), rp_text = (\<lambda>p. Some content),
      rp_glob = (\<lambda>g. if g = ''**/*.py'' then [[name]] else []), rp_search = (\<lambda>pat. Inr (\<lambda>line. str_in pat line))\<rparr>"

definition one_file_reader :: "string \<Rightarrow> string \<Rightarrow> code_reader" where
  "one_file_reader name content = \<lparr>cd_repo = one_file_repo name content, cd_ignore = default_ignore_segments\<rparr>"

lemma issues_quote_code_witness:
  "quotes_code (one_file_reader ''app.py'' ''requests.get(u)'')
    \<lparr>iu_file = ''app.py'', iu_line = 1, iu_snippet = ''requests.get(u)'', iu_detail = ''requests.get(u)''\<rparr>"
proof (rule issues_quote_code [of missing_timeout])
  have u: "untimed_call ''requests.get(u)'' = Some ''requests.get(u)''" by code_simp
  show "missing_timeout \<in> set default_detectors" by (simp add: default_detectors_def)
  show "\<lparr>iu_file = ''app.py'', iu_line = 1, iu_snippet = ''requests.get(u)'', iu_detail = ''requests.get(u)''\<rparr>
    \<in> set (dt_find missing_timeout (one_file_reader ''app.py'' ''requests.get(u)''))"
    by (simp add: missing_timeout_def scan_files_def python_files_def list_files_def visible_def one_file_reader_def
        one_file_repo_def path_str_def path_slash_def is_ignored_def segments_def replace_char_def backslash_def
        default_ignore_segments_def read_file_def resolve_within_root_def pure_segments_def max_bytes_def read_text_def
        report_each_def numbered_lines_def splitlines_def is_line_break_def u issue_at_def strip_def is_space_def)
qed

end
