(* ===== verification/Tester_Props.thy ===== *)
theory Tester_Props
  imports Tester
begin

text \<open>
  What the tester promises: steady exactly when every probe is healthy and no metric has shifted, a hypothesis
  report that only names catalogued faults; and what it does not promise, an answer when the backend is down.
\<close>

section \<open>Backends that only read\<close>

text \<open>What an answer says about a probe: a query error and an empty result are failures.\<close>

fun healthy_answer :: "probe_expectation \<Rightarrow> instant_sample list res \<Rightarrow> bool" where
  "healthy_answer ex (Inl x) = False"
| "healthy_answer ex (Inr ss) = (ss \<noteq> [] \<and> healthy_reading ex (nan_sum (map is_value ss)))"

fun answered :: "instant_sample list res \<Rightarrow> bool" where
  "answered (Inr ss) = True"
| "answered (Inl (Exn c m)) = (c = ''PromQueryError'')"
| "answered (Inl (BaseExn c)) = False"

fun judged :: "(real \<Rightarrow> string) \<Rightarrow> probe \<Rightarrow> instant_sample list res \<Rightarrow> probe_result" where
  "judged fr p (Inr ss) = judge_probe fr p ss"
| "judged fr p (Inl x) =
     \<lparr>pr_probe = p, pr_samples = [], pr_passed = False,
      pr_reason = ''query error: '' @ (case x of Exn c m \<Rightarrow> m | BaseExn c \<Rightarrow> [])\<rparr>"

lemma judged_passed [simp]: "pr_passed (judged fr p a) \<longleftrightarrow> healthy_answer (pb_expect p) a"
  by (cases a) (auto simp: judge_probe_passed)

locale read_only_backend =
  fixes backend :: "string \<Rightarrow> 'w \<Rightarrow> instant_sample list res \<times> 'w"
    and ans :: "string \<Rightarrow> 'w \<Rightarrow> instant_sample list res"
  assumes reads: "backend q w = (ans q w, w)"
begin

lemma evaluate:
  "answered (ans (pb_query p) w) \<Longrightarrow> evaluate_probe fr p backend w = (Inr (judged fr p (ans (pb_query p) w)), w)"
  by (cases "ans (pb_query p) w" rule: answered.cases) (auto simp: evaluate_probe_def reads)

lemma repeatedly:
  "answered (ans (pb_query p) w) \<Longrightarrow>
    run_repeatedly fr backend p n w = (Inr (replicate n (judged fr p (ans (pb_query p) w))), w)"
  by (induction n) (simp_all add: evaluate)

lemma probe_set:
  "\<forall>p \<in> set ps. answered (ans (pb_query p) w) \<Longrightarrow>
    run_probe_set fr backend n ps w = (Inr (map (\<lambda>p. (p, replicate n (judged fr p (ans (pb_query p) w)))) ps), w)"
  by (induction ps) (simp_all add: repeatedly)

end

text \<open>The two backends of the repository that only read: the fixture, and the simulated bench.\<close>

interpretation fixture: read_only_backend
  "\<lambda>q w. (fixture_query_instant num pf q, w)" "\<lambda>q w. fixture_query_instant num pf q" for num pf
  by unfold_locales simp

definition sim_answer :: "real \<Rightarrow> string \<Rightarrow> simulator \<Rightarrow> instant_sample list res" where
  "sim_answer now q m = fst (hw_query_instant simulated_io now q m)"

interpretation bench: read_only_backend "hw_query_instant simulated_io now" "sim_answer now" for now
  by unfold_locales
     (auto simp: sim_answer_def hw_query_instant_def simulated_io_def sim_read_telemetry_def Let_def
        split: option.splits sum.splits prod.splits)

section \<open>The steady state\<close>

lemma any_failed_replicate [simp]: "any_failed (replicate n r) \<longleftrightarrow> 0 < n \<and> \<not> pr_passed r"
  by (induction n) (auto simp: any_failed_def)

lemma runs_for_pos [simp]: "0 < runs_for kind q"
  by (simp add: runs_for_def)

lemma probe_report_simps [simp]:
  "tr_steady_state (probe_report ta kind rid now q n results) \<longleftrightarrow>
    (\<forall>(p, rs) \<in> set results. \<not> any_failed rs) \<and>
    compare_to_baseline ta (tr_samples (probe_report ta kind rid now q n results)) (tq_baseline_samples q) = []"
  "tr_failed_probes (probe_report ta kind rid now q n results) =
    map (pb_name \<circ> fst) (filter (any_failed \<circ> snd) results)"
  "tr_experiment_id (probe_report ta kind rid now q n results) = tq_experiment_id q"
  "tr_request_kind (probe_report ta kind rid now q n results) = kind"
  by (auto simp: probe_report_def Let_def filter_empty_conv case_prod_beta' comp_def)

lemma dict_get_by_metric:
  "dict_get (foldl (\<lambda>d b. dict_set (ss_metric b) b d) d bs) m =
    (case find (\<lambda>b. ss_metric b = m) (rev bs) of Some b \<Rightarrow> Some b | None \<Rightarrow> dict_get d m)"
proof (induction bs arbitrary: d)
  case (Cons b bs)
  have f: "find P (xs @ [b]) = (case find P xs of Some y \<Rightarrow> Some y | None \<Rightarrow> if P b then Some b else None)" for P xs
    by (induction xs) auto
  show ?case by (simp add: Cons.IH f dict_get_set split: option.splits)
qed simp

lemma find_mem: "find P xs = Some x \<Longrightarrow> x \<in> set xs"
  by (induction xs) (auto split: if_splits)

text \<open>The baseline a metric is compared with: the last one recorded under its name, if it has a spread.\<close>

definition baseline_of :: "statistical_sample list \<Rightarrow> string \<Rightarrow> statistical_sample option" where
  "baseline_of bs m = find (\<lambda>b. ss_metric b = m) (rev bs)"

text \<open>A metric is reported as shifted exactly when its baseline has a positive spread and its mean lies more
  than three standard deviations away: with no NaN around, no anomaly is reported if and only if every new mean
  lies within three deviations of the baseline recorded last under its name.\<close>

theorem baseline_shift_exact:
  assumes "\<forall>s \<in> set new \<union> set base. \<not> ta_is_nan ta s" "\<forall>b \<in> set base. 0 \<le> ss_stdev b"
  shows "compare_to_baseline ta new base = [] \<longleftrightarrow>
    (\<forall>s \<in> set new. \<forall>b. baseline_of base (ss_metric s) = Some b \<longrightarrow> 0 < ss_stdev b \<longrightarrow>
      \<bar>ss_mean s - ss_mean b\<bar> \<le> 3 * ss_stdev b)"
proof -
  have g: "dict_get (by_metric_name base) m = baseline_of base m" for m
    by (simp add: by_metric_name_def dict_get_by_metric baseline_of_def split: option.splits)
  have mem: "b \<in> set base" if "baseline_of base m = Some b" for m b
    using find_mem that unfolding baseline_of_def by (metis set_rev)
  have one: "shift_of ta (by_metric_name base) s = [] \<longleftrightarrow>
      (\<forall>b. baseline_of base (ss_metric s) = Some b \<longrightarrow> 0 < ss_stdev b \<longrightarrow> \<bar>ss_mean s - ss_mean b\<bar> \<le> 3 * ss_stdev b)"
    if s: "s \<in> set new" for s
  proof (cases "baseline_of base (ss_metric s)")
    case None
    then show ?thesis by (simp add: shift_of_def g)
  next
    case (Some b)
    then have "\<not> ta_is_nan ta s" "\<not> ta_is_nan ta b" "0 \<le> ss_stdev b" using assms s mem [OF Some] by auto
    then show ?thesis
      by (auto simp: shift_of_def g Some z_score_def z_threshold_def less_divide_eq not_less)
  qed
  show ?thesis
    using one by (auto simp: compare_to_baseline_def baseline_of_def)
qed

definition flat :: "string \<Rightarrow> real \<Rightarrow> real \<Rightarrow> statistical_sample" where
  "flat m mean sd =
     \<lparr>ss_metric = m, ss_samples = [mean], ss_mean = mean, ss_p50 = mean, ss_p95 = mean, ss_p99 = mean, ss_stdev = sd\<rparr>"

definition plain_tester :: "'w prom_backend \<Rightarrow> probe list \<Rightarrow> 'w tester_agent" where
  "plain_tester b ps =
     \<lparr>ta_prom = Some b, ta_from_env = Inl (Exn ''PromQueryError'' []),
      ta_probe_dir = \<lparr>pd_file = (\<lambda>n. Some (Inr (PDict [(''probes'', PList (map (\<lambda>p. PStr (pb_name p)) ps))]))),
        pd_path = (\<lambda>n. n), pd_stems = [],
        pd_validate = (\<lambda>v. case find (\<lambda>p. PStr (pb_name p) = v) ps of Some p \<Rightarrow> Inr p | None \<Rightarrow> Inl (Exn ''ValidationError'' []))\<rparr>,
      ta_hypothesizer = (\<lambda>app r code w. (Inl (Exn ''RuntimeError'' ''offline''), w)), ta_code = None,
      ta_repr_float = (\<lambda>x. []), ta_fmt3g = (\<lambda>x. []), ta_nan_stats = (\<lambda>m vs. flat m 0 0), ta_is_nan = (\<lambda>s. False)\<rparr>"

lemma baseline_shift_exact_witness:
  "compare_to_baseline (plain_tester (\<lambda>q w. (Inr [], w)) [] :: unit tester_agent)
     [flat ''p95'' 16 0] [flat ''p95'' 10 2] = []"
  using baseline_shift_exact [of "[flat ''p95'' 16 0]" "[flat ''p95'' 10 2]"
      "plain_tester (\<lambda>q w. (Inr [], w)) [] :: unit tester_agent"]
  by (simp add: plain_tester_def flat_def baseline_of_def)


definition below_half :: probe where
  "below_half =
     \<lparr>pb_name = ''error_ratio'', pb_description = [], pb_query = ''errors'',
      pb_expect = \<lparr>pe_kind = Value_below, pe_threshold = Some (1 / 2), pe_minimum = None, pe_maximum = None\<rparr>,
      pb_metric_name = ''error_ratio''\<rparr>"

definition one_reading :: "real option \<Rightarrow> instant_sample list" where
  "one_reading v = [\<lparr>is_timestamp = Some 0, is_value = v, is_labels = []\<rparr>]"

definition verify_request :: tester_request where
  "verify_request =
     \<lparr>tq_kind = RK_verify, tq_experiment_id = ''exp-0123456789ab'', tq_target_app = ''shop'', tq_target_repo = None,
      tq_baseline_run_count = 1, tq_probes = [], tq_baseline_samples = []\<rparr>"

lemma plain_tester_probes [simp]:
  "probes_for_target (ta_probe_dir (plain_tester b [p])) app = Inr [p]"
  by (simp add: plain_tester_def probes_for_target_def load_probe_set_def get_items_def get_item_def param_def
      dict_get_def)


section \<open>When the backend is down\<close>

text \<open>Only the backend's own query error fails a probe: any other exception of the backend (the transport error
  that the HTTP client re-raises after its retries, the error of the bench's transport) ends the whole baseline or
  verification without a report, so the run fails instead of recording an unhealthy system.\<close>

theorem backend_error_escapes:
  assumes "ta_prom ta = Some backend" "probes_for_target (ta_probe_dir ta) (tq_target_app q) = Inr (p # ps)"
    and "backend (pb_query p) w = (Inl (Exn c m), w')" "c \<noteq> ''PromQueryError''"
  shows "run_probes ta kind rid now q w = (Inl (Exn c m), ta, w')"
proof -
  obtain n where n: "runs_for kind q = Suc n" using runs_for_pos gr0_implies_Suc by blast
  have "evaluate_probe (ta_repr_float ta) p backend w = (Inl (Exn c m), w')"
    using assms(3,4) by (simp add: evaluate_probe_def)
  then show ?thesis
    by (simp add: run_probes_def assms(1,2) resolve_backend_def n)
qed

definition dead_http :: "unit http" where
  "dead_http url ps w = (Inl (Exn ''ConnectError'' ''refused''), w)"

definition patient :: "unit retry_env" where
  "patient = \<lparr>re_retry_on = (\<lambda>e. e = Exn ''ConnectError'' ''refused''), re_draw = (\<lambda>j w. (0, w)), re_sleep = (\<lambda>d w. (Inr (), w))\<rparr>"

definition dead_prom :: "unit prom_backend" where
  "dead_prom q = prom_query_instant (\<lambda>x. []) (\<lambda>v. Inr None) patient dead_http ''http://prom'' q None"

lemma dead_prom_raises: "dead_prom q w = (Inl (Exn ''ConnectError'' ''refused''), w)"
  by (simp add: dead_prom_def prom_query_instant_def prom_get_def http_query_def async_retry_def patient_def
      dead_http_def numeral_3_eq_3)

lemma backend_error_escapes_witness:
  "run_probes (plain_tester dead_prom [below_half]) RK_baseline ''run-0123456789ab'' 0 verify_request () =
    (Inl (Exn ''ConnectError'' ''refused''), plain_tester dead_prom [below_half], ())"
  by (rule backend_error_escapes [where backend = dead_prom and p = below_half and ps = "[]"])
     (simp_all add: dead_prom_raises, simp_all add: plain_tester_def)

section \<open>Hypothesising\<close>

text \<open>Whatever the hypothesizer does short of being cancelled, the tester answers with a report of the request's
  experiment: the accepted hypotheses are those, in order, that propose a fault of the catalogue; every other one
  is named in an anomaly, so none is lost silently; a failure of the hypothesizer is a report that is not steady and
  accepts nothing.\<close>

theorem hypothesize_catalogued:
  assumes "\<And>x. fst (ta_hypothesizer ta (tq_target_app q) (tq_target_repo q) (ta_code ta) w) = Inl x \<Longrightarrow> is_exception x"
  shows "\<exists>r. fst (tester_hypothesize ta rid now q w) = Inr r \<and> tr_experiment_id r = tq_experiment_id q \<and>
    (case fst (ta_hypothesizer ta (tq_target_app q) (tq_target_repo q) (ta_code ta) w) of
       Inl x \<Rightarrow> \<not> tr_steady_state r \<and> tr_generated_hypotheses r = []
     | Inr raw \<Rightarrow>
         tr_generated_hypotheses r = filter (\<lambda>h. hy_proposed_fault h \<in> set fault_names) raw \<and>
         length (tr_generated_hypotheses r) + length (tr_anomalies r) = length raw \<and>
         (\<forall>h \<in> set raw. h \<in> set (tr_generated_hypotheses r) \<or> rejection h \<in> set (tr_anomalies r)))"
proof -
  have known: "in_catalogue n \<longleftrightarrow> n \<in> set fault_names" for n
    by (simp add: in_catalogue_def fault_names_def dict_has_iff dict_get_None_iff)
  obtain o1 w' where r: "ta_hypothesizer ta (tq_target_app q) (tq_target_repo q) (ta_code ta) w = (o1, w')" by fastforce
  show ?thesis
  proof (cases o1)
    case (Inl x)
    then have "is_exception x" using assms r by simp
    then show ?thesis by (simp add: tester_hypothesize_def r Inl failed_hypothesize_report_def)
  next
    case (Inr raw)
    have "length (filter (\<lambda>h. hy_proposed_fault h \<in> set fault_names) raw) +
        length (filter (\<lambda>h. hy_proposed_fault h \<notin> set fault_names) raw) = length raw"
      by (rule sum_length_filter_compl)
    then show ?thesis
      by (auto simp: tester_hypothesize_def r Inr hypothesize_report_def known Let_def)
  qed
qed

definition wild_hypothesis :: hypothesis where
  "wild_hypothesis =
     \<lparr>hy_id = ''h-wild'', hy_statement = [], hy_rationale = [], hy_proposed_fault = ''moon.eclipse'',
      hy_success_criteria = [], hy_confidence = 1 / 2, hy_code_references = []\<rparr>"

definition wild_tester :: "unit tester_agent" where
  "wild_tester = (plain_tester dead_prom [])\<lparr>ta_hypothesizer := (\<lambda>app r code w. (Inr [wild_hypothesis], w))\<rparr>"

lemma hypothesize_catalogued_witness:
  "\<exists>r. fst (tester_hypothesize wild_tester ''run-0123456789ab'' 0 verify_request ()) = Inr r \<and>
    tr_generated_hypotheses r = []"
proof -
  have n: "''moon.eclipse'' \<notin> set fault_names"
    by (simp add: fault_names_def CATALOGUE_def catalogue_hardware_def catalogue_classical_def catalogue_security_def)
  have r: "fst (ta_hypothesizer wild_tester a b c ()) = Inr [wild_hypothesis]" for a b c
    by (simp add: wild_tester_def)
  show ?thesis
    using hypothesize_catalogued [of wild_tester verify_request "()" "''run-0123456789ab''" 0] n
    by (auto simp: r wild_hypothesis_def)
qed

end
