(* ===== verification/Hypothesizer_Props.thy ===== *)
theory Hypothesizer_Props
  imports Hypothesizer Detectors_Props Tester_Props Ranked_Merge
begin

text \<open>
  What the hypothesizers promise: the static one is grounded in the target and in the catalogue, so the tester
  accepts everything it proposes; the hybrid's merge is the best of each group when every hypothesis cites one place.
\<close>

section \<open>Static hypotheses\<close>

definition hex_digest :: "(string \<Rightarrow> string) \<Rightarrow> bool" where
  "hex_digest sha256 \<longleftrightarrow> (\<forall>t. length (sha256 t) = 64 \<and> list_all slug_char (sha256 t))"

lemma hex_digest_take: "hex_digest sha256 \<Longrightarrow> length (slug sha256 t 8) = 8 \<and> list_all slug_char (slug sha256 t 8)"
  by (auto simp: hex_digest_def slug_def list_all_iff dest: in_set_takeD)

lemma hypothesis_id_valid:
  assumes "hex_digest sha256" "list_all slug_char (lower (replace_char (CHR ''_'') ''-'' name))"
    and "length (replace_char (CHR ''_'') ''-'' name) \<le> 55"
  shows "hypothesis_id_ok (hypothesis_id sha256 name i)"
proof -
  have d: "slug_char (CHR ''-'')" by (simp add: slug_char_def)
  show ?thesis
    using assms hex_digest_take [OF assms(1)] d by (simp add: hypothesis_id_ok_def hypothesis_id_def)
qed

lemma template_facts:
  "list_all (\<lambda>(n, c). dc_fault c \<in> set fault_names \<and> 0 \<le> dc_confidence c \<and> dc_confidence c \<le> 1 \<and>
    list_all slug_char (lower (replace_char (CHR ''_'') ''-'' n)) \<and> length (replace_char (CHR ''_'') ''-'' n) \<le> 55 \<and>
    T_snippet \<notin> set (dc_statement c) \<and> T_snippet \<notin> set (dc_rationale c)) detector_config"
proof -
  have f: "{''network.delay'', ''network.loss'', ''pod.kill'', ''network.partition'', ''secret.rotate''} \<subseteq> set fault_names"
    by (simp add: fault_names_def CATALOGUE_def catalogue_hardware_def catalogue_classical_def catalogue_security_def
        fault_def_def)
  have s: "list_all (\<lambda>(n, c). list_all slug_char (lower (replace_char (CHR ''_'') ''-'' n)) \<and>
      length (replace_char (CHR ''_'') ''-'' n) \<le> 55) detector_config"
    by (simp add: detector_config_def lower_def lower_char_def replace_char_def slug_char_def is_digit_def)
  show ?thesis
    using s f by (simp add: detector_config_def)
qed

lemma template_fact:
  assumes "dict_get detector_config n = Some c"
  shows "dc_fault c \<in> set fault_names \<and> 0 \<le> dc_confidence c \<and> dc_confidence c \<le> 1 \<and>
    list_all slug_char (lower (replace_char (CHR ''_'') ''-'' n)) \<and> length (replace_char (CHR ''_'') ''-'' n) \<le> 55 \<and>
    T_snippet \<notin> set (dc_statement c) \<and> T_snippet \<notin> set (dc_rationale c)"
proof -
  have "(n, c) \<in> set detector_config" using assms unfolding dict_get_def by (rule map_of_SomeD)
  then show ?thesis using template_facts unfolding list_all_iff by blast
qed

text \<open>The quoted line never travels into a hypothesis: only the file, the line number and the detail do.\<close>

lemma snippet_not_disclosed:
  assumes "dict_get detector_config n = Some c"
  shows "issue_to_hypothesis sha256 n (i\<lparr>iu_snippet := s\<rparr>) c = issue_to_hypothesis sha256 n i c"
proof -
  have f: "fill ps (i\<lparr>iu_snippet := s\<rparr>) = fill ps i" if "T_snippet \<notin> set ps" for ps
  proof -
    have piece: "p \<noteq> T_snippet \<Longrightarrow> fill_piece (i\<lparr>iu_snippet := s\<rparr>) p = fill_piece i p" for p
      by (cases p) auto
    have "fill_piece (i\<lparr>iu_snippet := s\<rparr>) p = fill_piece i p" if "p \<in> set ps" for p
      using that \<open>T_snippet \<notin> set ps\<close> by (intro piece) blast
    then have "map (fill_piece (i\<lparr>iu_snippet := s\<rparr>)) ps = map (fill_piece i) ps" by simp
    then show ?thesis unfolding fill_def by (rule arg_cong)
  qed
  show ?thesis
    using template_fact [OF assms] f by (simp add: issue_to_hypothesis_def hypothesis_id_def)
qed

text \<open>The static hypothesizer needs no trust: each of its hypotheses is valid, proposes a fault of the catalogue
  and cites one place, a line that exists in a readable, listed file of the target; so the tester accepts every one
  of them and rejects none.\<close>

theorem static_hypotheses_grounded:
  assumes "hex_digest sha256" "ta_hypothesizer ta = static_generate sha256 default_detectors" "ta_code ta = Some rd"
  shows "\<exists>r. tester_hypothesize ta rid now q w = (Inr r, w) \<and> tr_anomalies r = [] \<and>
    (\<forall>h \<in> set (tr_generated_hypotheses r). hypothesis_ok h \<and> hy_proposed_fault h \<in> set fault_names \<and>
      (\<exists>i. quotes_code rd i \<and> hy_code_references h = [slashes (iu_file i) @ '':'' @ nat_str (iu_line i)]))"
proof -
  define hs where "hs = concat (map (detector_hypotheses sha256 rd) default_detectors)"
  have ok: "hypothesis_ok h \<and> hy_proposed_fault h \<in> set fault_names \<and>
      (\<exists>i. quotes_code rd i \<and> hy_code_references h = [slashes (iu_file i) @ '':'' @ nat_str (iu_line i)])"
    if mem: "h \<in> set hs" for h
  proof -
    obtain d where d: "d \<in> set default_detectors" "h \<in> set (detector_hypotheses sha256 rd d)"
      using mem by (auto simp: hs_def)
    then obtain c i where c: "dict_get detector_config (dt_name d) = Some c" and i: "i \<in> set (dt_find d rd)"
      and h: "h = issue_to_hypothesis sha256 (dt_name d) i c"
      unfolding detector_hypotheses_def by (force split: option.splits)
    have "quotes_code rd i" by (rule issues_quote_code_lemma [OF d(1) i])
    moreover have "hypothesis_id_ok (hypothesis_id sha256 (dt_name d) i)"
      using template_fact [OF c] by (intro hypothesis_id_valid [OF assms(1)]) auto
    ultimately show ?thesis
      using template_fact [OF c] by (auto simp: h issue_to_hypothesis_def hypothesis_ok_def)
  qed
  have k: "in_catalogue (hy_proposed_fault h)" if "h \<in> set hs" for h
    using ok [OF that] by (simp add: in_catalogue_def fault_names_def dict_has_iff dict_get_None_iff)
  have "tester_hypothesize ta rid now q w = (Inr (hypothesize_report rid now q hs), w)"
    by (simp add: tester_hypothesize_def assms(2,3) static_generate_def hs_def)
  moreover have "filter (\<lambda>h. in_catalogue (hy_proposed_fault h)) hs = hs"
    "filter (\<lambda>h. \<not> in_catalogue (hy_proposed_fault h)) hs = []"
    using k by (auto simp: filter_id_conv filter_empty_conv)
  ultimately show ?thesis using ok by (auto simp: hypothesize_report_def Let_def)
qed

definition flat_digest :: "string \<Rightarrow> string" where "flat_digest t = replicate 64 (CHR ''0'')"

definition static_tester :: "code_reader \<Rightarrow> unit tester_agent" where
  "static_tester rd =
     (plain_tester dead_prom [])\<lparr>ta_hypothesizer := static_generate flat_digest default_detectors, ta_code := Some rd\<rparr>"

lemma static_hypotheses_grounded_witness:
  "\<exists>r. tester_hypothesize (static_tester (one_file_reader ''app.py'' ''requests.get(u)'')) ''run-0123456789ab'' 0
      verify_request () = (Inr r, ()) \<and> tr_anomalies r = []"
proof -
  have "hex_digest flat_digest" by (simp add: hex_digest_def flat_digest_def slug_char_def is_digit_def list_all_iff)
  then show ?thesis
    using static_hypotheses_grounded [of flat_digest "static_tester (one_file_reader ''app.py'' ''requests.get(u)'')"
        "one_file_reader ''app.py'' ''requests.get(u)''" "''run-0123456789ab''" 0 verify_request "()"]
    by (auto simp: static_tester_def)
qed

section \<open>Merging\<close>

interpretation proposal: ranked_merge hypothesis_duplicates hy_confidence merge_hypothesis hy_proposed_fault
  by unfold_locales (auto simp: hypothesis_duplicates_def)

lemma merge_hypotheses_merged: "merge_hypotheses a b = proposal.merged a b"
  by (simp add: merge_hypotheses_def proposal.merged_def)

text \<open>A hypothesis that cites one place; the detectors' hypotheses all do.\<close>

definition one_place :: "hypothesis \<Rightarrow> bool" where
  "one_place h \<longleftrightarrow> (\<exists>r. hy_code_references h = [r])"

lemma one_place_dup:
  "one_place x \<Longrightarrow> one_place y \<Longrightarrow>
    hypothesis_duplicates x y \<longleftrightarrow> hy_proposed_fault x = hy_proposed_fault y \<and> ref_set x = ref_set y"
  by (auto simp: hypothesis_duplicates_def one_place_def ref_set_def)

text \<open>C21: merging the static hypotheses with a model's is the best of each finding: when every hypothesis cites one
  place, the merged list is ranked, invents nothing, holds no two hypotheses about the same fault at the same place,
  and for every input holds the same finding with at least its confidence.\<close>

theorem merge_hypotheses_exact:
  assumes "list_all one_place (a @ b)"
  shows "set (merge_hypotheses a b) \<subseteq> set a \<union> set b \<and>
    sorted_wrt (\<lambda>x y. hy_confidence x \<ge> hy_confidence y) (merge_hypotheses a b) \<and>
    (\<forall>x \<in> set (merge_hypotheses a b). \<forall>y \<in> set (merge_hypotheses a b).
      hy_proposed_fault x = hy_proposed_fault y \<and> ref_set x = ref_set y \<longrightarrow> x = y) \<and>
    (\<forall>x \<in> set a \<union> set b. \<exists>y \<in> set (merge_hypotheses a b).
      hy_proposed_fault y = hy_proposed_fault x \<and> ref_set y = ref_set x \<and> hy_confidence x \<le> hy_confidence y)"
proof -
  have o1: "one_place x" if "x \<in> set a \<union> set b" for x using assms that by (auto simp: list_all_iff)
  have "proposal.equivalence_on (set a \<union> set b)"
    unfolding proposal.equivalence_on_def using one_place_dup o1 by (metis (no_types, lifting))
  note m = proposal.merged_equivalence [OF this]
  have sub: "x \<in> set a \<union> set b" if "x \<in> set (proposal.merged a b)" for x
    using that proposal.merged_inputs by blast
  have uniq: "x = y" if "x \<in> set (proposal.merged a b)" "y \<in> set (proposal.merged a b)"
      "hy_proposed_fault x = hy_proposed_fault y" "ref_set x = ref_set y" for x y
    using m that one_place_dup [OF o1 o1, OF sub sub] by blast
  have best: "\<exists>y \<in> set (proposal.merged a b).
      hy_proposed_fault y = hy_proposed_fault x \<and> ref_set y = ref_set x \<and> hy_confidence x \<le> hy_confidence y"
    if x: "x \<in> set a \<union> set b" for x
  proof -
    obtain y where y: "y \<in> set (proposal.merged a b)" "hypothesis_duplicates y x" "hy_confidence x \<le> hy_confidence y"
      using m x unfolding proposal.represented_def by blast
    then show ?thesis using one_place_dup [OF o1 [OF sub [OF y(1)]] o1 [OF x]] by blast
  qed
  show ?thesis
    unfolding merge_hypotheses_merged
    using proposal.merged_inputs proposal.merged_ranked uniq best by blast
qed

lemma merge_hypotheses_exact_witness:
  "\<exists>y \<in> set (merge_hypotheses [wild_hypothesis\<lparr>hy_code_references := [''a.py:1'']\<rparr>] []).
    hy_confidence wild_hypothesis \<le> hy_confidence y"
  using merge_hypotheses_exact [of "[wild_hypothesis\<lparr>hy_code_references := [''a.py:1'']\<rparr>]" "[]"]
  by (auto simp: one_place_def)

end
