(* ===== verification/Scanners.thy ===== *)
theory Scanners
  imports Contracts Harness "HOL-Library.Product_Lexorder"
begin

text \<open>
  The security scanners, \<open>agents/security/runner.py\<close> and \<open>agents/security/scanners/\<close>: each runs a command-line tool
  through a runner and turns its report into findings. The JSON decoder, the JSON encoder, SHA-256 and the printing
  of floats are the arguments in \<open>scan_env\<close>; the process itself is an argument of the production runner.
\<close>

section \<open>Runners\<close>

definition scanner_error :: "string \<Rightarrow> pyexn" where
  "scanner_error m = Exn ''ScannerError'' m"

record scanner_result =
  sn_args :: "string list"
  sn_stdout :: string
  sn_stderr :: string
  sn_returncode :: int

type_synonym 'w runner = "string list \<Rightarrow> real option \<Rightarrow> 'w \<Rightarrow> scanner_result res \<times> 'w"

datatype process_outcome = Timed_out | Exited string string "int option"

record 'w process_env =
  px_spawn :: "string list \<Rightarrow> 'w \<Rightarrow> unit res \<times> 'w"
  px_communicate :: "real option \<Rightarrow> 'w \<Rightarrow> process_outcome res \<times> 'w"
  px_kill :: "'w \<Rightarrow> 'w"
  px_repr_float :: "real \<Rightarrow> string"

definition run_subprocess :: "'w process_env \<Rightarrow> 'w runner" where
  "run_subprocess px args timeout w =
     (case px_spawn px args w of
        (Inl x, w1) \<Rightarrow> (Inl x, w1)
      | (Inr u, w1) \<Rightarrow>
          (case px_communicate px timeout w1 of
             (Inl x, w2) \<Rightarrow> (Inl x, w2)
           | (Inr Timed_out, w2) \<Rightarrow>
               (Inl (scanner_error (''scanner timed out after '' @
                 (case timeout of None \<Rightarrow> ''None'' | Some t \<Rightarrow> px_repr_float px t) @ ''s: '' @ join '' '' args)), px_kill px w2)
           | (Inr (Exited out err rc), w2) \<Rightarrow>
               (Inr \<lparr>sn_args = args, sn_stdout = out, sn_stderr = err,
                     sn_returncode = (case rc of None \<Rightarrow> -1 | Some n \<Rightarrow> n)\<rparr>, w2)))"

record fixture_runner =
  fx_exact :: "(string list, scanner_result) dict"
  fx_by_prog :: "(string, scanner_result) dict"
  fx_calls :: "string list list"

definition fixture_register :: "string list + string \<Rightarrow> string \<Rightarrow> string \<Rightarrow> int \<Rightarrow> fixture_runner \<Rightarrow> fixture_runner" where
  "fixture_register key out err rc fx =
     (case key of
        Inr prog \<Rightarrow> fx\<lparr>fx_by_prog := dict_set prog
          \<lparr>sn_args = [prog], sn_stdout = out, sn_stderr = err, sn_returncode = rc\<rparr> (fx_by_prog fx)\<rparr>
      | Inl args \<Rightarrow> fx\<lparr>fx_exact := dict_set args
          \<lparr>sn_args = args, sn_stdout = out, sn_stderr = err, sn_returncode = rc\<rparr> (fx_exact fx)\<rparr>)"

definition run_fixture :: "fixture_runner runner" where
  "run_fixture args timeout fx =
     (let fx' = fx\<lparr>fx_calls := fx_calls fx @ [args]\<rparr>;
          by_prog = (case args of [] \<Rightarrow> None | p # _ \<Rightarrow> dict_get (fx_by_prog fx) p) in
      (case or_else (dict_get (fx_exact fx) args) by_prog of
         Some r \<Rightarrow> Inr r
       | None \<Rightarrow> Inl (scanner_error (''no fixture registered for: '' @ join '' '' args)), fx'))"

section \<open>Reading a tool's report\<close>

record scan_env =
  se_loads :: "string \<Rightarrow> string + pyval"
  se_dumps :: "pyval \<Rightarrow> string"
  se_sha256 :: "string \<Rightarrow> string"
  se_repr_float :: "real \<Rightarrow> string"

definition upper_case :: "char \<Rightarrow> char" where
  "upper_case c = (let n = of_char c :: nat in if 97 \<le> n \<and> n \<le> 122 then char_of (n - 32) else c)"

fun py_upper :: "pyval \<Rightarrow> string res" where
  "py_upper (PStr s) = Inr (map upper_case s)"
| "py_upper v = Inl attribute_error"

fun py_lower :: "pyval \<Rightarrow> string res" where
  "py_lower (PStr s) = Inr (lower s)"
| "py_lower v = Inl attribute_error"

definition validation_error :: "string \<Rightarrow> pyexn" where
  "validation_error field = Exn ''ValidationError'' field"

fun text_field :: "string \<Rightarrow> pyval \<Rightarrow> string res" where
  "text_field k (PStr s) = Inr s"
| "text_field k v = Inl (validation_error k)"

text \<open>The constructor of a finding, with the contract's pattern of its identifier.\<close>

definition new_finding ::
  "string \<Rightarrow> finding_severity \<Rightarrow> string \<Rightarrow> pyval \<Rightarrow> string \<Rightarrow> string option \<Rightarrow> (string, pyval) dict \<Rightarrow> string option \<Rightarrow> security_finding res"
where
  "new_finding i sev title desc scanner cve evidence location =
     (if \<not> finding_id_ok i then Inl (validation_error ''id'')
      else res_bind (text_field ''description'' desc) (\<lambda>d.
        Inr \<lparr>sf_id = i, sf_severity = sev, sf_title = title, sf_description = d, sf_scanner = scanner, sf_cve = cve,
             sf_evidence = evidence, sf_location = location\<rparr>))"

text \<open>\<open>f"f-..".lower().replace("_", "-")\<close>.\<close>

definition finding_id_of :: "string \<Rightarrow> string" where
  "finding_id_of s = replace_char (CHR ''_'') ''-'' (lower s)"

text \<open>\<open>v.get(k) or []\<close> as the values to iterate over.\<close>

definition items_or_none :: "pyval \<Rightarrow> string \<Rightarrow> pyval list res" where
  "items_or_none v k = res_bind (get_item v k PNone) (\<lambda>x. if truthy x then py_iter x else Inr [])"

definition get_or :: "pyval \<Rightarrow> string \<Rightarrow> string \<Rightarrow> pyval \<Rightarrow> pyval res" where
  "get_or v k1 k2 dflt =
     res_bind (get_item v k1 PNone) (\<lambda>a. if truthy a then Inr a else
       res_bind (get_item v k2 PNone) (\<lambda>b. Inr (if truthy b then b else dflt)))"

definition get_or_dict :: "pyval \<Rightarrow> string \<Rightarrow> pyval res" where
  "get_or_dict v k = res_bind (get_item v k PNone) (\<lambda>x. Inr (if truthy x then x else PDict []))"

definition get_or_empty :: "pyval \<Rightarrow> string \<Rightarrow> pyval res" where
  "get_or_empty v k = res_bind (get_item v k PNone) (\<lambda>x. Inr (if truthy x then x else PStr []))"

text \<open>\<open>cve if cve.startswith("CVE-") else None\<close>.\<close>

fun cve_of :: "pyval \<Rightarrow> string option res" where
  "cve_of (PStr s) = Inr (if take 4 s = ''CVE-'' then Some s else None)"
| "cve_of v = Inl attribute_error"

definition decode_report :: "scan_env \<Rightarrow> string \<Rightarrow> string \<Rightarrow> pyval res" where
  "decode_report se tool out =
     (case se_loads se out of
        Inl e \<Rightarrow> Inl (scanner_error (tool @ '' stdout was not JSON: '' @ e))
      | Inr v \<Rightarrow> Inr v)"

definition exit_error :: "string \<Rightarrow> scanner_result \<Rightarrow> string \<Rightarrow> pyexn" where
  "exit_error tool r location =
     scanner_error (tool @ '' exit '' @ int_str (sn_returncode r) @ '' for '' @ location @ '': '' @ take 200 (sn_stderr r))"

definition severity_map :: "(string, finding_severity) dict" where
  "severity_map =
     [(''CRITICAL'', SEV_CRITICAL), (''HIGH'', SEV_HIGH), (''MEDIUM'', SEV_MEDIUM), (''LOW'', SEV_LOW),
      (''UNKNOWN'', SEV_INFO), (''NEGLIGIBLE'', SEV_INFO)]"

definition named_severity :: "string \<Rightarrow> finding_severity" where
  "named_severity s = (case dict_get severity_map s of Some v \<Rightarrow> v | None \<Rightarrow> SEV_INFO)"

section \<open>Trivy\<close>

definition trivy_vulnerability :: "scan_env \<Rightarrow> string \<Rightarrow> pyval \<Rightarrow> pyval \<Rightarrow> security_finding res" where
  "trivy_vulnerability se img target vuln =
     res_bind (get_item vuln ''VulnerabilityID'' (PStr ''UNKNOWN'')) (\<lambda>cve.
     res_bind (get_item vuln ''PkgName'' (PStr ''?'')) (\<lambda>pkg.
     res_bind (get_item vuln ''Severity'' (PStr [])) (\<lambda>raw.
     res_bind (py_upper raw) (\<lambda>sev.
     res_bind (get_or vuln ''Title'' ''Description'' (PStr [])) (\<lambda>desc.
     res_bind (cve_of cve) (\<lambda>c.
     res_bind (get_item vuln ''InstalledVersion'' PNone) (\<lambda>iv.
     res_bind (get_item vuln ''FixedVersion'' PNone) (\<lambda>fv.
       let cve_text = py_str (se_repr_float se) cve; pkg_text = py_str (se_repr_float se) pkg in
       new_finding (finding_id_of (''f-trivy-'' @ cve_text @ ''-'' @ pkg_text)) (named_severity sev)
         (cve_text @ '' in '' @ pkg_text) desc ''trivy'' c
         [(''package'', pkg), (''installed_version'', iv), (''fixed_version'', fv), (''target'', target)] (Some img)))))))))"

definition trivy_misconfiguration :: "scan_env \<Rightarrow> string \<Rightarrow> pyval \<Rightarrow> pyval \<Rightarrow> security_finding res" where
  "trivy_misconfiguration se img target misc =
     res_bind (get_item misc ''ID'' (PStr ''MISC'')) (\<lambda>mid.
     res_bind (get_item misc ''Severity'' (PStr [])) (\<lambda>raw.
     res_bind (py_upper raw) (\<lambda>sev.
     res_bind (get_item misc ''Title'' (PStr ''misconfiguration'')) (\<lambda>title.
     res_bind (get_or_empty misc ''Description'') (\<lambda>desc.
     res_bind (get_item misc ''Type'' PNone) (\<lambda>ty.
       let mid_text = py_str (se_repr_float se) mid in
       new_finding (finding_id_of (''f-trivy-misc-'' @ mid_text)) (named_severity sev)
         (mid_text @ '': '' @ py_str (se_repr_float se) title) desc ''trivy'' None
         [(''target'', target), (''type'', ty)] (Some img)))))))"

definition trivy_result :: "scan_env \<Rightarrow> string \<Rightarrow> pyval \<Rightarrow> security_finding list res" where
  "trivy_result se img r =
     res_bind (get_item r ''Target'' (PStr img)) (\<lambda>target.
     res_bind (items_or_none r ''Vulnerabilities'') (\<lambda>vs.
     res_bind (res_map (trivy_vulnerability se img target) vs) (\<lambda>fs1.
     res_bind (items_or_none r ''Misconfigurations'') (\<lambda>ms.
     res_bind (res_map (trivy_misconfiguration se img target) ms) (\<lambda>fs2. Inr (fs1 @ fs2))))))"

definition parse_trivy_image :: "scan_env \<Rightarrow> string \<Rightarrow> string \<Rightarrow> security_finding list res" where
  "parse_trivy_image se out img =
     res_bind (decode_report se ''trivy'' out) (\<lambda>payload.
     res_bind (items_or_none payload ''Results'') (\<lambda>rs.
     res_bind (res_map (trivy_result se img) rs) (\<lambda>fss. Inr (concat fss))))"

definition trivy_args :: "string \<Rightarrow> string list" where
  "trivy_args img =
     [''trivy'', ''image'', ''--format'', ''json'', ''--severity'', ''CRITICAL,HIGH,MEDIUM'', ''--quiet'', img]"

text \<open>Run a tool, refuse the exit codes \<open>bad\<close>, and parse what it printed.\<close>

definition run_tool ::
  "'w runner \<Rightarrow> string list \<Rightarrow> real \<Rightarrow> (scanner_result \<Rightarrow> 'a res) \<Rightarrow> 'w \<Rightarrow> 'a res \<times> 'w" where
  "run_tool run args timeout parse w =
     (case run args (Some timeout) w of
        (Inl x, w1) \<Rightarrow> (Inl x, w1)
      | (Inr r, w1) \<Rightarrow> (parse r, w1))"

definition trivy_scan :: "scan_env \<Rightarrow> 'w runner \<Rightarrow> string \<Rightarrow> 'w \<Rightarrow> security_finding list res \<times> 'w" where
  "trivy_scan se run img =
     run_tool run (trivy_args img) 180
       (\<lambda>r. if sn_returncode r \<noteq> 0 then Inl (exit_error ''trivy'' r img)
            else parse_trivy_image se (sn_stdout r) img)"

section \<open>Syft\<close>

definition package_pair :: "scan_env \<Rightarrow> (string, pyval) dict \<Rightarrow> string \<times> string" where
  "package_pair se p =
     (py_str (se_repr_float se) (param p ''name'' (PStr [])), py_str (se_repr_float se) (param p ''versionInfo'' (PStr [])))"

fun dict_values :: "pyval list \<Rightarrow> (string, pyval) dict list" where
  "dict_values [] = []"
| "dict_values (PDict d # vs) = d # dict_values vs"
| "dict_values (v # vs) = dict_values vs"

definition digest_pairs :: "scan_env \<Rightarrow> (string \<times> string) list \<Rightarrow> string" where
  "digest_pairs se ps =
     ''sha256:'' @ se_sha256 se (se_dumps se (PList (map (\<lambda>(a, b). PList [PStr a, PStr b]) (sort ps))))"

definition digest_sbom :: "scan_env \<Rightarrow> pyval \<Rightarrow> string res" where
  "digest_sbom se sbom =
     res_bind (items_or_none sbom ''packages'') (\<lambda>ps. Inr (digest_pairs se (map (package_pair se) (dict_values ps))))"

definition generate_sbom ::
  "scan_env \<Rightarrow> 'w runner \<Rightarrow> string \<Rightarrow> 'w \<Rightarrow> (security_finding list \<times> string \<times> pyval) res \<times> 'w" where
  "generate_sbom se run img =
     run_tool run [''syft'', img, ''-o'', ''spdx-json'', ''-q''] 180
       (\<lambda>r. if sn_returncode r \<noteq> 0 then Inl (exit_error ''syft'' r img)
            else res_bind (decode_report se ''syft'' (sn_stdout r)) (\<lambda>sbom.
              res_bind (digest_sbom se sbom) (\<lambda>d. Inr ([], d, sbom))))"

section \<open>Grype\<close>

definition grype_match :: "scan_env \<Rightarrow> string \<Rightarrow> pyval \<Rightarrow> security_finding res" where
  "grype_match se location m =
     res_bind (get_or_dict m ''vulnerability'') (\<lambda>vuln.
     res_bind (get_or_dict m ''artifact'') (\<lambda>artifact.
     res_bind (get_item vuln ''id'' (PStr ''UNKNOWN'')) (\<lambda>cve.
     res_bind (get_item artifact ''name'' (PStr ''?'')) (\<lambda>pkg.
     res_bind (get_item vuln ''severity'' (PStr [])) (\<lambda>raw.
     res_bind (py_upper raw) (\<lambda>sev.
     res_bind (get_or_dict vuln ''fix'') (\<lambda>fix_info.
     res_bind (get_item fix_info ''versions'' PNone) (\<lambda>versions.
     res_bind (get_or_empty vuln ''description'') (\<lambda>desc.
     res_bind (cve_of cve) (\<lambda>c.
     res_bind (get_item artifact ''version'' PNone) (\<lambda>iv.
     res_bind (get_item artifact ''type'' PNone) (\<lambda>ty.
     res_bind (get_item vuln ''dataSource'' PNone) (\<lambda>src.
       let cve_text = py_str (se_repr_float se) cve; pkg_text = py_str (se_repr_float se) pkg in
       new_finding (finding_id_of (''f-grype-'' @ cve_text @ ''-'' @ pkg_text)) (named_severity sev)
         (cve_text @ '' in '' @ pkg_text) desc ''grype'' c
         [(''package'', pkg), (''installed_version'', iv),
          (''fixed_versions'', if truthy versions then versions else PList []), (''type'', ty), (''data_source'', src)]
         (Some location))))))))))))))"

definition parse_grype :: "scan_env \<Rightarrow> string \<Rightarrow> string \<Rightarrow> security_finding list res" where
  "parse_grype se out location =
     res_bind (decode_report se ''grype'' out) (\<lambda>payload.
     res_bind (items_or_none payload ''matches'') (res_map (grype_match se location)))"

definition grype_scan :: "scan_env \<Rightarrow> 'w runner \<Rightarrow> string list \<Rightarrow> real \<Rightarrow> string \<Rightarrow> 'w \<Rightarrow> security_finding list res \<times> 'w" where
  "grype_scan se run args timeout location =
     run_tool run args timeout
       (\<lambda>r. if sn_returncode r \<noteq> 0 then Inl (exit_error ''grype'' r location)
            else parse_grype se (sn_stdout r) location)"

definition grype_image :: "scan_env \<Rightarrow> 'w runner \<Rightarrow> string \<Rightarrow> 'w \<Rightarrow> security_finding list res \<times> 'w" where
  "grype_image se run img = grype_scan se run [''grype'', img, ''-o'', ''json'', ''-q''] 240 img"

definition grype_sbom :: "scan_env \<Rightarrow> 'w runner \<Rightarrow> string \<Rightarrow> 'w \<Rightarrow> security_finding list res \<times> 'w" where
  "grype_sbom se run path = grype_scan se run [''grype'', ''sbom:'' @ path, ''-o'', ''json'', ''-q''] 120 path"

section \<open>gitleaks\<close>

definition gitleaks_item :: "scan_env \<Rightarrow> string \<Rightarrow> nat \<Rightarrow> pyval \<Rightarrow> security_finding res" where
  "gitleaks_item se location i item =
     res_bind (get_or item ''RuleID'' ''ruleId'' (PStr ''unknown-rule'')) (\<lambda>rule_id.
     res_bind (get_or item ''File'' ''file'' (PStr ''?'')) (\<lambda>file.
     res_bind (get_or item ''StartLine'' ''startLine'' (PInt 0)) (\<lambda>line.
     res_bind (get_or item ''Commit'' ''commit'' (PStr [])) (\<lambda>commit.
     res_bind (get_or item ''Description'' ''description'' (PStr [])) (\<lambda>desc.
       let str = py_str (se_repr_float se) in
       new_finding (finding_id_of (''f-gitleaks-'' @ str rule_id @ ''-'' @ nat_str i)) SEV_HIGH
         (str rule_id @ '': leaked secret in '' @ str file @ '':'' @ str line) desc ''gitleaks'' None
         [(''rule_id'', rule_id), (''file'', file), (''start_line'', line), (''commit'', commit)]
         (Some (location @ '':'' @ str file)))))))"

fun gitleaks_items :: "scan_env \<Rightarrow> string \<Rightarrow> nat \<Rightarrow> pyval list \<Rightarrow> security_finding list res" where
  "gitleaks_items se location i [] = Inr []"
| "gitleaks_items se location i (v # vs) =
     (case v of
        PDict d \<Rightarrow> res_bind (gitleaks_item se location i v) (\<lambda>f.
          res_bind (gitleaks_items se location (Suc i) vs) (\<lambda>fs. Inr (f # fs)))
      | _ \<Rightarrow> gitleaks_items se location (Suc i) vs)"

definition parse_gitleaks :: "scan_env \<Rightarrow> string \<Rightarrow> string \<Rightarrow> security_finding list res" where
  "parse_gitleaks se out location =
     (if strip out = [] then Inr []
      else res_bind (decode_report se ''gitleaks'' out) (\<lambda>payload.
        res_bind (case payload of PList vs \<Rightarrow> Inr vs | _ \<Rightarrow> items_or_none payload ''findings'')
          (gitleaks_items se location 0)))"

definition gitleaks_scan :: "scan_env \<Rightarrow> 'w runner \<Rightarrow> string \<Rightarrow> 'w \<Rightarrow> security_finding list res \<times> 'w" where
  "gitleaks_scan se run path =
     run_tool run
       [''gitleaks'', ''detect'', ''--source'', path, ''--report-format'', ''json'', ''--report-path'', ''/dev/stdout'',
        ''--no-banner'', ''--exit-code'', ''1''] 120
       (\<lambda>r. if sn_returncode r \<ge> 2 then Inl (exit_error ''gitleaks'' r path)
            else parse_gitleaks se (sn_stdout r) path)"

section \<open>cosign\<close>

definition alnum_char :: "char \<Rightarrow> bool" where
  "alnum_char c \<longleftrightarrow> (let n = of_char c :: nat in
     (48 \<le> n \<and> n \<le> 57) \<or> (65 \<le> n \<and> n \<le> 90) \<or> (97 \<le> n \<and> n \<le> 122))"

definition dash :: char where "dash = CHR ''-''"

text \<open>\<open>s.replace("--", "-")\<close>, and the loop that repeats it.\<close>

fun replace_dashes :: "string \<Rightarrow> string" where
  "replace_dashes (a # b # cs) =
     (if a = dash \<and> b = dash then dash # replace_dashes cs else a # replace_dashes (b # cs))"
| "replace_dashes cs = cs"

lemma length_replace_dashes: "length (replace_dashes s) \<le> length s"
  by (induction s rule: replace_dashes.induct) auto

lemma replace_dashes_shrinks: "str_in [dash, dash] s \<Longrightarrow> length (replace_dashes s) < length s"
proof (induction s rule: replace_dashes.induct)
  case (1 a b cs)
  then show ?case
    using length_replace_dashes [of cs] by (cases "a = dash \<and> b = dash") (auto simp: str_in_iff Cons_eq_append_conv)
qed (auto simp: str_in_iff Cons_eq_append_conv)

function collapse_dashes :: "string \<Rightarrow> string" where
  "collapse_dashes s = (if str_in [dash, dash] s then collapse_dashes (replace_dashes s) else s)"
  by pat_completeness auto
termination by (relation "measure length") (auto dest: replace_dashes_shrinks)

declare collapse_dashes.simps [simp del]

definition strip_dashes :: "string \<Rightarrow> string" where
  "strip_dashes s = rev (dropWhile (\<lambda>c. c = dash) (rev (dropWhile (\<lambda>c. c = dash) s)))"

definition sanitize_for_id :: "string \<Rightarrow> string" where
  "sanitize_for_id s =
     strip_dashes (collapse_dashes (map (\<lambda>c. if alnum_char c \<or> c = dash then c else dash) (lower s)))"

definition cosign_args :: "string \<Rightarrow> string option \<Rightarrow> string option \<Rightarrow> string option \<Rightarrow> string list res" where
  "cosign_args img key identity issuer =
     (case (key, identity, issuer) of
        (Some (k # ks), _, _) \<Rightarrow> Inr [''cosign'', ''verify'', ''--key'', k # ks, img]
      | (_, Some (a # as), Some (b # bs)) \<Rightarrow>
          Inr [''cosign'', ''verify'', ''--certificate-identity'', a # as, ''--certificate-oidc-issuer'', b # bs, img]
      | _ \<Rightarrow> Inl (Exn ''ValueError''
          (''cosign verify needs --public_key OR (--certificate_identity + '' @
           ''--certificate_oidc_issuer); none provided'')))"

definition cosign_verdict :: "string \<Rightarrow> string option \<Rightarrow> scanner_result \<Rightarrow> security_finding list res" where
  "cosign_verdict img identity r =
     (if sn_returncode r = 0 then Inr []
      else let err = strip (sn_stderr r); out = strip (sn_stdout r) in
        if str_in ''executable file not found'' (lower err) \<or> str_in ''no such file'' (lower err)
        then Inl (scanner_error (''cosign binary not available: '' @ err))
        else res_bind (new_finding (''f-cosign-unsigned-'' @ take 48 (sanitize_for_id img)) SEV_CRITICAL
            (''image signature verification failed: '' @ img)
            (PStr (take 400 (if err \<noteq> [] then err else if out \<noteq> [] then out else ''(no message)''))) ''cosign'' None
            [(''returncode'', PInt (sn_returncode r)),
             (''mode'', PStr (case identity of Some (c # cs) \<Rightarrow> ''keyless'' | _ \<Rightarrow> ''keyed''))] (Some img)) (\<lambda>f. Inr [f]))"

definition cosign_verify ::
  "'w runner \<Rightarrow> string \<Rightarrow> string option \<Rightarrow> string option \<Rightarrow> string option \<Rightarrow> 'w \<Rightarrow> security_finding list res \<times> 'w" where
  "cosign_verify run img key identity issuer w =
     (case cosign_args img key identity issuer of
        Inl x \<Rightarrow> (Inl x, w)
      | Inr args \<Rightarrow> run_tool run args 60 (cosign_verdict img identity) w)"

section \<open>kubescape\<close>

definition numbered_severity :: "int \<Rightarrow> finding_severity" where
  "numbered_severity n =
     (if n = 9 \<or> n = 8 then SEV_CRITICAL else if n = 7 \<or> n = 6 then SEV_HIGH
      else if n = 5 \<or> n = 4 then SEV_MEDIUM else if n = 3 \<or> n = 2 then SEV_LOW else SEV_INFO)"

fun conversion_error :: "pyexn \<Rightarrow> bool" where
  "conversion_error (Exn c m) = (c = ''TypeError'' \<or> c = ''ValueError'')"
| "conversion_error (BaseExn c) = False"

definition graded_severity :: "pyval \<Rightarrow> finding_severity res" where
  "graded_severity v =
     (case py_int v of
        Inr n \<Rightarrow> Inr (numbered_severity n)
      | Inl x \<Rightarrow> (if conversion_error x then Inr SEV_INFO else Inl x))"

definition kubescape_control ::
  "scan_env \<Rightarrow> string \<Rightarrow> string \<Rightarrow> string \<times> pyval \<Rightarrow> security_finding list res" where
  "kubescape_control se namespace framework entry =
     (case entry of (cid, control) \<Rightarrow>
       (case control of
          PDict d \<Rightarrow>
            res_bind (get_or_dict control ''status'') (\<lambda>st.
            res_bind (get_item st ''status'' (PStr [])) (\<lambda>raw.
            res_bind (py_lower raw) (\<lambda>status.
              if status \<noteq> ''failed'' \<and> status \<noteq> ''warning'' then Inr []
              else
                res_bind (get_or control ''severity'' ''scoreFactor'' (PInt 0)) (\<lambda>num.
                res_bind (graded_severity num) (\<lambda>sev.
                res_bind (get_or control ''name'' ''name'' (PStr cid)) (\<lambda>name.
                res_bind (items_or_none control ''resourceIDs'') (\<lambda>affected.
                res_bind (get_or_empty control ''description'') (\<lambda>desc.
                res_bind (new_finding (finding_id_of (''f-kubescape-'' @ cid)) sev
                    (cid @ '': '' @ py_str (se_repr_float se) name) desc ''kubescape'' None
                    [(''framework'', PStr framework), (''control_id'', PStr cid),
                     (''affected_resource_ids'', PList (take 50 affected)), (''score_factor'', num)]
                    (Some (''namespace/'' @ namespace))) (\<lambda>f. Inr [f])))))))))
        | _ \<Rightarrow> Inr []))"

definition parse_kubescape :: "scan_env \<Rightarrow> string \<Rightarrow> string \<Rightarrow> string \<Rightarrow> security_finding list res" where
  "parse_kubescape se out namespace framework =
     (if strip out = [] then Inr []
      else res_bind (decode_report se ''kubescape'' out) (\<lambda>payload.
        res_bind (get_or_dict payload ''summaryDetails'') (\<lambda>summary.
        res_bind (get_or_dict summary ''controls'') (\<lambda>controls.
          case controls of
            PDict d \<Rightarrow> res_bind (res_map (kubescape_control se namespace framework) d) (\<lambda>fss. Inr (concat fss))
          | _ \<Rightarrow> Inl attribute_error))))"

definition kubescape_scan ::
  "scan_env \<Rightarrow> 'w runner \<Rightarrow> string \<Rightarrow> string \<Rightarrow> 'w \<Rightarrow> security_finding list res \<times> 'w" where
  "kubescape_scan se run namespace framework =
     run_tool run
       [''kubescape'', ''scan'', ''framework'', framework, ''--include-namespaces'', namespace, ''--format'', ''json'',
        ''--format-version'', ''v2''] 300
       (\<lambda>r. parse_kubescape se (sn_stdout r) namespace framework)"

end
