(* ===== verification/Security.thy ===== *)
theory Security
  imports Scanners
begin

text \<open>
  The security agent, \<open>agents/security/agent.py\<close>: which scanners run on which input, the tolerance for scanner
  failures, and the drift of the software bills of materials between a baseline and a verification. The agent
  keeps, per experiment, the digest of each image; \<open>rid\<close> and \<open>now\<close> are a report's default run identifier and
  start time.
\<close>

record scan_config =
  sc_trivy :: bool
  sc_syft :: bool
  sc_grype :: bool
  sc_gitleaks :: bool
  sc_cosign :: bool
  sc_kubescape :: bool
  sc_cosign_public_key :: "string option"
  sc_cosign_identity :: "string option"
  sc_cosign_issuer :: "string option"
  sc_framework :: string

definition default_scan_config :: scan_config where
  "default_scan_config =
     \<lparr>sc_trivy = True, sc_syft = False, sc_grype = False, sc_gitleaks = False, sc_cosign = False, sc_kubescape = False,
      sc_cosign_public_key = None, sc_cosign_identity = None, sc_cosign_issuer = None, sc_framework = ''nsa''\<rparr>"

type_synonym digests = "(string, string) dict"

record 'w security_agent =
  sg_env :: scan_env
  sg_runner :: "'w runner"
  sg_config :: scan_config
  sg_skip :: bool
  sg_baselines :: "(string, digests) dict"

section \<open>Tolerated failures\<close>

fun is_scanner_error :: "pyexn \<Rightarrow> bool" where
  "is_scanner_error (Exn c m) = (c = ''ScannerError'')"
| "is_scanner_error (BaseExn c) = False"

definition safe_call :: "bool \<Rightarrow> 'a \<Rightarrow> 'a res \<times> 'w \<Rightarrow> 'a res \<times> 'w" where
  "safe_call skip dflt r =
     (case r of
        (Inl x, w) \<Rightarrow> (if is_scanner_error x \<and> skip then (Inr dflt, w) else (Inl x, w))
      | (Inr v, w) \<Rightarrow> (Inr v, w))"

section \<open>Scanning an image\<close>

text \<open>One scanner after the findings so far: skipped when disabled, its findings appended otherwise.\<close>

definition add_scan ::
  "bool \<Rightarrow> ('w \<Rightarrow> security_finding list res \<times> 'w) \<Rightarrow> bool \<Rightarrow> security_finding list res \<times> 'w \<Rightarrow>
    security_finding list res \<times> 'w" where
  "add_scan skip scan enabled r =
     (if \<not> enabled then r
      else case r of
        (Inl x, w) \<Rightarrow> (Inl x, w)
      | (Inr fs, w) \<Rightarrow>
          (case safe_call skip [] (scan w) of
             (Inl x, w1) \<Rightarrow> (Inl x, w1)
           | (Inr gs, w1) \<Rightarrow> (Inr (fs @ gs), w1)))"

definition sbom_of :: "'w security_agent \<Rightarrow> string \<Rightarrow> 'w \<Rightarrow> (security_finding list \<times> string) res \<times> 'w" where
  "sbom_of sg img w =
     (case safe_call (sg_skip sg) ([], [], PDict []) (generate_sbom (sg_env sg) (sg_runner sg) img w) of
        (Inl x, w1) \<Rightarrow> (Inl x, w1)
      | (Inr (fs, d, sbom), w1) \<Rightarrow> (Inr (fs, d), w1))"

text \<open>Trivy and the bill of materials; the digest is noted when there is one.\<close>

definition scan_and_digest ::
  "'w security_agent \<Rightarrow> string \<Rightarrow> digests \<Rightarrow> 'w \<Rightarrow> (security_finding list \<times> digests) res \<times> 'w" where
  "scan_and_digest sg img ds w =
     (case add_scan (sg_skip sg) (trivy_scan (sg_env sg) (sg_runner sg) img) (sc_trivy (sg_config sg)) (Inr [], w) of
        (Inl x, w1) \<Rightarrow> (Inl x, w1)
      | (Inr fs, w1) \<Rightarrow>
          (if \<not> sc_syft (sg_config sg) then (Inr (fs, ds), w1)
           else case sbom_of sg img w1 of
             (Inl x, w2) \<Rightarrow> (Inl x, w2)
           | (Inr (gs, d), w2) \<Rightarrow> (Inr (fs @ gs, if d = [] then ds else dict_set img d ds), w2)))"

definition scan_one_image ::
  "'w security_agent \<Rightarrow> string \<Rightarrow> digests \<Rightarrow> 'w \<Rightarrow> (security_finding list \<times> digests) res \<times> 'w" where
  "scan_one_image sg img ds w =
     (case scan_and_digest sg img ds w of
        (Inl x, w1) \<Rightarrow> (Inl x, w1)
      | (Inr (fs, ds1), w1) \<Rightarrow>
          (let cfg = sg_config sg;
               after_grype = add_scan (sg_skip sg) (grype_image (sg_env sg) (sg_runner sg) img) (sc_grype cfg) (Inr fs, w1);
               after_cosign = add_scan (sg_skip sg)
                 (cosign_verify (sg_runner sg) img (sc_cosign_public_key cfg) (sc_cosign_identity cfg) (sc_cosign_issuer cfg))
                 (sc_cosign cfg) after_grype
           in (case after_cosign of
                 (Inl x, w2) \<Rightarrow> (Inl x, w2)
               | (Inr gs, w2) \<Rightarrow> (Inr (gs, ds1), w2))))"

fun scan_images ::
  "'w security_agent \<Rightarrow> string list \<Rightarrow> digests \<Rightarrow> 'w \<Rightarrow> (security_finding list \<times> digests) res \<times> 'w" where
  "scan_images sg [] ds w = (Inr ([], ds), w)"
| "scan_images sg (img # imgs) ds w =
     (case scan_one_image sg img ds w of
        (Inl x, w1) \<Rightarrow> (Inl x, w1)
      | (Inr (fs, ds1), w1) \<Rightarrow>
          (case scan_images sg imgs ds1 w1 of
             (Inl x, w2) \<Rightarrow> (Inl x, w2)
           | (Inr (gs, ds2), w2) \<Rightarrow> (Inr (fs @ gs, ds2), w2)))"

text \<open>Everything a baseline or a verification scans: the images, the repository, the cluster.\<close>

definition run_scans ::
  "'w security_agent \<Rightarrow> security_request \<Rightarrow> 'w \<Rightarrow> (security_finding list \<times> digests) res \<times> 'w" where
  "run_scans sg q w =
     (case scan_images sg (sq_target_images q) [] w of
        (Inl x, w1) \<Rightarrow> (Inl x, w1)
      | (Inr (fs, ds), w1) \<Rightarrow>
          (let cfg = sg_config sg;
               target = (case sq_target_repo q of Some r \<Rightarrow> r | None \<Rightarrow> []);
               after_repo = add_scan (sg_skip sg) (gitleaks_scan (sg_env sg) (sg_runner sg) target)
                 (sc_gitleaks cfg \<and> target \<noteq> []) (Inr fs, w1);
               after_cluster = add_scan (sg_skip sg)
                 (kubescape_scan (sg_env sg) (sg_runner sg) (sq_target_app q) (sc_framework cfg)) (sc_kubescape cfg) after_repo
           in (case after_cluster of
                 (Inl x, w2) \<Rightarrow> (Inl x, w2)
               | (Inr gs, w2) \<Rightarrow> (Inr (gs, ds), w2))))"

section \<open>Drift\<close>

definition aggregate_digest :: "scan_env \<Rightarrow> digests \<Rightarrow> string option" where
  "aggregate_digest se ds =
     (if ds = [] then None
      else Some (''sha256:'' @ se_sha256 se (join [CHR 0x0A] (map (\<lambda>(i, d). i @ ''='' @ d) (sort ds)))))"

definition compute_drift :: "digests \<Rightarrow> digests \<Rightarrow> bool" where
  "compute_drift base ver =
     (if base = [] then False else list_ex (\<lambda>(i, d). dict_get ver i \<noteq> Some d) base)"

section \<open>The agent\<close>

definition security_report_of ::
  "security_kind \<Rightarrow> string \<Rightarrow> int \<Rightarrow> security_request \<Rightarrow> security_finding list \<Rightarrow> string option \<Rightarrow> bool \<Rightarrow> security_report" where
  "security_report_of kind rid now q fs digest drift =
     \<lparr>sp_request_kind = kind, sp_experiment_id = sq_experiment_id q, sp_run_id = rid, sp_findings = fs,
      sp_generated_hypotheses = [], sp_sbom_digest = digest, sp_sbom_drift_from_baseline = drift,
      sp_started_at = now, sp_finished_at = None\<rparr>"

definition security_baseline ::
  "'w security_agent \<Rightarrow> string \<Rightarrow> int \<Rightarrow> security_request \<Rightarrow> 'w \<Rightarrow> security_report res \<times> 'w security_agent \<times> 'w" where
  "security_baseline sg rid now q w =
     (case run_scans sg q w of
        (Inl x, w1) \<Rightarrow> (Inl x, sg, w1)
      | (Inr (fs, ds), w1) \<Rightarrow>
          (Inr (security_report_of SK_baseline rid now q fs (aggregate_digest (sg_env sg) ds) False),
           sg\<lparr>sg_baselines := dict_set (sq_experiment_id q) ds (sg_baselines sg)\<rparr>, w1))"

definition security_verify ::
  "'w security_agent \<Rightarrow> string \<Rightarrow> int \<Rightarrow> security_request \<Rightarrow> 'w \<Rightarrow> security_report res \<times> 'w" where
  "security_verify sg rid now q w =
     (case run_scans sg q w of
        (Inl x, w1) \<Rightarrow> (Inl x, w1)
      | (Inr (fs, ds), w1) \<Rightarrow>
          (let drift = (case dict_get (sg_baselines sg) (sq_experiment_id q) of
                          None \<Rightarrow> False | Some base \<Rightarrow> compute_drift base ds)
           in (Inr (security_report_of SK_verify rid now q fs (aggregate_digest (sg_env sg) ds) drift), w1)))"

end
