(* ===== verification/Security_Props.thy ===== *)
theory Security_Props
  imports Security
begin

text \<open>
  What the security agent promises of its findings: every finding carries a well-formed identifier, a known scanner and
  a location, and an image that cosign refuses is always reported.
\<close>

section \<open>Findings are well formed\<close>

definition known_scanners :: "string list" where
  "known_scanners = [''zap'', ''syft'', ''grype'', ''trivy'', ''gitleaks'', ''cosign'', ''kubescape'', ''custom-probe'']"

definition finding_ok :: "security_finding \<Rightarrow> bool" where
  "finding_ok f \<longleftrightarrow> finding_id_ok (sf_id f) \<and> sf_scanner f \<in> set known_scanners \<and> sf_location f \<noteq> None"

definition good :: "security_finding list res \<Rightarrow> bool" where
  "good r \<longleftrightarrow> (\<forall>fs. r = Inr fs \<longrightarrow> list_all finding_ok fs)"

lemma good_simps [simp]: "good (Inl x)" "good (Inr fs) \<longleftrightarrow> list_all finding_ok fs"
  by (auto simp: good_def)

lemma goodD: "good r \<Longrightarrow> r = Inr fs \<Longrightarrow> list_all finding_ok fs"
  by (simp add: good_def)

lemma scanner_known [simp]:
  "''trivy'' \<in> set known_scanners" "''grype'' \<in> set known_scanners" "''gitleaks'' \<in> set known_scanners"
  "''cosign'' \<in> set known_scanners" "''kubescape'' \<in> set known_scanners"
  by (simp_all add: known_scanners_def)

lemma new_finding_ok: "new_finding i s t d sc c e (Some l) = Inr f \<Longrightarrow> sc \<in> set known_scanners \<Longrightarrow> finding_ok f"
  by (auto simp: new_finding_def res_bind_Inr_iff finding_ok_def split: if_splits)

lemma res_map_all:
  assumes "res_map f xs = Inr ys" and P: "\<And>x y. f x = Inr y \<Longrightarrow> P y"
  shows "list_all P ys"
  using assms(1)
proof (induction xs arbitrary: ys)
  case (Cons x xs)
  then obtain z zs where "f x = Inr z" "res_map f xs = Inr zs" "ys = z # zs" by (auto simp: res_bind_Inr_iff)
  then show ?case using Cons.IH P by auto
qed simp

lemma res_map_concat:
  assumes "res_map f xs = Inr yss" and "\<And>x ys. f x = Inr ys \<Longrightarrow> list_all P ys"
  shows "list_all P (concat yss)"
  using res_map_all [OF assms] by (auto simp: list_all_iff)

lemma trivy_good: "good (parse_trivy_image se out img)"
proof -
  have v: "finding_ok f" if "trivy_vulnerability se img t v = Inr f" for t v f
    using that by (auto simp: trivy_vulnerability_def res_bind_Inr_iff Let_def intro: new_finding_ok)
  have m: "finding_ok f" if "trivy_misconfiguration se img t v = Inr f" for t v f
    using that by (auto simp: trivy_misconfiguration_def res_bind_Inr_iff Let_def intro: new_finding_ok)
  have r: "list_all finding_ok fs" if "trivy_result se img r = Inr fs" for r fs
    using that by (auto simp: trivy_result_def res_bind_Inr_iff dest: res_map_all [OF _ v] res_map_all [OF _ m])
  then show ?thesis
    by (auto simp: good_def parse_trivy_image_def res_bind_Inr_iff dest: res_map_concat [OF _ r])
qed

lemma grype_good: "good (parse_grype se out location)"
proof -
  have "finding_ok f" if "grype_match se location v = Inr f" for v f
    using that by (auto simp: grype_match_def res_bind_Inr_iff Let_def intro: new_finding_ok)
  then show ?thesis
    by (auto simp: good_def parse_grype_def res_bind_Inr_iff intro!: res_map_all)
qed

lemma gitleaks_good: "good (parse_gitleaks se out location)"
proof -
  have item: "finding_ok f" if "gitleaks_item se location i v = Inr f" for i v f
    using that by (auto simp: gitleaks_item_def res_bind_Inr_iff Let_def intro: new_finding_ok)
  have "list_all finding_ok fs" if "gitleaks_items se location i vs = Inr fs" for i vs fs
    using that
  proof (induction vs arbitrary: i fs)
    case (Cons v vs)
    then show ?case using item by (cases v) (auto simp: res_bind_Inr_iff)
  qed simp
  then show ?thesis
    by (auto simp: good_def parse_gitleaks_def res_bind_Inr_iff split: if_splits)
qed

lemma kubescape_good: "good (parse_kubescape se out namespace framework)"
proof -
  have c: "list_all finding_ok fs" if "kubescape_control se namespace framework entry = Inr fs" for entry fs
  proof -
    obtain cid control where e: "entry = (cid, control)" by fastforce
    show ?thesis
      using that unfolding e kubescape_control_def prod.case
      by (cases control) (auto simp: res_bind_Inr_iff split: if_splits dest: new_finding_ok [OF _ scanner_known(5)])
  qed
  have "list_all finding_ok fs"
    if "(case v of PDict d \<Rightarrow> res_bind (res_map (kubescape_control se namespace framework) d) (\<lambda>fss. Inr (concat fss))
          | _ \<Rightarrow> Inl attribute_error) = Inr fs" for v fs
    using that by (cases v) (auto simp: res_bind_Inr_iff dest: res_map_concat [OF _ c])
  then show ?thesis
    by (fastforce simp: good_def parse_kubescape_def res_bind_Inr_iff split: if_splits)
qed

lemma cosign_good: "good (cosign_verdict img identity r)"
  unfolding good_def cosign_verdict_def Let_def
  by (auto simp: res_bind_Inr_iff split: if_splits dest: new_finding_ok [OF _ scanner_known(4)])

section \<open>Image names as identifiers\<close>

lemma replace_dashes_chars: "set (replace_dashes s) \<subseteq> set s"
  by (induction s rule: replace_dashes.induct) auto

lemma collapse_dashes_chars: "set (collapse_dashes s) \<subseteq> set s"
proof (induction s rule: collapse_dashes.induct)
  case (1 s)
  then show ?case
    using replace_dashes_chars [of s] by (subst collapse_dashes.simps) auto
qed

lemma collapse_dashes_none: "\<not> str_in [dash, dash] (collapse_dashes s)"
proof (induction s rule: collapse_dashes.induct)
  case (1 s)
  then show ?case by (subst collapse_dashes.simps) auto
qed

lemma strip_dashes_chars: "set (strip_dashes s) \<subseteq> set s"
  by (auto simp: strip_dashes_def dest!: set_dropWhileD)

lemma sanitized_slug: "list_all slug_char (sanitize_for_id s)"
proof -
  have low: "slug_char c" if a: "alnum_char c" and l: "c \<in> set (lower s)" for c
  proof -
    obtain d where d: "c = lower_char d" using l by (auto simp: lower_def)
    have "\<not> (65 \<le> (of_char c :: nat) \<and> (of_char c :: nat) \<le> 90)"
      unfolding d lower_char_def Let_def by (auto simp: less_eq_char_def)
    then show ?thesis
      using a by (auto simp: alnum_char_def slug_char_def is_digit_def Let_def less_eq_char_def)
  qed
  have "set (sanitize_for_id s) \<subseteq> (\<lambda>c. if alnum_char c \<or> c = dash then c else dash) ` set (lower s)"
    unfolding sanitize_for_id_def using strip_dashes_chars collapse_dashes_chars by (metis (no_types, lifting) set_map subset_trans)
  then show ?thesis
    using low by (auto simp: list_all_iff slug_char_def dash_def split: if_splits)
qed

text \<open>An image whose signature does not verify is never passed over: exit code 0 is no finding; on any other code
  the verdict is a scanner error when the tool says that a binary is missing, and otherwise exactly one critical
  finding about the image, whose identifier satisfies the contract's pattern whatever the image is called.\<close>

theorem cosign_verdict_exact:
  "case cosign_verdict img identity r of
     Inr fs \<Rightarrow> (if sn_returncode r = 0 then fs = []
       else \<exists>f. fs = [f] \<and> sf_severity f = SEV_CRITICAL \<and> finding_id_ok (sf_id f) \<and> sf_location f = Some img)
   | Inl x \<Rightarrow> is_scanner_error x \<and> sn_returncode r \<noteq> 0 \<and>
       (str_in ''executable file not found'' (lower (strip (sn_stderr r))) \<or> str_in ''no such file'' (lower (strip (sn_stderr r))))"
proof -
  have "list_all slug_char (take 48 (sanitize_for_id img))"
    using sanitized_slug by (auto simp: list_all_iff dest: in_set_takeD)
  then have i: "finding_id_ok (''f-cosign-unsigned-'' @ take 48 (sanitize_for_id img))"
    by (simp add: finding_id_ok_def slug_char_def)
  show ?thesis
    using i by (simp add: cosign_verdict_def Let_def new_finding_def scanner_error_def)
qed

section \<open>Every scanner keeps the findings well formed\<close>

locale sound_scan =
  fixes scan :: "'w \<Rightarrow> security_finding list res \<times> 'w"
  assumes sound: "good (fst (scan w))"
begin

lemma add_sound: "good (fst r) \<Longrightarrow> good (fst (add_scan skip scan enabled r))"
proof -
  assume r: "good (fst r)"
  obtain o1 w where rw: "r = (o1, w)" by fastforce
  obtain o2 w2 where s: "scan w = (o2, w2)" by fastforce
  have "good o2" using sound [of w] s by simp
  then show ?thesis
    using r s by (cases o1; cases o2) (auto simp: add_scan_def safe_call_def rw)
qed

end

lemma run_tool_good: "(\<And>r. good (parse r)) \<Longrightarrow> good (fst (run_tool run args t parse w))"
  by (auto simp: run_tool_def split: prod.splits sum.splits)

interpretation trivy: sound_scan "trivy_scan se run img" for se run img
  by unfold_locales (auto simp: trivy_scan_def trivy_good intro!: run_tool_good)

interpretation grype: sound_scan "grype_image se run img" for se run img
  by unfold_locales (auto simp: grype_image_def grype_scan_def grype_good intro!: run_tool_good)

interpretation gitleaks: sound_scan "gitleaks_scan se run path" for se run path
  by unfold_locales (auto simp: gitleaks_scan_def gitleaks_good intro!: run_tool_good)

interpretation kubescape: sound_scan "kubescape_scan se run namespace framework" for se run namespace framework
  by unfold_locales (auto simp: kubescape_scan_def kubescape_good intro!: run_tool_good)

interpretation cosign: sound_scan "cosign_verify run img key identity issuer" for run img key identity issuer
proof
  fix w
  show "good (fst (cosign_verify run img key identity issuer w))"
    using run_tool_good [of "cosign_verdict img identity"] cosign_good
    by (cases "cosign_args img key identity issuer") (auto simp: cosign_verify_def)
qed

lemma sbom_of_findings: "sbom_of sg img w = (Inr (fs, d), w') \<Longrightarrow> fs = []"
  by (auto simp: sbom_of_def safe_call_def generate_sbom_def run_tool_def res_bind_Inr_iff
      split: prod.splits sum.splits if_splits)

lemma scan_and_digest_ok: "scan_and_digest sg img ds w = (Inr (fs, ds'), w') \<Longrightarrow> list_all finding_ok fs"
proof -
  assume a: "scan_and_digest sg img ds w = (Inr (fs, ds'), w')"
  obtain o1 w1 where t: "add_scan (sg_skip sg) (trivy_scan (sg_env sg) (sg_runner sg) img) (sc_trivy (sg_config sg)) (Inr [], w) = (o1, w1)"
    by fastforce
  have "good o1" using trivy.add_sound [of "(Inr [], w)" "sg_skip sg" "sg_env sg" "sg_runner sg" img "sc_trivy (sg_config sg)"] t
    by simp
  then show ?thesis
    using a t by (auto simp: scan_and_digest_def split: sum.splits prod.splits if_splits dest: sbom_of_findings)
qed

lemma scan_one_image_ok: "scan_one_image sg img ds w = (Inr (fs, ds'), w') \<Longrightarrow> list_all finding_ok fs"
proof -
  assume a: "scan_one_image sg img ds w = (Inr (fs, ds'), w')"
  then obtain fs1 ds1 w1 where d: "scan_and_digest sg img ds w = (Inr (fs1, ds1), w1)"
    and e: "fst (add_scan (sg_skip sg) (cosign_verify (sg_runner sg) img (sc_cosign_public_key (sg_config sg))
        (sc_cosign_identity (sg_config sg)) (sc_cosign_issuer (sg_config sg))) (sc_cosign (sg_config sg))
      (add_scan (sg_skip sg) (grype_image (sg_env sg) (sg_runner sg) img) (sc_grype (sg_config sg)) (Inr fs1, w1))) = Inr fs"
    by (auto simp: scan_one_image_def Let_def split: prod.splits sum.splits)
  have "good (fst (add_scan (sg_skip sg) (cosign_verify (sg_runner sg) img key identity issuer) c
      (add_scan (sg_skip sg) (grype_image (sg_env sg) (sg_runner sg) img) g (Inr fs1, w1))))" for key identity issuer c g
    by (intro cosign.add_sound grype.add_sound) (simp add: scan_and_digest_ok [OF d])
  from goodD [OF this e] show ?thesis .
qed

lemma scan_images_ok: "scan_images sg imgs ds w = (Inr (fs, ds'), w') \<Longrightarrow> list_all finding_ok fs"
proof (induction imgs arbitrary: ds w fs ds' w')
  case (Cons img imgs)
  then obtain fs1 ds1 w1 fs2 where "scan_one_image sg img ds w = (Inr (fs1, ds1), w1)"
    "scan_images sg imgs ds1 w1 = (Inr (fs2, ds'), w')" "fs = fs1 @ fs2"
    by (auto split: prod.splits sum.splits)
  then show ?case using Cons.IH scan_one_image_ok by fastforce
qed simp

lemma run_scans_ok: "run_scans sg q w = (Inr (fs, ds), w') \<Longrightarrow> list_all finding_ok fs"
proof -
  assume a: "run_scans sg q w = (Inr (fs, ds), w')"
  define target where "target = (case sq_target_repo q of Some r \<Rightarrow> r | None \<Rightarrow> [])"
  obtain fs1 ds1 w1 where d: "scan_images sg (sq_target_images q) [] w = (Inr (fs1, ds1), w1)"
    and e: "fst (add_scan (sg_skip sg) (kubescape_scan (sg_env sg) (sg_runner sg) (sq_target_app q)
        (sc_framework (sg_config sg))) (sc_kubescape (sg_config sg))
      (add_scan (sg_skip sg) (gitleaks_scan (sg_env sg) (sg_runner sg) target)
        (sc_gitleaks (sg_config sg) \<and> target \<noteq> []) (Inr fs1, w1))) = Inr fs"
    using a unfolding run_scans_def target_def [symmetric] Let_def by (auto split: prod.splits sum.splits)
  have "good (fst (add_scan (sg_skip sg) (kubescape_scan (sg_env sg) (sg_runner sg) n f) k
      (add_scan (sg_skip sg) (gitleaks_scan (sg_env sg) (sg_runner sg) t) g (Inr fs1, w1))))" for n f k t g
    by (intro kubescape.add_sound gitleaks.add_sound) (simp add: scan_images_ok [OF d])
  from goodD [OF this e] show ?thesis .
qed

text \<open>Whatever the tools print, the findings of a security report are well typed: each identifier satisfies the
  contract's pattern, each scanner is one the contract names, and each finding has a location.\<close>

theorem findings_well_typed:
  "(security_baseline sg rid now q w = (Inr r, sg', w') \<longrightarrow> list_all finding_ok (sp_findings r)) \<and>
   (security_verify sg rid now q w = (Inr r, w') \<longrightarrow> list_all finding_ok (sp_findings r))"
proof -
  obtain o1 w1 where r: "run_scans sg q w = (o1, w1)" by fastforce
  show ?thesis
    using run_scans_ok [of sg q w] r
    by (cases o1) (auto simp: security_baseline_def security_verify_def security_report_of_def Let_def)
qed

definition plain_agent :: "fixture_runner security_agent" where
  "plain_agent = \<lparr>sg_env = \<lparr>se_loads = (\<lambda>s. Inl s), se_dumps = (\<lambda>v. []), se_sha256 = id, se_repr_float = (\<lambda>x. [])\<rparr>,
     sg_runner = run_fixture, sg_config = default_scan_config\<lparr>sc_trivy := False, sc_cosign := True, sc_cosign_public_key := Some ''k''\<rparr>,
     sg_skip = True, sg_baselines = []\<rparr>"

definition unsigned_image :: fixture_runner where
  "unsigned_image = fixture_register (Inr ''cosign'') [] ''no signatures found'' 10 \<lparr>fx_exact = [], fx_by_prog = [], fx_calls = []\<rparr>"

definition plain_request :: security_request where
  "plain_request = \<lparr>sq_kind = SK_verify, sq_experiment_id = ''exp-1'', sq_target_app = ''shop'', sq_target_repo = None,
     sq_target_images = [''Shop/Cart:1.0''], sq_target_endpoints = [], sq_enable_active_dast = False\<rparr>"

theorem findings_well_typed_witness:
  "\<exists>r w'. security_verify plain_agent ''r'' 0 plain_request unsigned_image = (Inr r, w') \<and>
     length (sp_findings r) = 1 \<and> list_all finding_ok (sp_findings r)"
proof -
  have "case security_verify plain_agent ''r'' 0 plain_request unsigned_image of
      (Inr r, w') \<Rightarrow> length (sp_findings r) = 1 | _ \<Rightarrow> False"
    by code_simp
  then obtain r w' where v: "security_verify plain_agent ''r'' 0 plain_request unsigned_image = (Inr r, w')"
    and "length (sp_findings r) = 1"
    by (auto split: prod.splits sum.splits)
  moreover from v have "list_all finding_ok (sp_findings r)"
    using findings_well_typed [of plain_agent "''r''" 0 plain_request unsigned_image r undefined w'] by blast
  ultimately show ?thesis by blast
qed

end
