(* ===== verification/Security_Drift.thy ===== *)
theory Security_Drift
  imports Security_Props "HOL-Library.Multiset"
begin

text \<open>
  Drift between a baseline and a verification of one experiment: none is reported when the tools answer the same,
  the digest of a bill of materials depends on its packages only, and a tool that fails is reported as drift. Also
  the package names on which a baseline is lost although scanner failures are tolerated.
\<close>

section \<open>Runners whose answers do not change\<close>

locale stable_runner =
  fixes run :: "string list \<Rightarrow> real option \<Rightarrow> 'w \<Rightarrow> scanner_result res \<times> 'w"
    and ans :: "string list \<Rightarrow> real option \<Rightarrow> scanner_result res"
    and ok :: "'w \<Rightarrow> bool"
  assumes answers: "ok w \<Longrightarrow> fst (run args t w) = ans args t"
    and keeps: "ok w \<Longrightarrow> ok (snd (run args t w))"
begin

definition steady :: "('w \<Rightarrow> 'a \<times> 'w) \<Rightarrow> bool" where
  "steady f \<longleftrightarrow> (\<exists>a. \<forall>w. ok w \<longrightarrow> fst (f w) = a \<and> ok (snd (f w)))"

lemma steady_tool: "steady (run_tool run args t parse)"
proof -
  have "fst (run_tool run args t parse w) = res_bind (ans args (Some t)) parse \<and> ok (snd (run_tool run args t parse w))"
    if "ok w" for w
    using answers [OF that, of args "Some t"] keeps [OF that, of args "Some t"]
    by (cases "run args (Some t) w"; cases "fst (run args (Some t) w)") (auto simp: run_tool_def)
  then show ?thesis unfolding steady_def by blast
qed

lemma steady_const: "steady (\<lambda>w. (a, w))"
  by (auto simp: steady_def)

text \<open>Sequencing: what comes next depends on the answer, not on the world.\<close>

lemma steady_bind:
  assumes f: "steady f" and g: "\<And>a. steady (g a)"
  shows "steady (\<lambda>w. case f w of (a, w1) \<Rightarrow> g a w1)"
proof -
  obtain a where a: "\<forall>w. ok w \<longrightarrow> fst (f w) = a \<and> ok (snd (f w))" using f by (auto simp: steady_def)
  obtain b where b: "\<forall>w. ok w \<longrightarrow> fst (g a w) = b \<and> ok (snd (g a w))" using g by (metis steady_def)
  have "fst (case f w of (a, w1) \<Rightarrow> g a w1) = b \<and> ok (snd (case f w of (a, w1) \<Rightarrow> g a w1))" if "ok w" for w
    using a b that by (cases "f w") auto
  then show ?thesis unfolding steady_def by blast
qed

lemma steady_cong: "steady f \<Longrightarrow> (\<And>w. g w = f w) \<Longrightarrow> steady g"
  by (simp add: steady_def)

text \<open>Mapping the answer, and going on only after a success.\<close>

lemma steady_map: "steady f \<Longrightarrow> (\<And>w. g w = (h (fst (f w)), snd (f w))) \<Longrightarrow> steady g"
  unfolding steady_def by auto

lemma steady_then:
  assumes "steady f" "\<And>a. steady (g a)"
    and "\<And>w x w1. f w = (Inl x, w1) \<Longrightarrow> h w = (Inl x, w1)" "\<And>w a w1. f w = (Inr a, w1) \<Longrightarrow> h w = g a w1"
  shows "steady h"
proof -
  have n: "steady (\<lambda>w. case a of Inl x \<Rightarrow> (Inl x, w) | Inr b \<Rightarrow> g b w)" for a
    using assms(2) steady_const by (cases a) simp_all
  have "h w = (case f w of (a, w1) \<Rightarrow> (case a of Inl x \<Rightarrow> (Inl x, w1) | Inr b \<Rightarrow> g b w1))" for w
    using assms(3,4) by (cases "f w"; cases "fst (f w)") auto
  with steady_bind [OF assms(1) n] show ?thesis by (simp add: steady_def)
qed

definition safe_value :: "bool \<Rightarrow> 'a \<Rightarrow> 'a res \<Rightarrow> 'a res" where
  "safe_value skip d a = fst (safe_call skip d (a, ()))"

lemma steady_safe: "steady scan \<Longrightarrow> steady (\<lambda>w. safe_call skip d (scan w))"
  by (erule steady_map [where h = "safe_value skip d"]) (auto simp: safe_value_def safe_call_def split: prod.splits sum.splits)

lemma steady_add:
  assumes "steady scan" "steady r"
  shows "steady (\<lambda>w. add_scan skip scan enabled (r w))"
proof (cases enabled)
  case False
  then show ?thesis using assms(2) by (simp add: add_scan_def)
next
  case True
  have k: "steady (\<lambda>w. case safe_call skip [] (scan w) of (Inl x, w1) \<Rightarrow> (Inl x, w1) | (Inr gs, w1) \<Rightarrow> (Inr (fs @ gs), w1))" for fs
    by (rule steady_map [OF steady_safe [OF assms(1), of skip "[]"], where h = "\<lambda>b. case b of Inl x \<Rightarrow> Inl x | Inr gs \<Rightarrow> Inr (fs @ gs)"])
       (auto split: prod.splits sum.splits)
  show ?thesis
    by (rule steady_then [OF assms(2) k]) (simp_all add: add_scan_def True)
qed

lemma steady_scanners:
  "steady (trivy_scan se run img)" "steady (generate_sbom se run img)" "steady (grype_image se run img)"
  "steady (gitleaks_scan se run path)" "steady (kubescape_scan se run namespace framework)"
  "steady (cosign_verify run img key identity issuer)"
proof -
  show "steady (trivy_scan se run img)" unfolding trivy_scan_def by (rule steady_tool)
  show "steady (generate_sbom se run img)" unfolding generate_sbom_def by (rule steady_tool)
  show "steady (grype_image se run img)" unfolding grype_image_def grype_scan_def by (rule steady_tool)
  show "steady (gitleaks_scan se run path)" unfolding gitleaks_scan_def by (rule steady_tool)
  show "steady (kubescape_scan se run namespace framework)" unfolding kubescape_scan_def by (rule steady_tool)
  show "steady (cosign_verify run img key identity issuer)"
  proof (cases "cosign_args img key identity issuer")
    case (Inl x)
    then show ?thesis by (intro steady_cong [OF steady_const [of "Inl x"]]) (simp add: cosign_verify_def)
  next
    case (Inr args)
    then show ?thesis by (intro steady_cong [OF steady_tool]) (simp add: cosign_verify_def)
  qed
qed

lemma steady_sbom: "sg_runner sg = run \<Longrightarrow> steady (sbom_of sg img)"
  by (rule steady_then [OF steady_safe [OF steady_scanners(2), of "sg_skip sg" "([], [], PDict [])" "sg_env sg" img],
        of "\<lambda>(fs, d, sbom) w. (Inr (fs, d), w)"])
     (auto simp: steady_const sbom_of_def split: prod.splits)

lemma steady_scan_and_digest:
  assumes r: "sg_runner sg = run"
  shows "steady (scan_and_digest sg img ds)"
proof -
  have t: "steady (\<lambda>w. add_scan (sg_skip sg) (trivy_scan (sg_env sg) run img) (sc_trivy (sg_config sg)) (Inr [], w))"
    by (rule steady_add [OF steady_scanners(1) steady_const])
  have n: "steady (\<lambda>w. if \<not> sc_syft (sg_config sg) then (Inr (fs, ds), w)
      else case sbom_of sg img w of
        (Inl x, w2) \<Rightarrow> (Inl x, w2)
      | (Inr (gs, d), w2) \<Rightarrow> (Inr (fs @ gs, if d = [] then ds else dict_set img d ds), w2))" for fs
  proof (cases "sc_syft (sg_config sg)")
    case True
    show ?thesis
      by (rule steady_then [OF steady_sbom [OF r, of img], of "\<lambda>(gs, d) w. (Inr (fs @ gs, if d = [] then ds else dict_set img d ds), w)"])
         (auto simp: True steady_const split: prod.splits)
  qed (simp add: steady_const)
  show ?thesis
    by (rule steady_then [OF t n]) (simp_all add: scan_and_digest_def r)
qed

lemma steady_scan_one:
  assumes r: "sg_runner sg = run"
  shows "steady (scan_one_image sg img ds)"
proof -
  let ?cfg = "sg_config sg"
  have g: "steady (\<lambda>w. add_scan (sg_skip sg) (cosign_verify run img (sc_cosign_public_key ?cfg) (sc_cosign_identity ?cfg)
      (sc_cosign_issuer ?cfg)) (sc_cosign ?cfg)
      (add_scan (sg_skip sg) (grype_image (sg_env sg) run img) (sc_grype ?cfg) (Inr fs, w)))" for fs
    by (intro steady_add steady_scanners steady_const)
  have n: "steady (\<lambda>w. case (add_scan (sg_skip sg) (cosign_verify run img (sc_cosign_public_key ?cfg)
      (sc_cosign_identity ?cfg) (sc_cosign_issuer ?cfg)) (sc_cosign ?cfg)
      (add_scan (sg_skip sg) (grype_image (sg_env sg) run img) (sc_grype ?cfg) (Inr fs, w))) of
        (Inl x, w2) \<Rightarrow> (Inl x, w2) | (Inr gs, w2) \<Rightarrow> (Inr (gs, ds1), w2))" for fs ds1
    by (rule steady_then [OF g [of fs], of "\<lambda>gs w. (Inr (gs, ds1), w)"]) (simp_all add: steady_const)
  define G where "G = (\<lambda>(fs, ds1 :: digests) w. case (add_scan (sg_skip sg) (cosign_verify run img (sc_cosign_public_key ?cfg)
      (sc_cosign_identity ?cfg) (sc_cosign_issuer ?cfg)) (sc_cosign ?cfg)
      (add_scan (sg_skip sg) (grype_image (sg_env sg) run img) (sc_grype ?cfg) (Inr fs, w))) of
        (Inl x, w2) \<Rightarrow> (Inl x, w2) | (Inr gs, w2) \<Rightarrow> (Inr (gs, ds1), w2))"
  have "steady (G a)" for a using n by (cases a) (simp add: G_def)
  then show ?thesis
    by (rule steady_then [OF steady_scan_and_digest [OF r, of img ds], of G])
       (auto simp: scan_one_image_def Let_def r G_def)
qed

lemma steady_scan_images:
  assumes r: "sg_runner sg = run"
  shows "steady (scan_images sg imgs ds)"
proof (induction imgs arbitrary: ds)
  case Nil
  then show ?case by (intro steady_cong [OF steady_const]) simp
next
  case (Cons img imgs)
  define G where "G = (\<lambda>(fs, ds1) w. case scan_images sg imgs ds1 w of
        (Inl x, w2) \<Rightarrow> (Inl x, w2) | (Inr (gs, ds2), w2) \<Rightarrow> (Inr (fs @ gs, ds2), w2))"
  have "steady (G a)" for a
  proof -
    obtain fs ds1 where a: "a = (fs, ds1)" by fastforce
    define H where "H = (\<lambda>(gs, ds2) w. (Inr (fs @ gs, ds2) :: (security_finding list \<times> digests) res, w :: 'w))"
    have "steady (H b)" for b by (cases b) (simp add: H_def steady_const)
    then show ?thesis by (rule steady_then [OF Cons.IH [of ds1], of H]) (auto simp: a G_def H_def)
  qed
  then show ?case by (rule steady_then [OF steady_scan_one [OF r, of img ds], of G]) (auto simp: G_def)
qed

lemma steady_run_scans:
  assumes r: "sg_runner sg = run"
  shows "steady (run_scans sg q)"
proof -
  let ?cfg = "sg_config sg" and ?t = "case sq_target_repo q of Some r \<Rightarrow> r | None \<Rightarrow> []"
  let ?rest = "\<lambda>fs w. add_scan (sg_skip sg) (kubescape_scan (sg_env sg) run (sq_target_app q) (sc_framework ?cfg))
      (sc_kubescape ?cfg) (add_scan (sg_skip sg) (gitleaks_scan (sg_env sg) run ?t) (sc_gitleaks ?cfg \<and> ?t \<noteq> []) (Inr fs, w))"
  have g: "steady (?rest fs)" for fs by (intro steady_add steady_scanners steady_const)
  define G where "G = (\<lambda>(fs, ds) w. case ?rest fs w of (Inl x, w2) \<Rightarrow> (Inl x, w2) | (Inr gs, w2) \<Rightarrow> (Inr (gs, ds) :: (security_finding list \<times> digests) res, w2 :: 'w))"
  have "steady (G a)" for a
  proof -
    obtain fs ds where a: "a = (fs, ds)" by fastforce
    show ?thesis by (rule steady_then [OF g [of fs], of "\<lambda>gs w. (Inr (gs, ds), w)"]) (simp_all add: a G_def steady_const)
  qed
  then show ?thesis
    by (rule steady_then [OF steady_scan_images [OF r, of "sq_target_images q" "[]"], of G])
       (auto simp: run_scans_def Let_def r G_def)
qed

end

text \<open>The fixture runner answers from its tables and only records its calls.\<close>

definition fixture_answer :: "fixture_runner \<Rightarrow> string list \<Rightarrow> scanner_result res" where
  "fixture_answer fx args = fst (run_fixture args None fx)"

interpretation fixture: stable_runner run_fixture "\<lambda>args t. fixture_answer fx args"
  "\<lambda>fx'. fx_exact fx' = fx_exact fx \<and> fx_by_prog fx' = fx_by_prog fx" for fx
  by unfold_locales (auto simp: fixture_answer_def run_fixture_def Let_def split: list.splits option.splits)

section \<open>Drift\<close>

lemma wf_scan_images:
  "scan_images sg imgs ds w = (Inr (fs, ds'), w') \<Longrightarrow> dict_wf ds \<Longrightarrow> dict_wf ds'"
proof (induction imgs arbitrary: ds w fs ds' w')
  case (Cons img imgs)
  then obtain fs1 ds1 w1 fs2 where o: "scan_one_image sg img ds w = (Inr (fs1, ds1), w1)"
    "scan_images sg imgs ds1 w1 = (Inr (fs2, ds'), w')"
    by (auto split: prod.splits sum.splits)
  then have "\<exists>fs0 w0. scan_and_digest sg img ds w = (Inr (fs0, ds1), w0)"
    by (auto simp: scan_one_image_def Let_def split: prod.splits sum.splits)
  then have "dict_wf ds1"
    using Cons.prems(2) by (auto simp: scan_and_digest_def split: prod.splits sum.splits if_splits)
  then show ?case using Cons.IH o(2) by blast
qed simp

lemma wf_run_scans: "run_scans sg q w = (Inr (fs, ds), w') \<Longrightarrow> dict_wf ds"
  by (auto simp: run_scans_def Let_def split: prod.splits sum.splits dest: wf_scan_images)

lemma sbom_baselines: "sbom_of (sg\<lparr>sg_baselines := b\<rparr>) img w = sbom_of sg img w"
  by (simp add: sbom_of_def)

lemma digest_baselines: "scan_and_digest (sg\<lparr>sg_baselines := b\<rparr>) img ds w = scan_and_digest sg img ds w"
  by (simp add: scan_and_digest_def sbom_baselines cong: prod.case_cong sum.case_cong if_cong)

lemma scan_one_baselines: "scan_one_image (sg\<lparr>sg_baselines := b\<rparr>) img ds w = scan_one_image sg img ds w"
  by (simp add: scan_one_image_def digest_baselines Let_def cong: prod.case_cong sum.case_cong)

lemma scan_images_baselines: "scan_images (sg\<lparr>sg_baselines := b\<rparr>) imgs ds w = scan_images sg imgs ds w"
  by (induction imgs arbitrary: ds w) (simp_all add: scan_one_baselines cong: prod.case_cong sum.case_cong)

lemma run_scans_baselines: "run_scans (sg\<lparr>sg_baselines := b\<rparr>) q w = run_scans sg q w"
  by (simp add: run_scans_def scan_images_baselines Let_def cong: prod.case_cong sum.case_cong)

text \<open>C35: an unchanged target shows no drift: if every tool answers in the verification as it did in the baseline
  (whatever it answers, failures included), the verification of the same request succeeds when the baseline did,
  reports the same findings and the same digest, and reports no drift.\<close>

theorem unchanged_target_no_drift:
  assumes "\<And>args t w. ok w \<Longrightarrow> fst (sg_runner sg args t w) = ans args t"
    and "\<And>args t w. ok w \<Longrightarrow> ok (snd (sg_runner sg args t w))"
    and "ok w1" "ok w2" "security_baseline sg rid now q w1 = (Inr r, sg', w1')"
  shows "\<exists>r' w2'. security_verify sg' rid' now' q w2 = (Inr r', w2') \<and> \<not> sp_sbom_drift_from_baseline r' \<and>
    sp_findings r' = sp_findings r \<and> sp_sbom_digest r' = sp_sbom_digest r"
proof -
  have run: "stable_runner (sg_runner sg) ans ok" using assms(1,2) by unfold_locales
  obtain fs ds where b: "run_scans sg q w1 = (Inr (fs, ds), w1')"
    and r: "r = security_report_of SK_baseline rid now q fs (aggregate_digest (sg_env sg) ds) False"
    and sg': "sg' = sg\<lparr>sg_baselines := dict_set (sq_experiment_id q) ds (sg_baselines sg)\<rparr>"
    using assms(5) by (auto simp: security_baseline_def split: prod.splits sum.splits)
  have "fst (run_scans sg q w2) = Inr (fs, ds)"
    using stable_runner.steady_run_scans [OF run refl, of q] b assms(3,4) unfolding stable_runner.steady_def [OF run]
    by (metis fst_conv)
  moreover have "run_scans sg' q w2 = run_scans sg q w2"
    unfolding sg' by (rule run_scans_baselines)
  ultimately obtain w2' where v: "run_scans sg' q w2 = (Inr (fs, ds), w2')" by (metis prod.collapse)
  have "\<not> compute_drift ds ds"
    using wf_run_scans [OF b] by (auto simp: compute_drift_def list_ex_iff mem_dict_get)
  then show ?thesis
    using v unfolding sg' by (simp add: security_verify_def r security_report_of_def)
qed

text \<open>A laboratory agent: Trivy and Syft enabled, the tools' answers from tables.\<close>

definition lab_image :: string where "lab_image = ''shop:1''"

definition lab_package :: "string \<Rightarrow> pyval" where
  "lab_package n = PDict [(''name'', PStr n), (''versionInfo'', PStr ''1.0'')]"

definition lab_sbom :: pyval where
  "lab_sbom = PDict [(''packages'', PList [lab_package ''zlib'', lab_package ''curl''])]"

definition lab_vulnerability :: pyval where
  "lab_vulnerability = PDict [(''VulnerabilityID'', PStr ''CVE-1''), (''PkgName'', PStr ''commons.io''),
     (''Severity'', PStr ''HIGH''), (''Title'', PStr ''t'')]"

definition lab_trivy :: pyval where
  "lab_trivy = PDict [(''Results'', PList [PDict [(''Vulnerabilities'', PList [lab_vulnerability])]])]"

definition lab_env :: scan_env where
  "lab_env = \<lparr>se_loads = (\<lambda>s. if s = ''S'' then Inr lab_sbom else if s = ''T'' then Inr lab_trivy else Inl ''bad''),
     se_dumps = (\<lambda>v. ''j''), se_sha256 = (\<lambda>s. ''h''), se_repr_float = (\<lambda>x. ''f'')\<rparr>"

definition lab_agent :: "fixture_runner security_agent" where
  "lab_agent = \<lparr>sg_env = lab_env, sg_runner = run_fixture, sg_config = default_scan_config\<lparr>sc_syft := True\<rparr>,
     sg_skip = True, sg_baselines = []\<rparr>"

definition lab_tools :: "fixture_runner" where
  "lab_tools = fixture_register (Inr ''syft'') ''S'' [] 0 \<lparr>fx_exact = [], fx_by_prog = [], fx_calls = []\<rparr>"

definition lab_request :: security_request where
  "lab_request = \<lparr>sq_kind = SK_baseline, sq_experiment_id = ''exp-1'', sq_target_app = ''shop'', sq_target_repo = None,
     sq_target_images = [lab_image], sq_target_endpoints = [], sq_enable_active_dast = False\<rparr>"

lemmas lab_defs = lab_image_def lab_package_def lab_sbom_def lab_vulnerability_def lab_trivy_def lab_env_def
  lab_agent_def lab_tools_def lab_request_def

lemma lab_baseline:
  "case security_baseline lab_agent ''r'' 0 lab_request lab_tools of
     (Inr r, sg', w') \<Rightarrow> sp_findings r = [] \<and> sg_baselines sg' = [(''exp-1'', [(lab_image, ''sha256:h'')])]
   | _ \<Rightarrow> False"
  by code_simp

theorem unchanged_target_no_drift_witness:
  "\<exists>sg' r' w2. security_verify sg' ''r2'' 1 lab_request lab_tools = (Inr r', w2) \<and> \<not> sp_sbom_drift_from_baseline r' \<and>
     sp_findings r' = []"
proof -
  let ?ok = "\<lambda>fx'. fx_exact fx' = fx_exact lab_tools \<and> fx_by_prog fx' = fx_by_prog lab_tools"
  have run: "sg_runner lab_agent = run_fixture" by (simp add: lab_agent_def)
  obtain r sg' w' where b: "security_baseline lab_agent ''r'' 0 lab_request lab_tools = (Inr r, sg', w')" and n: "sp_findings r = []"
    using lab_baseline by (auto split: prod.splits sum.splits)
  from unchanged_target_no_drift [of ?ok lab_agent "\<lambda>args t. fixture_answer lab_tools args", OF _ _ _ _ b, of lab_tools]
  show ?thesis
    using fixture.answers fixture.keeps n unfolding run by fastforce
qed

section \<open>The digest of a bill of materials\<close>

text \<open>The digest of an SBOM depends on its set of packages with their versions only: two documents that list the same
  packages (in whatever order, with whatever other fields) have the same digest, so that reordering is not drift.\<close>

theorem sbom_digest_ignores_order:
  assumes "items_or_none a ''packages'' = Inr ps" "items_or_none b ''packages'' = Inr qs"
    and "mset (map (package_pair se) (dict_values ps)) = mset (map (package_pair se) (dict_values qs))"
  shows "digest_sbom se a = digest_sbom se b"
  using assms properties_for_sort [of "sort (map (package_pair se) (dict_values qs))" "map (package_pair se) (dict_values ps)"]
  by (simp add: digest_sbom_def digest_pairs_def)

section \<open>Failures\<close>

lemma digest_keys:
  "scan_images sg imgs ds w = (Inr (fs, ds'), w') \<Longrightarrow> \<forall>w. \<exists>x. fst (generate_sbom (sg_env sg) (sg_runner sg) img w) = Inl x \<Longrightarrow>
   dict_get ds img = None \<Longrightarrow> dict_get ds' img = None"
proof (induction imgs arbitrary: ds w fs ds' w')
  case (Cons i imgs)
  then obtain fs1 ds1 w1 fs2 where o: "scan_one_image sg i ds w = (Inr (fs1, ds1), w1)"
    "scan_images sg imgs ds1 w1 = (Inr (fs2, ds'), w')"
    by (auto split: prod.splits sum.splits)
  then have d: "\<exists>fs0 w0. scan_and_digest sg i ds w = (Inr (fs0, ds1), w0)"
    by (auto simp: scan_one_image_def Let_def split: prod.splits sum.splits)
  have n: "d = []" if "sbom_of sg img v = (Inr (gs, d), v')" for v gs d v'
  proof -
    obtain x v1 where "generate_sbom (sg_env sg) (sg_runner sg) img v = (Inl x, v1)"
      using Cons.prems(2) by (metis prod.collapse)
    then show ?thesis using that by (auto simp: sbom_of_def safe_call_def split: if_splits)
  qed
  have "dict_get ds1 img = None"
    using d Cons.prems(3) n
    by (cases "i = img") (auto simp: scan_and_digest_def split: prod.splits sum.splits if_splits)
  then show ?case using Cons.IH o(2) Cons.prems(2) by blast
qed simp

text \<open>A tool that fails is not told from a target that changed: once the baseline has noted a digest for an image, any
  later verification that returns while Syft fails on that image reports drift, whatever the image holds.\<close>

theorem scanner_failure_is_drift:
  assumes "dict_get (sg_baselines sg) (sq_experiment_id q) = Some base" "dict_get base img = Some d"
    and "\<forall>w. \<exists>x. fst (generate_sbom (sg_env sg) (sg_runner sg) img w) = Inl x"
    and "security_verify sg rid now q w = (Inr r, w')"
  shows "sp_sbom_drift_from_baseline r"
proof -
  obtain fs ds where s: "run_scans sg q w = (Inr (fs, ds), w')" and r: "sp_sbom_drift_from_baseline r = compute_drift base ds"
    using assms(1,4) by (auto simp: security_verify_def security_report_of_def Let_def split: prod.splits sum.splits)
  obtain fs1 w1 where "scan_images sg (sq_target_images q) [] w = (Inr (fs1, ds), w1)"
    using s by (auto simp: run_scans_def Let_def split: prod.splits sum.splits)
  then have "dict_get ds img = None" by (rule digest_keys [OF _ assms(3)]) simp
  moreover have "(img, d) \<in> set base" using assms(2) by (auto simp: dict_get_def dest: map_of_SomeD)
  ultimately show ?thesis unfolding r by (cases base) (auto simp: compute_drift_def list_ex_iff intro!: bexI [of _ "(img, d)"])
qed

theorem sbom_digest_ignores_order_witness:
  "digest_sbom lab_env lab_sbom = digest_sbom lab_env (PDict [(''packages'', PList [lab_package ''curl'', lab_package ''zlib''])])"
  by (rule sbom_digest_ignores_order [where ps = "[lab_package ''zlib'', lab_package ''curl'']"
        and qs = "[lab_package ''curl'', lab_package ''zlib'']"])
     (simp_all add: lab_sbom_def items_or_none_def get_item_def param_def dict_get_Cons lab_package_def add_mset_commute)

definition lab_after :: "fixture_runner security_agent" where
  "lab_after = lab_agent\<lparr>sg_baselines := [(''exp-1'', [(lab_image, ''sha256:h'')])]\<rparr>"

definition no_tools :: fixture_runner where
  "no_tools = \<lparr>fx_exact = [], fx_by_prog = [], fx_calls = []\<rparr>"

definition broken_runner :: "fixture_runner runner" where
  "broken_runner args t fx = (Inl (scanner_error ''gone''), fx)"

theorem scanner_failure_is_drift_witness:
  "\<exists>r w'. security_verify (lab_after\<lparr>sg_runner := broken_runner\<rparr>) ''r2'' 1 lab_request no_tools = (Inr r, w') \<and>
     sp_sbom_drift_from_baseline r"
proof -
  let ?sg = "lab_after\<lparr>sg_runner := broken_runner\<rparr>"
  have "case security_verify ?sg ''r2'' 1 lab_request no_tools of (Inr r, w') \<Rightarrow> True | _ \<Rightarrow> False" by code_simp
  then obtain r w' where v: "security_verify ?sg ''r2'' 1 lab_request no_tools = (Inr r, w')" by (auto split: prod.splits sum.splits)
  have "sp_sbom_drift_from_baseline r"
    by (rule scanner_failure_is_drift [OF _ _ _ v, where base = "[(lab_image, ''sha256:h'')]" and img = lab_image])
       (simp_all add: lab_after_def lab_request_def dict_get_Cons generate_sbom_def run_tool_def broken_runner_def)
  with v show ?thesis by blast
qed

text \<open>Tolerating scanner failures does not extend to what a report makes of a name: a package whose name leaves the
  identifier's alphabet is refused by the contract, and that refusal is not a scanner error.\<close>

lemma finding_id_slug:
  assumes "finding_id_ok s" "c \<in> set s"
  shows "slug_char c"
proof -
  have "c \<in> set (take 2 s) \<union> set (drop 2 s)"
    using assms(2) by (metis append_take_drop_id set_append)
  then show ?thesis
    using assms(1) by (auto simp: finding_id_ok_def list_all_iff slug_char_def)
qed

lemma odd_package_refused:
  assumes "dict_get d ''VulnerabilityID'' = Some (PStr cve)" "dict_get d ''PkgName'' = Some (PStr pkg)"
    and "dict_get d ''Severity'' = Some (PStr sev)" "dict_get d ''Title'' = Some (PStr (t # ts))"
    and "c \<in> set (lower pkg)" "\<not> slug_char c" "c \<noteq> CHR ''_''"
  shows "trivy_vulnerability se img target (PDict d) = Inl (validation_error ''id'')"
proof -
  have "c \<in> set (replace_char (CHR ''_'') ''-'' (lower pkg))"
    using assms(5,7) by (force simp: replace_char_def)
  then have "c \<in> set (finding_id_of (''f-trivy-'' @ cve @ ''-'' @ pkg))"
    by (simp add: finding_id_of_def lower_def replace_char_def)
  then have "\<not> finding_id_ok (finding_id_of (''f-trivy-'' @ cve @ ''-'' @ pkg))"
    using finding_id_slug assms(6) by blast
  then show ?thesis
    using assms(1-4) by (simp add: trivy_vulnerability_def get_item_def param_def get_or_def new_finding_def)
qed

text \<open>One package name is enough to lose a baseline: if the first vulnerability of the first image's Trivy report names a
  package with a character outside \<open>[a-z0-9_-]\<close> once lowered (\<open>libstdc++6\<close>, \<open>org.apache:commons-io\<close>), the whole baseline ends
  in the contract's \<open>ValidationError\<close> although scanner failures are tolerated, and no digest is noted.\<close>

theorem odd_package_loses_baseline:
  assumes "sq_target_images q = img # imgs" "sc_trivy (sg_config sg)"
    and "sg_runner sg (trivy_args img) (Some 180) w = (Inr r, w1)" "sn_returncode r = 0"
    and "se_loads (sg_env sg) (sn_stdout r) =
      Inr (PDict [(''Results'', PList (PDict [(''Vulnerabilities'', PList (PDict d # vs))] # rs))])"
    and "dict_get d ''VulnerabilityID'' = Some (PStr cve)" "dict_get d ''PkgName'' = Some (PStr pkg)"
    and "dict_get d ''Severity'' = Some (PStr sev)" "dict_get d ''Title'' = Some (PStr (t # ts))"
    and "c \<in> set (lower pkg)" "\<not> slug_char c" "c \<noteq> CHR ''_''"
  shows "security_baseline sg rid now q w = (Inl (validation_error ''id''), sg, w1)"
proof -
  have "parse_trivy_image (sg_env sg) (sn_stdout r) img = Inl (validation_error ''id'')"
    using odd_package_refused [OF assms(6-12)] assms(5)
    by (simp add: parse_trivy_image_def decode_report_def items_or_none_def get_item_def param_def dict_get_Cons trivy_result_def)
  then have "trivy_scan (sg_env sg) (sg_runner sg) img w = (Inl (validation_error ''id''), w1)"
    using assms(3,4) by (simp add: trivy_scan_def run_tool_def)
  then show ?thesis
    using assms(1,2)
    by (simp add: security_baseline_def run_scans_def scan_one_image_def scan_and_digest_def add_scan_def safe_call_def validation_error_def)
qed

definition dotted_tools :: fixture_runner where
  "dotted_tools = fixture_register (Inr ''trivy'') ''T'' [] 0 no_tools"

theorem odd_package_loses_baseline_witness:
  "fst (security_baseline lab_agent ''r'' 0 lab_request dotted_tools) = Inl (validation_error ''id'')"
proof -
  obtain r w1 where r: "run_fixture (trivy_args lab_image) (Some 180) dotted_tools = (Inr r, w1)" "sn_returncode r = 0" "sn_stdout r = ''T''"
    by (simp add: run_fixture_def trivy_args_def dotted_tools_def fixture_register_def no_tools_def dict_get_Cons Let_def)
  define d where "d = [(''VulnerabilityID'', PStr ''CVE-1''), (''PkgName'', PStr ''commons.io''),
     (''Severity'', PStr ''HIGH''), (''Title'', PStr ''t'')]"
  have "security_baseline lab_agent ''r'' 0 lab_request dotted_tools = (Inl (validation_error ''id''), lab_agent, w1)"
    by (rule odd_package_loses_baseline [where d = d and c = "CHR ''.''" and img = lab_image and imgs = "[]" and vs = "[]" and rs = "[]"
          and r = r and cve = "''CVE-1''" and pkg = "''commons.io''" and sev = "''HIGH''" and t = "CHR ''t''" and ts = "[]"])
       (simp_all add: d_def r lab_agent_def lab_request_def default_scan_config_def lab_env_def lab_trivy_def lab_vulnerability_def
          dict_get_Cons slug_char_def lower_def lower_char_def is_digit_def)
  then show ?thesis by simp
qed

end
