(* ===== verification/Mocks.thy ===== *)
theory Mocks
  imports Loop_Correct Harness
begin

text \<open>
  The mock agents of a dry run, \<open>agents/_mocks.py\<close>, and the instrumented agent set that \<open>chaos run\<close> hands to the
  orchestrator: every coroutine of every agent goes through the harness (\<open>Harness.instrument\<close>), and the runner reads
  the harness's log. A report's default run identifier and time stamps are the arguments \<open>rid\<close> and \<open>now\<close>; of a
  result, only the attributes that the harness summarises are listed.
\<close>

section \<open>The mock agents\<close>

definition mock_samples :: "statistical_sample list" where
  "mock_samples =
     (case from_samples ''http_p95_ms'' [120, 118, 125, 121, 119] of Inr s \<Rightarrow> [s] | Inl x \<Rightarrow> [])"

definition mock_tester_baseline :: "string \<Rightarrow> int \<Rightarrow> tester_request \<Rightarrow> tester_report" where
  "mock_tester_baseline rid now q =
     \<lparr>tr_request_kind = RK_baseline, tr_experiment_id = tq_experiment_id q, tr_run_id = rid,
      tr_steady_state = True, tr_samples = mock_samples, tr_failed_probes = [], tr_anomalies = [],
      tr_generated_hypotheses = [], tr_started_at = now, tr_finished_at = None,
      tr_notes = ''mock baseline; system declared healthy''\<rparr>"

definition mock_tester_verify :: "string \<Rightarrow> int \<Rightarrow> tester_request \<Rightarrow> tester_report" where
  "mock_tester_verify rid now q =
     \<lparr>tr_request_kind = RK_verify, tr_experiment_id = tq_experiment_id q, tr_run_id = rid,
      tr_steady_state = False, tr_samples = [], tr_failed_probes = [''cart-checkout-e2e''],
      tr_anomalies = [''http_p95_ms drifted 5x above baseline''],
      tr_generated_hypotheses = [], tr_started_at = now, tr_finished_at = None,
      tr_notes = ''mock verify; simulated regression''\<rparr>"

definition mock_security :: "security_kind \<Rightarrow> string \<Rightarrow> int \<Rightarrow> security_request \<Rightarrow> security_report" where
  "mock_security kind rid now q =
     \<lparr>sp_request_kind = kind, sp_experiment_id = sq_experiment_id q, sp_run_id = rid, sp_findings = [],
      sp_generated_hypotheses = [], sp_sbom_digest = None, sp_sbom_drift_from_baseline = False,
      sp_started_at = now, sp_finished_at = None\<rparr>"

text \<open>\<open>plan.faults[0].name\<close> is read once per event; a plan always has a fault.\<close>

definition mock_execute :: "int \<Rightarrow> experiment_plan \<Rightarrow> chaos_timeline res" where
  "mock_execute now p =
     (case ep_faults p of
        [] \<Rightarrow> Inl (Exn ''IndexError'' ''list index out of range'')
      | f # _ \<Rightarrow> Inr
          \<lparr>ct_experiment_id = ep_experiment_id p,
           ct_events = map (\<lambda>k. \<lparr>te_timestamp = now, te_fault_name = fs_name f, te_event = k, te_detail = []\<rparr>)
             [TE_scheduled, TE_started, TE_cleaned_up],
           ct_success = True, ct_error = None\<rparr>)"

definition mock_annotations :: "(string, string) dict" where
  "mock_annotations = [(annotation_key, ''true'')]"

definition mock_hypothesis :: root_cause_hypothesis where
  "mock_hypothesis =
     \<lparr>rc_summary = ''cart service has hard dep on Redis with no retry'', rc_confidence = 8 / 10,
      rc_evidence = [''mock: traces show 100% failure rate on cart GET when Redis blocked''],
      rc_suggested_fix_class = ''missing-retry'', rc_affected_paths = [''services/cart/redis_client.py'']\<rparr>"

definition mock_diagnose :: "string \<Rightarrow> int \<Rightarrow> diagnosis_request \<Rightarrow> diagnosis_report" where
  "mock_diagnose rid now q =
     \<lparr>dr_experiment_id = dq_experiment_id q, dr_run_id = rid, dr_hypotheses = [mock_hypothesis],
      dr_notes = ''mock diagnosis'', dr_started_at = now, dr_finished_at = None,
      dr_suppressed_fingerprints = [], dr_suppression_notes = []\<rparr>"

definition mock_propose_fix :: "string \<Rightarrow> int \<Rightarrow> diagnosis_report \<Rightarrow> fix_proposal" where
  "mock_propose_fix rid now d =
     \<lparr>fp_experiment_id = dr_experiment_id d, fp_run_id = rid, fp_action = FA_CODE_PATCH,
      fp_pr_url = Some ''https://example.invalid/mock/pr/123'', fp_confidence = 7 / 10,
      fp_reasoning = ''mock: propose adding a 3-retry exponential backoff to redis_client'',
      fp_files_touched = [''services/cart/redis_client.py'', ''services/cart/tests/test_redis.py''],
      fp_regression_test_added = True, fp_is_draft = True, fp_started_at = now, fp_finished_at = None\<rparr>"

text \<open>\<open>build_mock_agents\<close>: the five mocks in place of the agents of \<open>rt\<close>; \<open>rid\<close> draws a run identifier.\<close>

definition mock_agents :: "('e \<Rightarrow> string) \<Rightarrow> 'e runtime \<Rightarrow> 'e runtime" where
  "mock_agents rid rt =
     rt\<lparr>rt_tester_baseline := \<lambda>q e. (Inr (mock_tester_baseline (rid e) (rt_now rt e) q), e),
        rt_tester_verify := \<lambda>q e. (Inr (mock_tester_verify (rid e) (rt_now rt e) q), e),
        rt_security_baseline := \<lambda>q e. (Inr (mock_security SK_baseline (rid e) (rt_now rt e) q), e),
        rt_security_verify := \<lambda>q e. (Inr (mock_security SK_verify (rid e) (rt_now rt e) q), e),
        rt_chaos_execute := \<lambda>p e. (mock_execute (rt_now rt e) p, e),
        rt_chaos_cleanup := Some (\<lambda>p e. (Inr (), e)),
        rt_namespace_annotations := Some (\<lambda>ns e. (Inr (Some mock_annotations), e)),
        rt_diagnose := \<lambda>q e. (Inr (mock_diagnose (rid e) (rt_now rt e) q), e),
        rt_propose_fix := \<lambda>d e. (Inr (mock_propose_fix (rid e) (rt_now rt e) d), e)\<rparr>"

section \<open>Instrumented agents\<close>

definition experiment_attrs :: "string \<Rightarrow> attrs" where
  "experiment_attrs k = [(''experiment_id'', PStr k)]"

fun request_kind_value :: "request_kind \<Rightarrow> string" where
  "request_kind_value RK_baseline = ''baseline''"
| "request_kind_value RK_verify = ''verify''"
| "request_kind_value RK_hypothesize = ''hypothesize''"

fun security_kind_value :: "security_kind \<Rightarrow> string" where
  "security_kind_value SK_baseline = ''baseline''"
| "security_kind_value SK_verify = ''verify''"
| "security_kind_value SK_drift = ''drift''"
| "security_kind_value SK_hypothesize = ''hypothesize''"

definition request_inputs :: "string \<Rightarrow> string \<Rightarrow> string" where
  "request_inputs k kind = summarize_inputs [experiment_attrs k @ [(''kind'', PStr kind)]] []"

definition plain_inputs :: "string \<Rightarrow> string" where
  "plain_inputs k = summarize_inputs [experiment_attrs k] []"

definition tester_view :: "tester_report \<Rightarrow> attrs" where
  "tester_view r = [(''steady_state'', PBool (tr_steady_state r))]"

definition security_view :: "security_report \<Rightarrow> attrs" where
  "security_view r = [(''findings'', PList (map (\<lambda>f. PStr (sf_id f)) (sp_findings r)))]"

definition timeline_view :: "chaos_timeline \<Rightarrow> attrs" where
  "timeline_view t =
     [(''success'', PBool (ct_success t)), (''events'', PList (map (\<lambda>v. PStr (te_detail v)) (ct_events t)))]"

definition diagnosis_view :: "diagnosis_report \<Rightarrow> attrs" where
  "diagnosis_view d = [(''hypotheses'', PList (map (\<lambda>x. PStr (rc_summary x)) (dr_hypotheses d)))]"

definition proposal_view :: "fix_proposal \<Rightarrow> attrs" where
  "proposal_view f = [(''action'', PStr (fix_action_value (fp_action f)))]"

definition traced ::
  "('w \<Rightarrow> real \<times> 'w) \<Rightarrow> (real \<Rightarrow> string) \<Rightarrow> string \<Rightarrow> string \<Rightarrow> string \<Rightarrow> ('r \<Rightarrow> attrs) \<Rightarrow>
    ('w harness_state \<Rightarrow> 'r res \<times> 'w harness_state) \<Rightarrow> 'w harness_state \<Rightarrow> 'r res \<times> 'w harness_state" where
  "traced clock fr agent meth inputs view f =
     wrap_call \<lparr>he_clock = clock, he_repr_float = fr, he_view = view\<rparr> agent meth inputs f"

definition instrument_runtime ::
  "('w \<Rightarrow> real \<times> 'w) \<Rightarrow> (real \<Rightarrow> string) \<Rightarrow> 'w harness_state runtime \<Rightarrow> 'w harness_state runtime" where
  "instrument_runtime clock fr rt =
     rt\<lparr>rt_tester_baseline := \<lambda>q. traced clock fr ''tester'' ''baseline''
          (request_inputs (tq_experiment_id q) (request_kind_value (tq_kind q))) tester_view (rt_tester_baseline rt q),
        rt_tester_verify := \<lambda>q. traced clock fr ''tester'' ''verify''
          (request_inputs (tq_experiment_id q) (request_kind_value (tq_kind q))) tester_view (rt_tester_verify rt q),
        rt_security_baseline := \<lambda>q. traced clock fr ''security'' ''baseline''
          (request_inputs (sq_experiment_id q) (security_kind_value (sq_kind q))) security_view (rt_security_baseline rt q),
        rt_security_verify := \<lambda>q. traced clock fr ''security'' ''verify''
          (request_inputs (sq_experiment_id q) (security_kind_value (sq_kind q))) security_view (rt_security_verify rt q),
        rt_chaos_execute := \<lambda>p. traced clock fr ''chaos'' ''execute'' (plain_inputs (ep_experiment_id p))
          timeline_view (rt_chaos_execute rt p),
        rt_chaos_cleanup := map_option (\<lambda>f p. traced clock fr ''chaos'' ''cleanup''
          (plain_inputs (ep_experiment_id p)) (\<lambda>u. []) (f p)) (rt_chaos_cleanup rt),
        rt_namespace_annotations := map_option (\<lambda>f ns. traced clock fr ''chaos'' ''get_namespace_annotations''
          (summarize_inputs [[]] []) (\<lambda>a. []) (f ns)) (rt_namespace_annotations rt),
        rt_diagnose := \<lambda>q. traced clock fr ''diagnostician'' ''diagnose'' (plain_inputs (dq_experiment_id q))
          diagnosis_view (rt_diagnose rt q),
        rt_propose_fix := \<lambda>d. traced clock fr ''fixer'' ''propose_fix'' (plain_inputs (dr_experiment_id d))
          proposal_view (rt_propose_fix rt d),
        rt_invocations := Some hx_log\<rparr>"

definition dry_run_runtime ::
  "('w \<Rightarrow> real \<times> 'w) \<Rightarrow> (real \<Rightarrow> string) \<Rightarrow> ('w harness_state \<Rightarrow> string) \<Rightarrow> 'w harness_state runtime \<Rightarrow>
    'w harness_state runtime" where
  "dry_run_runtime clock fr rid rt = instrument_runtime clock fr (mock_agents rid rt)"

end
