(* ===== verification/Dry_Run.thy ===== *)
theory Dry_Run
  imports Mocks
begin

text \<open>
  A dry run end to end: the orchestrator of \<open>Loop\<close>, the harness and the mock agents together. Any plan that passes
  the gates is carried from the baseline to a recorded fix proposal, and the audit log lists every agent call.
\<close>

section \<open>An instrumented call of a mock\<close>

definition inside_call ::
  "('w \<Rightarrow> real \<times> 'w) \<Rightarrow> string \<Rightarrow> string \<Rightarrow> string \<Rightarrow> 'w harness_state \<Rightarrow> 'w harness_state" where
  "inside_call clock agent meth inputs h =
     h\<lparr>hx_world := snd (clock (hx_world h)),
       hx_current := Some (new_invocation agent meth (fst (clock (hx_world h)) * 1000) inputs)\<rparr>"

definition after_call ::
  "('w \<Rightarrow> real \<times> 'w) \<Rightarrow> (real \<Rightarrow> string) \<Rightarrow> string \<Rightarrow> string \<Rightarrow> string \<Rightarrow> ('r \<Rightarrow> attrs) \<Rightarrow> 'r \<Rightarrow>
    'w harness_state \<Rightarrow> 'w harness_state" where
  "after_call clock fr agent meth inputs view v h = snd (traced clock fr agent meth inputs view (\<lambda>e. (Inr v, e)) h)"

definition summarised :: "(real \<Rightarrow> string) \<Rightarrow> attrs \<Rightarrow> bool" where
  "summarised fr a \<longleftrightarrow> (case summarize_output fr a of Inr s \<Rightarrow> True | Inl x \<Rightarrow> False)"

definition called :: "agent_invocation \<Rightarrow> string \<times> string \<times> bool" where
  "called i = (ai_agent i, ai_method i, ai_ok i)"

lemma summarised_views [simp]:
  "summarised fr (tester_view t)" "summarised fr (security_view v)" "summarised fr (timeline_view c)"
  "summarised fr (diagnosis_view d)" "summarised fr (proposal_view f)" "summarised fr []"
  by (simp_all add: summarised_def summarize_output_def tester_view_def security_view_def timeline_view_def
      diagnosis_view_def proposal_view_def count_part_def attr_def param_def dict_get_Cons)

lemma traced_mock:
  assumes "\<And>e. f e = (Inr (g e), e)" "\<And>v. summarised fr (view v)"
  shows "traced clock fr agent meth inputs view f h =
    (Inr (g (inside_call clock agent meth inputs h)),
     after_call clock fr agent meth inputs view (g (inside_call clock agent meth inputs h)) h)"
proof -
  obtain t w where c: "clock (hx_world h) = (t, w)" by fastforce
  define inv where "inv = new_invocation agent meth (t * 1000) inputs"
  have i: "inside_call clock agent meth inputs h = h\<lparr>hx_world := w, hx_current := Some inv\<rparr>"
    by (simp add: inside_call_def c inv_def)
  obtain s where "summarize_output fr (view (g (inside_call clock agent meth inputs h))) = Inr s"
    using assms(2) [of "g (inside_call clock agent meth inputs h)"] by (auto simp: summarised_def split: sum.splits)
  then show ?thesis
    unfolding i by (simp add: traced_def after_call_def wrap_call_def tick_def settle_def Let_def assms(1) c
        inv_def [symmetric] split: prod.splits)
qed

lemma after_call_log:
  assumes "summarised fr (view v)"
  shows "\<exists>i. hx_log (after_call clock fr agent meth inputs view v h) = hx_log h @ [i] \<and>
    called i = (agent, meth, True) \<and> ai_spend_usd i = None"
proof -
  obtain s where "summarize_output fr (view v) = Inr s"
    using assms by (auto simp: summarised_def split: sum.splits)
  then show ?thesis
    by (simp add: traced_def after_call_def wrap_call_def tick_def settle_def Let_def called_def new_invocation_def
        split: prod.splits)
qed

lemma after_call_called [simp]:
  assumes "summarised fr (view v)"
  shows "map called (hx_log (after_call clock fr agent meth inputs view v h)) = map called (hx_log h) @ [(agent, meth, True)]"
    and "invocation_spend (hx_log (after_call clock fr agent meth inputs view v h)) = invocation_spend (hx_log h)"
  using after_call_log [where view = view and v = v, OF assms, of clock agent meth inputs h] by (auto simp: invocation_spend_def)

section \<open>Agents that answer\<close>

definition answer :: "('q \<Rightarrow> 'h \<Rightarrow> 'v res \<times> 'h) \<Rightarrow> 'q \<Rightarrow> 'h \<Rightarrow> 'v" where
  "answer f q h = (case fst (f q h) of Inr v \<Rightarrow> v | Inl x \<Rightarrow> undefined)"

definition next_env :: "('q \<Rightarrow> 'h \<Rightarrow> 'v res \<times> 'h) \<Rightarrow> 'q \<Rightarrow> 'h \<Rightarrow> 'h" where
  "next_env f q h = snd (f q h)"

text \<open>A call that succeeds and leaves one entry in the harness's log, without spend.\<close>

definition logs_call ::
  "('q \<Rightarrow> 'w harness_state \<Rightarrow> 'v res \<times> 'w harness_state) \<Rightarrow> 'q \<Rightarrow> string \<Rightarrow> string \<Rightarrow> bool" where
  "logs_call f q agent meth \<longleftrightarrow>
     (\<forall>h. f q h = (Inr (answer f q h), next_env f q h) \<and>
       map called (hx_log (next_env f q h)) = map called (hx_log h) @ [(agent, meth, True)] \<and>
       invocation_spend (hx_log (next_env f q h)) = invocation_spend (hx_log h))"

lemma logs_callD:
  assumes "logs_call f q agent meth"
  shows "f q h = (Inr (answer f q h), next_env f q h)"
    and "map called (hx_log (next_env f q h)) = map called (hx_log h) @ [(agent, meth, True)]"
    and "invocation_spend (hx_log (next_env f q h)) = invocation_spend (hx_log h)"
  using assms by (simp_all add: logs_call_def)

lemma traced_logs:
  assumes "\<And>e. f q e = (Inr (g e), e)" "\<And>v. summarised fr (view v)"
  shows "logs_call (\<lambda>q. traced clock fr agent meth (inputs q) view (f q)) q agent meth"
    and "\<exists>e. answer (\<lambda>q. traced clock fr agent meth (inputs q) view (f q)) q h = g e"
  using traced_mock [of "f q" g fr view clock agent meth "inputs q", OF assms]
  by (auto simp: logs_call_def answer_def next_env_def assms(2))

definition agent_calls :: "experiment_plan \<Rightarrow> (string \<times> string \<times> bool) list" where
  "agent_calls p =
     (if sc_require_namespace_annotation (ep_safety p) then [(''chaos'', ''get_namespace_annotations'', True)] else []) @
     [(''tester'', ''baseline'', True), (''security'', ''baseline'', True), (''chaos'', ''execute'', True),
      (''tester'', ''verify'', True), (''security'', ''verify'', True), (''diagnostician'', ''diagnose'', True),
      (''fixer'', ''propose_fix'', True)]"

lemma sync_plugin_ledger:
  "er_agent_invocations (rs_record (sync_plugin rt s)) = er_agent_invocations (rs_record s)"
  "er_spend_usd (rs_record (sync_plugin rt s)) = er_spend_usd (rs_record s)"
  by (simp_all add: sync_plugin_def sync_plugin_record_def Let_def)

text \<open>What the run needs of its plan and its surroundings: a fault, no suppression rule, no plugin, and a clock that does
  not use up the plan's wall-clock budget.\<close>

definition undisturbed :: "'e runtime \<Rightarrow> experiment_plan \<Rightarrow> bool" where
  "undisturbed rt p \<longleftrightarrow>
     ep_faults p \<noteq> [] \<and> ep_suppress p = [] \<and> 0 < tb_hard_cap_usd (ep_budget p) \<and>
     rt_plugin rt = None \<and> (\<forall>h. rt_repo_rules rt h = Inr []) \<and>
     (\<forall>h h'. rt_monotonic rt h' - rt_monotonic rt h < of_int (tb_wall_clock_seconds (ep_budget p)))"

locale answering_agents =
  fixes rt :: "'w harness_state runtime"
    and annotate :: "string \<Rightarrow> 'w harness_state \<Rightarrow> (string, string) dict option res \<times> 'w harness_state"
  assumes annotations: "rt_namespace_annotations rt = Some annotate"
    and invocations: "rt_invocations rt = Some hx_log"
    and calls: "logs_call annotate ns ''chaos'' ''get_namespace_annotations''"
      "logs_call (rt_tester_baseline rt) tq ''tester'' ''baseline''"
      "logs_call (rt_tester_verify rt) tq ''tester'' ''verify''"
      "logs_call (rt_security_baseline rt) sq ''security'' ''baseline''"
      "logs_call (rt_security_verify rt) sq ''security'' ''verify''"
      "ep_faults p \<noteq> [] \<Longrightarrow> logs_call (rt_chaos_execute rt) p ''chaos'' ''execute''"
      "logs_call (rt_diagnose rt) dq ''diagnostician'' ''diagnose''"
      "logs_call (rt_propose_fix rt) dr ''fixer'' ''propose_fix''"
    and answers: "answer annotate ns h = Some [(annotation_key, ''true'')]"
      "tr_steady_state (answer (rt_tester_baseline rt) tq h)"
      "\<not> tr_steady_state (answer (rt_tester_verify rt) tq h)"
      "sp_findings (answer (rt_security_baseline rt) sq h) = []"
      "sp_findings (answer (rt_security_verify rt) sq h) = []"
      "\<not> sp_sbom_drift_from_baseline (answer (rt_security_verify rt) sq h)"
      "ep_faults p \<noteq> [] \<Longrightarrow> ct_success (answer (rt_chaos_execute rt) p h)"
      "dr_suppressed_fingerprints (answer (rt_diagnose rt) dq h) = []"
      "dr_hypotheses (answer (rt_diagnose rt) dq h) \<noteq> []"
begin

lemma in_time:
  "undisturbed rt p \<Longrightarrow> \<not> of_int (tb_wall_clock_seconds (ep_budget p)) \<le> rt_monotonic rt h' - rt_monotonic rt h"
  by (simp add: undisturbed_def not_le)

definition on_track :: "experiment_plan \<Rightarrow> (string \<times> string \<times> bool) list \<Rightarrow> 'w harness_state rs \<Rightarrow> bool" where
  "on_track p xs s \<longleftrightarrow> undisturbed rt p \<and>
     load_control (ep_experiment_id p) (rs_db s) = no_signals \<and> rs_operator s = [] \<and>
     map called (hx_log (rs_env s)) = xs \<and> invocation_spend (hx_log (rs_env s)) = 0 \<and>
     er_experiment_id (rs_record s) = ep_experiment_id p \<and> er_abort_reason (rs_record s) = None \<and>
     bt_budget (rs_budget s) = ep_budget p \<and> (\<exists>h. bt_started_at (rs_budget s) = rt_monotonic rt h)"

lemma track_save: "on_track p xs s \<Longrightarrow> on_track p xs (save_record rt s)"
  by (simp add: on_track_def control_store_save)

lemma track_state: "on_track p xs s \<Longrightarrow> on_track p xs (set_state st s)"
  by (simp add: on_track_def)

lemma track_plugin: "on_track p xs s \<Longrightarrow> on_track p xs (sync_plugin rt s)"
  by (simp add: on_track_def)

text \<open>The fields of the record that later phases read.\<close>

definition same_evidence :: "experiment_record \<Rightarrow> experiment_record \<Rightarrow> bool" where
  "same_evidence r r' \<longleftrightarrow>
     er_tester_verify r' = er_tester_verify r \<and> er_security_verify r' = er_security_verify r \<and>
     er_chaos_timeline r' = er_chaos_timeline r \<and> er_diagnosis r' = er_diagnosis r \<and>
     er_fix_proposal r' = er_fix_proposal r"

lemma builtin_regressed_evidence: "same_evidence r r' \<Longrightarrow> builtin_regressed r' = builtin_regressed r"
  by (simp add: same_evidence_def builtin_regressed_def)

lemma track_call:
  assumes "logs_call f q agent meth" "on_track p xs s"
    and "\<And>v r. er_experiment_id (put v r) = er_experiment_id r \<and> er_abort_reason (put v r) = er_abort_reason r"
  shows "flow_sat False (\<lambda>s'. on_track p (xs @ [(agent, meth, True)]) s' \<and>
    (\<exists>h. rs_record s' = put (answer f q h) (rs_record s))) R X (call_agent c (f q) put s)"
  using assms by (auto simp: call_agent_def logs_callD [OF assms(1)] on_track_def)

lemma track_control: "on_track p xs s \<Longrightarrow> control_gate rt s = Next s"
  by (rule quiet_control) (simp_all add: on_track_def)

lemma track_budget:
  assumes "on_track p xs s"
  shows "flow_sat False (\<lambda>s'. on_track p xs s' \<and> same_evidence (rs_record s) (rs_record s')) R X (budget_gate_step rt s)"
proof -
  obtain h where "bt_started_at (rs_budget s) = rt_monotonic rt h" using assms by (auto simp: on_track_def)
  then show ?thesis
    using assms in_time [of p "rs_env s" h]
    by (auto simp: budget_gate_step_def check_budget_step_def Let_def undisturbed_def invocations hard_exceeded_def elapsed_seconds_def
        gate_or_abort_def on_track_def same_evidence_def)
qed

lemma track_annotations:
  assumes "on_track p [] s"
  shows "flow_sat False (on_track p (if sc_require_namespace_annotation (ep_safety p)
      then [(''chaos'', ''get_namespace_annotations'', True)] else [])) R X (annotation_phase rt p s)"
  using assms logs_callD [OF calls(1)]
  by (auto simp: annotation_phase_def fetch_annotations_def annotations answers(1) check_namespace_annotation_def
      gate_or_abort_def on_track_def dict_get_Cons)

lemma track_baseline:
  assumes "on_track p xs s"
  shows "flow_sat False (on_track p (xs @ [(''tester'', ''baseline'', True), (''security'', ''baseline'', True)])) R X
    (baseline_phase rt p s)"
  unfolding baseline_phase_def
  apply (rule flow_seq [where M = "on_track p xs"])
   apply (simp add: track_save track_state assms)
  apply (rule flow_seq, rule track_call [OF calls(2)], assumption, simp)
  apply (elim conjE exE, rule flow_seq, rule track_call [OF calls(4)], assumption, simp)
  apply (elim conjE exE)
  apply (simp add: call_session_def undisturbed_def invocations baseline_verdict_def check_baseline_healthy_def has_critical_or_high_def
      answers track_save track_plugin track_state on_track_def control_store_save)
  done

lemma track_inject:
  assumes "on_track p xs s"
  shows "flow_sat False (\<lambda>s'. on_track p (xs @ [(''chaos'', ''execute'', True)]) s' \<and>
    (\<exists>c. er_chaos_timeline (rs_record s') = Some c)) R X (inject_phase rt p s)"
  using assms logs_callD [OF calls(6), of p]
  by (simp add: inject_phase_def Let_def undisturbed_def invocations inject_outcome_def answers on_track_def control_store_save)

lemma track_verify:
  assumes "on_track p xs s" "er_chaos_timeline (rs_record s) = Some c"
  shows "flow_sat False (\<lambda>s'. on_track p (xs @ [(''tester'', ''verify'', True), (''security'', ''verify'', True)]) s' \<and>
    (\<exists>t. er_tester_verify (rs_record s') = Some t \<and> \<not> tr_steady_state t) \<and> builtin_regressed (rs_record s') \<and>
    er_chaos_timeline (rs_record s') = Some c) R X (verify_phase rt p s)"
  unfolding verify_phase_def
  apply (rule flow_seq [where M = "\<lambda>s'. on_track p xs s' \<and> er_chaos_timeline (rs_record s') = Some c"])
   apply (simp add: track_save track_state assms)
  apply (elim conjE, rule flow_seq, rule track_call [OF calls(3)], assumption, simp)
  apply (elim conjE exE, rule flow_seq, rule track_call [OF calls(5)], assumption, simp)
  apply (elim conjE exE)
  apply (simp add: call_session_def undisturbed_def invocations verify_verdict_def collect_evidence_def builtin_regressed_def
      answers on_track_def)
  done

lemma track_regressed:
  assumes "on_track p xs s" "builtin_regressed (rs_record s)"
  shows "flow_sat False (\<lambda>s'. on_track p xs s' \<and> same_evidence (rs_record s) (rs_record s')) R X (regressed_phase rt s)"
proof -
  have "same_evidence (rs_record s) (rs_record (save_record rt (sync_plugin rt (set_state REGRESSED s))))"
    by (simp add: same_evidence_def)
  with builtin_regressed_evidence [OF this] show ?thesis
    using assms by (simp add: regressed_phase_def Let_def track_save track_plugin track_state)
qed

lemma track_diagnose:
  assumes "on_track p xs s" "er_tester_verify (rs_record s) = Some t" "\<not> tr_steady_state t"
    and "er_chaos_timeline (rs_record s) = Some c"
  shows "flow_sat False (\<lambda>s'. on_track p (xs @ [(''diagnostician'', ''diagnose'', True)]) s' \<and>
    (\<exists>d. er_diagnosis (rs_record s') = Some d \<and> active_hypotheses (rt_sha1 rt) d \<noteq> [])) R X (diagnose_phase rt p s)"
  unfolding diagnose_phase_def
  apply (rule flow_seq [where M = "\<lambda>s'. on_track p xs s' \<and> er_tester_verify (rs_record s') = Some t \<and>
      er_chaos_timeline (rs_record s') = Some c"])
   apply (simp add: track_save track_state assms)
  apply (elim conjE)
  apply (rule flow_seq)
   apply (simp add: diagnosis_call_def Let_def diagnosis_request_for_def diagnosis_request_ok_def assms(3))
   apply (rule track_call [OF calls(7)], assumption, simp)
  apply (elim conjE exE)
  apply (simp add: suppress_diagnosis_def Let_def build_active_list_def merge_rules_def undisturbed_def invocations
      answers on_track_def control_store_save active_hypotheses_def)
  done

definition recorded_fix :: "experiment_plan \<Rightarrow> 'w harness_state rs \<Rightarrow> bool" where
  "recorded_fix p s \<longleftrightarrow> map called (er_agent_invocations (rs_record s)) = agent_calls p \<and>
     er_state (rs_record s) = RECORDED \<and> er_abort_reason (rs_record s) = None \<and>
     er_fix_proposal (rs_record s) \<noteq> None \<and> er_spend_usd (rs_record s) = 0"

lemma track_fix:
  assumes "on_track p xs s" "er_diagnosis (rs_record s) = Some d" "active_hypotheses (rt_sha1 rt) d \<noteq> []"
    and "xs @ [(''fixer'', ''propose_fix'', True)] = agent_calls p"
  shows "flow_sat False N (recorded_fix p) X (fix_phase rt s)"
proof -
  have t: "on_track p xs (save_record rt (set_state PROPOSE_FIX s))" by (simp add: track_save track_state assms)
  show ?thesis
    unfolding fix_phase_def assms(2) option.case if_not_P [OF assms(3)]
    apply (rule flow_seq, rule track_call [OF calls(8) t], simp)
    apply (elim conjE exE)
    apply (auto simp: finish_def close_record_def attach_invocations_def sync_spend_def undisturbed_def invocations on_track_def sync_plugin_ledger
        recorded_fix_def assms(4))
    done
qed

lemma track_setup:
  assumes "undisturbed rt p" "load_control (ep_experiment_id p) (rs_db s) = no_signals" "rs_operator s = []" "hx_log (rs_env s) = []"
    and "er_experiment_id (rs_record s) = ep_experiment_id p" "er_abort_reason (rs_record s) = None"
  shows "flow_sat False (on_track p []) R X (setup_phase rt p s)"
  using assms by (auto simp: setup_phase_def on_track_def control_store_save new_tracker_def invocation_spend_def)

lemma track_budget_keeping:
  assumes "on_track p xs s" "P (rs_record s)" "\<And>r r'. same_evidence r r' \<Longrightarrow> P r \<Longrightarrow> P r'"
  shows "flow_sat False (\<lambda>s'. on_track p xs s' \<and> P (rs_record s')) R X (budget_gate_step rt s)"
  using track_budget [OF assms(1), of R X] assms by (cases "budget_gate_step rt s") auto

lemma body_completes:
  assumes "undisturbed rt p" "load_control (ep_experiment_id p) (rs_db s) = no_signals" "rs_operator s = []" "hx_log (rs_env s) = []"
    and "er_experiment_id (rs_record s) = ep_experiment_id p" "er_abort_reason (rs_record s) = None"
  shows "flow_sat False N (recorded_fix p) X (run_body rt p s)"
  unfolding run_body_def
  apply (rule flow_seq, rule track_setup, (rule assms)+)
  apply (rule flow_seq, rule track_annotations, assumption)
  apply (simp only: track_control and_then.simps)
  apply (rule flow_seq, rule track_baseline, assumption)
  apply (rule flow_seq, rule track_budget, assumption)
  apply (elim conjE)
  apply (simp only: track_control and_then.simps)
  apply (rule flow_seq, rule track_inject, assumption)
  apply (elim conjE exE)
  apply (simp only: track_control and_then.simps)
  apply (rule flow_seq, rule track_verify, assumption, assumption)
  apply (elim conjE exE)
  subgoal for s1 s2 s3 s4 s5 c s6 t
    apply (rule flow_seq, rule track_budget_keeping [where P = "\<lambda>r. er_tester_verify r = Some t \<and> builtin_regressed r \<and>
        er_chaos_timeline r = Some c"], assumption, simp)
     apply (simp add: builtin_regressed_evidence, simp add: same_evidence_def)
    apply (elim conjE)
    apply (simp only: track_control and_then.simps)
    apply (rule flow_seq, rule track_regressed, assumption, assumption)
    apply (elim conjE)
    apply (rule flow_seq, rule track_diagnose [where t = t and c = c], assumption)
       apply (simp_all add: same_evidence_def)
    apply (elim conjE exE)
    subgoal for s7 s8 s9 d
      apply (rule flow_seq, rule track_budget_keeping [where P = "\<lambda>r. er_diagnosis r = Some d"], assumption, simp)
       apply (simp add: same_evidence_def)
      apply (elim conjE)
      apply (simp only: track_control and_then.simps)
      apply (rule track_fix, assumption, assumption, assumption)
      apply (simp add: agent_calls_def)
      done
    done
  done

lemma run_completes:
  assumes "undisturbed rt p" "cluster_allowed (ep_safety p)" "blast_radius_allowed p"
    and "load_control (ep_experiment_id p) db = no_signals" "hx_log e = []"
  shows "\<exists>s. run rt p db [] e = Returned s \<and> recorded_fix p s"
proof -
  have c: "check_cluster_allowed (ep_safety p) = None" using assms(2) cluster_gate.passes_iff by simp
  have b: "check_blast_radius p = None" using assms(3) blast_gate.passes_iff by simp
  define s where "s = (emit Ev_enter ((start_record rt p db [] e)\<lparr>rs_session_active := True\<rparr>))"
  have "flow_sat False (\<lambda>s. False) (recorded_fix p) (\<lambda>x s. False) (run_body rt p s)"
    by (rule body_completes)
      (simp_all add: s_def start_record_def control_store_save assms new_record_def)
  then obtain s1 where r: "run_body rt p s = Ret s1" "recorded_fix p s1" by (cases "run_body rt p s") auto
  have "with_session rt p (start_record rt p db [] e) = Ret (emit Ev_exit s1)"
    using r(1) assms(1) by (simp add: with_session_def Let_def undisturbed_def invocations s_def exit_session_def)
  then have "run rt p db [] e = Returned (final_sync rt (emit Ev_exit s1))"
    by (simp add: run_def Let_def c b)
  moreover have "recorded_fix p (final_sync rt (emit Ev_exit s1))"
    using r(2) by (simp add: recorded_fix_def final_sync_def sync_plugin_ledger)
  ultimately show ?thesis by blast
qed

end

section \<open>The dry run\<close>

definition mock_annotate ::
  "('w \<Rightarrow> real \<times> 'w) \<Rightarrow> (real \<Rightarrow> string) \<Rightarrow> string \<Rightarrow> 'w harness_state \<Rightarrow>
    (string, string) dict option res \<times> 'w harness_state" where
  "mock_annotate clock fr ns = traced clock fr ''chaos'' ''get_namespace_annotations'' (summarize_inputs [[]] []) (\<lambda>a. [])
     (\<lambda>e. (Inr (Some mock_annotations), e))"

lemma dry_run_fields:
  "rt_namespace_annotations (dry_run_runtime clock fr rid rt) = Some (mock_annotate clock fr)"
  "rt_invocations (dry_run_runtime clock fr rid rt) = Some hx_log"
  "rt_plugin (dry_run_runtime clock fr rid rt) = rt_plugin rt"
  "rt_repo_rules (dry_run_runtime clock fr rid rt) = rt_repo_rules rt"
  "rt_monotonic (dry_run_runtime clock fr rid rt) = rt_monotonic rt"
  by (simp_all add: dry_run_runtime_def instrument_runtime_def mock_agents_def mock_annotate_def fun_eq_iff)

lemma traced_logs_answer:
  assumes "f = (\<lambda>q. traced clock fr agent meth (inputs q) view (k q))" "\<And>e. k q e = (Inr (g e), e)"
    and "\<And>v. summarised fr (view v)"
  shows "logs_call f q agent meth" and "(\<And>e. P (g e)) \<Longrightarrow> P (answer f q h)"
proof -
  show "logs_call f q agent meth" unfolding assms(1) by (rule traced_logs(1) [of k, OF assms(2,3)])
  show "(\<And>e. P (g e)) \<Longrightarrow> P (answer f q h)"
    using traced_logs(2) [of k q g fr view clock agent meth inputs h, OF assms(2,3)] unfolding assms(1) by metis
qed

lemma dry_agents:
  "rt_tester_baseline (dry_run_runtime clock fr rid rt) = (\<lambda>q. traced clock fr ''tester'' ''baseline'' (request_inputs (tq_experiment_id q) (request_kind_value (tq_kind q)))
     tester_view (\<lambda>e. (Inr (mock_tester_baseline (rid e) (rt_now rt e) q), e)))"
  "rt_tester_verify (dry_run_runtime clock fr rid rt) = (\<lambda>q. traced clock fr ''tester'' ''verify'' (request_inputs (tq_experiment_id q) (request_kind_value (tq_kind q)))
     tester_view (\<lambda>e. (Inr (mock_tester_verify (rid e) (rt_now rt e) q), e)))"
  "rt_security_baseline (dry_run_runtime clock fr rid rt) = (\<lambda>q. traced clock fr ''security'' ''baseline'' (request_inputs (sq_experiment_id q) (security_kind_value (sq_kind q)))
     security_view (\<lambda>e. (Inr (mock_security SK_baseline (rid e) (rt_now rt e) q), e)))"
  "rt_security_verify (dry_run_runtime clock fr rid rt) = (\<lambda>q. traced clock fr ''security'' ''verify'' (request_inputs (sq_experiment_id q) (security_kind_value (sq_kind q)))
     security_view (\<lambda>e. (Inr (mock_security SK_verify (rid e) (rt_now rt e) q), e)))"
  "rt_diagnose (dry_run_runtime clock fr rid rt) = (\<lambda>q. traced clock fr ''diagnostician'' ''diagnose'' (plain_inputs (dq_experiment_id q))
     diagnosis_view (\<lambda>e. (Inr (mock_diagnose (rid e) (rt_now rt e) q), e)))"
  "rt_propose_fix (dry_run_runtime clock fr rid rt) = (\<lambda>q. traced clock fr ''fixer'' ''propose_fix'' (plain_inputs (dr_experiment_id q))
     proposal_view (\<lambda>e. (Inr (mock_propose_fix (rid e) (rt_now rt e) q), e)))"
  "mock_annotate clock fr = (\<lambda>q. traced clock fr ''chaos'' ''get_namespace_annotations'' (summarize_inputs [[]] []) (\<lambda>a. [])
     (\<lambda>e. (Inr (Some mock_annotations), e)))"
  by (simp_all add: dry_run_runtime_def instrument_runtime_def mock_agents_def mock_annotate_def fun_eq_iff)

lemma dry_execute:
  "rt_chaos_execute (dry_run_runtime clock fr rid rt) = (\<lambda>q. traced clock fr ''chaos'' ''execute''
     (plain_inputs (ep_experiment_id q)) timeline_view (\<lambda>e. (mock_execute (rt_now rt e) q, e)))"
  by (simp add: dry_run_runtime_def instrument_runtime_def mock_agents_def)

definition mock_timeline :: "int \<Rightarrow> experiment_plan \<Rightarrow> chaos_timeline" where
  "mock_timeline now p = (case mock_execute now p of Inr t \<Rightarrow> t | Inl x \<Rightarrow> undefined)"

lemma mock_execute_timeline: "ep_faults p \<noteq> [] \<Longrightarrow> (mock_execute (rt_now rt e) p, e) = (Inr (mock_timeline (rt_now rt e) p), e)"
  by (cases "ep_faults p") (simp_all add: mock_timeline_def mock_execute_def)

lemma mock_timeline_success: "ep_faults p \<noteq> [] \<Longrightarrow> ct_success (mock_timeline now p)"
  by (cases "ep_faults p") (simp_all add: mock_timeline_def mock_execute_def)

interpretation dry: answering_agents "dry_run_runtime clock fr rid rt" "mock_annotate clock fr" for clock fr rid rt
proof
  show "rt_namespace_annotations (dry_run_runtime clock fr rid rt) = Some (mock_annotate clock fr)"
    "rt_invocations (dry_run_runtime clock fr rid rt) = Some hx_log"
    by (simp_all add: dry_run_fields)
  show "logs_call (mock_annotate clock fr) ns ''chaos'' ''get_namespace_annotations''" for ns
    by (rule traced_logs_answer(1) [OF dry_agents(7) refl]) simp
  show "answer (mock_annotate clock fr) ns h = Some [(annotation_key, ''true'')]" for ns h
    by (rule traced_logs_answer(2) [OF dry_agents(7) refl]) (simp_all add: mock_annotations_def)
  show "logs_call (rt_tester_baseline (dry_run_runtime clock fr rid rt)) tq ''tester'' ''baseline''" for tq
    by (rule traced_logs_answer(1) [OF dry_agents(1) refl]) simp
  show "tr_steady_state (answer (rt_tester_baseline (dry_run_runtime clock fr rid rt)) tq h)" for tq h
    by (rule traced_logs_answer(2) [OF dry_agents(1) refl]) (simp_all add: mock_tester_baseline_def)
  show "logs_call (rt_tester_verify (dry_run_runtime clock fr rid rt)) tq ''tester'' ''verify''" for tq
    by (rule traced_logs_answer(1) [OF dry_agents(2) refl]) simp
  show "\<not> tr_steady_state (answer (rt_tester_verify (dry_run_runtime clock fr rid rt)) tq h)" for tq h
    by (rule traced_logs_answer(2) [OF dry_agents(2) refl]) (simp_all add: mock_tester_verify_def)
  show "logs_call (rt_security_baseline (dry_run_runtime clock fr rid rt)) sq ''security'' ''baseline''" for sq
    by (rule traced_logs_answer(1) [OF dry_agents(3) refl]) simp
  show "sp_findings (answer (rt_security_baseline (dry_run_runtime clock fr rid rt)) sq h) = []" for sq h
    by (rule traced_logs_answer(2) [OF dry_agents(3) refl]) (simp_all add: mock_security_def)
  show "logs_call (rt_security_verify (dry_run_runtime clock fr rid rt)) sq ''security'' ''verify''" for sq
    by (rule traced_logs_answer(1) [OF dry_agents(4) refl]) simp
  show "sp_findings (answer (rt_security_verify (dry_run_runtime clock fr rid rt)) sq h) = []" for sq h
    by (rule traced_logs_answer(2) [OF dry_agents(4) refl]) (simp_all add: mock_security_def)
  show "\<not> sp_sbom_drift_from_baseline (answer (rt_security_verify (dry_run_runtime clock fr rid rt)) sq h)" for sq h
    by (rule traced_logs_answer(2) [OF dry_agents(4) refl]) (simp_all add: mock_security_def)
  show "logs_call (rt_chaos_execute (dry_run_runtime clock fr rid rt)) p ''chaos'' ''execute''" if "ep_faults p \<noteq> []" for p
    by (rule traced_logs_answer(1) [OF dry_execute mock_execute_timeline [OF that]]) simp
  show "ct_success (answer (rt_chaos_execute (dry_run_runtime clock fr rid rt)) p h)" if "ep_faults p \<noteq> []" for p h
    by (rule traced_logs_answer(2) [OF dry_execute mock_execute_timeline [OF that]]) (simp_all add: mock_timeline_success that)
  show "logs_call (rt_diagnose (dry_run_runtime clock fr rid rt)) dq ''diagnostician'' ''diagnose''" for dq
    by (rule traced_logs_answer(1) [OF dry_agents(5) refl]) simp
  show "dr_suppressed_fingerprints (answer (rt_diagnose (dry_run_runtime clock fr rid rt)) dq h) = []" for dq h
    by (rule traced_logs_answer(2) [OF dry_agents(5) refl]) (simp_all add: mock_diagnose_def)
  show "dr_hypotheses (answer (rt_diagnose (dry_run_runtime clock fr rid rt)) dq h) \<noteq> []" for dq h
    by (rule traced_logs_answer(2) [OF dry_agents(5) refl]) (simp_all add: mock_diagnose_def)
  show "logs_call (rt_propose_fix (dry_run_runtime clock fr rid rt)) dr ''fixer'' ''propose_fix''" for dr
    by (rule traced_logs_answer(1) [OF dry_agents(6) refl]) simp
qed

text \<open>C7: a dry run of any plan that passes the gates goes all the way: with no plugin, no suppression rule, no pending
  operator signal and time left, the real orchestrator on the mock agents through the real harness returns a record in
  state RECORDED with a fix proposal and no spend, and its audit log lists exactly the agent calls of the loop, in order,
  each one successful (the namespace annotations are read when the plan asks for them).\<close>

theorem dry_run_completes:
  assumes "cluster_allowed (ep_safety p)" "blast_radius_allowed p" "undisturbed rt p"
    and "load_control (ep_experiment_id p) db = no_signals" "hx_log h = []"
  shows "\<exists>s. run (dry_run_runtime clock fr rid rt) p db [] h = Returned s \<and>
    er_state (rs_record s) = RECORDED \<and> er_abort_reason (rs_record s) = None \<and>
    er_fix_proposal (rs_record s) \<noteq> None \<and> er_spend_usd (rs_record s) = 0 \<and>
    map called (er_agent_invocations (rs_record s)) = agent_calls p"
proof -
  have "undisturbed (dry_run_runtime clock fr rid rt) p"
    using assms(3) by (simp add: undisturbed_def dry_run_fields)
  from dry.run_completes [OF this assms(1,2,4,5)] show ?thesis by (auto simp: dry.recorded_fix_def)
qed

definition still_surroundings :: "unit harness_state runtime" where
  "still_surroundings =
     \<lparr>rt_tester_baseline = (\<lambda>q e. (Inl (BaseExn ''x''), e)), rt_tester_verify = (\<lambda>q e. (Inl (BaseExn ''x''), e)),
      rt_security_baseline = (\<lambda>q e. (Inl (BaseExn ''x''), e)), rt_security_verify = (\<lambda>q e. (Inl (BaseExn ''x''), e)),
      rt_chaos_execute = (\<lambda>p e. (Inl (BaseExn ''x''), e)), rt_chaos_cleanup = None, rt_namespace_annotations = None,
      rt_diagnose = (\<lambda>q e. (Inl (BaseExn ''x''), e)), rt_propose_fix = (\<lambda>d e. (Inl (BaseExn ''x''), e)),
      rt_plugin = None, rt_invocations = None, rt_now = (\<lambda>e. 0), rt_monotonic = (\<lambda>e. 0), rt_sleep = (\<lambda>e. e),
      rt_dump = er_experiment_id, rt_sha1 = (\<lambda>s. s), rt_repo_rules = (\<lambda>e. Inr [])\<rparr>"

theorem dry_run_completes_witness:
  "\<exists>s. run (dry_run_runtime (\<lambda>w. (0, w)) (\<lambda>x. ''f'') (\<lambda>e. ''run-0123456789ab'') still_surroundings) demo_plan empty_db []
       \<lparr>hx_current = None, hx_log = [], hx_world = ()\<rparr> = Returned s \<and>
     map called (er_agent_invocations (rs_record s)) =
       [(''chaos'', ''get_namespace_annotations'', True), (''tester'', ''baseline'', True), (''security'', ''baseline'', True),
        (''chaos'', ''execute'', True), (''tester'', ''verify'', True), (''security'', ''verify'', True),
        (''diagnostician'', ''diagnose'', True), (''fixer'', ''propose_fix'', True)]"
proof -
  have "cluster_allowed (ep_safety demo_plan)" "blast_radius_allowed demo_plan"
    by (simp_all add: cluster_allowed_def blast_radius_allowed_def demo_plan_def demo_fault_def lower_def lower_char_def less_eq_char_def)
  moreover have "undisturbed still_surroundings demo_plan"
    by (simp add: undisturbed_def still_surroundings_def demo_plan_def)
  moreover have "load_control (ep_experiment_id demo_plan) empty_db = no_signals"
    by (simp add: load_control_def empty_db_def)
  ultimately show ?thesis
    using dry_run_completes [of demo_plan still_surroundings empty_db "\<lparr>hx_current = None, hx_log = [], hx_world = ()\<rparr>"
        "\<lambda>w. (0, w)" "\<lambda>x. ''f''" "\<lambda>e. ''run-0123456789ab''"]
    by (auto simp: agent_calls_def demo_plan_def)
qed

end
