(* ===== verification/Factory.thy ===== *)
theory Factory
  imports Mocks Query_Backends Tester Hypothesizer Diagnoser Fixer_Agent Security Chaos_Agent
begin

text \<open>
  The construction of the real agents, \<open>agents/_factory.py\<close>: which backends and which strategies a configuration
  and a profile select, and the agent set, instrumented when there is a harness, that the orchestrator is given.
  What lies outside the repository is a field of \<open>factory_env\<close>: the environment variables, the file system, the
  HTTP transport, the Kubernetes client of a configuration, the scanner processes, and the model-backed strategies'
  provider for a model name and an API base. The agents other than the model-backed strategies act on the world
  only; the security agent's digests of earlier baselines live beside it.
\<close>

section \<open>Configuration\<close>

datatype profile = Static_profile | Hybrid_profile | Llm_profile

definition profile_of :: "string \<Rightarrow> profile option" where
  "profile_of s =
     (if s = ''static'' then Some Static_profile else if s = ''hybrid'' then Some Hybrid_profile
      else if s = ''llm'' then Some Llm_profile else None)"

record agent_config =
  ac_prom_url :: "string option"
  ac_loki_url :: "string option"
  ac_target_repo_path :: "string option"
  ac_kubeconfig :: "string option"
  ac_kube_context :: "string option"
  ac_model :: string
  ac_api_base :: "string option"

definition default_model :: string where
  "default_model = ''claude-opus-4-7''"

definition config_from_env :: "(string \<Rightarrow> string option) \<Rightarrow> agent_config" where
  "config_from_env env =
     \<lparr>ac_prom_url = env ''PROM_URL'', ac_loki_url = env ''LOKI_URL'', ac_target_repo_path = env ''TARGET_REPO_PATH'',
      ac_kubeconfig = env ''KUBECONFIG'', ac_kube_context = env ''KUBE_CONTEXT'',
      ac_model = (case env ''CHAOS_LLM_MODEL'' of None \<Rightarrow> default_model | Some m \<Rightarrow> m),
      ac_api_base = env ''CHAOS_LLM_API_BASE''\<rparr>"

definition agent_config_error :: "string \<Rightarrow> pyexn" where
  "agent_config_error m = Exn ''AgentConfigError'' m"

section \<open>The world of a run\<close>

record 'w live_world =
  lw_baselines :: "(string, digests) dict"
  lw_world :: 'w

type_synonym 'w live = "'w live_world harness_state"

definition in_world :: "('w \<Rightarrow> 'r \<times> 'w) \<Rightarrow> 'w live \<Rightarrow> 'r \<times> 'w live" where
  "in_world f h =
     (case f (lw_world (hx_world h)) of (r, w) \<Rightarrow> (r, h\<lparr>hx_world := (hx_world h)\<lparr>lw_world := w\<rparr>\<rparr>))"

record 'w factory_env =
  fe_environ :: "string \<Rightarrow> string option"
  fe_repo :: repo
  fe_path :: "string \<Rightarrow> path"
  fe_http :: "'w http"
  fe_retry :: "'w retry_env"
  fe_num :: "pyval \<Rightarrow> real option res"
  fe_repr_float :: "real \<Rightarrow> string"
  fe_kube :: "string option \<Rightarrow> string option \<Rightarrow> 'w kube_client"
  fe_process :: "'w process_env"
  fe_scan :: scan_env
  fe_sleep :: "int \<Rightarrow> 'w \<Rightarrow> unit res \<times> 'w"
  fe_now :: "'w \<Rightarrow> int"
  fe_rid :: "'w \<Rightarrow> string"
  fe_iso :: "int \<Rightarrow> string"
  fe_sha256 :: "string \<Rightarrow> string"
  fe_probe_dir :: probe_dir
  fe_fmt3g :: "real \<Rightarrow> string"
  fe_nan_stats :: "string \<Rightarrow> real option list \<Rightarrow> statistical_sample"
  fe_is_nan :: "statistical_sample \<Rightarrow> bool"
  fe_write_doc :: "string \<Rightarrow> string \<Rightarrow> 'w \<Rightarrow> string res \<times> 'w"
  fe_hypothesizer :: "string \<Rightarrow> string option \<Rightarrow> 'w live_world claude_hypothesizer"
  fe_diagnoser :: "string \<Rightarrow> string option \<Rightarrow> 'w live_world claude_diagnoser"
  fe_fixer :: "string \<Rightarrow> string option \<Rightarrow> 'w live_world claude_fixer"

section \<open>From a profile to the strategies\<close>

definition build_hypothesizer ::
  "'w factory_env \<Rightarrow> profile \<Rightarrow> agent_config \<Rightarrow> 'w live hypothesizer" where
  "build_hypothesizer fe pf c =
     (let static = static_generate (fe_sha256 fe) default_detectors;
          llm = claude_generate (fe_hypothesizer fe (ac_model c) (ac_api_base c))
      in case pf of
           Static_profile \<Rightarrow> static
         | Llm_profile \<Rightarrow> llm
         | Hybrid_profile \<Rightarrow> hybrid_generate static (Some llm))"

definition build_diagnoser ::
  "'w factory_env \<Rightarrow> profile \<Rightarrow> agent_config \<Rightarrow> 'w live_world evidence \<Rightarrow> 'w live_world diagnoser" where
  "build_diagnoser fe pf c ev =
     (let static = static_diagnose (fe_iso fe) 5;
          llm = claude_diagnose (fe_diagnoser fe (ac_model c) (ac_api_base c)) ev
      in case pf of
           Static_profile \<Rightarrow> static
         | Llm_profile \<Rightarrow> llm
         | Hybrid_profile \<Rightarrow> hybrid_diagnose static (Some llm) 5)"

definition build_fixer_strategy ::
  "'w factory_env \<Rightarrow> profile \<Rightarrow> agent_config \<Rightarrow> code_reader option \<Rightarrow> 'w live_world strategy" where
  "build_fixer_strategy fe pf c code =
     (let llm = claude_propose ((fe_fixer fe (ac_model c) (ac_api_base c))\<lparr>cf_code := code\<rparr>)
      in case pf of
           Static_profile \<Rightarrow> static_propose
         | Llm_profile \<Rightarrow> llm
         | Hybrid_profile \<Rightarrow> hybrid_propose static_propose (Some llm))"

section \<open>Backends\<close>

definition prom_http :: "'w factory_env \<Rightarrow> string \<Rightarrow> string \<Rightarrow> real option \<Rightarrow> 'w \<Rightarrow> instant_sample list res \<times> 'w" where
  "prom_http fe url q ts =
     prom_query_instant (fe_repr_float fe) (fe_num fe) (fe_retry fe) (fe_http fe) (rstrip_slash url) q ts"

definition loki_http ::
  "'w factory_env \<Rightarrow> string \<Rightarrow> string \<Rightarrow> real \<Rightarrow> real \<Rightarrow> int \<Rightarrow> 'w \<Rightarrow> log_line list res \<times> 'w" where
  "loki_http fe url = loki_query_range (fe_repr_float fe) (fe_retry fe) (fe_http fe) (rstrip_slash url)"

text \<open>The keyword arguments that replace a default; a field that is \<open>None\<close> was not given.\<close>

record 'w overrides =
  ov_prom :: "(string \<Rightarrow> real option \<Rightarrow> 'w \<Rightarrow> instant_sample list res \<times> 'w) option"
  ov_loki :: "(string \<Rightarrow> real \<Rightarrow> real \<Rightarrow> int \<Rightarrow> 'w \<Rightarrow> log_line list res \<times> 'w) option"
  ov_cluster :: "'w cluster_io option"
  ov_scanner :: "'w runner option"
  ov_hypothesizer :: "'w live hypothesizer option"
  ov_diagnoser :: "('w live_world evidence \<Rightarrow> 'w live_world diagnoser) option"
  ov_fixer :: "'w live_world strategy option"
  ov_code :: "code_reader option"
  ov_harness :: bool

definition no_overrides :: "'w overrides" where
  "no_overrides =
     \<lparr>ov_prom = None, ov_loki = None, ov_cluster = None, ov_scanner = None, ov_hypothesizer = None,
      ov_diagnoser = None, ov_fixer = None, ov_code = None, ov_harness = False\<rparr>"

definition set_text :: "string option \<Rightarrow> string option" where
  "set_text s = (case s of None \<Rightarrow> None | Some t \<Rightarrow> if t = [] then None else Some t)"

definition wired_code :: "'w factory_env \<Rightarrow> agent_config \<Rightarrow> 'w overrides \<Rightarrow> code_reader option res" where
  "wired_code fe c ov =
     (case (ov_code ov, set_text (ac_target_repo_path c)) of
        (Some rd, u) \<Rightarrow> Inr (Some rd)
      | (None, None) \<Rightarrow> Inr None
      | (None, Some t) \<Rightarrow> res_bind (target_code_reader (fe_repo fe) (fe_path fe t) None) (\<lambda>rd. Inr (Some rd)))"

definition wired_prom ::
  "'w factory_env \<Rightarrow> agent_config \<Rightarrow> 'w overrides \<Rightarrow>
    (string \<Rightarrow> real option \<Rightarrow> 'w \<Rightarrow> instant_sample list res \<times> 'w) option" where
  "wired_prom fe c ov = or_else (ov_prom ov) (map_option (prom_http fe) (set_text (ac_prom_url c)))"

definition wired_loki ::
  "'w factory_env \<Rightarrow> agent_config \<Rightarrow> 'w overrides \<Rightarrow>
    (string \<Rightarrow> real \<Rightarrow> real \<Rightarrow> int \<Rightarrow> 'w \<Rightarrow> log_line list res \<times> 'w) option" where
  "wired_loki fe c ov = or_else (ov_loki ov) (map_option (loki_http fe) (set_text (ac_loki_url c)))"

definition wired_cluster :: "'w factory_env \<Rightarrow> agent_config \<Rightarrow> 'w overrides \<Rightarrow> 'w cluster_io option" where
  "wired_cluster fe c ov =
     or_else (ov_cluster ov)
       (if set_text (ac_kubeconfig c) \<noteq> None \<or> set_text (ac_kube_context c) \<noteq> None
        then Some (kube_io (fe_kube fe (ac_kubeconfig c) (ac_kube_context c))) else None)"

section \<open>The agents\<close>

record 'w wired =
  wi_tester :: "'w live tester_agent"
  wi_chaos :: "'w chaos_agent"
  wi_security :: "'w security_agent"
  wi_diagnoser :: "'w live_world diagnoser"
  wi_fixer :: "'w live_world fixer_agent"

definition wired_tester ::
  "'w factory_env \<Rightarrow> profile \<Rightarrow> agent_config \<Rightarrow> 'w overrides \<Rightarrow> code_reader option \<Rightarrow> 'w live tester_agent" where
  "wired_tester fe pf c ov code =
     \<lparr>ta_prom = map_option (\<lambda>b q. in_world (b q None)) (wired_prom fe c ov),
      ta_from_env = res_bind (prom_from_env (fe_environ fe) ''PROM_URL'' None)
        (\<lambda>url. Inr (\<lambda>q. in_world (prom_http fe url q None))),
      ta_probe_dir = fe_probe_dir fe,
      ta_hypothesizer = (case ov_hypothesizer ov of Some g \<Rightarrow> g | None \<Rightarrow> build_hypothesizer fe pf c),
      ta_code = code, ta_repr_float = fe_repr_float fe, ta_fmt3g = fe_fmt3g fe, ta_nan_stats = fe_nan_stats fe,
      ta_is_nan = fe_is_nan fe\<rparr>"

definition wired_evidence ::
  "'w factory_env \<Rightarrow> agent_config \<Rightarrow> 'w overrides \<Rightarrow> code_reader option \<Rightarrow> 'w live_world evidence" where
  "wired_evidence fe c ov code =
     \<lparr>eb_loki = map_option (\<lambda>b q start stop limit. in_world (b q start stop limit)) (wired_loki fe c ov),
      eb_prom = map_option (\<lambda>b q ts. in_world (b q ts)) (wired_prom fe c ov), eb_code = code\<rparr>"

definition wired_agents ::
  "'w factory_env \<Rightarrow> profile \<Rightarrow> agent_config \<Rightarrow> 'w overrides \<Rightarrow> code_reader option \<Rightarrow> 'w wired" where
  "wired_agents fe pf c ov code =
     \<lparr>wi_tester = wired_tester fe pf c ov code,
      wi_chaos = \<lparr>ca_cluster = wired_cluster fe c ov, ca_sleep = fe_sleep fe, ca_now = fe_now fe,
        ca_float_repr = fe_repr_float fe\<rparr>,
      wi_security = \<lparr>sg_env = fe_scan fe,
        sg_runner = (case ov_scanner ov of Some r \<Rightarrow> r | None \<Rightarrow> run_subprocess (fe_process fe)),
        sg_config = default_scan_config, sg_skip = True, sg_baselines = []\<rparr>,
      wi_diagnoser = (case ov_diagnoser ov of
          Some d \<Rightarrow> d (wired_evidence fe c ov code) | None \<Rightarrow> build_diagnoser fe pf c (wired_evidence fe c ov code)),
      wi_fixer = \<lparr>fx_strategy = Some (case ov_fixer ov of
            Some s \<Rightarrow> s | None \<Rightarrow> build_fixer_strategy fe pf c code),
        fx_denylist = default_denylist, fx_min_confidence = default_min_confidence,
        fx_write_doc = (\<lambda>p t. in_world (fe_write_doc fe p t))\<rparr>\<rparr>"

text \<open>The digests a baseline leaves are where the next verification finds them.\<close>

definition security_call ::
  "('w security_agent \<Rightarrow> 'w \<Rightarrow> 'v res \<times> 'w security_agent \<times> 'w) \<Rightarrow> 'w security_agent \<Rightarrow> 'w live \<Rightarrow>
    'v res \<times> 'w live" where
  "security_call f sg h =
     (case f (sg\<lparr>sg_baselines := lw_baselines (hx_world h)\<rparr>) (lw_world (hx_world h)) of
        (r, sg', w) \<Rightarrow> (r, h\<lparr>hx_world := \<lparr>lw_baselines = sg_baselines sg', lw_world = w\<rparr>\<rparr>))"

definition forget_agent :: "'v res \<times> 'a \<times> 'w \<Rightarrow> 'v res \<times> 'w" where
  "forget_agent x = (case x of (r, a, w) \<Rightarrow> (r, w))"

definition wired_runtime :: "'w factory_env \<Rightarrow> 'w wired \<Rightarrow> 'w live runtime \<Rightarrow> 'w live runtime" where
  "wired_runtime fe wi rt =
     (let now = (\<lambda>h. fe_now fe (lw_world (hx_world h))); rid = (\<lambda>h. fe_rid fe (lw_world (hx_world h))) in
      rt\<lparr>rt_tester_baseline := \<lambda>q h. forget_agent (tester_baseline (wi_tester wi) (rid h) (now h) q h),
         rt_tester_verify := \<lambda>q h. forget_agent (tester_verify (wi_tester wi) (rid h) (now h) q h),
         rt_security_baseline := \<lambda>q h. security_call (\<lambda>sg. security_baseline sg (rid h) (now h) q) (wi_security wi) h,
         rt_security_verify := \<lambda>q h. security_call
           (\<lambda>sg w. case security_verify sg (rid h) (now h) q w of (r, w') \<Rightarrow> (r, sg, w')) (wi_security wi) h,
         rt_chaos_execute := \<lambda>p. in_world (chaos_execute (wi_chaos wi) p),
         rt_chaos_cleanup := Some (\<lambda>p. in_world (chaos_cleanup (wi_chaos wi) p)),
         rt_namespace_annotations := Some (\<lambda>ns. in_world (chaos_annotations (wi_chaos wi) ns)),
         rt_diagnose := \<lambda>q h. agent_diagnose (wi_diagnoser wi) (rid h) (now h) q h,
         rt_propose_fix := \<lambda>d h. propose_fix (wi_fixer wi) (rid h) (now h) d h\<rparr>)"

definition build_real_agents ::
  "'w factory_env \<Rightarrow> agent_config option \<Rightarrow> string \<Rightarrow> 'w overrides \<Rightarrow> 'w wired res" where
  "build_real_agents fe config profile ov =
     (case profile_of profile of
        None \<Rightarrow> Inl (agent_config_error
          (''profile must be one of ('' @ join '', '' (map repr_str [''static'', ''hybrid'', ''llm'']) @ ''), got '' @
           repr_str profile))
      | Some pf \<Rightarrow>
          (let c = (case config of Some c \<Rightarrow> c | None \<Rightarrow> config_from_env (fe_environ fe)) in
           res_bind (wired_code fe c ov) (\<lambda>code. Inr (wired_agents fe pf c ov code))))"

text \<open>The set as the orchestrator uses it: each agent instrumented when a harness was given.\<close>

definition real_runtime ::
  "('w live_world \<Rightarrow> real \<times> 'w live_world) \<Rightarrow> 'w factory_env \<Rightarrow> 'w overrides \<Rightarrow> 'w wired \<Rightarrow>
    'w live runtime \<Rightarrow> 'w live runtime" where
  "real_runtime clock fe ov wi rt =
     (if ov_harness ov then instrument_runtime clock (fe_repr_float fe) (wired_runtime fe wi rt)
      else (wired_runtime fe wi rt)\<lparr>rt_invocations := None\<rparr>)"

end
