(* ===== verification/Static_Run.thy ===== *)
theory Static_Run
  imports Factory
begin

text \<open>
  What the factory's \<open>static\<close> profile promises: a run costs nothing. The argument is made once for every runtime
  whose calls keep a condition on the environment, in the locale \<open>costless_runtime\<close>, which the runtime of the static
  profile interprets: its agents reach the outside world only through calls that leave the harness alone, so no
  invocation is ever charged.
\<close>

section \<open>Runs in an environment where nothing is spent\<close>

definition leaves_quiet :: "('e \<Rightarrow> bool) \<Rightarrow> ('e \<Rightarrow> 'r \<times> 'e) \<Rightarrow> bool" where
  "leaves_quiet quiet f \<longleftrightarrow> (\<forall>e. quiet e \<longrightarrow> quiet (snd (f e)))"

lemma leaves_quietD: "leaves_quiet quiet f \<Longrightarrow> f e = (r, e') \<Longrightarrow> quiet e \<Longrightarrow> quiet e'"
  by (metis leaves_quiet_def snd_conv)

locale costless_runtime =
  fixes rt :: "'e runtime" and quiet :: "'e \<Rightarrow> bool" and invs :: "'e \<Rightarrow> agent_invocation list"
  assumes no_plugin: "rt_plugin rt = None"
    and log: "rt_invocations rt = Some invs"
    and free: "quiet e \<Longrightarrow> invocation_spend (invs e) = 0"
    and calls: "leaves_quiet quiet (rt_tester_baseline rt q)" "leaves_quiet quiet (rt_tester_verify rt q)"
      "leaves_quiet quiet (rt_security_baseline rt v)" "leaves_quiet quiet (rt_security_verify rt v)"
      "leaves_quiet quiet (rt_chaos_execute rt p)" "leaves_quiet quiet (rt_diagnose rt d)"
      "leaves_quiet quiet (rt_propose_fix rt g)"
    and optional_calls: "rt_chaos_cleanup rt = Some cleanup \<Longrightarrow> leaves_quiet quiet (cleanup p)"
      "rt_namespace_annotations rt = Some getter \<Longrightarrow> leaves_quiet quiet (getter ns)"
    and sleep: "quiet e \<Longrightarrow> quiet (rt_sleep rt e)"
begin

definition costless :: "'e rs \<Rightarrow> bool" where
  "costless s \<longleftrightarrow> quiet (rs_env s) \<and> er_spend_usd (rs_record s) = 0"

abbreviation costless_flow :: "'e flow \<Rightarrow> bool" where
  "costless_flow \<equiv> flow_sat True costless costless (\<lambda>x. costless)"

lemma flow_step:
  "costless_flow fl \<Longrightarrow> (\<And>s. costless s \<Longrightarrow> costless_flow (g s)) \<Longrightarrow> costless_flow (and_then fl g)"
  by (rule flow_seq)

lemma costless_upd:
  "costless s \<Longrightarrow> (\<And>r. er_spend_usd (f r) = er_spend_usd r) \<Longrightarrow> costless (upd_record f s)"
  by (simp add: costless_def)

lemma costless_keeps [simp]:
  "costless (emit ev s) = costless s" "costless (set_state st s) = costless s"
  "costless (save_record rt s) = costless s" "costless (s\<lparr>rs_session := ss\<rparr>) = costless s"
  "costless (s\<lparr>rs_budget := b\<rparr>) = costless s" "costless (s\<lparr>rs_session_active := a\<rparr>) = costless s"
  "costless (s\<lparr>rs_db := db\<rparr>) = costless s" "costless (s\<lparr>rs_operator := ops\<rparr>) = costless s"
  "costless (clear_signals s) = costless s" "costless (attach_invocations rt s) = costless s"
  by (simp_all add: costless_def emit_def set_state_def upd_record_def save_record_def clear_signals_def
      attach_invocations_def log)

lemma costless_env: "costless s \<Longrightarrow> quiet e \<Longrightarrow> costless (s\<lparr>rs_env := e\<rparr>)"
  by (simp add: costless_def)

lemma costless_sync_plugin [simp]: "costless (sync_plugin rt s) = costless s"
  by (simp add: costless_def sync_plugin_def sync_plugin_record_def upd_record_def Let_def)

lemma costless_sync_spend: "costless s \<Longrightarrow> costless (sync_spend rt s)"
  by (simp add: costless_def sync_spend_def log upd_record_def free)

lemma costless_close: "costless s \<Longrightarrow> costless (close_record rt s)"
  unfolding close_record_def by (simp add: costless_sync_spend costless_upd)

lemma costless_abort: "costless s \<Longrightarrow> costless (abort rt r d s)"
  unfolding abort_def by (simp add: costless_close costless_upd)

lemma costless_finish: "costless s \<Longrightarrow> costless (finish rt s)"
  unfolding finish_def by (simp add: costless_close)

lemma gate_costless: "costless s \<Longrightarrow> costless_flow (gate_or_abort rt g s)"
  by (simp add: gate_or_abort_def costless_abort split: option.split)

lemma costless_slept: "costless s \<Longrightarrow> costless (s\<lparr>rs_env := rt_sleep rt (rs_env s)\<rparr>)"
  by (simp add: costless_def sleep)

lemma costless_paused: "costless s \<Longrightarrow> costless (mark_paused rt s)"
  by (simp add: mark_paused_def costless_sync_spend)

lemma control_loop_costless:
  "control_loop rt first bs s = Some (g, s') \<Longrightarrow> costless s \<Longrightarrow> costless s'"
proof (induction bs arbitrary: first s)
  case Nil
  then show ?case by (subst (asm) control_loop.simps) (auto simp: Let_def split: if_splits)
next
  case (Cons b bs)
  define s1 where "s1 = s\<lparr>rs_db := apply_signals (er_experiment_id (rs_record s)) b (rs_db s), rs_operator := bs\<rparr>"
  have c: "costless s1" using Cons.prems(2) by (simp add: s1_def)
  show ?case
    using Cons.prems(1) c Cons.IH [OF _ costless_slept [OF c]]
      Cons.IH [OF _ costless_slept [OF costless_paused [OF c]]]
    by (subst (asm) control_loop.simps) (auto simp: Let_def s1_def [symmetric] split: if_splits)
qed

lemma control_gate_costless: "costless s \<Longrightarrow> costless_flow (control_gate rt s)"
  by (auto simp: control_gate_def check_control_def split: option.split
      intro!: gate_costless elim: control_loop_costless)

lemma budget_gate_costless:
  assumes "costless s"
  shows "costless_flow (budget_gate_step rt s)"
proof -
  obtain g s' where b: "check_budget_step rt s = (g, s')" by fastforce
  then have "costless s'"
    using assms by (auto simp: check_budget_step_def Let_def log costless_def upd_record_def free)
  then show ?thesis by (simp add: budget_gate_step_def b gate_costless)
qed

lemma call_agent_costless:
  assumes "leaves_quiet quiet f" "\<And>v r. er_spend_usd (put v r) = er_spend_usd r" "costless s"
  shows "costless_flow (call_agent c f put s)"
proof -
  obtain r e where f: "f (rs_env s) = (r, e)" by fastforce
  have "costless (s\<lparr>rs_env := e\<rparr>)"
    using leaves_quietD [OF assms(1) f] assms(3) by (simp add: costless_def)
  then show ?thesis using assms(2) by (auto simp: call_agent_def f costless_upd split: sum.split)
qed

lemma collect_costless: "costless s \<Longrightarrow> costless_flow (collect_evidence rt s)"
  by (simp add: collect_evidence_def call_session_def no_plugin costless_upd)

section \<open>The phases\<close>

lemma setup_costless: "costless s \<Longrightarrow> costless_flow (setup_phase rt p s)"
  by (simp add: setup_phase_def)

lemma annotation_costless:
  assumes "costless s"
  shows "costless_flow (annotation_phase rt p s)"
proof (cases "rt_namespace_annotations rt")
  case None
  then show ?thesis using assms by (simp add: annotation_phase_def fetch_annotations_def gate_costless)
next
  case (Some getter)
  obtain r e where f: "getter (sc_namespace (ep_safety p)) (rs_env s) = (r, e)" by fastforce
  have "costless (s\<lparr>rs_env := e\<rparr>)"
    using leaves_quietD [OF optional_calls(2) [OF Some] f] assms by (simp add: costless_def)
  then show ?thesis
    using assms by (auto simp: annotation_phase_def fetch_annotations_def Some f gate_costless split: sum.split)
qed

lemma session_call_costless:
  assumes "\<And>e. f (rs_session s) e = (Inr v, rs_session s, e)" "\<And>v r. er_spend_usd (put v r) = er_spend_usd r" "costless s"
  shows "costless_flow (call_session f put s)"
  using assms by (simp add: call_session_def costless_def upd_record_def)

lemma baseline_verdict_costless: "costless s \<Longrightarrow> costless_flow (baseline_verdict rt s)"
  by (simp add: baseline_verdict_def costless_abort split: option.split)

lemma baseline_costless:
  assumes "costless s"
  shows "costless_flow (baseline_phase rt p s)"
  unfolding baseline_phase_def
  by (intro flow_step call_agent_costless session_call_costless baseline_verdict_costless calls)
    (use assms in \<open>simp_all add: no_plugin\<close>)

lemma cleanup_costless:
  assumes "costless s"
  shows "costless_flow (best_effort_cleanup rt p s)"
proof (cases "rt_chaos_cleanup rt")
  case None
  then show ?thesis using assms by (simp add: best_effort_cleanup_def)
next
  case (Some cleanup)
  obtain r e where f: "cleanup p (rs_env s) = (r, e)" by fastforce
  have "costless (s\<lparr>rs_env := e\<rparr>)"
    using leaves_quietD [OF optional_calls(1) [OF Some] f] assms by (simp add: costless_def)
  then show ?thesis by (auto simp: best_effort_cleanup_def Some f split: sum.split)
qed

lemma guard_costless:
  assumes "costless s"
  shows "costless_flow (and_then (best_effort_cleanup rt p (set_state INJECT_FAILED s)) (\<lambda>s1.
    and_then (collect_evidence rt s1) (\<lambda>s2. Ret (abort rt SLO_BREACH m (sync_plugin rt s2)))))"
  by (intro flow_step cleanup_costless collect_costless) (use assms in \<open>auto simp: costless_abort\<close>)

lemma inject_outcome_costless: "costless s \<Longrightarrow> costless_flow (inject_outcome rt p r s)"
  by (auto simp: inject_outcome_def Let_def costless_abort costless_upd guard_costless split: sum.split)

lemma inject_costless:
  assumes "costless s"
  shows "costless_flow (inject_phase rt p s)"
proof -
  define s1 where "s1 = emit (Ev_call Chaos_execute) (save_record rt (set_state INJECT s))"
  have c: "costless s1" using assms by (simp add: s1_def)
  obtain r e where f: "rt_chaos_execute rt p (rs_env s1) = (r, e)" by fastforce
  have "costless (s1\<lparr>rs_env := e\<rparr>)"
    using leaves_quietD [OF calls(5) f] c by (simp add: costless_def)
  then show ?thesis
    by (simp add: inject_phase_def s1_def [symmetric] no_plugin f inject_outcome_costless)
qed

lemma verify_verdict_costless: "costless s \<Longrightarrow> costless_flow (verify_verdict rt s)"
  by (simp add: verify_verdict_def costless_finish collect_costless)

lemma verify_costless:
  assumes "costless s"
  shows "costless_flow (verify_phase rt p s)"
  unfolding verify_phase_def
  by (intro flow_step call_agent_costless session_call_costless verify_verdict_costless calls)
    (use assms in \<open>simp_all add: no_plugin\<close>)

lemma regressed_costless: "costless s \<Longrightarrow> costless_flow (regressed_phase rt s)"
  by (simp add: regressed_phase_def Let_def costless_finish)

lemma diagnosis_call_costless: "costless s \<Longrightarrow> costless_flow (diagnosis_call rt p s)"
  by (simp add: diagnosis_call_def Let_def call_agent_costless calls split: option.split)

lemma suppress_costless: "costless s \<Longrightarrow> costless_flow (suppress_diagnosis rt p s)"
  by (auto simp: suppress_diagnosis_def Let_def costless_upd split: sum.split option.split prod.split)

lemma diagnose_costless:
  assumes "costless s"
  shows "costless_flow (diagnose_phase rt p s)"
  unfolding diagnose_phase_def
  by (intro flow_step diagnosis_call_costless suppress_costless) (use assms in simp_all)

lemma fix_costless:
  assumes "costless s"
  shows "costless_flow (fix_phase rt s)"
proof (cases "er_diagnosis (rs_record s)")
  case None
  then show ?thesis using assms by (simp add: fix_phase_def)
next
  case (Some d)
  have "costless_flow (and_then (call_agent Propose_fix (rt_propose_fix rt d)
      (\<lambda>f r. r\<lparr>er_fix_proposal := Some f\<rparr>) (save_record rt (set_state PROPOSE_FIX s)))
      (\<lambda>s1. Ret (finish rt (set_state FIX_PROPOSED s1))))"
    by (intro flow_step call_agent_costless calls) (use assms in \<open>auto simp: costless_finish\<close>)
  then show ?thesis using assms by (simp add: fix_phase_def Some costless_finish costless_upd)
qed

lemma body_costless: "costless s \<Longrightarrow> costless_flow (run_body rt p s)"
  unfolding run_body_def
  by (intro flow_step setup_costless annotation_costless control_gate_costless baseline_costless
      budget_gate_costless inject_costless verify_costless regressed_costless diagnose_costless fix_costless)

section \<open>The run\<close>

lemma leave_costless: "costless_flow fl \<Longrightarrow> costless_flow (leave_session rt fl)"
  by (cases fl) (simp_all add: exit_session_def no_plugin)

lemma session_costless: "costless s \<Longrightarrow> costless_flow (with_session rt p s)"
  by (simp add: with_session_def Let_def no_plugin leave_costless body_costless)

lemma start_costless: "quiet e \<Longrightarrow> costless (start_record rt p db ops e)"
  by (simp add: start_record_def) (simp add: costless_def new_record_def)

lemma final_costless: "costless s \<Longrightarrow> costless (final_sync rt s)"
  by (simp add: final_sync_def)

fun left_costless :: "'e run_result \<Rightarrow> bool" where
  "left_costless (Returned s) = costless s"
| "left_costless (Raised x s) = costless s"
| "left_costless Hangs = True"

lemma finally_costless: "costless_flow fl \<Longrightarrow> left_costless (finally_sync rt (recover rt fl))"
  by (cases fl) (simp_all add: costless_abort final_costless)

lemma run_costless:
  assumes "quiet e"
  shows "left_costless (run rt p db ops e)"
proof -
  define s0 where "s0 = start_record rt p db ops e"
  have c: "costless s0" using start_costless [OF assms] by (simp add: s0_def)
  show ?thesis
    unfolding run_def s0_def [symmetric] Let_def
    by (simp add: c costless_abort finally_costless session_costless split: option.split)
qed

lemma run_spends_nothing:
  "quiet e \<Longrightarrow> run rt p db ops e = Returned s \<or> run rt p db ops e = Raised x s \<Longrightarrow>
    quiet (rs_env s) \<and> er_spend_usd (rs_record s) = 0"
  using run_costless [of e p db ops] by (auto simp: costless_def)

end

section \<open>The agents of the static profile\<close>

definition unbilled :: "agent_invocation \<Rightarrow> bool" where
  "unbilled i \<longleftrightarrow>
     ai_spend_usd i = None \<and> ai_prompt_tokens i = None \<and> ai_completion_tokens i = None \<and> ai_tool_calls i = []"

definition quiet_log :: "'w harness_state \<Rightarrow> bool" where
  "quiet_log h \<longleftrightarrow> list_all unbilled (hx_log h)"

lemma unbilled_spend: "list_all unbilled is \<Longrightarrow> invocation_spend is = 0"
  by (induction "is") (simp_all add: invocation_spend_def unbilled_def)

lemma quiet_spend: "quiet_log h \<Longrightarrow> invocation_spend (hx_log h) = 0"
  by (simp add: quiet_log_def unbilled_spend)

text \<open>A call that leaves the harness as it is.\<close>

definition offstage :: "('w harness_state \<Rightarrow> 'r \<times> 'w harness_state) \<Rightarrow> bool" where
  "offstage f \<longleftrightarrow> (\<forall>h. hx_current (snd (f h)) = hx_current h \<and> hx_log (snd (f h)) = hx_log h)"

lemma offstageD: "offstage f \<Longrightarrow> f h = (r, h') \<Longrightarrow> hx_current h' = hx_current h \<and> hx_log h' = hx_log h"
  by (metis offstage_def snd_conv)

lemma offstageI:
  "(\<And>h r h'. f h = (r, h') \<Longrightarrow> hx_current h' = hx_current h \<and> hx_log h' = hx_log h) \<Longrightarrow> offstage f"
  by (simp add: offstage_def) (metis prod.collapse)

lemma in_world_offstage: "offstage (in_world f)"
  by (simp add: offstage_def in_world_def split: prod.split)

lemma security_offstage: "offstage (security_call f sg)"
  by (simp add: offstage_def security_call_def split: prod.split)

lemma traced_quiet:
  assumes "\<And>h. hx_current (snd (f h)) = hx_current h \<and> hx_log (snd (f h)) = hx_log h"
  shows "leaves_quiet quiet_log (traced clock fr agent meth inputs view f)"
  unfolding leaves_quiet_def
proof (intro allI impI)
  fix h :: "'a harness_state"
  assume q: "quiet_log h"
  define he where "he = \<lparr>he_clock = clock, he_repr_float = fr, he_view = view\<rparr>"
  obtain t h1 where t: "tick he h = (t, h1)" by fastforce
  define inv where "inv = new_invocation agent meth t inputs"
  obtain r h2 where f: "f (h1\<lparr>hx_current := Some inv\<rparr>) = (r, h2)" by fastforce
  have h2: "hx_current h2 = Some inv" "hx_log h2 = hx_log h"
    using assms [of "h1\<lparr>hx_current := Some inv\<rparr>"] tick_keeps [OF t] by (simp_all add: f)
  obtain r' i where s: "settle he r inv = (r', i)" by fastforce
  obtain u h3 where u: "tick he h2 = (u, h3)" by fastforce
  have "unbilled i"
    using settle_fields [OF s] by (simp add: unbilled_def inv_def new_invocation_def)
  then show "quiet_log (snd (traced clock fr agent meth inputs view f h))"
    using q tick_keeps [OF u] h2
    by (simp add: traced_def he_def [symmetric] wrap_call_def t Let_def inv_def [symmetric] f s u quiet_log_def
        unbilled_def)
qed

lemma run_repeatedly_offstage:
  assumes "\<And>q. offstage (backend q)"
  shows "offstage (run_repeatedly fr backend p n)"
proof -
  have one: "offstage (evaluate_probe fr p backend)"
    using assms [of "pb_query p"] by (auto simp: offstage_def evaluate_probe_def split: prod.split sum.split pyexn.split)
      (metis snd_conv)+
  show ?thesis
  proof (rule offstageI, goal_cases)
    case (1 h r h')
    then show ?case
  proof (induction n arbitrary: h r h')
    case (Suc n)
    obtain x h1 where x: "evaluate_probe fr p backend h = (x, h1)" by fastforce
    obtain y h2 where y: "run_repeatedly fr backend p n h1 = (y, h2)" by fastforce
    show ?case
      using Suc.prems offstageD [OF one x] Suc.IH [OF y] x y by (auto split: sum.splits)
  qed simp
  qed
qed

lemma run_probe_set_offstage:
  assumes "\<And>q. offstage (backend q)"
  shows "offstage (run_probe_set fr backend n ps)"
proof -
  show ?thesis
  proof (rule offstageI, goal_cases)
    case (1 h r h')
    then show ?case
  proof (induction ps arbitrary: h r h')
    case (Cons p ps)
    obtain x h1 where x: "run_repeatedly fr backend p n h = (x, h1)" by fastforce
    obtain y h2 where y: "run_probe_set fr backend n ps h1 = (y, h2)" by fastforce
    show ?case
      using Cons.prems offstageD [OF run_repeatedly_offstage [OF assms] x] Cons.IH [OF y] x y
      by (auto split: sum.splits)
  qed simp
  qed
qed

lemma run_probes_offstage:
  assumes "\<And>b q. ta_prom ta = Some b \<or> ta_from_env ta = Inr b \<Longrightarrow> offstage (b q)"
  shows "hx_current (snd (forget_agent (run_probes ta kind rid now q h))) = hx_current h \<and>
    hx_log (snd (forget_agent (run_probes ta kind rid now q h))) = hx_log h"
proof (cases "probes_for_target (ta_probe_dir ta) (tq_target_app q)")
  case (Inl x)
  then show ?thesis by (simp add: run_probes_def forget_agent_def split: pyexn.split)
next
  case (Inr ps)
  show ?thesis
  proof (cases "resolve_backend ta")
    case (Pair rb ta1)
    show ?thesis
    proof (cases rb)
      case (Inr b)
      have "ta_prom ta = Some b \<or> ta_from_env ta = Inr b"
        using Pair Inr by (auto simp: resolve_backend_def split: option.splits sum.splits)
      then have o: "offstage (run_probe_set (ta_repr_float ta) b (runs_for kind q) ps)"
        using assms by (intro run_probe_set_offstage) blast
      obtain r h' where r: "run_probe_set (ta_repr_float ta) b (runs_for kind q) ps h = (r, h')" by fastforce
      show ?thesis
        using offstageD [OF o r] \<open>probes_for_target _ _ = _\<close>
        by (simp add: run_probes_def Pair Inr r forget_agent_def split: sum.split)
    qed (use Pair \<open>probes_for_target _ _ = _\<close> in \<open>simp add: run_probes_def forget_agent_def\<close>)
  qed
qed

lemma static_diagnosis_offstage: "offstage (agent_diagnose (static_diagnose isof m) rid now q)"
  by (simp add: offstage_def agent_diagnose_def static_diagnose_def Let_def)

lemma propose_offstage:
  assumes "fx_strategy fx = Some static_propose" "\<And>p t. offstage (fx_write_doc fx p t)"
  shows "offstage (propose_fix fx rid now d)"
proof -
  have o: "hx_current h' = hx_current h" "hx_log h' = hx_log h" if "write_fragility_doc fx d lead h = (r, h')"
    for lead h r h'
    using that offstageD [OF assms(2)] by (auto simp: write_fragility_doc_def)
  show ?thesis
    by (auto simp: offstage_def propose_fix_def propose_with_strategy_def assms(1) static_propose_def Let_def
        split: list.split fix_action.split prod.split sum.split dest: o)
qed

section \<open>A run of the static profile\<close>

text \<open>No strategy override, and a harness; no plugin, and a pause that waits in the world.\<close>

definition instrumented :: "'w overrides \<Rightarrow> 'w overrides" where
  "instrumented ov = ov\<lparr>ov_diagnoser := None, ov_fixer := None, ov_harness := True\<rparr>"

definition unplugged :: "('w \<Rightarrow> 'w) \<Rightarrow> 'w harness_state runtime \<Rightarrow> 'w harness_state runtime" where
  "unplugged sl rt = rt\<lparr>rt_plugin := None, rt_sleep := (\<lambda>h. h\<lparr>hx_world := sl (hx_world h)\<rparr>)\<rparr>"

definition static_runtime where
  "static_runtime clock fe c ov code sl rt =
     real_runtime clock fe (instrumented ov) (wired_agents fe Static_profile c (instrumented ov) code) (unplugged sl rt)"

lemma wired_tester_backend:
  "ta_prom (wired_tester fe pf c ov code) = Some b \<or> ta_from_env (wired_tester fe pf c ov code) = Inr b \<Longrightarrow>
    offstage (b q)"
  by (auto simp: wired_tester_def res_bind_Inr_iff in_world_offstage)

lemma static_fixer_offstage:
  "offstage (propose_fix (wi_fixer (wired_agents fe Static_profile c (instrumented ov) code)) rid now d)"
  by (rule propose_offstage)
    (simp_all add: wired_agents_def instrumented_def build_fixer_strategy_def in_world_offstage)

lemma static_diagnoser:
  "wi_diagnoser (wired_agents fe Static_profile c (instrumented ov) code) = static_diagnose (fe_iso fe) 5"
  by (simp add: wired_agents_def instrumented_def build_diagnoser_def)

lemma wired_tester_sel: "wi_tester (wired_agents fe pf c ov code) = wired_tester fe pf c ov code"
  by (simp add: wired_agents_def)

lemma instrumented_harness [simp]: "ov_harness (instrumented ov)"
  by (simp add: instrumented_def)

lemmas offstage_calls =
  security_offstage [unfolded offstage_def, rule_format] in_world_offstage [unfolded offstage_def, rule_format]
  static_diagnosis_offstage [unfolded offstage_def, rule_format] static_fixer_offstage [unfolded offstage_def, rule_format]

lemma tester_offstage:
  assumes "wi_tester wi = wired_tester fe pf c ov code"
  shows "hx_current (snd (forget_agent (tester_baseline (wi_tester wi) rid now q h))) = hx_current h \<and>
      hx_log (snd (forget_agent (tester_baseline (wi_tester wi) rid now q h))) = hx_log h"
    "hx_current (snd (forget_agent (tester_verify (wi_tester wi) rid now q h))) = hx_current h \<and>
      hx_log (snd (forget_agent (tester_verify (wi_tester wi) rid now q h))) = hx_log h"
  unfolding assms tester_baseline_def tester_verify_def
  by (rule run_probes_offstage, erule wired_tester_backend)+

interpretation static_profile: costless_runtime "static_runtime clock fe c ov code sl rt" quiet_log hx_log
  for clock fe c ov code sl rt
proof (unfold_locales, goal_cases)
  case (3 e)
  then show ?case by (rule quiet_spend)
qed (auto simp: static_runtime_def real_runtime_def instrument_runtime_def wired_runtime_def unplugged_def Let_def
    offstage_calls tester_offstage [OF wired_tester_sel] static_diagnoser quiet_log_def intro!: traced_quiet)

text \<open>C8: The static profile is free. A run over the agents that the factory wires for the profile \<open>static\<close> and
  instruments, with any backends, but with the strategies the profile selects and without a plugin, charges nothing:
  whatever the outside world answers and however the run ends, the spend on the record is zero and no invocation in
  the audit log carries a cost, a token count or a tool call.\<close>

theorem static_profile_costs_nothing:
  assumes "build_real_agents fe config ''static'' ov = Inr wi" "ov_diagnoser ov = None" "ov_fixer ov = None"
    and "ov_harness ov" "rt_plugin rt = None" "rt_sleep rt = (\<lambda>h. h\<lparr>hx_world := sl (hx_world h)\<rparr>)" "hx_log h = []"
    and "run (real_runtime clock fe ov wi rt) p db ops h = Returned s \<or>
      run (real_runtime clock fe ov wi rt) p db ops h = Raised x s"
  shows "er_spend_usd (rs_record s) = 0 \<and> list_all unbilled (hx_log (rs_env s))"
proof -
  have ov: "instrumented ov = ov" using assms(2-4) by (simp add: instrumented_def)
  have rt: "unplugged sl rt = rt" using assms(5,6) by (simp add: unplugged_def)
  obtain c code where "wi = wired_agents fe Static_profile c ov code"
    using assms(1) by (auto simp: build_real_agents_def profile_of_def Let_def res_bind_Inr_iff)
  then have "real_runtime clock fe ov wi rt = static_runtime clock fe c ov code sl rt"
    by (simp add: static_runtime_def ov rt)
  with static_profile.run_spends_nothing [of h clock fe c ov code sl rt p db ops s x] assms(7,8)
  show ?thesis by (simp add: quiet_log_def)
qed

text \<open>A world in which nothing is installed: no probe set, no cluster, no scanner, no provider.\<close>

definition offline_exn :: pyexn where
  "offline_exn = Exn ''RuntimeError'' ''offline''"

definition offline_model :: "'w live llm_env" where
  "offline_model =
     \<lparr>lm_complete = (\<lambda>msgs h. (Inl offline_exn, h)), lm_loads = (\<lambda>s. Inl s), lm_dumps = (\<lambda>v. []),
      lm_float = (\<lambda>v. Inl offline_exn)\<rparr>"

definition offline_world :: "'w factory_env" where
  "offline_world =
     \<lparr>fe_environ = (\<lambda>k. None),
      fe_repo = \<lparr>rp_root = [], rp_resolve = (\<lambda>p. p), rp_exists = (\<lambda>p. False), rp_is_dir = (\<lambda>p. False),
        rp_is_file = (\<lambda>p. False), rp_size = (\<lambda>p. 0), rp_text = (\<lambda>p. None), rp_glob = (\<lambda>g. []),
        rp_search = (\<lambda>r. Inl r)\<rparr>,
      fe_path = segments, fe_http = (\<lambda>url ps w. (Inl offline_exn, w)),
      fe_retry = \<lparr>re_retry_on = (\<lambda>x. False), re_draw = (\<lambda>x w. (0, w)), re_sleep = (\<lambda>x w. (Inr (), w))\<rparr>,
      fe_num = (\<lambda>v. Inl offline_exn), fe_repr_float = (\<lambda>x. []),
      fe_kube = (\<lambda>cfg ctx. \<lparr>kc_create = (\<lambda>g v ns k b w. (Inl (KE_api 404 []), w)),
        kc_get = (\<lambda>g v ns k n w. (Inl (KE_api 404 []), w)), kc_replace = (\<lambda>g v ns k n b w. (Inl (KE_api 404 []), w)),
        kc_delete = (\<lambda>g v ns k n w. (Inl (KE_api 404 []), w)), kc_list = (\<lambda>g v ns k s w. (Inr [], w)),
        kc_read_namespace = (\<lambda>ns w. (Inr None, w))\<rparr>),
      fe_process = \<lparr>px_spawn = (\<lambda>args w. (Inl offline_exn, w)), px_communicate = (\<lambda>t w. (Inl offline_exn, w)),
        px_kill = (\<lambda>w. w), px_repr_float = (\<lambda>x. [])\<rparr>,
      fe_scan = \<lparr>se_loads = (\<lambda>s. Inl s), se_dumps = (\<lambda>v. []), se_sha256 = (\<lambda>s. s), se_repr_float = (\<lambda>x. [])\<rparr>,
      fe_sleep = (\<lambda>n w. (Inr (), w)), fe_now = (\<lambda>w. 0), fe_rid = (\<lambda>w. ''run-0123456789ab''), fe_iso = (\<lambda>t. []),
      fe_sha256 = (\<lambda>s. s),
      fe_probe_dir = \<lparr>pd_file = (\<lambda>n. None), pd_path = (\<lambda>n. n), pd_stems = [], pd_validate = (\<lambda>v. Inl offline_exn)\<rparr>,
      fe_fmt3g = (\<lambda>x. []), fe_nan_stats = (\<lambda>m vs. \<lparr>ss_metric = m, ss_samples = [], ss_mean = 0, ss_p50 = 0, ss_p95 = 0,
        ss_p99 = 0, ss_stdev = 0\<rparr>), fe_is_nan = (\<lambda>s. False),
      fe_write_doc = (\<lambda>p t w. (Inl offline_exn, w)),
      fe_hypothesizer = (\<lambda>m b. \<lparr>ch_lm = offline_model, ch_max_turns = 20, ch_max_budget = Some 5, ch_prompt_base = [],
        ch_validate = (\<lambda>d. Inl offline_exn)\<rparr>),
      fe_diagnoser = (\<lambda>m b. \<lparr>cg_lm = offline_model, cg_max_turns = 30, cg_max_budget = Some 5, cg_system_prompt = [],
        cg_stamp = (\<lambda>t. 0), cg_now = 0, cg_repr_float = (\<lambda>x. []), cg_dumps_indent = (\<lambda>v. []),
        cg_dump_tester = (\<lambda>t. PNone), cg_dump_security = (\<lambda>t. PNone), cg_dump_timeline = (\<lambda>t. PNone),
        cg_validate = (\<lambda>d. Inl offline_exn)\<rparr>),
      fe_fixer = (\<lambda>m b. \<lparr>cf_lm = offline_model, cf_code = None, cf_max_turns = 40, cf_max_budget = Some 5,
        cf_system_prompt = [], cf_dump_hypothesis = (\<lambda>h. PNone), cf_dumps_indent = (\<lambda>v. []), cf_repr_float = (\<lambda>x. []),
        cf_write = (\<lambda>p t h. (Inl offline_exn, h))\<rparr>)\<rparr>"

definition fresh_harness :: "unit live" where
  "fresh_harness = \<lparr>hx_current = None, hx_log = [], hx_world = \<lparr>lw_baselines = [], lw_world = ()\<rparr>\<rparr>"

definition offline_runtime :: "'w live runtime" where
  "offline_runtime =
     unplugged (\<lambda>w. w) (mock_agents (\<lambda>h. ''run-0123456789ab'')
       \<lparr>rt_tester_baseline = (\<lambda>q h. (Inl offline_exn, h)), rt_tester_verify = (\<lambda>q h. (Inl offline_exn, h)),
        rt_security_baseline = (\<lambda>q h. (Inl offline_exn, h)), rt_security_verify = (\<lambda>q h. (Inl offline_exn, h)),
        rt_chaos_execute = (\<lambda>p h. (Inl offline_exn, h)), rt_chaos_cleanup = None, rt_namespace_annotations = None,
        rt_diagnose = (\<lambda>q h. (Inl offline_exn, h)), rt_propose_fix = (\<lambda>d h. (Inl offline_exn, h)), rt_plugin = None,
        rt_invocations = None, rt_now = (\<lambda>h. 0), rt_monotonic = (\<lambda>h. 0), rt_sleep = (\<lambda>h. h), rt_dump = (\<lambda>r. []),
        rt_sha1 = (\<lambda>s. s), rt_repo_rules = (\<lambda>h. Inr [])\<rparr>)"

definition static_agents :: "unit wired" where
  "static_agents =
     wired_agents offline_world Static_profile (config_from_env (\<lambda>k. None)) (no_overrides\<lparr>ov_harness := True\<rparr>) None"

lemma static_agents_built:
  "build_real_agents offline_world None ''static'' (no_overrides\<lparr>ov_harness := True\<rparr>) = Inr static_agents"
  by (simp add: build_real_agents_def profile_of_def wired_code_def no_overrides_def config_from_env_def offline_world_def
      static_agents_def set_text_def)

lemma static_profile_costs_nothing_witness:
  "case run (real_runtime (\<lambda>w. (1, w)) offline_world (no_overrides\<lparr>ov_harness := True\<rparr>) static_agents offline_runtime)
       demo_plan empty_db [] fresh_harness of
     Returned s \<Rightarrow> er_spend_usd (rs_record s) = 0 \<and> list_all unbilled (hx_log (rs_env s))
   | Raised x s \<Rightarrow> er_spend_usd (rs_record s) = 0 \<and> list_all unbilled (hx_log (rs_env s))
   | Hangs \<Rightarrow> False"
proof -
  let ?rt = "real_runtime (\<lambda>w. (1, w)) offline_world (no_overrides\<lparr>ov_harness := True\<rparr>) static_agents offline_runtime"
  have pl: "rt_plugin ?rt = None" "rt_plugin offline_runtime = None" "hx_log fresh_harness = []"
    by (simp_all add: real_runtime_def no_overrides_def instrument_runtime_def wired_runtime_def Let_def
        offline_runtime_def unplugged_def fresh_harness_def)
  have "run ?rt demo_plan empty_db [] fresh_harness \<noteq> Hangs"
    using run_complete [of True demo_plan empty_db "[]" ?rt fresh_harness] no_plugin_returns [OF pl(1), of demo_plan]
    by (auto simp: calm_def load_control_def empty_db_def no_signals_def)
  then show ?thesis
    using static_profile_costs_nothing [OF static_agents_built, where rt = offline_runtime and sl = "\<lambda>w. w" and p = demo_plan and db = empty_db
        and ops = "[]" and h = fresh_harness and clock = "\<lambda>w. (1, w)"] pl(2,3)
    by (auto simp: no_overrides_def offline_runtime_def unplugged_def split: run_result.split)
qed

end
