(* ===== verification/Registry.thy ===== *)
theory Registry
  imports Plugin_Host
begin

text \<open>
  Plugin discovery and lookup, \<open>plugins/registry.py\<close>. A Python class is the record \<open>plugin_class\<close>: \<open>pc_id\<close> is the
  identity of the class object, which is what \<open>is\<close> compares. Importing a module runs its registrations in order
  until one raises; a module of the local directory is executed anew by every discovery, so its classes are new
  objects each time (\<open>pr_runs\<close> counts the executions), whereas entry points and the first-party examples come from
  the interpreter's module cache. The warnings that are logged are not modelled.
\<close>

section \<open>Classes and the registry\<close>

record plugin_class =
  pc_id :: nat
  pc_class_name :: string
  pc_name :: "string option"
  pc_is_plugin :: bool
  pc_overrides :: "hook \<Rightarrow> bool"

record plugin_registry =
  pr_plugins :: "(string, plugin_class) dict"
  pr_discovered :: bool
  pr_runs :: nat

definition empty_registry :: plugin_registry where
  "empty_registry = \<lparr>pr_plugins = [], pr_discovered = False, pr_runs = 0\<rparr>"

definition plugin_error :: "string \<Rightarrow> pyexn" where
  "plugin_error m = Exn ''PluginError'' m"

definition unset_name :: "string \<Rightarrow> bool" where
  "unset_name n \<longleftrightarrow> n = [] \<or> n = ''base''"

definition register_plugin :: "plugin_class \<Rightarrow> plugin_registry \<Rightarrow> unit res \<times> plugin_registry" where
  "register_plugin c g =
     (if \<not> pc_is_plugin c
      then (Inl (plugin_error (''<class '' @ repr_str (pc_class_name c) @ ''> is not an ExperimentPlugin subclass'')), g)
      else case pc_name c of
        None \<Rightarrow> (Inl (plugin_error (pc_class_name c @ '' must set a unique class attribute `name` (got None)'')), g)
      | Some n \<Rightarrow>
          (if unset_name n
           then (Inl (plugin_error (pc_class_name c @ '' must set a unique class attribute `name` (got '' @ repr_str n @
             '')'')), g)
           else case dict_get (pr_plugins g) n of
             Some old \<Rightarrow>
               (if pc_id old \<noteq> pc_id c
                then (Inl (plugin_error (''plugin name '' @ repr_str n @ '' already registered to '' @ pc_class_name old @
                  ''; refusing to shadow it with '' @ pc_class_name c)), g)
                else (Inr (), g\<lparr>pr_plugins := dict_set n c (pr_plugins g)\<rparr>))
           | None \<Rightarrow> (Inr (), g\<lparr>pr_plugins := dict_set n c (pr_plugins g)\<rparr>)))"

section \<open>Sources of plugins\<close>

text \<open>What an entry point loads: a class, or some other object; loading may raise.\<close>

datatype loaded = Loaded_class plugin_class | Loaded_other

fun load_entry_points :: "loaded res list \<Rightarrow> plugin_registry \<Rightarrow> pyexn option \<times> plugin_registry" where
  "load_entry_points [] g = (None, g)"
| "load_entry_points (ep # eps) g =
     (case ep of
        Inl x \<Rightarrow> (if is_exception x then load_entry_points eps g else (Some x, g))
      | Inr Loaded_other \<Rightarrow> load_entry_points eps g
      | Inr (Loaded_class c) \<Rightarrow>
          (if pc_is_plugin c then load_entry_points eps (snd (register_plugin c g)) else load_entry_points eps g))"

text \<open>\<open>eps\<close> is what \<open>importlib.metadata\<close> gives for the group.\<close>

definition entry_points_step :: "loaded res list res \<Rightarrow> plugin_registry \<Rightarrow> pyexn option \<times> plugin_registry" where
  "entry_points_step eps g =
     (case eps of
        Inl x \<Rightarrow> (if is_exception x then (None, g) else (Some x, g))
      | Inr xs \<Rightarrow> load_entry_points xs g)"

text \<open>A module: the classes it registers, in order, and whether its body raises after them.\<close>

record plugin_module =
  pm_file :: string
  pm_registers :: "plugin_class list"
  pm_raises :: "pyexn option"

fun run_registrations :: "plugin_class list \<Rightarrow> plugin_registry \<Rightarrow> pyexn option \<times> plugin_registry" where
  "run_registrations [] g = (None, g)"
| "run_registrations (c # cs) g =
     (case register_plugin c g of
        (Inl x, g') \<Rightarrow> (Some x, g')
      | (Inr u, g') \<Rightarrow> run_registrations cs g')"

definition run_module :: "plugin_module \<Rightarrow> plugin_registry \<Rightarrow> pyexn option \<times> plugin_registry" where
  "run_module m g =
     (case run_registrations (pm_registers m) g of
        (Some x, g') \<Rightarrow> (Some x, g')
      | (None, g') \<Rightarrow> (pm_raises m, g'))"

text \<open>\<open>source run file\<close> is what executing the file the \<open>run\<close>-th time does, or \<open>None\<close> without a loader.\<close>

fun run_local_files ::
  "(nat \<Rightarrow> string \<Rightarrow> plugin_module option) \<Rightarrow> string list \<Rightarrow> plugin_registry \<Rightarrow> pyexn option \<times> plugin_registry" where
  "run_local_files source [] g = (None, g)"
| "run_local_files source (f # fs) g =
     (if prefix ''_'' f then run_local_files source fs g
      else case source (pr_runs g) f of
        None \<Rightarrow> run_local_files source fs g
      | Some m \<Rightarrow>
          (case run_module m (g\<lparr>pr_runs := Suc (pr_runs g)\<rparr>) of
             (Some x, g') \<Rightarrow> (if is_exception x then run_local_files source fs g' else (Some x, g'))
           | (None, g') \<Rightarrow> run_local_files source fs g'))"

record plugin_sources =
  so_examples :: "plugin_module"
  so_entry_points :: "loaded res list res"
  so_local_dir :: "string list option"
  so_local :: "nat \<Rightarrow> string \<Rightarrow> plugin_module option"

definition load_local_dir :: "plugin_sources \<Rightarrow> plugin_registry \<Rightarrow> pyexn option \<times> plugin_registry" where
  "load_local_dir so g =
     (case so_local_dir so of None \<Rightarrow> (None, g) | Some fs \<Rightarrow> run_local_files (so_local so) (sort fs) g)"

section \<open>Discovery and lookup\<close>

definition load_sources :: "plugin_sources \<Rightarrow> plugin_registry \<Rightarrow> pyexn option \<times> plugin_registry" where
  "load_sources so g =
     (case entry_points_step (so_entry_points so) g of
        (Some x, g1) \<Rightarrow> (Some x, g1)
      | (None, g1) \<Rightarrow>
          (case load_local_dir so g1 of
             (Some x, g2) \<Rightarrow> (Some x, g2) | (None, g2) \<Rightarrow> (None, g2\<lparr>pr_discovered := True\<rparr>)))"

text \<open>Importing the examples again finds them in the cache: it registers the same classes once more, or nothing.\<close>

definition discover_plugins :: "plugin_sources \<Rightarrow> bool \<Rightarrow> plugin_registry \<Rightarrow> pyexn option \<times> plugin_registry" where
  "discover_plugins so force g =
     (if pr_discovered g \<and> \<not> force then (None, g)
      else case run_module (so_examples so) g of
        (Some x, g1) \<Rightarrow> (if is_exception x then load_sources so g1 else (Some x, g1))
      | (None, g1) \<Rightarrow> load_sources so g1)"

definition plugin_names :: "plugin_registry \<Rightarrow> string list" where
  "plugin_names g = sort (map fst (pr_plugins g))"

definition available_plugins :: "plugin_sources \<Rightarrow> plugin_registry \<Rightarrow> string list res \<times> plugin_registry" where
  "available_plugins so g =
     (case discover_plugins so False g of (Some x, g') \<Rightarrow> (Inl x, g') | (None, g') \<Rightarrow> (Inr (plugin_names g'), g'))"

text \<open>The class whose instance \<open>load_plugin\<close> returns.\<close>

definition load_plugin :: "plugin_sources \<Rightarrow> string \<Rightarrow> plugin_registry \<Rightarrow> plugin_class res \<times> plugin_registry" where
  "load_plugin so name g =
     (case discover_plugins so False g of
        (Some x, g') \<Rightarrow> (Inl x, g')
      | (None, g') \<Rightarrow>
          (case dict_get (pr_plugins g') name of
             Some c \<Rightarrow> (Inr c, g')
           | None \<Rightarrow> (Inl (plugin_error (''unknown plugin '' @ repr_str name @ ''. Known: '' @
               (if pr_plugins g' = [] then ''(none)'' else repr_strs (plugin_names g')) @
               ''. Register via the 'chaos.plugins' entry-point group or drop a module in '' @
               ''${CHAOS_PLUGINS_DIR:-chaos_plugins}.'')), g')))"

section \<open>What the registry keeps\<close>

text \<open>\<open>grows g g'\<close>: every name of \<open>g\<close> still names the same class object, and well-formedness is kept.\<close>

definition entry_ok :: "string \<Rightarrow> plugin_class \<Rightarrow> bool" where
  "entry_ok n c \<longleftrightarrow> pc_is_plugin c \<and> pc_name c = Some n \<and> \<not> unset_name n"

definition registry_ok :: "plugin_registry \<Rightarrow> bool" where
  "registry_ok g \<longleftrightarrow> dict_wf (pr_plugins g) \<and> (\<forall>n c. dict_get (pr_plugins g) n = Some c \<longrightarrow> entry_ok n c)"

definition grows :: "plugin_registry \<Rightarrow> plugin_registry \<Rightarrow> bool" where
  "grows g g' \<longleftrightarrow>
     (registry_ok g \<longrightarrow> registry_ok g') \<and>
     (\<forall>n c. dict_get (pr_plugins g) n = Some c \<longrightarrow>
        (\<exists>c'. dict_get (pr_plugins g') n = Some c' \<and> pc_id c' = pc_id c))"

lemma grows_refl [simp]: "grows g g"
  by (simp add: grows_def)

lemma grows_trans [trans]: "grows g h \<Longrightarrow> grows h k \<Longrightarrow> grows g k"
  unfolding grows_def by metis

lemma grows_same: "pr_plugins g' = pr_plugins g \<Longrightarrow> grows g g'"
  by (simp add: grows_def registry_ok_def)

lemma grows_mark [simp]: "grows g (h\<lparr>pr_discovered := b\<rparr>) = grows g h" "grows (g\<lparr>pr_runs := n\<rparr>) h = grows g h"
  by (simp_all add: grows_def registry_ok_def)

lemma grows_set:
  assumes "entry_ok n c" "\<And>old. dict_get (pr_plugins g) n = Some old \<Longrightarrow> pc_id old = pc_id c"
  shows "grows g (g\<lparr>pr_plugins := dict_set n c (pr_plugins g)\<rparr>)"
  unfolding grows_def
proof (intro conjI allI impI)
  assume "registry_ok g"
  then show "registry_ok (g\<lparr>pr_plugins := dict_set n c (pr_plugins g)\<rparr>)"
    using assms(1) by (simp add: registry_ok_def dict_get_set dict_wf_set)
next
  fix m d
  assume "dict_get (pr_plugins g) m = Some d"
  then show "\<exists>c'. dict_get (pr_plugins (g\<lparr>pr_plugins := dict_set n c (pr_plugins g)\<rparr>)) m = Some c' \<and> pc_id c' = pc_id d"
    using assms(2) by (cases "m = n") (simp_all add: dict_get_set)
qed

lemma register_cases:
  assumes "register_plugin c g = (r, g')" "g' \<noteq> g"
  obtains n where "entry_ok n c" "\<And>old. dict_get (pr_plugins g) n = Some old \<Longrightarrow> pc_id old = pc_id c"
    "g' = g\<lparr>pr_plugins := dict_set n c (pr_plugins g)\<rparr>"
proof (cases "pc_name c")
  case None
  then show ?thesis using assms by (simp add: register_plugin_def split: if_splits)
next
  case (Some n)
  then show ?thesis
    using assms that [of n] by (simp add: register_plugin_def entry_ok_def split: if_splits option.splits)
qed

lemma register_grows: "register_plugin c g = (r, g') \<Longrightarrow> grows g g'"
  by (metis register_cases grows_set grows_refl)

lemma entry_points_grow: "load_entry_points eps g = (x, g') \<Longrightarrow> grows g g'"
proof (induction eps arbitrary: g)
  case (Cons ep eps)
  show ?case
  proof (cases "\<exists>c. ep = Inr (Loaded_class c) \<and> pc_is_plugin c")
    case True
    then obtain c where c: "ep = Inr (Loaded_class c)" "pc_is_plugin c" by blast
    obtain r g1 where r: "register_plugin c g = (r, g1)" by fastforce
    show ?thesis using register_grows [OF r] Cons.IH [of g1] Cons.prems c r by (auto intro: grows_trans)
  next
    case False
    then show ?thesis using Cons.IH Cons.prems by (auto split: sum.splits loaded.splits if_splits)
  qed
qed simp

lemma registrations_grow: "run_registrations cs g = (x, g') \<Longrightarrow> grows g g'"
proof (induction cs arbitrary: g)
  case (Cons c cs)
  obtain r g1 where r: "register_plugin c g = (r, g1)" by fastforce
  show ?case
    using register_grows [OF r] Cons.IH [of g1] Cons.prems r by (auto split: sum.splits intro: grows_trans)
qed simp

lemma module_grows: "run_module m g = (x, g') \<Longrightarrow> grows g g'"
  by (auto simp: run_module_def split: prod.splits option.splits dest: registrations_grow)

lemma local_files_grow: "run_local_files source fs g = (x, g') \<Longrightarrow> grows g g'"
proof (induction fs arbitrary: g)
  case (Cons f fs)
  show ?case
  proof (cases "prefix ''_'' f \<or> source (pr_runs g) f = None")
    case True
    then show ?thesis using Cons by (auto split: if_splits)
  next
    case False
    then obtain m where m: "source (pr_runs g) f = Some m" "\<not> prefix ''_'' f" by auto
    obtain y g1 where y: "run_module m (g\<lparr>pr_runs := Suc (pr_runs g)\<rparr>) = (y, g1)" by fastforce
    have "grows g g1" using module_grows [OF y] by simp
    then show ?thesis
      using Cons.IH [of g1] Cons.prems m y by (auto split: option.splits if_splits intro: grows_trans)
  qed
qed simp

lemma sources_grow: "load_sources so g = (x, g') \<Longrightarrow> grows g g'"
proof -
  assume a: "load_sources so g = (x, g')"
  obtain y g1 where y: "entry_points_step (so_entry_points so) g = (y, g1)" by fastforce
  have 1: "grows g g1"
    using y by (auto simp: entry_points_step_def split: sum.splits if_splits dest: entry_points_grow)
  obtain z g2 where z: "load_local_dir so g1 = (z, g2)" by fastforce
  have 2: "grows g1 g2"
    using z by (auto simp: load_local_dir_def split: option.splits dest: local_files_grow)
  show ?thesis
    using a 1 grows_trans [OF 1 2] by (auto simp: load_sources_def y z split: option.splits)
qed

lemma discover_grows: "discover_plugins so force g = (x, g') \<Longrightarrow> grows g g'"
proof -
  assume a: "discover_plugins so force g = (x, g')"
  obtain y g1 where y: "run_module (so_examples so) g = (y, g1)" by fastforce
  show ?thesis
    using a module_grows [OF y] sources_grow [of so g1]
    by (auto simp: discover_plugins_def y split: if_splits option.splits intro: grows_trans)
qed

lemma load_grows: "load_plugin so n g = (r, g') \<Longrightarrow> grows g g'"
  by (auto simp: load_plugin_def split: prod.splits option.splits dest: discover_grows)

section \<open>Any use of the registry\<close>

inductive registry_step :: "plugin_sources \<Rightarrow> plugin_registry \<Rightarrow> plugin_registry \<Rightarrow> bool" for so where
  step_register: "register_plugin c g = (r, g') \<Longrightarrow> registry_step so g g'"
| step_discover: "discover_plugins so force g = (x, g') \<Longrightarrow> registry_step so g g'"
| step_available: "available_plugins so g = (ns, g') \<Longrightarrow> registry_step so g g'"
| step_load: "load_plugin so n g = (c, g') \<Longrightarrow> registry_step so g g'"

lemma step_grows: "registry_step so g g' \<Longrightarrow> grows g g'"
  by (induction rule: registry_step.induct)
    (auto simp: available_plugins_def split: prod.splits option.splits
      dest: register_grows discover_grows load_grows)

lemma steps_grow: "(registry_step so)\<^sup>*\<^sup>* g g' \<Longrightarrow> grows g g'"
  by (induction rule: rtranclp_induct) (auto intro: grows_trans step_grows)

lemma empty_registry_ok: "registry_ok empty_registry"
  by (simp add: registry_ok_def empty_registry_def dict_get_def)

text \<open>C28: A plugin is never shadowed. Whatever is registered, discovered (once or by force, from examples, entry
  points and local modules, whether or not they raise) and loaded, in any order: each name in the registry is the
  declared name of a plugin class, neither empty nor the base class's; a name that was registered keeps its class
  for good; and \<open>load_plugin\<close> gives a class registered under the name it was asked for, or raises.\<close>

theorem plugin_never_shadowed:
  assumes "(registry_step so)\<^sup>*\<^sup>* empty_registry g" "(registry_step so)\<^sup>*\<^sup>* g g'"
  shows "registry_ok g' \<and>
    (\<forall>n. map_option pc_id (dict_get (pr_plugins g) n) \<in> {None, map_option pc_id (dict_get (pr_plugins g') n)}) \<and>
    (case load_plugin so n g' of
       (Inl x, h) \<Rightarrow> grows g' h
     | (Inr c, h) \<Rightarrow> entry_ok n c \<and> dict_get (pr_plugins h) n = Some c \<and> grows g' h)"
proof -
  have ok: "registry_ok g'"
    using steps_grow [OF assms(1)] steps_grow [OF assms(2)] empty_registry_ok by (auto simp: grows_def)
  obtain r h where l: "load_plugin so n g' = (r, h)" by fastforce
  have g: "grows g' h" by (rule load_grows [OF l])
  then have "entry_ok n c" if "dict_get (pr_plugins h) n = Some c" for c
    using ok that by (auto simp: grows_def registry_ok_def)
  then have "case load_plugin so n g' of
       (Inl x, h) \<Rightarrow> grows g' h
     | (Inr c, h) \<Rightarrow> entry_ok n c \<and> dict_get (pr_plugins h) n = Some c \<and> grows g' h"
    using l g by (auto simp: load_plugin_def split: prod.splits option.splits)
  moreover have "map_option pc_id (dict_get (pr_plugins g) m) \<in> {None, map_option pc_id (dict_get (pr_plugins g') m)}" for m
    using steps_grow [OF assms(2)] by (cases "dict_get (pr_plugins g) m") (fastforce simp: grows_def)+
  ultimately show ?thesis using ok by blast
qed

definition small_class :: "nat \<Rightarrow> plugin_class" where
  "small_class k = \<lparr>pc_id = k, pc_class_name = ''Shop'', pc_name = Some ''shop'', pc_is_plugin = True, pc_overrides = (\<lambda>h. False)\<rparr>"

text \<open>One local module that registers one class, a new object each time it is executed.\<close>

definition small_sources :: plugin_sources where
  "small_sources =
     \<lparr>so_examples = \<lparr>pm_file = [], pm_registers = [], pm_raises = None\<rparr>, so_entry_points = Inr [],
      so_local_dir = Some [''shop.py''],
      so_local = (\<lambda>k f. Some \<lparr>pm_file = f, pm_registers = [small_class k], pm_raises = None\<rparr>)\<rparr>"

lemma small_discovery:
  "discover_plugins small_sources False empty_registry =
     (None, \<lparr>pr_plugins = [(''shop'', small_class 0)], pr_discovered = True, pr_runs = 1\<rparr>)"
  "discover_plugins small_sources True \<lparr>pr_plugins = [(''shop'', small_class 0)], pr_discovered = True, pr_runs = 1\<rparr> =
     (None, \<lparr>pr_plugins = [(''shop'', small_class 0)], pr_discovered = True, pr_runs = 2\<rparr>)"
  by (simp_all add: discover_plugins_def small_sources_def run_module_def load_sources_def entry_points_step_def
      load_local_dir_def empty_registry_def register_plugin_def small_class_def dict_get_def plugin_error_def unset_name_def)

lemma plugin_never_shadowed_witness:
  "registry_ok \<lparr>pr_plugins = [(''shop'', small_class 0)], pr_discovered = True, pr_runs = 2\<rparr>"
proof -
  have "(registry_step small_sources)\<^sup>*\<^sup>* empty_registry
      \<lparr>pr_plugins = [(''shop'', small_class 0)], pr_discovered = True, pr_runs = 1\<rparr>"
    by (rule r_into_rtranclp, rule step_discover, rule small_discovery(1))
  moreover have "(registry_step small_sources)\<^sup>*\<^sup>* \<lparr>pr_plugins = [(''shop'', small_class 0)], pr_discovered = True, pr_runs = 1\<rparr>
      \<lparr>pr_plugins = [(''shop'', small_class 0)], pr_discovered = True, pr_runs = 2\<rparr>"
    by (rule r_into_rtranclp, rule step_discover, rule small_discovery(2))
  ultimately show ?thesis by (rule plugin_never_shadowed [THEN conjunct1])
qed

text \<open>A forced rediscovery executes a local module anew; its classes are other objects and are refused.\<close>

lemma rediscovery_refused:
  assumes "dict_get (pr_plugins g) n = Some c" "pc_is_plugin c'" "pc_name c' = Some n" "\<not> unset_name n" "pc_id c' \<noteq> pc_id c"
  shows "\<exists>m. register_plugin c' g = (Inl (plugin_error m), g)"
  using assms by (auto simp: register_plugin_def)

end
