(* ===== verification/Cli_Control.thy ===== *)
theory Cli_Control
  imports Loop_Correct Catalogue
begin

text \<open>
  The operator's commands of \<open>orchestrator/main.py\<close> that read or steer the store: \<open>list\<close>, \<open>show\<close>, \<open>abort\<close>, \<open>pause\<close>,
  \<open>resume\<close>, \<open>list-faults\<close>, \<open>validate\<close>. A command takes its parsed options and the store, and gives how it ends, what
  it prints (the texts handed to the console, markup included) and the store it leaves. The JSON form of a record,
  time stamps and the schema validation are arguments.
\<close>

section \<open>Outcomes and output\<close>

datatype cli_exit = Finished | Exit_code int | Bad_parameter string | Uncaught pyexn

datatype printed = Line string | Grid "string list" "string list list" | Json string

type_synonym 's command = "cli_exit \<times> printed list \<times> 's"

text \<open>The status the process ends with: \<open>typer.Exit\<close> carries its own, a usage error is 2, and the interpreter ends a
  process that an exception leaves with 1.\<close>

fun exit_status :: "cli_exit \<Rightarrow> int" where
  "exit_status Finished = 0"
| "exit_status (Exit_code n) = n"
| "exit_status (Bad_parameter m) = 2"
| "exit_status (Uncaught x) = 1"

record cli_env =
  ce_dump :: "experiment_record \<Rightarrow> string"
  ce_validate :: "string \<Rightarrow> experiment_record res"
  ce_json :: "experiment_record \<Rightarrow> string"
  ce_iso :: "int \<Rightarrow> string"

fun experiment_state_value :: "experiment_state \<Rightarrow> string" where
  "experiment_state_value INITIALIZING = ''initializing''"
| "experiment_state_value BASELINE = ''baseline''"
| "experiment_state_value BASELINE_OK = ''baseline_ok''"
| "experiment_state_value BASELINE_FAIL = ''baseline_fail''"
| "experiment_state_value INJECT = ''inject''"
| "experiment_state_value INJECTED = ''injected''"
| "experiment_state_value INJECT_FAILED = ''inject_failed''"
| "experiment_state_value VERIFY = ''verify''"
| "experiment_state_value STEADY = ''steady''"
| "experiment_state_value REGRESSED = ''regressed''"
| "experiment_state_value DIAGNOSE = ''diagnose''"
| "experiment_state_value DIAGNOSED = ''diagnosed''"
| "experiment_state_value PROPOSE_FIX = ''propose_fix''"
| "experiment_state_value FIX_PROPOSED = ''fix_proposed''"
| "experiment_state_value FIX_DECLINED = ''fix_declined''"
| "experiment_state_value PAUSED = ''paused''"
| "experiment_state_value ABORTED = ''aborted''"
| "experiment_state_value RECORDED = ''recorded''"

definition live_states :: "experiment_state list" where
  "live_states =
     [INITIALIZING, BASELINE, BASELINE_OK, BASELINE_FAIL, INJECT, INJECTED, INJECT_FAILED, VERIFY, REGRESSED,
      DIAGNOSE, DIAGNOSED, PROPOSE_FIX, PAUSED]"

section \<open>list, show\<close>

definition experiment_row :: "cli_env \<Rightarrow> experiment_record \<Rightarrow> string list" where
  "experiment_row ce r =
     [er_experiment_id r, experiment_state_value (er_state r), ce_iso ce (er_started_at r),
      (case er_abort_reason r of None \<Rightarrow> [] | Some a \<Rightarrow> abort_reason_value a), ''$'' @ fmt2 (er_spend_usd r)]"

definition cli_list :: "cli_env \<Rightarrow> int \<Rightarrow> database \<Rightarrow> database command" where
  "cli_list ce limit db =
     (case store_recent (ce_validate ce) limit db of
        Inl x \<Rightarrow> (Uncaught x, [], db)
      | Inr rs \<Rightarrow>
          (Finished, [Grid [''experiment_id'', ''state'', ''started_at'', ''abort_reason'', ''spend_usd'']
             (map (experiment_row ce) rs)], db))"

definition cli_show :: "cli_env \<Rightarrow> string \<Rightarrow> database \<Rightarrow> database command" where
  "cli_show ce k db =
     (case store_load (ce_validate ce) k db of
        Inl x \<Rightarrow> (Uncaught x, [], db)
      | Inr None \<Rightarrow> (Exit_code 1, [], db)
      | Inr (Some r) \<Rightarrow> (Finished, [Json (ce_json ce r)], db))"

section \<open>abort\<close>

definition no_experiment :: "string \<Rightarrow> printed" where
  "no_experiment k = Line (''[red]no experiment '' @ k @ '' in store[/red]'')"

definition force_abort :: "abort_reason \<Rightarrow> string \<Rightarrow> int \<Rightarrow> experiment_record \<Rightarrow> experiment_record" where
  "force_abort reason detail now r =
     r\<lparr>er_state := ABORTED, er_abort_reason := Some reason,
       er_abort_detail := (if detail = [] then ''forced abort'' else detail), er_finished_at := Some now\<rparr>"

definition abort_one ::
  "cli_env \<Rightarrow> abort_reason \<Rightarrow> string \<Rightarrow> bool \<Rightarrow> int \<Rightarrow> experiment_record \<Rightarrow> printed list \<times> database \<Rightarrow>
    printed list \<times> database" where
  "abort_one ce reason detail force now r acc =
     (case acc of (out, db) \<Rightarrow>
        if force
        then (out @ [Line (''force-aborted: '' @ er_experiment_id r @ '' (was '' @ experiment_state_value (er_state r) @ '')'')],
          store_save (ce_dump ce) (force_abort reason detail now r) db)
        else (out @ [Line (''abort requested: '' @ er_experiment_id r @ '' (currently '' @
            experiment_state_value (er_state r) @ ''); '' @
            ''the orchestrator will transition to ABORTED at the next state boundary'')],
          snd (request_abort (er_experiment_id r) reason db)))"

definition abort_targets ::
  "cli_env \<Rightarrow> abort_reason \<Rightarrow> string \<Rightarrow> bool \<Rightarrow> int \<Rightarrow> experiment_record list \<Rightarrow> database \<Rightarrow> database command" where
  "abort_targets ce reason detail force now rs db =
     (if rs = [] then (Finished, [Line ''[green]nothing to abort[/green]''], db)
      else (case foldl (\<lambda>acc r. abort_one ce reason detail force now r acc) ([], db) rs of
              (out, db') \<Rightarrow> (Finished, out, db')))"

definition cli_abort ::
  "cli_env \<Rightarrow> string option \<Rightarrow> bool \<Rightarrow> abort_reason \<Rightarrow> string \<Rightarrow> bool \<Rightarrow> int \<Rightarrow> database \<Rightarrow> database command" where
  "cli_abort ce key every reason detail force now db =
     (let k = (case key of None \<Rightarrow> [] | Some k \<Rightarrow> k) in
      if \<not> every \<and> k = [] then (Bad_parameter ''provide an experiment_id or pass --all'', [], db)
      else if every \<and> k \<noteq> [] then (Bad_parameter ''--all is mutually exclusive with an experiment_id'', [], db)
      else if every
      then (case find_live (ce_validate ce) live_states db of
              Inl x \<Rightarrow> (Uncaught x, [], db)
            | Inr rs \<Rightarrow> abort_targets ce reason detail force now rs db)
      else (case store_load (ce_validate ce) k db of
              Inl x \<Rightarrow> (Uncaught x, [], db)
            | Inr None \<Rightarrow> (Exit_code 1, [no_experiment k], db)
            | Inr (Some r) \<Rightarrow>
                if er_state r \<notin> set live_states
                then (Exit_code 0, [Line (''[yellow]'' @ k @ '' already in terminal state '' @
                  experiment_state_value (er_state r) @ ''[/yellow]'')], db)
                else abort_targets ce reason detail force now [r] db))"

section \<open>pause, resume\<close>

definition cli_pause :: "cli_env \<Rightarrow> string \<Rightarrow> database \<Rightarrow> database command" where
  "cli_pause ce k db =
     (case store_load (ce_validate ce) k db of
        Inl x \<Rightarrow> (Uncaught x, [], db)
      | Inr None \<Rightarrow> (Exit_code 1, [no_experiment k], db)
      | Inr (Some r) \<Rightarrow>
          if er_state r \<notin> set live_states
          then (Finished, [Line (''[yellow]'' @ k @ '' is in terminal state '' @ experiment_state_value (er_state r) @
            ''; pause is a no-op[/yellow]'')], db)
          else (case set_pause k True db of
                  (ok, db') \<Rightarrow>
                    if \<not> ok then (Exit_code 1, [Line (''[red]failed to set pause flag on '' @ k @ ''[/red]'')], db')
                    else (Finished, [Line (''pause requested: '' @ k @ '' (currently '' @
                      experiment_state_value (er_state r) @ ''); '' @
                      ''the orchestrator will pause at the next state boundary'')], db')))"

definition py_bool :: "bool \<Rightarrow> string" where
  "py_bool b = (if b then ''True'' else ''False'')"

definition cli_resume :: "cli_env \<Rightarrow> string \<Rightarrow> database \<Rightarrow> database command" where
  "cli_resume ce k db =
     (case store_load (ce_validate ce) k db of
        Inl x \<Rightarrow> (Uncaught x, [], db)
      | Inr None \<Rightarrow> (Exit_code 1, [no_experiment k], db)
      | Inr (Some r) \<Rightarrow>
          let paused = cs_pause_requested (load_control k db) in
          if \<not> paused \<and> er_state r \<noteq> PAUSED
          then (Finished, [Line (''[yellow]'' @ k @ '' is not paused (state='' @ experiment_state_value (er_state r) @
            '', pause_requested='' @ py_bool paused @ ''); nothing to resume[/yellow]'')], db)
          else (case set_pause k False db of
                  (ok, db') \<Rightarrow>
                    if \<not> ok then (Exit_code 1, [Line (''[red]failed to clear pause flag on '' @ k @ ''[/red]'')], db')
                    else (Finished, [Line (''pause cleared: '' @ k)], db')))"

section \<open>list-faults, validate\<close>

definition fault_row :: "string \<Rightarrow> fault_definition \<Rightarrow> string list" where
  "fault_row n f =
     [n, fault_category_value (fd_category f), (if fd_requires_approval f then ''yes'' else ''no''),
      (case fd_chaos_mesh_kind f of None \<Rightarrow> ''custom'' | Some k \<Rightarrow> if k = [] then ''custom'' else k), fd_description f]"

definition fault_shown :: "string option \<Rightarrow> bool option \<Rightarrow> fault_definition \<Rightarrow> bool" where
  "fault_shown category approval f =
     (\<not> (str_set category \<and> category \<noteq> Some (fault_category_value (fd_category f))) \<and>
      \<not> (approval \<noteq> None \<and> approval \<noteq> Some (fd_requires_approval f)))"

definition cli_list_faults :: "string option \<Rightarrow> bool option \<Rightarrow> printed list" where
  "cli_list_faults category approval =
     [Grid [''name'', ''category'', ''approval'', ''chaos_mesh_kind'', ''description'']
       (concat (map (\<lambda>n. case dict_get CATALOGUE n of
            None \<Rightarrow> []
          | Some f \<Rightarrow> if fault_shown category approval f then [fault_row n f] else [])
          (sort (map fst CATALOGUE))))]"

text \<open>\<open>plan\<close> is the plan read from the file, or the text of the validation error.\<close>

definition cli_validate :: "string + experiment_plan \<Rightarrow> bool \<Rightarrow> cli_exit \<times> printed list" where
  "cli_validate plan skip_safety =
     (case plan of
        Inl e \<Rightarrow> (Exit_code 1, [Line (''[red]schema validation failed:[/red] '' @ e)])
      | Inr p \<Rightarrow>
          let names = map fs_name (ep_faults p);
              missing = filter (\<lambda>n. dict_get CATALOGUE n = None) names in
          if missing \<noteq> [] then (Exit_code 1, [Line (''[red]unknown fault(s) in catalogue:[/red] '' @ repr_strs missing)])
          else case (if skip_safety then None else check_cluster_allowed (ep_safety p)) of
            Some f \<Rightarrow> (Exit_code 1, [Line (''[red]cluster denied:[/red] '' @ gf_detail f)])
          | None \<Rightarrow>
              (case (if skip_safety then None else check_blast_radius p) of
                 Some f \<Rightarrow> (Exit_code 1, [Line (''[red]blast radius:[/red] '' @ gf_detail f)])
               | None \<Rightarrow>
                   (Finished,
                    [Line (''[green]ok[/green] - '' @ ep_experiment_id p @ '' ('' @ ep_title p @ '')''),
                     Line (''  faults: '' @ repr_strs names),
                     Line (''  target: '' @ ep_target_app p @ '' in '' @ sc_namespace (ep_safety p) @ ''@'' @
                       sc_cluster_context (ep_safety p))])))"

end
