(* ===== verification/Catalogue_Verify.thy ===== *)
theory Catalogue_Verify
  imports Hardware_Agent Cli_Control
begin

text \<open>
  \<open>chaos catalogue verify\<close> of \<open>orchestrator/main.py\<close>: every hardware fault of the catalogue is rendered, injected and
  cleaned up by the hardware agent against the simulator. The plan's default identifier and creation time, the
  printing of a float and \<open>float()\<close>, and the iteration order of a set of names are arguments.
\<close>

record verify_env =
  ve_experiment_id :: string
  ve_now :: int
  ve_repr_float :: "real \<Rightarrow> string"
  ve_to_float :: "pyval \<Rightarrow> real res"
  ve_set_order :: "string list \<Rightarrow> string list"

definition verify_fault :: "string \<Rightarrow> fault_definition \<Rightarrow> fault_spec" where
  "verify_fault n d =
     \<lparr>fs_category = fd_category d, fs_name = n, fs_target_selector = [(''device'', ''dut-1'')], fs_parameters = [],
      fs_duration_seconds = 2, fs_requires_approval = False, fs_rationale = ''catalogue verify for '' @ n,
      fs_hypothesis_id = None\<rparr>"

definition verify_plan :: "verify_env \<Rightarrow> string \<Rightarrow> fault_definition \<Rightarrow> experiment_plan" where
  "verify_plan ve n d =
     \<lparr>ep_experiment_id = ve_experiment_id ve, ep_title = ''catalogue-verify::'' @ n, ep_target_app = ''neoowl-sim'',
      ep_target_repo = None, ep_faults = [verify_fault n d],
      ep_safety = \<lparr>sc_cluster_context = ''bench-hardware'', sc_namespace = ''bench'', sc_max_pods_affected = 1,
        sc_max_duration_seconds = 300, sc_allow_multi_fault = False, sc_require_namespace_annotation = False,
        sc_forbidden_cluster_substrings = default_forbidden\<rparr>,
      ep_budget = \<lparr>tb_soft_cap_usd = 2, tb_hard_cap_usd = 10, tb_wall_clock_seconds = 1800\<rparr>,
      ep_quiet_window_pre_seconds = 60, ep_quiet_window_post_seconds = 60, ep_created_at = ve_now ve,
      ep_suppress = [], ep_plugin = None, ep_plugin_config = []\<rparr>"

text \<open>Passed, and the detail; the simulator that was left behind is inspected for leaks.\<close>

definition judge_verify :: "chaos_timeline \<Rightarrow> simulator \<Rightarrow> bool \<times> string" where
  "judge_verify t s =
     (if \<not> ct_success t
      then (False, case ct_error t of None \<Rightarrow> ''unknown failure'' | Some m \<Rightarrow> if m = [] then ''unknown failure'' else m)
      else if sm_active_faults s \<noteq> []
      then (False, ''leak: '' @ nat_str (length (sm_active_faults s)) @ '' active fault(s) after cleanup'')
      else (True, ''ok''))"

definition verify_one :: "verify_env \<Rightarrow> string \<Rightarrow> (bool \<times> string) res" where
  "verify_one ve n =
     (case dict_get CATALOGUE n of
        None \<Rightarrow> Inl (Exn ''KeyError'' (repr_str n))
      | Some d \<Rightarrow>
          (if \<not> fault_spec_ok (verify_fault n d) \<or> \<not> experiment_plan_ok (verify_plan ve n d)
           then Inl (validation_error ''ExperimentPlan'')
           else case hw_execute (sim_agent (\<lambda>s. Inr ()) default_hw_config (ve_repr_float ve) (ve_to_float ve))
               (verify_plan ve n d) new_simulator of
             (Inl x, s) \<Rightarrow> Inl x
           | (Inr t, s) \<Rightarrow> Inr (judge_verify t s)))"

definition hardware_categories :: "string list" where
  "hardware_categories = [''rf'', ''power'', ''sensor'', ''time'']"

definition hardware_faults :: "string list" where
  "hardware_faults =
     sort (map fst (filter (\<lambda>(n, d). fd_chaos_mesh_kind d = None \<and>
       fault_category_value (fd_category d) \<in> set hardware_categories) CATALOGUE))"

definition wanted_names :: "string \<Rightarrow> string list" where
  "wanted_names only = remdups (filter (\<lambda>n. n \<noteq> []) (map strip (split_char CHR '','' only)))"

definition verify_row :: "string \<Rightarrow> bool \<times> string \<Rightarrow> string list" where
  "verify_row n v =
     [n, (case dict_get CATALOGUE n of None \<Rightarrow> [] | Some d \<Rightarrow> fault_category_value (fd_category d)),
      (if fst v then ''[green]pass[/green]'' else ''[red]fail[/red]''), snd v]"

definition verify_report :: "string list \<Rightarrow> (bool \<times> string) list \<Rightarrow> cli_exit \<times> printed list" where
  "verify_report candidates vs =
     (let table = Grid [''fault'', ''category'', ''result'', ''detail''] (map2 verify_row candidates vs);
          failures = filter (\<lambda>v. \<not> fst v) vs
      in if failures \<noteq> []
         then (Exit_code 1, [table, Line (''[red]'' @ nat_str (length failures) @ '' fault(s) failed verification[/red]'')])
         else (Finished, [table, Line (''[green]ok[/green] - '' @ nat_str (length candidates) @
           '' hardware faults verified end-to-end'')]))"

definition cli_catalogue_verify :: "verify_env \<Rightarrow> string option \<Rightarrow> cli_exit \<times> printed list" where
  "cli_catalogue_verify ve only =
     (let wanted = (case only of None \<Rightarrow> [] | Some t \<Rightarrow> wanted_names t);
          known = filter (\<lambda>n. dict_has CATALOGUE n) (ve_set_order ve wanted);
          missing = filter (\<lambda>n. n \<notin> set known) wanted
      in if str_set only \<and> missing \<noteq> []
         then (Exit_code 1, [Line (''[red]unknown fault names:[/red] '' @ repr_strs (sort missing))])
         else (let candidates = (if str_set only then known else hardware_faults) in
               case res_map (verify_one ve) candidates of
                 Inl x \<Rightarrow> (Uncaught x, [])
               | Inr vs \<Rightarrow> verify_report candidates vs))"

section \<open>The whole catalogue passes\<close>

definition plain_env :: "verify_env \<Rightarrow> bool" where
  "plain_env ve \<longleftrightarrow> experiment_id_ok (ve_experiment_id ve) \<and> (\<exists>r. ve_to_float ve (PFloat 0) = Inr r)"

abbreviation verify_agent :: "verify_env \<Rightarrow> simulator hw_agent" where
  "verify_agent ve \<equiv> sim_agent (\<lambda>s. Inr ()) default_hw_config (ve_repr_float ve) (ve_to_float ve)"

lemma verify_fields [simp]:
  "ep_faults (verify_plan ve n d) = [verify_fault n d]" "fs_name (verify_fault n d) = n"
  "fs_parameters (verify_fault n d) = []" "ep_quiet_window_pre_seconds (verify_plan ve n d) = 60"
  "ep_quiet_window_post_seconds (verify_plan ve n d) = 60" "ep_experiment_id (verify_plan ve n d) = ve_experiment_id ve"
  by (simp_all add: verify_plan_def verify_fault_def)

lemma verify_preflight:
  "in_catalogue n \<Longrightarrow> hw_preflight (verify_plan ve n d) = None \<longleftrightarrow> has_hardware_renderer n"
  by (simp add: hw_preflight_def)

lemma verify_emission: "check_emission_compliance (verify_plan ve n d) default_hw_config = Inr None"
  by (simp add: check_emission_compliance_def default_hw_config_def emission_verdict_def covers_ism_def int_param_def
      param_def dict_get_def)

lemma verify_gates:
  "run_all_gates (verify_plan ve n d) simulated_io default_hw_config new_simulator = (Inr None, new_simulator)"
proof -
  have "sm_device new_simulator = \<lparr>di_serial = ''sim-DUT-001'', di_firmware_version = ''0.1.0-sim'',
        di_hardware_revision = ''rev-A'', di_mode = ''BENCH''\<rparr>"
    by (simp add: new_simulator_def)
  moreover have "hg_expected_serial default_hw_config = None" "hg_expected_geofence_tag default_hw_config = None"
    by (simp_all add: default_hw_config_def)
  ultimately show ?thesis
    by (simp add: run_all_gates_def check_bench_mode_def check_geofence_def check_thermal_headroom_def
        check_battery_headroom_def read_gate_def sim_device_info_def bench_verdict_def sim_read
        thermal_verdict_def battery_verdict_def new_simulator_samples thermal_max_c_def battery_min_soc_def verify_emission)
qed

text \<open>With default parameters every renderer of the four registries gives a fault.\<close>

lemma default_int_fields: "fs_parameters f = [] \<Longrightarrow> \<exists>d. int_fields f fds = Inr d"
  by (induction fds) (auto simp: int_param_def param_def dict_get_def)

lemma default_renders:
  assumes "reg \<in> {RF_RENDERERS, POWER_RENDERERS, SENSOR_RENDERERS, TIME_RENDERERS}" "(n, r) \<in> set reg"
    and "fs_parameters f = []" "fl (PFloat 0) = Inr x"
  shows "\<exists>h. r fr fl f = Inr h"
  using assms default_int_fields [OF assms(3)]
  by (auto simp: hw_registries hw_renderers res_bind_Inr_iff int_param_def param_def dict_get_def)

lemma verify_renders:
  assumes "has_hardware_renderer (fs_name f)" "fs_parameters f = []" "fl (PFloat 0) = Inr x"
  shows "\<exists>h. render_hardware_fault fr fl f = Inr h"
proof -
  have one: "\<exists>h. render_from what reg fr fl f = Inr h"
    if m: "reg \<in> {RF_RENDERERS, POWER_RENDERERS, SENSOR_RENDERERS, TIME_RENDERERS}" and k: "dict_has reg (fs_name f)" for what reg
  proof -
    obtain r where r: "dict_get reg (fs_name f) = Some r" using k by (auto simp: dict_has_iff)
    have "(fs_name f, r) \<in> set reg" using r by (simp add: dict_get_def map_of_SomeD)
    have "\<exists>h. r fr fl f = Inr h" by (rule default_renders [where x = x]) (use m \<open>(fs_name f, r) \<in> set reg\<close> assms(2,3) in auto)
    then show ?thesis by (simp add: render_from_def r)
  qed
  show ?thesis using assms(1) one by (auto simp: has_hardware_renderer_def render_hardware_fault_def)
qed

lemma verify_fault_run:
  assumes "has_hardware_renderer n" "ve_to_float ve (PFloat 0) = Inr x"
  shows "\<exists>t s. hw_execute (verify_agent ve) (verify_plan ve n d) new_simulator = (Inr t, s) \<and>
    ct_success t \<and> sm_active_faults s = [] \<and> map te_event (ct_events t) = [TE_scheduled, TE_started, TE_cleaned_up]"
proof -
  obtain h where h: "render_hardware_fault (ve_repr_float ve) (ve_to_float ve) (verify_fault n d) = Inr h"
    using verify_renders [of "verify_fault n d" "ve_to_float ve" x "ve_repr_float ve"] assms by auto
  have "hw_preflight (verify_plan ve n d) = None"
    using verify_preflight hardware_names_catalogued assms(1) by blast
  moreover have "sm_active_faults new_simulator = []" "sm_inject_hook new_simulator = None"
    by (simp_all add: new_simulator_def)
  ultimately show ?thesis
    by (auto simp: hw_execute_def verify_gates hw_sequence_def hw_quiet_def run_hw_fault_def h sim_inject_fault_def
        sim_cleanup_def Let_def dict_pop_def power_counters_def hw_event_def add_event_def)
qed

lemma judge_exact: "judge_verify t s = (True, ''ok'') \<longleftrightarrow> ct_success t \<and> sm_active_faults s = []"
  and judge_passes: "fst (judge_verify t s) \<longleftrightarrow> ct_success t \<and> sm_active_faults s = []"
  by (auto simp: judge_verify_def)

lemma verify_refused:
  assumes "in_catalogue n" "\<not> has_hardware_renderer n"
  shows "\<exists>t. hw_execute (verify_agent ve) (verify_plan ve n d) new_simulator = (Inr t, new_simulator) \<and>
    \<not> fst (judge_verify t new_simulator)"
proof -
  obtain m where "hw_preflight (verify_plan ve n d) = Some m"
    using verify_preflight [OF assms(1), of ve d] assms(2) by (cases "hw_preflight (verify_plan ve n d)") auto
  then show ?thesis by (simp add: hw_execute_def hw_fail_def judge_verify_def)
qed


lemma catalogue_specs_ok: "dict_get CATALOGUE n = Some d \<Longrightarrow> fault_spec_ok (verify_fault n d)"
proof -
  assume "dict_get CATALOGUE n = Some d"
  then have "n \<in> set (map fst CATALOGUE)" by (force simp: dict_get_def dest: map_of_SomeD)
  moreover have "list_all (\<lambda>n. 1 \<le> length n \<and> length n \<le> 128) (map fst CATALOGUE)"
    unfolding catalogue_keys by simp
  ultimately show ?thesis by (auto simp: fault_spec_ok_def verify_fault_def list_all_iff)
qed

lemma verify_plan_ok:
  "fault_spec_ok (verify_fault n d) \<Longrightarrow> experiment_id_ok (ve_experiment_id ve) \<Longrightarrow> experiment_plan_ok (verify_plan ve n d)"
  by (simp add: experiment_plan_ok_def) (simp add: verify_plan_def safety_constraints_ok_def)

lemma verify_one_iff:
  assumes "plain_env ve" "in_catalogue n"
  shows "\<exists>v. verify_one ve n = Inr v \<and> (fst v \<longleftrightarrow> has_hardware_renderer n) \<and> (fst v \<longrightarrow> v = (True, ''ok''))"
proof -
  obtain d where d: "dict_get CATALOGUE n = Some d"
    using assms(2) by (auto simp: in_catalogue_def dict_has_iff)
  obtain r where r: "ve_to_float ve (PFloat 0) = Inr r" using assms(1) by (auto simp: plain_env_def)
  have ok: "fault_spec_ok (verify_fault n d)" "experiment_plan_ok (verify_plan ve n d)"
    using catalogue_specs_ok [OF d] verify_plan_ok assms(1) by (auto simp: plain_env_def)
  show ?thesis
  proof (cases "has_hardware_renderer n")
    case True
    then show ?thesis using verify_fault_run [OF True r, of d] by (auto simp: verify_one_def d ok judge_exact [THEN iffD2])
  next
    case False
    then show ?thesis using verify_refused [OF assms(2) False, of ve d] by (force simp: verify_one_def d ok)
  qed
qed

lemma hardware_faults_eval:
  "hardware_faults =
     [''ble.advertising_flood'', ''lora.jam'', ''power.brownout'', ''power.cut'', ''power.ramp'', ''sensor.dropout'',
      ''sensor.stuck'', ''time.clock.drift'', ''time.ntp.cut'', ''wifi.deauth'', ''wifi.jam'']"
  by code_simp

lemma hardware_faults_set: "set hardware_faults = {n. has_hardware_renderer n}"
  by (simp only: hardware_faults_eval has_hardware_renderer_iff hardware_names_eval Collect_mem_eq) auto

text \<open>C26: The catalogue, the renderers and the simulator agree. The default run of \<open>chaos catalogue verify\<close> goes over
  exactly the faults that have a hardware renderer, each once and in order of their names; on the simulator each of
  them goes through its three events (scheduled, started, cleaned up), the agent reports success and no fault is
  left active; the command prints one passing row per fault and succeeds. A fault is judged as passed exactly when the
  agent reported success and the simulator holds no active fault; when it is named in a catalogue run, it passes exactly
  when it has a hardware renderer. Assumed: the plan's default identifier satisfies its contract and \<open>float(0.0)\<close> does
  not raise.\<close>

theorem catalogue_verifies:
  assumes "experiment_id_ok (ve_experiment_id ve)" "ve_to_float ve (PFloat 0) = Inr r"
  shows "cli_catalogue_verify ve None =
      (Finished,
       [Grid [''fault'', ''category'', ''result'', ''detail'']
          (map (\<lambda>n. [n, fault_category_value (fd_category (the (dict_get CATALOGUE n))), ''[green]pass[/green]'', ''ok''])
             hardware_faults),
        Line (''[green]ok[/green] - '' @ nat_str (length hardware_faults) @ '' hardware faults verified end-to-end'')]) \<and>
    set hardware_faults = {n. has_hardware_renderer n} \<and> distinct hardware_faults \<and> sorted hardware_faults \<and>
    (\<forall>n d. has_hardware_renderer n \<and> dict_get CATALOGUE n = Some d \<longrightarrow>
       (\<exists>t s. hw_execute (verify_agent ve) (verify_plan ve n d) new_simulator = (Inr t, s) \<and> ct_success t \<and>
          sm_active_faults s = [] \<and> map te_event (ct_events t) = [TE_scheduled, TE_started, TE_cleaned_up])) \<and>
    (\<forall>t s. fst (judge_verify t s) \<longleftrightarrow> ct_success t \<and> sm_active_faults s = []) \<and>
    list_all (\<lambda>n. \<exists>v. verify_one ve n = Inr v \<and> (fst v \<longleftrightarrow> has_hardware_renderer n)) (map fst CATALOGUE)"
proof -
  have e: "plain_env ve" using assms by (auto simp: plain_env_def)
  have one: "verify_one ve n = Inr (True, ''ok'')" "\<exists>d. dict_get CATALOGUE n = Some d" if "n \<in> set hardware_faults" for n
  proof -
    have h: "has_hardware_renderer n" using that by (simp add: hardware_faults_set)
    with verify_one_iff [OF e hardware_names_catalogued] show "verify_one ve n = Inr (True, ''ok'')" by fastforce
    from hardware_names_catalogued [OF h] show "\<exists>d. dict_get CATALOGUE n = Some d"
      by (auto simp: in_catalogue_def dict_has_iff)
  qed
  let ?vs = "map (\<lambda>n. (True, ''ok'')) hardware_faults"
  have m: "res_map (verify_one ve) hardware_faults = Inr ?vs"
    using one by (simp add: res_map_Inr_iff list_all2_map2 list_all2_same)
  have row: "verify_row n (True, ''ok'') =
      [n, fault_category_value (fd_category (the (dict_get CATALOGUE n))), ''[green]pass[/green]'', ''ok'']"
    if "n \<in> set hardware_faults" for n
    using one(2) [OF that] by (auto simp: verify_row_def)
  have rows: "map2 verify_row hardware_faults ?vs =
      map (\<lambda>n. [n, fault_category_value (fd_category (the (dict_get CATALOGUE n))), ''[green]pass[/green]'', ''ok''])
        hardware_faults"
    using row by (intro nth_equalityI) simp_all
  have none: "filter (\<lambda>v. \<not> fst v) ?vs = []" by (simp add: filter_empty_conv)
  have run: "\<exists>t s. hw_execute (verify_agent ve) (verify_plan ve n d) new_simulator = (Inr t, s) \<and> ct_success t \<and>
      sm_active_faults s = [] \<and> map te_event (ct_events t) = [TE_scheduled, TE_started, TE_cleaned_up]"
    if "has_hardware_renderer n" for n d
    using verify_fault_run [OF that assms(2), of d] by blast
  have cli: "cli_catalogue_verify ve None = verify_report hardware_faults ?vs"
    using m by (simp add: cli_catalogue_verify_def Let_def str_set_def)
  have all: "list_all (\<lambda>n. \<exists>v. verify_one ve n = Inr v \<and> (fst v \<longleftrightarrow> has_hardware_renderer n)) (map fst CATALOGUE)"
    using verify_one_iff [OF e] by (force simp: list_all_iff in_catalogue_iff)
  have ds: "distinct hardware_faults \<and> sorted hardware_faults" by code_simp
  show ?thesis
    using run all ds by (simp add: cli verify_report_def Let_def rows none hardware_faults_set judge_passes)
qed

definition small_verify :: verify_env where
  "small_verify =
     \<lparr>ve_experiment_id = ''exp-0123456789ab'', ve_now = 0, ve_repr_float = (\<lambda>x. []), ve_to_float = (\<lambda>v. Inr 0),
      ve_set_order = (\<lambda>x. x)\<rparr>"

lemma catalogue_verifies_witness:
  "fst (cli_catalogue_verify small_verify None) = Finished \<and> length hardware_faults = 11"
proof -
  have "experiment_id_ok (ve_experiment_id small_verify)" "ve_to_float small_verify (PFloat 0) = Inr 0"
    by (simp_all add: small_verify_def) code_simp
  from catalogue_verifies [OF this] show ?thesis by (simp add: hardware_faults_eval)
qed

end
