(* ===== verification/Cli_Control_Props.thy ===== *)
theory Cli_Control_Props
  imports Cli_Control
begin

text \<open>
  The operator's commands against the orchestrator: no state a run can be seen in escapes them, an abort of everything
  reaches exactly the running experiments, a pause can be taken back without a trace, a plan that validates is not
  refused at the gates, and an abort that comes after the last poll is lost.
\<close>

section \<open>Live states\<close>

lemma exp_step_live:
  "exp_step st st' \<Longrightarrow> st \<in> set live_states \<or> terminal st \<Longrightarrow> st' \<in> set live_states \<or> terminal st'"
  by (auto simp: exp_step_simps live_states_def)

lemma protocol_live:
  assumes "protocol (INITIALIZING, False) evs q"
  shows "(fst q \<in> set live_states \<or> terminal (fst q)) \<and>
    (\<forall>st. Ev_save st \<in> set evs \<longrightarrow> st \<in> set live_states \<or> terminal st)"
  using assms
proof (induction "(INITIALIZING, False)" evs q rule: protocol.induct)
  case (protocol_Nil)
  then show ?case by (simp add: live_states_def)
next
  case (protocol_snoc evs q ev r)
  from protocol_snoc(3) show ?case
    using protocol_snoc(2) exp_step_live by cases (auto simp: live_states_def)
qed

text \<open>The operator can reach every run: whatever state a run persists, in any order of events, it is one of the states
  that abort, pause and resume act on, or the run has ended (ABORTED or RECORDED).\<close>

theorem saved_states_reachable:
  assumes "Ev_save st \<in> set (run_log (run rt p db ops e))"
  shows "st \<in> set live_states \<or> st = ABORTED \<or> st = RECORDED"
proof -
  have "run rt p db ops e \<noteq> Hangs" using assms by auto
  then obtain q rest where "run_log (run rt p db ops e) = Ev_save INITIALIZING # rest"
    and "protocol (INITIALIZING, False) rest q"
    using run_log_follows [of rt p db ops e] by (auto simp: follows_def)
  with assms protocol_live have "st \<in> set live_states \<or> terminal st" by (fastforce simp: live_states_def)
  then show ?thesis by (cases st) auto
qed

theorem saved_states_reachable_witness: "INJECTED \<in> set live_states \<or> INJECTED = ABORTED \<or> INJECTED = RECORDED"
  by (rule saved_states_reachable [of _ demo_runtime demo_plan empty_db "[]" "()"])
    (simp add: demo_run_log demo_log_def)

section \<open>abort --all\<close>

definition mark_abort :: "abort_reason \<Rightarrow> exp_row \<Rightarrow> exp_row" where
  "mark_abort reason row = row\<lparr>rw_abort_requested := True, rw_abort_reason_requested := Some reason\<rparr>"

definition rows_agree :: "(string \<Rightarrow> experiment_record res) \<Rightarrow> database \<Rightarrow> bool" where
  "rows_agree validate db \<longleftrightarrow> dict_wf (db_experiments db) \<and>
     (\<forall>(k, row) \<in> set (db_experiments db). \<exists>r. validate (rw_blob row) = Inr r \<and> er_experiment_id r = k)"

lemma request_abort_get:
  "dict_get (db_experiments (snd (request_abort k reason db))) k' =
     (if k' = k then map_option (mark_abort reason) (dict_get (db_experiments db) k) else dict_get (db_experiments db) k')"
  unfolding request_abort_def update_row_get by (simp add: mark_abort_def [abs_def])

lemma mark_abort_idem: "mark_abort reason (mark_abort reason row) = mark_abort reason row"
  by (simp add: mark_abort_def)

lemma request_aborts_get:
  "foldl (\<lambda>acc r. abort_one ce reason detail False now r acc) (out, db) rs = (out', db') \<Longrightarrow>
   dict_get (db_experiments db') k =
     (if k \<in> er_experiment_id ` set rs then map_option (mark_abort reason) (dict_get (db_experiments db) k)
      else dict_get (db_experiments db) k)"
proof (induction rs arbitrary: out db)
  case (Cons r rs)
  from Cons.prems obtain out1 where
    "foldl (\<lambda>acc r. abort_one ce reason detail False now r acc) (out1, snd (request_abort (er_experiment_id r) reason db)) rs = (out', db')"
    by (simp add: abort_one_def)
  from Cons.IH [OF this] show ?case
    by (auto simp: request_abort_get option.map_comp mark_abort_idem comp_def)
qed simp

lemma res_map_Inr:
  assumes "\<And>x. x \<in> set xs \<Longrightarrow> f x = Inr (g x)"
  shows "res_map f xs = Inr (map g xs)"
  using assms by (induction xs) simp_all

lemma find_live_keys:
  assumes "rows_agree validate db"
  shows "\<exists>rs. find_live validate live_states db = Inr rs \<and>
    er_experiment_id ` set rs = {k. \<exists>row. dict_get (db_experiments db) k = Some row \<and> rw_state row \<in> set live_states}"
proof -
  let ?rows = "newest_first rw_started_at (filter (\<lambda>row. rw_state row \<in> set live_states) (map snd (db_experiments db)))"
  define rec where "rec row = (case validate (rw_blob row) of Inr r \<Rightarrow> r | Inl x \<Rightarrow> undefined)" for row :: exp_row
  have wf: "dict_wf (db_experiments db)" using assms by (simp add: rows_agree_def)
  have row: "validate (rw_blob row) = Inr (rec row) \<and> er_experiment_id (rec row) = k" if "(k, row) \<in> set (db_experiments db)" for k row
    using assms that by (fastforce simp: rows_agree_def rec_def)
  have s: "set ?rows = {row. \<exists>k. (k, row) \<in> set (db_experiments db) \<and> rw_state row \<in> set live_states}"
    by (force simp: newest_first_def)
  have "find_live validate live_states db = Inr (map rec ?rows)"
    unfolding find_live_def using row s by (auto simp: live_states_def intro!: res_map_Inr)
  moreover have "er_experiment_id ` set (map rec ?rows) =
      {k. \<exists>row. dict_get (db_experiments db) k = Some row \<and> rw_state row \<in> set live_states}"
    using row mem_dict_get [OF wf] unfolding set_map s by (auto simp: image_iff)
  ultimately show ?thesis by blast
qed

text \<open>C10: \<open>chaos abort --all\<close> reaches exactly the live experiments: every row in a live state carries the abort request
  with the operator's reason afterwards, so the next control poll of its orchestrator sees it, and no other row and
  nothing else of any row changes.\<close>

theorem abort_all_exact:
  assumes "rows_agree (ce_validate ce) db"
  shows "\<exists>out db'. cli_abort ce None True reason detail False now db = (Finished, out, db') \<and>
    (\<forall>k. dict_get (db_experiments db') k =
       map_option (\<lambda>row. if rw_state row \<in> set live_states then mark_abort reason row else row)
         (dict_get (db_experiments db) k)) \<and>
    (\<forall>k row. dict_get (db_experiments db) k = Some row \<and> rw_state row \<in> set live_states \<longrightarrow>
       cs_abort_requested (load_control k db') \<and> cs_abort_reason (load_control k db') = Some reason)"
proof -
  obtain rs where f: "find_live (ce_validate ce) live_states db = Inr rs"
    and ids: "er_experiment_id ` set rs = {k. \<exists>row. dict_get (db_experiments db) k = Some row \<and> rw_state row \<in> set live_states}"
    using find_live_keys [OF assms] by blast
  obtain out' db' where fold: "foldl (\<lambda>acc r. abort_one ce reason detail False now r acc) ([], db) rs = (out', db')"
    by fastforce
  have g: "dict_get (db_experiments db') k =
      map_option (\<lambda>row. if rw_state row \<in> set live_states then mark_abort reason row else row) (dict_get (db_experiments db) k)" for k
    using request_aborts_get [OF fold, of k] unfolding ids
    by (cases "dict_get (db_experiments db) k") auto
  have "\<exists>out. cli_abort ce None True reason detail False now db = (Finished, out, db')"
    using fold by (auto simp: cli_abort_def f abort_targets_def)
  moreover have "cs_abort_requested (load_control k db') \<and> cs_abort_reason (load_control k db') = Some reason"
    if "dict_get (db_experiments db) k = Some row" "rw_state row \<in> set live_states" for k row
    using that by (simp add: load_control_def g mark_abort_def)
  ultimately show ?thesis using g by blast
qed

definition shop_row :: exp_row where
  "shop_row = \<lparr>rw_state = VERIFY, rw_started_at = 0, rw_finished_at = None, rw_abort_reason = None, rw_spend_usd = 0,
     rw_blob = ''a'', rw_pause_requested = False, rw_abort_requested = False, rw_abort_reason_requested = None\<rparr>"

definition two_experiments :: database where
  "two_experiments = empty_db\<lparr>db_experiments := [(''a'', shop_row), (''b'', shop_row\<lparr>rw_state := RECORDED, rw_blob := ''b''\<rparr>)]\<rparr>"

definition shop_record :: "string \<Rightarrow> experiment_record" where
  "shop_record k = (new_record demo_plan 0)\<lparr>er_experiment_id := k, er_state := (if k = ''a'' then VERIFY else RECORDED)\<rparr>"

definition shop_cli :: cli_env where
  "shop_cli = \<lparr>ce_dump = er_experiment_id, ce_validate = (\<lambda>b. Inr (shop_record b)), ce_json = er_experiment_id,
     ce_iso = (\<lambda>t. [])\<rparr>"

theorem abort_all_exact_witness:
  "\<exists>out db'. cli_abort shop_cli None True SLO_BREACH [] False 0 two_experiments = (Finished, out, db') \<and>
     load_control ''a'' db' = \<lparr>cs_pause_requested = False, cs_abort_requested = True, cs_abort_reason = Some SLO_BREACH\<rparr> \<and>
     load_control ''b'' db' = no_signals"
proof -
  have "rows_agree (ce_validate shop_cli) two_experiments"
    by (simp add: rows_agree_def two_experiments_def shop_cli_def shop_record_def shop_row_def dict_wf_def)
  from abort_all_exact [OF this, of SLO_BREACH "[]" 0] show ?thesis
    by (auto simp: two_experiments_def dict_get_Cons shop_row_def live_states_def load_control_def mark_abort_def no_signals_def)
qed

section \<open>pause and resume\<close>

lemma dict_set_twice: "dict_set k v (dict_set k w d) = dict_set k v d"
  by (induction d) auto

lemma dict_set_again: "dict_get d k = Some v \<Longrightarrow> dict_set k v d = d"
  by (induction d) (auto simp: dict_get_Cons split: if_splits)

lemma store_load_pause: "store_load validate k (snd (set_pause k' b db)) = store_load validate k db"
  by (auto simp: store_load_def stored_blob_def set_pause_def update_row_get split: option.splits)

text \<open>A pause can be taken back without a trace: pausing a live experiment that was not paused raises the flag that the
  orchestrator polls and changes nothing else of the store, and resuming it restores the store exactly.\<close>

theorem pause_resume_restores:
  assumes "store_load (ce_validate ce) k db = Inr (Some r)" "er_state r \<in> set live_states"
    and "\<not> cs_pause_requested (load_control k db)"
  shows "\<exists>out db' out'. cli_pause ce k db = (Finished, out, db') \<and>
    load_control k db' = (load_control k db)\<lparr>cs_pause_requested := True\<rparr> \<and>
    (\<forall>k'. k' \<noteq> k \<longrightarrow> dict_get (db_experiments db') k' = dict_get (db_experiments db) k') \<and>
    cli_resume ce k db' = (Finished, out', db)"
proof -
  obtain row where row: "dict_get (db_experiments db) k = Some row"
    using assms(1) by (auto simp: store_load_def stored_blob_def split: option.splits)
  define db' where "db' = snd (set_pause k True db)"
  have p: "set_pause k True db = (True, db')" by (simp add: db'_def set_pause_def update_row_def row)
  have c: "load_control k db' = (load_control k db)\<lparr>cs_pause_requested := True\<rparr>"
    by (simp add: db'_def load_control_def set_pause_def update_row_get row)
  have "set_pause k False db' = (True, db)"
    using assms(3) by (simp add: db'_def set_pause_def update_row_def row dict_get_set dict_set_twice load_control_def)
      (simp add: dict_set_again row)
  then have "\<exists>out'. cli_resume ce k db' = (Finished, out', db)"
    using assms(1) c by (simp add: cli_resume_def db'_def store_load_pause Let_def)
  moreover have "\<exists>out. cli_pause ce k db = (Finished, out, db')"
    using assms(1,2) p by (simp add: cli_pause_def)
  ultimately show ?thesis using c by (auto simp: db'_def set_pause_def update_row_get)
qed

theorem pause_resume_restores_witness:
  "\<exists>out db' out'. cli_pause shop_cli ''a'' two_experiments = (Finished, out, db') \<and>
     cs_pause_requested (load_control ''a'' db') \<and> cli_resume shop_cli ''a'' db' = (Finished, out', two_experiments)"
proof -
  have "store_load (ce_validate shop_cli) ''a'' two_experiments = Inr (Some (shop_record ''a''))"
    "er_state (shop_record ''a'') \<in> set live_states" "\<not> cs_pause_requested (load_control ''a'' two_experiments)"
    by (simp_all add: store_load_def stored_blob_def two_experiments_def shop_row_def shop_cli_def shop_record_def
        live_states_def load_control_def dict_get_Cons)
  from pause_resume_restores [OF this] show ?thesis by auto
qed

section \<open>validate\<close>

text \<open>A run that passes the plan gates enters its session, and its log only grows from there.\<close>

fun extends :: "'e rs \<Rightarrow> 'e flow \<Rightarrow> bool" where
  "extends s (Next s') = prefix (rs_trace s) (rs_trace s')"
| "extends s (Ret s') = prefix (rs_trace s) (rs_trace s')"
| "extends s (Raise x s') = prefix (rs_trace s) (rs_trace s')"
| "extends s Hang = True"

lemma extends_and_then: "extends s fl \<Longrightarrow> (\<And>s'. extends s' (g s')) \<Longrightarrow> extends s (and_then fl g)"
proof (cases fl)
  case (Next s')
  assume "extends s fl" "\<And>s'. extends s' (g s')"
  then have "prefix (rs_trace s) (rs_trace s')" "extends s' (g s')" using Next by auto
  then show ?thesis by (cases "g s'") (auto simp: Next intro: prefix_order.trans)
qed auto

lemma extends_refl [simp]: "extends s (Next s)"
  by simp

lemma extends_gate: "prefix (rs_trace s) (rs_trace s') \<Longrightarrow> extends s (gate_or_abort rt g s')"
  by (cases g) (auto simp: gate_or_abort_def abort_trace)

lemma extends_control: "control_loop rt first bs s = Some (g, s') \<Longrightarrow> prefix (rs_trace s) (rs_trace s')"
proof (induction bs arbitrary: first s)
  case Nil
  then show ?case by (subst (asm) control_loop.simps) (auto simp: Let_def split: if_splits)
next
  case (Cons b bs)
  let ?s1 = "s\<lparr>rs_db := apply_signals (er_experiment_id (rs_record s)) b (rs_db s), rs_operator := bs\<rparr>"
  let ?s2 = "if first then mark_paused rt ?s1 else ?s1"
  have p: "prefix (rs_trace s) (rs_trace (?s2\<lparr>rs_env := rt_sleep rt (rs_env ?s2)\<rparr>))" by (simp add: mark_paused_def)
  from Cons.prems consider "rs_trace s' = rs_trace s"
    | "control_loop rt False bs (?s2\<lparr>rs_env := rt_sleep rt (rs_env ?s2)\<rparr>) = Some (g, s')"
    by (subst (asm) control_loop.simps) (auto simp: Let_def split: if_splits)
  then show ?case
  proof cases
    case 2
    from Cons.IH [OF this] p show ?thesis by (rule prefix_order.trans [rotated])
  qed simp
qed

lemma extends_control_gate: "extends s (control_gate rt s)"
  by (auto simp: control_gate_def check_control_def intro!: extends_gate dest: extends_control
      split: option.split)

lemma extends_budget: "extends s (budget_gate_step rt s)"
  by (auto simp: budget_gate_step_def check_budget_step_def Let_def upd_record_def intro!: extends_gate split: if_splits prod.splits)

lemma extends_call: "extends s (call_agent c f put s)"
  by (auto simp: call_agent_def split: prod.split sum.split)

lemma extends_session: "extends s (call_session f put s)"
  by (auto simp: call_session_def split: prod.split sum.split)

lemma extends_setup: "extends s (setup_phase rt p s)"
  by (simp add: setup_phase_def)

lemma extends_annotations: "extends s (annotation_phase rt p s)"
  by (auto simp: annotation_phase_def fetch_annotations_def intro!: extends_gate split: option.split prod.split sum.split)
lemma extends_baseline: "extends s (baseline_phase rt p s)"
proof -
  have v: "extends s' (baseline_verdict rt s')" for s'
    by (auto simp: baseline_verdict_def abort_trace split: option.split)
  show ?thesis
    unfolding baseline_phase_def
    by (intro extends_and_then extends_call extends_session v) simp
qed

lemma extends_outcome: "prefix (rs_trace s) (rs_trace s') \<Longrightarrow> extends s (inject_outcome rt p r s')"
proof -
  assume s: "prefix (rs_trace s) (rs_trace s')"
  have a: "extends s (Ret (abort rt c m s''))" if "prefix (rs_trace s) (rs_trace s'')" for c m s''
    using that by (simp add: abort_trace)
  have b: "extends s (best_effort_cleanup rt p (set_state INJECT_FAILED s'))"
    using s by (auto simp: best_effort_cleanup_def split: option.split prod.split sum.split)
  have e: "extends s' (and_then (collect_evidence rt s') (\<lambda>s2. Ret (abort rt c m (sync_plugin rt s2))))" for s' c m
    by (intro extends_and_then) (simp_all add: collect_evidence_def extends_session abort_trace)
  show ?thesis
    using s a extends_and_then [OF b e]
    by (auto simp: inject_outcome_def Let_def abort_trace upd_record_def split: sum.split option.split)
qed

lemma extends_inject: "extends s (inject_phase rt p s)"
  unfolding inject_phase_def Let_def by (auto intro!: extends_outcome split: option.split prod.split)

lemma extends_verify: "extends s (verify_phase rt p s)"
proof -
  have v: "extends s' (verify_verdict rt s')" for s'
    by (simp add: verify_verdict_def collect_evidence_def extends_session finish_def close_record_def)
  show ?thesis
    unfolding verify_phase_def
    by (intro extends_and_then extends_call extends_session v) simp
qed

lemma extends_regressed: "extends s (regressed_phase rt s)"
  by (simp add: regressed_phase_def Let_def finish_def close_record_def)

lemma extends_diagnose: "extends s (diagnose_phase rt p s)"
proof -
  have c: "extends s' (diagnosis_call rt p s')" for s'
    by (auto simp: diagnosis_call_def Let_def extends_call split: option.split)
  have d: "extends s' (suppress_diagnosis rt p s')" for s'
    by (auto simp: suppress_diagnosis_def Let_def split: option.split prod.split sum.split)
  show ?thesis unfolding diagnose_phase_def by (intro extends_and_then c d) simp
qed

lemma extends_fix: "extends s (fix_phase rt s)"
proof -
  have f: "extends s' (Ret (finish rt (set_state FIX_PROPOSED s')))" for s'
    by (simp add: finish_def close_record_def)
  have c: "extends s (call_agent Propose_fix g put (save_record rt (set_state PROPOSE_FIX s)))" for g put
    using extends_and_then [of s "Next (save_record rt (set_state PROPOSE_FIX s))" "call_agent Propose_fix g put"] extends_call
    by auto
  show ?thesis
    using extends_and_then [OF c f] by (auto simp: fix_phase_def finish_def close_record_def split: option.split)
qed

lemmas extends_phases = extends_setup extends_annotations extends_control_gate extends_baseline extends_budget
  extends_inject extends_verify extends_regressed extends_diagnose extends_fix

lemma extends_body: "extends s (run_body rt p s)"
  unfolding run_body_def by (intro extends_and_then extends_phases)

lemma extends_leave: "extends s fl \<Longrightarrow> extends s (leave_session rt fl)"
  by (cases fl) (auto simp: exit_session_def split: prod.split option.split)

lemma enters_session:
  assumes "check_cluster_allowed (ep_safety p) = None" "check_blast_radius p = None"
  shows "run rt p db ops e = Hangs \<or> Ev_enter \<in> set (run_log (run rt p db ops e))"
proof -
  let ?s = "start_record rt p db ops e"
  let ?s1 = "emit Ev_enter (?s\<lparr>rs_session_active := True\<rparr>)"
  have "extends ?s1 (leave_session rt (run_body rt p (?s1\<lparr>rs_session := ss, rs_env := e'\<rparr>)))" for ss e'
    using extends_leave [OF extends_body [of "?s1\<lparr>rs_session := ss, rs_env := e'\<rparr>" rt p], of rt]
    by (cases "leave_session rt (run_body rt p (?s1\<lparr>rs_session := ss, rs_env := e'\<rparr>))") auto
  then have w: "extends ?s1 (with_session rt p ?s)"
    by (auto simp: with_session_def Let_def split: prod.split sum.split)
  have m: "Ev_enter \<in> set (rs_trace s')" if "prefix (rs_trace ?s1) (rs_trace s')" for s' :: "'a rs"
    using that by (auto simp: prefix_def)
  have "run rt p db ops e = finally_sync rt (recover rt (with_session rt p ?s))"
    using assms by (simp add: run_def Let_def)
  then show ?thesis
    using w m by (cases "with_session rt p ?s") (auto simp: final_sync_def abort_trace dest!: m)
qed

text \<open>C27: \<open>chaos validate\<close> predicts the plan gates of a run. For a plan the schema accepts, and whatever the agents, the
  store and the operator are: the command succeeds exactly when every fault is in the catalogue and \<open>run\<close> on that plan
  enters its session (or hangs in it); when it fails on a plan of catalogued faults, that run returns, aborted at once
  because of the cluster or the blast radius, with nothing provisioned and no agent called. (A run itself does not
  look its faults up in the catalogue, the agents do.)\<close>

theorem validate_predicts_preflight:
  "(fst (cli_validate (Inr p) False) = Finished \<longleftrightarrow>
     (\<forall>f \<in> set (ep_faults p). dict_has CATALOGUE (fs_name f)) \<and>
     (run rt p db ops e = Hangs \<or> Ev_enter \<in> set (run_log (run rt p db ops e)))) \<and>
   (fst (cli_validate (Inr p) False) = Finished \<or> (\<exists>f \<in> set (ep_faults p). \<not> dict_has CATALOGUE (fs_name f)) \<or>
     (\<exists>s. run rt p db ops e = Returned s \<and> rs_trace s = [Ev_save INITIALIZING, Ev_save ABORTED, Ev_clear] \<and>
        er_state (rs_record s) = ABORTED \<and>
        er_abort_reason (rs_record s) \<in> {Some CLUSTER_DENIED, Some BLAST_RADIUS_VIOLATION}))"
proof -
  have "filter (\<lambda>n. dict_get CATALOGUE n = None) (map fs_name (ep_faults p)) = [] \<longleftrightarrow>
      (\<forall>f \<in> set (ep_faults p). dict_has CATALOGUE (fs_name f))"
    by (auto simp: filter_empty_conv dict_has_iff)
  then have v: "fst (cli_validate (Inr p) False) = Finished \<longleftrightarrow>
      (\<forall>f \<in> set (ep_faults p). dict_has CATALOGUE (fs_name f)) \<and>
      check_cluster_allowed (ep_safety p) = None \<and> check_blast_radius p = None"
    by (auto simp: cli_validate_def Let_def split: option.splits)
  show ?thesis
  proof (cases "check_cluster_allowed (ep_safety p) = None \<and> check_blast_radius p = None")
    case True
    then show ?thesis unfolding v using enters_session [of p rt db ops e] by blast
  next
    case False
    then have "\<not> (cluster_allowed (ep_safety p) \<and> blast_radius_allowed p)"
      using cluster_gate.passes_iff blast_gate.passes_iff by blast
    from preflight_refusal [OF this, of rt db ops e] obtain s where
      "run rt p db ops e = Returned s" "rs_trace s = [Ev_save INITIALIZING, Ev_save ABORTED, Ev_clear]"
      "er_abort_reason (rs_record s) \<in> {Some CLUSTER_DENIED, Some BLAST_RADIUS_VIOLATION}"
      by auto
    moreover from this have "er_state (rs_record s) = ABORTED"
      using False by (auto simp: run_def Let_def split: option.splits)
    ultimately show ?thesis unfolding v using False by auto
  qed
qed

definition kill_once :: fault_spec where
  "kill_once = demo_fault\<lparr>fs_name := ''pod.kill''\<rparr>"

theorem validate_predicts_preflight_witness:
  "Ev_enter \<in> set (run_log (run demo_runtime (demo_plan\<lparr>ep_faults := [kill_once]\<rparr>) empty_db [] ())) \<and>
   (\<exists>s. run demo_runtime (demo_plan\<lparr>ep_faults := [kill_once, kill_once]\<rparr>) empty_db [] () = Returned s \<and>
      rs_trace s = [Ev_save INITIALIZING, Ev_save ABORTED, Ev_clear])"
proof -
  let ?good = "demo_plan\<lparr>ep_faults := [kill_once]\<rparr>" and ?bad = "demo_plan\<lparr>ep_faults := [kill_once, kill_once]\<rparr>"
  have k: "dict_has CATALOGUE (fs_name kill_once)" unfolding kill_once_def by code_simp
  have ok: "cluster_allowed (ep_safety ?good)" "blast_radius_allowed ?good"
    by (simp_all add: cluster_allowed_def blast_radius_allowed_def demo_plan_def demo_fault_def kill_once_def lower_def
        lower_char_def less_eq_char_def)
  have "fst (cli_validate (Inr ?good) False) = Finished"
    using k ok cluster_gate.passes_iff [of "ep_safety ?good"] blast_gate.passes_iff [of ?good]
    by (auto simp: cli_validate_def Let_def dict_has_iff)
  then have "run demo_runtime ?good empty_db [] () = Hangs \<or> Ev_enter \<in> set (run_log (run demo_runtime ?good empty_db [] ()))"
    using validate_predicts_preflight [of ?good demo_runtime empty_db "[]" "()"] by blast
  moreover have "run demo_runtime ?good empty_db [] () \<noteq> Hangs"
    using run_complete [of True ?good empty_db "[]" demo_runtime "()"] no_plugin_returns [of demo_runtime ?good]
    by (auto simp: calm_def load_control_def empty_db_def no_signals_def demo_runtime_fields)
  moreover have "fst (cli_validate (Inr ?bad) False) \<noteq> Finished"
  proof -
    have "\<not> blast_radius_allowed ?bad" by (simp add: blast_radius_allowed_def demo_plan_def)
    then have "check_blast_radius ?bad \<noteq> None" using blast_gate.passes_iff by blast
    then show ?thesis by (auto simp: cli_validate_def Let_def split: option.splits)
  qed
  ultimately show ?thesis
    using validate_predicts_preflight [of ?bad demo_runtime empty_db "[]" "()"] k by auto
qed

section \<open>An abort that comes too late\<close>

text \<open>The operator is told that the orchestrator will abort at the next state boundary, but the fixer's phase has no poll
  left: an abort accepted for an experiment in PROPOSE\_FIX (a live state) is never seen; the run ends RECORDED, without an
  abort reason, and the request is wiped.\<close>

theorem late_abort_dropped:
  assumes "er_diagnosis (rs_record s) = Some d" "active_hypotheses (rt_sha1 rt) d \<noteq> []"
    and "\<And>e. \<exists>f e'. rt_propose_fix rt d e = (Inr f, e')"
    and "cs_abort_requested (load_control (er_experiment_id (rs_record s)) (rs_db s))"
  shows "\<exists>s'. fix_phase rt s = Ret s' \<and> er_state (rs_record s') = RECORDED \<and>
    er_abort_reason (rs_record s') = er_abort_reason (rs_record s) \<and>
    load_control (er_experiment_id (rs_record s)) (rs_db s') = no_signals"
proof -
  obtain f e where "rt_propose_fix rt d (rs_env s) = (Inr f, e)" using assms(3) by blast
  then show ?thesis
    using assms(1,2)
    by (simp add: fix_phase_def call_agent_def finish_def close_record_def control_clear_control)
qed

theorem late_abort_dropped_witness:
  "\<exists>s'. fix_phase demo_runtime
      ((start_record demo_runtime demo_plan empty_db [] ())\<lparr>
         rs_record := (new_record demo_plan 0)\<lparr>er_diagnosis := Some demo_diagnosis\<rparr>,
         rs_db := snd (request_abort ''exp-0123456789ab'' USER_KILL
           (store_save er_experiment_id (new_record demo_plan 0) empty_db))\<rparr>) = Ret s' \<and>
     er_state (rs_record s') = RECORDED"
proof -
  let ?s = "(start_record demo_runtime demo_plan empty_db [] ())\<lparr>
         rs_record := (new_record demo_plan 0)\<lparr>er_diagnosis := Some demo_diagnosis\<rparr>,
         rs_db := snd (request_abort ''exp-0123456789ab'' USER_KILL
           (store_save er_experiment_id (new_record demo_plan 0) empty_db))\<rparr>"
  have "cs_abort_requested (load_control (er_experiment_id (rs_record ?s)) (rs_db ?s))"
    by (simp add: load_control_def request_abort_get store_save_def Let_def dict_get_set mark_abort_def demo_plan_def)
  from late_abort_dropped [of ?s demo_diagnosis demo_runtime, OF _ _ _ this] show ?thesis
    by (auto simp: active_hypotheses_def demo_fields)
qed

end
