(* ===== verification/Cli_Run.thy ===== *)
theory Cli_Run
  imports Factory Registry Hardware_Agent Cli_Control
begin

text \<open>
  The commands of \<open>orchestrator/main.py\<close> that start an experiment or shape later ones: \<open>run\<close> with its three agent sets
  (mocks, hardware bench, real agents), \<open>plugins list\<close>, \<open>suppress list\<close> and \<open>suppress add\<close>. Reading the plan, the
  YAML text of the suppression file, the parsing and printing of time stamps and the construction of a plugin are
  arguments; a run that never returns is \<open>None\<close>.
\<close>

section \<open>The hardware bench\<close>

text \<open>The in-process simulator is the first component of the world.\<close>

definition on_bench :: "(simulator \<Rightarrow> 'r \<times> simulator) \<Rightarrow> simulator \<times> 'w \<Rightarrow> 'r \<times> simulator \<times> 'w" where
  "on_bench f x = (case x of (s, w) \<Rightarrow> (case f s of (r, s') \<Rightarrow> (r, s', w)))"

definition bench_io :: "(simulator \<times> 'w) hardware_io" where
  "bench_io =
     \<lparr>hi_device_info = on_bench sim_device_info, hi_read_telemetry = (\<lambda>m. on_bench (sim_read_telemetry m)),
      hi_inject_fault = (\<lambda>f. on_bench (sim_inject_fault f)), hi_cleanup = (\<lambda>h. on_bench (sim_cleanup h)),
      hi_reset = on_bench sim_reset\<rparr>"

definition bench_tester :: "(simulator \<times> 'w) factory_env \<Rightarrow> real \<Rightarrow> (simulator \<times> 'w) live tester_agent" where
  "bench_tester fe t =
     (wired_tester fe Llm_profile (config_from_env (\<lambda>k. None)) no_overrides None)
       \<lparr>ta_prom := Some (\<lambda>q. in_world (hw_query_instant bench_io t q))\<rparr>"

definition bench_agent :: "(simulator \<times> 'w) factory_env \<Rightarrow> (pyval \<Rightarrow> real res) \<Rightarrow> (simulator \<times> 'w) hw_agent" where
  "bench_agent fe fl =
     \<lparr>ha_hardware = Some bench_io, ha_sleep = fe_sleep fe, ha_config = default_hw_config, ha_now = fe_now fe,
      ha_float_repr = fe_repr_float fe, ha_to_float = fl\<rparr>"

definition bench_runtime ::
  "(simulator \<times> 'w) factory_env \<Rightarrow> real \<Rightarrow> (pyval \<Rightarrow> real res) \<Rightarrow> (simulator \<times> 'w) live runtime \<Rightarrow>
    (simulator \<times> 'w) live runtime" where
  "bench_runtime fe t fl rt =
     (let now = (\<lambda>h. fe_now fe (lw_world (hx_world h))); rid = (\<lambda>h. fe_rid fe (lw_world (hx_world h))) in
      (mock_agents rid rt)
        \<lparr>rt_tester_baseline := \<lambda>q h. forget_agent (tester_baseline (bench_tester fe t) (rid h) (now h) q h),
         rt_tester_verify := \<lambda>q h. forget_agent (tester_verify (bench_tester fe t) (rid h) (now h) q h),
         rt_chaos_execute := \<lambda>p. in_world (hw_execute (bench_agent fe fl) p),
         rt_chaos_cleanup := Some (\<lambda>p. in_world (hw_cleanup (bench_agent fe fl) p)),
         rt_namespace_annotations := Some (\<lambda>ns. in_world (hw_annotations (bench_agent fe fl) ns))\<rparr>)"

section \<open>Choosing the agents\<close>

datatype 'w agent_choice = Mock_set | Bench_set | Real_set "'w wired"

definition bad_profile :: "string \<Rightarrow> cli_exit" where
  "bad_profile profile =
     Bad_parameter (''--profile must be one of static / hybrid / llm, got '' @ repr_str profile)"

definition harness_only :: "'w overrides" where
  "harness_only = no_overrides\<lparr>ov_harness := True\<rparr>"

definition config_exit :: "pyexn \<Rightarrow> cli_exit" where
  "config_exit x =
     (case x of
        Exn c m \<Rightarrow> if c = ''AgentConfigError'' then Bad_parameter m else Uncaught x
      | BaseExn c \<Rightarrow> Uncaught x)"

definition choose_real :: "'w factory_env \<Rightarrow> string \<Rightarrow> agent_config \<Rightarrow> cli_exit + 'w agent_choice" where
  "choose_real fe profile c =
     (if profile \<notin> {''static'', ''hybrid'', ''llm''} then Inl (bad_profile profile)
      else case build_real_agents fe (Some c) profile harness_only of
             Inl x \<Rightarrow> Inl (config_exit x)
           | Inr wi \<Rightarrow> Inr (Real_set wi))"

record run_options =
  ro_dry_run :: bool
  ro_hardware :: bool
  ro_profile :: string
  ro_plugin :: "string option"
  ro_config :: agent_config

definition choose_agents :: "'w factory_env \<Rightarrow> run_options \<Rightarrow> cli_exit + 'w agent_choice" where
  "choose_agents fe ro =
     (if ro_dry_run ro then Inr Mock_set
      else if ro_hardware ro then Inr Bench_set
      else choose_real fe (ro_profile ro) (ro_config ro))"

record 'w cli_world =
  cw_factory :: "(simulator \<times> 'w) factory_env"
  cw_clock :: "(simulator \<times> 'w) live_world \<Rightarrow> real \<times> (simulator \<times> 'w) live_world"
  cw_reading_time :: real
  cw_to_float :: "pyval \<Rightarrow> real res"
  cw_base :: "(simulator \<times> 'w) live runtime"
  cw_instance :: "plugin_class \<Rightarrow> (simulator \<times> 'w) live plugin res"

definition chosen_runtime ::
  "'w cli_world \<Rightarrow> (simulator \<times> 'w) agent_choice \<Rightarrow> (simulator \<times> 'w) live runtime" where
  "chosen_runtime cw choice =
     (let fe = cw_factory cw; fr = fe_repr_float fe in
      case choice of
        Mock_set \<Rightarrow> dry_run_runtime (cw_clock cw) fr (\<lambda>h. fe_rid fe (lw_world (hx_world h))) (cw_base cw)
      | Bench_set \<Rightarrow>
          instrument_runtime (cw_clock cw) fr (bench_runtime fe (cw_reading_time cw) (cw_to_float cw) (cw_base cw))
      | Real_set wi \<Rightarrow> real_runtime (cw_clock cw) fe harness_only wi (cw_base cw))"

section \<open>run\<close>

definition plugin_choice :: "run_options \<Rightarrow> experiment_plan \<Rightarrow> string option" where
  "plugin_choice ro p = or_else (set_text (ro_plugin ro)) (set_text (ep_plugin p))"

definition resolve_plugin ::
  "'w cli_world \<Rightarrow> plugin_sources \<Rightarrow> string option \<Rightarrow> plugin_registry \<Rightarrow>
    (cli_exit + (simulator \<times> 'w) live plugin option) \<times> plugin_registry" where
  "resolve_plugin cw so name g =
     (case name of
        None \<Rightarrow> (Inr None, g)
      | Some n \<Rightarrow>
          (case load_plugin so n g of
             (Inl (Exn c m), g') \<Rightarrow>
               (Inl (if c = ''PluginError'' then Bad_parameter m else Uncaught (Exn c m)), g')
           | (Inl (BaseExn c), g') \<Rightarrow> (Inl (Uncaught (BaseExn c)), g')
           | (Inr cls, g') \<Rightarrow>
               (case cw_instance cw cls of
                  Inl (Exn c m) \<Rightarrow> (Inl (if c = ''PluginError'' then Bad_parameter m else Uncaught (Exn c m)), g')
                | Inl (BaseExn c) \<Rightarrow> (Inl (Uncaught (BaseExn c)), g')
                | Inr pl \<Rightarrow> (Inr (Some pl), g'))))"

definition cli_run ::
  "'w cli_world \<Rightarrow> plugin_sources \<Rightarrow> cli_env \<Rightarrow> run_options \<Rightarrow> experiment_plan res \<Rightarrow> op_signal list list \<Rightarrow>
    plugin_registry \<Rightarrow> database \<Rightarrow> (simulator \<times> 'w) live \<Rightarrow>
    ((cli_exit \<times> printed list) \<times> (simulator \<times> 'w) live rs option) option" where
  "cli_run cw so ce ro plan ops g db h =
     (case plan of
        Inl x \<Rightarrow> Some ((Uncaught x, []), None)
      | Inr p \<Rightarrow>
          (case choose_agents (cw_factory cw) ro of
             Inl ex \<Rightarrow> Some ((ex, []), None)
           | Inr choice \<Rightarrow>
               (case resolve_plugin cw so (plugin_choice ro p) g of
                  (Inl ex, g') \<Rightarrow> Some ((ex, []), None)
                | (Inr pl, g') \<Rightarrow>
                    (case run ((chosen_runtime cw choice)\<lparr>rt_plugin := pl\<rparr>) p db ops h of
                       Hangs \<Rightarrow> None
                     | Raised x s \<Rightarrow> Some ((Uncaught x, []), Some s)
                     | Returned s \<Rightarrow> Some ((Finished, [Json (ce_json ce (rs_record s))]), Some s)))))"

section \<open>plugins list\<close>

definition hook_order :: "(string \<times> hook) list" where
  "hook_order =
     [(''validate'', H_validate), (''provision_env'', H_provision_env), (''await_ready'', H_await_ready),
      (''seed'', H_seed), (''setup_test'', H_setup_test), (''capture_baseline'', H_capture_baseline),
      (''run_test'', H_run_test), (''verify'', H_verify), (''collect_diagnostics'', H_collect_diagnostics),
      (''teardown_test'', H_teardown_test), (''teardown_env'', H_teardown_env)]"

definition hooks_implemented :: "plugin_class \<Rightarrow> string list" where
  "hooks_implemented c = map fst (filter (\<lambda>(n, h). pc_overrides c h) hook_order)"

definition plugin_row :: "plugin_registry \<Rightarrow> string \<Rightarrow> string list" where
  "plugin_row g n =
     (case dict_get (pr_plugins g) n of
        None \<Rightarrow> []
      | Some c \<Rightarrow>
          [n, pc_class_name c,
           (if hooks_implemented c = [] then ''[dim]none[/dim]'' else join '', '' (hooks_implemented c))])"

definition cli_plugins_list :: "plugin_sources \<Rightarrow> plugin_registry \<Rightarrow> cli_exit \<times> printed list" where
  "cli_plugins_list so g =
     (case discover_plugins so False g of
        (Some x, g') \<Rightarrow> (Uncaught x, [])
      | (None, g') \<Rightarrow>
          (if pr_plugins g' = []
           then (Finished, [Line (''[yellow]no plugins discovered. Register via the 'chaos.plugins' '' @
             ''entry-point group or drop a module in $CHAOS_PLUGINS_DIR '' @ ''(default ./chaos_plugins).[/yellow]'')])
           else (Finished, [Grid [''name'', ''class'', ''hooks implemented'']
             (map (plugin_row g') (plugin_names g'))])))"

section \<open>suppress list, suppress add\<close>

text \<open>\<open>se_parse\<close> is the YAML loader with Pydantic's validation; \<open>se_file\<close> is the text of \<open>.chaos/suppress.yaml\<close>.\<close>

record suppress_env =
  sv_parse :: "string \<Rightarrow> suppression_rule list res"
  sv_dump :: "suppression_rule list \<Rightarrow> string"
  sv_fromiso :: "string \<Rightarrow> string + timestamp"
  sv_iso :: "timestamp \<Rightarrow> string"
  sv_sha1 :: "string \<Rightarrow> string"
  sv_path :: string

definition match_parts :: "suppression_rule \<Rightarrow> string list" where
  "match_parts r =
     concat (map (\<lambda>(label, v). case v of None \<Rightarrow> [] | Some t \<Rightarrow> [label @ ''='' @ repr_str t])
       [(''hypothesis_id'', sr_hypothesis_id r), (''fix_class'', sr_fix_class r), (''path_glob'', sr_path_glob r),
        (''summary_contains'', sr_summary_contains r)])"

definition rule_row :: "suppress_env \<Rightarrow> suppression_rule \<Rightarrow> string list" where
  "rule_row sv r =
     [(if match_parts r = [] then ''-'' else join '' AND '' (match_parts r)),
      (if sr_reason r = [] then ''[dim]-[/dim]'' else sr_reason r),
      (case sr_expires_at r of None \<Rightarrow> ''[dim]-[/dim]'' | Some t \<Rightarrow> sv_iso sv t)]"

definition cli_suppress_list :: "suppress_env \<Rightarrow> string option \<Rightarrow> cli_exit \<times> printed list" where
  "cli_suppress_list sv content =
     (case load_repo_suppress_list (sv_parse sv) content of
        Inl x \<Rightarrow> (Uncaught x, [])
      | Inr rs \<Rightarrow>
          (if rs = []
           then (Finished, [Line ''[yellow]no suppression rules - .chaos/suppress.yaml is empty or missing[/yellow]''])
           else (Finished, [Grid [''match'', ''reason'', ''expires_at''] (map (rule_row sv) rs)])))"

definition new_rule :: "suppress_env \<Rightarrow> string \<Rightarrow> string \<Rightarrow> timestamp option \<Rightarrow> root_cause_hypothesis \<Rightarrow> suppression_rule" where
  "new_rule sv k reason expires h =
     \<lparr>sr_hypothesis_id = Some (hypothesis_fingerprint (sv_sha1 sv) h), sr_fix_class = None, sr_path_glob = None,
      sr_summary_contains = None,
      sr_reason = (if reason = [] then ''suppressed via `chaos suppress add` against '' @ k else reason),
      sr_expires_at = expires\<rparr>"

definition parsed_expires :: "suppress_env \<Rightarrow> string option \<Rightarrow> string + timestamp option" where
  "parsed_expires sv expires =
     (case expires of
        None \<Rightarrow> Inr None
      | Some t \<Rightarrow>
          (case sv_fromiso sv (replace_char CHR ''Z'' ''+00:00'' t) of Inl e \<Rightarrow> Inl e | Inr d \<Rightarrow> Inr (Some d)))"

text \<open>The file's new text, when it is written.\<close>

definition append_rule :: "suppress_env \<Rightarrow> suppression_rule \<Rightarrow> string option \<Rightarrow> string res" where
  "append_rule sv r content =
     (if \<not> suppression_rule_ok r then Inl (validation_error ''SuppressionRule'')
      else case content of
        None \<Rightarrow> Inr (sv_dump sv [r])
      | Some t \<Rightarrow> res_bind (sv_parse sv t) (\<lambda>rs. Inr (sv_dump sv (rs @ [r]))))"

definition cli_suppress_add ::
  "cli_env \<Rightarrow> suppress_env \<Rightarrow> string \<Rightarrow> nat \<Rightarrow> string \<Rightarrow> string option \<Rightarrow> database \<Rightarrow> string option \<Rightarrow>
    (cli_exit \<times> printed list) \<times> string option" where
  "cli_suppress_add ce sv k index reason expires db content =
     (case store_load (ce_validate ce) k db of
        Inl x \<Rightarrow> ((Uncaught x, []), content)
      | Inr None \<Rightarrow> ((Exit_code 1, [no_experiment k]), content)
      | Inr (Some r) \<Rightarrow>
          (let hs = (case er_diagnosis r of None \<Rightarrow> [] | Some d \<Rightarrow> dr_hypotheses d) in
           if hs = [] then ((Exit_code 1, [Line (''[red]'' @ k @ '' has no diagnosis to suppress[/red]'')]), content)
           else if index > length hs
           then ((Exit_code 1, [Line (''[red]hypothesis_index '' @ nat_str index @ '' out of range; '' @
             ''the experiment has '' @ nat_str (length hs) @ '' hypotheses[/red]'')]), content)
           else let h = hs ! (index - 1) in
             case parsed_expires sv expires of
               Inl e \<Rightarrow> ((Exit_code 1, [Line (''[red]invalid --expires value:[/red] '' @ e)]), content)
             | Inr t \<Rightarrow>
                 (case append_rule sv (new_rule sv k reason t h) content of
                    Inl x \<Rightarrow> ((Uncaught x, []), content)
                  | Inr text \<Rightarrow>
                      ((Finished,
                        [Line (''[green]added suppression rule for hypothesis '' @
                           hypothesis_fingerprint (sv_sha1 sv) h @ ''[/green]''),
                         Line (''  summary    : '' @ rc_summary h),
                         Line (''  fix_class  : '' @ rc_suggested_fix_class h),
                         Line (''  written to : '' @ sv_path sv)]), Some text))))"

end
