(* ===== verification/Cli_Run_Props.thy ===== *)
theory Cli_Run_Props
  imports Cli_Run Dry_Run Static_Run
begin

text \<open>
  What \<open>chaos run\<close> and \<open>chaos suppress add\<close> do to an experiment: the bench wiring and the namespace gate together, and
  the rule a command writes together with the suppression of a later run.
\<close>

section \<open>A bench run and the namespace gate\<close>

lemma traced_constant:
  "\<exists>h'. traced clock fr a m i (\<lambda>x. []) (in_world (\<lambda>w. (Inr v, w))) h = (Inr v, h')"
proof -
  have "in_world (\<lambda>w. (Inr v, w)) h1 = (Inr v, h1)" for h1 by (simp add: in_world_def)
  from traced_mock [of "in_world (\<lambda>w. (Inr v, w))" "\<lambda>h. v" fr "\<lambda>x. []", OF this summarised_views(6)]
  show ?thesis by metis
qed

lemma bench_map_is_empty: "hw_annotations ag ns = (\<lambda>w. (Inr (Some []), w))"
  by (simp add: hw_annotations_def fun_eq_iff)

lemma bench_annotations:
  "\<exists>getter. rt_namespace_annotations (chosen_runtime cw Bench_set) = Some getter \<and>
    (\<forall>ns e. \<exists>e'. getter ns e = (Inr (Some []), e'))"
  by (simp add: traced_constant chosen_runtime_def Let_def instrument_runtime_def bench_runtime_def bench_map_is_empty)

text \<open>With such a getter the annotation phase ends the run.\<close>

lemma empty_map_aborts:
  assumes "rt_namespace_annotations rt = Some getter" "\<And>ns e. \<exists>e'. getter ns e = (Inr (Some []), e')"
    and "sc_require_namespace_annotation (ep_safety p)"
  shows "\<exists>m s'. annotation_phase rt p s = Ret (abort rt CLUSTER_DENIED m s') \<and>
    (\<exists>a. rs_trace s' = rs_trace s @ [Ev_annotations a])"
proof -
  obtain e' where "getter (sc_namespace (ep_safety p)) (rs_env s) = (Inr (Some []), e')" using assms(2) by blast
  moreover obtain f where "check_namespace_annotation (ep_safety p) (Some []) = Some f" "gf_reason f = CLUSTER_DENIED"
    using assms(3) by (simp add: check_namespace_annotation_def dict_get_def gate_fail_def)
  ultimately have "annotation_phase rt p s =
      Ret (abort rt CLUSTER_DENIED (gf_detail f) (emit (Ev_annotations (Some [])) (s\<lparr>rs_env := e'\<rparr>)))"
    using assms(1,3) by (simp add: annotation_phase_def fetch_annotations_def gate_or_abort_def)
  then show ?thesis by (intro exI conjI) (assumption, simp)
qed

lemma same_session: "s\<lparr>rs_session := rs_session s, rs_env := rs_env s\<rparr> = s"
  by (cases s) simp

lemma bench_refused:
  assumes "rt_plugin rt = None" "rt_namespace_annotations rt = Some getter"
    and "\<And>ns e. \<exists>e'. getter ns e = (Inr (Some []), e')" "sc_require_namespace_annotation (ep_safety p)"
  shows "\<exists>s. run rt p db ops e = Returned s \<and> er_state (rs_record s) = ABORTED \<and>
    er_abort_reason (rs_record s) \<in> {Some CLUSTER_DENIED, Some BLAST_RADIUS_VIOLATION} \<and>
    Ev_call Chaos_execute \<notin> set (rs_trace s)"
proof (cases "check_cluster_allowed (ep_safety p) = None \<and> check_blast_radius p = None")
  case True
  define s0 where "s0 = emit Ev_enter (start_record rt p db ops e\<lparr>rs_session_active := True\<rparr>)"
  obtain s1 where s1: "setup_phase rt p s0 = Next s1" "rs_trace s1 = rs_trace s0 @ [Ev_save (er_state (rs_record s0))]"
    by (simp add: setup_phase_def)
  obtain m s2 a where a: "annotation_phase rt p s1 = Ret (abort rt CLUSTER_DENIED m s2)"
      "rs_trace s2 = rs_trace s1 @ [Ev_annotations a]"
    using empty_map_aborts [OF assms(2-4), of s1] by blast
  have b: "run_body rt p s0 = Ret (abort rt CLUSTER_DENIED m s2)" by (simp add: run_body_def s1 a)
  define s3 where "s3 = final_sync rt (emit Ev_exit (abort rt CLUSTER_DENIED m s2))"
  have "with_session rt p (start_record rt p db ops e) = leave_session rt (run_body rt p s0)"
    unfolding with_session_def Let_def assms(1) s0_def [symmetric] s_enter.simps by (simp add: same_session)
  then have "run rt p db ops e = Returned s3"
    using True by (simp add: run_def Let_def b exit_session_def assms(1) s3_def same_session)
  moreover have "Ev_call Chaos_execute \<notin> set (rs_trace s3)"
    by (simp add: s3_def final_sync_def abort_trace a(2) s1(2) s0_def start_record_trace)
  moreover have "er_state (rs_record s3) = ABORTED" "er_abort_reason (rs_record s3) = Some CLUSTER_DENIED"
    by (simp_all add: s3_def final_sync_def)
  ultimately show ?thesis by blast
next
  case False
  show ?thesis
  proof (cases "check_cluster_allowed (ep_safety p)")
    case None
    then obtain f where "check_blast_radius p = Some f" "gf_reason f = BLAST_RADIUS_VIOLATION"
      using False blast_gate.reason_in by (cases "check_blast_radius p") auto
    then show ?thesis by (simp add: run_def Let_def None abort_trace start_record_trace)
  next
    case (Some f)
    then show ?thesis using cluster_gate.reason_in [OF Some] by (simp add: run_def Let_def abort_trace start_record_trace)
  qed
qed

text \<open>A bench run must opt out of the namespace gate. \<open>chaos run --hardware\<close> on a plan that leaves
  \<open>require_namespace_annotation\<close> at its default \<open>True\<close> never injects: the hardware agent reports an empty annotation
  map, the gate asks for the allow annotation in it, and the experiment ends aborted before the baseline; the
  command still finishes and prints the record.\<close>

theorem bench_run_must_opt_out:
  assumes "cli_run cw so ce ro (Inr p) ops g db h = Some ((ex, out), s)"
    and "ro_hardware ro" "\<not> ro_dry_run ro" "plugin_choice ro p = None" "sc_require_namespace_annotation (ep_safety p)"
  shows "ex = Finished \<and> (\<exists>s'. s = Some s' \<and> out = [Json (ce_json ce (rs_record s'))] \<and>
    er_state (rs_record s') = ABORTED \<and> Ev_call Chaos_execute \<notin> set (rs_trace s') \<and>
    er_abort_reason (rs_record s') \<in> {Some CLUSTER_DENIED, Some BLAST_RADIUS_VIOLATION})"
proof -
  let ?rt = "(chosen_runtime cw Bench_set)\<lparr>rt_plugin := None\<rparr>"
  obtain getter where "rt_namespace_annotations ?rt = Some getter" "\<And>ns e. \<exists>e'. getter ns e = (Inr (Some []), e')"
    using bench_annotations [of cw] by auto
  from bench_refused [OF _ this assms(5), of db ops h] obtain s' where
    "run ?rt p db ops h = Returned s'" "er_state (rs_record s') = ABORTED"
    "er_abort_reason (rs_record s') \<in> {Some CLUSTER_DENIED, Some BLAST_RADIUS_VIOLATION}"
    "Ev_call Chaos_execute \<notin> set (rs_trace s')"
    by auto
  then show ?thesis
    using assms(1-4) by (auto simp: cli_run_def choose_agents_def resolve_plugin_def)
qed

definition bench_options :: run_options where
  "bench_options =
     \<lparr>ro_dry_run = False, ro_hardware = True, ro_profile = ''static'', ro_plugin = None,
      ro_config = config_from_env (\<lambda>k. None)\<rparr>"

section \<open>A suppressed hypothesis\<close>

text \<open>The rule \<open>suppress add\<close> writes, and the file it leaves.\<close>

lemma added_rule:
  assumes "cli_suppress_add ce sv k i reason expires db content = ((Finished, out), Some text)"
  obtains r d h t where "store_load (ce_validate ce) k db = Inr (Some r)" "er_diagnosis r = Some d"
    "h \<in> set (dr_hypotheses d)" "h = dr_hypotheses d ! (i - 1)" "parsed_expires sv expires = Inr t"
    "append_rule sv (new_rule sv k reason t h) content = Inr text"
proof -
  obtain r where r: "store_load (ce_validate ce) k db = Inr (Some r)"
    using assms by (auto simp: cli_suppress_add_def split: sum.splits option.splits)
  show ?thesis
  proof (cases "er_diagnosis r")
    case None
    then show ?thesis using assms r by (simp add: cli_suppress_add_def)
  next
    case (Some d)
    have i: "dr_hypotheses d \<noteq> []" "\<not> i > length (dr_hypotheses d)"
      using assms r Some by (auto simp: cli_suppress_add_def Let_def split: if_splits)
    then have "i - 1 < length (dr_hypotheses d)" by (cases "dr_hypotheses d") auto
    then have "dr_hypotheses d ! (i - 1) \<in> set (dr_hypotheses d)" by simp
    moreover obtain t where t: "parsed_expires sv expires = Inr t"
      using assms r Some i by (auto simp: cli_suppress_add_def Let_def split: sum.splits)
    moreover have "append_rule sv (new_rule sv k reason t (dr_hypotheses d ! (i - 1))) content = Inr text"
      using assms r Some i t by (auto simp: cli_suppress_add_def Let_def split: sum.splits)
    ultimately show ?thesis using that [OF r Some] by blast
  qed
qed

lemma new_rule_fires:
  assumes "hypothesis_fingerprint (sv_sha1 sv) h' = hypothesis_fingerprint (sv_sha1 sv) h"
    and "t = None \<or> (\<exists>e. t = Some (Aware e) \<and> now \<le> e)"
  shows "rule_fires (sv_sha1 sv) (new_rule sv k reason t h) h' now"
  using assms by (auto simp: rule_fires_def rule_matches_def new_rule_def fields_match_def split: option.split)

text \<open>C24: A suppressed hypothesis stays silent. After \<open>chaos suppress add\<close> with no expiry, or with one that has a time
  zone and has not passed, every later run loads the written file (its own plan's rules come on top), and for every
  diagnosis either no hypothesis with the suppressed fingerprint is active once the rules are applied, or applying
  them raises because some other rule, of the file or of the plan, carries an expiry without a time zone. The
  fingerprint is that of the recorded hypothesis of the given index. Assumed: the YAML text reads back as the rules
  it was written from.\<close>

theorem suppressed_stays_silent:
  assumes "cli_suppress_add ce sv k i reason expires db content = ((Finished, out), Some text)"
    and "\<And>rs. sv_dump sv rs = text \<Longrightarrow> sv_parse sv text = Inr rs"
    and "parsed_expires sv expires = Inr t" "t = None \<or> (\<exists>e. t = Some (Aware e) \<and> now \<le> e)"
  shows "\<exists>r d0 rules. store_load (ce_validate ce) k db = Inr (Some r) \<and> er_diagnosis r = Some d0 \<and>
    build_active_list (load_repo_suppress_list (sv_parse sv) (Some text)) p = Inr rules \<and>
    (case apply_to_diagnosis (sv_sha1 sv) rules now d of
       (Inl x, d') \<Rightarrow> \<exists>q \<in> set rules. \<exists>e. sr_expires_at q = Some (Naive e)
     | (Inr u, d') \<Rightarrow>
         \<forall>h \<in> set (active_hypotheses (sv_sha1 sv) d').
           hypothesis_fingerprint (sv_sha1 sv) h \<noteq> hypothesis_fingerprint (sv_sha1 sv) (dr_hypotheses d0 ! (i - 1)))"
proof -
  obtain r d0 h0 t' where r: "store_load (ce_validate ce) k db = Inr (Some r)" "er_diagnosis r = Some d0"
    "h0 = dr_hypotheses d0 ! (i - 1)" "parsed_expires sv expires = Inr t'"
    "append_rule sv (new_rule sv k reason t' h0) content = Inr text"
    using added_rule [OF assms(1)] by metis
  have t: "t' = t" using r(4) assms(3) by simp
  obtain rules where rules: "build_active_list (load_repo_suppress_list (sv_parse sv) (Some text)) p = Inr rules"
    and m: "new_rule sv k reason t h0 \<in> set rules"
    using r(5) assms(2) t
    by (auto simp: append_rule_def load_repo_suppress_list_def build_active_list_def merge_rules_def res_bind_Inr_iff
        split: if_splits option.splits)
  obtain x d' where a: "apply_to_diagnosis (sv_sha1 sv) rules now d = (x, d')" by fastforce
  have silent: "hypothesis_fingerprint (sv_sha1 sv) h \<noteq> hypothesis_fingerprint (sv_sha1 sv) h0"
    if x: "x = Inr u" and h: "h \<in> set (active_hypotheses (sv_sha1 sv) d')" for u h
  proof
    assume e: "hypothesis_fingerprint (sv_sha1 sv) h = hypothesis_fingerprint (sv_sha1 sv) h0"
    have "h \<in> set (dr_hypotheses d)" using h apply_keeps [OF a] by (auto simp: active_hypotheses_def)
    then have "hypothesis_fingerprint (sv_sha1 sv) h \<in> set (dr_suppressed_fingerprints d')"
      using new_rule_fires [OF e assms(4), of k reason] m unfolding apply_fingerprints [OF a [unfolded x]] by blast
    then show False using h by (simp add: active_hypotheses_def)
  qed
  have "case (x, d') of
       (Inl x, d') \<Rightarrow> \<exists>q \<in> set rules. \<exists>e. sr_expires_at q = Some (Naive e)
     | (Inr u, d') \<Rightarrow>
         \<forall>h \<in> set (active_hypotheses (sv_sha1 sv) d').
           hypothesis_fingerprint (sv_sha1 sv) h \<noteq> hypothesis_fingerprint (sv_sha1 sv) h0"
    using silent apply_raises [of "sv_sha1 sv" rules now d _ d'] a by (cases x) auto
  then show ?thesis
    unfolding r(3) using r(1,2) rules a by (intro exI [of _ r] exI [of _ d0] exI [of _ rules]) simp
qed

text \<open>An expiry without a time zone breaks the next diagnosis. \<open>chaos suppress add --expires 2026-12-31\<close> is
  accepted and written (the time stamp it parses to is naive); the next run that gets a diagnosis with a hypothesis
  then raises in the comparison with the current time: the experiment is aborted as an agent failure, the fixer is
  not asked, and so on for every run until the file is edited.\<close>

theorem naive_expiry_breaks_diagnosis:
  assumes "cli_suppress_add ce sv k i reason (Some expires) db None = ((Finished, out), Some text)"
    and "sv_fromiso sv (replace_char CHR ''Z'' ''+00:00'' expires) = Inr (Naive e)"
    and "\<And>rs. sv_dump sv rs = text \<Longrightarrow> sv_parse sv text = Inr rs"
    and "rt_repo_rules rt (rs_env s) = load_repo_suppress_list (sv_parse sv) (Some text)"
    and "er_diagnosis (rs_record s) = Some d" "dr_hypotheses d \<noteq> []"
  shows "\<exists>s'. suppress_diagnosis rt p s = Raise naive_comparison s' \<and>
    (\<exists>s''. recover rt (Raise naive_comparison s') = Ret s'' \<and> er_state (rs_record s'') = ABORTED \<and>
       er_abort_reason (rs_record s'') = Some AGENT_FAILURE)"
proof -
  obtain h where a: "append_rule sv (new_rule sv k reason (Some (Naive e)) h) None = Inr text"
    using added_rule [OF assms(1)] assms(2) by (auto simp: parsed_expires_def)
  then have p: "sv_parse sv text = Inr [new_rule sv k reason (Some (Naive e)) h]"
    using assms(3) by (auto simp: append_rule_def split: if_splits)
  obtain g gs where g: "dr_hypotheses d = g # gs" using assms(6) by (cases "dr_hypotheses d") auto
  have "apply_to_diagnosis f (new_rule sv k reason (Some (Naive e)) h # qs) now d = (Inl naive_comparison, d)" for f qs now
    by (simp add: apply_to_diagnosis_def g tag_hypothesis_def rule_matches_def new_rule_def)
  then have "suppress_diagnosis rt p s =
      Raise naive_comparison (upd_record (\<lambda>r. r\<lparr>er_diagnosis := Some d\<rparr>) (set_state DIAGNOSED s))"
    by (simp add: suppress_diagnosis_def Let_def build_active_list_def merge_rules_def assms(4,5)
        load_repo_suppress_list_def p)
  then show ?thesis by (auto simp: naive_comparison_def)
qed

section \<open>Concrete commands\<close>

definition kept_record :: experiment_record where
  "kept_record = (new_record demo_plan 0)\<lparr>er_state := RECORDED, er_diagnosis := Some demo_diagnosis\<rparr>"

definition small_cli :: cli_env where
  "small_cli =
     \<lparr>ce_dump = (\<lambda>r. []), ce_validate = (\<lambda>b. Inr kept_record), ce_json = (\<lambda>r. er_experiment_id r), ce_iso = (\<lambda>t. [])\<rparr>"

definition kept_db :: database where
  "kept_db = store_save (ce_dump small_cli) kept_record empty_db"

text \<open>Of the rules, the file keeps one: what is written for the first hypothesis.\<close>

definition small_suppress :: "timestamp option \<Rightarrow> suppress_env" where
  "small_suppress t =
     (let sv = \<lparr>sv_parse = (\<lambda>s. Inr []), sv_dump = (\<lambda>rs. []), sv_fromiso = (\<lambda>s. case t of None \<Rightarrow> Inl [] | Some x \<Rightarrow> Inr x),
          sv_iso = (\<lambda>x. []), sv_sha1 = (\<lambda>s. s), sv_path = ''.chaos/suppress.yaml''\<rparr>;
          rs = [new_rule sv ''exp-0123456789ab'' ''known'' t demo_hypothesis]
      in sv\<lparr>sv_parse := (\<lambda>s. Inr rs), sv_dump := (\<lambda>qs. if qs = rs then ''x'' else ''y'')\<rparr>)"

lemma kept_load: "store_load (ce_validate small_cli) ''exp-0123456789ab'' kept_db = Inr (Some kept_record)"
  by (simp add: kept_db_def small_cli_def store_load_def store_save_def kept_record_def new_record_def demo_plan_def
      empty_db_def dict_get_Cons res_bind_def stored_blob_def fresh_row_def)

lemma kept_hypotheses: "er_diagnosis kept_record = Some demo_diagnosis" "dr_hypotheses demo_diagnosis = [demo_hypothesis]"
  by (simp_all add: kept_record_def demo_diagnosis_def)

lemma small_suppress_fields:
  "sv_parse (small_suppress t) s = Inr [new_rule (small_suppress t) ''exp-0123456789ab'' ''known'' t demo_hypothesis]"
  "sv_dump (small_suppress t) rs =
     (if rs = [new_rule (small_suppress t) ''exp-0123456789ab'' ''known'' t demo_hypothesis] then ''x'' else ''y'')"
  "sv_fromiso (small_suppress t) s = (case t of None \<Rightarrow> Inl [] | Some x \<Rightarrow> Inr x)"
  "sv_sha1 (small_suppress t) = (\<lambda>s. s)"
  by (simp_all add: small_suppress_def Let_def new_rule_def)

lemma small_round: "sv_dump (small_suppress t) rs = ''x'' \<Longrightarrow> sv_parse (small_suppress t) ''x'' = Inr rs"
  by (simp add: small_suppress_fields split: if_splits)

lemma small_add:
  "\<exists>out. cli_suppress_add small_cli (small_suppress t) ''exp-0123456789ab'' 1 ''known''
     (map_option (\<lambda>x. ''2026-12-31'') t) kept_db None = ((Finished, out), Some ''x'')"
proof -
  have t: "parsed_expires (small_suppress t) (map_option (\<lambda>x. ''2026-12-31'') t) = Inr t"
    by (cases t) (simp_all add: parsed_expires_def small_suppress_fields)
  have ok: "suppression_rule_ok (new_rule (small_suppress t) ''exp-0123456789ab'' ''known'' t demo_hypothesis)"
    by (simp add: suppression_rule_ok_def new_rule_def str_set_def hypothesis_fingerprint_def)
      (simp add: hypothesis_fp_def small_suppress_fields canonical_text_def demo_hypothesis_def)
  show ?thesis
    by (simp add: cli_suppress_add_def kept_load kept_hypotheses Let_def t append_rule_def ok small_suppress_fields)
qed

lemma suppressed_stays_silent_witness:
  "\<exists>d'. apply_to_diagnosis (\<lambda>s. s) [new_rule (small_suppress None) ''exp-0123456789ab'' ''known'' None demo_hypothesis] 5
      demo_diagnosis = (Inr (), d') \<and> active_hypotheses (\<lambda>s. s) d' = []"
proof -
  let ?r = "new_rule (small_suppress None) ''exp-0123456789ab'' ''known'' None demo_hypothesis"
  obtain out where add: "cli_suppress_add small_cli (small_suppress None) ''exp-0123456789ab'' 1 ''known'' None kept_db None =
      ((Finished, out), Some ''x'')"
    using small_add [of None] by auto
  have "list_all zoned [?r]" by (simp add: zoned_def new_rule_def)
  then obtain d' where d: "apply_to_diagnosis (\<lambda>s. s) [?r] 5 demo_diagnosis = (Inr (), d')" using zoned_applies by blast
  have "ep_suppress demo_plan = []" by (simp add: demo_plan_def)
  then have "\<forall>h \<in> set (active_hypotheses (\<lambda>s. s) d'). hypothesis_fingerprint (\<lambda>s. s) h \<noteq> hypothesis_fingerprint (\<lambda>s. s) demo_hypothesis"
    using suppressed_stays_silent [OF add small_round, of None 5 demo_plan demo_diagnosis] d
    by (simp add: small_suppress_fields kept_load kept_hypotheses load_repo_suppress_list_def build_active_list_def
        merge_rules_def parsed_expires_def)
  moreover have "set (active_hypotheses (\<lambda>s. s) d') \<subseteq> {demo_hypothesis}"
    using apply_keeps [OF d] by (auto simp: active_hypotheses_def kept_hypotheses)
  ultimately have "active_hypotheses (\<lambda>s. s) d' = []" by (cases "active_hypotheses (\<lambda>s. s) d'") auto
  then show ?thesis using d by blast
qed

lemma naive_expiry_breaks_diagnosis_witness:
  "\<exists>s'. suppress_diagnosis (demo_runtime\<lparr>rt_repo_rules := (\<lambda>e. sv_parse (small_suppress (Some (Naive 7))) ''x'')\<rparr>) demo_plan
      (upd_record (\<lambda>r. kept_record) (start_record demo_runtime demo_plan empty_db [] ())) = Raise naive_comparison s'"
proof -
  obtain out where add: "cli_suppress_add small_cli (small_suppress (Some (Naive 7))) ''exp-0123456789ab'' 1 ''known''
      (Some ''2026-12-31'') kept_db None = ((Finished, out), Some ''x'')"
    using small_add [of "Some (Naive 7)"] by auto
  show ?thesis
    using naive_expiry_breaks_diagnosis [OF add _ small_round, of 7
        "demo_runtime\<lparr>rt_repo_rules := (\<lambda>e. sv_parse (small_suppress (Some (Naive 7))) ''x'')\<rparr>"
        "upd_record (\<lambda>r. kept_record) (start_record demo_runtime demo_plan empty_db [] ())" demo_diagnosis demo_plan]
    by (auto simp: small_suppress_fields kept_hypotheses load_repo_suppress_list_def upd_record_def)
qed

definition bench_world_cli :: "unit cli_world" where
  "bench_world_cli =
     \<lparr>cw_factory = offline_world, cw_clock = (\<lambda>w. (1, w)), cw_reading_time = 0, cw_to_float = (\<lambda>v. Inr 0),
      cw_base = offline_runtime, cw_instance = (\<lambda>c. Inl offline_exn)\<rparr>"

definition bench_state :: "(simulator \<times> unit) live" where
  "bench_state = \<lparr>hx_current = None, hx_log = [], hx_world = \<lparr>lw_baselines = [], lw_world = (new_simulator, ())\<rparr>\<rparr>"

lemma bench_run_must_opt_out_witness:
  "\<exists>out s. cli_run bench_world_cli small_sources small_cli bench_options (Inr demo_plan) [] empty_registry empty_db
      bench_state = Some ((Finished, out), Some s) \<and> er_state (rs_record s) = ABORTED"
proof -
  have o: "ro_hardware bench_options" "\<not> ro_dry_run bench_options" "plugin_choice bench_options demo_plan = None"
      "sc_require_namespace_annotation (ep_safety demo_plan)"
    by (simp_all add: bench_options_def plugin_choice_def demo_plan_def set_text_def)
  let ?rt = "(chosen_runtime bench_world_cli Bench_set)\<lparr>rt_plugin := None\<rparr>"
  obtain getter where "rt_namespace_annotations ?rt = Some getter" "\<And>ns e. \<exists>e'. getter ns e = (Inr (Some []), e')"
    using bench_annotations [of bench_world_cli] by auto
  from bench_refused [OF _ this o(4), of empty_db "[]" bench_state] obtain s where
    "run ?rt demo_plan empty_db [] bench_state = Returned s" by auto
  then have r: "cli_run bench_world_cli small_sources small_cli bench_options (Inr demo_plan) [] empty_registry empty_db
      bench_state = Some ((Finished, [Json (ce_json small_cli (rs_record s))]), Some s)"
    using o(1-3) by (simp add: cli_run_def choose_agents_def resolve_plugin_def)
  from bench_run_must_opt_out [OF this o] r show ?thesis by auto
qed

end
