(* ===== verification/Cli_Regression.thy ===== *)
theory Cli_Regression
  imports Suite_Runner Playwright Cli_Run
begin

text \<open>
  The \<open>regression\<close> commands of \<open>orchestrator/main.py\<close>: replaying a suite and gating on the result, goldens and drift,
  the coverage matrix, linting, listing, showing and scaffolding. The state is what has been printed, the store and the
  world of the agents. The YAML parser, Pydantic's validation, identifiers, the clock and the \<open>.0%\<close>, \<open>.3g\<close> and \<open>.2g\<close>
  formats are fields of \<open>reg_world\<close>; a run that never returns is \<open>None\<close>.
\<close>

section \<open>State and arguments\<close>

record 'w reg_state =
  rg_out :: "printed list"
  rg_db :: database
  rg_live :: "(simulator \<times> 'w) live"

record 'w reg_world =
  rw_cli :: "'w cli_world"
  rw_oracle :: "oracle_kind \<Rightarrow> (simulator \<times> 'w) live plugin"
  rw_operator :: "string \<Rightarrow> op_signal list list"
  rw_experiment_id :: "'w reg_state \<Rightarrow> string"
  rw_suite_run_id :: "'w reg_state \<Rightarrow> string"
  rw_now :: "'w reg_state \<Rightarrow> int"
  rw_sha256 :: "string \<Rightarrow> string"
  rw_model_validate :: "(string, pyval) dict \<Rightarrow> regression_suite res"
  rw_sample :: "pyval \<Rightarrow> statistical_sample res"
  rw_threshold :: "pyval \<Rightarrow> metric_threshold res"
  rw_dump_run :: "suite_run_record \<Rightarrow> string"
  rw_load_run :: "string \<Rightarrow> suite_run_record res"
  rw_dump_golden :: "golden \<Rightarrow> string"
  rw_load_golden :: "string \<Rightarrow> golden res"
  rw_percent :: "real \<Rightarrow> string"
  rw_sig3 :: "real \<Rightarrow> string"
  rw_sig2 :: "real \<Rightarrow> string"
  rw_iso :: "int \<Rightarrow> string"
  rw_iso_seconds :: "int \<Rightarrow> string"

definition say :: "printed list \<Rightarrow> 'w reg_state \<Rightarrow> 'w reg_state" where
  "say ls st = st\<lparr>rg_out := rg_out st @ ls\<rparr>"

definition text_or :: "string \<Rightarrow> string \<Rightarrow> string" where
  "text_or a b = (if a = [] then b else a)"

definition reg_float_repr :: "'w reg_world \<Rightarrow> real \<Rightarrow> string" where
  "reg_float_repr rw = fe_repr_float (cw_factory (rw_cli rw))"

definition read_suite :: "'w reg_world \<Rightarrow> string \<Rightarrow> pyval res \<Rightarrow> bool \<Rightarrow> regression_suite res" where
  "read_suite rw file parsed validate = load_suite (rw_sha256 rw) (rw_model_validate rw) file parsed validate"

section \<open>Agents and the scenario runner\<close>

record reg_options =
  rn_dry_run :: bool
  rn_profile :: string
  rn_config :: agent_config
  rn_save_golden :: bool
  rn_ref :: "string option"
  rn_drift_against :: "string option"
  rn_fail_on_drift :: bool

definition build_regression_agents ::
  "'w factory_env \<Rightarrow> bool \<Rightarrow> string \<Rightarrow> agent_config \<Rightarrow> cli_exit + 'w agent_choice" where
  "build_regression_agents fe dry_run profile c = (if dry_run then Inr Mock_set else choose_real fe profile c)"

text \<open>\<open>SuiteRunner.with_agents\<close>: one orchestrator run per scenario, under the oracle of its kind.\<close>

definition scenario_runtime ::
  "'w reg_world \<Rightarrow> (simulator \<times> 'w) agent_choice \<Rightarrow> oracle_kind \<Rightarrow> (simulator \<times> 'w) live runtime" where
  "scenario_runtime rw choice k = (chosen_runtime (rw_cli rw) choice)\<lparr>rt_plugin := Some (rw_oracle rw k)\<rparr>"

definition replay_scenario ::
  "'w reg_world \<Rightarrow> (simulator \<times> 'w) agent_choice \<Rightarrow> oracle_kind \<Rightarrow> experiment_plan \<Rightarrow> 'w reg_state \<Rightarrow>
    (experiment_record res \<times> 'w reg_state) option" where
  "replay_scenario rw choice k p st =
     (case run (scenario_runtime rw choice k) p (rg_db st) (rw_operator rw (ep_experiment_id p)) (rg_live st) of
        Hangs \<Rightarrow> None
      | Raised x s \<Rightarrow> Some (Inl x, st\<lparr>rg_db := rs_db s, rg_live := rs_env s\<rparr>)
      | Returned s \<Rightarrow> Some (Inr (rs_record s), st\<lparr>rg_db := rs_db s, rg_live := rs_env s\<rparr>))"

fun outcome_dot :: "regression_outcome \<Rightarrow> string" where
  "outcome_dot RO_PASS = ''[green]pass[/green]''"
| "outcome_dot RO_REGRESSED = ''[red]REGRESSED[/red]''"
| "outcome_dot RO_BASELINE_FAIL = ''[yellow]baseline_fail[/yellow]''"
| "outcome_dot RO_ERROR = ''[magenta]error[/magenta]''"

definition progress_line :: "nat \<Rightarrow> nat \<Rightarrow> regression_verdict \<Rightarrow> printed" where
  "progress_line i n v =
     Line (''[dim]['' @ nat_str i @ ''/'' @ nat_str n @ ''][/dim] '' @ text_or (rv_title v) (rv_scenario_id v) @
       '' ... '' @ outcome_dot (rv_outcome v))"

definition reg_suite_env :: "'w reg_world \<Rightarrow> (simulator \<times> 'w) agent_choice \<Rightarrow> 'w reg_state suite_env" where
  "reg_suite_env rw choice =
     \<lparr>sx_run = replay_scenario rw choice, sx_progress = Some (\<lambda>i n v st. (Inr (), say [progress_line i n v] st)),
      sx_experiment_id = rw_experiment_id rw, sx_suite_run_id = rw_suite_run_id rw, sx_now = rw_now rw,
      sx_save = (\<lambda>r st. st\<lparr>rg_db := save_suite_run (rw_dump_run rw) r (rg_db st)\<rparr>),
      sx_float_repr = reg_float_repr rw\<rparr>"

section \<open>Printing a suite run\<close>

fun outcome_value :: "regression_outcome \<Rightarrow> string" where
  "outcome_value RO_PASS = ''pass''"
| "outcome_value RO_REGRESSED = ''regressed''"
| "outcome_value RO_BASELINE_FAIL = ''baseline_fail''"
| "outcome_value RO_ERROR = ''error''"

fun outcome_style :: "regression_outcome \<Rightarrow> string" where
  "outcome_style RO_PASS = ''green''"
| "outcome_style RO_REGRESSED = ''red''"
| "outcome_style RO_BASELINE_FAIL = ''yellow''"
| "outcome_style RO_ERROR = ''magenta''"

definition verdict_detail :: "regression_verdict \<Rightarrow> string" where
  "verdict_detail v =
     (if rv_outcome v = RO_REGRESSED
      then ''newly failing: '' @ text_or (join '', '' (rv_newly_failing v)) ''?''
      else if rv_outcome v \<in> {RO_ERROR, RO_BASELINE_FAIL} then text_or (rv_detail v) ''[dim]-[/dim]''
      else ''[dim]-[/dim]'')"

definition verdict_row :: "regression_verdict \<Rightarrow> string list" where
  "verdict_row v =
     [text_or (rv_title v) (rv_scenario_id v), text_or (rv_fault v) ''[dim]?[/dim]'',
      ''['' @ outcome_style (rv_outcome v) @ '']'' @ outcome_value (rv_outcome v) @ ''[/'' @
        outcome_style (rv_outcome v) @ '']'',
      verdict_detail v]"

definition outcome_count :: "regression_outcome \<Rightarrow> regression_verdict list \<Rightarrow> nat" where
  "outcome_count oc vs = length (filter (\<lambda>v. rv_outcome v = oc) vs)"

definition coverage_lines :: "'w reg_world \<Rightarrow> coverage_matrix \<Rightarrow> printed list" where
  "coverage_lines rw m =
     [Line (''coverage: [green]'' @ nat_str (cm_covered m) @ '' covered[/green] / [yellow]'' @ nat_str (cm_gaps m) @
        '' gap[/yellow] / '' @ nat_str (cm_na m) @ '' n-a  (relevant comprehensiveness '' @
        (case cm_comprehensiveness m of None \<Rightarrow> ''n/a'' | Some x \<Rightarrow> rw_percent rw x) @ '')''),
      Line (''[dim]axis: '' @ nat_str (length (cm_faults m)) @ '' fault(s) x '' @ nat_str (length (cm_journeys m)) @
        '' journey(s). Scope with --fault; add scenarios to close gaps.[/dim]'')]"

definition suite_run_lines :: "'w reg_world \<Rightarrow> suite_run_record \<Rightarrow> printed list" where
  "suite_run_lines rw r =
     [Grid [''scenario'', ''fault'', ''outcome'', ''detail''] (map verdict_row (srr_verdicts r)),
      Line (''suite_run='' @ srr_suite_run_id r @ ''  scenarios='' @ nat_str (length (srr_verdicts r)) @
        ''  [green]pass='' @ nat_str (outcome_count RO_PASS (srr_verdicts r)) @
        ''[/green]  [red]regressed='' @ nat_str (outcome_count RO_REGRESSED (srr_verdicts r)) @
        ''[/red]  [yellow]baseline_fail='' @ nat_str (outcome_count RO_BASELINE_FAIL (srr_verdicts r)) @
        ''[/yellow]  [magenta]error='' @ nat_str (outcome_count RO_ERROR (srr_verdicts r)) @ ''[/magenta]''),
      Line (''[dim]inspect: chaos regression show '' @ srr_suite_run_id r @ ''[/dim]'')] @
     (case srr_coverage r of None \<Rightarrow> [] | Some m \<Rightarrow> coverage_lines rw m)"

section \<open>Printing drift\<close>

definition metric_part :: "'w reg_world \<Rightarrow> metric_drift \<Rightarrow> string list" where
  "metric_part rw m =
     (if md_regressed m
      then [''[red]'' @ md_metric m @ '' '' @ percentile_field_value (md_percentile m) @ '' '' @
        rw_sig3 rw (md_golden_value m) @ ''->'' @ rw_sig3 rw (md_current_value m) @ '' (>'' @
        rw_sig2 rw (md_max_ratio m) @ ''x)[/red]'']
      else if md_missing m then [''[yellow]'' @ md_metric m @ '': not sampled[/yellow]'']
      else [])"

definition drift_parts :: "'w reg_world \<Rightarrow> scenario_drift \<Rightarrow> string list" where
  "drift_parts rw s =
     (if sd_regressed s \<noteq> [] then [''[red]regressed at baseline: '' @ join '', '' (sd_regressed s) @ ''[/red]''] else []) @
     concat (map (metric_part rw) (sd_metric_drifts s)) @
     (if sd_recovered s \<noteq> [] then [''[green]recovered: '' @ join '', '' (sd_recovered s) @ ''[/green]''] else [])"

definition drift_row :: "'w reg_world \<Rightarrow> scenario_drift \<Rightarrow> string list" where
  "drift_row rw s =
     [text_or (sd_title s) (sd_scenario_id s),
      (if sd_unassessed s then ''[dim]did not assess cleanly this run - drift not comparable[/dim]''
       else if sd_missing_golden s then ''[dim]no golden[/dim]''
       else if drift_parts rw s = [] then ''[dim]stable[/dim]'' else join ''  '' (drift_parts rw s))]"

definition drift_lines :: "'w reg_world \<Rightarrow> drift_report_t \<Rightarrow> printed list" where
  "drift_lines rw rep =
     [Line [], Grid [''scenario'', ''baseline drift vs '' @ dp_against_ref rep] (map (drift_row rw) (dp_scenarios rep)),
      Line (''drift vs '' @ dp_against_ref rep @ '': [red]'' @ nat_str (dp_regressed_scenarios rep) @
        '' scenario(s) regressed at baseline[/red]'')]"

section \<open>run\<close>

definition unused_ref_line :: printed where
  "unused_ref_line =
     Line (''[yellow]--target-ref given without --save-golden; it will be ignored. '' @
       ''Add --save-golden to store this run's baseline as a golden.[/yellow]'')"

definition reg_overrides :: "reg_options \<Rightarrow> (string, pyval) dict" where
  "reg_overrides ro =
     (if rn_dry_run ro then [(''_dry_run'', PBool True)] else []) @
     (case set_text (ac_prom_url (rn_config ro)) of None \<Rightarrow> [] | Some u \<Rightarrow> [(''prom_url'', PStr u)])"

definition saved_line :: "string \<Rightarrow> nat \<Rightarrow> nat \<Rightarrow> printed" where
  "saved_line ref n skipped =
     Line (''[green]saved golden[/green] for ref '' @ repr_str ref @ '' ('' @ nat_str n @ '' scenario(s)'' @
       (if skipped \<noteq> 0 then ''; '' @ nat_str skipped @ '' skipped (did not assess cleanly)'' else []) @ '')'')"

definition store_golden ::
  "'w reg_world \<Rightarrow> reg_options \<Rightarrow> regression_suite \<Rightarrow> suite_run_record \<Rightarrow> 'w reg_state \<Rightarrow> unit res \<times> 'w reg_state" where
  "store_golden rw ro su r st =
     (case (rn_save_golden ro, set_text (rn_ref ro)) of
        (True, Some ref) \<Rightarrow>
          (case goldens_from_run (reg_float_repr rw) (rw_sample rw) (rw_now rw st) r ref of
             Inl x \<Rightarrow> (Inl x, st)
           | Inr gs \<Rightarrow>
               (Inr (),
                say [saved_line ref (length gs) (length (srr_verdicts r) - length gs)]
                  (st\<lparr>rg_db := save_goldens (rw_dump_golden rw) (su_suite_id su) ref gs (rg_db st)\<rparr>)))
      | _ \<Rightarrow> (Inr (), st))"

definition check_drift ::
  "'w reg_world \<Rightarrow> reg_options \<Rightarrow> regression_suite \<Rightarrow> suite_run_record \<Rightarrow> 'w reg_state \<Rightarrow> bool res \<times> 'w reg_state" where
  "check_drift rw ro su r st =
     (case set_text (rn_drift_against ro) of
        None \<Rightarrow> (Inr False, st)
      | Some ref \<Rightarrow>
          (case load_goldens (rw_load_golden rw) (su_suite_id su) ref (rg_db st) of
             Inl x \<Rightarrow> (Inl x, st)
           | Inr [] \<Rightarrow>
               (Inr False, say [Line (''[yellow]no golden stored for ref '' @ repr_str ref @
                  '' (save one with --save-golden --target-ref).[/yellow]'')] st)
           | Inr gs \<Rightarrow>
               (case drift_report (reg_float_repr rw) (rw_sample rw) (rw_threshold rw) r gs ref of
                  Inl x \<Rightarrow> (Inl x, st)
                | Inr rep \<Rightarrow> (Inr (dp_regressed_scenarios rep > 0), say (drift_lines rw rep) st))))"

definition acute_regressed :: "suite_run_record \<Rightarrow> bool" where
  "acute_regressed r = list_ex (\<lambda>v. rv_outcome v = RO_REGRESSED) (srr_verdicts r)"

text \<open>What follows the suite's run.\<close>

definition finish_suite_run ::
  "'w reg_world \<Rightarrow> reg_options \<Rightarrow> regression_suite \<Rightarrow> suite_run_record \<Rightarrow> 'w reg_state \<Rightarrow> cli_exit \<times> 'w reg_state" where
  "finish_suite_run rw ro su r st =
     (case store_golden rw ro su r (say (Line [] # suite_run_lines rw r) st) of
        (Inl x, st1) \<Rightarrow> (Uncaught x, st1)
      | (Inr u, st1) \<Rightarrow>
          (case check_drift rw ro su r st1 of
             (Inl x, st2) \<Rightarrow> (Uncaught x, st2)
           | (Inr drifted, st2) \<Rightarrow>
               ((if acute_regressed r \<or> rn_fail_on_drift ro \<and> drifted then Exit_code 1 else Finished), st2)))"

definition cli_regression_run ::
  "'w reg_world \<Rightarrow> reg_options \<Rightarrow> string \<Rightarrow> pyval res \<Rightarrow> 'w reg_state \<Rightarrow> (cli_exit \<times> 'w reg_state) option" where
  "cli_regression_run rw ro file parsed st =
     (if rn_save_golden ro \<and> set_text (rn_ref ro) = None
      then Some (Bad_parameter ''--save-golden requires --target-ref'', st)
      else
        let st0 = (if set_text (rn_ref ro) \<noteq> None \<and> \<not> rn_save_golden ro then say [unused_ref_line] st else st) in
        case read_suite rw file parsed True of
          Inl x \<Rightarrow> Some (Uncaught x, st0)
        | Inr su \<Rightarrow>
            (case build_regression_agents (cw_factory (rw_cli rw)) (rn_dry_run ro) (rn_profile ro) (rn_config ro) of
               Inl ex \<Rightarrow> Some (ex, st0)
             | Inr choice \<Rightarrow>
                 (case run_suite (reg_suite_env rw choice) su (reg_overrides ro) st0 of
                    None \<Rightarrow> None
                  | Some (Inl x, st1) \<Rightarrow> Some (Uncaught x, st1)
                  | Some (Inr r, st1) \<Rightarrow> Some (finish_suite_run rw ro su r st1))))"

section \<open>goldens, list, show, validate\<close>

definition short_ts :: "string \<Rightarrow> string" where
  "short_ts t = replace_char CHR ''T'' '' '' (take 19 t)"

definition cli_goldens :: "'w reg_world \<Rightarrow> string \<Rightarrow> pyval res \<Rightarrow> database \<Rightarrow> cli_exit \<times> printed list" where
  "cli_goldens rw file parsed db =
     (case read_suite rw file parsed True of
        Inl x \<Rightarrow> (Uncaught x, [])
      | Inr su \<Rightarrow>
          (let refs = golden_refs (su_suite_id su) db in
           if refs = []
           then (Finished, [Line (''[dim]no goldens stored. Capture one with '' @
             ''`chaos regression run <suite> --save-golden --target-ref <ref>`.[/dim]'')])
           else (Finished, [Grid [''target_ref'', ''scenarios'', ''captured'']
             (map (\<lambda>(ref, n, t). [ref, nat_str n, short_ts (rw_iso rw t)]) refs)])))"

definition suite_run_row :: "'w reg_world \<Rightarrow> suite_run_record \<Rightarrow> string list" where
  "suite_run_row rw r =
     (let n = outcome_count RO_REGRESSED (srr_verdicts r) in
      [srr_suite_run_id r, srr_suite_id r, rw_iso_seconds rw (srr_started_at r), nat_str (length (srr_verdicts r)),
       (if n \<noteq> 0 then ''[red]'' @ nat_str n @ ''[/red]'' else ''0'')])"

definition cli_suite_runs :: "'w reg_world \<Rightarrow> int \<Rightarrow> database \<Rightarrow> cli_exit \<times> printed list" where
  "cli_suite_runs rw limit db =
     (case recent_suite_runs (rw_load_run rw) limit db of
        Inl x \<Rightarrow> (Uncaught x, [])
      | Inr rs \<Rightarrow>
          (if rs = [] then (Finished, [Line ''[dim]no suite runs recorded yet.[/dim]''])
           else (Finished, [Grid [''suite_run'', ''suite'', ''started'', ''scenarios'', ''regressed'']
             (map (suite_run_row rw) rs)])))"

definition cli_suite_show :: "'w reg_world \<Rightarrow> string \<Rightarrow> database \<Rightarrow> cli_exit \<times> printed list" where
  "cli_suite_show rw k db =
     (case load_suite_run (rw_load_run rw) k db of
        Inl x \<Rightarrow> (Uncaught x, [])
      | Inr None \<Rightarrow> (Exit_code 1, [Line (''[red]no suite run found for '' @ repr_str k @ ''[/red]'')])
      | Inr (Some r) \<Rightarrow> (Finished, suite_run_lines rw r))"

definition cli_suite_validate :: "'w reg_world \<Rightarrow> string \<Rightarrow> pyval res \<Rightarrow> cli_exit \<times> printed list" where
  "cli_suite_validate rw file parsed =
     (case read_suite rw file parsed False of
        Inl x \<Rightarrow> (Uncaught x, [])
      | Inr su \<Rightarrow>
          (let problems = validate_suite su in
           if problems \<noteq> []
           then (Exit_code 1,
             Line (''[red]'' @ nat_str (length problems) @ '' problem(s) in '' @ file @ '':[/red]'') #
             map (\<lambda>p. Line (''  [red]*[/red] '' @ p)) problems)
           else (Finished, [Line (''[green]ok[/green] - '' @ nat_str (length (su_scenarios su)) @ '' scenario(s), '' @
             nat_str (length (su_all_journeys su)) @ '' journey(s), no problems.'')])))"

section \<open>coverage\<close>

definition grid_mark :: "coverage_matrix \<Rightarrow> string \<Rightarrow> string \<Rightarrow> string" where
  "grid_mark m j f =
     (case find (\<lambda>c. cc_fault c = f \<and> cc_journey c = j) (rev (cm_cells m)) of
        None \<Rightarrow> ''.''
      | Some c \<Rightarrow>
          if str_set (cc_scenario_id c) then ''[green]v[/green]''
          else if cc_state c = CS_NA then ''[dim]n/a[/dim]''
          else ''.'')"

definition coverage_grid :: "coverage_matrix \<Rightarrow> printed" where
  "coverage_grid m =
     Grid (''journey'' # cm_faults m) (map (\<lambda>j. j # map (grid_mark m j) (cm_faults m)) (cm_journeys m))"

definition coverage_out ::
  "'w reg_world \<Rightarrow> regression_suite \<Rightarrow> string list \<Rightarrow> (string, string set) dict option \<Rightarrow> printed list" where
  "coverage_out rw su selected fps =
     (let m = render_coverage su selected (case fps of None \<Rightarrow> [] | Some d \<Rightarrow> d);
          mapped = (\<lambda>d. length (filter (dict_has d) (su_all_journeys su)))
      in coverage_lines rw m @
         (case fps of
            None \<Rightarrow> []
          | Some d \<Rightarrow> [Line (''[dim]footprints: '' @ nat_str (mapped d) @ ''/'' @ nat_str (length (su_all_journeys su)) @
              '' journeys mapped; '' @ nat_str (cm_na m) @ '' cell(s) marked n-a[/dim]'')]) @
         (if selected \<noteq> [] then [coverage_grid m] else []))"

text \<open>\<open>footprints\<close> is the parsed footprint file, when one is given; \<open>esc\<close> is Rich's \<open>escape\<close>.\<close>

definition cli_coverage ::
  "'w reg_world \<Rightarrow> (string \<Rightarrow> string) \<Rightarrow> string \<Rightarrow> pyval res \<Rightarrow> string list \<Rightarrow> pyval res option \<Rightarrow>
    cli_exit \<times> printed list" where
  "cli_coverage rw esc file parsed selected footprints =
     (case read_suite rw file parsed True of
        Inl x \<Rightarrow> (Uncaught x, [])
      | Inr su \<Rightarrow>
          (case footprints of
             None \<Rightarrow> (Finished, coverage_out rw su selected None)
           | Some (Inl x) \<Rightarrow> (Uncaught x, [])
           | Some (Inr raw) \<Rightarrow>
               (case res_bind (parse_footprints (reg_float_repr rw) raw)
                   (\<lambda>fps. res_bind (check_footprints fps su) (\<lambda>ws. Inr (fps, ws))) of
                  Inl (Exn c msg) \<Rightarrow>
                    if c = ''FootprintError''
                    then (Exit_code 1, [Line (''[red]footprints error:[/red] '' @ esc msg)])
                    else (Uncaught (Exn c msg), [])
                | Inl (BaseExn c) \<Rightarrow> (Uncaught (BaseExn c), [])
                | Inr (fps, ws) \<Rightarrow>
                    (Finished, map (\<lambda>w. Line (''[yellow]warning:[/yellow] '' @ esc w)) ws @
                       coverage_out rw su selected (Some fps)))))"

section \<open>scaffold\<close>

definition lines_text :: "string list \<Rightarrow> string" where
  "lines_text ls = concat (map (\<lambda>l. l @ [newline]) ls)"

definition quoted :: "string \<Rightarrow> string" where
  "quoted t = [dquote] @ t @ [dquote]"

text \<open>\<open>js\<close> is \<open>json.dumps\<close> on strings.\<close>

definition scaffold_yaml :: "(string \<Rightarrow> string) \<Rightarrow> string \<Rightarrow> string \<Rightarrow> string \<Rightarrow> string list \<Rightarrow> string" where
  "scaffold_yaml js name target_app suite_path journeys =
     lines_text
       ([''# Regression suite for '' @ target_app @ '', generated by `chaos regression scaffold`.'',
         ''# Edit the scenario below: pick a real fault (see `chaos list-faults`), say why'',
         ''# it threatens the journey, and list the journey(s) it must not break.'',
         ''name: '' @ name,
         ''target_app: '' @ target_app,
         ''# target_repo: https://git/...        # optional; enables source-aware diagnosis'',
         [],
         ''safety:'',
         ''  cluster_context: kind-chaos          # a NON-prod cluster'',
         ''  namespace: '' @ target_app,
         ''  # On a shared cluster set this true and annotate the namespace; left false so'',
         ''  # a local `kind` run works out of the box.'',
         ''  require_namespace_annotation: false'',
         [],
         ''oracle: playwright'',
         ''oracle_defaults:'',
         ''  suite_path: '' @ js suite_path @ ''   # your Playwright project directory'',
         ''  # base_url: http://localhost:8080'',
         ''  retries: 2'',
         [],
         ''scenarios:'',
         ''  - title: '' @ quoted (target_app @ '' survives a pod restart''),
         ''    fault:'',
         ''      category: pod'',
         ''      name: pod.kill                   # see `chaos list-faults`'',
         ''      target_selector: { app: '' @ target_app @ '' }'',
         ''      duration_seconds: 30'',
         ''      rationale: '' @ quoted ''TODO: why this fault threatens the journey below'',
         ''    journeys:                          # which journey(s) this fault must not break'',
         ''      - '' @ js (hd journeys),
         [],
         ''# Every journey your suite exposes - the coverage denominator:'',
         ''all_journeys:''] @
        map (\<lambda>j. ''  - '' @ js j) journeys)"

text \<open>The listing: a given dump, already parsed, or what \<open>npx\<close> printed on its two streams.\<close>

datatype listing = Listing_file "pyval res" | Npx_output string string

definition listing_data :: "(string \<Rightarrow> pyval res) \<Rightarrow> string \<Rightarrow> listing \<Rightarrow> (cli_exit \<times> printed list) + pyval" where
  "listing_data loads suite_path l =
     (case l of
        Listing_file r \<Rightarrow> (case r of Inl x \<Rightarrow> Inl (Uncaught x, []) | Inr d \<Rightarrow> Inr d)
      | Npx_output out err \<Rightarrow>
          (if strip out = []
           then Inl (Exit_code 1, [Line (''[red]could not list Playwright tests in '' @ repr_str suite_path @ ''[/red]'' @
             [newline] @ take 500 err)])
           else case loads out of Inl x \<Rightarrow> Inl (Uncaught x, []) | Inr d \<Rightarrow> Inr d))"

definition journeys_of :: "'w reg_world \<Rightarrow> pyval \<Rightarrow> string list res" where
  "journeys_of rw v =
     (case v of
        PDict d \<Rightarrow> list_journeys (reg_float_repr rw) d
      | _ \<Rightarrow> Inl attribute_error)"

text \<open>The command's outcome and the file at \<open>out_path\<close> afterwards; \<open>parse\<close> is \<open>yaml.safe_load\<close>.\<close>

definition cli_scaffold ::
  "'w reg_world \<Rightarrow> (string \<Rightarrow> string) \<Rightarrow> (string \<Rightarrow> pyval res) \<Rightarrow> (string \<Rightarrow> pyval res) \<Rightarrow> string \<Rightarrow> string \<Rightarrow>
    listing \<Rightarrow> string \<Rightarrow> string option \<Rightarrow> (cli_exit \<times> printed list) \<times> string option" where
  "cli_scaffold rw js loads parse out_path suite_path l target_app content =
     (case listing_data loads suite_path l of
        Inl r \<Rightarrow> (r, content)
      | Inr d \<Rightarrow>
          (case journeys_of rw d of
             Inl x \<Rightarrow> ((Uncaught x, []), content)
           | Inr journeys \<Rightarrow>
               (if journeys = []
                then ((Exit_code 1, [Line ''[yellow]no journeys found - is --suite-path correct?[/yellow]'']), content)
                else
                  (let text = scaffold_yaml js (target_app @ ''-resilience'') target_app suite_path journeys in
                   ((case read_suite rw out_path (parse text) True of
                       Inl x \<Rightarrow> (Uncaught x, [])
                     | Inr su \<Rightarrow>
                         (Finished,
                          [Line (''[green]wrote[/green] '' @ out_path @ '' - '' @ nat_str (length journeys) @
                             '' journey(s), 1 example scenario.'' @ [newline] @ ''Before running:'' @ [newline] @
                             ''  1. edit the scenario's fault + rationale, and the journey(s) it guards'' @ [newline] @
                             ''  2. ensure Node + Playwright are installed and the target is reachable'' @ [newline] @
                             ''  3. chaos regression validate '' @ out_path @ [newline] @
                             ''  4. chaos regression run '' @ out_path)])),
                    Some text)))))"

end
