(* ===== verification/Cli_Regression_Props.thy ===== *)
theory Cli_Regression_Props
  imports Cli_Regression Cli_Run_Props
begin

text \<open>
  What \<open>chaos regression run\<close> tells a pipeline: unless an exception ends it, its exit status is exactly the verdicts of
  the replayed scenarios (and the drift, when asked for), and a golden taken by a run is accepted by that run.
\<close>

section \<open>The steps after the suite\<close>

lemma say_db [simp]: "rg_db (say ls st) = rg_db st"
  by (simp add: say_def)

lemma store_golden_runs: "store_golden rw ro su r st = (u, st') \<Longrightarrow> db_suite_runs (rg_db st') = db_suite_runs (rg_db st)"
proof -
  have "db_suite_runs (save_goldens dump s t xs d) = db_suite_runs d" for dump s t xs d
    by (induction xs arbitrary: d) (auto simp: save_goldens_Cons)
  then show "store_golden rw ro su r st = (u, st') \<Longrightarrow> db_suite_runs (rg_db st') = db_suite_runs (rg_db st)"
    by (auto simp: store_golden_def split: bool.splits option.splits sum.splits)
qed

lemma check_drift_db: "check_drift rw ro su r st = (d, st') \<Longrightarrow> rg_db st' = rg_db st"
  by (auto simp: check_drift_def split: option.splits sum.splits list.splits)

lemma run_suite_stored:
  assumes "run_suite (reg_suite_env rw choice) su overrides st = Some (Inr r, st1)"
  shows "list_all2 (replayed (reg_suite_env rw choice) su overrides) (su_scenarios su) (srr_verdicts r) \<and>
    map_option sw_blob (dict_get (db_suite_runs (rg_db st1)) (srr_suite_run_id r)) = Some (rw_dump_run rw r)"
proof -
  obtain vs e1 where vs: "run_scenarios (reg_suite_env rw choice) su overrides 0 (su_scenarios su) [] st = Some (Inr vs, e1)"
    and r: "srr_verdicts r = vs" "st1 = sx_save (reg_suite_env rw choice) r e1"
    using assms by (auto simp: run_suite_def Let_def split: option.splits sum.splits)
  from run_scenarios_replayed [OF vs] have "list_all2 (replayed (reg_suite_env rw choice) su overrides) (su_scenarios su) vs"
    by simp
  then show ?thesis using r by (simp add: reg_suite_env_def save_suite_run_def)
qed

section \<open>The gate\<close>

definition drifted_against :: "'w reg_world \<Rightarrow> regression_suite \<Rightarrow> suite_run_record \<Rightarrow> string \<Rightarrow> database \<Rightarrow> bool" where
  "drifted_against rw su r ref db \<longleftrightarrow>
     (\<exists>gs rep s. load_goldens (rw_load_golden rw) (su_suite_id su) ref db = Inr gs \<and> gs \<noteq> [] \<and>
        drift_report (reg_float_repr rw) (rw_sample rw) (rw_threshold rw) r gs ref = Inr rep \<and>
        s \<in> set (dp_scenarios rep) \<and> sd_drifted s)"

lemma check_drift_exact:
  "check_drift rw ro su r st = (Inr d, st') \<Longrightarrow>
     d \<longleftrightarrow> (\<exists>ref. set_text (rn_drift_against ro) = Some ref \<and> drifted_against rw su r ref (rg_db st))"
  by (auto simp: check_drift_def drifted_against_def dp_regressed_scenarios_def filter_empty_conv
      split: option.splits sum.splits list.splits)

lemma finish_exact:
  assumes "finish_suite_run rw ro su r st = (x, st')" "x = Finished \<or> x = Exit_code 1"
  shows "(x = Exit_code 1 \<longleftrightarrow>
      (\<exists>v \<in> set (srr_verdicts r). rv_outcome v = RO_REGRESSED) \<or>
      (rn_fail_on_drift ro \<and>
       (\<exists>ref. set_text (rn_drift_against ro) = Some ref \<and> drifted_against rw su r ref (rg_db st')))) \<and>
    db_suite_runs (rg_db st') = db_suite_runs (rg_db st)"
proof -
  obtain u st1 d where s: "store_golden rw ro su r (say (Line [] # suite_run_lines rw r) st) = (Inr u, st1)"
    "check_drift rw ro su r st1 = (Inr d, st')"
    "x = (if acute_regressed r \<or> rn_fail_on_drift ro \<and> d then Exit_code 1 else Finished)"
    using assms by (auto simp: finish_suite_run_def split: prod.splits sum.splits)
  show ?thesis
    using check_drift_exact [OF s(2)] check_drift_db [OF s(2)] store_golden_runs [OF s(1)] s(3)
    by (auto simp: acute_regressed_def list_ex_iff)
qed

lemma agents_exit: "build_regression_agents fe d p ac = Inl c \<Longrightarrow> exit_status c \<noteq> 0 \<and> (exit_status c = 1 \<longrightarrow> (\<exists>e. c = Uncaught e))"
  by (auto simp: build_regression_agents_def choose_real_def bad_profile_def config_exit_def
      split: if_splits sum.splits pyexn.splits)

text \<open>C9: The exit status of a suite run is its verdicts. When the process of \<open>chaos regression run\<close> ends with status
  0, or with status 1 for another reason than an uncaught exception (which ends it with status 1 as well), every
  scenario of the suite was replayed in order, each verdict is that of its own run, the run is in the store under its
  identifier, and the status is 1 exactly when some verdict is a regression or, under \<open>--fail-on-drift\<close>, some scenario
  drifted from the golden stored for the reference. So status 0 always says that nothing regressed; status 1 says
  either that something did or that the command broke. A verdict that says baseline failure or error does not count:
  a suite of which every experiment was aborted ends with status 0.\<close>

theorem regression_gate_exact:
  assumes "cli_regression_run rw ro file parsed st = Some (x, st')" "exit_status x = 0 \<or> exit_status x = 1"
  shows "(\<exists>e. x = Uncaught e \<and> exit_status x = 1) \<or>
    (\<exists>su choice r. read_suite rw file parsed True = Inr su \<and>
      list_all2 (replayed (reg_suite_env rw choice) su (reg_overrides ro)) (su_scenarios su) (srr_verdicts r) \<and>
      map_option sw_blob (dict_get (db_suite_runs (rg_db st')) (srr_suite_run_id r)) = Some (rw_dump_run rw r) \<and>
      (exit_status x = 1 \<longleftrightarrow>
        (\<exists>v \<in> set (srr_verdicts r). rv_outcome v = RO_REGRESSED) \<or>
        (rn_fail_on_drift ro \<and>
         (\<exists>ref. set_text (rn_drift_against ro) = Some ref \<and> drifted_against rw su r ref (rg_db st')))))"
proof (cases "\<exists>e. x = Uncaught e")
  case True
  then show ?thesis by auto
next
  case False
  then obtain su choice r st0 st1 where
    run: "read_suite rw file parsed True = Inr su"
      "run_suite (reg_suite_env rw choice) su (reg_overrides ro) st0 = Some (Inr r, st1)"
      "finish_suite_run rw ro su r st1 = (x, st')"
    using assms agents_exit [of "cw_factory (rw_cli rw)" "rn_dry_run ro" "rn_profile ro" "rn_config ro" x]
    by (auto simp: cli_regression_run_def Let_def split: if_splits sum.splits option.splits prod.splits)
  have x: "x = Finished \<or> x = Exit_code 1"
    using run(3) False by (auto simp: finish_suite_run_def split: prod.splits sum.splits if_splits)
  then have s: "exit_status x = 1 \<longleftrightarrow> x = Exit_code 1" by auto
  show ?thesis
    unfolding s using run(1) run_suite_stored [OF run(2)] finish_exact [OF run(3) x] by (metis (no_types, lifting))
qed

section \<open>A run accepts its own golden\<close>

lemma load_goldens_wf:
  assumes "load_goldens validate s t db = Inr gs" "db_wf db"
  shows "distinct (map fst gs)"
proof -
  let ?rows = "filter (\<lambda>x. fst (fst x) = s \<and> fst (snd (fst x)) = t) (db_goldens db)"
  have "list_all2 (\<lambda>x y. golden_entry validate x = Inr y) ?rows gs"
    using assms(1) by (simp add: load_goldens_def res_map_Inr_iff)
  then have k: "map fst gs = map (\<lambda>x. snd (snd (fst x))) ?rows"
    by (induction rule: list_all2_induct) (auto simp: golden_entry_def res_bind_Inr_iff)
  have "distinct (map fst ?rows)"
    using assms(2) by (simp add: db_wf_def dict_wf_def distinct_map_filter)
  then have "distinct ?rows" "inj_on fst (set ?rows)" by (simp_all add: distinct_map)
  then show ?thesis unfolding k
    by (auto simp: distinct_map inj_on_def prod_eq_iff)
qed

lemma drift_report_cong:
  assumes "\<And>v. v \<in> set (srr_verdicts r) \<Longrightarrow> baseline_trustworthy v \<Longrightarrow>
      dict_get gs (rv_scenario_id v) = dict_get gs' (rv_scenario_id v)"
  shows "drift_report fr vs vt r gs ref = drift_report fr vs vt r gs' ref"
proof -
  have "res_map (verdict_drift fr vs vt gs) xs = res_map (verdict_drift fr vs vt gs') xs"
    if "set xs \<subseteq> set (srr_verdicts r)" for xs
    using that by (induction xs) (simp_all add: assms verdict_drift_def)
  then show ?thesis by (simp add: drift_report_def)
qed

lemma goldens_of_run_wf: "goldens_from_run fr vs t r ref = Inr gs \<Longrightarrow> distinct (map fst gs)"
  using dict_wf_update [of "[]"] by (auto simp: goldens_from_run_def res_bind_Inr_iff dict_wf_def)

lemma untrusted_report:
  assumes "\<And>v. v \<in> set (srr_verdicts r) \<Longrightarrow> \<not> baseline_trustworthy v"
  shows "\<exists>rep. drift_report fr vs vt r gs ref = Inr rep"
proof -
  have one: "\<exists>ss. res_map (verdict_drift fr vs vt gs) xs = Inr ss" if "\<forall>v \<in> set xs. \<not> baseline_trustworthy v" for xs
    using that by (induction xs) (auto simp: verdict_drift_def)
  obtain ss where "res_map (verdict_drift fr vs vt gs) (srr_verdicts r) = Inr ss" using one assms by blast
  then show ?thesis by (simp add: drift_report_def)
qed

lemma finished_parts:
  assumes "finish_suite_run rw ro su r st = (x, st')" "x = Finished \<or> x = Exit_code 1"
    and "rn_save_golden ro" "set_text (rn_ref ro) = Some ref" "set_text (rn_drift_against ro) = Some ref"
  obtains gs gs' where
    "goldens_from_run (reg_float_repr rw) (rw_sample rw) (rw_now rw (say (Line [] # suite_run_lines rw r) st)) r ref = Inr gs"
    "rg_db st' = save_goldens (rw_dump_golden rw) (su_suite_id su) ref gs (rg_db st)"
    "load_goldens (rw_load_golden rw) (su_suite_id su) ref (rg_db st') = Inr gs'"
    "gs' = [] \<or> (\<exists>rep. drift_report (reg_float_repr rw) (rw_sample rw) (rw_threshold rw) r gs' ref = Inr rep)"
proof -
  obtain u st1 d where s: "store_golden rw ro su r (say (Line [] # suite_run_lines rw r) st) = (Inr u, st1)"
    "check_drift rw ro su r st1 = (Inr d, st')"
    using assms(1,2) by (auto simp: finish_suite_run_def split: prod.splits sum.splits)
  have db: "rg_db st' = rg_db st1" using check_drift_db [OF s(2)] .
  obtain gs' where "load_goldens (rw_load_golden rw) (su_suite_id su) ref (rg_db st') = Inr gs'"
    "gs' = [] \<or> (\<exists>rep. drift_report (reg_float_repr rw) (rw_sample rw) (rw_threshold rw) r gs' ref = Inr rep)"
    using s(2) assms(5) unfolding db by (auto simp: check_drift_def split: sum.splits list.splits)
  then show ?thesis
    using that s(1) assms(3,4) db by (auto simp: store_golden_def split: sum.splits)
qed

text \<open>C25: A run accepts the golden it takes. When one command stores its baseline as the golden of a reference,
  checks drift against that same reference and gets to its end, then, whatever was stored before, the goldens it left
  load, the report of comparing the run with them has one entry per scenario in order, none of them drifted or without
  a golden, and exactly those are not assessed whose baseline was not measured cleanly. The exit status is that of the
  acute verdicts alone, even under \<open>--fail-on-drift\<close>. Assumed: the scenario identifiers of the run are distinct, the
  store holds each key once, a golden reads back from its JSON text as it was written, and every threshold that
  validates keeps its contract (ratio above 1, floor not negative).\<close>

theorem golden_run_accepts_itself:
  assumes "finish_suite_run rw ro su r st = (x, st')" "x = Finished \<or> x = Exit_code 1"
    and "rn_save_golden ro" "rn_ref ro = Some ref" "ref \<noteq> []" "rn_drift_against ro = Some ref"
    and "db_wf (rg_db st)" "distinct (map rv_scenario_id (srr_verdicts r))"
    and "\<And>gs k g. goldens_from_run (reg_float_repr rw) (rw_sample rw) (rw_now rw (say (Line [] # suite_run_lines rw r) st)) r
        ref = Inr gs \<Longrightarrow> (k, g) \<in> set gs \<Longrightarrow> rw_load_golden rw (rw_dump_golden rw g) = Inr g"
    and "\<And>v th. rw_threshold rw v = Inr th \<Longrightarrow> metric_threshold_ok th"
  shows "(\<exists>gs rep. load_goldens (rw_load_golden rw) (su_suite_id su) ref (rg_db st') = Inr gs \<and>
      drift_report (reg_float_repr rw) (rw_sample rw) (rw_threshold rw) r gs ref = Inr rep \<and>
      list_all2 (\<lambda>v s. sd_scenario_id s = rv_scenario_id v \<and> \<not> sd_drifted s \<and> \<not> sd_missing_golden s \<and>
          (sd_unassessed s \<longleftrightarrow> \<not> baseline_trustworthy v))
        (srr_verdicts r) (dp_scenarios rep)) \<and>
    (x = Exit_code 1 \<longleftrightarrow> (\<exists>v \<in> set (srr_verdicts r). rv_outcome v = RO_REGRESSED))"
proof -
  let ?fr = "reg_float_repr rw" and ?t = "rw_now rw (say (Line [] # suite_run_lines rw r) st)"
  let ?rep = "\<lambda>gs. drift_report ?fr (rw_sample rw) (rw_threshold rw) r gs ref"
  let ?stable = "\<lambda>v s. sd_scenario_id s = rv_scenario_id v \<and> \<not> sd_drifted s \<and> \<not> sd_missing_golden s \<and>
      (sd_unassessed s \<longleftrightarrow> \<not> baseline_trustworthy v)"
  have ref: "set_text (rn_ref ro) = Some ref" "set_text (rn_drift_against ro) = Some ref"
    using assms(4-6) by (simp_all add: set_text_def)
  obtain gs gs' where gs: "goldens_from_run ?fr (rw_sample rw) ?t r ref = Inr gs"
    and db: "rg_db st' = save_goldens (rw_dump_golden rw) (su_suite_id su) ref gs (rg_db st)"
    and l: "load_goldens (rw_load_golden rw) (su_suite_id su) ref (rg_db st') = Inr gs'"
    and ran: "gs' = [] \<or> (\<exists>rep. ?rep gs' = Inr rep)"
    using finished_parts [OF assms(1-3) ref] .
  have wf: "db_wf (rg_db st')" unfolding db using assms(7) by (rule save_goldens_wf)
  have same: "dict_get gs (rv_scenario_id v) = dict_get gs' (rv_scenario_id v) \<and> gs' \<noteq> []"
    if v: "v \<in> set (srr_verdicts r)" "baseline_trustworthy v" for v
  proof -
    obtain g where g: "dict_get gs (rv_scenario_id v) = Some g"
      using goldens_of_run_get [OF gs assms(8) v] by blast
    then have "rv_scenario_id v \<in> set (map fst gs)" by (force simp: dict_get_def dest: map_of_SomeD)
    moreover have "list_all (\<lambda>(k, g). rw_load_golden rw (rw_dump_golden rw g) = Inr g) gs"
      using assms(9) [OF gs] by (auto simp: list_all_iff)
    ultimately have m: "(rv_scenario_id v, g) \<in> set gs'"
      using goldens_round_trip [OF assms(7) goldens_of_run_wf [OF gs] _ l [unfolded db], of "rv_scenario_id v" g] g
      by simp
    then have "dict_get gs' (rv_scenario_id v) = Some g" using load_goldens_wf [OF l wf] by (simp add: dict_get_def)
    then show ?thesis using g m by auto
  qed
  then have eq: "?rep gs = ?rep gs'" by (intro drift_report_cong) blast
  obtain rep where rep: "?rep gs' = Inr rep"
    using ran same untrusted_report [of r] by blast
  note fresh = fresh_goldens_no_drift [OF gs assms(8) assms(10) eq [unfolded rep]]
  then have none: "\<not> sd_drifted s" if "s \<in> set (dp_scenarios rep)" for s
    using that by (auto simp: dp_regressed_scenarios_def filter_empty_conv)
  have stable: "list_all2 ?stable (srr_verdicts r) (dp_scenarios rep)"
    by (rule list.rel_mono_strong [OF fresh [THEN conjunct2]]) (use none in auto)
  have "\<not> drifted_against rw su r ref (rg_db st')"
    using l rep none by (auto simp: drifted_against_def)
  then have "x = Exit_code 1 \<longleftrightarrow> (\<exists>v \<in> set (srr_verdicts r). rv_outcome v = RO_REGRESSED)"
    using finish_exact [OF assms(1,2)] ref by auto
  with l rep stable show ?thesis by (intro conjI exI [of _ gs'] exI [of _ rep])
qed

text \<open>A scaffolded file that does not load stays on disk: it is written before it is read back.\<close>

lemma scaffold_leaves_file:
  assumes "listing_data loads suite_path l = Inr d" "journeys_of rw d = Inr js" "js \<noteq> []"
    and "read_suite rw out (parse (scaffold_yaml enc (app @ ''-resilience'') app suite_path js)) True = Inl x"
  shows "cli_scaffold rw enc loads parse out suite_path l app content =
    ((Uncaught x, []), Some (scaffold_yaml enc (app @ ''-resilience'') app suite_path js))"
  using assms by (simp add: cli_scaffold_def Let_def)

section \<open>Concrete runs\<close>

text \<open>A suite aimed at a forbidden cluster: every experiment is aborted before anything happens.\<close>

definition denied_suite :: regression_suite where
  "denied_suite =
     (let su = shop_suite [cart_scenario] in su\<lparr>su_safety := (su_safety su)\<lparr>sc_cluster_context := ''prod''\<rparr>\<rparr>)"

definition idle_plugin :: "'e plugin" where
  "idle_plugin =
     \<lparr>pg_name = ''idle'', pg_overrides = (\<lambda>h. False), pg_hook = (\<lambda>h e. (Inr HV_none, [], e)),
      pg_compensation = (\<lambda>n e. (Inr (), e)), pg_guard = (\<lambda>e. None), pg_set_baseline = (\<lambda>xs e. e),
      pg_race = (\<lambda>e. ([], e))\<rparr>"

definition small_reg :: "unit reg_world" where
  "small_reg =
     \<lparr>rw_cli = bench_world_cli, rw_oracle = (\<lambda>k. idle_plugin), rw_operator = (\<lambda>e. []),
      rw_experiment_id = (\<lambda>st. ''exp-0123456789ab''), rw_suite_run_id = (\<lambda>st. ''srun-1''), rw_now = (\<lambda>st. 0),
      rw_sha256 = (\<lambda>s. s), rw_model_validate = (\<lambda>d. Inr denied_suite), rw_sample = small_validate,
      rw_threshold = (\<lambda>v. Inr latency_budget), rw_dump_run = srr_suite_run_id, rw_load_run = (\<lambda>s. Inl offline_exn),
      rw_dump_golden = go_target_ref,
      rw_load_golden = (\<lambda>s. Inr \<lparr>go_target_ref = s, go_metrics = [flat_sample ''latency'' 5],
        go_passing_journeys = [''checkout''], go_captured_at = 0\<rparr>),
      rw_percent = (\<lambda>x. []), rw_sig3 = (\<lambda>x. []), rw_sig2 = (\<lambda>x. []), rw_iso = (\<lambda>t. []), rw_iso_seconds = (\<lambda>t. [])\<rparr>"

definition reg_dry_run :: reg_options where
  "reg_dry_run =
     \<lparr>rn_dry_run = True, rn_profile = ''static'', rn_config = config_from_env (\<lambda>k. None), rn_save_golden = False,
      rn_ref = None, rn_drift_against = None, rn_fail_on_drift = True\<rparr>"

definition fresh_reg :: "unit reg_state" where
  "fresh_reg = \<lparr>rg_out = [], rg_db = empty_db, rg_live = bench_state\<rparr>"

lemma denied_replay:
  assumes "check_cluster_allowed (ep_safety p) = Some f"
  shows "\<exists>r st'. replay_scenario rw choice k p st = Some (Inr r, st') \<and> er_state r = ABORTED \<and>
    er_abort_reason r = Some (gf_reason f) \<and> er_verify_result r = None"
  using assms
  by (simp add: replay_scenario_def run_def abort_def close_record_def clear_signals_def save_record_def sync_plugin_def
      sync_spend_def attach_invocations_def start_record_def upd_record_def set_state_def emit_def new_record_def Let_def
      split: option.splits)

lemma denied_suite_sound: "validate_suite denied_suite = []"
  using shop_suite_sound by (simp add: validate_suite_def denied_suite_def Let_def shop_suite_def)

lemma denied_read: "read_suite small_reg file (Inr (PDict [])) True = Inr denied_suite"
  by (simp add: read_suite_def small_reg_def load_suite_def expand_def set_if_missing_def suite_id_default_def param_def
      scenario_items_def dict_pop_def denied_suite_sound)

lemma denied_gate: "\<exists>f. check_cluster_allowed (su_safety denied_suite) = Some f \<and> gf_reason f = CLUSTER_DENIED"
  by (simp add: check_cluster_allowed_def denied_suite_def Let_def shop_suite_def default_forbidden_def lower_def
      lower_char_def)

lemma denied_plan:
  "\<exists>p. plan_for ''exp-0123456789ab'' 0 denied_suite cart_scenario ''regression-command'' (reg_overrides reg_dry_run) = Inr p \<and>
     ep_safety p = su_safety denied_suite"
  using cart_plan_for
  by (auto simp: plan_for_def Let_def denied_suite_def shop_suite_def experiment_plan_ok_def cart_scenario_def
      safety_constraints_ok_def split: if_splits)

lemma denied_run:
  "\<exists>r st1. run_suite (reg_suite_env small_reg choice) denied_suite (reg_overrides reg_dry_run) st = Some (Inr r, st1) \<and>
     \<not> acute_regressed r"
proof -
  let ?x = "reg_suite_env small_reg choice"
  obtain p f where p: "plan_for ''exp-0123456789ab'' 0 denied_suite cart_scenario ''regression-command''
      (reg_overrides reg_dry_run) = Inr p" "check_cluster_allowed (ep_safety p) = Some f" "gf_reason f = CLUSTER_DENIED"
    using denied_plan denied_gate by metis
  obtain r st' where r: "replay_scenario small_reg choice OK_COMMAND p st = Some (Inr r, st')" "er_state r = ABORTED"
      "er_abort_reason r = Some CLUSTER_DENIED" "er_verify_result r = None"
    using denied_replay [OF p(2)] p(3) by metis
  have k: "sn_oracle cart_scenario = OK_COMMAND" by (simp add: cart_scenario_def)
  obtain v where v: "verdict_of (reg_float_repr small_reg) cart_scenario r = Inr v" "rv_outcome v = RO_ERROR"
    using r(2-4) by (auto simp: verdict_of_def newly_failing_def evidence_strings_def evidence_items_def classify_def)
  have s: "run_scenario ?x denied_suite (reg_overrides reg_dry_run) cart_scenario st = Some (Inr v, st')"
    using p(1) r(1) v(1) k
    by (simp add: run_scenario_def oracle_for_def oracle_plugin_name_def reg_suite_env_def small_reg_def)
  have ss: "su_scenarios denied_suite = [cart_scenario]" by (simp add: denied_suite_def Let_def shop_suite_def)
  have pr: "\<exists>st2. report_progress ?x i n v st' = (Inr (), st2)" for i n
    by (simp add: report_progress_def reg_suite_env_def)
  then obtain st2 where st2: "report_progress ?x (Suc 0) (length [cart_scenario]) v st' = (Inr (), st2)" by blast
  have "run_scenarios ?x denied_suite (reg_overrides reg_dry_run) 0 [cart_scenario] [] st = Some (Inr [v], st2)"
    using s st2 by (simp add: ss)
  then show ?thesis using v(2) by (simp add: run_suite_def ss acute_regressed_def Let_def)
qed

lemma regression_gate_exact_witness:
  "\<exists>st' choice (r :: suite_run_record). cli_regression_run small_reg reg_dry_run ''s.yaml'' (Inr (PDict [])) fresh_reg = Some (Finished, st') \<and>
     list_all2 (replayed (reg_suite_env small_reg choice) denied_suite (reg_overrides reg_dry_run)) [cart_scenario]
       (srr_verdicts r) \<and>
     \<not> (\<exists>v \<in> set (srr_verdicts r). rv_outcome v = RO_REGRESSED)"
proof -
  obtain r st1 where r: "run_suite (reg_suite_env small_reg Mock_set) denied_suite (reg_overrides reg_dry_run) fresh_reg =
      Some (Inr r, st1)" "\<not> acute_regressed r"
    using denied_run by blast
  have "cli_regression_run small_reg reg_dry_run ''s.yaml'' (Inr (PDict [])) fresh_reg =
      Some (finish_suite_run small_reg reg_dry_run denied_suite r st1)"
    using r(1) by (simp add: cli_regression_run_def Let_def reg_dry_run_def [THEN arg_cong, of rn_save_golden]
        reg_dry_run_def [THEN arg_cong, of rn_ref] denied_read build_regression_agents_def
        reg_dry_run_def [THEN arg_cong, of rn_dry_run] set_text_def)
  also have "\<dots> = Some (Finished, snd (finish_suite_run small_reg reg_dry_run denied_suite r st1))"
    using r(2) by (simp add: finish_suite_run_def store_golden_def check_drift_def reg_dry_run_def set_text_def)
  finally obtain st' where st': "cli_regression_run small_reg reg_dry_run ''s.yaml'' (Inr (PDict [])) fresh_reg =
      Some (Finished, st')" by blast
  have ss: "su_scenarios denied_suite = [cart_scenario]" by (simp add: denied_suite_def Let_def shop_suite_def)
  show ?thesis
    using regression_gate_exact [OF st'] st' unfolding denied_read by (auto simp: ss)
qed

definition golden_options :: reg_options where
  "golden_options =
     reg_dry_run\<lparr>rn_save_golden := True, rn_ref := Some ''v1'', rn_drift_against := Some ''v1''\<rparr>"

lemma golden_run_accepts_itself_witness:
  "\<exists>gs rep. drift_report (\<lambda>x. []) (rw_sample small_reg) (rw_threshold small_reg) small_run gs ''v1'' = Inr rep \<and>
     map sd_drifted (dp_scenarios rep) = [False, False] \<and> map sd_unassessed (dp_scenarios rep) = [False, True] \<and>
     fst (finish_suite_run small_reg golden_options denied_suite small_run fresh_reg) = Finished"
proof -
  have fr: "reg_float_repr small_reg = (\<lambda>x. [])" 
    by (simp add: reg_float_repr_def small_reg_def bench_world_cli_def offline_world_def)
  have gs: "goldens_from_run (reg_float_repr small_reg) (rw_sample small_reg) (rw_now small_reg st) small_run ''v1'' =
      Inr [(''a'', \<lparr>go_target_ref = ''v1'', go_metrics = [flat_sample ''latency'' 5],
        go_passing_journeys = [''checkout''], go_captured_at = 0\<rparr>)]" for st
    using small_goldens by (simp add: fr) (simp add: small_reg_def)
  let ?g = "\<lparr>go_target_ref = ''v1'', go_metrics = [flat_sample ''latency'' 5], go_passing_journeys = [''checkout''],
      go_captured_at = 0\<rparr>"
  have opts: "rn_save_golden golden_options" "rn_ref golden_options = Some ''v1''"
      "rn_drift_against golden_options = Some ''v1''"
    by (simp_all add: golden_options_def)
  have l: "load_goldens (rw_load_golden small_reg) s ''v1''
      (save_goldens (rw_dump_golden small_reg) s ''v1'' [(''a'', ?g)] empty_db) = Inr [(''a'', ?g)]" for s
    by (simp add: load_goldens_def save_goldens_def golden_entry_def empty_db_def small_reg_def)
  have d: "\<exists>rep. drift_report (\<lambda>x. []) (rw_sample small_reg) (rw_threshold small_reg) small_run [(''a'', ?g)] ''v1'' = Inr rep"
    using fresh_goldens_no_drift_witness by (auto simp: small_reg_def)
  obtain x st' where x: "finish_suite_run small_reg golden_options denied_suite small_run fresh_reg = (x, st')"
    by (cases "finish_suite_run small_reg golden_options denied_suite small_run fresh_reg")
  then have end_: "x = Finished \<or> x = Exit_code 1"
    using d by (auto simp: finish_suite_run_def store_golden_def check_drift_def opts set_text_def gs [unfolded fr] l fr
        fresh_reg_def say_def split: sum.splits if_splits)
  have wf: "db_wf (rg_db fresh_reg)" by (simp add: fresh_reg_def db_wf_def empty_db_def dict_wf_def)
  have ids: "distinct (map rv_scenario_id (srr_verdicts small_run))" by (simp add: small_run_def small_verdict_def)
  have "metric_threshold_ok th" if "rw_threshold small_reg v = Inr th" for v th
    using that by (auto simp: small_reg_def latency_budget_def metric_threshold_ok_def)
  moreover have "rw_load_golden small_reg (rw_dump_golden small_reg g) = Inr g"
    if "goldens_from_run (reg_float_repr small_reg) (rw_sample small_reg) (rw_now small_reg st) small_run ''v1'' = Inr gs'"
      "(k, g) \<in> set gs'" for st gs' k g
    using that gs by (auto simp: small_reg_def)
  ultimately have g: "(\<exists>gs rep. load_goldens (rw_load_golden small_reg) (su_suite_id denied_suite) ''v1'' (rg_db st') = Inr gs \<and>
      drift_report (reg_float_repr small_reg) (rw_sample small_reg) (rw_threshold small_reg) small_run gs ''v1'' = Inr rep \<and>
      list_all2 (\<lambda>v s. sd_scenario_id s = rv_scenario_id v \<and> \<not> sd_drifted s \<and> \<not> sd_missing_golden s \<and>
          (sd_unassessed s \<longleftrightarrow> \<not> baseline_trustworthy v))
        (srr_verdicts small_run) (dp_scenarios rep)) \<and>
    (x = Exit_code 1 \<longleftrightarrow> (\<exists>v \<in> set (srr_verdicts small_run). rv_outcome v = RO_REGRESSED))"
    by (intro golden_run_accepts_itself [OF x end_ opts(1,2) _ opts(3) wf ids]) simp_all
  moreover have v: "srr_verdicts small_run = [small_verdict ''a'' RO_PASS, small_verdict ''b'' RO_ERROR]"
    "baseline_trustworthy (small_verdict ''a'' RO_PASS)" "\<not> baseline_trustworthy (small_verdict ''b'' RO_ERROR)"
    "rv_outcome (small_verdict k oc) = oc" for k oc
    by (simp_all add: small_run_def small_verdict_def baseline_trustworthy_def)
  ultimately obtain gs' rep where rep: "drift_report (\<lambda>x. []) (rw_sample small_reg) (rw_threshold small_reg) small_run gs' ''v1'' = Inr rep"
    and all: "list_all2 (\<lambda>v s. sd_scenario_id s = rv_scenario_id v \<and> \<not> sd_drifted s \<and> \<not> sd_missing_golden s \<and>
        (sd_unassessed s \<longleftrightarrow> \<not> baseline_trustworthy v)) (srr_verdicts small_run) (dp_scenarios rep)"
    and no: "x = Finished"
    using end_ by (auto simp: v fr)
  have "map sd_drifted (dp_scenarios rep) = [False, False] \<and> map sd_unassessed (dp_scenarios rep) = [False, True]"
    using all by (auto simp: v list_all2_Cons1)
  then show ?thesis using rep no x by (intro exI [of _ gs'] exI [of _ rep]) simp
qed

end
