(* ===== verification/Example_Plugins.thy ===== *)
theory Example_Plugins
  imports Host_Guarantee
begin

text \<open>
  The two first-party plugins of \<open>plugins/examples\<close> and the in-process fakes behind the second: the key-value scenario
  (\<open>keyvalue_scenario.py\<close>), the deployment, service and cluster of \<open>_fakes.py\<close>, and the web-service scenario
  (\<open>web_service_scenario.py\<close>). Their configuration has the types their docstrings give; an absent entry is \<open>None\<close>.
  A context record holds the handles a plugin keeps in \<open>ctx.env\<close>, \<open>ctx.test\<close> and \<open>ctx.scratch\<close>; deployments are
  objects with an address, which the cluster and the context share. The order in which the concurrent tasks of a driven
  run complete is the argument \<open>race\<close>; a workload has no suspension point and runs before any of them completes.
\<close>

definition default_to :: "'a \<Rightarrow> 'a option \<Rightarrow> 'a" where
  "default_to d x = (case x of None \<Rightarrow> d | Some v \<Rightarrow> v)"

definition missing_key :: "string \<Rightarrow> pyexn" where
  "missing_key k = Exn ''KeyError'' (repr_str k)"

definition ok_hook :: "'e \<Rightarrow> hook_value res \<times> string list \<times> 'e" where
  "ok_hook e = (Inr HV_none, [], e)"

definition bad_hook :: "pyexn \<Rightarrow> 'e \<Rightarrow> hook_value res \<times> string list \<times> 'e" where
  "bad_hook x e = (Inl x, [], e)"

section \<open>The key-value scenario\<close>

record kv_config =
  kc_seed_keys :: "string list option"
  kc_inject_data_loss :: bool
  kc_guard_min_keys :: "pyval option"

record kv_context =
  kv_store :: "(string, string) dict option"
  kv_seeded :: "string list option"
  kv_expected :: "string list option"
  kv_lost :: "string option"
  kv_baseline :: "statistical_sample list"

definition fresh_kv :: kv_context where
  "fresh_kv = \<lparr>kv_store = None, kv_seeded = None, kv_expected = None, kv_lost = None, kv_baseline = []\<rparr>"

definition kv_guard_min :: "kv_config \<Rightarrow> pyval" where
  "kv_guard_min c = default_to (PInt 0) (kc_guard_min_keys c)"

text \<open>\<open>isinstance(v, int)\<close>, which holds of a \<open>bool\<close>.\<close>

fun as_int :: "pyval \<Rightarrow> int option" where
  "as_int (PInt i) = Some i"
| "as_int (PBool b) = Some (if b then 1 else 0)"
| "as_int v = None"

definition kv_validate :: "(real \<Rightarrow> string) \<Rightarrow> kv_config \<Rightarrow> kv_context \<Rightarrow> hook_value res \<times> string list \<times> kv_context" where
  "kv_validate fr c e =
     (case as_int (kv_guard_min c) of
        Some i \<Rightarrow>
          (if i < 0
           then bad_hook (Exn ''ValueError'' (''guard_min_keys must be a non-negative int, got '' @ py_repr fr (kv_guard_min c))) e
           else ok_hook e)
      | None \<Rightarrow> bad_hook (Exn ''ValueError''
          (''guard_min_keys must be a non-negative int, got '' @ py_repr fr (kv_guard_min c))) e)"

definition kv_keys :: "kv_config \<Rightarrow> string list" where
  "kv_keys c =
     (case kc_seed_keys c of
        None \<Rightarrow> [''k0'', ''k1'', ''k2'', ''k3'', ''k4'']
      | Some ks \<Rightarrow> if ks = [] then [''k0'', ''k1'', ''k2'', ''k3'', ''k4''] else ks)"

definition kv_fill :: "string list \<Rightarrow> (string, string) dict \<Rightarrow> (string, string) dict" where
  "kv_fill ks d = foldl (\<lambda>acc k. dict_set k (''value-of-'' @ k) acc) d ks"

definition drop_keys :: "string list \<Rightarrow> (string, 'v) dict \<Rightarrow> (string, 'v) dict" where
  "drop_keys ks d = foldl (\<lambda>acc k. dict_pop k acc) d ks"

definition kv_await_ready :: "kv_context \<Rightarrow> hook_value res \<times> string list \<times> kv_context" where
  "kv_await_ready e =
     (if kv_store e = None then bad_hook (Exn ''AssertionError'' ''store not provisioned'') e else ok_hook e)"

definition kv_seed :: "kv_config \<Rightarrow> kv_context \<Rightarrow> hook_value res \<times> string list \<times> kv_context" where
  "kv_seed c e =
     (case kv_store e of
        None \<Rightarrow> bad_hook (missing_key ''store'') e
      | Some d \<Rightarrow>
          (Inr HV_none, [''unseed''], e\<lparr>kv_store := Some (kv_fill (kv_keys c) d), kv_seeded := Some (kv_keys c)\<rparr>))"

definition kv_setup_test :: "kv_context \<Rightarrow> hook_value res \<times> string list \<times> kv_context" where
  "kv_setup_test e =
     (case kv_seeded e of
        None \<Rightarrow> bad_hook (missing_key ''seeded_keys'') e
      | Some ks \<Rightarrow> ok_hook (e\<lparr>kv_expected := Some ks\<rparr>))"

definition kv_capture_baseline :: "kv_context \<Rightarrow> hook_value res \<times> string list \<times> kv_context" where
  "kv_capture_baseline e =
     (case kv_store e of
        None \<Rightarrow> bad_hook (missing_key ''store'') e
      | Some d \<Rightarrow>
          (res_bind (from_samples ''kv_store_size'' [real (length d)]) (\<lambda>s. Inr (HV_samples [s])), [], e))"

definition kv_run_test :: "kv_config \<Rightarrow> kv_context \<Rightarrow> unit res \<times> kv_context" where
  "kv_run_test c e =
     (if \<not> kc_inject_data_loss c then (Inr (), e)
      else case kv_store e of
        None \<Rightarrow> (Inl (missing_key ''store''), e)
      | Some d \<Rightarrow>
          (case kv_seeded e of
             Some (k # ks) \<Rightarrow> (Inr (), e\<lparr>kv_store := Some (dict_pop k d), kv_lost := Some k\<rparr>)
           | _ \<Rightarrow> (Inr (), e)))"

definition kv_floor :: "kv_config \<Rightarrow> int" where
  "kv_floor c = default_to 0 (as_int (kv_guard_min c))"

text \<open>One poll of the guard, and the guard itself.\<close>

definition kv_guard_check :: "kv_config \<Rightarrow> kv_context \<Rightarrow> (bool \<times> string) res" where
  "kv_guard_check c e =
     (case kv_store e of
        None \<Rightarrow> Inl (missing_key ''store'')
      | Some d \<Rightarrow> Inr (int (length d) \<ge> kv_floor c,
          ''store has '' @ nat_str (length d) @ '' keys, floor is '' @ int_str (kv_floor c)))"

definition kv_guard :: "kv_config \<Rightarrow> kv_context \<Rightarrow> string option" where
  "kv_guard c e = (if kv_floor c \<le> 0 then None else Some ''kv_min_keys'')"

definition kv_missing :: "(string, string) dict \<Rightarrow> string list \<Rightarrow> string list" where
  "kv_missing d ks = filter (\<lambda>k. \<not> dict_has d k) ks"

definition lost_key_failure :: "string \<Rightarrow> verify_failure" where
  "lost_key_failure k =
     \<lparr>vf_assertion = ''seeded key survives fault'', vf_expected = ''key '' @ repr_str k @ '' present'',
      vf_actual = ''key '' @ repr_str k @ '' missing'', vf_severity = SEV_MEDIUM, vf_evidence = [(''key'', PStr k)]\<rparr>"

definition kv_verdict :: "string list \<Rightarrow> string list \<Rightarrow> verify_result" where
  "kv_verdict expected missing =
     (if missing = []
      then \<lparr>vr_passed = True, vr_summary = ''all '' @ nat_str (length expected) @ '' seeded keys present after fault'',
             vr_failures = [], vr_evidence = [], vr_metrics = []\<rparr>
      else \<lparr>vr_passed = False, vr_summary = nat_str (length missing) @ '' seeded key(s) lost under fault'',
             vr_failures = map lost_key_failure missing, vr_evidence = [], vr_metrics = []\<rparr>)"

definition kv_verify :: "kv_context \<Rightarrow> hook_value res \<times> string list \<times> kv_context" where
  "kv_verify e =
     (case (kv_store e, kv_expected e) of
        (None, _) \<Rightarrow> bad_hook (missing_key ''store'') e
      | (Some d, None) \<Rightarrow> bad_hook (missing_key ''expected_keys'') e
      | (Some d, Some ks) \<Rightarrow> (Inr (HV_verdict (kv_verdict ks (kv_missing d ks))), [], e))"

definition kv_collect :: "kv_context \<Rightarrow> hook_value res \<times> string list \<times> kv_context" where
  "kv_collect e =
     (case kv_store e of
        None \<Rightarrow> bad_hook (missing_key ''store'') e
      | Some d \<Rightarrow>
          (Inr (HV_dict
             [(''store_size'', PInt (int (length d))), (''present_keys'', PList (map PStr (sort (map fst d)))),
              (''lost_key'', (case kv_lost e of None \<Rightarrow> PNone | Some k \<Rightarrow> PStr k))]), [], e))"

definition kv_hook ::
  "(real \<Rightarrow> string) \<Rightarrow> kv_config \<Rightarrow> hook \<Rightarrow> kv_context \<Rightarrow> hook_value res \<times> string list \<times> kv_context" where
  "kv_hook fr c h e =
     (case h of
        H_validate \<Rightarrow> kv_validate fr c e
      | H_provision_env \<Rightarrow> ok_hook (e\<lparr>kv_store := Some []\<rparr>)
      | H_await_ready \<Rightarrow> kv_await_ready e
      | H_seed \<Rightarrow> kv_seed c e
      | H_setup_test \<Rightarrow> kv_setup_test e
      | H_capture_baseline \<Rightarrow> kv_capture_baseline e
      | H_run_test \<Rightarrow> (case kv_run_test c e of (r, e') \<Rightarrow> (res_bind r (\<lambda>u. Inr HV_none), [], e'))
      | H_verify \<Rightarrow> kv_verify e
      | H_collect_diagnostics \<Rightarrow> kv_collect e
      | H_teardown_test \<Rightarrow> ok_hook (e\<lparr>kv_expected := None\<rparr>)
      | H_teardown_env \<Rightarrow> ok_hook (e\<lparr>kv_store := None\<rparr>))"

definition kv_plugin ::
  "(real \<Rightarrow> string) \<Rightarrow> (unit res \<Rightarrow> kv_context \<Rightarrow> completion list list) \<Rightarrow> kv_config \<Rightarrow> kv_context plugin" where
  "kv_plugin fr race c =
     \<lparr>pg_name = ''example-keyvalue'', pg_overrides = (\<lambda>h. True), pg_hook = kv_hook fr c,
      pg_compensation = (\<lambda>n e. (Inr (), e\<lparr>kv_store := map_option (drop_keys (kv_keys c)) (kv_store e)\<rparr>)),
      pg_guard = kv_guard c, pg_set_baseline = (\<lambda>xs e. e\<lparr>kv_baseline := xs\<rparr>),
      pg_race = (\<lambda>e. case kv_run_test c e of (r, e') \<Rightarrow> (race r e', e'))\<rparr>"

section \<open>The fakes\<close>

record fake_response =
  fr_status :: nat
  fr_latency :: real

definition response_ok :: "fake_response \<Rightarrow> bool" where
  "response_ok r \<longleftrightarrow> 200 \<le> fr_status r \<and> fr_status r < 300"

record request_record =
  qr_path :: string
  qr_status :: nat
  qr_latency :: real

record fake_service =
  fv_latencies :: "real list"
  fv_multiplier :: real
  fv_error_every :: nat
  fv_store :: "(string, string) dict"
  fv_log :: "request_record list"
  fv_degraded :: bool
  fv_n :: nat

definition new_service :: fake_service where
  "new_service =
     \<lparr>fv_latencies = [40, 45, 38, 50, 42], fv_multiplier = 6, fv_error_every = 2, fv_store = [], fv_log = [],
      fv_degraded = False, fv_n = 0\<rparr>"

definition degrade :: "fake_service \<Rightarrow> fake_service" where
  "degrade s = s\<lparr>fv_degraded := True\<rparr>"

definition recover_service :: "fake_service \<Rightarrow> fake_service" where
  "recover_service s = s\<lparr>fv_degraded := False\<rparr>"

definition service_answer :: "fake_service \<Rightarrow> fake_response" where
  "service_answer s =
     (let base = fv_latencies s ! (fv_n s mod length (fv_latencies s)) in
      if fv_degraded s
      then \<lparr>fr_status = (if fv_n s mod fv_error_every s = 0 then 503 else 200), fr_latency = base * fv_multiplier s\<rparr>
      else \<lparr>fr_status = 200, fr_latency = base\<rparr>)"

definition service_request :: "string \<Rightarrow> fake_service \<Rightarrow> fake_response \<times> fake_service" where
  "service_request path s =
     (let r = service_answer s in
      (r, s\<lparr>fv_n := Suc (fv_n s),
            fv_log := fv_log s @ [\<lparr>qr_path = path, qr_status = fr_status r, qr_latency = fr_latency r\<rparr>]\<rparr>))"

fun service_burst :: "nat \<Rightarrow> string \<Rightarrow> fake_service \<Rightarrow> fake_response list \<times> fake_service" where
  "service_burst 0 path s = ([], s)"
| "service_burst (Suc n) path s =
     (case service_request path s of (r, s1) \<Rightarrow> (case service_burst n path s1 of (rs, s2) \<Rightarrow> (r # rs, s2)))"

definition service_put :: "string \<Rightarrow> string \<Rightarrow> fake_service \<Rightarrow> fake_service" where
  "service_put k v s = s\<lparr>fv_store := dict_set k v (fv_store s)\<rparr>"

definition service_get :: "string \<Rightarrow> fake_service \<Rightarrow> string option" where
  "service_get k s = dict_get (fv_store s) k"

definition service_drop :: "string \<Rightarrow> fake_service \<Rightarrow> fake_service" where
  "service_drop k s = s\<lparr>fv_store := dict_pop k (fv_store s)\<rparr>"

record fake_deployment =
  fd_name :: string
  fd_image :: string
  fd_replicas :: int
  fd_service :: fake_service
  fd_polls_remaining :: nat
  fd_deleted :: bool

definition new_deployment :: "string \<Rightarrow> string \<Rightarrow> int \<Rightarrow> nat \<Rightarrow> fake_deployment" where
  "new_deployment name img replicas ready_after =
     \<lparr>fd_name = name, fd_image = img, fd_replicas = replicas, fd_service = new_service,
      fd_polls_remaining = ready_after, fd_deleted = False\<rparr>"

definition poll_ready :: "fake_deployment \<Rightarrow> bool \<times> fake_deployment" where
  "poll_ready d =
     (let d1 = d\<lparr>fd_polls_remaining := fd_polls_remaining d - 1\<rparr>
      in (fd_polls_remaining d1 = 0 \<and> \<not> fd_deleted d1, d1))"

text \<open>The deployments are objects; a cluster maps names to their addresses.\<close>

record fake_cluster =
  fc_ready_after :: nat
  fc_deployments :: "(string, nat) dict"
  fc_objects :: "fake_deployment list"

definition new_cluster :: fake_cluster where
  "new_cluster = \<lparr>fc_ready_after = 2, fc_deployments = [], fc_objects = []\<rparr>"

definition upd_object :: "(fake_deployment \<Rightarrow> fake_deployment) \<Rightarrow> nat \<Rightarrow> fake_cluster \<Rightarrow> fake_cluster" where
  "upd_object f a c = c\<lparr>fc_objects := (fc_objects c)[a := f (fc_objects c ! a)]\<rparr>"

definition cluster_apply :: "string \<Rightarrow> string \<Rightarrow> int \<Rightarrow> fake_cluster \<Rightarrow> nat \<times> fake_cluster" where
  "cluster_apply name img replicas c =
     (let a = length (fc_objects c) in
      (a, c\<lparr>fc_deployments := dict_set name a (fc_deployments c),
            fc_objects := fc_objects c @ [new_deployment name img replicas (fc_ready_after c)]\<rparr>))"

fun poll_until :: "nat \<Rightarrow> nat \<Rightarrow> fake_cluster \<Rightarrow> bool \<times> fake_cluster" where
  "poll_until 0 a c = (False, c)"
| "poll_until (Suc n) a c =
     (case poll_ready (fc_objects c ! a) of
        (ready, d) \<Rightarrow>
          (let c1 = upd_object (\<lambda>x. d) a c in if ready then (True, c1) else poll_until n a c1))"

definition wait_ready :: "string \<Rightarrow> nat \<Rightarrow> fake_cluster \<Rightarrow> unit res \<times> fake_cluster" where
  "wait_ready name max_polls c =
     (case dict_get (fc_deployments c) name of
        None \<Rightarrow> (Inl (missing_key name), c)
      | Some a \<Rightarrow>
          (case poll_until max_polls a c of
             (True, c') \<Rightarrow> (Inr (), c')
           | (False, c') \<Rightarrow>
               (Inl (Exn ''DeploymentNotReady'' (name @ '' not ready after '' @ nat_str max_polls @ '' polls'')), c')))"

definition cluster_delete :: "string \<Rightarrow> fake_cluster \<Rightarrow> bool \<times> fake_cluster" where
  "cluster_delete name c =
     (case dict_get (fc_deployments c) name of
        None \<Rightarrow> (False, c)
      | Some a \<Rightarrow>
          (True, upd_object (\<lambda>d. d\<lparr>fd_deleted := True\<rparr>) a (c\<lparr>fc_deployments := dict_pop name (fc_deployments c)\<rparr>)))"

definition cluster_names :: "fake_cluster \<Rightarrow> string list" where
  "cluster_names c = sort (map fst (fc_deployments c))"

section \<open>The web-service scenario\<close>

record ws_config =
  wc_image :: "string option"
  wc_replicas :: "int option"
  wc_seed_records :: "(string, string) dict option"
  wc_slo_p95_ms :: "real option"
  wc_slo_error_rate :: "real option"
  wc_simulate_degradation :: bool
  wc_guard_max_error_rate :: "real option"
  wc_request_burst :: "int option"

record ws_context =
  ws_cluster :: "fake_cluster option"
  ws_dep :: "nat option"
  ws_seeded :: "(string, string) dict option"
  ws_slo :: "(real \<times> real) option"
  ws_run_statuses :: "nat list option"
  ws_baseline :: "statistical_sample list"

definition fresh_ws :: ws_context where
  "fresh_ws =
     \<lparr>ws_cluster = None, ws_dep = None, ws_seeded = None, ws_slo = None, ws_run_statuses = None, ws_baseline = []\<rparr>"

definition deployment_name :: string where
  "deployment_name = ''web-service''"

definition ws_error_slo :: "ws_config \<Rightarrow> real" where
  "ws_error_slo c = default_to (1 / 100) (wc_slo_error_rate c)"

definition ws_validate :: "(real \<Rightarrow> string) \<Rightarrow> ws_config \<Rightarrow> ws_context \<Rightarrow> hook_value res \<times> string list \<times> ws_context" where
  "ws_validate fr c e =
     (if \<not> (0 \<le> ws_error_slo c \<and> ws_error_slo c \<le> 1)
      then bad_hook (Exn ''ValueError'' (''slo_error_rate must be in [0, 1], got '' @ fr (ws_error_slo c))) e
      else if default_to 2 (wc_replicas c) < 1
      then bad_hook (Exn ''ValueError'' ''replicas must be >= 1'') e
      else ok_hook e)"

definition ws_provision :: "ws_config \<Rightarrow> ws_context \<Rightarrow> hook_value res \<times> string list \<times> ws_context" where
  "ws_provision c e =
     (case cluster_apply deployment_name (default_to ''web-service:latest'' (wc_image c)) (default_to 2 (wc_replicas c))
         new_cluster of
        (a, cl) \<Rightarrow> ok_hook (e\<lparr>ws_cluster := Some cl, ws_dep := Some a\<rparr>))"

definition ws_await_ready :: "ws_context \<Rightarrow> hook_value res \<times> string list \<times> ws_context" where
  "ws_await_ready e =
     (case ws_cluster e of
        None \<Rightarrow> bad_hook (missing_key ''cluster'') e
      | Some cl \<Rightarrow>
          (case wait_ready deployment_name 10 cl of
             (Inl x, cl') \<Rightarrow> bad_hook x (e\<lparr>ws_cluster := Some cl'\<rparr>)
           | (Inr u, cl') \<Rightarrow> ok_hook (e\<lparr>ws_cluster := Some cl'\<rparr>)))"

text \<open>\<open>ctx.env["dep"].service\<close>, and a change to it.\<close>

definition the_dep :: "ws_context \<Rightarrow> (nat \<times> fake_cluster) res" where
  "the_dep e =
     (case (ws_dep e, ws_cluster e) of (Some a, Some cl) \<Rightarrow> Inr (a, cl) | _ \<Rightarrow> Inl (missing_key ''dep''))"

definition dep_service :: "nat \<times> fake_cluster \<Rightarrow> fake_service" where
  "dep_service x = fd_service (fc_objects (snd x) ! fst x)"

definition put_service :: "fake_service \<Rightarrow> nat \<times> fake_cluster \<Rightarrow> ws_context \<Rightarrow> ws_context" where
  "put_service s x e = e\<lparr>ws_cluster := Some (upd_object (\<lambda>d. d\<lparr>fd_service := s\<rparr>) (fst x) (snd x))\<rparr>"

definition sample_records :: "(string, string) dict" where
  "sample_records = [(''record:1'', ''alpha''), (''record:2'', ''bravo''), (''record:3'', ''charlie'')]"

definition ws_records :: "ws_config \<Rightarrow> (string, string) dict" where
  "ws_records c = (case wc_seed_records c of None \<Rightarrow> sample_records | Some d \<Rightarrow> if d = [] then sample_records else d)"

definition put_all :: "(string, string) dict \<Rightarrow> fake_service \<Rightarrow> fake_service" where
  "put_all rs s = foldl (\<lambda>s (k, v). service_put k v s) s rs"

definition ws_seed :: "ws_config \<Rightarrow> ws_context \<Rightarrow> hook_value res \<times> string list \<times> ws_context" where
  "ws_seed c e =
     (case the_dep e of
        Inl x \<Rightarrow> bad_hook x e
      | Inr d \<Rightarrow>
          ok_hook ((put_service (put_all (ws_records c) (dep_service d)) d e)
            \<lparr>ws_seeded := Some (ws_records c)\<rparr>))"

definition ws_setup_test :: "ws_config \<Rightarrow> ws_context \<Rightarrow> hook_value res \<times> string list \<times> ws_context" where
  "ws_setup_test c e = ok_hook (e\<lparr>ws_slo := Some (default_to 150 (wc_slo_p95_ms c), ws_error_slo c)\<rparr>)"

definition ws_capture_baseline :: "ws_context \<Rightarrow> hook_value res \<times> string list \<times> ws_context" where
  "ws_capture_baseline e =
     (case the_dep e of
        Inl x \<Rightarrow> bad_hook x e
      | Inr d \<Rightarrow>
          (case service_burst 10 ''/health'' (dep_service d) of
             (rs, s) \<Rightarrow>
               (res_bind (from_samples ''request_latency_ms'' (map fr_latency rs)) (\<lambda>x. Inr (HV_samples [x])), [],
                put_service s d e)))"

definition ws_run_test :: "ws_config \<Rightarrow> ws_context \<Rightarrow> unit res \<times> ws_context" where
  "ws_run_test c e =
     (case the_dep e of
        Inl x \<Rightarrow> (Inl x, e)
      | Inr d \<Rightarrow>
          (let s0 = (if wc_simulate_degradation c then degrade (dep_service d) else dep_service d) in
           case service_burst (nat (default_to 20 (wc_request_burst c))) ''/api'' s0 of
             (rs, s) \<Rightarrow> (Inr (), (put_service s d e)\<lparr>ws_run_statuses := Some (map fr_status rs)\<rparr>)))"

definition error_count :: "nat list \<Rightarrow> nat" where
  "error_count ss = length (filter (\<lambda>s. 500 \<le> s) ss)"

definition error_rate :: "nat list \<Rightarrow> real" where
  "error_rate ss = real (error_count ss) / real (length ss)"

definition last_n :: "nat \<Rightarrow> 'a list \<Rightarrow> 'a list" where
  "last_n n xs = drop (length xs - n) xs"

definition ws_guard :: "ws_config \<Rightarrow> ws_context \<Rightarrow> string option" where
  "ws_guard c e = (if default_to 0 (wc_guard_max_error_rate c) \<le> 0 then None else Some ''error_budget'')"

text \<open>One poll of the guard; \<open>pct\<close> is the \<open>.0%\<close> format.\<close>

definition ws_guard_check :: "(real \<Rightarrow> string) \<Rightarrow> ws_config \<Rightarrow> ws_context \<Rightarrow> (bool \<times> string) res" where
  "ws_guard_check pct c e =
     res_bind (the_dep e) (\<lambda>d.
       (let recent = map qr_status (last_n 10 (fv_log (dep_service d)));
            budget = default_to 0 (wc_guard_max_error_rate c)
        in if recent = [] then Inr (True, ''no traffic yet'')
           else Inr (error_rate recent \<le> budget,
             ''live error rate '' @ pct (error_rate recent) @ '' (budget '' @ pct budget @ '')'')))"

section \<open>The verdict of the web-service scenario\<close>

record number_format =
  nf_repr :: "real \<Rightarrow> string"
  nf_percent :: "real \<Rightarrow> string"

definition latency_failures :: "number_format \<Rightarrow> real \<Rightarrow> statistical_sample \<Rightarrow> verify_failure list" where
  "latency_failures nf slo sample =
     (if ss_p95 sample > slo
      then [\<lparr>vf_assertion = ''p95 request latency within SLO'', vf_expected = ''<= '' @ nf_repr nf slo @ ''ms'',
             vf_actual = fmt1 (ss_p95 sample) @ ''ms'', vf_severity = SEV_HIGH,
             vf_evidence = [(''p95'', PFloat (ss_p95 sample)), (''p99'', PFloat (ss_p99 sample))]\<rparr>]
      else [])"

definition rate_failures :: "number_format \<Rightarrow> real \<Rightarrow> nat list \<Rightarrow> verify_failure list" where
  "rate_failures nf slo ss =
     (if ss \<noteq> [] \<and> error_rate ss > slo
      then [\<lparr>vf_assertion = ''error rate within SLO'', vf_expected = ''<= '' @ nf_percent nf slo,
             vf_actual = nf_percent nf (error_rate ss), vf_severity = SEV_CRITICAL,
             vf_evidence = [(''errors'', PInt (int (error_count ss)))]\<rparr>]
      else [])"

definition lost_records :: "(string, string) dict \<Rightarrow> fake_service \<Rightarrow> string list" where
  "lost_records seeded s = map fst (filter (\<lambda>(k, v). service_get k s \<noteq> Some v) seeded)"

definition data_failures :: "(string, string) dict \<Rightarrow> fake_service \<Rightarrow> verify_failure list" where
  "data_failures seeded s =
     (let lost = lost_records seeded s in
      if lost \<noteq> []
      then [\<lparr>vf_assertion = ''seeded records intact'', vf_expected = nat_str (length seeded) @ '' records present'',
             vf_actual = nat_str (length lost) @ '' lost/corrupted'', vf_severity = SEV_MEDIUM,
             vf_evidence = [(''lost_keys'', PList (map PStr lost))]\<rparr>]
      else [])"

definition ws_verdict :: "verify_failure list \<Rightarrow> statistical_sample \<Rightarrow> verify_result" where
  "ws_verdict failures sample =
     (if failures \<noteq> []
      then \<lparr>vr_passed = False, vr_summary = nat_str (length failures) @ '' SLO/integrity check(s) failed under fault'',
             vr_failures = failures, vr_evidence = [], vr_metrics = [sample]\<rparr>
      else \<lparr>vr_passed = True, vr_summary = ''all SLOs held and data intact under fault'',
             vr_failures = [], vr_evidence = [], vr_metrics = [sample]\<rparr>)"

definition ws_verify :: "number_format \<Rightarrow> ws_context \<Rightarrow> hook_value res \<times> string list \<times> ws_context" where
  "ws_verify nf e =
     (case the_dep e of
        Inl x \<Rightarrow> bad_hook x e
      | Inr d \<Rightarrow>
          (case service_burst 20 ''/api'' (dep_service d) of
             (rs, s) \<Rightarrow>
               (case from_samples ''verify_latency_ms'' (map fr_latency rs) of
                  Inl x \<Rightarrow> bad_hook x (put_service s d e)
                | Inr sample \<Rightarrow>
                    (case ws_slo e of
                       None \<Rightarrow> bad_hook (missing_key ''slo_p95_ms'') (put_service s d e)
                     | Some (slo_p95, slo_err) \<Rightarrow>
                         (Inr (HV_verdict (ws_verdict
                            (latency_failures nf slo_p95 sample @
                             rate_failures nf slo_err (default_to [] (ws_run_statuses e)) @
                             data_failures (default_to [] (ws_seeded e)) s) sample)), [], put_service s d e)))))"

definition request_view :: "request_record \<Rightarrow> pyval" where
  "request_view q =
     PDict [(''path'', PStr (qr_path q)), (''status'', PInt (int (qr_status q))), (''latency_ms'', PFloat (qr_latency q))]"

definition ws_collect :: "ws_context \<Rightarrow> hook_value res \<times> string list \<times> ws_context" where
  "ws_collect e =
     (case the_dep e of
        Inl x \<Rightarrow> bad_hook x e
      | Inr (a, cl) \<Rightarrow>
          (let d = fc_objects cl ! a; log = fv_log (fd_service d) in
           (Inr (HV_dict
              [(''deployment'', PStr (fd_name d)), (''image'', PStr (fd_image d)), (''replicas'', PInt (fd_replicas d)),
               (''total_requests'', PInt (int (length log))),
               (''error_count'', PInt (int (error_count (map qr_status log)))),
               (''recent_requests'', PList (map request_view (last_n 5 log)))]), [], e)))"

definition ws_teardown_env :: "ws_context \<Rightarrow> hook_value res \<times> string list \<times> ws_context" where
  "ws_teardown_env e =
     (case ws_cluster e of
        None \<Rightarrow> ok_hook e
      | Some cl \<Rightarrow> ok_hook (e\<lparr>ws_cluster := Some (snd (cluster_delete deployment_name cl))\<rparr>))"

definition ws_hook ::
  "number_format \<Rightarrow> ws_config \<Rightarrow> hook \<Rightarrow> ws_context \<Rightarrow> hook_value res \<times> string list \<times> ws_context" where
  "ws_hook nf c h e =
     (case h of
        H_validate \<Rightarrow> ws_validate (nf_repr nf) c e
      | H_provision_env \<Rightarrow> ws_provision c e
      | H_await_ready \<Rightarrow> ws_await_ready e
      | H_seed \<Rightarrow> ws_seed c e
      | H_setup_test \<Rightarrow> ws_setup_test c e
      | H_capture_baseline \<Rightarrow> ws_capture_baseline e
      | H_run_test \<Rightarrow> (case ws_run_test c e of (r, e') \<Rightarrow> (res_bind r (\<lambda>u. Inr HV_none), [], e'))
      | H_verify \<Rightarrow> ws_verify nf e
      | H_collect_diagnostics \<Rightarrow> ws_collect e
      | H_teardown_test \<Rightarrow> ok_hook (e\<lparr>ws_slo := None\<rparr>)
      | H_teardown_env \<Rightarrow> ws_teardown_env e)"

definition ws_plugin ::
  "number_format \<Rightarrow> (unit res \<Rightarrow> ws_context \<Rightarrow> completion list list) \<Rightarrow> ws_config \<Rightarrow> ws_context plugin" where
  "ws_plugin nf race c =
     \<lparr>pg_name = ''example-web-service'', pg_overrides = (\<lambda>h. True), pg_hook = ws_hook nf c,
      pg_compensation = (\<lambda>n e. (Inr (), e)), pg_guard = ws_guard c, pg_set_baseline = (\<lambda>xs e. e\<lparr>ws_baseline := xs\<rparr>),
      pg_race = (\<lambda>e. case ws_run_test c e of (r, e') \<Rightarrow> (race r e', e'))\<rparr>"

end
