(* ===== verification/Example_Plugins_Props.thy ===== *)
theory Example_Plugins_Props
  imports Example_Plugins
begin

text \<open>
  The example plugins under the host: a whole session (enter, baseline, driven run, verdict, exit) of either scenario
  gives the verdict its configuration asks for and leaves nothing of its environment behind.
\<close>

section \<open>A session from enter to exit\<close>

definition whole_session ::
  "('e \<Rightarrow> int) \<Rightarrow> 'e plugin \<Rightarrow> ('e \<Rightarrow> chaos_timeline res \<times> 'e) \<Rightarrow> 'e \<Rightarrow>
    (verify_result option \<times> pyexn option \<times> 'e) option" where
  "whole_session now pl inject e =
     (case aenter now pl new_session e of
        (Inl x, s1, e1) \<Rightarrow> None
      | (Inr u, s1, e1) \<Rightarrow>
          (case capture_baseline now pl s1 e1 of
             (Inl x, s2, e2) \<Rightarrow> None
           | (Inr xs, s2, e2) \<Rightarrow>
               (case drive_run now pl inject s2 e2 of
                  None \<Rightarrow> None
                | Some (r, b, s3, e3) \<Rightarrow>
                    (case session_verify now pl s3 e3 of
                       (Inl x, s4, e4) \<Rightarrow> None
                     | (Inr v, s4, e4) \<Rightarrow> (case aexit now pl s4 e4 of (x, s5, e5) \<Rightarrow> Some (v, x, e5))))))"

text \<open>The plugin's hooks in order: what a session amounts to when every hook is overridden and teardown is calm.\<close>

definition calm_teardown :: "'e plugin \<Rightarrow> bool" where
  "calm_teardown pl \<longleftrightarrow> (\<forall>cb e. \<exists>e'. call_callback pl cb e = (Inr (), [], e'))"

definition after_callback :: "'e plugin \<Rightarrow> callback \<Rightarrow> 'e \<Rightarrow> 'e" where
  "after_callback pl cb e = snd (snd (call_callback pl cb e))"

lemma calm_call: "calm_teardown pl \<Longrightarrow> call_callback pl cb e = (Inr (), [], after_callback pl cb e)"
  unfolding calm_teardown_def after_callback_def by (metis snd_conv)

lemma close_calm:
  assumes "calm_teardown pl" "stack_of sc s = cs"
  shows "\<exists>s'. close_stack sc now pl p s e = (p, s', fold (after_callback pl) cs e) \<and>
    (\<forall>sc'. sc' \<noteq> sc \<longrightarrow> stack_of sc' s' = stack_of sc' s)"
  using assms(2)
proof (induction cs arbitrary: s e)
  case Nil
  then show ?case by (auto simp: close_stack.simps)
next
  case (Cons cb cs)
  let ?s = "add_record (teardown_record cb (Inr ()) (now e) (now (after_callback pl cb e))) (set_stack sc cs s)"
  have run: "run_teardown now pl cb (set_stack sc cs s) e = (None, ?s, after_callback pl cb e)"
    by (simp add: run_teardown_def calm_call [OF assms(1)])
  have "stack_of sc ?s = cs" by simp
  from Cons.IH [OF this, of "after_callback pl cb e"] obtain s' where
    s': "close_stack sc now pl p ?s (after_callback pl cb e) = (p, s', fold (after_callback pl) cs (after_callback pl cb e))"
    "\<forall>sc'. sc' \<noteq> sc \<longrightarrow> stack_of sc' s' = stack_of sc' ?s"
    by blast
  have o: "or_else None p = p" by simp
  have "close_stack sc now pl p s e = (p, s', fold (after_callback pl) (cb # cs) e)"
    by (subst close_stack.simps) (simp add: Cons.prems run o s'(1))
  then show ?case using s'(2) by auto
qed

lemma exit_calm:
  assumes "calm_teardown pl" "\<not> ps_torn_down s"
  shows "\<exists>s'. aexit now pl s e = (None, s', fold (after_callback pl) (ps_test_stack s @ ps_env_stack s) e)"
proof -
  let ?s = "s\<lparr>ps_torn_down := True\<rparr>"
  obtain s1 where s1: "close_stack Test_scope now pl None ?s e = (None, s1, fold (after_callback pl) (ps_test_stack s) e)"
    "stack_of Env_scope s1 = ps_env_stack s"
    using close_calm [OF assms(1), of Test_scope ?s "ps_test_stack s" now None e] by auto
  obtain s2 where "close_stack Env_scope now pl None s1 (fold (after_callback pl) (ps_test_stack s) e) =
      (None, s2, fold (after_callback pl) (ps_env_stack s) (fold (after_callback pl) (ps_test_stack s) e))"
    using close_calm [OF assms(1) s1(2), of now None] by blast
  then show ?thesis using assms(2) s1(1) by (simp add: aexit_def teardown_def)
qed

definition hook_runs :: "'e plugin \<Rightarrow> hook \<Rightarrow> 'e \<Rightarrow> string list \<Rightarrow> 'e \<Rightarrow> bool" where
  "hook_runs pl h e ds e' \<longleftrightarrow> (\<exists>v. pg_hook pl h e = (Inr v, ds, e'))"

lemma invoke_runs:
  "pg_overrides pl h \<Longrightarrow> hook_runs pl h e ds e' \<Longrightarrow>
     \<exists>v r. invoke now pl h s e = (Inr v, add_record r (register_all ds s), e')"
  by (auto simp: hook_runs_def invoke_def)

lemma enter_runs:
  assumes all: "\<And>h. pg_overrides pl h"
    and "hook_runs pl H_validate e [] e1" "hook_runs pl H_provision_env e1 [] e2" "hook_runs pl H_await_ready e2 [] e3"
    and "hook_runs pl H_seed e3 ds e4" "hook_runs pl H_setup_test e4 [] e5"
  shows "\<exists>s. aenter now pl new_session e = (Inr (), s, e5) \<and> \<not> ps_torn_down s \<and> ps_current s = Test_scope \<and>
    ps_test_stack s = [CB_teardown_test] \<and> ps_env_stack s = compensations_of Env_scope ds @ [CB_teardown_env]"
proof -
  note i = invoke_runs [where pl = pl, OF all]
  obtain v1 r1 where 1: "invoke now pl H_validate new_session e = (Inr v1, add_record r1 new_session, e1)"
    using i [OF assms(2), of now new_session] by auto
  let ?s1 = "open_env_scope pl (add_record r1 new_session)"
  obtain v2 r2 where 2: "invoke now pl H_provision_env ?s1 e1 = (Inr v2, add_record r2 ?s1, e2)"
    using i [OF assms(3), of now ?s1] by auto
  obtain v3 r3 where 3: "invoke now pl H_await_ready (add_record r2 ?s1) e2 = (Inr v3, add_record r3 (add_record r2 ?s1), e3)"
    using i [OF assms(4), of now "add_record r2 ?s1"] by auto
  let ?s3 = "add_record r3 (add_record r2 ?s1)"
  obtain v4 r4 where 4: "invoke now pl H_seed ?s3 e3 = (Inr v4, add_record r4 (register_all ds ?s3), e4)"
    using i [OF assms(5), of now ?s3] by auto
  let ?s5 = "open_test_scope pl (add_record r4 (register_all ds ?s3))"
  obtain v5 r5 where 5: "invoke now pl H_setup_test ?s5 e4 = (Inr v5, add_record r5 ?s5, e5)"
    using i [OF assms(6), of now ?s5] by auto
  have st: "stack_of Env_scope (register_all ds ?s3) = compensations_of Env_scope ds @ [CB_teardown_env]"
      "stack_of Test_scope (register_all ds ?s3) = []"
    unfolding stack_register_all
    by (simp_all add: open_env_scope_def new_session_def push_callback_def Let_def all add_record_def)
  have "aenter now pl new_session e = (Inr (), add_record r5 ?s5, e5)"
    by (simp add: aenter_def enter_body_def 1 2 3 4 5)
  moreover have "\<not> ps_torn_down (add_record r5 ?s5) \<and> ps_current (add_record r5 ?s5) = Test_scope \<and>
      ps_test_stack (add_record r5 ?s5) = [CB_teardown_test] \<and>
      ps_env_stack (add_record r5 ?s5) = compensations_of Env_scope ds @ [CB_teardown_env]"
    using st by (simp add: open_test_scope_def open_env_scope_def push_callback_def Let_def all new_session_def)
  ultimately show ?thesis by blast
qed

lemma session_runs:
  assumes all: "\<And>h. pg_overrides pl h" and calm: "calm_teardown pl"
    and enter: "hook_runs pl H_validate e [] e1" "hook_runs pl H_provision_env e1 [] e2" "hook_runs pl H_await_ready e2 [] e3"
      "hook_runs pl H_seed e3 ds e4" "hook_runs pl H_setup_test e4 [] e5"
    and cap: "pg_hook pl H_capture_baseline e5 = (Inr (HV_samples xs), [], e6)"
    and race: "pg_race pl (pg_set_baseline pl xs e6) = (bs, e7)" "drive_loop None None True bs \<noteq> None"
    and ver: "pg_hook pl H_verify e7 = (Inr (HV_verdict w), [], e8)"
  shows "whole_session now pl inject e = Some (Some w, None,
    fold (after_callback pl) (CB_teardown_test # compensations_of Env_scope ds @ [CB_teardown_env]) e8)"
proof -
  obtain s1 where s1: "aenter now pl new_session e = (Inr (), s1, e5)" "\<not> ps_torn_down s1"
    "ps_test_stack s1 = [CB_teardown_test]" "ps_env_stack s1 = compensations_of Env_scope ds @ [CB_teardown_env]"
    using enter_runs [OF all enter, of now] by auto
  obtain r2 where s2: "capture_baseline now pl s1 e5 = (Inr xs, add_record r2 s1, pg_set_baseline pl xs e6)"
    using cap by (simp add: capture_baseline_def all invoke_def)
  obtain q b r3 where s3: "drive_run now pl inject (add_record r2 s1) (pg_set_baseline pl xs e6) =
      Some (q, b, add_record r3 (add_record r2 s1), e7)"
    using race by (auto simp: drive_run_def all Let_def)
  let ?s3 = "add_record r3 (add_record r2 s1)"
  obtain s4 where s4: "session_verify now pl ?s3 e7 = (Inr (Some w), s4, e8)" "\<not> ps_torn_down s4"
    "ps_test_stack s4 = ps_test_stack s1" "ps_env_stack s4 = ps_env_stack s1"
    using ver s1(2) by (auto simp: session_verify_def all invoke_def Let_def)
  obtain s5 where "aexit now pl s4 e8 = (None, s5, fold (after_callback pl) (ps_test_stack s1 @ ps_env_stack s1) e8)"
    using exit_calm [OF calm s4(2), of now e8] s4(3,4) by auto
  then show ?thesis by (simp add: whole_session_def s1 s2 s3 s4(1))
qed

section \<open>The key-value scenario\<close>

lemma kv_fill_keys: "set (map fst (kv_fill ks d)) = set ks \<union> set (map fst d)"
proof (induction ks arbitrary: d)
  case (Cons k ks)
  have "kv_fill (k # ks) d = kv_fill ks (dict_set k (''value-of-'' @ k) d)" by (simp add: kv_fill_def)
  then show ?case using Cons by (simp add: keys_dict_set [unfolded set_map])
qed (simp add: kv_fill_def)

lemma keys_pop: "fst ` set (dict_pop k d) = fst ` set d - {k}"
  by (force simp: dict_pop_def)

lemma kv_verdict_says:
  "vr_passed (kv_verdict ks ms) \<longleftrightarrow> set ms = {}"
  "set (vr_failures (kv_verdict ks ms)) = lost_key_failure ` set ms"
  by (simp_all add: kv_verdict_def)

lemma kv_keys_nonempty: "kv_keys c \<noteq> []"
  by (simp add: kv_keys_def split: option.splits)

lemma kv_calm: "calm_teardown (kv_plugin fr race c)"
proof -
  have "\<exists>e'. call_callback (kv_plugin fr race c) cb e = (Inr (), [], e')" for cb e
    by (cases cb) (simp_all add: kv_plugin_def kv_hook_def ok_hook_def)
  then show ?thesis by (simp add: calm_teardown_def)
qed

text \<open>A session of the key-value example judges exactly what its workload did, and cleans up. For any valid
  configuration, if the concurrent tasks of the driven run complete, a session from enter to exit returns; its verdict
  passed exactly when no data loss was configured; a failed verdict names the lost key, the first one seeded, and
  nothing else; and afterwards no exception is pending and neither the store nor the expectations are left.\<close>

theorem kv_session_exact:
  assumes "as_int (kv_guard_min c) = Some i" "0 \<le> i"
    and "\<And>r e. drive_loop None None True (race r e) \<noteq> None"
  shows "\<exists>w e'. whole_session now (kv_plugin fr race c) inject fresh_kv = Some (Some w, None, e') \<and> (vr_passed w \<longleftrightarrow> \<not> kc_inject_data_loss c) \<and>
    set (vr_failures w) = (if kc_inject_data_loss c then {lost_key_failure (hd (kv_keys c))} else {}) \<and>
    kv_store e' = None \<and> kv_expected e' = None"
proof -
  let ?pl = "kv_plugin fr race c" and ?ks = "kv_keys c"
  let ?d = "kv_fill ?ks []"
  let ?e2 = "fresh_kv\<lparr>kv_store := Some []\<rparr>"
  let ?e4 = "?e2\<lparr>kv_store := Some ?d, kv_seeded := Some ?ks\<rparr>"
  let ?e5 = "?e4\<lparr>kv_expected := Some ?ks\<rparr>"
  obtain k ks where ks: "?ks = k # ks" using kv_keys_nonempty by (cases ?ks) auto
  have h: "hook_runs ?pl H_validate fresh_kv [] fresh_kv" "hook_runs ?pl H_provision_env fresh_kv [] ?e2"
    "hook_runs ?pl H_await_ready ?e2 [] ?e2" "hook_runs ?pl H_seed ?e2 [''unseed''] ?e4" "hook_runs ?pl H_setup_test ?e4 [] ?e5"
    using assms(1,2)
    by (simp_all add: hook_runs_def kv_plugin_def kv_hook_def ok_hook_def kv_validate_def kv_await_ready_def kv_seed_def
        kv_setup_test_def)
  obtain smp where cap: "pg_hook ?pl H_capture_baseline ?e5 = (Inr (HV_samples [smp]), [], ?e5)"
    by (simp add: kv_plugin_def kv_hook_def kv_capture_baseline_def from_samples_def Let_def)
  let ?e6 = "?e5\<lparr>kv_baseline := [smp]\<rparr>"
  let ?left = "if kc_inject_data_loss c then dict_pop k ?d else ?d"
  let ?e7 = "if kc_inject_data_loss c then ?e6\<lparr>kv_store := Some (dict_pop k ?d), kv_lost := Some k\<rparr> else ?e6"
  have race: "pg_race ?pl (pg_set_baseline ?pl [smp] ?e5) = (race (Inr ()) ?e7, ?e7)"
    using ks by (cases "kc_inject_data_loss c") (simp_all add: kv_plugin_def kv_run_test_def)
  let ?w = "kv_verdict ?ks (kv_missing ?left ?ks)"
  have ver: "pg_hook ?pl H_verify ?e7 = (Inr (HV_verdict ?w), [], ?e7)"
    by (simp add: kv_plugin_def kv_hook_def kv_verify_def)
  have k: "k \<in> set ?ks" by (simp add: ks)
  have d: "fst ` set ?d = set ?ks" using kv_fill_keys [of ?ks "[]"] by simp
  have "dict_has ?left j \<longleftrightarrow> j \<in> set ?ks \<and> (kc_inject_data_loss c \<longrightarrow> j \<noteq> k)" for j
    unfolding dict_has_def set_map by (simp add: keys_pop d)
  then have missing: "set (kv_missing ?left ?ks) = (if kc_inject_data_loss c then {k} else {})"
    unfolding kv_missing_def set_filter using k by (cases "kc_inject_data_loss c") auto
  then have passed: "vr_passed ?w \<longleftrightarrow> \<not> kc_inject_data_loss c"
      "set (vr_failures ?w) = (if kc_inject_data_loss c then {lost_key_failure k} else {})"
    unfolding kv_verdict_says by simp_all
  have "whole_session now ?pl inject fresh_kv = Some (Some ?w, None,
      fold (after_callback ?pl) (CB_teardown_test # compensations_of Env_scope [''unseed''] @ [CB_teardown_env]) ?e7)"
    by (rule session_runs [OF _ kv_calm h cap race assms(3) ver]) (simp add: kv_plugin_def)
  then show ?thesis
    using passed ks
    by (auto simp: compensations_of_def after_callback_def kv_plugin_def kv_hook_def ok_hook_def)
qed

section \<open>The web-service scenario\<close>

text \<open>A service with the default settings; every operation keeps them.\<close>

definition standard :: "fake_service \<Rightarrow> bool" where
  "standard s \<longleftrightarrow> fv_latencies s = [40, 45, 38, 50, 42] \<and> fv_multiplier s = 6 \<and> fv_error_every s = 2"

definition good_answer :: "fake_response \<Rightarrow> bool" where
  "good_answer r \<longleftrightarrow> fr_status r = 200 \<and> 38 \<le> fr_latency r \<and> fr_latency r \<le> 50"

lemma standard_answer:
  assumes "standard s"
  shows "\<not> fv_degraded s \<Longrightarrow> good_answer (service_answer s)"
    and "fv_degraded s \<Longrightarrow> 228 \<le> fr_latency (service_answer s)"
proof -
  have "list_all (\<lambda>x. 38 \<le> x \<and> x \<le> 50) ([40, 45, 38, 50, 42] :: real list)" by simp
  then have base: "38 \<le> ([40, 45, 38, 50, 42] :: real list) ! (fv_n s mod 5)"
      "([40, 45, 38, 50, 42] :: real list) ! (fv_n s mod 5) \<le> 50"
    by (simp_all add: list_all_length del: nth_Cons_numeral)
  show "\<not> fv_degraded s \<Longrightarrow> good_answer (service_answer s)"
    using base assms by (simp add: service_answer_def good_answer_def standard_def)
  show "fv_degraded s \<Longrightarrow> 228 \<le> fr_latency (service_answer s)"
    using base assms by (simp add: service_answer_def standard_def Let_def)
qed

lemma burst_keeps:
  "service_burst n path s = (rs, s') \<Longrightarrow>
     length rs = n \<and> fv_store s' = fv_store s \<and> fv_degraded s' = fv_degraded s \<and> (standard s' \<longleftrightarrow> standard s)"
  by (induction n arbitrary: s rs)
    (auto simp: service_request_def Let_def standard_def split: prod.splits)

lemma burst_answers:
  assumes "service_burst n path s = (rs, s')" "standard s" "r \<in> set rs"
  shows "(\<not> fv_degraded s \<longrightarrow> good_answer r) \<and> (fv_degraded s \<longrightarrow> 228 \<le> fr_latency r)"
  using assms
proof (induction n arbitrary: s rs)
  case (Suc n)
  let ?s1 = "snd (service_request path s)"
  obtain qs where qs: "service_burst n path ?s1 = (qs, s')" "rs = service_answer s # qs"
    using Suc.prems(1) by (auto simp: service_request_def Let_def split: prod.splits)
  have k: "standard ?s1" "fv_degraded ?s1 = fv_degraded s"
    using Suc.prems(2) by (simp_all add: service_request_def Let_def standard_def)
  show ?case
  proof (cases "r = service_answer s")
    case True
    then show ?thesis using standard_answer [OF Suc.prems(2)] by simp
  next
    case False
    then have "r \<in> set qs" using Suc.prems(3) qs(2) by simp
    from Suc.IH [OF qs(1) k(1) this] k(2) show ?thesis by simp
  qed
qed simp

lemma put_keeps [simp]:
  "standard (service_put k v s) \<longleftrightarrow> standard s" "fv_degraded (service_put k v s) = fv_degraded s"
  "fv_store (service_put k v s) = dict_set k v (fv_store s)"
  by (simp_all add: service_put_def standard_def)

lemma put_all_keeps:
  "fv_store (put_all rs s) = dict_update (fv_store s) rs" "standard (put_all rs s) \<longleftrightarrow> standard s"
  "fv_degraded (put_all rs s) = fv_degraded s"
  unfolding put_all_def dict_update_def
  by (induction rs arbitrary: s) (simp_all add: split_beta)

lemma ws_calm: "calm_teardown (ws_plugin nf race c)"
proof -
  have "\<exists>e'. call_callback (ws_plugin nf race c) cb e = (Inr (), [], e')" for cb e
    by (cases cb; cases "ws_cluster e") (simp_all add: ws_plugin_def ws_hook_def ws_teardown_env_def ok_hook_def)
  then show ?thesis by (simp add: calm_teardown_def)
qed

text \<open>The one deployment of a session: at address 0, with a service in a known condition.\<close>

definition deployed :: "(string, string) dict \<Rightarrow> bool \<Rightarrow> ws_context \<Rightarrow> bool" where
  "deployed recs bad e \<longleftrightarrow>
     (\<exists>cl d. ws_dep e = Some 0 \<and> ws_cluster e = Some cl \<and> fc_deployments cl = [(deployment_name, 0)] \<and>
        fc_objects cl = [d] \<and> standard (fd_service d) \<and> fv_store (fd_service d) = recs \<and>
        fv_degraded (fd_service d) = bad)"

lemma deployed_dep:
  assumes "deployed recs bad e"
  obtains cl where "the_dep e = Inr (0, cl)" "standard (dep_service (0, cl))" "fv_store (dep_service (0, cl)) = recs"
    "fv_degraded (dep_service (0, cl)) = bad"
    "\<forall>s. standard s \<longrightarrow> deployed (fv_store s) (fv_degraded s) (put_service s (0, cl) e)"
proof -
  obtain cl d where cl: "ws_dep e = Some 0" "ws_cluster e = Some cl" "fc_deployments cl = [(deployment_name, 0)]"
    "fc_objects cl = [d]" "standard (fd_service d)" "fv_store (fd_service d) = recs" "fv_degraded (fd_service d) = bad"
    using assms by (auto simp: deployed_def)
  show ?thesis
    by (rule that [of cl]) (use cl in \<open>auto simp: the_dep_def dep_service_def put_service_def upd_object_def deployed_def\<close>)
qed

lemma ws_provision_deployed:
  "\<exists>e'. ws_provision c fresh_ws = (Inr HV_none, [], e') \<and> deployed [] False e' \<and>
     (\<exists>cl. ws_cluster e' = Some cl \<and> fd_polls_remaining (fc_objects cl ! 0) = 2 \<and> \<not> fd_deleted (fc_objects cl ! 0))"
  by (simp add: ws_provision_def cluster_apply_def new_cluster_def Let_def ok_hook_def deployed_def fresh_ws_def
      new_deployment_def new_service_def standard_def)

lemma ws_ready_deployed:
  assumes "deployed recs bad e" "ws_cluster e = Some cl" "fd_polls_remaining (fc_objects cl ! 0) = 2"
    "\<not> fd_deleted (fc_objects cl ! 0)"
  shows "\<exists>e'. ws_await_ready e = (Inr HV_none, [], e') \<and> deployed recs bad e'"
proof -
  obtain d where d: "ws_dep e = Some 0" "fc_deployments cl = [(deployment_name, 0)]" "fc_objects cl = [d]"
    "standard (fd_service d)" "fv_store (fd_service d) = recs" "fv_degraded (fd_service d) = bad"
    using assms(1,2) by (auto simp: deployed_def)
  let ?cl = "cl\<lparr>fc_objects := [d\<lparr>fd_polls_remaining := 0\<rparr>]\<rparr>"
  have "poll_until 10 0 cl = (True, ?cl)"
    using d(3) assms(3,4) by (simp add: numeral_eq_Suc poll_ready_def upd_object_def Let_def)
  then have "ws_await_ready e = (Inr HV_none, [], e\<lparr>ws_cluster := Some ?cl\<rparr>)"
    using assms(2) d(2) by (simp add: ws_await_ready_def wait_ready_def ok_hook_def dict_get_Cons)
  then show ?thesis using d by (auto simp: deployed_def)
qed

lemma ws_seed_deployed:
  assumes "deployed [] False e" "dict_wf (ws_records c)"
  shows "\<exists>e'. ws_seed c e = (Inr HV_none, [], e') \<and> deployed (ws_records c) False e' \<and> ws_seeded e' = Some (ws_records c)"
proof -
  obtain cl where cl: "the_dep e = Inr (0, cl)" "standard (dep_service (0, cl))" "fv_store (dep_service (0, cl)) = []"
    "fv_degraded (dep_service (0, cl)) = False"
    "\<forall>s. standard s \<longrightarrow> deployed (fv_store s) (fv_degraded s) (put_service s (0, cl) e)"
    by (rule deployed_dep [OF assms(1)])
  have u: "dict_update [] (ws_records c) = ws_records c"
    using assms(2) by (simp add: dict_update_Nil)
  let ?s = "put_all (ws_records c) (dep_service (0, cl))"
  have "deployed (ws_records c) False (put_service ?s (0, cl) e)"
    using cl(5) [rule_format, of ?s] cl(2-4) u by (simp add: put_all_keeps)
  then show ?thesis using cl(1) by (simp add: ws_seed_def ok_hook_def deployed_def put_service_def)
qed

lemma burst_deployed:
  assumes "deployed recs bad e"
  obtains cl rs s where "the_dep e = Inr (0, cl)" "service_burst n path (dep_service (0, cl)) = (rs, s)" "length rs = n"
    "deployed recs bad (put_service s (0, cl) e)" "fv_store s = recs"
    "\<not> bad \<longrightarrow> list_all good_answer rs" "bad \<longrightarrow> list_all (\<lambda>r. 228 \<le> fr_latency r) rs"
proof -
  obtain cl where cl: "the_dep e = Inr (0, cl)" "standard (dep_service (0, cl))" "fv_store (dep_service (0, cl)) = recs"
    "fv_degraded (dep_service (0, cl)) = bad"
    "\<forall>s. standard s \<longrightarrow> deployed (fv_store s) (fv_degraded s) (put_service s (0, cl) e)"
    by (rule deployed_dep [OF assms])
  obtain rs s where b: "service_burst n path (dep_service (0, cl)) = (rs, s)" by fastforce
  note k = burst_keeps [OF b]
  have "deployed recs bad (put_service s (0, cl) e)"
    using cl(5) [rule_format, of s] cl(2-4) k by simp
  then show ?thesis
    using that [OF cl(1) b] k cl(3,4) burst_answers [OF b cl(2)] by (simp add: list_all_iff)
qed

lemma summary_exists: "length rs = Suc n \<Longrightarrow> \<exists>smp. from_samples m (map fr_latency rs) = Inr smp"
  by (cases rs) (simp_all add: from_samples_ok_iff)

lemma ws_capture_deployed:
  assumes "deployed recs bad e"
  shows "\<exists>smp e'. ws_capture_baseline e = (Inr (HV_samples [smp]), [], e') \<and> deployed recs bad e' \<and>
    ws_seeded e' = ws_seeded e \<and> ws_slo e' = ws_slo e"
proof -
  obtain cl rs s where b: "the_dep e = Inr (0, cl)" "service_burst 10 ''/health'' (dep_service (0, cl)) = (rs, s)"
    "length rs = 10" "deployed recs bad (put_service s (0, cl) e)"
    using burst_deployed [OF assms, of 10 "''/health''"] by metis
  obtain smp where "from_samples ''request_latency_ms'' (map fr_latency rs) = Inr smp"
    using summary_exists [of rs] b(3) by (metis numeral_eq_Suc)
  then show ?thesis using b(1,2,4) by (simp add: ws_capture_baseline_def put_service_def)
qed

lemma ws_run_deployed:
  assumes "deployed recs False e"
  shows "\<exists>ss e'. ws_run_test c e = (Inr (), e') \<and> deployed recs (wc_simulate_degradation c) e' \<and>
    ws_seeded e' = ws_seeded e \<and> ws_slo e' = ws_slo e \<and> ws_run_statuses e' = Some ss \<and>
    (\<not> wc_simulate_degradation c \<longrightarrow> list_all (\<lambda>k. k = 200) ss)"
proof -
  obtain cl where cl: "the_dep e = Inr (0, cl)" "standard (dep_service (0, cl))" "fv_store (dep_service (0, cl)) = recs"
    "fv_degraded (dep_service (0, cl)) = False"
    "\<forall>s. standard s \<longrightarrow> deployed (fv_store s) (fv_degraded s) (put_service s (0, cl) e)"
    by (rule deployed_dep [OF assms])
  let ?s0 = "if wc_simulate_degradation c then degrade (dep_service (0, cl)) else dep_service (0, cl)"
  obtain rs s where b: "service_burst (nat (default_to 20 (wc_request_burst c))) ''/api'' ?s0 = (rs, s)" by fastforce
  have s0: "standard ?s0" "fv_store ?s0 = recs" "fv_degraded ?s0 = wc_simulate_degradation c"
    using cl(2-4) by (simp_all add: degrade_def standard_def)
  have d: "deployed recs (wc_simulate_degradation c) (put_service s (0, cl) e)"
    using cl(5) [rule_format, of s] burst_keeps [OF b] s0 by simp
  have "list_all (\<lambda>k. k = 200) (map fr_status rs)" if "\<not> wc_simulate_degradation c"
    using burst_answers [OF b s0(1)] that s0(3) by (auto simp: list_all_iff good_answer_def)
  then show ?thesis
    using d cl(1) b by (intro exI [of _ "map fr_status rs"]) (simp add: ws_run_test_def Let_def put_service_def deployed_def)
qed

lemma ws_verify_deployed:
  assumes "deployed recs bad e" "ws_slo e = Some (slo, err)" "ws_run_statuses e = Some ss" "ws_seeded e = Some recs"
    and "50 \<le> slo" "slo < 228" "0 \<le> err" "dict_wf recs" "\<not> bad \<Longrightarrow> list_all (\<lambda>k. k = 200) ss"
  shows "\<exists>w e'. ws_verify nf e = (Inr (HV_verdict w), [], e') \<and> (vr_passed w \<longleftrightarrow> \<not> bad) \<and> deployed recs bad e'"
proof -
  obtain cl rs s where b: "the_dep e = Inr (0, cl)" "service_burst 20 ''/api'' (dep_service (0, cl)) = (rs, s)"
    "length rs = 20" "deployed recs bad (put_service s (0, cl) e)" "fv_store s = recs"
    "\<not> bad \<longrightarrow> list_all good_answer rs" "bad \<longrightarrow> list_all (\<lambda>r. 228 \<le> fr_latency r) rs"
    by (rule burst_deployed [OF assms(1), of 20 "''/api''"])
  obtain smp where smp: "from_samples ''verify_latency_ms'' (map fr_latency rs) = Inr smp"
    using summary_exists [of rs] b(3) by (metis numeral_eq_Suc)
  have ne: "set (map fr_latency rs) \<noteq> {}" using b(3) by auto
  have p95: "Min (set (map fr_latency rs)) \<le> ss_p95 smp" "ss_p95 smp \<le> Max (set (map fr_latency rs))"
    using percentiles_ordered [OF smp] by auto
  have kept: "data_failures recs s = []"
    using assms(8) b(5) mem_dict_get [OF assms(8)]
    by (auto simp: data_failures_def lost_records_def service_get_def Let_def filter_empty_conv)
  let ?fs = "latency_failures nf slo smp @ rate_failures nf err ss @ data_failures recs s"
  have "?fs = [] \<longleftrightarrow> \<not> bad"
  proof (cases bad)
    case True
    have "228 \<le> Min (set (map fr_latency rs))" using b(7) True ne by (auto simp: list_all_iff)
    then show ?thesis using p95(1) assms(6) True by (simp add: latency_failures_def)
  next
    case False
    have "Max (set (map fr_latency rs)) \<le> 50" using b(6) False ne by (auto simp: list_all_iff good_answer_def)
    moreover have "error_count ss = 0"
      using assms(9) [OF False] by (auto simp: error_count_def list_all_iff filter_empty_conv)
    ultimately show ?thesis
      using p95(2) assms(5,7) kept False by (simp add: latency_failures_def rate_failures_def error_rate_def)
  qed
  then have "vr_passed (ws_verdict ?fs smp) \<longleftrightarrow> \<not> bad" unfolding ws_verdict_def by simp
  moreover have "ws_verify nf e = (Inr (HV_verdict (ws_verdict ?fs smp)), [], put_service s (0, cl) e)"
    using b(1,2) smp assms(2-4) by (simp add: ws_verify_def default_to_def)
  ultimately show ?thesis using b(4) by blast
qed

text \<open>A session of the web-service example judges the service's condition exactly, and removes its deployment.
  For any valid configuration whose latency objective lies between the healthy maximum (50 ms) and the degraded minimum
  (228 ms), if the concurrent tasks of the driven run complete, a session from enter to exit returns; its verdict passed
  exactly when the workload did not degrade the service, whatever the number of requests and the error budget;
  afterwards no exception is pending, the cluster has no deployment left and every deployment it had is marked deleted.\<close>

theorem web_session_exact:
  assumes "0 \<le> ws_error_slo c" "ws_error_slo c \<le> 1" "1 \<le> default_to 2 (wc_replicas c)" "dict_wf (ws_records c)"
    and "50 \<le> default_to 150 (wc_slo_p95_ms c)" "default_to 150 (wc_slo_p95_ms c) < 228"
    and "\<And>r e. drive_loop None None True (race r e) \<noteq> None"
  shows "\<exists>w e' cl. whole_session now (ws_plugin nf race c) inject fresh_ws = Some (Some w, None, e') \<and>
    (vr_passed w \<longleftrightarrow> \<not> wc_simulate_degradation c) \<and> ws_cluster e' = Some cl \<and> cluster_names cl = [] \<and> list_all fd_deleted (fc_objects cl)"
proof -
  let ?pl = "ws_plugin nf race c"
  obtain e2 cl where e2: "ws_provision c fresh_ws = (Inr HV_none, [], e2)" "deployed [] False e2" "ws_cluster e2 = Some cl"
    "fd_polls_remaining (fc_objects cl ! 0) = 2" "\<not> fd_deleted (fc_objects cl ! 0)"
    using ws_provision_deployed by blast
  obtain e3 where e3: "ws_await_ready e2 = (Inr HV_none, [], e3)" "deployed [] False e3"
    using ws_ready_deployed [OF e2(2-5)] by blast
  obtain e4 where e4: "ws_seed c e3 = (Inr HV_none, [], e4)" "deployed (ws_records c) False e4"
    "ws_seeded e4 = Some (ws_records c)"
    using ws_seed_deployed [OF e3(2) assms(4)] by blast
  let ?e5 = "e4\<lparr>ws_slo := Some (default_to 150 (wc_slo_p95_ms c), ws_error_slo c)\<rparr>"
  have "deployed (ws_records c) False ?e5" using e4(2) by (simp add: deployed_def)
  then obtain smp e6 where e6: "ws_capture_baseline ?e5 = (Inr (HV_samples [smp]), [], e6)" "deployed (ws_records c) False e6"
    "ws_seeded e6 = ws_seeded e4" "ws_slo e6 = ws_slo ?e5"
    using ws_capture_deployed [of "ws_records c" False ?e5] by auto
  let ?b6 = "e6\<lparr>ws_baseline := [smp]\<rparr>"
  have "deployed (ws_records c) False ?b6" using e6(2) by (simp add: deployed_def)
  then obtain ss e7 where e7: "ws_run_test c ?b6 = (Inr (), e7)" "deployed (ws_records c) (wc_simulate_degradation c) e7"
    "ws_seeded e7 = ws_seeded e6" "ws_slo e7 = ws_slo e6" "ws_run_statuses e7 = Some ss"
    "\<not> wc_simulate_degradation c \<longrightarrow> list_all (\<lambda>k. k = 200) ss"
    using ws_run_deployed [of "ws_records c" ?b6 c] by auto
  obtain w e8 where e8: "ws_verify nf e7 = (Inr (HV_verdict w), [], e8)" "vr_passed w \<longleftrightarrow> \<not> wc_simulate_degradation c"
    "deployed (ws_records c) (wc_simulate_degradation c) e8"
    using ws_verify_deployed [of "ws_records c" "wc_simulate_degradation c" e7 "default_to 150 (wc_slo_p95_ms c)"
        "ws_error_slo c" ss nf] e7 e6(3,4) e4(3) assms(1,4-6) by auto
  have h: "hook_runs ?pl H_validate fresh_ws [] fresh_ws" "hook_runs ?pl H_provision_env fresh_ws [] e2"
    "hook_runs ?pl H_await_ready e2 [] e3" "hook_runs ?pl H_seed e3 [] e4" "hook_runs ?pl H_setup_test e4 [] ?e5"
    using assms(1-3) e2(1) e3(1) e4(1)
    by (simp_all add: hook_runs_def ws_plugin_def ws_hook_def ok_hook_def ws_validate_def ws_setup_test_def)
  have cap: "pg_hook ?pl H_capture_baseline ?e5 = (Inr (HV_samples [smp]), [], e6)"
    and race: "pg_race ?pl (pg_set_baseline ?pl [smp] e6) = (race (Inr ()) e7, e7)"
    and ver: "pg_hook ?pl H_verify e7 = (Inr (HV_verdict w), [], e8)"
    using e6(1) e7(1) e8(1) by (simp_all add: ws_plugin_def ws_hook_def)
  have v: "whole_session now ?pl inject fresh_ws = Some (Some w, None,
      fold (after_callback ?pl) (CB_teardown_test # compensations_of Env_scope [] @ [CB_teardown_env]) e8)"
    by (rule session_runs [OF _ ws_calm h cap race assms(7) ver]) (simp add: ws_plugin_def)
  obtain cl' d where cl': "ws_cluster e8 = Some cl'" "fc_deployments cl' = [(deployment_name, 0)]" "fc_objects cl' = [d]"
    using e8(3) by (auto simp: deployed_def)
  then have "fold (after_callback ?pl) (CB_teardown_test # compensations_of Env_scope [] @ [CB_teardown_env]) e8 =
      e8\<lparr>ws_slo := None, ws_cluster := Some (cl'\<lparr>fc_deployments := [], fc_objects := [d\<lparr>fd_deleted := True\<rparr>]\<rparr>)\<rparr>"
    by (simp add: compensations_of_def after_callback_def ws_plugin_def ws_hook_def ok_hook_def ws_teardown_env_def
        cluster_delete_def dict_get_Cons dict_pop_def upd_object_def)
  then show ?thesis using v e8(2) by (simp add: cluster_names_def)
qed

section \<open>Concrete sessions\<close>

definition lossy_config :: kv_config where
  "lossy_config = \<lparr>kc_seed_keys = Some [''a'', ''b''], kc_inject_data_loss = True, kc_guard_min_keys = None\<rparr>"

definition plain_ws_config :: ws_config where
  "plain_ws_config =
     \<lparr>wc_image = None, wc_replicas = None, wc_seed_records = None, wc_slo_p95_ms = None, wc_slo_error_rate = None,
      wc_simulate_degradation = False, wc_guard_max_error_rate = None, wc_request_burst = None\<rparr>"

text \<open>The workload finishes, then the injection.\<close>

definition orderly_race :: "unit res \<Rightarrow> 'e \<Rightarrow> completion list list" where
  "orderly_race r e = [[C_run_test r], [C_inject (Inr small_timeline)]]"

lemma orderly_completes: "drive_loop None None True (orderly_race r e) \<noteq> None"
  by (cases r) (simp_all add: orderly_race_def)

lemma kv_session_exact_witness:
  "\<exists>w e'. whole_session (\<lambda>e. 0) (kv_plugin (\<lambda>x. []) orderly_race lossy_config) (\<lambda>e. (Inr small_timeline, e)) fresh_kv =
     Some (Some w, None, e') \<and> \<not> vr_passed w \<and> set (vr_failures w) = {lost_key_failure ''a''}"
proof -
  have g: "as_int (kv_guard_min lossy_config) = Some 0" by (simp add: kv_guard_min_def lossy_config_def default_to_def)
  have k: "hd (kv_keys lossy_config) = ''a''" "kc_inject_data_loss lossy_config"
    by (simp_all add: kv_keys_def lossy_config_def)
  show ?thesis
    using kv_session_exact [OF g order_refl, of orderly_race "\<lambda>e. 0" "\<lambda>x. []" "\<lambda>e. (Inr small_timeline, e)"]
      orderly_completes k by auto
qed

lemma web_session_exact_witness:
  "\<exists>w e'. whole_session (\<lambda>e. 0) (ws_plugin \<lparr>nf_repr = (\<lambda>x. []), nf_percent = (\<lambda>x. [])\<rparr> orderly_race plain_ws_config)
     (\<lambda>e. (Inr small_timeline, e)) fresh_ws = Some (Some w, None, e') \<and> vr_passed w"
proof -
  have c: "0 \<le> ws_error_slo plain_ws_config" "ws_error_slo plain_ws_config \<le> 1"
    "1 \<le> default_to 2 (wc_replicas plain_ws_config)" "dict_wf (ws_records plain_ws_config)"
    "50 \<le> default_to 150 (wc_slo_p95_ms plain_ws_config)" "default_to 150 (wc_slo_p95_ms plain_ws_config) < 228"
    "\<not> wc_simulate_degradation plain_ws_config"
    by (simp_all add: plain_ws_config_def ws_error_slo_def default_to_def ws_records_def sample_records_def dict_wf_def)
  show ?thesis
    using web_session_exact [OF c(1-6), of orderly_race "\<lambda>e. 0" "\<lparr>nf_repr = (\<lambda>x. []), nf_percent = (\<lambda>x. [])\<rparr>"
        "\<lambda>e. (Inr small_timeline, e)"] orderly_completes c(7) by auto
qed

end
