(* ===== verification/Agent_Cli.thy ===== *)
theory Agent_Cli
  imports Factory Cli_Control
begin

text \<open>
  The command lines of the single agents: \<open>agents/_cli.py\<close>, the typer commands of the tester, the security agent,
  the chaos agent, the fixer and the diagnostician's tools, and the commands that only announce a milestone. A
  command runs over the same environment as the agent factory; the JSON and YAML texts it prints, a fresh
  identifier and the outcome of the \<open>gh\<close> process are arguments. Text for the error stream is printed text too.
\<close>

section \<open>Milestones\<close>

definition notice :: "string \<Rightarrow> string \<Rightarrow> string \<Rightarrow> string option \<Rightarrow> cli_exit \<times> printed list" where
  "notice agent cmd milestone hint =
     (Exit_code 2,
      [Line (''[bold yellow]'' @ agent @ ''.'' @ cmd @ ''[/bold yellow] is not yet implemented.'' @ nl @
        ''Planned for milestone: [cyan]'' @ milestone @ ''[/cyan]'' @ nl @
        ''Plan:    [cyan]agents/'' @ agent @ ''/README.md[/cyan]'' @
        (case set_text hint of None \<Rightarrow> [] | Some t \<Rightarrow> nl @ nl @ t))])"

definition cli_security_verify :: "string \<Rightarrow> cli_exit \<times> printed list" where
  "cli_security_verify ns =
     notice ''security'' ''verify'' ''milestone-4.4'' (Some (''would diff against last baseline for ns='' @ repr_str ns))"

definition cli_security_drift :: "string \<Rightarrow> cli_exit \<times> printed list" where
  "cli_security_drift ns =
     notice ''security'' ''drift'' ''milestone-4.4'' (Some (''would SBOM-digest each image in ns='' @ repr_str ns))"

definition optional_str :: "string option \<Rightarrow> string" where
  "optional_str s = (case s of None \<Rightarrow> ''None'' | Some t \<Rightarrow> t)"

definition cli_security_hypothesize :: "string option \<Rightarrow> cli_exit \<times> printed list" where
  "cli_security_hypothesize target_repo =
     notice ''security'' ''hypothesize'' ''milestone-4.5''
       (Some (''would read SBOM + '' @ optional_str target_repo @ '' and emit SecurityHypothesis objects''))"

definition cli_tempo :: "string \<Rightarrow> string \<Rightarrow> cli_exit \<times> printed list" where
  "cli_tempo k query =
     notice ''diagnostician.tools'' ''tempo'' ''milestone-5.0+''
       (Some (''would query Tempo: '' @ repr_str query @ '' within window of '' @ k))"

definition cli_similarity :: "string \<Rightarrow> cli_exit \<times> printed list" where
  "cli_similarity k =
     notice ''diagnostician.similarity'' ''find'' ''milestone-5.3''
       (Some (''would search store for past records similar to '' @ k))"

definition cli_check_denylist :: "string \<Rightarrow> cli_exit \<times> printed list" where
  "cli_check_denylist p =
     notice ''fixer.tools'' ''check-denylist'' ''milestone-6.0''
       (Some (''would check '' @ repr_str p @ '' against the configured denylist''))"

definition cli_check_codeowners :: "string \<Rightarrow> cli_exit \<times> printed list" where
  "cli_check_codeowners p =
     notice ''fixer.tools'' ''check-codeowners'' ''milestone-6.0''
       (Some (''would parse CODEOWNERS for '' @ repr_str p))"

section \<open>The tester\<close>

record 'w agent_cli =
  ag_factory :: "'w factory_env"
  ag_hex12 :: string
  ag_tester_json :: "tester_report \<Rightarrow> string"
  ag_security_json :: "security_report \<Rightarrow> string"
  ag_lines_json :: "log_line list \<Rightarrow> string"
  ag_yaml :: "crd \<Rightarrow> string"

definition new_experiment_id :: "'w agent_cli \<Rightarrow> string" where
  "new_experiment_id ag = ''exp-'' @ ag_hex12 ag"

definition ad_hoc_config :: "string option \<Rightarrow> agent_config" where
  "ad_hoc_config prom_url = (config_from_env (\<lambda>k. None))\<lparr>ac_prom_url := prom_url\<rparr>"

definition ad_hoc_tester :: "'w agent_cli \<Rightarrow> string option \<Rightarrow> code_reader option \<Rightarrow> 'w live tester_agent" where
  "ad_hoc_tester ag prom_url code =
     wired_tester (ag_factory ag) Llm_profile (ad_hoc_config prom_url) no_overrides code"

definition ad_hoc_request ::
  "'w agent_cli \<Rightarrow> request_kind \<Rightarrow> string \<Rightarrow> string option \<Rightarrow> int \<Rightarrow> tester_request" where
  "ad_hoc_request ag kind target repo runs =
     \<lparr>tq_kind = kind, tq_experiment_id = new_experiment_id ag, tq_target_app = target, tq_target_repo = repo,
      tq_baseline_run_count = runs, tq_probes = [], tq_baseline_samples = []\<rparr>"

definition print_report :: "('r \<Rightarrow> string) \<Rightarrow> 'r res \<times> 's \<Rightarrow> 's command" where
  "print_report js r =
     (case r of (Inl x, s) \<Rightarrow> (Uncaught x, [], s) | (Inr v, s) \<Rightarrow> (Finished, [Json (js v)], s))"

definition run_request ::
  "'w agent_cli \<Rightarrow> (string \<Rightarrow> int \<Rightarrow> tester_request \<Rightarrow> 'w live \<Rightarrow> tester_report res \<times> 'w live) \<Rightarrow> tester_request \<Rightarrow>
    'w live \<Rightarrow> 'w live command" where
  "run_request ag call q h =
     (if \<not> tester_request_ok q then (Uncaught (validation_error ''TesterRequest''), [], h)
      else print_report (ag_tester_json ag)
        (call (fe_rid (ag_factory ag) (lw_world (hx_world h))) (fe_now (ag_factory ag) (lw_world (hx_world h))) q h))"

definition cli_tester_baseline ::
  "'w agent_cli \<Rightarrow> string \<Rightarrow> int \<Rightarrow> string option \<Rightarrow> 'w live \<Rightarrow> 'w live command" where
  "cli_tester_baseline ag target runs prom_url h =
     (case set_text prom_url of
        None \<Rightarrow> (Exit_code 2, [Line (''error: no Prometheus URL configured. Pass --prom-url or set $PROM_URL.'')], h)
      | Some url \<Rightarrow>
          run_request ag (\<lambda>rid now q h. forget_agent (tester_baseline (ad_hoc_tester ag prom_url None) rid now q h))
            (ad_hoc_request ag RK_baseline target None runs) h)"

definition cli_tester_verify ::
  "'w agent_cli \<Rightarrow> string \<Rightarrow> string option \<Rightarrow> 'w live \<Rightarrow> 'w live command" where
  "cli_tester_verify ag target prom_url h =
     (case set_text prom_url of
        None \<Rightarrow> (Exit_code 2, [Line (''error: no Prometheus URL configured (--prom-url / $PROM_URL).'')], h)
      | Some url \<Rightarrow>
          run_request ag (\<lambda>rid now q h. forget_agent (tester_verify (ad_hoc_tester ag prom_url None) rid now q h))
            (ad_hoc_request ag RK_verify target None 5) h)"

definition cli_tester_hypothesize ::
  "'w agent_cli \<Rightarrow> string \<Rightarrow> string \<Rightarrow> string option \<Rightarrow> 'w live \<Rightarrow> 'w live command" where
  "cli_tester_hypothesize ag target repo_path repo h =
     (let fe = ag_factory ag; dir = fe_path fe repo_path in
      if \<not> rp_is_dir (fe_repo fe) dir
      then (Exit_code 2, [Line (''error: target-repo-path is not a directory: '' @ path_str dir)], h)
      else case target_code_reader (fe_repo fe) dir None of
        Inl x \<Rightarrow> (Uncaught x, [], h)
      | Inr rd \<Rightarrow>
          run_request ag (\<lambda>rid now q. tester_hypothesize (ad_hoc_tester ag None (Some rd)) rid now q)
            (ad_hoc_request ag RK_hypothesize target repo 5) h)"

section \<open>The security agent\<close>

record scan_options =
  so_namespace :: string
  so_images :: "string list"
  so_target_repo :: "string option"
  so_syft :: bool
  so_grype :: bool
  so_gitleaks :: bool
  so_cosign :: bool
  so_cosign_key :: "string option"
  so_kubescape :: bool
  so_framework :: string

definition ad_hoc_scan_config :: "scan_options \<Rightarrow> scan_config" where
  "ad_hoc_scan_config o' =
     default_scan_config\<lparr>sc_trivy := True, sc_syft := so_syft o', sc_grype := so_grype o', sc_gitleaks := so_gitleaks o',
       sc_cosign := so_cosign o', sc_kubescape := so_kubescape o', sc_cosign_public_key := so_cosign_key o',
       sc_framework := so_framework o'\<rparr>"

definition ad_hoc_security :: "'w agent_cli \<Rightarrow> scan_options \<Rightarrow> 'w security_agent" where
  "ad_hoc_security ag o' =
     \<lparr>sg_env = fe_scan (ag_factory ag), sg_runner = run_subprocess (fe_process (ag_factory ag)),
      sg_config = ad_hoc_scan_config o', sg_skip = True, sg_baselines = []\<rparr>"

definition ad_hoc_security_request :: "'w agent_cli \<Rightarrow> scan_options \<Rightarrow> security_request" where
  "ad_hoc_security_request ag o' =
     \<lparr>sq_kind = SK_baseline, sq_experiment_id = new_experiment_id ag, sq_target_app = so_namespace o',
      sq_target_repo = so_target_repo o', sq_target_images = so_images o', sq_target_endpoints = [],
      sq_enable_active_dast = False\<rparr>"

definition cli_security_baseline :: "'w agent_cli \<Rightarrow> scan_options \<Rightarrow> 'w \<Rightarrow> 'w command" where
  "cli_security_baseline ag o' w =
     (if so_images o' = []
      then (case notice ''security'' ''baseline'' ''milestone-4.3''
              (Some (''would discover images from ns='' @ repr_str (so_namespace o') @
                ''; for now pass --image <ref> repeatedly'')) of (ex, out) \<Rightarrow> (ex, out, w))
      else if \<not> experiment_id_ok (new_experiment_id ag)
      then (Uncaught (validation_error ''SecurityRequest''), [], w)
      else print_report (ag_security_json ag)
        (forget_agent (security_baseline (ad_hoc_security ag o') (fe_rid (ag_factory ag) w) (fe_now (ag_factory ag) w)
          (ad_hoc_security_request ag o') w)))"

section \<open>The chaos agent\<close>

text \<open>\<open>xs[i]\<close> with Python's negative indices.\<close>

definition py_index :: "'a list \<Rightarrow> int \<Rightarrow> 'a res" where
  "py_index xs i =
     (let n = int (length xs); j = (if i < 0 then i + n else i)
      in if 0 \<le> j \<and> j < n then Inr (xs ! nat j) else Inl index_error)"

definition render_one :: "'w agent_cli \<Rightarrow> experiment_plan \<Rightarrow> fault_spec \<Rightarrow> cli_exit \<times> printed list" where
  "render_one ag p f =
     (case dict_get CATALOGUE (fs_name f) of
        None \<Rightarrow> (Exit_code 1, [Line (''unknown fault: '' @ fs_name f)])
      | Some d \<Rightarrow>
          (if \<not> has_renderer (fs_name f)
           then notice ''chaos'' (''render('' @ fs_name f @ '')'') ''milestone-3.x''
             (Some (''in catalogue as '' @ (case set_text (fd_chaos_mesh_kind d) of None \<Rightarrow> ''custom'' | Some k \<Rightarrow> k) @
               ''; renderer not yet implemented''))
           else case render (fe_repr_float (ag_factory ag)) f
               \<lparr>rx_namespace = sc_namespace (ep_safety p), rx_experiment_id = ep_experiment_id p\<rparr> of
             Inl x \<Rightarrow> (Uncaught x, [])
           | Inr body \<Rightarrow> (Finished, [Line (ag_yaml ag body)])))"

definition cli_render :: "'w agent_cli \<Rightarrow> experiment_plan res \<Rightarrow> int \<Rightarrow> cli_exit \<times> printed list" where
  "cli_render ag plan i =
     (case plan of
        Inl x \<Rightarrow> (Uncaught x, [])
      | Inr p \<Rightarrow>
          (if i \<ge> int (length (ep_faults p))
           then (Exit_code 2, [Line (''index '' @ int_str i @ '' out of range; plan has '' @
             nat_str (length (ep_faults p)) @ '' fault(s)'')])
           else case py_index (ep_faults p) i of Inl x \<Rightarrow> (Uncaught x, []) | Inr f \<Rightarrow> render_one ag p f))"

section \<open>The fixer\<close>

text \<open>\<open>proc\<close> is \<open>subprocess.run\<close> with its time-out in seconds.\<close>

definition cli_gh_status :: "bool \<Rightarrow> (string list \<Rightarrow> int \<Rightarrow> 'w \<Rightarrow> int res \<times> 'w) \<Rightarrow> 'w \<Rightarrow> 'w command" where
  "cli_gh_status on_path proc w =
     (if \<not> on_path then (Exit_code 1, [Line (''gh CLI not found on PATH'')], w)
      else case proc [''gh'', ''auth'', ''status''] 5 w of
        (Inr rc, w') \<Rightarrow> (Exit_code rc, [], w')
      | (Inl (Exn c m), w') \<Rightarrow>
          (if c = ''TimeoutExpired'' then (Exit_code 1, [Line (''gh auth status timed out after 5s'')], w')
           else (Uncaught (Exn c m), [], w'))
      | (Inl (BaseExn c), w') \<Rightarrow> (Uncaught (BaseExn c), [], w'))"

definition cli_pr_body :: "cli_env \<Rightarrow> string \<Rightarrow> database \<Rightarrow> cli_exit \<times> printed list" where
  "cli_pr_body ce k db =
     (case store_load (ce_validate ce) k db of
        Inl x \<Rightarrow> (Uncaught x, [])
      | Inr None \<Rightarrow> (Exit_code 1, [Line (''no experiment '' @ k @ '' in store'')])
      | Inr (Some r) \<Rightarrow>
          (case (er_diagnosis r, er_fix_proposal r) of
             (Some d, Some f) \<Rightarrow>
               (case render_pr_body d f of Inl x \<Rightarrow> (Uncaught x, []) | Inr t \<Rightarrow> (Finished, [Line t]))
           | none \<Rightarrow> (Exit_code 1, [Line (''experiment '' @ k @ '' has no diagnosis or fix_proposal yet'')])))"

section \<open>The diagnostician's log query\<close>

text \<open>A time stamp is in microseconds; \<open>datetime.timestamp()\<close> gives seconds.\<close>

definition stamp_seconds :: "int \<Rightarrow> real" where
  "stamp_seconds t = real_of_int t / 1000000"

definition log_window :: "timeline_event list \<Rightarrow> real \<times> real" where
  "log_window evs = (stamp_seconds (te_timestamp (hd evs)) - 30, stamp_seconds (te_timestamp (last evs)) + 60)"

fun is_loki_error :: "pyexn \<Rightarrow> bool" where
  "is_loki_error (Exn c m) = (c = ''LokiQueryError'')"
| "is_loki_error (BaseExn c) = False"

definition timeline_events :: "experiment_record option \<Rightarrow> timeline_event list" where
  "timeline_events r =
     (case r of None \<Rightarrow> [] | Some r \<Rightarrow> (case er_chaos_timeline r of None \<Rightarrow> [] | Some t \<Rightarrow> ct_events t))"

definition query_window ::
  "'w agent_cli \<Rightarrow> string \<Rightarrow> string \<Rightarrow> int \<Rightarrow> timeline_event list \<Rightarrow> 'w \<Rightarrow> 'w command" where
  "query_window ag url query limit evs w =
     (case log_window evs of
        (start, stop) \<Rightarrow>
          (case loki_http (ag_factory ag) url query start stop limit w of
             (Inr ls, w') \<Rightarrow> (Finished, [Json (ag_lines_json ag ls)], w')
           | (Inl x, w') \<Rightarrow>
               (if is_loki_error x then (Exit_code 1, [Line (''loki error: '' @ exn_str x)], w')
                else (Uncaught x, [], w'))))"

definition cli_loki ::
  "'w agent_cli \<Rightarrow> cli_env \<Rightarrow> string \<Rightarrow> string \<Rightarrow> string option \<Rightarrow> int \<Rightarrow> database \<Rightarrow> 'w \<Rightarrow> 'w command" where
  "cli_loki ag ce k query loki_url limit db w =
     (case set_text loki_url of
        None \<Rightarrow> (Exit_code 2, [Line (''error: --loki-url or $LOKI_URL required'')], w)
      | Some url \<Rightarrow>
          (case store_load (ce_validate ce) k db of
             Inl x \<Rightarrow> (Uncaught x, [], w)
           | Inr r \<Rightarrow>
               (if timeline_events r = []
                then (Exit_code 1, [Line (''experiment '' @ k @ '' not found or has no chaos timeline'')], w)
                else query_window ag url query limit (timeline_events r) w)))"

end
