(* ===== verification/Agent_Cli_Props.thy ===== *)
theory Agent_Cli_Props
  imports Agent_Cli Static_Run Hardware_Agent
begin

text \<open>
  What the agents' command lines promise: the body \<open>render\<close> prints is the body the chaos agent submits, the window
  of a log query covers the chaos, and the commands that are not wired up never report success.
\<close>

section \<open>What is printed is what is applied\<close>

definition submitted :: "crd \<Rightarrow> crd" where
  "submitted b = b\<lparr>cr_status := Some default_status\<rparr>"

lemma body_no_status [simp]: "cr_status (body_with k f x s) = None"
  by (simp add: body_with_def)

lemma rendered_no_status:
  assumes "render fr f x = Inr b"
  shows "cr_status b = None"
proof -
  obtain r where r: "(fs_name f, r) \<in> set RENDERERS" "r fr f x = Inr b"
    using assms map_of_SomeD [of RENDERERS "fs_name f"] by (auto simp: render_def dict_get_def split: if_splits option.splits)
  then show ?thesis
    by (auto simp: RENDERERS_def render_pod_kill_def render_pod_failure_def render_network_loss_def
        render_network_delay_def render_network_partition_def render_stress_cpu_def render_stress_memory_def
        stress_body_def Let_def res_bind_def split: sum.splits if_splits prod.splits)
qed

lemma fake_applied:
  "ci_apply fake_io b c = (Inr r, c') \<Longrightarrow> cr_status b = None \<Longrightarrow> fk_applied c' = fk_applied c @ [submitted b]"
  by (auto simp: fake_io_def fake_apply_def Let_def submitted_def split: sum.splits)

lemma fake_delete_applied: "ci_delete fake_io k c = (r, c') \<Longrightarrow> fk_applied c' = fk_applied c"
  by (auto simp: fake_io_def fake_delete_def)

declare fake_agent_fields [simp]

lemma run_fault_applied:
  assumes "run_fault (fake_agent sl fr) fake_io x f evs c = (Inr u, evs', c')"
  shows "\<exists>b. render fr f x = Inr b \<and> fk_applied c' = fk_applied c @ [submitted b]"
  by (rule run_fault_success [OF assms])
    (auto dest!: fake_applied fake_delete_applied rendered_no_status)

lemma run_faults_applied:
  "run_faults (fake_agent sl fr) fake_io x fs evs c = (Inr u, evs', c') \<Longrightarrow>
    \<exists>bs. list_all2 (\<lambda>f b. render fr f x = Inr b) fs bs \<and> fk_applied c' = fk_applied c @ map submitted bs"
proof (induction fs arbitrary: evs c)
  case Nil
  then show ?case by (intro exI [of _ "[]"]) simp
next
  case (Cons f fs)
  obtain r evs1 c1 where f: "run_fault (fake_agent sl fr) fake_io x f evs c = (r, evs1, c1)" by (metis prod_cases3)
  then obtain v where r: "r = Inr v" using Cons.prems by (cases r) auto
  then have rest: "run_faults (fake_agent sl fr) fake_io x fs evs1 c1 = (Inr u, evs', c')" using Cons.prems f by simp
  obtain b where "render fr f x = Inr b" "fk_applied c1 = fk_applied c @ [submitted b]"
    using run_fault_applied [OF f [unfolded r]] by blast
  moreover obtain bs where "list_all2 (\<lambda>f b. render fr f x = Inr b) fs bs"
      "fk_applied c' = fk_applied c1 @ map submitted bs"
    using Cons.IH [OF rest] by blast
  ultimately show ?case by (intro exI [of _ "b # bs"]) simp
qed

lemma render_one_body:
  assumes "render (fe_repr_float (ag_factory ag)) f (plan_context p) = Inr b"
  shows "render_one ag p f = (Finished, [Line (ag_yaml ag b)])"
proof -
  have "in_catalogue (fs_name f)" "dict_has RENDERERS (fs_name f)"
    using assms by (auto simp: render_def dict_has_iff split: if_splits option.splits)
  with assms show ?thesis
    by (auto simp: render_one_def plan_context_def has_renderer_def in_catalogue_def dict_has_iff split: option.splits)
qed

lemma py_index_nth: "i < length xs \<Longrightarrow> py_index xs (int i) = Inr (xs ! i)"
  by (simp add: py_index_def Let_def)

lemma py_index_last: "xs \<noteq> [] \<Longrightarrow> py_index xs (- 1) = Inr (last xs)"
  by (auto simp: py_index_def Let_def last_conv_nth nat_diff_distrib' of_nat_diff Suc_le_eq)

lemma cli_render_nth: "i < length (ep_faults p) \<Longrightarrow> cli_render ag (Inr p) (int i) = render_one ag p (ep_faults p ! i)"
  by (simp add: cli_render_def py_index_nth)

text \<open>C29: What \<open>chaos render\<close> prints is what the agent applies. When a run of the chaos agent on the in-memory cluster
  succeeds, it has submitted one body for each fault of the plan, in the plan's order, and those are exactly the
  bodies whose YAML text the render command prints for the fault indices 0, 1, and so on (the in-memory cluster
  adds a status to each).\<close>

theorem rendered_is_applied:
  assumes "chaos_execute (fake_agent sl (fe_repr_float (ag_factory ag))) p c = (Inr t, c')" "ct_success t"
  shows "\<exists>bs. fk_applied c' = fk_applied c @ map submitted bs \<and>
    map (\<lambda>i. cli_render ag (Inr p) (int i)) [0..<length (ep_faults p)] = map (\<lambda>b. (Finished, [Line (ag_yaml ag b)])) bs"
proof -
  let ?fr = "fe_repr_float (ag_factory ag)"
  have pf: "preflight_plan p = None"
    using assms by (auto simp: chaos_execute_def chaos_fail_def split: option.splits)
  obtain q evs c1 where fs: "fault_sequence (fake_agent sl ?fr) fake_io p c = (q, evs, c1)" by (metis prod_cases3)
  have "is_exception x \<Longrightarrow> report_failure (fake_agent sl ?fr) p x evs c1 = (Inr t, c') \<Longrightarrow> \<not> ct_success t" for x
    by (auto simp: report_failure_def Let_def split: prod.splits sum.splits if_splits)
  then obtain v where q: "q = Inr v" "c1 = c'"
    using assms pf fs by (cases q) (auto simp: chaos_execute_def split: if_splits)
  obtain evs0 where rf: "run_faults (fake_agent sl ?fr) fake_io (plan_context p) (ep_faults p) [] c = (Inr (), evs0, c')"
    using fs q by (auto simp: fault_sequence_def quiet_window_def plan_context_def Let_def
        split: prod.splits sum.splits if_splits)
  obtain bs where bs: "list_all2 (\<lambda>f b. render ?fr f (plan_context p) = Inr b) (ep_faults p) bs"
      "fk_applied c' = fk_applied c @ map submitted bs"
    using run_faults_applied [OF rf] by blast
  have len: "length bs = length (ep_faults p)" using list_all2_lengthD [OF bs(1)] by simp
  have "cli_render ag (Inr p) (int i) = (Finished, [Line (ag_yaml ag (bs ! i))])" if "i < length (ep_faults p)" for i
    using render_one_body [OF list_all2_nthD [OF bs(1) that]] that by (simp add: cli_render_nth)
  then have "map (\<lambda>i. cli_render ag (Inr p) (int i)) [0..<length (ep_faults p)] =
      map (\<lambda>b. (Finished, [Line (ag_yaml ag b)])) bs"
    by (intro nth_equalityI) (simp_all add: len)
  with bs(2) show ?thesis by blast
qed

definition shell_cli :: "unit agent_cli" where
  "shell_cli =
     \<lparr>ag_factory = offline_world, ag_hex12 = ''0123456789ab'', ag_tester_json = (\<lambda>r. []), ag_security_json = (\<lambda>r. []),
      ag_lines_json = (\<lambda>ls. []), ag_yaml = cr_name\<rparr>"

theorem rendered_is_applied_witness:
  "\<exists>t c' bs. chaos_execute (fake_agent (\<lambda>n. Inr ()) (fe_repr_float (ag_factory shell_cli))) kill_plan empty_cluster =
       (Inr t, c') \<and> fk_applied c' = map submitted bs \<and>
     [cli_render shell_cli (Inr kill_plan) 0] = map (\<lambda>b. (Finished, [Line (cr_name b)])) bs"
proof -
  obtain t c' where r: "chaos_execute (fake_agent (\<lambda>n. Inr ()) (fe_repr_float (ag_factory shell_cli))) kill_plan
      empty_cluster = (Inr t, c')" "ct_success t"
    using kill_succeeds by blast
  have "[0..<length (ep_faults kill_plan)] = [0]" "fk_applied empty_cluster = []" "ag_yaml shell_cli = cr_name"
    by (simp_all add: kill_faults empty_cluster_def shell_cli_def)
  with rendered_is_applied [OF r] r(1) show ?thesis by simp
qed

section \<open>Edge cases of the commands\<close>

text \<open>A negative index is not refused: \<open>--index -1\<close> renders the last fault, and one below minus the number of faults ends
  in an \<open>IndexError\<close>.\<close>

lemma render_negative_index:
  assumes "ep_faults p \<noteq> []"
  shows "cli_render ag (Inr p) (- 1) = render_one ag p (last (ep_faults p))"
    and "cli_render ag (Inr p) (- 1 - int (length (ep_faults p))) = (Uncaught index_error, [])"
  using assms by (simp_all add: cli_render_def py_index_last) (simp add: py_index_def Let_def)

text \<open>A hardware fault is announced as having no renderer yet, although the hardware registry renders it.\<close>

lemma hardware_render_refused:
  assumes "has_hardware_renderer (fs_name f)" "in_catalogue (fs_name f)"
  shows "fst (render_one ag p f) = Exit_code 2"
proof -
  have "\<not> has_renderer (fs_name f)"
    using assms(1) by (auto simp: has_hardware_renderer_iff hardware_names_eval has_renderer_def RENDERERS_def
        dict_has_iff dict_get_Cons)
  with assms(2) show ?thesis
    by (auto simp: render_one_def notice_def in_catalogue_def dict_has_iff split: option.splits)
qed

text \<open>The window of a log query starts 30 seconds before and ends 60 seconds after everything the agent recorded,
  when the agent's clock did not go back.\<close>

lemma log_window_covers:
  assumes "evs \<noteq> []" "sorted (map te_timestamp evs)" "ev \<in> set evs" "log_window evs = (start, stop)"
  shows "start + 30 \<le> stamp_seconds (te_timestamp ev) \<and> stamp_seconds (te_timestamp ev) + 60 \<le> stop"
proof -
  obtain i where i: "i < length evs" "ev = evs ! i" using assms(3) by (auto simp: in_set_conv_nth)
  have "te_timestamp (evs ! 0) \<le> te_timestamp (evs ! i)"
      "te_timestamp (evs ! i) \<le> te_timestamp (evs ! (length evs - 1))"
    using sorted_nth_mono [OF assms(2), of 0 i] sorted_nth_mono [OF assms(2), of i "length evs - 1"] i assms(1)
      nth_map [of 0 evs te_timestamp] by simp_all
  then have "te_timestamp (hd evs) \<le> te_timestamp ev" "te_timestamp ev \<le> te_timestamp (last evs)"
    using i assms(1) by (simp_all add: hd_conv_nth last_conv_nth)
  with assms(4) show ?thesis by (auto simp: log_window_def stamp_seconds_def)
qed

end
