(* ===== verification/Smoke_Scripts.thy ===== *)
theory Smoke_Scripts
  imports Catalogue_Verify Chaos_Agent
begin

text \<open>
  The operator's smoke tests under \<open>scripts/\<close> that check the agents from outside: the five safety gates against the
  simulator (\<open>verify_safety_gates_e2e.py\<close>), the renderers against a cluster's schemas (\<open>validate_renderers.py\<close>) and
  the round trip through a cluster backend (\<open>smoke_kubernetes_cluster_io.py\<close>). A script ends with its exit status and
  the lines it printed; the \<open>kubectl\<close> process and the JSON text of a body are arguments.
\<close>

section \<open>The safety gates\<close>

definition wifi_fault :: "int \<Rightarrow> fault_spec" where
  "wifi_fault channel =
     \<lparr>fs_category = FC_RF, fs_name = ''wifi.deauth'', fs_target_selector = [(''device'', ''dut-1'')],
      fs_parameters = [(''channel'', PInt channel), (''intensity'', PStr ''low'')], fs_duration_seconds = 5,
      fs_requires_approval = False, fs_rationale = ''safety-gate verification'', fs_hypothesis_id = None\<rparr>"

definition gate_plan :: "verify_env \<Rightarrow> fault_spec \<Rightarrow> experiment_plan" where
  "gate_plan ve f =
     \<lparr>ep_experiment_id = ve_experiment_id ve, ep_title = ''safety-gate verification'', ep_target_app = ''neoowl'',
      ep_target_repo = None, ep_faults = [f],
      ep_safety = \<lparr>sc_cluster_context = ''bench-hardware'', sc_namespace = ''bench'', sc_max_pods_affected = 1,
        sc_max_duration_seconds = 300, sc_allow_multi_fault = False, sc_require_namespace_annotation = False,
        sc_forbidden_cluster_substrings = default_forbidden\<rparr>,
      ep_budget = \<lparr>tb_soft_cap_usd = 2, tb_hard_cap_usd = 10, tb_wall_clock_seconds = 1800\<rparr>,
      ep_quiet_window_pre_seconds = 60, ep_quiet_window_post_seconds = 60, ep_created_at = ve_now ve,
      ep_suppress = [], ep_plugin = None, ep_plugin_config = []\<rparr>"

record gate_scenario =
  gs_name :: string
  gs_sim :: simulator
  gs_config :: hw_safety_config
  gs_channel :: int
  gs_expect :: string

definition optional_repr :: "string option \<Rightarrow> string" where
  "optional_repr e = (case e of None \<Rightarrow> ''None'' | Some m \<Rightarrow> repr_str m)"

definition judge_scenario :: "gate_scenario \<Rightarrow> chaos_timeline \<Rightarrow> bool \<times> string" where
  "judge_scenario g t =
     (let err = lower (case ct_error t of None \<Rightarrow> [] | Some m \<Rightarrow> m) in
      if ct_success t then (False, gs_name g @ '': expected failure but timeline succeeded'')
      else if \<not> str_in (lower (gs_expect g)) err
      then (False, gs_name g @ '': error did not mention '' @ repr_str (gs_expect g) @ ''; got '' @ optional_repr (ct_error t))
      else (True, gs_name g @ '': aborted with '' @ optional_repr (ct_error t)))"

definition check_scenario :: "verify_env \<Rightarrow> gate_scenario \<Rightarrow> (bool \<times> string) res" where
  "check_scenario ve g =
     (let p = gate_plan ve (wifi_fault (gs_channel g)) in
      if \<not> experiment_plan_ok p then Inl (validation_error ''ExperimentPlan'')
      else case hw_execute (sim_agent (\<lambda>s. Inr ()) (gs_config g) (ve_repr_float ve) (ve_to_float ve)) p (gs_sim g) of
        (Inl x, s) \<Rightarrow> Inl x
      | (Inr t, s) \<Rightarrow> Inr (judge_scenario g t))"

definition production_device :: device_info where
  "production_device =
     \<lparr>di_serial = ''prod-DUT-001'', di_firmware_version = ''2.0.0'', di_hardware_revision = ''rev-C'',
      di_mode = ''PRODUCTION''\<rparr>"

definition gate_scenarios :: "gate_scenario list" where
  "gate_scenarios =
     [\<lparr>gs_name = ''bench-mode'', gs_sim = new_simulator\<lparr>sm_device := production_device\<rparr>,
       gs_config = default_hw_config, gs_channel = 6, gs_expect = ''bench''\<rparr>,
      \<lparr>gs_name = ''geofence'', gs_sim = new_simulator\<lparr>sm_geofence_tag := ''kitchen-table''\<rparr>,
       gs_config = default_hw_config\<lparr>hg_expected_geofence_tag := Some ''lab-bench-12''\<rparr>, gs_channel = 6,
       gs_expect = ''geofence''\<rparr>,
      \<lparr>gs_name = ''thermal'', gs_sim = new_simulator\<lparr>sm_metric_overrides := [(''die_temperature_c'', 85)]\<rparr>,
       gs_config = default_hw_config, gs_channel = 6, gs_expect = ''die''\<rparr>,
      \<lparr>gs_name = ''battery'', gs_sim = new_simulator\<lparr>sm_metric_overrides := [(''battery_soc'', 10 / 100)]\<rparr>,
       gs_config = default_hw_config, gs_channel = 6, gs_expect = ''battery''\<rparr>,
      \<lparr>gs_name = ''emission-band'', gs_sim = new_simulator,
       gs_config = default_hw_config\<lparr>hg_licensed_bands := [(1, 14)]\<rparr>, gs_channel = 36, gs_expect = ''channel 36''\<rparr>]"

definition gate_summary :: "(bool \<times> string) list \<Rightarrow> cli_exit \<times> printed list" where
  "gate_summary vs =
     (let rows = map (\<lambda>(ok, m). Line ((if ok then ''OK  '' else ''FAIL'') @ ''  '' @ m)) vs;
          failed = filter (\<lambda>(ok, m). \<not> ok) vs
      in if failed \<noteq> []
         then (Exit_code 1, rows @ [Line (newline # nat_str (length failed) @ '' of '' @ nat_str (length vs) @
           '' gates FAILED to abort correctly'')])
         else (Exit_code 0, rows @ [Line (newline # ''All '' @ nat_str (length vs) @ '' safety gates aborted as expected'')]))"

definition verify_safety_gates :: "(nat \<Rightarrow> verify_env) \<Rightarrow> cli_exit \<times> printed list" where
  "verify_safety_gates ves =
     (case res_map (\<lambda>(i, g). check_scenario (ves i) g) (enumerate 0 gate_scenarios) of
        Inl x \<Rightarrow> (Uncaught x, [])
      | Inr vs \<Rightarrow> gate_summary vs)"

section \<open>The renderers against the schemas\<close>

record render_fixture =
  rf_selector :: "(string, string) dict"
  rf_duration :: int
  rf_parameters :: "(string, pyval) dict"

definition nobody :: "(string, string) dict" where
  "nobody = [(''app'', ''doesnotexist'')]"

definition render_fixtures :: "(string, render_fixture) dict" where
  "render_fixtures =
     [(''pod.kill'', \<lparr>rf_selector = nobody, rf_duration = 1, rf_parameters = []\<rparr>),
      (''pod.failure'', \<lparr>rf_selector = nobody, rf_duration = 30, rf_parameters = []\<rparr>),
      (''network.loss'', \<lparr>rf_selector = nobody, rf_duration = 30, rf_parameters = [(''loss_percent'', PInt 50)]\<rparr>),
      (''network.delay'', \<lparr>rf_selector = nobody, rf_duration = 30,
         rf_parameters = [(''latency_ms'', PInt 100), (''jitter_ms'', PInt 10)]\<rparr>),
      (''network.partition'', \<lparr>rf_selector = nobody, rf_duration = 30,
         rf_parameters = [(''target_selector_other'', PDict [(''app'', PStr ''alsodoesnotexist'')])]\<rparr>),
      (''stress.cpu'', \<lparr>rf_selector = nobody, rf_duration = 30,
         rf_parameters = [(''workers'', PInt 1), (''load_percent'', PInt 50)]\<rparr>),
      (''stress.memory'', \<lparr>rf_selector = nobody, rf_duration = 30,
         rf_parameters = [(''workers'', PInt 1), (''size'', PStr ''64MB'')]\<rparr>)]"

definition category_by_fault :: "(string, fault_category) dict" where
  "category_by_fault =
     [(''pod.kill'', FC_POD), (''pod.failure'', FC_POD), (''network.loss'', FC_NETWORK), (''network.delay'', FC_NETWORK),
      (''network.partition'', FC_NETWORK), (''stress.cpu'', FC_STRESS), (''stress.memory'', FC_STRESS)]"

definition make_fault :: "string \<Rightarrow> fault_spec res" where
  "make_fault name =
     (case (dict_get render_fixtures name, dict_get category_by_fault name) of
        (Some x, Some c) \<Rightarrow>
          (let f = \<lparr>fs_category = c, fs_name = name, fs_target_selector = rf_selector x, fs_parameters = rf_parameters x,
                 fs_duration_seconds = rf_duration x, fs_requires_approval = False,
                 fs_rationale = ''renderer-validation'', fs_hypothesis_id = None\<rparr>
           in if fault_spec_ok f then Inr f else Inl (validation_error ''FaultSpec''))
      | absent \<Rightarrow> Inl (Exn ''KeyError'' (repr_str name)))"

text \<open>A process gets its arguments and its standard input and gives its exit status and what it wrote.\<close>

type_synonym 'w kubectl_process = "string list \<Rightarrow> string \<Rightarrow> 'w \<Rightarrow> (int \<times> string \<times> string) res \<times> 'w"

record 'w renderer_env =
  sv_process :: "'w kubectl_process"
  sv_json :: "crd \<Rightarrow> string"
  sv_repr_float :: "real \<Rightarrow> string"

definition dry_run_args :: "string list \<Rightarrow> string \<Rightarrow> string option \<Rightarrow> string list" where
  "dry_run_args cmd ns context =
     cmd @ [''apply'', ''--dry-run=server'', ''-f'', ''-'', ''-n'', ns] @
     (case context of None \<Rightarrow> [] | Some c \<Rightarrow> if c = [] then [] else [''--context'', c])"

definition kubectl_dry_run ::
  "'w renderer_env \<Rightarrow> crd \<Rightarrow> string \<Rightarrow> string option \<Rightarrow> string list \<Rightarrow> 'w \<Rightarrow> (bool \<times> string) res \<times> 'w" where
  "kubectl_dry_run se body ns context cmd w =
     (case sv_process se (dry_run_args cmd ns context) (sv_json se body) w of
        (Inl x, w') \<Rightarrow> (Inl x, w')
      | (Inr (rc, out, err), w') \<Rightarrow> (Inr (rc = 0, strip (out @ err)), w'))"

definition pad_right :: "nat \<Rightarrow> string \<Rightarrow> string" where
  "pad_right n s = s @ replicate (n - length s) (CHR '' '')"

definition status_line :: "string \<Rightarrow> bool \<times> string \<Rightarrow> printed" where
  "status_line name v =
     Line (''  ['' @ (if fst v then ''OK'' else ''FAIL'') @ ''] '' @ pad_right 24 name @ ''  '' @
       (if snd v = [] then [] else hd (splitlines (snd v))))"

definition validation_context :: "string \<Rightarrow> render_context" where
  "validation_context ns = \<lparr>rx_namespace = ns, rx_experiment_id = ''exp-validate0001''\<rparr>"

fun validate_each ::
  "'w renderer_env \<Rightarrow> string \<Rightarrow> string option \<Rightarrow> string list \<Rightarrow> string list \<Rightarrow> (string \<times> bool \<times> string) list \<Rightarrow> 'w \<Rightarrow>
    (string \<times> bool \<times> string) list res \<times> 'w" where
  "validate_each se ns context cmd [] done_so_far w = (Inr done_so_far, w)"
| "validate_each se ns context cmd (n # names) done_so_far w =
     (case res_bind (make_fault n) (\<lambda>f. render (sv_repr_float se) f (validation_context ns)) of
        Inl x \<Rightarrow> (Inl x, w)
      | Inr body \<Rightarrow>
          (case kubectl_dry_run se body ns context cmd w of
             (Inl x, w') \<Rightarrow> (Inl x, w')
           | (Inr v, w') \<Rightarrow> validate_each se ns context cmd names (done_so_far @ [(n, v)]) w'))"

definition validation_report :: "(string \<times> bool \<times> string) list \<Rightarrow> cli_exit \<times> printed list" where
  "validation_report vs =
     (let rows = map (\<lambda>(n, v). status_line n v) vs;
          failures = filter (\<lambda>(n, ok, m). \<not> ok) vs
      in if failures \<noteq> []
         then (Exit_code 1, rows @ [Line (newline # nat_str (length failures) @ '' renderer(s) failed:'')] @
           map (\<lambda>(n, ok, m). Line (newline # ''--- '' @ n @ '' ---'' @ [newline] @ m)) failures)
         else (Exit_code 0, rows @ [Line (newline # ''All '' @ nat_str (length RENDERERS) @
           '' renderers validated against live Chaos Mesh.'')]))"

text \<open>\<open>cmd\<close> is the split \<open>--kubectl\<close> option. A run that raises has printed what it had; that text is left out.\<close>

definition validate_renderers ::
  "'w renderer_env \<Rightarrow> string \<Rightarrow> string option \<Rightarrow> string list \<Rightarrow> 'w \<Rightarrow> 'w command" where
  "validate_renderers se ns context cmd w =
     (case validate_each se ns context cmd (sort (map fst RENDERERS)) [] w of
        (Inl x, w') \<Rightarrow> (Uncaught x, [], w')
      | (Inr vs, w') \<Rightarrow> (case validation_report vs of (ex, out) \<Rightarrow> (ex, out, w')))"

section \<open>The round trip through a cluster\<close>

definition smoke_body :: "string \<Rightarrow> string \<Rightarrow> string \<Rightarrow> crd" where
  "smoke_body name ns experiment_id =
     \<lparr>cr_api_version = chaos_mesh_api, cr_kind = ''PodChaos'', cr_name = name, cr_namespace = ns,
      cr_labels = [(''chaos.kosta.dev/experiment-id'', experiment_id)], cr_annotations = [], cr_resource_version = None,
      cr_spec = [(''action'', PStr ''pod-kill''), (''mode'', PStr ''one''),
        (''selector'', PDict [(''namespaces'', PList [PStr ns]), (''labelSelectors'', PDict [(''app'', PStr ''doesnotexist'')])]),
        (''gracePeriod'', PInt 0)],
      cr_status = None\<rparr>"

definition smoke_name :: "string \<Rightarrow> string" where
  "smoke_name experiment_id = ''smoke-'' @ last_chars 8 experiment_id"

text \<open>A step gives a value or ends the script; \<open>assert\<close> ends it with an \<open>AssertionError\<close>.\<close>

definition then_step :: "'a res \<times> 'e \<Rightarrow> ('a \<Rightarrow> 'e \<Rightarrow> 'b res \<times> 'e) \<Rightarrow> 'b res \<times> 'e" where
  "then_step r k = (case r of (Inl x, e) \<Rightarrow> (Inl x, e) | (Inr v, e) \<Rightarrow> k v e)"

definition assertion :: "bool \<Rightarrow> string \<Rightarrow> unit res" where
  "assertion b m = (if b then Inr () else Inl (Exn ''AssertionError'' m))"

definition smoke_round_trip ::
  "'e cluster_io \<Rightarrow> string \<Rightarrow> string \<Rightarrow> 'e \<Rightarrow> int res \<times> 'e" where
  "smoke_round_trip io ns experiment_id e =
     (let name = smoke_name experiment_id; body = smoke_body name ns experiment_id;
          k = Crd_key chaos_mesh_api ''PodChaos'' ns name in
      then_step (ci_apply io body e) (\<lambda>applied e.
      then_step (ci_get io k e) (\<lambda>got e.
      then_step (assertion (got \<noteq> None) ''get returned None for resource we just created'', e) (\<lambda>u e.
      then_step (ci_list io chaos_mesh_api ''PodChaos'' ns [(''chaos.kosta.dev/experiment-id'', experiment_id)] e) (\<lambda>listed e.
      then_step (assertion (1 \<le> length listed) ''list_by_labels missed our resource'', e) (\<lambda>u e.
      then_step (ci_apply io body e) (\<lambda>re_applied e.
      then_step (ci_delete io k e) (\<lambda>deleted e.
      then_step (assertion deleted [], e) (\<lambda>u e.
      then_step (ci_get io k e) (\<lambda>after e.
      then_step (assertion (after = None) [], e) (\<lambda>u e.
      then_step (ci_delete io k e) (\<lambda>redeleted e.
      then_step (assertion (\<not> redeleted) [], e) (\<lambda>u e. (Inr 0, e))))))))))))))"

end
