(* ===== verification/Smoke_Props.thy ===== *)
theory Smoke_Props
  imports Smoke_Scripts
begin

text \<open>
  The smoke tests pass: the five gates abort as the script expects, every renderer's body reaches the dry run, and a
  cluster backend that keeps the contract passes the round trip.
\<close>

section \<open>The safety gates\<close>

lemma lower_append [simp]: "lower (a @ b) = lower a @ lower b"
  by (simp add: lower_def)

lemma str_in_append_left: "str_in p a \<Longrightarrow> str_in p (a @ b)"
  by (auto simp: str_in_iff) (metis append.assoc)

lemma str_in_append_right: "str_in p b \<Longrightarrow> str_in p (a @ b)"
  by (auto simp: str_in_iff) (metis append.assoc)

definition refusal :: "abort_reason \<Rightarrow> string \<Rightarrow> string" where
  "refusal r m = ''hardware safety gate: '' @ abort_reason_value r @ '' '' @ [CHR 0xE2, CHR 0x80, CHR 0x94] @ '' '' @ m"

lemma gate_plan_fields [simp]:
  "ep_faults (gate_plan ve f) = [f]" "ep_experiment_id (gate_plan ve f) = ve_experiment_id ve"
  "fs_name (wifi_fault c) = ''wifi.deauth''" "fs_category (wifi_fault c) = FC_RF"
  "int_param (fs_parameters (wifi_fault c)) ''channel'' 0 = Inr c"
  by (simp_all add: gate_plan_def wifi_fault_def int_param_def param_def dict_get_Cons)

lemma gate_plan_ok: "experiment_id_ok (ve_experiment_id ve) \<Longrightarrow> experiment_plan_ok (gate_plan ve (wifi_fault c))"
  by (simp add: experiment_plan_ok_def gate_plan_def fault_spec_ok_def wifi_fault_def safety_constraints_ok_def)

lemma gate_preflight: "hw_preflight (gate_plan ve (wifi_fault c)) = None"
proof -
  have "has_hardware_renderer ''wifi.deauth''" "in_catalogue ''wifi.deauth''"
    by (simp_all add: has_hardware_renderer_iff hardware_names_eval in_catalogue_eval)
  then show ?thesis by (simp add: hw_preflight_def)
qed

lemma scenario_refused:
  assumes "experiment_id_ok (ve_experiment_id ve)"
    and "run_all_gates (gate_plan ve (wifi_fault (gs_channel g))) simulated_io (gs_config g) (gs_sim g) =
        (Inr (gate_fail r (a @ m @ b)), s)"
    and "str_in (lower (gs_expect g)) (lower m)"
  shows "\<exists>t. check_scenario ve g = Inr (True, t)"
proof -
  have "str_in (lower (gs_expect g)) (lower (refusal r (a @ m @ b)))"
    unfolding refusal_def lower_append by (intro str_in_append_right str_in_append_left) (rule assms(3))
  with assms(1,2) show ?thesis
    by (simp add: check_scenario_def Let_def gate_plan_ok hw_execute_def gate_preflight judge_scenario_def hw_fail_def
        refusal_def gate_fail_def)
qed

lemma licensed_channel:
  "hg_licensed_bands cfg = [(1, 14)] \<Longrightarrow> check_emission_compliance (gate_plan ve (wifi_fault 6)) cfg = Inr None"
  by (simp add: check_emission_compliance_def emission_verdict_def channel_in_bands_def)

lemma plain_config [simp]:
  "hg_licensed_bands default_hw_config = [(1, 14)]" "hg_expected_serial default_hw_config = None"
  "hg_expected_geofence_tag default_hw_config = None"
  by (simp_all add: default_hw_config_def)

lemma plain_simulator [simp]:
  "sm_device new_simulator = \<lparr>di_serial = ''sim-DUT-001'', di_firmware_version = ''0.1.0-sim'',
     di_hardware_revision = ''rev-A'', di_mode = ''BENCH''\<rparr>"
  "sm_metric_overrides new_simulator = []" "sm_geofence_tag new_simulator = ''lab-bench-default''"
  by (simp_all add: new_simulator_def)

lemmas gate_defs = run_all_gates_def licensed_channel check_bench_mode_def check_geofence_def check_thermal_headroom_def
  check_battery_headroom_def read_gate_def sim_device_info_def sim_read_telemetry_def
  metric_value_def dict_get_Cons bench_verdict_def geofence_verdict_def reported_tag_def thermal_verdict_def
  battery_verdict_def thermal_max_c_def battery_min_soc_def gate_fail_def

definition scenario_gates :: "verify_env \<Rightarrow> gate_scenario \<Rightarrow> gate_failure option res \<times> simulator" where
  "scenario_gates ve g =
     run_all_gates (gate_plan ve (wifi_fault (gs_channel g))) simulated_io (gs_config g) (gs_sim g)"

lemma bench_scenario: "scenario_gates ve (gate_scenarios ! 0) = (Inr (gate_fail CLUSTER_DENIED
    ((''DUT '' @ repr_str ''prod-DUT-001'' @ '' reports mode='' @ repr_str ''PRODUCTION'') @
      ''; chaos requires BENCH mode'' @ [])), gs_sim (gate_scenarios ! 0))"
  by (simp add: scenario_gates_def gate_scenarios_def gate_defs production_device_def)

lemma geofence_scenario: "scenario_gates ve (gate_scenarios ! 1) = (Inr (gate_fail CLUSTER_DENIED
    ([] @ ''DUT geofence_tag '' @ (repr_str ''kitchen-table'' @ '' does not match expected '' @
      repr_str ''lab-bench-12'' @ ''; device left the lab?''))), gs_sim (gate_scenarios ! 1))"
  by (simp add: scenario_gates_def gate_scenarios_def gate_defs)

lemma thermal_scenario: "scenario_gates ve (gate_scenarios ! 2) = (Inr (gate_fail BLAST_RADIUS_VIOLATION
    ([] @ ''DUT die temp is '' @ (fmt1 85 @ [CHR 0xC2, CHR 0xB0] @ ''C (max 70.0'' @
         [CHR 0xC2, CHR 0xB0] @ ''C); let it cool before running chaos''))), gs_sim (gate_scenarios ! 2))"
  by (simp add: scenario_gates_def gate_scenarios_def gate_defs)

lemma battery_scenario: "scenario_gates ve (gate_scenarios ! 3) = (Inr (gate_fail BLAST_RADIUS_VIOLATION
    ([] @ ''DUT battery SoC is '' @ (fmt2 (10 / 100) @ '' (min 0.3); '' @
         ''charge the DUT before running chaos''))), gs_sim (gate_scenarios ! 3))"
  by (simp add: scenario_gates_def gate_scenarios_def gate_defs)

lemma channel_text: "int_str 36 = ''36''"
  by code_simp

lemma emission_scenario: "scenario_gates ve (gate_scenarios ! 4) = (Inr (gate_fail CLUSTER_DENIED
    ((''fault '' @ repr_str ''wifi.deauth'' @ '' on '') @ ''channel 36'' @ ('' is outside the licensed bands '' @
       bands_repr [(1, 14)] @ ''; refuse to emit''))), gs_sim (gate_scenarios ! 4))"
  by (simp add: scenario_gates_def gate_scenarios_def run_all_gates_def check_emission_compliance_def
      emission_verdict_def channel_in_bands_def gate_fail_def channel_text)

lemma scenario_passes:
  assumes "experiment_id_ok (ve_experiment_id ve)" "i < length gate_scenarios"
  shows "\<exists>t. check_scenario ve (gate_scenarios ! i) = Inr (True, t)"
proof -
  note sc = scenario_refused [OF assms(1), folded scenario_gates_def]
  have ex: "gs_expect (gate_scenarios ! 0) = ''bench''" "gs_expect (gate_scenarios ! 1) = ''geofence''"
      "gs_expect (gate_scenarios ! 2) = ''die''" "gs_expect (gate_scenarios ! 3) = ''battery''"
      "gs_expect (gate_scenarios ! 4) = ''channel 36''"
    by (simp_all add: gate_scenarios_def)
  have found: "str_in (lower (gs_expect (gate_scenarios ! 0))) (lower ''; chaos requires BENCH mode'')"
      "str_in (lower (gs_expect (gate_scenarios ! 1))) (lower ''DUT geofence_tag '')"
      "str_in (lower (gs_expect (gate_scenarios ! 2))) (lower ''DUT die temp is '')"
      "str_in (lower (gs_expect (gate_scenarios ! 3))) (lower ''DUT battery SoC is '')"
      "str_in (lower (gs_expect (gate_scenarios ! 4))) (lower ''channel 36'')"
    unfolding ex by code_simp+
  have "i = 0 \<or> i = 1 \<or> i = 2 \<or> i = 3 \<or> i = 4" using assms(2) by (auto simp: gate_scenarios_def)
  then show ?thesis
    using sc [OF bench_scenario found(1)] sc [OF geofence_scenario found(2)] sc [OF thermal_scenario found(3)]
      sc [OF battery_scenario found(4)] sc [OF emission_scenario found(5)]
    by (elim disjE) simp_all
qed

lemma res_map_list_all:
  "(\<And>x. x \<in> set xs \<Longrightarrow> \<exists>y. f x = Inr y \<and> P y) \<Longrightarrow> \<exists>ys. res_map f xs = Inr ys \<and> list_all P ys"
proof (induction xs)
  case (Cons x xs)
  obtain y where "f x = Inr y" "P y" using Cons.prems [of x] by auto
  moreover obtain ys where "res_map f xs = Inr ys" "list_all P ys" using Cons.IH Cons.prems by auto
  ultimately show ?case by (simp add: res_bind_def)
qed simp

text \<open>The safety-gate smoke test passes. Whatever identifiers and creation times the plans get, each of the five
  degraded benches (a production device, a drifted geofence, a hot die, a low battery, a channel outside the
  licence) makes the hardware agent refuse the plan with an error that names the gate, and the script exits with
  status 0.\<close>

theorem safety_gates_verified:
  assumes "\<And>i. experiment_id_ok (ve_experiment_id (ves i))"
  shows "fst (verify_safety_gates ves) = Exit_code 0"
proof -
  have "\<exists>y. (\<lambda>(i, g). check_scenario (ves i) g) x = Inr y \<and> fst y" if "x \<in> set (enumerate 0 gate_scenarios)" for x
  proof -
    have "fst x < length gate_scenarios" "snd x = gate_scenarios ! fst x"
      using that by (simp_all add: in_set_enumerate_eq)
    with scenario_passes [OF assms, of "fst x" "fst x"] show ?thesis by (auto simp: split_beta)
  qed
  then obtain vs where vs: "res_map (\<lambda>(i, g). check_scenario (ves i) g) (enumerate 0 gate_scenarios) = Inr vs"
      "list_all fst vs"
    using res_map_list_all [where P = fst] by blast
  then have "filter (\<lambda>(ok, m). \<not> ok) vs = []" by (auto simp: filter_empty_conv list_all_iff)
  with vs(1) show ?thesis by (simp add: verify_safety_gates_def gate_summary_def Let_def)
qed

theorem safety_gates_verified_witness:
  "fst (verify_safety_gates (\<lambda>i. \<lparr>ve_experiment_id = ''exp-0123456789ab'', ve_now = 0, ve_repr_float = (\<lambda>x. []),
     ve_to_float = (\<lambda>v. Inr 0), ve_set_order = (\<lambda>xs. xs)\<rparr>)) = Exit_code 0"
  by (rule safety_gates_verified) (simp add: experiment_id_ok_def, code_simp)

section \<open>The renderers\<close>

definition fixture_fault :: "string \<Rightarrow> render_fixture \<Rightarrow> fault_category \<Rightarrow> fault_spec" where
  "fixture_fault n x c =
     \<lparr>fs_category = c, fs_name = n, fs_target_selector = rf_selector x, fs_parameters = rf_parameters x,
      fs_duration_seconds = rf_duration x, fs_requires_approval = False, fs_rationale = ''renderer-validation'',
      fs_hypothesis_id = None\<rparr>"

lemma fixture_rendered:
  assumes "dict_get render_fixtures n = Some y" "dict_get category_by_fault n = Some c"
    "fault_spec_ok (fixture_fault n y c)" "dict_get RENDERERS n = Some r" "\<exists>b. r fr (fixture_fault n y c) x = Inr b"
  shows "\<exists>b. res_bind (make_fault n) (\<lambda>f. render fr f x) = Inr b"
proof -
  have "in_catalogue n" using rendered_are_catalogued assms(4) by (simp add: has_renderer_def dict_has_iff)
  with assms show ?thesis
    by (simp add: make_fault_def fixture_fault_def [symmetric] Let_def render_def)
      (simp add: fixture_fault_def)
qed

lemma renderer_names:
  "map fst RENDERERS = [''pod.kill'', ''pod.failure'', ''network.loss'', ''network.delay'', ''network.partition'',
     ''stress.cpu'', ''stress.memory'']"
  by (simp add: RENDERERS_def)

lemmas fixture_entries = render_fixtures_def category_by_fault_def dict_get_Cons RENDERERS_def

lemmas fixture_facts = fault_spec_ok_def fixture_fault_def int_param_def param_def dict_get_Cons res_bind_def

lemma fixture_pod_kill: "\<exists>b. res_bind (make_fault ''pod.kill'') (\<lambda>f. render fr f x) = Inr b"
  by (rule fixture_rendered, simp add: fixture_entries, simp add: fixture_entries, simp add: fixture_facts,
    simp add: fixture_entries, simp add: render_pod_kill_def fixture_facts)

lemma fixture_pod_failure: "\<exists>b. res_bind (make_fault ''pod.failure'') (\<lambda>f. render fr f x) = Inr b"
  by (rule fixture_rendered, simp add: fixture_entries, simp add: fixture_entries, simp add: fixture_facts,
    simp add: fixture_entries, simp add: render_pod_failure_def fixture_facts)

lemma fixture_network_loss: "\<exists>b. res_bind (make_fault ''network.loss'') (\<lambda>f. render fr f x) = Inr b"
  by (rule fixture_rendered, simp add: fixture_entries, simp add: fixture_entries, simp add: fixture_facts,
    simp add: fixture_entries, simp add: render_network_loss_def fixture_facts)

lemma fixture_network_delay: "\<exists>b. res_bind (make_fault ''network.delay'') (\<lambda>f. render fr f x) = Inr b"
  by (rule fixture_rendered, simp add: fixture_entries, simp add: fixture_entries, simp add: fixture_facts,
    simp add: fixture_entries, simp add: render_network_delay_def fixture_facts)

lemma fixture_network_partition: "\<exists>b. res_bind (make_fault ''network.partition'') (\<lambda>f. render fr f x) = Inr b"
  by (rule fixture_rendered, simp add: fixture_entries, simp add: fixture_entries, simp add: fixture_facts,
    simp add: fixture_entries, simp add: render_network_partition_def fixture_facts)

lemma fixture_stress_cpu: "\<exists>b. res_bind (make_fault ''stress.cpu'') (\<lambda>f. render fr f x) = Inr b"
  by (rule fixture_rendered, simp add: fixture_entries, simp add: fixture_entries, simp add: fixture_facts,
    simp add: fixture_entries, simp add: render_stress_cpu_def fixture_facts)

lemma fixture_stress_memory: "\<exists>b. res_bind (make_fault ''stress.memory'') (\<lambda>f. render fr f x) = Inr b"
  by (rule fixture_rendered, simp add: fixture_entries, simp add: fixture_entries, simp add: fixture_facts,
    simp add: fixture_entries, simp add: render_stress_memory_def fixture_facts)

lemma fixtures_cover:
  assumes "n \<in> set (map fst RENDERERS)"
  shows "\<exists>b. res_bind (make_fault n) (\<lambda>f. render fr f x) = Inr b"
  using assms unfolding renderer_names list.set
  by (elim insertE emptyE)
    (simp_all only: fixture_pod_kill fixture_pod_failure fixture_network_loss fixture_network_delay fixture_network_partition fixture_stress_cpu fixture_stress_memory)

text \<open>A \<open>kubectl\<close> whose verdict depends on the manifest alone, in a world that logs the calls.\<close>

definition logging_kubectl :: "(string \<Rightarrow> int \<times> string \<times> string) \<Rightarrow> (string list \<times> string) list kubectl_process" where
  "logging_kubectl answer args inp w = (Inr (answer inp), w @ [(args, inp)])"

definition bodies_of ::
  "'w renderer_env \<Rightarrow> string \<Rightarrow> string list \<Rightarrow> crd list \<Rightarrow> bool" where
  "bodies_of se ns names bs \<longleftrightarrow>
     map (\<lambda>n. res_bind (make_fault n) (\<lambda>f. render (sv_repr_float se) f (validation_context ns))) names = map Inr bs"

definition dry_run_verdict :: "(string \<Rightarrow> int \<times> string \<times> string) \<Rightarrow> string \<Rightarrow> bool \<times> string" where
  "dry_run_verdict answer inp = (case answer inp of (rc, out, err) \<Rightarrow> (rc = 0, strip (out @ err)))"

lemma verdict_ok [simp]: "fst (dry_run_verdict answer inp) \<longleftrightarrow> fst (answer inp) = 0"
  by (simp add: dry_run_verdict_def split_beta)

lemma bodies_exist:
  assumes "set names \<subseteq> set (map fst RENDERERS)"
  shows "\<exists>bs. bodies_of se ns names bs"
  using assms
proof (induction names)
  case (Cons n names)
  then obtain b bs where "res_bind (make_fault n) (\<lambda>f. render (sv_repr_float se) f (validation_context ns)) = Inr b"
      "bodies_of se ns names bs"
    using fixtures_cover [of n "sv_repr_float se" "validation_context ns"] by auto
  then show ?case by (intro exI [of _ "b # bs"]) (simp add: bodies_of_def)
qed (intro exI [of _ "[]"], simp add: bodies_of_def)

lemma validate_each_logged:
  assumes "sv_process se = logging_kubectl answer" "bodies_of se ns names bs"
  shows "validate_each se ns ctx cmd names acc w =
    (Inr (acc @ zip names (map (dry_run_verdict answer \<circ> sv_json se) bs)),
     w @ map (\<lambda>b. (dry_run_args cmd ns ctx, sv_json se b)) bs)"
  using assms(2)
proof (induction names arbitrary: bs acc w)
  case Nil
  then show ?case by (simp add: bodies_of_def)
next
  case (Cons n names)
  then obtain b bs' where bs: "bs = b # bs'"
      "res_bind (make_fault n) (\<lambda>f. render (sv_repr_float se) f (validation_context ns)) = Inr b"
      "bodies_of se ns names bs'"
    by (auto simp: bodies_of_def Cons_eq_map_conv)
  have "kubectl_dry_run se b ns ctx cmd w =
      (Inr (dry_run_verdict answer (sv_json se b)), w @ [(dry_run_args cmd ns ctx, sv_json se b)])"
    by (simp add: kubectl_dry_run_def assms(1) logging_kubectl_def dry_run_verdict_def split: prod.splits)
  with Cons.IH [OF bs(3)] show ?case by (simp add: bs(1,2))
qed

text \<open>The renderer check is exhaustive and honest. Every fault that has a Chaos Mesh renderer has a fixture, its
  fixture renders, and the check hands each of those bodies, once and in name order, to a server-side dry run; it
  exits with 0 when the server accepts all of them and with 1 otherwise, and never stops at the first refusal.\<close>

theorem renderers_validated:
  assumes "sv_process se = logging_kubectl answer"
  shows "\<exists>bs out. bodies_of se ns (sort (map fst RENDERERS)) bs \<and>
    validate_renderers se ns ctx cmd w =
      (Exit_code (if list_all (\<lambda>b. fst (answer (sv_json se b)) = 0) bs then 0 else 1), out,
       w @ map (\<lambda>b. (dry_run_args cmd ns ctx, sv_json se b)) bs)"
proof -
  let ?names = "sort (map fst RENDERERS)"
  obtain bs where bs: "bodies_of se ns ?names bs" using bodies_exist [of ?names se ns] by auto
  let ?vs = "zip ?names (map (dry_run_verdict answer \<circ> sv_json se) bs)"
  have len: "length bs = length ?names"
    using arg_cong [OF bs [unfolded bodies_of_def], of length] by simp
  have "filter (\<lambda>(n, ok, m). \<not> ok) ?vs = [] \<longleftrightarrow> list_all fst (map snd ?vs)"
    by (auto simp: filter_empty_conv list_all_iff)
  also have "map snd ?vs = map (dry_run_verdict answer \<circ> sv_json se) bs" using len by simp
  finally have ok: "filter (\<lambda>(n, ok, m). \<not> ok) ?vs = [] \<longleftrightarrow> list_all (\<lambda>b. fst (answer (sv_json se b)) = 0) bs"
    by (simp add: list_all_iff comp_def)
  obtain out where "validation_report ?vs =
      (Exit_code (if list_all (\<lambda>b. fst (answer (sv_json se b)) = 0) bs then 0 else 1), out)"
    unfolding ok [symmetric] validation_report_def Let_def by (cases "filter (\<lambda>(n, ok, m). \<not> ok) ?vs = []") auto
  with bs validate_each_logged [OF assms bs, of ctx cmd "[]" w] show ?thesis
    by (intro exI [of _ bs] exI [of _ out]) (simp add: validate_renderers_def)
qed

theorem renderers_validated_witness:
  "\<exists>bs out. bodies_of \<lparr>sv_process = logging_kubectl (\<lambda>inp. (0, ''ok'', [])), sv_json = cr_name, sv_repr_float = (\<lambda>x. [])\<rparr>
      ''default'' (sort (map fst RENDERERS)) bs \<and>
    validate_renderers \<lparr>sv_process = logging_kubectl (\<lambda>inp. (0, ''ok'', [])), sv_json = cr_name, sv_repr_float = (\<lambda>x. [])\<rparr>
      ''default'' None [''kubectl''] [] =
      (Exit_code 0, out, map (\<lambda>b. (dry_run_args [''kubectl''] ''default'' None, cr_name b)) bs)"
  using renderers_validated [of "\<lparr>sv_process = logging_kubectl (\<lambda>inp. (0, ''ok'', [])), sv_json = cr_name,
    sv_repr_float = (\<lambda>x. [])\<rparr>" "\<lambda>inp. (0, ''ok'', [])" "''default''" None "[''kubectl'']" "[]"]
  by (simp add: list_all_iff)

section \<open>The round trip\<close>

text \<open>A cluster whose calls succeed and whose reads are faithful.\<close>

locale reliable_cluster = cluster_contract io view inv
  for io :: "'e cluster_io" and view inv +
  assumes get_ok: "inv e \<Longrightarrow> \<exists>e'. ci_get io k e = (Inr (view e k), e') \<and> inv e' \<and> view e' = view e"
    and apply_succeeds: "inv e \<Longrightarrow> \<exists>r e'. ci_apply io b e = (Inr r, e')"
    and delete_succeeds: "inv e \<Longrightarrow> \<exists>d e'. ci_delete io k e = (Inr d, e')"
    and list_succeeds: "inv e \<Longrightarrow> \<exists>rs e'. ci_list io av kd ns ls e = (Inr rs, e')"
begin

lemma applied:
  assumes "inv e"
  shows "\<exists>r e'. ci_apply io b e = (Inr r, e') \<and> inv e' \<and> crd_key_of r = crd_key_of b \<and> cr_labels r = cr_labels b \<and>
    view e' = (view e)(crd_key_of b := Some r)"
  using apply_succeeds [OF assms, of b] apply_ok [OF assms] by blast

lemma deleted:
  assumes "inv e"
  shows "\<exists>e'. ci_delete io k e = (Inr (view e k \<noteq> None), e') \<and> inv e' \<and> view e' = (view e)(k := None)"
  using delete_succeeds [OF assms, of k] delete_ok [OF assms] by blast

lemma listed:
  assumes "inv e"
  shows "\<exists>rs e'. ci_list io av kd ns ls e = (Inr rs, e') \<and> inv e' \<and> view e' = view e \<and>
    (\<forall>r. r \<in> set rs \<longleftrightarrow> view e (crd_key_of r) = Some r \<and> cr_api_version r = av \<and> cr_kind r = kd \<and>
        cr_namespace r = ns \<and> has_labels ls r)"
  using list_succeeds [OF assms, of av kd ns ls] list_ok [OF assms] list_keeps [OF assms] by metis

lemma round_trip:
  assumes "inv e"
  shows "\<exists>e'. smoke_round_trip io ns i e = (Inr 0, e') \<and> inv e' \<and>
    view e' = (view e)(Crd_key chaos_mesh_api ''PodChaos'' ns (smoke_name i) := None)"
proof -
  let ?b = "smoke_body (smoke_name i) ns i"
  let ?k = "Crd_key chaos_mesh_api ''PodChaos'' ns (smoke_name i)"
  have k: "crd_key_of ?b = ?k" by (simp add: crd_key_of_def smoke_body_def)
  obtain r1 e1 where a1: "ci_apply io ?b e = (Inr r1, e1)" "inv e1" "crd_key_of r1 = ?k" "cr_labels r1 = cr_labels ?b"
      "view e1 = (view e)(?k := Some r1)"
    using applied [OF assms, of ?b] unfolding k by auto
  obtain e2 where g1: "ci_get io ?k e1 = (Inr (Some r1), e2)" "inv e2" "view e2 = view e1"
    using get_ok [OF a1(2), of ?k] a1(5) by auto
  let ?ls = "[(''chaos.kosta.dev/experiment-id'', i)]"
  obtain rs e3 where l: "ci_list io chaos_mesh_api ''PodChaos'' ns ?ls e2 = (Inr rs, e3)" "inv e3" "view e3 = view e2"
      "\<forall>r. r \<in> set rs \<longleftrightarrow> view e2 (crd_key_of r) = Some r \<and> cr_api_version r = chaos_mesh_api \<and>
        cr_kind r = ''PodChaos'' \<and> cr_namespace r = ns \<and> has_labels ?ls r"
    using listed [OF g1(2), of chaos_mesh_api "''PodChaos''" ns ?ls] by auto
  have "has_labels ?ls r1" using a1(4) by (simp add: has_labels_def smoke_body_def dict_get_Cons)
  moreover have "view e2 (crd_key_of r1) = Some r1" using g1(3) a1(3,5) by simp
  moreover have "cr_api_version r1 = chaos_mesh_api" "cr_kind r1 = ''PodChaos''" "cr_namespace r1 = ns"
    using a1(3) by (simp_all add: crd_key_of_def)
  ultimately have "r1 \<in> set rs" using l(4) by simp
  then have some: "Suc 0 \<le> length rs" by (cases rs) auto
  obtain r2 e4 where a2: "ci_apply io ?b e3 = (Inr r2, e4)" "inv e4" "view e4 = (view e3)(?k := Some r2)"
    using applied [OF l(2), of ?b] unfolding k by auto
  obtain e5 where d1: "ci_delete io ?k e4 = (Inr True, e5)" "inv e5" "view e5 = (view e4)(?k := None)"
    using deleted [OF a2(2), of ?k] a2(3) by auto
  obtain e6 where g2: "ci_get io ?k e5 = (Inr None, e6)" "inv e6" "view e6 = view e5"
    using get_ok [OF d1(2), of ?k] d1(3) by auto
  obtain e7 where d2: "ci_delete io ?k e6 = (Inr False, e7)" "inv e7" "view e7 = (view e6)(?k := None)"
    using deleted [OF g2(2), of ?k] g2(3) d1(3) by auto
  have "view e7 = (view e)(?k := None)"
    using a1(5) g1(3) l(3) a2(3) d1(3) g2(3) d2(3) by auto
  moreover have "smoke_round_trip io ns i e = (Inr 0, e7)"
    by (simp add: smoke_round_trip_def Let_def then_step_def assertion_def a1(1) g1(1) l(1) some a2(1) d1(1) g2(1) d2(1))
  ultimately show ?thesis using d2(2) by blast
qed

end

definition hookless :: "fake_cluster \<Rightarrow> bool" where
  "hookless c \<longleftrightarrow> fake_inv c \<and> fk_apply_hook c = None"

lemma fake_hook_kept:
  "ci_apply fake_io b c = (r, c') \<Longrightarrow> fk_apply_hook c' = fk_apply_hook c"
  "ci_delete fake_io k c = (d, c') \<Longrightarrow> fk_apply_hook c' = fk_apply_hook c"
  "ci_list fake_io av kd ns ls c = (q, c') \<Longrightarrow> c' = c"
  by (auto simp: fake_io_def fake_apply_def fake_delete_def fake_list_def Let_def split: sum.splits option.splits)

interpretation calm: reliable_cluster fake_io "\<lambda>c k. dict_get (fk_resources c) k" hookless
proof
  show "hookless e' \<and> crd_key_of r = crd_key_of body \<and> cr_labels r = cr_labels body \<and>
      (\<lambda>k. dict_get (fk_resources e') k) = (\<lambda>k. dict_get (fk_resources e) k)(crd_key_of body := Some r)"
    if "hookless e" "ci_apply fake_io body e = (Inr r, e')" for e body r e'
    using that fake.apply_ok [OF _ that(2)] fake_hook_kept(1) [OF that(2)]
    by (simp add: hookless_def fun_eq_iff)
  show "hookless e' \<and> (\<lambda>k. dict_get (fk_resources e') k) = (\<lambda>k. dict_get (fk_resources e) k)"
    if "hookless e" "ci_apply fake_io body e = (Inl x, e')" for e body x e'
    using that fake.apply_failed [OF _ that(2)] fake_hook_kept(1) [OF that(2)] by (simp add: hookless_def)
  show "hookless e' \<and> b = (dict_get (fk_resources e) k \<noteq> None) \<and>
      (\<lambda>k. dict_get (fk_resources e') k) = (\<lambda>k. dict_get (fk_resources e) k)(k := None)"
    if "hookless e" "ci_delete fake_io k e = (Inr b, e')" for e k b e'
    using that fake.delete_ok [OF _ that(2)] fake_hook_kept(2) [OF that(2)]
    by (simp add: hookless_def fun_eq_iff)
  show "hookless e' \<and> (\<lambda>k. dict_get (fk_resources e') k) = (\<lambda>k. dict_get (fk_resources e) k)"
    if "hookless e" "ci_delete fake_io k e = (Inl x, e')" for e k x e'
    using that fake.delete_failed [OF _ that(2)] fake_hook_kept(2) [OF that(2)] by (simp add: hookless_def)
  show "hookless e' \<and> (\<lambda>k. dict_get (fk_resources e') k) = (\<lambda>k. dict_get (fk_resources e) k)"
    if "hookless e" "ci_list fake_io av kd ns ls e = (q, e')" for e av kd ns ls q e'
    using that fake_hook_kept(3) [OF that(2)] by simp
  show "r \<in> set rs \<longleftrightarrow> dict_get (fk_resources e) (crd_key_of r) = Some r \<and> cr_api_version r = av \<and> cr_kind r = kd \<and>
      cr_namespace r = ns \<and> has_labels ls r"
    if "hookless e" "ci_list fake_io av kd ns ls e = (Inr rs, e')" for e av kd ns ls rs e' r
    using that(1) fake.list_ok [OF _ that(2)] by (simp add: hookless_def)
  show "crd_key_of r = k" if "hookless e" "dict_get (fk_resources e) k = Some r" for e k r
    using that fake.keyed [of e k r] by (simp add: hookless_def)
qed (simp_all add: hookless_def fake_io_def fake_get_def fake_apply_def fake_delete_def fake_list_def Let_def)

text \<open>The round trip of the cluster smoke test passes on the in-memory cluster: applying, reading back, listing by
  the experiment's label, applying again, deleting, and deleting again give what the script asserts at each step,
  and afterwards the cluster is as before without the script's resource.\<close>

theorem smoke_round_trip_passes:
  assumes "fake_inv c" "fk_apply_hook c = None"
  shows "\<exists>c'. smoke_round_trip fake_io ns i c = (Inr 0, c') \<and>
    (\<lambda>k. dict_get (fk_resources c') k) = (\<lambda>k. dict_get (fk_resources c) k)
      (Crd_key chaos_mesh_api ''PodChaos'' ns (smoke_name i) := None)"
  using calm.round_trip [of c ns i] assms by (auto simp: hookless_def)

theorem smoke_round_trip_passes_witness:
  "\<exists>c'. smoke_round_trip fake_io ''default'' ''exp-smoke0001'' empty_cluster = (Inr 0, c') \<and>
    (\<lambda>k. dict_get (fk_resources c') k) = (\<lambda>k. None)"
  using smoke_round_trip_passes [of empty_cluster "''default''" "''exp-smoke0001''"] empty_cluster_inv
  by (simp add: empty_cluster_def fun_upd_def)

end
