(* ===== verification/Smoke_Live.thy ===== *)
theory Smoke_Live
  imports Smoke_Props
begin

text \<open>
  The operator's tests against a live cluster: \<open>smoke_chaos_agent.py\<close> (the agent's execution, then its cleanup by
  label) and \<open>smoke_live_chaos.py\<close> (a pod kill seen from outside, then a sweep by label). A script is its exit status;
  what it prints is left out. A wait ends by the clock, so a script that may never return has the value \<open>None\<close> then.
\<close>

section \<open>The surroundings\<close>

record 'e live_env =
  lv_kubectl :: "string list \<Rightarrow> string option \<Rightarrow> 'e \<Rightarrow> (int \<times> string \<times> string) res \<times> 'e"
  lv_prefix :: "string list"
  lv_context :: string
  lv_sleep :: "real \<Rightarrow> 'e \<Rightarrow> unit res \<times> 'e"
  lv_clock :: "'e \<Rightarrow> real \<times> 'e"
  lv_loads :: "string \<Rightarrow> pyval option"
  lv_dumps :: "pyval \<Rightarrow> string"
  lv_repr_float :: "real \<Rightarrow> string"
  lv_now :: "'e \<Rightarrow> int"

type_synonym ('a, 'e) outcome = "('a res \<times> 'e) option"

definition go_on :: "('a, 'e) outcome \<Rightarrow> ('a \<Rightarrow> 'e \<Rightarrow> ('b, 'e) outcome) \<Rightarrow> ('b, 'e) outcome" where
  "go_on r k = (case r of None \<Rightarrow> None | Some (Inl x, e) \<Rightarrow> Some (Inl x, e) | Some (Inr v, e) \<Rightarrow> k v e)"

lemma go_on_simps [simp]:
  "go_on None k = None" "go_on (Some (Inl x, e)) k = Some (Inl x, e)" "go_on (Some (Inr v, e)) k = k v e"
  by (simp_all add: go_on_def)

text \<open>\<open>try: steps finally: cleaning\<close>.\<close>

definition with_teardown :: "('e \<Rightarrow> ('a, 'e) outcome) \<Rightarrow> ('e \<Rightarrow> unit res \<times> 'e) \<Rightarrow> 'e \<Rightarrow> ('a, 'e) outcome" where
  "with_teardown steps cleaning e =
     (case steps e of
        None \<Rightarrow> None
      | Some (r, e1) \<Rightarrow> (case cleaning e1 of (Inl x, e2) \<Rightarrow> Some (Inl x, e2) | (Inr u, e2) \<Rightarrow> Some (r, e2)))"

definition live_kubectl :: "'e live_env \<Rightarrow> string list \<Rightarrow> string option \<Rightarrow> 'e \<Rightarrow> (int \<times> string) res \<times> 'e" where
  "live_kubectl lv args inp e =
     (case lv_kubectl lv (lv_prefix lv @ [''--context'', lv_context lv] @ args) inp e of
        (Inl x, e') \<Rightarrow> (Inl x, e')
      | (Inr (rc, out, err), e') \<Rightarrow> (Inr (rc, strip (out @ err)), e'))"

text \<open>\<open>kubectl delete deployment\<close>, then \<open>kubectl delete ns\<close>; only an exception keeps the second from running.\<close>

definition tear_down :: "'e live_env \<Rightarrow> string \<Rightarrow> string \<Rightarrow> 'e \<Rightarrow> unit res \<times> 'e" where
  "tear_down lv ns deployment e =
     then_step (live_kubectl lv [''-n'', ns, ''delete'', ''deployment'', deployment, ''--ignore-not-found''] None e) (\<lambda>v e.
     then_step (live_kubectl lv [''delete'', ''ns'', ns, ''--ignore-not-found''] None e) (\<lambda>v e. (Inr (), e)))"

definition nginx_deployment :: "string \<Rightarrow> int \<Rightarrow> (string, pyval) dict \<Rightarrow> string \<Rightarrow> pyval" where
  "nginx_deployment app replicas extra ns =
     PDict [(''apiVersion'', PStr ''apps/v1''), (''kind'', PStr ''Deployment''),
       (''metadata'', PDict [(''name'', PStr app), (''namespace'', PStr ns), (''labels'', PDict [(''app'', PStr app)])]),
       (''spec'', PDict [(''replicas'', PInt replicas),
          (''selector'', PDict [(''matchLabels'', PDict [(''app'', PStr app)])]),
          (''template'', PDict [(''metadata'', PDict [(''labels'', PDict [(''app'', PStr app)])]),
             (''spec'', PDict [(''containers'', PList [PDict ([(''name'', PStr ''nginx''),
                (''image'', PStr ''nginx:1.27-alpine''), (''imagePullPolicy'', PStr ''IfNotPresent'')] @ extra)])])])])]"

definition experiment_label :: "string \<Rightarrow> (string, string) dict" where
  "experiment_label i = [(''chaos.kosta.dev/experiment-id'', i)]"

text \<open>\<open>while time.time() < deadline\<close>: list until nothing is left; the last list, if there was one.\<close>

partial_function (option) poll_gone ::
  "'e live_env \<Rightarrow> ('e \<Rightarrow> crd list res \<times> 'e) \<Rightarrow> real \<Rightarrow> crd list option \<Rightarrow> 'e \<Rightarrow> (crd list option, 'e) outcome" where
  "poll_gone lv ls deadline seen e =
     (case lv_clock lv e of (t, e1) \<Rightarrow>
        if \<not> t < deadline then Some (Inr seen, e1)
        else case ls e1 of
          (Inl x, e2) \<Rightarrow> Some (Inl x, e2)
        | (Inr rs, e2) \<Rightarrow>
            if rs = [] then Some (Inr (Some []), e2)
            else case lv_sleep lv 1 e2 of
              (Inl x, e3) \<Rightarrow> Some (Inl x, e3)
            | (Inr u, e3) \<Rightarrow> poll_gone lv ls deadline (Some rs) e3)"

definition poll_for ::
  "'e live_env \<Rightarrow> ('e \<Rightarrow> crd list res \<times> 'e) \<Rightarrow> real \<Rightarrow> crd list option \<Rightarrow> 'e \<Rightarrow> (crd list option, 'e) outcome" where
  "poll_for lv ls seconds seen e = (case lv_clock lv e of (t, e1) \<Rightarrow> poll_gone lv ls (t + seconds) seen e1)"

fun apply_all :: "'e cluster_io \<Rightarrow> crd list \<Rightarrow> 'e \<Rightarrow> unit res \<times> 'e" where
  "apply_all io [] e = (Inr (), e)"
| "apply_all io (b # bs) e =
     (case ci_apply io b e of (Inl x, e1) \<Rightarrow> (Inl x, e1) | (Inr r, e1) \<Rightarrow> apply_all io bs e1)"

section \<open>The agent\<close>

definition agent_deployment :: "string \<Rightarrow> pyval" where
  "agent_deployment ns = nginx_deployment ''smoketarget-agent'' 2 [] ns"

definition smoke_fault :: "string \<Rightarrow> fault_spec" where
  "smoke_fault why =
     \<lparr>fs_category = FC_POD, fs_name = ''pod.kill'', fs_target_selector = [(''app'', ''smoketarget-agent'')],
      fs_parameters = [(''mode'', PStr ''one'')], fs_duration_seconds = 1, fs_requires_approval = False,
      fs_rationale = why, fs_hypothesis_id = None\<rparr>"

definition smoke_safety :: "string \<Rightarrow> string \<Rightarrow> safety_constraints" where
  "smoke_safety ns ctx =
     \<lparr>sc_cluster_context = ctx, sc_namespace = ns, sc_max_pods_affected = 1, sc_max_duration_seconds = 300,
      sc_allow_multi_fault = False, sc_require_namespace_annotation = False,
      sc_forbidden_cluster_substrings = default_forbidden\<rparr>"

definition smoke_plan_of :: "string \<Rightarrow> string \<Rightarrow> int \<Rightarrow> safety_constraints \<Rightarrow> string \<Rightarrow> int \<Rightarrow> experiment_plan" where
  "smoke_plan_of i why quiet safety title now =
     \<lparr>ep_experiment_id = i, ep_title = title, ep_target_app = ''smoketarget-agent'', ep_target_repo = None,
      ep_faults = [smoke_fault why], ep_safety = safety,
      ep_budget = \<lparr>tb_soft_cap_usd = 2, tb_hard_cap_usd = 10, tb_wall_clock_seconds = 1800\<rparr>,
      ep_quiet_window_pre_seconds = quiet, ep_quiet_window_post_seconds = quiet, ep_created_at = now,
      ep_suppress = [], ep_plugin = None, ep_plugin_config = []\<rparr>"

definition smoke_plan :: "string \<Rightarrow> string \<Rightarrow> string \<Rightarrow> int \<Rightarrow> experiment_plan" where
  "smoke_plan i ns ctx now = smoke_plan_of i ''agent smoke test'' 2 (smoke_safety ns ctx) ''agent-smoke-test'' now"

definition smoke_cleanup_plan :: "string \<Rightarrow> safety_constraints \<Rightarrow> int \<Rightarrow> experiment_plan" where
  "smoke_cleanup_plan i safety now = smoke_plan_of i ''cleanup test'' 60 safety ''agent-cleanup-test'' now"

fun wait_replicas :: "'e live_env \<Rightarrow> string \<Rightarrow> nat \<Rightarrow> 'e \<Rightarrow> unit res \<times> 'e" where
  "wait_replicas lv ns 0 e = (Inr (), e)"
| "wait_replicas lv ns (Suc n) e =
     then_step (live_kubectl lv [''-n'', ns, ''get'', ''deploy'', ''smoketarget-agent'', ''-o'',
         ''jsonpath={.status.readyReplicas}''] None e) (\<lambda>v e1.
       if fst v = 0 \<and> strip (snd v) = ''2'' then (Inr (), e1)
       else then_step (lv_sleep lv 1 e1) (\<lambda>u e2. wait_replicas lv ns n e2))"

definition live_agent :: "'e live_env \<Rightarrow> 'e cluster_io \<Rightarrow> 'e chaos_agent" where
  "live_agent lv io =
     \<lparr>ca_cluster = Some io, ca_sleep = (\<lambda>n. lv_sleep lv (real_of_int n)), ca_now = lv_now lv,
      ca_float_repr = lv_repr_float lv\<rparr>"

definition list_pod_chaos :: "'e cluster_io \<Rightarrow> string \<Rightarrow> string \<Rightarrow> 'e \<Rightarrow> crd list res \<times> 'e" where
  "list_pod_chaos io ns i = ci_list io chaos_mesh_api ''PodChaos'' ns (experiment_label i)"

definition unbound :: "string \<Rightarrow> pyexn" where
  "unbound v = Exn ''UnboundLocalError'' (''cannot access local variable '' @ repr_str v @
     '' where it is not associated with a value'')"

definition cleanup_copy :: "string \<Rightarrow> crd \<Rightarrow> nat \<Rightarrow> crd" where
  "cleanup_copy i body n = body\<lparr>cr_name := ''cleanup-'' @ nat_str n @ ''-'' @ last_chars 8 i\<rparr>"

definition cleanup_steps ::
  "'e live_env \<Rightarrow> 'e cluster_io \<Rightarrow> string \<Rightarrow> string \<Rightarrow> 'e \<Rightarrow> (int, 'e) outcome" where
  "cleanup_steps lv io i ns e =
     (let p = smoke_cleanup_plan i (smoke_safety ns (lv_context lv)) (lv_now lv e) in
      if \<not> experiment_plan_ok p then Some (Inl (validation_error ''ExperimentPlan''), e)
      else case render (lv_repr_float lv) (smoke_fault ''cleanup test'') \<lparr>rx_namespace = ns, rx_experiment_id = i\<rparr> of
        Inl x \<Rightarrow> Some (Inl x, e)
      | Inr body \<Rightarrow>
          go_on (Some (apply_all io (map (cleanup_copy i body) [0, 1, 2]) e)) (\<lambda>u e.
          go_on (Some (list_pod_chaos io ns i e)) (\<lambda>before e.
            if length before \<noteq> 3 then Some (Inr 1, e)
            else go_on (Some (chaos_cleanup (live_agent lv io) p e)) (\<lambda>u e.
                 go_on (poll_for lv (list_pod_chaos io ns i) 60 None e) (\<lambda>after e.
                   case after of
                     None \<Rightarrow> Some (Inl (unbound ''after''), e)
                   | Some rs \<Rightarrow> Some (Inr (if rs = [] then 0 else 1), e))))))"

definition agent_smoke_steps ::
  "'e live_env \<Rightarrow> 'e cluster_io \<Rightarrow> string \<Rightarrow> string \<Rightarrow> string \<Rightarrow> 'e \<Rightarrow> (int, 'e) outcome" where
  "agent_smoke_steps lv io i i2 ns e =
     (let p = smoke_plan i ns (lv_context lv) (lv_now lv e) in
      if \<not> experiment_plan_ok p then Some (Inl (validation_error ''ExperimentPlan''), e)
      else go_on (Some (chaos_execute (live_agent lv io) p e)) (\<lambda>t e.
        if \<not> ct_success t then Some (Inr 1, e)
        else if \<not> {TE_scheduled, TE_started, TE_cleaned_up} \<subseteq> set (map te_event (ct_events t)) then Some (Inr 1, e)
        else go_on (poll_for lv (list_pod_chaos io ns i) 60 (Some []) e) (\<lambda>listed e.
          if listed \<noteq> Some [] then Some (Inr 1, e) else cleanup_steps lv io i2 ns e)))"

text \<open>The namespace and the deployment are set up before the \<open>try\<close>: a \<open>kubectl\<close> that raises there leaves them.\<close>

definition agent_smoke ::
  "'e live_env \<Rightarrow> 'e cluster_io \<Rightarrow> string \<Rightarrow> string \<Rightarrow> string \<Rightarrow> 'e \<Rightarrow> (int, 'e) outcome" where
  "agent_smoke lv io i i2 ns e =
     go_on (Some (live_kubectl lv [''create'', ''ns'', ns] None e)) (\<lambda>v e.
     go_on (Some (live_kubectl lv [''apply'', ''-f'', ''-''] (Some (lv_dumps lv (agent_deployment ns))) e)) (\<lambda>v e.
     go_on (Some (wait_replicas lv ns 60 e)) (\<lambda>u e.
       with_teardown (agent_smoke_steps lv io i i2 ns) (tear_down lv ns ''smoketarget-agent'') e)))"

section \<open>The outside view\<close>

definition live_deployment :: "string \<Rightarrow> pyval" where
  "live_deployment ns =
     nginx_deployment ''smoketarget'' 3 [(''ports'', PList [PDict [(''containerPort'', PInt 80)]])] ns"

definition pod_chaos :: "string \<Rightarrow> string \<Rightarrow> crd" where
  "pod_chaos ns i =
     \<lparr>cr_api_version = chaos_mesh_api, cr_kind = ''PodChaos'', cr_name = smoke_name i, cr_namespace = ns,
      cr_labels = [(''chaos.kosta.dev/experiment-id'', i), (''chaos.kosta.dev/fault-name'', ''pod.kill'')],
      cr_annotations = [], cr_resource_version = None,
      cr_spec = [(''action'', PStr ''pod-kill''), (''mode'', PStr ''one''),
        (''selector'', PDict [(''namespaces'', PList [PStr ns]), (''labelSelectors'', PDict [(''app'', PStr ''smoketarget'')])]),
        (''gracePeriod'', PInt 0)],
      cr_status = None\<rparr>"

text \<open>\<open>any(..)\<close> stops at the first condition that holds.\<close>

fun any_ready :: "pyval list \<Rightarrow> bool res" where
  "any_ready [] = Inr False"
| "any_ready (c # cs) =
     res_bind (get_item c ''type'' PNone) (\<lambda>ty.
       if ty \<noteq> PStr ''Ready'' then any_ready cs
       else res_bind (get_item c ''status'' PNone) (\<lambda>st. if st = PStr ''True'' then Inr True else any_ready cs))"

definition pod_ready :: "pyval \<Rightarrow> bool res" where
  "pod_ready p =
     res_bind (get_item p ''status'' (PDict [])) (\<lambda>st. res_bind (get_items st ''conditions'') any_ready)"

definition ready_count :: "pyval \<Rightarrow> int res" where
  "ready_count data =
     res_bind (get_items data ''items'') (\<lambda>pods.
     res_bind (res_map pod_ready pods) (\<lambda>bs. Inr (int (length (filter id bs)))))"

partial_function (option) ready_loop ::
  "'e live_env \<Rightarrow> string \<Rightarrow> int \<Rightarrow> real \<Rightarrow> int \<Rightarrow> 'e \<Rightarrow> (int, 'e) outcome" where
  "ready_loop lv ns expected deadline seen e =
     (case lv_clock lv e of (t, e1) \<Rightarrow>
        if \<not> t < deadline then Some (Inr seen, e1)
        else case live_kubectl lv [''-n'', ns, ''get'', ''pods'', ''-l'', ''app=smoketarget'', ''-o'', ''json''] None e1 of
          (Inl x, e2) \<Rightarrow> Some (Inl x, e2)
        | (Inr (rc, out), e2) \<Rightarrow>
            case (if rc \<noteq> 0 then None else lv_loads lv out) of
              None \<Rightarrow>
                (case lv_sleep lv 1 e2 of
                   (Inl x, e3) \<Rightarrow> Some (Inl x, e3) | (Inr u, e3) \<Rightarrow> ready_loop lv ns expected deadline seen e3)
            | Some data \<Rightarrow>
                (case ready_count data of
                   Inl x \<Rightarrow> Some (Inl x, e2)
                 | Inr n \<Rightarrow>
                     if n = expected then Some (Inr n, e2)
                     else (case lv_sleep lv 1 e2 of
                       (Inl x, e3) \<Rightarrow> Some (Inl x, e3) | (Inr u, e3) \<Rightarrow> ready_loop lv ns expected deadline n e3)))"

definition wait_for_ready_pods :: "'e live_env \<Rightarrow> string \<Rightarrow> int \<Rightarrow> real \<Rightarrow> 'e \<Rightarrow> (int, 'e) outcome" where
  "wait_for_ready_pods lv ns expected timeout e =
     (case lv_clock lv e of (t, e1) \<Rightarrow> ready_loop lv ns expected (t + timeout) (- 1) e1)"

text \<open>\<open>s.count(sub)\<close> for a non-empty \<open>sub\<close>: occurrences that do not overlap.\<close>

fun str_count :: "string \<Rightarrow> string \<Rightarrow> nat \<Rightarrow> nat" where
  "str_count pat [] skip = 0"
| "str_count pat (c # cs) (Suc skip) = str_count pat cs skip"
| "str_count pat (c # cs) 0 =
     (if prefix pat (c # cs) then Suc (str_count pat cs (length pat - 1)) else str_count pat cs 0)"

partial_function (option) dip_loop :: "'e live_env \<Rightarrow> string \<Rightarrow> real \<Rightarrow> 'e \<Rightarrow> (bool, 'e) outcome" where
  "dip_loop lv ns deadline e =
     (case lv_clock lv e of (t, e1) \<Rightarrow>
        if \<not> t < deadline then Some (Inr False, e1)
        else case live_kubectl lv [''-n'', ns, ''get'', ''pods'', ''-l'', ''app=smoketarget'', ''--no-headers''] None e1 of
          (Inl x, e2) \<Rightarrow> Some (Inl x, e2)
        | (Inr (rc, out), e2) \<Rightarrow>
            if str_count ''Running'' out 0 < 3 then Some (Inr True, e2)
            else case lv_sleep lv (1 / 2) e2 of
              (Inl x, e3) \<Rightarrow> Some (Inl x, e3) | (Inr u, e3) \<Rightarrow> dip_loop lv ns deadline e3)"

definition watch_for_dip :: "'e live_env \<Rightarrow> string \<Rightarrow> 'e \<Rightarrow> (bool, 'e) outcome" where
  "watch_for_dip lv ns e = (case lv_clock lv e of (t, e1) \<Rightarrow> dip_loop lv ns (t + 30) e1)"

fun delete_each :: "'e cluster_io \<Rightarrow> crd list \<Rightarrow> 'e \<Rightarrow> unit res \<times> 'e" where
  "delete_each io [] e = (Inr (), e)"
| "delete_each io (r # rs) e =
     (case ci_delete io (crd_key_of r) e of (Inl x, e1) \<Rightarrow> (Inl x, e1) | (Inr b, e1) \<Rightarrow> delete_each io rs e1)"

definition sweep_copy :: "string \<Rightarrow> string \<Rightarrow> nat \<Rightarrow> crd" where
  "sweep_copy ns i n = (pod_chaos ns i)\<lparr>cr_name := ''sweep-'' @ nat_str n @ ''-'' @ last_chars 8 i\<rparr>"

definition sweep_steps :: "'e live_env \<Rightarrow> 'e cluster_io \<Rightarrow> string \<Rightarrow> string \<Rightarrow> 'e \<Rightarrow> (int, 'e) outcome" where
  "sweep_steps lv io i ns e =
     go_on (Some (apply_all io (map (sweep_copy ns i) [0, 1]) e)) (\<lambda>u e.
     go_on (Some (list_pod_chaos io ns i e)) (\<lambda>listed e.
       if length listed \<noteq> 2 then Some (Inr 1, e)
       else go_on (Some (delete_each io listed e)) (\<lambda>u e.
            go_on (poll_for lv (list_pod_chaos io ns i) 30 (Some []) e) (\<lambda>remaining e.
              Some (Inr (if remaining = Some [] then 0 else 1), e)))))"

definition live_smoke_steps :: "'e live_env \<Rightarrow> 'e cluster_io \<Rightarrow> string \<Rightarrow> string \<Rightarrow> 'e \<Rightarrow> (int, 'e) outcome" where
  "live_smoke_steps lv io i ns e =
     go_on (Some (live_kubectl lv [''create'', ''ns'', ns] None e)) (\<lambda>v e.
     go_on (Some (live_kubectl lv [''apply'', ''-f'', ''-''] (Some (lv_dumps lv (live_deployment ns))) e)) (\<lambda>v e.
       if fst v \<noteq> 0 then Some (Inr 1, e)
       else go_on (wait_for_ready_pods lv ns 3 120 e) (\<lambda>ready e.
         if ready \<noteq> 3 then Some (Inr 1, e)
         else go_on (Some (ci_apply io (pod_chaos ns i) e)) (\<lambda>applied e.
              go_on (watch_for_dip lv ns e) (\<lambda>dipped e.
              go_on (wait_for_ready_pods lv ns 3 60 e) (\<lambda>ready_after e.
                if ready_after \<noteq> 3 then Some (Inr 1, e)
                else go_on (Some (ci_delete io (Crd_key chaos_mesh_api ''PodChaos'' ns (cr_name applied)) e)) (\<lambda>deleted e.
                  sweep_steps lv io i ns e)))))))"

definition live_smoke :: "'e live_env \<Rightarrow> 'e cluster_io \<Rightarrow> string \<Rightarrow> string \<Rightarrow> 'e \<Rightarrow> (int, 'e) outcome" where
  "live_smoke lv io i ns = with_teardown (live_smoke_steps lv io i ns) (tear_down lv ns ''smoketarget'')"

end
