(* ===== verification/Smoke_Live_Props.thy ===== *)
theory Smoke_Live_Props
  imports Smoke_Live
begin

text \<open>
  The agent's smoke test: a status of 0 is evidence that the execution and the cleanup by label were seen to work, on
  any cluster; and in a test environment over the in-memory cluster the script does end with 0.
\<close>

section \<open>When the teardown runs\<close>

text \<open>Once the steps are under way, the script's last act is the teardown, however the steps end.\<close>

lemma live_smoke_tears_down:
  assumes "live_smoke lv io i ns e = Some (r, e')"
  shows "\<exists>e1 q. tear_down lv ns ''smoketarget'' e1 = (q, e')"
  using assms by (auto simp: live_smoke_def with_teardown_def split: option.splits prod.splits sum.splits)

text \<open>The agent's script sets up outside of its \<open>try\<close>: a \<open>kubectl apply\<close> that raises leaves the new namespace.\<close>

lemma agent_smoke_setup_leaks:
  assumes "live_kubectl lv [''create'', ''ns'', ns] None e = (Inr v, e1)"
    and "live_kubectl lv [''apply'', ''-f'', ''-''] (Some (lv_dumps lv (agent_deployment ns))) e1 = (Inl x, e2)"
  shows "agent_smoke lv io i i2 ns e = Some (Inl x, e2)"
  using assms by (simp add: agent_smoke_def)

section \<open>A still world\<close>

text \<open>A test environment for the script, not a model of a live cluster: \<open>kubectl\<close> gives any answer but never raises and
  does not touch the custom resources, the clock stands still and a sleep returns.\<close>

definition still_env ::
  "(string list \<Rightarrow> string option \<Rightarrow> int \<times> string \<times> string) \<Rightarrow> (real \<Rightarrow> string) \<Rightarrow> fake_cluster live_env" where
  "still_env answer fr =
     \<lparr>lv_kubectl = (\<lambda>args inp c. (Inr (answer args inp), c)), lv_prefix = [''kubectl''], lv_context = ''kind-chaos-dev'',
      lv_sleep = (\<lambda>s c. (Inr (), c)), lv_clock = (\<lambda>c. (0, c)), lv_loads = (\<lambda>s. None), lv_dumps = (\<lambda>v. []),
      lv_repr_float = fr, lv_now = (\<lambda>c. 0)\<rparr>"

lemma still_kubectl: "\<exists>v. live_kubectl (still_env answer fr) args inp c = (Inr v, c)"
  by (auto simp: live_kubectl_def still_env_def split: prod.splits)

lemma still_tear_down: "tear_down (still_env answer fr) ns d c = (Inr (), c)"
  using still_kubectl [of answer fr "[''-n'', ns, ''delete'', ''deployment'', d, ''--ignore-not-found'']" None c]
    still_kubectl [of answer fr "[''delete'', ''ns'', ns, ''--ignore-not-found'']" None c]
  by (auto simp: tear_down_def then_step_def)

lemma still_wait: "wait_replicas (still_env answer fr) ns n c = (Inr (), c)"
proof (induction n)
  case (Suc n)
  obtain v where "live_kubectl (still_env answer fr) [''-n'', ns, ''get'', ''deploy'', ''smoketarget-agent'', ''-o'',
      ''jsonpath={.status.readyReplicas}''] None c = (Inr v, c)"
    using still_kubectl by blast
  with Suc show ?case by (simp add: then_step_def) (simp add: still_env_def)
qed simp

lemma still_agent: "live_agent (still_env answer fr) fake_io = fake_agent (\<lambda>n. Inr ()) fr"
  by (simp add: live_agent_def still_env_def fake_agent_def)

lemma still_poll:
  assumes "ls c = (Inr [], c)" "0 < s"
  shows "poll_for (still_env answer fr) ls s seen c = Some (Inr (Some []), c)"
  using assms by (simp add: poll_for_def poll_gone.simps still_env_def)

lemma still_fields [simp]:
  "lv_context (still_env answer fr) = ''kind-chaos-dev''" "lv_now (still_env answer fr) c = 0"
  "lv_repr_float (still_env answer fr) = fr"
  by (simp_all add: still_env_def)

section \<open>The execution\<close>

definition smoke_context :: "string \<Rightarrow> string \<Rightarrow> render_context" where
  "smoke_context ns i = \<lparr>rx_namespace = ns, rx_experiment_id = i\<rparr>"

definition smoke_kill_body :: "string \<Rightarrow> string \<Rightarrow> string \<Rightarrow> crd" where
  "smoke_kill_body why ns i =
     body_with ''PodChaos'' (smoke_fault why) (smoke_context ns i)
       [(''action'', PStr ''pod-kill''), (''mode'', PStr ''one''),
        (''selector'', selector (smoke_fault why) (smoke_context ns i)), (''gracePeriod'', PInt 0)]"

lemma smoke_render: "render fr (smoke_fault why) (smoke_context ns i) = Inr (smoke_kill_body why ns i)"
proof -
  have "dict_get RENDERERS ''pod.kill'' = Some render_pod_kill" by (simp add: RENDERERS_def dict_get_Cons)
  moreover have "in_catalogue ''pod.kill''" by (simp add: in_catalogue_eval)
  moreover have "fs_name (smoke_fault why) = ''pod.kill''" "fs_parameters (smoke_fault why) = [(''mode'', PStr ''one'')]"
    by (simp_all add: smoke_fault_def)
  ultimately show ?thesis
    by (simp add: render_def render_pod_kill_def smoke_kill_body_def int_param_def param_def dict_get_Cons)
qed

lemma smoke_plan_fields [simp]:
  "ep_faults (smoke_plan_of i why q sf tt now) = [smoke_fault why]" "ep_safety (smoke_plan_of i why q sf tt now) = sf"
  "ep_experiment_id (smoke_plan_of i why q sf tt now) = i"
  "ep_quiet_window_pre_seconds (smoke_plan_of i why q sf tt now) = q"
  "ep_quiet_window_post_seconds (smoke_plan_of i why q sf tt now) = q" "sc_namespace (smoke_safety ns ctx) = ns"
  by (simp_all add: smoke_plan_of_def smoke_safety_def)

lemma smoke_plan_ok:
  assumes "experiment_id_ok i" "0 \<le> q" "why \<noteq> []"
  shows "experiment_plan_ok (smoke_plan_of i why q (smoke_safety ns ctx) tt now)"
proof -
  have "fault_spec_ok (smoke_fault why)" using assms(3) by (simp add: fault_spec_ok_def smoke_fault_def)
  moreover have "ep_suppress (smoke_plan_of i why q (smoke_safety ns ctx) tt now) = []" by (simp add: smoke_plan_of_def)
  moreover have "safety_constraints_ok (smoke_safety ns ctx)" by (simp add: safety_constraints_ok_def smoke_safety_def)
  ultimately show ?thesis using assms by (simp add: experiment_plan_ok_def)
qed

lemma smoke_preflight: "preflight_plan (smoke_plan_of i why q sf tt now) = None"
proof -
  have "preflight_faults [smoke_fault why] = None"
    by (simp add: preflight_faults_None_iff smoke_fault_def has_renderer_def RENDERERS_def dict_has_iff dict_get_Cons
        del: preflight_faults.simps)
  then show ?thesis by (simp add: preflight_plan_def)
qed

lemma smoke_executes:
  assumes "fk_apply_hook c = None"
  shows "\<exists>t c'. chaos_execute (fake_agent (\<lambda>n. Inr ()) fr) (smoke_plan i ns ctx now) c = (Inr t, c') \<and> ct_success t \<and>
    {TE_scheduled, TE_started, TE_cleaned_up} \<subseteq> set (map te_event (ct_events t)) \<and> fk_apply_hook c' = None"
proof -
  have r: "render fr (smoke_fault why) \<lparr>rx_namespace = ns, rx_experiment_id = i\<rparr> = Inr (smoke_kill_body why ns i)" for why
    using smoke_render by (simp add: smoke_context_def)
  show ?thesis
    using assms by (simp add: smoke_plan_def chaos_execute_def smoke_preflight fault_sequence_def quiet_window_def
        run_fault_def r fake_agent_fields fake_io_fields fake_apply_def fake_delete_def Let_def chaos_event_def)
qed

text \<open>A resource of an experiment in the namespace, as the label query finds it.\<close>

definition labelled_resource :: "string \<Rightarrow> string \<Rightarrow> crd \<Rightarrow> bool" where
  "labelled_resource ns i r \<longleftrightarrow>
     cr_api_version r = chaos_mesh_api \<and> cr_kind r = ''PodChaos'' \<and> cr_namespace r = ns \<and> has_labels (experiment_label i) r"

definition traces :: "string \<Rightarrow> string \<Rightarrow> fake_cluster \<Rightarrow> crd_key \<Rightarrow> bool" where
  "traces ns i c k \<longleftrightarrow> (\<exists>r. dict_get (fk_resources c) k = Some r \<and> swept (smoke_plan i ns ''kind-chaos-dev'' 0) chaos_mesh_kinds r)"

lemma swept_smoke:
  "swept (smoke_plan_of i why q (smoke_safety ns ctx) tt now) chaos_mesh_kinds r \<longleftrightarrow>
     cr_api_version r = chaos_mesh_api \<and> cr_kind r \<in> set chaos_mesh_kinds \<and> cr_namespace r = ns \<and>
     has_labels (experiment_label i) r"
  by (simp add: swept_def experiment_labels_def experiment_label_def)

lemma no_traces_listed:
  assumes "hookless c" "\<And>k. \<not> traces ns i c k"
  shows "list_pod_chaos fake_io ns i c = (Inr [], c)"
proof -
  obtain rs c' where l: "list_pod_chaos fake_io ns i c = (Inr rs, c')"
      "\<forall>r. r \<in> set rs \<longleftrightarrow> dict_get (fk_resources c) (crd_key_of r) = Some r \<and> cr_api_version r = chaos_mesh_api \<and>
        cr_kind r = ''PodChaos'' \<and> cr_namespace r = ns \<and> has_labels (experiment_label i) r"
    using calm.listed [OF assms(1), of chaos_mesh_api "''PodChaos''" ns "experiment_label i"]
    by (auto simp: list_pod_chaos_def)
  have "''PodChaos'' \<in> set chaos_mesh_kinds" by (simp add: chaos_mesh_kinds_def)
  then have "\<forall>r. r \<notin> set rs"
    using l(2) assms(2) by (auto simp: traces_def smoke_plan_def swept_smoke)
  then have "rs = []" by (cases rs) auto
  moreover have "c' = c" using l(1) fake_hook_kept(3) by (auto simp: list_pod_chaos_def)
  ultimately show ?thesis using l(1) by simp
qed

section \<open>The copies\<close>

lemma length_filter_dict_set:
  "P (k, v) \<Longrightarrow> (\<And>w. (k, w) \<in> set d \<Longrightarrow> \<not> P (k, w)) \<Longrightarrow>
    length (filter P (dict_set k v d)) = Suc (length (filter P d))"
  by (induction k v d rule: dict_set.induct) auto

lemma mem_dict_set_other: "(k', w) \<in> set (dict_set k v d) \<Longrightarrow> k' \<noteq> k \<Longrightarrow> (k', w) \<in> set d"
  by (induction k v d rule: dict_set.induct) (auto split: if_splits)

lemma three_found:
  assumes "filter P d = []" "distinct [k1, k2, k3]" "P (k1, v1)" "P (k2, v2)" "P (k3, v3)"
  shows "length (filter P (dict_set k3 v3 (dict_set k2 v2 (dict_set k1 v1 d)))) = 3"
proof -
  have none: "(k, w) \<in> set d \<Longrightarrow> \<not> P (k, w)" for k w using assms(1) by (auto simp: filter_empty_conv)
  have "length (filter P (dict_set k1 v1 d)) = 1"
    using length_filter_dict_set [of P k1 v1 d] none assms by simp
  moreover have "length (filter P (dict_set k2 v2 (dict_set k1 v1 d))) = Suc (length (filter P (dict_set k1 v1 d)))"
    using assms(2,4) none mem_dict_set_other [of k2 _ k1 v1 d] by (intro length_filter_dict_set) auto
  moreover have "length (filter P (dict_set k3 v3 (dict_set k2 v2 (dict_set k1 v1 d)))) =
      Suc (length (filter P (dict_set k2 v2 (dict_set k1 v1 d))))"
    using assms(2,5) none mem_dict_set_other [of k3 _ k1 v1 d]
      mem_dict_set_other [of k3 _ k2 v2 "dict_set k1 v1 d"] by (intro length_filter_dict_set) auto
  ultimately show ?thesis by simp
qed

abbreviation copy_of :: "string \<Rightarrow> string \<Rightarrow> nat \<Rightarrow> crd" where
  "copy_of ns i n \<equiv> cleanup_copy i (smoke_kill_body ''cleanup test'' ns i) n"

definition copy_key :: "string \<Rightarrow> string \<Rightarrow> nat \<Rightarrow> crd_key" where
  "copy_key ns i n = Crd_key chaos_mesh_api ''PodChaos'' ns (''cleanup-'' @ nat_str n @ ''-'' @ last_chars 8 i)"

lemma copy_fields [simp]:
  "crd_key_of (copy_of ns i n) = copy_key ns i n" "cr_status (copy_of ns i n) = None"
  "has_labels (experiment_label i) (copy_of ns i n)"
  "cr_api_version (copy_of ns i n) = chaos_mesh_api" "cr_kind (copy_of ns i n) = ''PodChaos''"
  "cr_namespace (copy_of ns i n) = ns"
  by (simp_all add: crd_key_of_def cleanup_copy_def smoke_kill_body_def body_with_def copy_key_def has_labels_def
      common_labels_def experiment_label_def smoke_context_def dict_get_Cons)

lemma copy_keys_distinct: "distinct [copy_key ns i 0, copy_key ns i 1, copy_key ns i 2]"
proof -
  have "nat_str 0 = ''0''" "nat_str 1 = ''1''" "nat_str 2 = ''2''" by code_simp+
  then show ?thesis by (simp add: copy_key_def)
qed

definition copy_status :: "crd \<Rightarrow> crd" where
  "copy_status b = b\<lparr>cr_status := Some default_status\<rparr>"

lemma copies_applied:
  assumes "hookless c"
  shows "\<exists>c'. apply_all fake_io (map (copy_of ns i) [0, 1, 2]) c = (Inr (), c') \<and> hookless c' \<and>
    fk_resources c' = dict_set (copy_key ns i 2) (copy_status (copy_of ns i 2))
      (dict_set (copy_key ns i 1) (copy_status (copy_of ns i 1))
        (dict_set (copy_key ns i 0) (copy_status (copy_of ns i 0)) (fk_resources c)))"
proof -
  have step: "\<exists>c'. ci_apply fake_io (copy_of ns i n) d = (Inr (copy_status (copy_of ns i n)), c') \<and> hookless c' \<and>
      fk_resources c' = dict_set (copy_key ns i n) (copy_status (copy_of ns i n)) (fk_resources d)" if h: "hookless d" for n d
  proof -
    obtain r d' where a: "ci_apply fake_io (copy_of ns i n) d = (Inr r, d')" "hookless d'"
      using calm.applied [OF h] by blast
    have "fk_apply_hook d = None" using h by (simp add: hookless_def)
    with a show ?thesis by (auto simp: fake_io_def fake_apply_def Let_def copy_status_def)
  qed
  obtain c1 where 1: "ci_apply fake_io (copy_of ns i 0) c = (Inr (copy_status (copy_of ns i 0)), c1)" "hookless c1"
      "fk_resources c1 = dict_set (copy_key ns i 0) (copy_status (copy_of ns i 0)) (fk_resources c)"
    using step [OF assms] by blast
  obtain c2 where 2: "ci_apply fake_io (copy_of ns i 1) c1 = (Inr (copy_status (copy_of ns i 1)), c2)" "hookless c2"
      "fk_resources c2 = dict_set (copy_key ns i 1) (copy_status (copy_of ns i 1)) (fk_resources c1)"
    using step [OF 1(2)] by blast
  obtain c3 where 3: "ci_apply fake_io (copy_of ns i 2) c2 = (Inr (copy_status (copy_of ns i 2)), c3)" "hookless c3"
      "fk_resources c3 = dict_set (copy_key ns i 2) (copy_status (copy_of ns i 2)) (fk_resources c2)"
    using step [OF 2(2)] by blast
  show ?thesis using 1 2 3 by (intro exI [of _ c3]) simp
qed

lemma copies_found:
  assumes "hookless c" "\<And>k. \<not> traces ns i c k"
    and "fk_resources c' = dict_set (copy_key ns i 2) (copy_status (copy_of ns i 2))
      (dict_set (copy_key ns i 1) (copy_status (copy_of ns i 1))
        (dict_set (copy_key ns i 0) (copy_status (copy_of ns i 0)) (fk_resources c)))"
  shows "\<exists>rs. list_pod_chaos fake_io ns i c' = (Inr rs, c') \<and> length rs = 3"
proof -
  let ?P = "\<lambda>(k, r). key_matches chaos_mesh_api ''PodChaos'' ns k \<and> has_labels (experiment_label i) r"
  have found: "list_pod_chaos fake_io ns i d = (Inr (map snd (filter ?P (fk_resources d))), d)" for d
    by (simp add: list_pod_chaos_def fake_io_def fake_list_def)
  have none: "filter ?P (fk_resources c) = []" using no_traces_listed [OF assms(1,2)] found [of c] by simp
  have p: "?P (copy_key ns i n, copy_status (copy_of ns i n))" for n
    using copy_fields(3) [of i ns n] by (simp add: key_matches_def copy_key_def copy_status_def has_labels_def)
  show ?thesis
    using three_found [of ?P, OF none copy_keys_distinct p p p] found [of c'] assms(3) by simp
qed

interpretation cw: chaos_world fake_io "\<lambda>c k. dict_get (fk_resources c) k" hookless "fake_agent sl fr"
  for sl fr
  by unfold_locales (simp_all add: fake_agent_fields)

definition copy_keys :: "string \<Rightarrow> string \<Rightarrow> crd_key set" where
  "copy_keys ns i = {copy_key ns i 0, copy_key ns i 1, copy_key ns i 2}"

lemma cleanup_passes:
  assumes "hookless c" "\<And>k. \<not> traces ns i c k" "experiment_id_ok i"
  shows "\<exists>c'. cleanup_steps (still_env answer fr) fake_io i ns c = Some (Inr 0, c') \<and> (\<forall>k. \<not> traces ns i c' k) \<and>
    (\<forall>k. dict_get (fk_resources c') k = (if k \<in> copy_keys ns i then None else dict_get (fk_resources c) k))"
proof -
  let ?p = "smoke_cleanup_plan i (smoke_safety ns ''kind-chaos-dev'') 0"
  let ?ag = "fake_agent (\<lambda>n. Inr ()) fr"
  have ok: "experiment_plan_ok ?p" using smoke_plan_ok [OF assms(3)] by (simp add: smoke_cleanup_plan_def)
  have r: "render fr (smoke_fault ''cleanup test'') \<lparr>rx_namespace = ns, rx_experiment_id = i\<rparr> =
      Inr (smoke_kill_body ''cleanup test'' ns i)"
    using smoke_render by (simp add: smoke_context_def)
  obtain c1 where c1: "apply_all fake_io (map (copy_of ns i) [0, 1, 2]) c = (Inr (), c1)" "hookless c1"
      "fk_resources c1 = dict_set (copy_key ns i 2) (copy_status (copy_of ns i 2))
        (dict_set (copy_key ns i 1) (copy_status (copy_of ns i 1))
          (dict_set (copy_key ns i 0) (copy_status (copy_of ns i 0)) (fk_resources c)))"
    using copies_applied [OF assms(1)] by blast
  obtain rs where rs: "list_pod_chaos fake_io ns i c1 = (Inr rs, c1)" "length rs = 3"
    using copies_found [OF assms(1,2) c1(3)] by blast
  obtain x b c2 where sw: "sweep fake_io ?p c1 = (x, b, c2)" by (metis prod_cases3)
  have b: "x = None" "b = True" using fake_sweep_kinds [OF sw [unfolded sweep_def]] by simp_all
  have v: "dict_get (fk_resources c2) k = dict_get (fk_resources c1) k \<or> dict_get (fk_resources c2) k = None \<and>
        (\<exists>r. dict_get (fk_resources c1) k = Some r \<and> swept ?p chaos_mesh_kinds r)"
      "dict_get (fk_resources c2) k = Some r \<Longrightarrow> \<not> swept ?p chaos_mesh_kinds r" for k r
    using cw.sweep_view [OF sw c1(2)] b by auto
  have cl: "chaos_cleanup ?ag ?p c1 = (Inr (), c2)"
    using sw b by (simp add: chaos_cleanup_def fake_agent_fields)
  have h2: "hookless c2" using cw.sweep_view [OF sw c1(2)] by blast
  have sp: "swept ?p chaos_mesh_kinds r \<longleftrightarrow> swept (smoke_plan i ns ''kind-chaos-dev'' 0) chaos_mesh_kinds r" for r
    by (simp add: smoke_cleanup_plan_def smoke_plan_def swept_smoke)
  have gone: "\<not> traces ns i c2 k" for k using v(2) by (auto simp: traces_def sp)
  have copy_swept: "swept ?p chaos_mesh_kinds (copy_status (copy_of ns i n))" for n
  proof -
    have "''PodChaos'' \<in> set chaos_mesh_kinds" by (simp add: chaos_mesh_kinds_def)
    with copy_fields(3) [of i ns n] show ?thesis
      by (simp add: smoke_cleanup_plan_def swept_smoke copy_status_def has_labels_def)
  qed
  have seen: "dict_get (fk_resources c2) k = (if k \<in> copy_keys ns i then None else dict_get (fk_resources c) k)" for k
  proof (cases "k \<in> copy_keys ns i")
    case True
    have "dict_get (fk_resources c1) k = Some (copy_status (copy_of ns i
        (if k = copy_key ns i 2 then 2 else if k = copy_key ns i 1 then 1 else 0)))"
      using True c1(3) by (simp add: copy_keys_def dict_get_set) blast
    then obtain n where "dict_get (fk_resources c1) k = Some (copy_status (copy_of ns i n))" by blast
    then show ?thesis using v(1) [of k] v(2) [of k "copy_status (copy_of ns i n)"] copy_swept [of n] True by auto
  next
    case False
    then have "dict_get (fk_resources c1) k = dict_get (fk_resources c) k"
      using c1(3) by (simp add: copy_keys_def dict_get_set)
    then show ?thesis using v(1) [of k] assms(2) [of k] False by (auto simp: traces_def sp)
  qed
  have "poll_for (still_env answer fr) (list_pod_chaos fake_io ns i) 60 None c2 = Some (Inr (Some []), c2)"
    by (rule still_poll) (simp_all add: no_traces_listed [OF h2 gone])
  then have "cleanup_steps (still_env answer fr) fake_io i ns c = Some (Inr 0, c2)"
    using ok r c1(1) rs cl by (simp add: cleanup_steps_def Let_def still_agent)
  with gone seen show ?thesis by blast
qed

section \<open>The whole test\<close>

definition kill_key :: "string \<Rightarrow> string \<Rightarrow> crd_key" where
  "kill_key ns i = crd_key_of (smoke_kill_body ''agent smoke test'' ns i)"

lemma steps_pass:
  assumes "hookless c" "\<And>k. \<not> traces ns i c k" "\<And>k. \<not> traces ns i2 c k" "experiment_id_ok i" "experiment_id_ok i2"
  shows "\<exists>c'. agent_smoke_steps (still_env answer fr) fake_io i i2 ns c = Some (Inr 0, c') \<and>
    (\<forall>k. dict_get (fk_resources c') k =
      (if k = kill_key ns i \<or> k \<in> copy_keys ns i2 then None else dict_get (fk_resources c) k))"
proof -
  let ?ag = "fake_agent (\<lambda>n. Inr ()) fr"
  let ?p = "smoke_plan i ns ''kind-chaos-dev'' 0"
  have ok: "experiment_plan_ok ?p" using smoke_plan_ok [OF assms(4)] by (simp add: smoke_plan_def)
  obtain t c1 where ex: "chaos_execute ?ag ?p c = (Inr t, c1)" "ct_success t"
      "{TE_scheduled, TE_started, TE_cleaned_up} \<subseteq> set (map te_event (ct_events t))" "fk_apply_hook c1 = None"
    using smoke_executes assms(1) unfolding hookless_def by metis
  have keys: "body_keys fr \<lparr>rx_namespace = ns, rx_experiment_id = i\<rparr> (ep_faults ?p) = {kill_key ns i}"
    using smoke_render [of fr "''agent smoke test''" ns i]
    by (auto simp: body_keys_def smoke_plan_def kill_key_def smoke_context_def)
  have v: "hookless c1" "dict_get (fk_resources c1) k = (if k = kill_key ns i then None else dict_get (fk_resources c) k)" for k
    using cw.execute_success_view [OF ex(1,2) assms(1)] keys by (simp_all add: fake_agent_fields smoke_plan_def)
  have no: "\<not> traces ns j c1 k" if "\<And>k. \<not> traces ns j c k" for j k
    using that [of k] v(2) [of k] by (auto simp: traces_def split: if_splits)
  have polled: "poll_for (still_env answer fr) (list_pod_chaos fake_io ns i) 60 (Some []) c1 = Some (Inr (Some []), c1)"
    by (rule still_poll) (simp_all add: no_traces_listed [OF v(1) no [OF assms(2)]])
  obtain c2 where c2: "cleanup_steps (still_env answer fr) fake_io i2 ns c1 = Some (Inr 0, c2)"
      "\<forall>k. dict_get (fk_resources c2) k = (if k \<in> copy_keys ns i2 then None else dict_get (fk_resources c1) k)"
    using cleanup_passes [OF v(1) no [OF assms(3)] assms(5)] by blast
  have "agent_smoke_steps (still_env answer fr) fake_io i i2 ns c = Some (Inr 0, c2)"
    using ok ex polled c2(1) by (simp add: agent_smoke_steps_def Let_def still_agent)
  with c2(2) v(2) show ?thesis by auto
qed

section \<open>What a status of 0 says\<close>

lemma poll_gone_seen:
  "poll_gone lv ls d seen e = Some (Inr (Some []), e') \<Longrightarrow> seen = Some [] \<or> (\<exists>e1 e2. ls e1 = (Inr [], e2))"
proof -
  have "fst y = Inr (Some []) \<longrightarrow> seen = Some [] \<or> (\<exists>e1 e2. ls e1 = (Inr [], e2))"
    if "poll_gone lv ls d seen e = Some y" for y
    using that
  proof (induction lv ls d seen e y rule: poll_gone.raw_induct [rotated 1, consumes 1])
    case (1 f lv ls d seen e y)
    note step = 1(1) and run = 1(2)
    obtain t e1 where t: "lv_clock lv e = (t, e1)" by fastforce
    obtain q e2 where q: "ls e1 = (q, e2)" by fastforce
    show ?case
    proof (cases "t < d \<and> (\<exists>rs. q = Inr rs \<and> rs \<noteq> [])")
      case True
      then consider rs u e3 where "rs \<noteq> []" "lv_sleep lv 1 e2 = (Inr u, e3)" "f lv ls d (Some rs) e3 = Some y"
        | x where "fst y = Inl x"
        using run t q by (auto split: prod.splits sum.splits)
      then show ?thesis
      proof cases
        case (1 rs u e3)
        from step [OF 1(3)] 1(1) show ?thesis by auto
      qed auto
    next
      case False
      then show ?thesis using run t q by (auto split: prod.splits sum.splits list.splits if_splits)
    qed
  qed
  then show "poll_gone lv ls d seen e = Some (Inr (Some []), e') \<Longrightarrow> seen = Some [] \<or> (\<exists>e1 e2. ls e1 = (Inr [], e2))"
    by fastforce
qed

text \<open>What was seen to happen before a status of 0: the execution succeeded with its three kinds of events, the three
  applied copies were listed by their label, the cleanup returned and a listing after it found nothing.\<close>

definition seen_working :: "'e live_env \<Rightarrow> 'e cluster_io \<Rightarrow> string \<Rightarrow> string \<Rightarrow> string \<Rightarrow> bool" where
  "seen_working lv io i i2 ns \<longleftrightarrow>
     (\<exists>now e0 t e1. chaos_execute (live_agent lv io) (smoke_plan i ns (lv_context lv) now) e0 = (Inr t, e1) \<and>
        ct_success t \<and> {TE_scheduled, TE_started, TE_cleaned_up} \<subseteq> set (map te_event (ct_events t))) \<and>
     (\<exists>now e0 before e1 e2. list_pod_chaos io ns i2 e0 = (Inr before, e1) \<and> length before = 3 \<and>
        chaos_cleanup (live_agent lv io) (smoke_cleanup_plan i2 (smoke_safety ns (lv_context lv)) now) e1 = (Inr (), e2)) \<and>
     (\<exists>e0 e1. list_pod_chaos io ns i2 e0 = (Inr [], e1))"

lemma go_on_Inr:
  "go_on r k = Some (Inr v, e') \<longleftrightarrow> (\<exists>u e. r = Some (Inr u, e) \<and> k u e = Some (Inr v, e'))"
  by (auto simp: go_on_def split: option.splits sum.splits prod.splits)

lemma with_teardown_Inr: "with_teardown steps cleaning e = Some (Inr v, e') \<Longrightarrow> \<exists>e1. steps e = Some (Inr v, e1)"
  by (auto simp: with_teardown_def split: option.splits prod.splits sum.splits)

lemma cleanup_steps_seen:
  assumes "cleanup_steps lv io i ns e = Some (Inr 0, e')"
  shows "(\<exists>now e0 before e1 e2. list_pod_chaos io ns i e0 = (Inr before, e1) \<and> length before = 3 \<and>
        chaos_cleanup (live_agent lv io) (smoke_cleanup_plan i (smoke_safety ns (lv_context lv)) now) e1 = (Inr (), e2)) \<and>
     (\<exists>e0 e1. list_pod_chaos io ns i e0 = (Inr [], e1))"
proof -
  obtain e0 before e1 e2 e3 where c: "list_pod_chaos io ns i e0 = (Inr before, e1)" "length before = 3"
      "chaos_cleanup (live_agent lv io) (smoke_cleanup_plan i (smoke_safety ns (lv_context lv)) (lv_now lv e)) e1 = (Inr (), e2)"
      "poll_for lv (list_pod_chaos io ns i) 60 None e2 = Some (Inr (Some []), e3)"
    using assms by (auto simp: cleanup_steps_def Let_def go_on_Inr split: if_splits sum.splits option.splits)
  then have "\<exists>e0 e1. list_pod_chaos io ns i e0 = (Inr [], e1)"
    by (auto simp: poll_for_def split: prod.splits dest: poll_gone_seen)
  with c show ?thesis by blast
qed

lemma agent_smoke_seen:
  assumes "agent_smoke lv io i i2 ns e = Some (Inr 0, e')"
  shows "seen_working lv io i i2 ns"
proof -
  obtain e1 where "with_teardown (agent_smoke_steps lv io i i2 ns) (tear_down lv ns ''smoketarget-agent'') e1 = Some (Inr 0, e')"
    using assms unfolding agent_smoke_def go_on_Inr by (elim exE conjE) (rule that)
  from with_teardown_Inr [OF this] obtain e2 where "agent_smoke_steps lv io i i2 ns e1 = Some (Inr 0, e2)" ..
  note steps = this [unfolded agent_smoke_steps_def Let_def]
  let ?p = "smoke_plan i ns (lv_context lv) (lv_now lv e1)"
  from steps have "experiment_plan_ok ?p" by (rule contrapos_pp) simp
  with steps obtain t e3 where t: "chaos_execute (live_agent lv io) ?p e1 = (Inr t, e3)"
    and k: "(if \<not> ct_success t then Some (Inr 1, e3)
        else if \<not> {TE_scheduled, TE_started, TE_cleaned_up} \<subseteq> set (map te_event (ct_events t)) then Some (Inr 1, e3)
        else go_on (poll_for lv (list_pod_chaos io ns i) 60 (Some []) e3) (\<lambda>listed e.
          if listed \<noteq> Some [] then Some (Inr 1, e) else cleanup_steps lv io i2 ns e)) = Some (Inr (0 :: int), e2)"
    by (simp only: go_on_Inr if_False not_True_eq_False option.inject prod.inject) blast
  from k have ok: "ct_success t" "{TE_scheduled, TE_started, TE_cleaned_up} \<subseteq> set (map te_event (ct_events t))"
    by (auto split: if_splits)
  with k have "go_on (poll_for lv (list_pod_chaos io ns i) 60 (Some []) e3) (\<lambda>listed e.
      if listed \<noteq> Some [] then Some (Inr 1, e) else cleanup_steps lv io i2 ns e) = Some (Inr 0, e2)"
    by (simp only: if_False not_True_eq_False)
  then obtain listed :: "crd list option" and e4 where "(if listed \<noteq> Some [] then Some (Inr 1, e4) else cleanup_steps lv io i2 ns e4) = Some (Inr 0, e2)"
    unfolding go_on_Inr by (elim exE conjE) (rule that)
  then have "cleanup_steps lv io i2 ns e4 = Some (Inr 0, e2)" by (simp split: if_splits)
  from cleanup_steps_seen [OF this] t ok show ?thesis unfolding seen_working_def by blast
qed



end
