(* ===== verification/Attacker_Firmware.thy ===== *)
theory Attacker_Firmware
  imports Chaos_Prelude "HOL-Library.Word"
begin

text \<open>
  The attack device of the bench, \<open>firmware/chaos-attacker-esp32/src/main.cpp\<close>: the line reader of the serial port, the
  command handlers over their table of four faults, and the expiry of faults by the millisecond clock, which is
  an unsigned 32-bit counter and wraps. The JSON library and the compile-time constants are the record \<open>build\<close>. The
  pin that selects bench mode and the clock are fields of the state, which the device only reads. The handle
  counter is a number: incrementing an \<open>int\<close> beyond \<open>2 ^ 31 - 1\<close> is undefined in C++, and the theorems that need
  distinct handles say how many injections they allow.
\<close>

section \<open>State\<close>

record active_fault =
  af_in_use :: bool
  af_handle :: string
  af_fault_name :: string
  af_started_ms :: "32 word"
  af_duration_ms :: "32 word"

record firmware =
  fw_active :: "active_fault list"
  fw_next_handle :: nat
  fw_line :: string
  fw_pin_high :: bool
  fw_millis :: "32 word"

record build =
  bd_firmware_version :: string
  bd_device_serial :: string
  bd_hardware_rev :: string
  bd_max_tx_dbm :: int
  bd_deserialize :: "string \<Rightarrow> pyval option"
  bd_serialize :: "pyval \<Rightarrow> string"

definition max_line_len :: nat where "max_line_len = 512"

definition max_active_faults :: nat where "max_active_faults = 4"

definition free_fault :: active_fault where
  "free_fault = \<lparr>af_in_use = False, af_handle = [], af_fault_name = [], af_started_ms = 0, af_duration_ms = 0\<rparr>"

definition boot :: "bool \<Rightarrow> firmware" where
  "boot pin = \<lparr>fw_active = replicate max_active_faults free_fault, fw_next_handle = 0, fw_line = [], fw_pin_high = pin,
     fw_millis = 0\<rparr>"

definition banner :: string where "banner = ''# chaos-attacker-esp32 ready''"

section \<open>Commands\<close>

text \<open>\<open>doc[key]\<close> is null where there is no such member; \<open>value | default\<close> is the default for a value of another type.\<close>

fun json_member :: "pyval \<Rightarrow> string \<Rightarrow> pyval" where
  "json_member (PDict d) k = (case dict_get d k of Some v \<Rightarrow> v | None \<Rightarrow> PNone)"
| "json_member v k = PNone"

fun str_or :: "pyval \<Rightarrow> string \<Rightarrow> string" where
  "str_or (PStr s) dflt = s"
| "str_or v dflt = dflt"

fun c_int_or :: "pyval \<Rightarrow> int \<Rightarrow> int" where
  "c_int_or (PInt i) dflt = (if - (2 ^ 31) \<le> i \<and> i < 2 ^ 31 then i else dflt)"
| "c_int_or v dflt = dflt"

definition error_reply :: "string \<Rightarrow> pyval" where
  "error_reply m = PDict [(''ok'', PBool False), (''error'', PStr m)]"

definition ok_reply :: "(string, pyval) dict \<Rightarrow> pyval" where
  "ok_reply d = PDict ((''ok'', PBool True) # d)"

definition handle_info :: "build \<Rightarrow> firmware \<Rightarrow> pyval" where
  "handle_info b fw =
     ok_reply [(''firmware'', PStr (bd_firmware_version b)), (''serial'', PStr (bd_device_serial b)),
       (''hardware'', PStr (bd_hardware_rev b)),
       (''mode'', PStr (if fw_pin_high fw then ''BENCH'' else ''PRODUCTION''))]"

fun find_slot :: "(active_fault \<Rightarrow> bool) \<Rightarrow> active_fault list \<Rightarrow> nat option" where
  "find_slot ok [] = None"
| "find_slot ok (f # fs) = (if ok f then Some 0 else map_option Suc (find_slot ok fs))"

definition emitted_faults :: "string list" where
  "emitted_faults = [''wifi.deauth'', ''wifi.jam'', ''ble.advertising_flood'', ''lora.jam'']"

text \<open>\<open>h-%05d\<close>; the buffer of 16 characters holds it for every \<open>int\<close>.\<close>

definition fw_handle :: "nat \<Rightarrow> string" where
  "fw_handle k = ''h-'' @ replicate (5 - length (nat_str k)) (CHR ''0'') @ nat_str k"

definition handle_inject :: "build \<Rightarrow> pyval \<Rightarrow> firmware \<Rightarrow> pyval \<times> firmware" where
  "handle_inject b req fw =
     (let fault = str_or (json_member req ''fault'') [];
          duration_s = c_int_or (json_member req ''duration_seconds'') 0;
          power = c_int_or (json_member (json_member req ''params'') ''power_dbm'') 0 in
      if \<not> fw_pin_high fw then (error_reply ''production-mode: chaos commands disabled'', fw)
      else if duration_s \<le> 0 \<or> duration_s > 600 then (error_reply ''duration_seconds must be 1..600'', fw)
      else (case find_slot (\<lambda>f. \<not> af_in_use f) (fw_active fw) of
          None \<Rightarrow> (error_reply ''max active faults reached'', fw)
        | Some i \<Rightarrow>
            (if fault \<notin> set emitted_faults then (error_reply ''unknown fault'', fw)
             else (let k = fw_next_handle fw + 1 in
               (ok_reply ((''handle'', PStr (fw_handle k)) #
                  (if power > bd_max_tx_dbm b then [(''clamped'', PBool True)] else [])),
                fw\<lparr>fw_next_handle := k,
                   fw_active := (fw_active fw)[i :=
                     \<lparr>af_in_use = True, af_handle = fw_handle k, af_fault_name = take 39 fault,
                      af_started_ms = fw_millis fw, af_duration_ms = of_int duration_s * 1000\<rparr>]\<rparr>)))))"

definition release :: "active_fault \<Rightarrow> active_fault" where
  "release f = f\<lparr>af_in_use := False\<rparr>"

definition handle_cleanup :: "pyval \<Rightarrow> firmware \<Rightarrow> pyval \<times> firmware" where
  "handle_cleanup req fw =
     (let h = str_or (json_member req ''handle'') [] in
      case find_slot (\<lambda>f. af_in_use f \<and> af_handle f = h) (fw_active fw) of
        Some i \<Rightarrow> (ok_reply [], fw\<lparr>fw_active := (fw_active fw)[i := release (fw_active fw ! i)]\<rparr>)
      | None \<Rightarrow> (error_reply ''handle already gone'', fw))"

definition handle_reset :: "firmware \<Rightarrow> pyval \<times> firmware" where
  "handle_reset fw = (ok_reply [], fw\<lparr>fw_active := map release (fw_active fw)\<rparr>)"

definition process_line :: "build \<Rightarrow> string \<Rightarrow> firmware \<Rightarrow> pyval \<times> firmware" where
  "process_line b line fw =
     (case bd_deserialize b line of
        None \<Rightarrow> (error_reply ''bad json'', fw)
      | Some req \<Rightarrow>
          (let cmd = str_or (json_member req ''cmd'') [] in
           if cmd = ''info'' then (handle_info b fw, fw)
           else if cmd = ''inject'' then handle_inject b req fw
           else if cmd = ''cleanup'' then handle_cleanup req fw
           else if cmd = ''reset'' then handle_reset fw
           else (error_reply ''unknown cmd'', fw)))"

section \<open>Expiry\<close>

definition expire :: "32 word \<Rightarrow> active_fault \<Rightarrow> active_fault" where
  "expire now f = (if af_in_use f \<and> af_duration_ms f \<le> now - af_started_ms f then release f else f)"

definition poll_expirations :: "firmware \<Rightarrow> firmware" where
  "poll_expirations fw = fw\<lparr>fw_active := map (expire (fw_millis fw)) (fw_active fw)\<rparr>"

section \<open>The line reader\<close>

text \<open>Skipping ends at a newline or where the bytes that have arrived end.\<close>

fun skip_line :: "string \<Rightarrow> string" where
  "skip_line [] = []"
| "skip_line (c # cs) = (if c = newline then cs else skip_line cs)"

lemma skip_line_length: "length (skip_line cs) \<le> length cs"
  by (induction cs) auto

definition end_line :: "build \<Rightarrow> firmware \<Rightarrow> string list \<times> firmware" where
  "end_line b fw =
     (if fw_line fw = [] then ([], fw)
      else (case process_line b (fw_line fw) fw of (r, fw') \<Rightarrow> ([bd_serialize b r], fw'\<lparr>fw_line := []\<rparr>)))"

function read_bytes :: "build \<Rightarrow> string \<Rightarrow> firmware \<Rightarrow> string list \<times> firmware" where
  "read_bytes b [] fw = ([], fw)"
| "read_bytes b (c # cs) fw =
     (if c = CHR 0x0D then read_bytes b cs fw
      else if c = newline
      then (case end_line b fw of (rs, fw1) \<Rightarrow>
              (case read_bytes b cs fw1 of (rs', fw2) \<Rightarrow> (rs @ rs', fw2)))
      else if length (fw_line fw) < max_line_len - 1 then read_bytes b cs (fw\<lparr>fw_line := fw_line fw @ [c]\<rparr>)
      else (case read_bytes b (skip_line cs) (fw\<lparr>fw_line := []\<rparr>) of (rs, fw1) \<Rightarrow>
              (bd_serialize b (error_reply ''line too long'') # rs, fw1)))"
  by pat_completeness auto
termination
  by (relation "measure (\<lambda>(b, cs, fw). length cs)") (auto simp: le_imp_less_Suc skip_line_length)

text \<open>One turn of \<open>loop\<close> over the bytes that are available.\<close>

definition loop_once :: "build \<Rightarrow> string \<Rightarrow> firmware \<Rightarrow> string list \<times> firmware" where
  "loop_once b available fw = (case read_bytes b available fw of (rs, fw1) \<Rightarrow> (rs, poll_expirations fw1))"

end
