(* ===== verification/Attacker_Firmware_Props.thy ===== *)
theory Attacker_Firmware_Props
  imports Attacker_Firmware
begin

text \<open>
  What the attack device promises: exactly one reply for every line it is sent, handles that stay distinct, nothing
  started outside bench mode, and the expiry of every fault at its duration, also when the millisecond counter wraps.
\<close>

section \<open>Handles\<close>

lemma digits_val_append: "digits_val (s @ [c]) = digits_val s * 10 + (of_char c - 48)"
  by (simp add: digits_val_def)

lemma digits_val_nat_str: "digits_val (nat_str n) = int n"
proof (induction n rule: nat_str.induct)
  case (1 n)
  have d: "(of_char (digit_char m) :: int) - 48 = int m" if "m < 10" for m
  proof -
    have "int (of_char (digit_char m)) = int (48 + m)"
      using that by (simp only: digit_char_def of_char_of) simp
    then show ?thesis by (simp add: of_nat_of_char)
  qed
  show ?case
  proof (cases "n < 10")
    case True
    with d show ?thesis by (subst nat_str.simps) (simp add: digits_val_def)
  next
    case False
    with 1 d [of "n mod 10"] show ?thesis
      by (subst nat_str.simps) (simp add: digits_val_append, presburger)
  qed
qed

lemma digits_val_zeros: "digits_val (replicate m (CHR ''0'') @ s) = digits_val s"
proof (induction m)
  case (Suc m)
  have "digits_val (CHR ''0'' # t) = digits_val t" for t by (simp add: digits_val_def)
  with Suc show ?case by simp
qed simp

lemma fw_handle_inject: "fw_handle j = fw_handle k \<longleftrightarrow> j = k"
  by (metis append_same_eq fw_handle_def digits_val_nat_str digits_val_zeros of_nat_eq_iff same_append_eq)

section \<open>The table of faults\<close>

text \<open>What is in force under a handle: the first entry in use.\<close>

primrec table :: "active_fault list \<Rightarrow> string \<Rightarrow> string option" where
  "table [] h = None"
| "table (f # fs) h = (if af_in_use f \<and> af_handle f = h then Some (af_fault_name f) else table fs h)"

definition handles_in_use :: "active_fault list \<Rightarrow> string list" where
  "handles_in_use fs = map af_handle (filter af_in_use fs)"

lemma handles_in_use_simps [simp]:
  "handles_in_use [] = []"
  "handles_in_use (f # fs) = (if af_in_use f then af_handle f # handles_in_use fs else handles_in_use fs)"
  by (simp_all add: handles_in_use_def)

lemma table_None_iff: "table fs h = None \<longleftrightarrow> h \<notin> set (handles_in_use fs)"
  by (induction fs) auto

lemma release_simps [simp]:
  "af_in_use (release f) = False" "af_handle (release f) = af_handle f" "af_duration_ms (release f) = af_duration_ms f"
  "af_started_ms (release f) = af_started_ms f"
  by (simp_all add: release_def)

definition releases :: "active_fault list \<Rightarrow> active_fault list \<Rightarrow> bool" where
  "releases = list_all2 (\<lambda>f g. g = f \<or> g = release f)"

lemma releases_refl [simp]: "releases fs fs"
  by (simp add: releases_def list_all2_refl)

lemma releases_map: "(\<And>f. g f = f \<or> g f = release f) \<Longrightarrow> releases fs (map g fs)"
  by (simp add: releases_def list_all2_conv_all_nth)

lemma releases_update: "releases fs (fs[i := release (fs ! i)])"
  by (cases "i < length fs") (auto simp: releases_def list_all2_conv_all_nth nth_list_update)

lemma releases_handles: "releases fs gs \<Longrightarrow> set (handles_in_use gs) \<subseteq> set (handles_in_use fs)"
  unfolding releases_def by (induction rule: list_all2_induct) auto

lemma releases_distinct: "releases fs gs \<Longrightarrow> distinct (handles_in_use fs) \<Longrightarrow> distinct (handles_in_use gs)"
  unfolding releases_def
proof (induction rule: list_all2_induct)
  case (Cons f fs g gs)
  then have "set (handles_in_use gs) \<subseteq> set (handles_in_use fs)"
    using releases_handles by (simp add: releases_def)
  with Cons show ?case by (auto split: if_splits)
qed simp

lemma releases_table:
  "releases fs gs \<Longrightarrow> distinct (handles_in_use fs) \<Longrightarrow> table gs h = table fs h \<or> table gs h = None"
  unfolding releases_def
proof (induction rule: list_all2_induct)
  case (Cons f fs g gs)
  have s: "set (handles_in_use gs) \<subseteq> set (handles_in_use fs)"
    using Cons(2) releases_handles by (simp add: releases_def)
  show ?case
  proof (cases "af_in_use f \<and> af_handle f = h")
    case True
    then have "table gs h = None" using s Cons.prems by (auto simp: table_None_iff)
    with True Cons(1) show ?thesis by auto
  next
    case False
    with Cons show ?thesis by (auto split: if_splits)
  qed
qed simp

lemma expire_releases: "releases fs (map (expire now) fs)"
  by (rule releases_map) (simp add: expire_def)

section \<open>Invariant\<close>

definition wf_firmware :: "firmware \<Rightarrow> bool" where
  "wf_firmware fw \<longleftrightarrow>
     length (fw_active fw) = max_active_faults \<and> distinct (handles_in_use (fw_active fw)) \<and>
     (\<forall>h \<in> set (handles_in_use (fw_active fw)). \<exists>k \<le> fw_next_handle fw. h = fw_handle k) \<and>
     (\<forall>f \<in> set (fw_active fw). af_in_use f \<longrightarrow> 1000 \<le> af_duration_ms f \<and> af_duration_ms f \<le> 600000)"

lemma wf_boot: "wf_firmware (boot pin)"
  by (simp add: wf_firmware_def boot_def max_active_faults_def free_fault_def numeral_eq_Suc)

lemma releases_wf:
  assumes "wf_firmware fw" "releases (fw_active fw) gs" "fw_active fw' = gs" "fw_next_handle fw' = fw_next_handle fw"
  shows "wf_firmware fw'"
proof -
  have "length gs = length (fw_active fw)" using assms(2) by (auto simp: releases_def list_all2_lengthD)
  moreover have "1000 \<le> af_duration_ms g \<and> af_duration_ms g \<le> 600000" if g: "g \<in> set gs" "af_in_use g" for g
  proof -
    obtain i where i: "i < length gs" "gs ! i = g" using g(1) by (auto simp: in_set_conv_nth)
    then have "g = fw_active fw ! i" "i < length (fw_active fw)"
      using assms(2) g(2) by (auto simp: releases_def list_all2_conv_all_nth)
    then show ?thesis using assms(1) g(2) by (auto simp: wf_firmware_def)
  qed
  ultimately show ?thesis
    using assms releases_distinct [OF assms(2)] releases_handles [OF assms(2)] by (auto simp: wf_firmware_def)
qed

lemma find_slot_Some: "find_slot ok fs = Some i \<Longrightarrow> i < length fs \<and> ok (fs ! i)"
  by (induction fs arbitrary: i) (auto split: if_splits)

lemma find_slot_None_iff: "find_slot ok fs = None \<longleftrightarrow> (\<forall>f \<in> set fs. \<not> ok f)"
  by (induction fs) auto

lemma table_update:
  "i < length fs \<Longrightarrow> \<not> af_in_use (fs ! i) \<Longrightarrow> af_handle f \<noteq> h \<Longrightarrow> table (fs[i := f]) h = table fs h"
  by (induction fs arbitrary: i) (auto split: nat.splits)

lemma handles_update:
  "i < length fs \<Longrightarrow> \<not> af_in_use (fs ! i) \<Longrightarrow> af_in_use f \<Longrightarrow>
     set (handles_in_use (fs[i := f])) = insert (af_handle f) (set (handles_in_use fs)) \<and>
     (distinct (handles_in_use (fs[i := f])) \<longleftrightarrow>
        af_handle f \<notin> set (handles_in_use fs) \<and> distinct (handles_in_use fs))"
proof (induction fs arbitrary: i)
  case (Cons g fs)
  then show ?case by (cases i) auto
qed simp

lemma seconds_in_ms:
  assumes "0 < d" "d \<le> 600"
  shows "unat (of_int d * 1000 :: 32 word) = nat d * 1000" "1000 \<le> (of_int d * 1000 :: 32 word)"
    "(of_int d * 1000 :: 32 word) \<le> 600000"
proof -
  obtain n where n: "d = int n" "0 < n" "n \<le> 600" using assms by (cases d) auto
  have "unat (of_nat n * 1000 :: 32 word) = n * 1000"
    using n by (simp add: unat_word_ariths unat_of_nat)
  then show u: "unat (of_int d * 1000 :: 32 word) = nat d * 1000" using n by simp
  show "1000 \<le> (of_int d * 1000 :: 32 word)" "(of_int d * 1000 :: 32 word) \<le> 600000"
    using u n by (simp_all add: word_le_nat_alt)
qed

definition new_fault :: "firmware \<Rightarrow> string \<Rightarrow> int \<Rightarrow> active_fault" where
  "new_fault fw fault d =
     \<lparr>af_in_use = True, af_handle = fw_handle (fw_next_handle fw + 1), af_fault_name = take 39 fault,
      af_started_ms = fw_millis fw, af_duration_ms = of_int d * 1000\<rparr>"

definition handle_reply :: "nat \<Rightarrow> bool \<Rightarrow> pyval" where
  "handle_reply k clamped =
     ok_reply ((''handle'', PStr (fw_handle k)) # (if clamped then [(''clamped'', PBool True)] else []))"

lemma handle_inject_cases:
  assumes "handle_inject b req fw = (r, fw')"
  obtains (refused) m where "fw' = fw" "r = error_reply m"
  | (started) i d fault clamped where "fw_pin_high fw" "0 < d" "d \<le> 600"
      "find_slot (\<lambda>f. \<not> af_in_use f) (fw_active fw) = Some i" "fault \<in> set emitted_faults"
      "fault = str_or (json_member req ''fault'') []" "d = c_int_or (json_member req ''duration_seconds'') 0"
      "r = handle_reply (fw_next_handle fw + 1) clamped"
      "fw' = fw\<lparr>fw_next_handle := fw_next_handle fw + 1, fw_active := (fw_active fw)[i := new_fault fw fault d]\<rparr>"
proof -
  define fault where "fault = str_or (json_member req ''fault'') []"
  define d where "d = c_int_or (json_member req ''duration_seconds'') 0"
  define power where "power = c_int_or (json_member (json_member req ''params'') ''power_dbm'') 0"
  note a = assms [unfolded handle_inject_def Let_def, folded fault_def d_def power_def]
  show ?thesis
  proof (cases "fw_pin_high fw \<and> 0 < d \<and> d \<le> 600 \<and> fault \<in> set emitted_faults")
    case False
    then have "fw' = fw \<and> (\<exists>m. r = error_reply m)"
      using a by (cases "find_slot (\<lambda>f. \<not> af_in_use f) (fw_active fw)") (auto split: if_splits)
    then show ?thesis using refused by blast
  next
    case ok: True
    show ?thesis
    proof (cases "find_slot (\<lambda>f. \<not> af_in_use f) (fw_active fw)")
      case None
      with ok a have "fw' = fw \<and> (\<exists>m. r = error_reply m)" by auto
      then show ?thesis using refused by blast
    next
      case (Some i)
      show ?thesis
        by (rule started [of d i fault "power > bd_max_tx_dbm b"])
          (use ok Some a in \<open>simp_all add: fault_def d_def new_fault_def handle_reply_def\<close>)
    qed
  qed
qed

lemma handle_inject_wf:
  assumes "wf_firmware fw" "handle_inject b req fw = (r, fw')"
  shows "wf_firmware fw'"
  using assms(2)
proof (cases rule: handle_inject_cases)
  case (started i d fault clamped)
  let ?k = "fw_next_handle fw + 1"
  note fi = find_slot_Some [OF started(4)]
  have new: "fw_handle ?k \<notin> set (handles_in_use (fw_active fw))"
    using assms(1) by (fastforce simp: wf_firmware_def fw_handle_inject)
  have old: "\<exists>k \<le> ?k. h = fw_handle k" if "h \<in> set (handles_in_use (fw_active fw))" for h
    using assms(1) that unfolding wf_firmware_def by (meson le_add1 le_trans)
  have h: "af_in_use (new_fault fw fault d)" "af_handle (new_fault fw fault d) = fw_handle ?k"
    "af_duration_ms (new_fault fw fault d) = of_int d * 1000" by (simp_all add: new_fault_def)
  note u = handles_update [OF fi [THEN conjunct1] _ h(1)]
  show ?thesis
    using assms(1) fi new old u h seconds_in_ms [OF started(2,3)] started(9)
    by (auto simp: wf_firmware_def dest!: set_update_subset_insert [THEN subsetD])
qed (use assms in simp)

lemma handle_inject_table:
  assumes "handle_inject b req fw = (r, fw')"
  shows "(\<exists>m. r = error_reply m) \<and> fw' = fw \<or>
    (\<exists>c. r = handle_reply (fw_next_handle fw') c) \<and> fw_next_handle fw' = fw_next_handle fw + 1 \<and>
    (\<forall>h. h \<noteq> fw_handle (fw_next_handle fw') \<longrightarrow> table (fw_active fw') h = table (fw_active fw) h)"
  using assms
proof (cases rule: handle_inject_cases)
  case (started i d fault clamped)
  note fi = find_slot_Some [OF started(4)]
  have "table (fw_active fw') h = table (fw_active fw) h" if "h \<noteq> fw_handle (fw_next_handle fw')" for h
    using table_update [of i "fw_active fw" "new_fault fw fault d" h] fi that started(9) by (simp add: new_fault_def)
  with started(8,9) show ?thesis by auto
qed auto

lemma handle_cleanup_releases:
  "handle_cleanup req fw = (r, fw') \<Longrightarrow>
     releases (fw_active fw) (fw_active fw') \<and> fw' = fw\<lparr>fw_active := fw_active fw'\<rparr>"
  by (auto simp: handle_cleanup_def Let_def releases_update split: option.splits)

lemma handle_reset_releases:
  "handle_reset fw = (r, fw') \<Longrightarrow>
     releases (fw_active fw) (fw_active fw') \<and> fw' = fw\<lparr>fw_active := fw_active fw'\<rparr>"
  by (auto simp: handle_reset_def intro: releases_map)

lemma process_line_wf:
  assumes "wf_firmware fw" "process_line b line fw = (r, fw')"
  shows "wf_firmware fw'"
proof -
  have rel: "wf_firmware fw'" if "releases (fw_active fw) (fw_active fw') \<and> fw' = fw\<lparr>fw_active := fw_active fw'\<rparr>"
    using releases_wf [OF assms(1)] that by (metis firmware.select_convs(2) firmware.surjective firmware.update_convs(1))
  show ?thesis
    using assms rel handle_inject_wf [OF assms(1)] handle_cleanup_releases handle_reset_releases
    unfolding process_line_def Let_def
    by (simp split: option.splits if_splits)
qed

lemma process_line_keeps:
  assumes "process_line b line fw = (r, fw')"
  shows "fw_line fw' = fw_line fw \<and> fw_pin_high fw' = fw_pin_high fw \<and> fw_millis fw' = fw_millis fw"
proof -
  have "fw_line fw' = fw_line fw \<and> fw_pin_high fw' = fw_pin_high fw \<and> fw_millis fw' = fw_millis fw"
    if "handle_inject b req fw = (r, fw')" for req
    using that by (cases rule: handle_inject_cases) auto
  moreover have "fw_line fw' = fw_line fw \<and> fw_pin_high fw' = fw_pin_high fw \<and> fw_millis fw' = fw_millis fw"
    if "handle_cleanup req fw = (r, fw')" for req
    using that by (auto simp: handle_cleanup_def Let_def split: option.splits)
  ultimately show ?thesis
    using assms unfolding process_line_def Let_def
    by (auto simp: handle_reset_def split: option.splits if_splits)
qed

section \<open>One reply per line\<close>

definition sendable :: "string \<Rightarrow> bool" where
  "sendable line \<longleftrightarrow> line \<noteq> [] \<and> CHR 0x0D \<notin> set line \<and> newline \<notin> set line"

lemma newline_not_cr [simp]: "newline \<noteq> CHR 0x0D"
  by (simp add: newline_def)

lemma skip_line_sent: "newline \<notin> set line \<Longrightarrow> skip_line (line @ [newline]) = []"
  by (induction line) auto

lemma read_bytes_fits:
  "CHR 0x0D \<notin> set line \<Longrightarrow> newline \<notin> set line \<Longrightarrow> length (fw_line fw) + length line < max_line_len \<Longrightarrow>
     read_bytes b (line @ [newline]) fw = end_line b (fw\<lparr>fw_line := fw_line fw @ line\<rparr>)"
proof (induction line arbitrary: fw)
  case Nil
  have "fw\<lparr>fw_line := fw_line fw\<rparr> = fw" by simp
  then show ?case by (simp split: prod.splits)
next
  case (Cons c line)
  then have "c \<noteq> CHR 0x0D" "c \<noteq> newline" "length (fw_line fw) < max_line_len - 1" by auto
  with Cons show ?case by simp
qed

lemma read_bytes_too_long:
  "CHR 0x0D \<notin> set line \<Longrightarrow> newline \<notin> set line \<Longrightarrow> length (fw_line fw) < max_line_len \<Longrightarrow>
     max_line_len \<le> length (fw_line fw) + length line \<Longrightarrow>
     read_bytes b (line @ [newline]) fw = ([bd_serialize b (error_reply ''line too long'')], fw\<lparr>fw_line := []\<rparr>)"
  by (induction line arbitrary: fw) (auto simp: skip_line_sent)

text \<open>A line that arrives whole on an empty buffer gets exactly one reply, and leaves the buffer empty.\<close>

definition device_answer :: "build \<Rightarrow> string \<Rightarrow> firmware \<Rightarrow> pyval \<times> firmware" where
  "device_answer b line fw =
     (if length line < max_line_len
      then (case process_line b line (fw\<lparr>fw_line := line\<rparr>) of (r, fw') \<Rightarrow> (r, fw'\<lparr>fw_line := []\<rparr>))
      else (error_reply ''line too long'', fw))"

theorem one_reply_per_line:
  assumes "sendable line" "fw_line fw = []"
  shows "read_bytes b (line @ [newline]) fw =
    ([bd_serialize b (fst (device_answer b line fw))], snd (device_answer b line fw))"
proof (cases "length line < max_line_len")
  case True
  with assms show ?thesis
    by (simp add: read_bytes_fits sendable_def device_answer_def end_line_def split: prod.splits)
next
  case False
  have "fw\<lparr>fw_line := []\<rparr> = fw" using assms(2) by (metis firmware.surjective firmware.update_convs(3) firmware.select_convs(3))
  with False assms show ?thesis
    by (simp add: read_bytes_too_long sendable_def device_answer_def max_line_len_def)
qed

lemma answer_wf: "wf_firmware fw \<Longrightarrow> wf_firmware (snd (device_answer b line fw))"
proof -
  assume w: "wf_firmware fw"
  have "wf_firmware (f\<lparr>fw_line := l\<rparr>) \<longleftrightarrow> wf_firmware f" for f l by (simp add: wf_firmware_def)
  with w process_line_wf [of "fw\<lparr>fw_line := line\<rparr>" b line] show ?thesis
    by (auto simp: device_answer_def split: prod.splits)
qed

lemma answer_line: "fw_line fw = [] \<Longrightarrow> fw_line (snd (device_answer b line fw)) = []"
  by (auto simp: device_answer_def split: prod.splits)

section \<open>Bench mode\<close>

text \<open>With the pin grounded no byte sequence starts a fault: what is in force only shrinks.\<close>

lemma process_line_grounded:
  assumes "\<not> fw_pin_high fw" "process_line b line fw = (r, fw')"
  shows "releases (fw_active fw) (fw_active fw')"
proof -
  have "releases (fw_active fw) (fw_active fw')" if "handle_inject b req fw = (r, fw')" for req
    using that assms(1) by (cases rule: handle_inject_cases) auto
  then show ?thesis
    using assms(2) handle_cleanup_releases handle_reset_releases unfolding process_line_def Let_def
    by (auto split: option.splits if_splits)
qed

lemma releases_trans: "releases fs gs \<Longrightarrow> releases gs hs \<Longrightarrow> releases fs hs"
proof -
  have rr: "release (release f) = release f" for f by (simp add: release_def)
  assume "releases fs gs" "releases gs hs"
  then show ?thesis unfolding releases_def
    by (rule list_all2_trans [rotated]) (auto simp: rr)
qed

theorem production_mode_inert:
  "\<not> fw_pin_high fw \<Longrightarrow> read_bytes b bytes fw = (rs, fw') \<Longrightarrow> releases (fw_active fw) (fw_active fw') \<and> \<not> fw_pin_high fw'"
proof (induction b bytes fw arbitrary: rs fw' rule: read_bytes.induct)
  case (2 b c cs fw)
  have e: "releases (fw_active fw) (fw_active fw1) \<and> \<not> fw_pin_high fw1" if "end_line b fw = (l, fw1)" for l fw1
  proof (cases "fw_line fw = []")
    case True
    with that "2.prems"(1) show ?thesis by (simp add: end_line_def)
  next
    case False
    obtain q fw2 where q: "process_line b (fw_line fw) fw = (q, fw2)" by (cases "process_line b (fw_line fw) fw")
    then have "fw1 = fw2\<lparr>fw_line := []\<rparr>" using that False by (simp add: end_line_def)
    with process_line_grounded [OF "2.prems"(1) q] process_line_keeps [OF q] "2.prems"(1) show ?thesis by simp
  qed
  obtain l fw1 where l: "end_line b fw = (l, fw1)" by (cases "end_line b fw")
  consider "c = CHR 0x0D" | "c \<noteq> CHR 0x0D" "c = newline"
    | "c \<noteq> CHR 0x0D" "c \<noteq> newline" "length (fw_line fw) < max_line_len - 1"
    | "c \<noteq> CHR 0x0D" "c \<noteq> newline" "\<not> length (fw_line fw) < max_line_len - 1" by blast
  then show ?case
  proof cases
    case 1
    have "read_bytes b cs fw = (rs, fw')" using "2.prems"(2) 1 by simp
    from "2.IH"(1) [OF 1 "2.prems"(1) this] show ?thesis .
  next
    case c: 2
    obtain l2 fw2 where l2: "read_bytes b cs fw1 = (l2, fw2)" by (cases "read_bytes b cs fw1")
    have "releases (fw_active fw1) (fw_active fw2) \<and> \<not> fw_pin_high fw2"
      using "2.IH"(2) [OF c l [symmetric] _ l2] e [OF l] by simp
    moreover have "fw' = fw2" using "2.prems"(2) c l l2 by simp
    ultimately show ?thesis using e [OF l] releases_trans by blast
  next
    case c: 3
    have "read_bytes b cs (fw\<lparr>fw_line := fw_line fw @ [c]\<rparr>) = (rs, fw')" using "2.prems"(2) c by simp
    from "2.IH"(3) [OF c _ this] "2.prems"(1) show ?thesis by simp
  next
    case c: 4
    obtain l2 fw2 where l2: "read_bytes b (skip_line cs) (fw\<lparr>fw_line := []\<rparr>) = (l2, fw2)"
      by (cases "read_bytes b (skip_line cs) (fw\<lparr>fw_line := []\<rparr>)")
    have "fw' = fw2" using "2.prems"(2) c l2 by simp
    with "2.IH"(4) [OF c _ l2] "2.prems"(1) show ?thesis by simp
  qed
qed simp

section \<open>Expiry\<close>

text \<open>The device is left alone: the clock advances by each of \<open>ds\<close> milliseconds in turn and is polled.\<close>

definition device_tick :: "nat \<Rightarrow> firmware \<Rightarrow> firmware" where
  "device_tick d fw = poll_expirations (fw\<lparr>fw_millis := fw_millis fw + of_nat d\<rparr>)"

definition pass_time :: "nat list \<Rightarrow> firmware \<Rightarrow> firmware" where
  "pass_time ds fw = fold device_tick ds fw"

lemma pass_time_simps [simp]:
  "pass_time [] fw = fw" "pass_time (d # ds) fw = pass_time ds (device_tick d fw)"
  by (simp_all add: pass_time_def)

lemma tick_releases: "releases (fw_active fw) (fw_active (device_tick d fw))"
  by (simp add: device_tick_def poll_expirations_def expire_releases)

lemma pass_time_releases: "releases (fw_active fw) (fw_active (pass_time ds fw))"
  by (induction ds arbitrary: fw) (auto intro: releases_trans tick_releases)

lemma pass_time_keeps:
  "fw_next_handle (pass_time ds fw) = fw_next_handle fw \<and> fw_line (pass_time ds fw) = fw_line fw \<and>
   fw_pin_high (pass_time ds fw) = fw_pin_high fw"
  by (induction ds arbitrary: fw) (simp_all add: device_tick_def poll_expirations_def)

lemma pass_time_wf: "wf_firmware fw \<Longrightarrow> wf_firmware (pass_time ds fw)"
  using releases_wf [OF _ pass_time_releases refl, of fw ds] pass_time_keeps by simp

text \<open>A fault is in force exactly until its duration has passed. The clock may wrap around on the way: what counts is
  the difference, and durations are below the period of the clock.\<close>

lemma elapsed_word:
  fixes start :: "32 word"
  assumes "n < 2 ^ 32"
  shows "unat (start + of_nat n - start) = n"
  using assms by (simp add: unat_of_nat take_bit_nat_eq_self)

lemma expiry_from:
  "i < length (fw_active fw) \<Longrightarrow> fw_millis fw = af_started_ms (fw_active fw ! i) + of_nat n \<Longrightarrow>
     n + sum_list ds < 2 ^ 32 \<Longrightarrow> af_in_use (fw_active fw ! i) \<Longrightarrow> n < unat (af_duration_ms (fw_active fw ! i)) \<Longrightarrow>
     af_in_use (fw_active (pass_time ds fw) ! i) \<longleftrightarrow> n + sum_list ds < unat (af_duration_ms (fw_active fw ! i))"
proof (induction ds arbitrary: fw n)
  case (Cons d ds)
  let ?f = "fw_active fw ! i" and ?now = "fw_millis fw + of_nat d"
  have now: "?now = af_started_ms ?f + of_nat (n + d)" using Cons.prems(2) by simp
  have fs: "fw_active (device_tick d fw) ! i = expire ?now ?f"
    using Cons.prems(1) by (simp add: device_tick_def poll_expirations_def)
  have e: "af_duration_ms ?f \<le> ?now - af_started_ms ?f \<longleftrightarrow> unat (af_duration_ms ?f) \<le> n + d"
    unfolding now using elapsed_word [of "n + d" "af_started_ms ?f"] Cons.prems(3)
    by (simp only: word_le_nat_alt) simp
  show ?case
  proof (cases "n + d < unat (af_duration_ms ?f)")
    case True
    then have k: "fw_active (device_tick d fw) ! i = ?f" using e fs by (auto simp: expire_def)
    have "fw_millis (device_tick d fw) = af_started_ms ?f + of_nat (n + d)"
      unfolding now [symmetric] by (simp add: device_tick_def poll_expirations_def)
    then show ?thesis
      using Cons.IH [of "device_tick d fw" "n + d"] Cons.prems k True
      by (simp add: device_tick_def poll_expirations_def add.assoc)
  next
    case False
    then have "\<not> af_in_use (fw_active (device_tick d fw) ! i)"
      using e fs Cons.prems(4) by (simp add: expire_def)
    moreover have "\<not> af_in_use (fw_active (pass_time ds g) ! i)" if "i < length (fw_active g)" "\<not> af_in_use (fw_active g ! i)" for g
      using pass_time_releases [of g ds] that by (auto simp: releases_def list_all2_conv_all_nth)
    ultimately show ?thesis using False Cons.prems(1) by (simp add: device_tick_def poll_expirations_def)
  qed
qed simp

text \<open>C16: The device is its own watchdog. A fault started at this moment is in force after any polls that follow exactly
  while fewer milliseconds than its duration have passed, whatever the clock shows at the start and however often it
  is polled; so a device that nobody talks to any more is quiet after ten minutes.\<close>

theorem firmware_expiry_exact:
  assumes "wf_firmware fw" "i < max_active_faults" "af_in_use (fw_active fw ! i)"
    and "af_started_ms (fw_active fw ! i) = fw_millis fw" "sum_list ds < 2 ^ 32"
  shows "(af_in_use (fw_active (pass_time ds fw) ! i) \<longleftrightarrow> sum_list ds < unat (af_duration_ms (fw_active fw ! i))) \<and>
    (600000 \<le> sum_list ds \<longrightarrow> \<not> af_in_use (fw_active (pass_time ds fw) ! i))"
proof -
  let ?f = "fw_active fw ! i"
  have i: "i < length (fw_active fw)" using assms(1,2) by (simp add: wf_firmware_def)
  then have "1000 \<le> af_duration_ms ?f" "af_duration_ms ?f \<le> 600000"
    using assms(1,3) nth_mem [OF i] by (auto simp: wf_firmware_def)
  then have "1000 \<le> unat (af_duration_ms ?f)" "unat (af_duration_ms ?f) \<le> 600000"
    by (simp_all add: word_le_nat_alt)
  with expiry_from [OF i, of 0 ds] assms show ?thesis by auto
qed

text \<open>A fault of two seconds, started 296 milliseconds before the clock wraps.\<close>

definition near_wrap :: firmware where
  "near_wrap = (boot True)\<lparr>fw_millis := 4294967000, fw_next_handle := 1,
     fw_active := [\<lparr>af_in_use = True, af_handle = fw_handle 1, af_fault_name = ''lora.jam'', af_started_ms = 4294967000,
       af_duration_ms = 2000\<rparr>, free_fault, free_fault, free_fault]\<rparr>"

theorem firmware_expiry_exact_witness:
  "\<not> af_in_use (fw_active (pass_time [900, 1100] near_wrap) ! 0) \<and> af_in_use (fw_active (pass_time [900, 1099] near_wrap) ! 0)"
proof -
  have w: "wf_firmware near_wrap"
    by (simp add: wf_firmware_def near_wrap_def max_active_faults_def free_fault_def exI [of _ 1])
  have f: "(0::nat) < max_active_faults" "af_in_use (fw_active near_wrap ! 0)"
    "af_started_ms (fw_active near_wrap ! 0) = fw_millis near_wrap" "af_duration_ms (fw_active near_wrap ! 0) = 2000"
    by (simp_all add: near_wrap_def max_active_faults_def)
  show ?thesis
    using firmware_expiry_exact [OF w f(1-3), of "[900, 1100]"] firmware_expiry_exact [OF w f(1-3), of "[900, 1099]"]
    by (simp add: f(4))
qed

end
