(* ===== verification/Hil_Bench.thy ===== *)
theory Hil_Bench
  imports Hardware_Agent Attacker_Firmware_Props
begin

text \<open>
  The hardware-in-the-loop bench as a whole: the in-memory transports of \<open>agents/chaos/hil_transport.py\<close>, the backend
  \<open>HilHardwareIO\<close> over them, and the attack device's firmware at the other end of the serial line. The locale
  \<open>bench_guard\<close> holds for this composition, so the hardware agent's guarantee holds on the real device's protocol.
  What other tasks do while a coroutine sleeps is the argument \<open>nap\<close>.
\<close>

section \<open>The in-memory transports\<close>

record fake_serial =
  fq_sent :: "string list"
  fq_recv_queue :: "string list"
  fq_closed :: bool

record fake_http =
  fh_responses :: "(string, pyval) dict"
  fh_request_log :: "string list"

text \<open>Both transports and what is behind them.\<close>

record 'd bench =
  bn_serial :: fake_serial
  bn_http :: fake_http
  bn_device :: 'd

definition fake_send_line ::
  "(string \<Rightarrow> 'd \<Rightarrow> string res \<times> 'd) option \<Rightarrow> string \<Rightarrow> 'd bench \<Rightarrow> unit res \<times> 'd bench" where
  "fake_send_line responder line bn =
     (if fq_closed (bn_serial bn) then (Inl (Exn ''RuntimeError'' ''transport closed''), bn)
      else
        (let bn1 = bn\<lparr>bn_serial := (bn_serial bn)\<lparr>fq_sent := fq_sent (bn_serial bn) @ [line]\<rparr>\<rparr> in
         case responder of
           None \<Rightarrow> (Inr (), bn1)
         | Some respond \<Rightarrow>
             (case respond line (bn_device bn1) of
                (Inl x, d) \<Rightarrow> (Inl x, bn1\<lparr>bn_device := d\<rparr>)
              | (Inr reply, d) \<Rightarrow>
                  (Inr (), bn1\<lparr>bn_serial := (bn_serial bn1)\<lparr>fq_recv_queue := fq_recv_queue (bn_serial bn1) @ [reply]\<rparr>,
                             bn_device := d\<rparr>))))"

definition poll_step :: real where "poll_step = 1 / 1000"

function recv_poll :: "('d bench \<Rightarrow> 'd bench) \<Rightarrow> real \<Rightarrow> real \<Rightarrow> 'd bench \<Rightarrow> string res \<times> 'd bench" where
  "recv_poll nap timeout elapsed bn =
     (case fq_recv_queue (bn_serial bn) of
        reply # rest \<Rightarrow> (Inr reply, bn\<lparr>bn_serial := (bn_serial bn)\<lparr>fq_recv_queue := rest\<rparr>\<rparr>)
      | [] \<Rightarrow>
          (if fq_closed (bn_serial bn) then (Inl (Exn ''RuntimeError'' ''transport closed before reply arrived''), bn)
           else if timeout \<le> elapsed
           then (Inl (Exn ''TimeoutError'' ''FakeSerialTransport: no reply within timeout''), bn)
           else recv_poll nap timeout (elapsed + poll_step) (nap bn)))"
  by pat_completeness auto
termination
proof (relation "measure (\<lambda>(nap, timeout, elapsed, bn). nat \<lceil>(timeout - elapsed) / poll_step\<rceil>)", goal_cases)
  case (2 nap timeout elapsed bn)
  then have "0 < (timeout - elapsed) / poll_step" by (simp add: poll_step_def)
  moreover have "(timeout - (elapsed + poll_step)) / poll_step = (timeout - elapsed) / poll_step - 1"
    by (simp add: poll_step_def field_simps)
  ultimately show ?case by simp
qed simp

declare recv_poll.simps [simp del]

definition fake_recv_line :: "('d bench \<Rightarrow> 'd bench) \<Rightarrow> real \<Rightarrow> 'd bench \<Rightarrow> string res \<times> 'd bench" where
  "fake_recv_line nap timeout bn = recv_poll nap timeout 0 bn"

definition fake_close :: "'d bench \<Rightarrow> 'd bench" where
  "fake_close bn = bn\<lparr>bn_serial := (bn_serial bn)\<lparr>fq_closed := True\<rparr>\<rparr>"

definition fake_get_json ::
  "('d bench \<Rightarrow> 'd bench) \<Rightarrow> (string \<Rightarrow> 'd \<Rightarrow> pyval res \<times> 'd) option \<Rightarrow> string \<Rightarrow> 'd bench \<Rightarrow> pyval res \<times> 'd bench" where
  "fake_get_json nap responder url bn =
     (let bn1 = bn\<lparr>bn_http := (bn_http bn)\<lparr>fh_request_log := fh_request_log (bn_http bn) @ [url]\<rparr>\<rparr> in
      case responder of
        Some respond \<Rightarrow> (case respond url (bn_device bn1) of (r, d) \<Rightarrow> (r, bn1\<lparr>bn_device := d\<rparr>))
      | None \<Rightarrow>
          (if dict_get (fh_responses (bn_http bn1)) url = None
           then (Inl (Exn ''KeyError'' (''FakeHttpTransport has no response for '' @ repr_str url)), bn1)
           else (let bn2 = nap bn1 in
             case dict_get (fh_responses (bn_http bn2)) url of
               Some v \<Rightarrow> (Inr v, bn2)
             | None \<Rightarrow> (Inl (Exn ''KeyError'' url), bn2))))"

text \<open>The JSON library and the address of the device under test.\<close>

record json_wire =
  jw_encode :: "pyval \<Rightarrow> string"
  jw_loads :: "string \<Rightarrow> pyval res"
  jw_float_repr :: "real \<Rightarrow> string"
  jw_to_float :: "pyval \<Rightarrow> real res"
  jw_url :: string

definition fake_transport ::
  "json_wire \<Rightarrow> ('d bench \<Rightarrow> 'd bench) \<Rightarrow> (string \<Rightarrow> 'd \<Rightarrow> string res \<times> 'd) option \<Rightarrow>
     (string \<Rightarrow> 'd \<Rightarrow> pyval res \<times> 'd) option \<Rightarrow> 'd bench bench_transport" where
  "fake_transport w nap serial http =
     \<lparr>bt_send_line = fake_send_line serial, bt_recv_line = fake_recv_line nap, bt_get_json = fake_get_json nap http,
      bt_encode = jw_encode w, bt_loads = jw_loads w, bt_float_repr = jw_float_repr w, bt_to_float = jw_to_float w,
      bt_telemetry_base_url = jw_url w\<rparr>"

text \<open>A reply that is there is taken at once; without one the call gives up at the timeout.\<close>

lemma recv_ready:
  "fq_recv_queue (bn_serial bn) = reply # rest \<Longrightarrow>
     fake_recv_line nap timeout bn = (Inr reply, bn\<lparr>bn_serial := (bn_serial bn)\<lparr>fq_recv_queue := rest\<rparr>\<rparr>)"
  by (simp add: fake_recv_line_def recv_poll.simps)

lemma recv_silent:
  "(\<And>bn. bn_serial (nap bn) = bn_serial bn) \<Longrightarrow> fq_recv_queue (bn_serial bn) = [] \<Longrightarrow> \<not> fq_closed (bn_serial bn) \<Longrightarrow>
     fst (recv_poll nap timeout elapsed bn) = Inl (Exn ''TimeoutError'' ''FakeSerialTransport: no reply within timeout'')"
proof (induction nap timeout elapsed bn rule: recv_poll.induct)
  case (1 nap timeout elapsed bn)
  then show ?case by (subst recv_poll.simps) auto
qed

section \<open>The firmware behind the transport\<close>

text \<open>The device reads the line with its newline in one turn of its loop; its reply is what it prints.\<close>

definition firmware_responder :: "build \<Rightarrow> string \<Rightarrow> firmware \<Rightarrow> string res \<times> firmware" where
  "firmware_responder b line fw =
     (case loop_once b (line @ [newline]) fw of
        (reply # rest, fw') \<Rightarrow> (Inr reply, fw')
      | ([], fw') \<Rightarrow> (Inl (Exn ''TimeoutError'' []), fw'))"

text \<open>While a coroutine sleeps the device runs on.\<close>

definition device_runs :: "nat list \<Rightarrow> firmware bench \<Rightarrow> firmware bench" where
  "device_runs ds bn = bn\<lparr>bn_device := pass_time ds (bn_device bn)\<rparr>"

definition attacker_transport :: "build \<Rightarrow> json_wire \<Rightarrow> nat list \<Rightarrow> firmware bench bench_transport" where
  "attacker_transport b w ds = fake_transport w (device_runs ds) (Some (firmware_responder b)) None"

definition hil_agent ::
  "build \<Rightarrow> json_wire \<Rightarrow> nat list \<Rightarrow> (int \<Rightarrow> nat list) \<Rightarrow> (int \<Rightarrow> unit res) \<Rightarrow> hw_safety_config \<Rightarrow> firmware bench hw_agent" where
  "hil_agent b w ds naps sl cfg =
     \<lparr>ha_hardware = Some (hil_io (attacker_transport b w ds)), ha_sleep = (\<lambda>n bn. (sl n, device_runs (naps n) bn)),
      ha_config = cfg, ha_now = (\<lambda>e. 0), ha_float_repr = jw_float_repr w, ha_to_float = jw_to_float w\<rparr>"

section \<open>The wire\<close>

definition cleanup_message :: "string \<Rightarrow> (string, pyval) dict" where
  "cleanup_message h = [(''cmd'', PStr ''cleanup''), (''handle'', PStr h)]"

definition firmware_errors :: "string list" where
  "firmware_errors = [''production-mode: chaos commands disabled'', ''duration_seconds must be 1..600'',
     ''max active faults reached'', ''unknown fault'', ''handle already gone'', ''bad json'', ''unknown cmd'', ''line too long'']"

definition firmware_reply :: "build \<Rightarrow> pyval \<Rightarrow> bool" where
  "firmware_reply b r \<longleftrightarrow> r = ok_reply [] \<or> (\<exists>fw. r = handle_info b fw) \<or> (\<exists>k c. r = handle_reply k c) \<or>
     r \<in> error_reply ` set firmware_errors"

text \<open>What the two JSON libraries do: an encoded object is one line; the device reads the command that was sent, if it
  reads anything, and every cleanup of one of its handles exactly; every reply of the device is read back.\<close>

definition faithful_wire :: "build \<Rightarrow> json_wire \<Rightarrow> bool" where
  "faithful_wire b w \<longleftrightarrow>
     (\<forall>d. sendable (jw_encode w (PDict d))) \<and>
     (\<forall>d doc. bd_deserialize b (jw_encode w (PDict d)) = Some doc \<longrightarrow> json_member doc ''cmd'' = json_member (PDict d) ''cmd'') \<and>
     (\<forall>k < 2 ^ 31. length (jw_encode w (PDict (cleanup_message (fw_handle k)))) < max_line_len \<and>
        bd_deserialize b (jw_encode w (PDict (cleanup_message (fw_handle k)))) = Some (PDict (cleanup_message (fw_handle k)))) \<and>
     (\<forall>r. firmware_reply b r \<longrightarrow> decode_line (jw_loads w) (bd_serialize b r) = Inr r)"

lemma error_is_reply [intro]: "m \<in> set firmware_errors \<Longrightarrow> firmware_reply b (error_reply m)"
  by (simp add: firmware_reply_def)

lemma handle_inject_reply: "firmware_reply b (fst (handle_inject b req fw))"
proof -
  have e: "firmware_reply b (error_reply ''production-mode: chaos commands disabled'')"
    "firmware_reply b (error_reply ''duration_seconds must be 1..600'')"
    "firmware_reply b (error_reply ''max active faults reached'')" "firmware_reply b (error_reply ''unknown fault'')"
    by (simp_all add: firmware_reply_def firmware_errors_def)
  have k: "firmware_reply b (handle_reply k c)" for k c by (auto simp: firmware_reply_def)
  have "firmware_reply b (ok_reply [(''handle'', PStr (fw_handle k))])"
    "firmware_reply b (ok_reply [(''handle'', PStr (fw_handle k)), (''clamped'', PBool True)])" for k
    using k [of k False] k [of k True] by (simp_all add: handle_reply_def)
  with e show ?thesis by (simp add: handle_inject_def Let_def split: option.split)
qed

lemma handle_replies:
  "firmware_reply b (handle_info b fw)" "firmware_reply b (fst (handle_cleanup req fw))"
  "firmware_reply b (fst (handle_reset fw))"
  by (auto simp: handle_cleanup_def handle_reset_def Let_def firmware_reply_def firmware_errors_def split: option.splits)

lemma answer_reply: "firmware_reply b (fst (device_answer b line fw))"
proof -
  have e: "firmware_reply b (error_reply ''bad json'')" "firmware_reply b (error_reply ''unknown cmd'')"
    "firmware_reply b (error_reply ''line too long'')"
    by (simp_all add: firmware_reply_def firmware_errors_def)
  have "firmware_reply b (fst (process_line b l g))" for l g
    using e handle_replies handle_inject_reply by (simp add: process_line_def Let_def split: option.splits)
  then show ?thesis using e by (auto simp: device_answer_def split: prod.splits) (metis fst_conv)
qed

section \<open>One request\<close>

text \<open>The line is idle: nothing is on its way in either direction, and \<open>n\<close> more handles can be given out.\<close>

definition attached :: "nat \<Rightarrow> firmware bench \<Rightarrow> bool" where
  "attached n bn \<longleftrightarrow>
     \<not> fq_closed (bn_serial bn) \<and> fq_recv_queue (bn_serial bn) = [] \<and> fw_line (bn_device bn) = [] \<and>
     wf_firmware (bn_device bn) \<and> fw_next_handle (bn_device bn) + n < 2 ^ 31"

definition in_force :: "firmware bench \<Rightarrow> handle \<Rightarrow> string option" where
  "in_force bn h = table (fw_active (bn_device bn)) h"

definition issued_handle :: "handle \<Rightarrow> bool" where
  "issued_handle h \<longleftrightarrow> (\<exists>k < 2 ^ 31. h = fw_handle k)"

lemma attacker_transport_fields [simp]:
  "bt_send_line (attacker_transport b w ds) = fake_send_line (Some (firmware_responder b))"
  "bt_recv_line (attacker_transport b w ds) = fake_recv_line (device_runs ds)"
  "bt_get_json (attacker_transport b w ds) = fake_get_json (device_runs ds) None"
  "bt_encode (attacker_transport b w ds) = jw_encode w" "bt_loads (attacker_transport b w ds) = jw_loads w"
  "bt_float_repr (attacker_transport b w ds) = jw_float_repr w" "bt_to_float (attacker_transport b w ds) = jw_to_float w"
  by (simp_all add: attacker_transport_def fake_transport_def)

lemma poll_keeps:
  "fw_next_handle (poll_expirations fw) = fw_next_handle fw" "fw_line (poll_expirations fw) = fw_line fw"
  "releases (fw_active fw) (fw_active (poll_expirations fw))"
  by (simp_all add: poll_expirations_def expire_releases)

lemma poll_wf: "wf_firmware fw \<Longrightarrow> wf_firmware (poll_expirations fw)"
  by (rule releases_wf [of fw "fw_active (poll_expirations fw)"]) (simp_all add: poll_keeps)

text \<open>A request on an idle line is after_request by the device, at once, and the line is idle again.\<close>

definition after_request :: "firmware bench \<Rightarrow> string \<Rightarrow> firmware \<Rightarrow> firmware bench" where
  "after_request bn line fw =
     bn\<lparr>bn_serial := (bn_serial bn)\<lparr>fq_sent := fq_sent (bn_serial bn) @ [line]\<rparr>, bn_device := poll_expirations fw\<rparr>"

lemma answered_fields [simp]:
  "bn_device (after_request bn line fw) = poll_expirations fw" "bn_http (after_request bn line fw) = bn_http bn"
  "bn_serial (after_request bn line fw) = (bn_serial bn)\<lparr>fq_sent := fq_sent (bn_serial bn) @ [line]\<rparr>"
  by (simp_all add: after_request_def)

lemma request_answered:
  assumes "faithful_wire b w" "attached n bn" "device_answer b (jw_encode w (PDict msg)) (bn_device bn) = (r, fw)"
  shows "hil_request (attacker_transport b w ds) timeout msg bn = (Inr r, after_request bn (jw_encode w (PDict msg)) fw)"
proof -
  let ?line = "jw_encode w (PDict msg)"
  have s: "sendable ?line" using assms(1) by (simp add: faithful_wire_def)
  have "decode_line (jw_loads w) (bd_serialize b r) = Inr r"
    using assms(1) answer_reply [of b ?line "bn_device bn"] assms(3) by (simp add: faithful_wire_def)
  moreover have "firmware_responder b ?line (bn_device bn) = (Inr (bd_serialize b r), poll_expirations fw)"
    using one_reply_per_line [OF s, of "bn_device bn" b] assms(2,3)
    by (simp add: firmware_responder_def loop_once_def attached_def)
  ultimately show ?thesis
    using assms(2) by (simp add: hil_request_def fake_send_line_def attached_def Let_def recv_ready after_request_def)
qed

lemma table_shrinks:
  assumes "wf_firmware fw" "releases (fw_active fw) gs"
  shows "tracked (table (fw_active fw)) [] (table gs)"
  using releases_table [OF assms(2)] assms(1) by (simp add: tracked_def wf_firmware_def)

text \<open>What holds of the bench after the device has after_request and polled.\<close>

lemma after_answer:
  assumes "attached n bn" "device_answer b line (bn_device bn) = (r, fw)"
  shows "fw_next_handle fw + m < 2 ^ 31 \<Longrightarrow> attached m (after_request bn line' fw)"
    and "tracked (table (fw_active fw)) [] (in_force (after_request bn line' fw))"
proof -
  have wf: "wf_firmware fw" using answer_wf [of "bn_device bn" b line] assms by (simp add: attached_def)
  then show "attached m (after_request bn line' fw)" if "fw_next_handle fw + m < 2 ^ 31"
    using assms that answer_line [of "bn_device bn" b line] by (simp add: attached_def poll_keeps poll_wf)
  show "tracked (table (fw_active fw)) [] (in_force (after_request bn line' fw))"
    using table_shrinks [OF wf poll_keeps(3)] by (simp add: in_force_def [abs_def])
qed

section \<open>What the device does with each command\<close>

lemma answer_parsed:
  assumes "faithful_wire b w" "device_answer b (jw_encode w (PDict msg)) fw = (r, fw1)"
    and "dict_get msg ''cmd'' = Some (PStr cmd)" "fw_line fw = []"
  obtains (unread) m where "fw1 = fw" "r = error_reply m"
  | (read) doc line q g where "process_line b line (fw\<lparr>fw_line := line\<rparr>) = (q, g)" "r = q" "fw1 = g\<lparr>fw_line := []\<rparr>"
      "bd_deserialize b line = Some doc" "str_or (json_member doc ''cmd'') [] = cmd" "line = jw_encode w (PDict msg)"
proof -
  let ?line = "jw_encode w (PDict msg)"
  have line: "fw\<lparr>fw_line := []\<rparr> = fw" using assms(4) by (metis firmware.surjective firmware.update_convs(3) firmware.select_convs(3))
  obtain q g where p: "process_line b ?line (fw\<lparr>fw_line := ?line\<rparr>) = (q, g)"
    by (cases "process_line b ?line (fw\<lparr>fw_line := ?line\<rparr>)")
  show ?thesis
  proof (cases "length ?line < max_line_len")
    case False
    with assms(2) have "fw1 = fw" "r = error_reply ''line too long''" by (simp_all add: device_answer_def)
    with unread show ?thesis by blast
  next
    case True
    then have a: "r = q" "fw1 = g\<lparr>fw_line := []\<rparr>" using assms(2) p by (simp_all add: device_answer_def)
    show ?thesis
    proof (cases "bd_deserialize b ?line")
      case None
      with a p line have "fw1 = fw" "r = error_reply ''bad json''" by (auto simp: process_line_def)
      with unread show ?thesis by blast
    next
      case (Some doc)
      have "json_member doc ''cmd'' = PStr cmd"
        using assms(1,3) Some by (fastforce simp: faithful_wire_def)
      with a p Some read [of ?line q g doc] show ?thesis by simp
    qed
  qed
qed

lemma answer_info:
  assumes "faithful_wire b w" "device_answer b (jw_encode w (PDict [(''cmd'', PStr ''info'')])) fw = (r, fw1)" "fw_line fw = []"
  shows "fw1 = fw"
proof -
  have c: "dict_get [(''cmd'', PStr ''info'')] ''cmd'' = Some (PStr ''info'')" by (simp add: dict_get_Cons)
  have line: "fw\<lparr>fw_line := []\<rparr> = fw" using assms(3) by (metis firmware.surjective firmware.update_convs(3) firmware.select_convs(3))
  show ?thesis using assms(1,2) c assms(3)
    by (cases rule: answer_parsed) (use line in \<open>auto simp: process_line_def Let_def\<close>)
qed

lemma answer_inject:
  assumes "faithful_wire b w" "device_answer b (jw_encode w (PDict ((''cmd'', PStr ''inject'') # rest))) fw = (r, fw1)"
    and "fw_line fw = []"
  shows "(\<exists>m. r = error_reply m) \<and> fw1 = fw \<or>
    (\<exists>c. r = handle_reply (fw_next_handle fw1) c) \<and> fw_next_handle fw1 = fw_next_handle fw + 1 \<and>
    (\<forall>h. h \<noteq> fw_handle (fw_next_handle fw1) \<longrightarrow> table (fw_active fw1) h = table (fw_active fw) h)"
proof -
  have c: "dict_get ((''cmd'', PStr ''inject'') # rest) ''cmd'' = Some (PStr ''inject'')" by (simp add: dict_get_Cons)
  have line: "fw\<lparr>fw_line := []\<rparr> = fw" using assms(3) by (metis firmware.surjective firmware.update_convs(3) firmware.select_convs(3))
  show ?thesis using assms(1,2) c assms(3)
  proof (cases rule: answer_parsed)
    case (read doc l q g)
    have "handle_inject b doc (fw\<lparr>fw_line := l\<rparr>) = (q, g)" using read by (simp add: process_line_def)
    from handle_inject_table [OF this] read(2,3) line show ?thesis by auto
  qed auto
qed

lemma find_slot_gone:
  assumes "distinct (handles_in_use fs)" "find_slot (\<lambda>f. af_in_use f \<and> af_handle f = h) fs = Some i"
  shows "table (fs[i := release (fs ! i)]) h = None"
  using assms
proof (induction fs arbitrary: i)
  case (Cons f fs)
  then show ?case by (cases i) (auto simp: table_None_iff split: if_splits)
qed simp

lemma answer_cleanup:
  assumes "faithful_wire b w" "wf_firmware fw" "fw_line fw = []" "issued_handle h"
    and "device_answer b (jw_encode w (PDict (cleanup_message h))) fw = (r, fw1)"
  shows "(r = ok_reply [] \<or> r = error_reply ''handle already gone'') \<and> releases (fw_active fw) (fw_active fw1) \<and>
    fw_next_handle fw1 = fw_next_handle fw \<and> table (fw_active fw1) h = None"
proof -
  let ?line = "jw_encode w (PDict (cleanup_message h))" and ?doc = "PDict (cleanup_message h)"
  let ?slot = "find_slot (\<lambda>f. af_in_use f \<and> af_handle f = h) (fw_active fw)"
  have l: "length ?line < max_line_len" "bd_deserialize b ?line = Some ?doc"
    using assms(1,4) by (auto simp: faithful_wire_def issued_handle_def)
  have m: "json_member ?doc ''cmd'' = PStr ''cleanup''" "json_member ?doc ''handle'' = PStr h"
    by (simp_all add: cleanup_message_def dict_get_Cons)
  have a: "(r, fw1) = (case handle_cleanup ?doc (fw\<lparr>fw_line := ?line\<rparr>) of (r, g) \<Rightarrow> (r, g\<lparr>fw_line := []\<rparr>))"
    using assms(5) l m by (simp add: device_answer_def process_line_def)
  show ?thesis
  proof (cases ?slot)
    case None
    then have "table (fw_active fw) h = None"
      by (auto simp: find_slot_None_iff table_None_iff handles_in_use_def)
    with a None m show ?thesis by (simp add: handle_cleanup_def)
  next
    case (Some i)
    with a m find_slot_gone [OF _ Some] assms(2) show ?thesis
      by (simp add: handle_cleanup_def wf_firmware_def releases_update)
  qed
qed

section \<open>The backend keeps the guard\<close>

lemma hil_fields [simp]:
  "hi_device_info (hil_io t) = hil_device_info t" "hi_read_telemetry (hil_io t) = hil_read_telemetry t"
  "hi_inject_fault (hil_io t) = hil_inject_fault t" "hi_cleanup (hil_io t) = hil_cleanup t" "hi_reset (hil_io t) = hil_reset t"
  by (simp_all add: hil_io_def)

lemma runs_guarded:
  "attached n bn \<Longrightarrow> attached n (device_runs ds bn) \<and> tracked (in_force bn) [] (in_force (device_runs ds bn))"
  using pass_time_wf [of "bn_device bn" ds] pass_time_keeps [of ds "bn_device bn"]
    table_shrinks [OF _ pass_time_releases, of "bn_device bn" ds]
  by (simp add: attached_def device_runs_def in_force_def [abs_def])

lemma info_guarded:
  assumes "faithful_wire b w" "attached n bn" "hil_device_info (attacker_transport b w ds) bn = (i, bn')"
  shows "attached n bn' \<and> tracked (in_force bn) [] (in_force bn')"
proof -
  let ?msg = "[(''cmd'', PStr ''info'')]"
  obtain q fw where a: "device_answer b (jw_encode w (PDict ?msg)) (bn_device bn) = (q, fw)"
    by (cases "device_answer b (jw_encode w (PDict ?msg)) (bn_device bn)")
  let ?bn1 = "after_request bn (jw_encode w (PDict ?msg)) fw"
  have q: "hil_request (attacker_transport b w ds) 5 ?msg bn = (Inr q, ?bn1)"
    by (rule request_answered [OF assms(1,2) a])
  have "fw = bn_device bn" using answer_info [OF assms(1) a] assms(2) by (simp add: attached_def)
  moreover have "bn' = ?bn1" using assms(3) q by (simp add: hil_device_info_def)
  ultimately show ?thesis
    using after_answer(1) [OF assms(2) a, where m = n] after_answer(2) [OF assms(2) a] assms(2) by (simp add: attached_def in_force_def [abs_def])
qed

lemma read_guarded:
  assumes "attached n bn" "hil_read_telemetry (attacker_transport b w ds) m bn = (s, bn')"
  shows "attached n bn' \<and> tracked (in_force bn) [] (in_force bn')"
proof -
  let ?bn1 = "bn\<lparr>bn_http := (bn_http bn)\<lparr>fh_request_log := fh_request_log (bn_http bn) @ [jw_url w @ ''/'' @ m]\<rparr>\<rparr>"
  have u: "bt_telemetry_base_url (attacker_transport b w ds) = jw_url w"
    by (simp add: attacker_transport_def fake_transport_def)
  have "bn' = ?bn1 \<or> bn' = device_runs ds ?bn1"
    using assms(2) by (auto simp: hil_read_telemetry_def fake_get_json_def Let_def u split: if_splits option.splits)
  moreover have "attached n ?bn1" "in_force ?bn1 = in_force bn"
    using assms(1) by (simp_all add: attached_def in_force_def [abs_def])
  ultimately show ?thesis using runs_guarded [of n ?bn1 ds] by auto
qed

lemma inject_law:
  assumes "faithful_wire b w" "attached n bn" "hil_inject_fault (attacker_transport b w ds) f bn = (q, bn')"
  shows "case q of Inl x \<Rightarrow> attached n bn' \<and> tracked (in_force bn) [] (in_force bn')
    | Inr h \<Rightarrow> (\<forall>m. n = Suc m \<longrightarrow> attached m bn' \<and> issued_handle h \<and> tracked (in_force bn) [h] (in_force bn'))"
proof -
  let ?rest = "[(''fault'', PStr (hf_name f)), (''params'', PDict (hf_parameters f)),
    (''duration_seconds'', PInt (hf_duration_seconds f))]"
  let ?msg = "(''cmd'', PStr ''inject'') # ?rest"
  obtain r fw where a: "device_answer b (jw_encode w (PDict ?msg)) (bn_device bn) = (r, fw)"
    by (cases "device_answer b (jw_encode w (PDict ?msg)) (bn_device bn)")
  let ?bn1 = "after_request bn (jw_encode w (PDict ?msg)) fw"
  have rq: "hil_request (attacker_transport b w ds) 10 ?msg bn = (Inr r, ?bn1)"
    by (rule request_answered [OF assms(1,2) a])
  have b1: "bn' = ?bn1" using assms(3) rq by (simp add: hil_inject_fault_def)
  note after = after_answer [OF assms(2) a]
  from answer_inject [OF assms(1) a] assms(2) consider
      m where "r = error_reply m" "fw = bn_device bn"
    | c where "r = handle_reply (fw_next_handle fw) c" "fw_next_handle fw = fw_next_handle (bn_device bn) + 1"
        "\<forall>h. h \<noteq> fw_handle (fw_next_handle fw) \<longrightarrow> table (fw_active fw) h = table (fw_active (bn_device bn)) h"
    unfolding attached_def by blast
  then show ?thesis
  proof cases
    case 1
    have "q = Inl (hil_error m)"
      using assms(3) rq 1
      by (simp add: hil_inject_fault_def hil_accept_def error_reply_def param_def dict_get_Cons)
    with after(1) [where m = n] after(2) 1 b1 assms(2) show ?thesis by (simp add: attached_def in_force_def [abs_def])
  next
    case 2
    have "q = Inr (fw_handle (fw_next_handle fw))"
      using assms(3) rq 2(1)
      by (simp add: hil_inject_fault_def hil_accept_def handle_reply_def ok_reply_def param_def dict_get_Cons)
    moreover have "attached m bn' \<and> issued_handle (fw_handle (fw_next_handle fw)) \<and>
        tracked (in_force bn) [fw_handle (fw_next_handle fw)] (in_force bn')" if m: "n = Suc m" for m
    proof -
      have lim: "fw_next_handle fw + m < 2 ^ 31" using assms(2) 2(2) m by (simp add: attached_def)
      then have "fw_next_handle fw < 2 ^ 31" by linarith
      then have "issued_handle (fw_handle (fw_next_handle fw))" unfolding issued_handle_def by blast
      moreover have "tracked (in_force bn) [fw_handle (fw_next_handle fw)] (table (fw_active fw))"
        using 2(3) by (simp add: tracked_def in_force_def)
      ultimately show ?thesis using after(1) [OF lim] after(2) b1 tracked_shrink by blast
    qed
    ultimately show ?thesis by simp
  qed
qed

lemma cleanup_law:
  assumes "faithful_wire b w" "attached n bn" "issued_handle h" "hil_cleanup (attacker_transport b w ds) h bn = (q, bn')"
  shows "q = Inr () \<and> attached n bn' \<and> tracked (in_force bn) [] (in_force bn') \<and> in_force bn' h = None"
proof -
  obtain r fw where a: "device_answer b (jw_encode w (PDict (cleanup_message h))) (bn_device bn) = (r, fw)"
    by (cases "device_answer b (jw_encode w (PDict (cleanup_message h))) (bn_device bn)")
  let ?bn1 = "after_request bn (jw_encode w (PDict (cleanup_message h))) fw"
  have rq: "hil_request (attacker_transport b w ds) 5 (cleanup_message h) bn = (Inr r, ?bn1)"
    by (rule request_answered [OF assms(1,2) a])
  have wf: "wf_firmware (bn_device bn)" "fw_line (bn_device bn) = []" using assms(2) by (simp_all add: attached_def)
  note ans = answer_cleanup [OF assms(1) wf assms(3) a]
  have al: "str_in ''already'' (lower ''handle already gone'')" by code_simp
  have b1: "bn' = ?bn1" and q: "q = Inr ()"
    using assms(4) rq ans al
    by (auto simp: hil_cleanup_def cleanup_message_def [symmetric] cleanup_accept_def ok_reply_def error_reply_def
        param_def dict_get_Cons reply_str_def)
  have lim: "fw_next_handle fw + n < 2 ^ 31" using ans assms(2) by (simp add: attached_def)
  note after = after_answer(1) [OF assms(2) a lim] after_answer(2) [OF assms(2) a]
  have "tracked (in_force bn) [] (table (fw_active fw))"
    using table_shrinks [OF wf(1)] ans by (simp add: in_force_def [abs_def])
  then have "tracked (in_force bn) [] (in_force ?bn1)" using after(2) tracked_shrink by blast
  moreover have "in_force ?bn1 h = table (fw_active fw) h \<or> in_force ?bn1 h = None"
    using after(2) by (simp add: tracked_def)
  then have "in_force ?bn1 h = None" using ans by auto
  ultimately show ?thesis using q b1 after(1) by simp
qed

lemma hil_guard:
  assumes "faithful_wire b w"
  shows "bench_guard (hil_io (attacker_transport b w ds)) in_force attached issued_handle"
proof unfold_locales
  show "attached n e" if "attached (Suc n) e" for n e using that by (simp add: attached_def)
  show "attached n e' \<and> tracked (in_force e) [] (in_force e')"
    if "attached n e" "hi_device_info (hil_io (attacker_transport b w ds)) e = (i, e')" for n e i e'
    using info_guarded [OF assms] that by simp
  show "attached n e' \<and> tracked (in_force e) [] (in_force e')"
    if "attached n e" "hi_read_telemetry (hil_io (attacker_transport b w ds)) m e = (s, e')" for n e m s e'
    using read_guarded that by simp
  show "attached n e' \<and> issued_handle h \<and> tracked (in_force e) [h] (in_force e')"
    if "attached (Suc n) e" "hi_inject_fault (hil_io (attacker_transport b w ds)) f e = (Inr h, e')" for n e f h e'
    using inject_law [OF assms that(1), of ds f "Inr h" e'] that(2) by simp
  show "attached n e' \<and> tracked (in_force e) [] (in_force e')"
    if "attached n e" "hi_inject_fault (hil_io (attacker_transport b w ds)) f e = (Inl x, e')" for n e f x e'
    using inject_law [OF assms that(1), of ds f "Inl x" e'] that(2) by simp
  show "attached n e' \<and> tracked (in_force e) [] (in_force e') \<and> (\<forall>u. c = Inr u \<longrightarrow> in_force e' h = None)"
    if "attached n e" "issued_handle h" "hi_cleanup (hil_io (attacker_transport b w ds)) h e = (c, e')" for n e h c e'
    using cleanup_law [OF assms that(1,2)] that(3) by simp
qed

lemma hil_world:
  assumes "faithful_wire b w"
  shows "bench_world (hil_io (attacker_transport b w ds)) in_force attached issued_handle (hil_agent b w ds naps sl cfg)"
  using hil_guard [OF assms] runs_guarded
  by (auto simp: bench_world_def bench_world_axioms_def hil_agent_def)

text \<open>C15: A run on the bench that starts on an idle line leaves no fault active. When the serial line is open with
  nothing unread on the host's side and no partial line on the device's, the device's table is well formed and it has
  enough handles left for the plan, and the JSON libraries at both ends read what the other wrote (\<open>faithful_wire\<close>):
  however the run goes (refused by a gate, by the device or by the table being full; interrupted; its faults ended by
  cleanup or by the device's own clock), when the agent returns a timeline nothing is in force on the attack device
  that was not in force before. The idle line matters: with a reply left unread a fault can stay in force
  (\<open>late_reply_orphans_fault\<close>).\<close>

theorem hil_no_fault_left_active:
  assumes "faithful_wire b w" "attached (length (ep_faults p)) bn"
    and "hw_execute (hil_agent b w ds naps sl cfg) p bn = (Inr t, bn')"
  shows "in_force bn' h = in_force bn h \<or> in_force bn' h = None"
proof -
  have "False" if "attached n e" "issued_handle h" "hi_cleanup (hil_io (attacker_transport b w ds)) h e = (Inl x, e')"
    for h n e x e'
    using cleanup_law [OF assms(1) that(1,2), of ds "Inl x" e'] that(3) by simp
  from bench_world.execute_tracked [OF hil_world [OF assms(1)] this assms(2,3)] show ?thesis
    by (simp add: tracked_def)
qed

end
