(* ===== verification/Hil_Bench_Props.thy ===== *)
theory Hil_Bench_Props
  imports Hil_Bench
begin

text \<open>
  The bench at work: a small wire on which a run succeeds although the device ends the fault by its own clock before
  the agent cleans up, and what happens when a reply is read one command late, as after the banner the firmware
  prints when it starts.
\<close>

section \<open>A concrete wire\<close>

definition has_break :: "string \<Rightarrow> bool" where
  "has_break s \<longleftrightarrow> CHR 0x0D \<in> set s \<or> newline \<in> set s"

fun cleanup_handle :: "(string, pyval) dict \<Rightarrow> string option" where
  "cleanup_handle d =
     (case dict_get d ''handle'' of
        Some (PStr h) \<Rightarrow> (if d = cleanup_message h \<and> \<not> has_break h then Some h else None)
      | _ \<Rightarrow> None)"

definition small_encode :: "pyval \<Rightarrow> string" where
  "small_encode v =
     (case json_member v ''cmd'' of
        PStr c \<Rightarrow>
          (if c = ''cleanup'' then (case v of PDict d \<Rightarrow> (case cleanup_handle d of Some h \<Rightarrow> ''C'' @ h | None \<Rightarrow> ''X'') | _ \<Rightarrow> ''X'')
           else if c = ''info'' then ''I'' else if c = ''inject'' then ''J'' else if c = ''reset'' then ''R'' else ''X'')
      | _ \<Rightarrow> ''X'')"

fun small_deserialize :: "string \<Rightarrow> pyval option" where
  "small_deserialize [] = None"
| "small_deserialize (c # s) =
     (if c = CHR ''C'' then Some (PDict (cleanup_message s))
      else if c = CHR ''I'' then Some (PDict [(''cmd'', PStr ''info'')])
      else if c = CHR ''J''
      then Some (PDict [(''cmd'', PStr ''inject''), (''fault'', PStr ''wifi.deauth''), (''duration_seconds'', PInt 30)])
      else if c = CHR ''R'' then Some (PDict [(''cmd'', PStr ''reset'')]) else None)"

definition small_serialize :: "pyval \<Rightarrow> string" where
  "small_serialize v =
     (case json_member v ''error'' of
        PStr m \<Rightarrow> ''E'' @ m @ ''.''
      | _ \<Rightarrow> (case json_member v ''handle'' of
          PStr h \<Rightarrow> (if json_member v ''clamped'' = PNone then ''H'' else ''K'') @ h @ ''.''
        | _ \<Rightarrow> (case json_member v ''mode'' of
            PStr m \<Rightarrow> (if m = ''BENCH'' then ''B'' else ''P'')
          | _ \<Rightarrow> ''Y'')))"

definition small_info :: "bool \<Rightarrow> pyval" where
  "small_info pin =
     ok_reply [(''firmware'', PStr ''1.0''), (''serial'', PStr ''AT-001''), (''hardware'', PStr ''rev-B''),
       (''mode'', PStr (if pin then ''BENCH'' else ''PRODUCTION''))]"

fun small_loads :: "string \<Rightarrow> pyval res" where
  "small_loads [] = Inl (Exn ''JSONDecodeError'' [])"
| "small_loads (c # s) =
     (if c = CHR ''E'' then Inr (error_reply (butlast s))
      else if c = CHR ''H'' then Inr (ok_reply [(''handle'', PStr (butlast s))])
      else if c = CHR ''K'' then Inr (ok_reply [(''handle'', PStr (butlast s)), (''clamped'', PBool True)])
      else if c = CHR ''B'' then Inr (small_info True)
      else if c = CHR ''P'' then Inr (small_info False)
      else if c = CHR ''Y'' then Inr (ok_reply [])
      else Inl (Exn ''JSONDecodeError'' []))"

definition small_build :: build where
  "small_build = \<lparr>bd_firmware_version = ''1.0'', bd_device_serial = ''AT-001'', bd_hardware_rev = ''rev-B'',
     bd_max_tx_dbm = 14, bd_deserialize = small_deserialize, bd_serialize = small_serialize\<rparr>"

fun float_value :: "pyval \<Rightarrow> real res" where
  "float_value (PFloat x) = Inr x"
| "float_value v = Inr 0"

definition small_wire :: json_wire where
  "small_wire = \<lparr>jw_encode = small_encode, jw_loads = small_loads, jw_float_repr = (\<lambda>x. []), jw_to_float = float_value,
     jw_url = ''u''\<rparr>"

lemma small_fields [simp]:
  "bd_deserialize small_build = small_deserialize" "bd_serialize small_build = small_serialize"
  "bd_max_tx_dbm small_build = 14" "jw_encode small_wire = small_encode" "jw_loads small_wire = small_loads"
  "jw_to_float small_wire = float_value" "jw_url small_wire = ''u''" "handle_info small_build fw = small_info (fw_pin_high fw)"
  by (simp_all add: small_build_def small_wire_def handle_info_def small_info_def)

text \<open>Handles are short and have no line breaks.\<close>

lemma nat_str_length: "n < 10 ^ Suc m \<Longrightarrow> length (nat_str n) \<le> Suc m"
proof (induction m arbitrary: n)
  case 0
  then show ?case by (subst nat_str.simps) simp
next
  case (Suc m)
  then have "n div 10 < 10 ^ Suc m" by (simp add: less_mult_imp_div_less)
  with Suc.IH show ?case by (subst nat_str.simps) simp
qed

lemma nat_str_digits: "\<forall>c \<in> set (nat_str n). \<exists>d < 10. c = digit_char d"
proof (induction n rule: nat_str.induct)
  case (1 n)
  show ?case
  proof (cases "n < 10")
    case True
    then show ?thesis by (subst nat_str.simps) auto
  next
    case False
    have "\<exists>d < 10. digit_char (n mod 10) = digit_char d" by (rule exI [of _ "n mod 10"]) simp
    with 1 False show ?thesis by (subst nat_str.simps) auto
  qed
qed

lemma digit_no_space:
  assumes "d < 10"
  shows "digit_char d \<noteq> CHR 0x0D \<and> digit_char d \<noteq> newline"
proof -
  have "of_char (digit_char d) = 48 + d" using assms by (simp only: digit_char_def of_char_of) simp
  then show ?thesis by (auto simp: newline_def)
qed

lemma handle_short:
  assumes "k < 2 ^ 31"
  shows "length (fw_handle k) < 511"
proof -
  have "k < 10 ^ Suc 9" using assms by simp
  then have "length (nat_str k) \<le> Suc 9" by (rule nat_str_length)
  then show ?thesis by (simp add: fw_handle_def)
qed

lemma handle_unbroken: "\<not> has_break (fw_handle k)"
  using nat_str_digits [of k] digit_no_space by (force simp: has_break_def fw_handle_def newline_def)

lemma small_encode_cleanup: "small_encode (PDict (cleanup_message (fw_handle k))) = ''C'' @ fw_handle k"
  using handle_unbroken [of k] by (simp add: small_encode_def cleanup_message_def dict_get_Cons)

lemma small_encode_sendable: "sendable (small_encode (PDict d))"
  by (auto simp: small_encode_def sendable_def has_break_def newline_def split: pyval.splits option.splits if_splits)

lemma small_encode_cmd:
  assumes "small_deserialize (small_encode (PDict d)) = Some doc"
  shows "json_member doc ''cmd'' = json_member (PDict d) ''cmd''"
  using assms
  by (auto simp: small_encode_def dict_get_Cons cleanup_message_def split: pyval.splits option.splits if_splits)

lemma strip_dot: "\<not> is_space c \<Longrightarrow> strip (c # s @ ''.'') = c # s @ ''.''"
  by (simp add: strip_def is_space_def)

lemma small_replies_read: "firmware_reply small_build r \<Longrightarrow> decode_line small_loads (small_serialize r) = Inr r"
  unfolding firmware_reply_def
proof (elim disjE exE)
  assume "r \<in> error_reply ` set firmware_errors"
  then obtain m where "r = error_reply m" by blast
  then show ?thesis
    using strip_dot [of "CHR ''E''" m] by (simp add: small_serialize_def error_reply_def decode_line_def dict_get_Cons is_space_def)
next
  fix k c assume "r = handle_reply k c"
  then show ?thesis
    using strip_dot [of "CHR ''H''" "fw_handle k"] strip_dot [of "CHR ''K''" "fw_handle k"]
    by (simp add: small_serialize_def handle_reply_def ok_reply_def decode_line_def dict_get_Cons is_space_def)
next
  assume "r = ok_reply []"
  then show ?thesis
    by (simp add: small_serialize_def ok_reply_def decode_line_def dict_get_Cons is_space_def strip_def)
next
  fix fw assume "r = handle_info small_build fw"
  then show ?thesis
    by (simp add: small_serialize_def small_info_def ok_reply_def decode_line_def dict_get_Cons is_space_def strip_def)
qed

lemma small_wire_faithful: "faithful_wire small_build small_wire"
  using small_encode_sendable small_encode_cmd small_replies_read handle_short
  by (simp add: faithful_wire_def small_encode_cleanup max_line_len_def)

section \<open>A run on the bench\<close>

definition small_bench :: "firmware bench" where
  "small_bench =
     \<lparr>bn_serial = \<lparr>fq_sent = [], fq_recv_queue = [], fq_closed = False\<rparr>,
      bn_http = \<lparr>fh_responses = [(''u/die_temperature_c'', PDict [(''value'', PFloat 35)]),
                                (''u/battery_soc'', PDict [(''value'', PFloat (9 / 10))])], fh_request_log = []\<rparr>,
      bn_device = boot True\<rparr>"

text \<open>While the agent waits for \<open>n\<close> seconds the device polls its clock once, at the end.\<close>

definition small_agent :: "firmware bench hw_agent" where
  "small_agent = hil_agent small_build small_wire [] (\<lambda>n. [nat n * 1000]) (\<lambda>n. Inr ()) wide_config"

lemma four_slots: "replicate max_active_faults f = [f, f, f, f]"
  by (simp add: max_active_faults_def numeral_eq_Suc)

lemma small_attached: "attached 1 small_bench"
  by (simp add: attached_def small_bench_def wf_boot) (simp add: boot_def)

lemma small_answers:
  "device_answer small_build (small_encode (PDict [(''cmd'', PStr ''info'')])) fw = (small_info (fw_pin_high fw), fw\<lparr>fw_line := []\<rparr>)"
  by (simp add: device_answer_def small_encode_def dict_get_Cons max_line_len_def process_line_def Let_def)

lemma small_starts:
  assumes "fw_active fw = replicate max_active_faults free_fault" "fw_pin_high fw" "fw_line fw = []"
  shows "device_answer small_build (small_encode (PDict ((''cmd'', PStr ''inject'') # rest))) fw =
    (handle_reply (fw_next_handle fw + 1) False,
     fw\<lparr>fw_next_handle := fw_next_handle fw + 1,
        fw_active := (fw_active fw)[0 := new_fault fw ''wifi.deauth'' 30]\<rparr>)"
proof -
  have "fw\<lparr>fw_line := []\<rparr> = fw" using assms(3) by (metis firmware.surjective firmware.update_convs(3) firmware.select_convs(3))
  then show ?thesis
    using assms
    by (simp add: device_answer_def small_encode_def dict_get_Cons max_line_len_def process_line_def Let_def handle_inject_def
        max_active_faults_def numeral_eq_Suc free_fault_def emitted_faults_def handle_reply_def new_fault_def)
qed

text \<open>The gates pass: the device says that it is in bench mode, and the telemetry is in range.\<close>

lemma small_gates:
  "\<exists>bn'. run_all_gates (deauth_plan FC_RF) (hil_io (attacker_transport small_build small_wire [])) wide_config small_bench =
     (Inr None, bn') \<and> bn_device bn' = boot True \<and> attached 1 bn'"
proof -
  let ?t = "attacker_transport small_build small_wire []" and ?msg = "[(''cmd'', PStr ''info'')]"
  have b: "bn_device small_bench = boot True" "poll_expirations (boot True) = boot True" "fw_pin_high (boot True)"
    "(boot True)\<lparr>fw_line := []\<rparr> = boot True"
    by (simp_all add: small_bench_def poll_expirations_def boot_def expire_def free_fault_def)
  have a: "device_answer small_build (jw_encode small_wire (PDict ?msg)) (bn_device small_bench) = (small_info True, boot True)"
    using b by (simp add: small_answers)
  let ?bn1 = "after_request small_bench (small_encode (PDict ?msg)) (boot True)"
  have q: "hil_request ?t 5 ?msg small_bench = (Inr (small_info True), ?bn1)"
    using request_answered [OF small_wire_faithful small_attached a, of "[]" 5] by simp
  have at: "attached 1 ?bn1"
    using after_answer(1) [OF small_attached a, of 1] by (simp add: boot_def)
  have i: "check_bench_mode (hil_io ?t) wide_config small_bench = (Inr None, ?bn1)"
    using q by (simp add: check_bench_mode_def read_gate_def hil_device_info_def hil_accept_def small_info_def ok_reply_def
        reply_str_def param_def dict_get_Cons bench_verdict_def)
  have u: "bt_telemetry_base_url ?t = ''u''" by (simp add: attacker_transport_def fake_transport_def)
  have r: "hil_read_telemetry ?t ''die_temperature_c'' bn =
      (Inr \<lparr>ts_metric = ''die_temperature_c'', ts_value = 35, ts_labels = []\<rparr>,
       bn\<lparr>bn_http := (bn_http bn)\<lparr>fh_request_log := fh_request_log (bn_http bn) @ [''u/die_temperature_c'']\<rparr>\<rparr>)"
    "hil_read_telemetry ?t ''battery_soc'' bn =
      (Inr \<lparr>ts_metric = ''battery_soc'', ts_value = 9 / 10, ts_labels = []\<rparr>,
       bn\<lparr>bn_http := (bn_http bn)\<lparr>fh_request_log := fh_request_log (bn_http bn) @ [''u/battery_soc'']\<rparr>\<rparr>)"
    if "fh_responses (bn_http bn) = fh_responses (bn_http small_bench)" for bn
    using that by (simp_all add: hil_read_telemetry_def u fake_get_json_def Let_def small_bench_def dict_get_Cons
        device_runs_def reply_str_def param_def)
  have v: "thermal_verdict \<lparr>ts_metric = ''die_temperature_c'', ts_value = 35, ts_labels = []\<rparr> = None"
    "battery_verdict \<lparr>ts_metric = ''battery_soc'', ts_value = 9 / 10, ts_labels = []\<rparr> = None"
    by (simp_all add: thermal_verdict_def battery_verdict_def thermal_max_c_def battery_min_soc_def)
  show ?thesis
    using i at r v wide_emission b(2)
    by (simp add: run_all_gates_def check_geofence_def check_thermal_headroom_def check_battery_headroom_def
        read_gate_def attached_def)
qed

lemma small_agent_fields [simp]:
  "ha_hardware small_agent = Some (hil_io (attacker_transport small_build small_wire []))" "ha_config small_agent = wide_config"
  "ha_sleep small_agent n bn = (Inr (), device_runs [nat n * 1000] bn)" "ha_now small_agent bn = 0"
  by (simp_all add: small_agent_def hil_agent_def)

lemma small_bench_run:
  "\<exists>t bn'. hw_execute small_agent (deauth_plan FC_RF) small_bench = (Inr t, bn') \<and> ct_success t"
proof -
  let ?t = "attacker_transport small_build small_wire []"
  obtain bn1 where g: "run_all_gates (deauth_plan FC_RF) (hil_io ?t) wide_config small_bench = (Inr None, bn1)"
      and d: "bn_device bn1 = boot True" and a1: "attached (Suc 0) bn1"
    using small_gates by auto
  obtain f where f: "render_hardware_fault (ha_float_repr small_agent) (ha_to_float small_agent) (deauth_fault FC_RF) = Inr f"
    using deauth_render by blast
  let ?rest = "[(''fault'', PStr (hf_name f)), (''params'', PDict (hf_parameters f)),
    (''duration_seconds'', PInt (hf_duration_seconds f))]"
  let ?msg = "(''cmd'', PStr ''inject'') # ?rest"
  obtain fw where a: "device_answer small_build (jw_encode small_wire (PDict ?msg)) (bn_device bn1) = (handle_reply 1 False, fw)"
    using small_starts [of "boot True" ?rest] d by (auto simp: boot_def)
  obtain bn2 where i: "hil_inject_fault ?t f bn1 = (Inr (fw_handle 1), bn2)"
    using request_answered [OF small_wire_faithful a1 a, of "[]" 10]
    by (simp add: hil_inject_fault_def hil_accept_def handle_reply_def ok_reply_def param_def dict_get_Cons)
  have a2: "attached 0 bn2" "issued_handle (fw_handle 1)"
    using inject_law [OF small_wire_faithful a1 i] by simp_all
  obtain q bn3 where c: "hil_cleanup ?t (fw_handle 1) (device_runs [30000] bn2) = (q, bn3)"
    by (cases "hil_cleanup ?t (fw_handle 1) (device_runs [30000] bn2)")
  have "q = Inr ()"
    using cleanup_law [OF small_wire_faithful runs_guarded [OF a2(1), THEN conjunct1] a2(2) c] by simp
  with g f i c show ?thesis
    by (simp add: hw_execute_def deauth_preflight hw_sequence_def hw_quiet_def run_hw_fault_def Let_def)
qed

theorem hil_no_fault_left_active_witness:
  "\<exists>t bn'. hw_execute small_agent (deauth_plan FC_RF) small_bench = (Inr t, bn') \<and> ct_success t \<and>
     in_force bn' (fw_handle 1) = None"
proof -
  obtain t bn' where r: "hw_execute small_agent (deauth_plan FC_RF) small_bench = (Inr t, bn')" "ct_success t"
    using small_bench_run by blast
  have "in_force small_bench (fw_handle 1) = None"
    by (simp add: in_force_def small_bench_def boot_def max_active_faults_def numeral_eq_Suc free_fault_def)
  moreover have "attached (length (ep_faults (deauth_plan FC_RF))) small_bench" using small_attached by simp
  ultimately show ?thesis
    using hil_no_fault_left_active [OF small_wire_faithful _ r(1) [unfolded small_agent_def], of "fw_handle 1"] r
    by auto
qed

section \<open>A reply read one command late\<close>

text \<open>With an unread line in the queue every reply is read one request late: the request returns the line that was
  there, and its own reply stays behind.\<close>

lemma request_shifted:
  assumes "faithful_wire b w" "\<not> fq_closed (bn_serial bn)" "fw_line (bn_device bn) = []"
    and "fq_recv_queue (bn_serial bn) = [late]" "device_answer b (jw_encode w (PDict msg)) (bn_device bn) = (r, fw)"
  shows "\<exists>bn'. hil_request (attacker_transport b w ds) timeout msg bn = (decode_line (jw_loads w) late, bn') \<and>
    fq_recv_queue (bn_serial bn') = [bd_serialize b r] \<and> \<not> fq_closed (bn_serial bn') \<and>
    bn_device bn' = poll_expirations fw"
proof -
  have s: "sendable (jw_encode w (PDict msg))" using assms(1) by (simp add: faithful_wire_def)
  show ?thesis
    using one_reply_per_line [OF s, of "bn_device bn" b] assms(2-5)
    by (simp add: hil_request_def fake_send_line_def Let_def recv_ready firmware_responder_def loop_once_def)
qed

text \<open>C32: A reply left unread orphans the next fault. On an open line, with JSON libraries that read what the other end
  wrote and no partial line on the device: when the device's answer to an \<open>info\<close> is still unread on the line (as
  it is once the first request has read the device's banner instead) and the device accepts the injection that
  follows, the backend takes the old answer for the reply to its injection, finds no handle in it and raises
  \<open>KeyError\<close>, while the device has carried out the injection, and its reply with the handle is left on the line for
  the next request to misread. So the caller has no handle to clean up with.\<close>

theorem late_reply_orphans_fault:
  assumes "faithful_wire b w" "\<not> fq_closed (bn_serial bn)" "fw_line (bn_device bn) = []"
    and "fq_recv_queue (bn_serial bn) = [bd_serialize b (handle_info b (bn_device bn))]"
    and "device_answer b (jw_encode w (PDict [(''cmd'', PStr ''inject''), (''fault'', PStr (hf_name f)),
      (''params'', PDict (hf_parameters f)), (''duration_seconds'', PInt (hf_duration_seconds f))])) (bn_device bn) =
      (handle_reply k c, fw)"
  shows "\<exists>bn'. hil_inject_fault (attacker_transport b w ds) f bn = (Inl (Exn ''KeyError'' ''handle''), bn') \<and>
    bn_device bn' = poll_expirations fw \<and> fq_recv_queue (bn_serial bn') = [bd_serialize b (handle_reply k c)]"
proof -
  have "decode_line (jw_loads w) (bd_serialize b (handle_info b (bn_device bn))) = Inr (handle_info b (bn_device bn))"
    using assms(1) by (auto simp: faithful_wire_def firmware_reply_def)
  with request_shifted [OF assms, of ds 10] show ?thesis
    by (auto simp: hil_inject_fault_def hil_accept_def handle_info_def ok_reply_def param_def dict_get_Cons)
qed

text \<open>On the small bench: the device has printed its banner, the first gate reads it and raises, and the next injection
  leaves a deauthentication in force under a handle that the agent never saw.\<close>

definition banner_bench :: "firmware bench" where
  "banner_bench = small_bench\<lparr>bn_serial := (bn_serial small_bench)\<lparr>fq_recv_queue := [banner]\<rparr>\<rparr>"

definition deauth_30 :: hardware_fault where
  "deauth_30 = \<lparr>hf_name = ''wifi.deauth'', hf_parameters = [], hf_duration_seconds = 30\<rparr>"

theorem late_reply_orphans_fault_witness:
  "\<exists>x bn1 bn2. hil_device_info (attacker_transport small_build small_wire []) banner_bench = (Inl x, bn1) \<and>
     hil_inject_fault (attacker_transport small_build small_wire []) deauth_30 bn1 = (Inl (Exn ''KeyError'' ''handle''), bn2) \<and>
     in_force bn2 (fw_handle 1) = Some ''wifi.deauth''"
proof -
  let ?t = "attacker_transport small_build small_wire []" and ?info = "[(''cmd'', PStr ''info'')]"
  have b: "bn_device banner_bench = boot True" "poll_expirations (boot True) = boot True" "fw_pin_high (boot True)"
    "(boot True)\<lparr>fw_line := []\<rparr> = boot True" "fw_line (boot True) = []"
    "fq_recv_queue (bn_serial banner_bench) = [banner]" "\<not> fq_closed (bn_serial banner_bench)"
    "fw_active (boot True) = replicate max_active_faults free_fault" "fw_next_handle (boot True) = 0"
    by (simp_all add: banner_bench_def small_bench_def poll_expirations_def boot_def expire_def free_fault_def)
  have l: "decode_line small_loads banner = Inl (Exn ''JSONDecodeError'' [])"
    by (simp add: decode_line_def banner_def strip_def is_space_def)
  obtain bn1 where q: "hil_request ?t 5 ?info banner_bench = (Inl (Exn ''JSONDecodeError'' []), bn1)"
      and q1: "fq_recv_queue (bn_serial bn1) = [bd_serialize small_build (handle_info small_build (bn_device bn1))]"
        "bn_device bn1 = boot True" "\<not> fq_closed (bn_serial bn1)"
    using request_shifted [OF small_wire_faithful b(7), of banner ?info "small_info True" "boot True" "[]" 5] b l
    by (auto simp: small_answers)
  let ?rest = "[(''fault'', PStr (hf_name deauth_30)), (''params'', PDict (hf_parameters deauth_30)),
    (''duration_seconds'', PInt (hf_duration_seconds deauth_30))]"
  let ?fw = "(boot True)\<lparr>fw_next_handle := 1, fw_active := (fw_active (boot True))[0 := new_fault (boot True) ''wifi.deauth'' 30]\<rparr>"
  have a: "device_answer small_build (jw_encode small_wire (PDict ((''cmd'', PStr ''inject'') # ?rest))) (bn_device bn1) =
      (handle_reply 1 False, ?fw)"
    using small_starts [of "boot True" ?rest] b q1(2) by simp
  have z: "fw_line (bn_device bn1) = []" using b(5) q1(2) by simp
  obtain bn2 where i: "hil_inject_fault ?t deauth_30 bn1 = (Inl (Exn ''KeyError'' ''handle''), bn2)"
      and d: "bn_device bn2 = poll_expirations ?fw"
    using late_reply_orphans_fault [OF small_wire_faithful q1(3) z q1(1) a, of "[]"] by blast
  have "hil_device_info ?t banner_bench = (Inl (Exn ''JSONDecodeError'' []), bn1)"
    using q by (simp add: hil_device_info_def)
  moreover have "in_force bn2 (fw_handle 1) = Some ''wifi.deauth''"
    by (simp add: in_force_def d poll_expirations_def boot_def four_slots new_fault_def expire_def)
  ultimately show ?thesis using i by blast
qed

end
